(* ===== verification/Go_Prelude.thy ===== *)
theory Go_Prelude
  imports Main "HOL-Library.Char_ord" "HOL-Library.List_Lexorder" "HOL-Library.Multiset"
    "HOL-Library.Code_Target_Numeral"
begin

text \<open>
  What every component of the development shares: the values of the Go language and of its
  standard library that the source uses, and the generic lemmas about them.

  \<^item> A Go string is a \<open>string\<close> (a list of bytes); \<open>len\<close> is \<open>length\<close>, and the order of
    \<open>slices.Sort\<close> is the byte-wise lexicographic order, which \<open>HOL-Library.List_Lexorder\<close>
    over \<open>HOL-Library.Char_ord\<close> gives.
  \<^item> An \<open>error\<close> is \<open>go_error option\<close>, \<open>None\<close> being \<open>nil\<close>. The sentinels the source tests
    with \<open>errors.Is\<close> are constructors of their own.
  \<^item> A \<open>time.Time\<close> is an \<open>int\<close>, the nanoseconds since the zero \<open>Time\<close> of Go (1 January of year 1),
    so \<open>IsZero\<close> is the test for 0, \<open>After\<close> is \<open>>\<close> and \<open>UTC()\<close> is the identity. A
    \<open>time.Duration\<close> is an \<open>int\<close> of nanoseconds; \<open>Sub\<close> saturates at 64 bits as Go's does.
  \<^item> A slice whose \<open>nil\<close>-ness is observed (by \<open>reflect.DeepEqual\<close> or a comparison with
    \<open>nil\<close>) is a list option, any other slice is a list.
\<close>

named_theorems go_defs \<open>definitions of the pure checks, unfolded by simp add: go_defs\<close>
named_theorems go_loops \<open>characterisations of the loops of the source by quantifiers over lists\<close>

subsection \<open>Errors\<close>

datatype go_error =
    ErrorNew string
  | ErrNotExist
  | ErrEAPCertificateStale
  | ErrWrap string go_error
  | ErrJoin "go_error list"

type_synonym error = "go_error option"

fun errors_is :: "go_error \<Rightarrow> go_error \<Rightarrow> bool" where
  "errors_is (ErrWrap m e) t = (ErrWrap m e = t \<or> errors_is e t)"
| "errors_is (ErrJoin es) t = (ErrJoin es = t \<or> list_ex (\<lambda>e. errors_is e t) es)"
| "errors_is e t = (e = t)"

definition errors_join :: "error list \<Rightarrow> error" where
  "errors_join es = (case List.map_filter id es of [] \<Rightarrow> None | x # xs \<Rightarrow> Some (ErrJoin (x # xs)))"

lemma map_filter_id_Nil: "List.map_filter id es = [] \<longleftrightarrow> (\<forall>e \<in> set es. e = None)"
  by (induction es) (auto simp: List.map_filter_def)

lemma errors_join_None [simp]: "errors_join es = None \<longleftrightarrow> (\<forall>e \<in> set es. e = None)"
  by (auto simp: errors_join_def map_filter_id_Nil[symmetric] split: list.splits)

lemma errors_join_Some: "e \<in> set es \<Longrightarrow> e \<noteq> None \<Longrightarrow> errors_join es \<noteq> None"
  by auto

lemma errors_join_simps [simp]:
  "errors_join [] = None"
  "errors_join (None # es) = errors_join es"
  "errors_join (Some e # es) = Some (ErrJoin (e # List.map_filter id es))"
  by (simp_all add: errors_join_def List.map_filter_simps)

subsection \<open>Functions that may panic\<close>

datatype 'a run = Val 'a | Panic

fun run_bind :: "'a run \<Rightarrow> ('a \<Rightarrow> 'b run) \<Rightarrow> 'b run" where
  "run_bind (Val x) f = f x"
| "run_bind Panic f = Panic"

text \<open>\<open>||\<close> and \<open>&&\<close> evaluate their right operand only where the left one does not decide.\<close>

fun run_or :: "bool run \<Rightarrow> bool run \<Rightarrow> bool run" where
  "run_or (Val b) r = (if b then Val True else r)"
| "run_or Panic r = Panic"

lemma run_bind_Val_iff: "run_bind r f = Val y \<longleftrightarrow> (\<exists>x. r = Val x \<and> f x = Val y)"
  by (cases r) auto

lemma run_bind_not_Panic: "run_bind r f \<noteq> Panic \<longleftrightarrow> (\<exists>x. r = Val x \<and> f x \<noteq> Panic)"
  by (cases r) auto

lemma run_not_Panic: "r \<noteq> Panic \<longleftrightarrow> (\<exists>x. r = Val x)"
  by (cases r) auto

lemma run_bind_cong: "r = r' \<Longrightarrow> (\<And>x. r' = Val x \<Longrightarrow> f x = g x) \<Longrightarrow> run_bind r f = run_bind r' g"
  by (cases r') auto

text \<open>A value or an error.\<close>

type_synonym 'a fallible = "go_error + 'a"

text \<open>Elimination of the early returns of a function that ended with a result.\<close>

lemma run_bindE: "run_bind r f = Val y \<Longrightarrow> (\<And>x. r = Val x \<Longrightarrow> f x = Val y \<Longrightarrow> P) \<Longrightarrow> P"
  by (cases r) auto

lemma if_err_runE:
  "(if b then Val (Inl e) else r) = Val (Inr y) \<Longrightarrow> (\<not> b \<Longrightarrow> r = Val (Inr y) \<Longrightarrow> P) \<Longrightarrow> P"
  by (cases b) auto

lemma case_err_runE:
  "(case s of Inl e \<Rightarrow> Val (Inl (g e)) | Inr x \<Rightarrow> f x) = Val (Inr y) \<Longrightarrow>
   (\<And>x. s = Inr x \<Longrightarrow> f x = Val (Inr y) \<Longrightarrow> P) \<Longrightarrow> P"
  by (cases s) auto

lemma case_none_runE:
  "(case s of None \<Rightarrow> Val (Inl e) | Some x \<Rightarrow> f x) = Val (Inr y) \<Longrightarrow>
   (\<And>x. s = Some x \<Longrightarrow> f x = Val (Inr y) \<Longrightarrow> P) \<Longrightarrow> P"
  by (cases s) auto

lemmas early_returnE = run_bindE if_err_runE case_err_runE case_none_runE

lemma run_bind_PanicE:
  "run_bind r f = Panic \<Longrightarrow> (r = Panic \<Longrightarrow> P) \<Longrightarrow> (\<And>x. r = Val x \<Longrightarrow> f x = Panic \<Longrightarrow> P) \<Longrightarrow> P"
  by (cases r) auto

lemma if_PanicE: "(if b then Val e else r) = Panic \<Longrightarrow> (\<not> b \<Longrightarrow> r = Panic \<Longrightarrow> P) \<Longrightarrow> P"
  by (cases b) auto

lemma case_err_PanicE:
  "(case s of Inl e \<Rightarrow> Val (g e) | Inr x \<Rightarrow> f x) = Panic \<Longrightarrow> (\<And>x. s = Inr x \<Longrightarrow> f x = Panic \<Longrightarrow> P) \<Longrightarrow> P"
  by (cases s) auto

lemma case_none_PanicE:
  "(case s of None \<Rightarrow> Val e | Some x \<Rightarrow> f x) = Panic \<Longrightarrow> (\<And>x. s = Some x \<Longrightarrow> f x = Panic \<Longrightarrow> P) \<Longrightarrow> P"
  by (cases s) auto

lemmas panicE = run_bind_PanicE if_PanicE case_err_PanicE case_none_PanicE

subsection \<open>Times and durations\<close>

type_synonym time = int
type_synonym duration = int

definition zero_time :: time where
  "zero_time = 0"

definition time_IsZero :: "time \<Rightarrow> bool" where
  "time_IsZero t \<longleftrightarrow> t = zero_time"

abbreviation (input) second :: duration where "second \<equiv> 1000000000"
abbreviation (input) minute :: duration where "minute \<equiv> 60 * second"

definition time_Sub :: "time \<Rightarrow> time \<Rightarrow> duration" where
  "time_Sub t u = max (- (2 ^ 63)) (min (2 ^ 63 - 1) (t - u))"

lemma time_Sub_pos [simp]: "0 < time_Sub t u \<longleftrightarrow> u < t"
  by (auto simp: time_Sub_def)

lemma time_Sub_le_diff: "u \<le> t \<Longrightarrow> time_Sub t u \<le> t - u"
  by (auto simp: time_Sub_def)

lemma time_IsZero_zero [simp]: "time_IsZero zero_time"
  by (simp add: time_IsZero_def)

subsection \<open>Strings\<close>

definition is_digit :: "char \<Rightarrow> bool" where
  "is_digit c \<longleftrightarrow> CHR ''0'' \<le> c \<and> c \<le> CHR ''9''"

definition is_lower :: "char \<Rightarrow> bool" where
  "is_lower c \<longleftrightarrow> CHR ''a'' \<le> c \<and> c \<le> CHR ''z''"

definition is_upper :: "char \<Rightarrow> bool" where
  "is_upper c \<longleftrightarrow> CHR ''A'' \<le> c \<and> c \<le> CHR ''Z''"

definition is_alnum :: "char \<Rightarrow> bool" where
  "is_alnum c \<longleftrightarrow> is_digit c \<or> is_lower c \<or> is_upper c"

lemmas char_class_defs = is_digit_def is_lower_def is_upper_def is_alnum_def

definition digit_value :: "char \<Rightarrow> nat" where
  "digit_value c = of_char c - 48"

text \<open>The decimal text of a number, as \<open>strconv.Itoa\<close> and \<open>fmt.Sprint\<close> write it.\<close>

fun string_of_nat :: "nat \<Rightarrow> string" where
  "string_of_nat n =
     (if n < 10 then [char_of (48 + n)] else string_of_nat (n div 10) @ [char_of (48 + n mod 10)])"

declare string_of_nat.simps [simp del]

definition string_of_int :: "int \<Rightarrow> string" where
  "string_of_int i = (if i < 0 then ''-'' @ string_of_nat (nat (- i)) else string_of_nat (nat i))"

definition has_prefix :: "string \<Rightarrow> string \<Rightarrow> bool" where
  "has_prefix s p \<longleftrightarrow> take (length p) s = p"

definition has_suffix :: "string \<Rightarrow> string \<Rightarrow> bool" where
  "has_suffix s p \<longleftrightarrow> length p \<le> length s \<and> drop (length s - length p) s = p"

definition contains_any :: "string \<Rightarrow> string \<Rightarrow> bool" where
  "contains_any s chars \<longleftrightarrow> list_ex (\<lambda>c. c \<in> set chars) s"

text \<open>\<open>strings.Join\<close>.\<close>

fun strings_Join :: "string list \<Rightarrow> string \<Rightarrow> string" where
  "strings_Join [] sep = []"
| "strings_Join [s] sep = s"
| "strings_Join (s # t # ss) sep = s @ sep @ strings_Join (t # ss) sep"

text \<open>\<open>strings.Split(s, sep)\<close> for a separator of one byte: never empty.\<close>

fun split_on :: "char \<Rightarrow> string \<Rightarrow> string list" where
  "split_on d [] = [[]]"
| "split_on d (c # cs) =
     (if c = d then [] # split_on d cs
      else case split_on d cs of [] \<Rightarrow> [[c]] | w # ws \<Rightarrow> (c # w) # ws)"

lemma split_on_nonempty: "split_on d s \<noteq> []"
  by (induction s) (auto split: list.splits)

text \<open>
  \<open>strings.TrimSpace\<close> drops the white space of Unicode at both ends. In UTF-8 it is one of
  these byte sequences, none of which is a proper prefix or suffix of another.
\<close>

definition space_sequences :: "string list" where
  "space_sequences =
     [[CHR 0x09], [CHR 0x0A], [CHR 0x0B], [CHR 0x0C], [CHR 0x0D], [CHR 0x20],
      [CHR 0xC2, CHR 0x85], [CHR 0xC2, CHR 0xA0], [CHR 0xE1, CHR 0x9A, CHR 0x80],
      [CHR 0xE2, CHR 0x80, CHR 0x80], [CHR 0xE2, CHR 0x80, CHR 0x81],
      [CHR 0xE2, CHR 0x80, CHR 0x82], [CHR 0xE2, CHR 0x80, CHR 0x83],
      [CHR 0xE2, CHR 0x80, CHR 0x84], [CHR 0xE2, CHR 0x80, CHR 0x85],
      [CHR 0xE2, CHR 0x80, CHR 0x86], [CHR 0xE2, CHR 0x80, CHR 0x87],
      [CHR 0xE2, CHR 0x80, CHR 0x88], [CHR 0xE2, CHR 0x80, CHR 0x89],
      [CHR 0xE2, CHR 0x80, CHR 0x8A], [CHR 0xE2, CHR 0x80, CHR 0xA8],
      [CHR 0xE2, CHR 0x80, CHR 0xA9], [CHR 0xE2, CHR 0x80, CHR 0xAF],
      [CHR 0xE2, CHR 0x81, CHR 0x9F], [CHR 0xE3, CHR 0x80, CHR 0x80]]"

fun drop_leading :: "nat \<Rightarrow> string list \<Rightarrow> string \<Rightarrow> string" where
  "drop_leading 0 seqs s = s"
| "drop_leading (Suc fuel) seqs s =
     (case filter (has_prefix s) seqs of
        [] \<Rightarrow> s
      | p # _ \<Rightarrow> drop_leading fuel seqs (drop (length p) s))"

definition trim_space :: "string \<Rightarrow> string" where
  "trim_space s =
     (let l = drop_leading (length s) space_sequences s
      in rev (drop_leading (length l) (map rev space_sequences) (rev l)))"

definition to_lower_char :: "char \<Rightarrow> char" where
  "to_lower_char c = (if is_upper c then char_of (of_char c + 32 :: nat) else c)"

text \<open>
  \<open>strings.ToLower\<close> on a string of ASCII bytes, the only strings the source lowers before
  it compares them.
\<close>

definition to_lower :: "string \<Rightarrow> string" where
  "to_lower s = map to_lower_char s"

text \<open>
  \<open>strings.ToUpper\<close> as far as a comparison with a text of ASCII bytes can see: the two runes
  outside ASCII whose upper case is an ASCII letter are U+0131 (I) and U+017F (S).
\<close>

fun to_upper :: "string \<Rightarrow> string" where
  "to_upper [] = []"
| "to_upper [c] = [if is_lower c then char_of (of_char c - 32 :: nat) else c]"
| "to_upper (c # d # cs) =
     (if c = CHR 0xC4 \<and> d = CHR 0xB1 then CHR ''I'' # to_upper cs
      else if c = CHR 0xC5 \<and> d = CHR 0xBF then CHR ''S'' # to_upper cs
      else (if is_lower c then char_of (of_char c - 32 :: nat) else c) # to_upper (d # cs))"

text \<open>\<open>utf8.RuneCountInString\<close>: an invalid byte counts as one rune.\<close>

definition byte_in :: "nat \<Rightarrow> nat \<Rightarrow> char \<Rightarrow> bool" where
  "byte_in lo hi c \<longleftrightarrow> lo \<le> of_char c \<and> of_char c \<le> hi"

definition rune_length :: "string \<Rightarrow> nat" where
  "rune_length s =
     (case s of
        a # b # rest \<Rightarrow>
          if byte_in 0xC2 0xDF a \<and> byte_in 0x80 0xBF b then 2
          else (case rest of
            c # rest' \<Rightarrow>
              if byte_in 0x80 0xBF c \<and>
                 (byte_in 0xE0 0xE0 a \<and> byte_in 0xA0 0xBF b \<or>
                  (byte_in 0xE1 0xEC a \<or> byte_in 0xEE 0xEF a) \<and> byte_in 0x80 0xBF b \<or>
                  byte_in 0xED 0xED a \<and> byte_in 0x80 0x9F b) then 3
              else (case rest' of
                d # _ \<Rightarrow>
                  if byte_in 0x80 0xBF c \<and> byte_in 0x80 0xBF d \<and>
                     (byte_in 0xF0 0xF0 a \<and> byte_in 0x90 0xBF b \<or>
                      byte_in 0xF1 0xF3 a \<and> byte_in 0x80 0xBF b \<or>
                      byte_in 0xF4 0xF4 a \<and> byte_in 0x80 0x8F b) then 4
                  else 1
              | [] \<Rightarrow> 1)
          | [] \<Rightarrow> 1)
      | _ \<Rightarrow> 1)"

lemma rune_length_pos: "0 < rune_length s"
  by (auto simp: rune_length_def split: list.split)

function rune_count :: "string \<Rightarrow> nat" where
  "rune_count s = (if s = [] then 0 else Suc (rune_count (drop (rune_length s) s)))"
  by auto
termination
  by (relation "measure length") (auto simp: rune_length_pos)

declare rune_count.simps [simp del]

lemma rune_count_le_length: "rune_count s \<le> length s"
proof (induction s rule: rune_count.induct)
  case (1 s)
  show ?case
  proof (cases "s = []")
    case False
    with 1 have "rune_count (drop (rune_length s) s) \<le> length s - rune_length s" by simp
    moreover have "length s - rune_length s < length s" using False rune_length_pos [of s] by simp
    moreover have "rune_count s = Suc (rune_count (drop (rune_length s) s))"
      using False by (simp add: rune_count.simps [of s])
    ultimately show ?thesis by linarith
  qed (simp add: rune_count.simps)
qed

definition fallback :: "string \<Rightarrow> string \<Rightarrow> string" where
  "fallback value fallbackValue = (if value = [] then fallbackValue else value)"

subsection \<open>Identifiers\<close>

text \<open>The regular expression \<open>^[A-Za-z0-9][A-Za-z0-9._:-]{0,127}$\<close>.\<close>

definition identifier_char :: "char \<Rightarrow> bool" where
  "identifier_char c \<longleftrightarrow> is_alnum c \<or> c = CHR ''.'' \<or> c = CHR ''_'' \<or> c = CHR '':'' \<or> c = CHR ''-''"

fun identifierPattern :: "string \<Rightarrow> bool" where
  "identifierPattern [] = False"
| "identifierPattern (c # cs) = (is_alnum c \<and> length cs \<le> 127 \<and> list_all identifier_char cs)"

lemma identifier_nonempty: "identifierPattern s \<Longrightarrow> s \<noteq> []"
  by (cases s) auto

lemma identifier_length: "identifierPattern s \<Longrightarrow> length s \<le> 128"
  by (cases s) auto

subsection \<open>Loops with a map of the keys already seen\<close>

text \<open>
  Many loops of the source have the shape
  \<open>for _, x := range xs { if !ok(x) || seen[key(x)] { return false }; seen[key(x)] = true }\<close>.
\<close>

fun all_fresh :: "('a \<Rightarrow> bool) \<Rightarrow> ('a \<Rightarrow> 'k) \<Rightarrow> 'k list \<Rightarrow> 'a list \<Rightarrow> bool" where
  "all_fresh ok key seen [] = True"
| "all_fresh ok key seen (x # xs) =
     (if \<not> ok x \<or> key x \<in> set seen then False else all_fresh ok key (key x # seen) xs)"

lemma all_fresh_iff [go_loops]:
  "all_fresh ok key seen xs \<longleftrightarrow>
     (\<forall>x \<in> set xs. ok x) \<and> distinct (map key xs) \<and> key ` set xs \<inter> set seen = {}"
  by (induction xs arbitrary: seen) auto

subsection \<open>Sorted lists without duplicates\<close>

lemma sort_eq_iff_mset: "sort xs = sort ys \<longleftrightarrow> mset xs = mset ys" for xs ys :: "'a::linorder list"
  by (metis mset_sort properties_for_sort sorted_sort)

lemma sort_distinct_eq: "distinct xs \<Longrightarrow> distinct ys \<Longrightarrow> set xs = set ys \<Longrightarrow> sort xs = sort ys"
  for xs ys :: "'a::linorder list"
  by (simp add: sort_eq_iff_mset set_eq_iff_mset_eq_distinct)

lemma sorted_remdups_adj_strict: "sorted xs \<Longrightarrow> sorted_wrt (<) (remdups_adj xs)"
  for xs :: "'a::linorder list"
proof (induction xs rule: remdups_adj.induct)
  case (3 x y xs)
  then show ?case
  proof (cases "x = y")
    case False
    with "3.prems" have "x < y" by (simp add: order_le_neq_trans)
    moreover have "\<forall>z \<in> set (remdups_adj (y # xs)). y \<le> z" using "3.prems" by auto
    moreover have "sorted_wrt (<) (remdups_adj (y # xs))" using 3 False by simp
    ultimately show ?thesis using False by (auto intro: less_le_trans)
  qed simp
qed auto

lemma sort_eq_Nil [simp]: "sort xs = [] \<longleftrightarrow> xs = []" for xs :: "'a::linorder list"
  by (metis length_0_conv length_sort)

definition sort_compact :: "string list \<Rightarrow> string list" where
  "sort_compact xs = remdups_adj (sort xs)"

lemma set_sort_compact [simp]: "set (sort_compact xs) = set xs"
  by (simp add: sort_compact_def)

lemma sort_compact_strict: "sorted_wrt (<) (sort_compact xs)"
  by (simp add: sort_compact_def sorted_remdups_adj_strict)

lemma distinct_sort_compact [simp]: "distinct (sort_compact xs)"
  using sort_compact_strict [of xs] by (simp add: strict_sorted_iff)

lemma length_sort_compact: "length (sort_compact xs) = card (set xs)"
  by (metis distinct_card distinct_sort_compact set_sort_compact)

lemma length_sort_compact_le: "length (sort_compact xs) \<le> length xs"
  by (simp add: length_sort_compact card_length)

lemma length_sort_compact_eq: "length (sort_compact xs) = length xs \<longleftrightarrow> distinct xs"
  by (metis card_distinct distinct_card length_sort_compact)

end
