(* ===== verification/Netip.thy ===== *)
theory Netip
  imports Go_Prelude "HOL-Library.Word"
begin

text \<open>
  What the source uses of Go's packages \<open>net/netip\<close> and \<open>net\<close>: addresses, prefixes, their
  textual forms, containment and overlap. IPv4 addresses are 32-bit words, IPv6 addresses are
  128-bit words with a zone; a prefix is an address and a bit count. The lemmas relate
  \<open>Contains\<close> and \<open>Overlaps\<close>, which the code computes from base addresses, to the sets of
  addresses the prefixes stand for.
\<close>

unbundle bit_operations_syntax

datatype addr = Addr4 "32 word" | Addr6 "128 word" string

record prefix =
  pfx_Addr :: addr
  pfx_Bits :: nat

subsection \<open>Parsing an address\<close>

text \<open>
  \<open>parseIPv4Fields\<close>: the first argument says that the position is the first one or follows
  a dot.
\<close>

fun parseIPv4Fields :: "bool \<Rightarrow> nat \<Rightarrow> nat \<Rightarrow> nat list \<Rightarrow> string \<Rightarrow> nat list option" where
  "parseIPv4Fields start val digLen octets [] =
     (if length octets < 3 then None else Some (octets @ [val]))"
| "parseIPv4Fields start val digLen octets (c # cs) =
     (if is_digit c then
        (if digLen = 1 \<and> val = 0 then None
         else let val' = val * 10 + digit_value c
              in if val' > 255 then None else parseIPv4Fields False val' (Suc digLen) octets cs)
      else if c = CHR ''.'' then
        (if start \<or> cs = [] then None
         else if length octets = 3 then None
         else parseIPv4Fields True 0 0 (octets @ [val]) cs)
      else None)"

definition bytes_value :: "nat list \<Rightarrow> nat" where
  "bytes_value bs = foldl (\<lambda>a b. a * 256 + b) 0 bs"

definition parseIPv4 :: "string \<Rightarrow> addr option" where
  "parseIPv4 s = map_option (\<lambda>bs. Addr4 (of_nat (bytes_value bs))) (parseIPv4Fields True 0 0 [] s)"

definition is_hex :: "char \<Rightarrow> bool" where
  "is_hex c \<longleftrightarrow> is_digit c \<or> (CHR ''a'' \<le> c \<and> c \<le> CHR ''f'') \<or> (CHR ''A'' \<le> c \<and> c \<le> CHR ''F'')"

definition hex_value :: "char \<Rightarrow> nat" where
  "hex_value c =
     (if is_digit c then of_char c - 48
      else if CHR ''a'' \<le> c \<and> c \<le> CHR ''f'' then of_char c - 87 else of_char c - 55)"

text \<open>
  The loop of \<open>parseIPv6\<close>. The counter is the number of 16-bit groups still free, so it is
  \<open>8 - i div 2\<close> for the code's byte index \<open>i\<close>; the result is the bytes read, the position of the
  ellipsis and the text left over.
\<close>

fun parseIPv6_loop ::
  "nat \<Rightarrow> nat list \<Rightarrow> nat option \<Rightarrow> string \<Rightarrow> (nat list \<times> nat option \<times> string) option" where
  "parseIPv6_loop 0 ip ellipsis s = Some (ip, ellipsis, s)"
| "parseIPv6_loop (Suc k) ip ellipsis s =
     (let ds = takeWhile is_hex s; acc = foldl (\<lambda>a c. a * 16 + hex_value c) 0 ds;
          rest = drop (length ds) s
      in if length ds > 4 then None
         else if ds = [] then None
         else if rest \<noteq> [] \<and> hd rest = CHR ''.'' then
           (if ellipsis = None \<and> length ip \<noteq> 12 then None
            else if length ip + 4 > 16 then None
            else case parseIPv4Fields True 0 0 [] s of
                   None \<Rightarrow> None
                 | Some octets \<Rightarrow> Some (ip @ octets, ellipsis, []))
         else
           let ip' = ip @ [acc div 256, acc mod 256]
           in case rest of
                [] \<Rightarrow> Some (ip', ellipsis, [])
              | c # s1 \<Rightarrow>
                  (if c \<noteq> CHR '':'' then None
                   else case s1 of
                     [] \<Rightarrow> None
                   | d # s2 \<Rightarrow>
                       (if d = CHR '':'' then
                          (if ellipsis \<noteq> None then None
                           else if s2 = [] then Some (ip', Some (length ip'), [])
                           else parseIPv6_loop k ip' (Some (length ip')) s2)
                        else parseIPv6_loop k ip' ellipsis s1)))"

definition expand_ellipsis :: "nat list \<Rightarrow> nat option \<Rightarrow> nat list option" where
  "expand_ellipsis ip ellipsis =
     (if length ip < 16 then
        (case ellipsis of
           None \<Rightarrow> None
         | Some e \<Rightarrow> Some (take e ip @ replicate (16 - length ip) 0 @ drop e ip))
      else if ellipsis \<noteq> None then None else Some ip)"

definition parseIPv6 :: "string \<Rightarrow> addr option" where
  "parseIPv6 input =
     (let s = takeWhile (\<lambda>c. c \<noteq> CHR ''%'') input;
          zoned = CHR ''%'' \<in> set input;
          zone = drop (Suc (length s)) input
      in if zoned \<and> zone = [] then None
         else
           let leading = take 2 s = ''::'';
               s0 = (if leading then drop 2 s else s)
           in if leading \<and> s0 = [] then Some (Addr6 0 zone)
              else case parseIPv6_loop 8 [] (if leading then Some 0 else None) s0 of
                     None \<Rightarrow> None
                   | Some (ip, ellipsis, rest) \<Rightarrow>
                       (if rest \<noteq> [] then None
                        else map_option (\<lambda>bs. Addr6 (of_nat (bytes_value bs)) zone)
                               (expand_ellipsis ip ellipsis)))"

definition parseAddr :: "string \<Rightarrow> addr option" where
  "parseAddr s =
     (case filter (\<lambda>c. c = CHR ''.'' \<or> c = CHR '':'' \<or> c = CHR ''%'') s of
        [] \<Rightarrow> None
      | c # _ \<Rightarrow>
          (if c = CHR ''.'' then parseIPv4 s else if c = CHR '':'' then parseIPv6 s else None))"

subsection \<open>Printing an address\<close>

definition octets4 :: "32 word \<Rightarrow> nat list" where
  "octets4 w = map (\<lambda>i. unat (take_bit 8 (drop_bit (24 - 8 * i) w))) [0..<4]"

definition groups6 :: "128 word \<Rightarrow> nat list" where
  "groups6 w = map (\<lambda>i. unat (take_bit 16 (drop_bit (112 - 16 * i) w))) [0..<8]"

definition string4 :: "32 word \<Rightarrow> string" where
  "string4 w = (case map string_of_nat (octets4 w) of
      [a, b, c, d] \<Rightarrow> a @ ''.'' @ b @ ''.'' @ c @ ''.'' @ d | _ \<Rightarrow> [])"

definition hex_char :: "nat \<Rightarrow> char" where
  "hex_char n = (if n < 10 then char_of (48 + n) else char_of (87 + n))"

fun hex_string :: "nat \<Rightarrow> string" where
  "hex_string n = (if n < 16 then [hex_char n] else hex_string (n div 16) @ [hex_char (n mod 16)])"

declare hex_string.simps [simp del]

text \<open>The longest run of at least two zero groups, the first of equally long ones.\<close>

definition zero_run :: "nat list \<Rightarrow> nat \<times> nat" where
  "zero_run gs =
     foldl (\<lambda>(zs, ze) i.
              let l = length (takeWhile (\<lambda>g. g = 0) (drop i gs))
              in if 2 \<le> l \<and> ze - zs < l then (i, i + l) else (zs, ze))
       (255, 255) [0..<8]"

fun string6_loop :: "nat \<Rightarrow> nat list \<Rightarrow> nat \<Rightarrow> nat \<Rightarrow> nat \<Rightarrow> string" where
  "string6_loop 0 gs zs ze i = []"
| "string6_loop (Suc k) gs zs ze i =
     (if 8 \<le> i then []
      else if i = zs then
        ''::'' @ (if 8 \<le> ze then [] else hex_string (gs ! ze) @ string6_loop k gs zs ze (Suc ze))
      else (if 0 < i then '':'' else []) @ hex_string (gs ! i) @ string6_loop k gs zs ze (Suc i))"

definition addr_Is4In6 :: "addr \<Rightarrow> bool" where
  "addr_Is4In6 a = (case a of Addr4 _ \<Rightarrow> False | Addr6 w _ \<Rightarrow> drop_bit 32 w = 0xFFFF)"

definition addr_Unmap :: "addr \<Rightarrow> addr" where
  "addr_Unmap a = (case a of Addr4 _ \<Rightarrow> a | Addr6 w _ \<Rightarrow> if addr_Is4In6 a then Addr4 (ucast w) else a)"

definition addr_Is4 :: "addr \<Rightarrow> bool" where
  "addr_Is4 a = (case a of Addr4 _ \<Rightarrow> True | Addr6 _ _ \<Rightarrow> False)"

definition addr_Zone :: "addr \<Rightarrow> string" where
  "addr_Zone a = (case a of Addr4 _ \<Rightarrow> [] | Addr6 _ z \<Rightarrow> z)"

definition addr_BitLen :: "addr \<Rightarrow> nat" where
  "addr_BitLen a = (case a of Addr4 _ \<Rightarrow> 32 | Addr6 _ _ \<Rightarrow> 128)"

definition addr_String :: "addr \<Rightarrow> string" where
  "addr_String a =
     (case a of
        Addr4 w \<Rightarrow> string4 w
      | Addr6 w z \<Rightarrow>
          (if drop_bit 32 w = 0xFFFF then ''::ffff:'' @ string4 (ucast w)
           else let gs = groups6 w; (zs, ze) = zero_run gs in string6_loop 9 gs zs ze 0)
          @ (if z = [] then [] else ''%'' @ z))"

subsection \<open>Classes of addresses\<close>

definition addr_IsLoopback :: "addr \<Rightarrow> bool" where
  "addr_IsLoopback a =
     (case addr_Unmap a of Addr4 w \<Rightarrow> drop_bit 24 w = 127 | Addr6 w _ \<Rightarrow> w = 1)"

definition addr_IsMulticast :: "addr \<Rightarrow> bool" where
  "addr_IsMulticast a =
     (case addr_Unmap a of Addr4 w \<Rightarrow> drop_bit 28 w = 0xE | Addr6 w _ \<Rightarrow> drop_bit 120 w = 0xFF)"

definition addr_IsLinkLocalUnicast :: "addr \<Rightarrow> bool" where
  "addr_IsLinkLocalUnicast a =
     (case addr_Unmap a of Addr4 w \<Rightarrow> drop_bit 16 w = 0xA9FE | Addr6 w _ \<Rightarrow> drop_bit 118 w = 0x3FA)"

definition addr_IsGlobalUnicast :: "addr \<Rightarrow> bool" where
  "addr_IsGlobalUnicast a =
     (let u = addr_Unmap a
      in u \<noteq> Addr4 0 \<and> u \<noteq> Addr4 0xFFFFFFFF \<and> u \<noteq> Addr6 0 [] \<and>
         \<not> addr_IsLoopback u \<and> \<not> addr_IsMulticast u \<and> \<not> addr_IsLinkLocalUnicast u)"

subsection \<open>Prefixes\<close>

definition split_last_slash :: "string \<Rightarrow> (string \<times> string) option" where
  "split_last_slash s =
     (if CHR ''/'' \<in> set s then
        let tail = rev (takeWhile (\<lambda>c. c \<noteq> CHR ''/'') (rev s))
        in Some (take (length s - Suc (length tail)) s, tail)
      else None)"

definition parse_bits :: "string \<Rightarrow> nat option" where
  "parse_bits b =
     (if 1 < length b \<and> (hd b < CHR ''1'' \<or> CHR ''9'' < hd b) then None
      else if b = [] \<or> \<not> list_all is_digit b then None
      else Some (foldl (\<lambda>a c. a * 10 + digit_value c) 0 b))"

definition parsePrefix :: "string \<Rightarrow> prefix option" where
  "parsePrefix s =
     (case split_last_slash s of
        None \<Rightarrow> None
      | Some (ipStr, bitsStr) \<Rightarrow>
          (case parseAddr ipStr of
             None \<Rightarrow> None
           | Some ip \<Rightarrow>
               (if addr_Zone ip \<noteq> [] then None
                else case parse_bits bitsStr of
                  None \<Rightarrow> None
                | Some bits \<Rightarrow>
                    (if addr_BitLen ip < bits then None
                     else Some \<lparr>pfx_Addr = ip, pfx_Bits = bits\<rparr>))))"

text \<open>\<open>netip.PrefixFrom\<close> drops the zone of the address.\<close>

definition addr_WithoutZone :: "addr \<Rightarrow> addr" where
  "addr_WithoutZone a = (case a of Addr4 w \<Rightarrow> Addr4 w | Addr6 w _ \<Rightarrow> Addr6 w [])"

definition prefixFrom :: "addr \<Rightarrow> nat \<Rightarrow> prefix" where
  "prefixFrom ip bits = \<lparr>pfx_Addr = addr_WithoutZone ip, pfx_Bits = bits\<rparr>"

text \<open>\<open>netip.MustParsePrefix\<close> panics where \<open>netip.ParsePrefix\<close> fails.\<close>

definition mustParsePrefix :: "string \<Rightarrow> prefix run" where
  "mustParsePrefix s = (case parsePrefix s of None \<Rightarrow> Panic | Some p \<Rightarrow> Val p)"

definition prefix_String :: "prefix \<Rightarrow> string" where
  "prefix_String p = addr_String (pfx_Addr p) @ ''/'' @ string_of_nat (pfx_Bits p)"

definition mask_addr :: "nat \<Rightarrow> addr \<Rightarrow> addr" where
  "mask_addr bits a =
     (case a of
        Addr4 w \<Rightarrow> Addr4 (w AND NOT (mask (32 - bits)))
      | Addr6 w _ \<Rightarrow> Addr6 (w AND NOT (mask (128 - bits))) [])"

definition prefix_Masked :: "prefix \<Rightarrow> prefix" where
  "prefix_Masked p = \<lparr>pfx_Addr = mask_addr (pfx_Bits p) (pfx_Addr p), pfx_Bits = pfx_Bits p\<rparr>"

definition prefix_Contains :: "prefix \<Rightarrow> addr \<Rightarrow> bool" where
  "prefix_Contains p ip =
     (case (pfx_Addr p, ip) of
        (Addr4 a, Addr4 x) \<Rightarrow> drop_bit (32 - pfx_Bits p) (x XOR a) = 0
      | (Addr6 a _, Addr6 x z) \<Rightarrow> z = [] \<and> (x XOR a) AND NOT (mask (128 - pfx_Bits p)) = 0
      | _ \<Rightarrow> False)"

definition prefix_Overlaps :: "prefix \<Rightarrow> prefix \<Rightarrow> bool" where
  "prefix_Overlaps p q =
     (if p = q then True
      else if addr_Is4 (pfx_Addr p) \<noteq> addr_Is4 (pfx_Addr q) then False
      else let minBits = min (pfx_Bits p) (pfx_Bits q)
           in if minBits = 0 then True
              else mask_addr minBits (pfx_Addr p) = mask_addr minBits (pfx_Addr q))"

subsection \<open>Prefixes as sets of addresses\<close>

text \<open>The prefixes \<open>ParsePrefix\<close> returns: no zone, and no more bits than the family has.\<close>

definition wf_prefix :: "prefix \<Rightarrow> bool" where
  "wf_prefix p \<longleftrightarrow> addr_Zone (pfx_Addr p) = [] \<and> pfx_Bits p \<le> addr_BitLen (pfx_Addr p)"

definition prefix_set :: "prefix \<Rightarrow> addr set" where
  "prefix_set p = {ip. prefix_Contains p ip}"

lemma prefix_record [simp]: "\<lparr>pfx_Addr = pfx_Addr p, pfx_Bits = pfx_Bits p\<rparr> = p" for p :: prefix
  by simp

lemma parsePrefix_wf: "parsePrefix s = Some p \<Longrightarrow> wf_prefix p"
  by (auto simp: parsePrefix_def wf_prefix_def split: option.splits prod.splits if_splits)

lemma bit_and_not_mask: "bit (w AND NOT (mask n)) k \<longleftrightarrow> n \<le> k \<and> bit w k" for w :: "'a::len word"
  by (auto simp: bit_simps dest: bit_imp_le_length)

lemma drop_bit_eq_iff:
  "drop_bit n x = drop_bit n y \<longleftrightarrow> (\<forall>k \<ge> n. bit x k = bit y k)" for x y :: "'a::len word"
proof
  assume *: "drop_bit n x = drop_bit n y"
  show "\<forall>k \<ge> n. bit x k = bit y k"
  proof (intro allI impI)
    fix k assume "n \<le> k"
    with arg_cong [OF *, of "\<lambda>w. bit w (k - n)"] show "bit x k = bit y k"
      by (simp add: bit_simps)
  qed
next
  assume "\<forall>k \<ge> n. bit x k = bit y k"
  then show "drop_bit n x = drop_bit n y"
    by (intro bit_eqI) (simp add: bit_simps)
qed

lemma and_not_mask_eq_iff:
  "x AND NOT (mask n) = y AND NOT (mask n) \<longleftrightarrow> drop_bit n x = drop_bit n y" for x y :: "'a::len word"
proof
  assume *: "x AND NOT (mask n) = y AND NOT (mask n)"
  show "drop_bit n x = drop_bit n y"
    unfolding drop_bit_eq_iff by (metis * bit_and_not_mask)
next
  assume "drop_bit n x = drop_bit n y"
  then show "x AND NOT (mask n) = y AND NOT (mask n)"
    by (intro bit_word_eqI) (auto simp: bit_and_not_mask drop_bit_eq_iff)
qed

lemma xor_and_not_mask_0:
  "(x XOR y) AND NOT (mask n) = 0 \<longleftrightarrow> drop_bit n x = drop_bit n y" for x y :: "'a::len word"
proof
  assume *: "(x XOR y) AND NOT (mask n) = 0"
  show "drop_bit n x = drop_bit n y"
    unfolding drop_bit_eq_iff by (metis * bit_and_not_mask bit_xor_iff bit_0_eq bot_apply bot_bool_def)
next
  assume "drop_bit n x = drop_bit n y"
  then show "(x XOR y) AND NOT (mask n) = 0"
    by (intro bit_word_eqI) (auto simp: bit_and_not_mask bit_xor_iff drop_bit_eq_iff)
qed

lemma drop_bit_xor_0: "drop_bit n (x XOR y) = 0 \<longleftrightarrow> drop_bit n x = drop_bit n y"
  for x y :: "'a::len word"
proof -
  have "drop_bit n (x XOR y) = drop_bit n 0 \<longleftrightarrow> drop_bit n x = drop_bit n y"
    by (simp only: drop_bit_eq_iff bit_xor_iff bit_0_eq) auto
  then show ?thesis by simp
qed

lemma drop_bit_mono_eq:
  "n \<le> m \<Longrightarrow> drop_bit n x = drop_bit n y \<Longrightarrow> drop_bit m x = drop_bit m y" for x y :: "'a::len word"
  by (simp add: drop_bit_eq_iff)

text \<open>Containment is equality of the network parts.\<close>

lemma contains4:
  "prefix_Contains p (Addr4 x) \<longleftrightarrow>
     (\<exists>a. pfx_Addr p = Addr4 a \<and> drop_bit (32 - pfx_Bits p) x = drop_bit (32 - pfx_Bits p) a)"
  by (auto simp: prefix_Contains_def drop_bit_xor_0 simp del: drop_bit_xor split: addr.splits)

lemma contains6:
  "prefix_Contains p (Addr6 x z) \<longleftrightarrow>
     (\<exists>a z'. pfx_Addr p = Addr6 a z' \<and> z = [] \<and>
        drop_bit (128 - pfx_Bits p) x = drop_bit (128 - pfx_Bits p) a)"
  by (auto simp: prefix_Contains_def xor_and_not_mask_0 split: addr.splits)

lemma wf_prefix_cases:
  assumes "wf_prefix p"
  obtains (v4) a where "pfx_Addr p = Addr4 a" | (v6) a where "pfx_Addr p = Addr6 a []"
  using assms by (cases "pfx_Addr p") (auto simp: wf_prefix_def addr_Zone_def)

lemma contains_self: "wf_prefix p \<Longrightarrow> prefix_Contains p (pfx_Addr p)"
  by (erule wf_prefix_cases) (simp_all add: contains4 contains6)

lemma contains_subset:
  assumes "wf_prefix q" "pfx_Bits p \<le> pfx_Bits q" "prefix_Contains p (pfx_Addr q)"
  shows "prefix_set q \<subseteq> prefix_set p"
proof
  fix ip assume ip: "ip \<in> prefix_set q"
  show "ip \<in> prefix_set p"
    using assms(1)
  proof (cases rule: wf_prefix_cases)
    case (v4 b)
    with ip obtain x where x: "ip = Addr4 x"
      by (cases ip) (auto simp: prefix_set_def contains6)
    with v4 ip x have "drop_bit (32 - pfx_Bits q) x = drop_bit (32 - pfx_Bits q) b"
      by (auto simp: prefix_set_def contains4)
    then have "drop_bit (32 - pfx_Bits p) x = drop_bit (32 - pfx_Bits p) b"
      by (rule drop_bit_mono_eq [rotated]) (use assms(2) in simp)
    with v4 x assms(3) show ?thesis
      by (auto simp: prefix_set_def contains4)
  next
    case (v6 b)
    with ip obtain x where x: "ip = Addr6 x []"
      by (cases ip) (auto simp: prefix_set_def contains4 contains6)
    with v6 ip x have "drop_bit (128 - pfx_Bits q) x = drop_bit (128 - pfx_Bits q) b"
      by (auto simp: prefix_set_def contains6)
    then have "drop_bit (128 - pfx_Bits p) x = drop_bit (128 - pfx_Bits p) b"
      by (rule drop_bit_mono_eq [rotated]) (use assms(2) in simp)
    with v6 x assms(3) show ?thesis
      by (auto simp: prefix_set_def contains6)
  qed
qed

lemma common_address_contains:
  assumes "wf_prefix p" "wf_prefix q" "pfx_Bits p \<le> pfx_Bits q" "ip \<in> prefix_set p" "ip \<in> prefix_set q"
  shows "prefix_Contains p (pfx_Addr q)"
proof (cases ip)
  case (Addr4 x)
  with assms(4,5) obtain a b where a: "pfx_Addr p = Addr4 a" and b: "pfx_Addr q = Addr4 b"
    and da: "drop_bit (32 - pfx_Bits p) x = drop_bit (32 - pfx_Bits p) a"
    and db: "drop_bit (32 - pfx_Bits q) x = drop_bit (32 - pfx_Bits q) b"
    by (auto simp: prefix_set_def contains4)
  have "drop_bit (32 - pfx_Bits p) x = drop_bit (32 - pfx_Bits p) b"
    using assms(3) by (intro drop_bit_mono_eq [OF _ db]) simp
  with a b da show ?thesis by (simp add: contains4)
next
  case (Addr6 x z)
  with assms(1,2,4,5) obtain a b where a: "pfx_Addr p = Addr6 a []" and b: "pfx_Addr q = Addr6 b []"
    and da: "drop_bit (128 - pfx_Bits p) x = drop_bit (128 - pfx_Bits p) a"
    and db: "drop_bit (128 - pfx_Bits q) x = drop_bit (128 - pfx_Bits q) b"
    by (auto simp: prefix_set_def contains6 wf_prefix_def addr_Zone_def)
  have "drop_bit (128 - pfx_Bits p) x = drop_bit (128 - pfx_Bits p) b"
    using assms(3) by (intro drop_bit_mono_eq [OF _ db]) simp
  with a b da show ?thesis by (simp add: contains6)
qed

text \<open>
  Two prefixes share an address exactly when one of them contains the base address of the
  other: the test the route checks of the source rely on.
\<close>

lemma prefix_sets_meet_iff:
  assumes "wf_prefix p" "wf_prefix q"
  shows "prefix_set p \<inter> prefix_set q \<noteq> {} \<longleftrightarrow>
         prefix_Contains p (pfx_Addr q) \<or> prefix_Contains q (pfx_Addr p)"
proof
  assume "prefix_set p \<inter> prefix_set q \<noteq> {}"
  then obtain ip where "ip \<in> prefix_set p" "ip \<in> prefix_set q" by blast
  then show "prefix_Contains p (pfx_Addr q) \<or> prefix_Contains q (pfx_Addr p)"
    using assms common_address_contains by (metis nat_le_linear)
next
  assume "prefix_Contains p (pfx_Addr q) \<or> prefix_Contains q (pfx_Addr p)"
  then show "prefix_set p \<inter> prefix_set q \<noteq> {}"
    using assms contains_self by (auto simp: prefix_set_def)
qed

lemma mask_addr_eq_iff:
  assumes "wf_prefix p" "wf_prefix q" "addr_Is4 (pfx_Addr p) = addr_Is4 (pfx_Addr q)"
  shows "mask_addr n (pfx_Addr p) = mask_addr n (pfx_Addr q) \<longleftrightarrow>
         prefix_Contains \<lparr>pfx_Addr = pfx_Addr p, pfx_Bits = n\<rparr> (pfx_Addr q)"
  using assms
  by (auto elim!: wf_prefix_cases
      simp: mask_addr_def addr_Is4_def contains4 contains6 and_not_mask_eq_iff)

lemma contains_same_family: "prefix_Contains p ip \<Longrightarrow> addr_Is4 (pfx_Addr p) = addr_Is4 ip"
  by (cases ip) (auto simp: contains4 contains6 addr_Is4_def)

lemma contains_bits_mono:
  assumes "n \<le> pfx_Bits p" "prefix_Contains p ip"
  shows "prefix_Contains \<lparr>pfx_Addr = pfx_Addr p, pfx_Bits = n\<rparr> ip"
  using assms
  by (cases ip) (auto simp: contains4 contains6 elim!: drop_bit_mono_eq [rotated])

lemma contains_sym_base:
  assumes "wf_prefix p" "wf_prefix q"
  shows "prefix_Contains \<lparr>pfx_Addr = pfx_Addr p, pfx_Bits = n\<rparr> (pfx_Addr q) \<longleftrightarrow>
         prefix_Contains \<lparr>pfx_Addr = pfx_Addr q, pfx_Bits = n\<rparr> (pfx_Addr p)"
  using assms by (auto elim!: wf_prefix_cases simp: contains4 contains6)

lemma contains_min_bits:
  assumes "wf_prefix p" "wf_prefix q"
  shows "prefix_Contains \<lparr>pfx_Addr = pfx_Addr p, pfx_Bits = min (pfx_Bits p) (pfx_Bits q)\<rparr> (pfx_Addr q)
     \<longleftrightarrow> prefix_Contains p (pfx_Addr q) \<or> prefix_Contains q (pfx_Addr p)"
proof (cases "pfx_Bits p \<le> pfx_Bits q")
  case True
  then show ?thesis
    using contains_bits_mono [of "pfx_Bits p" q "pfx_Addr p"] contains_sym_base [OF assms, of "pfx_Bits p"]
    by (auto simp: min_def)
next
  case False
  then show ?thesis
    using contains_bits_mono [of "pfx_Bits q" p "pfx_Addr q"] contains_sym_base [OF assms, of "pfx_Bits q"]
    by (auto simp: min_def)
qed

lemma contains_zero_bits:
  assumes "wf_prefix p" "wf_prefix q" "addr_Is4 (pfx_Addr p) = addr_Is4 (pfx_Addr q)"
  shows "prefix_Contains \<lparr>pfx_Addr = pfx_Addr p, pfx_Bits = 0\<rparr> (pfx_Addr q)"
proof -
  have z4: "drop_bit 32 w = 0" for w :: "32 word" by (rule bit_word_eqI) (simp add: bit_simps)
  have z6: "drop_bit 128 w = 0" for w :: "128 word" by (rule bit_word_eqI) (simp add: bit_simps)
  show ?thesis
    using assms by (auto elim!: wf_prefix_cases simp: contains4 contains6 addr_Is4_def z4 z6)
qed

text \<open>\<open>Prefix.Overlaps\<close> decides whether the two sets of addresses meet.\<close>

lemma prefix_Overlaps_iff:
  assumes "wf_prefix p" "wf_prefix q"
  shows "prefix_Overlaps p q \<longleftrightarrow> prefix_set p \<inter> prefix_set q \<noteq> {}"
proof (cases "addr_Is4 (pfx_Addr p) = addr_Is4 (pfx_Addr q)")
  case True
  have meet: "prefix_set p \<inter> prefix_set q \<noteq> {} \<longleftrightarrow>
      prefix_Contains \<lparr>pfx_Addr = pfx_Addr p, pfx_Bits = min (pfx_Bits p) (pfx_Bits q)\<rparr> (pfx_Addr q)"
    by (simp only: prefix_sets_meet_iff [OF assms] contains_min_bits [OF assms])
  show ?thesis
    unfolding meet prefix_Overlaps_def Let_def
    using True assms contains_self [OF assms(1)] contains_zero_bits [OF assms True]
    by (cases "p = q"; cases "min (pfx_Bits p) (pfx_Bits q) = 0")
      (simp_all add: mask_addr_eq_iff [OF assms True] del: min_less_iff_conj)
next
  case False
  moreover have "\<not> (prefix_Contains p (pfx_Addr q) \<or> prefix_Contains q (pfx_Addr p))"
    using False contains_same_family by metis
  ultimately show ?thesis using assms by (auto simp: prefix_Overlaps_def prefix_sets_meet_iff)
qed

end
