(* ===== verification/Go_Url.thy ===== *)
theory Go_Url
  imports Netip
begin

text \<open>
  What the source uses of \<open>net/url\<close> and \<open>encoding/base64\<close>: \<open>url.Parse\<close> with the fields the code
  reads, \<open>URL.Hostname\<close> and \<open>URL.Port\<close>, and the test that a raw URL-safe base64 text decodes to a
  given number of bytes. As in the module's Go version, a bracketed host must be an IPv6 address
  and an unbracketed one has at most one colon.
\<close>

record url =
  url_Scheme :: string
  url_Opaque :: string
  url_User :: "string option"
  url_Host :: string
  url_Path :: string
  url_RawPath :: string
  url_ForceQuery :: bool
  url_RawQuery :: string
  url_Fragment :: string

subsection \<open>Cutting strings\<close>

text \<open>\<open>strings.Cut\<close> at a byte: the text before, the text after, and whether the byte was found.\<close>

definition cut_at :: "char \<Rightarrow> string \<Rightarrow> string \<times> string \<times> bool" where
  "cut_at c s = (let b = takeWhile (\<lambda>d. d \<noteq> c) s in (b, drop (Suc (length b)) s, c \<in> set s))"

text \<open>The text before the last occurrence of a byte, and the text after it.\<close>

definition cut_last :: "char \<Rightarrow> string \<Rightarrow> (string \<times> string) option" where
  "cut_last c s =
     (if c \<in> set s then
        let tail = rev (takeWhile (\<lambda>d. d \<noteq> c) (rev s))
        in Some (take (length s - Suc (length tail)) s, tail)
      else None)"

subsection \<open>Escapes\<close>

datatype url_mode = EncodePath | EncodeHost | EncodeZone | EncodeUser | EncodeFragment

definition url_unreserved :: "char \<Rightarrow> bool" where
  "url_unreserved c \<longleftrightarrow> is_alnum c \<or> c \<in> set ''-_.~''"

definition shouldEscape :: "url_mode \<Rightarrow> char \<Rightarrow> bool" where
  "shouldEscape mode c =
     (if is_alnum c then False
      else if (mode = EncodeHost \<or> mode = EncodeZone) \<and>
              c \<in> set (''!$&()*+,;=:[]<>'' @ [CHR 0x27, CHR 0x22]) then False
      else if c \<in> set ''-_.~'' then False
      else if c \<in> set ''$&+,/:;=?@'' then
        (case mode of
           EncodePath \<Rightarrow> c = CHR ''?''
         | EncodeUser \<Rightarrow> c \<in> set ''@/?:''
         | EncodeFragment \<Rightarrow> False
         | _ \<Rightarrow> True)
      else if mode = EncodeFragment \<and> c \<in> set ''!()*'' then False
      else True)"

fun unescape :: "url_mode \<Rightarrow> string \<Rightarrow> string option" where
  "unescape mode [] = Some []"
| "unescape mode (c # s) =
     (if c = CHR ''%'' then
        (case s of
           a # b # rest \<Rightarrow>
             (if \<not> is_hex a \<or> \<not> is_hex b then None
              else
                let v = hex_value a * 16 + hex_value b
                in if mode = EncodeHost \<and> hex_value a < 8 \<and> [a, b] \<noteq> ''25'' then None
                   else if mode = EncodeZone \<and> [a, b] \<noteq> ''25'' \<and> v \<noteq> 32 \<and>
                           shouldEscape EncodeHost (char_of v) then None
                   else map_option (Cons (char_of v)) (unescape mode rest))
         | _ \<Rightarrow> None)
      else if (mode = EncodeHost \<or> mode = EncodeZone) \<and> (of_char c :: nat) < 128 \<and> shouldEscape mode c
      then None
      else map_option (Cons c) (unescape mode s))"

definition upper_hex :: "nat \<Rightarrow> char" where
  "upper_hex n = (if n < 10 then char_of (48 + n) else char_of (55 + n))"

definition escape :: "url_mode \<Rightarrow> string \<Rightarrow> string" where
  "escape mode s =
     concat (map (\<lambda>c. if shouldEscape mode c
                      then [CHR ''%'', upper_hex (of_char c div 16), upper_hex (of_char c mod 16)]
                      else [c]) s)"

subsection \<open>Parsing\<close>

definition validOptionalPort :: "string \<Rightarrow> bool" where
  "validOptionalPort port = (case port of [] \<Rightarrow> True | c # ds \<Rightarrow> c = CHR '':'' \<and> list_all is_digit ds)"

definition validUserinfo :: "string \<Rightarrow> bool" where
  "validUserinfo s = list_all (\<lambda>c. is_alnum c \<or> c \<in> set (''-._:~!$&()*+,;=%@'' @ [CHR 0x27])) s"

text \<open>The position of \<open>%25\<close>, as the text before it and the text from it on.\<close>

fun split_zone :: "string \<Rightarrow> string \<times> string" where
  "split_zone [] = ([], [])"
| "split_zone (c # s) =
     (if take 3 (c # s) = ''%25'' then ([], c # s) else let (a, b) = split_zone s in (c # a, b))"

definition parseHost :: "string \<Rightarrow> string option" where
  "parseHost host =
     (if has_prefix host ''['' then
        (case cut_last (CHR '']'') host of
           None \<Rightarrow> None
         | Some (inner, colonPort) \<Rightarrow>
             let hostname = drop 1 inner
             in if CHR ''['' \<in> set hostname \<or> \<not> validOptionalPort colonPort then None
                else
                  let (front, zone) = split_zone hostname
                  in case (unescape EncodeHost front, unescape EncodeZone zone, unescape EncodeHost colonPort) of
                       (Some h, Some z, Some p) \<Rightarrow>
                         (case parseAddr (h @ z) of
                            None \<Rightarrow> None
                          | Some a \<Rightarrow> if addr_Is4 a then None else Some (''['' @ h @ z @ '']'' @ p))
                     | _ \<Rightarrow> None)
      else
        (case cut_last (CHR '':'') host of
           None \<Rightarrow> unescape EncodeHost host
         | Some (front, port) \<Rightarrow>
             if \<not> validOptionalPort (CHR '':'' # port) \<or> CHR '':'' \<in> set front then None
             else unescape EncodeHost host))"

text \<open>The user information is kept as its escaped text; the code only tests that it is absent.\<close>

definition parseAuthority :: "string \<Rightarrow> (string option \<times> string) option" where
  "parseAuthority authority =
     (case cut_last (CHR ''@'') authority of
        None \<Rightarrow> map_option (Pair None) (parseHost authority)
      | Some (userinfo, hostPart) \<Rightarrow>
          (case parseHost hostPart of
             None \<Rightarrow> None
           | Some host \<Rightarrow>
               let (username, password, _) = cut_at (CHR '':'') userinfo
               in if \<not> validUserinfo userinfo \<or> unescape EncodeUser username = None \<or>
                     unescape EncodeUser password = None
                  then None else Some (Some userinfo, host)))"

fun scheme_scan :: "string \<Rightarrow> string \<Rightarrow> (string \<times> string) option" where
  "scheme_scan acc [] = Some ([], rev acc)"
| "scheme_scan acc (c # s) =
     (if is_lower c \<or> is_upper c then scheme_scan (c # acc) s
      else if is_digit c \<or> c \<in> set ''+-.'' then
        (if acc = [] then Some ([], c # s) else scheme_scan (c # acc) s)
      else if c = CHR '':'' then (if acc = [] then None else Some (rev acc, s))
      else Some ([], rev acc @ c # s))"

definition getScheme :: "string \<Rightarrow> (string \<times> string) option" where
  "getScheme rawURL = scheme_scan [] rawURL"

definition url_empty :: url where
  "url_empty = \<lparr>url_Scheme = [], url_Opaque = [], url_User = None, url_Host = [], url_Path = [],
                url_RawPath = [], url_ForceQuery = False, url_RawQuery = [], url_Fragment = []\<rparr>"

definition setPath :: "url \<Rightarrow> string \<Rightarrow> url option" where
  "setPath u p =
     (case unescape EncodePath p of
        None \<Rightarrow> None
      | Some path \<Rightarrow>
          Some (u\<lparr>url_Path := path, url_RawPath := (if p = escape EncodePath path then [] else p)\<rparr>))"

definition parse_without_fragment :: "string \<Rightarrow> url option" where
  "parse_without_fragment rawURL =
     (if list_ex (\<lambda>c. (of_char c :: nat) < 32 \<or> (of_char c :: nat) = 127) rawURL then None
      else if rawURL = ''*'' then Some (url_empty\<lparr>url_Path := ''*''\<rparr>)
      else case getScheme rawURL of
        None \<Rightarrow> None
      | Some (scheme, rest0) \<Rightarrow>
          let scheme = to_lower scheme;
              force = has_suffix rest0 ''?'' \<and> length (filter (\<lambda>c. c = CHR ''?'') rest0) = 1;
              (rest, query, _) = (if force then (butlast rest0, [], True) else cut_at (CHR ''?'') rest0);
              u = url_empty\<lparr>url_Scheme := scheme, url_ForceQuery := force, url_RawQuery := query\<rparr>
          in if \<not> has_prefix rest ''/'' \<and> scheme \<noteq> [] then Some (u\<lparr>url_Opaque := rest\<rparr>)
             else if \<not> has_prefix rest ''/'' \<and> CHR '':'' \<in> set (fst (cut_at (CHR ''/'') rest)) then None
             else if (scheme \<noteq> [] \<or> \<not> has_prefix rest ''///'') \<and> has_prefix rest ''//'' then
               let authority = takeWhile (\<lambda>c. c \<noteq> CHR ''/'') (drop 2 rest);
                   path = drop (length authority) (drop 2 rest)
               in case parseAuthority authority of
                    None \<Rightarrow> None
                  | Some (user, host) \<Rightarrow> setPath (u\<lparr>url_User := user, url_Host := host\<rparr>) path
             else setPath u rest)"

definition url_Parse :: "string \<Rightarrow> url option" where
  "url_Parse rawURL =
     (let (u, frag, _) = cut_at (CHR ''#'') rawURL
      in case parse_without_fragment u of
           None \<Rightarrow> None
         | Some parsed \<Rightarrow>
             if frag = [] then Some parsed
             else map_option (\<lambda>f. parsed\<lparr>url_Fragment := f\<rparr>) (unescape EncodeFragment frag))"

definition splitHostPort :: "string \<Rightarrow> string \<times> string" where
  "splitHostPort hostPort =
     (let (host, port) =
        (case cut_last (CHR '':'') hostPort of
           None \<Rightarrow> (hostPort, [])
         | Some (h, p) \<Rightarrow> if validOptionalPort (CHR '':'' # p) then (h, p) else (hostPort, []))
      in if has_prefix host ''['' \<and> has_suffix host '']'' then (butlast (drop 1 host), port) else (host, port))"

definition url_Hostname :: "url \<Rightarrow> string" where
  "url_Hostname u = fst (splitHostPort (url_Host u))"

definition url_Port :: "url \<Rightarrow> string" where
  "url_Port u = snd (splitHostPort (url_Host u))"

subsection \<open>Base64\<close>

text \<open>
  \<open>base64.RawURLEncoding.DecodeString\<close> skips carriage returns and line feeds, refuses a byte
  outside its alphabet and a lone last byte, and otherwise returns this many bytes.
\<close>

definition rawurl_decoded_length :: "string \<Rightarrow> nat option" where
  "rawurl_decoded_length s =
     (let t = filter (\<lambda>c. c \<noteq> CHR 0x0D \<and> c \<noteq> CHR 0x0A) s
      in if list_all (\<lambda>c. is_alnum c \<or> c = CHR ''-'' \<or> c = CHR ''_'') t \<and> length t mod 4 \<noteq> 1
         then Some (length t * 6 div 8) else None)"

lemma rawurl_32: "rawurl_decoded_length s = Some 32 \<Longrightarrow>
    length (filter (\<lambda>c. c \<noteq> CHR 0x0D \<and> c \<noteq> CHR 0x0A) s) = 43"
  by (auto simp: rawurl_decoded_length_def Let_def split: if_splits)

lemma url_Parse_ex1:
  "url_Parse ''https://user@Example.org:8443/a%20b?x=1#f'' =
     Some \<lparr>url_Scheme = ''https'', url_Opaque = [], url_User = Some ''user'', url_Host = ''Example.org:8443'',
           url_Path = ''/a b'', url_RawPath = [], url_ForceQuery = False, url_RawQuery = ''x=1'',
           url_Fragment = ''f''\<rparr>"
  by code_simp

end
