(* ===== verification/Protocol.thy ===== *)
theory Protocol
  imports Go_Prelude
begin

text \<open>
  The wire DTOs of \<open>internal/endpointservice/protocol.go\<close> and \<open>vpn_protocol.go\<close>, one record
  per Go struct with the fields in the source's order. A pointer field is an option, \<open>int\<close> is
  \<open>int\<close>, a raw JSON value is its text. A field of type \<open>map[string]any\<close> is an association
  list into \<open>json_value\<close>, the values \<open>encoding/json\<close> decodes into \<open>any\<close> (a number is kept as
  its text).
\<close>

datatype json_value =
    JNull
  | JBool bool
  | JNumber string
  | JString string
  | JArray "json_value list"
  | JObject "(string \<times> json_value) list"

subsection \<open>Envelope and enrollment\<close>

record RuntimeMessage =
  rm_SchemaVersion :: string
  rm_MessageID :: string
  rm_MessageType :: string
  rm_ProducerID :: string
  rm_RuntimeID :: string
  rm_RuntimeKind :: string
  rm_OccurredAt :: time
  rm_ExpiresAt :: time
  rm_Payload :: string

record EnrollmentRequest =
  enr_EnrollmentID :: string
  enr_ChallengeID :: string
  enr_DeviceID :: string
  enr_DevicePublicKey :: string
  enr_WireGuardPublicKey :: string
  enr_Platform :: string
  enr_ClientVersion :: string
  enr_Capabilities :: "string list"

record EnrollmentResult =
  enp_Accepted :: bool
  enp_ReasonCode :: string
  enp_CredentialReference :: string
  enp_CredentialExpiresAt :: "time option"

subsection \<open>Leases and the desired configuration\<close>

record NetworkLease =
  nl_ID :: string
  nl_SessionID :: string
  nl_SubjectID :: string
  nl_DeviceID :: string
  nl_NetworkSpaceID :: string
  nl_CIDRs :: "string list"
  nl_PolicyVersion :: int
  nl_IssuedAt :: time
  nl_ExpiresAt :: time

record ResourceLease =
  rl_ID :: string
  rl_SessionID :: string
  rl_SubjectID :: string
  rl_DeviceID :: string
  rl_ResourceIDs :: "string list"
  rl_PolicyVersion :: int
  rl_IssuedAt :: time
  rl_ExpiresAt :: time

record RuntimeIntervals =
  ri_HeartbeatIntervalSeconds :: int
  ri_ConfigurationPollIntervalSeconds :: int

record DNSRecord =
  dns_Hostname :: string
  dns_Addresses :: "string list"
  dns_ExpiresAt :: time

record MihomoProtection =
  mp_PolicyVersion :: int
  mp_CIDRs :: "string list option"
  mp_Hosts :: "string list option"

record MihomoManualNode =
  mn_Protocol :: string
  mn_Server :: string
  mn_Port :: int
  mn_Username :: string
  mn_Password :: string

record MihomoConfiguration =
  mc_DNSRecords :: "DNSRecord list"
  mc_EnforcementUntil :: time
  mc_GuardPort :: int
  mc_GuardProxyPort :: int
  mc_GuardDirectPort :: int
  mc_GuardProxySecret :: string
  mc_GuardDirectSecret :: string
  mc_BootstrapNodes :: "(string \<times> json_value) list list"
  mc_Protection :: "MihomoProtection option"
  mc_Mode :: string
  mc_SourceType :: string
  mc_ProfileID :: string
  mc_ProfileRevision :: int
  mc_MixedPort :: int
  mc_ControllerPort :: int
  mc_DNSMode :: string
  mc_FakeIPRange :: string
  mc_SelectorGroup :: string
  mc_SelectedProxy :: string
  mc_BypassCIDRs :: "string list"
  mc_BypassHosts :: "string list"
  mc_FailClosed :: bool
  mc_SubscriptionURL :: string
  mc_ManualNode :: "MihomoManualNode option"
  mc_VPNInterface :: string
  mc_VPNRoutes :: "string list"

record MihomoSource =
  ms_ProfileID :: string
  ms_ProfileRevision :: int
  ms_SourceType :: string
  ms_SubscriptionURL :: string
  ms_ManualNode :: "MihomoManualNode option"

record WireGuardPeer =
  peer_RuntimeID :: string
  peer_DeviceID :: string
  peer_PublicKey :: string
  peer_EndpointHost :: string
  peer_EndpointPort :: int
  peer_AllowedIPs :: "string list"
  peer_PersistentKeepaliveSeconds :: int

record WireGuardFirewallRule =
  rule_ID :: string
  rule_Effect :: string
  rule_LeaseID :: string
  rule_SourceCIDR :: string
  rule_DestinationCIDR :: string
  rule_Protocol :: string
  rule_Ports :: "int list"
  rule_ExpiresAt :: "time option"

record WireGuardConfiguration =
  wg_DNSRecords :: "DNSRecord list"
  wg_Role :: string
  wg_InterfaceName :: string
  wg_PublicKey :: string
  wg_Addresses :: "string list"
  wg_ListenPort :: int
  wg_MTU :: int
  wg_RoutingMode :: string
  wg_FirewallDefault :: string
  wg_Peers :: "WireGuardPeer list"
  wg_Routes :: "string list"
  wg_DNSServers :: "string list"
  wg_FirewallRules :: "WireGuardFirewallRule list"

text \<open>
  \<open>AdmissionConfiguration\<close> and \<open>AdmissionProfile\<close> are the DTOs of
  \<open>internal/endpointservice/eap_protocol.go\<close>.
\<close>

record AdmissionProfile =
  ap_ID :: string
  ap_SiteID :: string
  ap_AccessMedium :: string
  ap_SSID :: string
  ap_Identity :: string
  ap_ServerNames :: "string list"
  ap_CACertificates :: "string list"
  ap_WifiSecurity :: string
  ap_ClientCertificateFingerprint :: string

record AdmissionConfiguration =
  ac_Profiles :: "AdmissionProfile list"
  ac_RestrictionEpoch :: int

record ConfigurationDesired =
  cd_Admission :: "AdmissionConfiguration option"
  cd_ConfigurationVersion :: int
  cd_PolicyVersion :: int
  cd_ValidUntil :: time
  cd_AccessProfile :: string
  cd_ProtectedResourceIDs :: "string list"
  cd_NetworkLeases :: "NetworkLease list"
  cd_ResourceLeases :: "ResourceLease list"
  cd_RuntimeIntervals :: "RuntimeIntervals option"
  cd_WireGuard :: "WireGuardConfiguration option"
  cd_Mihomo :: "MihomoConfiguration option"

subsection \<open>Reports, renewal, revocation, connection\<close>

record ConfigurationApplied =
  ca_ConfigurationVersion :: int
  ca_PolicyVersion :: int
  ca_Status :: string
  ca_ReadbackHash :: string
  ca_ReasonCode :: string

record LeaseRenewRequest =
  lrr_SessionID :: string
  lrr_LeaseIDs :: "string list"
  lrr_ObservedConfigurationVersion :: int
  lrr_PostureVersion :: "int option"

record LeaseRenewResult =
  lrs_PolicyVersion :: int
  lrs_ValidUntil :: time
  lrs_NetworkLeases :: "NetworkLease list"
  lrs_ResourceLeases :: "ResourceLease list"
  lrs_RevokedLeaseIDs :: "string list"

record LeaseRevoke =
  lrv_SessionID :: string
  lrv_LeaseIDs :: "string list"
  lrv_ReasonCode :: string
  lrv_EffectiveAt :: time

record VPNConnectRequest =
  vcq_RequestID :: string
  vcq_SiteID :: string
  vcq_NetworkSpaceID :: string
  vcq_GatewayID :: string
  vcq_Mode :: string
  vcq_ResourceIDs :: "string list"
  vcq_AccessGrantID :: string
  vcq_AccessGrantToken :: string

record VPNConnectResult =
  vcr_RequestID :: string
  vcr_Decision :: string
  vcr_ReasonCode :: string
  vcr_SessionID :: string
  vcr_GatewayID :: string
  vcr_ConfigurationVersion :: int
  vcr_PolicyVersion :: int
  vcr_ValidUntil :: time
  vcr_NetworkLeases :: "NetworkLease list"
  vcr_ResourceLeases :: "ResourceLease list"

subsection \<open>Managed connections\<close>

record VPNManagedConnectRequest =
  mcr_RequestID :: string
  mcr_IntentID :: string
  mcr_IntentToken :: string
  mcr_ProbeBatchID :: string

record VPNProbeDescriptor =
  pd_GatewayID :: string
  pd_RuntimeID :: string
  pd_Name :: string
  pd_ProviderCode :: string
  pd_URL :: string
  pd_Token :: string
  pd_ExpiresAt :: "time option"

record VPNManagedPrepareResult =
  mpr_RequestID :: string
  mpr_IntentID :: string
  mpr_ProfileID :: string
  mpr_ProfileRevision :: int
  mpr_SelectionPolicyRevision :: int
  mpr_ExpiresAt :: time
  mpr_SamplesPerGateway :: int
  mpr_TimeoutMillis :: int
  mpr_MaxConcurrency :: int
  mpr_Descriptors :: "VPNProbeDescriptor list"

text \<open>The embedded \<open>VPNConnectResult\<close> is the first field.\<close>

record VPNManagedConnectResult =
  mrs_VPNConnectResult :: VPNConnectResult
  mrs_ProfileID :: string
  mrs_ProfileRevision :: int
  mrs_SelectionPolicyRevision :: int
  mrs_Selection :: string
  mrs_SelectionReason :: string
  mrs_SiteID :: string
  mrs_NetworkSpaceID :: string
  mrs_Mode :: string
  mrs_ResourceIDs :: "string list"
  mrs_DecisionID :: string
  mrs_FailoverOnDisconnect :: bool
  mrs_RetryCooldownSeconds :: int
  mrs_MaxAttempts :: int

text \<open>A round trip time is kept in nanoseconds; the code divides it by a million for the wire.\<close>

record VPNProbeResult =
  pr_GatewayID :: string
  pr_SentCount :: int
  pr_RTTSamplesMs :: "int list"

record VPNProbeBatch =
  pb_IntentID :: string
  pb_ProfileID :: string
  pb_ProfileRevision :: int
  pb_SelectionPolicyRevision :: int
  pb_BatchID :: string
  pb_NetworkEpoch :: string
  pb_WindowStartedAt :: time
  pb_WindowEndedAt :: time
  pb_Results :: "VPNProbeResult list"

end
