(* ===== verification/TunnelPlan.thy ===== *)
theory TunnelPlan
  imports Protocol Netip
begin

text \<open>
  The pure half of \<open>internal/endpointservice/executor.go\<close>: \<open>buildTunnelPlan\<close>, which decides
  whether a desired configuration may reach the operating system and turns it into a plan, and
  the checks it is made of. The loops keep the code's order and its maps of keys seen; the
  calls of \<open>netip.MustParsePrefix\<close> may panic in the model as in the code, and are shown not to.

  The WireGuard keys are 32 bytes; \<open>wgtypes\<close> (a third-party package) is a record of functions.
\<close>

type_synonym wg_key = string

record wgtypes =
  wgt_ParseKey :: "string \<Rightarrow> wg_key option"
  wgt_PublicKey :: "wg_key \<Rightarrow> wg_key"
  wgt_String :: "wg_key \<Rightarrow> string"

definition zero_key :: wg_key where
  "zero_key = replicate 32 (CHR 0x00)"

definition endpointInterfaceName :: string where
  "endpointInterfaceName = ''soha0''"

record TunnelPeer =
  tpr_PublicKey :: string
  tpr_Endpoint :: string
  tpr_AllowedIPs :: "string list option"
  tpr_PersistentKeepaliveSeconds :: int

record TunnelPlan =
  tp_PrivateKey :: string
  tp_PublicKey :: string
  tp_Addresses :: "string list option"
  tp_MTU :: int
  tp_Peer :: TunnelPeer
  tp_Routes :: "string list option"
  tp_DNSServers :: "string list option"

record TunnelReadback =
  tr_PublicKey :: string
  tr_Addresses :: "string list option"
  tr_MTU :: int
  tr_Peer :: TunnelPeer
  tr_Routes :: "string list option"
  tr_DNSServers :: "string list option"

definition empty_TunnelReadback :: TunnelReadback where
  "empty_TunnelReadback =
     \<lparr>tr_PublicKey = [], tr_Addresses = None, tr_MTU = 0,
      tr_Peer = \<lparr>tpr_PublicKey = [], tpr_Endpoint = [], tpr_AllowedIPs = None,
                 tpr_PersistentKeepaliveSeconds = 0\<rparr>,
      tr_Routes = None, tr_DNSServers = None\<rparr>"

definition TunnelPlan_Readback :: "TunnelPlan \<Rightarrow> TunnelReadback" where
  "TunnelPlan_Readback plan =
     \<lparr>tr_PublicKey = tp_PublicKey plan, tr_Addresses = tp_Addresses plan, tr_MTU = tp_MTU plan,
      tr_Peer = tp_Peer plan, tr_Routes = tp_Routes plan, tr_DNSServers = tp_DNSServers plan\<rparr>"

subsection \<open>Routes and addresses\<close>

fun canonicalPrefixes_loop ::
  "bool \<Rightarrow> string list \<Rightarrow> string list \<Rightarrow> string list \<Rightarrow> string list fallible" where
  "canonicalPrefixes_loop requireHost seen result [] = Inr result"
| "canonicalPrefixes_loop requireHost seen result (value # raw) =
     (case parsePrefix value of
        None \<Rightarrow> Inl (ErrorNew ''invalid IP split route'')
      | Some pfx \<Rightarrow>
          if addr_Is4In6 (pfx_Addr pfx) \<or> \<not> addr_IsGlobalUnicast (pfx_Addr pfx) \<or>
             prefix_Masked pfx \<noteq> pfx \<or> pfx_Bits pfx = 0 \<or>
             (requireHost \<and> pfx_Bits pfx \<noteq> addr_BitLen (pfx_Addr pfx))
          then Inl (ErrorNew ''invalid IP split route'')
          else
            let canonical = prefix_String pfx
            in if canonical \<noteq> value then Inl (ErrorNew ''non-canonical IP split route'')
               else if canonical \<in> set seen then Inl (ErrorNew ''duplicate IP split route'')
               else canonicalPrefixes_loop requireHost (canonical # seen) (result @ [canonical]) raw)"

text \<open>\<open>True\<close> stands for the error about overlapping routes.\<close>

fun overlap_candidates :: "prefix \<Rightarrow> string list \<Rightarrow> bool run" where
  "overlap_candidates left [] = Val False"
| "overlap_candidates left (candidate # rest) =
     run_bind (mustParsePrefix candidate) (\<lambda>right.
       if prefix_Contains left (pfx_Addr right) \<or> prefix_Contains right (pfx_Addr left) then Val True
       else overlap_candidates left rest)"

fun overlapping_routes :: "string list \<Rightarrow> bool run" where
  "overlapping_routes [] = Val False"
| "overlapping_routes (raw # rest) =
     run_bind (mustParsePrefix raw) (\<lambda>left.
       run_bind (overlap_candidates left rest) (\<lambda>found.
         if found then Val True else overlapping_routes rest))"

definition canonicalPrefixes :: "string list \<Rightarrow> bool \<Rightarrow> (string list fallible) run" where
  "canonicalPrefixes raw requireHost =
     (case canonicalPrefixes_loop requireHost [] [] raw of
        Inl err \<Rightarrow> Val (Inl err)
      | Inr result \<Rightarrow>
          let result = sort result
          in run_bind (overlapping_routes result) (\<lambda>found.
               if found then Val (Inl (ErrorNew ''overlapping IP split routes''))
               else Val (Inr result)))"

fun prefixWithinAny :: "prefix \<Rightarrow> string list \<Rightarrow> bool run" where
  "prefixWithinAny pfx [] = Val False"
| "prefixWithinAny pfx (raw # rest) =
     run_bind (mustParsePrefix raw) (\<lambda>route.
       if pfx_Bits route \<le> pfx_Bits pfx \<and> prefix_Contains route (pfx_Addr pfx) then Val True
       else prefixWithinAny pfx rest)"

subsection \<open>Hosts\<close>

text \<open>
  \<open>net.ParseIP\<close> is \<open>netip.ParseAddr\<close> without zones; the unspecified and multicast tests of
  \<open>net.IP\<close> look through the IPv4-mapped form.
\<close>

definition parseIP :: "string \<Rightarrow> addr option" where
  "parseIP s = (case parseAddr s of None \<Rightarrow> None | Some a \<Rightarrow> if addr_Zone a \<noteq> [] then None else Some a)"

definition IP_IsUnspecified :: "addr \<Rightarrow> bool" where
  "IP_IsUnspecified a = (case addr_Unmap a of Addr4 w \<Rightarrow> w = 0 | Addr6 w _ \<Rightarrow> w = 0)"

definition valid_host_label :: "string \<Rightarrow> bool" where
  "valid_host_label lbl \<longleftrightarrow>
     \<not> (lbl = [] \<or> 63 < length lbl \<or> hd lbl = CHR ''-'' \<or> last lbl = CHR ''-'') \<and>
     list_all (\<lambda>c. is_lower c \<or> is_upper c \<or> is_digit c \<or> c = CHR ''-'') lbl"

definition validEndpointHost :: "string \<Rightarrow> bool" where
  "validEndpointHost host =
     (if host = [] \<or> 253 < length host \<or>
         contains_any host [CHR 0x0D, CHR 0x0A, CHR 0x09, CHR '' '', CHR ''/'', CHR 0x5C, CHR ''['', CHR '']'']
      then False
      else case parseIP host of
        Some address \<Rightarrow> \<not> IP_IsUnspecified address \<and> \<not> addr_IsMulticast address
      | None \<Rightarrow> list_all valid_host_label (split_on (CHR ''.'') host))"

definition joinHostPort :: "string \<Rightarrow> string \<Rightarrow> string" where
  "joinHostPort host port =
     (if CHR '':'' \<in> set host then ''['' @ host @ '']:'' @ port else host @ '':'' @ port)"

definition validVPNInterfaceName :: "string \<Rightarrow> bool" where
  "validVPNInterfaceName name \<longleftrightarrow>
     \<not> (length name < 1 \<or> 64 < length name) \<and>
     list_all (\<lambda>c. is_lower c \<or> is_upper c \<or> is_digit c \<or> c = CHR ''_'' \<or> c = CHR ''-'') name"

subsection \<open>Firewall rules and leases\<close>

record leaseState =
  ls_kind :: string
  ls_expiry :: time

fun network_lease_states ::
  "NetworkLease list \<Rightarrow> time \<Rightarrow> (string \<Rightarrow> leaseState option) \<Rightarrow> (string \<Rightarrow> leaseState option) option" where
  "network_lease_states [] now leases = Some leases"
| "network_lease_states (lease # rest) now leases =
     (if \<not> identifierPattern (nl_ID lease) \<or> \<not> nl_ExpiresAt lease > now then None
      else network_lease_states rest now
             (leases(nl_ID lease \<mapsto> \<lparr>ls_kind = ''network'', ls_expiry = nl_ExpiresAt lease\<rparr>)))"

fun resource_lease_states ::
  "ResourceLease list \<Rightarrow> time \<Rightarrow> (string \<Rightarrow> leaseState option) \<Rightarrow> (string \<Rightarrow> leaseState option) option" where
  "resource_lease_states [] now leases = Some leases"
| "resource_lease_states (lease # rest) now leases =
     (if \<not> identifierPattern (rl_ID lease) \<or> \<not> rl_ExpiresAt lease > now then None
      else if leases (rl_ID lease) \<noteq> None then None
      else resource_lease_states rest now
             (leases(rl_ID lease \<mapsto> \<lparr>ls_kind = ''resource'', ls_expiry = rl_ExpiresAt lease\<rparr>)))"

definition valid_rule_ports :: "int list \<Rightarrow> bool" where
  "valid_rule_ports ports = all_fresh (\<lambda>port. \<not> (port < 1 \<or> 65535 < port)) id [] ports"

text \<open>
  What an iteration does after the checks every rule has: \<open>None\<close> rejects the rules, otherwise the
  new phase (0 resource allow, 1 protected deny, 2 broad network allow).
\<close>

definition rule_phase ::
  "(string \<Rightarrow> leaseState option) \<Rightarrow> time \<Rightarrow> nat \<Rightarrow> WireGuardFirewallRule \<Rightarrow> nat option" where
  "rule_phase leases now phase rule =
     (if rule_Effect rule = ''deny'' then
        (if phase = 2 \<or> rule_LeaseID rule \<noteq> [] \<or> rule_ExpiresAt rule \<noteq> None \<or>
            rule_Protocol rule \<noteq> ''any'' \<or> length (rule_Ports rule) \<noteq> 0
         then None else Some 1)
      else case leases (rule_LeaseID rule) of
        None \<Rightarrow> None
      | Some lease \<Rightarrow>
          (case rule_ExpiresAt rule of
             None \<Rightarrow> None
           | Some expires \<Rightarrow>
               if \<not> expires > now \<or> expires > ls_expiry lease then None
               else if ls_kind lease = ''resource'' then
                 (if phase \<noteq> 0 \<or> rule_Protocol rule \<notin> set [''any'', ''tcp'', ''udp''] \<or>
                     ((rule_Protocol rule = ''tcp'' \<or> rule_Protocol rule = ''udp'') \<and>
                      length (rule_Ports rule) = 0)
                  then None else Some phase)
               else if rule_Protocol rule \<noteq> ''any'' \<or> length (rule_Ports rule) \<noteq> 0 then None
               else Some 2))"

definition rule_shape_ok :: "string list \<Rightarrow> WireGuardFirewallRule \<Rightarrow> bool" where
  "rule_shape_ok addresses rule \<longleftrightarrow>
     \<not> (\<not> identifierPattern (rule_ID rule) \<or> rule_SourceCIDR rule \<notin> set addresses \<or>
        (rule_Effect rule \<noteq> ''allow'' \<and> rule_Effect rule \<noteq> ''deny'') \<or>
        rule_Protocol rule \<notin> set [''any'', ''tcp'', ''udp'', ''icmp''])"

definition rule_ports_ok :: "WireGuardFirewallRule \<Rightarrow> bool" where
  "rule_ports_ok rule \<longleftrightarrow>
     \<not> ((rule_Protocol rule = ''any'' \<or> rule_Protocol rule = ''icmp'') \<and> length (rule_Ports rule) \<noteq> 0) \<and>
     \<not> 64 < length (rule_Ports rule) \<and>
     valid_rule_ports (rule_Ports rule)"

fun validFirewallRules_loop ::
  "string list \<Rightarrow> (string \<Rightarrow> leaseState option) \<Rightarrow> string list \<Rightarrow> time \<Rightarrow> string list \<Rightarrow> nat \<Rightarrow>
   WireGuardFirewallRule list \<Rightarrow> bool run" where
  "validFirewallRules_loop addresses leases routes now seen phase [] = Val True"
| "validFirewallRules_loop addresses leases routes now seen phase (rule # rest) =
     (if \<not> rule_shape_ok addresses rule then Val False
      else if rule_ID rule \<in> set seen then Val False
      else case parsePrefix (rule_DestinationCIDR rule) of
        None \<Rightarrow> Val False
      | Some destination \<Rightarrow>
          if prefix_Masked destination \<noteq> destination \<or> pfx_Bits destination = 0 \<or>
             addr_Is4In6 (pfx_Addr destination)
          then Val False
          else run_bind (prefixWithinAny destination routes) (\<lambda>within.
            if \<not> within then Val False
            else if \<not> rule_ports_ok rule then Val False
            else case rule_phase leases now phase rule of
              None \<Rightarrow> Val False
            | Some phase' \<Rightarrow>
                validFirewallRules_loop addresses leases routes now (rule_ID rule # seen) phase' rest))"

definition validFirewallRules ::
  "WireGuardFirewallRule list \<Rightarrow> string list \<Rightarrow> NetworkLease list \<Rightarrow> ResourceLease list \<Rightarrow>
   string list \<Rightarrow> time \<Rightarrow> bool run" where
  "validFirewallRules rules addresses networkLeases resourceLeases routes now =
     (if 4096 < length rules then Val False
      else case network_lease_states networkLeases now (\<lambda>_. None) of
        None \<Rightarrow> Val False
      | Some networks \<Rightarrow>
          (case resource_lease_states resourceLeases now networks of
             None \<Rightarrow> Val False
           | Some leases \<Rightarrow> validFirewallRules_loop addresses leases routes now [] 0 rules))"

definition resourceLeaseLive :: "ResourceLease list \<Rightarrow> string \<Rightarrow> time \<Rightarrow> bool" where
  "resourceLeaseLive leases leaseID now =
     list_ex (\<lambda>lease. rl_ID lease = leaseID \<and> identifierPattern (rl_ID lease) \<and> rl_ExpiresAt lease > now)
       leases"

subsection \<open>Coverage of the routes\<close>

definition cidr_covers :: "prefix \<Rightarrow> string \<Rightarrow> bool" where
  "cidr_covers pfx cidr =
     (case parsePrefix cidr of
        None \<Rightarrow> False
      | Some leasePrefix \<Rightarrow>
          \<not> addr_Is4In6 (pfx_Addr leasePrefix) \<and> prefix_Masked leasePrefix = leasePrefix \<and>
          pfx_Bits leasePrefix \<le> pfx_Bits pfx \<and> prefix_Contains leasePrefix (pfx_Addr pfx))"

definition covered_by_network :: "NetworkLease list \<Rightarrow> time \<Rightarrow> prefix \<Rightarrow> bool" where
  "covered_by_network leases now pfx =
     list_ex (\<lambda>lease.
       identifierPattern (nl_ID lease) \<and> nl_ExpiresAt lease > now \<and>
       list_ex (cidr_covers pfx) (nl_CIDRs lease)) leases"

text \<open>The loop over the rules: no early exit, so every live allow rule is parsed.\<close>

fun covered_by_rules ::
  "ResourceLease list \<Rightarrow> time \<Rightarrow> prefix \<Rightarrow> bool \<Rightarrow> WireGuardFirewallRule list \<Rightarrow> bool run" where
  "covered_by_rules resourceLeases now pfx covered [] = Val covered"
| "covered_by_rules resourceLeases now pfx covered (rule # rest) =
     (if rule_Effect rule \<noteq> ''allow'' \<or> \<not> resourceLeaseLive resourceLeases (rule_LeaseID rule) now
      then covered_by_rules resourceLeases now pfx covered rest
      else run_bind (mustParsePrefix (rule_DestinationCIDR rule)) (\<lambda>destination.
        covered_by_rules resourceLeases now pfx
          (covered \<or> (pfx_Bits destination \<le> pfx_Bits pfx \<and> prefix_Contains destination (pfx_Addr pfx)))
          rest))"

fun routesCoveredByLeases ::
  "string list \<Rightarrow> NetworkLease list \<Rightarrow> ResourceLease list \<Rightarrow> WireGuardFirewallRule list \<Rightarrow> time \<Rightarrow> bool run" where
  "routesCoveredByLeases [] networkLeases resourceLeases rules now =
     Val (0 < length networkLeases + length resourceLeases)"
| "routesCoveredByLeases (route # rest) networkLeases resourceLeases rules now =
     run_bind (mustParsePrefix route) (\<lambda>pfx.
       run_bind (covered_by_rules resourceLeases now pfx (covered_by_network networkLeases now pfx) rules)
         (\<lambda>covered.
           if \<not> covered then Val False
           else routesCoveredByLeases rest networkLeases resourceLeases rules now))"

subsection \<open>The plan\<close>

fun plan_dns_servers ::
  "string list \<Rightarrow> string list \<Rightarrow> string list \<Rightarrow> string list \<Rightarrow> (string list fallible) run" where
  "plan_dns_servers routes seen dnsServers [] = Val (Inr dnsServers)"
| "plan_dns_servers routes seen dnsServers (raw # rest) =
     (case parseAddr raw of
        None \<Rightarrow> Val (Inl (ErrorNew ''invalid endpoint DNS server''))
      | Some address \<Rightarrow>
          if addr_Is4In6 address \<or> \<not> addr_IsGlobalUnicast address \<or> addr_String address \<noteq> raw
          then Val (Inl (ErrorNew ''invalid endpoint DNS server''))
          else run_bind (prefixWithinAny (prefixFrom address (addr_BitLen address)) routes)
            (\<lambda>within.
              if \<not> within then Val (Inl (ErrorNew ''invalid endpoint DNS server''))
              else if raw \<in> set seen then Val (Inl (ErrorNew ''duplicate endpoint DNS server''))
              else plan_dns_servers routes (raw # seen) (dnsServers @ [raw]) rest))"

definition buildTunnelPlan ::
  "wgtypes \<Rightarrow> ConfigurationDesired \<Rightarrow> WireGuardConfiguration \<Rightarrow> wg_key \<Rightarrow> string \<Rightarrow> time \<Rightarrow>
   (TunnelPlan fallible) run" where
  "buildTunnelPlan wgt desired wg privateKey publicKey now =
     (if cd_ConfigurationVersion desired < 1 \<or> cd_PolicyVersion desired < 1 \<or>
         \<not> cd_ValidUntil desired > now \<or> wg_Role wg \<noteq> ''endpoint'' \<or>
         wg_InterfaceName wg \<noteq> endpointInterfaceName \<or> wg_PublicKey wg \<noteq> publicKey \<or>
         wg_FirewallDefault wg \<noteq> ''deny'' \<or>
         (wg_RoutingMode wg \<noteq> ''routed'' \<and> wg_RoutingMode wg \<noteq> ''snat'') \<or>
         wg_MTU wg < 1280 \<or> wg_MTU wg > 1500 \<or> length (wg_Peers wg) \<noteq> 1
      then Val (Inl (ErrorNew ''invalid endpoint configuration''))
      else run_bind (canonicalPrefixes (wg_Addresses wg) True) (\<lambda>addressesR.
        case addressesR of Inl _ \<Rightarrow> Val (Inl (ErrorNew ''invalid endpoint addresses'')) | Inr addresses \<Rightarrow>
        if length addresses = 0 \<or> 8 < length addresses
        then Val (Inl (ErrorNew ''invalid endpoint addresses''))
        else run_bind (canonicalPrefixes (wg_Routes wg) False) (\<lambda>routesR.
          case routesR of Inl _ \<Rightarrow> Val (Inl (ErrorNew ''invalid endpoint routes'')) | Inr routes \<Rightarrow>
          if length routes = 0 \<or> 256 < length routes
          then Val (Inl (ErrorNew ''invalid endpoint routes''))
          else
            let peer = wg_Peers wg ! 0
            in case wgt_ParseKey wgt (peer_PublicKey peer) of
              None \<Rightarrow> Val (Inl (ErrorNew ''invalid endpoint peer''))
            | Some peerKey \<Rightarrow>
                if peerKey = wgt_PublicKey wgt privateKey \<or> \<not> identifierPattern (peer_RuntimeID peer) \<or>
                   peer_EndpointPort peer < 1 \<or> peer_EndpointPort peer > 65535 \<or>
                   peer_PersistentKeepaliveSeconds peer < 0 \<or>
                   peer_PersistentKeepaliveSeconds peer > 300 \<or>
                   \<not> validEndpointHost (peer_EndpointHost peer)
                then Val (Inl (ErrorNew ''invalid endpoint peer''))
                else run_bind (canonicalPrefixes (peer_AllowedIPs peer) False) (\<lambda>allowedR.
                  case allowedR of
                    Inl _ \<Rightarrow> Val (Inl (ErrorNew ''peer routes do not match endpoint routes''))
                  | Inr allowedIPs \<Rightarrow>
                  if routes \<noteq> allowedIPs
                  then Val (Inl (ErrorNew ''peer routes do not match endpoint routes''))
                  else run_bind (plan_dns_servers routes [] [] (wg_DNSServers wg)) (\<lambda>dnsR.
                    case dnsR of Inl err \<Rightarrow> Val (Inl err) | Inr dnsServers \<Rightarrow>
                    if 8 < length dnsServers
                    then Val (Inl (ErrorNew ''endpoint authorization scope is invalid''))
                    else run_bind (validFirewallRules (wg_FirewallRules wg) addresses
                           (cd_NetworkLeases desired) (cd_ResourceLeases desired) routes now) (\<lambda>firewall.
                      if \<not> firewall
                      then Val (Inl (ErrorNew ''endpoint authorization scope is invalid''))
                      else run_bind (routesCoveredByLeases routes (cd_NetworkLeases desired)
                             (cd_ResourceLeases desired) (wg_FirewallRules wg) now) (\<lambda>covered.
                        if \<not> covered
                        then Val (Inl (ErrorNew ''endpoint authorization scope is invalid''))
                        else Val (Inr
                          \<lparr>tp_PrivateKey = wgt_String wgt privateKey, tp_PublicKey = publicKey,
                           tp_Addresses = Some addresses, tp_MTU = wg_MTU wg,
                           tp_Peer =
                             \<lparr>tpr_PublicKey = peer_PublicKey peer,
                              tpr_Endpoint = joinHostPort (peer_EndpointHost peer)
                                               (string_of_int (peer_EndpointPort peer)),
                              tpr_AllowedIPs = Some allowedIPs,
                              tpr_PersistentKeepaliveSeconds = peer_PersistentKeepaliveSeconds peer\<rparr>,
                           tp_Routes = Some routes, tp_DNSServers = Some (sort dnsServers)\<rparr>))))))))"

subsection \<open>What the route checks establish\<close>

text \<open>A canonical route of the code, and the addresses a route text stands for.\<close>

definition canonical_route :: "bool \<Rightarrow> string \<Rightarrow> bool" where
  "canonical_route requireHost s \<longleftrightarrow>
     (case parsePrefix s of
        None \<Rightarrow> False
      | Some p \<Rightarrow>
          \<not> addr_Is4In6 (pfx_Addr p) \<and> addr_IsGlobalUnicast (pfx_Addr p) \<and> prefix_Masked p = p \<and>
          pfx_Bits p \<noteq> 0 \<and> (requireHost \<longrightarrow> pfx_Bits p = addr_BitLen (pfx_Addr p)) \<and> prefix_String p = s)"

definition addresses_of :: "string \<Rightarrow> addr set" where
  "addresses_of s = (case parsePrefix s of None \<Rightarrow> {} | Some p \<Rightarrow> prefix_set p)"

definition pairwise_disjoint :: "string list \<Rightarrow> bool" where
  "pairwise_disjoint rs \<longleftrightarrow> sorted_wrt (\<lambda>r s. addresses_of r \<inter> addresses_of s = {}) rs"

lemma canonical_routeE:
  assumes "canonical_route h s"
  obtains p where "parsePrefix s = Some p" "wf_prefix p"
  using assms by (auto simp: canonical_route_def parsePrefix_wf split: option.splits)

definition canonical_list :: "bool \<Rightarrow> string list \<Rightarrow> bool" where
  "canonical_list h raw \<longleftrightarrow>
     (\<forall>v \<in> set raw. canonical_route h v) \<and> distinct raw \<and> pairwise_disjoint (sort raw)"

lemma canonicalPrefixes_loop_iff:
  "canonicalPrefixes_loop h seen result raw = Inr out \<longleftrightarrow>
     (\<forall>v \<in> set raw. canonical_route h v) \<and> distinct raw \<and> set raw \<inter> set seen = {} \<and> out = result @ raw"
proof (induction raw arbitrary: seen result)
  case (Cons v raw)
  show ?case
  proof (cases "canonical_route h v \<and> v \<notin> set seen")
    case True
    then show ?thesis
      by (auto simp: Cons.IH canonical_route_def Let_def split: option.splits)
  next
    case False
    then show ?thesis
      by (auto simp: canonical_route_def Let_def split: option.splits)
  qed
qed auto

lemma overlap_candidates_canonical:
  assumes "wf_prefix left" "\<forall>c \<in> set cs. canonical_route h c"
  shows "overlap_candidates left cs = Val (\<exists>c \<in> set cs. prefix_set left \<inter> addresses_of c \<noteq> {})"
  using assms(2)
proof (induction cs)
  case (Cons c cs)
  from Cons.prems have "canonical_route h c" by simp
  then obtain p where p: "parsePrefix c = Some p" "wf_prefix p" by (rule canonical_routeE)
  with Cons show ?case
    using prefix_sets_meet_iff [OF assms(1) p(2)]
    by (auto simp: mustParsePrefix_def addresses_of_def)
qed simp

lemma overlapping_routes_canonical:
  assumes "\<forall>r \<in> set rs. canonical_route h r"
  shows "overlapping_routes rs = Val (\<not> pairwise_disjoint rs)"
  using assms
proof (induction rs)
  case (Cons r rs)
  from Cons.prems have "canonical_route h r" by simp
  then obtain p where p: "parsePrefix r = Some p" "wf_prefix p" by (rule canonical_routeE)
  from Cons.prems have "\<forall>c \<in> set rs. canonical_route h c" by simp
  from overlap_candidates_canonical [OF p(2) this] show ?case
    using Cons p(1) by (auto simp: mustParsePrefix_def pairwise_disjoint_def addresses_of_def)
qed (simp add: pairwise_disjoint_def)

text \<open>The routine in one line: it never panics, and accepts exactly the disjoint canonical lists.\<close>

lemma canonicalPrefixes_cases:
  obtains (accepted) "canonical_list h raw" "canonicalPrefixes raw h = Val (Inr (sort raw))"
    | (refused) err where "\<not> canonical_list h raw" "canonicalPrefixes raw h = Val (Inl err)"
proof (cases "canonicalPrefixes_loop h [] [] raw")
  case (Inl e)
  with canonicalPrefixes_loop_iff [of h "[]" "[]" raw raw] refused [of e] show ?thesis
    by (auto simp: canonicalPrefixes_def canonical_list_def)
next
  case (Inr res)
  then have *: "(\<forall>v \<in> set raw. canonical_route h v) \<and> distinct raw \<and> res = raw"
    by (simp add: canonicalPrefixes_loop_iff)
  then have "overlapping_routes (sort raw) = Val (\<not> pairwise_disjoint (sort raw))"
    by (intro overlapping_routes_canonical [of _ h]) simp
  with Inr * accepted refused show ?thesis
    by (auto simp: canonicalPrefixes_def canonical_list_def Let_def split: if_splits)
qed

lemma canonicalPrefixes_Inr_iff:
  "canonicalPrefixes raw h = Val (Inr out) \<longleftrightarrow> canonical_list h raw \<and> out = sort raw"
  by (cases rule: canonicalPrefixes_cases [of h raw]) auto

lemma canonicalPrefixes_not_Panic: "canonicalPrefixes raw h \<noteq> Panic"
  by (cases rule: canonicalPrefixes_cases [of h raw]) auto

lemma pairwise_disjointD:
  "pairwise_disjoint rs \<Longrightarrow> r \<in> set rs \<Longrightarrow> s \<in> set rs \<Longrightarrow> r \<noteq> s \<Longrightarrow>
   addresses_of r \<inter> addresses_of s = {}"
  by (induction rs) (auto simp: pairwise_disjoint_def)

lemma canonical_listD:
  assumes "canonical_list h raw" "r \<in> set raw"
  shows "canonical_route h r"
  using assms by (simp add: canonical_list_def)

text \<open>Against canonical routes, the scan of \<open>prefixWithinAny\<close> does not panic.\<close>

definition prefix_within :: "prefix \<Rightarrow> string list \<Rightarrow> bool" where
  "prefix_within pfx routes \<longleftrightarrow>
     list_ex (\<lambda>r. case parsePrefix r of None \<Rightarrow> False
       | Some route \<Rightarrow> pfx_Bits route \<le> pfx_Bits pfx \<and> prefix_Contains route (pfx_Addr pfx)) routes"

lemma prefixWithinAny_canonical:
  "\<forall>r \<in> set routes. canonical_route h r \<Longrightarrow> prefixWithinAny pfx routes = Val (prefix_within pfx routes)"
  by (induction routes)
    (auto simp: prefix_within_def mustParsePrefix_def elim!: canonical_routeE split: option.splits)

lemma prefix_within_subset:
  assumes "prefix_within pfx routes" "wf_prefix pfx"
  shows "\<exists>r \<in> set routes. prefix_set pfx \<subseteq> addresses_of r"
proof -
  from assms(1) obtain r route where "r \<in> set routes" "parsePrefix r = Some route"
    "pfx_Bits route \<le> pfx_Bits pfx" "prefix_Contains route (pfx_Addr pfx)"
    by (auto simp: prefix_within_def list_ex_iff split: option.splits)
  with contains_subset [OF assms(2)] show ?thesis by (intro bexI [of _ r]) (simp_all add: addresses_of_def)
qed


end
