(* ===== verification/TunnelPlan_Safety.thy ===== *)
theory TunnelPlan_Safety
  imports TunnelPlan
begin

text \<open>
  What an accepted plan guarantees: \<open>buildTunnelPlan\<close> never panics, its routes are disjoint sets
  of addresses that a live lease or a live allow rule covers, its firewall rules put every
  protected deny before every broad allow, and its DNS servers answer inside the tunnel.
\<close>

subsection \<open>The lease table\<close>

definition lease_live :: "time \<Rightarrow> string \<Rightarrow> time \<Rightarrow> bool" where
  "lease_live now ident expires \<longleftrightarrow> identifierPattern ident \<and> expires > now"

text \<open>Every entry of the table comes from a lease of the kind it says.\<close>

definition table_from :: "NetworkLease list \<Rightarrow> ResourceLease list \<Rightarrow> (string \<Rightarrow> leaseState option) \<Rightarrow> bool" where
  "table_from nls rls leases \<longleftrightarrow>
     (\<forall>ident l. leases ident = Some l \<longrightarrow>
        ls_kind l = ''network'' \<and>
          (\<exists>lease \<in> set nls. nl_ID lease = ident \<and> nl_ExpiresAt lease = ls_expiry l) \<or>
        ls_kind l = ''resource'' \<and>
          (\<exists>lease \<in> set rls. rl_ID lease = ident \<and> rl_ExpiresAt lease = ls_expiry l))"

lemma network_lease_states_from:
  "network_lease_states ls now leases = Some leases' \<Longrightarrow> set ls \<subseteq> set nls \<Longrightarrow>
   table_from nls rls leases \<Longrightarrow> table_from nls rls leases'"
proof (induction ls arbitrary: leases)
  case (Cons lease ls)
  have "table_from nls rls (leases(nl_ID lease \<mapsto> \<lparr>ls_kind = ''network'', ls_expiry = nl_ExpiresAt lease\<rparr>))"
    using Cons.prems(2,3) by (auto simp: table_from_def)
  with Cons show ?case by (auto split: if_splits)
qed simp

lemma resource_lease_states_from:
  "resource_lease_states ls now leases = Some leases' \<Longrightarrow> set ls \<subseteq> set rls \<Longrightarrow>
   table_from nls rls leases \<Longrightarrow> table_from nls rls leases'"
proof (induction ls arbitrary: leases)
  case (Cons lease ls)
  have "table_from nls rls (leases(rl_ID lease \<mapsto> \<lparr>ls_kind = ''resource'', ls_expiry = rl_ExpiresAt lease\<rparr>))"
    using Cons.prems(2,3) by (auto simp: table_from_def)
  with Cons show ?case by (auto split: if_splits)
qed simp

lemma network_lease_states_live:
  "network_lease_states ls now leases = Some leases' \<Longrightarrow>
   \<forall>lease \<in> set ls. lease_live now (nl_ID lease) (nl_ExpiresAt lease)"
  by (induction ls arbitrary: leases) (auto simp: lease_live_def split: if_splits)

lemma resource_lease_states_live:
  "resource_lease_states ls now leases = Some leases' \<Longrightarrow>
   \<forall>lease \<in> set ls. lease_live now (rl_ID lease) (rl_ExpiresAt lease)"
  by (induction ls arbitrary: leases) (auto simp: lease_live_def split: if_splits)

subsection \<open>The order of the firewall rules\<close>

definition resource_allow :: "ResourceLease list \<Rightarrow> time \<Rightarrow> WireGuardFirewallRule \<Rightarrow> bool" where
  "resource_allow rls now rule \<longleftrightarrow>
     rule_Effect rule = ''allow'' \<and>
     (\<exists>lease \<in> set rls. \<exists>expires. rl_ID lease = rule_LeaseID rule \<and> rule_ExpiresAt rule = Some expires \<and>
        now < expires \<and> expires \<le> rl_ExpiresAt lease) \<and>
     rule_Protocol rule \<in> {''any'', ''tcp'', ''udp''} \<and>
     (rule_Protocol rule \<noteq> ''any'' \<longrightarrow> rule_Ports rule \<noteq> [])"

definition protected_deny :: "WireGuardFirewallRule \<Rightarrow> bool" where
  "protected_deny rule \<longleftrightarrow>
     rule_Effect rule = ''deny'' \<and> rule_Protocol rule = ''any'' \<and> rule_Ports rule = [] \<and>
     rule_LeaseID rule = [] \<and> rule_ExpiresAt rule = None"

definition network_allow :: "NetworkLease list \<Rightarrow> time \<Rightarrow> WireGuardFirewallRule \<Rightarrow> bool" where
  "network_allow nls now rule \<longleftrightarrow>
     rule_Effect rule = ''allow'' \<and>
     (\<exists>lease \<in> set nls. \<exists>expires. nl_ID lease = rule_LeaseID rule \<and> rule_ExpiresAt rule = Some expires \<and>
        now < expires \<and> expires \<le> nl_ExpiresAt lease) \<and>
     rule_Protocol rule = ''any'' \<and> rule_Ports rule = []"

definition rule_in_scope :: "string list \<Rightarrow> string list \<Rightarrow> WireGuardFirewallRule \<Rightarrow> bool" where
  "rule_in_scope addresses routes rule \<longleftrightarrow>
     rule_SourceCIDR rule \<in> set addresses \<and>
     (\<exists>destination. parsePrefix (rule_DestinationCIDR rule) = Some destination \<and>
        prefix_Masked destination = destination \<and> pfx_Bits destination \<noteq> 0) \<and>
     (\<exists>route \<in> set routes. addresses_of (rule_DestinationCIDR rule) \<subseteq> addresses_of route)"

lemma rule_phase_cases:
  assumes "rule_phase leases now phase rule = Some phase'" "table_from nls rls leases"
    "rule_Effect rule = ''allow'' \<or> rule_Effect rule = ''deny''"
  obtains (resource) "phase = 0" "phase' = 0" "resource_allow rls now rule"
    | (deny) "phase \<noteq> 2" "phase' = 1" "protected_deny rule"
    | (network) "phase' = 2" "network_allow nls now rule"
proof (cases "rule_Effect rule = ''deny''")
  case True
  with assms(1) deny show ?thesis
    by (auto simp: rule_phase_def protected_deny_def split: if_splits)
next
  case False
  with assms(1,3) obtain l expires where l: "leases (rule_LeaseID rule) = Some l"
    and e: "rule_ExpiresAt rule = Some expires" "now < expires" "expires \<le> ls_expiry l"
    and allow: "rule_Effect rule = ''allow''"
    by (auto simp: rule_phase_def split: option.splits if_splits)
  from l assms(2) consider
      (n) lease where "ls_kind l = ''network''" "lease \<in> set nls" "nl_ID lease = rule_LeaseID rule"
        "nl_ExpiresAt lease = ls_expiry l"
    | (r) lease where "ls_kind l = ''resource''" "lease \<in> set rls" "rl_ID lease = rule_LeaseID rule"
        "rl_ExpiresAt lease = ls_expiry l"
    unfolding table_from_def by blast
  then show ?thesis
  proof cases
    case n
    with assms(1) l e allow have "phase' = 2" "rule_Protocol rule = ''any''" "rule_Ports rule = []"
      by (auto simp: rule_phase_def split: if_splits)
    with n e allow have "network_allow nls now rule"
      by (auto simp: network_allow_def intro!: bexI [of _ lease])
    with \<open>phase' = 2\<close> show ?thesis by (rule network)
  next
    case r
    with assms(1) l e allow have "phase = 0" "phase' = 0"
      "rule_Protocol rule \<in> {''any'', ''tcp'', ''udp''}"
      "rule_Protocol rule \<noteq> ''any'' \<longrightarrow> rule_Ports rule \<noteq> []"
      by (auto simp: rule_phase_def split: if_splits)
    with r e allow have "resource_allow rls now rule"
      by (auto simp: resource_allow_def intro!: bexI [of _ lease])
    with \<open>phase = 0\<close> \<open>phase' = 0\<close> show ?thesis by (rule resource)
  qed
qed

definition firewall_split ::
  "NetworkLease list \<Rightarrow> ResourceLease list \<Rightarrow> time \<Rightarrow> nat \<Rightarrow> WireGuardFirewallRule list \<Rightarrow> bool" where
  "firewall_split nls rls now phase rules \<longleftrightarrow>
     (\<exists>allows denies broad. rules = allows @ denies @ broad \<and>
        (phase \<noteq> 0 \<longrightarrow> allows = []) \<and> (phase = 2 \<longrightarrow> denies = []) \<and>
        (\<forall>r \<in> set allows. resource_allow rls now r) \<and> (\<forall>r \<in> set denies. protected_deny r) \<and>
        (\<forall>r \<in> set broad. network_allow nls now r))"

lemma firewall_split_Cons:
  assumes "firewall_split nls rls now phase' rules" "rule_phase leases now phase rule = Some phase'"
    "table_from nls rls leases" "rule_Effect rule = ''allow'' \<or> rule_Effect rule = ''deny''"
  shows "firewall_split nls rls now phase (rule # rules)"
proof -
  from assms(1) obtain as ds bs where *: "rules = as @ ds @ bs" "phase' \<noteq> 0 \<longrightarrow> as = []"
    "phase' = 2 \<longrightarrow> ds = []" "\<forall>r \<in> set as. resource_allow rls now r"
    "\<forall>r \<in> set ds. protected_deny r" "\<forall>r \<in> set bs. network_allow nls now r"
    unfolding firewall_split_def by blast
  from assms(2-4) show ?thesis
  proof (cases rule: rule_phase_cases)
    case resource
    with * show ?thesis unfolding firewall_split_def
      by (intro exI [of _ "rule # as"] exI [of _ ds] exI [of _ bs]) simp
  next
    case deny
    with * show ?thesis unfolding firewall_split_def
      by (intro exI [of _ "[]"] exI [of _ "rule # ds"] exI [of _ bs]) simp
  next
    case network
    with * show ?thesis unfolding firewall_split_def
      by (intro exI [of _ "[]"] exI [of _ "[]"] exI [of _ "rule # bs"]) simp
  qed
qed

lemma validFirewallRules_loop_run:
  assumes "\<forall>r \<in> set routes. canonical_route h r"
  shows "validFirewallRules_loop addresses leases routes now seen phase rules \<noteq> Panic"
  by (induction rules arbitrary: seen phase)
    (auto simp: prefixWithinAny_canonical [OF assms] split: option.split)

lemma validFirewallRules_loop_split:
  assumes "\<forall>r \<in> set routes. canonical_route h r" "table_from nls rls leases"
    "validFirewallRules_loop addresses leases routes now seen phase rules = Val True"
  shows "firewall_split nls rls now phase rules \<and> (\<forall>r \<in> set rules. rule_in_scope addresses routes r) \<and>
         distinct (map rule_ID rules) \<and> set (map rule_ID rules) \<inter> set seen = {}"
  using assms(3)
proof (induction rules arbitrary: seen phase)
  case Nil
  show ?case by (simp add: firewall_split_def)
next
  case (Cons rule rules)
  from Cons.prems obtain destination phase' where
    shape: "rule_shape_ok addresses rule" and fresh: "rule_ID rule \<notin> set seen" and
    dest: "parsePrefix (rule_DestinationCIDR rule) = Some destination" "prefix_Masked destination = destination"
      "pfx_Bits destination \<noteq> 0" and
    within: "prefix_within destination routes" and
    phase: "rule_phase leases now phase rule = Some phase'" and
    rest: "validFirewallRules_loop addresses leases routes now (rule_ID rule # seen) phase' rules = Val True"
    by (auto simp: prefixWithinAny_canonical [OF assms(1)] split: option.splits if_splits)
  from shape have effect: "rule_Effect rule = ''allow'' \<or> rule_Effect rule = ''deny''"
    and source: "rule_SourceCIDR rule \<in> set addresses"
    by (auto simp: rule_shape_ok_def)
  from prefix_within_subset [OF within parsePrefix_wf [OF dest(1)]] dest source
  have "rule_in_scope addresses routes rule"
    by (simp add: rule_in_scope_def addresses_of_def)
  moreover note Cons.IH [OF rest]
  moreover from this have "firewall_split nls rls now phase (rule # rules)"
    using firewall_split_Cons [OF _ phase assms(2) effect] by blast
  ultimately show ?case using fresh by auto
qed

lemma validFirewallRules_run:
  assumes "\<forall>r \<in> set routes. canonical_route h r"
  shows "validFirewallRules rules addresses nls rls routes now \<noteq> Panic"
  using validFirewallRules_loop_run [OF assms] by (simp add: validFirewallRules_def split: option.split)

lemma validFirewallRules_safe:
  assumes "\<forall>r \<in> set routes. canonical_route h r"
    "validFirewallRules rules addresses nls rls routes now = Val True"
  shows "firewall_split nls rls now 0 rules \<and> (\<forall>r \<in> set rules. rule_in_scope addresses routes r) \<and>
         distinct (map rule_ID rules) \<and>
         (\<forall>l \<in> set nls. lease_live now (nl_ID l) (nl_ExpiresAt l)) \<and>
         (\<forall>l \<in> set rls. lease_live now (rl_ID l) (rl_ExpiresAt l))"
proof -
  from assms(2) obtain networks leases where
    n: "network_lease_states nls now (\<lambda>_. None) = Some networks" and
    r: "resource_lease_states rls now networks = Some leases" and
    loop: "validFirewallRules_loop addresses leases routes now [] 0 rules = Val True"
    by (auto simp: validFirewallRules_def split: option.splits if_splits)
  have "table_from nls rls (\<lambda>_. None)" by (simp add: table_from_def)
  with n r have "table_from nls rls leases"
    by (meson network_lease_states_from resource_lease_states_from order_refl)
  with validFirewallRules_loop_split [OF assms(1) _ loop] network_lease_states_live [OF n]
    resource_lease_states_live [OF r]
  show ?thesis by simp
qed

subsection \<open>Coverage of the routes\<close>

definition network_lease_covers :: "NetworkLease list \<Rightarrow> time \<Rightarrow> string \<Rightarrow> bool" where
  "network_lease_covers nls now route \<longleftrightarrow>
     (\<exists>lease \<in> set nls. lease_live now (nl_ID lease) (nl_ExpiresAt lease) \<and>
        (\<exists>cidr \<in> set (nl_CIDRs lease). addresses_of route \<subseteq> addresses_of cidr))"

definition resource_rule_covers ::
  "ResourceLease list \<Rightarrow> WireGuardFirewallRule list \<Rightarrow> time \<Rightarrow> string \<Rightarrow> bool" where
  "resource_rule_covers rls rules now route \<longleftrightarrow>
     (\<exists>rule \<in> set rules. rule_Effect rule = ''allow'' \<and>
        (\<exists>lease \<in> set rls. rl_ID lease = rule_LeaseID rule \<and>
           lease_live now (rl_ID lease) (rl_ExpiresAt lease)) \<and>
        addresses_of route \<subseteq> addresses_of (rule_DestinationCIDR rule))"

lemma covered_by_network_covers:
  assumes "covered_by_network nls now pfx" "parsePrefix route = Some pfx"
  shows "network_lease_covers nls now route"
proof -
  from assms(1) obtain lease cidr leasePrefix where
    "lease \<in> set nls" "identifierPattern (nl_ID lease)" "nl_ExpiresAt lease > now"
    "cidr \<in> set (nl_CIDRs lease)" "parsePrefix cidr = Some leasePrefix"
    "pfx_Bits leasePrefix \<le> pfx_Bits pfx" "prefix_Contains leasePrefix (pfx_Addr pfx)"
    by (auto simp: covered_by_network_def cidr_covers_def list_ex_iff split: option.splits)
  with contains_subset [OF parsePrefix_wf [OF assms(2)]] assms(2) show ?thesis
    unfolding network_lease_covers_def
    by (intro bexI [of _ lease] conjI bexI [of _ cidr]) (simp_all add: lease_live_def addresses_of_def)
qed

lemma covered_by_rules_run:
  "\<forall>r \<in> set rules. rule_in_scope addresses routes r \<Longrightarrow>
   covered_by_rules rls now pfx covered rules \<noteq> Panic"
  by (induction rules arbitrary: covered) (auto simp: rule_in_scope_def mustParsePrefix_def)

lemma covered_by_rules_covers:
  assumes "covered_by_rules rls now pfx covered rules = Val True" "parsePrefix route = Some pfx"
    "set rules \<subseteq> set all_rules"
  shows "covered \<or> resource_rule_covers rls all_rules now route"
  using assms(1,3)
proof (induction rules arbitrary: covered)
  case (Cons rule rules)
  show ?case
  proof (cases "rule_Effect rule = ''allow'' \<and> resourceLeaseLive rls (rule_LeaseID rule) now")
    case True
    then obtain destination where d: "parsePrefix (rule_DestinationCIDR rule) = Some destination"
      and rest: "covered_by_rules rls now pfx (covered \<or> (pfx_Bits destination \<le> pfx_Bits pfx \<and>
          prefix_Contains destination (pfx_Addr pfx))) rules = Val True"
      using Cons.prems(1) by (auto simp: mustParsePrefix_def split: option.splits)
    have "pfx_Bits destination \<le> pfx_Bits pfx \<and> prefix_Contains destination (pfx_Addr pfx) \<Longrightarrow>
        resource_rule_covers rls all_rules now route"
      using contains_subset [OF parsePrefix_wf [OF assms(2)], of destination] True d assms(2) Cons.prems(2)
      by (auto simp: resource_rule_covers_def resourceLeaseLive_def list_ex_iff lease_live_def
          addresses_of_def intro!: bexI [of _ rule])
    with Cons.IH [OF rest] Cons.prems(2) show ?thesis by auto
  next
    case False
    with Cons show ?thesis by (auto split: if_splits)
  qed
qed simp

lemma routesCoveredByLeases_run:
  assumes "\<forall>r \<in> set rules. rule_in_scope addresses all_routes r"
    "\<forall>r \<in> set routes. canonical_route h r"
  shows "routesCoveredByLeases routes nls rls rules now \<noteq> Panic"
  using assms(2)
proof (induction routes)
  case (Cons route routes)
  then have "canonical_route h route" by simp
  then obtain p where p: "parsePrefix route = Some p" by (rule canonical_routeE)
  from covered_by_rules_run [OF assms(1)] obtain b where
    "covered_by_rules rls now p (covered_by_network nls now p) rules = Val b"
    unfolding run_not_Panic by blast
  with Cons p show ?case by (simp add: mustParsePrefix_def)
qed simp

lemma routesCoveredByLeases_covers:
  assumes "routesCoveredByLeases routes nls rls rules now = Val True" "route \<in> set routes"
  shows "network_lease_covers nls now route \<or> resource_rule_covers rls rules now route"
  using assms
proof (induction routes)
  case (Cons r routes)
  then obtain p where p: "parsePrefix r = Some p"
    and c: "covered_by_rules rls now p (covered_by_network nls now p) rules = Val True"
    and rest: "routesCoveredByLeases routes nls rls rules now = Val True"
    by (auto simp: mustParsePrefix_def run_bind_Val_iff split: option.splits if_splits)
  from covered_by_rules_covers [OF c p order_refl] covered_by_network_covers [OF _ p]
    Cons.IH [OF rest] Cons.prems(2)
  show ?case by auto
qed simp

subsection \<open>DNS servers\<close>

definition dns_server_inside :: "string list \<Rightarrow> string \<Rightarrow> bool" where
  "dns_server_inside routes raw \<longleftrightarrow>
     (\<exists>address. parseAddr raw = Some address \<and> addr_String address = raw \<and>
        addr_IsGlobalUnicast address \<and>
        (\<exists>route \<in> set routes. addr_WithoutZone address \<in> addresses_of route))"

lemma wf_prefixFrom: "wf_prefix (prefixFrom a (addr_BitLen a))"
  by (auto simp: wf_prefix_def prefixFrom_def addr_WithoutZone_def addr_Zone_def addr_BitLen_def
      split: addr.splits)

lemma prefixFrom_self: "addr_WithoutZone a \<in> prefix_set (prefixFrom a (addr_BitLen a))"
  using contains_self [OF wf_prefixFrom, of a] by (simp add: prefix_set_def prefixFrom_def)

lemma plan_dns_servers_run:
  assumes "\<forall>r \<in> set routes. canonical_route h r"
  shows "plan_dns_servers routes seen acc raws \<noteq> Panic"
  by (induction raws arbitrary: seen acc)
    (auto simp: prefixWithinAny_canonical [OF assms] split: option.split)

lemma plan_dns_servers_inside:
  assumes "\<forall>r \<in> set routes. canonical_route h r"
    "plan_dns_servers routes seen acc raws = Val (Inr out)"
  shows "out = acc @ raws \<and> distinct raws \<and> (\<forall>raw \<in> set raws. dns_server_inside routes raw) \<and>
         set raws \<inter> set seen = {}"
  using assms(2)
proof (induction raws arbitrary: seen acc)
  case (Cons raw raws)
  then obtain address where a: "parseAddr raw = Some address" "addr_IsGlobalUnicast address"
      "addr_String address = raw"
    and within: "prefix_within (prefixFrom address (addr_BitLen address)) routes"
    and fresh: "raw \<notin> set seen"
    and rest: "plan_dns_servers routes (raw # seen) (acc @ [raw]) raws = Val (Inr out)"
    by (auto simp: prefixWithinAny_canonical [OF assms(1)] split: option.splits if_splits)
  from prefix_within_subset [OF within wf_prefixFrom] prefixFrom_self a
  have "dns_server_inside routes raw" by (auto simp: dns_server_inside_def)
  with Cons.IH [OF rest] fresh show ?case by auto
qed simp

subsection \<open>The plan\<close>

text \<open>The intermediate results of an accepted plan, in the order \<open>buildTunnelPlan\<close> computes them.\<close>

lemma buildTunnelPlan_accepted:
  assumes "buildTunnelPlan wgt desired wg privateKey publicKey now = Val (Inr plan)"
  obtains dnsServers where
    "canonical_list True (wg_Addresses wg)" "canonical_list False (wg_Routes wg)"
    "wg_Addresses wg \<noteq> []" "length (wg_Addresses wg) \<le> 8"
    "wg_Routes wg \<noteq> []" "length (wg_Routes wg) \<le> 256"
    "length (wg_Peers wg) = 1" "sort (peer_AllowedIPs (wg_Peers wg ! 0)) = sort (wg_Routes wg)"
    "plan_dns_servers (sort (wg_Routes wg)) [] [] (wg_DNSServers wg) = Val (Inr dnsServers)"
    "length dnsServers \<le> 8"
    "validFirewallRules (wg_FirewallRules wg) (sort (wg_Addresses wg)) (cd_NetworkLeases desired)
       (cd_ResourceLeases desired) (sort (wg_Routes wg)) now = Val True"
    "routesCoveredByLeases (sort (wg_Routes wg)) (cd_NetworkLeases desired) (cd_ResourceLeases desired)
       (wg_FirewallRules wg) now = Val True"
    "tp_Addresses plan = Some (sort (wg_Addresses wg))" "tp_Routes plan = Some (sort (wg_Routes wg))"
    "tpr_AllowedIPs (tp_Peer plan) = Some (sort (wg_Routes wg))"
    "tp_DNSServers plan = Some (sort dnsServers)" "tp_PublicKey plan = publicKey"
    "now < cd_ValidUntil desired"
  using assms unfolding buildTunnelPlan_def Let_def
proof (elim early_returnE, goal_cases)
  case (1 addressesR addresses routesR routes peerKey allowedR allowedIPs dnsR dnsServers firewall covered)
  have hd: "now < cd_ValidUntil desired" "length (wg_Peers wg) = 1" using 1(2) by simp_all
  have a: "canonical_list True (wg_Addresses wg)" "addresses = sort (wg_Addresses wg)"
    "wg_Addresses wg \<noteq> []" "length (wg_Addresses wg) \<le> 8"
    using 1(3,4,5) by (auto simp: canonicalPrefixes_Inr_iff)
  have r: "canonical_list False (wg_Routes wg)" "routes = sort (wg_Routes wg)"
    "wg_Routes wg \<noteq> []" "length (wg_Routes wg) \<le> 256"
    using 1(6,7,8) by (auto simp: canonicalPrefixes_Inr_iff)
  have p: "sort (peer_AllowedIPs (wg_Peers wg ! 0)) = sort (wg_Routes wg)" "allowedIPs = sort (wg_Routes wg)"
    using 1(11,12,13) r(2) by (auto simp: canonicalPrefixes_Inr_iff)
  show ?case
    using 1(14-) a r p hd by (intro 1(1)) (auto simp: not_less)
qed

lemma buildTunnelPlan_canonical_routes:
  assumes "buildTunnelPlan wgt desired wg privateKey publicKey now = Val (Inr plan)"
  shows "\<forall>r \<in> set (sort (wg_Routes wg)). canonical_route False r"
  using assms by (rule buildTunnelPlan_accepted) (simp add: canonical_listD)

subsection \<open>A configuration that is accepted\<close>

text \<open>
  One network lease, one resource lease, a resource allow before a protected deny before the
  broad allow. The key functions stand for \<open>wgtypes\<close>: keys are their own text.
\<close>

definition sample_wgt :: wgtypes where
  "sample_wgt = \<lparr>wgt_ParseKey = (\<lambda>s. if s = [] then None else Some s), wgt_PublicKey = rev, wgt_String = id\<rparr>"

definition sample_rule :: "string \<Rightarrow> string \<Rightarrow> string \<Rightarrow> string \<Rightarrow> time option \<Rightarrow> WireGuardFirewallRule" where
  "sample_rule ident effect lease destination expires =
     \<lparr>rule_ID = ident, rule_Effect = effect, rule_LeaseID = lease, rule_SourceCIDR = ''100.64.0.2/32'',
      rule_DestinationCIDR = destination, rule_Protocol = ''any'', rule_Ports = [],
      rule_ExpiresAt = expires\<rparr>"

definition sample_wg :: WireGuardConfiguration where
  "sample_wg =
     \<lparr>wg_DNSRecords = [], wg_Role = ''endpoint'', wg_InterfaceName = ''soha0'', wg_PublicKey = ''yek'',
      wg_Addresses = [''100.64.0.2/32''], wg_ListenPort = 0, wg_MTU = 1420, wg_RoutingMode = ''routed'',
      wg_FirewallDefault = ''deny'',
      wg_Peers = [\<lparr>peer_RuntimeID = ''gw1'', peer_DeviceID = [], peer_PublicKey = ''gateway'',
                   peer_EndpointHost = ''vpn.example.org'', peer_EndpointPort = 51820,
                   peer_AllowedIPs = [''10.1.0.0/16'', ''10.0.0.0/16''],
                   peer_PersistentKeepaliveSeconds = 25\<rparr>],
      wg_Routes = [''10.1.0.0/16'', ''10.0.0.0/16''], wg_DNSServers = [''10.0.0.53''],
      wg_FirewallRules =
        [sample_rule ''r1'' ''allow'' ''res'' ''10.1.0.0/16'' (Some 900),
         sample_rule ''r2'' ''deny'' [] ''10.0.7.0/24'' None,
         sample_rule ''r3'' ''allow'' ''net'' ''10.0.0.0/16'' (Some 900)]\<rparr>"

definition sample_network_lease :: NetworkLease where
  "sample_network_lease =
     \<lparr>nl_ID = ''net'', nl_SessionID = ''s'', nl_SubjectID = ''u'', nl_DeviceID = ''d'',
      nl_NetworkSpaceID = ''n'', nl_CIDRs = [''10.0.0.0/8''], nl_PolicyVersion = 1, nl_IssuedAt = 1,
      nl_ExpiresAt = 1000\<rparr>"

definition sample_resource_lease :: ResourceLease where
  "sample_resource_lease =
     \<lparr>rl_ID = ''res'', rl_SessionID = ''s'', rl_SubjectID = ''u'', rl_DeviceID = ''d'',
      rl_ResourceIDs = [''r''], rl_PolicyVersion = 1, rl_IssuedAt = 1, rl_ExpiresAt = 1000\<rparr>"

definition sample_desired :: ConfigurationDesired where
  "sample_desired =
     \<lparr>cd_Admission = None, cd_ConfigurationVersion = 1, cd_PolicyVersion = 1, cd_ValidUntil = 1000,
      cd_AccessProfile = [], cd_ProtectedResourceIDs = [], cd_NetworkLeases = [sample_network_lease],
      cd_ResourceLeases = [sample_resource_lease], cd_RuntimeIntervals = None,
      cd_WireGuard = Some sample_wg, cd_Mihomo = None\<rparr>"

definition sample_plan :: TunnelPlan where
  "sample_plan =
     \<lparr>tp_PrivateKey = ''key'', tp_PublicKey = ''yek'', tp_Addresses = Some [''100.64.0.2/32''],
      tp_MTU = 1420,
      tp_Peer = \<lparr>tpr_PublicKey = ''gateway'', tpr_Endpoint = ''vpn.example.org:51820'',
                 tpr_AllowedIPs = Some [''10.0.0.0/16'', ''10.1.0.0/16''],
                 tpr_PersistentKeepaliveSeconds = 25\<rparr>,
      tp_Routes = Some [''10.0.0.0/16'', ''10.1.0.0/16''], tp_DNSServers = Some [''10.0.0.53'']\<rparr>"

lemma sample_accepted:
  "buildTunnelPlan sample_wgt sample_desired sample_wg ''key'' ''yek'' 10 = Val (Inr sample_plan)"
  by code_simp

subsection \<open>Properties\<close>

lemma buildTunnelPlan_total:
  "buildTunnelPlan wgt desired wg privateKey publicKey now \<noteq> Panic"
proof
  have fire: "validFirewallRules rules addresses nls rls (sort raw) t \<noteq> Panic"
    and dns: "plan_dns_servers (sort raw) [] [] servers \<noteq> Panic"
    if "canonical_list False raw" for raw rules addresses nls rls servers t
    using that by (auto intro!: validFirewallRules_run plan_dns_servers_run dest: canonical_listD)
  have cover: "routesCoveredByLeases (sort raw) nls rls rules t \<noteq> Panic"
    if "canonical_list False raw" "validFirewallRules rules addresses nls rls (sort raw) t = Val True"
    for raw rules addresses nls rls t
  proof (rule routesCoveredByLeases_run)
    show canon: "\<forall>r \<in> set (sort raw). canonical_route False r" using that(1) by (simp add: canonical_listD)
    show "\<forall>r \<in> set rules. rule_in_scope addresses (sort raw) r"
      using validFirewallRules_safe [OF canon that(2)] by simp
  qed
  assume "buildTunnelPlan wgt desired wg privateKey publicKey now = Panic"
  then show False
    unfolding buildTunnelPlan_def Let_def
    by (elim panicE) (auto simp: canonicalPrefixes_not_Panic canonicalPrefixes_Inr_iff fire dns cover)
qed


text \<open>C1: an accepted plan routes canonical prefixes only, none of them a default route, sorted and
  without duplicates, with pairwise disjoint sets of addresses; the peer's allowed addresses are
  the same list.\<close>

theorem accepted_plan_routes_disjoint:
  assumes "buildTunnelPlan wgt desired wg privateKey publicKey now = Val (Inr plan)"
  shows "\<exists>routes. tp_Routes plan = Some routes \<and> tpr_AllowedIPs (tp_Peer plan) = Some routes \<and>
           routes = sort (wg_Routes wg) \<and> routes \<noteq> [] \<and> length routes \<le> 256 \<and> sorted_wrt (<) routes \<and>
           (\<forall>r \<in> set routes. \<exists>p. parsePrefix r = Some p \<and> prefix_String p = r \<and>
              prefix_Masked p = p \<and> pfx_Bits p \<noteq> 0 \<and> addr_IsGlobalUnicast (pfx_Addr p)) \<and>
           (\<forall>r \<in> set routes. \<forall>s \<in> set routes. r \<noteq> s \<longrightarrow> addresses_of r \<inter> addresses_of s = {})"
  using assms
proof (rule buildTunnelPlan_accepted)
  assume list: "canonical_list False (wg_Routes wg)"
    and plan: "tp_Routes plan = Some (sort (wg_Routes wg))" "wg_Routes wg \<noteq> []"
      "length (wg_Routes wg) \<le> 256" "tpr_AllowedIPs (tp_Peer plan) = Some (sort (wg_Routes wg))"
  have "sorted_wrt (<) (sort (wg_Routes wg))"
    using list by (simp add: canonical_list_def strict_sorted_iff)
  moreover have "\<exists>p. parsePrefix r = Some p \<and> prefix_String p = r \<and> prefix_Masked p = p \<and>
      pfx_Bits p \<noteq> 0 \<and> addr_IsGlobalUnicast (pfx_Addr p)" if "r \<in> set (wg_Routes wg)" for r
    using canonical_listD [OF list that] by (auto simp: canonical_route_def split: option.splits)
  moreover have "addresses_of r \<inter> addresses_of s = {}"
    if "r \<in> set (wg_Routes wg)" "s \<in> set (wg_Routes wg)" "r \<noteq> s" for r s
    using pairwise_disjointD [of "sort (wg_Routes wg)" r s] list that by (simp add: canonical_list_def)
  ultimately show ?thesis using plan by simp
qed

theorem accepted_plan_routes_disjoint_witness:
  "\<exists>routes. tp_Routes sample_plan = Some routes \<and> routes \<noteq> []"
  using accepted_plan_routes_disjoint [OF sample_accepted] by blast

text \<open>C2: every route of an accepted plan lies, as a set of addresses, inside a CIDR of a network lease
  that has not expired, or inside the destination of an allow rule whose resource lease has not
  expired: a configuration cannot route traffic that no live lease authorizes.\<close>

theorem accepted_plan_routes_authorized:
  assumes "buildTunnelPlan wgt desired wg privateKey publicKey now = Val (Inr plan)"
    "tp_Routes plan = Some routes" "route \<in> set routes"
  shows "network_lease_covers (cd_NetworkLeases desired) now route \<or>
         resource_rule_covers (cd_ResourceLeases desired) (wg_FirewallRules wg) now route"
  using assms(1)
proof (rule buildTunnelPlan_accepted)
  assume cov: "routesCoveredByLeases (sort (wg_Routes wg)) (cd_NetworkLeases desired)
      (cd_ResourceLeases desired) (wg_FirewallRules wg) now = Val True"
    and "tp_Routes plan = Some (sort (wg_Routes wg))"
  with assms(2,3) show ?thesis using routesCoveredByLeases_covers [OF cov] by simp
qed

theorem accepted_plan_routes_authorized_witness:
  "network_lease_covers [sample_network_lease] 10 ''10.0.0.0/16'' \<or>
   resource_rule_covers [sample_resource_lease] (wg_FirewallRules sample_wg) 10 ''10.0.0.0/16''"
  using accepted_plan_routes_authorized [OF sample_accepted, of "[''10.0.0.0/16'', ''10.1.0.0/16'']" "''10.0.0.0/16''"]
  by (simp add: sample_plan_def sample_desired_def)

text \<open>the firewall rules of an accepted configuration are resource allows, then protected denies,
  then broad network allows, so that a deny is never preceded by a broad allow; every rule has an
  own address as source and a destination inside a route; an allow ends no later than a live
  lease it names.\<close>

theorem accepted_plan_firewall_ordered:
  assumes "buildTunnelPlan wgt desired wg privateKey publicKey now = Val (Inr plan)"
  shows "(\<exists>allows denies broad. wg_FirewallRules wg = allows @ denies @ broad \<and>
           (\<forall>r \<in> set allows. resource_allow (cd_ResourceLeases desired) now r) \<and>
           (\<forall>r \<in> set denies. protected_deny r) \<and>
           (\<forall>r \<in> set broad. network_allow (cd_NetworkLeases desired) now r)) \<and>
         (\<forall>r \<in> set (wg_FirewallRules wg). rule_in_scope (wg_Addresses wg) (wg_Routes wg) r) \<and>
         (\<forall>l \<in> set (cd_NetworkLeases desired). lease_live now (nl_ID l) (nl_ExpiresAt l)) \<and>
         (\<forall>l \<in> set (cd_ResourceLeases desired). lease_live now (rl_ID l) (rl_ExpiresAt l))"
  using assms
proof (rule buildTunnelPlan_accepted)
  assume "validFirewallRules (wg_FirewallRules wg) (sort (wg_Addresses wg)) (cd_NetworkLeases desired)
       (cd_ResourceLeases desired) (sort (wg_Routes wg)) now = Val True"
  from validFirewallRules_safe [OF buildTunnelPlan_canonical_routes [OF assms] this]
  show ?thesis by (simp add: firewall_split_def rule_in_scope_def)
qed

theorem accepted_plan_firewall_ordered_witness:
  "\<exists>allows denies broad. wg_FirewallRules sample_wg = allows @ denies @ broad \<and>
     (\<forall>r \<in> set allows. resource_allow [sample_resource_lease] 10 r) \<and> (\<forall>r \<in> set denies. protected_deny r) \<and>
     (\<forall>r \<in> set broad. network_allow [sample_network_lease] 10 r)"
  using accepted_plan_firewall_ordered [OF sample_accepted] by (simp add: sample_desired_def)

text \<open>the DNS servers of an accepted plan are at most eight, sorted, without duplicates, and each is
  the canonical text of a unicast address inside a route of the plan: a name is never resolved
  outside the tunnel.\<close>

theorem accepted_plan_dns_inside:
  assumes "buildTunnelPlan wgt desired wg privateKey publicKey now = Val (Inr plan)"
  shows "\<exists>servers routes. tp_DNSServers plan = Some servers \<and> tp_Routes plan = Some routes \<and>
           servers = sort (wg_DNSServers wg) \<and> length servers \<le> 8 \<and> sorted_wrt (<) servers \<and>
           (\<forall>s \<in> set servers. dns_server_inside routes s)"
  using assms
proof (rule buildTunnelPlan_accepted)
  fix dnsServers
  assume dns: "plan_dns_servers (sort (wg_Routes wg)) [] [] (wg_DNSServers wg) = Val (Inr dnsServers)"
    and plan: "length dnsServers \<le> 8" "tp_DNSServers plan = Some (sort dnsServers)"
      "tp_Routes plan = Some (sort (wg_Routes wg))"
  from plan_dns_servers_inside [OF buildTunnelPlan_canonical_routes [OF assms] dns] plan
  show ?thesis by (auto simp: strict_sorted_iff)
qed

theorem accepted_plan_dns_inside_witness:
  "\<exists>servers routes. tp_DNSServers sample_plan = Some servers \<and> tp_Routes sample_plan = Some routes \<and>
     (\<forall>s \<in> set servers. dns_server_inside routes s)"
  using accepted_plan_dns_inside [OF sample_accepted] by blast

end
