(* ===== verification/Wireguard_Config.thy ===== *)
theory Wireguard_Config
  imports TunnelPlan
begin

text \<open>
  \<open>wireguard_config.go\<close>: the text of the tunnel configuration, and the comparison of the routes of
  the interface with the routes of the plan.
\<close>

definition texts :: "string list option \<Rightarrow> string list" where
  "texts xs = (case xs of None \<Rightarrow> [] | Some xs \<Rightarrow> xs)"

abbreviation (input) newline :: string where "newline \<equiv> [CHR 0x0A]"

definition renderWireGuardConfig :: "TunnelPlan \<Rightarrow> string" where
  "renderWireGuardConfig plan =
     ''[Interface]'' @ newline @ ''PrivateKey = '' @ tp_PrivateKey plan @ newline @
     ''Address = '' @ strings_Join (texts (tp_Addresses plan)) '', '' @ newline @
     (if texts (tp_DNSServers plan) \<noteq> []
      then ''DNS = '' @ strings_Join (texts (tp_DNSServers plan)) '', '' @ newline else []) @
     ''MTU = '' @ string_of_int (tp_MTU plan) @ newline @ newline @ ''[Peer]'' @ newline @
     ''PublicKey = '' @ tpr_PublicKey (tp_Peer plan) @ newline @
     ''AllowedIPs = '' @ strings_Join (texts (tpr_AllowedIPs (tp_Peer plan))) '', '' @ newline @
     ''Endpoint = '' @ tpr_Endpoint (tp_Peer plan) @ newline @
     ''PersistentKeepalive = '' @ string_of_int (tpr_PersistentKeepaliveSeconds (tp_Peer plan)) @ newline"

text \<open>The two maps of texts; a range over a map meets its keys in any order, and \<open>pick\<close> is
  the first. The messages leave out the quotes of \<open>%q\<close>.\<close>

fun parsed_routes :: "string \<Rightarrow> string list \<Rightarrow> string list fallible" where
  "parsed_routes invalid [] = Inr []"
| "parsed_routes invalid (raw # rest) =
     (case parsePrefix raw of
        None \<Rightarrow> Inl (ErrorNew (invalid @ raw))
      | Some prefix \<Rightarrow>
          (case parsed_routes invalid rest of
             Inl err \<Rightarrow> Inl err | Inr routes \<Rightarrow> Inr (prefix_String (prefix_Masked prefix) # routes)))"

definition route_ignored :: "prefix \<Rightarrow> bool" where
  "route_ignored prefix \<longleftrightarrow>
     addr_IsMulticast (pfx_Addr prefix) \<or> parsePrefix ''255.255.255.255/32'' = Some prefix"

fun actual_routes :: "(string list \<Rightarrow> string) \<Rightarrow> string list \<Rightarrow> string list \<Rightarrow> prefix list \<Rightarrow> error" where
  "actual_routes pick allowed missing [] =
     (if missing = [] then None else Some (ErrorNew (''WireGuard route '' @ pick missing @ '' was not installed'')))"
| "actual_routes pick allowed missing (route # rest) =
     (let prefix = prefix_Masked route; value = prefix_String prefix
      in if route_ignored prefix then actual_routes pick allowed missing rest
         else if value \<notin> set allowed then Some (ErrorNew (''WireGuard interface has unexpected route '' @ value))
         else actual_routes pick allowed (removeAll value missing) rest)"

definition verifyRouteSet :: "(string list \<Rightarrow> string) \<Rightarrow> prefix list \<Rightarrow> string list \<Rightarrow> string list \<Rightarrow> error" where
  "verifyRouteSet pick actual required allowedExtras =
     (case parsed_routes ''invalid expected route '' required of
        Inl err \<Rightarrow> Some err
      | Inr required \<Rightarrow>
          (case parsed_routes ''invalid allowed route '' allowedExtras of
             Inl err \<Rightarrow> Some err
           | Inr extras \<Rightarrow> actual_routes pick (required @ extras) required actual))"

subsection \<open>What is verified\<close>

text \<open>A route as the text that is compared, and the routes of the interface that count.\<close>

definition route_text :: "prefix \<Rightarrow> string" where "route_text p = prefix_String (prefix_Masked p)"

definition counted :: "prefix list \<Rightarrow> string set" where
  "counted actual = route_text ` {p \<in> set actual. \<not> route_ignored (prefix_Masked p)}"

definition stated :: "string list \<Rightarrow> string set" where
  "stated raws = {route_text p | raw p. raw \<in> set raws \<and> parsePrefix raw = Some p}"

definition all_parse :: "string list \<Rightarrow> bool" where
  "all_parse raws \<longleftrightarrow> (\<forall>raw \<in> set raws. parsePrefix raw \<noteq> None)"

lemma stated_Cons:
  assumes "parsePrefix raw = Some p"
  shows "stated (raw # raws) = insert (route_text p) (stated raws)"
proof -
  have "stated raws' = {t. \<exists>raw \<in> set raws'. \<exists>p. parsePrefix raw = Some p \<and> t = route_text p}" for raws'
    by (auto simp: stated_def)
  with assms show ?thesis by auto
qed

lemma parsed_routes_stated: "parsed_routes invalid raws = Inr rs \<Longrightarrow> all_parse raws \<and> set rs = stated raws"
proof (induction raws arbitrary: rs)
  case (Cons raw raws)
  then obtain p rs' where "parsePrefix raw = Some p" "parsed_routes invalid raws = Inr rs'" "rs = route_text p # rs'"
    by (auto simp: route_text_def split: option.splits sum.splits)
  with Cons.IH [of rs'] show ?case by (simp add: stated_Cons all_parse_def)
qed (simp add: all_parse_def stated_def)

lemma parsed_routes_fails: "parsed_routes invalid raws = Inl err \<Longrightarrow> \<not> all_parse raws"
  by (induction raws) (auto simp: all_parse_def split: option.splits sum.splits)

lemma actual_routes_iff:
  "actual_routes pick allowed missing actual = None \<longleftrightarrow>
     counted actual \<subseteq> set allowed \<and> set missing \<subseteq> counted actual"
proof (induction actual arbitrary: missing)
  case (Cons p actual)
  have "counted (p # actual) =
      (if route_ignored (prefix_Masked p) then {} else {route_text p}) \<union> counted actual"
    by (auto simp: counted_def)
  with Cons.IH show ?case by (auto simp: Let_def route_text_def)
qed (simp add: counted_def)

text \<open>C34: the check of the routes of the interface is exact. It succeeds if and only if every expected and every
  allowed route can be parsed, every route of the interface that is neither multicast nor the
  limited broadcast is expected or allowed, and every expected route is among them.\<close>

theorem verified_routes_exact:
  "verifyRouteSet pick actual required extras = None \<longleftrightarrow>
     all_parse required \<and> all_parse extras \<and>
     counted actual \<subseteq> stated required \<union> stated extras \<and> stated required \<subseteq> counted actual"
proof (cases "parsed_routes ''invalid expected route '' required")
  case (Inl err)
  with parsed_routes_fails [OF this] show ?thesis by (simp add: verifyRouteSet_def)
next
  case required: (Inr rs)
  show ?thesis
  proof (cases "parsed_routes ''invalid allowed route '' extras")
    case (Inl err)
    with required parsed_routes_fails [OF this] show ?thesis by (simp add: verifyRouteSet_def)
  next
    case (Inr es)
    with required parsed_routes_stated [OF required] parsed_routes_stated [OF Inr]
    show ?thesis by (simp add: verifyRouteSet_def actual_routes_iff)
  qed
qed

end
