(* ===== verification/Executor.thy ===== *)
theory Executor
  imports TunnelPlan_Safety
begin

text \<open>
  The \<open>Executor\<close> of \<open>internal/endpointservice/executor.go\<close>: it applies a plan through the
  operating system's \<open>System\<close>, reads the tunnel back, rolls back or disables on a mismatch, and
  remembers the last verified plan. \<open>System\<close> is an interface whose implementations are platform
  code: a record of functions over a world \<open>'w\<close>. A method found by a type assertion is an
  option. Every operation holds the mutex to its end, so it is one function of the executor and
  the world. Then the contract an executor offers to its clients, as a locale.
\<close>

record 'w System =
  sys_Apply :: "TunnelPlan \<Rightarrow> 'w \<Rightarrow> error \<times> 'w"
  sys_Readback :: "'w \<Rightarrow> (TunnelReadback \<times> error) \<times> 'w"
  sys_Disable :: "'w \<Rightarrow> error \<times> 'w"
  sys_TunnelInterface :: "('w \<Rightarrow> (string \<times> error) \<times> 'w) option"

record ApplyOutcome =
  ao_Status :: string
  ao_ReadbackHash :: string
  ao_ReasonCode :: string

record Executor =
  ex_privateKey :: wg_key
  ex_publicKey :: string
  ex_previous :: "TunnelPlan option"

text \<open>
  The interfaces \<open>ConfigurationExecutor\<close>, \<open>Verify\<close> and \<open>VPNBinding\<close> that the clients of an
  executor use, over the executor's own state \<open>'e\<close> and the world \<open>'w\<close> it drives.
\<close>

record ('e, 'w) ConfigurationExecutor =
  ce_Apply :: "ConfigurationDesired \<Rightarrow> time \<Rightarrow> 'e \<times> 'w \<Rightarrow> ApplyOutcome \<times> 'e \<times> 'w"
  ce_Disable :: "'e \<times> 'w \<Rightarrow> error \<times> 'e \<times> 'w"
  ce_Verify :: "(ConfigurationDesired \<Rightarrow> time \<Rightarrow> 'e \<times> 'w \<Rightarrow> ApplyOutcome \<times> 'e \<times> 'w) option"
  ce_VPNBinding :: "('e \<times> 'w \<Rightarrow> (string \<times> string list \<times> error) \<times> 'e \<times> 'w) option"

definition NewExecutor :: "wgtypes \<Rightarrow> wg_key \<Rightarrow> 'w System option \<Rightarrow> Executor fallible" where
  "NewExecutor wgt privateKey system =
     (if privateKey = zero_key \<or> system = None
      then Inl (ErrorNew ''endpoint executor dependencies are invalid'')
      else Inr \<lparr>ex_privateKey = privateKey, ex_publicKey = wgt_String wgt (wgt_PublicKey wgt privateKey),
                ex_previous = None\<rparr>)"

text \<open>
  The digest argument is the lower-case hexadecimal SHA-256 of the JSON text of a readback: the
  code compares and reports such hashes, and relies on nothing but their determinism.
\<close>

type_synonym readback_digest = "TunnelReadback \<Rightarrow> string"

definition readbackHash :: "readback_digest \<Rightarrow> TunnelReadback \<Rightarrow> string" where
  "readbackHash digest readback = ''sha256:'' @ digest readback"

definition emptyReadbackHash :: "readback_digest \<Rightarrow> string" where
  "emptyReadbackHash digest = readbackHash digest empty_TunnelReadback"

text \<open>\<open>buildTunnelPlan\<close> as its callers see it; by \<open>buildTunnelPlan_total\<close> it does not panic.\<close>

definition tunnel_plan ::
  "wgtypes \<Rightarrow> ConfigurationDesired \<Rightarrow> WireGuardConfiguration \<Rightarrow> wg_key \<Rightarrow> string \<Rightarrow> time \<Rightarrow> TunnelPlan fallible" where
  "tunnel_plan wgt desired wg privateKey publicKey now =
     (case buildTunnelPlan wgt desired wg privateKey publicKey now of
        Val result \<Rightarrow> result
      | Panic \<Rightarrow> Inl (ErrorNew ''panic''))"

lemma tunnel_plan_iff:
  "tunnel_plan wgt desired wg k p now = r \<longleftrightarrow> buildTunnelPlan wgt desired wg k p now = Val r"
  using buildTunnelPlan_total [of wgt desired wg k p now]
  by (auto simp: tunnel_plan_def split: run.splits)

subsection \<open>Operations\<close>

definition Executor_disable :: "'w System \<Rightarrow> Executor \<times> 'w \<Rightarrow> error \<times> Executor \<times> 'w" where
  "Executor_disable system = (\<lambda>(executor, w).
     let (err, w) = sys_Disable system w;
         ((readback, readErr), w) = sys_Readback system w;
         readErr = (if readErr = None \<and> readback \<noteq> empty_TunnelReadback
                    then Some (ErrorNew ''endpoint tunnel still exists after disable'') else readErr)
     in (errors_join [err, readErr], executor\<lparr>ex_previous := None\<rparr>, w))"

definition rejected :: "readback_digest \<Rightarrow> string \<Rightarrow> ApplyOutcome" where
  "rejected digest reason =
     \<lparr>ao_Status = ''rejected'', ao_ReadbackHash = emptyReadbackHash digest, ao_ReasonCode = reason\<rparr>"

definition Executor_recover ::
  "readback_digest \<Rightarrow> 'w System \<Rightarrow> string \<Rightarrow> Executor \<times> 'w \<Rightarrow> ApplyOutcome \<times> Executor \<times> 'w" where
  "Executor_recover digest system reason = (\<lambda>(executor, w).
     case ex_previous executor of
       None \<Rightarrow>
         let (_, executor, w) = Executor_disable system (executor, w)
         in (rejected digest reason, executor, w)
     | Some previous \<Rightarrow>
         let (err, w) = sys_Apply system previous w
         in if err = None then
              let ((readback, readErr), w) = sys_Readback system w
              in if readErr = None \<and> readback = TunnelPlan_Readback previous
                 then (\<lparr>ao_Status = ''rolled-back'', ao_ReadbackHash = readbackHash digest readback,
                         ao_ReasonCode = reason\<rparr>, executor, w)
                 else let (_, executor, w) = Executor_disable system (executor, w)
                      in (rejected digest ''endpoint_rollback_failed'', executor, w)
            else let (_, executor, w) = Executor_disable system (executor, w)
                 in (rejected digest ''endpoint_rollback_failed'', executor, w))"

definition Executor_Apply ::
  "wgtypes \<Rightarrow> readback_digest \<Rightarrow> 'w System \<Rightarrow> ConfigurationDesired \<Rightarrow> time \<Rightarrow> Executor \<times> 'w \<Rightarrow>
   ApplyOutcome \<times> Executor \<times> 'w" where
  "Executor_Apply wgt digest system desired now = (\<lambda>(executor, w).
     case cd_WireGuard desired of
       None \<Rightarrow>
         let (err, executor, w) = Executor_disable system (executor, w)
         in if err \<noteq> None then (rejected digest ''endpoint_disable_failed'', executor, w)
            else (\<lparr>ao_Status = ''applied'', ao_ReadbackHash = emptyReadbackHash digest,
                    ao_ReasonCode = []\<rparr>, executor, w)
     | Some wg \<Rightarrow>
         (case tunnel_plan wgt desired wg (ex_privateKey executor) (ex_publicKey executor) now of
            Inl _ \<Rightarrow> (rejected digest ''unsafe_endpoint_configuration'', executor, w)
          | Inr plan \<Rightarrow>
              let (err, w) = sys_Apply system plan w
              in if err \<noteq> None then Executor_recover digest system ''endpoint_apply_failed'' (executor, w)
                 else
                   let ((readback, readErr), w) = sys_Readback system w
                   in if readErr \<noteq> None \<or> readback \<noteq> TunnelPlan_Readback plan
                      then Executor_recover digest system ''endpoint_readback_mismatch'' (executor, w)
                      else (\<lparr>ao_Status = ''applied'', ao_ReadbackHash = readbackHash digest readback,
                              ao_ReasonCode = []\<rparr>, executor\<lparr>ex_previous := Some plan\<rparr>, w)))"

definition Executor_Verify ::
  "wgtypes \<Rightarrow> readback_digest \<Rightarrow> 'w System \<Rightarrow> ConfigurationDesired \<Rightarrow> time \<Rightarrow> Executor \<times> 'w \<Rightarrow>
   ApplyOutcome \<times> Executor \<times> 'w" where
  "Executor_Verify wgt digest system desired now = (\<lambda>(executor, w).
     case (case cd_WireGuard desired of
             None \<Rightarrow> Inr empty_TunnelReadback
           | Some wg \<Rightarrow>
               (case tunnel_plan wgt desired wg (ex_privateKey executor) (ex_publicKey executor) now of
                  Inl err \<Rightarrow> Inl err
                | Inr plan \<Rightarrow> Inr (TunnelPlan_Readback plan))) of
       Inl _ \<Rightarrow> (rejected digest ''unsafe_endpoint_configuration'', executor, w)
     | Inr expected \<Rightarrow>
         let ((actual, err), w) = sys_Readback system w
         in if err \<noteq> None \<or> actual \<noteq> expected
            then (rejected digest ''endpoint_readback_mismatch'', executor, w)
            else (\<lparr>ao_Status = ''applied'', ao_ReadbackHash = readbackHash digest actual,
                    ao_ReasonCode = []\<rparr>, executor, w))"

definition Executor_Disable :: "'w System \<Rightarrow> Executor \<times> 'w \<Rightarrow> error \<times> Executor \<times> 'w" where
  "Executor_Disable system s = Executor_disable system s"

text \<open>A \<open>nil\<close> slice of routes is read as the empty one: the caller compares with \<open>slices.Equal\<close>.\<close>

definition Executor_VPNBinding ::
  "'w System \<Rightarrow> Executor \<times> 'w \<Rightarrow> (string \<times> string list \<times> error) \<times> Executor \<times> 'w" where
  "Executor_VPNBinding system = (\<lambda>(executor, w).
     case (sys_TunnelInterface system, ex_previous executor) of
       (Some native, Some previous) \<Rightarrow>
         let ((readback, err), w) = sys_Readback system w
         in if err \<noteq> None \<or> readback \<noteq> TunnelPlan_Readback previous
            then (([], [], Some (ErrorNew ''native VPN state changed'')), executor, w)
            else
              let ((name, err), w) = native w
              in if err \<noteq> None \<or> \<not> validVPNInterfaceName name
                 then (([], [], Some (ErrorNew ''native VPN interface is unavailable'')), executor, w)
                 else ((name, (case tr_Routes readback of None \<Rightarrow> [] | Some rs \<Rightarrow> rs), None), executor, w)
     | _ \<Rightarrow> (([], [], Some (ErrorNew ''native VPN interface readback is unavailable'')), executor, w))"

definition Executor_interface ::
  "wgtypes \<Rightarrow> readback_digest \<Rightarrow> 'w System \<Rightarrow> (Executor, 'w) ConfigurationExecutor" where
  "Executor_interface wgt digest system =
     \<lparr>ce_Apply = Executor_Apply wgt digest system,
      ce_Disable = Executor_Disable system,
      ce_Verify = Some (Executor_Verify wgt digest system),
      ce_VPNBinding = Some (Executor_VPNBinding system)\<rparr>"

subsection \<open>What an outcome says of the world\<close>

text \<open>The world right after a readback that returned the given tunnel without an error.\<close>

definition observed :: "'w System \<Rightarrow> TunnelReadback \<Rightarrow> 'w \<Rightarrow> bool" where
  "observed system readback w \<longleftrightarrow> (\<exists>w0. sys_Readback system w0 = ((readback, None), w))"

lemma observedI: "sys_Readback system w0 = ((readback, None), w) \<Longrightarrow> observed system readback w"
  by (auto simp: observed_def)

lemma Executor_disable_result:
  assumes "Executor_disable system (executor, w) = (err, executor', w')"
  shows "executor' = executor\<lparr>ex_previous := None\<rparr>" "err = None \<Longrightarrow> observed system empty_TunnelReadback w'"
  using assms by (auto simp: Executor_disable_def Let_def split: prod.splits if_splits intro: observedI)

lemma Executor_recover_cases:
  assumes "Executor_recover digest system reason (executor, w) = (outcome, executor', w')"
  obtains (rolled_back) previous where "ex_previous executor = Some previous" "executor' = executor"
      "outcome = \<lparr>ao_Status = ''rolled-back'', ao_ReadbackHash = readbackHash digest (TunnelPlan_Readback previous),
                  ao_ReasonCode = reason\<rparr>" "observed system (TunnelPlan_Readback previous) w'"
    | (removed) reason' where "outcome = rejected digest reason'" "executor' = executor\<lparr>ex_previous := None\<rparr>"
  using assms
  by (auto simp: Executor_recover_def Let_def
      split: option.splits prod.splits if_splits dest: Executor_disable_result(1) intro: observedI)

lemma Executor_Apply_cases:
  assumes "Executor_Apply wgt digest system desired now (executor, w) = (outcome, executor', w')"
  obtains (disabled) "cd_WireGuard desired = None" "executor' = executor\<lparr>ex_previous := None\<rparr>"
      "outcome = \<lparr>ao_Status = ''applied'', ao_ReadbackHash = emptyReadbackHash digest, ao_ReasonCode = []\<rparr>"
      "observed system empty_TunnelReadback w'"
    | (applied) wg plan where "cd_WireGuard desired = Some wg"
      "buildTunnelPlan wgt desired wg (ex_privateKey executor) (ex_publicKey executor) now = Val (Inr plan)"
      "executor' = executor\<lparr>ex_previous := Some plan\<rparr>"
      "outcome = \<lparr>ao_Status = ''applied'', ao_ReadbackHash = readbackHash digest (TunnelPlan_Readback plan),
                  ao_ReasonCode = []\<rparr>" "observed system (TunnelPlan_Readback plan) w'"
    | (rolled_back) previous reason where "ex_previous executor = Some previous" "executor' = executor"
      "outcome = \<lparr>ao_Status = ''rolled-back'', ao_ReadbackHash = readbackHash digest (TunnelPlan_Readback previous),
                  ao_ReasonCode = reason\<rparr>" "observed system (TunnelPlan_Readback previous) w'"
    | (refused) "outcome = rejected digest ''unsafe_endpoint_configuration''" "executor' = executor" "w' = w"
    | (removed) reason where "outcome = rejected digest reason" "executor' = executor\<lparr>ex_previous := None\<rparr>"
proof (cases "cd_WireGuard desired")
  case None
  obtain err ex1 w1 where d: "Executor_disable system (executor, w) = (err, ex1, w1)" by (metis prod_cases3)
  with assms None disabled removed Executor_disable_result [OF d] show ?thesis
    by (auto simp: Executor_Apply_def split: if_splits)
next
  case (Some wg)
  show ?thesis
  proof (cases "tunnel_plan wgt desired wg (ex_privateKey executor) (ex_publicKey executor) now")
    case (Inl e)
    with assms Some refused show ?thesis by (auto simp: Executor_Apply_def)
  next
    case (Inr plan)
    obtain err w1 where a: "sys_Apply system plan w = (err, w1)" by fastforce
    obtain readback readErr w2 where r: "sys_Readback system w1 = ((readback, readErr), w2)"
      by (metis prod.collapse)
    consider (apply_failed) "err \<noteq> None"
        "Executor_recover digest system ''endpoint_apply_failed'' (executor, w1) = (outcome, executor', w')"
      | (mismatch) "Executor_recover digest system ''endpoint_readback_mismatch'' (executor, w2) = (outcome, executor', w')"
      | (ok) "readErr = None" "readback = TunnelPlan_Readback plan" "w' = w2"
        "executor' = executor\<lparr>ex_previous := Some plan\<rparr>"
        "outcome = \<lparr>ao_Status = ''applied'', ao_ReadbackHash = readbackHash digest readback, ao_ReasonCode = []\<rparr>"
      using assms Some Inr a r by (auto simp: Executor_Apply_def split: if_splits)
    then show ?thesis
    proof cases
      case apply_failed
      from this(2) show ?thesis by (cases rule: Executor_recover_cases) (use rolled_back removed in auto)
    next
      case mismatch
      then show ?thesis by (cases rule: Executor_recover_cases) (use rolled_back removed in auto)
    next
      case ok
      with Some Inr r applied show ?thesis by (auto simp: tunnel_plan_iff intro: observedI)
    qed
  qed
qed

subsection \<open>The contract of an executor\<close>

text \<open>
  What a client of an executor may rely on. \<open>removed e w\<close> says that the executor's tunnel, and
  what it has put on top of it, is gone; \<open>accepts e desired wg now\<close> that the tunnel half of a
  configuration passes the checks. A disable that returns no error removes everything, an
  applied configuration without a tunnel and without a proxy too, and one with a tunnel was
  accepted.
\<close>

locale executor_contract =
  fixes E :: "('e, 'w) ConfigurationExecutor"
    and removed :: "'e \<Rightarrow> 'w \<Rightarrow> bool"
    and accepts :: "'e \<Rightarrow> ConfigurationDesired \<Rightarrow> WireGuardConfiguration \<Rightarrow> time \<Rightarrow> bool"
  assumes disable_removes: "ce_Disable E (e, w) = (None, e', w') \<Longrightarrow> removed e' w'"
    and apply_nothing_removes: "ce_Apply E desired now (e, w) = (outcome, e', w') \<Longrightarrow>
      ao_Status outcome = ''applied'' \<Longrightarrow> cd_WireGuard desired = None \<Longrightarrow> cd_Mihomo desired = None \<Longrightarrow>
      removed e' w'"
    and applied_accepted: "ce_Apply E desired now (e, w) = (outcome, e', w') \<Longrightarrow>
      ao_Status outcome = ''applied'' \<Longrightarrow> cd_WireGuard desired = Some wg \<Longrightarrow> accepts e desired wg now"
    and binding_named: "ce_VPNBinding E = Some binding \<Longrightarrow>
      binding (e, w) = ((name, routes, None), e', w') \<Longrightarrow> validVPNInterfaceName name"

definition Executor_removed :: "'w System \<Rightarrow> Executor \<Rightarrow> 'w \<Rightarrow> bool" where
  "Executor_removed system executor w \<longleftrightarrow>
     ex_previous executor = None \<and> observed system empty_TunnelReadback w"

definition Executor_accepts ::
  "wgtypes \<Rightarrow> Executor \<Rightarrow> ConfigurationDesired \<Rightarrow> WireGuardConfiguration \<Rightarrow> time \<Rightarrow> bool" where
  "Executor_accepts wgt executor desired wg now \<longleftrightarrow>
     (\<exists>plan. buildTunnelPlan wgt desired wg (ex_privateKey executor) (ex_publicKey executor) now =
        Val (Inr plan))"

interpretation endpoint: executor_contract "Executor_interface wgt digest system"
  "Executor_removed system" "Executor_accepts wgt"
  for wgt digest system
proof
  fix e w e' w' desired now outcome wg binding name routes
  show "ce_Disable (Executor_interface wgt digest system) (e, w) = (None, e', w') \<Longrightarrow>
      Executor_removed system e' w'"
    by (auto simp: Executor_interface_def Executor_Disable_def Executor_removed_def
        dest: Executor_disable_result)
  assume "ce_Apply (Executor_interface wgt digest system) desired now (e, w) = (outcome, e', w')"
    and status: "ao_Status outcome = ''applied''"
  then have A: "Executor_Apply wgt digest system desired now (e, w) = (outcome, e', w')"
    by (simp add: Executor_interface_def)
  then show "cd_WireGuard desired = None \<Longrightarrow> cd_Mihomo desired = None \<Longrightarrow> Executor_removed system e' w'"
    using status by (cases rule: Executor_Apply_cases) (auto simp: Executor_removed_def rejected_def)
  from A show "cd_WireGuard desired = Some wg \<Longrightarrow> Executor_accepts wgt e desired wg now"
    using status by (cases rule: Executor_Apply_cases) (auto simp: Executor_accepts_def rejected_def)
next
  fix e w e' w' binding name routes
  show "ce_VPNBinding (Executor_interface wgt digest system) = Some binding \<Longrightarrow>
      binding (e, w) = ((name, routes, None), e', w') \<Longrightarrow> validVPNInterfaceName name"
    by (auto simp: Executor_interface_def Executor_VPNBinding_def Let_def
        split: option.splits prod.splits if_splits)
qed

subsection \<open>Histories of an executor\<close>

text \<open>
  The states an executor with the given private key reaches: by its operations, in any order and
  with any arguments, and by changes of the world it does not see.
\<close>

inductive executor_reach ::
  "wgtypes \<Rightarrow> readback_digest \<Rightarrow> 'w System \<Rightarrow> wg_key \<Rightarrow> Executor \<Rightarrow> 'w \<Rightarrow> bool"
  for wgt digest system privateKey where
  new: "NewExecutor wgt privateKey (Some system) = Inr executor \<Longrightarrow>
    executor_reach wgt digest system privateKey executor w"
| applies: "executor_reach wgt digest system privateKey executor w \<Longrightarrow>
    Executor_Apply wgt digest system desired now (executor, w) = (outcome, executor', w') \<Longrightarrow>
    executor_reach wgt digest system privateKey executor' w'"
| verifies: "executor_reach wgt digest system privateKey executor w \<Longrightarrow>
    Executor_Verify wgt digest system desired now (executor, w) = (outcome, executor', w') \<Longrightarrow>
    executor_reach wgt digest system privateKey executor' w'"
| disables: "executor_reach wgt digest system privateKey executor w \<Longrightarrow>
    Executor_Disable system (executor, w) = (err, executor', w') \<Longrightarrow>
    executor_reach wgt digest system privateKey executor' w'"
| binds: "executor_reach wgt digest system privateKey executor w \<Longrightarrow>
    Executor_VPNBinding system (executor, w) = (result, executor', w') \<Longrightarrow>
    executor_reach wgt digest system privateKey executor' w'"
| outside: "executor_reach wgt digest system privateKey executor w \<Longrightarrow>
    executor_reach wgt digest system privateKey executor w'"

text \<open>A plan that the checks accepted for this key, for some configuration at some time.\<close>

definition built_plan :: "wgtypes \<Rightarrow> wg_key \<Rightarrow> TunnelPlan \<Rightarrow> bool" where
  "built_plan wgt privateKey plan \<longleftrightarrow>
     (\<exists>desired wg now. buildTunnelPlan wgt desired wg privateKey
        (wgt_String wgt (wgt_PublicKey wgt privateKey)) now = Val (Inr plan))"

definition executor_ok :: "wgtypes \<Rightarrow> wg_key \<Rightarrow> Executor \<Rightarrow> bool" where
  "executor_ok wgt privateKey executor \<longleftrightarrow>
     privateKey \<noteq> zero_key \<and> ex_privateKey executor = privateKey \<and>
     ex_publicKey executor = wgt_String wgt (wgt_PublicKey wgt privateKey) \<and>
     (\<forall>plan. ex_previous executor = Some plan \<longrightarrow> built_plan wgt privateKey plan)"

lemma Executor_Verify_keeps:
  "Executor_Verify wgt digest system desired now (executor, w) = (outcome, executor', w') \<Longrightarrow> executor' = executor"
  by (auto simp: Executor_Verify_def Let_def split: option.splits sum.splits prod.splits if_splits)

lemma Executor_VPNBinding_keeps:
  "Executor_VPNBinding system (executor, w) = (result, executor', w') \<Longrightarrow> executor' = executor"
  by (auto simp: Executor_VPNBinding_def Let_def split: option.splits prod.splits if_splits)

lemma Executor_Apply_ok:
  assumes "Executor_Apply wgt digest system desired now (executor, w) = (outcome, executor', w')"
    "executor_ok wgt privateKey executor"
  shows "executor_ok wgt privateKey executor'"
  using assms(1)
  by (cases rule: Executor_Apply_cases) (use assms(2) in \<open>auto simp: executor_ok_def built_plan_def\<close>)

lemma executor_reach_ok:
  assumes "executor_reach wgt digest system privateKey executor w"
  shows "executor_ok wgt privateKey executor"
  using assms
proof induction
  case (new executor w)
  then show ?case by (auto simp: NewExecutor_def executor_ok_def split: if_splits)
next
  case (applies executor w desired now outcome executor' w')
  from Executor_Apply_ok [OF applies.hyps(2) applies.IH] show ?case .
next
  case (verifies executor w desired now outcome executor' w')
  from Executor_Verify_keeps [OF verifies.hyps(2)] verifies.IH show ?case by simp
next
  case (disables executor w err executor' w')
  from Executor_disable_result(1) [OF disables.hyps(2) [unfolded Executor_Disable_def]] disables.IH
  show ?case by (simp add: executor_ok_def)
next
  case (binds executor w result executor' w')
  from Executor_VPNBinding_keeps [OF binds.hyps(2)] binds.IH show ?case by simp
qed

subsection \<open>Properties\<close>

text \<open>A system that does what it is told; its world is the tunnel.\<close>

definition sample_system :: "TunnelReadback System" where
  "sample_system =
     \<lparr>sys_Apply = (\<lambda>plan _. (None, TunnelPlan_Readback plan)), sys_Readback = (\<lambda>w. ((w, None), w)),
      sys_Disable = (\<lambda>_. (None, empty_TunnelReadback)),
      sys_TunnelInterface = Some (\<lambda>w. ((''utun3'', None), w))\<rparr>"

definition sample_executor :: Executor where
  "sample_executor = \<lparr>ex_privateKey = ''key'', ex_publicKey = ''yek'', ex_previous = None\<rparr>"

lemma sample_apply:
  "Executor_Apply sample_wgt (\<lambda>_. ''00'') sample_system sample_desired 10 (sample_executor, empty_TunnelReadback) =
     (\<lparr>ao_Status = ''applied'', ao_ReadbackHash = ''sha256:00'', ao_ReasonCode = []\<rparr>,
      sample_executor\<lparr>ex_previous := Some sample_plan\<rparr>, TunnelPlan_Readback sample_plan)"
  using sample_accepted
  by (simp add: Executor_Apply_def sample_desired_def sample_executor_def sample_system_def
      tunnel_plan_def readbackHash_def)

text \<open>C3: \<open>Executor.Apply\<close> reports exactly what it verified. \<open>applied\<close> means that the tunnel read back
  last equals the accepted plan, or is empty for a configuration without a tunnel, and that this
  plan is the one remembered; \<open>rolled-back\<close> that the previously remembered plan was read back;
  \<open>rejected\<close> that either nothing was touched or nothing is remembered any more. There is no other
  outcome.\<close>

theorem Executor_Apply_outcomes:
  assumes "Executor_Apply wgt digest system desired now (executor, w) = (outcome, executor', w')"
  shows "ao_Status outcome = ''applied'' \<and> cd_WireGuard desired = None \<and>
           ex_previous executor' = None \<and> observed system empty_TunnelReadback w' \<or>
         ao_Status outcome = ''applied'' \<and>
           (\<exists>wg plan. cd_WireGuard desired = Some wg \<and>
              buildTunnelPlan wgt desired wg (ex_privateKey executor) (ex_publicKey executor) now =
                Val (Inr plan) \<and>
              ex_previous executor' = Some plan \<and> observed system (TunnelPlan_Readback plan) w' \<and>
              ao_ReadbackHash outcome = readbackHash digest (TunnelPlan_Readback plan)) \<or>
         ao_Status outcome = ''rolled-back'' \<and>
           (\<exists>previous. ex_previous executor = Some previous \<and> ex_previous executor' = Some previous \<and>
              observed system (TunnelPlan_Readback previous) w') \<or>
         ao_Status outcome = ''rejected'' \<and> ao_ReadbackHash outcome = emptyReadbackHash digest \<and>
           (executor' = executor \<and> w' = w \<or> ex_previous executor' = None)"
  using assms by (cases rule: Executor_Apply_cases) (auto simp: rejected_def)

theorem Executor_Apply_outcomes_witness:
  "observed sample_system (TunnelPlan_Readback sample_plan) (TunnelPlan_Readback sample_plan)"
  using Executor_Apply_outcomes [OF sample_apply]
  by (auto simp: sample_desired_def rejected_def sample_accepted)

text \<open>whatever plan an executor remembers, after any history of operations and of outside changes,
  was accepted by \<open>buildTunnelPlan\<close> for the executor's own key; so a rollback can only restore a
  tunnel that once passed every check.\<close>

theorem executor_remembers_built_plans:
  assumes "executor_reach wgt digest system privateKey executor w" "ex_previous executor = Some plan"
  shows "\<exists>desired wg now. buildTunnelPlan wgt desired wg privateKey
           (wgt_String wgt (wgt_PublicKey wgt privateKey)) now = Val (Inr plan)"
  using executor_reach_ok [OF assms(1)] assms(2) by (simp add: executor_ok_def built_plan_def)

lemma sample_executor_reach:
  "executor_reach sample_wgt (\<lambda>_. ''00'') sample_system ''key''
     (sample_executor\<lparr>ex_previous := Some sample_plan\<rparr>) (TunnelPlan_Readback sample_plan)"
proof (rule executor_reach.applies [OF _ sample_apply], rule executor_reach.new)
  show "NewExecutor sample_wgt ''key'' (Some sample_system) = Inr sample_executor"
    by (simp add: NewExecutor_def zero_key_def sample_executor_def sample_wgt_def numeral_eq_Suc)
qed

theorem executor_remembers_built_plans_witness:
  "\<exists>desired wg now. buildTunnelPlan sample_wgt desired wg ''key'' ''yek'' now = Val (Inr sample_plan)"
  using executor_remembers_built_plans [OF sample_executor_reach, of sample_plan]
  by (simp add: sample_executor_def sample_wgt_def)



text \<open>\<open>VPNBinding\<close> names an interface only when the native tunnel has just read back as the
  remembered plan, and then returns that plan's routes.\<close>

theorem Executor_VPNBinding_live:
  assumes "Executor_VPNBinding system (executor, w) = ((name, routes, None), executor', w')"
  shows "validVPNInterfaceName name \<and> executor' = executor \<and>
         (\<exists>previous w1. ex_previous executor = Some previous \<and>
            sys_Readback system w = ((TunnelPlan_Readback previous, None), w1) \<and>
            routes = (case tp_Routes previous of None \<Rightarrow> [] | Some rs \<Rightarrow> rs))"
  using assms
  by (auto simp: Executor_VPNBinding_def Let_def TunnelPlan_Readback_def
      split: option.splits prod.splits if_splits)

theorem Executor_VPNBinding_live_witness:
  "validVPNInterfaceName ''utun3'' \<and>
   Executor_VPNBinding sample_system (sample_executor\<lparr>ex_previous := Some sample_plan\<rparr>, TunnelPlan_Readback sample_plan) =
     ((''utun3'', [''10.0.0.0/16'', ''10.1.0.0/16''], None),
      sample_executor\<lparr>ex_previous := Some sample_plan\<rparr>, TunnelPlan_Readback sample_plan)"
proof
  show *: "Executor_VPNBinding sample_system (sample_executor\<lparr>ex_previous := Some sample_plan\<rparr>, TunnelPlan_Readback sample_plan) =
     ((''utun3'', [''10.0.0.0/16'', ''10.1.0.0/16''], None),
      sample_executor\<lparr>ex_previous := Some sample_plan\<rparr>, TunnelPlan_Readback sample_plan)"
    by code_simp
  from Executor_VPNBinding_live [OF *] show "validVPNInterfaceName ''utun3''" by blast
qed

end
