(* ===== verification/MihomoPolicy.thy ===== *)
theory MihomoPolicy
  imports Go_Url TunnelPlan_Safety
begin

text \<open>
  The pure part of the proxy (\<open>mihomo\<close>) policy: which configurations are safe to apply
  (\<open>validateMihomoConfiguration\<close>, \<open>validateMihomoProtection\<close> and their helpers), the ordered rules
  they give (\<open>mihomoRules\<close>), and the checks of what the controller reads back. From
  \<open>internal/endpointservice/mihomo_policy.go\<close>, \<open>mihomo.go\<close>, \<open>mihomo_app.go\<close> and \<open>client.go\<close>.
\<close>

definition mihomoProviderName :: string where "mihomoProviderName = ''soha-managed''"
definition mihomoManualProxyName :: string where "mihomoManualProxyName = ''soha-manual''"
definition mihomoVPNProxyName :: string where "mihomoVPNProxyName = ''soha-vpn''"
definition mihomoGuardProxyName :: string where "mihomoGuardProxyName = ''soha-egress-proxy''"
definition mihomoGuardDirectName :: string where "mihomoGuardDirectName = ''soha-egress-direct''"

lemmas mihomo_names = mihomoProviderName_def mihomoManualProxyName_def mihomoVPNProxyName_def
  mihomoGuardProxyName_def mihomoGuardDirectName_def

subsection \<open>Names, prefixes, sources\<close>

definition validMihomoName :: "string \<Rightarrow> bool" where
  "validMihomoName value \<longleftrightarrow>
     0 < length value \<and> length value \<le> 128 \<and> trim_space value = value \<and>
     \<not> contains_any value [CHR '','', CHR 0x0D, CHR 0x0A, CHR 0x09]"

definition reservedMihomoName :: "string \<Rightarrow> bool" where
  "reservedMihomoName name \<longleftrightarrow>
     to_upper name \<in> set
       [to_upper mihomoGuardProxyName, to_upper mihomoGuardDirectName, ''DIRECT'', ''REJECT'',
        ''REJECT-DROP'', ''PASS'', ''COMPATIBLE'', ''GLOBAL'', to_upper mihomoVPNProxyName,
        to_upper mihomoManualProxyName, to_upper mihomoProviderName]"

definition canonicalMihomoPrefix :: "string \<Rightarrow> prefix fallible" where
  "canonicalMihomoPrefix raw =
     (case parsePrefix raw of
        None \<Rightarrow> Inl (ErrorNew ''invalid mihomo IP prefix'')
      | Some pfx \<Rightarrow>
          if addr_Is4In6 (pfx_Addr pfx) \<or> \<not> addr_IsGlobalUnicast (pfx_Addr pfx) \<or>
             pfx \<noteq> prefix_Masked pfx \<or> pfx_Bits pfx = 0 \<or> prefix_String pfx \<noteq> raw
          then Inl (ErrorNew ''invalid mihomo IP prefix'') else Inr pfx)"

definition prefixCoveredBy :: "prefix \<Rightarrow> prefix list \<Rightarrow> bool" where
  "prefixCoveredBy pfx covers =
     list_ex (\<lambda>cover. pfx_Bits cover \<le> pfx_Bits pfx \<and> prefix_Contains cover (pfx_Addr pfx)) covers"

definition validSubscriptionURL :: "string \<Rightarrow> bool" where
  "validSubscriptionURL raw =
     (if length raw = 0 \<or> 4096 < length raw \<or> trim_space raw \<noteq> raw then False
      else case url_Parse raw of
        None \<Rightarrow> False
      | Some parsed \<Rightarrow>
          url_Scheme parsed = ''https'' \<and> url_Host parsed \<noteq> [] \<and> url_Hostname parsed \<noteq> [] \<and>
          url_User parsed = None \<and> url_Fragment parsed = [] \<and> url_Opaque parsed = [])"

definition validMihomoManualNode :: "MihomoManualNode option \<Rightarrow> bool" where
  "validMihomoManualNode node =
     (case node of
        None \<Rightarrow> False
      | Some n \<Rightarrow>
          if mn_Protocol n \<notin> set [''http'', ''https'', ''socks5''] \<or>
             parseIP (mn_Server n) = None \<and> \<not> validEndpointHost (mn_Server n) \<or>
             mn_Port n < 1 \<or> mn_Port n > 65535 \<or> (mn_Username n = []) \<noteq> (mn_Password n = [])
          then False
          else (mn_Username n = [] \<or> trim_space (mn_Username n) \<noteq> []) \<and>
               rune_count (mn_Username n) \<le> 256 \<and> rune_count (mn_Password n) \<le> 4096)"

definition validMihomoSource :: "MihomoSource \<Rightarrow> bool" where
  "validMihomoSource source =
     (if ms_SourceType source = ''managed_subscription''
      then ms_ManualNode source = None \<and> validSubscriptionURL (ms_SubscriptionURL source)
      else if ms_SourceType source = ''manual_node''
      then ms_SubscriptionURL source = [] \<and> validMihomoManualNode (ms_ManualNode source)
      else False)"

subsection \<open>The protected policy\<close>

text \<open>A list of CIDRs that must not repeat and must not meet the fake-IP range.\<close>

fun protected_list_ok :: "prefix option \<Rightarrow> string list \<Rightarrow> string list \<Rightarrow> bool" where
  "protected_list_ok fakeIP seen [] = True"
| "protected_list_ok fakeIP seen (raw # rest) =
     (case canonicalMihomoPrefix raw of
        Inl _ \<Rightarrow> False
      | Inr pfx \<Rightarrow>
          if raw \<in> set seen \<or> (case fakeIP of None \<Rightarrow> False | Some f \<Rightarrow> prefix_Overlaps f pfx) then False
          else protected_list_ok fakeIP (raw # seen) rest)"

definition protected_host_ok :: "string \<Rightarrow> bool" where
  "protected_host_ok host \<longleftrightarrow>
     \<not> (\<not> validEndpointHost host \<or> parseAddr host \<noteq> None \<or> host \<noteq> to_lower host)"

definition validateMihomoProtection :: "MihomoConfiguration \<Rightarrow> prefix option \<Rightarrow> error" where
  "validateMihomoProtection configuration fakeIP =
     (case mc_Protection configuration of
        None \<Rightarrow> Some (ErrorNew ''mihomo protected policy is missing or invalid'')
      | Some protection \<Rightarrow>
          (case (mp_CIDRs protection, mp_Hosts protection) of
             (Some cidrs, Some hosts) \<Rightarrow>
               if mp_PolicyVersion protection < 1 \<or> 4096 < length cidrs \<or> 2048 < length hosts \<or>
                  reservedMihomoName (mc_SelectorGroup configuration)
               then Some (ErrorNew ''mihomo protected policy is missing or invalid'')
               else if \<not> (protected_list_ok fakeIP [] cidrs \<and>
                          protected_list_ok fakeIP [] (mc_VPNRoutes configuration))
               then Some (ErrorNew ''mihomo protected CIDR or VPN route is invalid'')
               else if \<not> all_fresh protected_host_ok id [] hosts
               then Some (ErrorNew ''mihomo protected host is invalid'')
               else if 256 < length (mc_VPNRoutes configuration) \<or>
                       0 < length (mc_VPNRoutes configuration) \<and>
                         \<not> validVPNInterfaceName (mc_VPNInterface configuration) \<or>
                       length (mc_VPNRoutes configuration) = 0 \<and> mc_VPNInterface configuration \<noteq> []
               then Some (ErrorNew ''mihomo VPN interface binding is invalid'')
               else None
           | _ \<Rightarrow> Some (ErrorNew ''mihomo protected policy is missing or invalid'')))"

subsection \<open>The configuration\<close>

definition mihomo_mode_error :: "MihomoConfiguration \<Rightarrow> bool \<Rightarrow> error" where
  "mihomo_mode_error c requireSource =
     (if mc_Mode c = ''managed_follow'' then
        (if \<not> mc_FailClosed c then Some (ErrorNew ''invalid managed mihomo profile'')
         else if mc_SourceType c \<in> set ['''', ''managed_subscription''] then
           (if \<not> validMihomoName (mc_SelectedProxy c) \<or> mc_ManualNode c \<noteq> None \<or>
               requireSource \<and> \<not> validSubscriptionURL (mc_SubscriptionURL c)
            then Some (ErrorNew ''invalid managed mihomo subscription'') else None)
         else if mc_SourceType c = ''manual_node'' then
           (if mc_SelectedProxy c \<noteq> [] \<or> mc_SubscriptionURL c \<noteq> [] \<or>
               requireSource \<and> \<not> validMihomoManualNode (mc_ManualNode c)
            then Some (ErrorNew ''invalid managed mihomo manual node'') else None)
         else Some (ErrorNew ''invalid managed mihomo source''))
      else if mc_Mode c = ''app_subscription'' then
        (if mc_SourceType c \<noteq> [] \<or> mc_SelectedProxy c \<noteq> [] \<or> mc_SubscriptionURL c \<noteq> [] \<or>
            mc_ManualNode c \<noteq> None
         then Some (ErrorNew ''app subscription cannot contain managed state'') else None)
      else Some (ErrorNew ''invalid mihomo mode''))"

text \<open>The fake-IP range: none when DNS is disabled.\<close>

definition mihomo_fake_ip :: "MihomoConfiguration \<Rightarrow> (prefix option) fallible" where
  "mihomo_fake_ip c =
     (if mc_DNSMode c = ''disabled'' then
        (if mc_FakeIPRange c \<noteq> []
         then Inl (ErrorNew ''disabled mihomo DNS contains a fake-IP range'') else Inr None)
      else if mc_DNSMode c = ''fake_ip'' then
        (case canonicalMihomoPrefix (mc_FakeIPRange c) of
           Inl _ \<Rightarrow> Inl (ErrorNew ''fake-IP range must be IPv4'')
         | Inr fakeIP \<Rightarrow>
             if \<not> addr_Is4 (pfx_Addr fakeIP) then Inl (ErrorNew ''fake-IP range must be IPv4'')
             else Inr (Some fakeIP))
      else Inl (ErrorNew ''invalid mihomo DNS mode''))"

definition meets_fake_ip :: "prefix option \<Rightarrow> prefix \<Rightarrow> bool" where
  "meets_fake_ip fakeIP pfx = (case fakeIP of None \<Rightarrow> False | Some f \<Rightarrow> prefix_Overlaps f pfx)"

fun mihomo_bypasses :: "prefix option \<Rightarrow> string list \<Rightarrow> prefix list \<Rightarrow> string list \<Rightarrow> (prefix list) fallible" where
  "mihomo_bypasses fakeIP seen bypasses [] = Inr bypasses"
| "mihomo_bypasses fakeIP seen bypasses (raw # rest) =
     (case canonicalMihomoPrefix raw of
        Inl err \<Rightarrow> Inl err
      | Inr pfx \<Rightarrow>
          if raw \<in> set seen \<or> meets_fake_ip fakeIP pfx then Inl (ErrorNew ''invalid mihomo bypass CIDR'')
          else mihomo_bypasses fakeIP (raw # seen) (bypasses @ [pfx]) rest)"

fun mihomo_bypass_hosts :: "string list \<Rightarrow> string list \<Rightarrow> error" where
  "mihomo_bypass_hosts seen [] = None"
| "mihomo_bypass_hosts seen (host # rest) =
     (if \<not> validEndpointHost host then Some (ErrorNew ''invalid mihomo bypass host'')
      else if host \<in> set seen then Some (ErrorNew ''duplicate mihomo bypass host'')
      else mihomo_bypass_hosts (host # seen) rest)"

fun routes_bypassed :: "prefix option \<Rightarrow> prefix list \<Rightarrow> string list \<Rightarrow> bool" where
  "routes_bypassed fakeIP bypasses [] = True"
| "routes_bypassed fakeIP bypasses (raw # rest) =
     (case canonicalMihomoPrefix raw of
        Inl _ \<Rightarrow> False
      | Inr route \<Rightarrow>
          if meets_fake_ip fakeIP route \<or> \<not> prefixCoveredBy route bypasses then False
          else routes_bypassed fakeIP bypasses rest)"

definition validateMihomoConfiguration ::
  "MihomoConfiguration option \<Rightarrow> WireGuardConfiguration option \<Rightarrow> bool \<Rightarrow> error" where
  "validateMihomoConfiguration configuration wireGuard requireSource =
     (case configuration of
        None \<Rightarrow> None
      | Some c \<Rightarrow>
          if \<not> identifierPattern (mc_ProfileID c) \<or> mc_ProfileRevision c < 1 \<or> mc_MixedPort c < 1 \<or>
             mc_MixedPort c > 65535 \<or> mc_ControllerPort c < 1 \<or> mc_ControllerPort c > 65535 \<or>
             mc_MixedPort c = mc_ControllerPort c \<or> \<not> validMihomoName (mc_SelectorGroup c)
          then Some (ErrorNew ''invalid mihomo profile'')
          else case mihomo_mode_error c requireSource of
            Some err \<Rightarrow> Some err
          | None \<Rightarrow>
              (case mihomo_fake_ip c of
                 Inl err \<Rightarrow> Some err
               | Inr fakeIP \<Rightarrow>
                   (case validateMihomoProtection c fakeIP of
                      Some err \<Rightarrow> Some err
                    | None \<Rightarrow>
                        if 256 < length (mc_BypassCIDRs c) \<or> 128 < length (mc_BypassHosts c)
                        then Some (ErrorNew ''mihomo bypass limit exceeded'')
                        else case mihomo_bypasses fakeIP [] [] (mc_BypassCIDRs c) of
                          Inl err \<Rightarrow> Some err
                        | Inr bypasses \<Rightarrow>
                            (case mihomo_bypass_hosts [] (mc_BypassHosts c) of
                               Some err \<Rightarrow> Some err
                             | None \<Rightarrow>
                                 (case wireGuard of
                                    None \<Rightarrow> None
                                  | Some wg \<Rightarrow>
                                      if fakeIP \<noteq> None \<and> length (wg_DNSServers wg) \<noteq> 0
                                      then Some (ErrorNew ''mihomo fake-IP DNS conflicts with WireGuard DNS'')
                                      else if \<not> routes_bypassed fakeIP bypasses (wg_Routes wg)
                                      then Some (ErrorNew ''mihomo bypass does not cover WireGuard route'')
                                      else None)))))"

subsection \<open>The rules\<close>

record mihomoRule =
  mr_Type :: string
  mr_Payload :: string
  mr_Proxy :: string
  mr_Disabled :: bool

definition mihomo_rule :: "string \<Rightarrow> string \<Rightarrow> string \<Rightarrow> mihomoRule" where
  "mihomo_rule t payload proxy = \<lparr>mr_Type = t, mr_Payload = payload, mr_Proxy = proxy, mr_Disabled = False\<rparr>"

definition configurationLine :: "mihomoRule \<Rightarrow> string" where
  "configurationLine rule =
     (if mr_Type rule = ''Match'' then ''MATCH,'' @ mr_Proxy rule
      else (if mr_Type rule = ''IPCIDR'' then ''IP-CIDR''
            else if mr_Type rule = ''Domain'' then ''DOMAIN''
            else if mr_Type rule = ''DomainSuffix'' then ''DOMAIN-SUFFIX'' else [])
           @ '','' @ mr_Payload rule @ '','' @ mr_Proxy rule)"

definition bypass_host_rule :: "string \<Rightarrow> mihomoRule" where
  "bypass_host_rule host =
     (case parseAddr host of
        Some address \<Rightarrow>
          mihomo_rule ''IPCIDR'' (prefix_String (prefixFrom address (addr_BitLen address))) mihomoGuardDirectName
      | None \<Rightarrow> mihomo_rule ''Domain'' host mihomoGuardDirectName)"

text \<open>
  A configuration without a protected policy makes the code panic here; its callers validate
  before. A missing policy gives no protected rules in the model.
\<close>

definition protection_hosts :: "MihomoConfiguration \<Rightarrow> string list" where
  "protection_hosts c =
     (case mc_Protection c of None \<Rightarrow> [] | Some p \<Rightarrow> (case mp_Hosts p of None \<Rightarrow> [] | Some hs \<Rightarrow> hs))"

definition protection_cidrs :: "MihomoConfiguration \<Rightarrow> string list" where
  "protection_cidrs c =
     (case mc_Protection c of None \<Rightarrow> [] | Some p \<Rightarrow> (case mp_CIDRs p of None \<Rightarrow> [] | Some cs \<Rightarrow> cs))"

definition mihomoRules :: "MihomoConfiguration \<Rightarrow> mihomoRule list" where
  "mihomoRules c =
     map (\<lambda>cidr. mihomo_rule ''IPCIDR'' cidr mihomoVPNProxyName) (mc_VPNRoutes c)
     @ map (\<lambda>host. mihomo_rule ''DomainSuffix'' host ''REJECT'') (protection_hosts c)
     @ map (\<lambda>cidr. mihomo_rule ''IPCIDR'' cidr ''REJECT'') (protection_cidrs c)
     @ map (\<lambda>cidr. mihomo_rule ''IPCIDR'' cidr mihomoGuardDirectName) (mc_BypassCIDRs c)
     @ map bypass_host_rule (mc_BypassHosts c)
     @ [mihomo_rule ''Match'' [] mihomoGuardProxyName]"

text \<open>The loop of \<open>verifyRules\<close> over the rules the controller reads back.\<close>

definition rules_error :: "mihomoRule list \<Rightarrow> mihomoRule list \<Rightarrow> error" where
  "rules_error expected rules =
     (if length rules \<noteq> length expected then Some (ErrorNew ''mihomo rule count changed'')
      else if list_ex (\<lambda>(rule, want). mr_Type rule \<noteq> mr_Type want \<or> mr_Payload rule \<noteq> mr_Payload want \<or>
                         mr_Proxy rule \<noteq> mr_Proxy want \<or> mr_Disabled rule) (zip rules expected)
      then Some (ErrorNew ''mihomo rule order or target changed'')
      else None)"

subsection \<open>The selector group\<close>

record mihomoProxyState =
  mps_Type :: string
  mps_Interface :: string
  mps_Dialer :: string
  mps_All :: "string list"
  mps_Now :: string

definition zero_proxy_state :: mihomoProxyState where
  "zero_proxy_state = \<lparr>mps_Type = [], mps_Interface = [], mps_Dialer = [], mps_All = [], mps_Now = []\<rparr>"

definition mihomoTransportType :: "string \<Rightarrow> bool" where
  "mihomoTransportType kind \<longleftrightarrow>
     kind \<in> set [''Http'', ''Socks5'', ''Shadowsocks'', ''ShadowsocksR'', ''Snell'', ''Vmess'', ''Vless'',
                 ''Trojan'', ''Hysteria'', ''Hysteria2'', ''Tuic'', ''AnyTLS'']"

definition group_member_ok ::
  "MihomoConfiguration \<Rightarrow> (string \<Rightarrow> mihomoProxyState option) \<Rightarrow> string \<Rightarrow> bool" where
  "group_member_ok c proxies name =
     (case proxies name of
        None \<Rightarrow> False
      | Some node \<Rightarrow>
          let manual = (mc_SourceType c = ''manual_node'' \<and> name = mihomoManualProxyName)
          in \<not> (\<not> validMihomoName name \<or> reservedMihomoName name \<and> \<not> manual \<or>
                name = mc_SelectorGroup c \<or> \<not> mihomoTransportType (mps_Type node) \<or>
                length (mps_All node) \<noteq> 0 \<or> mps_Dialer node \<noteq> [] \<or> mps_Interface node \<noteq> []))"

definition vpn_exit_ok :: "MihomoConfiguration \<Rightarrow> (string \<Rightarrow> mihomoProxyState option) \<Rightarrow> bool" where
  "vpn_exit_ok c proxies =
     (case proxies mihomoVPNProxyName of
        None \<Rightarrow> False
      | Some vpn \<Rightarrow>
          mps_Type vpn = ''Direct'' \<and> mps_Interface vpn = mc_VPNInterface c \<and> mps_Dialer vpn = [] \<and>
          length (mps_All vpn) = 0)"

definition proxyGroup_check ::
  "MihomoConfiguration \<Rightarrow> (string \<Rightarrow> mihomoProxyState option) \<Rightarrow> mihomoProxyState fallible" where
  "proxyGroup_check c proxies =
     (let group = (case proxies (mc_SelectorGroup c) of None \<Rightarrow> zero_proxy_state | Some g \<Rightarrow> g)
      in if mps_Type group \<noteq> ''Selector'' \<or> length (mps_All group) = 0 \<or> 2048 < length (mps_All group)
         then Inl (ErrorNew ''mihomo selector group is invalid'')
         else if \<not> all_fresh (group_member_ok c proxies) id [] (mps_All group)
         then Inl (ErrorNew ''mihomo node type, binding or name is unsafe'')
         else if 0 < length (mc_VPNRoutes c) \<and> \<not> vpn_exit_ok c proxies
         then Inl (ErrorNew ''mihomo VPN exit binding changed'')
         else Inr group)"

subsection \<open>The listener\<close>

record mihomoListenerState =
  mls_MixedPort :: int
  mls_HTTPPort :: int
  mls_SOCKSPort :: int
  mls_RedirectPort :: int
  mls_TProxyPort :: int
  mls_Mode :: string
  mls_AllowLAN :: bool
  mls_BindAddress :: string
  mls_IPv6 :: bool
  mls_TunEnable :: bool

definition listener_error :: "string \<Rightarrow> int \<Rightarrow> bool \<Rightarrow> mihomoListenerState \<Rightarrow> error" where
  "listener_error address port expectedIPv6 l =
     (if mls_MixedPort l \<noteq> port \<or> mls_Mode l \<noteq> ''rule'' \<or> mls_AllowLAN l \<or> mls_BindAddress l \<noteq> address \<or>
         mls_HTTPPort l \<noteq> 0 \<or> mls_SOCKSPort l \<noteq> 0 \<or> mls_RedirectPort l \<noteq> 0 \<or> mls_TProxyPort l \<noteq> 0 \<or>
         mls_IPv6 l \<noteq> expectedIPv6 \<or> mls_TunEnable l
      then Some (ErrorNew ''mihomo listener state does not match the managed profile'') else None)"

definition mihomoIPv6 :: "MihomoConfiguration \<Rightarrow> bool" where
  "mihomoIPv6 c = True"

subsection \<open>What validation establishes\<close>

lemma canonicalMihomoPrefix_Inr:
  assumes "canonicalMihomoPrefix raw = Inr pfx"
  shows "parsePrefix raw = Some pfx" "wf_prefix pfx" "addresses_of raw = prefix_set pfx"
  using assms
  by (auto simp: canonicalMihomoPrefix_def addresses_of_def parsePrefix_wf split: option.splits if_splits)

definition fake_ip_addresses :: "MihomoConfiguration \<Rightarrow> addr set" where
  "fake_ip_addresses c = (if mc_DNSMode c = ''fake_ip'' then addresses_of (mc_FakeIPRange c) else {})"

lemma mihomo_fake_ip_addresses:
  assumes "mihomo_fake_ip c = Inr fakeIP"
  shows "fake_ip_addresses c = (case fakeIP of None \<Rightarrow> {} | Some f \<Rightarrow> prefix_set f)"
    and "fakeIP = Some f \<Longrightarrow> wf_prefix f"
  using assms
  by (auto simp: mihomo_fake_ip_def fake_ip_addresses_def canonicalMihomoPrefix_Inr
      split: if_splits sum.splits)

lemma fake_ip_apart:
  assumes "mihomo_fake_ip c = Inr fakeIP" "\<not> meets_fake_ip fakeIP pfx" "canonicalMihomoPrefix raw = Inr pfx"
  shows "fake_ip_addresses c \<inter> addresses_of raw = {}"
  using assms prefix_Overlaps_iff [OF mihomo_fake_ip_addresses(2) [OF assms(1)] canonicalMihomoPrefix_Inr(2) [OF assms(3)]]
  by (auto simp: mihomo_fake_ip_addresses(1) [OF assms(1)] canonicalMihomoPrefix_Inr(3) [OF assms(3)]
      meets_fake_ip_def split: option.splits)

lemma protected_list_apart:
  "protected_list_ok fakeIP seen raws \<Longrightarrow> mihomo_fake_ip c = Inr fakeIP \<Longrightarrow>
   distinct raws \<and> set raws \<inter> set seen = {} \<and>
   (\<forall>raw \<in> set raws. fake_ip_addresses c \<inter> addresses_of raw = {})"
proof (induction raws arbitrary: seen)
  case (Cons raw raws)
  from Cons.prems(1) obtain pfx where p: "canonicalMihomoPrefix raw = Inr pfx" "raw \<notin> set seen"
    "\<not> meets_fake_ip fakeIP pfx" "protected_list_ok fakeIP (raw # seen) raws"
    by (auto simp: meets_fake_ip_def split: sum.splits if_splits)
  from Cons.IH [OF p(4) Cons.prems(2)] fake_ip_apart [OF Cons.prems(2) p(3,1)] p(2) show ?case by auto
qed simp

lemma mihomo_bypasses_apart:
  "mihomo_bypasses fakeIP seen acc raws = Inr out \<Longrightarrow> mihomo_fake_ip c = Inr fakeIP \<Longrightarrow>
   (\<exists>ps. out = acc @ ps \<and> map canonicalMihomoPrefix raws = map Inr ps) \<and>
   (\<forall>raw \<in> set raws. fake_ip_addresses c \<inter> addresses_of raw = {})"
proof (induction raws arbitrary: seen acc)
  case (Cons raw raws)
  from Cons.prems(1) obtain pfx where p: "canonicalMihomoPrefix raw = Inr pfx"
    "\<not> meets_fake_ip fakeIP pfx" "mihomo_bypasses fakeIP (raw # seen) (acc @ [pfx]) raws = Inr out"
    by (auto split: sum.splits if_splits)
  from Cons.IH [OF p(3) Cons.prems(2)] fake_ip_apart [OF Cons.prems(2) p(2,1)] p(1) show ?case by auto
qed simp

lemma prefixCoveredBy_subset:
  assumes "prefixCoveredBy pfx covers" "wf_prefix pfx"
  shows "\<exists>cover \<in> set covers. prefix_set pfx \<subseteq> prefix_set cover"
  using assms contains_subset [OF assms(2)] by (auto simp: prefixCoveredBy_def list_ex_iff)

lemma routes_bypassed_iff:
  "routes_bypassed fakeIP bypasses raws \<Longrightarrow>
   \<forall>raw \<in> set raws. \<exists>route. canonicalMihomoPrefix raw = Inr route \<and> \<not> meets_fake_ip fakeIP route \<and>
      prefixCoveredBy route bypasses"
  by (induction raws) (auto split: sum.splits if_splits)

lemma validateMihomoConfiguration_stages:
  assumes "validateMihomoConfiguration (Some c) wireGuard requireSource = None"
  obtains fakeIP protection bypasses where
    "mihomo_mode_error c requireSource = None" "mihomo_fake_ip c = Inr fakeIP"
    "mc_Protection c = Some protection" "validateMihomoProtection c fakeIP = None"
    "mihomo_bypasses fakeIP [] [] (mc_BypassCIDRs c) = Inr bypasses"
    "\<And>wg. wireGuard = Some wg \<Longrightarrow> routes_bypassed fakeIP bypasses (wg_Routes wg) \<and>
       (fakeIP = None \<or> wg_DNSServers wg = [])"
  using assms
  by (auto simp: validateMihomoConfiguration_def validateMihomoProtection_def
      split: option.splits if_splits sum.splits)

lemma validateMihomoProtection_None:
  assumes "validateMihomoProtection c fakeIP = None" "mc_Protection c = Some protection"
  shows "protected_list_ok fakeIP [] (protection_cidrs c)" "protected_list_ok fakeIP [] (mc_VPNRoutes c)"
    "all_fresh protected_host_ok id [] (protection_hosts c)" "\<not> reservedMihomoName (mc_SelectorGroup c)"
    "1 \<le> mp_PolicyVersion protection" "mp_CIDRs protection = Some (protection_cidrs c)"
    "mp_Hosts protection = Some (protection_hosts c)"
  using assms
  by (auto simp: validateMihomoProtection_def protection_cidrs_def protection_hosts_def
      split: option.splits if_splits)

subsection \<open>Properties\<close>

text \<open>A configuration with a fake-IP range, a protected host and CIDR, and the bypass for the tunnel.\<close>

definition sample_mihomo :: MihomoConfiguration where
  "sample_mihomo =
     \<lparr>mc_DNSRecords = [], mc_EnforcementUntil = 0, mc_GuardPort = 0, mc_GuardProxyPort = 0,
      mc_GuardDirectPort = 0, mc_GuardProxySecret = [], mc_GuardDirectSecret = [], mc_BootstrapNodes = [],
      mc_Protection = Some \<lparr>mp_PolicyVersion = 1, mp_CIDRs = Some [''10.9.0.0/16''],
                            mp_Hosts = Some [''vault.example.org'']\<rparr>,
      mc_Mode = ''managed_follow'', mc_SourceType = [], mc_ProfileID = ''p1'', mc_ProfileRevision = 1,
      mc_MixedPort = 7890, mc_ControllerPort = 9090, mc_DNSMode = ''fake_ip'',
      mc_FakeIPRange = ''198.18.0.0/16'', mc_SelectorGroup = ''exit'', mc_SelectedProxy = ''node-a'',
      mc_BypassCIDRs = [''10.0.0.0/8''], mc_BypassHosts = [''printer.local''], mc_FailClosed = True,
      mc_SubscriptionURL = [], mc_ManualNode = None, mc_VPNInterface = [], mc_VPNRoutes = []\<rparr>"

lemma sample_mihomo_valid:
  "validateMihomoConfiguration (Some sample_mihomo) (Some (sample_wg\<lparr>wg_DNSServers := []\<rparr>)) False = None"
  by code_simp



text \<open>The target the first matching rule gives, for whatever matching the proxy implements.\<close>

definition first_target :: "(mihomoRule \<Rightarrow> bool) \<Rightarrow> mihomoRule list \<Rightarrow> string option" where
  "first_target matches rules = map_option mr_Proxy (find matches rules)"

lemma first_target_append:
  "first_target matches (xs @ ys) =
     (case first_target matches xs of None \<Rightarrow> first_target matches ys | Some p \<Rightarrow> Some p)"
  by (induction xs) (auto simp: first_target_def)

lemma first_target_map:
  assumes "\<And>x. mr_Proxy (f x) = p"
  shows "first_target matches (map f xs) = (if \<exists>x \<in> set xs. matches (f x) then Some p else None)"
proof (induction xs)
  case (Cons x xs)
  have "first_target matches (map f (x # xs)) =
      (if matches (f x) then Some p else first_target matches (map f xs))"
    by (simp add: first_target_def assms)
  with Cons show ?case by simp
qed (simp add: first_target_def)

text \<open>C9: whatever a rule matches, the first match sends traffic of a VPN route into the VPN, then rejects
  what the protected policy names, and only then lets a bypass go direct; everything else goes to
  the authenticated egress proxy. A protected destination is never sent out through a bypass, a
  proxy node or directly.\<close>

theorem mihomo_rules_protect_first:
  "first_target matches (mihomoRules c) =
     (if \<exists>cidr \<in> set (mc_VPNRoutes c). matches (mihomo_rule ''IPCIDR'' cidr mihomoVPNProxyName)
      then Some mihomoVPNProxyName
      else if (\<exists>host \<in> set (protection_hosts c). matches (mihomo_rule ''DomainSuffix'' host ''REJECT'')) \<or>
              (\<exists>cidr \<in> set (protection_cidrs c). matches (mihomo_rule ''IPCIDR'' cidr ''REJECT''))
      then Some ''REJECT''
      else if (\<exists>cidr \<in> set (mc_BypassCIDRs c). matches (mihomo_rule ''IPCIDR'' cidr mihomoGuardDirectName)) \<or>
              (\<exists>host \<in> set (mc_BypassHosts c). matches (bypass_host_rule host))
      then Some mihomoGuardDirectName
      else if matches (mihomo_rule ''Match'' [] mihomoGuardProxyName) then Some mihomoGuardProxyName
      else None)"
proof -
  have target: "mr_Proxy (bypass_host_rule host) = mihomoGuardDirectName" for host
    by (simp add: bypass_host_rule_def mihomo_rule_def split: option.split)
  have const: "mr_Proxy (mihomo_rule t payload p) = p" for t payload p
    by (simp add: mihomo_rule_def)
  have last: "first_target matches [r] = (if matches r then Some (mr_Proxy r) else None)" for r
    by (simp add: first_target_def)
  show ?thesis
    unfolding mihomoRules_def
    by (simp add: first_target_append first_target_map [OF const] first_target_map [OF target] last const)
qed

text \<open>the check of the rules the controller reads back accepts them exactly when they are the rules
  of the configuration, in the same order, each enabled.\<close>

theorem rules_readback_exact:
  "rules_error (mihomoRules c) rules = None \<longleftrightarrow> rules = mihomoRules c"
proof -
  have enabled: "\<forall>r \<in> set (mihomoRules c). \<not> mr_Disabled r"
    by (auto simp: mihomoRules_def mihomo_rule_def bypass_host_rule_def split: option.splits)
  have "rules_error expected rules = None \<longleftrightarrow> rules = expected" if "\<forall>r \<in> set expected. \<not> mr_Disabled r" for expected
  proof (cases "length rules = length expected")
    case True
    then show ?thesis using that
      by (induction rules expected rule: list_induct2)
        (auto simp: rules_error_def split: if_splits intro: mihomoRule.equality)
  qed (auto simp: rules_error_def)
  from this [OF enabled] show ?thesis .
qed

text \<open>an accepted selector group has distinct members that are remote transports with no binding of
  their own; none is called \<open>DIRECT\<close> or any other reserved name in any case, but for the managed
  manual node; so no member lets traffic leave unguarded.\<close>

theorem accepted_group_members_safe:
  assumes "proxyGroup_check c proxies = Inr selector"
  shows "mps_Type selector = ''Selector'' \<and> mps_All selector \<noteq> [] \<and> distinct (mps_All selector) \<and>
         (\<forall>name \<in> set (mps_All selector). name \<noteq> mc_SelectorGroup c \<and>
            (reservedMihomoName name \<longrightarrow> mc_SourceType c = ''manual_node'' \<and> name = mihomoManualProxyName) \<and>
            (\<exists>node. proxies name = Some node \<and> mihomoTransportType (mps_Type node) \<and>
               mps_All node = [] \<and> mps_Dialer node = [] \<and> mps_Interface node = [])) \<and>
         (mc_VPNRoutes c \<noteq> [] \<longrightarrow>
            (\<exists>vpn. proxies mihomoVPNProxyName = Some vpn \<and> mps_Type vpn = ''Direct'' \<and>
               mps_Interface vpn = mc_VPNInterface c))"
  using assms
  by (auto simp: proxyGroup_check_def Let_def all_fresh_iff group_member_ok_def vpn_exit_ok_def
      split: if_splits option.splits)

theorem accepted_group_members_safe_witness:
  "distinct [''node-a'', ''node-b''] \<and> ''node-a'' \<noteq> mc_SelectorGroup sample_mihomo"
proof -
  let ?node = "zero_proxy_state\<lparr>mps_Type := ''Trojan''\<rparr>"
  let ?group = "zero_proxy_state\<lparr>mps_Type := ''Selector'', mps_All := [''node-a'', ''node-b'']\<rparr>"
  have "proxyGroup_check sample_mihomo
      ([''node-a'' \<mapsto> ?node, ''node-b'' \<mapsto> ?node, ''exit'' \<mapsto> ?group]) = Inr ?group"
    by code_simp
  from accepted_group_members_safe [OF this] show ?thesis by simp
qed

end
