(* ===== verification/Coordinator.thy ===== *)
theory Coordinator
  imports Executor MihomoPolicy
begin

text \<open>
  The \<open>CoordinatedExecutor\<close> of \<open>internal/endpointservice/mihomo.go\<close> with the stored app
  subscription of \<open>mihomo_app.go\<close>: one executor that drives the WireGuard executor and the local
  proxy together. The proxy runtime, the WireGuard executor and the protected file are
  interfaces, records of functions over the world; methods found by type assertions are options.
  All operations hold the mutex to their end.
\<close>

subsection \<open>State and interfaces\<close>

record MihomoReadback =
  mrb_Mode :: string
  mrb_ProfileID :: string
  mrb_ProfileRevision :: int
  mrb_MixedPort :: int
  mrb_ControllerPort :: int
  mrb_DNSMode :: string
  mrb_SelectedProxy :: string
  mrb_ProtectionHash :: string

definition empty_MihomoReadback :: MihomoReadback where
  "empty_MihomoReadback =
     \<lparr>mrb_Mode = [], mrb_ProfileID = [], mrb_ProfileRevision = 0, mrb_MixedPort = 0,
      mrb_ControllerPort = 0, mrb_DNSMode = [], mrb_SelectedProxy = [], mrb_ProtectionHash = []\<rparr>"

record MihomoAppStatus =
  mas_Mode :: string
  mas_ProfileID :: string
  mas_ProfileRevision :: int
  mas_Configured :: bool
  mas_SelectedProxy :: string
  mas_Proxies :: "string list"

definition empty_MihomoAppStatus :: MihomoAppStatus where
  "empty_MihomoAppStatus =
     \<lparr>mas_Mode = [], mas_ProfileID = [], mas_ProfileRevision = 0, mas_Configured = False,
      mas_SelectedProxy = [], mas_Proxies = []\<rparr>"

record mihomoAppState =
  mst_Cleared :: bool
  mst_Version :: int
  mst_ProfileID :: string
  mst_ProfileRevision :: int
  mst_SubscriptionURL :: string
  mst_SelectedProxy :: string

definition mihomoAppStateVersion :: int where
  "mihomoAppStateVersion = 1"

record mihomoAppliedState =
  mad_Configuration :: MihomoConfiguration
  mad_AppState :: "mihomoAppState option"
  mad_AppStatus :: MihomoAppStatus

text \<open>The runtime: \<open>Apply\<close> and \<open>Disable\<close>, and the optional \<open>ApplySubscription\<close> and \<open>Verify\<close>.\<close>

record 'w MihomoRuntime =
  mrt_Apply :: "MihomoConfiguration \<Rightarrow> 'w \<Rightarrow> (MihomoReadback \<times> error) \<times> 'w"
  mrt_Disable :: "'w \<Rightarrow> error \<times> 'w"
  mrt_ApplySubscription ::
    "(MihomoConfiguration \<Rightarrow> string \<Rightarrow> string \<Rightarrow> 'w \<Rightarrow> (MihomoAppStatus \<times> error) \<times> 'w) option"
  mrt_Verify :: "(MihomoConfiguration option \<Rightarrow> 'w \<Rightarrow> error \<times> 'w) option"

text \<open>
  The protected file: reading, decrypting and decoding it; encrypting and replacing it;
  removing it; and \<open>filepath.IsAbs\<close> of the platform.
\<close>

record 'w app_store =
  aps_read :: "string \<Rightarrow> 'w \<Rightarrow> mihomoAppState fallible \<times> 'w"
  aps_write :: "string \<Rightarrow> mihomoAppState \<Rightarrow> 'w \<Rightarrow> error \<times> 'w"
  aps_remove :: "string \<Rightarrow> 'w \<Rightarrow> error \<times> 'w"
  aps_IsAbs :: "string \<Rightarrow> bool"

text \<open>Hexadecimal SHA-256 of the JSON texts the code hashes.\<close>

record mihomo_digests =
  mdg_protection :: "MihomoProtection option \<times> string \<times> string list \<times> string list \<times> string list \<Rightarrow> string"
  mdg_readback :: "MihomoReadback \<Rightarrow> string"
  mdg_combined :: "string \<times> string \<Rightarrow> string"

record ('e, 'w) coordinator_env =
  cv_wireGuard :: "('e, 'w) ConfigurationExecutor"
  cv_mihomo :: "'w MihomoRuntime option"
  cv_store :: "'w app_store"
  cv_digests :: mihomo_digests

record 'e CoordinatedExecutor =
  co_wireGuard :: 'e
  co_mihomoActive :: bool
  co_previousMihomo :: "mihomoAppliedState option"
  co_appStatePath :: string
  co_appClearPending :: bool
  co_appDesired :: "MihomoConfiguration option"
  co_appStatus :: MihomoAppStatus

text \<open>The optional path is a list of at most one element, as the variadic argument is.\<close>

definition NewCoordinatedExecutor ::
  "('e, 'w) coordinator_env \<Rightarrow> 'e option \<Rightarrow> string list \<Rightarrow> 'e CoordinatedExecutor fallible" where
  "NewCoordinatedExecutor env wireGuard appStatePath =
     (case wireGuard of
        None \<Rightarrow> Inl (ErrorNew ''WireGuard executor is required'')
      | Some e \<Rightarrow>
          if 1 < length appStatePath \<or>
             length appStatePath = 1 \<and> \<not> aps_IsAbs (cv_store env) (appStatePath ! 0)
          then Inl (ErrorNew ''WireGuard executor is required'')
          else Inr \<lparr>co_wireGuard = e, co_mihomoActive = False, co_previousMihomo = None,
                    co_appStatePath = (if length appStatePath = 1 then appStatePath ! 0 else []),
                    co_appClearPending = False, co_appDesired = None,
                    co_appStatus = empty_MihomoAppStatus\<rparr>)"

subsection \<open>Readbacks and statuses\<close>

definition mihomoProtectionHash :: "mihomo_digests \<Rightarrow> MihomoConfiguration \<Rightarrow> string" where
  "mihomoProtectionHash dg c =
     ''sha256:'' @ mdg_protection dg
       (mc_Protection c, mc_VPNInterface c, mc_VPNRoutes c, mc_BypassCIDRs c, mc_BypassHosts c)"

definition expectedMihomoReadback :: "mihomo_digests \<Rightarrow> MihomoConfiguration \<Rightarrow> MihomoReadback" where
  "expectedMihomoReadback dg configuration =
     (let c = (if mc_SourceType configuration = ''manual_node''
               then configuration\<lparr>mc_SelectedProxy := mihomoManualProxyName\<rparr> else configuration)
      in \<lparr>mrb_Mode = mc_Mode c, mrb_ProfileID = mc_ProfileID c, mrb_ProfileRevision = mc_ProfileRevision c,
          mrb_MixedPort = mc_MixedPort c, mrb_ControllerPort = mc_ControllerPort c,
          mrb_DNSMode = mc_DNSMode c, mrb_SelectedProxy = mc_SelectedProxy c,
          mrb_ProtectionHash = mihomoProtectionHash dg c\<rparr>)"

definition mihomoReadbackHash :: "mihomo_digests \<Rightarrow> MihomoReadback \<Rightarrow> string" where
  "mihomoReadbackHash dg readback = ''sha256:'' @ mdg_readback dg readback"

definition combinedReadbackHash :: "mihomo_digests \<Rightarrow> string \<Rightarrow> string \<Rightarrow> string" where
  "combinedReadbackHash dg wireGuard mihomo = ''sha256:'' @ mdg_combined dg (wireGuard, mihomo)"

definition currentMihomoReadbackHash :: "mihomo_digests \<Rightarrow> 'e CoordinatedExecutor \<Rightarrow> string" where
  "currentMihomoReadbackHash dg executor =
     (case co_previousMihomo executor of
        None \<Rightarrow> mihomoReadbackHash dg empty_MihomoReadback
      | Some previous \<Rightarrow>
          let readback = expectedMihomoReadback dg (mad_Configuration previous)
          in mihomoReadbackHash dg
               (if mad_AppState previous \<noteq> None
                then readback\<lparr>mrb_SelectedProxy := mas_SelectedProxy (mad_AppStatus previous)\<rparr>
                else readback))"

definition mihomoAppStatus :: "MihomoConfiguration \<Rightarrow> bool \<Rightarrow> string \<Rightarrow> string list \<Rightarrow> MihomoAppStatus" where
  "mihomoAppStatus c configured selected proxies =
     \<lparr>mas_Mode = mc_Mode c, mas_ProfileID = mc_ProfileID c, mas_ProfileRevision = mc_ProfileRevision c,
      mas_Configured = configured, mas_SelectedProxy = selected, mas_Proxies = proxies\<rparr>"

definition validMihomoAppStatus :: "MihomoAppStatus \<Rightarrow> MihomoConfiguration \<Rightarrow> bool" where
  "validMihomoAppStatus status c =
     (if mas_Mode status \<noteq> ''app_subscription'' \<or> mas_ProfileID status \<noteq> mc_ProfileID c \<or>
         mas_ProfileRevision status \<noteq> mc_ProfileRevision c \<or> \<not> mas_Configured status \<or>
         \<not> validMihomoName (mas_SelectedProxy status) \<or> length (mas_Proxies status) = 0 \<or>
         2048 < length (mas_Proxies status) \<or> mas_SelectedProxy status \<notin> set (mas_Proxies status)
      then False
      else all_fresh validMihomoName id [] (mas_Proxies status))"

definition validMihomoAppState :: "mihomoAppState \<Rightarrow> bool" where
  "validMihomoAppState state =
     (if mst_Version state \<noteq> mihomoAppStateVersion \<or> \<not> identifierPattern (mst_ProfileID state) \<or>
         mst_ProfileRevision state < 1
      then False
      else if mst_Cleared state then mst_SubscriptionURL state = [] \<and> mst_SelectedProxy state = []
      else validSubscriptionURL (mst_SubscriptionURL state) \<and> validMihomoName (mst_SelectedProxy state))"

definition loadMihomoAppState :: "'w app_store \<Rightarrow> string \<Rightarrow> 'w \<Rightarrow> mihomoAppState fallible \<times> 'w" where
  "loadMihomoAppState store path w =
     (let (result, w) = aps_read store path w
      in case result of
           Inl err \<Rightarrow> (Inl err, w)
         | Inr state \<Rightarrow>
             if \<not> validMihomoAppState state
             then (Inl (ErrorNew ''stored mihomo app subscription is invalid''), w)
             else (Inr state, w))"

definition saveMihomoAppState :: "'w app_store \<Rightarrow> string \<Rightarrow> mihomoAppState \<Rightarrow> 'w \<Rightarrow> error \<times> 'w" where
  "saveMihomoAppState store path state w =
     (if \<not> aps_IsAbs store path \<or> \<not> validMihomoAppState state
      then (Some (ErrorNew ''mihomo app subscription state is invalid''), w)
      else aps_write store path state w)"

subsection \<open>Quiescing, binding, recovering\<close>

definition quiesceMihomo ::
  "('e, 'w) coordinator_env \<Rightarrow> 'e CoordinatedExecutor \<times> 'w \<Rightarrow> error \<times> 'e CoordinatedExecutor \<times> 'w" where
  "quiesceMihomo env = (\<lambda>(executor, w).
     let (err, w) = (case cv_mihomo env of None \<Rightarrow> (None, w) | Some mihomo \<Rightarrow> mrt_Disable mihomo w)
     in if err \<noteq> None then (err, executor, w)
        else (None, executor\<lparr>co_mihomoActive := False, co_previousMihomo := None\<rparr>, w))"

definition clear_app :: "'e CoordinatedExecutor \<Rightarrow> 'e CoordinatedExecutor" where
  "clear_app executor = executor\<lparr>co_appDesired := None, co_appStatus := empty_MihomoAppStatus\<rparr>"

definition coordinator_rejected :: "string \<Rightarrow> string \<Rightarrow> ApplyOutcome" where
  "coordinator_rejected hash reason =
     \<lparr>ao_Status = ''rejected'', ao_ReadbackHash = hash, ao_ReasonCode = reason\<rparr>"

definition recoverMihomo ::
  "('e, 'w) coordinator_env \<Rightarrow> string \<Rightarrow> 'e CoordinatedExecutor \<times> 'w \<Rightarrow>
   ApplyOutcome \<times> 'e CoordinatedExecutor \<times> 'w" where
  "recoverMihomo env reason s =
     (let (err, executor, w) = quiesceMihomo env s;
          reason = (if err \<noteq> None then ''mihomo_disable_failed'' else reason);
          executor = clear_app executor
      in (coordinator_rejected (currentMihomoReadbackHash (cv_digests env) executor) reason, executor, w))"

text \<open>The configuration is returned with the interface that was read back.\<close>

definition bindMihomoVPN ::
  "('e, 'w) coordinator_env \<Rightarrow> MihomoConfiguration \<Rightarrow> 'e CoordinatedExecutor \<times> 'w \<Rightarrow>
   MihomoConfiguration fallible \<times> 'e CoordinatedExecutor \<times> 'w" where
  "bindMihomoVPN env configuration = (\<lambda>(executor, w).
     if length (mc_VPNRoutes configuration) = 0 then
       (if mc_VPNInterface configuration \<noteq> []
        then (Inl (ErrorNew ''VPN binding without routes''), executor, w)
        else (Inr configuration, executor, w))
     else case ce_VPNBinding (cv_wireGuard env) of
       None \<Rightarrow> (Inl (ErrorNew ''VPN binding readback is unavailable''), executor, w)
     | Some binder \<Rightarrow>
         let ((name, routes, err), e, w) = binder (co_wireGuard executor, w);
             executor = executor\<lparr>co_wireGuard := e\<rparr>
         in if err \<noteq> None \<or> routes \<noteq> mc_VPNRoutes configuration
            then (Inl (ErrorNew ''VPN binding does not match authorized routes''), executor, w)
            else (Inr (configuration\<lparr>mc_VPNInterface := name\<rparr>), executor, w))"

definition rememberManagedMihomo ::
  "MihomoConfiguration \<Rightarrow> 'e CoordinatedExecutor \<Rightarrow> 'e CoordinatedExecutor" where
  "rememberManagedMihomo configuration executor =
     clear_app (executor\<lparr>co_mihomoActive := True,
       co_previousMihomo := Some \<lparr>mad_Configuration = configuration, mad_AppState = None,
                                  mad_AppStatus = empty_MihomoAppStatus\<rparr>\<rparr>)"

definition rememberAppMihomo ::
  "MihomoConfiguration \<Rightarrow> mihomoAppState \<Rightarrow> MihomoAppStatus \<Rightarrow> 'e CoordinatedExecutor \<Rightarrow> 'e CoordinatedExecutor" where
  "rememberAppMihomo configuration state status executor =
     executor\<lparr>co_mihomoActive := True,
       co_previousMihomo := Some \<lparr>mad_Configuration = configuration, mad_AppState = Some state,
                                  mad_AppStatus = status\<rparr>,
       co_appDesired := Some configuration, co_appStatus := status\<rparr>"

subsection \<open>The stored app subscription\<close>

definition applyMihomoAppState ::
  "('e, 'w) coordinator_env \<Rightarrow> MihomoConfiguration \<Rightarrow> mihomoAppState \<Rightarrow> 'e CoordinatedExecutor \<times> 'w \<Rightarrow>
   (MihomoAppStatus \<times> error) \<times> 'e CoordinatedExecutor \<times> 'w" where
  "applyMihomoAppState env configuration state = (\<lambda>(executor, w).
     case (case cv_mihomo env of None \<Rightarrow> None | Some mihomo \<Rightarrow> mrt_ApplySubscription mihomo) of
       None \<Rightarrow>
         ((co_appStatus executor, Some (ErrorNew ''mihomo app subscription runtime is unavailable'')), executor, w)
     | Some runtime \<Rightarrow>
         let (err, executor, w) = quiesceMihomo env (executor, w)
         in if err \<noteq> None then ((co_appStatus executor, err), executor, w)
            else
              let (bound, executor, w) = bindMihomoVPN env configuration (executor, w)
              in case bound of
                   Inl err \<Rightarrow>
                     let (_, executor, w) = recoverMihomo env ''mihomo_vpn_binding_unavailable'' (executor, w)
                     in ((co_appStatus executor, Some err), executor, w)
                 | Inr configuration \<Rightarrow>
                     let ((status, err), w) =
                           runtime configuration (mst_SubscriptionURL state) (mst_SelectedProxy state) w
                     in if err \<noteq> None \<or> \<not> validMihomoAppStatus status configuration
                        then
                          let (_, executor, w) = recoverMihomo env ''mihomo_apply_failed'' (executor, w)
                          in ((co_appStatus executor, Some (ErrorNew ''mihomo app subscription apply failed'')),
                              executor, w)
                        else
                          let state = state\<lparr>mst_SelectedProxy := mas_SelectedProxy status\<rparr>;
                              (err, w) = saveMihomoAppState (cv_store env) (co_appStatePath executor) state w
                          in if err \<noteq> None
                             then
                               let (_, executor, w) = recoverMihomo env ''mihomo_state_save_failed'' (executor, w)
                               in ((co_appStatus executor, err), executor, w)
                             else
                               let executor = (rememberAppMihomo configuration state status executor)
                                                \<lparr>co_appClearPending := False\<rparr>
                               in ((co_appStatus executor, None), executor, w))"

text \<open>
  \<open>executor.mihomoActive && executor.mihomo != nil\<close> guards a \<open>Disable\<close>; the first component says
  whether it failed.
\<close>

definition disable_if_active ::
  "('e, 'w) coordinator_env \<Rightarrow> 'e CoordinatedExecutor \<Rightarrow> 'w \<Rightarrow> bool \<times> 'w" where
  "disable_if_active env executor w =
     (case cv_mihomo env of
        Some mihomo \<Rightarrow>
          if co_mihomoActive executor then let (err, w) = mrt_Disable mihomo w in (err \<noteq> None, w)
          else (False, w)
      | None \<Rightarrow> (False, w))"

text \<open>The stored state does not belong to this configuration, or was cleared.\<close>

definition stored_app_absent ::
  "'e CoordinatedExecutor \<Rightarrow> MihomoConfiguration \<Rightarrow> mihomoAppState fallible \<Rightarrow> bool" where
  "stored_app_absent executor configuration loaded \<longleftrightarrow>
     co_appClearPending executor \<or>
     (case loaded of
        Inl err \<Rightarrow> errors_is err ErrNotExist
      | Inr state \<Rightarrow>
          mst_Cleared state \<or> mst_ProfileID state \<noteq> mc_ProfileID configuration \<or>
          mst_ProfileRevision state \<noteq> mc_ProfileRevision configuration)"

definition applyStoredMihomoApp ::
  "('e, 'w) coordinator_env \<Rightarrow> MihomoConfiguration \<Rightarrow> 'e CoordinatedExecutor \<times> 'w \<Rightarrow>
   ApplyOutcome \<times> 'e CoordinatedExecutor \<times> 'w" where
  "applyStoredMihomoApp env configuration = (\<lambda>(executor, w).
     let dg = cv_digests env;
         base = mihomoAppStatus configuration False [] [];
         idle = (\<lambda>executor. executor\<lparr>co_mihomoActive := False, co_previousMihomo := None, co_appStatus := base\<rparr>);
         waiting = \<lparr>ao_Status = ''applied'',
                    ao_ReadbackHash = mihomoReadbackHash dg (expectedMihomoReadback dg configuration),
                    ao_ReasonCode = []\<rparr>
     in if co_appStatePath executor = [] then
          let (failed, w) = disable_if_active env executor w
          in if failed then recoverMihomo env ''mihomo_disable_failed'' (executor, w)
             else (waiting, idle executor, w)
        else
          let (loaded, w) = loadMihomoAppState (cv_store env) (co_appStatePath executor) w
          in if stored_app_absent executor configuration loaded then
               let (failed, w) = disable_if_active env executor w
               in if failed then recoverMihomo env ''mihomo_disable_failed'' (executor, w)
                  else (waiting, idle executor, w)
             else case loaded of
               Inl _ \<Rightarrow>
                 let (failed, w) = disable_if_active env executor w
                 in if failed then recoverMihomo env ''mihomo_state_invalid'' (executor, w)
                    else (coordinator_rejected (mihomoReadbackHash dg empty_MihomoReadback) ''mihomo_state_invalid'',
                          idle executor, w)
             | Inr state \<Rightarrow>
                 let ((status, err), executor, w) = applyMihomoAppState env configuration state (executor, w)
                 in if err \<noteq> None
                    then (coordinator_rejected (mihomoReadbackHash dg empty_MihomoReadback) ''mihomo_apply_failed'',
                          executor, w)
                    else (\<lparr>ao_Status = ''applied'',
                            ao_ReadbackHash = mihomoReadbackHash dg
                              ((expectedMihomoReadback dg configuration)\<lparr>mrb_SelectedProxy := mas_SelectedProxy status\<rparr>),
                            ao_ReasonCode = []\<rparr>, executor, w))"

subsection \<open>Apply, Verify, Disable\<close>

definition applyMihomo ::
  "('e, 'w) coordinator_env \<Rightarrow> ConfigurationDesired \<Rightarrow> 'e CoordinatedExecutor \<times> 'w \<Rightarrow>
   ApplyOutcome \<times> 'e CoordinatedExecutor \<times> 'w" where
  "applyMihomo env desired = (\<lambda>(executor, w).
     let dg = cv_digests env
     in case cd_Mihomo desired of
          None \<Rightarrow>
            let (failed, w) = disable_if_active env executor w
            in if failed then recoverMihomo env ''mihomo_disable_failed'' (executor, w)
               else (\<lparr>ao_Status = ''applied'', ao_ReadbackHash = mihomoReadbackHash dg empty_MihomoReadback,
                       ao_ReasonCode = []\<rparr>,
                     clear_app (executor\<lparr>co_mihomoActive := False, co_previousMihomo := None\<rparr>), w)
        | Some configuration \<Rightarrow>
            if validateMihomoConfiguration (Some configuration) (cd_WireGuard desired)
                 (mc_Mode configuration = ''managed_follow'') \<noteq> None
            then recoverMihomo env ''unsafe_mihomo_configuration'' (executor, w)
            else case cv_mihomo env of
              None \<Rightarrow>
                (coordinator_rejected (currentMihomoReadbackHash dg executor) ''mihomo_runtime_unavailable'',
                 executor, w)
            | Some mihomo \<Rightarrow>
                if mc_Mode configuration = ''app_subscription''
                then applyStoredMihomoApp env configuration
                       (executor\<lparr>co_appDesired := Some configuration\<rparr>, w)
                else
                  let executor = clear_app executor;
                      ((readback, err), w) = mrt_Apply mihomo configuration w
                  in if err \<noteq> None \<or> readback \<noteq> expectedMihomoReadback dg configuration
                     then recoverMihomo env ''mihomo_apply_failed'' (executor, w)
                     else (\<lparr>ao_Status = ''applied'', ao_ReadbackHash = mihomoReadbackHash dg readback,
                             ao_ReasonCode = []\<rparr>,
                           rememberManagedMihomo configuration executor, w))"

text \<open>The block of \<open>Apply\<close> under \<open>desired.Mihomo != nil\<close>: the configuration that
  \<open>applyMihomo\<close> gets, or the error of the binding.\<close>

definition bound_configuration ::
  "('e, 'w) coordinator_env \<Rightarrow> ConfigurationDesired \<Rightarrow> 'e CoordinatedExecutor \<times> 'w \<Rightarrow>
   (MihomoConfiguration option) fallible \<times> 'e CoordinatedExecutor \<times> 'w" where
  "bound_configuration env desired = (\<lambda>(executor, w).
     case cd_Mihomo desired of
       None \<Rightarrow> (Inr None, executor, w)
     | Some mihomo \<Rightarrow>
         let configuration = mihomo\<lparr>mc_EnforcementUntil := cd_ValidUntil desired\<rparr>
         in case cd_WireGuard desired of
              None \<Rightarrow> (Inr (Some configuration), executor, w)
            | Some wg \<Rightarrow>
                let (bound, executor, w) = bindMihomoVPN env
                      (configuration\<lparr>mc_DNSRecords := wg_DNSRecords wg, mc_VPNRoutes := wg_Routes wg\<rparr>) (executor, w)
                in (map_sum id Some bound, executor, w))"

definition Coordinated_Apply ::
  "('e, 'w) coordinator_env \<Rightarrow> ConfigurationDesired \<Rightarrow> time \<Rightarrow> 'e CoordinatedExecutor \<times> 'w \<Rightarrow>
   ApplyOutcome \<times> 'e CoordinatedExecutor \<times> 'w" where
  "Coordinated_Apply env desired now s =
     (let dg = cv_digests env;
          (err, executor, w) = quiesceMihomo env s
      in if err \<noteq> None
         then (coordinator_rejected (currentMihomoReadbackHash dg executor) ''mihomo_disable_failed'', executor, w)
         else
           let executor = clear_app executor;
               (wireGuard, e, w) = ce_Apply (cv_wireGuard env) desired now (co_wireGuard executor, w);
               executor = executor\<lparr>co_wireGuard := e\<rparr>;
               no_proxy = combinedReadbackHash dg (ao_ReadbackHash wireGuard)
                            (mihomoReadbackHash dg empty_MihomoReadback)
           in if ao_Status wireGuard \<noteq> ''applied''
              then (coordinator_rejected no_proxy (fallback (ao_ReasonCode wireGuard) ''wireguard_apply_failed''),
                    executor, w)
              else
                let (bound, executor, w) = bound_configuration env desired (executor, w)
                in case bound of
                     Inl _ \<Rightarrow> (coordinator_rejected no_proxy ''mihomo_vpn_binding_unavailable'', executor, w)
                   | Inr configuration \<Rightarrow>
                       if (case configuration of
                             None \<Rightarrow> False
                           | Some c \<Rightarrow> (case mc_Protection c of
                               None \<Rightarrow> True
                             | Some p \<Rightarrow> mp_PolicyVersion p \<noteq> cd_PolicyVersion desired))
                       then recoverMihomo env ''mihomo_policy_version_mismatch'' (executor, w)
                       else
                         let (mihomo, executor, w) =
                               applyMihomo env (desired\<lparr>cd_Mihomo := configuration\<rparr>) (executor, w)
                         in (\<lparr>ao_Status = ao_Status mihomo,
                               ao_ReadbackHash = combinedReadbackHash dg (ao_ReadbackHash wireGuard)
                                                   (ao_ReadbackHash mihomo),
                               ao_ReasonCode = ao_ReasonCode mihomo\<rparr>, executor, w))"

definition Coordinated_Verify ::
  "('e, 'w) coordinator_env \<Rightarrow> ConfigurationDesired \<Rightarrow> time \<Rightarrow> 'e CoordinatedExecutor \<times> 'w \<Rightarrow>
   ApplyOutcome \<times> 'e CoordinatedExecutor \<times> 'w" where
  "Coordinated_Verify env desired now = (\<lambda>(executor, w).
     case ce_Verify (cv_wireGuard env) of
       None \<Rightarrow> recoverMihomo env ''endpoint_readback_unavailable'' (executor, w)
     | Some verifier \<Rightarrow>
         let (wireGuard, e, w) = verifier desired now (co_wireGuard executor, w);
             executor = executor\<lparr>co_wireGuard := e\<rparr>
         in if ao_Status wireGuard \<noteq> ''applied''
            then recoverMihomo env (fallback (ao_ReasonCode wireGuard) ''endpoint_readback_mismatch'') (executor, w)
            else case cv_mihomo env of
              None \<Rightarrow>
                if cd_Mihomo desired = None then (wireGuard, executor, w)
                else recoverMihomo env ''mihomo_runtime_unavailable'' (executor, w)
            | Some mihomo \<Rightarrow>
                (case mrt_Verify mihomo of
                   None \<Rightarrow> recoverMihomo env ''mihomo_readback_unavailable'' (executor, w)
                 | Some verify \<Rightarrow>
                     let (bound, executor, w) =
                       (case co_previousMihomo executor of
                          None \<Rightarrow> (Inr None, executor, w)
                        | Some previous \<Rightarrow>
                            let (bound, executor, w) =
                                  bindMihomoVPN env (mad_Configuration previous) (executor, w)
                            in (map_sum id Some bound, executor, w))
                     in case bound of
                          Inl _ \<Rightarrow> recoverMihomo env ''mihomo_vpn_binding_unavailable'' (executor, w)
                        | Inr configuration \<Rightarrow>
                            let (err, w) = verify configuration w
                            in if err \<noteq> None
                               then recoverMihomo env ''mihomo_readback_mismatch'' (executor, w)
                               else (\<lparr>ao_Status = ''applied'',
                                       ao_ReadbackHash = combinedReadbackHash (cv_digests env)
                                         (ao_ReadbackHash wireGuard)
                                         (currentMihomoReadbackHash (cv_digests env) executor),
                                       ao_ReasonCode = []\<rparr>, executor, w)))"

definition Coordinated_Disable ::
  "('e, 'w) coordinator_env \<Rightarrow> 'e CoordinatedExecutor \<times> 'w \<Rightarrow> error \<times> 'e CoordinatedExecutor \<times> 'w" where
  "Coordinated_Disable env s =
     (let (err, executor, w) = quiesceMihomo env s
      in if err \<noteq> None then (err, executor, w)
         else
           let executor = clear_app executor;
               (err, e, w) = ce_Disable (cv_wireGuard env) (co_wireGuard executor, w)
           in (err, executor\<lparr>co_wireGuard := e\<rparr>, w))"

definition Coordinated_interface ::
  "('e, 'w) coordinator_env \<Rightarrow> ('e CoordinatedExecutor, 'w) ConfigurationExecutor" where
  "Coordinated_interface env =
     \<lparr>ce_Apply = Coordinated_Apply env, ce_Disable = Coordinated_Disable env,
      ce_Verify = Some (Coordinated_Verify env), ce_VPNBinding = None\<rparr>"

subsection \<open>The user's operations on the app subscription\<close>

definition mihomoAppConfiguration ::
  "('e, 'w) coordinator_env \<Rightarrow> 'e CoordinatedExecutor \<Rightarrow> MihomoConfiguration fallible" where
  "mihomoAppConfiguration env executor =
     (case (co_appDesired executor, cv_mihomo env) of
        (Some desired, Some mihomo) \<Rightarrow>
          if mc_Mode desired \<noteq> ''app_subscription'' \<or> co_appStatePath executor = [] \<or>
             mrt_ApplySubscription mihomo = None
          then Inl (ErrorNew ''mihomo app subscription is unavailable'') else Inr desired
      | _ \<Rightarrow> Inl (ErrorNew ''mihomo app subscription is unavailable''))"

definition loadedMihomoAppState ::
  "('e, 'w) coordinator_env \<Rightarrow> 'e CoordinatedExecutor \<times> 'w \<Rightarrow>
   (MihomoConfiguration \<times> mihomoAppState) fallible \<times> 'w" where
  "loadedMihomoAppState env = (\<lambda>(executor, w).
     case mihomoAppConfiguration env executor of
       Inl err \<Rightarrow> (Inl err, w)
     | Inr configuration \<Rightarrow>
         let (loaded, w) = loadMihomoAppState (cv_store env) (co_appStatePath executor) w
         in case loaded of
              Inl _ \<Rightarrow> (Inl (ErrorNew ''mihomo app subscription is not configured''), w)
            | Inr state \<Rightarrow>
                if co_appClearPending executor \<or> mst_Cleared state \<or>
                   mst_ProfileID state \<noteq> mc_ProfileID configuration \<or>
                   mst_ProfileRevision state \<noteq> mc_ProfileRevision configuration
                then (Inl (ErrorNew ''mihomo app subscription is not configured''), w)
                else (Inr (configuration, state), w))"

type_synonym ('e, 'w) app_operation =
  "'e CoordinatedExecutor \<times> 'w \<Rightarrow> (MihomoAppStatus \<times> error) \<times> 'e CoordinatedExecutor \<times> 'w"

definition ConfigureMihomoApp :: "('e, 'w) coordinator_env \<Rightarrow> string \<Rightarrow> ('e, 'w) app_operation" where
  "ConfigureMihomoApp env subscriptionURL = (\<lambda>(executor, w).
     case mihomoAppConfiguration env executor of
       Inl _ \<Rightarrow>
         ((co_appStatus executor, Some (ErrorNew ''mihomo app subscription is invalid or unavailable'')), executor, w)
     | Inr configuration \<Rightarrow>
         if \<not> validSubscriptionURL subscriptionURL
         then ((co_appStatus executor, Some (ErrorNew ''mihomo app subscription is invalid or unavailable'')),
               executor, w)
         else applyMihomoAppState env configuration
                \<lparr>mst_Cleared = False, mst_Version = mihomoAppStateVersion,
                 mst_ProfileID = mc_ProfileID configuration,
                 mst_ProfileRevision = mc_ProfileRevision configuration,
                 mst_SubscriptionURL = subscriptionURL, mst_SelectedProxy = []\<rparr> (executor, w))"

definition SelectMihomoApp :: "('e, 'w) coordinator_env \<Rightarrow> string \<Rightarrow> ('e, 'w) app_operation" where
  "SelectMihomoApp env selectedProxy = (\<lambda>(executor, w).
     let (loaded, w) = loadedMihomoAppState env (executor, w)
     in case loaded of
          Inl _ \<Rightarrow>
            ((co_appStatus executor, Some (ErrorNew ''mihomo app subscription is not configured'')), executor, w)
        | Inr (configuration, state) \<Rightarrow>
            if \<not> validMihomoName selectedProxy
            then ((co_appStatus executor, Some (ErrorNew ''mihomo app subscription is not configured'')), executor, w)
            else applyMihomoAppState env configuration (state\<lparr>mst_SelectedProxy := selectedProxy\<rparr>) (executor, w))"

definition RefreshMihomoApp :: "('e, 'w) coordinator_env \<Rightarrow> ('e, 'w) app_operation" where
  "RefreshMihomoApp env = (\<lambda>(executor, w).
     let (loaded, w) = loadedMihomoAppState env (executor, w)
     in case loaded of
          Inl _ \<Rightarrow>
            ((co_appStatus executor, Some (ErrorNew ''mihomo app subscription is not configured'')), executor, w)
        | Inr (configuration, state) \<Rightarrow> applyMihomoAppState env configuration state (executor, w))"

definition idle_app :: "MihomoConfiguration \<Rightarrow> 'e CoordinatedExecutor \<Rightarrow> 'e CoordinatedExecutor" where
  "idle_app configuration executor =
     executor\<lparr>co_mihomoActive := False, co_previousMihomo := None,
              co_appStatus := mihomoAppStatus configuration False [] []\<rparr>"

text \<open>
  \<open>executor.mihomo\<close> is not nil where \<open>mihomoAppConfiguration\<close> succeeded, so the code's own test
  for nil in \<open>ClearMihomoApp\<close> always passes.
\<close>

definition ClearMihomoApp :: "('e, 'w) coordinator_env \<Rightarrow> ('e, 'w) app_operation" where
  "ClearMihomoApp env = (\<lambda>(executor, w).
     case (mihomoAppConfiguration env executor, cv_mihomo env) of
       (Inr configuration, Some mihomo) \<Rightarrow>
         let cleared = \<lparr>mst_Cleared = True, mst_Version = mihomoAppStateVersion,
                        mst_ProfileID = mc_ProfileID configuration,
                        mst_ProfileRevision = mc_ProfileRevision configuration,
                        mst_SubscriptionURL = [], mst_SelectedProxy = []\<rparr>;
             executor = executor\<lparr>co_appClearPending := True\<rparr>;
             (err, w) = saveMihomoAppState (cv_store env) (co_appStatePath executor) cleared w
         in if err \<noteq> None then
              let (removeErr, w) = aps_remove (cv_store env) (co_appStatePath executor) w;
                  removeErr = (case removeErr of
                      Some e \<Rightarrow> if errors_is e ErrNotExist then None else Some e | None \<Rightarrow> None);
                  (disableErr, w) = mrt_Disable mihomo w;
                  executor = (if disableErr = None then idle_app configuration executor else executor)
              in ((co_appStatus executor, errors_join [err, removeErr, disableErr]), executor, w)
            else
              let (err, w) = mrt_Disable mihomo w
              in if err \<noteq> None then ((co_appStatus executor, err), executor, w)
                 else let executor = idle_app configuration executor
                      in ((co_appStatus executor, None), executor, w)
     | (Inl err, _) \<Rightarrow> ((co_appStatus executor, Some err), executor, w)
     | (_, None) \<Rightarrow>
         ((co_appStatus executor, Some (ErrorNew ''mihomo app subscription is unavailable'')), executor, w))"

definition Coordinated_MihomoAppStatus ::
  "('e, 'w) coordinator_env \<Rightarrow> 'e CoordinatedExecutor \<Rightarrow> MihomoAppStatus \<times> error" where
  "Coordinated_MihomoAppStatus env executor =
     (case mihomoAppConfiguration env executor of
        Inl err \<Rightarrow> (empty_MihomoAppStatus, Some err)
      | Inr _ \<Rightarrow> (co_appStatus executor, None))"

end
