(* ===== verification/Coordinator_Safety.thy ===== *)
theory Coordinator_Safety
  imports Coordinator
begin

text \<open>
  What the coordinated executor guarantees: the proxy is stopped before the tunnel is touched,
  nothing is left running after a rejected configuration, what runs is what was authorized, and
  the coordinated executor keeps the contract of an executor whenever the one it wraps does.
\<close>

definition proxy_off :: "'e CoordinatedExecutor \<Rightarrow> bool" where
  "proxy_off executor \<longleftrightarrow> \<not> co_mihomoActive executor \<and> co_previousMihomo executor = None"

lemma clear_app_simps [simp]:
  "co_wireGuard (clear_app ex) = co_wireGuard ex" "co_mihomoActive (clear_app ex) = co_mihomoActive ex"
  "co_previousMihomo (clear_app ex) = co_previousMihomo ex" "proxy_off (clear_app ex) = proxy_off ex"
  "co_appStatePath (clear_app ex) = co_appStatePath ex"
  by (simp_all add: clear_app_def proxy_off_def)

lemma proxy_off_wireGuard [simp]: "proxy_off (ex\<lparr>co_wireGuard := e\<rparr>) = proxy_off ex"
  by (simp add: proxy_off_def)

lemma proxy_off_update [simp]:
  "proxy_off (ex\<lparr>co_mihomoActive := False, co_previousMihomo := None\<rparr>)"
  "proxy_off (ex\<lparr>co_mihomoActive := False, co_previousMihomo := None, co_appStatus := s\<rparr>)"
  "proxy_off (ex\<lparr>co_appDesired := d\<rparr>) = proxy_off ex"
  by (simp_all add: proxy_off_def)

lemma quiesce_cases:
  assumes "quiesceMihomo env (ex, w) = (err, ex', w')"
  obtains (failed) mihomo e where "err = Some e" "ex' = ex" "cv_mihomo env = Some mihomo"
      "mrt_Disable mihomo w = (Some e, w')"
    | (quiet) "err = None" "ex' = ex\<lparr>co_mihomoActive := False, co_previousMihomo := None\<rparr>"
  using assms by (auto simp: quiesceMihomo_def Let_def split: option.splits prod.splits if_splits)

lemma recover_cases:
  assumes "recoverMihomo env reason (ex, w) = (outcome, ex', w')"
  obtains (stopped) "ex' = clear_app (ex\<lparr>co_mihomoActive := False, co_previousMihomo := None\<rparr>)"
      "ao_Status outcome = ''rejected''" "ao_ReasonCode outcome = reason"
    | (stuck) "ex' = clear_app ex" "ao_Status outcome = ''rejected''"
      "ao_ReasonCode outcome = ''mihomo_disable_failed''"
proof -
  obtain err ex1 w1 where q: "quiesceMihomo env (ex, w) = (err, ex1, w1)" by (metis prod_cases3)
  then show ?thesis
    by (cases rule: quiesce_cases)
      (use assms q stopped stuck in \<open>auto simp: recoverMihomo_def coordinator_rejected_def Let_def\<close>)
qed

lemma recover_off:
  assumes "recoverMihomo env reason (ex, w) = (outcome, ex', w')" "proxy_off ex"
  shows "proxy_off ex'" "ao_Status outcome = ''rejected''" "co_wireGuard ex' = co_wireGuard ex"
  using assms(1) by (cases rule: recover_cases; use assms(2) in simp)+

lemma bind_cases:
  assumes "bindMihomoVPN env c (ex, w) = (bound, ex', w')"
  obtains (unbound) "mc_VPNRoutes c = []" "ex' = ex" "w' = w" "bound = Inr c \<and> mc_VPNInterface c = [] \<or> isl bound"
    | (bound) name e binding where "mc_VPNRoutes c \<noteq> []" "bound = Inr (c\<lparr>mc_VPNInterface := name\<rparr>)"
      "ex' = ex\<lparr>co_wireGuard := e\<rparr>" "ce_VPNBinding (cv_wireGuard env) = Some binding"
      "binding (co_wireGuard ex, w) = ((name, mc_VPNRoutes c, None), e, w')"
    | (refused) err e where "bound = Inl err" "ex' = ex\<lparr>co_wireGuard := e\<rparr>"
proof (cases "mc_VPNRoutes c = []")
  case True
  with assms unbound show ?thesis by (auto simp: bindMihomoVPN_def split: if_splits)
next
  case False
  show ?thesis
  proof (cases "ce_VPNBinding (cv_wireGuard env)")
    case None
    with assms False refused [of _ "co_wireGuard ex"] show ?thesis by (auto simp: bindMihomoVPN_def)
  next
    case (Some binding)
    obtain name routes err e w1 where b: "binding (co_wireGuard ex, w) = ((name, routes, err), e, w1)"
      by (metis prod_cases3)
    with assms False Some bound refused show ?thesis
      by (auto simp: bindMihomoVPN_def Let_def split: if_splits)
  qed
qed

lemma bind_off: "bindMihomoVPN env c (ex, w) = (bound, ex', w') \<Longrightarrow> proxy_off ex' = proxy_off ex"
  by (erule bind_cases) simp_all

lemma disable_if_active_off: "proxy_off ex \<Longrightarrow> disable_if_active env ex w = (False, w)"
  by (auto simp: disable_if_active_def proxy_off_def split: option.split)

subsection \<open>The app subscription\<close>

lemma applyMihomoAppState_cases:
  assumes "applyMihomoAppState env c state (ex, w) = ((status, err), ex', w')" "proxy_off ex"
  obtains (failed) "err \<noteq> None" "proxy_off ex'"
    | (running) name status' state' where "err = None" "status = status'"
      "mc_VPNRoutes c = [] \<Longrightarrow> name = mc_VPNInterface c"
      "co_previousMihomo ex' = Some \<lparr>mad_Configuration = c\<lparr>mc_VPNInterface := name\<rparr>,
         mad_AppState = Some state', mad_AppStatus = status'\<rparr>"
      "co_mihomoActive ex'" "validMihomoAppStatus status' (c\<lparr>mc_VPNInterface := name\<rparr>)"
proof (cases "case cv_mihomo env of None \<Rightarrow> None | Some mihomo \<Rightarrow> mrt_ApplySubscription mihomo")
  case None
  with assms failed show ?thesis by (auto simp: applyMihomoAppState_def Let_def)
next
  case (Some runtime)
  obtain qe ex1 w1 where q: "quiesceMihomo env (ex, w) = (qe, ex1, w1)" by (metis prod_cases3)
  obtain bound ex2 w2 where b: "bindMihomoVPN env c (ex1, w1) = (bound, ex2, w2)" by (metis prod_cases3)
  from q have off1: "proxy_off ex1" by (cases rule: quiesce_cases) (use assms(2) in auto)
  with bind_off [OF b] have off2: "proxy_off ex2" by simp
  show ?thesis
  proof (cases "qe = None")
    case False
    with assms Some q off1 failed show ?thesis by (auto simp: applyMihomoAppState_def Let_def)
  next
    case quiet: True
    show ?thesis
    proof (cases bound)
      case (Inl e)
      obtain o3 ex3 w3 where r: "recoverMihomo env ''mihomo_vpn_binding_unavailable'' (ex2, w2) = (o3, ex3, w3)"
        by (metis prod_cases3)
      from assms Some q quiet b Inl r recover_off(1) [OF r off2] failed show ?thesis
        by (auto simp: applyMihomoAppState_def Let_def)
    next
      case (Inr c')
      from b have shape: "\<exists>name. c' = c\<lparr>mc_VPNInterface := name\<rparr> \<and> (mc_VPNRoutes c = [] \<longrightarrow> name = mc_VPNInterface c)"
      proof (cases rule: bind_cases)
        case unbound
        then show ?thesis using Inr by (intro exI [of _ "mc_VPNInterface c"]) simp
      next
        case (bound name e binding)
        then show ?thesis using Inr by (intro exI [of _ name]) simp
      qed (simp add: Inr)
      obtain st ae w3 where a: "runtime c' (mst_SubscriptionURL state) (mst_SelectedProxy state) w2 = ((st, ae), w3)"
        by (metis prod.collapse)
      show ?thesis
      proof (cases "ae \<noteq> None \<or> \<not> validMihomoAppStatus st c'")
        case True
        obtain o3 ex3 w4 where r: "recoverMihomo env ''mihomo_apply_failed'' (ex2, w3) = (o3, ex3, w4)"
          by (metis prod_cases3)
        from assms Some q quiet b Inr a True r recover_off(1) [OF r off2] failed show ?thesis
          by (auto simp: applyMihomoAppState_def Let_def)
      next
        case valid: False
        let ?state = "state\<lparr>mst_SelectedProxy := mas_SelectedProxy st\<rparr>"
        obtain se w4 where s: "saveMihomoAppState (cv_store env) (co_appStatePath ex2) ?state w3 = (se, w4)"
          by fastforce
        show ?thesis
        proof (cases "se = None")
          case False
          obtain o3 ex3 w5 where r: "recoverMihomo env ''mihomo_state_save_failed'' (ex2, w4) = (o3, ex3, w5)"
            by (metis prod_cases3)
          from assms Some q quiet b Inr a valid s False r recover_off(1) [OF r off2] failed show ?thesis
            by (auto simp: applyMihomoAppState_def Let_def)
        next
          case True
          from shape obtain name where n: "c' = c\<lparr>mc_VPNInterface := name\<rparr>"
            "mc_VPNRoutes c = [] \<longrightarrow> name = mc_VPNInterface c" by blast
          from assms Some q quiet b Inr a valid s True n show ?thesis
            by (intro running [where name = name and status' = st and state' = ?state])
              (auto simp: applyMihomoAppState_def Let_def rememberAppMihomo_def)
        qed
      qed
    qed
  qed
qed

text \<open>
  A configuration whose app subscription is idle is reported as applied with the proxy off; the
  user has not chosen a subscription, or has cleared it.
\<close>

lemma applyStoredMihomoApp_cases:
  assumes "applyStoredMihomoApp env c (ex, w) = (outcome, ex', w')" "proxy_off ex"
  obtains (off) "proxy_off ex'" "ao_Status outcome = ''applied'' \<or> ao_Status outcome = ''rejected''"
    | (running) name status' state' where "ao_Status outcome = ''applied''" "co_mihomoActive ex'"
      "mc_VPNRoutes c = [] \<Longrightarrow> name = mc_VPNInterface c"
      "co_previousMihomo ex' = Some \<lparr>mad_Configuration = c\<lparr>mc_VPNInterface := name\<rparr>,
         mad_AppState = Some state', mad_AppStatus = status'\<rparr>"
      "validMihomoAppStatus status' (c\<lparr>mc_VPNInterface := name\<rparr>)"
proof -
  obtain loaded w1 where l: "loadMihomoAppState (cv_store env) (co_appStatePath ex) w = (loaded, w1)" by fastforce
  show ?thesis
  proof (cases "co_appStatePath ex = [] \<or> stored_app_absent ex c loaded \<or> isl loaded")
    case True
    with assms off l show ?thesis
      by (cases loaded)
        (auto simp: applyStoredMihomoApp_def Let_def coordinator_rejected_def disable_if_active_off
          split: if_splits)
  next
    case False
    then obtain state where s: "loaded = Inr state" by (cases loaded) auto
    obtain p ex2 w2 where "applyMihomoAppState env c state (ex, w1) = (p, ex2, w2)" by (metis prod_cases3)
    moreover obtain status err where "p = (status, err)" by fastforce
    ultimately have a: "applyMihomoAppState env c state (ex, w1) = ((status, err), ex2, w2)" by simp
    from a assms(2) show ?thesis
    proof (cases rule: applyMihomoAppState_cases)
      case failed
      with assms False l s a off show ?thesis
        by (auto simp: applyStoredMihomoApp_def Let_def coordinator_rejected_def)
    next
      case (running name status' state')
      with assms False l s a that(2) [of name state' status'] show ?thesis
        by (auto simp: applyStoredMihomoApp_def Let_def)
    qed
  qed
qed

subsection \<open>Apply\<close>

text \<open>The configuration that may run after \<open>Apply\<close>: checked, of the right policy, bound.\<close>

definition proxy_runs :: "'e CoordinatedExecutor \<Rightarrow> MihomoConfiguration \<Rightarrow> bool" where
  "proxy_runs ex c \<longleftrightarrow> co_mihomoActive ex \<and>
     (\<exists>app status. co_previousMihomo ex = Some \<lparr>mad_Configuration = c, mad_AppState = app, mad_AppStatus = status\<rparr>)"

lemma applyMihomo_cases:
  assumes "applyMihomo env desired (ex, w) = (outcome, ex', w')" "proxy_off ex"
  obtains (rejected) "ao_Status outcome = ''rejected''" "proxy_off ex'"
    | (none) "cd_Mihomo desired = None" "ao_Status outcome = ''applied''" "proxy_off ex'"
      "co_wireGuard ex' = co_wireGuard ex" "w' = w"
    | (idle) c where "cd_Mihomo desired = Some c" "ao_Status outcome = ''applied''" "proxy_off ex'"
      "mc_Mode c = ''app_subscription''"
    | (running) c name where "cd_Mihomo desired = Some c" "ao_Status outcome = ''applied''"
      "proxy_runs ex' (c\<lparr>mc_VPNInterface := name\<rparr>)"
      "mc_Mode c \<noteq> ''app_subscription'' \<or> mc_VPNRoutes c = [] \<Longrightarrow> name = mc_VPNInterface c"
      "validateMihomoConfiguration (Some c) (cd_WireGuard desired) (mc_Mode c = ''managed_follow'') = None"
proof (cases "cd_Mihomo desired")
  case None
  with assms none show ?thesis by (auto simp: applyMihomo_def disable_if_active_off)
next
  case (Some c)
  show ?thesis
  proof (cases "validateMihomoConfiguration (Some c) (cd_WireGuard desired) (mc_Mode c = ''managed_follow'') = None")
    case False
    with assms Some have "recoverMihomo env ''unsafe_mihomo_configuration'' (ex, w) = (outcome, ex', w')"
      by (simp add: applyMihomo_def)
    from recover_off [OF this assms(2)] rejected show ?thesis by blast
  next
    case valid: True
    show ?thesis
    proof (cases "cv_mihomo env")
      case None
      with assms Some valid rejected show ?thesis
        by (auto simp: applyMihomo_def coordinator_rejected_def)
    next
      case mihomo: (Some mihomo)
      show ?thesis
      proof (cases "mc_Mode c = ''app_subscription''")
        case True
        with assms(1) Some valid mihomo
        have "applyStoredMihomoApp env c (ex\<lparr>co_appDesired := Some c\<rparr>, w) = (outcome, ex', w')"
          by (simp add: applyMihomo_def)
        moreover have "proxy_off (ex\<lparr>co_appDesired := Some c\<rparr>)" using assms(2) by simp
        ultimately show ?thesis
        proof (cases rule: applyStoredMihomoApp_cases)
          case off
          from off(2) show ?thesis
          proof
            assume "ao_Status outcome = ''applied''"
            from idle [OF Some this off(1) True] show ?thesis .
          next
            assume "ao_Status outcome = ''rejected''"
            from rejected [OF this off(1)] show ?thesis .
          qed
        next
          case (running name status' state')
          then have "proxy_runs ex' (c\<lparr>mc_VPNInterface := name\<rparr>)" by (simp add: proxy_runs_def)
          from that(4) [OF Some running(1) this _ valid] running(3) True show ?thesis by blast
        qed
      next
        case managed: False
        obtain readback err w1 where a: "mrt_Apply mihomo c w = ((readback, err), w1)" by (metis prod.collapse)
        show ?thesis
        proof (cases "err \<noteq> None \<or> readback \<noteq> expectedMihomoReadback (cv_digests env) c")
          case True
          with assms(1) Some valid mihomo managed a
          have "recoverMihomo env ''mihomo_apply_failed'' (clear_app ex, w1) = (outcome, ex', w')"
            by (auto simp: applyMihomo_def Let_def)
          from recover_off [OF this] assms(2) rejected show ?thesis by simp
        next
          case False
          with assms(1) Some valid mihomo managed a
          have o: "ao_Status outcome = ''applied''" and e: "ex' = rememberManagedMihomo c (clear_app ex)"
            by (auto simp: applyMihomo_def Let_def)
          from e have "proxy_runs ex' (c\<lparr>mc_VPNInterface := mc_VPNInterface c\<rparr>)"
            by (simp add: rememberManagedMihomo_def proxy_runs_def)
          from that(4) [OF Some o this _ valid] show ?thesis by simp
        qed
      qed
    qed
  qed
qed

text \<open>
  The configuration a proxy may run with: the one asked for, until the end of the configuration's
  validity, with the tunnel's routes and DNS records, under the protected policy of the same
  version; a managed one has passed validation as it runs.
\<close>

definition proxy_authorized :: "ConfigurationDesired \<Rightarrow> MihomoConfiguration \<Rightarrow> bool" where
  "proxy_authorized desired running \<longleftrightarrow>
     (\<exists>c name. cd_Mihomo desired = Some c \<and>
        running = (case cd_WireGuard desired of
            None \<Rightarrow> c\<lparr>mc_EnforcementUntil := cd_ValidUntil desired, mc_VPNInterface := name\<rparr>
          | Some wg \<Rightarrow> c\<lparr>mc_EnforcementUntil := cd_ValidUntil desired, mc_DNSRecords := wg_DNSRecords wg,
                        mc_VPNRoutes := wg_Routes wg, mc_VPNInterface := name\<rparr>)) \<and>
     (\<exists>p. mc_Protection running = Some p \<and> mp_PolicyVersion p = cd_PolicyVersion desired) \<and>
     (mc_Mode running \<noteq> ''app_subscription'' \<longrightarrow>
        validateMihomoConfiguration (Some running) (cd_WireGuard desired)
          (mc_Mode running = ''managed_follow'') = None)"

lemma bound_configuration_off:
  "bound_configuration env desired (ex, w) = (bound, ex', w') \<Longrightarrow> proxy_off ex' = proxy_off ex"
  by (auto simp: bound_configuration_def Let_def split: option.splits prod.splits dest: bind_off)

lemma bound_configuration_shape:
  assumes "bound_configuration env desired (ex, w) = (Inr (Some c'), ex', w')"
  obtains c name where "cd_Mihomo desired = Some c"
    "c' = (case cd_WireGuard desired of
            None \<Rightarrow> c\<lparr>mc_EnforcementUntil := cd_ValidUntil desired\<rparr>
          | Some wg \<Rightarrow> c\<lparr>mc_EnforcementUntil := cd_ValidUntil desired, mc_DNSRecords := wg_DNSRecords wg,
                        mc_VPNRoutes := wg_Routes wg, mc_VPNInterface := name\<rparr>)"
proof -
  from assms obtain c where c: "cd_Mihomo desired = Some c"
    by (auto simp: bound_configuration_def split: option.splits)
  show ?thesis
  proof (cases "cd_WireGuard desired")
    case None
    with assms c that [OF c, of undefined] show ?thesis by (simp add: bound_configuration_def)
  next
    case (Some wg)
    let ?c = "c\<lparr>mc_EnforcementUntil := cd_ValidUntil desired, mc_DNSRecords := wg_DNSRecords wg,
                mc_VPNRoutes := wg_Routes wg\<rparr>"
    obtain b ex1 w1 where b: "bindMihomoVPN env ?c (ex, w) = (b, ex1, w1)" by (metis prod_cases3)
    with assms c Some have r: "b = Inr c'"
      by (cases b) (auto simp: bound_configuration_def Let_def)
    from b have "\<exists>name. c' = ?c\<lparr>mc_VPNInterface := name\<rparr>"
    proof (cases rule: bind_cases)
      case unbound
      with r show ?thesis by (intro exI [of _ "mc_VPNInterface c"]) auto
    next
      case (bound name e binding)
      with r show ?thesis by (intro exI [of _ name]) auto
    qed (simp add: r)
    with that [OF c] Some show ?thesis by auto
  qed
qed

lemma bound_configuration_none:
  "bound_configuration env desired (ex, w) = (Inr None, ex', w') \<Longrightarrow> cd_Mihomo desired = None \<and> ex' = ex \<and> w' = w"
  by (auto simp: bound_configuration_def Let_def map_sum_def split: option.splits prod.splits sum.splits)

lemma Coordinated_Apply_cases:
  assumes "Coordinated_Apply env desired now (ex, w) = (outcome, ex', w')"
  obtains (disable_failed) mihomo e where "cv_mihomo env = Some mihomo" "mrt_Disable mihomo w = (Some e, w')"
      "ex' = ex" "ao_Status outcome = ''rejected''" "ao_ReasonCode outcome = ''mihomo_disable_failed''"
    | (rejected) "ao_Status outcome = ''rejected''" "proxy_off ex'"
    | (applied) wo e w1 w2 where
      "ce_Apply (cv_wireGuard env) desired now (co_wireGuard ex, w1) = (wo, e, w2)"
      "ao_Status wo = ''applied''" "ao_Status outcome = ''applied''"
      "cd_Mihomo desired = None \<Longrightarrow> proxy_off ex' \<and> co_wireGuard ex' = e \<and> w' = w2"
      "proxy_off ex' \<or> (\<exists>running. proxy_runs ex' running \<and> proxy_authorized desired running)"
proof -
  obtain qe ex1 w1 where q: "quiesceMihomo env (ex, w) = (qe, ex1, w1)" by (metis prod_cases3)
  from q show ?thesis
  proof (cases rule: quiesce_cases)
    case (failed mihomo e)
    with assms q disable_failed show ?thesis
      by (auto simp: Coordinated_Apply_def Let_def coordinator_rejected_def)
  next
    case quiet
    let ?ex1 = "clear_app ex1"
    obtain wo e w2 where a: "ce_Apply (cv_wireGuard env) desired now (co_wireGuard ex1, w1) = (wo, e, w2)"
      by (metis prod_cases3)
    let ?ex2 = "?ex1\<lparr>co_wireGuard := e\<rparr>"
    have off2: "proxy_off ?ex2" using quiet(2) by simp
    obtain bound ex3 w3 where b: "bound_configuration env desired (?ex2, w2) = (bound, ex3, w3)"
      by (metis prod_cases3)
    with bound_configuration_off [OF b] off2 have off3: "proxy_off ex3" by simp
    note unfold = Coordinated_Apply_def Let_def q quiet(1) a b
      coordinator_rejected_def
    show ?thesis
    proof (cases "ao_Status wo = ''applied''")
      case False
      with assms off2 rejected show ?thesis by (auto simp: unfold)
    next
      case wg: True
      show ?thesis
      proof (cases bound)
        case (Inl err)
        with assms wg off3 rejected show ?thesis by (auto simp: unfold)
      next
        case (Inr configuration)
        let ?mismatch = "case configuration of None \<Rightarrow> False
          | Some c \<Rightarrow> (case mc_Protection c of None \<Rightarrow> True | Some p \<Rightarrow> mp_PolicyVersion p \<noteq> cd_PolicyVersion desired)"
        show ?thesis
        proof (cases ?mismatch)
          case True
          with assms wg Inr have "recoverMihomo env ''mihomo_policy_version_mismatch'' (ex3, w3) = (outcome, ex', w')"
            by (simp add: unfold)
          from recover_off [OF this off3] rejected show ?thesis by blast
        next
          case version: False
          obtain mo ex4 w4 where m: "applyMihomo env (desired\<lparr>cd_Mihomo := configuration\<rparr>) (ex3, w3) = (mo, ex4, w4)"
            by (metis prod_cases3)
          with assms wg Inr version have result: "ex' = ex4" "w' = w4" "ao_Status outcome = ao_Status mo"
            by (auto simp: unfold)
          from m off3 show ?thesis
          proof (cases rule: applyMihomo_cases)
            case rejected
            with result that(2) show ?thesis by simp
          next
            case none
            with b Inr have "cd_Mihomo desired = None" "ex3 = ?ex2" "w3 = w2"
              using bound_configuration_none by fastforce+
            with none result a wg quiet(2) show ?thesis by (intro applied [of w1 wo e w2]) auto
          next
            case (idle c)
            then have "cd_Mihomo desired \<noteq> None"
              using b Inr by (auto simp: bound_configuration_def split: option.splits)
            with idle result a wg quiet(2) show ?thesis by (intro applied [of w1 wo e w2]) auto
          next
            case (running c' name)
            with b Inr obtain c name' where c: "cd_Mihomo desired = Some c"
              "c' = (case cd_WireGuard desired of
                  None \<Rightarrow> c\<lparr>mc_EnforcementUntil := cd_ValidUntil desired\<rparr>
                | Some wg \<Rightarrow> c\<lparr>mc_EnforcementUntil := cd_ValidUntil desired, mc_DNSRecords := wg_DNSRecords wg,
                              mc_VPNRoutes := wg_Routes wg, mc_VPNInterface := name'\<rparr>)"
              by (auto elim!: bound_configuration_shape)
            from running(1) have conf: "configuration = Some c'" by simp
            have "proxy_authorized desired (c'\<lparr>mc_VPNInterface := name\<rparr>)"
              unfolding proxy_authorized_def
            proof (intro conjI)
              show "\<exists>c n. cd_Mihomo desired = Some c \<and> c'\<lparr>mc_VPNInterface := name\<rparr> =
                  (case cd_WireGuard desired of
                     None \<Rightarrow> c\<lparr>mc_EnforcementUntil := cd_ValidUntil desired, mc_VPNInterface := n\<rparr>
                   | Some wg \<Rightarrow> c\<lparr>mc_EnforcementUntil := cd_ValidUntil desired, mc_DNSRecords := wg_DNSRecords wg,
                                 mc_VPNRoutes := wg_Routes wg, mc_VPNInterface := n\<rparr>)"
                using c by (intro exI [of _ c] exI [of _ name]) (simp split: option.split)
              show "\<exists>p. mc_Protection (c'\<lparr>mc_VPNInterface := name\<rparr>) = Some p \<and>
                  mp_PolicyVersion p = cd_PolicyVersion desired"
                using version conf by (cases "mc_Protection c'") simp_all
              show "mc_Mode (c'\<lparr>mc_VPNInterface := name\<rparr>) \<noteq> ''app_subscription'' \<longrightarrow>
                  validateMihomoConfiguration (Some (c'\<lparr>mc_VPNInterface := name\<rparr>)) (cd_WireGuard desired)
                    (mc_Mode (c'\<lparr>mc_VPNInterface := name\<rparr>) = ''managed_follow'') = None"
              proof
                assume "mc_Mode (c'\<lparr>mc_VPNInterface := name\<rparr>) \<noteq> ''app_subscription''"
                then have "c'\<lparr>mc_VPNInterface := name\<rparr> = c'" using running(4) by simp
                with running(5) show "validateMihomoConfiguration (Some (c'\<lparr>mc_VPNInterface := name\<rparr>))
                    (cd_WireGuard desired) (mc_Mode (c'\<lparr>mc_VPNInterface := name\<rparr>) = ''managed_follow'') = None"
                  by simp
              qed
            qed
            with running c(1) result a wg quiet(2) show ?thesis by (intro applied [of w1 wo e w2]) auto
          qed
        qed
      qed
    qed
  qed
qed

subsection \<open>The contract\<close>

definition Coordinated_removed ::
  "('e \<Rightarrow> 'w \<Rightarrow> bool) \<Rightarrow> 'e CoordinatedExecutor \<Rightarrow> 'w \<Rightarrow> bool" where
  "Coordinated_removed removed executor w \<longleftrightarrow> proxy_off executor \<and> removed (co_wireGuard executor) w"

definition Coordinated_accepts ::
  "('e \<Rightarrow> ConfigurationDesired \<Rightarrow> WireGuardConfiguration \<Rightarrow> time \<Rightarrow> bool) \<Rightarrow>
   'e CoordinatedExecutor \<Rightarrow> ConfigurationDesired \<Rightarrow> WireGuardConfiguration \<Rightarrow> time \<Rightarrow> bool" where
  "Coordinated_accepts accepts executor = accepts (co_wireGuard executor)"

context executor_contract
begin

lemma coordinated_disable:
  assumes "cv_wireGuard env = E" "Coordinated_Disable env (ex, w) = (None, ex', w')"
  shows "Coordinated_removed removed ex' w'"
proof -
  obtain qe ex1 w1 where q: "quiesceMihomo env (ex, w) = (qe, ex1, w1)" by (metis prod_cases3)
  obtain err e w2 where d: "ce_Disable E (co_wireGuard ex1, w1) = (err, e, w2)" by (metis prod_cases3)
  from q show ?thesis
  proof (cases rule: quiesce_cases)
    case quiet
    with assms q d have "err = None" "ex' = (clear_app ex1)\<lparr>co_wireGuard := e\<rparr>" "w' = w2" "proxy_off ex1"
      by (auto simp: Coordinated_Disable_def Let_def)
    with disable_removes [of "co_wireGuard ex1" w1] d show ?thesis by (simp add: Coordinated_removed_def)
  qed (use assms q in \<open>auto simp: Coordinated_Disable_def\<close>)
qed

lemma coordinated_apply:
  assumes "cv_wireGuard env = E" "Coordinated_Apply env desired now (ex, w) = (outcome, ex', w')"
    "ao_Status outcome = ''applied''"
  shows "cd_WireGuard desired = None \<Longrightarrow> cd_Mihomo desired = None \<Longrightarrow> Coordinated_removed removed ex' w'"
    and "cd_WireGuard desired = Some wg \<Longrightarrow> Coordinated_accepts accepts ex desired wg now"
  using assms(2)
  by (cases rule: Coordinated_Apply_cases;
      use assms apply_nothing_removes applied_accepted in
        \<open>fastforce simp: Coordinated_removed_def Coordinated_accepts_def\<close>)+

lemma coordinated_contract:
  assumes "cv_wireGuard env = E"
  shows "executor_contract (Coordinated_interface env) (Coordinated_removed removed) (Coordinated_accepts accepts)"
  by unfold_locales
    (auto simp: Coordinated_interface_def intro: coordinated_disable [OF assms] coordinated_apply [OF assms])

end

text \<open>The service's own executor: the proxy coordinated with the WireGuard executor.\<close>

definition endpoint_coordinator ::
  "wgtypes \<Rightarrow> readback_digest \<Rightarrow> 'w System \<Rightarrow> 'w MihomoRuntime option \<Rightarrow> 'w app_store \<Rightarrow> mihomo_digests \<Rightarrow>
   (Executor, 'w) coordinator_env" where
  "endpoint_coordinator wgt digest system mihomo store dg =
     \<lparr>cv_wireGuard = Executor_interface wgt digest system, cv_mihomo = mihomo, cv_store = store, cv_digests = dg\<rparr>"

interpretation coordinated: executor_contract
  "Coordinated_interface (endpoint_coordinator wgt digest system mihomo store dg)"
  "Coordinated_removed (Executor_removed system)" "Coordinated_accepts (Executor_accepts wgt)"
  for wgt digest system mihomo store dg
  by (rule endpoint.coordinated_contract) (simp add: endpoint_coordinator_def)

subsection \<open>Histories\<close>

definition proxy_consistent :: "'e CoordinatedExecutor \<Rightarrow> bool" where
  "proxy_consistent ex \<longleftrightarrow> (co_mihomoActive ex \<longleftrightarrow> co_previousMihomo ex \<noteq> None)"

lemma proxy_off_consistent: "proxy_off ex \<Longrightarrow> proxy_consistent ex"
  by (simp add: proxy_off_def proxy_consistent_def)

lemma proxy_runs_consistent: "proxy_runs ex c \<Longrightarrow> proxy_consistent ex"
  by (auto simp: proxy_runs_def proxy_consistent_def)

lemma proxy_consistent_simps [simp]:
  "proxy_consistent (clear_app ex) = proxy_consistent ex"
  "proxy_consistent (ex\<lparr>co_wireGuard := e\<rparr>) = proxy_consistent ex"
  "proxy_consistent (ex\<lparr>co_appClearPending := b\<rparr>) = proxy_consistent ex"
  "proxy_consistent (idle_app c ex)"
  by (simp_all add: proxy_consistent_def idle_app_def)

lemma quiesce_consistent:
  "quiesceMihomo env (ex, w) = (err, ex', w') \<Longrightarrow> proxy_consistent ex \<Longrightarrow>
   proxy_consistent ex' \<and> (err = None \<longrightarrow> proxy_off ex')"
  by (erule quiesce_cases) (simp_all add: proxy_off_consistent)

lemma recover_consistent:
  "recoverMihomo env reason (ex, w) = (outcome, ex', w') \<Longrightarrow> proxy_consistent ex \<Longrightarrow> proxy_consistent ex'"
  by (erule recover_cases) (simp_all add: proxy_off_consistent)

lemma bind_consistent:
  "bindMihomoVPN env c (ex, w) = (bound, ex', w') \<Longrightarrow> proxy_consistent ex' = proxy_consistent ex"
  by (erule bind_cases) simp_all

lemma Apply_consistent:
  assumes "Coordinated_Apply env desired now (ex, w) = (outcome, ex', w')" "proxy_consistent ex"
  shows "proxy_consistent ex'"
  using assms(1)
  by (cases rule: Coordinated_Apply_cases)
    (use assms(2) proxy_off_consistent proxy_runs_consistent in auto)

text \<open>An app state applied to a running proxy first stops it, or fails and changes nothing.\<close>

lemma applyMihomoAppState_consistent:
  assumes "applyMihomoAppState env c state (ex, w) = (result, ex', w')" "proxy_consistent ex"
  shows "proxy_consistent ex'"
proof -
  obtain qe ex1 w1 where q: "quiesceMihomo env (ex, w) = (qe, ex1, w1)" by (metis prod_cases3)
  obtain bound ex2 w2 where b: "bindMihomoVPN env c (ex1, w1) = (bound, ex2, w2)" by (metis prod_cases3)
  have "proxy_consistent ex2"
    using quiesce_consistent [OF q assms(2)] bind_consistent [OF b] by simp
  with assms q b quiesce_consistent [OF q assms(2)] show ?thesis
    by (auto simp: applyMihomoAppState_def Let_def rememberAppMihomo_def proxy_consistent_def
        split: option.splits sum.splits prod.splits if_splits
        dest!: recover_consistent [unfolded proxy_consistent_def])
qed

inductive coordinator_reach :: "('e, 'w) coordinator_env \<Rightarrow> 'e CoordinatedExecutor \<Rightarrow> 'w \<Rightarrow> bool" for env where
  new: "NewCoordinatedExecutor env (Some e) path = Inr ex \<Longrightarrow> coordinator_reach env ex w"
| applies: "coordinator_reach env ex w \<Longrightarrow> Coordinated_Apply env desired now (ex, w) = (outcome, ex', w') \<Longrightarrow>
    coordinator_reach env ex' w'"
| verifies: "coordinator_reach env ex w \<Longrightarrow> Coordinated_Verify env desired now (ex, w) = (outcome, ex', w') \<Longrightarrow>
    coordinator_reach env ex' w'"
| disables: "coordinator_reach env ex w \<Longrightarrow> Coordinated_Disable env (ex, w) = (err, ex', w') \<Longrightarrow>
    coordinator_reach env ex' w'"
| configures: "coordinator_reach env ex w \<Longrightarrow> ConfigureMihomoApp env u (ex, w) = (result, ex', w') \<Longrightarrow>
    coordinator_reach env ex' w'"
| selects: "coordinator_reach env ex w \<Longrightarrow> SelectMihomoApp env p (ex, w) = (result, ex', w') \<Longrightarrow>
    coordinator_reach env ex' w'"
| refreshes: "coordinator_reach env ex w \<Longrightarrow> RefreshMihomoApp env (ex, w) = (result, ex', w') \<Longrightarrow>
    coordinator_reach env ex' w'"
| clears: "coordinator_reach env ex w \<Longrightarrow> ClearMihomoApp env (ex, w) = (result, ex', w') \<Longrightarrow>
    coordinator_reach env ex' w'"
| outside: "coordinator_reach env ex w \<Longrightarrow> coordinator_reach env ex w'"

lemma Verify_consistent:
  assumes "Coordinated_Verify env desired now (ex, w) = (outcome, ex', w')" "proxy_consistent ex"
  shows "proxy_consistent ex'"
  using assms
  by (auto simp: Coordinated_Verify_def Let_def split: option.splits sum.splits prod.splits if_splits
      dest!: recover_consistent bind_consistent)

lemma Disable_consistent:
  assumes "Coordinated_Disable env (ex, w) = (err, ex', w')" "proxy_consistent ex"
  shows "proxy_consistent ex'"
  using assms quiesce_consistent [of env ex w]
  by (auto simp: Coordinated_Disable_def Let_def split: prod.splits if_splits)

lemma app_operations_consistent:
  "ConfigureMihomoApp env u (ex, w) = (result, ex', w') \<Longrightarrow> proxy_consistent ex \<Longrightarrow> proxy_consistent ex'"
  "SelectMihomoApp env p (ex, w) = (result, ex', w') \<Longrightarrow> proxy_consistent ex \<Longrightarrow> proxy_consistent ex'"
  "RefreshMihomoApp env (ex, w) = (result, ex', w') \<Longrightarrow> proxy_consistent ex \<Longrightarrow> proxy_consistent ex'"
  by (auto simp: ConfigureMihomoApp_def SelectMihomoApp_def RefreshMihomoApp_def Let_def
      split: sum.splits prod.splits if_splits dest: applyMihomoAppState_consistent)

lemma Clear_consistent:
  "ClearMihomoApp env (ex, w) = (result, ex', w') \<Longrightarrow> proxy_consistent ex \<Longrightarrow> proxy_consistent ex'"
  by (auto simp: ClearMihomoApp_def Let_def split: sum.splits option.splits prod.splits if_splits)

lemma coordinator_reach_consistent: "coordinator_reach env ex w \<Longrightarrow> proxy_consistent ex"
proof (induction rule: coordinator_reach.induct)
  case (new e path ex w)
  then show ?case by (auto simp: NewCoordinatedExecutor_def proxy_consistent_def split: if_splits)
qed (blast intro: Apply_consistent Verify_consistent Disable_consistent app_operations_consistent
    Clear_consistent)+

subsection \<open>The calls of an application\<close>

text \<open>
  What the executor tells the proxy runtime and the WireGuard executor, with the answers. A log of
  these calls is a part of the world that grows by them only.
\<close>

datatype coordinator_call =
    RunDisable error
  | RunApply MihomoConfiguration MihomoReadback error
  | RunSubscribe MihomoConfiguration string string MihomoAppStatus error
  | TunnelApply ConfigurationDesired ApplyOutcome

definition coordinator_observed :: "('w \<Rightarrow> coordinator_call list) \<Rightarrow> ('e, 'w) coordinator_env \<Rightarrow> bool" where
  "coordinator_observed log env \<longleftrightarrow>
     (\<forall>mihomo. cv_mihomo env = Some mihomo \<longrightarrow>
        (\<forall>w. case mrt_Disable mihomo w of (err, w') \<Rightarrow> log w' = log w @ [RunDisable err]) \<and>
        (\<forall>c w. case mrt_Apply mihomo c w of ((readback, err), w') \<Rightarrow> log w' = log w @ [RunApply c readback err]) \<and>
        (\<forall>run c url proxy w. mrt_ApplySubscription mihomo = Some run \<longrightarrow>
           (case run c url proxy w of ((status, err), w') \<Rightarrow> log w' = log w @ [RunSubscribe c url proxy status err]))) \<and>
     (\<forall>desired now e w. case ce_Apply (cv_wireGuard env) desired now (e, w) of
        (outcome, e', w') \<Rightarrow> log w' = log w @ [TunnelApply desired outcome]) \<and>
     (\<forall>binding e w. ce_VPNBinding (cv_wireGuard env) = Some binding \<longrightarrow>
        (case binding (e, w) of (result, e', w') \<Rightarrow> log w' = log w)) \<and>
     (\<forall>path w. log (snd (aps_read (cv_store env) path w)) = log w) \<and>
     (\<forall>path state w. log (snd (aps_write (cv_store env) path state w)) = log w)"

text \<open>What the proxy runtime does after a list of calls: a call that failed leaves it unknown.\<close>

datatype proxy_state = Stopped | Uncertain | Running MihomoConfiguration

fun proxy_step :: "proxy_state \<Rightarrow> coordinator_call \<Rightarrow> proxy_state" where
  "proxy_step s (RunDisable err) = (if err = None then Stopped else Uncertain)"
| "proxy_step s (RunApply c readback err) = (if err = None then Running c else Uncertain)"
| "proxy_step s (RunSubscribe c url proxy status err) = (if err = None then Running c else Uncertain)"
| "proxy_step s (TunnelApply desired outcome) = s"

abbreviation proxy_after :: "coordinator_call list \<Rightarrow> proxy_state" where
  "proxy_after calls \<equiv> foldl proxy_step Uncertain calls"

fun runtime_call :: "coordinator_call \<Rightarrow> bool" where
  "runtime_call (TunnelApply desired outcome) = False"
| "runtime_call _ = True"

definition disable_failed :: "coordinator_call list \<Rightarrow> bool" where
  "disable_failed calls \<longleftrightarrow> calls \<noteq> [] \<and> (\<exists>e. last calls = RunDisable (Some e))"

text \<open>
  What the calls on a stopped proxy say of the executor that is left: where it runs, the last call started what is
  remembered, and where it is off, the last call stopped it, or failed to.
\<close>

definition calls_ok :: "bool \<Rightarrow> 'e CoordinatedExecutor \<Rightarrow> coordinator_call list \<Rightarrow> bool" where
  "calls_ok good ex calls \<longleftrightarrow>
     list_all runtime_call calls \<and>
     (\<forall>running. proxy_runs ex running \<longrightarrow> foldl proxy_step Stopped calls = Running running) \<and>
     (proxy_off ex \<longrightarrow> foldl proxy_step Stopped calls = Stopped \<or> \<not> good \<and> disable_failed calls)"

lemma observed_runtime:
  assumes "coordinator_observed log env" "cv_mihomo env = Some mihomo"
  shows "mrt_Disable mihomo w = (err, w') \<Longrightarrow> log w' = log w @ [RunDisable err]"
    and "mrt_Apply mihomo c w = ((readback, err), w') \<Longrightarrow> log w' = log w @ [RunApply c readback err]"
    and "mrt_ApplySubscription mihomo = Some run \<Longrightarrow> run c url proxy w = ((status, err), w') \<Longrightarrow>
      log w' = log w @ [RunSubscribe c url proxy status err]"
proof -
  note laws = assms(1) [unfolded coordinator_observed_def, THEN conjunct1, rule_format, OF assms(2)]
  show "mrt_Disable mihomo w = (err, w') \<Longrightarrow> log w' = log w @ [RunDisable err]"
    using laws [THEN conjunct1, THEN spec [of _ w]] by simp
  show "mrt_Apply mihomo c w = ((readback, err), w') \<Longrightarrow> log w' = log w @ [RunApply c readback err]"
    using laws [THEN conjunct2, THEN conjunct1, THEN spec [of _ c], THEN spec [of _ w]] by simp
  show "mrt_ApplySubscription mihomo = Some run \<Longrightarrow> run c url proxy w = ((status, err), w') \<Longrightarrow>
      log w' = log w @ [RunSubscribe c url proxy status err]"
    using laws [THEN conjunct2, THEN conjunct2, THEN spec [of _ run], THEN spec [of _ c], THEN spec [of _ url],
        THEN spec [of _ proxy], THEN spec [of _ w]] by simp
qed

lemma observed_tunnel:
  assumes "coordinator_observed log env"
  shows "ce_Apply (cv_wireGuard env) desired now (e, w) = (outcome, e', w') \<Longrightarrow>
      log w' = log w @ [TunnelApply desired outcome]"
    and "ce_VPNBinding (cv_wireGuard env) = Some binding \<Longrightarrow> binding (e, w) = (result, e', w') \<Longrightarrow> log w' = log w"
proof -
  note laws = assms [unfolded coordinator_observed_def, THEN conjunct2]
  show "ce_Apply (cv_wireGuard env) desired now (e, w) = (outcome, e', w') \<Longrightarrow>
      log w' = log w @ [TunnelApply desired outcome]"
    using laws [THEN conjunct1, THEN spec [of _ desired], THEN spec [of _ now], THEN spec [of _ e], THEN spec [of _ w]]
    by simp
  show "ce_VPNBinding (cv_wireGuard env) = Some binding \<Longrightarrow> binding (e, w) = (result, e', w') \<Longrightarrow> log w' = log w"
    using laws [THEN conjunct2, THEN conjunct1, THEN spec [of _ binding], THEN spec [of _ e], THEN spec [of _ w]]
    by simp
qed

lemma observed_store:
  assumes "coordinator_observed log env"
  shows "loadMihomoAppState (cv_store env) path w = (loaded, w') \<Longrightarrow> log w' = log w"
    and "saveMihomoAppState (cv_store env) path state w = (err, w') \<Longrightarrow> log w' = log w"
proof -
  note laws = assms [unfolded coordinator_observed_def, THEN conjunct2, THEN conjunct2, THEN conjunct2]
  obtain r w1 where r: "aps_read (cv_store env) path w = (r, w1)" by fastforce
  then have "log w1 = log w" using laws [THEN conjunct1, THEN spec [of _ path], THEN spec [of _ w]] by simp
  then show "loadMihomoAppState (cv_store env) path w = (loaded, w') \<Longrightarrow> log w' = log w"
    by (auto simp: loadMihomoAppState_def r split: sum.splits if_splits)
  show "saveMihomoAppState (cv_store env) path state w = (err, w') \<Longrightarrow> log w' = log w"
    using laws [THEN conjunct2, THEN spec [of _ path], THEN spec [of _ state], THEN spec [of _ w]]
    by (auto simp: saveMihomoAppState_def split: if_splits)
qed

lemma quiesce_calls:
  assumes "coordinator_observed log env" "cv_mihomo env = Some mihomo" "quiesceMihomo env (ex, w) = (err, ex', w')"
  shows "log w' = log w @ [RunDisable err]"
  using assms(3) observed_runtime(1) [OF assms(1,2)]
  by (auto simp: quiesceMihomo_def assms(2) Let_def split: prod.splits if_splits)

lemma recover_calls:
  assumes "coordinator_observed log env" "cv_mihomo env = Some mihomo"
    "recoverMihomo env reason (ex, w) = (outcome, ex', w')"
  shows "\<exists>err. log w' = log w @ [RunDisable err]"
proof -
  obtain err ex1 w1 where q: "quiesceMihomo env (ex, w) = (err, ex1, w1)" by (metis prod_cases3)
  from quiesce_calls [OF assms(1,2) q] assms(3) show ?thesis by (auto simp: recoverMihomo_def q Let_def)
qed

lemma bind_calls:
  assumes "coordinator_observed log env" "bindMihomoVPN env c (ex, w) = (bound, ex', w')"
  shows "log w' = log w"
proof (cases "mc_VPNRoutes c = [] \<or> ce_VPNBinding (cv_wireGuard env) = None")
  case True
  with assms(2) show ?thesis by (auto simp: bindMihomoVPN_def split: if_splits)
next
  case False
  then obtain binding where b: "ce_VPNBinding (cv_wireGuard env) = Some binding" by blast
  obtain name routes err e w1 where r: "binding (co_wireGuard ex, w) = ((name, routes, err), e, w1)"
    by (metis prod_cases3)
  from observed_tunnel(2) [OF assms(1) b r] assms(2) False b r show ?thesis
    by (auto simp: bindMihomoVPN_def Let_def split: if_splits)
qed

text \<open>A recovery ends a run of calls: the proxy is stopped, or the last call says that it could not be.\<close>

lemma recover_calls_ok:
  assumes "coordinator_observed log env" "cv_mihomo env = Some mihomo"
    "recoverMihomo env reason (ex, w1) = (outcome, ex', w')" "proxy_off ex"
    "log w1 = log w @ calls" "list_all runtime_call calls"
  shows "\<exists>calls. log w' = log w @ calls \<and> calls_ok False ex' calls"
proof -
  from recover_calls [OF assms(1-3)] obtain err where "log w' = log w @ calls @ [RunDisable err]"
    using assms(5) by auto
  moreover have "\<not> proxy_runs ex' running" for running
    using recover_off(1) [OF assms(3,4)] by (simp add: proxy_runs_def proxy_off_def)
  ultimately show ?thesis using assms(6) by (auto simp: calls_ok_def disable_failed_def)
qed

lemma proxy_off_runs: "proxy_off ex \<Longrightarrow> \<not> proxy_runs ex running"
  by (simp add: proxy_off_def proxy_runs_def)

lemma applyMihomoAppState_calls:
  assumes obs: "coordinator_observed log env" "cv_mihomo env = Some mihomo"
    and run: "applyMihomoAppState env c state (ex, w) = ((status, err), ex', w')" and off: "proxy_off ex"
  shows "\<exists>calls. log w' = log w @ calls \<and> calls_ok (err = None) ex' calls"
proof (cases "mrt_ApplySubscription mihomo")
  case None
  with run obs(2) have "ex' = ex" "w' = w" by (auto simp: applyMihomoAppState_def Let_def)
  with off proxy_off_runs [OF off] show ?thesis by (intro exI [of _ "[]"]) (simp add: calls_ok_def)
next
  case (Some runtime)
  obtain qe ex1 w1 where q: "quiesceMihomo env (ex, w) = (qe, ex1, w1)" by (metis prod_cases3)
  obtain bound ex2 w2 where b: "bindMihomoVPN env c (ex1, w1) = (bound, ex2, w2)" by (metis prod_cases3)
  from q have off1: "proxy_off ex1" by (cases rule: quiesce_cases) (use off in auto)
  with bind_off [OF b] have off2: "proxy_off ex2" by simp
  have l1: "log w1 = log w @ [RunDisable qe]" by (rule quiesce_calls [OF obs q])
  with bind_calls [OF obs(1) b] have l2: "log w2 = log w @ [RunDisable qe]" by simp
  note unfold = applyMihomoAppState_def Let_def obs(2) Some q b
  show ?thesis
  proof (cases qe)
    case (Some e)
    with run have "ex' = ex1" "w' = w1" "err \<noteq> None" by (auto simp: unfold)
    with l1 Some off1 proxy_off_runs [OF off1] show ?thesis by (auto simp: calls_ok_def disable_failed_def)
  next
    case quiet: None
    show ?thesis
    proof (cases bound)
      case (Inl e)
      obtain o3 ex3 w3 where r: "recoverMihomo env ''mihomo_vpn_binding_unavailable'' (ex2, w2) = (o3, ex3, w3)"
        by (metis prod_cases3)
      from run have "ex' = ex3" "w' = w3" "err \<noteq> None" by (auto simp: unfold quiet Inl r)
      with recover_calls_ok [OF obs r off2 l2] show ?thesis by (simp del: not_None_eq)
    next
      case (Inr c')
      obtain st ae w3 where a: "runtime c' (mst_SubscriptionURL state) (mst_SelectedProxy state) w2 = ((st, ae), w3)"
        by (metis prod.collapse)
      let ?call = "RunSubscribe c' (mst_SubscriptionURL state) (mst_SelectedProxy state) st ae"
      have l3: "log w3 = log w @ [RunDisable qe, ?call]"
        using observed_runtime(3) [OF obs Some a] l2 by simp
      show ?thesis
      proof (cases "ae \<noteq> None \<or> \<not> validMihomoAppStatus st c'")
        case True
        obtain o3 ex3 w4 where r: "recoverMihomo env ''mihomo_apply_failed'' (ex2, w3) = (o3, ex3, w4)"
          by (metis prod_cases3)
        from run True have "ex' = ex3" "w' = w4" "err \<noteq> None" by (auto simp: unfold quiet Inr a r)
        with recover_calls_ok [OF obs r off2 l3] show ?thesis by (simp del: not_None_eq)
      next
        case valid: False
        let ?state = "state\<lparr>mst_SelectedProxy := mas_SelectedProxy st\<rparr>"
        obtain se w4 where s: "saveMihomoAppState (cv_store env) (co_appStatePath ex2) ?state w3 = (se, w4)"
          by fastforce
        from observed_store(2) [OF obs(1) s] l3 have l4: "log w4 = log w @ [RunDisable qe, ?call]" by simp
        show ?thesis
        proof (cases se)
          case (Some e)
          obtain o3 ex3 w5 where r: "recoverMihomo env ''mihomo_state_save_failed'' (ex2, w4) = (o3, ex3, w5)"
            by (metis prod_cases3)
          from run valid have "ex' = ex3" "w' = w5" "err \<noteq> None" by (auto simp: unfold quiet Inr a s Some r)
          with recover_calls_ok [OF obs r off2 l4] show ?thesis by (simp del: not_None_eq)
        next
          case None
          from run valid have "ex' = (rememberAppMihomo c' ?state st ex2)\<lparr>co_appClearPending := False\<rparr>" "w' = w4"
            by (auto simp: unfold quiet Inr a s None)
          with l4 valid show ?thesis
            by (auto simp: calls_ok_def rememberAppMihomo_def proxy_runs_def proxy_off_def)
        qed
      qed
    qed
  qed
qed

lemma idle_calls:
  "log w' = log w \<Longrightarrow> proxy_off ex' \<Longrightarrow> \<exists>calls. log w' = log w @ calls \<and> calls_ok good ex' calls"
  by (intro exI [of _ "[]"]) (simp add: calls_ok_def proxy_off_runs)

lemma calls_ok_weaken: "calls_ok True ex calls \<Longrightarrow> calls_ok good ex calls"
  by (auto simp: calls_ok_def)

lemma applyStoredMihomoApp_calls:
  assumes obs: "coordinator_observed log env" "cv_mihomo env = Some mihomo"
    and run: "applyStoredMihomoApp env c (ex, w) = (outcome, ex', w')" and off: "proxy_off ex"
  shows "\<exists>calls. log w' = log w @ calls \<and> calls_ok (ao_Status outcome = ''applied'') ex' calls"
proof -
  obtain loaded w1 where l: "loadMihomoAppState (cv_store env) (co_appStatePath ex) w = (loaded, w1)" by fastforce
  note l1 = observed_store(1) [OF obs(1) l]
  show ?thesis
  proof (cases "co_appStatePath ex = [] \<or> stored_app_absent ex c loaded \<or> isl loaded")
    case True
    with run off l have "proxy_off ex'" "w' = w \<or> w' = w1"
      by (cases loaded; auto simp: applyStoredMihomoApp_def Let_def disable_if_active_off split: if_splits)+
    with l1 show ?thesis by (intro idle_calls) auto
  next
    case False
    then obtain state where s: "loaded = Inr state" by (cases loaded) auto
    obtain status err ex2 w2 where a: "applyMihomoAppState env c state (ex, w1) = ((status, err), ex2, w2)"
      by (metis prod.collapse)
    from run False l s a have r: "ex' = ex2" "w' = w2" "err = None \<longleftrightarrow> ao_Status outcome = ''applied''"
      by (auto simp: applyStoredMihomoApp_def Let_def coordinator_rejected_def split: if_splits)
    from applyMihomoAppState_calls [OF obs a off] r l1 show ?thesis by simp
  qed
qed

lemma applyMihomo_calls:
  assumes obs: "coordinator_observed log env" "cv_mihomo env = Some mihomo"
    and run: "applyMihomo env desired (ex, w) = (outcome, ex', w')" and off: "proxy_off ex"
  shows "\<exists>calls. log w' = log w @ calls \<and> calls_ok (ao_Status outcome = ''applied'') ex' calls"
proof (cases "cd_Mihomo desired")
  case None
  with run off show ?thesis by (intro idle_calls) (auto simp: applyMihomo_def disable_if_active_off)
next
  case (Some c)
  show ?thesis
  proof (cases "validateMihomoConfiguration (Some c) (cd_WireGuard desired) (mc_Mode c = ''managed_follow'') = None")
    case False
    with run Some have r: "recoverMihomo env ''unsafe_mihomo_configuration'' (ex, w) = (outcome, ex', w')"
      by (simp add: applyMihomo_def)
    from recover_calls_ok [OF obs r off, of w "[]"] recover_off(2) [OF r off] show ?thesis by simp
  next
    case valid: True
    show ?thesis
    proof (cases "mc_Mode c = ''app_subscription''")
      case True
      with run Some valid obs(2) have "applyStoredMihomoApp env c (ex\<lparr>co_appDesired := Some c\<rparr>, w) = (outcome, ex', w')"
        by (simp add: applyMihomo_def)
      from applyStoredMihomoApp_calls [OF obs this] off show ?thesis by simp
    next
      case managed: False
      obtain readback err w1 where a: "mrt_Apply mihomo c w = ((readback, err), w1)" by (metis prod.collapse)
      note l1 = observed_runtime(2) [OF obs a]
      show ?thesis
      proof (cases "err \<noteq> None \<or> readback \<noteq> expectedMihomoReadback (cv_digests env) c")
        case True
        with run Some valid obs(2) managed a
        have r: "recoverMihomo env ''mihomo_apply_failed'' (clear_app ex, w1) = (outcome, ex', w')"
          by (auto simp: applyMihomo_def Let_def)
        from off have "proxy_off (clear_app ex)" by simp
        from recover_calls_ok [OF obs r this l1] recover_off(2) [OF r this] show ?thesis by simp
      next
        case False
        with run Some valid obs(2) managed a
        have "ao_Status outcome = ''applied''" "ex' = rememberManagedMihomo c (clear_app ex)" "w' = w1"
          by (auto simp: applyMihomo_def Let_def)
        with l1 False show ?thesis
          by (auto simp: calls_ok_def rememberManagedMihomo_def proxy_runs_def proxy_off_def clear_app_def)
      qed
    qed
  qed
qed

lemma Coordinated_Apply_calls:
  assumes obs: "coordinator_observed log env" "cv_mihomo env = Some mihomo"
    and run: "Coordinated_Apply env desired now (ex, w) = (outcome, ex', w')"
  obtains (not_stopped) e where "log w' = log w @ [RunDisable (Some e)]"
      "outcome = coordinator_rejected (currentMihomoReadbackHash (cv_digests env) ex) ''mihomo_disable_failed''"
      "ex' = ex"
    | (called) wo later where "log w' = log w @ RunDisable None # TunnelApply desired wo # later"
      "calls_ok (ao_Status outcome = ''applied'') ex' later"
      "ao_Status outcome = ''applied'' \<Longrightarrow> ao_Status wo = ''applied''"
proof -
  obtain qe ex1 w1 where q: "quiesceMihomo env (ex, w) = (qe, ex1, w1)" by (metis prod_cases3)
  note l1 = quiesce_calls [OF obs q]
  show ?thesis
  proof (cases qe)
    case (Some e)
    from q Some have "ex1 = ex" by (auto elim: quiesce_cases)
    with run q Some l1 show ?thesis by (intro not_stopped [of e]) (auto simp: Coordinated_Apply_def Let_def)
  next
    case None
    with q have off1: "proxy_off ex1" by (auto elim: quiesce_cases)
    obtain wo e w2 where a: "ce_Apply (cv_wireGuard env) desired now (co_wireGuard ex1, w1) = (wo, e, w2)"
      by (metis prod_cases3)
    let ?ex2 = "(clear_app ex1)\<lparr>co_wireGuard := e\<rparr>"
    have l2: "log w2 = log w @ [RunDisable None, TunnelApply desired wo]"
      using observed_tunnel(1) [OF obs(1) a] l1 None by simp
    obtain bound ex3 w3 where b: "bound_configuration env desired (?ex2, w2) = (bound, ex3, w3)"
      by (metis prod_cases3)
    from bound_configuration_off [OF b] off1 have off3: "proxy_off ex3" by simp
    have l3: "log w3 = log w2"
      using b by (auto simp: bound_configuration_def Let_def split: option.splits prod.splits
          dest: bind_calls [OF obs(1)])
    have via: thesis if "\<exists>calls. log w' = log w2 @ calls \<and> calls_ok (ao_Status outcome = ''applied'') ex' calls"
      "ao_Status outcome = ''applied'' \<Longrightarrow> ao_Status wo = ''applied''"
      using that l2 called by auto
    note unfold = Coordinated_Apply_def Let_def q None a b coordinator_rejected_def
    show ?thesis
    proof (cases "ao_Status wo = ''applied''")
      case False
      with run have "ex' = ?ex2" "w' = w2" "ao_Status outcome = ''rejected''" by (auto simp: unfold)
      with off1 show ?thesis by (intro via idle_calls) auto
    next
      case wg: True
      show ?thesis
      proof (cases bound)
        case (Inl err)
        with run wg have "ex' = ex3" "w' = w3" by (auto simp: unfold)
        with off3 l3 wg show ?thesis by (intro via idle_calls) auto
      next
        case (Inr configuration)
        let ?mismatch = "case configuration of None \<Rightarrow> False
          | Some c \<Rightarrow> (case mc_Protection c of None \<Rightarrow> True | Some p \<Rightarrow> mp_PolicyVersion p \<noteq> cd_PolicyVersion desired)"
        show ?thesis
        proof (cases ?mismatch)
          case True
          with run wg Inr have r: "recoverMihomo env ''mihomo_policy_version_mismatch'' (ex3, w3) = (outcome, ex', w')"
            by (simp add: unfold)
          have "\<exists>calls. log w' = log w2 @ calls \<and> calls_ok False ex' calls"
            using recover_calls_ok [OF obs r off3, of w2 "[]"] l3 by simp
          with recover_off(2) [OF r off3] wg show ?thesis by (intro via) simp_all
        next
          case version: False
          obtain mo ex4 w4 where m: "applyMihomo env (desired\<lparr>cd_Mihomo := configuration\<rparr>) (ex3, w3) = (mo, ex4, w4)"
            by (metis prod_cases3)
          with run wg Inr version have "ex' = ex4" "w' = w4" "ao_Status outcome = ao_Status mo"
            by (auto simp: unfold)
          with applyMihomo_calls [OF obs m off3] l3 wg show ?thesis by (intro via) simp_all
        qed
      qed
    qed
  qed
qed

lemma proxy_after_stopped [simp]:
  "proxy_after (RunDisable None # TunnelApply desired wo # later) = foldl proxy_step Stopped later"
  by simp

subsection \<open>Properties\<close>

definition sample_digests :: mihomo_digests where
  "sample_digests = \<lparr>mdg_protection = (\<lambda>_. ''01''), mdg_readback = (\<lambda>_. ''02''), mdg_combined = (\<lambda>_. ''03'')\<rparr>"

definition sample_runtime :: "error \<Rightarrow> TunnelReadback MihomoRuntime" where
  "sample_runtime disable_error =
     \<lparr>mrt_Apply = (\<lambda>c w. ((expectedMihomoReadback sample_digests c, None), w)),
      mrt_Disable = (\<lambda>w. (disable_error, w)), mrt_ApplySubscription = None,
      mrt_Verify = Some (\<lambda>c w. (None, w))\<rparr>"

definition sample_store :: "'w app_store" where
  "sample_store = \<lparr>aps_read = (\<lambda>path w. (Inl ErrNotExist, w)), aps_write = (\<lambda>path state w. (None, w)),
                   aps_remove = (\<lambda>path w. (None, w)), aps_IsAbs = (\<lambda>p. has_prefix p ''/'')\<rparr>"

definition sample_env :: "error \<Rightarrow> (Executor, TunnelReadback) coordinator_env" where
  "sample_env disable_error =
     endpoint_coordinator sample_wgt (\<lambda>_. ''00'') sample_system (Some (sample_runtime disable_error))
       sample_store sample_digests"

definition sample_coordinator :: "Executor CoordinatedExecutor" where
  "sample_coordinator =
     \<lparr>co_wireGuard = sample_executor, co_mihomoActive = False, co_previousMihomo = None,
      co_appStatePath = [], co_appClearPending = False, co_appDesired = None,
      co_appStatus = empty_MihomoAppStatus\<rparr>"

definition sample_proxy_desired :: ConfigurationDesired where
  "sample_proxy_desired =
     sample_desired\<lparr>cd_WireGuard := Some (sample_wg\<lparr>wg_Routes := [''10.0.0.0/16'', ''10.1.0.0/16'']\<rparr>),
       cd_Mihomo := Some (sample_mihomo\<lparr>mc_DNSMode := ''disabled'', mc_FakeIPRange := [],
         mc_SubscriptionURL := ''https://sub.example.org/a''\<rparr>)\<rparr>"

lemma sample_proxy_applied:
  "(case Coordinated_Apply (sample_env None) sample_proxy_desired 10 (sample_coordinator, empty_TunnelReadback) of
      (outcome, ex, w) \<Rightarrow>
        ao_Status outcome = ''applied'' \<and> co_mihomoActive ex \<and>
        (case co_previousMihomo ex of None \<Rightarrow> False | Some p \<Rightarrow>
           mc_VPNInterface (mad_Configuration p) = ''utun3'' \<and> mc_EnforcementUntil (mad_Configuration p) = 1000))"
  by code_simp

text \<open>the proxy is stopped before the tunnel is touched. When the proxy cannot be stopped, \<open>Apply\<close>
  and \<open>Disable\<close> report it and change neither the executor nor anything the WireGuard executor
  drives: no live direct connection survives a change of the routes.\<close>

theorem proxy_stopped_before_tunnel:
  assumes "cv_mihomo env = Some mihomo" "mrt_Disable mihomo w = (Some err, w')"
  shows "Coordinated_Apply env desired now (ex, w) =
           (coordinator_rejected (currentMihomoReadbackHash (cv_digests env) ex) ''mihomo_disable_failed'', ex, w') \<and>
         Coordinated_Disable env (ex, w) = (Some err, ex, w')"
  using assms by (simp add: Coordinated_Apply_def Coordinated_Disable_def quiesceMihomo_def)

theorem proxy_stopped_before_tunnel_witness:
  "Coordinated_Disable (sample_env (Some (ErrorNew ''busy''))) (sample_coordinator, empty_TunnelReadback) =
     (Some (ErrorNew ''busy''), sample_coordinator, empty_TunnelReadback)"
  using proxy_stopped_before_tunnel [of "sample_env (Some (ErrorNew ''busy''))"
      "sample_runtime (Some (ErrorNew ''busy''))" empty_TunnelReadback "ErrorNew ''busy''" empty_TunnelReadback]
  by (simp add: sample_env_def endpoint_coordinator_def sample_runtime_def)

text \<open>C4: \<open>CoordinatedExecutor.Apply\<close> is all or nothing for the proxy, by the calls that it makes. Every
  outcome is \<open>applied\<close> or \<open>rejected\<close>. The first call stops the proxy, and if that fails there is no
  other call and nothing changes; the tunnel is applied next, once; all later calls are to the proxy
  runtime. After a rejected outcome these calls have left the proxy stopped, unless the last one, the
  \<open>Disable\<close> of the recovery, failed. After an applied one the tunnel was applied, and the calls have
  left the proxy stopped, or running with exactly the configuration asked for, with the routes of the
  accepted tunnel, until the end of its validity, under a protected policy of the configuration's own
  version; and what the executor remembers is what runs.\<close>

theorem Coordinated_Apply_all_or_nothing:
  assumes "coordinator_observed log env" "cv_mihomo env = Some mihomo"
    "Coordinated_Apply env desired now (ex, w) = (outcome, ex', w')"
  shows "\<exists>calls. log w' = log w @ calls \<and>
     (ao_Status outcome = ''rejected'' \<and> ao_ReasonCode outcome = ''mihomo_disable_failed'' \<and> ex' = ex \<and>
        (\<exists>e. calls = [RunDisable (Some e)]) \<or>
      (\<exists>wo later. calls = RunDisable None # TunnelApply desired wo # later \<and> list_all runtime_call later \<and>
         (ao_Status outcome = ''rejected'' \<and> proxy_off ex' \<and>
            (proxy_after calls = Stopped \<or> (\<exists>e. last calls = RunDisable (Some e))) \<or>
          ao_Status outcome = ''applied'' \<and> ao_Status wo = ''applied'' \<and>
            (proxy_after calls = Stopped \<and> proxy_off ex' \<or>
             (\<exists>running. proxy_after calls = Running running \<and> proxy_runs ex' running \<and>
                proxy_authorized desired running)))))"
  using assms
proof (cases rule: Coordinated_Apply_calls)
  case (not_stopped e)
  then show ?thesis by (auto simp: coordinator_rejected_def)
next
  case (called wo later)
  from assms(3) show ?thesis
  proof (cases rule: Coordinated_Apply_cases)
    case (disable_failed mihomo' e)
    with observed_runtime(1) [OF assms(1,2)] assms(2) have "log w' = log w @ [RunDisable (Some e)]" by simp
    with called(1) show ?thesis by simp
  next
    case rejected
    with called show ?thesis
      by (intro exI [of _ "RunDisable None # TunnelApply desired wo # later"])
        (auto simp: calls_ok_def disable_failed_def)
  next
    case (applied wo' e w1 w2)
    from applied(3,5) called show ?thesis
      by (intro exI [of _ "RunDisable None # TunnelApply desired wo # later"]) (auto simp: calls_ok_def)
  qed
qed

text \<open>The sample environment with a log beside its world.\<close>

definition sample_calls_env :: "(Executor, TunnelReadback \<times> coordinator_call list) coordinator_env" where
  "sample_calls_env =
     \<lparr>cv_wireGuard =
        \<lparr>ce_Apply = (\<lambda>desired now (e, w, log).
           let (outcome, e, w) = Executor_Apply sample_wgt (\<lambda>_. ''00'') sample_system desired now (e, w)
           in (outcome, e, w, log @ [TunnelApply desired outcome])),
         ce_Disable = (\<lambda>(e, w, log). let (err, e, w) = Executor_Disable sample_system (e, w) in (err, e, w, log)),
         ce_Verify = None,
         ce_VPNBinding = Some (\<lambda>(e, w, log).
           let (result, e, w) = Executor_VPNBinding sample_system (e, w) in (result, e, w, log))\<rparr>,
      cv_mihomo = Some
        \<lparr>mrt_Apply = (\<lambda>c (w, log). ((expectedMihomoReadback sample_digests c, None), w,
           log @ [RunApply c (expectedMihomoReadback sample_digests c) None])),
         mrt_Disable = (\<lambda>(w, log). (None, w, log @ [RunDisable None])), mrt_ApplySubscription = None,
         mrt_Verify = None\<rparr>,
      cv_store = sample_store, cv_digests = sample_digests\<rparr>"

lemma sample_calls_observed: "coordinator_observed snd sample_calls_env"
  by (auto simp: coordinator_observed_def sample_calls_env_def sample_store_def Let_def split: prod.split)

lemma sample_calls_applied:
  "(case Coordinated_Apply sample_calls_env sample_proxy_desired 10 (sample_coordinator, empty_TunnelReadback, []) of
      (outcome, ex, w) \<Rightarrow> ao_Status outcome = ''applied'' \<and> co_mihomoActive ex)"
  by code_simp

theorem Coordinated_Apply_all_or_nothing_witness:
  "case Coordinated_Apply sample_calls_env sample_proxy_desired 10 (sample_coordinator, empty_TunnelReadback, []) of
     (outcome, ex, w, log) \<Rightarrow>
       \<exists>running. proxy_after log = Running running \<and> proxy_authorized sample_proxy_desired running"
proof -
  obtain outcome ex w log where a: "Coordinated_Apply sample_calls_env sample_proxy_desired 10
      (sample_coordinator, empty_TunnelReadback, []) = (outcome, ex, w, log)" by (metis prod_cases4)
  have m: "cv_mihomo sample_calls_env = Some (the (cv_mihomo sample_calls_env))" by (simp add: sample_calls_env_def)
  have "ao_Status outcome = ''applied''" "\<not> proxy_off ex"
    using sample_calls_applied by (simp_all add: a proxy_off_def)
  with Coordinated_Apply_all_or_nothing [OF sample_calls_observed m a] show ?thesis by (auto simp: a)
qed

text \<open>when \<open>Disable\<close> of the service's executor returns no error, the proxy is off, no plan is
  remembered, and the tunnel was read back as empty.\<close>

theorem Coordinated_Disable_complete:
  assumes "ce_Disable (Coordinated_interface (endpoint_coordinator wgt digest system mihomo store dg)) (ex, w) =
             (None, ex', w')"
  shows "\<not> co_mihomoActive ex' \<and> co_previousMihomo ex' = None \<and> ex_previous (co_wireGuard ex') = None \<and>
         observed system empty_TunnelReadback w'"
  using coordinated.disable_removes [OF assms]
  by (simp add: Coordinated_removed_def proxy_off_def Executor_removed_def)

theorem Coordinated_Disable_complete_witness:
  "observed sample_system empty_TunnelReadback empty_TunnelReadback"
proof -
  have "ce_Disable (Coordinated_interface (sample_env None)) (sample_coordinator, TunnelPlan_Readback sample_plan) =
      (None, sample_coordinator, empty_TunnelReadback)"
    by code_simp
  from Coordinated_Disable_complete [OF this [unfolded sample_env_def]] show ?thesis by blast
qed

lemma Executor_VPNBinding_routes:
  assumes "Executor_Apply wgt digest system desired now (executor, w) = (outcome, executor', w')"
    "ao_Status outcome = ''applied''" "cd_WireGuard desired = Some wg"
    "Executor_VPNBinding system (executor', w'') = ((name, routes, None), e, w3)"
  shows "routes = sort (wg_Routes wg)"
  using assms(1)
proof (cases rule: Executor_Apply_cases)
  case (applied wg' plan)
  with assms(3) have build: "buildTunnelPlan wgt desired wg (ex_privateKey executor) (ex_publicKey executor) now =
      Val (Inr plan)" by simp
  from build have r: "tp_Routes plan = Some (sort (wg_Routes wg))"
    by (auto elim: buildTunnelPlan_accepted)
  with assms(4) applied show ?thesis
    by (auto simp: Executor_VPNBinding_def Let_def TunnelPlan_Readback_def
        split: option.splits prod.splits if_splits)
qed (use assms(2,3) in \<open>simp_all add: rejected_def\<close>)

text \<open>\<open>Executor\<close> sorts the routes of a configuration before it compares and remembers them, but the
  coordinated executor compares the sorted list with the routes as the control plane sent them.
  A configuration whose routes are not in byte order is therefore never applied together with a
  proxy, although the tunnel alone accepts it.\<close>

theorem unsorted_routes_block_proxy:
  assumes "cd_WireGuard desired = Some wg" "cd_Mihomo desired = Some c" "\<not> sorted (wg_Routes wg)"
    "Coordinated_Apply (endpoint_coordinator wgt digest system mihomo store dg) desired now (ex, w) =
       (outcome, ex', w')"
  shows "ao_Status outcome = ''rejected''"
proof -
  let ?env = "endpoint_coordinator wgt digest system mihomo store dg"
  obtain qe ex1 w1 where q: "quiesceMihomo ?env (ex, w) = (qe, ex1, w1)" by (metis prod_cases3)
  obtain wo e w2 where a: "Executor_Apply wgt digest system desired now (co_wireGuard ex1, w1) = (wo, e, w2)"
    by (metis prod_cases3)
  let ?ex2 = "(clear_app ex1)\<lparr>co_wireGuard := e\<rparr>"
  obtain bound ex3 w3 where b: "bound_configuration ?env desired (?ex2, w2) = (bound, ex3, w3)"
    by (metis prod_cases3)
  have env: "cv_wireGuard ?env = Executor_interface wgt digest system" by (simp add: endpoint_coordinator_def)
  have "isl bound" if applied: "ao_Status wo = ''applied''"
  proof (rule ccontr)
    assume "\<not> isl bound"
    let ?c = "c\<lparr>mc_EnforcementUntil := cd_ValidUntil desired, mc_DNSRecords := wg_DNSRecords wg,
                mc_VPNRoutes := wg_Routes wg\<rparr>"
    obtain r ex4 w4 where bind: "bindMihomoVPN ?env ?c (?ex2, w2) = (r, ex4, w4)" by (metis prod_cases3)
    with b assms(1,2) \<open>\<not> isl bound\<close> have r: "\<not> isl r"
      by (cases r) (auto simp: bound_configuration_def Let_def)
    from bind show False
    proof (cases rule: bind_cases)
      case unbound
      with assms(3) show False by simp
    next
      case (bound name e' binding)
      then have "Executor_VPNBinding system (e, w2) = ((name, wg_Routes wg, None), e', w4)"
        by (auto simp: env Executor_interface_def)
      from Executor_VPNBinding_routes [OF a applied assms(1) this] assms(3) show False
        by (metis sorted_sort)
    qed (use r in simp)
  qed
  with assms(4) q a b show ?thesis
    by (cases bound) (auto simp: Coordinated_Apply_def Let_def env Executor_interface_def
        coordinator_rejected_def split: if_splits)
qed

theorem unsorted_routes_block_proxy_witness:
  "let desired = sample_proxy_desired\<lparr>cd_WireGuard := Some sample_wg\<rparr>
   in fst (Executor_Apply sample_wgt (\<lambda>_. ''00'') sample_system desired 10 (sample_executor, empty_TunnelReadback)) =
        \<lparr>ao_Status = ''applied'', ao_ReadbackHash = ''sha256:00'', ao_ReasonCode = []\<rparr> \<and>
      ao_Status (fst (Coordinated_Apply (sample_env None) desired 10 (sample_coordinator, empty_TunnelReadback))) =
        ''rejected''"
proof -
  let ?desired = "sample_proxy_desired\<lparr>cd_WireGuard := Some sample_wg\<rparr>"
  obtain outcome ex w where a: "Coordinated_Apply (sample_env None) ?desired 10
      (sample_coordinator, empty_TunnelReadback) = (outcome, ex, w)" by (metis prod_cases3)
  have "\<not> sorted (wg_Routes sample_wg)" by code_simp
  then have "ao_Status outcome = ''rejected''"
    using unsorted_routes_block_proxy [of ?desired sample_wg, OF _ _ _ a [unfolded sample_env_def]]
    by (simp add: sample_proxy_desired_def)
  moreover have "fst (Executor_Apply sample_wgt (\<lambda>_. ''00'') sample_system ?desired 10
      (sample_executor, empty_TunnelReadback)) =
        \<lparr>ao_Status = ''applied'', ao_ReadbackHash = ''sha256:00'', ao_ReasonCode = []\<rparr>"
    by code_simp
  ultimately show ?thesis using a by simp
qed

text \<open>in every history of the coordinated executor, the proxy is marked active exactly while the
  configuration it runs with is remembered, so a readback hash never names a stopped proxy.\<close>

theorem coordinator_active_iff_remembered:
  assumes "coordinator_reach env ex w"
  shows "co_mihomoActive ex \<longleftrightarrow> co_previousMihomo ex \<noteq> None"
  using coordinator_reach_consistent [OF assms] by (simp add: proxy_consistent_def)

theorem coordinator_active_iff_remembered_witness:
  "\<exists>ex w. coordinator_reach (sample_env None) ex w \<and> co_mihomoActive ex \<and> co_previousMihomo ex \<noteq> None"
proof -
  obtain outcome ex w where a: "Coordinated_Apply (sample_env None) sample_proxy_desired 10
      (sample_coordinator, empty_TunnelReadback) = (outcome, ex, w)" by (metis prod_cases3)
  have "NewCoordinatedExecutor (sample_env None) (Some sample_executor) [] = Inr sample_coordinator"
    by (simp add: NewCoordinatedExecutor_def sample_coordinator_def)
  from coordinator_reach.applies [OF coordinator_reach.new [OF this] a]
  have r: "coordinator_reach (sample_env None) ex w" .
  from coordinator_active_iff_remembered [OF r] r a sample_proxy_applied show ?thesis by auto
qed

end
