(* ===== verification/Manager_State.thy ===== *)
theory Manager_State
  imports Coordinator
begin

text \<open>
  The state of the connection manager of \<open>internal/endpointservice/manager.go\<close> and the
  interfaces it drives: the network control plane (\<open>RuntimeControl\<close> and the optional
  \<open>ManagedVPNControl\<close>), the executor, the protected file of the configuration floor, telemetry
  and the clock. All are functions over the world \<open>'w\<close>; an optional method is an option. Contexts
  carry deadlines only, and a call that runs out of time is an error of the interface.
\<close>

subsection \<open>Interfaces\<close>

record 'w ManagedVPNControl =
  mvc_PrepareManagedVPN :: "VPNManagedConnectRequest \<Rightarrow> 'w \<Rightarrow> VPNManagedPrepareResult fallible \<times> 'w"
  mvc_ProbeVPN :: "VPNManagedPrepareResult \<Rightarrow> 'w \<Rightarrow> VPNProbeBatch fallible \<times> 'w"
  mvc_ConnectManagedVPN :: "VPNManagedConnectRequest \<Rightarrow> 'w \<Rightarrow> VPNManagedConnectResult fallible \<times> 'w"

record 'w RuntimeControl =
  rc_Connect :: "VPNConnectRequest \<Rightarrow> 'w \<Rightarrow> VPNConnectResult fallible \<times> 'w"
  rc_Configuration :: "'w \<Rightarrow> RuntimeMessage fallible \<times> 'w"
  rc_MihomoSource :: "string \<Rightarrow> 'w \<Rightarrow> MihomoSource fallible \<times> 'w"
  rc_Report :: "ConfigurationApplied \<Rightarrow> 'w \<Rightarrow> error \<times> 'w"
  rc_Renew :: "LeaseRenewRequest \<Rightarrow> 'w \<Rightarrow> LeaseRenewResult fallible \<times> 'w"
  rc_Revoke :: "LeaseRevoke \<Rightarrow> 'w \<Rightarrow> error \<times> 'w"
  rc_Managed :: "'w ManagedVPNControl option"

record ManagerOptions =
  mo_ControlURL :: string
  mo_ConfigurationStatePath :: string
  mo_RuntimeID :: string
  mo_DeviceID :: string
  mo_PollInterval :: duration
  mo_HeartbeatInterval :: duration
  mo_RenewBefore :: duration
  mo_MaxClockSkew :: duration

record pendingVPNCleanup =
  pvc_SessionID :: string
  pvc_LeaseIDs :: "string list"
  pvc_Reason :: string

record configurationFloor =
  cf_PendingCleanup :: "pendingVPNCleanup option"
  cf_Version :: int
  cf_Identity :: string
  cf_ConfigurationVersion :: int
  cf_PolicyVersion :: int
  cf_Digest :: string

definition empty_floor :: configurationFloor where
  "empty_floor =
     \<lparr>cf_PendingCleanup = None, cf_Version = 0, cf_Identity = [], cf_ConfigurationVersion = 0,
      cf_PolicyVersion = 0, cf_Digest = []\<rparr>"

text \<open>
  The protected file: \<open>filepath.IsAbs\<close>, \<open>readFileBounded\<close>, \<open>unprotectSecret\<close> and
  \<open>saveProtectedState\<close> of the platform, and the JSON text of a floor and of a configuration.
  \<open>sha256\<close> is the lower-case hexadecimal digest of a text.
\<close>

record 'w floor_store =
  fls_IsAbs :: "string \<Rightarrow> bool"
  fls_read :: "string \<Rightarrow> int \<Rightarrow> 'w \<Rightarrow> string fallible \<times> 'w"
  fls_unprotect :: "string \<Rightarrow> string \<Rightarrow> 'w \<Rightarrow> string fallible \<times> 'w"
  fls_save :: "string \<Rightarrow> string \<Rightarrow> string \<Rightarrow> 'w \<Rightarrow> error \<times> 'w"

record manager_codec =
  mcd_encode_floor :: "configurationFloor \<Rightarrow> string fallible"
  mcd_decode_floor :: "string \<Rightarrow> configurationFloor fallible"
  mcd_encode_desired :: "ConfigurationDesired \<Rightarrow> string fallible"
  mcd_decode_desired :: "string \<Rightarrow> ConfigurationDesired fallible"
  mcd_sha256 :: "string \<Rightarrow> string"

text \<open>\<open>MihomoAppCoordinator\<close>, which the executor may implement; the input is a subscription URL.\<close>

record ('e, 'w) MihomoAppCoordinator =
  mac_MihomoAppStatus :: "'e \<Rightarrow> MihomoAppStatus \<times> error"
  mac_ConfigureMihomoApp :: "string \<Rightarrow> 'e \<times> 'w \<Rightarrow> (MihomoAppStatus \<times> error) \<times> 'e \<times> 'w"
  mac_SelectMihomoApp :: "string \<Rightarrow> 'e \<times> 'w \<Rightarrow> (MihomoAppStatus \<times> error) \<times> 'e \<times> 'w"
  mac_RefreshMihomoApp :: "'e \<times> 'w \<Rightarrow> (MihomoAppStatus \<times> error) \<times> 'e \<times> 'w"
  mac_ClearMihomoApp :: "'e \<times> 'w \<Rightarrow> (MihomoAppStatus \<times> error) \<times> 'e \<times> 'w"

text \<open>
  \<open>me_Observe\<close> is \<open>Admission.Observe\<close> and \<open>me_VPNProbe\<close> the optional method of the telemetry;
  \<open>me_Channels\<close> is nil or the health test of the channel manager.
\<close>

record ('e, 'w) manager_env =
  me_options :: ManagerOptions
  me_control :: "'w RuntimeControl"
  me_executor :: "('e, 'w) ConfigurationExecutor"
  me_App :: "('e, 'w) MihomoAppCoordinator option"
  me_store :: "'w floor_store"
  me_codec :: manager_codec
  me_CheckVPNHealth :: "('w \<Rightarrow> error \<times> 'w) option"
  me_Observe :: "(AdmissionConfiguration option \<Rightarrow> time \<Rightarrow> time \<Rightarrow> 'w \<Rightarrow> error \<times> 'w) option"
  me_VPNProbe :: "(VPNProbeBatch \<Rightarrow> 'w \<Rightarrow> error \<times> 'w) option"
  me_ChannelsHealthy :: "(time \<Rightarrow> 'w \<Rightarrow> bool \<times> 'w) option"
  me_randomID :: "'w \<Rightarrow> string \<times> 'w"
  me_now :: "'w \<Rightarrow> time \<times> 'w"

subsection \<open>State\<close>

record ConnectInput =
  ci_IntentID :: string
  ci_IntentToken :: string
  ci_RequestID :: string
  ci_SiteID :: string
  ci_NetworkSpaceID :: string
  ci_GatewayID :: string
  ci_Mode :: string
  ci_ResourceIDs :: "string list"
  ci_AccessGrantID :: string
  ci_AccessGrantToken :: string

definition StateDisconnected :: string where "StateDisconnected = ''disconnected''"
definition StateConnecting :: string where "StateConnecting = ''connecting''"
definition StateConnected :: string where "StateConnected = ''connected''"
definition StateDegraded :: string where "StateDegraded = ''degraded''"

lemmas state_names = StateDisconnected_def StateConnecting_def StateConnected_def StateDegraded_def

text \<open>
  \<open>Status\<close> without \<open>ChannelControls\<close>, which \<open>Status()\<close> copies from the channel manager into
  every answer and the manager itself never reads.
\<close>

record Status =
  st_PresenceState :: string
  st_PresenceLastReceivedAt :: "time option"
  st_PresenceEpoch :: int
  st_ProfileID :: string
  st_ProfileRevision :: int
  st_Selection :: string
  st_SelectionReason :: string
  st_DecisionID :: string
  st_Phase :: string
  st_ProbeResults :: "VPNProbeResult list"
  st_ProbeMeasuredAt :: "time option"
  st_FailoverOnDisconnect :: bool
  st_RetryCooldownSeconds :: int
  st_MaxAttempts :: int
  st_ConnectedAt :: "time option"
  st_TunnelIP :: string
  st_State :: string
  st_RuntimeID :: string
  st_DeviceID :: string
  st_SiteID :: string
  st_NetworkSpaceID :: string
  st_Mode :: string
  st_ResourceIDs :: "string list"
  st_SessionID :: string
  st_GatewayID :: string
  st_ConfigurationVersion :: int
  st_PolicyVersion :: int
  st_ValidUntil :: time
  st_SessionValidUntil :: "time option"
  st_MihomoMode :: string
  st_MihomoProfileID :: string
  st_MihomoProfileRevision :: int
  st_MihomoPolicyVersion :: int
  st_UptimeSeconds :: int
  st_Diagnostic :: string

text \<open>The literal \<open>Status{State: StateDisconnected, RuntimeID: .., DeviceID: ..}\<close>.\<close>

definition disconnected_status :: "ManagerOptions \<Rightarrow> Status" where
  "disconnected_status options =
     \<lparr>st_PresenceState = [], st_PresenceLastReceivedAt = None, st_PresenceEpoch = 0, st_ProfileID = [],
      st_ProfileRevision = 0, st_Selection = [], st_SelectionReason = [], st_DecisionID = [],
      st_Phase = [], st_ProbeResults = [], st_ProbeMeasuredAt = None, st_FailoverOnDisconnect = False,
      st_RetryCooldownSeconds = 0, st_MaxAttempts = 0, st_ConnectedAt = None, st_TunnelIP = [],
      st_State = StateDisconnected, st_RuntimeID = mo_RuntimeID options,
      st_DeviceID = mo_DeviceID options, st_SiteID = [], st_NetworkSpaceID = [], st_Mode = [],
      st_ResourceIDs = [], st_SessionID = [], st_GatewayID = [], st_ConfigurationVersion = 0,
      st_PolicyVersion = 0, st_ValidUntil = zero_time, st_SessionValidUntil = None, st_MihomoMode = [],
      st_MihomoProfileID = [], st_MihomoProfileRevision = 0, st_MihomoPolicyVersion = 0,
      st_UptimeSeconds = 0, st_Diagnostic = []\<rparr>"

text \<open>\<open>mg_executor\<close> is the state of the executor the manager owns.\<close>

record 'e Manager =
  mg_executor :: 'e
  mg_startedAt :: time
  mg_pollInterval :: duration
  mg_heartbeatInterval :: duration
  mg_status :: Status
  mg_leaseIDs :: "string list"
  mg_sessionUntil :: time
  mg_nextRenewAt :: time
  mg_appliedVersion :: int
  mg_appliedHash :: string
  mg_disabled :: bool
  mg_cleanupReason :: string
  mg_presenceBootID :: string
  mg_configurationFloor :: configurationFloor

definition update :: "(Status \<Rightarrow> Status) \<Rightarrow> 'e Manager \<Rightarrow> 'e Manager" where
  "update change manager = manager\<lparr>mg_status := change (mg_status manager)\<rparr>"

definition degrade :: "string \<Rightarrow> 'e Manager \<Rightarrow> 'e Manager" where
  "degrade reason =
     update (\<lambda>status. status\<lparr>st_State := StateDegraded, st_Diagnostic := reason\<rparr>)"

text \<open>\<open>update\<close> and \<open>degrade\<close> touch nothing but the status.\<close>

lemma update_simps [simp]:
  "mg_executor (update f m) = mg_executor m" "mg_leaseIDs (update f m) = mg_leaseIDs m"
  "mg_sessionUntil (update f m) = mg_sessionUntil m" "mg_nextRenewAt (update f m) = mg_nextRenewAt m"
  "mg_appliedVersion (update f m) = mg_appliedVersion m" "mg_appliedHash (update f m) = mg_appliedHash m"
  "mg_disabled (update f m) = mg_disabled m" "mg_cleanupReason (update f m) = mg_cleanupReason m"
  "mg_configurationFloor (update f m) = mg_configurationFloor m" "mg_startedAt (update f m) = mg_startedAt m"
  "mg_pollInterval (update f m) = mg_pollInterval m"
  "mg_heartbeatInterval (update f m) = mg_heartbeatInterval m"
  "mg_presenceBootID (update f m) = mg_presenceBootID m"
  "mg_status (update f m) = f (mg_status m)"
  by (simp_all add: update_def)

lemma degrade_simps [simp]:
  "mg_executor (degrade r m) = mg_executor m" "mg_leaseIDs (degrade r m) = mg_leaseIDs m"
  "mg_sessionUntil (degrade r m) = mg_sessionUntil m" "mg_nextRenewAt (degrade r m) = mg_nextRenewAt m"
  "mg_appliedVersion (degrade r m) = mg_appliedVersion m" "mg_appliedHash (degrade r m) = mg_appliedHash m"
  "mg_disabled (degrade r m) = mg_disabled m" "mg_cleanupReason (degrade r m) = mg_cleanupReason m"
  "mg_configurationFloor (degrade r m) = mg_configurationFloor m" "mg_startedAt (degrade r m) = mg_startedAt m"
  "mg_pollInterval (degrade r m) = mg_pollInterval m"
  "mg_heartbeatInterval (degrade r m) = mg_heartbeatInterval m"
  "mg_presenceBootID (degrade r m) = mg_presenceBootID m"
  "st_SessionID (mg_status (degrade r m)) = st_SessionID (mg_status m)"
  "st_State (mg_status (degrade r m)) = StateDegraded"
  "st_Diagnostic (mg_status (degrade r m)) = r"
  "st_ConfigurationVersion (mg_status (degrade r m)) = st_ConfigurationVersion (mg_status m)"
  "st_ValidUntil (mg_status (degrade r m)) = st_ValidUntil (mg_status m)"
  "st_ProfileID (mg_status (degrade r m)) = st_ProfileID (mg_status m)"
  by (simp_all add: degrade_def)

end
