(* ===== verification/ConfigurationFloor.thy ===== *)
theory ConfigurationFloor
  imports Manager_State
begin

text \<open>
  \<open>configuration_floor.go\<close>: the protected record of the highest configuration a device has
  accepted and of a session whose cleanup has begun, which survive a restart of the service. All
  operations are methods of the manager. Then the contract \<open>version_floor\<close> of a floor.
\<close>

definition configurationFloorDescription :: string where
  "configurationFloorDescription = ''OpenSoha endpoint configuration floor''"

text \<open>The regular expression \<open>^sha256:[0-9a-f]{64}$\<close>.\<close>

definition is_lower_hex :: "char \<Rightarrow> bool" where
  "is_lower_hex c \<longleftrightarrow> is_digit c \<or> CHR ''a'' \<le> c \<and> c \<le> CHR ''f''"

definition configurationDigestPattern :: "string \<Rightarrow> bool" where
  "configurationDigestPattern s \<longleftrightarrow>
     has_prefix s ''sha256:'' \<and> length s = 71 \<and> list_all is_lower_hex (drop 7 s)"

definition valid_pending :: "pendingVPNCleanup \<Rightarrow> bool" where
  "valid_pending pending \<longleftrightarrow>
     \<not> (\<not> identifierPattern (pvc_SessionID pending) \<or> \<not> identifierPattern (pvc_Reason pending) \<or>
        length (pvc_LeaseIDs pending) = 0 \<or> length (pvc_LeaseIDs pending) > 768) \<and>
     list_all identifierPattern (pvc_LeaseIDs pending)"

definition validConfigurationFloor :: "configurationFloor \<Rightarrow> string \<Rightarrow> bool" where
  "validConfigurationFloor floor identity =
     (if cf_Version floor \<noteq> 1 \<or> cf_Identity floor \<noteq> identity then False
      else if (case cf_PendingCleanup floor of None \<Rightarrow> False | Some pending \<Rightarrow> \<not> valid_pending pending) then False
      else if cf_ConfigurationVersion floor = 0 \<and> cf_PolicyVersion floor = 0 \<and> cf_Digest floor = [] then True
      else cf_ConfigurationVersion floor > 0 \<and> cf_PolicyVersion floor > 0 \<and>
           configurationDigestPattern (cf_Digest floor))"

definition floorIdentity :: "('e, 'w) manager_env \<Rightarrow> string" where
  "floorIdentity env =
     ''sha256:'' @ mcd_sha256 (me_codec env)
       (mo_ControlURL (me_options env) @ [CHR 0x00] @ mo_RuntimeID (me_options env) @ [CHR 0x00] @
        mo_DeviceID (me_options env))"

definition restoreConfigurationFloor ::
  "('e, 'w) manager_env \<Rightarrow> 'e Manager \<times> 'w \<Rightarrow> error \<times> 'e Manager \<times> 'w" where
  "restoreConfigurationFloor env = (\<lambda>(manager, w).
     let path = mo_ConfigurationStatePath (me_options env); store = me_store env
     in if path = [] then (None, manager, w)
        else if \<not> fls_IsAbs store path \<or> mo_ControlURL (me_options env) = []
        then (Some (ErrorNew ''endpoint configuration floor path or control identity is invalid''), manager, w)
        else
          let (raw, w) = fls_read store path (128 * 1024) w
          in case raw of
               Inl err \<Rightarrow>
                 if errors_is err ErrNotExist then (None, manager, w)
                 else (Some (ErrWrap ''read endpoint configuration floor: '' err), manager, w)
             | Inr raw \<Rightarrow>
                 let (plain, w) = fls_unprotect store raw configurationFloorDescription w
                 in case plain of
                      Inl err \<Rightarrow> (Some (ErrWrap ''unprotect endpoint configuration floor: '' err), manager, w)
                    | Inr plain \<Rightarrow>
                        (case mcd_decode_floor (me_codec env) plain of
                           Inl _ \<Rightarrow>
                             (Some (ErrorNew ''endpoint configuration floor identity or version is invalid''),
                              manager, w)
                         | Inr floor \<Rightarrow>
                             if \<not> validConfigurationFloor floor (floorIdentity env)
                             then (Some (ErrorNew ''endpoint configuration floor identity or version is invalid''),
                                   manager, w)
                             else
                               let manager = manager\<lparr>mg_configurationFloor := floor\<rparr>
                               in (None,
                                   (case cf_PendingCleanup floor of
                                      None \<Rightarrow> manager
                                    | Some pending \<Rightarrow>
                                        (update (\<lambda>status. status\<lparr>st_SessionID := pvc_SessionID pending,
                                           st_State := StateDegraded, st_Diagnostic := ''cleanup_pending''\<rparr>) manager)
                                        \<lparr>mg_leaseIDs := pvc_LeaseIDs pending,
                                         mg_cleanupReason := pvc_Reason pending\<rparr>), w)))"

definition endpointEnforcementPayload :: "manager_codec \<Rightarrow> ConfigurationDesired \<Rightarrow> string fallible" where
  "endpointEnforcementPayload codec desired =
     mcd_encode_desired codec (desired\<lparr>cd_Admission := None, cd_RuntimeIntervals := None\<rparr>)"

definition configuration_digest :: "manager_codec \<Rightarrow> string \<Rightarrow> string" where
  "configuration_digest codec raw = ''sha256:'' @ mcd_sha256 codec raw"

definition saveConfigurationFloor :: "('e, 'w) manager_env \<Rightarrow> configurationFloor \<Rightarrow> 'w \<Rightarrow> error \<times> 'w" where
  "saveConfigurationFloor env floor w =
     (let path = mo_ConfigurationStatePath (me_options env)
      in if path \<noteq> [] then
           (case mcd_encode_floor (me_codec env) floor of
              Inl err \<Rightarrow> (Some err, w)
            | Inr raw \<Rightarrow>
                let (err, w) = fls_save (me_store env) path raw configurationFloorDescription w
                in (case err of None \<Rightarrow> None
                    | Some e \<Rightarrow> Some (ErrWrap ''commit endpoint configuration floor: '' e), w))
         else (None, w))"

definition rememberConfiguration ::
  "('e, 'w) manager_env \<Rightarrow> ConfigurationDesired \<Rightarrow> 'e Manager \<times> 'w \<Rightarrow> error \<times> 'e Manager \<times> 'w" where
  "rememberConfiguration env desired = (\<lambda>(manager, w).
     case endpointEnforcementPayload (me_codec env) desired of
       Inl err \<Rightarrow> (Some err, manager, w)
     | Inr raw \<Rightarrow>
         let digest = configuration_digest (me_codec env) raw;
             floor = mg_configurationFloor manager
         in if cf_PendingCleanup floor \<noteq> None
            then (Some (ErrorNew ''endpoint session cleanup is pending''), manager, w)
            else if cd_ConfigurationVersion desired < 1 \<or> cd_PolicyVersion desired < 1 \<or>
                    cd_ConfigurationVersion desired < cf_ConfigurationVersion floor \<or>
                    cd_PolicyVersion desired < cf_PolicyVersion floor \<or>
                    cd_ConfigurationVersion desired = cf_ConfigurationVersion floor \<and> digest \<noteq> cf_Digest floor
            then (Some (ErrorNew ''endpoint configuration regressed or changed without a version''), manager, w)
            else if cd_ConfigurationVersion desired = cf_ConfigurationVersion floor then (None, manager, w)
            else
              let floor = \<lparr>cf_PendingCleanup = None, cf_Version = 1, cf_Identity = floorIdentity env,
                           cf_ConfigurationVersion = cd_ConfigurationVersion desired,
                           cf_PolicyVersion = cd_PolicyVersion desired, cf_Digest = digest\<rparr>;
                  (err, w) = saveConfigurationFloor env floor w
              in if err \<noteq> None then (err, manager, w)
                 else (None, manager\<lparr>mg_configurationFloor := floor\<rparr>, w))"

text \<open>The floor is marked in memory even if it cannot be saved.\<close>

definition beginVPNCleanup ::
  "('e, 'w) manager_env \<Rightarrow> string \<Rightarrow> string list \<Rightarrow> string \<Rightarrow> 'e Manager \<times> 'w \<Rightarrow> error \<times> 'e Manager \<times> 'w" where
  "beginVPNCleanup env sessionID leaseIDs reason = (\<lambda>(manager, w).
     if sessionID = [] \<or> length leaseIDs = 0 then (None, manager, w)
     else
       let floor = (mg_configurationFloor manager)
             \<lparr>cf_Version := 1, cf_Identity := floorIdentity env,
              cf_PendingCleanup := Some \<lparr>pvc_SessionID = sessionID, pvc_LeaseIDs = leaseIDs, pvc_Reason = reason\<rparr>\<rparr>;
           manager = manager\<lparr>mg_configurationFloor := floor\<rparr>;
           (err, w) = saveConfigurationFloor env floor w
       in (err, manager, w))"

definition finishVPNCleanup ::
  "('e, 'w) manager_env \<Rightarrow> 'e Manager \<times> 'w \<Rightarrow> error \<times> 'e Manager \<times> 'w" where
  "finishVPNCleanup env = (\<lambda>(manager, w).
     let floor = mg_configurationFloor manager
     in if cf_PendingCleanup floor = None then (None, manager, w)
        else
          let floor = floor\<lparr>cf_PendingCleanup := None\<rparr>;
              (err, w) = saveConfigurationFloor env floor w
          in if err \<noteq> None then (err, manager, w)
             else (None, manager\<lparr>mg_configurationFloor := floor\<rparr>, w))"

end
