(* ===== verification/Manager.thy ===== *)
theory Manager
  imports ConfigurationFloor Go_Url
begin

text \<open>
  The connection manager of \<open>manager.go\<close> and \<open>vpn_manager.go\<close>: connecting, accepting leases,
  polling and applying configurations, renewing, disconnecting with a retry of unfinished
  cleanup, and the timing of the loops. Every operation runs under \<open>operationMu\<close>, so it is one
  function of the manager and the world.
\<close>

subsection \<open>Pure helpers\<close>

definition RuntimeSchemaVersion :: string where "RuntimeSchemaVersion = ''network-runtime/v1alpha1''"
definition MessageConfiguration :: string where "MessageConfiguration = ''configuration.desired''"

definition allIdentifiers :: "string list \<Rightarrow> bool" where
  "allIdentifiers values = all_fresh identifierPattern id [] values"

definition validConnectScope :: "string \<Rightarrow> string list \<Rightarrow> string \<Rightarrow> string \<Rightarrow> bool" where
  "validConnectScope mode resourceIDs accessGrantID accessGrantToken =
     (if length resourceIDs > 256 \<or> \<not> allIdentifiers resourceIDs then False
      else if mode = ''external_vpn''
      then length resourceIDs = 0 \<and> accessGrantID = [] \<and> accessGrantToken = []
      else if mode \<in> set [''internal_ztna'', ''external_vpn_ztna'', ''external_direct_ztna'']
      then length resourceIDs > 0 \<and> identifierPattern accessGrantID \<and>
           rawurl_decoded_length accessGrantToken = Some 32
      else False)"

definition validLeaseShape :: "string \<Rightarrow> nat \<Rightarrow> nat \<Rightarrow> bool" where
  "validLeaseShape mode networkLeases resourceLeases =
     (if networkLeases > 256 \<or> resourceLeases > 512 then False
      else if mode = ''external_vpn'' then networkLeases > 0 \<and> resourceLeases = 0
      else if mode = ''external_vpn_ztna'' then networkLeases > 0 \<and> resourceLeases > 0
      else if mode \<in> set [''internal_ztna'', ''external_direct_ztna'']
      then networkLeases = 0 \<and> resourceLeases > 0
      else False)"

definition intersects :: "string list \<Rightarrow> string list \<Rightarrow> bool" where
  "intersects left right = list_ex (\<lambda>item. item \<in> set right) left"

definition leaseIDs :: "NetworkLease list \<Rightarrow> ResourceLease list \<Rightarrow> string list" where
  "leaseIDs networkLeases resourceLeases =
     sort_compact (filter identifierPattern (map nl_ID networkLeases) @
                   filter identifierPattern (map rl_ID resourceLeases))"

definition renewalTime :: "time \<Rightarrow> time \<Rightarrow> duration \<Rightarrow> time" where
  "renewalTime now validUntil leadTime =
     (let remaining = time_Sub validUntil now
      in if remaining \<le> 0 then now else validUntil - min leadTime (remaining div 3))"

definition recoverableVPNFailure :: "string \<Rightarrow> bool" where
  "recoverableVPNFailure reason \<longleftrightarrow>
     reason = ''vpn_tunnel_unhealthy'' \<or> reason = ''endpoint_readback_mismatch'' \<or>
     reason = ''endpoint_apply_failed''"

definition validRuntimeInterval :: "int \<Rightarrow> bool" where
  "validRuntimeInterval seconds \<longleftrightarrow> seconds \<ge> 30 \<and> seconds \<le> 300"

definition validManagedRequest :: "VPNManagedConnectRequest \<Rightarrow> bool" where
  "validManagedRequest request \<longleftrightarrow>
     identifierPattern (mcr_RequestID request) \<and> identifierPattern (mcr_IntentID request) \<and>
     rawurl_decoded_length (mcr_IntentToken request) = Some 32 \<and>
     (mcr_ProbeBatchID request = [] \<or> identifierPattern (mcr_ProbeBatchID request))"

definition validVPNHandshake :: "time \<Rightarrow> time \<Rightarrow> bool" where
  "validVPNHandshake at now \<longleftrightarrow>
     \<not> time_IsZero at \<and> \<not> at > now + 5 * second \<and> time_Sub now at \<le> 3 * minute"

text \<open>The statements of \<open>applyDesiredStatus\<close>, one group after the other.\<close>

definition applyDesiredStatus :: "ConfigurationDesired \<Rightarrow> Status \<Rightarrow> Status" where
  "applyDesiredStatus desired status =
     (let previousDiagnostic = st_Diagnostic status;
          status = status\<lparr>st_ConfigurationVersion := cd_ConfigurationVersion desired,
                          st_PolicyVersion := cd_PolicyVersion desired,
                          st_ValidUntil := cd_ValidUntil desired, st_State := StateDisconnected,
                          st_Diagnostic := [], st_MihomoMode := [], st_MihomoProfileID := [],
                          st_MihomoProfileRevision := 0, st_MihomoPolicyVersion := 0\<rparr>;
          status = (case cd_Mihomo desired of
              None \<Rightarrow> status
            | Some c \<Rightarrow>
                status\<lparr>st_MihomoMode := mc_Mode c, st_MihomoProfileID := mc_ProfileID c,
                       st_MihomoProfileRevision := mc_ProfileRevision c,
                       st_MihomoPolicyVersion :=
                         (case mc_Protection c of None \<Rightarrow> 0 | Some p \<Rightarrow> mp_PolicyVersion p)\<rparr>);
          status = (if cd_WireGuard desired \<noteq> None \<or> cd_Mihomo desired \<noteq> None
                    then status\<lparr>st_State := StateConnected\<rparr> else status);
          status = (if st_ProfileID status \<noteq> [] \<and> cd_WireGuard desired = None
                    then status\<lparr>st_State := StateDisconnected\<rparr> else status);
          status = (case cd_WireGuard desired of
              None \<Rightarrow> status
            | Some wg \<Rightarrow> (case wg_Addresses wg of
                [] \<Rightarrow> status | address # _ \<Rightarrow> status\<lparr>st_TunnelIP := address\<rparr>))
      in if cd_WireGuard desired = None \<and> st_SessionID status = [] \<and> recoverableVPNFailure previousDiagnostic
         then status\<lparr>st_State := StateDegraded, st_Diagnostic := previousDiagnostic\<rparr> else status)"

subsection \<open>Construction, intervals, status\<close>

text \<open>
  The tests for nil are left out: the interfaces of the environment are present. \<open>now\<close> is the
  clock at the start and \<open>bootID\<close> a fresh identifier.
\<close>

definition NewManager ::
  "('e, 'w) manager_env \<Rightarrow> 'e \<Rightarrow> 'w \<Rightarrow> 'e Manager fallible \<times> 'w" where
  "NewManager env executor w =
     (let options = me_options env
      in if \<not> identifierPattern (mo_RuntimeID options) \<or> \<not> identifierPattern (mo_DeviceID options) \<or>
            mo_PollInterval options \<le> 0 \<or> mo_PollInterval options > 5 * minute \<or>
            mo_HeartbeatInterval options \<le> 0 \<or> mo_HeartbeatInterval options > 5 * minute \<or>
            mo_RenewBefore options \<le> 0 \<or> mo_RenewBefore options > 2 * minute \<or>
            mo_MaxClockSkew options \<le> 0 \<or> mo_MaxClockSkew options > 5 * minute
         then (Inl (ErrorNew ''endpoint manager dependencies and intervals are invalid''), w)
         else
           let (now, w) = me_now env w;
               (bootID, w) = me_randomID env w;
               manager = \<lparr>mg_executor = executor, mg_startedAt = now,
                          mg_pollInterval = mo_PollInterval options,
                          mg_heartbeatInterval = mo_HeartbeatInterval options,
                          mg_status = disconnected_status options, mg_leaseIDs = [],
                          mg_sessionUntil = zero_time, mg_nextRenewAt = zero_time,
                          mg_appliedVersion = 0, mg_appliedHash = [], mg_disabled = True,
                          mg_cleanupReason = [], mg_presenceBootID = bootID,
                          mg_configurationFloor = empty_floor\<rparr>;
               (err, manager, w) = restoreConfigurationFloor env (manager, w)
           in case err of Some err \<Rightarrow> (Inl err, w) | None \<Rightarrow> (Inr manager, w))"

definition applyRuntimeIntervals :: "RuntimeIntervals option \<Rightarrow> 'e Manager \<Rightarrow> 'e Manager" where
  "applyRuntimeIntervals intervals manager =
     (case intervals of
        None \<Rightarrow> manager
      | Some i \<Rightarrow>
          if \<not> validRuntimeInterval (ri_HeartbeatIntervalSeconds i) \<or>
             \<not> validRuntimeInterval (ri_ConfigurationPollIntervalSeconds i) then manager
          else manager\<lparr>mg_heartbeatInterval := ri_HeartbeatIntervalSeconds i * second,
                       mg_pollInterval := ri_ConfigurationPollIntervalSeconds i * second\<rparr>)"

definition intervals :: "ManagerOptions \<Rightarrow> 'e Manager \<Rightarrow> duration \<times> duration" where
  "intervals options manager =
     ((if mg_pollInterval manager \<le> 0 then mo_PollInterval options else mg_pollInterval manager),
      (if mg_heartbeatInterval manager \<le> 0 then mo_HeartbeatInterval options else mg_heartbeatInterval manager))"

text \<open>\<open>draw n\<close> is the random number below \<open>n\<close> that \<open>randv2.Int64N\<close> returns.\<close>

definition runtimeIntervalJitter :: "(int \<Rightarrow> int) \<Rightarrow> duration \<Rightarrow> duration" where
  "runtimeIntervalJitter draw delay =
     (let span = delay div 5 in if span = 0 then delay else delay - span + draw (2 * span + 1))"

definition nextPollDelay :: "ManagerOptions \<Rightarrow> (duration \<Rightarrow> duration) \<Rightarrow> time \<Rightarrow> 'e Manager \<Rightarrow> duration" where
  "nextPollDelay options intervalJitter now manager =
     (let delay = intervalJitter (fst (intervals options manager));
          deadlines = [st_ValidUntil (mg_status manager), mg_sessionUntil manager, mg_nextRenewAt manager];
          deadlines = (if st_SessionID (mg_status manager) = [] then take 1 deadlines else deadlines)
      in fold (\<lambda>deadline delay.
           if time_IsZero deadline then delay
           else if time_Sub deadline now > 0 \<and> time_Sub deadline now < delay then time_Sub deadline now
           else delay) deadlines delay)"

text \<open>\<open>cycleContext\<close>: the deadline of a cycle, if it has one.\<close>

definition cycleDeadline :: "'e Manager \<Rightarrow> time option" where
  "cycleDeadline manager =
     (let deadlines = [st_ValidUntil (mg_status manager)] @
            (if st_SessionID (mg_status manager) \<noteq> [] then [mg_sessionUntil manager] else []);
          deadline = fold (\<lambda>until deadline.
            if \<not> time_IsZero until \<and> (time_IsZero deadline \<or> until < deadline) then until else deadline)
            deadlines zero_time
      in if \<not> time_IsZero deadline then Some deadline else None)"

text \<open>A negative quotient is replaced by 0, so rounding towards zero and downwards agree here.\<close>

definition Manager_Status :: "('e, 'w) manager_env \<Rightarrow> 'e Manager \<times> 'w \<Rightarrow> Status \<times> 'w" where
  "Manager_Status env = (\<lambda>(manager, w).
     let status = mg_status manager;
         status = (if \<not> time_IsZero (mg_sessionUntil manager) \<and> st_SessionID status \<noteq> []
                   then status\<lparr>st_SessionValidUntil := Some (mg_sessionUntil manager)\<rparr> else status);
         (now, w) = me_now env w
     in (status\<lparr>st_UptimeSeconds := max 0 (time_Sub now (mg_startedAt manager) div second)\<rparr>, w))"

subsection \<open>Disconnecting\<close>

text \<open>
  \<open>disconnectLocked\<close>: the cleanup is recorded before anything is torn down, the executor is
  disabled, the leases are revoked; what is left undone is kept for the next cycle.
\<close>

definition revoke_leases ::
  "('e, 'w) manager_env \<Rightarrow> string \<Rightarrow> string list \<Rightarrow> string \<Rightarrow> 'w \<Rightarrow> error \<times> 'w" where
  "revoke_leases env sessionID leases reason w =
     (let (now, w) = me_now env w
      in rc_Revoke (me_control env)
           \<lparr>lrv_SessionID = sessionID, lrv_LeaseIDs = leases, lrv_ReasonCode = reason,
            lrv_EffectiveAt = now\<rparr> w)"

definition revoke_held ::
  "('e, 'w) manager_env \<Rightarrow> string \<Rightarrow> string list \<Rightarrow> string \<Rightarrow> 'w \<Rightarrow> error \<times> 'w" where
  "revoke_held env sessionID leases reason w =
     (if sessionID \<noteq> [] \<and> length leases \<noteq> 0 then revoke_leases env sessionID leases reason w else (None, w))"

definition disconnectLocked ::
  "('e, 'w) manager_env \<Rightarrow> string \<Rightarrow> 'e Manager \<times> 'w \<Rightarrow> (Status \<times> error) \<times> 'e Manager \<times> 'w" where
  "disconnectLocked env reason = (\<lambda>(manager, w).
     let sessionID = st_SessionID (mg_status manager);
         leaseIDs = mg_leaseIDs manager;
         (stateErr, manager, w) = beginVPNCleanup env sessionID leaseIDs reason (manager, w);
         (localErr, e, w) = ce_Disable (me_executor env) (mg_executor manager, w);
         manager = manager\<lparr>mg_executor := e\<rparr>;
         (remoteErr, w) = revoke_held env sessionID leaseIDs reason w;
         (stateErr, manager, w) =
           (if localErr = None \<and> remoteErr = None then
              let (err, manager, w) = finishVPNCleanup env (manager, w)
              in (errors_join [stateErr, err], manager, w)
            else (stateErr, manager, w));
         manager = manager\<lparr>mg_disabled := localErr = None\<rparr>;
         manager =
           (if localErr \<noteq> None \<or> remoteErr \<noteq> None \<or> stateErr \<noteq> None
            then (degrade ''disconnect_incomplete'' manager)\<lparr>mg_cleanupReason := reason\<rparr>
            else manager\<lparr>mg_cleanupReason := [], mg_leaseIDs := [], mg_sessionUntil := zero_time,
                         mg_nextRenewAt := zero_time, mg_appliedVersion := 0,
                         mg_status := disconnected_status (me_options env)\<rparr>)
     in ((mg_status manager, errors_join [localErr, remoteErr, stateErr]), manager, w))"

definition Manager_Disconnect ::
  "('e, 'w) manager_env \<Rightarrow> 'e Manager \<times> 'w \<Rightarrow> (Status \<times> error) \<times> 'e Manager \<times> 'w" where
  "Manager_Disconnect env = disconnectLocked env ''user_disconnected''"

definition rejectConfiguration ::
  "('e, 'w) manager_env \<Rightarrow> string \<Rightarrow> 'e Manager \<times> 'w \<Rightarrow> error \<times> 'e Manager \<times> 'w" where
  "rejectConfiguration env reason s =
     (let ((_, err), manager, w) = disconnectLocked env reason s
      in (errors_join [Some (ErrorNew reason), err], degrade reason manager, w))"

definition cleanupFailedVPN ::
  "('e, 'w) manager_env \<Rightarrow> 'e Manager \<times> 'w \<Rightarrow> error \<times> 'e Manager \<times> 'w" where
  "cleanupFailedVPN env s =
     (let ((_, err), manager, w) = disconnectLocked env ''connect_failed'' s in (err, manager, w))"

text \<open>An expired lease or configuration is torn down; an error of the cleanup is only logged.\<close>

definition enforceExpiry :: "('e, 'w) manager_env \<Rightarrow> 'e Manager \<times> 'w \<Rightarrow> 'e Manager \<times> 'w" where
  "enforceExpiry env = (\<lambda>(manager, w).
     let (now, w) = me_now env w;
         leaseExpired = st_SessionID (mg_status manager) \<noteq> [] \<and> \<not> time_IsZero (mg_sessionUntil manager) \<and>
                        \<not> mg_sessionUntil manager > now;
         configurationExpired = \<not> mg_disabled manager \<and> \<not> time_IsZero (st_ValidUntil (mg_status manager)) \<and>
                                \<not> st_ValidUntil (mg_status manager) > now
     in if \<not> leaseExpired \<and> \<not> configurationExpired then (manager, w)
        else
          let reason = (if leaseExpired then ''lease_expired'' else ''configuration_expired'');
              (_, manager, w) = disconnectLocked env reason (manager, w)
          in (manager, w))"

subsection \<open>Polling the configuration\<close>

definition managedConfigurationRevoked :: "ConfigurationDesired \<Rightarrow> 'e Manager \<Rightarrow> bool" where
  "managedConfigurationRevoked desired manager \<longleftrightarrow>
     st_ProfileID (mg_status manager) \<noteq> [] \<and> st_SessionID (mg_status manager) \<noteq> [] \<and>
     cd_WireGuard desired = None"

definition valid_configuration_message :: "ManagerOptions \<Rightarrow> time \<Rightarrow> RuntimeMessage \<Rightarrow> bool" where
  "valid_configuration_message options now message \<longleftrightarrow>
     \<not> (rm_SchemaVersion message \<noteq> RuntimeSchemaVersion \<or> rm_MessageType message \<noteq> MessageConfiguration \<or>
        rm_ProducerID message \<noteq> ''network-control'' \<or> rm_RuntimeID message \<noteq> mo_RuntimeID options \<or>
        rm_RuntimeKind message \<noteq> ''endpoint'' \<or> rm_OccurredAt message > now + mo_MaxClockSkew options \<or>
        \<not> rm_ExpiresAt message > now \<or> \<not> rm_ExpiresAt message > rm_OccurredAt message)"

text \<open>The credentials of a followed proxy profile: the configuration with its source filled in.\<close>

definition managed_source ::
  "'w RuntimeControl \<Rightarrow> ConfigurationDesired \<Rightarrow> 'w \<Rightarrow> ConfigurationDesired option \<times> 'w" where
  "managed_source control desired w =
     (case cd_Mihomo desired of
        None \<Rightarrow> (Some desired, w)
      | Some c \<Rightarrow>
          if mc_Mode c \<noteq> ''managed_follow'' then (Some desired, w)
          else
            let (source, w) = rc_MihomoSource control (mc_ProfileID c) w
            in case source of
                 Inl _ \<Rightarrow> (None, w)
               | Inr source \<Rightarrow>
                   if ms_ProfileID source \<noteq> mc_ProfileID c \<or> ms_ProfileRevision source \<noteq> mc_ProfileRevision c \<or>
                      mc_SourceType c \<noteq> [] \<and> ms_SourceType source \<noteq> mc_SourceType c
                   then (None, w)
                   else (Some (desired\<lparr>cd_Mihomo := Some (c
                           \<lparr>mc_SourceType := ms_SourceType source,
                            mc_SubscriptionURL := ms_SubscriptionURL source,
                            mc_ManualNode := ms_ManualNode source\<rparr>)\<rparr>), w))"

definition report_of :: "ConfigurationDesired \<Rightarrow> ApplyOutcome \<Rightarrow> ConfigurationApplied" where
  "report_of desired outcome =
     \<lparr>ca_ConfigurationVersion = cd_ConfigurationVersion desired, ca_PolicyVersion = cd_PolicyVersion desired,
      ca_Status = ao_Status outcome, ca_ReadbackHash = ao_ReadbackHash outcome,
      ca_ReasonCode = ao_ReasonCode outcome\<rparr>"

text \<open>The configuration is the one applied already: its readback is verified, not applied again.\<close>

definition verify_applied ::
  "('e, 'w) manager_env \<Rightarrow> ConfigurationDesired \<Rightarrow> time \<Rightarrow> 'e Manager \<times> 'w \<Rightarrow> error \<times> 'e Manager \<times> 'w" where
  "verify_applied env desired now = (\<lambda>(manager, w).
     let (outcome, manager, w) =
       (case ce_Verify (me_executor env) of
          None \<Rightarrow> (None, manager, w)
        | Some verifier \<Rightarrow>
            let (outcome, e, w) = verifier desired now (mg_executor manager, w)
            in (Some outcome, manager\<lparr>mg_executor := e\<rparr>, w))
     in case outcome of
          None \<Rightarrow> (None, update (applyDesiredStatus desired) manager, w)
        | Some outcome \<Rightarrow>
            if ao_Status outcome = ''applied'' then (None, update (applyDesiredStatus desired) manager, w)
            else
              let manager = degrade (fallback (ao_ReasonCode outcome) ''endpoint_readback_mismatch'')
                              (manager\<lparr>mg_appliedVersion := 0\<rparr>);
                  (reportErr, w) = rc_Report (me_control env) (report_of desired outcome) w;
                  (err, manager, w) = rejectConfiguration env ''endpoint_readback_mismatch'' (manager, w)
              in (errors_join [Some (ErrorNew ''endpoint configuration drifted''), reportErr, err], manager, w))"

definition finish_revocation ::
  "('e, 'w) manager_env \<Rightarrow> bool \<Rightarrow> 'e Manager \<times> 'w \<Rightarrow> error \<times> 'e Manager \<times> 'w" where
  "finish_revocation env authorizationRevoked = (\<lambda>(manager, w).
     if authorizationRevoked then
       let (err, w) = revoke_leases env (st_SessionID (mg_status manager)) (mg_leaseIDs manager)
                        ''authorization_revoked'' w
       in if err = None then finishVPNCleanup env (manager, w) else (err, manager, w)
     else (None, manager, w))"

text \<open>The state that \<open>syncConfiguration\<close> leaves after the executor has applied the configuration.\<close>

definition applied_state ::
  "ConfigurationDesired \<Rightarrow> string \<Rightarrow> bool \<Rightarrow> error \<Rightarrow> 'e Manager \<Rightarrow> 'e Manager" where
  "applied_state desired configurationHash authorizationRevoked revokeErr manager =
     (let manager = (update (applyDesiredStatus desired) manager)
           \<lparr>mg_appliedVersion := cd_ConfigurationVersion desired, mg_appliedHash := configurationHash,
            mg_disabled := cd_WireGuard desired = None \<and> cd_Mihomo desired = None\<rparr>;
         manager = (if revokeErr = None
           then manager\<lparr>mg_leaseIDs := leaseIDs (cd_NetworkLeases desired) (cd_ResourceLeases desired)\<rparr>
           else manager);
         manager = (if revokeErr \<noteq> None
           then (degrade ''revocation_pending'' manager)\<lparr>mg_cleanupReason := ''authorization_revoked''\<rparr>
           else manager)
      in if authorizationRevoked \<and> revokeErr = None
         then (update (\<lambda>status. status\<lparr>st_SessionID := [], st_GatewayID := [], st_TunnelIP := [],
                 st_ConnectedAt := None, st_Phase := [], st_Diagnostic := ''authorization_revoked''\<rparr>) manager)
              \<lparr>mg_sessionUntil := zero_time, mg_nextRenewAt := zero_time\<rparr>
         else manager)"

definition accept_applied ::
  "('e, 'w) manager_env \<Rightarrow> ConfigurationDesired \<Rightarrow> string \<Rightarrow> bool \<Rightarrow> error \<Rightarrow> 'e Manager \<times> 'w \<Rightarrow>
   error \<times> 'e Manager \<times> 'w" where
  "accept_applied env desired configurationHash authorizationRevoked reportErr = (\<lambda>(manager, w).
     let (revokeErr, manager, w) = finish_revocation env authorizationRevoked (manager, w);
         manager = applied_state desired configurationHash authorizationRevoked revokeErr manager
     in case reportErr of
          Some err \<Rightarrow>
            (errors_join [Some (ErrWrap ''report endpoint configuration: '' err), revokeErr],
             degrade ''configuration_report_failed'' manager, w)
        | None \<Rightarrow> (revokeErr, manager, w))"

definition apply_desired ::
  "('e, 'w) manager_env \<Rightarrow> ConfigurationDesired \<Rightarrow> string \<Rightarrow> bool \<Rightarrow> time \<Rightarrow> 'e Manager \<times> 'w \<Rightarrow>
   error \<times> 'e Manager \<times> 'w" where
  "apply_desired env desired configurationHash authorizationRevoked now = (\<lambda>(manager, w).
     let (begun, manager, w) =
       (if authorizationRevoked
        then beginVPNCleanup env (st_SessionID (mg_status manager)) (mg_leaseIDs manager)
               ''authorization_revoked'' (manager, w)
        else (None, manager, w))
     in if begun \<noteq> None then
          let (err, manager, w) = rejectConfiguration env ''authorization_revoked'' (manager, w)
          in (errors_join [begun, err], manager, w)
        else
          let (outcome, e, w) = ce_Apply (me_executor env) desired now (mg_executor manager, w);
              manager = manager\<lparr>mg_executor := e\<rparr>;
              (reportErr, w) = rc_Report (me_control env) (report_of desired outcome) w
          in if ao_Status outcome \<noteq> ''applied'' then
               let manager = degrade (fallback (ao_ReasonCode outcome) ''endpoint_apply_failed'') manager;
                   (err, manager, w) = rejectConfiguration env ''endpoint_apply_failed'' (manager, w)
               in (errors_join [Some (ErrorNew (''endpoint configuration was '' @ ao_Status outcome)), reportErr, err],
                   manager, w)
             else accept_applied env desired configurationHash authorizationRevoked reportErr (manager, w))"

text \<open>\<open>syncConfiguration\<close>, from the credentials of the proxy on: stale, reused, applied or new.\<close>

definition sync_sourced ::
  "('e, 'w) manager_env \<Rightarrow> ConfigurationDesired \<Rightarrow> bool \<Rightarrow> time \<Rightarrow> 'e Manager \<times> 'w \<Rightarrow> error \<times> 'e Manager \<times> 'w" where
  "sync_sourced env desired authorizationRevoked now = (\<lambda>(manager, w).
     let manager = applyRuntimeIntervals (cd_RuntimeIntervals desired) manager
     in case endpointEnforcementPayload (me_codec env) desired of
          Inl _ \<Rightarrow> rejectConfiguration env ''invalid_configuration_payload'' (manager, w)
        | Inr configurationBytes \<Rightarrow>
            let configurationHash = configuration_digest (me_codec env) configurationBytes;
                currentVersion = st_ConfigurationVersion (mg_status manager)
            in if cd_ConfigurationVersion desired < currentVersion
               then (Some (ErrorNew ''network control returned a stale endpoint configuration''),
                     degrade ''stale_configuration'' manager, w)
               else if cd_ConfigurationVersion desired = currentVersion \<and> mg_appliedHash manager \<noteq> [] \<and>
                       configurationHash \<noteq> mg_appliedHash manager
               then rejectConfiguration env ''configuration_version_reused'' (manager, w)
               else if cd_ConfigurationVersion desired = mg_appliedVersion manager
               then verify_applied env desired now (manager, w)
               else apply_desired env desired configurationHash authorizationRevoked now (manager, w))"

text \<open>
  \<open>syncConfiguration\<close>, from the decoded configuration on. By \<open>validateMihomoConfiguration\<close> the
  protected policy is present where its version is compared.
\<close>

definition sync_desired ::
  "('e, 'w) manager_env \<Rightarrow> ConfigurationDesired \<Rightarrow> time \<Rightarrow> time \<Rightarrow> 'e Manager \<times> 'w \<Rightarrow> error \<times> 'e Manager \<times> 'w" where
  "sync_desired env desired occurredAt now = (\<lambda>(manager, w).
     let (remembered, manager, w) = rememberConfiguration env desired (manager, w)
     in if remembered \<noteq> None then
          let (err, manager, w) = rejectConfiguration env ''configuration_floor_unavailable'' (manager, w)
          in (errors_join [remembered, err], manager, w)
        else
          let (_, w) = (case me_Observe env of
                None \<Rightarrow> (None, w)
              | Some observe \<Rightarrow> observe (cd_Admission desired) (cd_ValidUntil desired) occurredAt w);
              authorizationRevoked = managedConfigurationRevoked desired manager
          in if validateMihomoConfiguration (cd_Mihomo desired) (cd_WireGuard desired) False \<noteq> None
             then rejectConfiguration env ''unsafe_mihomo_configuration'' (manager, w)
             else if (case cd_Mihomo desired of
                        None \<Rightarrow> False
                      | Some c \<Rightarrow> (case mc_Protection c of
                          None \<Rightarrow> True
                        | Some p \<Rightarrow> mp_PolicyVersion p \<noteq> cd_PolicyVersion desired))
             then rejectConfiguration env ''mihomo_policy_version_mismatch'' (manager, w)
             else
               let (sourced, w) = managed_source (me_control env) desired w
               in case sourced of
                    None \<Rightarrow> (Some (ErrorNew ''network control returned an invalid mihomo source''),
                             degrade ''mihomo_source_unavailable'' manager, w)
                  | Some desired \<Rightarrow> sync_sourced env desired authorizationRevoked now (manager, w))"

definition syncConfiguration :: "('e, 'w) manager_env \<Rightarrow> 'e Manager \<times> 'w \<Rightarrow> error \<times> 'e Manager \<times> 'w" where
  "syncConfiguration env = (\<lambda>(manager, w).
     let (message, w) = rc_Configuration (me_control env) w
     in case message of
          Inl err \<Rightarrow> (Some (ErrWrap ''poll endpoint configuration: '' err), degrade ''control_unavailable'' manager, w)
        | Inr message \<Rightarrow>
            let (now, w) = me_now env w
            in if \<not> valid_configuration_message (me_options env) now message
               then (Some (ErrorNew ''network control returned an invalid endpoint configuration message''),
                     degrade ''invalid_configuration_message'' manager, w)
               else case mcd_decode_desired (me_codec env) (rm_Payload message) of
                 Inl _ \<Rightarrow>
                   (Some (ErrorNew ''network control returned an invalid endpoint configuration payload''),
                    degrade ''invalid_configuration_payload'' manager, w)
               | Inr desired \<Rightarrow>
                   if rm_ExpiresAt message \<noteq> cd_ValidUntil desired
                   then (Some (ErrorNew ''network control returned an invalid endpoint configuration payload''),
                         degrade ''invalid_configuration_payload'' manager, w)
                   else sync_desired env desired (rm_OccurredAt message) now (manager, w))"

subsection \<open>Renewal and the cycle\<close>

definition renew :: "('e, 'w) manager_env \<Rightarrow> time \<Rightarrow> 'e Manager \<times> 'w \<Rightarrow> error \<times> 'e Manager \<times> 'w" where
  "renew env now = (\<lambda>(manager, w).
     let request = \<lparr>lrr_SessionID = st_SessionID (mg_status manager), lrr_LeaseIDs = mg_leaseIDs manager,
                    lrr_ObservedConfigurationVersion = st_ConfigurationVersion (mg_status manager),
                    lrr_PostureVersion = None\<rparr>
     in if lrr_SessionID request = [] \<or> lrr_ObservedConfigurationVersion request < 1 \<or>
           length (lrr_LeaseIDs request) = 0
        then (Some (ErrorNew ''endpoint session cannot be renewed before a configuration is applied''), manager, w)
        else
          let (result, w) = rc_Renew (me_control env) request w
          in case result of
               Inl err \<Rightarrow> (Some (ErrWrap ''renew endpoint leases: '' err), manager, w)
             | Inr result \<Rightarrow>
                 let ids = leaseIDs (lrs_NetworkLeases result) (lrs_ResourceLeases result)
                 in if lrs_PolicyVersion result < 1 \<or> \<not> lrs_ValidUntil result > now \<or>
                       intersects (lrr_LeaseIDs request) (lrs_RevokedLeaseIDs result) \<or>
                       length ids \<noteq> length (lrs_NetworkLeases result) + length (lrs_ResourceLeases result) \<or>
                       length ids = 0
                    then let (err, manager, w) = rejectConfiguration env ''lease_revoked'' (manager, w)
                         in (errors_join [Some (ErrorNew ''endpoint network lease was revoked''), err], manager, w)
                    else (None,
                          (update (\<lambda>status. status\<lparr>st_PolicyVersion := lrs_PolicyVersion result\<rparr>) manager)
                            \<lparr>mg_sessionUntil := lrs_ValidUntil result,
                             mg_nextRenewAt := renewalTime now (lrs_ValidUntil result)
                                                 (mo_RenewBefore (me_options env)),
                             mg_leaseIDs := ids\<rparr>, w))"

text \<open>The part of \<open>Cycle\<close> under the deferred \<open>enforceExpiry\<close>.\<close>

definition cycle_body ::
  "('e, 'w) manager_env \<Rightarrow> bool \<Rightarrow> time \<Rightarrow> 'e Manager \<times> 'w \<Rightarrow> error \<times> 'e Manager \<times> 'w" where
  "cycle_body env renewNow now = (\<lambda>(manager, w).
     let (err, manager, w) = (if renewNow then renew env now (manager, w) else (None, manager, w))
     in if err \<noteq> None then (err, degrade ''lease_renewal_failed'' manager, w)
        else
          let (err, manager, w) = syncConfiguration env (manager, w)
          in if err \<noteq> None then (err, manager, w)
             else if st_SessionID (mg_status manager) = [] then (None, manager, w)
             else case me_CheckVPNHealth env of
               None \<Rightarrow> (None, manager, w)
             | Some check \<Rightarrow>
                 let (err, w) = check w
                 in if err = None then (None, manager, w)
                    else let (err', manager, w) = rejectConfiguration env ''vpn_tunnel_unhealthy'' (manager, w)
                         in (errors_join [err, err'], manager, w))"

definition Manager_Cycle :: "('e, 'w) manager_env \<Rightarrow> 'e Manager \<times> 'w \<Rightarrow> error \<times> 'e Manager \<times> 'w" where
  "Manager_Cycle env = (\<lambda>(manager, w).
     let (now, w) = me_now env w;
         status = mg_status manager;
         active = st_SessionID status \<noteq> [];
         sessionExpired = active \<and> \<not> time_IsZero (mg_sessionUntil manager) \<and> \<not> mg_sessionUntil manager > now;
         expired = (active \<or> \<not> mg_disabled manager) \<and> \<not> time_IsZero (st_ValidUntil status) \<and>
                   \<not> st_ValidUntil status > now;
         renewNow = active \<and> \<not> time_IsZero (mg_nextRenewAt manager) \<and> \<not> mg_nextRenewAt manager > now;
         disconnect = (\<lambda>reason.
           let ((_, err), manager, w) = disconnectLocked env reason (manager, w) in (err, manager, w))
     in if mg_cleanupReason manager \<noteq> [] then disconnect (mg_cleanupReason manager)
        else if sessionExpired then disconnect ''lease_expired''
        else if expired then disconnect ''configuration_expired''
        else
          let (err, manager, w) = cycle_body env renewNow now (manager, w);
              (manager, w) = enforceExpiry env (manager, w)
          in (err, manager, w))"

subsection \<open>Connecting\<close>

text \<open>
  The connecting operations of the code also return \<open>manager.Status()\<close>: here the public ones
  take it once at the end (\<open>with_status\<close>). The clock is also read where an earlier test
  already refuses the result.
\<close>

definition acceptVPNConnection ::
  "('e, 'w) manager_env \<Rightarrow> VPNConnectResult \<Rightarrow> string \<Rightarrow> 'e Manager \<times> 'w \<Rightarrow> error \<times> 'e Manager \<times> 'w" where
  "acceptVPNConnection env result mode = (\<lambda>(manager, w).
     let (now, w) = me_now env w;
         reason = fallback (vcr_ReasonCode result) ''authorization_denied'';
         ids = leaseIDs (vcr_NetworkLeases result) (vcr_ResourceLeases result)
     in if vcr_Decision result \<noteq> ''allow'' \<or> \<not> identifierPattern (vcr_SessionID result) \<or>
           \<not> identifierPattern (vcr_GatewayID result) \<or> vcr_ConfigurationVersion result < 1 \<or>
           vcr_PolicyVersion result < 1 \<or>
           \<not> validLeaseShape mode (length (vcr_NetworkLeases result)) (length (vcr_ResourceLeases result)) \<or>
           \<not> vcr_ValidUntil result > now
        then (Some (ErrorNew (''VPN connection denied: '' @ reason)),
              update (\<lambda>status. status\<lparr>st_State := StateDisconnected, st_Diagnostic := reason\<rparr>) manager, w)
        else if length ids \<noteq> length (vcr_NetworkLeases result) + length (vcr_ResourceLeases result)
        then (Some (ErrorNew ''network control returned invalid lease IDs''),
              update (\<lambda>status. status\<lparr>st_State := StateDisconnected, st_Diagnostic := ''invalid_leases''\<rparr>) manager, w)
        else
          let (now, w) = me_now env w;
              manager = (update (\<lambda>status. status\<lparr>st_SessionID := vcr_SessionID result,
                           st_GatewayID := vcr_GatewayID result,
                           st_ConfigurationVersion := vcr_ConfigurationVersion result,
                           st_PolicyVersion := vcr_PolicyVersion result\<rparr>) manager)
                \<lparr>mg_sessionUntil := vcr_ValidUntil result, mg_leaseIDs := ids,
                 mg_nextRenewAt := renewalTime now (vcr_ValidUntil result) (mo_RenewBefore (me_options env))\<rparr>;
              (err, manager, w) = syncConfiguration env (manager, w)
          in if err \<noteq> None then
               let (cleanupErr, manager, w) = cleanupFailedVPN env (manager, w)
               in (errors_join [err, cleanupErr], manager, w)
             else (None, manager, w))"

definition with_status ::
  "('e, 'w) manager_env \<Rightarrow> error \<times> 'e Manager \<times> 'w \<Rightarrow> (Status \<times> error) \<times> 'e Manager \<times> 'w" where
  "with_status env = (\<lambda>(err, manager, w).
     let (status, w) = Manager_Status env (manager, w) in ((status, err), manager, w))"

text \<open>The end of \<open>connectManaged\<close>: the selected gateway is accepted like any other connection.\<close>

definition accept_managed ::
  "('e, 'w) manager_env \<Rightarrow> VPNManagedConnectResult \<Rightarrow> 'e Manager \<times> 'w \<Rightarrow> error \<times> 'e Manager \<times> 'w" where
  "accept_managed env result = (\<lambda>(manager, w).
     let manager = update (\<lambda>status. status\<lparr>st_SiteID := mrs_SiteID result,
                     st_NetworkSpaceID := mrs_NetworkSpaceID result, st_Mode := mrs_Mode result,
                     st_ResourceIDs := mrs_ResourceIDs result, st_Selection := mrs_Selection result,
                     st_SelectionReason := mrs_SelectionReason result, st_DecisionID := mrs_DecisionID result,
                     st_FailoverOnDisconnect := mrs_FailoverOnDisconnect result,
                     st_RetryCooldownSeconds := mrs_RetryCooldownSeconds result,
                     st_MaxAttempts := mrs_MaxAttempts result, st_Phase := ''applying''\<rparr>) manager;
         (err, manager, w) =
           acceptVPNConnection env (mrs_VPNConnectResult result) (mrs_Mode result) (manager, w)
     in if err \<noteq> None then (err, manager, w)
        else
          let (connectedAt, w) = me_now env w
          in (None, update (\<lambda>status. status\<lparr>st_Phase := [], st_ConnectedAt := Some connectedAt\<rparr>) manager, w))"

text \<open>
  \<open>connectManaged\<close> with the probes: the intent is prepared, the gateways are measured, the
  batch is reported if telemetry takes it, and the control plane selects a gateway.
\<close>

definition probed_request ::
  "('e, 'w) manager_env \<Rightarrow> VPNManagedConnectRequest \<Rightarrow> VPNProbeBatch \<Rightarrow> 'w \<Rightarrow> VPNManagedConnectRequest \<times> 'w" where
  "probed_request env request batch w =
     (case me_VPNProbe env of
        None \<Rightarrow> (request, w)
      | Some probe \<Rightarrow>
          let (err, w) = probe batch w
          in (if err = None then request\<lparr>mcr_ProbeBatchID := pb_BatchID batch\<rparr> else request, w))"

definition select_managed ::
  "('e, 'w) manager_env \<Rightarrow> 'w ManagedVPNControl \<Rightarrow> VPNManagedConnectRequest \<Rightarrow> 'e Manager \<times> 'w \<Rightarrow>
   error \<times> 'e Manager \<times> 'w" where
  "select_managed env control request = (\<lambda>(manager, w).
     let manager = update (\<lambda>status. status\<lparr>st_State := StateConnecting, st_Phase := ''preparing'',
                     st_Diagnostic := []\<rparr>) manager;
         (prepared, w) = mvc_PrepareManagedVPN control request w
     in case prepared of
          Inl err \<Rightarrow> (Some err, degrade ''vpn_prepare_failed'' manager, w)
        | Inr prepared \<Rightarrow>
            let manager = update (\<lambda>status. status\<lparr>st_ProfileID := mpr_ProfileID prepared,
                            st_ProfileRevision := mpr_ProfileRevision prepared,
                            st_Phase := ''measuring''\<rparr>) manager;
                (batch, w) = mvc_ProbeVPN control prepared w
            in case batch of
                 Inl err \<Rightarrow> (Some err, degrade ''vpn_probe_failed'' manager, w)
               | Inr batch \<Rightarrow>
                   let manager = update (\<lambda>status. status\<lparr>st_ProbeResults := pb_Results batch,
                                   st_ProbeMeasuredAt := Some (pb_WindowEndedAt batch),
                                   st_Phase := ''selecting''\<rparr>) manager;
                       (request, w) = probed_request env request batch w;
                       (result, w) = mvc_ConnectManagedVPN control request w
                   in case result of
                        Inl err \<Rightarrow> (Some err, degrade ''vpn_connect_failed'' manager, w)
                      | Inr result \<Rightarrow>
                          if mrs_ProfileID result \<noteq> mpr_ProfileID prepared \<or>
                             mrs_ProfileRevision result \<noteq> mpr_ProfileRevision prepared \<or>
                             mrs_SelectionPolicyRevision result \<noteq> mpr_SelectionPolicyRevision prepared
                          then (Some (ErrorNew ''VPN profile changed during selection''),
                                degrade ''vpn_profile_changed'' manager, w)
                          else accept_managed env result (manager, w))"

definition connectManaged ::
  "('e, 'w) manager_env \<Rightarrow> ConnectInput \<Rightarrow> 'e Manager \<times> 'w \<Rightarrow> error \<times> 'e Manager \<times> 'w" where
  "connectManaged env input = (\<lambda>(manager, w).
     if ci_SiteID input \<noteq> [] \<or> ci_NetworkSpaceID input \<noteq> [] \<or> ci_GatewayID input \<noteq> [] \<or> ci_Mode input \<noteq> [] \<or>
        length (ci_ResourceIDs input) > 0 \<or> ci_AccessGrantID input \<noteq> [] \<or> ci_AccessGrantToken input \<noteq> []
     then (Some (ErrorNew ''managed VPN does not accept local scope overrides''), manager, w)
     else
       let (requestID, w) = (if ci_RequestID input = [] then me_randomID env w else (ci_RequestID input, w));
           request = \<lparr>mcr_RequestID = requestID, mcr_IntentID = ci_IntentID input,
                      mcr_IntentToken = ci_IntentToken input, mcr_ProbeBatchID = []\<rparr>
       in if \<not> validManagedRequest request then (Some (ErrorNew ''invalid managed VPN intent''), manager, w)
          else case rc_Managed (me_control env) of
            None \<Rightarrow> (Some (ErrorNew ''managed VPN runtime is unavailable''), manager, w)
          | Some control \<Rightarrow>
              if st_SessionID (mg_status manager) \<noteq> [] \<or> mg_cleanupReason manager \<noteq> []
              then (Some (ErrorNew ''disconnect and finish cleanup before reconnecting''), manager, w)
              else select_managed env control request (manager, w))"

definition Manager_Connect ::
  "('e, 'w) manager_env \<Rightarrow> ConnectInput \<Rightarrow> 'e Manager \<times> 'w \<Rightarrow> (Status \<times> error) \<times> 'e Manager \<times> 'w" where
  "Manager_Connect env input = (\<lambda>(manager, w). with_status env (
     if ci_IntentID input \<noteq> [] \<or> ci_IntentToken input \<noteq> [] then connectManaged env input (manager, w)
     else
       let input = (if ci_Mode input = [] then input\<lparr>ci_Mode := ''external_vpn''\<rparr> else input)
       in if \<not> identifierPattern (ci_SiteID input) \<or> \<not> identifierPattern (ci_NetworkSpaceID input) \<or>
             (ci_GatewayID input \<noteq> [] \<and> \<not> identifierPattern (ci_GatewayID input)) \<or>
             \<not> validConnectScope (ci_Mode input) (ci_ResourceIDs input) (ci_AccessGrantID input)
                 (ci_AccessGrantToken input)
          then (Some (ErrorNew ''VPN connection scope is invalid''), manager, w)
          else
            let input = input\<lparr>ci_ResourceIDs := sort (ci_ResourceIDs input)\<rparr>
            in if st_SessionID (mg_status manager) \<noteq> [] \<or> mg_cleanupReason manager \<noteq> []
               then (Some (ErrorNew ''endpoint session must be disconnected before reconnecting''), manager, w)
               else
                 let manager = update (\<lambda>status. status\<lparr>st_State := StateConnecting, st_Diagnostic := [],
                                 st_SiteID := ci_SiteID input, st_NetworkSpaceID := ci_NetworkSpaceID input,
                                 st_Mode := ci_Mode input, st_ResourceIDs := ci_ResourceIDs input\<rparr>) manager;
                     (requestID, w) = me_randomID env w;
                     (result, w) = rc_Connect (me_control env)
                       \<lparr>vcq_RequestID = requestID, vcq_SiteID = ci_SiteID input,
                        vcq_NetworkSpaceID = ci_NetworkSpaceID input, vcq_GatewayID = ci_GatewayID input,
                        vcq_Mode = ci_Mode input, vcq_ResourceIDs = ci_ResourceIDs input,
                        vcq_AccessGrantID = ci_AccessGrantID input,
                        vcq_AccessGrantToken = ci_AccessGrantToken input\<rparr> w
                 in case result of
                      Inl err \<Rightarrow> (Some (ErrWrap ''request VPN connection: '' err),
                                  degrade ''vpn_connect_failed'' manager, w)
                    | Inr result \<Rightarrow> acceptVPNConnection env result (ci_Mode input) (manager, w)))"

subsection \<open>The app subscription\<close>

text \<open>The manager forwards these operations to the executor, under its own mutex.\<close>

definition app_unavailable :: "MihomoAppStatus \<times> error" where
  "app_unavailable = (empty_MihomoAppStatus, Some (ErrorNew ''mihomo app subscription is unavailable''))"

definition on_executor ::
  "('e \<times> 'w \<Rightarrow> (MihomoAppStatus \<times> error) \<times> 'e \<times> 'w) \<Rightarrow> 'e Manager \<times> 'w \<Rightarrow>
   (MihomoAppStatus \<times> error) \<times> 'e Manager \<times> 'w" where
  "on_executor op = (\<lambda>(manager, w).
     let (result, e, w) = op (mg_executor manager, w) in (result, manager\<lparr>mg_executor := e\<rparr>, w))"

definition Manager_MihomoAppStatus :: "('e, 'w) manager_env \<Rightarrow> 'e Manager \<Rightarrow> MihomoAppStatus \<times> error" where
  "Manager_MihomoAppStatus env manager =
     (case me_App env of None \<Rightarrow> app_unavailable
      | Some coordinator \<Rightarrow> mac_MihomoAppStatus coordinator (mg_executor manager))"

definition Manager_ConfigureMihomoApp ::
  "('e, 'w) manager_env \<Rightarrow> string \<Rightarrow> 'e Manager \<times> 'w \<Rightarrow> (MihomoAppStatus \<times> error) \<times> 'e Manager \<times> 'w" where
  "Manager_ConfigureMihomoApp env input s =
     (case me_App env of None \<Rightarrow> (app_unavailable, s)
      | Some coordinator \<Rightarrow> on_executor (mac_ConfigureMihomoApp coordinator input) s)"

definition Manager_SelectMihomoApp ::
  "('e, 'w) manager_env \<Rightarrow> string \<Rightarrow> 'e Manager \<times> 'w \<Rightarrow> (MihomoAppStatus \<times> error) \<times> 'e Manager \<times> 'w" where
  "Manager_SelectMihomoApp env selectedProxy s =
     (case me_App env of None \<Rightarrow> (app_unavailable, s)
      | Some coordinator \<Rightarrow> on_executor (mac_SelectMihomoApp coordinator selectedProxy) s)"

definition Manager_RefreshMihomoApp ::
  "('e, 'w) manager_env \<Rightarrow> 'e Manager \<times> 'w \<Rightarrow> (MihomoAppStatus \<times> error) \<times> 'e Manager \<times> 'w" where
  "Manager_RefreshMihomoApp env s =
     (case me_App env of None \<Rightarrow> (app_unavailable, s)
      | Some coordinator \<Rightarrow> on_executor (mac_RefreshMihomoApp coordinator) s)"

definition Manager_ClearMihomoApp ::
  "('e, 'w) manager_env \<Rightarrow> 'e Manager \<times> 'w \<Rightarrow> (MihomoAppStatus \<times> error) \<times> 'e Manager \<times> 'w" where
  "Manager_ClearMihomoApp env s =
     (case me_App env of None \<Rightarrow> (app_unavailable, s)
      | Some coordinator \<Rightarrow> on_executor (mac_ClearMihomoApp coordinator) s)"

end
