(* ===== verification/Runtime_Client.thy ===== *)
theory Runtime_Client
  imports Manager
begin

text \<open>
  The clients of the network control plane: \<open>ControlClient\<close> of \<open>client.go\<close>, \<open>vpn_client.go\<close>,
  \<open>eap_client.go\<close> and \<open>presence.go\<close>, and \<open>TelemetryClient\<close>. The HTTP transport, the JSON and MIME
  libraries, the clock and the random identifiers are interfaces; the requests that are built, the
  checks of every response and the state of the telemetry are the code's.
\<close>

subsection \<open>The transport\<close>

record http_request =
  hq_Method :: string
  hq_URL :: string
  hq_Header :: "(string \<times> string) list"
  hq_Body :: string

text \<open>\<open>hr_BodyErr\<close> is the error after the bytes of the body, None for a body that ends.\<close>

record http_response =
  hr_StatusCode :: int
  hr_Header :: "string \<Rightarrow> string"
  hr_Body :: string
  hr_BodyErr :: error

text \<open>\<open>io.ReadAll(io.LimitReader(body, n))\<close>: beyond the limit the reader reports the end.\<close>

definition read_limited :: "nat \<Rightarrow> http_response \<Rightarrow> string \<times> error" where
  "read_limited n response =
     (if length (hr_Body response) < n then (hr_Body response, hr_BodyErr response)
      else (take n (hr_Body response), None))"

type_synonym 'w transport = "http_request \<Rightarrow> 'w \<Rightarrow> http_response fallible \<times> 'w"

text \<open>\<open>http.NewRequestWithContext\<close> fails where the URL does not parse.\<close>

definition http_NewRequest :: "string \<Rightarrow> string \<Rightarrow> (string \<times> string) list \<Rightarrow> string \<Rightarrow> http_request fallible" where
  "http_NewRequest meth address headers body =
     (if url_Parse address = None then Inl (ErrorNew (''parse '' @ address))
      else Inr \<lparr>hq_Method = meth, hq_URL = address, hq_Header = headers, hq_Body = body\<rparr>)"

subsection \<open>URLs\<close>

text \<open>\<open>url.PathEscape\<close>.\<close>

definition segment_escaped :: "char \<Rightarrow> bool" where
  "segment_escaped c \<longleftrightarrow> \<not> is_alnum c \<and> c \<notin> set ''-_.~$&+:=@''"

definition url_PathEscape :: "string \<Rightarrow> string" where
  "url_PathEscape s =
     concat (map (\<lambda>c. if segment_escaped c
                      then [CHR ''%'', upper_hex (of_char c div 16), upper_hex (of_char c mod 16)]
                      else [c]) s)"

text \<open>
  \<open>URL.String\<close> for a URL with a host, without user information and fragment, whose raw path is
  empty: a path that starts with a slash and unescapes to one slash is that slash.
\<close>

definition url_String :: "url \<Rightarrow> string" where
  "url_String u =
     url_Scheme u @ ''://'' @ escape EncodeHost (url_Host u) @
     escape EncodePath (url_Path u) @
     (if url_ForceQuery u \<or> url_RawQuery u \<noteq> [] then ''?'' @ url_RawQuery u else [])"

text \<open>\<open>strings.TrimRight(s, "/")\<close>.\<close>

definition trim_slashes :: "string \<Rightarrow> string" where
  "trim_slashes s = rev (dropWhile (\<lambda>c. c = CHR ''/'') (rev s))"

definition runtimeOrigin :: "string \<Rightarrow> string fallible" where
  "runtimeOrigin raw =
     (case url_Parse (trim_space raw) of
        None \<Rightarrow> Inl (ErrorNew ''runtime endpoint must be an HTTPS origin'')
      | Some parsed \<Rightarrow>
          if url_Scheme parsed \<noteq> ''https'' \<or> url_Host parsed = [] \<or> url_User parsed \<noteq> None \<or>
             url_RawQuery parsed \<noteq> [] \<or> url_Fragment parsed \<noteq> [] \<or>
             url_Path parsed \<noteq> [] \<and> url_Path parsed \<noteq> ''/''
          then Inl (ErrorNew ''runtime endpoint must be an HTTPS origin'')
          else Inr (trim_slashes (url_String parsed)))"

subsection \<open>The wire\<close>

text \<open>The remaining DTOs: certificates of \<open>eap_protocol.go\<close>, presence, ingestion.\<close>

record EAPCertificateRequest =
  ecq_RequestID :: string
  ecq_CSRPEM :: string

record EAPCertificateResult =
  ecr_CredentialID :: string
  ecr_CertificatePEM :: string
  ecr_CACertificatePEM :: string
  ecr_Fingerprint :: string
  ecr_ExpiresAt :: time
  ecr_Status :: string

record EAPCertificateActivateRequest =
  eaq_CredentialID :: string
  eaq_Fingerprint :: string

record EAPCertificateActivateResult =
  ear_CredentialID :: string
  ear_Fingerprint :: string
  ear_ExpiresAt :: time
  ear_Status :: string

record EndpointPresenceRequest =
  epq_AdmissionPolicyVersion :: int
  epq_DeviceID :: string
  epq_BootID :: string
  epq_Sequence :: int
  epq_Status :: string
  epq_ConfigurationVersion :: int
  epq_PolicyVersion :: int
  epq_UIState :: string
  epq_UIObservedAt :: "time option"

record EndpointPresenceResult =
  epr_AdmissionPolicyVersion :: int
  epr_Accepted :: bool
  epr_PresenceEpoch :: int
  epr_ReceivedAt :: time
  epr_NextHeartbeatSeconds :: int

record IngestEvent =
  ige_ID :: string
  ige_Type :: string
  ige_Sequence :: int
  ige_OccurredAt :: time
  ige_Payload :: string

record IngestBatch =
  igb_SchemaVersion :: string
  igb_BatchID :: string
  igb_ProducerID :: string
  igb_ProducerKind :: string
  igb_SentAt :: time
  igb_Events :: "IngestEvent list"

definition IngestSchemaVersion :: string where "IngestSchemaVersion = ''network-ingest/v1alpha1''"
definition MessageEnrollmentRequest :: string where "MessageEnrollmentRequest = ''runtime.enroll.request''"
definition MessageEnrollmentResult :: string where "MessageEnrollmentResult = ''runtime.enroll.result''"
definition MessageConfigurationApply :: string where "MessageConfigurationApply = ''configuration.applied''"
definition MessageLeaseRenewRequest :: string where "MessageLeaseRenewRequest = ''lease.renew.request''"
definition MessageLeaseRenewResult :: string where "MessageLeaseRenewResult = ''lease.renew.result''"
definition MessageLeaseRevoke :: string where "MessageLeaseRevoke = ''lease.revoke''"
definition MessageVPNConnectRequest :: string where "MessageVPNConnectRequest = ''vpn.connect.request''"
definition MessageVPNConnectResult :: string where "MessageVPNConnectResult = ''vpn.connect.result''"
definition MessageEAPCertificateRequest :: string where "MessageEAPCertificateRequest = ''eap.certificate.request''"
definition MessageEAPCertificateResult :: string where "MessageEAPCertificateResult = ''eap.certificate.result''"
definition MessageEAPCertificateActivateRequest :: string where
  "MessageEAPCertificateActivateRequest = ''eap.certificate.activate.request''"
definition MessageEAPCertificateActivateResult :: string where
  "MessageEAPCertificateActivateResult = ''eap.certificate.activate.result''"
definition MessageEndpointPresenceRequest :: string where
  "MessageEndpointPresenceRequest = ''endpoint.presence.request''"
definition MessageEndpointPresenceResult :: string where
  "MessageEndpointPresenceResult = ''endpoint.presence.result''"

text \<open>The payloads of \<open>json.Marshal\<close> and the results of \<open>decodeStrict\<close>, one constructor per type.\<close>

datatype payload =
    PEnroll EnrollmentRequest
  | PConnect VPNConnectRequest
  | PApplied ConfigurationApplied
  | PRenew LeaseRenewRequest
  | PRevoke LeaseRevoke
  | PManaged VPNManagedConnectRequest
  | PCertificate EAPCertificateRequest
  | PActivate EAPCertificateActivateRequest
  | PPresence EndpointPresenceRequest

record wire_codec =
  wc_marshal :: "payload \<Rightarrow> string fallible"
  wc_marshal_message :: "RuntimeMessage \<Rightarrow> string fallible"
  wc_message :: "string \<Rightarrow> RuntimeMessage fallible"
  wc_enrollment :: "string \<Rightarrow> EnrollmentResult fallible"
  wc_connect :: "string \<Rightarrow> VPNConnectResult fallible"
  wc_source :: "string \<Rightarrow> MihomoSource fallible"
  wc_renew :: "string \<Rightarrow> LeaseRenewResult fallible"
  wc_prepare :: "string \<Rightarrow> VPNManagedPrepareResult fallible"
  wc_managed :: "string \<Rightarrow> VPNManagedConnectResult fallible"
  wc_certificate :: "string \<Rightarrow> EAPCertificateResult fallible"
  wc_activation :: "string \<Rightarrow> EAPCertificateActivateResult fallible"
  wc_presence :: "string \<Rightarrow> EndpointPresenceResult fallible"
  wc_error_code :: "string \<Rightarrow> string"
  wc_media_type :: "string \<Rightarrow> string option"

text \<open>\<open>RuntimeHTTPError\<close> beside every other error.\<close>

datatype client_error = HTTPError int string | OtherError go_error

definition RuntimeHTTPError_Error :: "client_error \<Rightarrow> go_error" where
  "RuntimeHTTPError_Error e =
     (case e of HTTPError status code \<Rightarrow> ErrorNew (''network runtime returned HTTP '' @ string_of_int status)
      | OtherError err \<Rightarrow> err)"

subsection \<open>Responses\<close>

definition maxRuntimeResponseBytes :: nat where "maxRuntimeResponseBytes = 2 ^ 20"

text \<open>An empty result stands for \<open>nil\<close>, which a call that expects 204 returns.\<close>

definition readRuntimeResponse :: "wire_codec \<Rightarrow> http_response \<Rightarrow> int \<Rightarrow> client_error + string" where
  "readRuntimeResponse codec response expectedStatus =
     (if hr_StatusCode response \<noteq> expectedStatus then
        (let (raw, _) = read_limited 4096 response;
             code = wc_error_code codec raw;
             code = (if length code > 128 then [] else code)
         in Inl (HTTPError (hr_StatusCode response) code))
      else if expectedStatus = 204 then Inr []
      else if wc_media_type codec (hr_Header response ''Content-Type'') \<noteq> Some ''application/json''
      then Inl (OtherError (ErrorNew ''network runtime returned a non-JSON response''))
      else
        let (raw, err) = read_limited (maxRuntimeResponseBytes + 1) response
        in if err \<noteq> None \<or> length raw > maxRuntimeResponseBytes
           then Inl (OtherError (ErrorNew ''network runtime response exceeded the safe limit''))
           else Inr raw)"

definition validReadbackHash :: "string \<Rightarrow> bool" where
  "validReadbackHash value =
     (if length value \<noteq> length ''sha256:'' + 64 \<or> \<not> has_prefix value ''sha256:'' then False
      else list_all (\<lambda>c. \<not> ((c < CHR ''0'' \<or> c > CHR ''9'') \<and> (c < CHR ''a'' \<or> c > CHR ''f'')))
             (drop (length ''sha256:'') value))"

definition diagnosticList :: "string \<Rightarrow> string list" where
  "diagnosticList value = (if value = [] then [] else [value])"

definition endpointPlatform :: "string \<Rightarrow> string" where
  "endpointPlatform goos = (if goos = ''darwin'' then ''macos'' else goos)"

subsection \<open>The control client\<close>

record 'w control_env =
  cte_Do :: "'w transport"
  cte_codec :: wire_codec
  cte_randomID :: "'w \<Rightarrow> string \<times> 'w"
  cte_now :: "'w \<Rightarrow> time \<times> 'w"
  cte_GOOS :: string

record ControlClient =
  cc_origin :: string
  cc_runtimeID :: string
  cc_maxClockSkew :: duration
  cc_capabilities :: "string list"

record EnrollmentInput =
  eni_EnrollmentID :: string
  eni_ChallengeID :: string
  eni_DeviceID :: string
  eni_DevicePublicKey :: string
  eni_WireGuardPublicKey :: string
  eni_ClientVersion :: string
  eni_Token :: string

definition endpoint_capability :: "string \<Rightarrow> bool" where
  "endpoint_capability capability \<longleftrightarrow>
     capability \<in> set [''windows-channel-controls-v1'', ''mihomo'', ''mihomo-policy-v1'', ''mihomo-dns-pin-v1'',
       ''eap-profile-v1'', ''radius-eap-tls-v1'', ''endpoint-ui-presence-v1'']"

definition validEndpointCapabilities :: "string list \<Rightarrow> bool" where
  "validEndpointCapabilities capabilities =
     (if length capabilities > 9 then False
      else if \<not> all_fresh endpoint_capability id [] capabilities then False
      else (''eap-profile-v1'' \<in> set capabilities) = (''radius-eap-tls-v1'' \<in> set capabilities))"

text \<open>The HTTP client is present; redirects are refused by the transport it is given.\<close>

definition NewControlClient :: "string \<Rightarrow> string \<Rightarrow> duration \<Rightarrow> string list \<Rightarrow> ControlClient fallible" where
  "NewControlClient origin runtimeID maxClockSkew additionalCapabilities =
     (case runtimeOrigin origin of
        Inl _ \<Rightarrow> Inl (ErrorNew ''endpoint control client configuration is invalid'')
      | Inr parsed \<Rightarrow>
          if \<not> identifierPattern runtimeID \<or> maxClockSkew \<le> 0 \<or> maxClockSkew > 5 * minute \<or>
             \<not> validEndpointCapabilities additionalCapabilities
          then Inl (ErrorNew ''endpoint control client configuration is invalid'')
          else Inr \<lparr>cc_origin = parsed, cc_runtimeID = runtimeID, cc_maxClockSkew = maxClockSkew,
                    cc_capabilities = [''wireguard'', ''wireguard-ipv6-v1'', ''network-lifecycle-v1'',
                      ''route-coordinator'', ''dns-coordinator'', ''managed-vpn-v1'', ''vpn-probe-v1'',
                      ''endpoint-presence-v1''] @ additionalCapabilities\<rparr>)"

definition runtimeURL :: "ControlClient \<Rightarrow> string \<Rightarrow> string" where
  "runtimeURL client action =
     cc_origin client @ ''/api/network-control/v1/runtimes/'' @ url_PathEscape (cc_runtimeID client) @
     ''/'' @ action"

definition post ::
  "'w control_env \<Rightarrow> string \<Rightarrow> string \<Rightarrow> string \<Rightarrow> int \<Rightarrow> 'w \<Rightarrow> (client_error + string) \<times> 'w" where
  "post env endpoint raw authorization expectedStatus w =
     (case http_NewRequest ''POST'' endpoint
             ([(''Content-Type'', ''application/json''), (''Accept'', ''application/json'')] @
              (if authorization \<noteq> [] then [(''Authorization'', authorization)] else [])) raw of
        Inl err \<Rightarrow> (Inl (OtherError err), w)
      | Inr request \<Rightarrow>
          let (response, w) = cte_Do env request w
          in case response of
               Inl err \<Rightarrow> (Inl (OtherError err), w)
             | Inr response \<Rightarrow> (readRuntimeResponse (cte_codec env) response expectedStatus, w))"

text \<open>None for the empty message that a call without content returns.\<close>

definition postMessage ::
  "'w control_env \<Rightarrow> string \<Rightarrow> string \<Rightarrow> string \<Rightarrow> int \<Rightarrow> 'w \<Rightarrow> (client_error + RuntimeMessage option) \<times> 'w" where
  "postMessage env endpoint raw authorization expectedStatus w =
     (let (responseRaw, w) = post env endpoint raw authorization expectedStatus w
      in case responseRaw of
           Inl err \<Rightarrow> (Inl err, w)
         | Inr responseRaw \<Rightarrow>
             if expectedStatus = 204 then (Inr None, w)
             else (case wc_message (cte_codec env) responseRaw of
                     Inl _ \<Rightarrow> (Inl (OtherError (ErrorNew ''network control returned malformed JSON'')), w)
                   | Inr message \<Rightarrow> (Inr (Some message), w)))"

definition runtimeMessage ::
  "'w control_env \<Rightarrow> ControlClient \<Rightarrow> string \<Rightarrow> payload \<Rightarrow> 'w \<Rightarrow> string fallible \<times> 'w" where
  "runtimeMessage env client messageType payload w =
     (case wc_marshal (cte_codec env) payload of
        Inl err \<Rightarrow> (Inl err, w)
      | Inr payloadRaw \<Rightarrow>
          let (now, w) = cte_now env w;
              (messageID, w) = cte_randomID env w
          in (wc_marshal_message (cte_codec env)
                \<lparr>rm_SchemaVersion = RuntimeSchemaVersion, rm_MessageID = messageID,
                 rm_MessageType = messageType, rm_ProducerID = cc_runtimeID client,
                 rm_RuntimeID = cc_runtimeID client, rm_RuntimeKind = ''endpoint'', rm_OccurredAt = now,
                 rm_ExpiresAt = now + min (cc_maxClockSkew client) (2 * minute), rm_Payload = payloadRaw\<rparr>, w))"

text \<open>The trust boundary: who sent the message, to whom, of what kind, and when.\<close>

definition message_trusted :: "ControlClient \<Rightarrow> time \<Rightarrow> RuntimeMessage \<Rightarrow> string \<Rightarrow> bool" where
  "message_trusted client now message messageType \<longleftrightarrow>
     \<not> (rm_SchemaVersion message \<noteq> RuntimeSchemaVersion \<or> rm_MessageType message \<noteq> messageType \<or>
        rm_ProducerID message \<noteq> ''network-control'' \<or> rm_RuntimeID message \<noteq> cc_runtimeID client \<or>
        rm_RuntimeKind message \<noteq> ''endpoint'' \<or> \<not> identifierPattern (rm_MessageID message) \<or>
        rm_OccurredAt message > now + cc_maxClockSkew client \<or>
        rm_OccurredAt message < now - cc_maxClockSkew client \<or>
        \<not> rm_ExpiresAt message > now \<or> \<not> rm_ExpiresAt message > rm_OccurredAt message)"

definition validateResponse ::
  "'w control_env \<Rightarrow> ControlClient \<Rightarrow> RuntimeMessage \<Rightarrow> string \<Rightarrow> 'w \<Rightarrow> error \<times> 'w" where
  "validateResponse env client message messageType w =
     (let (now, w) = cte_now env w
      in (if message_trusted client now message messageType then None
          else Some (ErrorNew ''network control returned a message outside the endpoint trust boundary''), w))"

definition decodeResponse ::
  "'w control_env \<Rightarrow> ControlClient \<Rightarrow> (string \<Rightarrow> 'a fallible) \<Rightarrow> RuntimeMessage option \<Rightarrow> string \<Rightarrow> 'w \<Rightarrow>
   'a fallible \<times> 'w" where
  "decodeResponse env client decode message messageType w =
     (case message of
        None \<Rightarrow> (Inl (ErrorNew ''network control returned a message outside the endpoint trust boundary''), w)
      | Some message \<Rightarrow>
          let (err, w) = validateResponse env client message messageType w
          in case err of
               Some e \<Rightarrow> (Inl e, w)
             | None \<Rightarrow>
                 (case decode (rm_Payload message) of
                    Inl _ \<Rightarrow> (Inl (ErrorNew ''network control returned an invalid endpoint payload''), w)
                  | Inr result \<Rightarrow> (Inr result, w)))"

text \<open>The steps that every call with a message as its answer has in common.\<close>

definition exchange ::
  "'w control_env \<Rightarrow> ControlClient \<Rightarrow> string \<Rightarrow> payload \<Rightarrow> string \<Rightarrow> string \<Rightarrow> int \<Rightarrow> 'w \<Rightarrow>
   (client_error + RuntimeMessage option) \<times> 'w" where
  "exchange env client messageType payload action authorization expectedStatus w =
     (let (raw, w) = runtimeMessage env client messageType payload w
      in case raw of
           Inl err \<Rightarrow> (Inl (OtherError err), w)
         | Inr raw \<Rightarrow> postMessage env (runtimeURL client action) raw authorization expectedStatus w)"

definition Client_Enroll ::
  "'w control_env \<Rightarrow> ControlClient \<Rightarrow> EnrollmentInput \<Rightarrow> 'w \<Rightarrow> EnrollmentResult fallible \<times> 'w" where
  "Client_Enroll env client input w =
     (if \<not> identifierPattern (eni_EnrollmentID input) \<or> \<not> identifierPattern (eni_ChallengeID input) \<or>
         \<not> identifierPattern (eni_DeviceID input) \<or> length (eni_DevicePublicKey input) < 32 \<or>
         length (eni_DevicePublicKey input) > 4096 \<or>
         trim_space (eni_DevicePublicKey input) \<noteq> eni_DevicePublicKey input \<or>
         length (eni_ClientVersion input) = 0 \<or> length (eni_ClientVersion input) > 64 \<or>
         length (eni_Token input) < 32 \<or> length (eni_Token input) > 4096 \<or>
         trim_space (eni_Token input) \<noteq> eni_Token input
      then (Inl (ErrorNew ''endpoint enrollment parameters are invalid''), w)
      else
        let payload = \<lparr>enr_EnrollmentID = eni_EnrollmentID input, enr_ChallengeID = eni_ChallengeID input,
                       enr_DeviceID = eni_DeviceID input, enr_DevicePublicKey = eni_DevicePublicKey input,
                       enr_WireGuardPublicKey = eni_WireGuardPublicKey input,
                       enr_Platform = endpointPlatform (cte_GOOS env),
                       enr_ClientVersion = eni_ClientVersion input,
                       enr_Capabilities = cc_capabilities client\<rparr>;
            (raw, w) = runtimeMessage env client MessageEnrollmentRequest (PEnroll payload) w
        in case raw of
             Inl err \<Rightarrow> (Inl err, w)
           | Inr raw \<Rightarrow>
               let (message, w) = postMessage env (runtimeURL client ''enroll'') raw
                                    (''Bearer '' @ eni_Token input) 201 w
               in case message of
                    Inl err \<Rightarrow> (Inl (ErrWrap ''enroll endpoint runtime: '' (RuntimeHTTPError_Error err)), w)
                  | Inr message \<Rightarrow>
                      let (result, w) = decodeResponse env client (wc_enrollment (cte_codec env)) message
                                          MessageEnrollmentResult w
                      in case result of
                           Inl err \<Rightarrow> (Inl err, w)
                         | Inr result \<Rightarrow>
                             if \<not> enp_Accepted result \<or> \<not> has_prefix (enp_CredentialReference result) ''secretref:''
                             then (Inl (ErrorNew (''endpoint enrollment was not accepted: '' @
                                     fallback (enp_ReasonCode result) ''authorization_denied'')), w)
                             else (Inr result, w))"

definition Client_Connect ::
  "'w control_env \<Rightarrow> ControlClient \<Rightarrow> VPNConnectRequest \<Rightarrow> 'w \<Rightarrow> VPNConnectResult fallible \<times> 'w" where
  "Client_Connect env client payload w =
     (if \<not> identifierPattern (vcq_RequestID payload) \<or> \<not> identifierPattern (vcq_SiteID payload) \<or>
         \<not> identifierPattern (vcq_NetworkSpaceID payload) \<or>
         vcq_GatewayID payload \<noteq> [] \<and> \<not> identifierPattern (vcq_GatewayID payload) \<or>
         \<not> validConnectScope (vcq_Mode payload) (vcq_ResourceIDs payload) (vcq_AccessGrantID payload)
             (vcq_AccessGrantToken payload)
      then (Inl (ErrorNew ''endpoint VPN request is invalid''), w)
      else
        let (raw, w) = runtimeMessage env client MessageVPNConnectRequest (PConnect payload) w
        in case raw of
             Inl err \<Rightarrow> (Inl err, w)
           | Inr raw \<Rightarrow>
               let (message, w) = postMessage env (runtimeURL client ''vpn:connect'') raw [] 200 w
               in case message of
                    Inl err \<Rightarrow> (Inl (ErrWrap ''connect endpoint VPN: '' (RuntimeHTTPError_Error err)), w)
                  | Inr message \<Rightarrow>
                      let (result, w) = decodeResponse env client (wc_connect (cte_codec env)) message
                                          MessageVPNConnectResult w
                      in case result of
                           Inl _ \<Rightarrow> (Inl (ErrorNew ''network control returned an invalid VPN result''), w)
                         | Inr result \<Rightarrow>
                             if vcr_RequestID result \<noteq> vcq_RequestID payload
                             then (Inl (ErrorNew ''network control returned an invalid VPN result''), w)
                             else (Inr result, w))"

text \<open>A GET of JSON; an error of the transport is wrapped in the text that names the call.\<close>

definition get_json ::
  "'w control_env \<Rightarrow> string \<Rightarrow> string \<Rightarrow> 'w \<Rightarrow> http_response fallible \<times> 'w" where
  "get_json env failed endpoint w =
     (case http_NewRequest ''GET'' endpoint [(''Accept'', ''application/json'')] [] of
        Inl err \<Rightarrow> (Inl err, w)
      | Inr request \<Rightarrow>
          let (response, w) = cte_Do env request w
          in (case response of Inl err \<Rightarrow> Inl (ErrWrap failed err) | Inr response \<Rightarrow> Inr response, w))"

definition Client_Configuration ::
  "'w control_env \<Rightarrow> ControlClient \<Rightarrow> 'w \<Rightarrow> RuntimeMessage fallible \<times> 'w" where
  "Client_Configuration env client w =
     (let (response, w) = get_json env ''get endpoint configuration: '' (runtimeURL client ''configuration'') w
      in case response of
           Inl err \<Rightarrow> (Inl err, w)
         | Inr response \<Rightarrow>
             (case readRuntimeResponse (cte_codec env) response 200 of
                Inl err \<Rightarrow> (Inl (RuntimeHTTPError_Error err), w)
              | Inr raw \<Rightarrow>
                  (case wc_message (cte_codec env) raw of
                     Inl _ \<Rightarrow> (Inl (ErrorNew ''network control returned an invalid endpoint configuration''), w)
                   | Inr message \<Rightarrow>
                       let (err, w) = validateResponse env client message MessageConfiguration w
                       in if err \<noteq> None
                          then (Inl (ErrorNew ''network control returned an invalid endpoint configuration''), w)
                          else (Inr message, w))))"

text \<open>\<open>strings.Contains(s, t)\<close>.\<close>

fun contains_text :: "string \<Rightarrow> string \<Rightarrow> bool" where
  "contains_text [] t = (t = [])"
| "contains_text (c # s) t = (has_prefix (c # s) t \<or> contains_text s t)"

definition Client_MihomoSource ::
  "'w control_env \<Rightarrow> ControlClient \<Rightarrow> string \<Rightarrow> 'w \<Rightarrow> MihomoSource fallible \<times> 'w" where
  "Client_MihomoSource env client profileID w =
     (if \<not> identifierPattern profileID then (Inl (ErrorNew ''mihomo profile ID is invalid''), w)
      else
        let endpoint = cc_origin client @ ''/api/network-control/v1/runtimes/'' @
              url_PathEscape (cc_runtimeID client) @ ''/mihomo-profiles/'' @ url_PathEscape profileID @ ''/source'';
            (response, w) = get_json env ''get mihomo source: '' endpoint w
        in case response of
             Inl err \<Rightarrow> (Inl err, w)
           | Inr response \<Rightarrow>
               if \<not> contains_text (to_lower (hr_Header response ''Cache-Control'')) ''no-store''
               then (Inl (ErrorNew ''network control returned a cacheable mihomo source''), w)
               else
                 (case readRuntimeResponse (cte_codec env) response 200 of
                    Inl err \<Rightarrow> (Inl (RuntimeHTTPError_Error err), w)
                  | Inr raw \<Rightarrow>
                      (case wc_source (cte_codec env) raw of
                         Inl _ \<Rightarrow> (Inl (ErrorNew ''network control returned an invalid mihomo source''), w)
                       | Inr result \<Rightarrow>
                           if ms_ProfileID result \<noteq> profileID \<or> ms_ProfileRevision result < 1 \<or>
                              \<not> validMihomoSource result
                           then (Inl (ErrorNew ''network control returned an invalid mihomo source''), w)
                           else (Inr result, w))))"

record MihomoSubscription =
  msb_ProfileID :: string
  msb_ProfileRevision :: int
  msb_SubscriptionURL :: string

definition Client_MihomoSubscription ::
  "'w control_env \<Rightarrow> ControlClient \<Rightarrow> string \<Rightarrow> 'w \<Rightarrow> MihomoSubscription fallible \<times> 'w" where
  "Client_MihomoSubscription env client profileID w =
     (let (source, w) = Client_MihomoSource env client profileID w
      in case source of
           Inl err \<Rightarrow>
             (Inl (ErrJoin [ErrorNew ''network control returned an invalid mihomo subscription'', err]), w)
         | Inr source \<Rightarrow>
             if ms_SourceType source \<noteq> ''managed_subscription''
             then (Inl (ErrJoin [ErrorNew ''network control returned an invalid mihomo subscription'']), w)
             else (Inr \<lparr>msb_ProfileID = ms_ProfileID source, msb_ProfileRevision = ms_ProfileRevision source,
                        msb_SubscriptionURL = ms_SubscriptionURL source\<rparr>, w))"

definition Client_Report ::
  "'w control_env \<Rightarrow> ControlClient \<Rightarrow> ConfigurationApplied \<Rightarrow> 'w \<Rightarrow> error \<times> 'w" where
  "Client_Report env client payload w =
     (if ca_ConfigurationVersion payload < 1 \<or> ca_PolicyVersion payload < 1 \<or>
         ca_Status payload \<notin> set [''applied'', ''rejected'', ''rolled-back''] \<or>
         \<not> validReadbackHash (ca_ReadbackHash payload)
      then (Some (ErrorNew ''endpoint configuration report is invalid''), w)
      else
        let (message, w) = exchange env client MessageConfigurationApply (PApplied payload)
                             ''configuration:applied'' [] 204 w
        in (case message of Inl err \<Rightarrow> Some (RuntimeHTTPError_Error err) | Inr _ \<Rightarrow> None, w))"

definition Client_Renew ::
  "'w control_env \<Rightarrow> ControlClient \<Rightarrow> LeaseRenewRequest \<Rightarrow> 'w \<Rightarrow> LeaseRenewResult fallible \<times> 'w" where
  "Client_Renew env client payload w =
     (if \<not> identifierPattern (lrr_SessionID payload) \<or> lrr_ObservedConfigurationVersion payload < 1 \<or>
         length (lrr_LeaseIDs payload) = 0 \<or> length (lrr_LeaseIDs payload) > 512 \<or>
         \<not> allIdentifiers (lrr_LeaseIDs payload)
      then (Inl (ErrorNew ''endpoint lease renewal is invalid''), w)
      else
        let (raw, w) = runtimeMessage env client MessageLeaseRenewRequest (PRenew payload) w
        in case raw of
             Inl err \<Rightarrow> (Inl err, w)
           | Inr raw \<Rightarrow>
               let (message, w) = postMessage env (runtimeURL client ''leases:renew'') raw [] 200 w
               in case message of
                    Inl err \<Rightarrow> (Inl (ErrWrap ''renew endpoint lease: '' (RuntimeHTTPError_Error err)), w)
                  | Inr message \<Rightarrow>
                      decodeResponse env client (wc_renew (cte_codec env)) message MessageLeaseRenewResult w)"

definition Client_Revoke ::
  "'w control_env \<Rightarrow> ControlClient \<Rightarrow> LeaseRevoke \<Rightarrow> 'w \<Rightarrow> error \<times> 'w" where
  "Client_Revoke env client payload w =
     (if \<not> identifierPattern (lrv_SessionID payload) \<or> length (lrv_LeaseIDs payload) = 0 \<or>
         length (lrv_LeaseIDs payload) > 512 \<or> \<not> allIdentifiers (lrv_LeaseIDs payload) \<or>
         \<not> identifierPattern (lrv_ReasonCode payload) \<or> time_IsZero (lrv_EffectiveAt payload)
      then (Some (ErrorNew ''endpoint lease revoke is invalid''), w)
      else
        let (raw, w) = runtimeMessage env client MessageLeaseRevoke (PRevoke payload) w
        in case raw of
             Inl err \<Rightarrow> (Some err, w)
           | Inr raw \<Rightarrow>
               let (response, w) = post env (runtimeURL client ''leases:revoke'') raw [] 200 w
               in (case response of Inl err \<Rightarrow> Some (RuntimeHTTPError_Error err) | Inr _ \<Rightarrow> None, w))"

subsection \<open>Managed connections\<close>

definition prepare_bounds :: "VPNManagedPrepareResult \<Rightarrow> time \<Rightarrow> bool" where
  "prepare_bounds p now \<longleftrightarrow>
     \<not> (\<not> identifierPattern (mpr_ProfileID p) \<or> mpr_ProfileRevision p < 1 \<or> mpr_SelectionPolicyRevision p < 1 \<or>
        \<not> mpr_ExpiresAt p > now \<or> mpr_ExpiresAt p > now + 2 * minute \<or> mpr_SamplesPerGateway p < 1 \<or>
        mpr_SamplesPerGateway p > 10 \<or> mpr_MaxConcurrency p < 1 \<or> mpr_MaxConcurrency p > 4 \<or>
        mpr_TimeoutMillis p < 100 \<or> mpr_TimeoutMillis p > 2000 \<or> length (mpr_Descriptors p) > 32)"

definition descriptor_ok :: "time \<Rightarrow> time \<Rightarrow> VPNProbeDescriptor \<Rightarrow> bool" where
  "descriptor_ok now until d \<longleftrightarrow>
     identifierPattern (pd_GatewayID d) \<and> identifierPattern (pd_RuntimeID d) \<and>
     (if pd_URL d = [] then \<not> (pd_Token d \<noteq> [] \<or> pd_ExpiresAt d \<noteq> None)
      else case url_Parse (pd_URL d) of
        None \<Rightarrow> False
      | Some u \<Rightarrow>
          \<not> (url_Scheme u \<noteq> ''https'' \<or> url_Hostname u = [] \<or> url_Path u \<noteq> ''/vpn/probe'' \<or> url_RawPath u \<noteq> [] \<or>
             url_RawQuery u \<noteq> [] \<or> url_Fragment u \<noteq> [] \<or> url_User u \<noteq> None \<or> pd_Token d = [] \<or>
             length (pd_Token d) > 4096 \<or>
             (case pd_ExpiresAt d of None \<Rightarrow> True | Some at \<Rightarrow> \<not> at > now \<or> at > until)))"

definition validVPNPrepare :: "VPNManagedPrepareResult \<Rightarrow> time \<Rightarrow> bool" where
  "validVPNPrepare p now =
     (if \<not> prepare_bounds p now then False
      else all_fresh (descriptor_ok now (mpr_ExpiresAt p)) pd_GatewayID [] (mpr_Descriptors p))"

definition Client_PrepareManagedVPN ::
  "'w control_env \<Rightarrow> ControlClient \<Rightarrow> VPNManagedConnectRequest \<Rightarrow> 'w \<Rightarrow> VPNManagedPrepareResult fallible \<times> 'w" where
  "Client_PrepareManagedVPN env client request w =
     (if \<not> validManagedRequest request \<or> mcr_ProbeBatchID request \<noteq> []
      then (Inl (ErrorNew ''invalid managed VPN request''), w)
      else
        let (message, w) = exchange env client ''vpn.managed.prepare.request'' (PManaged request)
                             ''vpn:prepare-managed'' [] 200 w
        in case message of
             Inl err \<Rightarrow> (Inl (RuntimeHTTPError_Error err), w)
           | Inr message \<Rightarrow>
               let (result, w) = decodeResponse env client (wc_prepare (cte_codec env)) message
                                   ''vpn.managed.prepare.result'' w
               in case result of
                    Inl _ \<Rightarrow> (Inl (ErrorNew ''invalid VPN probe preparation''), w)
                  | Inr result \<Rightarrow>
                      if mpr_RequestID result \<noteq> mcr_RequestID request \<or> mpr_IntentID result \<noteq> mcr_IntentID request
                      then (Inl (ErrorNew ''invalid VPN probe preparation''), w)
                      else
                        let (now, w) = cte_now env w
                        in if \<not> validVPNPrepare result now
                           then (Inl (ErrorNew ''invalid VPN probe preparation''), w)
                           else (Inr result, w))"

definition managed_result_ok :: "VPNManagedConnectRequest \<Rightarrow> VPNManagedConnectResult \<Rightarrow> bool" where
  "managed_result_ok request result \<longleftrightarrow>
     \<not> (vcr_RequestID (mrs_VPNConnectResult result) \<noteq> mcr_RequestID request \<or>
        mrs_DecisionID result \<noteq> mcr_IntentID request \<or> \<not> identifierPattern (mrs_ProfileID result) \<or>
        mrs_ProfileRevision result < 1 \<or> mrs_SelectionPolicyRevision result < 1 \<or>
        mrs_Selection result \<notin> set [''auto'', ''manual''] \<or> mrs_MaxAttempts result < 1 \<or>
        mrs_MaxAttempts result > 5 \<or> mrs_RetryCooldownSeconds result < 5 \<or>
        mrs_RetryCooldownSeconds result > 300)"

definition Client_ConnectManagedVPN ::
  "'w control_env \<Rightarrow> ControlClient \<Rightarrow> VPNManagedConnectRequest \<Rightarrow> 'w \<Rightarrow> VPNManagedConnectResult fallible \<times> 'w" where
  "Client_ConnectManagedVPN env client request w =
     (if \<not> validManagedRequest request then (Inl (ErrorNew ''invalid managed VPN request''), w)
      else
        let (message, w) = exchange env client ''vpn.managed.connect.request'' (PManaged request)
                             ''vpn:connect-managed'' [] 200 w
        in case message of
             Inl err \<Rightarrow> (Inl (RuntimeHTTPError_Error err), w)
           | Inr message \<Rightarrow>
               let (result, w) = decodeResponse env client (wc_managed (cte_codec env)) message
                                   ''vpn.managed.connect.result'' w
               in case result of
                    Inl _ \<Rightarrow> (Inl (ErrorNew ''invalid managed VPN result''), w)
                  | Inr result \<Rightarrow>
                      if \<not> managed_result_ok request result
                      then (Inl (ErrorNew ''invalid managed VPN result''), w)
                      else (Inr result, w))"

text \<open>
  \<open>ProbeVPN\<close>. The workers run at the same time and each writes its own slot of the results; the
  model runs them in the order of the descriptors. \<open>ctxErr\<close> tells whether the context of twenty
  seconds has ended.
\<close>

definition probeVPNOnce :: "'w control_env \<Rightarrow> VPNProbeDescriptor \<Rightarrow> 'w \<Rightarrow> int option \<times> 'w" where
  "probeVPNOnce env d w =
     (case http_NewRequest ''GET'' (pd_URL d) [(''Authorization'', ''Bearer '' @ pd_Token d)] [] of
        Inl _ \<Rightarrow> (None, w)
      | Inr request \<Rightarrow>
          let (started, w) = cte_now env w;
              (response, w) = cte_Do env request w
          in case response of
               Inl _ \<Rightarrow> (None, w)
             | Inr response \<Rightarrow>
                 let readErr = snd (read_limited 1 response);
                     (ended, w) = cte_now env w
                 in (if hr_StatusCode response = 204 \<and> readErr = None then Some (time_Sub ended started) else None, w))"

fun probe_attempts ::
  "'w control_env \<Rightarrow> ('w \<Rightarrow> bool) \<Rightarrow> VPNProbeDescriptor \<Rightarrow> nat \<Rightarrow> VPNProbeResult \<Rightarrow> 'w \<Rightarrow> VPNProbeResult \<times> 'w" where
  "probe_attempts env ctxErr d 0 sample w = (sample, w)"
| "probe_attempts env ctxErr d (Suc n) sample w =
     (if ctxErr w then (sample, w)
      else
        let (now, w) = cte_now env w
        in if \<not> (case pd_ExpiresAt d of None \<Rightarrow> False | Some at \<Rightarrow> at > now) then (sample, w)
           else
             let sample = sample\<lparr>pr_SentCount := pr_SentCount sample + 1\<rparr>;
                 (ms, w) = probeVPNOnce env d w
             in probe_attempts env ctxErr d n
                  (case ms of None \<Rightarrow> sample
                   | Some ms \<Rightarrow> sample\<lparr>pr_RTTSamplesMs := pr_RTTSamplesMs sample @ [ms]\<rparr>) w)"

fun probe_workers ::
  "'w control_env \<Rightarrow> ('w \<Rightarrow> bool) \<Rightarrow> nat \<Rightarrow> VPNProbeDescriptor list \<Rightarrow> 'w \<Rightarrow> VPNProbeResult list \<times> 'w" where
  "probe_workers env ctxErr samples [] w = ([], w)"
| "probe_workers env ctxErr samples (d # ds) w =
     (let (sample, w) =
        (if pd_URL d = [] \<or> ctxErr w then (\<lparr>pr_GatewayID = [], pr_SentCount = 0, pr_RTTSamplesMs = []\<rparr>, w)
         else probe_attempts env ctxErr d samples
                \<lparr>pr_GatewayID = pd_GatewayID d, pr_SentCount = 0, pr_RTTSamplesMs = []\<rparr> w);
          (rest, w) = probe_workers env ctxErr samples ds w
      in (sample # rest, w))"

definition Client_ProbeVPN ::
  "'w control_env \<Rightarrow> ('w \<Rightarrow> bool) \<Rightarrow> VPNManagedPrepareResult \<Rightarrow> 'w \<Rightarrow> VPNProbeBatch fallible \<times> 'w" where
  "Client_ProbeVPN env ctxErr prepared w =
     (let (now, w) = cte_now env w
      in if \<not> validVPNPrepare prepared now then (Inl (ErrorNew ''invalid VPN probe preparation''), w)
         else
           let (batchID, w) = cte_randomID env w;
               (networkEpoch, w) = cte_randomID env w;
               (startedAt, w) = cte_now env w;
               (results, w) = probe_workers env ctxErr (nat (mpr_SamplesPerGateway prepared))
                                (mpr_Descriptors prepared) w;
               (endedAt, w) = cte_now env w
           in (Inr \<lparr>pb_IntentID = mpr_IntentID prepared, pb_ProfileID = mpr_ProfileID prepared,
                    pb_ProfileRevision = mpr_ProfileRevision prepared,
                    pb_SelectionPolicyRevision = mpr_SelectionPolicyRevision prepared, pb_BatchID = batchID,
                    pb_NetworkEpoch = networkEpoch, pb_WindowStartedAt = startedAt,
                    pb_WindowEndedAt = (if endedAt > startedAt then endedAt else startedAt + 1),
                    pb_Results = filter (\<lambda>sample. pr_SentCount sample > 0) results\<rparr>, w))"

subsection \<open>Presence and certificates\<close>

definition uiPresenceTTL :: duration where "uiPresenceTTL = 30 * second"

definition validUIObservation :: "string \<Rightarrow> time option \<Rightarrow> bool \<Rightarrow> time \<Rightarrow> bool" where
  "validUIObservation state observedAt capable now =
     (if state = ''unknown'' then observedAt = None
      else if \<not> capable \<or> state \<noteq> ''online'' \<and> state \<noteq> ''offline'' \<or>
              (case observedAt of None \<Rightarrow> False | Some at \<Rightarrow> at > now) then False
      else state \<noteq> ''online'' \<or>
           (case observedAt of None \<Rightarrow> False | Some at \<Rightarrow> time_Sub now at < uiPresenceTTL))"

definition Client_PublishPresence ::
  "'w control_env \<Rightarrow> ControlClient \<Rightarrow> EndpointPresenceRequest \<Rightarrow> 'w \<Rightarrow> EndpointPresenceResult fallible \<times> 'w" where
  "Client_PublishPresence env client payload w =
     (let (now, w) = cte_now env w
      in if \<not> identifierPattern (epq_DeviceID payload) \<or> \<not> identifierPattern (epq_BootID payload) \<or>
            epq_Sequence payload < 1 \<or> epq_Status payload \<noteq> ''healthy'' \<and> epq_Status payload \<noteq> ''unhealthy'' \<or>
            \<not> validUIObservation (epq_UIState payload) (epq_UIObservedAt payload)
                (''endpoint-ui-presence-v1'' \<in> set (cc_capabilities client)) now \<or>
            epq_ConfigurationVersion payload < 0 \<or> epq_PolicyVersion payload < 0 \<or>
            epq_AdmissionPolicyVersion payload < 0
         then (Inl (ErrorNew ''endpoint presence is invalid''), w)
         else
           let (message, w) = exchange env client MessageEndpointPresenceRequest (PPresence payload)
                                ''endpoint:presence'' [] 200 w
           in case message of
                Inl err \<Rightarrow> (Inl (RuntimeHTTPError_Error err), w)
              | Inr message \<Rightarrow>
                  let (result, w) = decodeResponse env client (wc_presence (cte_codec env)) message
                                      MessageEndpointPresenceResult w
                  in case result of
                       Inl _ \<Rightarrow> (Inl (ErrorNew ''network control returned an invalid endpoint presence result''), w)
                     | Inr result \<Rightarrow>
                         let (now, w) = cte_now env w
                         in if \<not> epr_Accepted result \<or> epr_AdmissionPolicyVersion result < 0 \<or>
                               epr_PresenceEpoch result < 1 \<or> time_IsZero (epr_ReceivedAt result) \<or>
                               \<not> validRuntimeInterval (epr_NextHeartbeatSeconds result) \<or>
                               epr_ReceivedAt result > now + cc_maxClockSkew client
                            then (Inl (ErrorNew ''network control returned an invalid endpoint presence result''), w)
                            else (Inr result, w))"

definition ErrEAPCertificateStale :: go_error where
  "ErrEAPCertificateStale =
     ErrorNew ''EAP certificate activation window expired or the parent credential changed''"

definition eapStaleResponse :: "client_error \<Rightarrow> bool" where
  "eapStaleResponse err =
     (case err of HTTPError status code \<Rightarrow> status = 409 \<and> code = ''eap_certificate_stale''
      | OtherError _ \<Rightarrow> False)"

text \<open>\<open>parseEAPCSR\<close> and \<open>validateEAPCertificate\<close> are parameters here; see \<open>Eap_Validation\<close>.\<close>

definition Client_IssueEAPCertificate ::
  "'w control_env \<Rightarrow> (string \<Rightarrow> error) \<Rightarrow> (EAPCertificateResult \<Rightarrow> string \<Rightarrow> string \<Rightarrow> string \<Rightarrow> time \<Rightarrow> error) \<Rightarrow>
   ControlClient \<Rightarrow> EAPCertificateRequest \<Rightarrow> string \<Rightarrow> string \<Rightarrow> 'w \<Rightarrow> EAPCertificateResult fallible \<times> 'w" where
  "Client_IssueEAPCertificate env parseCSR validateCertificate client payload deviceID subjectID w =
     (if \<not> identifierPattern (ecq_RequestID payload) \<or> \<not> identifierPattern deviceID \<or>
         \<not> identifierPattern subjectID \<or> length (ecq_CSRPEM payload) > 4096
      then (Inl (ErrorNew ''EAP certificate request is invalid''), w)
      else case parseCSR (ecq_CSRPEM payload) of
        Some err \<Rightarrow> (Inl err, w)
      | None \<Rightarrow>
          let (message, w) = exchange env client MessageEAPCertificateRequest (PCertificate payload)
                               ''eap:certificate'' [] 200 w
          in case message of
               Inl err \<Rightarrow>
                 (Inl (if eapStaleResponse err then ErrEAPCertificateStale else RuntimeHTTPError_Error err), w)
             | Inr message \<Rightarrow>
                 let (result, w) = decodeResponse env client (wc_certificate (cte_codec env)) message
                                     MessageEAPCertificateResult w
                 in case result of
                      Inl _ \<Rightarrow> (Inl (ErrorNew ''network control returned an invalid EAP certificate''), w)
                    | Inr result \<Rightarrow>
                        let (now, w) = cte_now env w
                        in if \<not> identifierPattern (ecr_CredentialID result) \<or>
                              ecr_Status result \<noteq> ''pending'' \<and> ecr_Status result \<noteq> ''active'' \<or>
                              \<not> validReadbackHash (ecr_Fingerprint result) \<or> \<not> ecr_ExpiresAt result > now
                           then (Inl (ErrorNew ''network control returned an invalid EAP certificate''), w)
                           else
                             let (now, w) = cte_now env w
                             in case validateCertificate result (ecq_CSRPEM payload) deviceID subjectID now of
                                  Some err \<Rightarrow> (Inl err, w)
                                | None \<Rightarrow> (Inr result, w))"

definition Client_ActivateEAPCertificate ::
  "'w control_env \<Rightarrow> ControlClient \<Rightarrow> EAPCertificateActivateRequest \<Rightarrow> 'w \<Rightarrow>
   EAPCertificateActivateResult fallible \<times> 'w" where
  "Client_ActivateEAPCertificate env client payload w =
     (if \<not> identifierPattern (eaq_CredentialID payload) \<or> \<not> validReadbackHash (eaq_Fingerprint payload)
      then (Inl (ErrorNew ''EAP activation request is invalid''), w)
      else
        let (message, w) = exchange env client MessageEAPCertificateActivateRequest (PActivate payload)
                             ''eap:activate'' [] 200 w
        in case message of
             Inl err \<Rightarrow>
               (Inl (if eapStaleResponse err then ErrEAPCertificateStale else RuntimeHTTPError_Error err), w)
           | Inr message \<Rightarrow>
               let (result, w) = decodeResponse env client (wc_activation (cte_codec env)) message
                                   MessageEAPCertificateActivateResult w
               in case result of
                    Inl _ \<Rightarrow> (Inl (ErrorNew ''network control returned an invalid EAP activation''), w)
                  | Inr result \<Rightarrow>
                      let (now, w) = cte_now env w
                      in if ear_Status result \<noteq> ''active'' \<or> ear_CredentialID result \<noteq> eaq_CredentialID payload \<or>
                            ear_Fingerprint result \<noteq> eaq_Fingerprint payload \<or> \<not> ear_ExpiresAt result > now
                         then (Inl (ErrorNew ''network control returned an invalid EAP activation''), w)
                         else (Inr result, w))"

end
