(* ===== verification/Service_Config.thy ===== *)
theory Service_Config
  imports Runtime_Client
begin

text \<open>
  The configuration of the privileged service (\<open>config.go\<close>) and the marker of a finished enrollment
  (\<open>enrollment_state.go\<close>): validation, bounded reading of files, the loopback origin of the proxy
  controller, the identity of the client certificate. The file system and the functions of
  \<open>path/filepath\<close> (whose meaning depends on the platform) are an interface. The construction of a TLS
  client from a verified key pair is not modelled.
\<close>

subsection \<open>Files\<close>

text \<open>What \<open>Lstat\<close> and \<open>Stat\<close> tell of a file; \<open>os.SameFile\<close> compares \<open>fin_identity\<close>.\<close>

record FileInfo =
  fin_symlink :: bool
  fin_regular :: bool
  fin_Size :: int
  fin_identity :: nat

text \<open>\<open>fsy_Open\<close> opens a file; its result is what \<open>Stat\<close> says of it and what reading it to the end gives.\<close>

record 'w file_system =
  fsy_IsAbs :: "string \<Rightarrow> bool"
  fsy_Clean :: "string \<Rightarrow> string"
  fsy_Dir :: "string \<Rightarrow> string"
  fsy_Join :: "string \<Rightarrow> string \<Rightarrow> string"
  fsy_Lstat :: "string \<Rightarrow> 'w \<Rightarrow> FileInfo fallible \<times> 'w"
  fsy_secureSecretFile :: "string \<Rightarrow> FileInfo \<Rightarrow> 'w \<Rightarrow> error \<times> 'w"
  fsy_Open :: "string \<Rightarrow> 'w \<Rightarrow> (FileInfo fallible \<times> string fallible) fallible \<times> 'w"

text \<open>\<open>io.LimitReader\<close> gives at most \<open>limit + 1\<close> bytes.\<close>

definition read_opened :: "int \<Rightarrow> FileInfo \<Rightarrow> FileInfo fallible \<times> string fallible \<Rightarrow> string fallible" where
  "read_opened limit entry opened =
     (case opened of
        (Inr stat, content) \<Rightarrow>
          if fin_identity entry \<noteq> fin_identity stat then Inl (ErrorNew ''file changed while opening'')
          else (case content of
                  Inl _ \<Rightarrow> Inl (ErrorNew ''file exceeded the safe limit'')
                | Inr content \<Rightarrow>
                    let raw = take (nat (limit + 1)) content
                    in if int (length raw) > limit then Inl (ErrorNew ''file exceeded the safe limit'') else Inr raw)
      | (Inl _, _) \<Rightarrow> Inl (ErrorNew ''file changed while opening''))"

definition readFileBounded :: "'w file_system \<Rightarrow> string \<Rightarrow> int \<Rightarrow> bool \<Rightarrow> 'w \<Rightarrow> string fallible \<times> 'w" where
  "readFileBounded fs path limit secret w =
     (if \<not> fsy_IsAbs fs path then (Inl (ErrorNew ''file path must be absolute''), w)
      else
        let (entry, w) = fsy_Lstat fs path w
        in case entry of
             Inl err \<Rightarrow> (Inl err, w)
           | Inr entry \<Rightarrow>
               if fin_symlink entry \<or> \<not> fin_regular entry \<or> fin_Size entry > limit
               then (Inl (ErrorNew ''path must be a bounded regular file''), w)
               else
                 let (err, w) = (if secret then fsy_secureSecretFile fs path entry w else (None, w))
                 in case err of
                      Some err \<Rightarrow> (Inl err, w)
                    | None \<Rightarrow>
                        let (opened, w) = fsy_Open fs path w
                        in (case opened of Inl err \<Rightarrow> Inl err | Inr opened \<Rightarrow> read_opened limit entry opened, w))"

definition regularFile :: "'w file_system \<Rightarrow> string \<Rightarrow> 'w \<Rightarrow> error \<times> 'w" where
  "regularFile fs path w =
     (if \<not> fsy_IsAbs fs path then (Some (ErrorNew ''file path must be absolute''), w)
      else
        let (entry, w) = fsy_Lstat fs path w
        in (case entry of
              Inl err \<Rightarrow> Some err
            | Inr entry \<Rightarrow>
                if fin_symlink entry \<or> \<not> fin_regular entry
                then Some (ErrorNew ''path must be a regular file and not a symlink'') else None, w))"

subsection \<open>The configuration\<close>

record Config =
  cfg_Version :: int
  cfg_RuntimeID :: string
  cfg_DeviceID :: string
  cfg_AllowedUserSID :: string
  cfg_AllowedUserUID :: "int option"
  cfg_UIExecutable :: string
  cfg_UICodeIdentity :: string
  cfg_ControlURL :: string
  cfg_ControlCAFile :: string
  cfg_ControlCertFile :: string
  cfg_ControlKeyFile :: string
  cfg_ControlServerName :: string
  cfg_IngestURL :: string
  cfg_IngestCAFile :: string
  cfg_IngestCertFile :: string
  cfg_IngestKeyFile :: string
  cfg_IngestServerName :: string
  cfg_StateDirectory :: string
  cfg_WireGuardExecutable :: string
  cfg_MihomoControllerURL :: string
  cfg_MihomoControllerSecretFile :: string
  cfg_EnrollmentID :: string
  cfg_EnrollmentChallengeID :: string
  cfg_EnrollmentTokenFile :: string

definition serviceConfigVersion :: int where "serviceConfigVersion = 1"
definition maxServiceConfigBytes :: int where "maxServiceConfigBytes = 65536"

fun has_double_dash :: "string \<Rightarrow> bool" where
  "has_double_dash (a # b # s) = (a = CHR ''-'' \<and> b = CHR ''-'' \<or> has_double_dash (b # s))"
| "has_double_dash _ = False"

definition validSID :: "string \<Rightarrow> bool" where
  "validSID value \<longleftrightarrow>
     \<not> (length value < 7 \<or> length value > 184 \<or> \<not> has_prefix value ''S-'') \<and>
     list_all (\<lambda>c. is_digit c \<or> c = CHR ''-'') (drop 2 value) \<and>
     \<not> has_suffix value ''-'' \<and> \<not> has_double_dash value"

definition validServiceIdentity :: "Config \<Rightarrow> bool" where
  "validServiceIdentity config =
     (case cfg_AllowedUserUID config of
        Some uid \<Rightarrow> uid > 0 \<and> uid \<le> 2147483647 \<and> cfg_AllowedUserSID config = []
      | None \<Rightarrow> validSID (cfg_AllowedUserSID config))"

definition IPCIdentity :: "Config \<Rightarrow> string" where
  "IPCIdentity config =
     (case cfg_AllowedUserUID config of Some uid \<Rightarrow> string_of_int uid | None \<Rightarrow> cfg_AllowedUserSID config)"

definition PrivateKeyPath :: "'w file_system \<Rightarrow> Config \<Rightarrow> string" where
  "PrivateKeyPath fs config = fsy_Join fs (cfg_StateDirectory config)
     (if cfg_AllowedUserUID config \<noteq> None then ''wireguard.key'' else ''wireguard.key.dpapi'')"

definition TunnelConfigPath :: "'w file_system \<Rightarrow> Config \<Rightarrow> string" where
  "TunnelConfigPath fs config = fsy_Join fs (cfg_StateDirectory config) (endpointInterfaceName @ ''.conf.dpapi'')"

definition EnrollmentMarkerPath :: "'w file_system \<Rightarrow> Config \<Rightarrow> string" where
  "EnrollmentMarkerPath fs config = fsy_Join fs (cfg_StateDirectory config) ''enrollment''"

definition MihomoAppStatePath :: "'w file_system \<Rightarrow> Config \<Rightarrow> string" where
  "MihomoAppStatePath fs config = fsy_Join fs (cfg_StateDirectory config)
     (if cfg_AllowedUserUID config \<noteq> None then ''mihomo-app.json'' else ''mihomo-app.dpapi'')"

definition MihomoConfigured :: "Config \<Rightarrow> bool" where
  "MihomoConfigured config \<longleftrightarrow> cfg_MihomoControllerURL config \<noteq> [] \<and> cfg_MihomoControllerSecretFile config \<noteq> []"

text \<open>A secret or token of a file: trimmed, 32 to 4096 bytes, no white space.\<close>

definition secret_text_ok :: "string \<Rightarrow> bool" where
  "secret_text_ok secret \<longleftrightarrow>
     \<not> (length secret < 32 \<or> length secret > 4096 \<or> contains_any secret [CHR 0x0D, CHR 0x0A, CHR 0x09, CHR '' ''])"

definition MihomoControllerSecret :: "'w file_system \<Rightarrow> Config \<Rightarrow> 'w \<Rightarrow> string fallible \<times> 'w" where
  "MihomoControllerSecret fs config w =
     (if \<not> MihomoConfigured config then (Inl (ErrorNew ''mihomo controller is not configured''), w)
      else
        let (raw, w) = readFileBounded fs (cfg_MihomoControllerSecretFile config) 4096 True w
        in (case raw of
              Inl err \<Rightarrow> Inl (ErrWrap ''read mihomo controller secret: '' err)
            | Inr raw \<Rightarrow>
                let secret = trim_space raw
                in if \<not> secret_text_ok secret then Inl (ErrorNew ''mihomo controller secret is invalid'') else Inr secret, w))"

subsection \<open>The loopback origin\<close>

text \<open>\<open>net.SplitHostPort\<close>, without its messages, and \<open>strconv.Atoi\<close>.\<close>

definition net_SplitHostPort :: "string \<Rightarrow> (string \<times> string) option" where
  "net_SplitHostPort hostport =
     (case cut_last (CHR '':'') hostport of
        None \<Rightarrow> None
      | Some (before, port) \<Rightarrow>
          if has_prefix hostport ''['' then
            (let (inside, rest, closed) = cut_at (CHR '']'') hostport
             in if \<not> closed \<or> rest \<noteq> CHR '':'' # port then None
                else if CHR ''['' \<in> set (drop 1 hostport) \<or> CHR '']'' \<in> set rest then None
                else Some (drop 1 inside, port))
          else if CHR '':'' \<in> set before \<or> CHR ''['' \<in> set hostport \<or> CHR '']'' \<in> set hostport then None
          else Some (before, port))"

definition strconv_Atoi :: "string \<Rightarrow> int option" where
  "strconv_Atoi s =
     (let negative = has_prefix s ''-'';
          digits = (if has_prefix s ''-'' \<or> has_prefix s ''+'' then drop 1 s else s);
          n = foldl (\<lambda>n c. 10 * n + int (digit_value c)) 0 digits;
          n = (if negative then - n else n)
      in if digits = [] \<or> \<not> list_all is_digit digits \<or> n < - (2 ^ 63) \<or> n \<ge> 2 ^ 63 then None else Some n)"

definition mihomoOrigin :: "string \<Rightarrow> (string \<times> int) fallible" where
  "mihomoOrigin raw =
     (case url_Parse (trim_space raw) of
        None \<Rightarrow> Inl (ErrorNew ''mihomo controller must be a loopback HTTP origin'')
      | Some parsed \<Rightarrow>
          if url_Scheme parsed \<noteq> ''http'' \<or> url_Host parsed = [] \<or> url_User parsed \<noteq> None \<or>
             url_RawQuery parsed \<noteq> [] \<or> url_Fragment parsed \<noteq> [] \<or>
             url_Path parsed \<noteq> [] \<and> url_Path parsed \<noteq> ''/''
          then Inl (ErrorNew ''mihomo controller must be a loopback HTTP origin'')
          else if \<not> (case parseAddr (url_Hostname parsed) of None \<Rightarrow> False | Some address \<Rightarrow> addr_IsLoopback address)
          then Inl (ErrorNew ''mihomo controller must use a loopback IP address'')
          else
            (case Option.bind (net_SplitHostPort (url_Host parsed)) (\<lambda>(_, port). strconv_Atoi port) of
               None \<Rightarrow> Inl (ErrorNew ''mihomo controller must include a valid port'')
             | Some port \<Rightarrow>
                 if port < 1 \<or> port > 65535 then Inl (ErrorNew ''mihomo controller must include a valid port'')
                 else Inr (trim_slashes (url_String parsed), port)))"

subsection \<open>Validation\<close>

text \<open>
  The steps of \<open>Validate\<close> in their order, up to the first that fails; a step may read files. A range
  over a map meets its entries in any order, which \<open>order\<close> picks.
\<close>

fun first_error :: "('w \<Rightarrow> error \<times> 'w) list \<Rightarrow> 'w \<Rightarrow> error \<times> 'w" where
  "first_error [] w = (None, w)"
| "first_error (step # steps) w = (let (err, w) = step w in if err \<noteq> None then (err, w) else first_error steps w)"

definition refuse_if :: "bool \<Rightarrow> string \<Rightarrow> 'w \<Rightarrow> error \<times> 'w" where
  "refuse_if refused message w = (if refused then Some (ErrorNew message) else None, w)"

definition refuse_left :: "'a fallible \<Rightarrow> 'w \<Rightarrow> error \<times> 'w" where
  "refuse_left result w = (case result of Inl err \<Rightarrow> Some err | Inr _ \<Rightarrow> None, w)"

definition step_if :: "bool \<Rightarrow> ('w \<Rightarrow> error \<times> 'w) list \<Rightarrow> 'w \<Rightarrow> error \<times> 'w" where
  "step_if condition steps w = (if condition then first_error steps w else (None, w))"

definition named_files ::
  "'w file_system \<Rightarrow> ((string \<times> string) list \<Rightarrow> (string \<times> string) list) \<Rightarrow> (string \<times> string) list \<Rightarrow> 'w \<Rightarrow> error \<times> 'w" where
  "named_files fs order files =
     first_error (map (\<lambda>(name, path) w.
       let (err, w) = regularFile fs path w in (map_option (ErrWrap (name @ '': '')) err, w)) (order files))"

definition in_state_directory :: "'w file_system \<Rightarrow> Config \<Rightarrow> string \<Rightarrow> bool" where
  "in_state_directory fs config path \<longleftrightarrow>
     fsy_IsAbs fs path \<and> fsy_Clean fs (fsy_Dir fs path) = fsy_Clean fs (cfg_StateDirectory config)"

definition secret_readable :: "'w file_system \<Rightarrow> Config \<Rightarrow> 'w \<Rightarrow> error \<times> 'w" where
  "secret_readable fs config w =
     (let (secret, w) = MihomoControllerSecret fs config w in refuse_left secret w)"

definition Config_Validate ::
  "'w file_system \<Rightarrow> ((string \<times> string) list \<Rightarrow> (string \<times> string) list) \<Rightarrow> Config \<Rightarrow> 'w \<Rightarrow> error \<times> 'w" where
  "Config_Validate fs order config =
     (let ui = cfg_UIExecutable config;
          ingest = [cfg_IngestURL config, cfg_IngestCAFile config, cfg_IngestCertFile config, cfg_IngestKeyFile config];
          ingest_set = length (filter (\<lambda>v. v \<noteq> []) ingest);
          enrollment = [cfg_EnrollmentID config, cfg_EnrollmentChallengeID config, cfg_EnrollmentTokenFile config];
          enrollment_set = length (filter (\<lambda>v. v \<noteq> []) enrollment)
      in first_error
        [refuse_if (cfg_Version config \<noteq> serviceConfigVersion \<or> \<not> identifierPattern (cfg_RuntimeID config) \<or>
            \<not> identifierPattern (cfg_DeviceID config) \<or> \<not> validServiceIdentity config)
           ''endpoint service version or identity is invalid'',
         refuse_if ((ui = []) \<noteq> (cfg_UICodeIdentity config = []) \<or>
            ui \<noteq> [] \<and> (\<not> fsy_IsAbs fs ui \<or> length ui > 4096 \<or> length (cfg_UICodeIdentity config) > 80))
           ''trusted UI executable and code identity must be configured together'',
         refuse_left (runtimeOrigin (cfg_ControlURL config)),
         named_files fs order [(''control CA'', cfg_ControlCAFile config), (''control certificate'', cfg_ControlCertFile config),
            (''control key'', cfg_ControlKeyFile config)],
         (if cfg_AllowedUserUID config = None
          then (\<lambda>w. let (err, w) = regularFile fs (cfg_WireGuardExecutable config) w
                    in (map_option (ErrWrap ''WireGuard executable: '') err, w))
          else refuse_if (cfg_WireGuardExecutable config \<noteq> []) ''macOS service uses the bundled WireGuard runtime''),
         refuse_if (\<not> fsy_IsAbs fs (cfg_StateDirectory config)) ''endpoint state directory must be absolute'',
         refuse_if ((cfg_MihomoControllerURL config = []) \<noteq> (cfg_MihomoControllerSecretFile config = []))
           ''mihomo controller URL and secret file must be configured together'',
         step_if (cfg_MihomoControllerURL config \<noteq> [])
           [refuse_left (mihomoOrigin (cfg_MihomoControllerURL config)),
            refuse_if (\<not> in_state_directory fs config (cfg_MihomoControllerSecretFile config))
              ''mihomo controller secret must be a file in the protected state directory'',
            secret_readable fs config],
         refuse_if (ingest_set \<noteq> 0 \<and> ingest_set \<noteq> length ingest \<or> ingest_set = 0 \<and> cfg_IngestServerName config \<noteq> [])
           ''network ingest URL and separately scoped TLS files must be configured together'',
         step_if (ingest_set \<noteq> 0)
           [refuse_left (runtimeOrigin (cfg_IngestURL config)),
            named_files fs order [(''ingest CA'', cfg_IngestCAFile config), (''ingest certificate'', cfg_IngestCertFile config),
              (''ingest key'', cfg_IngestKeyFile config)]],
         refuse_if (enrollment_set \<noteq> 0 \<and> enrollment_set \<noteq> length enrollment)
           ''endpoint enrollment ID, challenge ID, and token file must be configured together'',
         step_if (enrollment_set \<noteq> 0)
           [refuse_if (\<not> identifierPattern (cfg_EnrollmentID config) \<or> \<not> identifierPattern (cfg_EnrollmentChallengeID config))
              ''endpoint enrollment identifiers are invalid'',
            refuse_if (\<not> in_state_directory fs config (cfg_EnrollmentTokenFile config))
              ''endpoint enrollment token must be a file in the protected state directory'']])"

definition LoadConfig ::
  "'w file_system \<Rightarrow> ((string \<times> string) list \<Rightarrow> (string \<times> string) list) \<Rightarrow> (string \<Rightarrow> Config fallible) \<Rightarrow> string \<Rightarrow> 'w \<Rightarrow>
   Config fallible \<times> 'w" where
  "LoadConfig fs order decodeStrict path w =
     (if \<not> fsy_IsAbs fs path then (Inl (ErrorNew ''endpoint service config path must be absolute''), w)
      else
        let (raw, w) = readFileBounded fs path maxServiceConfigBytes False w
        in case raw of
             Inl err \<Rightarrow> (Inl (ErrWrap ''read endpoint service config: '' err), w)
           | Inr raw \<Rightarrow>
               (case decodeStrict raw of
                  Inl err \<Rightarrow> (Inl (ErrWrap ''decode endpoint service config: '' err), w)
                | Inr config \<Rightarrow>
                    let (err, w) = Config_Validate fs order config w
                    in (case err of Some err \<Rightarrow> Inl err | None \<Rightarrow> Inr config, w)))"

subsection \<open>Enrollment\<close>

definition Config_Enrollment ::
  "'w file_system \<Rightarrow> (string \<Rightarrow> bool) \<Rightarrow> Config \<Rightarrow> string \<Rightarrow> string \<Rightarrow> string \<Rightarrow> 'w \<Rightarrow> EnrollmentInput fallible \<times> 'w" where
  "Config_Enrollment fs parses_key config wireGuardPublicKey devicePublicKey clientVersion w =
     (if cfg_EnrollmentID config = [] then (Inl (ErrorNew ''endpoint enrollment is not configured''), w)
      else if \<not> parses_key wireGuardPublicKey then (Inl (ErrorNew ''endpoint WireGuard public key is invalid''), w)
      else
        let (raw, w) = readFileBounded fs (cfg_EnrollmentTokenFile config) 4096 True w
        in (case raw of
              Inl err \<Rightarrow> Inl (ErrWrap ''read endpoint enrollment token: '' err)
            | Inr raw \<Rightarrow>
                let token = trim_space raw
                in if \<not> secret_text_ok token then Inl (ErrorNew ''endpoint enrollment token is invalid'')
                   else Inr \<lparr>eni_EnrollmentID = cfg_EnrollmentID config, eni_ChallengeID = cfg_EnrollmentChallengeID config,
                             eni_DeviceID = cfg_DeviceID config, eni_DevicePublicKey = devicePublicKey,
                             eni_WireGuardPublicKey = wireGuardPublicKey, eni_ClientVersion = clientVersion,
                             eni_Token = token\<rparr>, w))"

definition EnrollmentCompleted :: "'w file_system \<Rightarrow> string \<Rightarrow> string \<Rightarrow> 'w \<Rightarrow> bool fallible \<times> 'w" where
  "EnrollmentCompleted fs path enrollmentID w =
     (let (raw, w) = readFileBounded fs path 256 False w
      in (case raw of
            Inl err \<Rightarrow>
              if errors_is err ErrNotExist then Inr False else Inl (ErrWrap ''read endpoint enrollment marker: '' err)
          | Inr raw \<Rightarrow>
              let stored = trim_space raw
              in if \<not> identifierPattern stored then Inl (ErrorNew ''endpoint enrollment marker is invalid'')
                 else Inr (stored = enrollmentID), w))"

text \<open>
  \<open>RecordEnrollment\<close>; \<open>replace\<close> is the replacement of the file (directory, temporary file, sync,
  rename) with a text.
\<close>

definition RecordEnrollment ::
  "'w file_system \<Rightarrow> (string \<Rightarrow> string \<Rightarrow> 'w \<Rightarrow> error \<times> 'w) \<Rightarrow> string \<Rightarrow> string \<Rightarrow> 'w \<Rightarrow> error \<times> 'w" where
  "RecordEnrollment fs replace path enrollmentID w =
     (if \<not> fsy_IsAbs fs path \<or> \<not> identifierPattern enrollmentID
      then (Some (ErrorNew ''endpoint enrollment marker parameters are invalid''), w)
      else replace path (enrollmentID @ [CHR 0x0A]) w)"

subsection \<open>The identity of the certificate\<close>

text \<open>A URI of a certificate, or nil; \<open>EscapedPath\<close> is part of it. \<open>strings.Trim(s, "/")\<close>.\<close>

record cert_URI =
  uri_Scheme :: string
  uri_Host :: string
  uri_EscapedPath :: string

definition trim_both_slashes :: "string \<Rightarrow> string" where
  "trim_both_slashes s = trim_slashes (dropWhile (\<lambda>c. c = CHR ''/'') s)"

fun identity_matches :: "cert_URI option list \<Rightarrow> nat \<times> string list \<Rightarrow> nat \<times> string list" where
  "identity_matches [] found = found"
| "identity_matches (identity # rest) (matches, path) =
     (case identity of
        None \<Rightarrow> identity_matches rest (matches, path)
      | Some identity \<Rightarrow>
          if uri_Scheme identity \<noteq> ''spiffe'' \<or> uri_Host identity \<noteq> ''opensoha.local''
          then identity_matches rest (matches, path)
          else identity_matches rest (Suc matches, split_on (CHR ''/'') (trim_both_slashes (uri_EscapedPath identity))))"

definition validateClientIdentity :: "cert_URI option list \<Rightarrow> string \<Rightarrow> string \<Rightarrow> error" where
  "validateClientIdentity uris scope runtimeID =
     (let (matches, path) = identity_matches uris (0, [])
      in if matches \<noteq> 1 \<or> path \<noteq> [scope, ''endpoint'', runtimeID]
         then Some (ErrorNew (''client certificate identity must be spiffe://opensoha.local/'' @ scope @ ''/endpoint/'' @ runtimeID))
         else None)"

subsection \<open>What holds\<close>

text \<open>A read is bounded, and comes from the file that was examined.\<close>

lemma readFileBounded_bounded:
  assumes "readFileBounded fs path limit secret w = (Inr raw, w')" "0 \<le> limit"
  shows "int (length raw) \<le> limit"
proof -
  have "int (length raw) \<le> limit" if "read_opened limit entry opened = Inr raw" for entry opened
    using that by (auto simp: read_opened_def Let_def split: prod.splits sum.splits if_splits)
  with assms(1) show ?thesis
    by (auto simp: readFileBounded_def Let_def split: prod.splits sum.splits option.splits if_splits)
qed

text \<open>The controller that is accepted answers on this machine only, on a port that exists.\<close>

lemma mihomoOrigin_loopback:
  assumes "mihomoOrigin raw = Inr (origin, port)"
  shows "1 \<le> port \<and> port \<le> 65535 \<and>
    (\<exists>parsed a. url_Parse (trim_space raw) = Some parsed \<and> url_Scheme parsed = ''http'' \<and> url_User parsed = None \<and>
       parseAddr (url_Hostname parsed) = Some a \<and> addr_IsLoopback a)"
  using assms by (auto simp: mihomoOrigin_def split: option.splits if_splits)

lemma first_error_None: "first_error steps w = (None, w') \<Longrightarrow> step \<in> set steps \<Longrightarrow> \<exists>v v'. step v = (None, v')"
proof (induction steps arbitrary: w)
  case (Cons s steps)
  then show ?case by (cases "s w") (auto split: if_splits)
qed simp

text \<open>A certificate that is accepted carries exactly one identity of the trust domain, and it is the
  identity of this runtime for this scope.\<close>

definition of_domain :: "cert_URI option \<Rightarrow> bool" where
  "of_domain identity \<longleftrightarrow>
     (case identity of None \<Rightarrow> False | Some i \<Rightarrow> uri_Scheme i = ''spiffe'' \<and> uri_Host i = ''opensoha.local'')"

lemma identity_matches_iff:
  "identity_matches uris (n, path) =
     (n + length (filter of_domain uris),
      case filter of_domain uris of [] \<Rightarrow> path
      | ids \<Rightarrow> split_on (CHR ''/'') (trim_both_slashes (uri_EscapedPath (the (last ids)))))"
  by (induction uris arbitrary: n path) (auto simp: of_domain_def split: option.splits list.splits)

lemma validateClientIdentity_exact:
  "validateClientIdentity uris scope runtimeID = None \<longleftrightarrow>
     (\<exists>i. filter of_domain uris = [Some i] \<and>
       split_on (CHR ''/'') (trim_both_slashes (uri_EscapedPath i)) = [scope, ''endpoint'', runtimeID])"
proof -
  have "\<exists>i. x = Some i" if "filter of_domain uris = [x]" for x
  proof -
    have "x \<in> set (filter of_domain uris)" by (simp add: that)
    then show ?thesis by (auto simp: of_domain_def split: option.splits)
  qed
  then show ?thesis
    by (cases "filter of_domain uris" rule: remdups_adj.cases)
       (auto simp: validateClientIdentity_def identity_matches_iff Let_def)
qed

text \<open>What a validated configuration promises of the proxy controller.\<close>

lemma inner_step_None:
  assumes "first_error steps w = (None, w')" "step_if True inner \<in> set steps" "s \<in> set inner"
  shows "\<exists>v v'. s v = (None, v')"
proof -
  from first_error_None [OF assms(1,2)] obtain v v' where "first_error inner v = (None, v')"
    by (auto simp: step_if_def)
  from first_error_None [OF this assms(3)] show ?thesis .
qed

lemma validated_controller_confined:
  assumes "Config_Validate fs order config w = (None, w')" "cfg_MihomoControllerURL config \<noteq> []"
  shows "\<exists>origin port. mihomoOrigin (cfg_MihomoControllerURL config) = Inr (origin, port)"
    and "in_state_directory fs config (cfg_MihomoControllerSecretFile config)"
proof -
  let ?inner = "[refuse_left (mihomoOrigin (cfg_MihomoControllerURL config)),
    refuse_if (\<not> in_state_directory fs config (cfg_MihomoControllerSecretFile config))
      ''mihomo controller secret must be a file in the protected state directory'', secret_readable fs config]"
  note steps = assms(1) [unfolded Config_Validate_def Let_def]
  have step: "\<exists>v v'. s v = (None, v')" if "s \<in> set ?inner" for s
    by (rule inner_step_None [OF steps _ that]) (simp add: assms(2))
  show "\<exists>origin port. mihomoOrigin (cfg_MihomoControllerURL config) = Inr (origin, port)"
    using step [of "refuse_left (mihomoOrigin (cfg_MihomoControllerURL config))"]
    by (auto simp: refuse_left_def split: sum.splits)
  show "in_state_directory fs config (cfg_MihomoControllerSecretFile config)"
    using step [of "refuse_if (\<not> in_state_directory fs config (cfg_MihomoControllerSecretFile config))
      ''mihomo controller secret must be a file in the protected state directory''"]
    by (auto simp: refuse_if_def split: if_splits)
qed

end
