(* ===== verification/Mihomo_Bootstrap.thy ===== *)
theory Mihomo_Bootstrap
  imports Coordinator Service_Config "HOL-Library.AList"
begin

text \<open>
  The transport nodes of the proxy (\<open>mihomo_bootstrap.go\<close>): they come from the manual node or from the
  subscription, are checked, and pinned to an address outside the protected scope. The scope and its resolver
  are those of the package \<open>proxytransport\<close>, outside the repository; YAML and HTTP are interfaces.
\<close>

type_synonym mihomo_node = "(string \<times> json_value) list"

text \<open>
  \<open>mbe_NewScope\<close> and \<open>mbe_Resolve\<close> take the protected CIDRs and hosts. \<open>mbe_Get\<close> is the request for the
  subscription over a transport that connects with the given function: status and body. \<open>mbe_document\<close> gives the
  \<open>proxies\<close> of a text that is exactly one YAML document.
\<close>

record 'w bootstrap_env =
  mbe_NewScope :: "string list \<Rightarrow> string list \<Rightarrow> error"
  mbe_Resolve :: "string list \<Rightarrow> string list \<Rightarrow> string \<Rightarrow> 'w \<Rightarrow> addr fallible \<times> 'w"
  mbe_Get :: "(string \<Rightarrow> 'w \<Rightarrow> error \<times> 'w) \<Rightarrow> string \<Rightarrow> 'w \<Rightarrow> (int \<times> (string \<times> error)) fallible \<times> 'w"
  mbe_document :: "string \<Rightarrow> mihomo_node list option"
  mbe_Dial :: "string \<Rightarrow> 'w \<Rightarrow> error \<times> 'w"

text \<open>Lists that are nil count as empty.\<close>

definition scope_cidrs :: "MihomoProtection \<Rightarrow> string list" where
  "scope_cidrs p = (case mp_CIDRs p of None \<Rightarrow> [] | Some cs \<Rightarrow> cs)"

definition scope_hosts :: "MihomoProtection \<Rightarrow> string list" where
  "scope_hosts p = (case mp_Hosts p of None \<Rightarrow> [] | Some hs \<Rightarrow> hs)"

definition mihomoBootstrapAddress ::
  "'w bootstrap_env \<Rightarrow> string \<Rightarrow> MihomoProtection option \<Rightarrow> 'w \<Rightarrow> addr fallible \<times> 'w" where
  "mihomoBootstrapAddress env host protection w =
     (case protection of
        None \<Rightarrow> (Inl (ErrorNew ''bootstrap protected scope missing''), w)
      | Some p \<Rightarrow>
          (case mbe_NewScope env (scope_cidrs p) (scope_hosts p) of
             Some err \<Rightarrow> (Inl err, w)
           | None \<Rightarrow> mbe_Resolve env (scope_cidrs p) (scope_hosts p) host w))"

subsection \<open>The subscription\<close>

text \<open>\<open>net.JoinHostPort\<close>.\<close>

definition net_JoinHostPort :: "string \<Rightarrow> string \<Rightarrow> string" where
  "net_JoinHostPort host port = (if CHR '':'' \<in> set host then ''['' @ host @ '']:'' @ port else host @ '':'' @ port)"

text \<open>The \<open>DialContext\<close> of the transport that fetches the subscription.\<close>

definition subscription_dial :: "'w bootstrap_env \<Rightarrow> MihomoProtection option \<Rightarrow> string \<Rightarrow> 'w \<Rightarrow> error \<times> 'w" where
  "subscription_dial env protection address w =
     (case net_SplitHostPort address of
        None \<Rightarrow> (Some (ErrorNew ''invalid address''), w)
      | Some (host, port) \<Rightarrow>
          (case mihomoBootstrapAddress env host protection w of
             (Inl err, w) \<Rightarrow> (Some err, w)
           | (Inr ip, w) \<Rightarrow> mbe_Dial env (net_JoinHostPort (addr_String ip) port) w))"

text \<open>\<open>io.ReadAll(io.LimitReader(body, n))\<close>, for the bytes of a body and the error after them.\<close>

fun first_bytes :: "int \<Rightarrow> string \<Rightarrow> string" where
  "first_bytes n [] = []"
| "first_bytes n (c # cs) = (if n \<le> 0 then [] else c # first_bytes (n - 1) cs)"

definition read_at_most :: "int \<Rightarrow> string \<times> error \<Rightarrow> string \<times> error" where
  "read_at_most n b = (if int (length (fst b)) < n then b else (first_bytes n (fst b), None))"

definition fetchMihomoSubscription ::
  "'w bootstrap_env \<Rightarrow> string \<Rightarrow> MihomoProtection option \<Rightarrow> 'w \<Rightarrow> string fallible \<times> 'w" where
  "fetchMihomoSubscription env rawURL protection w =
     (if \<not> validSubscriptionURL rawURL then (Inl (ErrorNew ''invalid subscription URL''), w)
      else case mbe_Get env (subscription_dial env protection) rawURL w of
             (Inl _, w) \<Rightarrow> (Inl (ErrorNew ''subscription download failed''), w)
           | (Inr (status, body), w) \<Rightarrow>
               if status \<noteq> 200 then (Inl (ErrorNew (''subscription returned HTTP '' @ string_of_int status)), w)
               else
                 let (raw, err) = read_at_most (1048576 + 1) body
                 in if err \<noteq> None \<or> int (length raw) > 1048576
                    then (Inl (ErrorNew ''subscription exceeds its size limit''), w)
                    else (Inr raw, w))"

subsection \<open>A node\<close>

definition node_types :: "string list" where
  "node_types = [''http'', ''socks5'', ''ss'', ''ssr'', ''snell'', ''vmess'', ''vless'', ''trojan'', ''hysteria'', ''hysteria2'',
     ''tuic'', ''anytls'']"

definition node_options :: "string list" where
  "node_options =
     [''name'', ''type'', ''server'', ''port'', ''skip-cert-verify'', ''cipher'', ''password'', ''username'', ''uuid'', ''alterId'',
      ''udp'', ''network'', ''tls'', ''servername'', ''sni'', ''alpn'', ''client-fingerprint'', ''fingerprint'', ''flow'',
      ''packet-encoding'', ''ws-opts'', ''grpc-opts'', ''http-opts'', ''h2-opts'', ''reality-opts'', ''obfs'', ''obfs-param'',
      ''protocol'', ''protocol-param'', ''psk'', ''version'', ''up'', ''down'', ''auth'', ''auth-str'', ''obfs-password'',
      ''congestion-controller'', ''reduce-rtt'', ''fast-open'', ''heartbeat-interval'', ''request-timeout'', ''udp-relay-mode'',
      ''udp-over-tcp'', ''udp-over-stream'']"

definition node_string :: "mihomo_node \<Rightarrow> string \<Rightarrow> string option" where
  "node_string node key = (case map_of node key of Some (JString s) \<Rightarrow> Some s | _ \<Rightarrow> None)"

text \<open>\<open>fmt.Sprint\<close> of a value, as far as the reading of a number can see.\<close>

definition value_text :: "json_value option \<Rightarrow> string" where
  "value_text v = (case v of Some (JString s) \<Rightarrow> s | Some (JNumber s) \<Rightarrow> s | _ \<Rightarrow> ''<other>'')"

definition set_missing :: "string \<Rightarrow> string \<Rightarrow> mihomo_node \<Rightarrow> mihomo_node" where
  "set_missing key val node =
     (if map_of node key = None \<or> map_of node key = Some JNull then AList.update key (JString val) node else node)"

definition pinMihomoNode ::
  "'w bootstrap_env \<Rightarrow> mihomo_node \<Rightarrow> MihomoProtection option \<Rightarrow> 'w \<Rightarrow> mihomo_node fallible \<times> 'w" where
  "pinMihomoNode env node protection w =
     (let kind = (case node_string node ''type'' of None \<Rightarrow> [] | Some k \<Rightarrow> k)
      in if kind \<notin> set node_types then (Inl (ErrorNew ''unsupported subscription node type''), w)
         else if list_ex (\<lambda>(key, _). key \<notin> set node_options) node
         then (Inl (ErrorNew ''subscription node contains an unmanaged option''), w)
         else if map_of node ''skip-cert-verify'' = Some (JBool True)
         then (Inl (ErrorNew ''subscription cannot disable TLS verification''), w)
         else case node_string node ''server'' of
                None \<Rightarrow> (Inl (ErrorNew ''subscription node server is missing''), w)
              | Some host \<Rightarrow>
                  (case strconv_Atoi (value_text (map_of node ''port'')) of
                     None \<Rightarrow> (Inl (ErrorNew ''subscription node port is invalid''), w)
                   | Some port \<Rightarrow>
                       if port < 1 \<or> port > 65535 then (Inl (ErrorNew ''subscription node port is invalid''), w)
                       else case mihomoBootstrapAddress env host protection w of
                              (Inl err, w) \<Rightarrow> (Inl err, w)
                            | (Inr address, w) \<Rightarrow>
                                let node = (if parseAddr host = None
                                            then set_missing ''sni'' host (set_missing ''servername'' host node) else node);
                                    node = AList.update ''server'' (JString (addr_String address)) node;
                                    node = AList.update ''port'' (JNumber (string_of_int port)) node
                                in (Inr node, w)))"

subsection \<open>All nodes\<close>

definition manual_transport_node :: "MihomoManualNode \<Rightarrow> mihomo_node" where
  "manual_transport_node node =
     [(''name'', JString mihomoManualProxyName),
      (''type'', JString (if mn_Protocol node = ''https'' then ''http'' else mn_Protocol node)),
      (''server'', JString (mn_Server node)), (''port'', JNumber (string_of_int (mn_Port node)))]
     @ (if mn_Protocol node = ''https'' then [(''tls'', JBool True)] else [])
     @ (if mn_Username node \<noteq> []
        then [(''username'', JString (mn_Username node)), (''password'', JString (mn_Password node))] else [])"

definition node_name_ok :: "MihomoConfiguration \<Rightarrow> string list \<Rightarrow> string \<Rightarrow> bool" where
  "node_name_ok c seen name \<longleftrightarrow>
     \<not> (\<not> validMihomoName name \<or> name \<in> set seen \<or> name = mc_SelectorGroup c \<or>
        reservedMihomoName name \<and> \<not> (mc_SourceType c = ''manual_node'' \<and> name = mihomoManualProxyName))"

fun prepare_nodes ::
  "'w bootstrap_env \<Rightarrow> MihomoConfiguration \<Rightarrow> string list \<Rightarrow> mihomo_node list \<Rightarrow> 'w \<Rightarrow> mihomo_node list fallible \<times> 'w" where
  "prepare_nodes env c seen [] w = (Inr [], w)"
| "prepare_nodes env c seen (node # rest) w =
     (let name = (case node_string node ''name'' of None \<Rightarrow> [] | Some n \<Rightarrow> n)
      in if \<not> node_name_ok c seen name then (Inl (ErrorNew ''subscription node identity is unsafe''), w)
         else case pinMihomoNode env node (mc_Protection c) w of
                (Inl err, w) \<Rightarrow> (Inl err, w)
              | (Inr pinned, w) \<Rightarrow>
                  (case prepare_nodes env c (name # seen) rest w of
                     (Inl err, w) \<Rightarrow> (Inl err, w)
                   | (Inr others, w) \<Rightarrow> (Inr (pinned # others), w)))"

definition source_nodes ::
  "'w bootstrap_env \<Rightarrow> MihomoConfiguration \<Rightarrow> string \<Rightarrow> 'w \<Rightarrow> mihomo_node list fallible \<times> 'w" where
  "source_nodes env c subscriptionURL w =
     (if mc_SourceType c = ''manual_node'' then
        (case mc_ManualNode c of
           None \<Rightarrow> Inl (ErrorNew ''manual proxy node missing'')
         | Some node \<Rightarrow> Inr [manual_transport_node node], w)
      else case fetchMihomoSubscription env subscriptionURL (mc_Protection c) w of
             (Inl err, w) \<Rightarrow> (Inl err, w)
           | (Inr raw, w) \<Rightarrow>
               (case mbe_document env raw of
                  None \<Rightarrow> Inl (ErrorNew ''subscription must contain one bounded proxy document'')
                | Some nodes \<Rightarrow> Inr nodes, w))"

text \<open>The configuration with its \<open>BootstrapNodes\<close>.\<close>

definition prepareMihomoBootstrap ::
  "'w bootstrap_env \<Rightarrow> MihomoConfiguration \<Rightarrow> string \<Rightarrow> 'w \<Rightarrow> MihomoConfiguration fallible \<times> 'w" where
  "prepareMihomoBootstrap env c subscriptionURL w =
     (case source_nodes env c subscriptionURL w of
        (Inl err, w) \<Rightarrow> (Inl err, w)
      | (Inr nodes, w) \<Rightarrow>
          if length nodes = 0 \<or> length nodes > 2048 then (Inl (ErrorNew ''subscription node count is invalid''), w)
          else case prepare_nodes env c [] nodes w of
                 (Inl err, w) \<Rightarrow> (Inl err, w)
               | (Inr pinned, w) \<Rightarrow> (Inr (c\<lparr>mc_BootstrapNodes := pinned\<rparr>), w))"

subsection \<open>What prepared nodes are\<close>

text \<open>A node that is pinned: only managed options, TLS verification kept, and a server that the scope resolved.\<close>

definition resolved_outside :: "'w bootstrap_env \<Rightarrow> MihomoConfiguration \<Rightarrow> addr \<Rightarrow> bool" where
  "resolved_outside env c address \<longleftrightarrow>
     (\<exists>p host w w'. mc_Protection c = Some p \<and> mbe_NewScope env (scope_cidrs p) (scope_hosts p) = None \<and>
        mbe_Resolve env (scope_cidrs p) (scope_hosts p) host w = (Inr address, w'))"

definition pinned_node :: "'w bootstrap_env \<Rightarrow> MihomoConfiguration \<Rightarrow> mihomo_node \<Rightarrow> bool" where
  "pinned_node env c node \<longleftrightarrow>
     (\<exists>kind. node_string node ''type'' = Some kind \<and> kind \<in> set node_types) \<and>
     fst ` set node \<subseteq> set node_options \<and> map_of node ''skip-cert-verify'' \<noteq> Some (JBool True) \<and>
     (\<exists>address. resolved_outside env c address \<and> map_of node ''server'' = Some (JString (addr_String address))) \<and>
     (\<exists>port. 1 \<le> port \<and> port \<le> 65535 \<and> map_of node ''port'' = Some (JNumber (string_of_int port)))"

lemma set_missing_facts:
  "key' \<noteq> key \<Longrightarrow> map_of (set_missing key val node) key' = map_of node key'"
  "fst ` set (set_missing key val node) \<subseteq> insert key (fst ` set node)"
  by (auto simp: set_missing_def update_conv' dom_update)

lemma mihomoBootstrapAddress_Inr:
  "mihomoBootstrapAddress env host (mc_Protection c) w = (Inr address, w') \<Longrightarrow> resolved_outside env c address"
  by (auto simp: mihomoBootstrapAddress_def resolved_outside_def split: option.splits)

lemma pinMihomoNode_Inr:
  assumes "pinMihomoNode env node (mc_Protection c) w = (Inr pinned, w')"
  shows "pinned_node env c pinned" "map_of pinned ''name'' = map_of node ''name''"
proof -
  have empty_type: "[] \<notin> set node_types" by (simp add: node_types_def)
  obtain kind where kind: "node_string node ''type'' = Some kind" "kind \<in> set node_types"
    using assms by (cases "node_string node ''type''") (auto simp: pinMihomoNode_def empty_type split: if_splits)
  have options: "fst ` set node \<subseteq> set node_options" and verify: "map_of node ''skip-cert-verify'' \<noteq> Some (JBool True)"
    using assms kind by (auto simp: pinMihomoNode_def list_ex_iff split: if_splits)
  have run: "pinMihomoNode env node (mc_Protection c) w =
     (case node_string node ''server'' of
                None \<Rightarrow> (Inl (ErrorNew ''subscription node server is missing''), w)
              | Some host \<Rightarrow>
                  (case strconv_Atoi (value_text (map_of node ''port'')) of
                     None \<Rightarrow> (Inl (ErrorNew ''subscription node port is invalid''), w)
                   | Some port \<Rightarrow>
                       if port < 1 \<or> port > 65535 then (Inl (ErrorNew ''subscription node port is invalid''), w)
                       else case mihomoBootstrapAddress env host (mc_Protection c) w of
                              (Inl err, w) \<Rightarrow> (Inl err, w)
                            | (Inr address, w) \<Rightarrow>
                                let node = (if parseAddr host = None
                                            then set_missing ''sni'' host (set_missing ''servername'' host node) else node);
                                    node = AList.update ''server'' (JString (addr_String address)) node;
                                    node = AList.update ''port'' (JNumber (string_of_int port)) node
                                in (Inr node, w)))"
    using kind options verify by (auto simp: pinMihomoNode_def list_ex_iff)
  obtain host where host: "node_string node ''server'' = Some host"
    using assms unfolding run by (auto split: option.splits)
  obtain port where port: "strconv_Atoi (value_text (map_of node ''port'')) = Some port" "1 \<le> port" "port \<le> 65535"
    using assms unfolding run by (auto simp: host split: option.splits if_splits)
  obtain r w1 where r: "mihomoBootstrapAddress env host (mc_Protection c) w = (r, w1)" by fastforce
  obtain address where address: "r = Inr address"
    using assms port unfolding run by (cases r) (auto simp: host r)
  define named where "named = (if parseAddr host = None
      then set_missing ''sni'' host (set_missing ''servername'' host node) else node)"
  have pinned: "pinned = AList.update ''port'' (JNumber (string_of_int port))
      (AList.update ''server'' (JString (addr_String address)) named)"
    using assms port unfolding run by (simp add: host r address Let_def named_def)
  have same: "map_of named key = map_of node key" if "key \<noteq> ''sni''" "key \<noteq> ''servername''" for key
    using that by (simp add: named_def set_missing_facts)
  have keys: "fst ` set named \<subseteq> insert ''sni'' (insert ''servername'' (fst ` set node))"
    using set_missing_facts(2) [of "''sni''" host "set_missing ''servername'' host node"]
      set_missing_facts(2) [of "''servername''" host node]
    by (auto simp: named_def)
  have "fst ` set pinned \<subseteq> set node_options"
    using keys options by (auto simp: pinned dom_update node_options_def)
  moreover have "resolved_outside env c address" by (rule mihomoBootstrapAddress_Inr [OF r [unfolded address]])
  ultimately show "pinned_node env c pinned" unfolding pinned_node_def
    using kind verify port same by (auto simp: pinned update_conv' node_string_def)
  show "map_of pinned ''name'' = map_of node ''name''" using same by (simp add: pinned update_conv')
qed

lemma prepare_nodes_Inr:
  "prepare_nodes env c seen nodes w = (Inr pinned, w') \<Longrightarrow>
     length pinned = length nodes \<and> list_all (pinned_node env c) pinned \<and>
     distinct (map (\<lambda>node. node_string node ''name'') pinned) \<and>
     list_all (\<lambda>node. \<exists>name. node_string node ''name'' = Some name \<and> node_name_ok c seen name) pinned"
proof (induction env c seen nodes w arbitrary: pinned w' rule: prepare_nodes.induct)
  case (2 env c seen node rest w)
  define name where "name = (case node_string node ''name'' of None \<Rightarrow> [] | Some n \<Rightarrow> n)"
  have ok: "node_name_ok c seen name" using "2.prems" by (auto simp: name_def Let_def split: if_splits)
  obtain r w1 where r: "pinMihomoNode env node (mc_Protection c) w = (r, w1)" by fastforce
  obtain first where first: "r = Inr first" using "2.prems" ok by (cases r) (auto simp: name_def r)
  obtain rs w2 where rs: "prepare_nodes env c (name # seen) rest w1 = (rs, w2)" by fastforce
  obtain others where others: "rs = Inr others"
    using "2.prems" ok by (cases rs) (auto simp: name_def [symmetric] r first rs)
  have pinned: "pinned = first # others" using "2.prems" ok by (simp add: name_def [symmetric] r first rs others)
  have not_empty: "name \<noteq> []" using ok by (auto simp: node_name_ok_def validMihomoName_def)
  then have named: "node_string node ''name'' = Some name" by (auto simp: name_def split: option.splits)
  note one = pinMihomoNode_Inr [OF r [unfolded first]]
  have first_name: "node_string first ''name'' = Some name" using one(2) named by (simp add: node_string_def)
  have IH: "length others = length rest \<and> list_all (pinned_node env c) others \<and>
     distinct (map (\<lambda>node. node_string node ''name'') others) \<and>
     list_all (\<lambda>node. \<exists>n. node_string node ''name'' = Some n \<and> node_name_ok c (name # seen) n) others"
    using "2.IH" [OF name_def _ r [symmetric, unfolded first]] rs others ok by simp
  then have "list_all (\<lambda>node. \<exists>n. node_string node ''name'' = Some n \<and> node_name_ok c seen n \<and> n \<noteq> name) others"
    by (auto simp: list_all_iff node_name_ok_def)
  then show ?case using IH one(1) first_name ok by (auto simp: pinned list_all_iff)
qed simp

text \<open>C8: Before anything is handed to the proxy engine, its transport nodes are between 1 and 2048, with distinct,
  valid and unreserved names; each has only managed options and keeps TLS verification, and each is pinned to an
  address that the resolver of the protected scope returned, with a valid port.\<close>

theorem prepared_nodes_pinned:
  assumes "prepareMihomoBootstrap env c subscriptionURL w = (Inr prepared, w')"
  shows "prepared = c\<lparr>mc_BootstrapNodes := mc_BootstrapNodes prepared\<rparr> \<and>
    1 \<le> length (mc_BootstrapNodes prepared) \<and> length (mc_BootstrapNodes prepared) \<le> 2048 \<and>
    distinct (map (\<lambda>node. node_string node ''name'') (mc_BootstrapNodes prepared)) \<and>
    list_all (pinned_node env c) (mc_BootstrapNodes prepared) \<and>
    list_all (\<lambda>node. \<exists>name. node_string node ''name'' = Some name \<and> node_name_ok c [] name) (mc_BootstrapNodes prepared)"
proof -
  obtain r w1 where r: "source_nodes env c subscriptionURL w = (r, w1)" by fastforce
  obtain nodes where nodes: "r = Inr nodes" using assms by (cases r) (auto simp: prepareMihomoBootstrap_def r)
  have count: "1 \<le> length nodes" "length nodes \<le> 2048"
    using assms by (auto simp: prepareMihomoBootstrap_def r nodes Suc_le_eq split: if_splits)
  obtain rs w2 where rs: "prepare_nodes env c [] nodes w1 = (rs, w2)" by fastforce
  obtain pinned where pinned: "rs = Inr pinned"
    using assms count by (cases rs) (auto simp: prepareMihomoBootstrap_def r nodes rs split: if_splits)
  have "prepared = c\<lparr>mc_BootstrapNodes := pinned\<rparr>"
    using assms count by (auto simp: prepareMihomoBootstrap_def r nodes rs pinned split: if_splits)
  then show ?thesis using prepare_nodes_Inr [OF rs [unfolded pinned]] count by simp
qed

text \<open>A subscription with one node.\<close>

definition demo_node :: mihomo_node where
  "demo_node =
     [(''name'', JString ''node-a''), (''type'', JString ''trojan''), (''server'', JString ''a.example''),
      (''port'', JNumber ''443''), (''password'', JString ''p'')]"

definition demo_bootstrap :: "unit bootstrap_env" where
  "demo_bootstrap =
     \<lparr>mbe_NewScope = (\<lambda>_ _. None), mbe_Resolve = (\<lambda>_ _ host w. (Inr (Addr4 0x05060708), w)),
      mbe_Get = (\<lambda>_ _ w. (Inr (200, ''subscription'', None), w)), mbe_document = (\<lambda>_. Some [demo_node]),
      mbe_Dial = (\<lambda>_ w. (None, w))\<rparr>"

definition demo_pinned :: mihomo_node where
  "demo_pinned =
     [(''name'', JString ''node-a''), (''type'', JString ''trojan''), (''server'', JString ''5.6.7.8''),
      (''port'', JNumber ''443''), (''password'', JString ''p''), (''servername'', JString ''a.example''),
      (''sni'', JString ''a.example'')]"

lemma demo_prepare: "prepare_nodes demo_bootstrap sample_mihomo [] [demo_node] () = (Inr [demo_pinned], ())"
  by code_simp

lemma demo_source:
  "source_nodes demo_bootstrap sample_mihomo ''https://s.example/sub'' () = (Inr [demo_node], ())"
proof -
  have "validSubscriptionURL ''https://s.example/sub''" by code_simp
  then show ?thesis
    by (simp add: source_nodes_def fetchMihomoSubscription_def read_at_most_def demo_bootstrap_def sample_mihomo_def)
qed

theorem prepared_nodes_pinned_witness:
  "prepareMihomoBootstrap demo_bootstrap sample_mihomo ''https://s.example/sub'' () =
     (Inr (sample_mihomo\<lparr>mc_BootstrapNodes := [demo_pinned]\<rparr>), ()) \<and> pinned_node demo_bootstrap sample_mihomo demo_pinned"
proof -
  have run: "prepareMihomoBootstrap demo_bootstrap sample_mihomo ''https://s.example/sub'' () =
      (Inr (sample_mihomo\<lparr>mc_BootstrapNodes := [demo_pinned]\<rparr>), ())"
    by (simp add: prepareMihomoBootstrap_def demo_source demo_prepare del: prepare_nodes.simps)
  then show ?thesis using prepared_nodes_pinned [OF run] by simp
qed

end
