(* ===== verification/Telemetry.thy ===== *)
theory Telemetry
  imports Runtime_Client
begin

text \<open>
  \<open>TelemetryClient\<close> of \<open>client.go\<close> and \<open>vpn_client.go\<close>: heartbeats with the traffic of the proxy
  as differences of its counters, and probe batches. JSON is an interface, as in \<open>Runtime_Client\<close>.
\<close>

record ProxyFlowSnapshot =
  pfs_Active :: bool
  pfs_Engine :: string
  pfs_Mode :: string
  pfs_ProfileID :: string
  pfs_ProfileRevision :: int
  pfs_SelectedProxy :: string
  pfs_UploadTotal :: int
  pfs_DownloadTotal :: int
  pfs_ActiveConnections :: int

record proxyFlowBaseline =
  pfb_at :: time
  pfb_snapshot :: ProxyFlowSnapshot

text \<open>The two anonymous payload structs of \<open>Heartbeat\<close> and \<open>proxyAggregate\<close>.\<close>

record heartbeat_payload =
  hbp_Status :: string
  hbp_ConfigurationVersion :: int
  hbp_PolicyVersion :: int
  hbp_UptimeSeconds :: int
  hbp_Diagnostics :: "string list"

record proxy_aggregate =
  pag_WindowStartedAt :: time
  pag_WindowEndedAt :: time
  pag_Engine :: string
  pag_ProfileID :: string
  pag_ProfileRevision :: int
  pag_Mode :: string
  pag_SelectedProxy :: string
  pag_UploadBytes :: int
  pag_DownloadBytes :: int
  pag_ActiveConnections :: int

record 'w telemetry_env =
  te_Do :: "'w transport"
  te_now :: "'w \<Rightarrow> time \<times> 'w"
  te_randomID :: "'w \<Rightarrow> string \<times> 'w"
  te_proxyMetrics :: "('w \<Rightarrow> ProxyFlowSnapshot fallible \<times> 'w) option"
  te_heartbeat :: "heartbeat_payload \<Rightarrow> string fallible"
  te_aggregate :: "proxy_aggregate \<Rightarrow> string fallible"
  te_probe :: "VPNProbeBatch \<Rightarrow> string fallible"
  te_batch :: "IngestBatch \<Rightarrow> string fallible"

record TelemetryClient =
  tc_origin :: string
  tc_runtimeID :: string
  tc_sequence :: int
  tc_previous :: "proxyFlowBaseline option"

definition NewTelemetryClient :: "string \<Rightarrow> string \<Rightarrow> TelemetryClient fallible" where
  "NewTelemetryClient origin runtimeID =
     (case runtimeOrigin origin of
        Inl _ \<Rightarrow> Inl (ErrorNew ''endpoint ingest client configuration is invalid'')
      | Inr parsed \<Rightarrow>
          if \<not> identifierPattern runtimeID
          then Inl (ErrorNew ''endpoint ingest client configuration is invalid'')
          else Inr \<lparr>tc_origin = parsed, tc_runtimeID = runtimeID, tc_sequence = 0, tc_previous = None\<rparr>)"

definition sameProxyFlow :: "ProxyFlowSnapshot \<Rightarrow> ProxyFlowSnapshot \<Rightarrow> bool" where
  "sameProxyFlow left right \<longleftrightarrow>
     pfs_Engine left = pfs_Engine right \<and> pfs_Mode left = pfs_Mode right \<and>
     pfs_ProfileID left = pfs_ProfileID right \<and> pfs_ProfileRevision left = pfs_ProfileRevision right \<and>
     pfs_SelectedProxy left = pfs_SelectedProxy right"

definition valid_snapshot :: "ProxyFlowSnapshot \<Rightarrow> bool" where
  "valid_snapshot s \<longleftrightarrow>
     \<not> (pfs_Engine s \<noteq> ''mihomo'' \<or> pfs_Mode s \<notin> set [''managed_follow'', ''app_subscription''] \<or>
        \<not> identifierPattern (pfs_ProfileID s) \<or> pfs_ProfileRevision s < 1 \<or>
        \<not> validMihomoName (pfs_SelectedProxy s) \<or> pfs_UploadTotal s < 0 \<or> pfs_DownloadTotal s < 0 \<or>
        pfs_ActiveConnections s < 0 \<or> pfs_ActiveConnections s > 1000000)"

definition proxyAggregate ::
  "time \<Rightarrow> ProxyFlowSnapshot \<Rightarrow> TelemetryClient \<Rightarrow> proxy_aggregate option \<times> TelemetryClient" where
  "proxyAggregate now snapshot client =
     (if \<not> pfs_Active snapshot then (None, client\<lparr>tc_previous := None\<rparr>)
      else if \<not> valid_snapshot snapshot then (None, client)
      else
        let (startedAt, uploadBytes, downloadBytes) =
          (case tc_previous client of
             None \<Rightarrow> (now, 0, 0)
           | Some previous \<Rightarrow>
               if sameProxyFlow (pfb_snapshot previous) snapshot \<and>
                  pfs_UploadTotal snapshot \<ge> pfs_UploadTotal (pfb_snapshot previous) \<and>
                  pfs_DownloadTotal snapshot \<ge> pfs_DownloadTotal (pfb_snapshot previous)
               then (pfb_at previous, pfs_UploadTotal snapshot - pfs_UploadTotal (pfb_snapshot previous),
                     pfs_DownloadTotal snapshot - pfs_DownloadTotal (pfb_snapshot previous))
               else (now, 0, 0))
        in (Some \<lparr>pag_WindowStartedAt = startedAt, pag_WindowEndedAt = now, pag_Engine = pfs_Engine snapshot,
                  pag_ProfileID = pfs_ProfileID snapshot, pag_ProfileRevision = pfs_ProfileRevision snapshot,
                  pag_Mode = pfs_Mode snapshot, pag_SelectedProxy = pfs_SelectedProxy snapshot,
                  pag_UploadBytes = uploadBytes, pag_DownloadBytes = downloadBytes,
                  pag_ActiveConnections = pfs_ActiveConnections snapshot\<rparr>,
            client\<lparr>tc_previous := Some \<lparr>pfb_at = now, pfb_snapshot = snapshot\<rparr>\<rparr>))"

text \<open>One event with a fresh identifier and the next sequence number.\<close>

definition ingest_event ::
  "'w telemetry_env \<Rightarrow> string \<Rightarrow> time \<Rightarrow> string \<Rightarrow> TelemetryClient \<times> 'w \<Rightarrow> IngestEvent \<times> TelemetryClient \<times> 'w" where
  "ingest_event env kind now payload = (\<lambda>(client, w).
     let (eventID, w) = te_randomID env w;
         client = client\<lparr>tc_sequence := tc_sequence client + 1\<rparr>
     in (\<lparr>ige_ID = eventID, ige_Type = kind, ige_Sequence = tc_sequence client, ige_OccurredAt = now,
          ige_Payload = payload\<rparr>, client, w))"

text \<open>The events of a heartbeat, and the error of the proxy's metrics, which does not stop it.\<close>

definition proxy_events ::
  "'w telemetry_env \<Rightarrow> time \<Rightarrow> TelemetryClient \<times> 'w \<Rightarrow> (IngestEvent list \<times> error) \<times> TelemetryClient \<times> 'w" where
  "proxy_events env now = (\<lambda>(client, w).
     case te_proxyMetrics env of
       None \<Rightarrow> (([], None), client, w)
     | Some metrics \<Rightarrow>
         let (snapshot, w) = metrics w
         in case snapshot of
              Inl err \<Rightarrow> (([], Some (ErrWrap ''read proxy flow aggregate: '' err)), client, w)
            | Inr snapshot \<Rightarrow>
                let (aggregate, client) = proxyAggregate now snapshot client
                in case aggregate of
                     None \<Rightarrow> (([], None), client, w)
                   | Some aggregate \<Rightarrow>
                       (case te_aggregate env aggregate of
                          Inl err \<Rightarrow> (([], Some err), client, w)
                        | Inr payload \<Rightarrow>
                            let (event, client, w) = ingest_event env ''proxy.flow.aggregate'' now payload (client, w)
                            in (([event], None), client, w)))"

definition ingest_url :: "TelemetryClient \<Rightarrow> string" where
  "ingest_url client = tc_origin client @ ''/api/ingest/v1/events:batch''"

definition Heartbeat ::
  "'w telemetry_env \<Rightarrow> Status \<Rightarrow> TelemetryClient \<times> 'w \<Rightarrow> error \<times> TelemetryClient \<times> 'w" where
  "Heartbeat env status = (\<lambda>(client, w).
     if st_State status \<notin> set [StateDisconnected, StateConnecting, StateConnected, StateDegraded] \<or>
        st_RuntimeID status \<noteq> tc_runtimeID client \<or> \<not> identifierPattern (st_DeviceID status) \<or>
        st_ConfigurationVersion status < 0 \<or> st_PolicyVersion status < 0 \<or> st_UptimeSeconds status < 0
     then (Some (ErrorNew ''endpoint heartbeat status is invalid''), client, w)
     else
       let (now, w) = te_now env w
       in case te_heartbeat env
                 \<lparr>hbp_Status = (if st_State status = StateDegraded then ''degraded'' else ''healthy''),
                  hbp_ConfigurationVersion = st_ConfigurationVersion status,
                  hbp_PolicyVersion = st_PolicyVersion status, hbp_UptimeSeconds = st_UptimeSeconds status,
                  hbp_Diagnostics = diagnosticList (st_Diagnostic status)\<rparr> of
            Inl err \<Rightarrow> (Some err, client, w)
          | Inr payload \<Rightarrow>
              let (event, client, w) = ingest_event env ''runtime.heartbeat'' now payload (client, w);
                  ((more, metricsErr), client, w) = proxy_events env now (client, w);
                  (batchID, w) = te_randomID env w
              in case te_batch env \<lparr>igb_SchemaVersion = IngestSchemaVersion, igb_BatchID = batchID,
                        igb_ProducerID = tc_runtimeID client, igb_ProducerKind = ''endpoint'',
                        igb_SentAt = now, igb_Events = event # more\<rparr> of
                   Inl err \<Rightarrow> (errors_join [metricsErr, Some err], client, w)
                 | Inr raw \<Rightarrow>
                     (case http_NewRequest ''POST'' (ingest_url client)
                             [(''Content-Type'', ''application/json''), (''Accept'', ''application/json'')] raw of
                        Inl err \<Rightarrow> (Some err, client, w)
                      | Inr request \<Rightarrow>
                          let (response, w) = te_Do env request w
                          in case response of
                               Inl err \<Rightarrow>
                                 (errors_join [metricsErr, Some (ErrWrap ''send endpoint heartbeat: '' err)], client, w)
                             | Inr response \<Rightarrow>
                                 if hr_StatusCode response \<noteq> 202
                                 then (errors_join [metricsErr, Some (ErrorNew (''network ingest returned HTTP '' @
                                         string_of_int (hr_StatusCode response)))], client, w)
                                 else (metricsErr, client, w)))"

text \<open>The batch and its event carry the identifier of the probe.\<close>

definition Telemetry_VPNProbe ::
  "'w telemetry_env \<Rightarrow> VPNProbeBatch \<Rightarrow> TelemetryClient \<times> 'w \<Rightarrow> error \<times> TelemetryClient \<times> 'w" where
  "Telemetry_VPNProbe env probe = (\<lambda>(client, w).
     case te_probe env probe of
       Inl err \<Rightarrow> (Some err, client, w)
     | Inr payload \<Rightarrow>
         let (now, w) = te_now env w;
             client = client\<lparr>tc_sequence := tc_sequence client + 1\<rparr>
         in case te_batch env \<lparr>igb_SchemaVersion = IngestSchemaVersion, igb_BatchID = pb_BatchID probe,
                   igb_ProducerID = tc_runtimeID client, igb_ProducerKind = ''endpoint'', igb_SentAt = now,
                   igb_Events = [\<lparr>ige_ID = pb_BatchID probe, ige_Type = ''vpn.probe.batch'',
                     ige_Sequence = tc_sequence client, ige_OccurredAt = now, ige_Payload = payload\<rparr>]\<rparr> of
              Inl err \<Rightarrow> (Some err, client, w)
            | Inr raw \<Rightarrow>
                (case http_NewRequest ''POST'' (ingest_url client) [(''Content-Type'', ''application/json'')] raw of
                   Inl err \<Rightarrow> (Some err, client, w)
                 | Inr request \<Rightarrow>
                     let (response, w) = te_Do env request w
                     in case response of
                          Inl err \<Rightarrow> (Some err, client, w)
                        | Inr response \<Rightarrow>
                            if hr_StatusCode response \<noteq> 202
                            then (Some (ErrorNew ''VPN probe telemetry was not accepted''), client, w)
                            else (None, client, w)))"

end
