(* ===== verification/Mihomo_Controller.thy ===== *)
theory Mihomo_Controller
  imports Mihomo_Bootstrap Telemetry
begin

text \<open>
  \<open>MihomoController\<close>: the local proxy engine is configured over its HTTP interface (\<open>mihomo.go\<close>), its state is
  read back (\<open>mihomo_policy.go\<close>), and its exits pass a guarded local transport (\<open>mihomo_egress.go\<close>). The engine
  answers as it likes. JSON, MIME, sockets, the clock, random texts and the package \<open>proxytransport\<close> are interfaces.
  A state is the controller with the world; the methods hold the mutex to their end.
\<close>

subsection \<open>Interfaces and state\<close>

datatype egress_connection = ProbeConnection | Backend string string

text \<open>
  A gate is known by the name of its probe host, and so are its two counters; the flag says direct.
  \<open>mke_SOCKS5\<close> gives None where the dialer has no \<open>DialContext\<close>. The decoders give None for an error.
\<close>

record ('h, 'w) controller_env =
  mke_bootstrap :: "'w bootstrap_env"
  mke_Do :: "'w transport"
  mke_now :: "'w \<Rightarrow> time \<times> 'w"
  mke_randText :: "'w \<Rightarrow> string \<times> 'w"
  mke_Listen :: "'w \<Rightarrow> int fallible \<times> 'w"
  mke_CloseListener :: "int \<Rightarrow> 'w \<Rightarrow> 'w"
  mke_New :: "(string \<times> string) list \<Rightarrow> (string \<Rightarrow> string \<Rightarrow> 'w \<Rightarrow> egress_connection fallible \<times> 'w) \<Rightarrow> time \<Rightarrow> 'w \<Rightarrow>
    'h fallible \<times> 'w"
  mke_Serve :: "int \<Rightarrow> 'h \<Rightarrow> 'w \<Rightarrow> 'w"
  mke_Ready :: "'h \<Rightarrow> 'w \<Rightarrow> bool \<times> 'w"
  mke_HandlerClose :: "'h \<Rightarrow> 'w \<Rightarrow> error \<times> 'w"
  mke_ServerClose :: "'h \<Rightarrow> 'w \<Rightarrow> error \<times> 'w"
  mke_Load :: "bool \<Rightarrow> string \<Rightarrow> 'w \<Rightarrow> int \<times> 'w"
  mke_Add :: "bool \<Rightarrow> string \<Rightarrow> 'w \<Rightarrow> 'w"
  mke_SOCKS5 :: "string \<Rightarrow> string \<Rightarrow> string \<Rightarrow> ((string \<Rightarrow> 'w \<Rightarrow> error \<times> 'w) option) fallible"
  mke_Marshal :: "json_value \<Rightarrow> string fallible"
  mke_media_type :: "string \<Rightarrow> string option"
  mke_rules :: "string \<Rightarrow> mihomoRule list option"
  mke_proxies :: "string \<Rightarrow> (string \<Rightarrow> mihomoProxyState option) option"
  mke_listener :: "string \<Rightarrow> mihomoListenerState option"
  mke_connections :: "string \<Rightarrow> (int \<times> int \<times> nat) option"
  mke_delay :: "string \<Rightarrow> int option"
  mke_digests :: mihomo_digests

text \<open>A gate, without and with the handler (and the server around it); its counters are in the world.\<close>

record egress_gate =
  eg_probeHost :: string
  eg_proxyPort :: int
  eg_directPort :: int
  eg_proxySecret :: string
  eg_directSecret :: string

record 'h mihomoEgress =
  eg_gate :: egress_gate
  eg_handler :: 'h

record 'h MihomoController =
  mk_egress :: "'h mihomoEgress option"
  mk_origin :: string
  mk_address :: string
  mk_authority :: string
  mk_port :: int
  mk_secret :: string
  mk_applied :: MihomoReadback

definition NewMihomoController :: "string \<Rightarrow> string \<Rightarrow> 'h MihomoController fallible" where
  "NewMihomoController origin secret =
     (case mihomoOrigin origin of
        Inl _ \<Rightarrow> Inl (ErrorNew ''mihomo controller configuration is invalid'')
      | Inr (normalized, port) \<Rightarrow>
          if length secret < 32 \<or> length secret > 4096 \<or> trim_space secret \<noteq> secret \<or>
             contains_any secret [CHR 0x0D, CHR 0x0A, CHR 0x09, CHR '' '']
          then Inl (ErrorNew ''mihomo controller configuration is invalid'')
          else
            let (address, authority) = (case url_Parse normalized of
                    None \<Rightarrow> ([], []) | Some parsed \<Rightarrow> (url_Hostname parsed, url_Host parsed))
            in Inr \<lparr>mk_egress = None, mk_origin = normalized, mk_address = address, mk_authority = authority,
                    mk_port = port, mk_secret = secret, mk_applied = empty_MihomoReadback\<rparr>)"

text \<open>A call whose error is returned at once, without and with a value.\<close>

definition check_step :: "error \<times> 's \<Rightarrow> ('s \<Rightarrow> 'a fallible \<times> 's) \<Rightarrow> 'a fallible \<times> 's" where
  "check_step r f = (case r of (Some err, s) \<Rightarrow> (Inl err, s) | (None, s) \<Rightarrow> f s)"

definition value_step :: "'b fallible \<times> 's \<Rightarrow> ('b \<Rightarrow> 's \<Rightarrow> 'a fallible \<times> 's) \<Rightarrow> 'a fallible \<times> 's" where
  "value_step r f = (case r of (Inl err, s) \<Rightarrow> (Inl err, s) | (Inr x, s) \<Rightarrow> f x s)"

lemma step_simps [simp]:
  "check_step (None, s) f = f s" "check_step (Some err, s) f = (Inl err, s)"
  "value_step (Inr x, s) g = g x s" "value_step (Inl err, s) g = (Inl err, s)"
  by (simp_all add: check_step_def value_step_def)

lemma check_stepE:
  "check_step r f = (Inr y, s') \<Longrightarrow> (\<And>s. r = (None, s) \<Longrightarrow> f s = (Inr y, s') \<Longrightarrow> P) \<Longrightarrow> P"
  by (cases r; cases "fst r") auto

lemma value_stepE:
  "value_step r f = (Inr y, s') \<Longrightarrow> (\<And>x s. r = (Inr x, s) \<Longrightarrow> f x s = (Inr y, s') \<Longrightarrow> P) \<Longrightarrow> P"
  by (cases r; cases "fst r") auto

definition error_of :: "'a fallible \<Rightarrow> error" where
  "error_of r = (case r of Inl err \<Rightarrow> Some err | Inr _ \<Rightarrow> None)"

subsection \<open>Requests\<close>

definition controller_headers :: "'h MihomoController \<Rightarrow> string option \<Rightarrow> (string \<times> string) list" where
  "controller_headers controller body =
     [(''Accept'', ''application/json''), (''Authorization'', ''Bearer '' @ mk_secret controller)] @
     (if body \<noteq> None then [(''Content-Type'', ''application/json'')] else [])"

text \<open>The part of \<open>request\<close> up to the check of the status.\<close>

definition controller_response ::
  "('h, 'w) controller_env \<Rightarrow> 'h MihomoController \<Rightarrow> string \<Rightarrow> string \<Rightarrow> string option \<Rightarrow> int \<Rightarrow> 'w \<Rightarrow>
   http_response fallible \<times> 'w" where
  "controller_response env controller meth path body expectedStatus w =
     (case http_NewRequest meth (mk_origin controller @ path) (controller_headers controller body)
             (case body of None \<Rightarrow> [] | Some raw \<Rightarrow> raw) of
        Inl err \<Rightarrow> (Inl err, w)
      | Inr req \<Rightarrow>
          (case mke_Do env req w of
             (Inl err, w) \<Rightarrow> (Inl err, w)
           | (Inr response, w) \<Rightarrow>
               if hr_StatusCode response \<noteq> expectedStatus
               then (Inl (ErrorNew (''mihomo controller returned HTTP '' @ string_of_int (hr_StatusCode response))), w)
               else (Inr response, w)))"

definition controller_json ::
  "('h, 'w) controller_env \<Rightarrow> (string \<Rightarrow> 'a option) \<Rightarrow> http_response \<Rightarrow> 'a fallible" where
  "controller_json env decode response =
     (if mke_media_type env (hr_Header response ''Content-Type'') \<noteq> Some ''application/json''
      then Inl (ErrorNew ''mihomo controller returned a non-JSON response'')
      else
        let (raw, err) = read_at_most (1048576 + 1) (hr_Body response, hr_BodyErr response)
        in if err \<noteq> None \<or> int (length raw) > 1048576
           then Inl (ErrorNew ''mihomo controller returned an invalid response'')
           else case decode raw of
                  None \<Rightarrow> Inl (ErrorNew ''mihomo controller returned an invalid response'')
                | Some result \<Rightarrow> Inr result)"

text \<open>\<open>request\<close> without and with a result.\<close>

definition controller_request ::
  "('h, 'w) controller_env \<Rightarrow> string \<Rightarrow> string \<Rightarrow> string option \<Rightarrow> int \<Rightarrow> 'h MihomoController \<times> 'w \<Rightarrow>
   error \<times> 'h MihomoController \<times> 'w" where
  "controller_request env meth path body expectedStatus = (\<lambda>(controller, w).
     let (r, w) = controller_response env controller meth path body expectedStatus w in (error_of r, controller, w))"

definition controller_get ::
  "('h, 'w) controller_env \<Rightarrow> (string \<Rightarrow> 'a option) \<Rightarrow> string \<Rightarrow> 'h MihomoController \<times> 'w \<Rightarrow>
   'a fallible \<times> 'h MihomoController \<times> 'w" where
  "controller_get env decode path = (\<lambda>(controller, w).
     let (r, w) = controller_response env controller ''GET'' path None 200 w
     in (case r of Inl err \<Rightarrow> Inl err | Inr response \<Rightarrow> controller_json env decode response, controller, w))"

text \<open>\<open>url.QueryEscape\<close>.\<close>

definition url_QueryEscape :: "string \<Rightarrow> string" where
  "url_QueryEscape s =
     concat (map (\<lambda>c. if is_alnum c \<or> c \<in> set ''-_.~'' then [c] else if c = CHR '' '' then ''+''
                      else [CHR ''%'', upper_hex (of_char c div 16), upper_hex (of_char c mod 16)]) s)"

definition json_text :: "('h, 'w) controller_env \<Rightarrow> json_value \<Rightarrow> string" where
  "json_text env v = (case mke_Marshal env v of Inl _ \<Rightarrow> [] | Inr raw \<Rightarrow> raw)"

definition yamlString :: "('h, 'w) controller_env \<Rightarrow> string \<Rightarrow> string" where
  "yamlString env s = json_text env (JString s)"

subsection \<open>Readback\<close>

definition verifyRules ::
  "('h, 'w) controller_env \<Rightarrow> mihomoRule list \<Rightarrow> 'h MihomoController \<times> 'w \<Rightarrow> error \<times> 'h MihomoController \<times> 'w" where
  "verifyRules env expected s =
     (case controller_get env (mke_rules env) ''/rules'' s of
        (Inl err, s) \<Rightarrow> (Some err, s)
      | (Inr rules, s) \<Rightarrow> (rules_error expected rules, s))"

definition proxyGroup ::
  "('h, 'w) controller_env \<Rightarrow> MihomoConfiguration \<Rightarrow> 'h MihomoController \<times> 'w \<Rightarrow>
   mihomoProxyState fallible \<times> 'h MihomoController \<times> 'w" where
  "proxyGroup env c s =
     (case controller_get env (mke_proxies env) ''/proxies'' s of
        (Inl err, s) \<Rightarrow> (Inl err, s)
      | (Inr proxies, s) \<Rightarrow> (proxyGroup_check c proxies, s))"

text \<open>The optional flag is a list, as the variadic argument is.\<close>

definition verifyListener ::
  "('h, 'w) controller_env \<Rightarrow> int \<Rightarrow> bool list \<Rightarrow> 'h MihomoController \<times> 'w \<Rightarrow> error \<times> 'h MihomoController \<times> 'w" where
  "verifyListener env port ipv6 s =
     (let expectedIPv6 = (length ipv6 = 1 \<and> ipv6 ! 0)
      in case controller_get env (mke_listener env) ''/configs'' s of
           (Inl err, s) \<Rightarrow> (Some err, s)
         | (Inr l, s) \<Rightarrow> (listener_error (mk_address (fst s)) port expectedIPv6 l, s))"

definition closeConnections ::
  "('h, 'w) controller_env \<Rightarrow> 'h MihomoController \<times> 'w \<Rightarrow> error \<times> 'h MihomoController \<times> 'w" where
  "closeConnections env s =
     (case controller_request env ''DELETE'' ''/connections'' None 204 s of
        (Some err, s) \<Rightarrow> (Some err, s)
      | (None, s) \<Rightarrow>
          (case controller_get env (mke_connections env) ''/connections'' s of
             (Inl err, s) \<Rightarrow> (Some err, s)
           | (Inr (_, _, connections), s) \<Rightarrow>
               (if connections \<noteq> 0 then Some (ErrorNew ''mihomo connections are still draining'') else None, s)))"

subsection \<open>The egress gate\<close>

text \<open>The \<open>dial\<close> of \<open>prepareEgress\<close>, for the user that the handler authenticated.\<close>

definition egress_dial ::
  "('h, 'w) controller_env \<Rightarrow> MihomoConfiguration \<Rightarrow> egress_gate \<Rightarrow> string \<Rightarrow> string \<Rightarrow> 'w \<Rightarrow>
   egress_connection fallible \<times> 'w" where
  "egress_dial env c gate user target w =
     (case net_SplitHostPort target of
        None \<Rightarrow> (Inl (ErrorNew ''invalid address''), w)
      | Some (host, port) \<Rightarrow>
          if host = eg_probeHost gate \<and> port = ''80''
          then (Inr ProbeConnection, mke_Add env (user = ''direct'') (eg_probeHost gate) w)
          else case mbe_Resolve (mke_bootstrap env) (protection_cidrs c) (protection_hosts c) host w of
                 (Inl err, w) \<Rightarrow> (Inl err, w)
               | (Inr address, w) \<Rightarrow>
                   let (backend, password) = (if user = ''direct'' then (eg_directPort gate, eg_directSecret gate)
                                              else (eg_proxyPort gate, eg_proxySecret gate));
                       server = net_JoinHostPort ''127.0.0.1'' (string_of_int backend);
                       destination = net_JoinHostPort (addr_String address) port
                   in case mke_SOCKS5 env server user password of
                        Inl err \<Rightarrow> (Inl err, w)
                      | Inr None \<Rightarrow> (Inl (ErrorNew ''SOCKS backend cannot enforce cancellation''), w)
                      | Inr (Some dial) \<Rightarrow>
                          (case dial destination w of
                             (Some err, w) \<Rightarrow> (Inl err, w)
                           | (None, w) \<Rightarrow> (Inr (Backend server destination), w)))"

text \<open>\<open>release\<close> closes the listeners that reserved the two ports.\<close>

definition release_ports :: "('h, 'w) controller_env \<Rightarrow> int list \<Rightarrow> 'w \<Rightarrow> 'w" where
  "release_ports env reserves w = fold (mke_CloseListener env) reserves w"

fun reserve_ports :: "('h, 'w) controller_env \<Rightarrow> int \<Rightarrow> nat \<Rightarrow> int list \<Rightarrow> 'w \<Rightarrow> int list fallible \<times> 'w" where
  "reserve_ports env listener 0 reserves w = (Inr reserves, w)"
| "reserve_ports env listener (Suc n) reserves w =
     (case mke_Listen env w of
        (Inl err, w) \<Rightarrow> (Inl err, mke_CloseListener env listener (release_ports env reserves w))
      | (Inr reserve, w) \<Rightarrow> reserve_ports env listener n (reserves @ [reserve]) w)"

text \<open>The new texts of the gate; \<open>strings.ToLower\<close> of the first.\<close>

definition fresh_texts :: "('h, 'w) controller_env \<Rightarrow> 'w \<Rightarrow> (string \<times> string \<times> string) \<times> 'w" where
  "fresh_texts env w =
     (let (a, w) = mke_randText env w; (b, w) = mke_randText env w; (c, w) = mke_randText env w;
          (d, w) = mke_randText env w; (e, w) = mke_randText env w
      in ((''soha-egress-'' @ to_lower a @ ''.invalid'', b @ c, d @ e), w))"

text \<open>The result has the configuration with its guard and the reserved listeners. \<open>dial\<close> closes over the gate
  that is being built and does not use its handler.\<close>

definition prepareEgress ::
  "('h, 'w) controller_env \<Rightarrow> MihomoConfiguration \<Rightarrow> 'h MihomoController \<times> 'w \<Rightarrow>
   (MihomoConfiguration \<times> int list) fallible \<times> 'h MihomoController \<times> 'w" where
  "prepareEgress env c = (\<lambda>(controller, w).
     let (now, w) = mke_now env w
     in if \<not> now < mc_EnforcementUntil c
        then (Inl (ErrorNew ''mihomo enforcement lease is missing''), controller, w)
        else case mke_Listen env w of
          (Inl err, w) \<Rightarrow> (Inl err, controller, w)
        | (Inr listener, w) \<Rightarrow>
            (case reserve_ports env listener 2 [] w of
               (Inl err, w) \<Rightarrow> (Inl err, controller, w)
             | (Inr reserves, w) \<Rightarrow>
                 let ((probe, proxySecret, directSecret), w) = fresh_texts env w;
                     gate = \<lparr>eg_probeHost = probe, eg_proxyPort = reserves ! 0, eg_directPort = reserves ! 1,
                        eg_proxySecret = proxySecret, eg_directSecret = directSecret\<rparr>;
                     abandon = (\<lambda>w. mke_CloseListener env listener (release_ports env reserves w))
                 in case mbe_NewScope (mke_bootstrap env) (protection_cidrs c) (protection_hosts c) of
                      Some err \<Rightarrow> (Inl err, controller, abandon w)
                    | None \<Rightarrow>
                        (case mke_New env [(''proxy'', proxySecret), (''direct'', directSecret)]
                                (egress_dial env c gate) (mc_EnforcementUntil c) w of
                           (Inl err, w) \<Rightarrow> (Inl err, controller, abandon w)
                         | (Inr handler, w) \<Rightarrow>
                             (Inr (c\<lparr>mc_GuardPort := listener, mc_GuardProxyPort := reserves ! 0,
                                mc_GuardDirectPort := reserves ! 1, mc_GuardProxySecret := proxySecret,
                                mc_GuardDirectSecret := directSecret\<rparr>, reserves),
                              controller\<lparr>mk_egress := Some \<lparr>eg_gate = gate, eg_handler = handler\<rparr>\<rparr>, mke_Serve env listener handler w))))"

definition egress_close :: "('h, 'w) controller_env \<Rightarrow> 'h mihomoEgress option \<Rightarrow> 'w \<Rightarrow> error \<times> 'w" where
  "egress_close env gate w =
     (case gate of
        None \<Rightarrow> (None, w)
      | Some g \<Rightarrow>
          let (handlerErr, w) = mke_HandlerClose env (eg_handler g) w;
              (serverErr, w) = mke_ServerClose env (eg_handler g) w
          in (errors_join [handlerErr, serverErr], w))"

definition egress_ready :: "('h, 'w) controller_env \<Rightarrow> 'h MihomoController \<times> 'w \<Rightarrow> bool \<times> 'h MihomoController \<times> 'w" where
  "egress_ready env = (\<lambda>(controller, w).
     case mk_egress controller of
       None \<Rightarrow> (False, controller, w)
     | Some g \<Rightarrow> let (ready, w) = mke_Ready env (eg_handler g) w in (ready, controller, w))"

definition probe_path :: "string \<Rightarrow> string \<Rightarrow> string" where
  "probe_path name probeHost =
     ''/proxies/'' @ url_PathEscape name @ ''/delay?timeout=2000&url='' @ url_QueryEscape (''http://'' @ probeHost @ ''/'')"

text \<open>One turn of the loop of \<open>verifyEgress\<close>.\<close>

definition verify_probe ::
  "('h, 'w) controller_env \<Rightarrow> string \<Rightarrow> bool \<Rightarrow> string \<Rightarrow> 'h MihomoController \<times> 'w \<Rightarrow> error \<times> 'h MihomoController \<times> 'w" where
  "verify_probe env name direct probeHost = (\<lambda>(controller, w).
     let (before, w) = mke_Load env direct probeHost w
     in case controller_get env (mke_delay env) (probe_path name probeHost) (controller, w) of
          (Inl err, s) \<Rightarrow> (Some err, s)
        | (Inr _, controller, w) \<Rightarrow>
            let (after, w) = mke_Load env direct probeHost w
            in (if after \<le> before
                then Some (ErrorNew ''mihomo guard adapter did not reach the authenticated local transport'') else None,
                controller, w))"

definition verifyEgress ::
  "('h, 'w) controller_env \<Rightarrow> 'h MihomoController \<times> 'w \<Rightarrow> error \<times> 'h MihomoController \<times> 'w" where
  "verifyEgress env s =
     (let (ready, s) = egress_ready env s
      in case mk_egress (fst s) of
           None \<Rightarrow> (Some (ErrorNew ''mihomo egress guard is inactive''), s)
         | Some g \<Rightarrow>
             if \<not> ready then (Some (ErrorNew ''mihomo egress guard is inactive''), s)
             else case verify_probe env mihomoGuardProxyName False (eg_probeHost (eg_gate g)) s of
                    (Some err, s) \<Rightarrow> (Some err, s)
                  | (None, s) \<Rightarrow> verify_probe env mihomoGuardDirectName True (eg_probeHost (eg_gate g)) s)"

subsection \<open>The text of the configuration\<close>

definition text_lines :: "string list \<Rightarrow> string" where
  "text_lines ls = concat (map (\<lambda>l. l @ [CHR 0x0A]) ls)"

definition no_ports :: "string list" where
  "no_ports = [''mixed-port: 0'', ''port: 0'', ''socks-port: 0'', ''redir-port: 0'', ''tproxy-port: 0'']"

definition closed_configuration :: "('h, 'w) controller_env \<Rightarrow> 'h MihomoController \<Rightarrow> string" where
  "closed_configuration env controller =
     text_lines (no_ports @
       [''allow-lan: false'', ''bind-address: '' @ yamlString env (mk_address controller), ''mode: rule'', ''ipv6: false'',
        ''external-controller: '' @ yamlString env (mk_authority controller),
        ''secret: '' @ yamlString env (mk_secret controller), ''tun:'', ''  enable: false'', ''dns:'', ''  enable: false'',
        ''proxies: []'', ''proxy-groups: []'', ''rules:'', ''  - MATCH,REJECT''])"

definition put_payload :: "('h, 'w) controller_env \<Rightarrow> string \<Rightarrow> string" where
  "put_payload env configuration = json_text env (JObject [(''payload'', JString configuration)])"

fun render_hosts ::
  "('h, 'w) controller_env \<Rightarrow> time \<Rightarrow> DNSRecord list \<Rightarrow> 'w \<Rightarrow> string list fallible \<times> 'w" where
  "render_hosts env until [] w = (Inr [], w)"
| "render_hosts env until (record # records) w =
     (let (now, w) = mke_now env w
      in if \<not> now < dns_ExpiresAt record \<or> \<not> until - second < dns_ExpiresAt record \<or> length (dns_Addresses record) = 0
         then (Inl (ErrorNew ''site DNS record expired''), w)
         else case render_hosts env until records w of
                (Inl err, w) \<Rightarrow> (Inl err, w)
              | (Inr others, w) \<Rightarrow>
                  (Inr ((''  '' @ yamlString env (dns_Hostname record) @ '': '' @
                         json_text env (JArray (map JString (dns_Addresses record)))) # others), w))"

definition render_listener :: "string \<Rightarrow> int \<Rightarrow> string \<Rightarrow> string \<Rightarrow> string \<Rightarrow> string list" where
  "render_listener name port target user password =
     [''  - name: '' @ name, ''    type: socks'', ''    listen: 127.0.0.1'', ''    port: '' @ string_of_int port,
      ''    udp: false'', ''    proxy: '' @ target, ''    users:'', ''      - username: '' @ user,
      ''        password: '' @ password]"

definition render_guard ::
  "('h, 'w) controller_env \<Rightarrow> MihomoConfiguration \<Rightarrow> string \<times> string \<times> string \<Rightarrow> string list" where
  "render_guard env c = (\<lambda>(name, user, secret).
     [''  - name: '' @ yamlString env name, ''    type: http'', ''    server: 127.0.0.1'',
      ''    port: '' @ string_of_int (mc_GuardPort c), ''    username: '' @ yamlString env user,
      ''    password: '' @ yamlString env secret])"

fun render_nodes :: "('h, 'w) controller_env \<Rightarrow> mihomo_node list \<Rightarrow> string list fallible" where
  "render_nodes env [] = Inr []"
| "render_nodes env (node # rest) =
     (case mke_Marshal env (JObject node) of
        Inl err \<Rightarrow> Inl err
      | Inr raw \<Rightarrow> (case render_nodes env rest of Inl err \<Rightarrow> Inl err | Inr others \<Rightarrow> Inr ((''  - '' @ raw) # others)))"

definition egress_guard_missing :: "MihomoConfiguration \<Rightarrow> bool" where
  "egress_guard_missing c \<longleftrightarrow>
     mc_GuardPort c < 1 \<or> mc_GuardProxyPort c < 1 \<or> mc_GuardDirectPort c < 1 \<or>
     length (mc_GuardProxySecret c) < 32 \<or> length (mc_GuardDirectSecret c) < 32"

definition render_head :: "('h, 'w) controller_env \<Rightarrow> MihomoConfiguration \<Rightarrow> string \<Rightarrow> string \<Rightarrow> string \<Rightarrow> string list" where
  "render_head env c address authority secret =
     no_ports @
     [''allow-lan: false'', ''bind-address: '' @ yamlString env address, ''mode: rule'', ''log-level: warning'',
      ''ipv6: '' @ (if mihomoIPv6 c then ''true'' else ''false''), ''external-controller: '' @ yamlString env authority,
      ''secret: '' @ yamlString env secret, ''tun:'', ''  enable: false'']"

definition render_dns :: "('h, 'w) controller_env \<Rightarrow> MihomoConfiguration \<Rightarrow> string list" where
  "render_dns env c =
     (if mc_DNSMode c = ''fake_ip''
      then [''dns:'', ''  enable: true'', ''  enhanced-mode: fake-ip'',
            ''  fake-ip-range: '' @ yamlString env (mc_FakeIPRange c), ''  nameserver:'', ''    - system'']
      else [''dns:'', ''  enable: false''])"

definition render_proxies :: "('h, 'w) controller_env \<Rightarrow> MihomoConfiguration \<Rightarrow> string list" where
  "render_proxies env c =
     ''listeners:'' #
     render_listener ''soha-backend-proxy'' (mc_GuardProxyPort c) (yamlString env (mc_SelectorGroup c)) ''proxy''
       (yamlString env (mc_GuardProxySecret c)) @
     render_listener ''soha-backend-direct'' (mc_GuardDirectPort c) ''DIRECT'' ''direct''
       (yamlString env (mc_GuardDirectSecret c)) @
     ''proxies:'' #
     concat (map (render_guard env c)
       [(mihomoGuardProxyName, ''proxy'', mc_GuardProxySecret c), (mihomoGuardDirectName, ''direct'', mc_GuardDirectSecret c)]) @
     (if 0 < length (mc_VPNRoutes c)
      then [''  - name: '' @ yamlString env mihomoVPNProxyName, ''    type: direct'',
            ''    interface-name: '' @ yamlString env (mc_VPNInterface c), ''    ip-version: dual'']
      else [])"

definition render_group :: "('h, 'w) controller_env \<Rightarrow> MihomoConfiguration \<Rightarrow> string list" where
  "render_group env c =
     [''proxy-groups:'', ''  - name: '' @ yamlString env (mc_SelectorGroup c), ''    type: select'', ''    proxies:''] @
     map (\<lambda>node. ''      - '' @ yamlString env (value_text (map_of node ''name''))) (mc_BootstrapNodes c)"

definition render_rules :: "('h, 'w) controller_env \<Rightarrow> MihomoConfiguration \<Rightarrow> string list" where
  "render_rules env c = ''rules:'' # map (\<lambda>rule. ''  - '' @ yamlString env (configurationLine rule)) (mihomoRules c)"

definition renderMihomoConfiguration ::
  "('h, 'w) controller_env \<Rightarrow> MihomoConfiguration \<Rightarrow> string \<Rightarrow> string \<Rightarrow> string \<Rightarrow> string \<Rightarrow> 'w \<Rightarrow> string fallible \<times> 'w" where
  "renderMihomoConfiguration env c subscriptionURL address authority secret w =
     (if validateMihomoConfiguration (Some c) None False \<noteq> None \<or>
         mc_SourceType c = ''manual_node'' \<and> \<not> validMihomoManualNode (mc_ManualNode c) \<or>
         mc_SourceType c \<noteq> ''manual_node'' \<and> \<not> validSubscriptionURL subscriptionURL
      then (Inl (ErrorNew ''unsafe mihomo configuration''), w)
      else
        let (hosts, w) = render_hosts env (mc_EnforcementUntil c) (mc_DNSRecords c) w
        in case hosts of
             Inl err \<Rightarrow> (Inl err, w)
           | Inr hosts \<Rightarrow>
               if egress_guard_missing c then (Inl (ErrorNew ''mihomo egress guard is missing''), w)
               else if length (mc_BootstrapNodes c) = 0
               then (Inl (ErrorNew ''proxy transport nodes were not validated''), w)
               else (case render_nodes env (mc_BootstrapNodes c) of
                       Inl err \<Rightarrow> Inl err
                     | Inr nodes \<Rightarrow>
                         Inr (text_lines (render_head env c address authority secret @
                           (if 0 < length (mc_DNSRecords c) then ''hosts:'' # hosts else []) @ render_dns env c @
                           render_proxies env c @ nodes @ render_group env c @ render_rules env c)), w))"

subsection \<open>Disabling\<close>

definition reject_all :: "mihomoRule list" where
  "reject_all = [mihomo_rule ''Match'' [] ''REJECT'']"

definition controller_disable ::
  "('h, 'w) controller_env \<Rightarrow> 'h MihomoController \<times> 'w \<Rightarrow> error \<times> 'h MihomoController \<times> 'w" where
  "controller_disable env = (\<lambda>(controller, w).
     let (gateErr, w) = egress_close env (mk_egress controller) w;
         controller = controller\<lparr>mk_egress := None\<rparr>;
         raw = put_payload env (closed_configuration env controller);
         (putErr, s) = controller_request env ''PUT'' ''/configs?force=true'' (Some raw) 204 (controller, w);
         (closeErr, s) = closeConnections env s;
         (listenerErr, s) = verifyListener env 0 [] s;
         (rulesErr, s) = verifyRules env reject_all s;
         err = errors_join [gateErr, putErr, closeErr, listenerErr, rulesErr];
         (controller, w) = s
     in if err \<noteq> None then (err, controller, w)
        else (None, controller\<lparr>mk_applied := empty_MihomoReadback\<rparr>, w))"

subsection \<open>Applying a source\<close>

definition choose_proxy :: "mihomoProxyState \<Rightarrow> string \<Rightarrow> string" where
  "choose_proxy selector selected =
     (if selected \<noteq> [] then selected
      else if mps_Now selector \<in> set (mps_All selector) then mps_Now selector else mps_All selector ! 0)"

definition select_path :: "MihomoConfiguration \<Rightarrow> string" where
  "select_path c = ''/proxies/'' @ url_PathEscape (mc_SelectorGroup c)"

definition select_body :: "('h, 'w) controller_env \<Rightarrow> string \<Rightarrow> string" where
  "select_body env selected = json_text env (JObject [(''name'', JString selected)])"

definition open_body :: "('h, 'w) controller_env \<Rightarrow> MihomoConfiguration \<Rightarrow> string" where
  "open_body env c = json_text env (JObject [(''mixed-port'', JNumber (string_of_int (mc_MixedPort c)))])"

text \<open>Opening the ingress and its readback: the end of \<open>applySource\<close>.\<close>

definition open_ingress ::
  "('h, 'w) controller_env \<Rightarrow> MihomoConfiguration \<Rightarrow> string \<Rightarrow> 'h MihomoController \<times> 'w \<Rightarrow>
   MihomoAppStatus fallible \<times> 'h MihomoController \<times> 'w" where
  "open_ingress env c selected s =
     check_step (controller_request env ''PATCH'' ''/configs'' (Some (open_body env c)) 204 s) (\<lambda>s.
     check_step (verifyListener env (mc_MixedPort c) [mihomoIPv6 c] s) (\<lambda>s.
     check_step (verifyRules env (mihomoRules c) s) (\<lambda>s.
       case proxyGroup env c s of
         (Inl _, s) \<Rightarrow> (Inl (ErrorNew ''mihomo selector readback changed''), s)
       | (Inr selector, s) \<Rightarrow>
           if mps_Now selector \<noteq> selected then (Inl (ErrorNew ''mihomo selector readback changed''), s)
           else (Inr (mihomoAppStatus c True selected (mps_All selector)), s))))"

text \<open>The inspection of the staged state, before the ingress is opened.\<close>

definition inspect_staged ::
  "('h, 'w) controller_env \<Rightarrow> MihomoConfiguration \<Rightarrow> string \<Rightarrow> 'h MihomoController \<times> 'w \<Rightarrow>
   MihomoAppStatus fallible \<times> 'h MihomoController \<times> 'w" where
  "inspect_staged env c selected s =
     check_step (verifyRules env (mihomoRules c) s) (\<lambda>s.
     check_step (verifyListener env 0 [mihomoIPv6 c] s) (\<lambda>s.
     check_step (verifyEgress env s) (\<lambda>s.
       open_ingress env c selected s)))"

text \<open>From the upload of the configuration on.\<close>

definition stage_configuration ::
  "('h, 'w) controller_env \<Rightarrow> MihomoConfiguration \<Rightarrow> string \<Rightarrow> string \<Rightarrow> 'h MihomoController \<times> 'w \<Rightarrow>
   MihomoAppStatus fallible \<times> 'h MihomoController \<times> 'w" where
  "stage_configuration env c rendered selectedProxy s =
     check_step (controller_request env ''PUT'' ''/configs?force=true'' (Some (put_payload env rendered)) 204 s) (\<lambda>s.
     value_step (proxyGroup env c s) (\<lambda>selector s.
       let selected = choose_proxy selector selectedProxy
       in if selected \<notin> set (mps_All selector)
          then (Inl (ErrorNew ''mihomo selected proxy is unavailable''), s)
          else check_step (controller_request env ''PUT'' (select_path c) (Some (select_body env selected)) 204 s)
                 (inspect_staged env c selected)))"

text \<open>
  The body of \<open>applySource\<close>; the reserved ports are released before the upload, and once more by the deferred call
  at the end.
\<close>

definition apply_stages ::
  "('h, 'w) controller_env \<Rightarrow> MihomoConfiguration \<Rightarrow> string \<Rightarrow> string \<Rightarrow> 'h MihomoController \<times> 'w \<Rightarrow>
   MihomoAppStatus fallible \<times> 'h MihomoController \<times> 'w" where
  "apply_stages env configuration subscriptionURL selectedProxy s =
     check_step (controller_disable env s) (\<lambda>(controller, w).
     let (prepared, w) = prepareMihomoBootstrap (mke_bootstrap env) configuration subscriptionURL w
     in value_step (prepared, controller, w) (\<lambda>c s.
        value_step (prepareEgress env c s) (\<lambda>(c, reserves) (controller, w).
          let (rendered, w) = renderMihomoConfiguration env c subscriptionURL (mk_address controller)
                (mk_authority controller) (mk_secret controller) w;
              (result, controller, w) =
                value_step (rendered, controller, w) (\<lambda>rendered (controller, w).
                  stage_configuration env c rendered selectedProxy (controller, release_ports env reserves w))
          in (result, controller, release_ports env reserves w))))"

definition applySource ::
  "('h, 'w) controller_env \<Rightarrow> MihomoConfiguration \<Rightarrow> string \<Rightarrow> string \<Rightarrow> 'h MihomoController \<times> 'w \<Rightarrow>
   MihomoAppStatus fallible \<times> 'h MihomoController \<times> 'w" where
  "applySource env configuration subscriptionURL selectedProxy s =
     (let (result, s) = apply_stages env configuration subscriptionURL selectedProxy s
      in case result of
           Inr status \<Rightarrow> (Inr status, s)
         | Inl err \<Rightarrow>
             let (disableErr, s) = controller_disable env s
             in (Inl (case errors_join [Some err, disableErr] of Some joined \<Rightarrow> joined | None \<Rightarrow> err), s))"

definition remember_applied ::
  "('h, 'w) controller_env \<Rightarrow> MihomoConfiguration \<Rightarrow> MihomoAppStatus \<Rightarrow> 'h MihomoController \<Rightarrow> 'h MihomoController" where
  "remember_applied env configuration status controller =
     controller\<lparr>mk_applied := (expectedMihomoReadback (mke_digests env) configuration)
       \<lparr>mrb_SelectedProxy := mas_SelectedProxy status\<rparr>\<rparr>"

definition controller_Apply ::
  "('h, 'w) controller_env \<Rightarrow> MihomoConfiguration \<Rightarrow> 'h MihomoController \<times> 'w \<Rightarrow>
   (MihomoReadback \<times> error) \<times> 'h MihomoController \<times> 'w" where
  "controller_Apply env configuration s =
     (if mc_Mode configuration \<noteq> ''managed_follow'' \<or> mc_ControllerPort configuration \<noteq> mk_port (fst s) \<or>
         validateMihomoConfiguration (Some configuration) None True \<noteq> None
      then ((empty_MihomoReadback, Some (ErrorNew ''mihomo configuration does not match the local controller'')), s)
      else
        let selectedProxy = (if mc_SourceType configuration = ''manual_node'' then mihomoManualProxyName
                             else mc_SelectedProxy configuration)
        in case applySource env configuration (mc_SubscriptionURL configuration) selectedProxy s of
             (Inl err, s) \<Rightarrow> ((empty_MihomoReadback, Some err), s)
           | (Inr status, controller, w) \<Rightarrow>
               let controller = remember_applied env configuration status controller
               in ((mk_applied controller, None), controller, w))"

definition controller_ApplySubscription ::
  "('h, 'w) controller_env \<Rightarrow> MihomoConfiguration \<Rightarrow> string \<Rightarrow> string \<Rightarrow> 'h MihomoController \<times> 'w \<Rightarrow>
   (MihomoAppStatus \<times> error) \<times> 'h MihomoController \<times> 'w" where
  "controller_ApplySubscription env configuration subscriptionURL selectedProxy s =
     (if mc_Mode configuration \<noteq> ''app_subscription'' \<or> mc_ControllerPort configuration \<noteq> mk_port (fst s) \<or>
         validateMihomoConfiguration (Some configuration) None False \<noteq> None \<or> \<not> validSubscriptionURL subscriptionURL \<or>
         selectedProxy \<noteq> [] \<and> \<not> validMihomoName selectedProxy
      then ((empty_MihomoAppStatus, Some (ErrorNew ''mihomo app subscription does not match the local controller'')), s)
      else case applySource env configuration subscriptionURL selectedProxy s of
             (Inl err, s) \<Rightarrow> ((empty_MihomoAppStatus, Some err), s)
           | (Inr status, controller, w) \<Rightarrow> ((status, None), remember_applied env configuration status controller, w))"

definition controller_Verify ::
  "('h, 'w) controller_env \<Rightarrow> MihomoConfiguration option \<Rightarrow> 'h MihomoController \<times> 'w \<Rightarrow>
   error \<times> 'h MihomoController \<times> 'w" where
  "controller_Verify env configuration s =
     (case configuration of
        None \<Rightarrow>
          let (listenerErr, s) = verifyListener env 0 [] s; (rulesErr, s) = verifyRules env reject_all s
          in (errors_join [listenerErr, rulesErr], s)
      | Some c \<Rightarrow>
          let (ready, s) = egress_ready env s
          in if \<not> ready then (Some (ErrorNew ''mihomo egress lease is not active''), s)
             else if validateMihomoConfiguration (Some c) None False \<noteq> None
             then (validateMihomoConfiguration (Some c) None False, s)
             else
               let (r, s) =
                 check_step (verifyListener env (mc_MixedPort c) [mihomoIPv6 c] s) (\<lambda>s.
                 check_step (verifyRules env (mihomoRules c) s) (\<lambda>s.
                 check_step (verifyEgress env s) (\<lambda>s.
                   case proxyGroup env c s of
                     (Inl _, s) \<Rightarrow> (Inl (ErrorNew ''mihomo selected node or VPN binding changed''), s)
                   | (Inr selector, s) \<Rightarrow>
                       if mps_Now selector \<noteq> mrb_SelectedProxy (mk_applied (fst s))
                       then (Inl (ErrorNew ''mihomo selected node or VPN binding changed''), s) else (Inr (), s))))
               in (error_of r, s))"

definition controller_ProxyFlowSnapshot ::
  "('h, 'w) controller_env \<Rightarrow> 'h MihomoController \<times> 'w \<Rightarrow> ProxyFlowSnapshot fallible \<times> 'h MihomoController \<times> 'w" where
  "controller_ProxyFlowSnapshot env s =
     (if mrb_Mode (mk_applied (fst s)) = []
      then (Inr \<lparr>pfs_Active = False, pfs_Engine = [], pfs_Mode = [], pfs_ProfileID = [], pfs_ProfileRevision = 0,
                 pfs_SelectedProxy = [], pfs_UploadTotal = 0, pfs_DownloadTotal = 0, pfs_ActiveConnections = 0\<rparr>, s)
      else case controller_get env (mke_connections env) ''/connections'' s of
             (Inl err, s) \<Rightarrow> (Inl err, s)
           | (Inr (downloadTotal, uploadTotal, connections), s) \<Rightarrow>
               let applied = mk_applied (fst s)
               in if downloadTotal < 0 \<or> uploadTotal < 0 \<or> int connections > 1000000
                  then (Inl (ErrorNew ''mihomo connection counters are invalid''), s)
                  else (Inr \<lparr>pfs_Active = True, pfs_Engine = ''mihomo'', pfs_Mode = mrb_Mode applied,
                             pfs_ProfileID = mrb_ProfileID applied, pfs_ProfileRevision = mrb_ProfileRevision applied,
                             pfs_SelectedProxy = mrb_SelectedProxy applied, pfs_UploadTotal = uploadTotal,
                             pfs_DownloadTotal = downloadTotal, pfs_ActiveConnections = int connections\<rparr>, s))"

text \<open>The controller as the runtime that \<open>CoordinatedExecutor\<close> drives.\<close>

definition controller_runtime :: "('h, 'w) controller_env \<Rightarrow> ('h MihomoController \<times> 'w) MihomoRuntime" where
  "controller_runtime env =
     \<lparr>mrt_Apply = controller_Apply env, mrt_Disable = controller_disable env,
      mrt_ApplySubscription = Some (controller_ApplySubscription env), mrt_Verify = Some (controller_Verify env)\<rparr>"

end
