(* ===== verification/Mihomo_Controller_Safety.thy ===== *)
theory Mihomo_Controller_Safety
  imports Mihomo_Controller
begin

text \<open>
  What the requests of \<open>MihomoController\<close> guarantee, whatever the engine answers: the ingress is opened only right
  after the staged state has been inspected, and a failed application leaves the closing configuration as the last
  change. The requests are observed in the world.
\<close>

subsection \<open>Observing the requests\<close>

type_synonym engine_exchange = "http_request \<times> http_response fallible"

text \<open>\<open>log\<close> shows the exchanges with the engine: a request appends one, and nothing else of the environment does.\<close>

definition observes :: "('w \<Rightarrow> engine_exchange list) \<Rightarrow> ('h, 'w) controller_env \<Rightarrow> bool" where
  "observes log env \<longleftrightarrow>
     (\<forall>q w. log (snd (mke_Do env q w)) = log w @ [(q, fst (mke_Do env q w))]) \<and>
     (\<forall>w. log (snd (mke_now env w)) = log w) \<and> (\<forall>w. log (snd (mke_randText env w)) = log w) \<and>
     (\<forall>w. log (snd (mke_Listen env w)) = log w) \<and> (\<forall>p w. log (mke_CloseListener env p w) = log w) \<and>
     (\<forall>s d t w. log (snd (mke_New env s d t w)) = log w) \<and> (\<forall>p h w. log (mke_Serve env p h w) = log w) \<and>
     (\<forall>h w. log (snd (mke_Ready env h w)) = log w) \<and> (\<forall>h w. log (snd (mke_HandlerClose env h w)) = log w) \<and>
     (\<forall>h w. log (snd (mke_ServerClose env h w)) = log w) \<and> (\<forall>d n w. log (snd (mke_Load env d n w)) = log w) \<and>
     (\<forall>cs hs h w. log (snd (mbe_Resolve (mke_bootstrap env) cs hs h w)) = log w) \<and>
     (\<forall>d u w. log (snd (mbe_Get (mke_bootstrap env) d u w)) = log w)"

lemma observes_Do:
  "observes log env \<Longrightarrow> mke_Do env q w = (r, w') \<Longrightarrow> log w' = log w @ [(q, r)]"
  unfolding observes_def by (metis fst_conv snd_conv)

lemma observes_quiet:
  assumes "observes log env"
  shows "mke_now env w = (t, w') \<Longrightarrow> log w' = log w"
    and "mke_randText env w = (s, w') \<Longrightarrow> log w' = log w"
    and "mke_Listen env w = (l, w') \<Longrightarrow> log w' = log w"
    and "log (mke_CloseListener env p w) = log w"
    and "mke_New env us d u w = (h, w') \<Longrightarrow> log w' = log w"
    and "log (mke_Serve env p k w) = log w"
    and "mke_Ready env k w = (b, w') \<Longrightarrow> log w' = log w"
    and "mke_HandlerClose env k w = (e, w') \<Longrightarrow> log w' = log w"
    and "mke_ServerClose env k w = (e, w') \<Longrightarrow> log w' = log w"
    and "mke_Load env direct n w = (i, w') \<Longrightarrow> log w' = log w"
    and "mbe_Resolve (mke_bootstrap env) cs hs host w = (a, w') \<Longrightarrow> log w' = log w"
    and "mbe_Get (mke_bootstrap env) dial url w = (g, w') \<Longrightarrow> log w' = log w"
  using assms unfolding observes_def by (metis snd_conv)+

definition engine_request :: "'h MihomoController \<Rightarrow> string \<Rightarrow> string \<Rightarrow> string option \<Rightarrow> http_request" where
  "engine_request controller meth path body =
     \<lparr>hq_Method = meth, hq_URL = mk_origin controller @ path, hq_Header = controller_headers controller body,
      hq_Body = (case body of None \<Rightarrow> [] | Some raw \<Rightarrow> raw)\<rparr>"

text \<open>The exchanges from one world to the next use only some methods.\<close>

definition within :: "string set \<Rightarrow> ('w \<Rightarrow> engine_exchange list) \<Rightarrow> 'w \<Rightarrow> 'w \<Rightarrow> bool" where
  "within ms log w w' \<longleftrightarrow> (\<exists>ex. log w' = log w @ ex \<and> (\<forall>e \<in> set ex. hq_Method (fst e) \<in> ms))"

lemma within_same: "log w' = log w \<Longrightarrow> within ms log w w'"
  by (simp add: within_def)

lemma within_trans: "within ms log w w1 \<Longrightarrow> within ms log w1 w2 \<Longrightarrow> within ms log w w2"
proof -
  assume "within ms log w w1" "within ms log w1 w2"
  then obtain a b where "log w1 = log w @ a" "\<forall>e \<in> set a. hq_Method (fst e) \<in> ms"
    "log w2 = log w1 @ b" "\<forall>e \<in> set b. hq_Method (fst e) \<in> ms"
    unfolding within_def by blast
  then show ?thesis unfolding within_def by (intro exI [of _ "a @ b"]) auto
qed

lemma within_mono: "within ms log w w' \<Longrightarrow> ms \<subseteq> ms' \<Longrightarrow> within ms' log w w'"
  unfolding within_def by blast

text \<open>An answer of status 200 with a document that decodes.\<close>

definition answered :: "('h, 'w) controller_env \<Rightarrow> (string \<Rightarrow> 'a option) \<Rightarrow> http_response \<Rightarrow> 'a \<Rightarrow> bool" where
  "answered env decode response v \<longleftrightarrow> hr_StatusCode response = 200 \<and> controller_json env decode response = Inr v"

lemma controller_response_log:
  assumes "observes log env" "controller_response env controller meth path body status w = (r, w')"
  shows "(log w' = log w \<and> url_Parse (mk_origin controller @ path) = None \<and> (\<exists>err. r = Inl err)) \<or>
    (\<exists>a. log w' = log w @ [(engine_request controller meth path body, a)] \<and>
       (\<forall>x. r = Inr x \<longrightarrow> a = Inr x \<and> hr_StatusCode x = status))"
proof (cases "url_Parse (mk_origin controller @ path) = None")
  case True
  then show ?thesis using assms(2) by (auto simp: controller_response_def http_NewRequest_def)
next
  case False
  obtain a w1 where a: "mke_Do env (engine_request controller meth path body) w = (a, w1)" by fastforce
  have "w' = w1" "\<forall>x. r = Inr x \<longrightarrow> a = Inr x \<and> hr_StatusCode x = status"
    using assms(2) False a
    by (auto simp: controller_response_def http_NewRequest_def engine_request_def [symmetric] split: sum.splits if_splits)
  then show ?thesis using observes_Do [OF assms(1) a] by blast
qed

lemma controller_request_log:
  assumes "observes log env" "controller_request env meth path body status (controller, w) = (err, controller', w')"
  shows "controller' = controller \<and>
    ((log w' = log w \<and> url_Parse (mk_origin controller @ path) = None \<and> err \<noteq> None) \<or>
     (\<exists>a. log w' = log w @ [(engine_request controller meth path body, a)] \<and>
        (err = None \<longrightarrow> (\<exists>x. a = Inr x \<and> hr_StatusCode x = status))))"
proof -
  obtain r w1 where r: "controller_response env controller meth path body status w = (r, w1)" by fastforce
  show ?thesis using controller_response_log [OF assms(1) r] assms(2)
    by (cases r) (auto simp: controller_request_def r error_of_def)
qed

lemma controller_get_log:
  assumes "observes log env" "controller_get env decode path (controller, w) = (r, controller', w')"
  shows "controller' = controller \<and> within {''GET''} log w w' \<and>
    (\<forall>v. r = Inr v \<longrightarrow> (\<exists>x. log w' = log w @ [(engine_request controller ''GET'' path None, Inr x)] \<and>
       answered env decode x v))"
proof -
  obtain a w1 where a: "controller_response env controller ''GET'' path None 200 w = (a, w1)" by fastforce
  have w': "controller' = controller" "w' = w1" using assms(2) by (auto simp: controller_get_def a)
  from controller_response_log [OF assms(1) a] show ?thesis
  proof
    assume "log w1 = log w \<and> url_Parse (mk_origin controller @ path) = None \<and> (\<exists>err. a = Inl err)"
    then show ?thesis using assms(2) by (auto simp: controller_get_def a w' within_same)
  next
    assume "\<exists>b. log w1 = log w @ [(engine_request controller ''GET'' path None, b)] \<and>
       (\<forall>x. a = Inr x \<longrightarrow> b = Inr x \<and> hr_StatusCode x = 200)"
    then obtain b where b: "log w1 = log w @ [(engine_request controller ''GET'' path None, b)]"
      "\<And>x. a = Inr x \<Longrightarrow> b = Inr x \<and> hr_StatusCode x = 200" by blast
    have "within {''GET''} log w w1" using b(1) by (auto simp: within_def engine_request_def)
    then show ?thesis using assms(2) b
      by (cases a) (auto simp: controller_get_def w' answered_def \<open>controller_response env controller ''GET'' path None 200 w = (a, w1)\<close>)
  qed
qed

subsection \<open>Readback\<close>

abbreviation get_exchange :: "'h MihomoController \<Rightarrow> string \<Rightarrow> http_response \<Rightarrow> engine_exchange" where
  "get_exchange controller path x \<equiv> (engine_request controller ''GET'' path None, Inr x)"

lemma verifyRules_log:
  assumes "observes log env" "verifyRules env expected (controller, w) = (err, controller', w')"
  shows "controller' = controller \<and> within {''GET''} log w w' \<and>
    (err = None \<longrightarrow> (\<exists>x rules. log w' = log w @ [get_exchange controller ''/rules'' x] \<and>
       answered env (mke_rules env) x rules \<and> rules_error expected rules = None))"
proof -
  obtain r c w1 where r: "controller_get env (mke_rules env) ''/rules'' (controller, w) = (r, c, w1)" by (metis prod_cases3)
  show ?thesis using controller_get_log [OF assms(1) r] assms(2) by (cases r) (auto simp: verifyRules_def r)
qed

lemma proxyGroup_log:
  assumes "observes log env" "proxyGroup env c (controller, w) = (r, controller', w')"
  shows "controller' = controller \<and> within {''GET''} log w w' \<and>
    (\<forall>selector. r = Inr selector \<longrightarrow> (\<exists>x proxies. log w' = log w @ [get_exchange controller ''/proxies'' x] \<and>
       answered env (mke_proxies env) x proxies \<and> proxyGroup_check c proxies = Inr selector))"
proof -
  obtain a k w1 where a: "controller_get env (mke_proxies env) ''/proxies'' (controller, w) = (a, k, w1)" by (metis prod_cases3)
  show ?thesis using controller_get_log [OF assms(1) a] assms(2) by (cases a) (auto simp: proxyGroup_def a)
qed

lemma verifyListener_log:
  assumes "observes log env" "verifyListener env port ipv6 (controller, w) = (err, controller', w')"
  shows "controller' = controller \<and> within {''GET''} log w w' \<and>
    (err = None \<longrightarrow> (\<exists>x l. log w' = log w @ [get_exchange controller ''/configs'' x] \<and>
       answered env (mke_listener env) x l \<and>
       listener_error (mk_address controller) port (length ipv6 = 1 \<and> ipv6 ! 0) l = None))"
proof -
  obtain r c w1 where r: "controller_get env (mke_listener env) ''/configs'' (controller, w) = (r, c, w1)" by (metis prod_cases3)
  show ?thesis using controller_get_log [OF assms(1) r] assms(2)
    by (cases r) (auto simp: verifyListener_def Let_def r)
qed

lemma closeConnections_log:
  assumes "observes log env" "closeConnections env (controller, w) = (err, controller', w')"
  shows "controller' = controller \<and> within {''GET'', ''DELETE''} log w w'"
proof -
  obtain e c w1 where e: "controller_request env ''DELETE'' ''/connections'' None 204 (controller, w) = (e, c, w1)"
    by (metis prod_cases3)
  have first: "c = controller" "within {''GET'', ''DELETE''} log w w1"
    using controller_request_log [OF assms(1) e] by (auto simp: within_def engine_request_def)
  obtain r c2 w2 where r: "controller_get env (mke_connections env) ''/connections'' (c, w1) = (r, c2, w2)" by (metis prod_cases3)
  have second: "c2 = c" "within {''GET'', ''DELETE''} log w1 w2"
    using controller_get_log [OF assms(1) r] by (auto elim: within_mono)
  show ?thesis using assms(2) first second within_trans [OF first(2) second(2)]
    by (cases e; cases r) (auto simp: closeConnections_def e r [unfolded first(1)] split: if_splits)
qed

lemma verify_probe_log:
  assumes "observes log env" "verify_probe env name direct host (controller, w) = (err, controller', w')"
  shows "controller' = controller \<and> within {''GET''} log w w' \<and>
    (err = None \<longrightarrow> (\<exists>x d. log w' = log w @ [get_exchange controller (probe_path name host) x] \<and>
       answered env (mke_delay env) x d))"
proof -
  obtain i w1 where i: "mke_Load env direct host w = (i, w1)" by fastforce
  obtain r c w2 where r: "controller_get env (mke_delay env) (probe_path name host) (controller, w1) = (r, c, w2)"
    by (metis prod_cases3)
  obtain j w3 where j: "mke_Load env direct host w2 = (j, w3)" by fastforce
  have quiet: "log w1 = log w" "log w3 = log w2"
    using observes_quiet(10) [OF assms(1)] i j by blast+
  show ?thesis using controller_get_log [OF assms(1) r] assms(2) quiet
    by (cases r) (auto simp: verify_probe_def i r j within_def)
qed

lemma egress_ready_log:
  "observes log env \<Longrightarrow> egress_ready env (controller, w) = (b, controller', w') \<Longrightarrow> controller' = controller \<and> log w' = log w"
  using observes_quiet(7) by (fastforce simp: egress_ready_def split: option.splits prod.splits)

lemma verifyEgress_log:
  assumes "observes log env" "verifyEgress env (controller, w) = (err, controller', w')"
  shows "controller' = controller \<and> within {''GET''} log w w' \<and>
    (err = None \<longrightarrow> (\<exists>g x y d d'. mk_egress controller = Some g \<and>
       log w' = log w @ [get_exchange controller (probe_path mihomoGuardProxyName (eg_probeHost (eg_gate g))) x,
                         get_exchange controller (probe_path mihomoGuardDirectName (eg_probeHost (eg_gate g))) y] \<and>
       answered env (mke_delay env) x d \<and> answered env (mke_delay env) y d'))"
proof -
  obtain b c w1 where b: "egress_ready env (controller, w) = (b, c, w1)" by (metis prod_cases3)
  have ready: "c = controller" "log w1 = log w" using egress_ready_log [OF assms(1) b] by auto
  show ?thesis
  proof (cases "mk_egress controller")
    case None
    then show ?thesis using assms(2) ready by (auto simp: verifyEgress_def b within_same)
  next
    case (Some g)
    let ?host = "eg_probeHost (eg_gate g)"
    obtain e1 c2 w2 where p: "verify_probe env mihomoGuardProxyName False ?host (controller, w1) = (e1, c2, w2)"
      by (metis prod_cases3)
    obtain e2 c3 w3 where q: "verify_probe env mihomoGuardDirectName True ?host (c2, w2) = (e2, c3, w3)"
      by (metis prod_cases3)
    note probes = verify_probe_log [OF assms(1) p] verify_probe_log [OF assms(1) q]
    have inactive: "\<not> b \<Longrightarrow> err \<noteq> None \<and> controller' = controller \<and> w' = w1"
      using assms(2) by (auto simp: verifyEgress_def b ready(1) Some)
    have one: "b \<Longrightarrow> e1 \<noteq> None \<Longrightarrow> err = e1 \<and> controller' = c2 \<and> w' = w2"
      using assms(2) by (auto simp: verifyEgress_def b ready(1) Some p)
    have both: "b \<Longrightarrow> e1 = None \<Longrightarrow> err = e2 \<and> controller' = c3 \<and> w' = w3"
      using assms(2) by (auto simp: verifyEgress_def b ready(1) Some p q)
    have same: "c2 = controller" "c3 = controller" using probes by auto
    have from_w: "within {''GET''} log w w1" "within {''GET''} log w w2" "within {''GET''} log w w3"
      using probes within_trans within_same ready(2) by metis+
    have found: "\<exists>x y d d'.
       log w3 = log w @ [get_exchange controller (probe_path mihomoGuardProxyName ?host) x,
                         get_exchange controller (probe_path mihomoGuardDirectName ?host) y] \<and>
       answered env (mke_delay env) x d \<and> answered env (mke_delay env) y d'" if "e1 = None" "e2 = None"
    proof -
      obtain x d where x: "log w2 = log w1 @ [get_exchange controller (probe_path mihomoGuardProxyName ?host) x]"
        "answered env (mke_delay env) x d" using probes(1) \<open>e1 = None\<close> by blast
      obtain y d' where y: "log w3 = log w2 @ [get_exchange c2 (probe_path mihomoGuardDirectName ?host) y]"
        "answered env (mke_delay env) y d'" using probes(2) \<open>e2 = None\<close> by blast
      show ?thesis using x y ready(2) same(1) by (intro exI [of _ x] exI [of _ y] exI [of _ d] exI [of _ d']) simp
    qed
    show ?thesis
    proof (cases "b \<and> e1 = None")
      case True
      then have "err = e2" "controller' = controller" "w' = w3" using both same by auto
      then show ?thesis using from_w(3) found True Some by blast
    next
      case False
      then have "err \<noteq> None" "controller' = controller" "w' = w1 \<or> w' = w2" using inactive one same by auto
      then show ?thesis using from_w by blast
    qed
  qed
qed

subsection \<open>Disabling\<close>

definition closing_request :: "('h, 'w) controller_env \<Rightarrow> 'h MihomoController \<Rightarrow> http_request" where
  "closing_request env controller =
     engine_request controller ''PUT'' ''/configs?force=true'' (Some (put_payload env (closed_configuration env controller)))"

lemma engine_request_update [simp]:
  "engine_request (controller\<lparr>mk_egress := g\<rparr>) = engine_request controller"
  "engine_request (controller\<lparr>mk_applied := m\<rparr>) = engine_request controller"
  "closing_request env (controller\<lparr>mk_egress := g\<rparr>) = closing_request env controller"
  "closing_request env (controller\<lparr>mk_applied := m\<rparr>) = closing_request env controller"
  by (auto simp: fun_eq_iff engine_request_def closing_request_def controller_headers_def closed_configuration_def)

lemma request_within:
  assumes "observes log env" "controller_request env meth path body status (controller, w) = (err, controller', w')"
  shows "controller' = controller \<and> within {meth} log w w'"
  using controller_request_log [OF assms] by (auto simp: within_def engine_request_def)

lemma egress_close_log: "observes log env \<Longrightarrow> egress_close env g w = (err, w') \<Longrightarrow> log w' = log w"
  by (cases g) (auto simp: egress_close_def observes_quiet(8,9) split: prod.splits)

text \<open>The upload of the closing configuration is the last exchange that changes something but connections.\<close>

lemma controller_disable_log:
  assumes "observes log env" "controller_disable env (controller, w) = (err, controller', w')"
  shows "(\<exists>m. controller' = controller\<lparr>mk_egress := None, mk_applied := m\<rparr>) \<and> within {''GET'', ''PUT'', ''DELETE''} log w w' \<and>
    (url_Parse (mk_origin controller @ ''/configs?force=true'') \<noteq> None \<longrightarrow>
      (\<exists>a rest. log w' = log w @ (closing_request env controller, a) # rest \<and>
         (\<forall>e \<in> set rest. hq_Method (fst e) \<in> {''GET'', ''DELETE''})))"
proof -
  obtain gateErr w0 where gate: "egress_close env (mk_egress controller) w = (gateErr, w0)" by fastforce
  define k where "k = controller\<lparr>mk_egress := None\<rparr>"
  define raw where "raw = put_payload env (closed_configuration env k)"
  obtain putErr k1 w1 where put: "controller_request env ''PUT'' ''/configs?force=true'' (Some raw) 204 (k, w0) = (putErr, k1, w1)"
    by (metis prod_cases3)
  have k1: "k1 = k" using request_within [OF assms(1) put] by simp
  obtain closeErr k2 w2 where close: "closeConnections env (k, w1) = (closeErr, k2, w2)" by (metis prod_cases3)
  have k2: "k2 = k" "within {''GET'', ''DELETE''} log w1 w2" using closeConnections_log [OF assms(1) close] by auto
  obtain listenerErr k3 w3 where listener: "verifyListener env 0 [] (k, w2) = (listenerErr, k3, w3)" by (metis prod_cases3)
  have k3: "k3 = k" "within {''GET''} log w2 w3" using verifyListener_log [OF assms(1) listener] by auto
  obtain rulesErr k4 w4 where rules: "verifyRules env reject_all (k, w3) = (rulesErr, k4, w4)" by (metis prod_cases3)
  have k4: "k4 = k" "within {''GET''} log w3 w4" using verifyRules_log [OF assms(1) rules] by auto
  have out: "controller_disable env (controller, w) =
      (let e = errors_join [gateErr, putErr, closeErr, listenerErr, rulesErr]
       in if e \<noteq> None then (e, k, w4) else (None, k\<lparr>mk_applied := empty_MihomoReadback\<rparr>, w4))"
    by (simp add: controller_disable_def gate put [unfolded raw_def k_def] close [unfolded k_def] listener [unfolded k_def]
        rules [unfolded k_def] k1 k2(1) k3(1) k4(1) k_def Let_def)
  have w': "w' = w4" "\<exists>m. controller' = controller\<lparr>mk_egress := None, mk_applied := m\<rparr>"
    using assms(2) unfolding out Let_def by (auto simp: k_def split: if_splits intro: exI [of _ "mk_applied controller"])
  have w0: "log w0 = log w" by (rule egress_close_log [OF assms(1) gate])
  have later: "within {''GET'', ''DELETE''} log w1 w4"
    by (rule within_trans [OF k2(2) within_trans [OF within_mono [OF k3(2)] within_mono [OF k4(2)]]]) auto
  have put_log: "within {''PUT''} log w w1"
    using request_within [OF assms(1) put] w0 by (auto simp: within_def)
  have all: "within {''GET'', ''PUT'', ''DELETE''} log w w4"
    by (rule within_trans [OF within_mono [OF put_log] within_mono [OF later]]) auto
  have closing: "engine_request k ''PUT'' ''/configs?force=true'' (Some raw) = closing_request env controller"
    by (simp add: closing_request_def raw_def k_def closed_configuration_def)
  have upload: "\<exists>a. log w1 = log w @ [(closing_request env controller, a)]"
    if "url_Parse (mk_origin controller @ ''/configs?force=true'') \<noteq> None"
    using controller_request_log [OF assms(1) put] that w0 unfolding closing by (auto simp: k_def)
  obtain rest where rest: "log w4 = log w1 @ rest" "\<forall>e \<in> set rest. hq_Method (fst e) \<in> {''GET'', ''DELETE''}"
    using later unfolding within_def by blast
  have "\<exists>a. log w4 = log w @ (closing_request env controller, a) # rest"
    if "url_Parse (mk_origin controller @ ''/configs?force=true'') \<noteq> None"
    using upload [OF that] rest(1) by auto
  then show ?thesis using w' all rest(2) by blast
qed

subsection \<open>The ingress\<close>

text \<open>The six exchanges that inspect the staged configuration: the nodes, the selection, the rules, the listener with
  its port still closed, and the two guards.\<close>

definition inspection ::
  "('h, 'w) controller_env \<Rightarrow> 'h MihomoController \<Rightarrow> MihomoConfiguration \<Rightarrow> string \<Rightarrow> engine_exchange list \<Rightarrow> bool" where
  "inspection env controller c selected ex \<longleftrightarrow>
     (\<exists>nodes proxies selector chosen staged rules configs l host proxied d direct d'.
        ex = [get_exchange controller ''/proxies'' nodes,
              (engine_request controller ''PUT'' (select_path c) (Some (select_body env selected)), Inr chosen),
              get_exchange controller ''/rules'' staged, get_exchange controller ''/configs'' configs,
              get_exchange controller (probe_path mihomoGuardProxyName host) proxied,
              get_exchange controller (probe_path mihomoGuardDirectName host) direct] \<and>
        answered env (mke_proxies env) nodes proxies \<and> proxyGroup_check c proxies = Inr selector \<and>
        selected \<in> set (mps_All selector) \<and> hr_StatusCode chosen = 204 \<and>
        answered env (mke_rules env) staged rules \<and> rules_error (mihomoRules c) rules = None \<and>
        answered env (mke_listener env) configs l \<and> listener_error (mk_address controller) 0 True l = None \<and>
        answered env (mke_delay env) proxied d \<and> answered env (mke_delay env) direct d')"

definition opening_request :: "('h, 'w) controller_env \<Rightarrow> 'h MihomoController \<Rightarrow> MihomoConfiguration \<Rightarrow> http_request" where
  "opening_request env controller c = engine_request controller ''PATCH'' ''/configs'' (Some (open_body env c))"

text \<open>The three exchanges that confirm the opened ingress.\<close>

definition confirmation ::
  "('h, 'w) controller_env \<Rightarrow> 'h MihomoController \<Rightarrow> MihomoConfiguration \<Rightarrow> string \<Rightarrow> MihomoAppStatus \<Rightarrow>
   engine_exchange list \<Rightarrow> bool" where
  "confirmation env controller c selected status ex \<longleftrightarrow>
     (\<exists>configs l staged rules nodes proxies selector.
        ex = [get_exchange controller ''/configs'' configs, get_exchange controller ''/rules'' staged,
              get_exchange controller ''/proxies'' nodes] \<and>
        answered env (mke_listener env) configs l \<and> listener_error (mk_address controller) (mc_MixedPort c) True l = None \<and>
        answered env (mke_rules env) staged rules \<and> rules_error (mihomoRules c) rules = None \<and>
        answered env (mke_proxies env) nodes proxies \<and> proxyGroup_check c proxies = Inr selector \<and>
        mps_Now selector = selected \<and> status = mihomoAppStatus c True selected (mps_All selector))"

lemma open_ingress_log:
  assumes "observes log env" "open_ingress env c selected (controller, w) = (r, controller', w')"
  shows "controller' = controller \<and>
    ((\<exists>e. r = Inl e) \<and> log w' = log w \<or>
     (\<exists>a after. log w' = log w @ (opening_request env controller c, a) # after \<and>
        (\<forall>e \<in> set after. hq_Method (fst e) \<in> {''GET''}) \<and>
        (\<forall>status. r = Inr status \<longrightarrow> confirmation env controller c selected status after)))"
proof -
  obtain e1 k1 w1 where patch: "controller_request env ''PATCH'' ''/configs'' (Some (open_body env c)) 204 (controller, w) = (e1, k1, w1)"
    by (metis prod_cases3)
  obtain e2 k2 w2 where listener: "verifyListener env (mc_MixedPort c) [mihomoIPv6 c] (controller, w1) = (e2, k2, w2)"
    by (metis prod_cases3)
  obtain e3 k3 w3 where rules: "verifyRules env (mihomoRules c) (controller, w2) = (e3, k3, w3)" by (metis prod_cases3)
  obtain g k4 w4 where nodes: "proxyGroup env c (controller, w3) = (g, k4, w4)" by (metis prod_cases3)
  note logs = controller_request_log [OF assms(1) patch] verifyListener_log [OF assms(1) listener]
    verifyRules_log [OF assms(1) rules] proxyGroup_log [OF assms(1) nodes]
  have same: "k1 = controller" "k2 = controller" "k3 = controller" "k4 = controller" using logs by auto
  have gets: "within {''GET''} log w1 w2" "within {''GET''} log w1 w3" "within {''GET''} log w1 w4" "within {''GET''} log w1 w1"
  proof -
    have one: "within {''GET''} log w1 w2" "within {''GET''} log w2 w3" "within {''GET''} log w3 w4" using logs(2-4) by simp_all
    show "within {''GET''} log w1 w2" by (rule one)
    show three: "within {''GET''} log w1 w3" by (rule within_trans [OF one(1,2)])
    show "within {''GET''} log w1 w4" by (rule within_trans [OF three one(3)])
    show "within {''GET''} log w1 w1" by (simp add: within_same)
  qed
  have failed: "e1 \<noteq> None \<Longrightarrow> (\<exists>e. r = Inl e) \<and> controller' = controller \<and> w' = w1"
    using assms(2) by (auto simp: open_ingress_def patch same)
  have opened: "controller' = controller \<and> within {''GET''} log w1 w' \<and>
      (\<forall>status. r = Inr status \<longrightarrow> e2 = None \<and> e3 = None \<and>
         (\<exists>selector. g = Inr selector \<and> mps_Now selector = selected \<and>
            status = mihomoAppStatus c True selected (mps_All selector) \<and> w' = w4))" if "e1 = None"
    using assms(2) gets that
    by (cases e2; cases e3; cases g)
      (auto simp: open_ingress_def patch listener [unfolded same] rules [unfolded same] nodes [unfolded same] same split: if_splits)
  show ?thesis
  proof (cases "log w1 = log w")
    case True
    then have "e1 \<noteq> None" using logs(1) by auto
    then show ?thesis using failed True by auto
  next
    case False
    then obtain a where a: "log w1 = log w @ [(opening_request env controller c, a)]"
      using logs(1) by (auto simp: opening_request_def)
    have "controller' = controller" "within {''GET''} log w1 w'" using failed opened gets(4) by auto
    then obtain after where after: "log w' = log w1 @ after" "\<forall>e \<in> set after. hq_Method (fst e) \<in> {''GET''}"
      unfolding within_def by blast
    have "confirmation env controller c selected status after" if r: "r = Inr status" for status
    proof -
      have none: "e1 = None" using failed r by (cases e1) auto
      note fine = opened [OF none, THEN conjunct2, THEN conjunct2, rule_format, OF r]
      then obtain selector where sel: "g = Inr selector" "mps_Now selector = selected"
        "status = mihomoAppStatus c True selected (mps_All selector)" "w' = w4" by blast
      obtain x l where x: "log w2 = log w1 @ [get_exchange controller ''/configs'' x]" "answered env (mke_listener env) x l"
        "listener_error (mk_address controller) (mc_MixedPort c) True l = None"
        using logs(2) fine by (auto simp: mihomoIPv6_def)
      obtain y rs where y: "log w3 = log w2 @ [get_exchange controller ''/rules'' y]" "answered env (mke_rules env) y rs"
        "rules_error (mihomoRules c) rs = None" using logs(3) fine by auto
      obtain z ps where z: "log w4 = log w3 @ [get_exchange controller ''/proxies'' z]" "answered env (mke_proxies env) z ps"
        "proxyGroup_check c ps = Inr selector" using logs(4) sel(1) by auto
      have "after = [get_exchange controller ''/configs'' x, get_exchange controller ''/rules'' y,
          get_exchange controller ''/proxies'' z]"
        using after(1) sel(4) x(1) y(1) z(1) by simp
      then show ?thesis unfolding confirmation_def using x y z sel by blast
    qed
    then show ?thesis using after a \<open>controller' = controller\<close> by auto
  qed
qed

lemma inspect_staged_log:
  assumes "observes log env" "inspect_staged env c selected (controller, w) = (r, controller', w')"
  shows "controller' = controller \<and>
    ((\<exists>e. r = Inl e) \<and> within {''GET''} log w w' \<or>
     (\<exists>staged rules configs l host proxied d direct d' a after.
        log w' = log w @ [get_exchange controller ''/rules'' staged, get_exchange controller ''/configs'' configs,
          get_exchange controller (probe_path mihomoGuardProxyName host) proxied,
          get_exchange controller (probe_path mihomoGuardDirectName host) direct] @
          (opening_request env controller c, a) # after \<and>
        answered env (mke_rules env) staged rules \<and> rules_error (mihomoRules c) rules = None \<and>
        answered env (mke_listener env) configs l \<and> listener_error (mk_address controller) 0 True l = None \<and>
        answered env (mke_delay env) proxied d \<and> answered env (mke_delay env) direct d' \<and>
        (\<forall>e \<in> set after. hq_Method (fst e) \<in> {''GET''}) \<and>
        (\<forall>status. r = Inr status \<longrightarrow> confirmation env controller c selected status after)))"
proof -
  obtain e1 k1 w1 where rules: "verifyRules env (mihomoRules c) (controller, w) = (e1, k1, w1)" by (metis prod_cases3)
  obtain e2 k2 w2 where listener: "verifyListener env 0 [mihomoIPv6 c] (controller, w1) = (e2, k2, w2)" by (metis prod_cases3)
  obtain e3 k3 w3 where egress: "verifyEgress env (controller, w2) = (e3, k3, w3)" by (metis prod_cases3)
  obtain s k4 w4 where opened: "open_ingress env c selected (controller, w3) = (s, k4, w4)" by (metis prod_cases3)
  note logs = verifyRules_log [OF assms(1) rules] verifyListener_log [OF assms(1) listener] verifyEgress_log [OF assms(1) egress]
    open_ingress_log [OF assms(1) opened]
  have same: "k1 = controller" "k2 = controller" "k3 = controller" "k4 = controller" using logs by auto
  have gets: "within {''GET''} log w w1" "within {''GET''} log w w2" "within {''GET''} log w w3"
  proof -
    have one: "within {''GET''} log w w1" "within {''GET''} log w1 w2" "within {''GET''} log w2 w3" using logs(1-3) by simp_all
    show "within {''GET''} log w w1" by (rule one)
    show two: "within {''GET''} log w w2" by (rule within_trans [OF one(1,2)])
    show "within {''GET''} log w w3" by (rule within_trans [OF two one(3)])
  qed
  show ?thesis
  proof (cases "e1 = None \<and> e2 = None \<and> e3 = None")
    case False
    then have "(\<exists>e. r = Inl e) \<and> controller' = controller \<and> w' \<in> {w1, w2, w3}"
      using assms(2)
      by (cases e1; cases e2; cases e3)
        (auto simp: inspect_staged_def rules listener egress opened same)
    then show ?thesis using gets by auto
  next
    case True
    then have out: "r = s" "controller' = controller" "w' = w4"
      using assms(2) by (auto simp: inspect_staged_def rules listener egress opened same)
    obtain x rs where x: "log w1 = log w @ [get_exchange controller ''/rules'' x]" "answered env (mke_rules env) x rs"
      "rules_error (mihomoRules c) rs = None" using logs(1) True by auto
    obtain y l where y: "log w2 = log w1 @ [get_exchange controller ''/configs'' y]" "answered env (mke_listener env) y l"
      "listener_error (mk_address controller) 0 True l = None" using logs(2) True by (auto simp: mihomoIPv6_def)
    obtain host z1 d z2 d' where z: "log w3 = log w2 @ [get_exchange controller (probe_path mihomoGuardProxyName host) z1,
        get_exchange controller (probe_path mihomoGuardDirectName host) z2]"
      "answered env (mke_delay env) z1 d" "answered env (mke_delay env) z2 d'" using logs(3) True by blast
    show ?thesis
    proof (cases "(\<exists>e. s = Inl e) \<and> log w4 = log w3")
      case True
      then have "within {''GET''} log w w4" using gets(3) by (simp add: within_def)
      then show ?thesis using True out by simp
    next
      case False
      then obtain a after where a: "log w4 = log w3 @ (opening_request env controller c, a) # after"
        "\<forall>e \<in> set after. hq_Method (fst e) \<in> {''GET''}"
        "\<And>status. s = Inr status \<Longrightarrow> confirmation env controller c selected status after"
        using logs(4) by blast
      have trace: "log w' = log w @ [get_exchange controller ''/rules'' x, get_exchange controller ''/configs'' y,
          get_exchange controller (probe_path mihomoGuardProxyName host) z1,
          get_exchange controller (probe_path mihomoGuardDirectName host) z2] @
          (opening_request env controller c, a) # after"
        using out(3) x(1) y(1) z(1) a(1) by simp
      then show ?thesis using x(2,3) y(2,3) z(2,3) a(2,3) out(1,2) by blast
    qed
  qed
qed

text \<open>A run ends before the ingress is opened, or it is opened once, right after the inspection.\<close>

definition opened_once ::
  "('h, 'w) controller_env \<Rightarrow> 'h MihomoController \<Rightarrow> MihomoConfiguration \<Rightarrow> string set \<Rightarrow> MihomoAppStatus fallible \<Rightarrow>
   engine_exchange list \<Rightarrow> bool" where
  "opened_once env controller c later r ex \<longleftrightarrow>
     (\<exists>before checks a after selected.
        ex = before @ checks @ (opening_request env controller c, a) # after \<and>
        (\<forall>e \<in> set before. hq_Method (fst e) \<noteq> ''PATCH'') \<and> inspection env controller c selected checks \<and>
        (\<forall>e \<in> set after. hq_Method (fst e) \<in> later) \<and>
        (\<forall>status. r = Inr status \<longrightarrow> confirmation env controller c selected status after))"

lemma stage_configuration_log:
  assumes "observes log env" "stage_configuration env c rendered selectedProxy (controller, w) = (r, controller', w')"
  shows "controller' = controller \<and>
    ((\<exists>e. r = Inl e) \<and> within {''GET'', ''PUT''} log w w' \<or>
     (\<exists>ex. log w' = log w @ ex \<and> opened_once env controller c {''GET''} r ex))"
proof -
  obtain e1 k1 w1 where put: "controller_request env ''PUT'' ''/configs?force=true'' (Some (put_payload env rendered)) 204
      (controller, w) = (e1, k1, w1)" by (metis prod_cases3)
  obtain g k2 w2 where nodes: "proxyGroup env c (controller, w1) = (g, k2, w2)" by (metis prod_cases3)
  define selected where "selected = (case g of Inl _ \<Rightarrow> [] | Inr s \<Rightarrow> choose_proxy s selectedProxy)"
  obtain e3 k3 w3 where choose: "controller_request env ''PUT'' (select_path c) (Some (select_body env selected)) 204
      (controller, w2) = (e3, k3, w3)" by (metis prod_cases3)
  obtain s k4 w4 where staged: "inspect_staged env c selected (controller, w3) = (s, k4, w4)" by (metis prod_cases3)
  note logs = controller_request_log [OF assms(1) put] proxyGroup_log [OF assms(1) nodes]
    controller_request_log [OF assms(1) choose] inspect_staged_log [OF assms(1) staged]
  have same: "k1 = controller" "k2 = controller" "k3 = controller" "k4 = controller" using logs by auto
  have chosen: "controller_request env ''PUT'' (select_path c) (Some (select_body env (choose_proxy sel selectedProxy))) 204
      (controller, w2) = (e3, controller, w3)" if "g = Inr sel" for sel
    using choose that same(3) by (simp add: selected_def)
  let ?ms = "{''GET'', ''PUT''}"
  have one: "within ?ms log w w1" "within ?ms log w1 w2" "within ?ms log w2 w3"
    using request_within [OF assms(1) put] logs(2) request_within [OF assms(1) choose] by (auto elim: within_mono)
  have two: "within ?ms log w w2" by (rule within_trans [OF one(1,2)])
  have three: "within ?ms log w w3" by (rule within_trans [OF two one(3)])
  show ?thesis
  proof (cases "e1 = None \<and> (\<exists>sel. g = Inr sel \<and> selected \<in> set (mps_All sel)) \<and> e3 = None")
    case False
    then have "(\<exists>e. r = Inl e) \<and> controller' = controller \<and> w' \<in> {w1, w2, w3}"
      using assms(2)
      by (cases e1; cases g; cases e3)
        (auto simp: stage_configuration_def put nodes same selected_def chosen Let_def split: if_splits)
    then show ?thesis using one(1) two three by auto
  next
    case True
    then obtain sel where sel: "g = Inr sel" "selected \<in> set (mps_All sel)" by blast
    have name: "choose_proxy sel selectedProxy = selected" by (simp add: selected_def sel(1))
    have out: "r = s" "controller' = controller" "w' = w4"
      using assms(2) True sel(2) by (auto simp: stage_configuration_def put nodes same sel(1) name choose staged)
    obtain p where p: "log w1 = log w @ [(engine_request controller ''PUT'' ''/configs?force=true'' (Some (put_payload env rendered)), p)]"
      using logs(1) True by auto
    obtain n ps where n: "log w2 = log w1 @ [get_exchange controller ''/proxies'' n]" "answered env (mke_proxies env) n ps"
      "proxyGroup_check c ps = Inr sel" using logs(2) sel(1) by auto
    obtain ch where ch: "log w3 = log w2 @ [(engine_request controller ''PUT'' (select_path c) (Some (select_body env selected)), Inr ch)]"
      "hr_StatusCode ch = 204" using logs(3) True by auto
    show ?thesis
    proof (cases "(\<exists>e. s = Inl e) \<and> within {''GET''} log w3 w4")
      case True
      then have "within ?ms log w w4" using within_trans [OF three within_mono] by blast
      then show ?thesis using True out by simp
    next
      case False
      then obtain staged' rules configs l host proxied d direct d' a after where inner:
        "log w4 = log w3 @ [get_exchange controller ''/rules'' staged', get_exchange controller ''/configs'' configs,
          get_exchange controller (probe_path mihomoGuardProxyName host) proxied,
          get_exchange controller (probe_path mihomoGuardDirectName host) direct] @
          (opening_request env controller c, a) # after"
        "answered env (mke_rules env) staged' rules" "rules_error (mihomoRules c) rules = None"
        "answered env (mke_listener env) configs l" "listener_error (mk_address controller) 0 True l = None"
        "answered env (mke_delay env) proxied d" "answered env (mke_delay env) direct d'"
        "\<forall>e \<in> set after. hq_Method (fst e) \<in> {''GET''}"
        "\<And>status. s = Inr status \<Longrightarrow> confirmation env controller c selected status after"
        using logs(4) by blast
      define checks where "checks = [get_exchange controller ''/proxies'' n,
          (engine_request controller ''PUT'' (select_path c) (Some (select_body env selected)), Inr ch),
          get_exchange controller ''/rules'' staged', get_exchange controller ''/configs'' configs,
          get_exchange controller (probe_path mihomoGuardProxyName host) proxied,
          get_exchange controller (probe_path mihomoGuardDirectName host) direct]"
      have "inspection env controller c selected checks"
        unfolding inspection_def checks_def using n(2,3) sel(2) ch(2) inner(2-7) by blast
      moreover define before where
        "before = [(engine_request controller ''PUT'' ''/configs?force=true'' (Some (put_payload env rendered)), p)]"
      moreover have "log w' = log w @ before @ checks @ (opening_request env controller c, a) # after"
        using out(3) inner(1) p n(1) ch(1) by (simp add: before_def checks_def)
      moreover have "\<forall>e \<in> set before. hq_Method (fst e) \<noteq> ''PATCH''" by (simp add: before_def engine_request_def)
      ultimately show ?thesis using inner(8,9) out unfolding opened_once_def by blast
    qed
  qed
qed

subsection \<open>Preparing\<close>

lemma mihomoBootstrapAddress_log:
  "observes log env \<Longrightarrow> mihomoBootstrapAddress (mke_bootstrap env) host p w = (r, w') \<Longrightarrow> log w' = log w"
  by (auto simp: mihomoBootstrapAddress_def observes_quiet(11) split: option.splits)

lemma pinMihomoNode_log:
  assumes "observes log env" "pinMihomoNode (mke_bootstrap env) node p w = (r, w')"
  shows "log w' = log w"
proof -
  have "log (snd (mihomoBootstrapAddress (mke_bootstrap env) host p w)) = log w" for host
    using mihomoBootstrapAddress_log [OF assms(1)] by (metis prod.collapse)
  then show ?thesis using assms(2)
    by (auto simp: pinMihomoNode_def Let_def split: if_splits option.splits prod.splits sum.splits) (metis snd_conv)+
qed

lemma prepare_nodes_log:
  assumes "observes log env"
  shows "prepare_nodes (mke_bootstrap env) c seen nodes w = (r, w') \<Longrightarrow> log w' = log w"
proof (induction nodes arbitrary: seen w r w')
  case (Cons node rest)
  define name where "name = (case node_string node ''name'' of None \<Rightarrow> [] | Some n \<Rightarrow> n)"
  obtain a w1 where a: "pinMihomoNode (mke_bootstrap env) node (mc_Protection c) w = (a, w1)" by fastforce
  obtain b w2 where b: "prepare_nodes (mke_bootstrap env) c (name # seen) rest w1 = (b, w2)" by fastforce
  have "log w1 = log w" "log w2 = log w1" using pinMihomoNode_log [OF assms a] Cons.IH [OF b] by auto
  then show ?case using Cons.prems
    by (cases a; cases b) (auto simp: Let_def name_def [symmetric] a b split: if_splits)
qed simp

lemma prepareMihomoBootstrap_log:
  assumes "observes log env" "prepareMihomoBootstrap (mke_bootstrap env) c url w = (r, w')"
  shows "log w' = log w \<and> (\<forall>c'. r = Inr c' \<longrightarrow> (\<exists>nodes. c' = c\<lparr>mc_BootstrapNodes := nodes\<rparr>))"
proof -
  have fetch: "log w2 = log w1" if "fetchMihomoSubscription (mke_bootstrap env) u p w1 = (f, w2)" for u p w1 f w2
    using that observes_quiet(12) [OF assms(1)]
    by (auto simp: fetchMihomoSubscription_def Let_def split: if_splits prod.splits sum.splits)
  obtain a w1 where a: "source_nodes (mke_bootstrap env) c url w = (a, w1)" by fastforce
  have first: "log w1 = log w"
    using a fetch by (auto simp: source_nodes_def split: if_splits option.splits prod.splits sum.splits)
  show ?thesis
  proof (cases a)
    case (Inl err)
    then show ?thesis using assms(2) first by (auto simp: prepareMihomoBootstrap_def a)
  next
    case (Inr nodes)
    obtain b w2 where b: "prepare_nodes (mke_bootstrap env) c [] nodes w1 = (b, w2)" by fastforce
    have "log w2 = log w1" by (rule prepare_nodes_log [OF assms(1) b])
    then show ?thesis using assms(2) first
      by (cases b) (auto simp: prepareMihomoBootstrap_def a Inr b simp del: prepare_nodes.simps split: if_splits)
  qed
qed

lemma release_ports_log: "observes log env \<Longrightarrow> log (release_ports env ps w) = log w"
  unfolding release_ports_def by (induction ps arbitrary: w) (simp_all add: observes_quiet(4))

lemma reserve_ports_log:
  assumes "observes log env"
  shows "reserve_ports env listener n ps w = (r, w') \<Longrightarrow> log w' = log w"
proof (induction n arbitrary: ps w)
  case (Suc n)
  obtain a w1 where a: "mke_Listen env w = (a, w1)" by fastforce
  have "log w1 = log w" by (rule observes_quiet(3) [OF assms a])
  then show ?case using Suc.prems Suc.IH
    by (cases a) (auto simp: a observes_quiet(4) [OF assms] release_ports_log [OF assms])
qed simp

lemma fresh_texts_log: "observes log env \<Longrightarrow> fresh_texts env w = (r, w') \<Longrightarrow> log w' = log w"
  by (auto simp: fresh_texts_def Let_def observes_quiet(2) split: prod.splits)

text \<open>What the staging of a configuration looks at is not changed by its nodes and its guard.\<close>

definition same_policy :: "MihomoConfiguration \<Rightarrow> MihomoConfiguration \<Rightarrow> bool" where
  "same_policy c c' \<longleftrightarrow>
     (\<exists>nodes g p d ps ds. c' = c\<lparr>mc_BootstrapNodes := nodes, mc_GuardPort := g, mc_GuardProxyPort := p, mc_GuardDirectPort := d,
        mc_GuardProxySecret := ps, mc_GuardDirectSecret := ds\<rparr>)"

lemma same_policy_guard:
  "same_policy c (c\<lparr>mc_GuardPort := g, mc_GuardProxyPort := p, mc_GuardDirectPort := d, mc_GuardProxySecret := ps,
     mc_GuardDirectSecret := ds\<rparr>)"
  unfolding same_policy_def
  by (rule exI [of _ "mc_BootstrapNodes c"], rule exI [of _ g], rule exI [of _ p], rule exI [of _ d], rule exI [of _ ps],
      rule exI [of _ ds]) simp

lemma same_policy_nodes: "same_policy (c\<lparr>mc_BootstrapNodes := nodes\<rparr>) c' \<Longrightarrow> same_policy c c'"
  unfolding same_policy_def by auto

lemma same_policy_views:
  assumes "same_policy c c'"
  shows "mihomoRules c' = mihomoRules c" "proxyGroup_check c' = proxyGroup_check c" "open_body env c' = open_body env c"
    "select_path c' = select_path c" "mc_MixedPort c' = mc_MixedPort c" "mihomoAppStatus c' = mihomoAppStatus c"
proof -
  have fields: "mc_SelectorGroup c' = mc_SelectorGroup c" "mc_VPNRoutes c' = mc_VPNRoutes c"
    "mc_SourceType c' = mc_SourceType c" "mc_VPNInterface c' = mc_VPNInterface c"
    using assms by (auto simp: same_policy_def)
  have members: "group_member_ok c' = group_member_ok c" "vpn_exit_ok c' = vpn_exit_ok c"
    unfolding group_member_ok_def [abs_def] vpn_exit_ok_def [abs_def] fields by (rule refl)+
  show "proxyGroup_check c' = proxyGroup_check c" unfolding proxyGroup_check_def [abs_def] fields members by (rule refl)
  show "mihomoRules c' = mihomoRules c" "open_body env c' = open_body env c" "select_path c' = select_path c"
    "mc_MixedPort c' = mc_MixedPort c" "mihomoAppStatus c' = mihomoAppStatus c"
    using assms by (auto simp: same_policy_def mihomoRules_def protection_hosts_def protection_cidrs_def open_body_def
        select_path_def mihomoAppStatus_def fun_eq_iff)
qed

lemma prepareEgress_log:
  assumes "observes log env" "prepareEgress env c (controller, w) = (r, controller', w')"
  shows "log w' = log w \<and> (\<exists>g. controller' = controller\<lparr>mk_egress := g\<rparr>) \<and>
    (\<forall>c' ps. r = Inr (c', ps) \<longrightarrow> same_policy c c' \<and> mc_BootstrapNodes c' = mc_BootstrapNodes c)"
proof -
  obtain now w1 where now: "mke_now env w = (now, w1)" by fastforce
  have l1: "log w1 = log w" by (rule observes_quiet(1) [OF assms(1) now])
  have unchanged: "\<exists>g. controller = controller\<lparr>mk_egress := g\<rparr>" by (rule exI [of _ "mk_egress controller"]) simp
  show ?thesis
  proof (cases "now < mc_EnforcementUntil c")
    case False
    then show ?thesis using assms(2) l1 unchanged by (auto simp: prepareEgress_def now)
  next
    case lease: True
    obtain a w2 where a: "mke_Listen env w1 = (a, w2)" by fastforce
    have l2: "log w2 = log w" using observes_quiet(3) [OF assms(1) a] l1 by simp
    show ?thesis
    proof (cases a)
      case (Inl err)
      then show ?thesis using assms(2) l2 lease unchanged by (auto simp: prepareEgress_def now a)
    next
      case (Inr listener)
      obtain b w3 where b: "reserve_ports env listener 2 [] w2 = (b, w3)" by fastforce
      have l3: "log w3 = log w" using reserve_ports_log [OF assms(1) b] l2 by simp
      show ?thesis
      proof (cases b)
        case (Inl err)
        then show ?thesis using assms(2) l3 lease unchanged by (auto simp: prepareEgress_def now a Inr b)
      next
        case (Inr ps)
        obtain probe s d w4 where texts: "fresh_texts env w3 = ((probe, s, d), w4)" by (metis prod_cases4 prod.collapse)
        have l4: "log w4 = log w" using fresh_texts_log [OF assms(1) texts] l3 by simp
        define gate where "gate = \<lparr>eg_probeHost = probe, eg_proxyPort = ps ! 0, eg_directPort = ps ! 1,
            eg_proxySecret = s, eg_directSecret = d\<rparr>"
        obtain h w5 where h: "mke_New env [(''proxy'', s), (''direct'', d)] (egress_dial env c gate) (mc_EnforcementUntil c) w4 = (h, w5)"
          by fastforce
        have l5: "log w5 = log w" using observes_quiet(5) [OF assms(1) h] l4 by simp
        note quiet = l4 l5 observes_quiet(4) [OF assms(1)] observes_quiet(6) [OF assms(1)] release_ports_log [OF assms(1)]
        note run = prepareEgress_def now a \<open>a = Inr listener\<close> b Inr texts h [unfolded gate_def] lease Let_def
        show ?thesis using assms(2) unchanged
          by (cases "mbe_NewScope (mke_bootstrap env) (protection_cidrs c) (protection_hosts c)"; cases h)
            (auto simp: run quiet same_policy_guard simp del: One_nat_def)
      qed
    qed
  qed
qed

lemma render_hosts_log:
  assumes "observes log env"
  shows "render_hosts env until records w = (r, w') \<Longrightarrow> log w' = log w"
proof (induction records arbitrary: w r w')
  case (Cons entry records)
  obtain t w1 where t: "mke_now env w = (t, w1)" by fastforce
  obtain a w2 where a: "render_hosts env until records w1 = (a, w2)" by fastforce
  have "log w1 = log w" "log w2 = log w1" using observes_quiet(1) [OF assms t] Cons.IH [OF a] by auto
  then show ?case using Cons.prems by (cases a) (auto simp: t a Let_def split: if_splits)
qed simp

lemma renderMihomoConfiguration_log:
  assumes "observes log env" "renderMihomoConfiguration env c url address authority secret w = (r, w')"
  shows "log w' = log w"
  using assms render_hosts_log
  by (auto simp: renderMihomoConfiguration_def Let_def split: if_splits prod.splits sum.splits)

subsection \<open>Applying\<close>

lemma opened_once_views:
  assumes "same_policy c c'"
  shows "opened_once env (controller\<lparr>mk_egress := g, mk_applied := m\<rparr>) c' later r ex = opened_once env controller c later r ex"
proof -
  have "inspection env (controller\<lparr>mk_egress := g, mk_applied := m\<rparr>) c' = inspection env controller c"
    "opening_request env (controller\<lparr>mk_egress := g, mk_applied := m\<rparr>) c' = opening_request env controller c"
    "confirmation env (controller\<lparr>mk_egress := g, mk_applied := m\<rparr>) c' = confirmation env controller c"
    unfolding inspection_def [abs_def] opening_request_def confirmation_def [abs_def]
    by (simp_all add: same_policy_views [OF assms])
  then show ?thesis unfolding opened_once_def by simp
qed

lemma opened_once_prefix:
  assumes "opened_once env controller c later r ex" "\<forall>e \<in> set pre. hq_Method (fst e) \<noteq> ''PATCH''"
  shows "opened_once env controller c later r (pre @ ex)"
proof -
  obtain before checks a after selected where parts: "ex = before @ checks @ (opening_request env controller c, a) # after"
    "\<forall>e \<in> set before. hq_Method (fst e) \<noteq> ''PATCH''" "inspection env controller c selected checks"
    "\<forall>e \<in> set after. hq_Method (fst e) \<in> later"
    "\<forall>status. r = Inr status \<longrightarrow> confirmation env controller c selected status after"
    using assms(1) unfolding opened_once_def by blast
  have "pre @ ex = (pre @ before) @ checks @ (opening_request env controller c, a) # after"
    "\<forall>e \<in> set (pre @ before). hq_Method (fst e) \<noteq> ''PATCH''"
    using parts(1,2) assms(2) by auto
  then show ?thesis unfolding opened_once_def using parts(3-5) by blast
qed

lemma opened_once_failed_suffix:
  assumes "opened_once env controller c later (Inl err) ex" "\<forall>e \<in> set rest. hq_Method (fst e) \<in> later'" "later \<subseteq> later'"
  shows "opened_once env controller c later' (Inl err') (ex @ rest)"
proof -
  obtain before checks a after selected where parts: "ex = before @ checks @ (opening_request env controller c, a) # after"
    "\<forall>e \<in> set before. hq_Method (fst e) \<noteq> ''PATCH''" "inspection env controller c selected checks"
    "\<forall>e \<in> set after. hq_Method (fst e) \<in> later"
    using assms(1) unfolding opened_once_def by blast
  have "ex @ rest = before @ checks @ (opening_request env controller c, a) # (after @ rest)"
    "\<forall>e \<in> set (after @ rest). hq_Method (fst e) \<in> later'"
    using parts(1,4) assms(2,3) by auto
  then show ?thesis unfolding opened_once_def using parts(2,3) by blast
qed

lemma apply_stages_log:
  assumes "observes log env" "apply_stages env c url selectedProxy (controller, w) = (r, controller', w')"
  shows "(\<exists>g m. controller' = controller\<lparr>mk_egress := g, mk_applied := m\<rparr>) \<and>
    ((\<exists>e. r = Inl e) \<and> within {''GET'', ''PUT'', ''DELETE''} log w w' \<or>
     (\<exists>ex. log w' = log w @ ex \<and> opened_once env controller c {''GET''} r ex))"
proof -
  let ?ms = "{''GET'', ''PUT'', ''DELETE''}"
  obtain e1 k1 w1 where first: "controller_disable env (controller, w) = (e1, k1, w1)" by (metis prod_cases3)
  obtain m where k1: "k1 = controller\<lparr>mk_egress := None, mk_applied := m\<rparr>"
    using controller_disable_log [OF assms(1) first] by blast
  have s1: "within ?ms log w w1" using controller_disable_log [OF assms(1) first] by blast
  show ?thesis
  proof (cases e1)
    case (Some err)
    then show ?thesis using assms(2) k1 s1 by (auto simp: apply_stages_def first)
  next
    case None
    obtain a w2 where a: "prepareMihomoBootstrap (mke_bootstrap env) c url w1 = (a, w2)" by fastforce
    note prepared = prepareMihomoBootstrap_log [OF assms(1) a]
    have s2: "within ?ms log w w2" using s1 prepared by (simp add: within_def)
    show ?thesis
    proof (cases a)
      case (Inl err)
      then show ?thesis using assms(2) k1 s2 by (auto simp: apply_stages_def first None a)
    next
      case (Inr c1)
      obtain nodes where c1: "c1 = c\<lparr>mc_BootstrapNodes := nodes\<rparr>" using prepared Inr by blast
      obtain b k3 w3 where b: "prepareEgress env c1 (k1, w2) = (b, k3, w3)" by (metis prod_cases3)
      note egress = prepareEgress_log [OF assms(1) b]
      obtain g where g: "k3 = k1\<lparr>mk_egress := g\<rparr>" using egress by blast
      have k3: "k3 = controller\<lparr>mk_egress := g, mk_applied := m\<rparr>" by (simp add: g k1)
      have s3: "within ?ms log w w3" using s2 egress by (simp add: within_def)
      show ?thesis
      proof (cases b)
        case (Inl err)
        then show ?thesis using assms(2) k3 s3 by (auto simp: apply_stages_def first None a \<open>a = Inr c1\<close> b)
      next
        case (Inr gated)
        obtain c2 ports where gated: "gated = (c2, ports)" by fastforce
        have policy: "same_policy c c2" using egress Inr gated c1 same_policy_nodes by blast
        obtain d w4 where d: "renderMihomoConfiguration env c2 url (mk_address k3) (mk_authority k3) (mk_secret k3) w3 = (d, w4)"
          by fastforce
        have l4: "log w4 = log w3" by (rule renderMihomoConfiguration_log [OF assms(1) d])
        note release = release_ports_log [OF assms(1)]
        show ?thesis
        proof (cases d)
          case failed: (Inl err)
          have "r = Inl err" "controller' = k3" "w' = release_ports env ports w4"
            using assms(2) by (auto simp: apply_stages_def first None a \<open>a = Inr c1\<close> b Inr gated d failed Let_def)
          then show ?thesis using k3 s3 l4 by (auto simp: within_def release)
        next
          case rendered: (Inr raw)
          define w5 where "w5 = release_ports env ports w4"
          obtain q k6 w6 where q: "stage_configuration env c2 raw selectedProxy (k3, w5) = (q, k6, w6)" by (metis prod_cases3)
          have out: "r = q" "controller' = k6" "w' = release_ports env ports w6"
            using assms(2)
            by (auto simp: apply_stages_def first None a \<open>a = Inr c1\<close> b Inr gated d rendered q w5_def [symmetric] Let_def)
          have logs: "log w5 = log w3" "log w' = log w6" using l4 by (simp_all add: w5_def out(3) release)
          obtain pre where pre: "log w3 = log w @ pre" "\<forall>e \<in> set pre. hq_Method (fst e) \<in> ?ms" using s3 unfolding within_def by blast
          from stage_configuration_log [OF assms(1) q] have k6: "k6 = k3"
            and staged: "(\<exists>e. q = Inl e) \<and> within {''GET'', ''PUT''} log w5 w6 \<or>
              (\<exists>ex. log w6 = log w5 @ ex \<and> opened_once env k3 c2 {''GET''} q ex)" by auto
          from staged show ?thesis
          proof (elim disjE exE conjE)
            fix e assume e: "q = Inl e" "within {''GET'', ''PUT''} log w5 w6"
            have "within ?ms log w w6"
              by (rule within_trans [OF s3 within_trans [OF within_same within_mono [OF e(2)]]]) (auto simp: logs)
            then show ?thesis using e(1) out k6 k3 logs(2) by (auto simp: within_def)
          next
            fix ex assume ex: "log w6 = log w5 @ ex" "opened_once env k3 c2 {''GET''} q ex"
            have "\<forall>e \<in> set pre. hq_Method (fst e) \<noteq> ''PATCH''" using pre(2) by auto
            from opened_once_prefix [OF ex(2) [unfolded k3 opened_once_views [OF policy]] this]
            have "opened_once env controller c {''GET''} q (pre @ ex)" .
            then show ?thesis using ex(1) pre(1) logs out k6 k3 by auto
          qed
        qed
      qed
    qed
  qed
qed

text \<open>C6: The local ingress of the proxy engine is opened at most once per application, and only right after the engine
  answered an inspection of what was staged: its nodes, the selected node, its rules in their order, its listener with
  no port open, and both guarded exits. A success was confirmed the same way with the port open.\<close>

theorem ingress_opened_after_inspection:
  assumes "observes log env" "applySource env c subscriptionURL selectedProxy (controller, w) = (r, controller', w')"
  shows "\<exists>ex. log w' = log w @ ex \<and>
    ((\<exists>err. r = Inl err) \<and> (\<forall>e \<in> set ex. hq_Method (fst e) \<noteq> ''PATCH'') \<or>
     opened_once env controller c {''GET'', ''PUT'', ''DELETE''} r ex)"
proof -
  let ?ms = "{''GET'', ''PUT'', ''DELETE''}"
  obtain q k1 w1 where q: "apply_stages env c subscriptionURL selectedProxy (controller, w) = (q, k1, w1)" by (metis prod_cases3)
  note stages = apply_stages_log [OF assms(1) q]
  show ?thesis
  proof (cases q)
    case (Inr status)
    then have "r = q" "w' = w1" using assms(2) by (auto simp: applySource_def q)
    then show ?thesis using stages Inr unfolding opened_once_def by blast
  next
    case (Inl err)
    obtain e2 k2 w2 where closing: "controller_disable env (k1, w1) = (e2, k2, w2)" by (metis prod_cases3)
    obtain err' where out: "r = Inl err'" "w' = w2" using assms(2) by (auto simp: applySource_def q Inl closing)
    obtain rest where rest: "log w2 = log w1 @ rest" "\<forall>e \<in> set rest. hq_Method (fst e) \<in> ?ms"
      using controller_disable_log [OF assms(1) closing] unfolding within_def by blast
    from stages show ?thesis
    proof (elim conjE disjE)
      assume "within ?ms log w w1"
      then obtain pre where pre: "log w1 = log w @ pre" "\<forall>e \<in> set pre. hq_Method (fst e) \<in> ?ms" unfolding within_def by blast
      show ?thesis by (rule exI [of _ "pre @ rest"]) (use pre rest out in auto)
    next
      assume "\<exists>ex. log w1 = log w @ ex \<and> opened_once env controller c {''GET''} q ex"
      then obtain ex where ex: "log w1 = log w @ ex" "opened_once env controller c {''GET''} (Inl err) ex" using Inl by blast
      have "opened_once env controller c ?ms r (ex @ rest)"
        unfolding out(1) by (rule opened_once_failed_suffix [OF ex(2) rest(2)]) auto
      then show ?thesis using ex(1) rest(1) out(2) by auto
    qed
  qed
qed

text \<open>C7: When an application fails, at whatever step, the gate is dropped and the last configuration that the engine was
  sent, whatever happened before, is the closing one: no listener, no node, and every connection rejected.\<close>

theorem failed_apply_closes:
  assumes "observes log env" "applySource env c subscriptionURL selectedProxy (controller, w) = (Inl err, controller', w')"
    and "url_Parse (mk_origin controller @ ''/configs?force=true'') \<noteq> None"
  shows "mk_egress controller' = None \<and>
    (\<exists>pre a rest. log w' = log w @ pre @ (closing_request env controller, a) # rest \<and>
       (\<forall>e \<in> set rest. hq_Method (fst e) \<in> {''GET'', ''DELETE''}))"
proof -
  obtain q k1 w1 where q: "apply_stages env c subscriptionURL selectedProxy (controller, w) = (q, k1, w1)" by (metis prod_cases3)
  obtain g m where k1: "k1 = controller\<lparr>mk_egress := g, mk_applied := m\<rparr>" using apply_stages_log [OF assms(1) q] by blast
  have "\<exists>pre. log w1 = log w @ pre" using apply_stages_log [OF assms(1) q] unfolding within_def by blast
  then obtain pre where pre: "log w1 = log w @ pre" by blast
  obtain failure where failure: "q = Inl failure" using assms(2) by (cases q) (auto simp: applySource_def q)
  obtain e2 k2 w2 where closing: "controller_disable env (k1, w1) = (e2, k2, w2)" by (metis prod_cases3)
  have out: "controller' = k2" "w' = w2" using assms(2) by (auto simp: applySource_def q failure closing)
  have "closing_request env k1 = closing_request env controller" by (simp add: k1)
  then obtain a rest where rest: "log w2 = log w1 @ (closing_request env controller, a) # rest"
    "\<forall>e \<in> set rest. hq_Method (fst e) \<in> {''GET'', ''DELETE''}"
    using controller_disable_log [OF assms(1) closing] assms(3) k1 by auto
  have "mk_egress k2 = None" using controller_disable_log [OF assms(1) closing] by auto
  then show ?thesis using rest pre out by auto
qed

subsection \<open>The answer of a success\<close>

lemma stage_configuration_selected:
  assumes "stage_configuration env c rendered selectedProxy s = (Inr status, s')" "selectedProxy \<noteq> []"
  shows "mas_SelectedProxy status = selectedProxy"
proof -
  have opened: "mas_SelectedProxy status = selected" if "open_ingress env c selected s1 = (Inr status, s2)" for selected s1 s2
    using that unfolding open_ingress_def
    by (elim check_stepE) (auto simp: mihomoAppStatus_def split: prod.splits sum.splits if_splits)
  have inspected: "mas_SelectedProxy status = selected" if "inspect_staged env c selected s1 = (Inr status, s2)" for selected s1 s2
    using that unfolding inspect_staged_def by (elim check_stepE) (rule opened)
  have chosen: "choose_proxy selector selectedProxy = selectedProxy" for selector
    using assms(2) by (simp add: choose_proxy_def)
  show ?thesis using assms(1) unfolding stage_configuration_def chosen Let_def
    by (elim check_stepE value_stepE) (auto split: if_splits elim!: check_stepE dest: inspected)
qed

lemma applySource_selected:
  assumes "applySource env c url selectedProxy s = (Inr status, s')" "selectedProxy \<noteq> []"
  shows "mas_SelectedProxy status = selectedProxy"
proof -
  obtain s1 where "apply_stages env c url selectedProxy s = (Inr status, s1)"
    using assms(1) by (auto simp: applySource_def split: prod.splits sum.splits)
  then show ?thesis unfolding apply_stages_def
    by (auto elim!: check_stepE value_stepE split: prod.splits)
      (rule stage_configuration_selected [OF _ assms(2)], assumption)
qed

text \<open>Whatever the controller read back, the readback of a managed application that succeeded is the one that the
  coordinator expects of the configuration, so the coordinator never rejects a success of this runtime.\<close>

theorem controller_success_expected:
  assumes "mrt_Apply (controller_runtime env) c s = ((readback, None), s')"
  shows "readback = expectedMihomoReadback (mke_digests env) c"
proof -
  have guard: "mc_Mode c = ''managed_follow''" "validateMihomoConfiguration (Some c) None True = None"
    using assms by (auto simp: controller_runtime_def controller_Apply_def split: if_splits)
  define selected where
    "selected = (if mc_SourceType c = ''manual_node'' then mihomoManualProxyName else mc_SelectedProxy c)"
  have "mihomo_mode_error c True = None" using guard(2) by (rule validateMihomoConfiguration_stages)
  then have named: "selected \<noteq> []"
    using guard(1) by (auto simp: selected_def mihomo_mode_error_def validMihomoName_def mihomoManualProxyName_def split: if_splits)
  obtain status k w where run: "applySource env c (mc_SubscriptionURL c) selected s = (Inr status, k, w)"
    and out: "readback = mk_applied (remember_applied env c status k)"
    using assms by (auto simp: controller_runtime_def controller_Apply_def selected_def [symmetric] Let_def
        split: if_splits prod.splits sum.splits)
  have "mas_SelectedProxy status = selected" by (rule applySource_selected [OF run named])
  then show ?thesis by (simp add: out remember_applied_def expectedMihomoReadback_def selected_def Let_def)
qed

text \<open>A connection that the gate hands out leads to the probe, or through the backend of the user to an address that
  the protected scope resolved: the engine never gets to resolve the name.\<close>

lemma egress_dials_resolved:
  assumes "egress_dial env c gate user target w = (Inr connection, w')"
  shows "\<exists>host port. net_SplitHostPort target = Some (host, port) \<and>
    (connection = ProbeConnection \<and> host = eg_probeHost gate \<and> port = ''80'' \<or>
     (\<exists>address w1. mbe_Resolve (mke_bootstrap env) (protection_cidrs c) (protection_hosts c) host w = (Inr address, w1) \<and>
        connection = Backend
          (net_JoinHostPort ''127.0.0.1'' (string_of_int (if user = ''direct'' then eg_directPort gate else eg_proxyPort gate)))
          (net_JoinHostPort (addr_String address) port)))"
  using assms
  by (auto simp: egress_dial_def Let_def split: option.splits prod.splits sum.splits if_splits)

subsection \<open>A run\<close>

text \<open>An engine that follows the requests: it answers with the number of requests before. The world counts the probes.\<close>

definition demo_engine :: "http_request \<Rightarrow> engine_exchange list \<times> int \<Rightarrow> http_response fallible \<times> (engine_exchange list \<times> int)" where
  "demo_engine q = (\<lambda>(log, probes).
     let r = Inr \<lparr>hr_StatusCode = (if hq_Method q = ''GET'' then 200 else 204), hr_Header = (\<lambda>_. ''application/json''),
                  hr_Body = [char_of (length log)], hr_BodyErr = None\<rparr>
     in (r, log @ [(q, r)], probes + 1))"

definition demo_step :: "string \<Rightarrow> int" where
  "demo_step body = (case body of [] \<Rightarrow> 0 | c # _ \<Rightarrow> of_char c)"

definition demo_listener :: "string \<Rightarrow> mihomoListenerState option" where
  "demo_listener body =
     Some \<lparr>mls_MixedPort = (if demo_step body > 12 then 7890 else 0), mls_HTTPPort = 0, mls_SOCKSPort = 0, mls_RedirectPort = 0,
           mls_TProxyPort = 0, mls_Mode = ''rule'', mls_AllowLAN = False, mls_BindAddress = ''127.0.0.1'',
           mls_IPv6 = (demo_step body > 4), mls_TunEnable = False\<rparr>"

definition demo_proxies :: "string \<Rightarrow> mihomoProxyState option" where
  "demo_proxies name =
     (if name = ''exit'' then Some (zero_proxy_state\<lparr>mps_Type := ''Selector'', mps_All := [''node-a''], mps_Now := ''node-a''\<rparr>)
      else if name = ''node-a'' then Some (zero_proxy_state\<lparr>mps_Type := ''Trojan''\<rparr>) else None)"

definition demo_nodes :: "(engine_exchange list \<times> int) bootstrap_env" where
  "demo_nodes =
     \<lparr>mbe_NewScope = (\<lambda>_ _. None), mbe_Resolve = (\<lambda>_ _ host w. (Inr (Addr4 0x05060708), w)),
      mbe_Get = (\<lambda>_ _ w. (Inr (200, ''subscription'', None), w)), mbe_document = (\<lambda>_. Some [demo_node]),
      mbe_Dial = (\<lambda>_ w. (None, w))\<rparr>"

definition demo_controller_env :: "(unit, engine_exchange list \<times> int) controller_env" where
  "demo_controller_env =
     \<lparr>mke_bootstrap = demo_nodes, mke_Do = demo_engine, mke_now = (\<lambda>w. (10, w)),
      mke_randText = (\<lambda>w. (''ABCDEFGHIJKLMNOPQRSTUVWXYZ'', w)), mke_Listen = (\<lambda>w. (Inr 5000, w)),
      mke_CloseListener = (\<lambda>_ w. w), mke_New = (\<lambda>_ _ _ w. (Inr (), w)), mke_Serve = (\<lambda>_ _ w. w),
      mke_Ready = (\<lambda>_ w. (True, w)), mke_HandlerClose = (\<lambda>_ w. (None, w)), mke_ServerClose = (\<lambda>_ w. (None, w)),
      mke_Load = (\<lambda>_ _ (log, probes). (probes, log, probes)), mke_Add = (\<lambda>_ _ w. w),
      mke_SOCKS5 = (\<lambda>_ _ _. Inr (Some (\<lambda>_ w. (None, w)))), mke_Marshal = (\<lambda>_. Inr ''x''),
      mke_media_type = Some,
      mke_rules = (\<lambda>body. Some (if demo_step body > 4 then mihomoRules sample_mihomo else reject_all)),
      mke_proxies = (\<lambda>_. Some demo_proxies), mke_listener = demo_listener, mke_connections = (\<lambda>_. Some (0, 0, 0)),
      mke_delay = (\<lambda>_. Some 7), mke_digests = \<lparr>mdg_protection = (\<lambda>_. []), mdg_readback = (\<lambda>_. []), mdg_combined = (\<lambda>_. [])\<rparr>\<rparr>"

definition demo_controller :: "unit MihomoController" where
  "demo_controller =
     \<lparr>mk_egress = None, mk_origin = ''http://127.0.0.1:9090'', mk_address = ''127.0.0.1'', mk_authority = ''127.0.0.1:9090'',
      mk_port = 9090, mk_secret = ''ABCDEFGHIJKLMNOPQRSTUVWXYZABCDEFGHIJKLMNOPQRSTUVWXYZ'', mk_applied = empty_MihomoReadback\<rparr>"

definition demo_configuration :: MihomoConfiguration where
  "demo_configuration =
     sample_mihomo\<lparr>mc_EnforcementUntil := 1000, mc_SubscriptionURL := ''https://s.example/sub''\<rparr>"

lemma demo_observes: "observes fst demo_controller_env"
  by (simp add: observes_def demo_controller_env_def demo_engine_def demo_nodes_def Let_def split: prod.splits)

definition demo_run ::
  "(unit, engine_exchange list \<times> int) controller_env \<Rightarrow>
   MihomoAppStatus fallible \<times> unit MihomoController \<times> engine_exchange list \<times> int" where
  "demo_run env =
     applySource env demo_configuration (mc_SubscriptionURL demo_configuration) ''node-a'' (demo_controller, [], 0)"

lemma demo_success:
  "case demo_run demo_controller_env of (Inl _, _) \<Rightarrow> False | (Inr status, _, log, _) \<Rightarrow>
     mas_SelectedProxy status = ''node-a'' \<and> length (filter (\<lambda>(q, _). hq_Method q = ''PATCH'') log) = 1 \<and> length log = 16"
  by code_simp

theorem ingress_opened_after_inspection_witness:
  "\<exists>status controller log probes. demo_run demo_controller_env = (Inr status, controller, log, probes) \<and>
     mas_SelectedProxy status = ''node-a'' \<and>
     opened_once demo_controller_env demo_controller demo_configuration {''GET'', ''PUT'', ''DELETE''} (Inr status) log"
proof -
  obtain r controller log probes where run: "demo_run demo_controller_env = (r, controller, log, probes)" by (metis prod_cases4)
  obtain status where status: "r = Inr status" "mas_SelectedProxy status = ''node-a''"
    using demo_success by (cases r) (auto simp: run)
  show ?thesis
    using ingress_opened_after_inspection [OF demo_observes run [unfolded demo_run_def]] status run by auto
qed

theorem controller_success_expected_witness:
  "\<exists>readback s. mrt_Apply (controller_runtime demo_controller_env) demo_configuration (demo_controller, [], 0) =
     ((readback, None), s) \<and> readback = expectedMihomoReadback (mke_digests demo_controller_env) demo_configuration"
proof -
  have valid: "mc_Mode demo_configuration = ''managed_follow'' \<and> mc_ControllerPort demo_configuration = 9090 \<and>
      mc_SourceType demo_configuration = [] \<and> mc_SelectedProxy demo_configuration = ''node-a'' \<and>
      mk_port demo_controller = 9090 \<and> validateMihomoConfiguration (Some demo_configuration) None True = None"
    by code_simp
  obtain r controller log probes where run: "demo_run demo_controller_env = (r, controller, log, probes)" by (metis prod_cases4)
  obtain status where status: "r = Inr status" using demo_success by (cases r) (auto simp: run)
  obtain readback s where "mrt_Apply (controller_runtime demo_controller_env) demo_configuration (demo_controller, [], 0) =
      ((readback, None), s)"
    using run [unfolded demo_run_def status] valid by (auto simp: controller_runtime_def controller_Apply_def Let_def)
  then show ?thesis using controller_success_expected by blast
qed

text \<open>An engine that is not running.\<close>

definition broken_engine :: "http_request \<Rightarrow> engine_exchange list \<times> int \<Rightarrow> http_response fallible \<times> (engine_exchange list \<times> int)" where
  "broken_engine q = (\<lambda>(log, probes). let r = Inl (ErrorNew ''connection refused'') in (r, log @ [(q, r)], probes))"

definition broken_env :: "(unit, engine_exchange list \<times> int) controller_env" where
  "broken_env = demo_controller_env\<lparr>mke_Do := broken_engine\<rparr>"

lemma broken_observes: "observes fst broken_env"
  by (simp add: observes_def broken_env_def demo_controller_env_def broken_engine_def demo_nodes_def Let_def split: prod.splits)

lemma broken_failure:
  "(case demo_run broken_env of (Inl _, _, log, _) \<Rightarrow> length log = 8 | (Inr _, _) \<Rightarrow> False) \<and>
   url_Parse (mk_origin demo_controller @ ''/configs?force=true'') \<noteq> None"
  by code_simp

theorem failed_apply_closes_witness:
  "\<exists>err controller log probes. demo_run broken_env = (Inl err, controller, log, probes) \<and> length log = 8 \<and>
     mk_egress controller = None \<and>
     (\<exists>pre a rest. log = pre @ (closing_request broken_env demo_controller, a) # rest \<and>
       (\<forall>e \<in> set rest. hq_Method (fst e) \<in> {''GET'', ''DELETE''}))"
proof -
  obtain r controller log probes where run: "demo_run broken_env = (r, controller, log, probes)" by (metis prod_cases4)
  obtain err where err: "r = Inl err" "length log = 8" using broken_failure by (cases r) (auto simp: run)
  show ?thesis
    using failed_apply_closes [OF broken_observes run [unfolded demo_run_def err(1)]] broken_failure err run by auto
qed

end
