(* ===== verification/Manager_Invariant.thy ===== *)
theory Manager_Invariant
  imports Manager
begin

text \<open>
  Case rules of the manager's building blocks, and the locale \<open>manager_invariant\<close>: a predicate
  that the blocks keep is kept by every operation of the manager. The invariants of the manager
  are interpretations of it.
\<close>

lemma errors_join_ex_Some [simp]: "(\<exists>y. errors_join es = Some y) \<longleftrightarrow> (\<exists>e \<in> set es. \<exists>y. e = Some y)"
  using errors_join_None [of es] by (metis not_None_eq)

subsection \<open>The cleanup record\<close>

lemma begin_cases:
  assumes "beginVPNCleanup env session leases reason (m, w) = (err, m', w')"
  obtains (nothing) "session = [] \<or> leases = []" "err = None" "m' = m" "w' = w"
    | (marked) floor where "session \<noteq> []" "leases \<noteq> []" "m' = m\<lparr>mg_configurationFloor := floor\<rparr>"
      "floor = (mg_configurationFloor m)\<lparr>cf_Version := 1, cf_Identity := floorIdentity env,
         cf_PendingCleanup := Some \<lparr>pvc_SessionID = session, pvc_LeaseIDs = leases, pvc_Reason = reason\<rparr>\<rparr>"
      "saveConfigurationFloor env floor w = (err, w')"
  using assms by (auto simp: beginVPNCleanup_def Let_def split: if_splits prod.splits)

lemma finish_cases:
  assumes "finishVPNCleanup env (m, w) = (err, m', w')"
  obtains (nothing) "cf_PendingCleanup (mg_configurationFloor m) = None" "err = None" "m' = m" "w' = w"
    | (failed) "cf_PendingCleanup (mg_configurationFloor m) \<noteq> None" "err \<noteq> None" "m' = m"
    | (finished) floor where "cf_PendingCleanup (mg_configurationFloor m) \<noteq> None" "err = None"
      "m' = m\<lparr>mg_configurationFloor := floor\<rparr>"
      "floor = (mg_configurationFloor m)\<lparr>cf_PendingCleanup := None\<rparr>"
      "saveConfigurationFloor env floor w = (None, w')"
  using assms by (auto simp: finishVPNCleanup_def Let_def split: if_splits prod.splits)

lemma finish_clears:
  "finishVPNCleanup env (m, w) = (None, m', w') \<Longrightarrow> cf_PendingCleanup (mg_configurationFloor m') = None"
  by (erule finish_cases) auto

lemma remember_cases:
  assumes "rememberConfiguration env desired (m, w) = (err, m', w')"
  obtains (refused) "err \<noteq> None" "m' = m"
    | (same) raw where "err = None" "m' = m" "w' = w"
      "endpointEnforcementPayload (me_codec env) desired = Inr raw"
      "cf_PendingCleanup (mg_configurationFloor m) = None"
      "cf_ConfigurationVersion (mg_configurationFloor m) = cd_ConfigurationVersion desired"
      "cf_PolicyVersion (mg_configurationFloor m) \<le> cd_PolicyVersion desired"
      "cf_Digest (mg_configurationFloor m) = configuration_digest (me_codec env) raw"
    | (newer) raw floor where "err = None" "m' = m\<lparr>mg_configurationFloor := floor\<rparr>"
      "endpointEnforcementPayload (me_codec env) desired = Inr raw"
      "cf_PendingCleanup (mg_configurationFloor m) = None"
      "cf_ConfigurationVersion (mg_configurationFloor m) < cd_ConfigurationVersion desired"
      "cf_PolicyVersion (mg_configurationFloor m) \<le> cd_PolicyVersion desired"
      "0 < cd_ConfigurationVersion desired" "0 < cd_PolicyVersion desired"
      "floor = \<lparr>cf_PendingCleanup = None, cf_Version = 1, cf_Identity = floorIdentity env,
         cf_ConfigurationVersion = cd_ConfigurationVersion desired,
         cf_PolicyVersion = cd_PolicyVersion desired, cf_Digest = configuration_digest (me_codec env) raw\<rparr>"
      "saveConfigurationFloor env floor w = (None, w')"
proof (cases "endpointEnforcementPayload (me_codec env) desired")
  case (Inl e)
  with assms show ?thesis by (intro refused) (auto simp: rememberConfiguration_def)
next
  case (Inr raw)
  let ?floor = "mg_configurationFloor m" and ?digest = "configuration_digest (me_codec env) raw"
  let ?regressed = "cd_ConfigurationVersion desired < 1 \<or> cd_PolicyVersion desired < 1 \<or>
      cd_ConfigurationVersion desired < cf_ConfigurationVersion ?floor \<or>
      cd_PolicyVersion desired < cf_PolicyVersion ?floor \<or>
      cd_ConfigurationVersion desired = cf_ConfigurationVersion ?floor \<and> ?digest \<noteq> cf_Digest ?floor"
  let ?new = "\<lparr>cf_PendingCleanup = None, cf_Version = 1, cf_Identity = floorIdentity env,
       cf_ConfigurationVersion = cd_ConfigurationVersion desired,
       cf_PolicyVersion = cd_PolicyVersion desired, cf_Digest = ?digest\<rparr>"
  obtain serr w1 where save: "saveConfigurationFloor env ?new w = (serr, w1)" by fastforce
  note eq = assms [unfolded rememberConfiguration_def, simplified Let_def Inr prod.case sum.case save]
  show ?thesis
  proof (cases "cf_PendingCleanup ?floor \<noteq> None \<or> ?regressed")
    case True
    with eq show ?thesis by (intro refused) (auto split: if_splits)
  next
    case False
    show ?thesis
    proof (cases "cd_ConfigurationVersion desired = cf_ConfigurationVersion ?floor")
      case True
      with eq False Inr show ?thesis by (intro same [of raw]) simp_all
    next
      case newer_version: False
      show ?thesis
      proof (cases serr)
        case None
        with eq False newer_version Inr save show ?thesis by (intro newer [of ?new raw]) simp_all
      next
        case (Some e)
        with eq False newer_version show ?thesis by (intro refused) auto
      qed
    qed
  qed
qed

text \<open>What is remembered is the configuration: the floor has its version and digest.\<close>

lemma remembered_floor:
  assumes "rememberConfiguration env desired (m, w) = (None, m', w')"
  shows "cf_ConfigurationVersion (mg_configurationFloor m') = cd_ConfigurationVersion desired"
    "cf_PendingCleanup (mg_configurationFloor m') = None"
  using assms by (auto elim!: remember_cases)

subsection \<open>Disconnecting\<close>

lemma disconnect_cases:
  assumes "disconnectLocked env reason (m, w) = ((status, err), m', w')"
  obtains (complete) e w1 w2 where "err = None" "ce_Disable (me_executor env) (mg_executor m, w1) = (None, e, w2)"
      "cf_PendingCleanup (mg_configurationFloor m') = None" "mg_executor m' = e" "mg_disabled m'"
      "mg_cleanupReason m' = []" "mg_leaseIDs m' = []" "mg_sessionUntil m' = zero_time"
      "mg_nextRenewAt m' = zero_time" "mg_appliedVersion m' = 0"
      "mg_status m' = disconnected_status (me_options env)"
    | (incomplete) e w1 localErr w2 where "err \<noteq> None"
      "ce_Disable (me_executor env) (mg_executor m, w1) = (localErr, e, w2)" "mg_executor m' = e"
      "mg_cleanupReason m' = reason" "mg_leaseIDs m' = mg_leaseIDs m"
      "st_SessionID (mg_status m') = st_SessionID (mg_status m)"
      "st_State (mg_status m') = StateDegraded" "mg_disabled m' = (localErr = None)"
      "mg_sessionUntil m' = mg_sessionUntil m"
      "cf_PendingCleanup (mg_configurationFloor m') = None \<or>
       (if st_SessionID (mg_status m) = [] \<or> mg_leaseIDs m = []
        then cf_PendingCleanup (mg_configurationFloor m') = cf_PendingCleanup (mg_configurationFloor m)
        else cf_PendingCleanup (mg_configurationFloor m') =
          Some \<lparr>pvc_SessionID = st_SessionID (mg_status m), pvc_LeaseIDs = mg_leaseIDs m, pvc_Reason = reason\<rparr>)"
proof -
  let ?session = "st_SessionID (mg_status m)" and ?leases = "mg_leaseIDs m"
  let ?left = "\<lambda>m'. cf_PendingCleanup (mg_configurationFloor m') = None \<or>
      (if ?session = [] \<or> ?leases = []
       then cf_PendingCleanup (mg_configurationFloor m') = cf_PendingCleanup (mg_configurationFloor m)
       else cf_PendingCleanup (mg_configurationFloor m') =
         Some \<lparr>pvc_SessionID = ?session, pvc_LeaseIDs = ?leases, pvc_Reason = reason\<rparr>)"
  obtain stateErr m1 w1 where b: "beginVPNCleanup env ?session ?leases reason (m, w) = (stateErr, m1, w1)"
    by (metis prod_cases3)
  obtain localErr e w2 where d: "ce_Disable (me_executor env) (mg_executor m1, w1) = (localErr, e, w2)"
    by (metis prod_cases3)
  have m1: "mg_executor m1 = mg_executor m" "mg_leaseIDs m1 = mg_leaseIDs m" "mg_status m1 = mg_status m"
    "mg_sessionUntil m1 = mg_sessionUntil m" "?left m1"
    using b by (auto elim!: begin_cases)
  obtain remoteErr w3 where r: "revoke_held env ?session ?leases reason w2 = (remoteErr, w3)" by fastforce
  let ?m2 = "m1\<lparr>mg_executor := e\<rparr>"
  obtain ferr m3 w4 where f: "finishVPNCleanup env (?m2, w3) = (ferr, m3, w4)" by (metis prod_cases3)
  have m3: "mg_executor m3 = e" "mg_leaseIDs m3 = mg_leaseIDs m" "mg_status m3 = mg_status m"
    "mg_sessionUntil m3 = mg_sessionUntil m" "?left m3"
    using f m1 by (auto elim!: finish_cases)
  show ?thesis
  proof (cases "localErr = None \<and> remoteErr = None")
    case quiet: True
    show ?thesis
    proof (cases "errors_join [stateErr, ferr] = None")
      case True
      then have "cf_PendingCleanup (mg_configurationFloor m3) = None" using f by (auto dest: finish_clears)
      moreover from assms quiet True have "err = None" "w' = w4"
        "m' = m3\<lparr>mg_disabled := True, mg_cleanupReason := [], mg_leaseIDs := [], mg_sessionUntil := zero_time,
                mg_nextRenewAt := zero_time, mg_appliedVersion := 0,
                mg_status := disconnected_status (me_options env)\<rparr>"
        by (auto simp: disconnectLocked_def Let_def b d r f)
      ultimately show ?thesis using quiet d m1 m3 by (intro complete) auto
    next
      case False
      then obtain j where "errors_join [stateErr, ferr] = Some j" by blast
      with assms quiet have "err \<noteq> None"
        "m' = (degrade ''disconnect_incomplete'' (m3\<lparr>mg_disabled := True\<rparr>))\<lparr>mg_cleanupReason := reason\<rparr>"
        by (auto simp: disconnectLocked_def Let_def b d r f)
      with quiet d m1 m3 show ?thesis by (intro incomplete) auto
    qed
  next
    case False
    with assms have "err \<noteq> None"
      "m' = (degrade ''disconnect_incomplete'' (?m2\<lparr>mg_disabled := localErr = None\<rparr>))\<lparr>mg_cleanupReason := reason\<rparr>"
      by (auto simp: disconnectLocked_def Let_def b d r)
    with d m1 show ?thesis by (intro incomplete) auto
  qed
qed

end
