(* ===== verification/Manager_Histories.thy ===== *)
theory Manager_Histories
  imports Manager_Invariant
begin

text \<open>
  The histories of a manager, the locale \<open>manager_invariant\<close>, and its interpretations: what
  holds of a manager in every history.
\<close>

subsection \<open>Applying a configuration\<close>

definition floor_kept :: "'e Manager \<Rightarrow> 'e Manager \<Rightarrow> bool" where
  "floor_kept m m' \<longleftrightarrow>
     cf_ConfigurationVersion (mg_configurationFloor m') = cf_ConfigurationVersion (mg_configurationFloor m) \<and>
     cf_PolicyVersion (mg_configurationFloor m') = cf_PolicyVersion (mg_configurationFloor m) \<and>
     cf_Digest (mg_configurationFloor m') = cf_Digest (mg_configurationFloor m)"

abbreviation pending :: "'e Manager \<Rightarrow> pendingVPNCleanup option" where
  "pending m \<equiv> cf_PendingCleanup (mg_configurationFloor m)"

lemma floor_kept_trans: "floor_kept m m1 \<Longrightarrow> floor_kept m1 m2 \<Longrightarrow> floor_kept m m2"
  by (simp add: floor_kept_def)

lemma floor_kept_same [simp]: "mg_configurationFloor m' = mg_configurationFloor m \<Longrightarrow> floor_kept m m'"
  by (simp add: floor_kept_def)

lemma begin_kept:
  assumes "beginVPNCleanup env session leases reason (m, w) = (err, m', w')"
  shows "floor_kept m m'" "mg_executor m' = mg_executor m" "mg_cleanupReason m' = mg_cleanupReason m"
    "mg_status m' = mg_status m" "mg_leaseIDs m' = mg_leaseIDs m" "mg_appliedHash m' = mg_appliedHash m"
    "pending m' = None \<or> pending m' = pending m \<or> session \<noteq> [] \<and> leases \<noteq> []"
  using assms by (auto elim!: begin_cases simp: floor_kept_def)

lemma finish_kept:
  assumes "finishVPNCleanup env (m, w) = (err, m', w')"
  shows "floor_kept m m'" "mg_executor m' = mg_executor m" "mg_cleanupReason m' = mg_cleanupReason m"
    "mg_appliedHash m' = mg_appliedHash m"
  using assms by (auto elim!: finish_cases simp: floor_kept_def)

lemma disconnect_kept:
  assumes "disconnectLocked env reason (m, w) = (r, m', w')"
  shows "floor_kept m m'" "mg_appliedHash m' = mg_appliedHash m"
proof -
  let ?session = "st_SessionID (mg_status m)" and ?leases = "mg_leaseIDs m"
  obtain stateErr m1 w1 where b: "beginVPNCleanup env ?session ?leases reason (m, w) = (stateErr, m1, w1)"
    by (metis prod_cases3)
  obtain localErr e w2 where d: "ce_Disable (me_executor env) (mg_executor m1, w1) = (localErr, e, w2)"
    by (metis prod_cases3)
  obtain remoteErr w3 where r: "revoke_held env ?session ?leases reason w2 = (remoteErr, w3)" by fastforce
  obtain ferr m3 w4 where f: "finishVPNCleanup env (m1\<lparr>mg_executor := e\<rparr>, w3) = (ferr, m3, w4)"
    by (metis prod_cases3)
  have "floor_kept m m1" "floor_kept m m3" "mg_appliedHash m1 = mg_appliedHash m" "mg_appliedHash m3 = mg_appliedHash m"
    using begin_kept [OF b] finish_kept [OF f] by (auto simp: floor_kept_def)
  with assms show "floor_kept m m'" "mg_appliedHash m' = mg_appliedHash m"
    by (auto simp: disconnectLocked_def Let_def b d r f floor_kept_def split: if_splits)
qed

lemma applied_state_simps [simp]:
  "mg_executor (applied_state desired hash revoked rerr m) = mg_executor m"
  "mg_configurationFloor (applied_state desired hash revoked rerr m) = mg_configurationFloor m"
  "mg_cleanupReason (applied_state desired hash revoked rerr m) =
     (if rerr = None then mg_cleanupReason m else ''authorization_revoked'')"
  "mg_disabled (applied_state desired hash revoked rerr m) \<longleftrightarrow>
     cd_WireGuard desired = None \<and> cd_Mihomo desired = None"
  "mg_appliedVersion (applied_state desired hash revoked rerr m) = cd_ConfigurationVersion desired"
  "mg_appliedHash (applied_state desired hash revoked rerr m) = hash"
  by (simp_all add: applied_state_def Let_def)

lemma accept_applied_cases:
  assumes "accept_applied env desired hash revoked reportErr (m, w) = (err, m', w')"
    and "\<not> revoked \<Longrightarrow> pending m = None"
  shows "mg_executor m' = mg_executor m" "floor_kept m m'" "pending m' = None \<or> mg_cleanupReason m' \<noteq> []"
proof -
  obtain revokeErr m1 w1 where r: "finish_revocation env revoked (m, w) = (revokeErr, m1, w1)"
    by (metis prod_cases3)
  have m1: "mg_executor m1 = mg_executor m \<and> floor_kept m m1 \<and> (revokeErr = None \<longrightarrow> pending m1 = None)"
  proof (cases revoked)
    case False
    with r assms(2) show ?thesis by (simp add: finish_revocation_def)
  next
    case True
    obtain rerr w2 where v: "revoke_leases env (st_SessionID (mg_status m)) (mg_leaseIDs m)
        ''authorization_revoked'' w = (rerr, w2)" by fastforce
    show ?thesis
    proof (cases rerr)
      case None
      with r True v have f: "finishVPNCleanup env (m, w2) = (revokeErr, m1, w1)" by (simp add: finish_revocation_def)
      then show ?thesis using finish_kept [OF f] finish_clears [of env m w2 m1 w1] by auto
    next
      case (Some e)
      with r True v show ?thesis by (auto simp: finish_revocation_def)
    qed
  qed
  with assms(1) show "mg_executor m' = mg_executor m" "floor_kept m m'"
      "pending m' = None \<or> mg_cleanupReason m' \<noteq> []"
    by (auto simp: accept_applied_def Let_def r floor_kept_def split: option.splits)
qed

lemma reject_disconnects:
  assumes "rejectConfiguration env reason (m, w) = (err, m', w')"
  obtains r m1 where "disconnectLocked env reason (m, w) = (r, m1, w')" "m' = degrade reason m1" "err \<noteq> None"
  using assms by (auto simp: rejectConfiguration_def Let_def split: prod.splits)

text \<open>The session and its leases are kept, and the floor records at most their revocation.\<close>

definition marked :: "'e Manager \<Rightarrow> 'e Manager \<Rightarrow> bool" where
  "marked m m' \<longleftrightarrow>
     st_SessionID (mg_status m') = st_SessionID (mg_status m) \<and> mg_leaseIDs m' = mg_leaseIDs m \<and>
     (pending m' = pending m \<or>
      st_SessionID (mg_status m) \<noteq> [] \<and> mg_leaseIDs m \<noteq> [] \<and>
      pending m' = Some \<lparr>pvc_SessionID = st_SessionID (mg_status m), pvc_LeaseIDs = mg_leaseIDs m,
                        pvc_Reason = ''authorization_revoked''\<rparr>)"

lemma marked_refl [simp]: "marked m m"
  by (simp add: marked_def)

lemma begin_marked:
  "beginVPNCleanup env (st_SessionID (mg_status m)) (mg_leaseIDs m) ''authorization_revoked'' (m, w) = (err, m', w') \<Longrightarrow>
   marked m m'"
  by (erule begin_cases) (simp_all add: marked_def)

lemma apply_desired_cases:
  assumes "apply_desired env desired hash revoked now (m, w) = (err, m', w')"
  obtains (unrecorded) m1 w1 err1 where "revoked" "floor_kept m m1" "mg_executor m1 = mg_executor m"
      "mg_cleanupReason m1 = mg_cleanupReason m" "err \<noteq> None"
      "rejectConfiguration env ''authorization_revoked'' (m1, w1) = (err1, m', w')" "marked m m1"
    | (refused) m1 w1 outcome e w2 w3 err1 where "floor_kept m m1" "err \<noteq> None"
      "ce_Apply (me_executor env) desired now (mg_executor m, w1) = (outcome, e, w2)"
      "ao_Status outcome \<noteq> ''applied''" "mg_executor m1 = e" "mg_cleanupReason m1 = mg_cleanupReason m"
      "rejectConfiguration env ''endpoint_apply_failed'' (m1, w3) = (err1, m', w')" "marked m m1"
    | (applied) m1 w1 outcome e w2 w3 reportErr where "floor_kept m m1"
      "ce_Apply (me_executor env) desired now (mg_executor m, w1) = (outcome, e, w2)"
      "ao_Status outcome = ''applied''" "mg_executor m1 = e" "mg_cleanupReason m1 = mg_cleanupReason m"
      "\<not> revoked \<Longrightarrow> pending m1 = pending m"
      "accept_applied env desired hash revoked reportErr (m1, w3) = (err, m', w')" "marked m m1"
proof -
  obtain begun m1 w1 where b: "(if revoked
      then beginVPNCleanup env (st_SessionID (mg_status m)) (mg_leaseIDs m) ''authorization_revoked'' (m, w)
      else (None, m, w)) = (begun, m1, w1)" by (metis prod_cases3)
  have m1: "floor_kept m m1" "mg_executor m1 = mg_executor m" "mg_cleanupReason m1 = mg_cleanupReason m"
      "\<not> revoked \<Longrightarrow> m1 = m \<and> begun = None" "marked m m1"
    using b by (auto split: if_splits dest: begin_kept begin_marked)
  show ?thesis
  proof (cases begun)
    case (Some e)
    obtain err1 m2 w2 where r: "rejectConfiguration env ''authorization_revoked'' (m1, w1) = (err1, m2, w2)"
      by (metis prod_cases3)
    from assms have "m' = m2" "w' = w2" "err \<noteq> None"
      by (auto simp: apply_desired_def b Some r simp del: if_split_asm)
    with r m1 Some show ?thesis by (intro unrecorded) auto
  next
    case None
    obtain outcome e w2 where a: "ce_Apply (me_executor env) desired now (mg_executor m1, w1) = (outcome, e, w2)"
      by (metis prod_cases3)
    obtain reportErr w3 where p: "rc_Report (me_control env) (report_of desired outcome) w2 = (reportErr, w3)"
      by fastforce
    show ?thesis
    proof (cases "ao_Status outcome = ''applied''")
      case True
      from assms have "accept_applied env desired hash revoked reportErr (m1\<lparr>mg_executor := e\<rparr>, w3) = (err, m', w')"
        by (simp add: apply_desired_def b None a p True Let_def)
      with True a m1 show ?thesis
        by (intro applied [of "m1\<lparr>mg_executor := e\<rparr>"]) (auto simp: floor_kept_def marked_def)
    next
      case False
      let ?m2 = "degrade (fallback (ao_ReasonCode outcome) ''endpoint_apply_failed'') (m1\<lparr>mg_executor := e\<rparr>)"
      obtain err1 m3 w4 where r: "rejectConfiguration env ''endpoint_apply_failed'' (?m2, w3) = (err1, m3, w4)"
        by (metis prod_cases3)
      from assms False have "m' = m3" "w' = w4" "err \<noteq> None"
        by (auto simp: apply_desired_def b None a p Let_def r)
      with r a m1 False show ?thesis by (intro refused [of ?m2]) (auto simp: floor_kept_def marked_def)
    qed
  qed
qed

subsection \<open>Invariants of the operations\<close>

text \<open>The configuration the manager applies is the one the floor has just remembered.\<close>

definition remembered :: "ConfigurationDesired \<Rightarrow> 'e Manager \<Rightarrow> bool" where
  "remembered desired m \<longleftrightarrow>
     cf_ConfigurationVersion (mg_configurationFloor m) = cd_ConfigurationVersion desired \<and> pending m = None"

definition same_session :: "'e Manager \<Rightarrow> 'e Manager \<Rightarrow> bool" where
  "same_session m m' \<longleftrightarrow>
     st_SessionID (mg_status m') = st_SessionID (mg_status m) \<and> mg_leaseIDs m' = mg_leaseIDs m"

lemma applyDesiredStatus_session [simp]: "st_SessionID (applyDesiredStatus desired status) = st_SessionID status"
  by (simp add: applyDesiredStatus_def Let_def split: option.splits list.splits)

text \<open>
  \<open>P\<close> reads the executor, the floor, the cleanup that is due, and while one is due, the session
  and its leases. It is kept by a disconnect, by
  remembering a configuration, by applying a remembered one, by a verification and by the
  operations on the app subscription.
\<close>

locale manager_invariant =
  fixes env :: "('e, 'w) manager_env" and P :: "'e Manager \<Rightarrow> bool"
  assumes reads: "P m \<Longrightarrow> mg_executor m' = mg_executor m \<Longrightarrow>
      mg_configurationFloor m' = mg_configurationFloor m \<Longrightarrow> mg_cleanupReason m' = mg_cleanupReason m \<Longrightarrow>
      mg_cleanupReason m = [] \<or> same_session m m' \<Longrightarrow> P m'"
    and disconnects: "P m \<Longrightarrow> reason \<noteq> [] \<Longrightarrow> disconnectLocked env reason (m, w) = (r, m', w') \<Longrightarrow> P m'"
    and remembers: "P m \<Longrightarrow> rememberConfiguration env desired (m, w) = (err, m', w') \<Longrightarrow> P m'"
    and verifies: "P m \<Longrightarrow> ce_Verify (me_executor env) = Some verify \<Longrightarrow>
      verify desired now (mg_executor m, w) = (outcome, e, w') \<Longrightarrow> P (m\<lparr>mg_executor := e\<rparr>)"
    and applies: "P m \<Longrightarrow> remembered desired m \<Longrightarrow>
      apply_desired env desired hash revoked now (m, w) = (err, m', w') \<Longrightarrow> P m'"
    and app: "P m \<Longrightarrow> me_App env = Some coordinator \<Longrightarrow>
      op \<in> {mac_ConfigureMihomoApp coordinator url, mac_SelectMihomoApp coordinator url,
            mac_RefreshMihomoApp coordinator, mac_ClearMihomoApp coordinator} \<Longrightarrow>
      op (mg_executor m, w) = (result, e, w') \<Longrightarrow> P (m\<lparr>mg_executor := e\<rparr>)"
begin

lemma P_update: "P m \<Longrightarrow> st_SessionID (f (mg_status m)) = st_SessionID (mg_status m) \<Longrightarrow> P (update f m)"
  by (erule reads) (simp_all add: same_session_def)

lemma P_degrade [intro]: "P m \<Longrightarrow> P (degrade reason m)"
  by (erule reads) (simp_all add: same_session_def)

lemma P_desired [intro]: "P m \<Longrightarrow> P (update (applyDesiredStatus desired) m)"
  by (erule P_update) simp

lemma P_reject:
  assumes "P m" "reason \<noteq> []" "rejectConfiguration env reason (m, w) = (err, m', w')"
  shows "P m'"
  using assms(3) by (rule reject_disconnects) (use assms disconnects in blast)

lemma P_cleanupFailed: "P m \<Longrightarrow> cleanupFailedVPN env (m, w) = (err, m', w') \<Longrightarrow> P m'"
  by (auto simp: cleanupFailedVPN_def Let_def split: prod.splits
      elim!: disconnects [of m "''connect_failed''", rotated 2])

lemma P_intervals: "P m \<Longrightarrow> P (applyRuntimeIntervals i m)"
  by (erule reads) (auto simp: applyRuntimeIntervals_def same_session_def split: option.split)

lemma P_enforceExpiry:
  assumes "P m" "enforceExpiry env (m, w) = (m', w')"
  shows "P m'"
proof -
  obtain now w1 where t: "me_now env w = (now, w1)" by fastforce
  show ?thesis
    using assms disconnects [OF assms(1), of "''lease_expired''"]
      disconnects [OF assms(1), of "''configuration_expired''"]
    by (auto simp: enforceExpiry_def t Let_def split: if_splits prod.splits)
qed

lemma P_verify_applied:
  assumes "P m" "verify_applied env desired now (m, w) = (err, m', w')"
  shows "P m'"
proof (cases "ce_Verify (me_executor env)")
  case None
  with assms show ?thesis by (auto simp: verify_applied_def)
next
  case (Some verify)
  obtain outcome e w1 where v: "verify desired now (mg_executor m, w) = (outcome, e, w1)" by (metis prod_cases3)
  from verifies [OF assms(1) Some v] have P1: "P (m\<lparr>mg_executor := e\<rparr>)" .
  show ?thesis
  proof (cases "ao_Status outcome = ''applied''")
    case True
    with assms Some v have "m' = update (applyDesiredStatus desired) (m\<lparr>mg_executor := e\<rparr>)"
      by (simp add: verify_applied_def)
    with P1 show ?thesis by auto
  next
    case False
    let ?m1 = "degrade (fallback (ao_ReasonCode outcome) ''endpoint_readback_mismatch'')
        (m\<lparr>mg_executor := e, mg_appliedVersion := 0\<rparr>)"
    obtain reportErr w2 where p: "rc_Report (me_control env) (report_of desired outcome) w1 = (reportErr, w2)"
      by fastforce
    obtain err1 m2 w3 where r: "rejectConfiguration env ''endpoint_readback_mismatch'' (?m1, w2) = (err1, m2, w3)"
      by (metis prod_cases3)
    from assms(2) False Some v p r have "m' = m2" by (auto simp: verify_applied_def Let_def)
    moreover have "P ?m1" using P1 by (rule reads) (simp_all add: same_session_def)
    ultimately show ?thesis using P_reject r by blast
  qed
qed

end

lemma managed_source_version:
  "managed_source control desired w = (Some desired', w') \<Longrightarrow>
   cd_ConfigurationVersion desired' = cd_ConfigurationVersion desired"
  by (auto simp: managed_source_def Let_def split: option.splits if_splits prod.splits sum.splits)

lemma remembered_update [simp]:
  "remembered desired (degrade r m) = remembered desired m"
  "remembered desired (applyRuntimeIntervals i m) = remembered desired m"
  by (auto simp: remembered_def applyRuntimeIntervals_def split: option.splits)

context manager_invariant begin

lemma P_sync_sourced:
  assumes "P m" "remembered desired m" "sync_sourced env desired revoked now (m, w) = (err, m', w')"
  shows "P m'"
proof -
  let ?m = "applyRuntimeIntervals (cd_RuntimeIntervals desired) m"
  have Pm: "P ?m" and rd: "remembered desired ?m" using assms P_intervals by simp_all
  from assms(3) show ?thesis
    unfolding sync_sourced_def
    by (simp add: Let_def split: sum.splits if_splits)
      (auto intro: P_reject [OF Pm] P_verify_applied [OF Pm] applies [OF Pm rd] P_degrade Pm)
qed

lemma P_sync_desired:
  assumes "P m" "sync_desired env desired occurredAt now (m, w) = (err, m', w')"
  shows "P m'"
proof -
  obtain rem m1 w1 where r: "rememberConfiguration env desired (m, w) = (rem, m1, w1)" by (metis prod_cases3)
  from remembers [OF assms(1) r] have P1: "P m1" .
  obtain err1 m2 w2 where j: "rejectConfiguration env ''configuration_floor_unavailable'' (m1, w1) = (err1, m2, w2)"
    by (metis prod_cases3)
  show ?thesis
  proof (cases rem)
    case (Some e)
    from assms(2) have "m' = m2" by (simp add: sync_desired_def r Some j)
    with P_reject [OF P1 _ j] show ?thesis by simp
  next
    case None
    have rd: "remembered desired m1" using remembered_floor [OF r [unfolded None]] by (simp add: remembered_def)
    obtain oerr w3 where o: "(case me_Observe env of None \<Rightarrow> (None, w1)
        | Some observe \<Rightarrow> observe (cd_Admission desired) (cd_ValidUntil desired) occurredAt w1) = (oerr, w3)"
      by fastforce
    obtain sourced w4 where s: "managed_source (me_control env) desired w3 = (sourced, w4)" by fastforce
    have "P m3" if "sourced = Some d" "sync_sourced env d rv now (m1, w4) = (e3, m3, w5)" for d rv e3 m3 w5
    proof -
      have "cd_ConfigurationVersion d = cd_ConfigurationVersion desired"
        using s by (simp add: that(1) managed_source_version)
      with rd have "remembered d m1" by (simp add: remembered_def)
      with that(2) show ?thesis using P_sync_sourced P1 by blast
    qed
    with assms(2) show ?thesis
      unfolding sync_desired_def
      by (simp add: r None o s Let_def split: if_splits option.splits)
        (auto intro: P_reject [OF P1] P_degrade P1)
  qed
qed

lemma P_syncConfiguration:
  assumes "P m" "syncConfiguration env (m, w) = (err, m', w')"
  shows "P m'"
proof -
  obtain message w1 where c: "rc_Configuration (me_control env) w = (message, w1)" by fastforce
  obtain now w2 where t: "me_now env w1 = (now, w2)" by fastforce
  from assms show ?thesis
    by (auto simp: syncConfiguration_def c t split: sum.splits if_splits elim: P_sync_desired)
qed

lemma P_renew:
  assumes "P m" "mg_cleanupReason m = []" "renew env now (m, w) = (err, m', w')"
  shows "P m'"
proof -
  let ?request = "\<lparr>lrr_SessionID = st_SessionID (mg_status m), lrr_LeaseIDs = mg_leaseIDs m,
      lrr_ObservedConfigurationVersion = st_ConfigurationVersion (mg_status m), lrr_PostureVersion = None\<rparr>"
  obtain result w1 where r: "rc_Renew (me_control env) ?request w = (result, w1)" by fastforce
  obtain err1 m1 w2 where j: "rejectConfiguration env ''lease_revoked'' (m, w1) = (err1, m1, w2)"
    by (metis prod_cases3)
  have "P m1" using P_reject [OF assms(1) _ j] by simp
  with assms show ?thesis
    by (auto simp: renew_def r j Let_def split: sum.splits if_splits elim: reads)
qed

lemma P_cycle_body:
  assumes "P m" "mg_cleanupReason m = []" "cycle_body env renewNow now (m, w) = (err, m', w')"
  shows "P m'"
proof -
  obtain err1 m1 w1 where r: "(if renewNow then renew env now (m, w) else (None, m, w)) = (err1, m1, w1)"
    by (metis prod_cases3)
  then have P1: "P m1" using assms(1,2) P_renew by (auto split: if_splits)
  obtain err2 m2 w2 where s: "syncConfiguration env (m1, w1) = (err2, m2, w2)" by (metis prod_cases3)
  have P2: "P m2" using P_syncConfiguration [OF P1 s] .
  have P3: "P m3" if "rejectConfiguration env ''vpn_tunnel_unhealthy'' (m2, w3) = (err3, m3, w4)" for w3 err3 m3 w4
    using P_reject [OF P2 _ that] by simp
  from assms(3) show ?thesis
    using P1 P2 by (auto simp: cycle_body_def r s Let_def split: if_splits option.splits prod.splits intro: P3)
qed

lemma P_Cycle:
  assumes "P m" "Manager_Cycle env (m, w) = (err, m', w')"
  shows "P m'"
proof -
  obtain now w1 where t: "me_now env w = (now, w1)" by fastforce
  have body: "P m2" if "mg_cleanupReason m = []" "cycle_body env rn now (m, w1) = (err1, m1, w2)"
      "enforceExpiry env (m1, w2) = (m2, w3)" for rn err1 m1 w2 m2 w3
    using that P_cycle_body P_enforceExpiry assms(1) by blast
  have disc: "P m1" if "disconnectLocked env reason (m, w1) = (r, m1, w2)" "reason \<noteq> []" for reason r m1 w2
    using disconnects [OF assms(1) that(2,1)] .
  from assms(2) show ?thesis
    unfolding Manager_Cycle_def
    by (simp add: t Let_def split: if_splits prod.splits) (auto intro: disc body)
qed

lemma P_acceptVPNConnection:
  assumes "P m" "mg_cleanupReason m = []" "acceptVPNConnection env result mode (m, w) = (err, m', w')"
  shows "P m'"
proof -
  obtain now w1 where t: "me_now env w = (now, w1)" by fastforce
  obtain now2 w2 where t2: "me_now env w1 = (now2, w2)" by fastforce
  let ?m1 = "(update (\<lambda>status. status\<lparr>st_SessionID := vcr_SessionID result, st_GatewayID := vcr_GatewayID result,
         st_ConfigurationVersion := vcr_ConfigurationVersion result,
         st_PolicyVersion := vcr_PolicyVersion result\<rparr>) m)
      \<lparr>mg_sessionUntil := vcr_ValidUntil result,
       mg_leaseIDs := leaseIDs (vcr_NetworkLeases result) (vcr_ResourceLeases result),
       mg_nextRenewAt := renewalTime now2 (vcr_ValidUntil result) (mo_RenewBefore (me_options env))\<rparr>"
  obtain err2 m2 w3 where s: "syncConfiguration env (?m1, w2) = (err2, m2, w3)" by (metis prod_cases3)
  have P1: "P ?m1" using assms(1) by (rule reads) (simp_all add: assms(2))
  from P_syncConfiguration [OF this s] have P2: "P m2" .
  from assms P2 show ?thesis
    by (auto simp: acceptVPNConnection_def t t2 s Let_def split: if_splits prod.splits
        intro: P_cleanupFailed [OF P2] P2 P_update)
qed

end

text \<open>
  The histories of a manager: its operations in any order, the answers of the presence loop,
  which touch only the status, and changes of the world that the manager does not see.
\<close>

inductive manager_reach :: "('e, 'w) manager_env \<Rightarrow> 'e \<Rightarrow> 'e Manager \<Rightarrow> 'w \<Rightarrow> bool"
  for env executor where
  starts: "NewManager env executor w = (Inr m, w') \<Longrightarrow> manager_reach env executor m w'"
| connects: "manager_reach env executor m w \<Longrightarrow> Manager_Connect env input (m, w) = (r, m', w') \<Longrightarrow> manager_reach env executor m' w'"
| disconnects: "manager_reach env executor m w \<Longrightarrow> Manager_Disconnect env (m, w) = (r, m', w') \<Longrightarrow> manager_reach env executor m' w'"
| cycles: "manager_reach env executor m w \<Longrightarrow> Manager_Cycle env (m, w) = (err, m', w') \<Longrightarrow> manager_reach env executor m' w'"
| configures_app: "manager_reach env executor m w \<Longrightarrow> Manager_ConfigureMihomoApp env url (m, w) = (s, m', w') \<Longrightarrow>
    manager_reach env executor m' w'"
| selects_app: "manager_reach env executor m w \<Longrightarrow> Manager_SelectMihomoApp env proxy (m, w) = (s, m', w') \<Longrightarrow>
    manager_reach env executor m' w'"
| refreshes_app: "manager_reach env executor m w \<Longrightarrow> Manager_RefreshMihomoApp env (m, w) = (s, m', w') \<Longrightarrow>
    manager_reach env executor m' w'"
| clears_app: "manager_reach env executor m w \<Longrightarrow> Manager_ClearMihomoApp env (m, w) = (s, m', w') \<Longrightarrow>
    manager_reach env executor m' w'"
| presence: "manager_reach env executor m w \<Longrightarrow>
    manager_reach env executor (update (\<lambda>status. status\<lparr>st_PresenceState := state, st_PresenceLastReceivedAt := at,
      st_PresenceEpoch := epoch\<rparr>) m) w"
| world: "manager_reach env executor m w \<Longrightarrow> manager_reach env executor m w'"

context manager_invariant begin

lemma P_accept_managed:
  assumes "P m" "mg_cleanupReason m = []" "accept_managed env result (m, w) = (err, m', w')"
  shows "P m'"
proof -
  let ?m1 = "update (\<lambda>status. status\<lparr>st_SiteID := mrs_SiteID result,
      st_NetworkSpaceID := mrs_NetworkSpaceID result, st_Mode := mrs_Mode result,
      st_ResourceIDs := mrs_ResourceIDs result, st_Selection := mrs_Selection result,
      st_SelectionReason := mrs_SelectionReason result, st_DecisionID := mrs_DecisionID result,
      st_FailoverOnDisconnect := mrs_FailoverOnDisconnect result,
      st_RetryCooldownSeconds := mrs_RetryCooldownSeconds result,
      st_MaxAttempts := mrs_MaxAttempts result, st_Phase := ''applying''\<rparr>) m"
  obtain err1 m2 w1 where a: "acceptVPNConnection env (mrs_VPNConnectResult result) (mrs_Mode result) (?m1, w) =
      (err1, m2, w1)" by (metis prod_cases3)
  have "P ?m1" using assms(1) by (rule P_update) simp
  from P_acceptVPNConnection [OF this _ a] assms(2) have "P m2" by simp
  with assms(3) show ?thesis
    by (auto simp: accept_managed_def Let_def a split: if_splits prod.splits intro: P_update)
qed

lemma P_select_managed:
  assumes "P m" "mg_cleanupReason m = []" "select_managed env control request (m, w) = (err, m', w')"
  shows "P m'"
proof -
  let ?m1 = "update (\<lambda>status. status\<lparr>st_State := StateConnecting, st_Phase := ''preparing'',
      st_Diagnostic := []\<rparr>) m"
  obtain prepared w1 where p: "mvc_PrepareManagedVPN control request w = (prepared, w1)" by fastforce
  have P1: "P ?m1" using assms(1) by (rule P_update) simp
  show ?thesis
  proof (cases prepared)
    case (Inl e)
    with assms(3) p have "m' = degrade ''vpn_prepare_failed'' ?m1" by (simp add: select_managed_def Let_def)
    with P1 show ?thesis by auto
  next
    case (Inr prepared')
    let ?m2 = "update (\<lambda>status. status\<lparr>st_ProfileID := mpr_ProfileID prepared',
        st_ProfileRevision := mpr_ProfileRevision prepared', st_Phase := ''measuring''\<rparr>) ?m1"
    obtain batch w2 where b: "mvc_ProbeVPN control prepared' w1 = (batch, w2)" by fastforce
    have P2: "P ?m2" using P1 by (rule P_update) simp
    show ?thesis
    proof (cases batch)
      case (Inl e)
      with assms(3) p Inr b have "m' = degrade ''vpn_probe_failed'' ?m2"
        by (simp add: select_managed_def Let_def)
      with P2 show ?thesis by auto
    next
      case batch: (Inr batch')
      let ?m3 = "update (\<lambda>status. status\<lparr>st_ProbeResults := pb_Results batch',
          st_ProbeMeasuredAt := Some (pb_WindowEndedAt batch'), st_Phase := ''selecting''\<rparr>) ?m2"
      obtain request' w3 where q: "probed_request env request batch' w2 = (request', w3)" by fastforce
      obtain result w4 where r: "mvc_ConnectManagedVPN control request' w3 = (result, w4)" by fastforce
      have P3: "P ?m3" using P2 by (rule P_update) simp
      from assms(3) p Inr b batch q r have
        "(\<exists>reason. m' = degrade reason ?m3) \<or> (\<exists>result'. accept_managed env result' (?m3, w4) = (err, m', w'))"
        by (auto simp: select_managed_def Let_def split: sum.splits if_splits)
      with P3 show ?thesis using P_accept_managed assms(2) by auto
    qed
  qed
qed

lemma P_connectManaged:
  assumes "P m" "connectManaged env input (m, w) = (err, m', w')"
  shows "P m'"
proof -
  have "m' = m \<or> mg_cleanupReason m = [] \<and>
      (\<exists>control request w1. select_managed env control request (m, w1) = (err, m', w'))"
    using assms(2) unfolding connectManaged_def Let_def
    by (simp split: if_splits option.splits prod.splits) auto
  with assms(1) show ?thesis using P_select_managed by blast
qed

lemma P_Connect:
  assumes "P m" "Manager_Connect env input (m, w) = (r, m', w')"
  shows "P m'"
proof -
  let ?start = "\<lambda>mode. update (\<lambda>status. status\<lparr>st_State := StateConnecting, st_Diagnostic := [],
      st_SiteID := ci_SiteID input, st_NetworkSpaceID := ci_NetworkSpaceID input, st_Mode := mode,
      st_ResourceIDs := sort (ci_ResourceIDs input)\<rparr>) m"
  have start: "P (?start mode)" for mode using assms(1) by (rule P_update) simp
  have plain: "P m2" if "mg_cleanupReason m = []" "acceptVPNConnection env result mode (?start mode', w1) = (err, m2, w2)"
    for result mode mode' w1 err m2 w2
    using P_acceptVPNConnection [OF start _ that(2)] that(1) by simp
  have managed: "P m2" if "connectManaged env input (m, w1) = (err, m2, w2)" for w1 err m2 w2
    using P_connectManaged [OF assms(1) that] .
  from assms show ?thesis
    unfolding Manager_Connect_def with_status_def Let_def
    by (simp split: if_splits prod.splits sum.splits) (auto intro: plain managed P_degrade start assms(1))
qed

lemma P_Disconnect:
  assumes "P m" "Manager_Disconnect env (m, w) = (r, m', w')"
  shows "P m'"
  using disconnects [OF assms(1) _ assms(2) [unfolded Manager_Disconnect_def]] by simp

lemma P_on_executor:
  assumes "P m" "me_App env = Some coordinator" "on_executor op (m, w) = (s, m', w')"
    "op \<in> {mac_ConfigureMihomoApp coordinator url, mac_SelectMihomoApp coordinator url,
            mac_RefreshMihomoApp coordinator, mac_ClearMihomoApp coordinator}"
  shows "P m'"
proof -
  obtain r e w1 where o: "op (mg_executor m, w) = (r, e, w1)" by (metis prod_cases3)
  with assms(3) have "m' = m\<lparr>mg_executor := e\<rparr>" by (simp add: on_executor_def)
  with app [OF assms(1,2,4) o] show ?thesis by simp
qed

lemma P_app:
  assumes P: "P m"
  shows "Manager_ConfigureMihomoApp env url (m, w) = (s, m', w') \<Longrightarrow> P m'"
    and "Manager_SelectMihomoApp env url (m, w) = (s, m', w') \<Longrightarrow> P m'"
    and "Manager_RefreshMihomoApp env (m, w) = (s, m', w') \<Longrightarrow> P m'"
    and "Manager_ClearMihomoApp env (m, w) = (s, m', w') \<Longrightarrow> P m'"
  using P by (auto simp: Manager_ConfigureMihomoApp_def Manager_SelectMihomoApp_def Manager_RefreshMihomoApp_def
      Manager_ClearMihomoApp_def split: option.splits intro: P_on_executor)

lemma P_reach:
  assumes initial: "\<And>w m w'. NewManager env executor w = (Inr m, w') \<Longrightarrow> P m"
    and "manager_reach env executor m w"
  shows "P m"
  using assms(2)
proof (induction rule: manager_reach.induct)
  case (starts w m w')
  then show ?case by (rule initial)
next
  case (connects m w input r m' w')
  then show ?case by (blast intro: P_Connect)
next
  case (disconnects m w r m' w')
  then show ?case by (blast intro: P_Disconnect)
next
  case (cycles m w err m' w')
  then show ?case by (blast intro: P_Cycle)
next
  case (configures_app m w url s m' w')
  then show ?case by (blast intro: P_app(1))
next
  case (selects_app m w proxy s m' w')
  then show ?case by (blast intro: P_app(2))
next
  case (refreshes_app m w s m' w')
  then show ?case by (blast intro: P_app(3))
next
  case (clears_app m w s m' w')
  then show ?case by (blast intro: P_app(4))
next
  case (presence m w state at epoch)
  from presence.IH show ?case by (rule P_update) simp
qed

end

end
