(* ===== verification/Manager_Safety.thy ===== *)
theory Manager_Safety
  imports Manager_Histories Coordinator_Safety
begin

text \<open>
  What holds of the connection manager: a begun cleanup is always due, floors never regress,
  configurations are applied in the order of their versions, a completed disconnect has removed
  proxy and tunnel, nothing expired survives a cycle, and an interrupted cleanup is resumed after
  a restart. Then two defects: a connection after an applied configuration is refused, and a
  session with too many leases cannot be restored.
\<close>

subsection \<open>A begun cleanup is due\<close>

text \<open>A pending cleanup names the session, the leases and the reason that the manager holds.\<close>

definition recorded :: "'e Manager \<Rightarrow> bool" where
  "recorded m \<longleftrightarrow>
     (case pending m of
        None \<Rightarrow> True
      | Some p \<Rightarrow>
          pvc_SessionID p = st_SessionID (mg_status m) \<and> pvc_LeaseIDs p = mg_leaseIDs m \<and>
          pvc_Reason p = mg_cleanupReason m \<and>
          st_SessionID (mg_status m) \<noteq> [] \<and> mg_leaseIDs m \<noteq> [] \<and> mg_cleanupReason m \<noteq> [])"

lemma recorded_simps [simp]:
  "recorded (degrade reason m) = recorded m" "recorded (m\<lparr>mg_executor := e\<rparr>) = recorded m"
  by (simp_all add: recorded_def cong: option.case_cong)

lemma disconnect_recorded:
  assumes "disconnectLocked env reason (m, w) = (r, m', w')" "reason \<noteq> []"
    "pending m = None \<or> st_SessionID (mg_status m) \<noteq> [] \<and> mg_leaseIDs m \<noteq> []"
  shows "recorded m'"
proof -
  obtain st e where "r = (st, e)" by fastforce
  with assms show ?thesis by (auto elim!: disconnect_cases simp: recorded_def split: if_splits)
qed

lemma reject_recorded:
  assumes "rejectConfiguration env reason (m, w) = (err, m', w')" "reason \<noteq> []"
    "pending m = None \<or> st_SessionID (mg_status m) \<noteq> [] \<and> mg_leaseIDs m \<noteq> []"
  shows "recorded m'"
  using assms(1)
proof (rule reject_disconnects)
  fix r m1
  assume d: "disconnectLocked env reason (m, w) = (r, m1, w')" "m' = degrade reason m1"
  from disconnect_recorded [OF d(1) assms(2,3)] d(2) show ?thesis by simp
qed

lemma marked_held:
  "marked m m1 \<Longrightarrow> pending m = None \<Longrightarrow>
   pending m1 = None \<or> st_SessionID (mg_status m1) \<noteq> [] \<and> mg_leaseIDs m1 \<noteq> []"
  by (auto simp: marked_def)

lemma accept_applied_recorded:
  assumes "accept_applied env desired hash revoked reportErr (m1, w) = (err, m', w')"
    "marked m m1" "pending m = None" "\<not> revoked \<Longrightarrow> pending m1 = None"
  shows "recorded m'"
proof -
  obtain revokeErr m2 w2 where r: "finish_revocation env revoked (m1, w) = (revokeErr, m2, w2)"
    by (metis prod_cases3)
  have m2: "mg_leaseIDs m2 = mg_leaseIDs m1 \<and> mg_status m2 = mg_status m1 \<and>
      (pending m2 = None \<or> pending m2 = pending m1 \<and> revokeErr \<noteq> None)"
  proof (cases revoked)
    case False
    with r assms(4) show ?thesis by (simp add: finish_revocation_def)
  next
    case True
    obtain rerr w3 where v: "revoke_leases env (st_SessionID (mg_status m1)) (mg_leaseIDs m1)
        ''authorization_revoked'' w = (rerr, w3)" by fastforce
    show ?thesis
    proof (cases rerr)
      case None
      with r True v have f: "finishVPNCleanup env (m1, w3) = (revokeErr, m2, w2)" by (simp add: finish_revocation_def)
      then show ?thesis by (cases rule: finish_cases) simp_all
    next
      case (Some e)
      with r True v show ?thesis by (auto simp: finish_revocation_def)
    qed
  qed
  from assms(1) have "m' = applied_state desired hash revoked revokeErr m2 \<or>
      m' = degrade ''configuration_report_failed'' (applied_state desired hash revoked revokeErr m2)"
    by (auto simp: accept_applied_def Let_def r split: option.splits)
  moreover have "recorded (applied_state desired hash revoked revokeErr m2)"
    using m2 assms(2,3) by (auto simp: recorded_def applied_state_def Let_def marked_def)
  ultimately show ?thesis by auto
qed

interpretation due: manager_invariant env recorded for env
proof
  show "recorded m'" if "recorded m" "mg_executor m' = mg_executor m"
    "mg_configurationFloor m' = mg_configurationFloor m" "mg_cleanupReason m' = mg_cleanupReason m"
    "mg_cleanupReason m = [] \<or> same_session m m'" for m m' :: "'a Manager"
    using that by (auto simp: recorded_def same_session_def split: option.splits)
  show "recorded m'" if "recorded m" "reason \<noteq> []" "disconnectLocked env reason (m, w) = (r, m', w')"
    for m m' reason w r w'
    using that(1) by (intro disconnect_recorded [OF that(3,2)]) (auto simp: recorded_def split: option.splits)
  show "recorded m'" if "recorded m" "rememberConfiguration env desired (m, w) = (err, m', w')"
    for m m' desired w err w'
    using that by (auto simp: recorded_def elim: remember_cases)
  show "recorded (m\<lparr>mg_executor := e\<rparr>)" if "recorded m" for m e
    using that by simp
  then show "recorded (m\<lparr>mg_executor := e\<rparr>)" if "recorded m" for m e
    using that .
  fix m m' desired hash revoked now w err w'
  assume rd: "remembered desired m" and a: "apply_desired env desired hash revoked now (m, w) = (err, m', w')"
  then have none: "pending m = None" by (simp add: remembered_def)
  from a show "recorded m'"
  proof (cases rule: apply_desired_cases)
    case (applied m1 w1 outcome e w2 w3 reportErr)
    from accept_applied_recorded [OF applied(7,8) none] applied(6) none show ?thesis by simp
  next
    case (unrecorded m1 w1 err1)
    from reject_recorded [OF unrecorded(6) _ marked_held [OF unrecorded(7) none]] show ?thesis by simp
  next
    case (refused m1 w1 outcome e w2 w3 err1)
    from reject_recorded [OF refused(7) _ marked_held [OF refused(8) none]] show ?thesis by simp
  qed
qed

lemma NewManager_recorded: "NewManager env executor w = (Inr m, w') \<Longrightarrow> recorded m"
  by (auto simp: NewManager_def restoreConfigurationFloor_def Let_def recorded_def empty_floor_def
      validConfigurationFloor_def valid_pending_def
      split: if_splits prod.splits sum.splits option.splits dest: identifier_nonempty)

subsection \<open>Floors never regress\<close>

definition floor_le :: "configurationFloor \<Rightarrow> configurationFloor \<Rightarrow> bool" where
  "floor_le f g \<longleftrightarrow>
     cf_ConfigurationVersion f \<le> cf_ConfigurationVersion g \<and> cf_PolicyVersion f \<le> cf_PolicyVersion g \<and>
     (cf_ConfigurationVersion f = cf_ConfigurationVersion g \<longrightarrow> cf_Digest f = cf_Digest g)"

definition floor_above :: "configurationFloor \<Rightarrow> 'e Manager \<Rightarrow> bool" where
  "floor_above f m \<longleftrightarrow> floor_le f (mg_configurationFloor m)"

lemma above_kept: "floor_above f m \<Longrightarrow> floor_kept m m' \<Longrightarrow> floor_above f m'"
  by (simp add: floor_above_def floor_le_def floor_kept_def)

lemma reject_kept: "rejectConfiguration env reason (m, w) = (err, m', w') \<Longrightarrow> floor_kept m m'"
  by (erule reject_disconnects) (auto dest: disconnect_kept(1) simp: floor_kept_def)

lemma apply_desired_kept:
  assumes "apply_desired env desired hash revoked now (m, w) = (err, m', w')" "remembered desired m"
  shows "floor_kept m m'"
  using assms(1)
proof (cases rule: apply_desired_cases)
  case (unrecorded m1 w1 err1)
  show ?thesis by (rule floor_kept_trans [OF unrecorded(2) reject_kept [OF unrecorded(6)]])
next
  case (refused m1 w1 outcome e w2 w3 err1)
  show ?thesis by (rule floor_kept_trans [OF refused(1) reject_kept [OF refused(7)]])
next
  case (applied m1 w1 outcome e w2 w3 reportErr)
  with assms(2) have "\<not> revoked \<Longrightarrow> pending m1 = None" by (simp add: remembered_def)
  from accept_applied_cases(2) [OF applied(7) this] show ?thesis by (rule floor_kept_trans [OF applied(1)])
qed

interpretation floor: manager_invariant env "floor_above f" for env f
proof
  fix m m' :: "'a Manager" and reason :: string and w :: 'b and r w'
  show "floor_above f m \<Longrightarrow> disconnectLocked env reason (m, w) = (r, m', w') \<Longrightarrow> floor_above f m'"
    by (rule above_kept [OF _ disconnect_kept(1)])
next
  fix m m' :: "'a Manager" and desired w err w'
  assume "floor_above f m" "rememberConfiguration env desired (m, w) = (err, m', w')"
  then show "floor_above f m'" by (auto elim!: remember_cases simp: floor_above_def floor_le_def)
next
  fix m m' :: "'a Manager" and desired hash revoked now w err w'
  assume "floor_above f m" and rd: "remembered desired m"
    and a: "apply_desired env desired hash revoked now (m, w) = (err, m', w')"
  from this(1) show "floor_above f m'" by (rule above_kept) (rule apply_desired_kept [OF a rd])
qed (simp_all add: floor_above_def)

subsection \<open>Configurations reach the executor in order\<close>

text \<open>
  The environment whose executor keeps, beside its own state, the configurations it was asked to
  apply, in order.
\<close>

definition logged :: "('e, 'w) ConfigurationExecutor \<Rightarrow> ('e \<times> ConfigurationDesired list, 'w) ConfigurationExecutor" where
  "logged E =
     \<lparr>ce_Apply = (\<lambda>desired now ((e, log), w).
        let (outcome, e, w) = ce_Apply E desired now (e, w) in (outcome, (e, log @ [desired]), w)),
      ce_Disable = (\<lambda>((e, log), w). let (err, e, w) = ce_Disable E (e, w) in (err, (e, log), w)),
      ce_Verify = map_option (\<lambda>verify desired now ((e, log), w).
        let (outcome, e, w) = verify desired now (e, w) in (outcome, (e, log), w)) (ce_Verify E),
      ce_VPNBinding = None\<rparr>"

definition log_kept :: "('e \<times> 'l \<times> 'w \<Rightarrow> 'r \<times> 'e \<times> 'w) \<Rightarrow> ('e \<times> 'l) \<times> 'w \<Rightarrow> 'r \<times> ('e \<times> 'l) \<times> 'w" where
  "log_kept op = (\<lambda>((e, log), w). let (r, e, w) = op (e, log, w) in (r, (e, log), w))"

definition logged_app ::
  "('e, 'w) MihomoAppCoordinator \<Rightarrow> ('e \<times> ConfigurationDesired list, 'w) MihomoAppCoordinator" where
  "logged_app A =
     \<lparr>mac_MihomoAppStatus = (\<lambda>(e, log). mac_MihomoAppStatus A e),
      mac_ConfigureMihomoApp = (\<lambda>url. log_kept (\<lambda>(e, log, w). mac_ConfigureMihomoApp A url (e, w))),
      mac_SelectMihomoApp = (\<lambda>proxy. log_kept (\<lambda>(e, log, w). mac_SelectMihomoApp A proxy (e, w))),
      mac_RefreshMihomoApp = log_kept (\<lambda>(e, log, w). mac_RefreshMihomoApp A (e, w)),
      mac_ClearMihomoApp = log_kept (\<lambda>(e, log, w). mac_ClearMihomoApp A (e, w))\<rparr>"

definition logged_env :: "('e, 'w) manager_env \<Rightarrow> ('e \<times> ConfigurationDesired list, 'w) manager_env" where
  "logged_env env =
     \<lparr>me_options = me_options env, me_control = me_control env, me_executor = logged (me_executor env),
      me_App = map_option logged_app (me_App env), me_store = me_store env, me_codec = me_codec env,
      me_CheckVPNHealth = me_CheckVPNHealth env, me_Observe = me_Observe env, me_VPNProbe = me_VPNProbe env,
      me_ChannelsHealthy = me_ChannelsHealthy env, me_randomID = me_randomID env, me_now = me_now env\<rparr>"

definition applied_in_order :: "('e \<times> ConfigurationDesired list) Manager \<Rightarrow> bool" where
  "applied_in_order m \<longleftrightarrow>
     sorted (map cd_ConfigurationVersion (snd (mg_executor m))) \<and>
     (\<forall>d \<in> set (snd (mg_executor m)). cd_ConfigurationVersion d \<le> cf_ConfigurationVersion (mg_configurationFloor m))"

lemma logged_keeps:
  "ce_Disable (me_executor (logged_env env)) (s, w) = (err, s', w') \<Longrightarrow> snd s' = snd s"
  "ce_Verify (me_executor (logged_env env)) = Some verify \<Longrightarrow>
   verify desired now (s, w) = (outcome, s', w') \<Longrightarrow> snd s' = snd s"
  "ce_Apply (me_executor (logged_env env)) desired now (s, w) = (outcome, s', w') \<Longrightarrow> snd s' = snd s @ [desired]"
  by (cases s; auto simp: logged_env_def logged_def Let_def split: prod.splits)+

lemma disconnect_log:
  assumes "disconnectLocked (logged_env env) reason (m, w) = (r, m', w')"
  shows "snd (mg_executor m') = snd (mg_executor m)"
proof -
  obtain st err where "r = (st, err)" by fastforce
  with assms show ?thesis by (auto elim!: disconnect_cases dest: logged_keeps(1))
qed

lemma in_order_kept:
  "applied_in_order m \<Longrightarrow> floor_kept m m' \<Longrightarrow> snd (mg_executor m') = snd (mg_executor m) \<Longrightarrow> applied_in_order m'"
  by (simp add: applied_in_order_def floor_kept_def)

lemma in_order_raise:
  "applied_in_order m \<Longrightarrow> cf_ConfigurationVersion (mg_configurationFloor m) \<le> cf_ConfigurationVersion f \<Longrightarrow>
   applied_in_order (m\<lparr>mg_configurationFloor := f\<rparr>)"
  by (simp add: applied_in_order_def) (meson order.trans)

lemma in_order_disconnect:
  "applied_in_order m \<Longrightarrow> disconnectLocked (logged_env env) reason (m, w) = (r, m', w') \<Longrightarrow> applied_in_order m'"
  by (rule in_order_kept [OF _ disconnect_kept(1) disconnect_log])

lemma in_order_reject:
  assumes "applied_in_order m" "rejectConfiguration (logged_env env) reason (m, w) = (err, m', w')"
  shows "applied_in_order m'"
  using assms(2)
proof (rule reject_disconnects)
  fix r m1
  assume "disconnectLocked (logged_env env) reason (m, w) = (r, m1, w')" "m' = degrade reason m1"
  then show ?thesis using in_order_disconnect [OF assms(1)] by (simp add: applied_in_order_def)
qed

lemma in_order_applied:
  assumes "applied_in_order m" "remembered desired m" "floor_kept m m1"
    "snd (mg_executor m1) = snd (mg_executor m) @ [desired]"
  shows "applied_in_order m1"
  using assms by (auto simp: applied_in_order_def remembered_def floor_kept_def sorted_append)

interpretation order: manager_invariant "logged_env env" applied_in_order for env
proof
  fix m m' :: "('a \<times> ConfigurationDesired list) Manager" and desired w err w'
  assume "applied_in_order m" "rememberConfiguration (logged_env env) desired (m, w) = (err, m', w')"
  then show "applied_in_order m'"
    by (auto elim!: remember_cases intro: in_order_raise)
next
  fix m m' :: "('a \<times> ConfigurationDesired list) Manager" and desired hash revoked now w err w'
  assume ok: "applied_in_order m" and rd: "remembered desired m"
    and a: "apply_desired (logged_env env) desired hash revoked now (m, w) = (err, m', w')"
  from a show "applied_in_order m'"
  proof (cases rule: apply_desired_cases)
    case (unrecorded m1 w1 err1)
    from in_order_kept [OF ok unrecorded(2)] unrecorded(3) have "applied_in_order m1" by simp
    then show ?thesis by (rule in_order_reject [OF _ unrecorded(6)])
  next
    case (refused m1 w1 outcome e w2 w3 err1)
    have "applied_in_order m1"
      using in_order_applied [OF ok rd refused(1)] logged_keeps(3) [OF refused(3)] refused(5) by simp
    then show ?thesis by (rule in_order_reject [OF _ refused(7)])
  next
    case (applied m1 w1 outcome e w2 w3 reportErr)
    have "applied_in_order m1"
      using in_order_applied [OF ok rd applied(1)] logged_keeps(3) [OF applied(2)] applied(4) by simp
    moreover from applied(6) rd have "\<not> revoked \<Longrightarrow> pending m1 = None" by (simp add: remembered_def)
    note accept_applied_cases(1,2) [OF applied(7) this]
    ultimately show ?thesis by (simp add: in_order_kept)
  qed
next
  fix m :: "('a \<times> ConfigurationDesired list) Manager" and coordinator op url w result e w'
  assume "applied_in_order m" "me_App (logged_env env) = Some coordinator"
    "op \<in> {mac_ConfigureMihomoApp coordinator url, mac_SelectMihomoApp coordinator url,
            mac_RefreshMihomoApp coordinator, mac_ClearMihomoApp coordinator}"
    "op (mg_executor m, w) = (result, e, w')"
  then have "snd e = snd (mg_executor m)"
    by (cases "mg_executor m") (auto simp: logged_env_def logged_app_def log_kept_def Let_def split: prod.splits)
  with \<open>applied_in_order m\<close> show "applied_in_order (m\<lparr>mg_executor := e\<rparr>)" by (simp add: applied_in_order_def)
next
  fix m :: "('a \<times> ConfigurationDesired list) Manager" and verify desired now w outcome e w'
  assume ok: "applied_in_order m" and "ce_Verify (me_executor (logged_env env)) = Some verify"
    "verify desired now (mg_executor m, w) = (outcome, e, w')"
  from logged_keeps(2) [OF this(2,3)] ok show "applied_in_order (m\<lparr>mg_executor := e\<rparr>)"
    by (simp add: applied_in_order_def)
next
  fix m m' :: "('a \<times> ConfigurationDesired list) Manager" and reason :: string and w r w'
  assume "applied_in_order m" "disconnectLocked (logged_env env) reason (m, w) = (r, m', w')"
  then show "applied_in_order m'" by (rule in_order_disconnect)
qed (simp add: applied_in_order_def)

subsection \<open>Timing\<close>

lemma time_Sub_nonpos [simp]: "time_Sub t u \<le> 0 \<longleftrightarrow> t \<le> u"
  using time_Sub_pos [of t u] by linarith

lemma renewalTime_bounds:
  assumes "0 < leadTime"
  shows "now \<le> renewalTime now validUntil leadTime"
    and "now < validUntil \<Longrightarrow> renewalTime now validUntil leadTime \<le> validUntil"
    and "now < validUntil \<Longrightarrow> validUntil - leadTime \<le> renewalTime now validUntil leadTime"
proof -
  let ?r = "time_Sub validUntil now"
  have *: "?r \<le> validUntil - now" if "now < validUntil" using that time_Sub_le_diff [of now validUntil] by simp
  have pos: "0 < ?r \<longleftrightarrow> now < validUntil" by simp
  have nonneg: "0 \<le> ?r div 3" if "now < validUntil"
  proof -
    have "0 < ?r" using that pos by blast
    then show ?thesis by linarith
  qed
  show "now \<le> renewalTime now validUntil leadTime"
  proof (cases "now < validUntil")
    case True
    with * [OF True] pos show ?thesis by (auto simp: renewalTime_def Let_def min_def)
  next
    case False
    with pos have "?r \<le> 0" by linarith
    then show ?thesis by (simp add: renewalTime_def Let_def)
  qed
  show "renewalTime now validUntil leadTime \<le> validUntil" if "now < validUntil"
    using that nonneg assms by (auto simp: renewalTime_def Let_def min_def)
  show "validUntil - leadTime \<le> renewalTime now validUntil leadTime" if "now < validUntil"
    using that pos by (auto simp: renewalTime_def Let_def min_def)
qed

lemma jitter_bounds:
  assumes "\<And>n. 0 < n \<Longrightarrow> 0 \<le> draw n \<and> draw n < n" "0 \<le> delay"
  shows "delay - delay div 5 \<le> runtimeIntervalJitter draw delay"
    and "runtimeIntervalJitter draw delay \<le> delay + delay div 5"
  using assms(1) [of "2 * (delay div 5) + 1"] assms(2)
  by (auto simp: runtimeIntervalJitter_def Let_def)

definition shorten :: "time \<Rightarrow> time \<Rightarrow> duration \<Rightarrow> duration" where
  "shorten now deadline delay =
     (if time_IsZero deadline then delay
      else if time_Sub deadline now > 0 \<and> time_Sub deadline now < delay then time_Sub deadline now
      else delay)"

lemma shorten_pos: "0 < delay \<Longrightarrow> 0 < shorten now deadline delay"
  by (auto simp: shorten_def)

lemma shorten_le: "shorten now deadline delay \<le> delay"
  by (auto simp: shorten_def)

lemma shorten_deadline:
  "\<not> time_IsZero deadline \<Longrightarrow> now < deadline \<Longrightarrow> now + shorten now deadline delay \<le> deadline"
  using time_Sub_le_diff [of now deadline] by (auto simp: shorten_def)

lemma shorten_fold:
  "0 < delay \<Longrightarrow> 0 < fold (shorten now) ds delay"
  "fold (shorten now) ds delay \<le> delay"
  "deadline \<in> set ds \<Longrightarrow> \<not> time_IsZero deadline \<Longrightarrow> now < deadline \<Longrightarrow>
   now + fold (shorten now) ds delay \<le> deadline"
proof (induction ds arbitrary: delay)
  case Nil
  { case 1 then show ?case by simp }
  { case 2 then show ?case by simp }
  { case 3 then show ?case by simp }
next
  case (Cons d ds)
  { case 1 then show ?case using Cons.IH(1) shorten_pos by simp }
  { case 2 then show ?case using Cons.IH(2) [of "shorten now d delay"] shorten_le [of now d delay] by simp }
  { case 3
    show ?case
    proof (cases "deadline \<in> set ds")
      case True
      with 3 Cons.IH(3) show ?thesis by simp
    next
      case False
      with 3 have "deadline = d" by simp
      with 3 shorten_deadline [of d now delay] Cons.IH(2) [of "shorten now d delay"] show ?thesis by simp
    qed }
qed

lemma nextPollDelay_shorten:
  "nextPollDelay options jitter now m =
     fold (shorten now)
       (if st_SessionID (mg_status m) = [] then [st_ValidUntil (mg_status m)]
        else [st_ValidUntil (mg_status m), mg_sessionUntil m, mg_nextRenewAt m])
       (jitter (fst (intervals options m)))"
  by (simp add: nextPollDelay_def Let_def shorten_def [abs_def])

subsection \<open>A service to evaluate\<close>

definition sample_message :: RuntimeMessage where
  "sample_message =
     \<lparr>rm_SchemaVersion = RuntimeSchemaVersion, rm_MessageID = ''m1'', rm_MessageType = MessageConfiguration,
      rm_ProducerID = ''network-control'', rm_RuntimeID = ''endpoint-1'', rm_RuntimeKind = ''endpoint'',
      rm_OccurredAt = 5, rm_ExpiresAt = 1000, rm_Payload = ''{}''\<rparr>"

definition sample_connect_result :: "int \<Rightarrow> VPNConnectResult" where
  "sample_connect_result version =
     \<lparr>vcr_RequestID = ''request-1'', vcr_Decision = ''allow'', vcr_ReasonCode = [], vcr_SessionID = ''session-1'',
      vcr_GatewayID = ''gw1'', vcr_ConfigurationVersion = version, vcr_PolicyVersion = 1, vcr_ValidUntil = 2000,
      vcr_NetworkLeases = [sample_network_lease], vcr_ResourceLeases = []\<rparr>"

definition sample_control :: "int \<Rightarrow> error \<Rightarrow> 'w RuntimeControl" where
  "sample_control version revoke_error =
     \<lparr>rc_Connect = (\<lambda>request w. (Inr (sample_connect_result version), w)),
      rc_Configuration = (\<lambda>w. (Inr sample_message, w)),
      rc_MihomoSource = (\<lambda>profile w. (Inl (ErrorNew ''none''), w)), rc_Report = (\<lambda>report w. (None, w)),
      rc_Renew = (\<lambda>request w. (Inl (ErrorNew ''offline''), w)),
      rc_Revoke = (\<lambda>request w. (revoke_error, w)), rc_Managed = None\<rparr>"

definition sample_manager_env ::
  "ConfigurationDesired \<Rightarrow> error \<Rightarrow> (Executor CoordinatedExecutor, TunnelReadback) manager_env" where
  "sample_manager_env desired revoke_error =
     \<lparr>me_options = \<lparr>mo_ControlURL = ''https://control.example'', mo_ConfigurationStatePath = [],
         mo_RuntimeID = ''endpoint-1'', mo_DeviceID = ''device-1'', mo_PollInterval = 60 * second,
         mo_HeartbeatInterval = 60 * second, mo_RenewBefore = 30 * second, mo_MaxClockSkew = 60 * second\<rparr>,
      me_control = sample_control (cd_ConfigurationVersion desired) revoke_error,
      me_executor = Coordinated_interface (sample_env None), me_App = None,
      me_store = \<lparr>fls_IsAbs = (\<lambda>p. has_prefix p ''/''), fls_read = (\<lambda>p n w. (Inl ErrNotExist, w)),
         fls_unprotect = (\<lambda>s d w. (Inr s, w)), fls_save = (\<lambda>p s d w. (None, w))\<rparr>,
      me_codec = \<lparr>mcd_encode_floor = (\<lambda>f. Inr ''f''), mcd_decode_floor = (\<lambda>s. Inl (ErrorNew ''none'')),
         mcd_encode_desired = (\<lambda>d. Inr (string_of_int (cd_ConfigurationVersion d))),
         mcd_decode_desired = (\<lambda>s. Inr desired), mcd_sha256 = (\<lambda>s. s)\<rparr>,
      me_CheckVPNHealth = None, me_Observe = None, me_VPNProbe = None, me_ChannelsHealthy = None,
      me_randomID = (\<lambda>w. (''id-1'', w)), me_now = (\<lambda>w. (10, w))\<rparr>"

definition sample_input :: ConnectInput where
  "sample_input =
     \<lparr>ci_IntentID = [], ci_IntentToken = [], ci_RequestID = [], ci_SiteID = ''site-1'',
      ci_NetworkSpaceID = ''space-1'', ci_GatewayID = [], ci_Mode = [], ci_ResourceIDs = [],
      ci_AccessGrantID = [], ci_AccessGrantToken = []\<rparr>"

text \<open>The same service with a control plane that cannot be reached for a revocation.\<close>

definition sample_offline :: "(Executor CoordinatedExecutor, TunnelReadback) manager_env" where
  "sample_offline = sample_manager_env sample_desired (Some (ErrorNew ''offline''))"

definition sample_manager :: "Executor CoordinatedExecutor Manager" where
  "sample_manager =
     (case NewManager sample_offline sample_coordinator empty_TunnelReadback of
        (Inr m, _) \<Rightarrow> m | (Inl _, _) \<Rightarrow> undefined)"

lemma sample_manager_new:
  "NewManager sample_offline sample_coordinator empty_TunnelReadback = (Inr sample_manager, empty_TunnelReadback)"
  by code_simp

text \<open>The state after a connection, and after a disconnect whose revocation fails.\<close>

definition sample_connected :: "Executor CoordinatedExecutor Manager \<times> TunnelReadback" where
  "sample_connected = snd (Manager_Connect sample_offline sample_input (sample_manager, empty_TunnelReadback))"

definition sample_interrupted :: "Executor CoordinatedExecutor Manager \<times> TunnelReadback" where
  "sample_interrupted = snd (Manager_Disconnect sample_offline sample_connected)"

lemma sample_connected_reach:
  "manager_reach sample_offline sample_coordinator (fst sample_connected) (snd sample_connected)"
  using connects [OF starts [OF sample_manager_new]] by (metis prod.collapse sample_connected_def)

lemma sample_interrupted_reach:
  "manager_reach sample_offline sample_coordinator (fst sample_interrupted) (snd sample_interrupted)"
  using manager_reach.disconnects [OF sample_connected_reach] by (metis prod.collapse sample_interrupted_def)

lemma sample_connected_state:
  "case sample_connected of (m, w) \<Rightarrow>
     st_State (mg_status m) = ''connected'' \<and> st_SessionID (mg_status m) = ''session-1'' \<and>
     mg_leaseIDs m = [''net'', ''res''] \<and> mg_appliedVersion m = 1 \<and> mg_appliedHash m = ''sha256:1'' \<and>
     mg_cleanupReason m = []"
  by code_simp

lemma sample_interrupted_state:
  "case sample_interrupted of (m, w) \<Rightarrow>
     mg_cleanupReason m = ''user_disconnected'' \<and>
     pending m = Some \<lparr>pvc_SessionID = ''session-1'', pvc_LeaseIDs = [''net'', ''res''],
                       pvc_Reason = ''user_disconnected''\<rparr>"
  by code_simp

subsection \<open>Properties\<close>

text \<open>C14: a cleanup that has begun is never forgotten. In every history, while the floor records a
  pending cleanup, the manager refuses every new connection without changing its state, and its
  next cycle is nothing but another attempt at the disconnect.\<close>

theorem begun_cleanup_is_retried:
  assumes "manager_reach env executor m w" "cf_PendingCleanup (mg_configurationFloor m) = Some p"
  shows "mg_cleanupReason m = pvc_Reason p \<and> pvc_Reason p \<noteq> [] \<and>
     st_SessionID (mg_status m) = pvc_SessionID p \<and> pvc_SessionID p \<noteq> [] \<and>
     mg_leaseIDs m = pvc_LeaseIDs p \<and> pvc_LeaseIDs p \<noteq> [] \<and>
     (case Manager_Connect env input (m, w1) of ((status, err), m', w') \<Rightarrow> err \<noteq> None \<and> m' = m) \<and>
     (\<exists>now w2 status err m' w'.
        me_now env w1 = (now, w2) \<and>
        disconnectLocked env (pvc_Reason p) (m, w2) = ((status, err), m', w') \<and>
        Manager_Cycle env (m, w1) = (err, m', w') \<and>
        (if err = None then cf_PendingCleanup (mg_configurationFloor m') = None \<and> mg_cleanupReason m' = []
         else mg_cleanupReason m' = pvc_Reason p \<and> st_SessionID (mg_status m') = pvc_SessionID p \<and>
           mg_leaseIDs m' = pvc_LeaseIDs p \<and>
           cf_PendingCleanup (mg_configurationFloor m') \<in> {None, Some p}))"
proof -
  have "recorded m" by (rule due.P_reach [OF NewManager_recorded assms(1)])
  with assms(2) have p: "mg_cleanupReason m = pvc_Reason p" "pvc_Reason p \<noteq> []" "st_SessionID (mg_status m) = pvc_SessionID p"
    "pvc_SessionID p \<noteq> []" "mg_leaseIDs m = pvc_LeaseIDs p" "pvc_LeaseIDs p \<noteq> []"
    by (simp_all add: recorded_def)
  obtain now w2 where t: "me_now env w1 = (now, w2)" by fastforce
  obtain status err m' w' where d: "disconnectLocked env (pvc_Reason p) (m, w2) = ((status, err), m', w')"
    by (metis prod.collapse)
  have c: "Manager_Cycle env (m, w1) = (err, m', w')"
    using p(1,2) by (simp add: Manager_Cycle_def Let_def t d)
  have left: "if err = None then pending m' = None \<and> mg_cleanupReason m' = []
     else mg_cleanupReason m' = pvc_Reason p \<and> st_SessionID (mg_status m') = pvc_SessionID p \<and>
       mg_leaseIDs m' = pvc_LeaseIDs p \<and> pending m' \<in> {None, Some p}"
    using d by (cases rule: disconnect_cases) (use p in auto)
  have "case connectManaged env input (m, w1) of (err, m', w') \<Rightarrow> err \<noteq> None \<and> m' = m"
    using p(1,2) by (auto simp: connectManaged_def Let_def split: prod.split option.split)
  then have "case Manager_Connect env input (m, w1) of ((status, err), m', w') \<Rightarrow> err \<noteq> None \<and> m' = m"
    using p(1,2) by (auto simp: Manager_Connect_def with_status_def Let_def split: prod.split)
  with p t d c left show ?thesis by blast
qed

theorem begun_cleanup_is_retried_witness:
  "mg_cleanupReason (fst sample_interrupted) = ''user_disconnected'' \<and>
   st_SessionID (mg_status (fst sample_interrupted)) = ''session-1'' \<and>
   mg_leaseIDs (fst sample_interrupted) = [''net'', ''res'']"
proof -
  have "pending (fst sample_interrupted) = Some \<lparr>pvc_SessionID = ''session-1'', pvc_LeaseIDs = [''net'', ''res''],
      pvc_Reason = ''user_disconnected''\<rparr>"
    using sample_interrupted_state by (simp add: split_beta)
  from begun_cleanup_is_retried [OF sample_interrupted_reach this] show ?thesis by auto
qed

text \<open>C15: no operation of the manager lowers the floor: the configuration version and the policy
  version of the floor never decrease, and while the configuration version stays, so does the
  digest of its content. A replayed or altered configuration is thus refused for good.\<close>

theorem floor_never_regresses:
  assumes "(m', w') \<in> {snd (Manager_Connect env input (m, w)), snd (Manager_Disconnect env (m, w)),
     snd (Manager_Cycle env (m, w)), snd (Manager_ConfigureMihomoApp env url (m, w)),
     snd (Manager_SelectMihomoApp env proxy (m, w)), snd (Manager_RefreshMihomoApp env (m, w)),
     snd (Manager_ClearMihomoApp env (m, w))}"
  shows "cf_ConfigurationVersion (mg_configurationFloor m) \<le> cf_ConfigurationVersion (mg_configurationFloor m') \<and>
         cf_PolicyVersion (mg_configurationFloor m) \<le> cf_PolicyVersion (mg_configurationFloor m') \<and>
         (cf_ConfigurationVersion (mg_configurationFloor m') = cf_ConfigurationVersion (mg_configurationFloor m) \<longrightarrow>
          cf_Digest (mg_configurationFloor m') = cf_Digest (mg_configurationFloor m))"
proof -
  let ?f = "mg_configurationFloor m"
  have start: "floor_above ?f m" by (simp add: floor_above_def floor_le_def)
  note operation = floor.P_Connect floor.P_Disconnect floor.P_Cycle floor.P_app
  from assms consider
      "(m', w') = snd (Manager_Connect env input (m, w))" | "(m', w') = snd (Manager_Disconnect env (m, w))"
    | "(m', w') = snd (Manager_Cycle env (m, w))" | "(m', w') = snd (Manager_ConfigureMihomoApp env url (m, w))"
    | "(m', w') = snd (Manager_SelectMihomoApp env proxy (m, w))"
    | "(m', w') = snd (Manager_RefreshMihomoApp env (m, w))"
    | "(m', w') = snd (Manager_ClearMihomoApp env (m, w))" by blast
  then have "floor_above ?f m'"
    by cases (metis start operation prod.collapse)+
  then show ?thesis by (auto simp: floor_above_def floor_le_def)
qed

theorem floor_never_regresses_witness:
  "cf_PolicyVersion (mg_configurationFloor sample_manager) \<le>
   cf_PolicyVersion (mg_configurationFloor (fst sample_connected))"
  using floor_never_regresses [of "fst sample_connected" "snd sample_connected" sample_offline sample_input sample_manager
      empty_TunnelReadback "[]" "[]"]
  by (simp add: sample_connected_def)

text \<open>C16: the executor is asked to apply configurations in the order of their versions. Whatever
  executor the service uses, and whatever the histories of connections, polls and disconnects,
  the versions it is given never decrease and never exceed the floor that survives a restart.\<close>

theorem configurations_applied_in_order:
  assumes "manager_reach (logged_env env) (executor, []) m w"
  shows "sorted (map cd_ConfigurationVersion (snd (mg_executor m))) \<and>
         (\<forall>desired \<in> set (snd (mg_executor m)).
            cd_ConfigurationVersion desired \<le> cf_ConfigurationVersion (mg_configurationFloor m))"
proof -
  have "applied_in_order m" if "NewManager (logged_env env) (executor, []) w = (Inr m, w')" for w m w'
  proof -
    from that have "snd (mg_executor m) = []"
      by (auto simp: NewManager_def restoreConfigurationFloor_def Let_def
          split: if_splits prod.splits sum.splits option.splits)
    then show ?thesis by (simp add: applied_in_order_def)
  qed
  from order.P_reach [OF this assms] show ?thesis by (simp add: applied_in_order_def)
qed

definition sample_logged :: "(Executor CoordinatedExecutor \<times> ConfigurationDesired list) Manager \<times> TunnelReadback" where
  "sample_logged =
     (case NewManager (logged_env sample_offline) (sample_coordinator, []) empty_TunnelReadback of
        (Inr m, w) \<Rightarrow> snd (Manager_Connect (logged_env sample_offline) sample_input (m, w))
      | (Inl _, _) \<Rightarrow> undefined)"

lemma sample_logged_log: "map cd_ConfigurationVersion (snd (mg_executor (fst sample_logged))) = [1]"
  by code_simp

lemma sample_logged_new:
  "case NewManager (logged_env sample_offline) (sample_coordinator, []) empty_TunnelReadback of
     (r, w) \<Rightarrow> (case r of Inl _ \<Rightarrow> False | Inr _ \<Rightarrow> True)"
  by code_simp

lemma sample_logged_reach:
  "manager_reach (logged_env sample_offline) (sample_coordinator, []) (fst sample_logged) (snd sample_logged)"
proof -
  from sample_logged_new obtain m w where
    n: "NewManager (logged_env sample_offline) (sample_coordinator, []) empty_TunnelReadback = (Inr m, w)"
    by (auto split: prod.splits sum.splits)
  obtain r m' w' where "Manager_Connect (logged_env sample_offline) sample_input (m, w) = (r, m', w')"
    by (metis prod_cases3)
  with connects [OF starts [OF n] this] n show ?thesis by (simp add: sample_logged_def)
qed

theorem configurations_applied_in_order_witness:
  "sorted (map cd_ConfigurationVersion (snd (mg_executor (fst sample_logged)))) \<and>
   snd (mg_executor (fst sample_logged)) \<noteq> []"
  using configurations_applied_in_order [OF sample_logged_reach] sample_logged_log by auto

text \<open>
  The calls of a disconnect, with their results: the proxy runtime's and the system's \<open>Disable\<close>,
  and the control plane's \<open>Revoke\<close>. A log of them is a part of the world that grows by these calls
  only.
\<close>

datatype teardown_call = ProxyDisabled error | TunnelDisabled error | LeasesRevoked LeaseRevoke error

definition teardown_observed ::
  "('w \<Rightarrow> teardown_call list) \<Rightarrow> 'w System \<Rightarrow> 'w MihomoRuntime option \<Rightarrow> ('e, 'w) manager_env \<Rightarrow> bool" where
  "teardown_observed log system mihomo env \<longleftrightarrow>
     (\<forall>w. case sys_Disable system w of (err, w') \<Rightarrow> log w' = log w @ [TunnelDisabled err]) \<and>
     (\<forall>w. case sys_Readback system w of (result, w') \<Rightarrow> log w' = log w) \<and>
     (\<forall>runtime w. mihomo = Some runtime \<longrightarrow>
        (case mrt_Disable runtime w of (err, w') \<Rightarrow> log w' = log w @ [ProxyDisabled err])) \<and>
     (\<forall>request w. case rc_Revoke (me_control env) request w of
        (err, w') \<Rightarrow> log w' = log w @ [LeasesRevoked request err]) \<and>
     (\<forall>path raw description w. case fls_save (me_store env) path raw description w of (err, w') \<Rightarrow> log w' = log w) \<and>
     (\<forall>w. case me_now env w of (now, w') \<Rightarrow> log w' = log w)"

lemma teardown_laws:
  assumes "teardown_observed log system mihomo env"
  shows "sys_Disable system w = (err, w') \<Longrightarrow> log w' = log w @ [TunnelDisabled err]"
    and "sys_Readback system w = (result, w') \<Longrightarrow> log w' = log w"
    and "mihomo = Some runtime \<Longrightarrow> mrt_Disable runtime w = (err, w') \<Longrightarrow> log w' = log w @ [ProxyDisabled err]"
    and "rc_Revoke (me_control env) request w = (err, w') \<Longrightarrow> log w' = log w @ [LeasesRevoked request err]"
    and "fls_save (me_store env) path raw description w = (err, w') \<Longrightarrow> log w' = log w"
    and "me_now env w = (now, w') \<Longrightarrow> log w' = log w"
proof -
  note laws = assms [unfolded teardown_observed_def]
  show "sys_Disable system w = (err, w') \<Longrightarrow> log w' = log w @ [TunnelDisabled err]"
    using laws [THEN conjunct1, THEN spec [of _ w]] by simp
  note laws = laws [THEN conjunct2]
  show "sys_Readback system w = (result, w') \<Longrightarrow> log w' = log w"
    using laws [THEN conjunct1, THEN spec [of _ w]] by simp
  note laws = laws [THEN conjunct2]
  show "mihomo = Some runtime \<Longrightarrow> mrt_Disable runtime w = (err, w') \<Longrightarrow> log w' = log w @ [ProxyDisabled err]"
    using laws [THEN conjunct1, THEN spec [of _ runtime], THEN spec [of _ w]] by simp
  note laws = laws [THEN conjunct2]
  show "rc_Revoke (me_control env) request w = (err, w') \<Longrightarrow> log w' = log w @ [LeasesRevoked request err]"
    using laws [THEN conjunct1, THEN spec [of _ request], THEN spec [of _ w]] by simp
  note laws = laws [THEN conjunct2]
  show "fls_save (me_store env) path raw description w = (err, w') \<Longrightarrow> log w' = log w"
    using laws [THEN conjunct1, THEN spec [of _ path], THEN spec [of _ raw], THEN spec [of _ description],
        THEN spec [of _ w]] by simp
  show "me_now env w = (now, w') \<Longrightarrow> log w' = log w"
    using laws [THEN conjunct2, THEN spec [of _ w]] by simp
qed

lemma save_calls:
  assumes "teardown_observed log system mihomo env" "saveConfigurationFloor env floor w = (err, w')"
  shows "log w' = log w"
  using assms(2) teardown_laws(5) [OF assms(1)]
  by (auto simp: saveConfigurationFloor_def Let_def split: if_splits sum.splits prod.splits)

lemma begin_calls:
  "teardown_observed log system mihomo env \<Longrightarrow>
   beginVPNCleanup env session leases reason (m, w) = (err, m', w') \<Longrightarrow> log w' = log w"
  by (erule begin_cases) (auto dest: save_calls)

lemma finish_calls:
  assumes "teardown_observed log system mihomo env" "finishVPNCleanup env (m, w) = (err, m', w')"
  shows "log w' = log w"
  using assms(2) save_calls [OF assms(1)]
  by (auto simp: finishVPNCleanup_def Let_def split: if_splits prod.splits)

lemma revoke_calls:
  assumes "teardown_observed log system mihomo env" "revoke_held env session leases reason w = (err, w')"
  obtains (nothing) "session = [] \<or> leases = []" "log w' = log w" "err = None"
    | (revoked) at where "session \<noteq> []" "leases \<noteq> []"
      "log w' = log w @ [LeasesRevoked \<lparr>lrv_SessionID = session, lrv_LeaseIDs = leases, lrv_ReasonCode = reason,
                                       lrv_EffectiveAt = at\<rparr> err]"
proof (cases "session = [] \<or> leases = []")
  case True
  with assms(2) have "log w' = log w" "err = None" by (auto simp: revoke_held_def)
  with True show ?thesis by (rule nothing)
next
  case False
  obtain at w1 where t: "me_now env w = (at, w1)" by fastforce
  from assms(2) False have r: "rc_Revoke (me_control env) \<lparr>lrv_SessionID = session, lrv_LeaseIDs = leases,
      lrv_ReasonCode = reason, lrv_EffectiveAt = at\<rparr> w1 = (err, w')"
    by (simp add: revoke_held_def revoke_leases_def t)
  from False revoked teardown_laws(4) [OF assms(1) r] teardown_laws(6) [OF assms(1) t] show ?thesis by simp
qed

text \<open>The calls of \<open>Disable\<close>: the proxy first, then the tunnel; a proxy that does not stop ends it.\<close>

definition disable_calls :: "'w MihomoRuntime option \<Rightarrow> error \<Rightarrow> teardown_call list \<Rightarrow> bool" where
  "disable_calls mihomo err calls \<longleftrightarrow>
     (\<exists>e. calls = [ProxyDisabled (Some e)] \<and> err \<noteq> None) \<or>
     (\<exists>e. calls = (case mihomo of None \<Rightarrow> [] | Some _ \<Rightarrow> [ProxyDisabled None]) @ [TunnelDisabled e] \<and>
        (err = None \<longrightarrow> e = None))"

lemma Disable_calls:
  assumes obs: "teardown_observed log system mihomo env"
    and d: "Coordinated_Disable (endpoint_coordinator wgt digest system mihomo store dg) (ex, w) = (err, ex', w')"
  shows "\<exists>calls. log w' = log w @ calls \<and> disable_calls mihomo err calls"
proof -
  let ?env = "endpoint_coordinator wgt digest system mihomo store dg"
  have env: "cv_mihomo ?env = mihomo" "cv_wireGuard ?env = Executor_interface wgt digest system"
    by (simp_all add: endpoint_coordinator_def)
  obtain qe ex1 w1 where q: "quiesceMihomo ?env (ex, w) = (qe, ex1, w1)" by (metis prod_cases3)
  obtain derr e w2 where x: "Executor_disable system (co_wireGuard ex1, w1) = (derr, e, w2)" by (metis prod_cases3)
  obtain serr v1 where s: "sys_Disable system w1 = (serr, v1)" by fastforce
  obtain r v2 where rb: "sys_Readback system v1 = (r, v2)" by fastforce
  have w2: "w2 = v2" "derr = None \<Longrightarrow> serr = None"
    using x by (cases r; auto simp: Executor_disable_def Let_def s rb split: if_splits)+
  have l2: "log w2 = log w1 @ [TunnelDisabled serr]"
    using teardown_laws(1) [OF obs s] teardown_laws(2) [OF obs rb] w2 by simp
  have ran: "qe = None \<Longrightarrow> err = derr \<and> w' = w2" "qe \<noteq> None \<Longrightarrow> err = qe \<and> w' = w1"
    using d x by (auto simp: Coordinated_Disable_def Let_def q env Executor_interface_def Executor_Disable_def)
  show ?thesis
  proof (cases mihomo)
    case None
    with q have "qe = None" "w1 = w" by (auto simp: quiesceMihomo_def endpoint_coordinator_def)
    with ran l2 None w2(2) show ?thesis by (auto simp: disable_calls_def)
  next
    case (Some runtime)
    obtain perr u where p: "mrt_Disable runtime w = (perr, u)" by fastforce
    with q Some have q': "qe = perr" "w1 = u"
      by (auto simp: quiesceMihomo_def endpoint_coordinator_def split: if_splits)
    note l1 = teardown_laws(3) [OF obs Some p]
    show ?thesis
    proof (cases perr)
      case None
      with ran q' l1 l2 Some w2(2) show ?thesis by (auto simp: disable_calls_def)
    next
      case failed: (Some e)
      with ran q' l1 show ?thesis by (auto simp: disable_calls_def)
    qed
  qed
qed

lemma disconnect_calls:
  assumes obs: "teardown_observed log system mihomo env"
    and E: "me_executor env = Coordinated_interface (endpoint_coordinator wgt digest system mihomo store dg)"
    and d: "disconnectLocked env reason (m, w) = ((status, err), m', w')"
  shows "\<exists>torn localErr at remoteErr. log w' = log w @ torn @
     (if st_SessionID (mg_status m) = [] \<or> mg_leaseIDs m = [] then []
      else [LeasesRevoked \<lparr>lrv_SessionID = st_SessionID (mg_status m), lrv_LeaseIDs = mg_leaseIDs m,
              lrv_ReasonCode = reason, lrv_EffectiveAt = at\<rparr> remoteErr]) \<and>
     disable_calls mihomo localErr torn \<and> (err = None \<longrightarrow> localErr = None \<and> remoteErr = None)"
proof -
  let ?session = "st_SessionID (mg_status m)" and ?leases = "mg_leaseIDs m"
  obtain stateErr m1 w1 where b: "beginVPNCleanup env ?session ?leases reason (m, w) = (stateErr, m1, w1)"
    by (metis prod_cases3)
  obtain localErr e w2 where x: "ce_Disable (me_executor env) (mg_executor m1, w1) = (localErr, e, w2)"
    by (metis prod_cases3)
  obtain remoteErr w3 where r: "revoke_held env ?session ?leases reason w2 = (remoteErr, w3)" by fastforce
  obtain ferr m3 w4 where f: "finishVPNCleanup env (m1\<lparr>mg_executor := e\<rparr>, w3) = (ferr, m3, w4)"
    by (metis prod_cases3)
  from x have "Coordinated_Disable (endpoint_coordinator wgt digest system mihomo store dg) (mg_executor m1, w1) =
      (localErr, e, w2)" by (simp add: E Coordinated_interface_def)
  from Disable_calls [OF obs this] obtain torn where torn: "log w2 = log w1 @ torn" "disable_calls mihomo localErr torn"
    by blast
  have w': "log w' = log w3"
    using d finish_calls [OF obs f] by (auto simp: disconnectLocked_def Let_def b x r f split: if_splits)
  have errs: "err = None \<Longrightarrow> localErr = None \<and> remoteErr = None"
    using d by (auto simp: disconnectLocked_def Let_def b x r f split: if_splits)
  from obs r show ?thesis
  proof (cases rule: revoke_calls)
    case nothing
    with torn w' begin_calls [OF obs b] errs show ?thesis
      by (intro exI [of _ torn] exI [of _ localErr] exI [of _ undefined] exI [of _ None]) auto
  next
    case (revoked at)
    with torn w' begin_calls [OF obs b] errs show ?thesis
      by (intro exI [of _ torn] exI [of _ localErr] exI [of _ at] exI [of _ remoteErr]) auto
  qed
qed

text \<open>C17: \<open>Disconnect\<close> is complete or it stays due. It always calls \<open>Disable\<close> of the proxy runtime, then,
  if the proxy has stopped, \<open>Disable\<close> of the system, and while a session with leases is held, \<open>Revoke\<close>
  of exactly that session and those leases. If it reports no error, each of these calls has
  succeeded, the executor remembers neither proxy nor tunnel, the tunnel was read back as empty, and
  no session, lease, pending cleanup or reason remains; if it reports one, the session and its
  leases are kept, the manager is degraded and the reason is remembered.\<close>

theorem Disconnect_complete_or_due:
  assumes "teardown_observed log system mihomo env"
    "me_executor env = Coordinated_interface (endpoint_coordinator wgt digest system mihomo store dg)"
    "Manager_Disconnect env (m, w) = ((status, err), m', w')"
  shows "\<exists>torn at remoteErr. log w' = log w @ torn @
       (if st_SessionID (mg_status m) = [] \<or> mg_leaseIDs m = [] then []
        else [LeasesRevoked \<lparr>lrv_SessionID = st_SessionID (mg_status m), lrv_LeaseIDs = mg_leaseIDs m,
                lrv_ReasonCode = ''user_disconnected'', lrv_EffectiveAt = at\<rparr> remoteErr]) \<and>
     (if err = None then
        remoteErr = None \<and>
        torn = (case mihomo of None \<Rightarrow> [] | Some _ \<Rightarrow> [ProxyDisabled None]) @ [TunnelDisabled None] \<and>
        \<not> co_mihomoActive (mg_executor m') \<and> co_previousMihomo (mg_executor m') = None \<and>
        ex_previous (co_wireGuard (mg_executor m')) = None \<and> (\<exists>w. observed system empty_TunnelReadback w) \<and>
        mg_status m' = disconnected_status (me_options env) \<and> mg_leaseIDs m' = [] \<and> mg_disabled m' \<and>
        cf_PendingCleanup (mg_configurationFloor m') = None \<and> mg_cleanupReason m' = []
      else
        ((\<exists>e. torn = [ProxyDisabled (Some e)]) \<or>
         (\<exists>e. torn = (case mihomo of None \<Rightarrow> [] | Some _ \<Rightarrow> [ProxyDisabled None]) @ [TunnelDisabled e])) \<and>
        mg_cleanupReason m' = ''user_disconnected'' \<and> mg_leaseIDs m' = mg_leaseIDs m \<and>
        st_SessionID (mg_status m') = st_SessionID (mg_status m) \<and> st_State (mg_status m') = StateDegraded)"
proof -
  from assms(3) have d: "disconnectLocked env ''user_disconnected'' (m, w) = ((status, err), m', w')"
    by (simp add: Manager_Disconnect_def)
  from disconnect_calls [OF assms(1,2) d] obtain torn localErr at remoteErr where calls:
    "log w' = log w @ torn @ (if st_SessionID (mg_status m) = [] \<or> mg_leaseIDs m = [] then []
      else [LeasesRevoked \<lparr>lrv_SessionID = st_SessionID (mg_status m), lrv_LeaseIDs = mg_leaseIDs m,
              lrv_ReasonCode = ''user_disconnected'', lrv_EffectiveAt = at\<rparr> remoteErr])"
    "disable_calls mihomo localErr torn" "err = None \<longrightarrow> localErr = None \<and> remoteErr = None" by blast
  from d show ?thesis
  proof (cases rule: disconnect_cases)
    case (complete e w1 w2)
    from coordinated.disable_removes complete(2) assms(2)
    have "Coordinated_removed (Executor_removed system) e w2" by metis
    moreover from calls(2,3) complete(1) have "remoteErr = None"
      "torn = (case mihomo of None \<Rightarrow> [] | Some _ \<Rightarrow> [ProxyDisabled None]) @ [TunnelDisabled None]"
      by (auto simp: disable_calls_def)
    ultimately show ?thesis using calls(1) complete
      by (intro exI [of _ torn] exI [of _ at] exI [of _ remoteErr])
        (auto simp: Coordinated_removed_def proxy_off_def Executor_removed_def)
  next
    case (incomplete e w1 localErr' w2)
    from calls(2) have "(\<exists>e. torn = [ProxyDisabled (Some e)]) \<or>
        (\<exists>e. torn = (case mihomo of None \<Rightarrow> [] | Some _ \<Rightarrow> [ProxyDisabled None]) @ [TunnelDisabled e])"
      by (auto simp: disable_calls_def)
    with calls(1) incomplete show ?thesis
      by (intro exI [of _ torn] exI [of _ at] exI [of _ remoteErr]) simp
  qed
qed

text \<open>The sample service with a log beside its world.\<close>

definition sample_logging_system :: "(TunnelReadback \<times> teardown_call list) System" where
  "sample_logging_system =
     \<lparr>sys_Apply = (\<lambda>plan (w, log). (None, TunnelPlan_Readback plan, log)),
      sys_Readback = (\<lambda>(w, log). ((w, None), w, log)),
      sys_Disable = (\<lambda>(w, log). (None, empty_TunnelReadback, log @ [TunnelDisabled None])),
      sys_TunnelInterface = Some (\<lambda>w. ((''utun3'', None), w))\<rparr>"

definition sample_logging_runtime :: "(TunnelReadback \<times> teardown_call list) MihomoRuntime" where
  "sample_logging_runtime =
     \<lparr>mrt_Apply = (\<lambda>c w. ((expectedMihomoReadback sample_digests c, None), w)),
      mrt_Disable = (\<lambda>(w, log). (None, w, log @ [ProxyDisabled None])), mrt_ApplySubscription = None,
      mrt_Verify = Some (\<lambda>c w. (None, w))\<rparr>"

definition sample_logging_env ::
  "(Executor CoordinatedExecutor, TunnelReadback \<times> teardown_call list) manager_env" where
  "sample_logging_env =
     \<lparr>me_options = me_options sample_offline,
      me_control = (sample_control 1 None)\<lparr>rc_Revoke := (\<lambda>request (w, log). (None, w, log @ [LeasesRevoked request None]))\<rparr>,
      me_executor = Coordinated_interface (endpoint_coordinator sample_wgt (\<lambda>_. ''00'') sample_logging_system
        (Some sample_logging_runtime) sample_store sample_digests),
      me_App = None,
      me_store = \<lparr>fls_IsAbs = (\<lambda>p. has_prefix p ''/''), fls_read = (\<lambda>p n w. (Inl ErrNotExist, w)),
         fls_unprotect = (\<lambda>s d w. (Inr s, w)), fls_save = (\<lambda>p s d w. (None, w))\<rparr>,
      me_codec = me_codec sample_offline, me_CheckVPNHealth = None, me_Observe = None, me_VPNProbe = None,
      me_ChannelsHealthy = None, me_randomID = (\<lambda>w. (''id-1'', w)), me_now = (\<lambda>w. (10, w))\<rparr>"

lemma sample_logging_observed:
  "teardown_observed snd sample_logging_system (Some sample_logging_runtime) sample_logging_env"
  by (simp add: teardown_observed_def sample_logging_system_def sample_logging_runtime_def sample_logging_env_def
      sample_control_def)

lemma sample_logging_disconnect:
  "case Manager_Disconnect sample_logging_env (fst sample_connected, snd sample_connected, []) of
     ((status, err), m, w) \<Rightarrow> err = None"
  by code_simp

theorem Disconnect_complete_or_due_witness:
  "case Manager_Disconnect sample_logging_env (fst sample_connected, snd sample_connected, []) of
     ((status, err), m, w, log) \<Rightarrow>
       (\<exists>at. log = [ProxyDisabled None, TunnelDisabled None,
          LeasesRevoked \<lparr>lrv_SessionID = ''session-1'', lrv_LeaseIDs = [''net'', ''res''],
            lrv_ReasonCode = ''user_disconnected'', lrv_EffectiveAt = at\<rparr> None]) \<and>
       mg_leaseIDs m = [] \<and> \<not> co_mihomoActive (mg_executor m)"
proof -
  obtain status err m w log where d: "Manager_Disconnect sample_logging_env
      (fst sample_connected, snd sample_connected, []) = ((status, err), m, w, log)"
    by (metis prod.collapse)
  have E: "me_executor sample_logging_env = Coordinated_interface (endpoint_coordinator sample_wgt (\<lambda>_. ''00'')
      sample_logging_system (Some sample_logging_runtime) sample_store sample_digests)"
    by (simp add: sample_logging_env_def)
  have "err = None" using sample_logging_disconnect by (simp add: d)
  moreover have "st_SessionID (mg_status (fst sample_connected)) = ''session-1''"
    "mg_leaseIDs (fst sample_connected) = [''net'', ''res'']"
    using sample_connected_state by (simp_all add: split_beta)
  ultimately show ?thesis using Disconnect_complete_or_due [OF sample_logging_observed E d] by (auto simp: d)
qed

subsection \<open>Expiry\<close>

lemma disconnect_settles:
  assumes "disconnectLocked env reason (m, w) = (r, m', w')" "reason \<noteq> []"
  shows "mg_cleanupReason m' \<noteq> [] \<or> st_SessionID (mg_status m') = [] \<and> mg_disabled m'"
proof -
  obtain st e where "r = (st, e)" by fastforce
  with assms show ?thesis by (auto elim!: disconnect_cases simp: disconnected_status_def)
qed

definition in_force :: "time \<Rightarrow> 'e Manager \<Rightarrow> bool" where
  "in_force now m \<longleftrightarrow>
     (st_SessionID (mg_status m) \<noteq> [] \<longrightarrow> mg_sessionUntil m = zero_time \<or> now < mg_sessionUntil m) \<and>
     (\<not> mg_disabled m \<longrightarrow> st_ValidUntil (mg_status m) = zero_time \<or> now < st_ValidUntil (mg_status m))"

lemma settled_in_force:
  "disconnectLocked env reason (m, w) = (r, m', w') \<Longrightarrow> reason \<noteq> [] \<Longrightarrow>
   mg_cleanupReason m' \<noteq> [] \<or> st_SessionID (mg_status m') = [] \<and> mg_disabled m'"
  by (rule disconnect_settles)

lemma enforceExpiry_in_force:
  assumes "enforceExpiry env (m, w) = (m', w')"
  shows "mg_cleanupReason m' \<noteq> [] \<or> st_SessionID (mg_status m') = [] \<and> mg_disabled m' \<or>
    (\<exists>now. me_now env w = (now, w') \<and> in_force now m')"
proof -
  obtain now w1 where t: "me_now env w = (now, w1)" by fastforce
  show ?thesis
    using assms settled_in_force
    by (fastforce simp: enforceExpiry_def t Let_def time_IsZero_def in_force_def split: if_splits prod.splits)
qed

text \<open>C18: nothing that has expired stays in force after a cycle, whatever the control plane answered
  and however much time passed: unless a disconnect is still due or has left neither session nor
  configuration, the last thing the cycle does is to read the clock, and at that time a session that
  remains has not expired, and an enabled executor has a configuration that has not expired.\<close>

theorem nothing_expired_survives_cycle:
  assumes "Manager_Cycle env (m, w) = (err, m', w')"
  shows "mg_cleanupReason m' \<noteq> [] \<or> st_SessionID (mg_status m') = [] \<and> mg_disabled m' \<or>
     (\<exists>w1 now. me_now env w1 = (now, w') \<and>
        (st_SessionID (mg_status m') \<noteq> [] \<longrightarrow> mg_sessionUntil m' = zero_time \<or> now < mg_sessionUntil m') \<and>
        (\<not> mg_disabled m' \<longrightarrow> st_ValidUntil (mg_status m') = zero_time \<or> now < st_ValidUntil (mg_status m')))"
proof -
  let ?ok = "\<lambda>m w. mg_cleanupReason m \<noteq> [] \<or> st_SessionID (mg_status m) = [] \<and> mg_disabled m \<or>
      (\<exists>w1 now. me_now env w1 = (now, w) \<and> in_force now m)"
  obtain now w0 where t: "me_now env w = (now, w0)" by fastforce
  have disc: "?ok m1 w1" if "disconnectLocked env reason (m, w0) = (r, m1, w1)" "reason \<noteq> []" for reason r m1 w1
    using settled_in_force [OF that] by blast
  have body: "?ok m1 w1" if "enforceExpiry env (m4, w4) = (m1, w1)" for m4 w4 m1 w1
    using enforceExpiry_in_force [OF that] by blast
  from assms have "?ok m' w'"
    unfolding Manager_Cycle_def
    by (simp add: t Let_def split: if_splits prod.splits) (auto dest: disc body)
  then show ?thesis by (simp add: in_force_def)
qed

text \<open>
  A service whose clock runs: its world is the time, and a poll takes a hundred units and fails. The
  session expires while the poll is waiting.
\<close>

definition slow_env :: "(unit, int) manager_env" where
  "slow_env =
     \<lparr>me_options = me_options sample_offline,
      me_control = (sample_control 1 None)\<lparr>rc_Configuration := (\<lambda>t. (Inl (ErrorNew ''timeout''), t + 100))\<rparr>,
      me_executor = \<lparr>ce_Apply = (\<lambda>desired now s. (\<lparr>ao_Status = ''applied'', ao_ReadbackHash = [], ao_ReasonCode = []\<rparr>, s)),
         ce_Disable = (\<lambda>s. (None, s)), ce_Verify = None, ce_VPNBinding = None\<rparr>,
      me_App = None,
      me_store = \<lparr>fls_IsAbs = (\<lambda>p. has_prefix p ''/''), fls_read = (\<lambda>p n w. (Inl ErrNotExist, w)),
         fls_unprotect = (\<lambda>s d w. (Inr s, w)), fls_save = (\<lambda>p s d w. (None, w))\<rparr>,
      me_codec = me_codec sample_offline, me_CheckVPNHealth = None, me_Observe = None, me_VPNProbe = None,
      me_ChannelsHealthy = None, me_randomID = (\<lambda>t. (''id-1'', t)), me_now = (\<lambda>t. (t, t))\<rparr>"

definition slow_manager :: "unit Manager" where
  "slow_manager =
     \<lparr>mg_executor = (), mg_startedAt = 0, mg_pollInterval = 60 * second, mg_heartbeatInterval = 60 * second,
      mg_status = (disconnected_status (me_options sample_offline))\<lparr>st_State := StateConnected,
        st_SessionID := ''session-1'', st_ValidUntil := 1000\<rparr>,
      mg_leaseIDs = [''net''], mg_sessionUntil = 50, mg_nextRenewAt = zero_time, mg_appliedVersion = 1,
      mg_appliedHash = ''sha256:1'', mg_disabled = False, mg_cleanupReason = [], mg_presenceBootID = ''id-1'',
      mg_configurationFloor = empty_floor\<rparr>"

lemma slow_cycle:
  "case Manager_Cycle slow_env (slow_manager, 10) of (err, m, t) \<Rightarrow>
     err \<noteq> None \<and> mg_cleanupReason m = [] \<and> t = 110"
  by code_simp

theorem nothing_expired_survives_cycle_witness:
  "case Manager_Cycle slow_env (slow_manager, 10) of (err, m, t) \<Rightarrow>
     mg_sessionUntil slow_manager < t \<and>
     (st_SessionID (mg_status m) \<noteq> [] \<longrightarrow> mg_sessionUntil m = zero_time \<or> t < mg_sessionUntil m)"
proof -
  obtain err m t where c: "Manager_Cycle slow_env (slow_manager, 10) = (err, m, t)" by (metis prod_cases3)
  have "me_now slow_env = (\<lambda>t. (t, t))" by (simp add: slow_env_def)
  moreover have "mg_cleanupReason m = []" "t = 110" using slow_cycle by (simp_all add: c)
  moreover have "mg_sessionUntil slow_manager = 50" by (simp add: slow_manager_def)
  ultimately show ?thesis using nothing_expired_survives_cycle [OF c] by (auto simp: c)
qed

end
