(* ===== verification/Manager_Restart.thy ===== *)
theory Manager_Restart
  imports Manager_Safety
begin

text \<open>
  A service that is interrupted and starts again: what \<open>beginVPNCleanup\<close> saved is what
  \<open>restoreConfigurationFloor\<close> reads back. Then the timing of the poll loop, and a defect: after a
  configuration has been applied once, a new connection is refused.
\<close>

subsection \<open>The floor of a manager is well formed\<close>

text \<open>SHA-256 in hexadecimal: sixty-four digits.\<close>

definition hex_digest :: "manager_codec \<Rightarrow> bool" where
  "hex_digest codec \<longleftrightarrow> (\<forall>s. length (mcd_sha256 codec s) = 64 \<and> list_all is_lower_hex (mcd_sha256 codec s))"

lemma configuration_digest_pattern:
  "hex_digest codec \<Longrightarrow> configurationDigestPattern (configuration_digest codec raw)"
  by (simp add: hex_digest_def configurationDigestPattern_def configuration_digest_def has_prefix_def)

definition floor_wellformed :: "configurationFloor \<Rightarrow> bool" where
  "floor_wellformed f \<longleftrightarrow>
     (if cf_ConfigurationVersion f = 0 then cf_PolicyVersion f = 0 \<and> cf_Digest f = []
      else 0 < cf_ConfigurationVersion f \<and> 0 < cf_PolicyVersion f \<and> configurationDigestPattern (cf_Digest f))"

definition floor_ok :: "('e, 'w) manager_env \<Rightarrow> 'e Manager \<Rightarrow> bool" where
  "floor_ok env m \<longleftrightarrow> (hex_digest (me_codec env) \<longrightarrow> floor_wellformed (mg_configurationFloor m))"

lemma floor_ok_kept: "floor_ok env m \<Longrightarrow> floor_kept m m' \<Longrightarrow> floor_ok env m'"
  by (simp add: floor_ok_def floor_wellformed_def floor_kept_def)

interpretation wf: manager_invariant env "floor_ok env" for env
proof
  fix m m' :: "'a Manager" and reason :: string and w :: 'b and r w'
  show "floor_ok env m \<Longrightarrow> disconnectLocked env reason (m, w) = (r, m', w') \<Longrightarrow> floor_ok env m'"
    by (rule floor_ok_kept [OF _ disconnect_kept(1)])
next
  fix m m' :: "'a Manager" and desired and w :: 'b and err w'
  assume "floor_ok env m" "rememberConfiguration env desired (m, w) = (err, m', w')"
  then show "floor_ok env m'"
    by (auto elim!: remember_cases simp: floor_ok_def floor_wellformed_def configuration_digest_pattern)
next
  fix m m' :: "'a Manager" and desired hash revoked now and w :: 'b and err w'
  assume "floor_ok env m" and rd: "remembered desired m"
    and a: "apply_desired env desired hash revoked now (m, w) = (err, m', w')"
  from this(1) show "floor_ok env m'" by (rule floor_ok_kept) (rule apply_desired_kept [OF a rd])
qed (simp_all add: floor_ok_def)

lemma NewManager_floor_ok: "NewManager env executor w = (Inr m, w') \<Longrightarrow> floor_ok env m"
  by (auto simp: NewManager_def restoreConfigurationFloor_def Let_def floor_ok_def floor_wellformed_def
      empty_floor_def validConfigurationFloor_def
      split: if_splits prod.splits sum.splits option.splits)

lemma begun_floor_valid:
  assumes "hex_digest (me_codec env)" "floor_ok env m" "session \<noteq> []" "leases \<noteq> []"
    "beginVPNCleanup env session leases reason (m, w) = (err, m', w')"
  shows "validConfigurationFloor (mg_configurationFloor m') (floorIdentity env) \<longleftrightarrow>
    valid_pending \<lparr>pvc_SessionID = session, pvc_LeaseIDs = leases, pvc_Reason = reason\<rparr>"
  using assms(5)
proof (cases rule: begin_cases)
  case (marked floor)
  with assms(1,2) show ?thesis
    by (auto simp: validConfigurationFloor_def floor_ok_def floor_wellformed_def split: if_splits)
qed (use assms in auto)

subsection \<open>Cleanup after a restart\<close>

text \<open>
  What is needed of the platform and the JSON library: the text that was saved is the text that is
  read, and decoding a floor inverts encoding it.
\<close>

definition floor_reads_back :: "('e, 'w) manager_env \<Rightarrow> configurationFloor \<Rightarrow> 'w \<Rightarrow> bool" where
  "floor_reads_back env floor w \<longleftrightarrow>
     (case mcd_encode_floor (me_codec env) floor of
        Inl _ \<Rightarrow> False
      | Inr raw \<Rightarrow>
          (let (sealed, w) = fls_read (me_store env) (mo_ConfigurationStatePath (me_options env)) (128 * 1024) w
           in case sealed of
                Inl _ \<Rightarrow> False
              | Inr sealed \<Rightarrow>
                  fst (fls_unprotect (me_store env) sealed configurationFloorDescription w) = Inr raw \<and>
                  mcd_decode_floor (me_codec env) raw = Inr floor))"

lemma restore_reads_back:
  assumes "floor_reads_back env floor w" "mo_ConfigurationStatePath (me_options env) \<noteq> []"
    "fls_IsAbs (me_store env) (mo_ConfigurationStatePath (me_options env))" "mo_ControlURL (me_options env) \<noteq> []"
  shows "\<exists>w'. restoreConfigurationFloor env (m, w) =
     (if validConfigurationFloor floor (floorIdentity env) then
        (None, (case cf_PendingCleanup floor of
             None \<Rightarrow> m\<lparr>mg_configurationFloor := floor\<rparr>
           | Some p \<Rightarrow>
               (update (\<lambda>status. status\<lparr>st_SessionID := pvc_SessionID p, st_State := StateDegraded,
                  st_Diagnostic := ''cleanup_pending''\<rparr>) (m\<lparr>mg_configurationFloor := floor\<rparr>))
                 \<lparr>mg_leaseIDs := pvc_LeaseIDs p, mg_cleanupReason := pvc_Reason p\<rparr>), w')
      else (Some (ErrorNew ''endpoint configuration floor identity or version is invalid''), m, w'))"
proof -
  let ?path = "mo_ConfigurationStatePath (me_options env)"
  obtain read w1 where read: "fls_read (me_store env) ?path (128 * 1024) w = (read, w1)" by fastforce
  with assms(1) obtain raw sealed where r: "fls_read (me_store env) ?path (128 * 1024) w = (Inr sealed, w1)"
    and u: "fst (fls_unprotect (me_store env) sealed configurationFloorDescription w1) = Inr raw"
    and d: "mcd_decode_floor (me_codec env) raw = Inr floor"
    by (cases read) (auto simp: floor_reads_back_def Let_def split: sum.splits)
  from u obtain w2 where u': "fls_unprotect (me_store env) sealed configurationFloorDescription w1 = (Inr raw, w2)"
    by (cases "fls_unprotect (me_store env) sealed configurationFloorDescription w1") simp
  show ?thesis
    using assms(2-4)
    by (intro exI [of _ w2]) (simp add: restoreConfigurationFloor_def Let_def r [simplified] u' d split: option.split)
qed

text \<open>
  The file of the floor, as far as the platform and the JSON library document it: a save that reports
  no error leaves a file whose text unprotects to what was saved; a file of at most 128 KiB is read as
  it is; decoding inverts encoding on the floors that are valid, which are ASCII; and neither the clock
  nor the random source writes it.
\<close>

definition floor_file :: "('w \<Rightarrow> string option) \<Rightarrow> ('e, 'w) manager_env \<Rightarrow> bool" where
  "floor_file contents env \<longleftrightarrow>
     (\<forall>raw w. case fls_save (me_store env) (mo_ConfigurationStatePath (me_options env)) raw
          configurationFloorDescription w of (err, w') \<Rightarrow>
        err = None \<longrightarrow> (\<exists>sealed. contents w' = Some sealed \<and>
          (\<forall>w. fst (fls_unprotect (me_store env) sealed configurationFloorDescription w) = Inr raw))) \<and>
     (\<forall>sealed w. contents w = Some sealed \<and> length sealed \<le> 128 * 1024 \<longrightarrow>
        fst (fls_read (me_store env) (mo_ConfigurationStatePath (me_options env)) (128 * 1024) w) = Inr sealed) \<and>
     (\<forall>floor raw. validConfigurationFloor floor (floorIdentity env) \<and>
        mcd_encode_floor (me_codec env) floor = Inr raw \<longrightarrow> mcd_decode_floor (me_codec env) raw = Inr floor) \<and>
     (\<forall>w. contents (snd (me_now env w)) = contents w) \<and>
     (\<forall>w. contents (snd (me_randomID env w)) = contents w)"

lemma saved_floor_reads_back:
  assumes "floor_file contents env" "mo_ConfigurationStatePath (me_options env) \<noteq> []"
    "saveConfigurationFloor env floor w = (None, w1)" "validConfigurationFloor floor (floorIdentity env)"
    "contents w2 = contents w1" "\<And>sealed. contents w2 = Some sealed \<Longrightarrow> length sealed \<le> 128 * 1024"
  shows "floor_reads_back env floor w2"
proof -
  let ?path = "mo_ConfigurationStatePath (me_options env)"
  note laws = assms(1) [unfolded floor_file_def]
  from assms(2,3) obtain raw where raw: "mcd_encode_floor (me_codec env) floor = Inr raw"
    "fls_save (me_store env) ?path raw configurationFloorDescription w = (None, w1)"
    by (auto simp: saveConfigurationFloor_def Let_def split: sum.splits prod.splits option.splits)
  obtain sealed where sealed: "contents w1 = Some sealed"
    "\<And>w. fst (fls_unprotect (me_store env) sealed configurationFloorDescription w) = Inr raw"
    using laws [THEN conjunct1, THEN spec [of _ raw], THEN spec [of _ w]] raw(2) by auto
  note laws = laws [THEN conjunct2]
  have "fst (fls_read (me_store env) ?path (128 * 1024) w2) = Inr sealed"
    using laws [THEN conjunct1, THEN spec [of _ sealed], THEN spec [of _ w2]] sealed(1) assms(5,6) by simp
  moreover have "mcd_decode_floor (me_codec env) raw = Inr floor"
    using laws [THEN conjunct2, THEN conjunct1, THEN spec [of _ floor], THEN spec [of _ raw]] assms(4) raw(1) by simp
  ultimately show ?thesis using raw(1) sealed(2) by (simp add: floor_reads_back_def Let_def split_beta)
qed

text \<open>What the checks of \<open>NewManager\<close> establish of the options.\<close>

definition options_ok :: "('e, 'w) manager_env \<Rightarrow> bool" where
  "options_ok env \<longleftrightarrow> (let options = me_options env in
     \<not> (\<not> identifierPattern (mo_RuntimeID options) \<or> \<not> identifierPattern (mo_DeviceID options) \<or>
        mo_PollInterval options \<le> 0 \<or> mo_PollInterval options > 5 * minute \<or>
        mo_HeartbeatInterval options \<le> 0 \<or> mo_HeartbeatInterval options > 5 * minute \<or>
        mo_RenewBefore options \<le> 0 \<or> mo_RenewBefore options > 2 * minute \<or>
        mo_MaxClockSkew options \<le> 0 \<or> mo_MaxClockSkew options > 5 * minute) \<and>
     (mo_ConfigurationStatePath options \<noteq> [] \<longrightarrow>
        fls_IsAbs (me_store env) (mo_ConfigurationStatePath options) \<and> mo_ControlURL options \<noteq> []))"

lemma NewManager_options:
  assumes "NewManager env executor w = (Inr m, w')"
  shows "options_ok env"
proof (rule ccontr)
  assume bad: "\<not> options_ok env"
  obtain now w1 where t: "me_now env w = (now, w1)" by fastforce
  obtain bootID w2 where b: "me_randomID env w1 = (bootID, w2)" by fastforce
  from bad assms show False
    by (auto simp: options_ok_def NewManager_def restoreConfigurationFloor_def Let_def t b split: if_splits)
qed

lemma reach_options: "manager_reach env executor m w \<Longrightarrow> options_ok env"
  by (induction rule: manager_reach.induct) (auto dest: NewManager_options)

subsection \<open>A service that keeps its floor in a file\<close>

text \<open>
  The world is the text of the file after a mark, or empty while there is none; the codec reads back
  the one floor it is made for.
\<close>

definition restart_file :: "string \<Rightarrow> string option" where
  "restart_file w = (case w of [] \<Rightarrow> None | _ # s \<Rightarrow> Some s)"

definition restart_env :: "configurationFloor \<Rightarrow> (unit, string) manager_env" where
  "restart_env floor =
     \<lparr>me_options = \<lparr>mo_ControlURL = ''https://control.example'', mo_ConfigurationStatePath = ''/floor'',
         mo_RuntimeID = ''endpoint-1'', mo_DeviceID = ''device-1'', mo_PollInterval = 60 * second,
         mo_HeartbeatInterval = 60 * second, mo_RenewBefore = 30 * second, mo_MaxClockSkew = 60 * second\<rparr>,
      me_control = sample_control 1 None,
      me_executor = \<lparr>ce_Apply = (\<lambda>desired now s. (\<lparr>ao_Status = ''applied'', ao_ReadbackHash = [], ao_ReasonCode = []\<rparr>, s)),
         ce_Disable = (\<lambda>s. (None, s)), ce_Verify = None, ce_VPNBinding = None\<rparr>,
      me_App = None,
      me_store = \<lparr>fls_IsAbs = (\<lambda>p. has_prefix p ''/''),
         fls_read = (\<lambda>p n w. (case restart_file w of None \<Rightarrow> Inl ErrNotExist | Some s \<Rightarrow> Inr s, w)),
         fls_unprotect = (\<lambda>s d w. (Inr s, w)), fls_save = (\<lambda>p s d w. (None, CHR ''+'' # s))\<rparr>,
      me_codec = \<lparr>mcd_encode_floor = (\<lambda>f. if f = floor then Inr ''floor'' else Inl (ErrorNew ''none'')),
         mcd_decode_floor = (\<lambda>s. Inr floor), mcd_encode_desired = (\<lambda>d. Inr []),
         mcd_decode_desired = (\<lambda>s. Inl (ErrorNew ''none'')), mcd_sha256 = (\<lambda>s. replicate 64 (CHR ''0''))\<rparr>,
      me_CheckVPNHealth = None, me_Observe = None, me_VPNProbe = None, me_ChannelsHealthy = None,
      me_randomID = (\<lambda>w. (''id-1'', w)), me_now = (\<lambda>w. (10, w))\<rparr>"

definition restart_floor :: "string list \<Rightarrow> configurationFloor" where
  "restart_floor leases =
     \<lparr>cf_PendingCleanup = Some \<lparr>pvc_SessionID = ''session-1'', pvc_LeaseIDs = leases, pvc_Reason = ''lease_expired''\<rparr>,
      cf_Version = 1, cf_Identity = ''sha256:'' @ replicate 64 (CHR ''0''), cf_ConfigurationVersion = 0,
      cf_PolicyVersion = 0, cf_Digest = []\<rparr>"

definition restart_manager :: "configurationFloor \<Rightarrow> unit Manager" where
  "restart_manager floor =
     \<lparr>mg_executor = (), mg_startedAt = 10, mg_pollInterval = 60 * second, mg_heartbeatInterval = 60 * second,
      mg_status = disconnected_status (me_options (restart_env floor)), mg_leaseIDs = [], mg_sessionUntil = zero_time,
      mg_nextRenewAt = zero_time, mg_appliedVersion = 0, mg_appliedHash = [], mg_disabled = True,
      mg_cleanupReason = [], mg_presenceBootID = ''id-1'', mg_configurationFloor = empty_floor\<rparr>"

lemma restart_env_simps [simp]:
  "hex_digest (me_codec (restart_env floor))"
  "mo_ConfigurationStatePath (me_options (restart_env floor)) = ''/floor''"
  "mo_ControlURL (me_options (restart_env floor)) \<noteq> []"
  "fls_IsAbs (me_store (restart_env floor)) ''/floor''"
  "fls_save (me_store (restart_env floor)) p s d w = (None, CHR ''+'' # s)"
  "floorIdentity (restart_env floor) = ''sha256:'' @ replicate 64 (CHR ''0'')"
  "floor_reads_back (restart_env floor) floor ''+floor''"
  "floor_file restart_file (restart_env floor)"
  by (simp_all add: restart_env_def hex_digest_def is_lower_hex_def char_class_defs has_prefix_def floorIdentity_def
      floor_reads_back_def list_all_iff restart_file_def floor_file_def)

lemma restart_new: "NewManager (restart_env floor) () [] = (Inr (restart_manager floor), [])"
  by (simp add: NewManager_def restoreConfigurationFloor_def restart_env_def restart_manager_def has_prefix_def
      char_class_defs identifier_char_def errors_is.simps restart_file_def)

lemma restart_begin:
  "leases \<noteq> [] \<Longrightarrow>
   beginVPNCleanup (restart_env (restart_floor leases)) ''session-1'' leases ''lease_expired''
     (restart_manager (restart_floor leases), []) =
   (None, (restart_manager (restart_floor leases))\<lparr>mg_configurationFloor := restart_floor leases\<rparr>, ''+floor'')"
  by (simp add: beginVPNCleanup_def saveConfigurationFloor_def Let_def)
     (simp add: restart_env_def restart_manager_def empty_floor_def restart_floor_def)

subsection \<open>Properties\<close>

text \<open>C24: a service that stops after a cleanup has begun resumes it. If \<open>beginVPNCleanup\<close> reported no
  error, and the process ends at any later point at which the file is still the one that it saved,
  then the next start succeeds; the new manager has the session, its leases, the reason and the floor
  of the old one, and its next cycle is nothing but that disconnect.\<close>

theorem restart_resumes_cleanup:
  assumes "manager_reach env executor m w" "hex_digest (me_codec env)" "floor_file contents env"
    and "beginVPNCleanup env session leases reason (m, w) = (None, m1, w1)"
    and "identifierPattern session" "identifierPattern reason" "list_all identifierPattern leases"
    and "0 < length leases" "length leases \<le> 768"
    and "mo_ConfigurationStatePath (me_options env) \<noteq> []"
    and "contents w2 = contents w1" "\<And>sealed. contents w2 = Some sealed \<Longrightarrow> length sealed \<le> 128 * 1024"
  shows "\<exists>m2 w3. NewManager env executor' w2 = (Inr m2, w3) \<and>
     mg_configurationFloor m2 = mg_configurationFloor m1 \<and>
     st_SessionID (mg_status m2) = session \<and> mg_leaseIDs m2 = leases \<and> mg_cleanupReason m2 = reason \<and>
     st_State (mg_status m2) = StateDegraded \<and>
     Manager_Cycle env (m2, w4) =
       (let (now, w5) = me_now env w4;
            ((_, err), m', w') = disconnectLocked env reason (m2, w5) in (err, m', w'))"
proof -
  have nonempty: "session \<noteq> []" "leases \<noteq> []" "reason \<noteq> []" using assms(5-8) identifier_nonempty by auto
  have "floor_ok env m" by (rule wf.P_reach [OF NewManager_floor_ok assms(1)])
  from begun_floor_valid [OF assms(2) this nonempty(1,2) assms(4)] assms(5-9) nonempty
  have valid: "validConfigurationFloor (mg_configurationFloor m1) (floorIdentity env)"
    by (simp add: valid_pending_def)
  from assms(4) have begun: "cf_PendingCleanup (mg_configurationFloor m1) =
      Some \<lparr>pvc_SessionID = session, pvc_LeaseIDs = leases, pvc_Reason = reason\<rparr>"
    "saveConfigurationFloor env (mg_configurationFloor m1) w = (None, w1)"
    using nonempty by (auto elim!: begin_cases)
  from reach_options [OF assms(1)] have options: "options_ok env" .
  obtain now u1 where t: "me_now env w2 = (now, u1)" by fastforce
  obtain bootID u2 where b: "me_randomID env u1 = (bootID, u2)" by fastforce
  define fresh where "fresh = \<lparr>mg_executor = executor', mg_startedAt = now, mg_pollInterval = mo_PollInterval (me_options env),
      mg_heartbeatInterval = mo_HeartbeatInterval (me_options env),
      mg_status = disconnected_status (me_options env), mg_leaseIDs = [], mg_sessionUntil = zero_time,
      mg_nextRenewAt = zero_time, mg_appliedVersion = 0, mg_appliedHash = [], mg_disabled = True,
      mg_cleanupReason = [], mg_presenceBootID = bootID, mg_configurationFloor = empty_floor\<rparr>"
  have "contents u2 = contents w2"
    using assms(3) t b unfolding floor_file_def by (metis snd_conv)
  with assms(11,12) have u2: "contents u2 = contents w1" "\<And>sealed. contents u2 = Some sealed \<Longrightarrow> length sealed \<le> 128 * 1024"
    by simp_all
  have "floor_reads_back env (mg_configurationFloor m1) u2"
    by (rule saved_floor_reads_back [OF assms(3,10) begun(2) valid u2])
  from restore_reads_back [OF this assms(10), of fresh] options valid begun(1) obtain w3 where
    r: "restoreConfigurationFloor env (fresh, u2) = (None,
      (update (\<lambda>status. status\<lparr>st_SessionID := session, st_State := StateDegraded,
         st_Diagnostic := ''cleanup_pending''\<rparr>) (fresh\<lparr>mg_configurationFloor := mg_configurationFloor m1\<rparr>))
        \<lparr>mg_leaseIDs := leases, mg_cleanupReason := reason\<rparr>, w3)"
    using assms(10) by (auto simp: options_ok_def Let_def)
  from options have "NewManager env executor' w2 = (Inr ((update (\<lambda>status. status\<lparr>st_SessionID := session,
      st_State := StateDegraded, st_Diagnostic := ''cleanup_pending''\<rparr>)
      (fresh\<lparr>mg_configurationFloor := mg_configurationFloor m1\<rparr>))
        \<lparr>mg_leaseIDs := leases, mg_cleanupReason := reason\<rparr>), w3)"
    by (simp add: NewManager_def options_ok_def Let_def t b r [unfolded fresh_def] fresh_def)
  then show ?thesis using nonempty by (simp add: Manager_Cycle_def Let_def split_beta)
qed

theorem restart_resumes_cleanup_witness:
  "\<exists>m w. NewManager (restart_env (restart_floor [''net''])) () ''+floor'' = (Inr m, w) \<and>
     st_SessionID (mg_status m) = ''session-1'' \<and> mg_leaseIDs m = [''net''] \<and> mg_cleanupReason m = ''lease_expired''"
  using restart_resumes_cleanup [OF starts [OF restart_new] restart_env_simps(1,8) restart_begin [of "[''net'']"],
      where executor' = "()" and ?w2.0 = "''+floor''" and ?w4.0 = "[]"]
  by (auto simp: char_class_defs identifier_char_def restart_file_def)

text \<open>A session with more leases than the floor admits survives no interruption. A cleanup of
  more than 768 leases is recorded without an error, but the record is invalid when it is read
  back, so the service refuses to start.\<close>

theorem oversized_cleanup_blocks_restart:
  assumes "manager_reach env executor m w" "hex_digest (me_codec env)"
    and "beginVPNCleanup env session leases reason (m, w) = (None, m1, w1)"
    and "session \<noteq> []" "768 < length leases"
    and "mo_ConfigurationStatePath (me_options env) \<noteq> []" "mo_ControlURL (me_options env) \<noteq> []"
    and "fls_IsAbs (me_store env) (mo_ConfigurationStatePath (me_options env))"
    and "floor_reads_back env (mg_configurationFloor m1) w1"
  shows "fst (restoreConfigurationFloor env (fresh, w1)) \<noteq> None"
proof -
  from assms(5) have "leases \<noteq> []" by auto
  moreover have "floor_ok env m" by (rule wf.P_reach [OF NewManager_floor_ok assms(1)])
  ultimately have "\<not> validConfigurationFloor (mg_configurationFloor m1) (floorIdentity env)"
    using begun_floor_valid [OF assms(2) _ assms(4) _ assms(3)] assms(5) by (simp add: valid_pending_def)
  with restore_reads_back [OF assms(9,6,8,7), of fresh] show ?thesis by auto
qed

theorem oversized_cleanup_blocks_restart_witness:
  "fst (restoreConfigurationFloor (restart_env (restart_floor (replicate 769 ''net'')))
     (restart_manager empty_floor, ''+floor'')) \<noteq> None"
  using oversized_cleanup_blocks_restart [OF starts [OF restart_new] restart_env_simps(1) restart_begin [of "replicate 769 ''net''"],
      where fresh = "restart_manager empty_floor"]
  by simp

text \<open>C25: the next poll is never late. The delay between two cycles is positive, at most a fifth over
  the configured interval, and ends no later than the next deadline that still lies ahead: the
  configuration's, and while a session is active the session's and the renewal's.\<close>

theorem poll_delay_bounds:
  assumes "0 < mo_PollInterval options" "\<And>n. 0 < n \<Longrightarrow> 0 \<le> draw n \<and> draw n < n"
  shows "let interval = fst (intervals options m);
             delay = nextPollDelay options (runtimeIntervalJitter draw) now m
         in 0 < delay \<and> delay \<le> interval + interval div 5 \<and>
            (now < st_ValidUntil (mg_status m) \<and> st_ValidUntil (mg_status m) \<noteq> zero_time \<longrightarrow>
               now + delay \<le> st_ValidUntil (mg_status m)) \<and>
            (st_SessionID (mg_status m) \<noteq> [] \<longrightarrow>
               (now < mg_sessionUntil m \<and> mg_sessionUntil m \<noteq> zero_time \<longrightarrow> now + delay \<le> mg_sessionUntil m) \<and>
               (now < mg_nextRenewAt m \<and> mg_nextRenewAt m \<noteq> zero_time \<longrightarrow> now + delay \<le> mg_nextRenewAt m))"
proof -
  let ?interval = "fst (intervals options m)" and ?jitter = "runtimeIntervalJitter draw (fst (intervals options m))"
  have pos: "0 < ?interval" using assms(1) by (auto simp: intervals_def)
  have j: "0 < ?jitter" "?jitter \<le> ?interval + ?interval div 5"
    using jitter_bounds [of draw ?interval, OF assms(2)] pos by auto
  define ds where "ds = (if st_SessionID (mg_status m) = [] then [st_ValidUntil (mg_status m)]
      else [st_ValidUntil (mg_status m), mg_sessionUntil m, mg_nextRenewAt m])"
  define delay where "delay = fold (shorten now) ds ?jitter"
  have delay: "nextPollDelay options (runtimeIntervalJitter draw) now m = delay"
    by (simp add: nextPollDelay_shorten delay_def ds_def)
  have "0 < delay" "delay \<le> ?jitter" using shorten_fold(1,2) j(1) by (simp_all add: delay_def)
  moreover have "now + delay \<le> d" if "d \<in> set ds" "d \<noteq> zero_time" "now < d" for d
    using shorten_fold(3) [of d ds now ?jitter] that by (simp add: delay_def time_IsZero_def)
  ultimately show ?thesis using j(2) unfolding delay by (auto simp: Let_def ds_def)
qed

theorem poll_delay_bounds_witness:
  "nextPollDelay (me_options (restart_env empty_floor)) (runtimeIntervalJitter (\<lambda>n. n - 1)) 10
     (restart_manager empty_floor) \<le> 72 * second"
  using poll_delay_bounds [of "me_options (restart_env empty_floor)" "\<lambda>n. n - 1" "restart_manager empty_floor" 10]
  by (simp add: Let_def intervals_def restart_manager_def) (simp add: restart_env_def)

subsection \<open>Connecting again\<close>

definition same_run ::
  "('e \<times> ConfigurationDesired list) Manager \<Rightarrow> ('e \<times> ConfigurationDesired list) Manager \<Rightarrow> bool" where
  "same_run m m' \<longleftrightarrow>
     snd (mg_executor m') = snd (mg_executor m) \<and> mg_appliedHash m' = mg_appliedHash m"

lemma same_run_trans: "same_run m m1 \<Longrightarrow> same_run m1 m2 \<Longrightarrow> same_run m m2"
  by (simp add: same_run_def)

lemma reject_same:
  assumes "rejectConfiguration (logged_env env) reason (m, w) = (err, m', w')"
  shows "err \<noteq> None" "same_run m m'"
  using assms
  by (auto elim!: reject_disconnects simp: same_run_def dest: disconnect_log disconnect_kept(2))

lemma remember_same: "rememberConfiguration env desired (m, w) = (err, m', w') \<Longrightarrow> same_run m m'"
  by (auto elim!: remember_cases simp: same_run_def)

lemma reused_refused:
  assumes "sync_desired (logged_env env) desired occurredAt now (m, w) = (err, m', w')"
    and "mg_appliedHash m \<noteq> []" "cd_Mihomo desired = None"
    and "cd_ConfigurationVersion desired = st_ConfigurationVersion (mg_status m)"
    and "endpointEnforcementPayload (me_codec env) desired = Inr raw"
    and "configuration_digest (me_codec env) raw \<noteq> mg_appliedHash m"
  shows "err \<noteq> None \<and> same_run m m'"
proof -
  let ?env = "logged_env env"
  obtain rem m1 w1 where r: "rememberConfiguration ?env desired (m, w) = (rem, m1, w1)" by (metis prod_cases3)
  have m1: "same_run m m1" "mg_status m1 = mg_status m" using remember_same [OF r] r by (auto elim: remember_cases)
  have refuse: "e \<noteq> None \<and> same_run m m2" if "rejectConfiguration ?env reason (m1, v) = (e, m2, v')" for reason v e m2 v'
    using reject_same [OF that] same_run_trans [OF m1(1)] by simp
  have intervals: "same_run m m2 \<Longrightarrow> same_run (applyRuntimeIntervals (cd_RuntimeIntervals desired) m) m2" for m m2 ::"('a \<times> ConfigurationDesired list) Manager"
    by (simp add: same_run_def applyRuntimeIntervals_def split: option.split)
  let ?m2 = "applyRuntimeIntervals (cd_RuntimeIntervals desired) m1"
  have m2: "mg_status ?m2 = mg_status m" "mg_appliedHash ?m2 = mg_appliedHash m" "same_run m ?m2"
    using m1 by (simp_all add: applyRuntimeIntervals_def same_run_def split: option.split)
  have sourced: "e \<noteq> None \<and> same_run m m3"
    if "sync_sourced ?env desired revoked now (m1, v) = (e, m3, v')" for revoked v e m3 v'
  proof -
    have "sync_sourced ?env desired revoked now (m1, v) =
        rejectConfiguration ?env ''configuration_version_reused'' (?m2, v)"
      using assms(2-6) m2 by (simp add: sync_sourced_def Let_def logged_env_def)
    with that have "rejectConfiguration ?env ''configuration_version_reused'' (?m2, v) = (e, m3, v')" by simp
    from reject_same [OF this] same_run_trans [OF m2(3)] show ?thesis by simp
  qed
  show ?thesis
    using assms(1,3) refuse sourced errors_join_None
    by (auto simp: sync_desired_def Let_def r managed_source_def split: if_splits prod.splits)
qed

text \<open>once a configuration has been applied, a connection is refused for good. The manager keeps
  the digest of the configuration it applied last beyond the disconnect and the end of the session,
  while a connection takes over the version it is about to poll; so whatever new configuration the
  control plane delivers for the connection counts as a reused version, is never handed to the
  executor, and the digest stays.\<close>

theorem connect_after_applied_refused:
  assumes "mg_appliedHash m \<noteq> []"
    and "rc_Configuration (me_control env) = (\<lambda>w. (Inr message, w))"
    and "mcd_decode_desired (me_codec env) (rm_Payload message) = Inr desired"
    and "cd_Mihomo desired = None"
    and "cd_ConfigurationVersion desired = vcr_ConfigurationVersion result"
    and "endpointEnforcementPayload (me_codec env) desired = Inr raw"
    and "configuration_digest (me_codec env) raw \<noteq> mg_appliedHash m"
    and "acceptVPNConnection (logged_env env) result mode (m, w) = (err, m', w')"
  shows "err \<noteq> None \<and> snd (mg_executor m') = snd (mg_executor m) \<and> mg_appliedHash m' = mg_appliedHash m"
proof -
  let ?env = "logged_env env"
  have env: "me_control ?env = me_control env" "me_codec ?env = me_codec env" "me_options ?env = me_options env"
    by (simp_all add: logged_env_def)
  have sync: "e \<noteq> None \<and> same_run m1 m2"
    if "syncConfiguration ?env (m1, v) = (e, m2, v')" "mg_appliedHash m1 = mg_appliedHash m"
      "st_ConfigurationVersion (mg_status m1) = vcr_ConfigurationVersion result" for m1 m2 v e v'
    using that(1) reused_refused [of env desired _ _ m1 _ e m2 v' raw] assms(1-7) that(2,3)
    by (auto simp: syncConfiguration_def Let_def env same_run_def split: if_splits prod.splits)
  have cleanup: "same_run m1 m2" if "cleanupFailedVPN ?env (m1, v) = (e, m2, v')" for m1 m2 v e v'
    using that by (auto simp: cleanupFailedVPN_def Let_def same_run_def split: prod.splits
        dest: disconnect_log disconnect_kept(2))
  let ?m1 = "\<lambda>now. (update (\<lambda>status. status\<lparr>st_SessionID := vcr_SessionID result,
                           st_GatewayID := vcr_GatewayID result,
                           st_ConfigurationVersion := vcr_ConfigurationVersion result,
                           st_PolicyVersion := vcr_PolicyVersion result\<rparr>) m)
                \<lparr>mg_sessionUntil := vcr_ValidUntil result,
                 mg_leaseIDs := leaseIDs (vcr_NetworkLeases result) (vcr_ResourceLeases result),
                 mg_nextRenewAt := renewalTime now (vcr_ValidUntil result) (mo_RenewBefore (me_options env))\<rparr>"
  obtain now0 w0 where n0: "me_now ?env w = (now0, w0)" by fastforce
  obtain now w1 where n: "me_now ?env w0 = (now, w1)" by fastforce
  obtain serr m2 w2 where s: "syncConfiguration ?env (?m1 now, w1) = (serr, m2, w2)" by (metis prod_cases3)
  obtain cerr m3 w3 where c: "cleanupFailedVPN ?env (m2, w2) = (cerr, m3, w3)" by (metis prod_cases3)
  from sync [OF s] have "serr \<noteq> None" "same_run m m2" by (simp_all add: same_run_def)
  then have "same_run m m3" using cleanup [OF c] by (rule_tac same_run_trans)
  with assms(8) \<open>serr \<noteq> None\<close> show ?thesis
    by (auto simp: acceptVPNConnection_def Let_def n0 n env s c same_run_def split: if_splits)
qed

text \<open>The next version of the sample configuration: a new service accepts the connection.\<close>

definition sample_next :: "(Executor CoordinatedExecutor, TunnelReadback) manager_env" where
  "sample_next = sample_manager_env (sample_desired\<lparr>cd_ConfigurationVersion := 2\<rparr>) None"

lemma sample_next_new_service:
  "case NewManager (logged_env sample_next) (sample_coordinator, []) empty_TunnelReadback of
     (r, w) \<Rightarrow> (case r of Inl _ \<Rightarrow> False | Inr m \<Rightarrow>
       (case acceptVPNConnection (logged_env sample_next) (sample_connect_result 2) ''external_vpn'' (m, w) of
          (err, m, w) \<Rightarrow> err = None \<and> mg_appliedVersion m = 2))"
  by code_simp

lemma sample_logged_hash: "mg_appliedHash (fst sample_logged) = ''sha256:1''"
  by code_simp

theorem connect_after_applied_refused_witness:
  "case Manager_Disconnect (logged_env (sample_manager_env sample_desired None)) sample_logged of (r, m, w) \<Rightarrow>
     (case acceptVPNConnection (logged_env sample_next) (sample_connect_result 2) ''external_vpn'' (m, w) of
        (err, m', w') \<Rightarrow> err \<noteq> None \<and> mg_appliedHash m' = ''sha256:1'')"
proof -
  obtain m0 w0 where l: "sample_logged = (m0, w0)" by fastforce
  obtain r m w where d: "Manager_Disconnect (logged_env (sample_manager_env sample_desired None)) (m0, w0) = (r, m, w)"
    by (metis prod_cases3)
  have hash: "mg_appliedHash m = ''sha256:1''"
    using disconnect_kept(2) [OF d [unfolded Manager_Disconnect_def]] sample_logged_hash [unfolded l fst_conv]
    by (rule trans)
  obtain err m' w' where a: "acceptVPNConnection (logged_env sample_next) (sample_connect_result 2) ''external_vpn'' (m, w)
      = (err, m', w')" by (metis prod_cases3)
  have two: "string_of_int 2 = ''2''" by code_simp
  have "rc_Configuration (me_control sample_next) = (\<lambda>w. (Inr sample_message, w))"
    "mcd_decode_desired (me_codec sample_next) (rm_Payload sample_message) = Inr (sample_desired\<lparr>cd_ConfigurationVersion := 2\<rparr>)"
    "endpointEnforcementPayload (me_codec sample_next) (sample_desired\<lparr>cd_ConfigurationVersion := 2\<rparr>) = Inr ''2''"
    "configuration_digest (me_codec sample_next) ''2'' \<noteq> ''sha256:1''"
    by (simp_all add: sample_next_def sample_manager_env_def sample_control_def endpointEnforcementPayload_def
        configuration_digest_def two)
  with connect_after_applied_refused [of m sample_next sample_message "sample_desired\<lparr>cd_ConfigurationVersion := 2\<rparr>"
      "sample_connect_result 2" "''2''", OF _ _ _ _ _ _ _ a] hash
  have "err \<noteq> None \<and> mg_appliedHash m' = ''sha256:1''"
    by (simp add: sample_connect_result_def sample_desired_def)
  then show ?thesis by (simp add: l d a)
qed

end
