(* ===== verification/Client_Safety.thy ===== *)
theory Client_Safety
  imports Telemetry Manager_Restart
begin

text \<open>
  What holds of the clients: an accepted result comes from a trusted message and answers the
  request, probes stay within their bounds, traffic is counted once. Then two defects: an origin
  that ends in a question mark is accepted, and a session with more than 512 leases, which the
  manager accepts, can never be disconnected.
\<close>

subsection \<open>Trusted answers\<close>

lemma decodeResponse_trusted:
  assumes "decodeResponse env client decode message messageType w = (Inr result, w')"
  shows "\<exists>now m. message = Some m \<and> cte_now env w = (now, w') \<and> message_trusted client now m messageType \<and>
           decode (rm_Payload m) = Inr result"
  using assms
  by (auto simp: decodeResponse_def validateResponse_def Let_def split: option.splits prod.splits sum.splits if_splits)

text \<open>
  The message that a call receives: the answer of the transport to the request that was just built,
  with status 200, a readable JSON body, and that message in it.
\<close>

definition received ::
  "'w control_env \<Rightarrow> ControlClient \<Rightarrow> string \<Rightarrow> payload \<Rightarrow> string \<Rightarrow> 'w \<Rightarrow> RuntimeMessage \<Rightarrow> 'w \<Rightarrow> bool" where
  "received env client messageType payload action w message w' \<longleftrightarrow>
     (\<exists>raw w1 request response body.
        runtimeMessage env client messageType payload w = (Inr raw, w1) \<and>
        http_NewRequest ''POST'' (runtimeURL client action)
          [(''Content-Type'', ''application/json''), (''Accept'', ''application/json'')] raw = Inr request \<and>
        cte_Do env request w1 = (Inr response, w') \<and> hr_StatusCode response = 200 \<and>
        readRuntimeResponse (cte_codec env) response 200 = Inr body \<and>
        wc_message (cte_codec env) body = Inr message)"

lemma postMessage_received:
  assumes "runtimeMessage env client messageType payload w = (Inr raw, w1)"
    "postMessage env (runtimeURL client action) raw [] 200 w1 = (Inr m, w2)"
  shows "\<exists>message. m = Some message \<and> received env client messageType payload action w message w2"
proof -
  obtain p v where p: "post env (runtimeURL client action) raw [] 200 w1 = (p, v)" by fastforce
  from assms(2) obtain body message where body: "p = Inr body" "v = w2" "m = Some message"
    "wc_message (cte_codec env) body = Inr message"
    by (auto simp: postMessage_def Let_def p split: sum.splits)
  with p obtain request response where sent: "http_NewRequest ''POST'' (runtimeURL client action)
      [(''Content-Type'', ''application/json''), (''Accept'', ''application/json'')] raw = Inr request"
    "cte_Do env request w1 = (Inr response, w2)"
    "readRuntimeResponse (cte_codec env) response 200 = Inr body"
    by (auto simp: post_def Let_def split: sum.splits prod.splits)
  from sent(3) have "hr_StatusCode response = 200" by (auto simp: readRuntimeResponse_def Let_def split: if_splits prod.splits)
  with assms(1) body sent show ?thesis by (auto simp: received_def)
qed

lemma let_pair_eqE: "(let (a, b) = p in f a b) = y \<Longrightarrow> (\<And>a b. p = (a, b) \<Longrightarrow> f a b = y \<Longrightarrow> P) \<Longrightarrow> P"
  by (cases p) auto

lemma if_err_okE: "(if c then (Inl e, w) else r) = (Inr y, w') \<Longrightarrow> (\<not> c \<Longrightarrow> r = (Inr y, w') \<Longrightarrow> P) \<Longrightarrow> P"
  by (cases c) auto

lemma case_err_okE:
  "(case s of Inl e \<Rightarrow> (Inl (g e), w) | Inr x \<Rightarrow> f x) = (Inr y, w') \<Longrightarrow>
   (\<And>x. s = Inr x \<Longrightarrow> f x = (Inr y, w') \<Longrightarrow> P) \<Longrightarrow> P"
  by (cases s) auto

lemmas call_okE = let_pair_eqE if_err_okE case_err_okE

lemma Client_Connect_answer:
  assumes "Client_Connect env client request w = (Inr result, w')"
  shows "\<exists>message w1 now. received env client MessageVPNConnectRequest (PConnect request) ''vpn:connect'' w message w1 \<and>
    cte_now env w1 = (now, w') \<and> message_trusted client now message MessageVPNConnectResult \<and>
    wc_connect (cte_codec env) (rm_Payload message) = Inr result \<and> vcr_RequestID result = vcq_RequestID request"
proof -
  from assms obtain raw v m u where
    "runtimeMessage env client MessageVPNConnectRequest (PConnect request) w = (Inr raw, v)"
    "postMessage env (runtimeURL client ''vpn:connect'') raw [] 200 v = (Inr m, u)"
    and d: "decodeResponse env client (wc_connect (cte_codec env)) m MessageVPNConnectResult u = (Inr result, w')"
    and r: "vcr_RequestID result = vcq_RequestID request"
    unfolding Client_Connect_def by (auto elim!: call_okE)
  from postMessage_received [OF this(1,2)] decodeResponse_trusted [OF d] r show ?thesis by auto
qed

lemma Client_ConnectManagedVPN_answer:
  assumes "Client_ConnectManagedVPN env client managed v = (Inr selected, v')"
  shows "\<exists>message v1 now. received env client ''vpn.managed.connect.request'' (PManaged managed)
      ''vpn:connect-managed'' v message v1 \<and> cte_now env v1 = (now, v') \<and>
    message_trusted client now message ''vpn.managed.connect.result'' \<and>
    wc_managed (cte_codec env) (rm_Payload message) = Inr selected \<and> managed_result_ok managed selected"
proof -
  from assms obtain m u where
    x: "exchange env client ''vpn.managed.connect.request'' (PManaged managed) ''vpn:connect-managed'' [] 200 v = (Inr m, u)"
    and d: "decodeResponse env client (wc_managed (cte_codec env)) m ''vpn.managed.connect.result'' u = (Inr selected, v')"
    and r: "managed_result_ok managed selected"
    unfolding Client_ConnectManagedVPN_def by (auto elim!: call_okE)
  from x obtain raw u1 where
    "runtimeMessage env client ''vpn.managed.connect.request'' (PManaged managed) v = (Inr raw, u1)"
    "postMessage env (runtimeURL client ''vpn:connect-managed'') raw [] 200 u1 = (Inr m, u)"
    unfolding exchange_def by (auto simp: Let_def split: prod.splits sum.splits)
  from postMessage_received [OF this] decodeResponse_trusted [OF d] r show ?thesis by auto
qed

lemma message_trusted_within:
  "message_trusted client now m messageType \<Longrightarrow>
   rm_SchemaVersion m = RuntimeSchemaVersion \<and> rm_MessageType m = messageType \<and>
   rm_ProducerID m = ''network-control'' \<and> rm_RuntimeID m = cc_runtimeID client \<and>
   rm_RuntimeKind m = ''endpoint'' \<and> \<bar>rm_OccurredAt m - now\<bar> \<le> cc_maxClockSkew client \<and> now < rm_ExpiresAt m"
  by (auto simp: message_trusted_def)

text \<open>C23: what a connection is built on was said by the control plane, to this runtime, now, and in
  answer to this request. A result that \<open>Connect\<close> or \<open>ConnectManagedVPN\<close> returns is the payload of
  the very message that the transport answered to the request that was sent; the last thing the call
  does is to read the clock, and at that time the message is inside the trust boundary: of the
  schema and type asked for, from the network control plane to this runtime, within the clock skew and
  not expired. The result carries the identifier of the request (and of the intent, with retry limits
  in bounds).\<close>

theorem connections_from_trusted_answers:
  "(Client_Connect env client request w = (Inr result, w') \<longrightarrow>
      (\<exists>message w1 now.
         received env client MessageVPNConnectRequest (PConnect request) ''vpn:connect'' w message w1 \<and>
         cte_now env w1 = (now, w') \<and>
         rm_SchemaVersion message = RuntimeSchemaVersion \<and> rm_MessageType message = MessageVPNConnectResult \<and>
         rm_ProducerID message = ''network-control'' \<and> rm_RuntimeID message = cc_runtimeID client \<and>
         rm_RuntimeKind message = ''endpoint'' \<and> \<bar>rm_OccurredAt message - now\<bar> \<le> cc_maxClockSkew client \<and>
         now < rm_ExpiresAt message \<and> wc_connect (cte_codec env) (rm_Payload message) = Inr result) \<and>
      vcr_RequestID result = vcq_RequestID request) \<and>
   (Client_ConnectManagedVPN env client managed v = (Inr selected, v') \<longrightarrow>
      (\<exists>message v1 now.
         received env client ''vpn.managed.connect.request'' (PManaged managed) ''vpn:connect-managed'' v message v1 \<and>
         cte_now env v1 = (now, v') \<and>
         rm_SchemaVersion message = RuntimeSchemaVersion \<and>
         rm_MessageType message = ''vpn.managed.connect.result'' \<and>
         rm_ProducerID message = ''network-control'' \<and> rm_RuntimeID message = cc_runtimeID client \<and>
         rm_RuntimeKind message = ''endpoint'' \<and> \<bar>rm_OccurredAt message - now\<bar> \<le> cc_maxClockSkew client \<and>
         now < rm_ExpiresAt message \<and> wc_managed (cte_codec env) (rm_Payload message) = Inr selected) \<and>
      vcr_RequestID (mrs_VPNConnectResult selected) = mcr_RequestID managed \<and>
      mrs_DecisionID selected = mcr_IntentID managed \<and>
      1 \<le> mrs_MaxAttempts selected \<and> mrs_MaxAttempts selected \<le> 5 \<and>
      5 \<le> mrs_RetryCooldownSeconds selected \<and> mrs_RetryCooldownSeconds selected \<le> 300)"
proof (intro conjI impI)
  assume "Client_Connect env client request w = (Inr result, w')"
  note answer = Client_Connect_answer [OF this]
  then show "vcr_RequestID result = vcq_RequestID request" by blast
  from answer message_trusted_within show "\<exists>message w1 now.
         received env client MessageVPNConnectRequest (PConnect request) ''vpn:connect'' w message w1 \<and>
         cte_now env w1 = (now, w') \<and>
         rm_SchemaVersion message = RuntimeSchemaVersion \<and> rm_MessageType message = MessageVPNConnectResult \<and>
         rm_ProducerID message = ''network-control'' \<and> rm_RuntimeID message = cc_runtimeID client \<and>
         rm_RuntimeKind message = ''endpoint'' \<and> \<bar>rm_OccurredAt message - now\<bar> \<le> cc_maxClockSkew client \<and>
         now < rm_ExpiresAt message \<and> wc_connect (cte_codec env) (rm_Payload message) = Inr result" by blast
next
  assume "Client_ConnectManagedVPN env client managed v = (Inr selected, v')"
  note answer = Client_ConnectManagedVPN_answer [OF this]
  from answer message_trusted_within show "\<exists>message v1 now.
         received env client ''vpn.managed.connect.request'' (PManaged managed) ''vpn:connect-managed'' v message v1 \<and>
         cte_now env v1 = (now, v') \<and>
         rm_SchemaVersion message = RuntimeSchemaVersion \<and>
         rm_MessageType message = ''vpn.managed.connect.result'' \<and>
         rm_ProducerID message = ''network-control'' \<and> rm_RuntimeID message = cc_runtimeID client \<and>
         rm_RuntimeKind message = ''endpoint'' \<and> \<bar>rm_OccurredAt message - now\<bar> \<le> cc_maxClockSkew client \<and>
         now < rm_ExpiresAt message \<and> wc_managed (cte_codec env) (rm_Payload message) = Inr selected" by blast
  from answer have "managed_result_ok managed selected" by blast
  then show "vcr_RequestID (mrs_VPNConnectResult selected) = mcr_RequestID managed"
    "mrs_DecisionID selected = mcr_IntentID managed" "1 \<le> mrs_MaxAttempts selected" "mrs_MaxAttempts selected \<le> 5"
    "5 \<le> mrs_RetryCooldownSeconds selected" "mrs_RetryCooldownSeconds selected \<le> 300"
    by (simp_all add: managed_result_ok_def)
qed

definition sample_answer :: "string \<Rightarrow> RuntimeMessage" where
  "sample_answer messageType =
     \<lparr>rm_SchemaVersion = RuntimeSchemaVersion, rm_MessageID = ''m1'', rm_MessageType = messageType,
      rm_ProducerID = ''network-control'', rm_RuntimeID = ''endpoint-1'', rm_RuntimeKind = ''endpoint'',
      rm_OccurredAt = 5, rm_ExpiresAt = 1000, rm_Payload = ''{}''\<rparr>"

definition sample_managed_result :: VPNManagedConnectResult where
  "sample_managed_result =
     \<lparr>mrs_VPNConnectResult = sample_connect_result 1, mrs_ProfileID = ''p1'', mrs_ProfileRevision = 1,
      mrs_SelectionPolicyRevision = 1, mrs_Selection = ''auto'', mrs_SelectionReason = [], mrs_SiteID = ''site-1'',
      mrs_NetworkSpaceID = ''space-1'', mrs_Mode = ''external_vpn'', mrs_ResourceIDs = [], mrs_DecisionID = ''intent-1'',
      mrs_FailoverOnDisconnect = False, mrs_RetryCooldownSeconds = 5, mrs_MaxAttempts = 1\<rparr>"

text \<open>A control plane that answers every call with a message of one type.\<close>

definition sample_prepared :: VPNManagedPrepareResult where
  "sample_prepared =
     \<lparr>mpr_RequestID = ''request-1'', mpr_IntentID = ''intent-1'', mpr_ProfileID = ''p1'', mpr_ProfileRevision = 1,
      mpr_SelectionPolicyRevision = 1, mpr_ExpiresAt = 100, mpr_SamplesPerGateway = 2, mpr_TimeoutMillis = 100,
      mpr_MaxConcurrency = 1,
      mpr_Descriptors = [\<lparr>pd_GatewayID = ''gw1'', pd_RuntimeID = ''r1'', pd_Name = [], pd_ProviderCode = [],
        pd_URL = ''https://gw1.example/vpn/probe'', pd_Token = ''t'', pd_ExpiresAt = Some 100\<rparr>]\<rparr>"

definition sample_client_env :: "string \<Rightarrow> unit control_env" where
  "sample_client_env messageType =
     \<lparr>cte_Do = (\<lambda>request w. (Inr \<lparr>hr_StatusCode = (if hq_Method request = ''GET'' then 204 else 200),
         hr_Header = (\<lambda>h. ''application/json''), hr_Body = ''{}'', hr_BodyErr = None\<rparr>, w)),
      cte_codec = \<lparr>wc_marshal = (\<lambda>p. Inr ''{}''), wc_marshal_message = (\<lambda>m. Inr ''{}''),
        wc_message = (\<lambda>s. Inr (sample_answer messageType)), wc_enrollment = (\<lambda>s. Inl (ErrorNew [])),
        wc_connect = (\<lambda>s. Inr (sample_connect_result 1)), wc_source = (\<lambda>s. Inl (ErrorNew [])),
        wc_renew = (\<lambda>s. Inl (ErrorNew [])), wc_prepare = (\<lambda>s. Inr sample_prepared),
        wc_managed = (\<lambda>s. Inr sample_managed_result), wc_certificate = (\<lambda>s. Inl (ErrorNew [])),
        wc_activation = (\<lambda>s. Inl (ErrorNew [])), wc_presence = (\<lambda>s. Inl (ErrorNew [])),
        wc_error_code = (\<lambda>s. []), wc_media_type = Some\<rparr>,
      cte_randomID = (\<lambda>w. (''id-1'', w)), cte_now = (\<lambda>w. (10, w)), cte_GOOS = ''darwin''\<rparr>"

definition sample_client :: ControlClient where
  "sample_client =
     \<lparr>cc_origin = ''https://control.example'', cc_runtimeID = ''endpoint-1'', cc_maxClockSkew = 60 * second,
      cc_capabilities = []\<rparr>"

definition sample_connect_request :: VPNConnectRequest where
  "sample_connect_request =
     \<lparr>vcq_RequestID = ''request-1'', vcq_SiteID = ''site-1'', vcq_NetworkSpaceID = ''space-1'', vcq_GatewayID = [],
      vcq_Mode = ''external_vpn'', vcq_ResourceIDs = [], vcq_AccessGrantID = [], vcq_AccessGrantToken = []\<rparr>"

definition sample_managed_request :: VPNManagedConnectRequest where
  "sample_managed_request =
     \<lparr>mcr_RequestID = ''request-1'', mcr_IntentID = ''intent-1'', mcr_IntentToken = replicate 43 (CHR ''A''),
      mcr_ProbeBatchID = []\<rparr>"

theorem connections_from_trusted_answers_witness:
  "(\<exists>message. received (sample_client_env MessageVPNConnectResult) sample_client MessageVPNConnectRequest
      (PConnect sample_connect_request) ''vpn:connect'' () message () \<and> rm_RuntimeID message = ''endpoint-1'') \<and>
   mrs_DecisionID sample_managed_result = ''intent-1''"
proof -
  have runtime: "cc_runtimeID sample_client = ''endpoint-1''" by (simp add: sample_client_def)
  have "Client_Connect (sample_client_env MessageVPNConnectResult) sample_client sample_connect_request () =
      (Inr (sample_connect_result 1), ())" by code_simp
  note first = connections_from_trusted_answers [THEN conjunct1, rule_format, OF this, THEN conjunct1]
  have "Client_ConnectManagedVPN (sample_client_env ''vpn.managed.connect.result'') sample_client
      sample_managed_request () = (Inr sample_managed_result, ())" by code_simp
  note second = connections_from_trusted_answers [THEN conjunct2, rule_format, OF this, THEN conjunct2, THEN conjunct2, THEN conjunct1]
  from first runtime have "\<exists>message. received (sample_client_env MessageVPNConnectResult) sample_client MessageVPNConnectRequest
      (PConnect sample_connect_request) ''vpn:connect'' () message () \<and> rm_RuntimeID message = ''endpoint-1''" by auto
  with second show ?thesis by (simp only: sample_managed_request_def VPNManagedConnectRequest.simps simp_thms)
qed

subsection \<open>Probes\<close>

lemma probe_attempts_bounds:
  assumes "probe_attempts env ctxErr d n sample w = (sample', w')" "int (length (pr_RTTSamplesMs sample)) \<le> pr_SentCount sample"
  shows "pr_GatewayID sample' = pr_GatewayID sample \<and> pr_SentCount sample \<le> pr_SentCount sample' \<and>
    pr_SentCount sample' \<le> pr_SentCount sample + int n \<and> int (length (pr_RTTSamplesMs sample')) \<le> pr_SentCount sample'"
  using assms
proof (induction n arbitrary: sample w)
  case (Suc n)
  obtain now w1 where n: "cte_now env w = (now, w1)" by fastforce
  obtain ms w2 where p: "probeVPNOnce env d w1 = (ms, w2)" by fastforce
  show ?case
    using Suc.prems Suc.IH [where w = w2]
    by (fastforce simp: Let_def n p split: if_splits option.splits)
qed auto

lemma probe_workers_bounds:
  assumes "probe_workers env ctxErr samples ds w = (results, w')"
  shows "map pr_GatewayID (filter (\<lambda>s. 0 < pr_SentCount s) results)
      \<in> set (subseqs (map pd_GatewayID (filter (\<lambda>d. pd_URL d \<noteq> []) ds))) \<and>
    (\<forall>s \<in> set results. pr_SentCount s \<le> int samples \<and> int (length (pr_RTTSamplesMs s)) \<le> pr_SentCount s)"
  using assms
proof (induction ds arbitrary: results w w')
  case (Cons d ds)
  let ?empty = "\<lparr>pr_GatewayID = [], pr_SentCount = 0, pr_RTTSamplesMs = []\<rparr>"
  obtain sample w1 where s: "(if pd_URL d = [] \<or> ctxErr w then (?empty, w)
      else probe_attempts env ctxErr d samples \<lparr>pr_GatewayID = pd_GatewayID d, pr_SentCount = 0, pr_RTTSamplesMs = []\<rparr> w) = (sample, w1)"
    by (metis surj_pair)
  obtain rest w2 where r: "probe_workers env ctxErr samples ds w1 = (rest, w2)" by fastforce
  have results: "results = sample # rest" using Cons.prems s r by (auto simp: Let_def split: prod.splits)
  have sample: "pr_SentCount sample \<le> int samples" "int (length (pr_RTTSamplesMs sample)) \<le> pr_SentCount sample"
    "0 < pr_SentCount sample \<Longrightarrow> pd_URL d \<noteq> [] \<and> pr_GatewayID sample = pd_GatewayID d"
    using s probe_attempts_bounds [of env ctxErr d samples _ w] by (fastforce split: if_splits)+
  show ?case using Cons.IH [OF r] sample by (auto simp: results Let_def)
qed auto

text \<open>the measurements of the gateways stay within what the control plane prepared. The batch names
  gateways of the prepared descriptors that have a URL, in their order and each at most once, with
  at most ten requests each, never more samples than requests, and a window that has not ended
  before it began.\<close>

theorem probe_batch_bounds:
  assumes "Client_ProbeVPN env ctxErr prepared w = (Inr batch, w')"
  shows "map pr_GatewayID (pb_Results batch)
      \<in> set (subseqs (map pd_GatewayID (filter (\<lambda>d. pd_URL d \<noteq> []) (mpr_Descriptors prepared)))) \<and>
    distinct (map pr_GatewayID (pb_Results batch)) \<and> length (pb_Results batch) \<le> 32 \<and>
    list_all (\<lambda>s. 1 \<le> pr_SentCount s \<and> pr_SentCount s \<le> 10 \<and>
      int (length (pr_RTTSamplesMs s)) \<le> pr_SentCount s) (pb_Results batch) \<and>
    pb_WindowStartedAt batch < pb_WindowEndedAt batch"
proof -
  obtain now w0 where n: "cte_now env w = (now, w0)" by fastforce
  have valid: "validVPNPrepare prepared now"
    using assms by (auto simp: Client_ProbeVPN_def Let_def n split: if_splits)
  from assms valid n obtain w3 results w4 where
    r: "probe_workers env ctxErr (nat (mpr_SamplesPerGateway prepared)) (mpr_Descriptors prepared) w3 = (results, w4)"
    and batch: "pb_Results batch = filter (\<lambda>s. 0 < pr_SentCount s) results"
      "pb_WindowStartedAt batch < pb_WindowEndedAt batch"
    by (auto simp: Client_ProbeVPN_def Let_def split: if_splits prod.splits)
  let ?ids = "map pd_GatewayID (filter (\<lambda>d. pd_URL d \<noteq> []) (mpr_Descriptors prepared))"
  have p: "mpr_SamplesPerGateway prepared \<le> 10" "length (mpr_Descriptors prepared) \<le> 32"
    "distinct (map pd_GatewayID (mpr_Descriptors prepared))"
    using valid by (auto simp: validVPNPrepare_def prepare_bounds_def go_loops split: if_splits)
  note b = probe_workers_bounds [OF r]
  have sub: "map pr_GatewayID (pb_Results batch) \<in> set (subseqs ?ids)" using b batch by simp
  have "distinct ?ids" using p(3) by (simp add: distinct_map_filter)
  with sub have d: "distinct (map pr_GatewayID (pb_Results batch))"
    using subseqs_distinctD by blast
  have "length (map pr_GatewayID (pb_Results batch)) \<le> length ?ids"
  proof -
    have "set (map pr_GatewayID (pb_Results batch)) \<subseteq> set ?ids"
      using sub subseqs_powset [of ?ids] by blast
    then have "card (set (map pr_GatewayID (pb_Results batch))) \<le> card (set ?ids)" by (intro card_mono) simp_all
    then show ?thesis using distinct_card [OF d] card_length [of ?ids] by linarith
  qed
  moreover have "length ?ids \<le> 32"
    using le_trans [OF length_filter_le p(2)] by simp
  ultimately have "length (pb_Results batch) \<le> 32" by simp
  moreover have "list_all (\<lambda>s. 1 \<le> pr_SentCount s \<and> pr_SentCount s \<le> 10 \<and>
      int (length (pr_RTTSamplesMs s)) \<le> pr_SentCount s) (pb_Results batch)"
  proof -
    have "int (nat (mpr_SamplesPerGateway prepared)) \<le> 10" using p(1) by simp
    then have "pr_SentCount s \<le> 10 \<and> int (length (pr_RTTSamplesMs s)) \<le> pr_SentCount s" if "s \<in> set results" for s
      using conjunct2 [OF b] that by (meson order_trans)
    then show ?thesis by (auto simp: list_all_iff batch(1))
  qed
  ultimately show ?thesis using sub d batch(2) by simp
qed

theorem probe_batch_bounds_witness:
  "case Client_ProbeVPN (sample_client_env []) (\<lambda>w. False) sample_prepared () of
     (r, w) \<Rightarrow> (case r of Inl _ \<Rightarrow> False
      | Inr batch \<Rightarrow> map pr_GatewayID (pb_Results batch) = [''gw1''] \<and> pb_WindowStartedAt batch < pb_WindowEndedAt batch)"
proof -
  have "case Client_ProbeVPN (sample_client_env []) (\<lambda>w. False) sample_prepared () of
     (r, w) \<Rightarrow> (case r of Inl _ \<Rightarrow> False
      | Inr batch \<Rightarrow> map pr_GatewayID (pb_Results batch) = [''gw1''])" by code_simp
  then show ?thesis
    using probe_batch_bounds [of "sample_client_env []" "\<lambda>w. False" sample_prepared "()"]
    by (auto split: prod.splits sum.splits)
qed

subsection \<open>Traffic\<close>

text \<open>The samples of one flow, in the order they are taken, with what is reported for each.\<close>

fun proxy_samples :: "(time \<times> ProxyFlowSnapshot) list \<Rightarrow> TelemetryClient \<Rightarrow> proxy_aggregate list \<times> TelemetryClient" where
  "proxy_samples [] client = ([], client)"
| "proxy_samples ((now, snapshot) # rest) client =
     (let (aggregate, client) = proxyAggregate now snapshot client;
          (aggregates, client) = proxy_samples rest client
      in ((case aggregate of None \<Rightarrow> [] | Some a \<Rightarrow> [a]) @ aggregates, client))"

text \<open>Counters that never run backwards on one live flow.\<close>

fun counting :: "ProxyFlowSnapshot \<Rightarrow> (time \<times> ProxyFlowSnapshot) list \<Rightarrow> bool" where
  "counting s [] = True"
| "counting s ((now, s') # rest) =
     (pfs_Active s' \<and> valid_snapshot s' \<and> sameProxyFlow s s' \<and> pfs_UploadTotal s \<le> pfs_UploadTotal s' \<and>
      pfs_DownloadTotal s \<le> pfs_DownloadTotal s' \<and> counting s' rest)"

lemma proxyAggregate_next:
  assumes "tc_previous client = Some \<lparr>pfb_at = t, pfb_snapshot = s\<rparr>" "counting s ((now, s') # rest)"
  shows "\<exists>a. proxyAggregate now s' client = (Some a, client\<lparr>tc_previous := Some \<lparr>pfb_at = now, pfb_snapshot = s'\<rparr>\<rparr>) \<and>
    pag_WindowStartedAt a = t \<and> pag_WindowEndedAt a = now \<and>
    pag_UploadBytes a = pfs_UploadTotal s' - pfs_UploadTotal s \<and>
    pag_DownloadBytes a = pfs_DownloadTotal s' - pfs_DownloadTotal s"
  using assms by (simp add: proxyAggregate_def)

text \<open>C26: traffic is reported once. While one flow stays active and its counters do not run backwards,
  every sample is reported, the windows follow each other without gap or overlap, and the bytes
  reported add up to exactly the difference of the last and the first counter.\<close>

theorem proxy_traffic_counted_once:
  assumes "tc_previous client = Some \<lparr>pfb_at = t, pfb_snapshot = s\<rparr>" "counting s samples"
  shows "case proxy_samples samples client of (aggregates, client') \<Rightarrow>
     map pag_WindowEndedAt aggregates = map fst samples \<and>
     map pag_WindowStartedAt aggregates = take (length samples) (t # map fst samples) \<and>
     sum_list (map pag_UploadBytes aggregates) = pfs_UploadTotal (snd (last ((t, s) # samples))) - pfs_UploadTotal s \<and>
     sum_list (map pag_DownloadBytes aggregates) = pfs_DownloadTotal (snd (last ((t, s) # samples))) - pfs_DownloadTotal s \<and>
     list_all (\<lambda>a. 0 \<le> pag_UploadBytes a \<and> 0 \<le> pag_DownloadBytes a) aggregates"
  using assms
proof (induction samples arbitrary: client t s)
  case (Cons x rest)
  obtain now s' where x: "x = (now, s')" by fastforce
  from proxyAggregate_next [OF Cons.prems(1) Cons.prems(2) [unfolded x]] obtain a where
    a: "proxyAggregate now s' client = (Some a, client\<lparr>tc_previous := Some \<lparr>pfb_at = now, pfb_snapshot = s'\<rparr>\<rparr>)"
      "pag_WindowStartedAt a = t" "pag_WindowEndedAt a = now"
      "pag_UploadBytes a = pfs_UploadTotal s' - pfs_UploadTotal s"
      "pag_DownloadBytes a = pfs_DownloadTotal s' - pfs_DownloadTotal s" by blast
  show ?case
    using Cons.IH [of "client\<lparr>tc_previous := Some \<lparr>pfb_at = now, pfb_snapshot = s'\<rparr>\<rparr>" now s'] Cons.prems(2) a
    by (auto simp: x Let_def split: prod.splits)
qed simp

definition sample_flow :: "int \<Rightarrow> ProxyFlowSnapshot" where
  "sample_flow bytes =
     \<lparr>pfs_Active = True, pfs_Engine = ''mihomo'', pfs_Mode = ''managed_follow'', pfs_ProfileID = ''p1'',
      pfs_ProfileRevision = 1, pfs_SelectedProxy = ''proxy'', pfs_UploadTotal = bytes, pfs_DownloadTotal = bytes,
      pfs_ActiveConnections = 1\<rparr>"

theorem proxy_traffic_counted_once_witness:
  "case proxy_samples [(20, sample_flow 150), (30, sample_flow 400)]
      \<lparr>tc_origin = [], tc_runtimeID = [], tc_sequence = 0,
       tc_previous = Some \<lparr>pfb_at = 10, pfb_snapshot = sample_flow 100\<rparr>\<rparr> of
     (aggregates, client) \<Rightarrow> sum_list (map pag_UploadBytes aggregates) = 300"
proof -
  have "counting (sample_flow 100) [(20, sample_flow 150), (30, sample_flow 400)]" by code_simp
  from proxy_traffic_counted_once [OF _ this, of "\<lparr>tc_origin = [], tc_runtimeID = [], tc_sequence = 0,
       tc_previous = Some \<lparr>pfb_at = 10, pfb_snapshot = sample_flow 100\<rparr>\<rparr>" 10]
  show ?thesis by (simp add: sample_flow_def split_beta del: proxy_samples.simps)
qed

subsection \<open>Sessions that cannot be disconnected\<close>

text \<open>The manager after a number of further cycles.\<close>

fun cycles :: "('e, 'w) manager_env \<Rightarrow> nat \<Rightarrow> 'e Manager \<times> 'w \<Rightarrow> 'e Manager \<times> 'w" where
  "cycles env 0 s = s"
| "cycles env (Suc n) s = (let (err, m, w) = Manager_Cycle env s in cycles env n (m, w))"

lemma disconnect_revoke_error:
  assumes "disconnectLocked env reason (m, w) = ((status, err), m', w')"
    and "\<And>w. fst (revoke_held env (st_SessionID (mg_status m)) (mg_leaseIDs m) reason w) \<noteq> None"
  shows "err \<noteq> None"
proof -
  let ?session = "st_SessionID (mg_status m)" and ?leases = "mg_leaseIDs m"
  obtain stateErr m1 w1 where b: "beginVPNCleanup env ?session ?leases reason (m, w) = (stateErr, m1, w1)"
    by (metis prod_cases3)
  obtain localErr e w2 where d: "ce_Disable (me_executor env) (mg_executor m1, w1) = (localErr, e, w2)"
    by (metis prod_cases3)
  obtain remoteErr w3 where r: "revoke_held env ?session ?leases reason w2 = (remoteErr, w3)" by fastforce
  have "remoteErr \<noteq> None" using assms(2) [of w2] r by simp
  with assms(1) show ?thesis by (auto simp: disconnectLocked_def Let_def b d r)
qed

lemma oversized_revoke_refused:
  assumes "rc_Revoke (me_control env) = Client_Revoke cenv client" "512 < length leases" "session \<noteq> []"
  shows "fst (revoke_held env session leases reason w) \<noteq> None"
  using assms by (auto simp: revoke_held_def revoke_leases_def Client_Revoke_def Let_def split: prod.splits)

lemma oversized_disconnect:
  assumes "rc_Revoke (me_control env) = Client_Revoke cenv client"
    "512 < length (mg_leaseIDs m)" "st_SessionID (mg_status m) \<noteq> []"
    "disconnectLocked env reason (m, w) = ((status, err), m', w')"
  shows "err \<noteq> None \<and> mg_cleanupReason m' = reason \<and> mg_leaseIDs m' = mg_leaseIDs m \<and>
    st_SessionID (mg_status m') = st_SessionID (mg_status m)"
proof -
  have "err \<noteq> None"
    using disconnect_revoke_error [OF assms(4)] oversized_revoke_refused [OF assms(1-3)] by blast
  with assms(4) show ?thesis by (auto elim: disconnect_cases)
qed

lemma oversized_cycles:
  assumes "rc_Revoke (me_control env) = Client_Revoke cenv client"
    "512 < length (mg_leaseIDs m)" "st_SessionID (mg_status m) \<noteq> []" "mg_cleanupReason m \<noteq> []"
  shows "case cycles env n (m, w) of (m', w') \<Rightarrow> mg_cleanupReason m' = mg_cleanupReason m \<and>
    mg_leaseIDs m' = mg_leaseIDs m \<and> st_SessionID (mg_status m') = st_SessionID (mg_status m)"
  using assms(2-4)
proof (induction n arbitrary: m w)
  case (Suc n)
  obtain now w1 where n: "me_now env w = (now, w1)" by fastforce
  obtain status err m1 w2 where d: "disconnectLocked env (mg_cleanupReason m) (m, w1) = ((status, err), m1, w2)"
    by (metis prod.collapse)
  have "Manager_Cycle env (m, w) = (err, m1, w2)" using Suc.prems(3) by (simp add: Manager_Cycle_def Let_def n d)
  moreover note o = oversized_disconnect [OF assms(1) Suc.prems(1,2) d]
  ultimately show ?case using Suc.IH [of m1 w2] Suc.prems by simp
qed simp

text \<open>a session with more than 512 leases can never be disconnected. The manager accepts up to 256
  network and 512 resource leases, but the control client refuses to revoke more than 512 at once:
  the disconnect fails, and however many cycles follow, the cleanup stays due and the leases and
  the session stay, so that no connection is possible again.\<close>

theorem oversized_session_never_disconnected:
  assumes "rc_Revoke (me_control env) = Client_Revoke cenv client"
    "512 < length (mg_leaseIDs m)" "st_SessionID (mg_status m) \<noteq> []"
  shows "validLeaseShape ''external_vpn_ztna'' 256 512 \<and>
    (case Manager_Disconnect env (m, w) of ((status, err), s) \<Rightarrow> err \<noteq> None \<and>
       (case cycles env n s of (m', w') \<Rightarrow> mg_cleanupReason m' = ''user_disconnected'' \<and>
          mg_leaseIDs m' = mg_leaseIDs m \<and> st_SessionID (mg_status m') = st_SessionID (mg_status m)))"
proof -
  obtain status err m1 w1 where d: "disconnectLocked env ''user_disconnected'' (m, w) = ((status, err), m1, w1)"
    by (metis prod.collapse)
  note o = oversized_disconnect [OF assms d]
  then have "512 < length (mg_leaseIDs m1)" "st_SessionID (mg_status m1) \<noteq> []" "mg_cleanupReason m1 \<noteq> []"
    using assms(2,3) by simp_all
  from oversized_cycles [OF assms(1) this, of n w1] o show ?thesis
    by (auto simp: Manager_Disconnect_def d validLeaseShape_def split: prod.splits)
qed

definition oversized_env :: "(unit, string) manager_env" where
  "oversized_env = (restart_env empty_floor)\<lparr>me_control := (sample_control 1 None)
     \<lparr>rc_Revoke := Client_Revoke
        \<lparr>cte_Do = (\<lambda>request w. (Inl (ErrorNew ''offline''), w)), cte_codec = cte_codec (sample_client_env []),
         cte_randomID = (\<lambda>w. (''id-1'', w)), cte_now = (\<lambda>w. (10, w)), cte_GOOS = ''darwin''\<rparr> sample_client\<rparr>\<rparr>"

theorem oversized_session_never_disconnected_witness:
  "case Manager_Disconnect oversized_env
       ((restart_manager empty_floor)\<lparr>mg_leaseIDs := replicate 513 ''net'',
          mg_status := (mg_status (restart_manager empty_floor))\<lparr>st_SessionID := ''s1''\<rparr>\<rparr>, []) of
     ((status, err), s) \<Rightarrow> err \<noteq> None \<and> mg_cleanupReason (fst (cycles oversized_env 5 s)) \<noteq> []"
proof -
  let ?m = "(restart_manager empty_floor)\<lparr>mg_leaseIDs := replicate 513 ''net'',
          mg_status := (mg_status (restart_manager empty_floor))\<lparr>st_SessionID := ''s1''\<rparr>\<rparr>"
  have r: "rc_Revoke (me_control oversized_env) = Client_Revoke
        \<lparr>cte_Do = (\<lambda>request w. (Inl (ErrorNew ''offline''), w)), cte_codec = cte_codec (sample_client_env []),
         cte_randomID = (\<lambda>w. (''id-1'', w)), cte_now = (\<lambda>w. (10, w)), cte_GOOS = ''darwin''\<rparr> sample_client"
    by (simp add: oversized_env_def)
  have "512 < length (mg_leaseIDs ?m)" "st_SessionID (mg_status ?m) \<noteq> []" by simp_all
  from oversized_session_never_disconnected [OF r this, where w = "[]" and n = 5] show ?thesis
    by (simp add: split_beta)
qed

subsection \<open>Origins\<close>

lemma PathEscape_identifier: "identifierPattern s \<Longrightarrow> url_PathEscape s = s"
proof -
  have "concat (map (\<lambda>c. if segment_escaped c then f c else [c]) s) = s"
    if "list_all (\<lambda>c. \<not> segment_escaped c) s" for f and s :: string
    using that by (induction s) auto
  moreover assume "identifierPattern s"
  then have "list_all (\<lambda>c. \<not> segment_escaped c) s"
    by (cases s) (auto simp: segment_escaped_def identifier_char_def list_all_iff)
  ultimately show ?thesis by (simp add: url_PathEscape_def)
qed

text \<open>An origin that ends in a question mark is accepted, and then every call of the client goes
  to the empty path of the origin: the path of the API is the query of the request.\<close>

theorem query_origin_accepted:
  "runtimeOrigin ''https://control.example?'' = Inr ''https://control.example?'' \<and>
   (case NewControlClient ''https://control.example?'' ''endpoint-1'' second [] of
      Inl _ \<Rightarrow> False
    | Inr client \<Rightarrow>
        (case url_Parse (runtimeURL client ''configuration'') of
           None \<Rightarrow> False
         | Some u \<Rightarrow> url_Path u = [] \<and>
             url_RawQuery u = ''/api/network-control/v1/runtimes/endpoint-1/configuration''))"
  by code_simp

end
