(* ===== verification/Admission.thy ===== *)
theory Admission
  imports Runtime_Client
begin

text \<open>
  The admission manager of \<open>eap_manager.go\<close> and \<open>eap_cleanup.go\<close>, with the checks of
  \<open>eap_validation.go\<close>: the EAP profiles a device may use, the certificate of the device in its two
  generations (active, pending), what is installed on the adapters and what is still to be cleaned
  up. The operating system (\<open>EAPSystem\<close>), the control plane, the state file, JSON, SHA-256 and X.509
  are interfaces.
\<close>

subsection \<open>Certificates\<close>

text \<open>The fields of an X.509 certificate or request that the checks read, and the parsers.\<close>

record x509 =
  x5_Raw :: string
  x5_RawSubjectPublicKeyInfo :: string
  x5_IsCA :: bool
  x5_BasicConstraintsValid :: bool
  x5_KeyUsageCertSign :: bool
  x5_KeyUsageDigitalSignatureOnly :: bool
  x5_CommonName :: string
  x5_URIs :: "string list"
  x5_DNSNames :: "string list"
  x5_IPAddresses :: "string list"
  x5_EmailAddresses :: "string list"
  x5_ExtKeyUsageClientAuth :: "bool list"
  x5_UnknownExtKeyUsage :: nat
  x5_NotBefore :: time
  x5_NotAfter :: time
  x5_SignatureValid :: bool
  x5_P256 :: bool

record pem_block =
  pem_Type :: string
  pem_Headers :: nat
  pem_Bytes :: string

record crypto =
  cry_pem_Decode :: "string \<Rightarrow> pem_block option \<times> string"
  cry_ParseCertificate :: "string \<Rightarrow> x509 fallible"
  cry_ParseCertificateRequest :: "string \<Rightarrow> x509 fallible"
  cry_Verify :: "x509 \<Rightarrow> x509 \<Rightarrow> time \<Rightarrow> error"
  cry_sha256 :: "string \<Rightarrow> string"

definition parseEAPCSR :: "crypto \<Rightarrow> string \<Rightarrow> x509 fallible" where
  "parseEAPCSR crypto raw =
     (let (block, rest) = cry_pem_Decode crypto raw
      in case block of
           None \<Rightarrow> Inl (ErrorNew ''EAP CSR must contain one public certificate request'')
         | Some block \<Rightarrow>
             if length raw > 4096 \<or> pem_Type block \<noteq> ''CERTIFICATE REQUEST'' \<or> pem_Headers block \<noteq> 0 \<or>
                length (trim_space rest) \<noteq> 0
             then Inl (ErrorNew ''EAP CSR must contain one public certificate request'')
             else
               (case cry_ParseCertificateRequest crypto (pem_Bytes block) of
                  Inl _ \<Rightarrow> Inl (ErrorNew ''EAP CSR signature is invalid'')
                | Inr csr \<Rightarrow>
                    if \<not> x5_SignatureValid csr then Inl (ErrorNew ''EAP CSR signature is invalid'')
                    else if \<not> x5_P256 csr then Inl (ErrorNew ''EAP CSR requires a P-256 key'')
                    else Inr csr))"

definition parseEAPCertificate :: "crypto \<Rightarrow> string \<Rightarrow> x509 fallible" where
  "parseEAPCertificate crypto raw =
     (let (block, rest) = cry_pem_Decode crypto raw
      in case block of
           None \<Rightarrow> Inl (ErrorNew ''EAP certificate must contain one public certificate'')
         | Some block \<Rightarrow>
             if length raw > 16384 \<or> pem_Type block \<noteq> ''CERTIFICATE'' \<or> pem_Headers block \<noteq> 0 \<or>
                length (trim_space rest) \<noteq> 0
             then Inl (ErrorNew ''EAP certificate must contain one public certificate'')
             else cry_ParseCertificate crypto (pem_Bytes block))"

text \<open>The certificate is the endpoint's: its key, name, URI, usage and lifetime.\<close>

definition certificate_matches ::
  "x509 \<Rightarrow> x509 \<Rightarrow> EAPCertificateResult \<Rightarrow> string \<Rightarrow> string \<Rightarrow> time \<Rightarrow> bool" where
  "certificate_matches csr certificate result deviceID subjectID now \<longleftrightarrow>
     \<not> (x5_RawSubjectPublicKeyInfo csr \<noteq> x5_RawSubjectPublicKeyInfo certificate \<or> x5_IsCA certificate \<or>
        x5_CommonName certificate \<noteq> subjectID \<or> length (x5_URIs certificate) \<noteq> 1 \<or>
        x5_URIs certificate ! 0 \<noteq> ''spiffe://opensoha.local/network-eap/endpoint/'' @ deviceID \<or>
        length (x5_DNSNames certificate) \<noteq> 0 \<or> length (x5_IPAddresses certificate) \<noteq> 0 \<or>
        length (x5_EmailAddresses certificate) \<noteq> 0 \<or> length (x5_ExtKeyUsageClientAuth certificate) \<noteq> 1 \<or>
        \<not> x5_ExtKeyUsageClientAuth certificate ! 0 \<or> x5_UnknownExtKeyUsage certificate \<noteq> 0 \<or>
        \<not> x5_KeyUsageDigitalSignatureOnly certificate \<or> x5_NotAfter certificate \<noteq> ecr_ExpiresAt result \<or>
        \<not> x5_NotAfter certificate > now \<or> x5_NotAfter certificate > now + 24 * 60 * minute)"

definition validateEAPCertificate ::
  "crypto \<Rightarrow> EAPCertificateResult \<Rightarrow> string \<Rightarrow> string \<Rightarrow> string \<Rightarrow> time \<Rightarrow> error" where
  "validateEAPCertificate crypto result csrPEM deviceID subjectID now =
     (case parseEAPCSR crypto csrPEM of
        Inl err \<Rightarrow> Some err
      | Inr csr \<Rightarrow>
          (case parseEAPCertificate crypto (ecr_CertificatePEM result) of
             Inl err \<Rightarrow> Some err
           | Inr certificate \<Rightarrow>
               (case parseEAPCertificate crypto (ecr_CACertificatePEM result) of
                  Inl _ \<Rightarrow> Some (ErrorNew ''EAP issuer certificate is invalid'')
                | Inr ca \<Rightarrow>
                    if \<not> x5_IsCA ca \<or> \<not> x5_BasicConstraintsValid ca \<or> \<not> x5_KeyUsageCertSign ca
                    then Some (ErrorNew ''EAP issuer certificate is invalid'')
                    else if \<not> certificate_matches csr certificate result deviceID subjectID now
                    then Some (ErrorNew ''EAP certificate does not match the endpoint identity, key or lifetime'')
                    else if ecr_Fingerprint result \<noteq> ''sha256:'' @ cry_sha256 crypto (x5_Raw certificate)
                    then Some (ErrorNew ''EAP certificate fingerprint does not match'')
                    else cry_Verify crypto certificate ca now)))"

text \<open>\<open>utf8.ValidString\<close>.\<close>

function utf8_valid :: "string \<Rightarrow> bool" where
  "utf8_valid s =
     (if s = [] then True
      else if rune_length s = 1 \<and> \<not> (of_char (hd s) :: nat) < 128 then False
      else utf8_valid (drop (rune_length s) s))"
  by auto
termination
  by (relation "measure length") (auto simp: rune_length_pos)

declare utf8_valid.simps [simp del]

definition server_name_ok :: "string \<Rightarrow> bool" where
  "server_name_ok name \<longleftrightarrow>
     \<not> (length name > 253 \<or> \<not> validEndpointHost name \<or> contains_any name [CHR ''*'', CHR '';'', CHR 0x00])"

definition admission_ca_ok :: "crypto \<Rightarrow> time \<Rightarrow> string \<Rightarrow> bool" where
  "admission_ca_ok crypto now raw =
     (case parseEAPCertificate crypto raw of
        Inl _ \<Rightarrow> False
      | Inr ca \<Rightarrow>
          \<not> (\<not> x5_IsCA ca \<or> \<not> x5_BasicConstraintsValid ca \<or> \<not> x5_KeyUsageCertSign ca \<or>
             now < x5_NotBefore ca \<or> \<not> now < x5_NotAfter ca))"

definition admission_medium_ok :: "AdmissionProfile \<Rightarrow> bool" where
  "admission_medium_ok profile \<longleftrightarrow>
     \<not> (\<not> identifierPattern (ap_ID profile) \<or> \<not> identifierPattern (ap_SiteID profile) \<or>
        \<not> identifierPattern (ap_Identity profile) \<or>
        ap_AccessMedium profile \<noteq> ''wifi'' \<and> ap_AccessMedium profile \<noteq> ''wired'' \<or>
        ap_WifiSecurity profile \<noteq> ''wpa2-enterprise'' \<and> ap_WifiSecurity profile \<noteq> ''wpa3-enterprise'' \<or>
        ap_ClientCertificateFingerprint profile \<noteq> [] \<and>
          \<not> validReadbackHash (ap_ClientCertificateFingerprint profile))"

definition admission_ssid_ok :: "AdmissionProfile \<Rightarrow> bool" where
  "admission_ssid_ok profile \<longleftrightarrow>
     \<not> (ap_AccessMedium profile = ''wifi'' \<and>
          (length (ap_SSID profile) < 1 \<or> length (ap_SSID profile) > 32 \<or> \<not> utf8_valid (ap_SSID profile) \<or>
           contains_any (ap_SSID profile) [CHR 0x00, CHR 0x0D, CHR 0x0A]) \<or>
        ap_AccessMedium profile = ''wired'' \<and> ap_SSID profile \<noteq> [])"

definition validateAdmissionProfile :: "crypto \<Rightarrow> AdmissionProfile \<Rightarrow> time \<Rightarrow> error" where
  "validateAdmissionProfile crypto profile now =
     (if \<not> admission_medium_ok profile
      then Some (ErrorNew ''admission profile identity or medium is invalid'')
      else if \<not> admission_ssid_ok profile then Some (ErrorNew ''admission profile SSID is invalid'')
      else if length (ap_ServerNames profile) < 1 \<or> length (ap_ServerNames profile) > 16 \<or>
              length (ap_CACertificates profile) < 1 \<or> length (ap_CACertificates profile) > 8
      then Some (ErrorNew ''admission profile server trust is incomplete'')
      else if \<not> all_fresh server_name_ok to_lower [] (ap_ServerNames profile)
      then Some (ErrorNew ''admission profile requires exact unique server DNS names'')
      else if \<not> all_fresh (admission_ca_ok crypto now) id [] (ap_CACertificates profile)
      then Some (ErrorNew ''admission profile CA is invalid, duplicate or expired'')
      else None)"

subsection \<open>State\<close>

record EAPAdapter =
  ead_ID :: string
  ead_Name :: string
  ead_Medium :: string
  ead_MACAddress :: string
  ead_EthernetPosition :: int
  ead_Enabled :: bool
  ead_LinkUp :: bool

record EAPProfileIdentity =
  epi_Fingerprint :: string
  epi_IdentitySHA256 :: string

record EAPArtifact =
  eat_Path :: string
  eat_SHA256 :: string

record EAPStagedProfile =
  esp_EAPArtifact :: EAPArtifact
  esp_IdentitySHA256 :: string

record EAPCleanup =
  ecl_RequestID :: string
  ecl_Certificate :: "EAPCertificateResult option"
  ecl_CACertificates :: "string list"
  ecl_Artifacts :: "EAPArtifact list"

record eapSelection =
  sel_Profile :: AdmissionProfile
  sel_Adapter :: EAPAdapter
  sel_Fingerprint :: string
  sel_IdentitySHA256 :: string
  sel_PriorIdentities :: "EAPProfileIdentity list"
  sel_RequestID :: string
  sel_ArtifactPath :: string
  sel_ArtifactSHA256 :: string

record eapIdentity =
  eid_RequestID :: string
  eid_CSR :: string
  eid_Certificate :: "EAPCertificateResult option"
  eid_Stale :: bool
  eid_ActivatedAt :: time

record eapState =
  est_Version :: int
  est_DeviceID :: string
  est_Epoch :: int
  est_Selections :: "eapSelection list"
  est_Active :: "eapIdentity option"
  est_Pending :: "eapIdentity option"
  est_Cleanup :: "EAPCleanup list"

record AdmissionInput =
  adi_ProfileID :: string
  adi_AdapterID :: string

record AdmissionProfileStatus =
  aps_ID :: string
  aps_SiteID :: string
  aps_AccessMedium :: string
  aps_SSID :: string
  aps_AdapterID :: string
  aps_State :: string
  aps_ArtifactPath :: string

record AdmissionStatus =
  ads_Supported :: bool
  ads_Profiles :: "AdmissionProfileStatus list"
  ads_Adapters :: "EAPAdapter list"
  ads_ValidUntil :: time
  ads_CertificateUntil :: time
  ads_Diagnostic :: string

record 'w EAPControl =
  eac_Issue :: "EAPCertificateRequest \<Rightarrow> string \<Rightarrow> string \<Rightarrow> 'w \<Rightarrow> EAPCertificateResult fallible \<times> 'w"
  eac_Activate :: "EAPCertificateActivateRequest \<Rightarrow> 'w \<Rightarrow> EAPCertificateActivateResult fallible \<times> 'w"

record 'w EAPSystem =
  eas_Adapters :: "'w \<Rightarrow> (EAPAdapter list \<times> error) \<times> 'w"
  eas_CreateCSR :: "string \<Rightarrow> 'w \<Rightarrow> string fallible \<times> 'w"
  eas_Stage :: "string \<Rightarrow> AdmissionProfile \<Rightarrow> EAPCertificateResult \<Rightarrow> EAPAdapter \<Rightarrow> 'w \<Rightarrow> EAPStagedProfile fallible \<times> 'w"
  eas_Readback :: "string \<Rightarrow> AdmissionProfile \<Rightarrow> EAPCertificateResult \<Rightarrow> EAPAdapter \<Rightarrow> 'w \<Rightarrow> error \<times> 'w"
  eas_Remove :: "AdmissionProfile \<Rightarrow> EAPAdapter \<Rightarrow> EAPProfileIdentity list \<Rightarrow> 'w \<Rightarrow> error \<times> 'w"
  eas_Connect :: "string \<Rightarrow> AdmissionProfile \<Rightarrow> EAPCertificateResult \<Rightarrow> EAPAdapter \<Rightarrow> 'w \<Rightarrow> error \<times> 'w"
  eas_Cleanup :: "EAPCleanup \<Rightarrow> 'w \<Rightarrow> error \<times> 'w"
  eas_RecoverArtifacts :: "EAPArtifact list \<Rightarrow> 'w \<Rightarrow> error \<times> 'w"

text \<open>
  \<open>ade_read\<close> is \<open>readFileBounded\<close> on the state file and \<open>ade_commit\<close> the replacement of the file
  (directory, temporary file, sync, rename) of \<open>save\<close>; JSON of the state and of a profile.
\<close>

record 'w admission_env =
  ade_deviceID :: string
  ade_control :: "'w EAPControl"
  ade_system :: "'w EAPSystem"
  ade_crypto :: crypto
  ade_read :: "'w \<Rightarrow> string fallible \<times> 'w"
  ade_commit :: "string \<Rightarrow> 'w \<Rightarrow> error \<times> 'w"
  ade_marshal :: "eapState \<Rightarrow> string fallible"
  ade_unmarshal :: "string \<Rightarrow> eapState fallible"
  ade_marshal_profile :: "AdmissionProfile \<Rightarrow> string"
  ade_randomID :: "'w \<Rightarrow> string \<times> 'w"
  ade_now :: "'w \<Rightarrow> time \<times> 'w"

record AdmissionManager =
  adm_state :: eapState
  adm_profiles :: "AdmissionProfile list"
  adm_validUntil :: time
  adm_observedAt :: time
  adm_diagnostic :: string
  adm_savedState :: string

definition with_state :: "(eapState \<Rightarrow> eapState) \<Rightarrow> AdmissionManager \<Rightarrow> AdmissionManager" where
  "with_state change manager = manager\<lparr>adm_state := change (adm_state manager)\<rparr>"

definition diagnose :: "string \<Rightarrow> AdmissionManager \<Rightarrow> AdmissionManager" where
  "diagnose reason manager = manager\<lparr>adm_diagnostic := reason\<rparr>"

definition empty_eapState :: "string \<Rightarrow> eapState" where
  "empty_eapState deviceID =
     \<lparr>est_Version = 1, est_DeviceID = deviceID, est_Epoch = 0, est_Selections = [], est_Active = None,
      est_Pending = None, est_Cleanup = []\<rparr>"

subsection \<open>Opening the stored state\<close>

definition stored_selection_ok :: "eapSelection \<Rightarrow> bool" where
  "stored_selection_ok selection \<longleftrightarrow>
     \<not> (\<not> identifierPattern (ap_ID (sel_Profile selection)) \<or> ead_ID (sel_Adapter selection) = [] \<or>
        sel_Fingerprint selection \<noteq> [] \<and> \<not> identifierPattern (sel_RequestID selection))"

definition stored_identities_ok :: "eapSelection \<Rightarrow> bool" where
  "stored_identities_ok selection \<longleftrightarrow>
     \<not> (length (sel_PriorIdentities selection) > 16 \<or>
        list_ex (\<lambda>value. \<not> validReadbackHash (epi_Fingerprint value) \<or>
          epi_IdentitySHA256 value \<noteq> [] \<and> \<not> validReadbackHash (''sha256:'' @ epi_IdentitySHA256 value))
          (sel_PriorIdentities selection) \<or>
        sel_IdentitySHA256 selection \<noteq> [] \<and> \<not> validReadbackHash (''sha256:'' @ sel_IdentitySHA256 selection))"

fun stored_selections_check :: "string list \<Rightarrow> eapSelection list \<Rightarrow> error" where
  "stored_selections_check seen [] = None"
| "stored_selections_check seen (selection # rest) =
     (if \<not> stored_selection_ok selection \<or> ap_ID (sel_Profile selection) \<in> set seen
      then Some (ErrorNew ''stored EAP selection is invalid'')
      else if \<not> stored_identities_ok selection
      then Some (ErrorNew ''stored EAP removal identities are invalid'')
      else stored_selections_check (ap_ID (sel_Profile selection) # seen) rest)"

definition stored_identity_ok :: "eapIdentity option \<Rightarrow> bool" where
  "stored_identity_ok identity =
     (case identity of None \<Rightarrow> True
      | Some i \<Rightarrow> \<not> (\<not> identifierPattern (eid_RequestID i) \<or> length (eid_CSR i) > 4096))"

text \<open>The directory is absolute and the interfaces are present.\<close>

definition NewAdmissionManager :: "'w admission_env \<Rightarrow> 'w \<Rightarrow> AdmissionManager fallible \<times> 'w" where
  "NewAdmissionManager env w =
     (if \<not> identifierPattern (ade_deviceID env)
      then (Inl (ErrorNew ''EAP manager dependencies are invalid''), w)
      else
        let manager = \<lparr>adm_state = empty_eapState (ade_deviceID env), adm_profiles = [], adm_validUntil = zero_time,
                       adm_observedAt = zero_time, adm_diagnostic = [], adm_savedState = []\<rparr>;
            (raw, w) = ade_read env w
        in case raw of
             Inl err \<Rightarrow>
               if errors_is err ErrNotExist
               then (Inr (manager\<lparr>adm_savedState :=
                       (case ade_marshal env (adm_state manager) of Inl _ \<Rightarrow> [] | Inr raw \<Rightarrow> raw)\<rparr>), w)
               else (Inl err, w)
           | Inr raw \<Rightarrow>
               (case ade_unmarshal env raw of
                  Inl _ \<Rightarrow> (Inl (ErrorNew ''stored EAP state is invalid''), w)
                | Inr state \<Rightarrow>
                    if est_Version state \<noteq> 1 \<or> est_DeviceID state \<noteq> ade_deviceID env \<or> est_Epoch state < 0 \<or>
                       length (est_Selections state) > 8 \<or> length (est_Cleanup state) > 16
                    then (Inl (ErrorNew ''stored EAP state is invalid''), w)
                    else (case stored_selections_check [] (est_Selections state) of
                        Some err \<Rightarrow> (Inl err, w)
                      | None \<Rightarrow>
                          if \<not> stored_identity_ok (est_Active state) \<or> \<not> stored_identity_ok (est_Pending state)
                          then (Inl (ErrorNew ''stored EAP identity is invalid''), w)
                          else (Inr (manager\<lparr>adm_state := state, adm_savedState := raw\<rparr>), w))))"

subsection \<open>Saving\<close>

text \<open>A failed commit restores the last saved state and withdraws the authorization.\<close>

definition save_failed :: "'w admission_env \<Rightarrow> AdmissionManager \<Rightarrow> AdmissionManager" where
  "save_failed env manager =
     (case ade_unmarshal env (adm_savedState manager) of Inl _ \<Rightarrow> manager | Inr saved \<Rightarrow> manager\<lparr>adm_state := saved\<rparr>)
       \<lparr>adm_validUntil := zero_time, adm_diagnostic := ''state_persistence_failed''\<rparr>"

definition save :: "'w admission_env \<Rightarrow> AdmissionManager \<times> 'w \<Rightarrow> error \<times> AdmissionManager \<times> 'w" where
  "save env = (\<lambda>(manager, w).
     case ade_marshal env (adm_state manager) of
       Inl _ \<Rightarrow> (Some (ErrorNew ''EAP state exceeds the safe size''), save_failed env manager, w)
     | Inr raw \<Rightarrow>
         if length raw > 256 * 1024 \<or> length (est_Cleanup (adm_state manager)) > 16
         then (Some (ErrorNew ''EAP state exceeds the safe size''), save_failed env manager, w)
         else
           let (err, w) = ade_commit env raw w
           in if err \<noteq> None then (err, save_failed env manager, w)
              else (None, manager\<lparr>adm_savedState := raw\<rparr>, w))"

definition eapProfileHash :: "'w admission_env \<Rightarrow> AdmissionProfile \<Rightarrow> string" where
  "eapProfileHash env profile =
     cry_sha256 (ade_crypto env)
       (ade_marshal_profile env (profile\<lparr>ap_ClientCertificateFingerprint := []\<rparr>))"

definition eapCertificateHash :: "crypto \<Rightarrow> string \<Rightarrow> string" where
  "eapCertificateHash crypto encoded =
     (case parseEAPCertificate crypto encoded of
        Inl _ \<Rightarrow> [] | Inr certificate \<Rightarrow> cry_sha256 crypto (x5_Raw certificate))"

subsection \<open>Observing a configuration\<close>

fun observed_profiles ::
  "'w admission_env \<Rightarrow> string list \<Rightarrow> string \<Rightarrow> AdmissionProfile list \<Rightarrow> 'w \<Rightarrow> bool \<times> 'w" where
  "observed_profiles env seen subject [] w = (True, w)"
| "observed_profiles env seen subject (profile # rest) w =
     (let (now, w) = ade_now env w
      in if validateAdmissionProfile (ade_crypto env) profile now \<noteq> None \<or> ap_ID profile \<in> set seen \<or>
            subject \<noteq> [] \<and> ap_Identity profile \<noteq> subject
         then (False, w)
         else observed_profiles env (ap_ID profile # seen) (ap_Identity profile) rest w)"

definition withdraw :: "string \<Rightarrow> AdmissionManager \<Rightarrow> AdmissionManager" where
  "withdraw reason manager = manager\<lparr>adm_validUntil := zero_time, adm_diagnostic := reason\<rparr>"

definition Observe ::
  "'w admission_env \<Rightarrow> AdmissionConfiguration option \<Rightarrow> time \<Rightarrow> time \<Rightarrow> AdmissionManager \<times> 'w \<Rightarrow>
   error \<times> AdmissionManager \<times> 'w" where
  "Observe env configuration validUntil observedAt = (\<lambda>(manager, w).
     let (now, w) = ade_now env w;
         unavailable = (Some (ErrorNew ''EAP configuration is missing, stale or expired''),
                        withdraw ''configuration_unavailable'' manager, w)
     in case configuration of
          None \<Rightarrow> unavailable
        | Some c \<Rightarrow>
            if \<not> validUntil > now \<or> observedAt < adm_observedAt manager \<or>
               ac_RestrictionEpoch c < est_Epoch (adm_state manager) \<or> length (ac_Profiles c) > 64
            then unavailable
            else
              let (valid, w) = observed_profiles env [] [] (ac_Profiles c) w
              in if \<not> valid
                 then (Some (ErrorNew ''EAP configuration contains an invalid or ambiguous profile''),
                       withdraw ''configuration_invalid'' manager, w)
                 else save env
                   (with_state (\<lambda>state. state\<lparr>est_Epoch := ac_RestrictionEpoch c\<rparr>)
                     (manager\<lparr>adm_profiles := ac_Profiles c, adm_validUntil := validUntil,
                              adm_observedAt := observedAt\<rparr>), w))"

subsection \<open>Profiles and certificates in force\<close>

definition currentProfile ::
  "'w admission_env \<Rightarrow> string \<Rightarrow> AdmissionManager \<Rightarrow> 'w \<Rightarrow> AdmissionProfile fallible \<times> 'w" where
  "currentProfile env profileID manager w =
     (let (now, w) = ade_now env w
      in if \<not> adm_validUntil manager > now
         then (Inl (ErrorNew ''EAP authorization must be refreshed''), w)
         else (case find (\<lambda>profile. ap_ID profile = profileID) (adm_profiles manager) of
             None \<Rightarrow> (Inl (ErrorNew ''EAP profile is no longer authorized''), w)
           | Some profile \<Rightarrow> (Inr profile, w)))"

definition targetCertificate :: "AdmissionManager \<Rightarrow> EAPCertificateResult option" where
  "targetCertificate manager =
     (case est_Pending (adm_state manager) of
        Some pending \<Rightarrow> eid_Certificate pending
      | None \<Rightarrow>
          (case est_Active (adm_state manager) of
             Some active \<Rightarrow> eid_Certificate active
           | None \<Rightarrow> None))"

text \<open>The selections whose current profile names the active certificate.\<close>

fun selections_current ::
  "'w admission_env \<Rightarrow> AdmissionManager \<Rightarrow> string \<Rightarrow> eapSelection list \<Rightarrow> 'w \<Rightarrow> bool \<times> 'w" where
  "selections_current env manager fingerprint [] w = (True, w)"
| "selections_current env manager fingerprint (selection # rest) w =
     (let (profile, w) = currentProfile env (ap_ID (sel_Profile selection)) manager w
      in case profile of
           Inl _ \<Rightarrow> (False, w)
         | Inr profile \<Rightarrow>
             if ap_ClientCertificateFingerprint profile \<noteq> fingerprint then (False, w)
             else selections_current env manager fingerprint rest w)"

definition activeCurrent :: "'w admission_env \<Rightarrow> AdmissionManager \<Rightarrow> 'w \<Rightarrow> bool \<times> 'w" where
  "activeCurrent env manager w =
     (case est_Active (adm_state manager) of
        None \<Rightarrow> (False, w)
      | Some active \<Rightarrow>
          (case eid_Certificate active of
             None \<Rightarrow> (False, w)
           | Some certificate \<Rightarrow>
               let (now, w) = ade_now env w
               in if \<not> ecr_ExpiresAt certificate > now then (False, w)
                  else if adm_observedAt manager < eid_ActivatedAt active then (True, w)
                  else selections_current env manager (ecr_Fingerprint certificate)
                         (est_Selections (adm_state manager)) w))"

subsection \<open>The cleanup queue\<close>

definition add_missing :: "'a list \<Rightarrow> 'a list \<Rightarrow> 'a list" where
  "add_missing news stored = fold (\<lambda>x stored. if x \<in> set stored then stored else stored @ [x]) news stored"

definition merge_job :: "EAPCleanup \<Rightarrow> EAPCleanup \<Rightarrow> EAPCleanup" where
  "merge_job job stored =
     stored\<lparr>ecl_Certificate := (if ecl_Certificate stored = None then ecl_Certificate job else ecl_Certificate stored),
            ecl_CACertificates := add_missing (ecl_CACertificates job) (ecl_CACertificates stored),
            ecl_Artifacts := add_missing (ecl_Artifacts job) (ecl_Artifacts stored)\<rparr>"

fun merge_queue :: "EAPCleanup \<Rightarrow> EAPCleanup list \<Rightarrow> EAPCleanup list" where
  "merge_queue job [] = [job]"
| "merge_queue job (stored # rest) =
     (if ecl_RequestID stored = ecl_RequestID job then merge_job job stored # rest
      else stored # merge_queue job rest)"

definition empty_job :: EAPCleanup where
  "empty_job = \<lparr>ecl_RequestID = [], ecl_Certificate = None, ecl_CACertificates = [], ecl_Artifacts = []\<rparr>"

definition queue_job :: "EAPCleanup \<Rightarrow> EAPCleanup list \<Rightarrow> EAPCleanup list" where
  "queue_job job queue =
     (let job = (case ecl_Certificate job of
            None \<Rightarrow> job
          | Some certificate \<Rightarrow>
              job\<lparr>ecl_CACertificates := ecl_CACertificates job @ [ecr_CACertificatePEM certificate]\<rparr>)
      in if ecl_RequestID job = [] \<and> length (ecl_CACertificates job) = 0 \<and> length (ecl_Artifacts job) = 0
         then queue else merge_queue job queue)"

definition queueCleanup :: "EAPCleanup \<Rightarrow> AdmissionManager \<Rightarrow> AdmissionManager" where
  "queueCleanup job = with_state (\<lambda>state. state\<lparr>est_Cleanup := queue_job job (est_Cleanup state)\<rparr>)"

definition identity_job :: "eapIdentity \<Rightarrow> EAPCleanup" where
  "identity_job identity =
     empty_job\<lparr>ecl_RequestID := eid_RequestID identity, ecl_Certificate := eid_Certificate identity\<rparr>"

definition artifact_job :: "eapSelection \<Rightarrow> EAPCleanup" where
  "artifact_job selection =
     empty_job\<lparr>ecl_Artifacts := [\<lparr>eat_Path = sel_ArtifactPath selection, eat_SHA256 = sel_ArtifactSHA256 selection\<rparr>]\<rparr>"

definition queue_identity :: "eapIdentity option \<Rightarrow> AdmissionManager \<Rightarrow> AdmissionManager" where
  "queue_identity identity manager =
     (case identity of None \<Rightarrow> manager | Some i \<Rightarrow> queueCleanup (identity_job i) manager)"

definition remove_nth :: "nat \<Rightarrow> 'a list \<Rightarrow> 'a list" where
  "remove_nth i xs = take i xs @ drop (Suc i) xs"

definition detachSelection :: "nat \<Rightarrow> AdmissionManager \<Rightarrow> AdmissionManager" where
  "detachSelection index manager =
     (let selection = est_Selections (adm_state manager) ! index;
          job = empty_job\<lparr>ecl_CACertificates := ap_CACertificates (sel_Profile selection)\<rparr>;
          job = (if sel_ArtifactPath selection \<noteq> []
                 then job\<lparr>ecl_Artifacts := ecl_Artifacts (artifact_job selection)\<rparr> else job);
          manager = queueCleanup job manager;
          manager = with_state (\<lambda>state. state\<lparr>est_Selections := remove_nth index (est_Selections state)\<rparr>) manager
      in if length (est_Selections (adm_state manager)) = 0
         then with_state (\<lambda>state. state\<lparr>est_Active := None, est_Pending := None\<rparr>)
                (queue_identity (est_Pending (adm_state manager))
                  (queue_identity (est_Active (adm_state manager)) manager))
         else manager)"

text \<open>The issuers that are still in use.\<close>

definition retained_cas :: "crypto \<Rightarrow> eapState \<Rightarrow> string list" where
  "retained_cas crypto state =
     map (eapCertificateHash crypto)
       (concat (map (\<lambda>selection. ap_CACertificates (sel_Profile selection)) (est_Selections state)) @
        map ecr_CACertificatePEM (List.map_filter eid_Certificate
          (List.map_filter id [est_Active state, est_Pending state])))"

fun cleanup_from ::
  "'w admission_env \<Rightarrow> string list \<Rightarrow> nat list \<Rightarrow> AdmissionManager \<times> 'w \<Rightarrow> error \<times> AdmissionManager \<times> 'w" where
  "cleanup_from env retained [] (manager, w) = (None, manager, w)"
| "cleanup_from env retained (index # rest) (manager, w) =
     (let job = est_Cleanup (adm_state manager) ! index;
          job = job\<lparr>ecl_CACertificates := filter
                  (\<lambda>encoded. eapCertificateHash (ade_crypto env) encoded \<notin> set retained) (ecl_CACertificates job)\<rparr>;
          (err, w) = eas_Cleanup (ade_system env) job w
      in if err \<noteq> None then (err, diagnose ''cleanup_retry_pending'' manager, w)
         else
           let manager = with_state (\<lambda>state. state\<lparr>est_Cleanup := remove_nth index (est_Cleanup state)\<rparr>) manager;
               (err, manager, w) = save env (manager, w)
           in if err \<noteq> None then (err, manager, w)
              else cleanup_from env retained rest (manager, w))"

definition cleanup :: "'w admission_env \<Rightarrow> AdmissionManager \<times> 'w \<Rightarrow> error \<times> AdmissionManager \<times> 'w" where
  "cleanup env = (\<lambda>(manager, w).
     cleanup_from env (retained_cas (ade_crypto env) (adm_state manager))
       (rev [0..<length (est_Cleanup (adm_state manager))]) (manager, w))"

definition recoverArtifacts ::
  "'w admission_env \<Rightarrow> AdmissionManager \<times> 'w \<Rightarrow> error \<times> AdmissionManager \<times> 'w" where
  "recoverArtifacts env = (\<lambda>(manager, w).
     let retained = map (\<lambda>selection. \<lparr>eat_Path = sel_ArtifactPath selection, eat_SHA256 = sel_ArtifactSHA256 selection\<rparr>)
           (filter (\<lambda>selection. sel_ArtifactPath selection \<noteq> []) (est_Selections (adm_state manager)));
         (err, w) = eas_RecoverArtifacts (ade_system env) retained w
     in (err, (if err \<noteq> None \<and> adm_diagnostic manager = [] then diagnose ''cleanup_retry_pending'' manager else manager), w))"

text \<open>The deferred recovery of an operation: its error joins the operation's.\<close>

definition recovering ::
  "'w admission_env \<Rightarrow> error \<times> AdmissionManager \<times> 'w \<Rightarrow> error \<times> AdmissionManager \<times> 'w" where
  "recovering env = (\<lambda>(err, manager, w).
     let (err', manager, w) = recoverArtifacts env (manager, w) in (errors_join [err, err'], manager, w))"

subsection \<open>Preparing\<close>

definition set_pending :: "(eapIdentity \<Rightarrow> eapIdentity) \<Rightarrow> AdmissionManager \<Rightarrow> AdmissionManager" where
  "set_pending change = with_state (\<lambda>state. state\<lparr>est_Pending := map_option change (est_Pending state)\<rparr>)"

text \<open>\<open>ensureIdentity\<close> from the request for a certificate on.\<close>

definition issue_pending ::
  "'w admission_env \<Rightarrow> string \<Rightarrow> eapIdentity \<Rightarrow> AdmissionManager \<times> 'w \<Rightarrow> error \<times> AdmissionManager \<times> 'w" where
  "issue_pending env subjectID pending = (\<lambda>(manager, w).
     if eid_Certificate pending \<noteq> None then (None, manager, w)
     else
       let (certificate, w) = eac_Issue (ade_control env)
             \<lparr>ecq_RequestID = eid_RequestID pending, ecq_CSRPEM = eid_CSR pending\<rparr>
             (est_DeviceID (adm_state manager)) subjectID w
       in case certificate of
            Inl err \<Rightarrow>
              if errors_is err ErrEAPCertificateStale then
                (let manager = diagnose ''certificate_prepare_required''
                       (set_pending (\<lambda>pending. pending\<lparr>eid_Stale := True\<rparr>) manager);
                     (saveErr, manager, w) = save env (manager, w)
                 in (errors_join [Some err, saveErr], manager, w))
              else (Some err, manager, w)
          | Inr certificate \<Rightarrow>
              let (now, w) = ade_now env w
              in case validateEAPCertificate (ade_crypto env) certificate (eid_CSR pending)
                        (est_DeviceID (adm_state manager)) subjectID now of
                   Some err \<Rightarrow> (Some err, manager, w)
                 | None \<Rightarrow>
                     save env (set_pending (\<lambda>pending. pending\<lparr>eid_Certificate := Some certificate\<rparr>) manager, w))"

definition csr_pending ::
  "'w admission_env \<Rightarrow> string \<Rightarrow> eapIdentity \<Rightarrow> AdmissionManager \<times> 'w \<Rightarrow> error \<times> AdmissionManager \<times> 'w" where
  "csr_pending env subjectID pending = (\<lambda>(manager, w).
     if eid_CSR pending \<noteq> [] then issue_pending env subjectID pending (manager, w)
     else
       let (csr, w) = eas_CreateCSR (ade_system env) (eid_RequestID pending) w
       in case csr of
            Inl err \<Rightarrow> (Some err, manager, w)
          | Inr csr \<Rightarrow>
              let pending = pending\<lparr>eid_CSR := csr\<rparr>;
                  (err, manager, w) = save env (set_pending (\<lambda>_. pending) manager, w)
              in if err \<noteq> None then (err, manager, w)
                 else issue_pending env subjectID pending (manager, w))"

definition drop_stale :: "AdmissionManager \<Rightarrow> AdmissionManager" where
  "drop_stale manager =
     (case est_Pending (adm_state manager) of
        None \<Rightarrow> manager
      | Some pending \<Rightarrow>
          if eid_Stale pending
          then with_state (\<lambda>state. state\<lparr>est_Pending := None\<rparr>) (queueCleanup (identity_job pending) manager)
          else manager)"

text \<open>The active certificate is current and lasts another hour.\<close>

definition active_lasts :: "'w admission_env \<Rightarrow> AdmissionManager \<Rightarrow> 'w \<Rightarrow> bool \<times> 'w" where
  "active_lasts env manager w =
     (let (current, w) = activeCurrent env manager w
      in if \<not> current then (False, w)
         else
           let (now, w) = ade_now env w
           in ((case est_Active (adm_state manager) of
                  None \<Rightarrow> False
                | Some active \<Rightarrow> (case eid_Certificate active of
                    None \<Rightarrow> False
                  | Some certificate \<Rightarrow> ecr_ExpiresAt certificate > now + 60 * minute)), w))"

definition ensureIdentity ::
  "'w admission_env \<Rightarrow> string \<Rightarrow> AdmissionManager \<times> 'w \<Rightarrow> error \<times> AdmissionManager \<times> 'w" where
  "ensureIdentity env subjectID = (\<lambda>(manager, w).
     let manager = drop_stale manager
     in case est_Pending (adm_state manager) of
          Some pending \<Rightarrow> csr_pending env subjectID pending (manager, w)
        | None \<Rightarrow>
            let (lasts, w) = active_lasts env manager w
            in if lasts then (None, manager, w)
               else if length (est_Cleanup (adm_state manager)) \<ge> 16
               then (Some (ErrorNew ''EAP cleanup must complete before another identity is created''), manager, w)
               else
                 let (requestID, w) = ade_randomID env w;
                     pending = \<lparr>eid_RequestID = requestID, eid_CSR = [], eid_Certificate = None,
                                eid_Stale = False, eid_ActivatedAt = zero_time\<rparr>;
                     (err, manager, w) =
                       save env (with_state (\<lambda>state. state\<lparr>est_Pending := Some pending\<rparr>) manager, w)
                 in if err \<noteq> None then (err, manager, w)
                    else csr_pending env subjectID pending (manager, w))"

text \<open>One selection of \<open>stage\<close>: None to go on, or the result of the call.\<close>

definition stage_selection ::
  "'w admission_env \<Rightarrow> string \<Rightarrow> eapIdentity \<Rightarrow> EAPCertificateResult \<Rightarrow> nat \<Rightarrow> AdmissionManager \<times> 'w \<Rightarrow>
   error \<times> AdmissionManager \<times> 'w" where
  "stage_selection env forceProfileID identity certificate index = (\<lambda>(manager, w).
     let selection = est_Selections (adm_state manager) ! index;
         (profile, w) = currentProfile env (ap_ID (sel_Profile selection)) manager w;
         changed = (Some (ErrorNew ''EAP policy changed; remove the old configuration before preparing it again''),
                    manager, w)
     in case profile of
          Inl _ \<Rightarrow> changed
        | Inr profile \<Rightarrow>
            if eapProfileHash env profile \<noteq> eapProfileHash env (sel_Profile selection) then changed
            else if sel_Fingerprint selection = ecr_Fingerprint certificate \<and>
                    ap_ID (sel_Profile selection) \<noteq> forceProfileID
            then (None, manager, w)
            else
              let prior = \<lparr>epi_Fingerprint = sel_Fingerprint selection,
                           epi_IdentitySHA256 = sel_IdentitySHA256 selection\<rparr>;
                  fresh = epi_Fingerprint prior \<noteq> [] \<and> prior \<notin> set (sel_PriorIdentities selection)
              in if fresh \<and> length (sel_PriorIdentities selection) \<ge> 16
                 then (Some (ErrorNew ''remove the managed EAP profile before preparing more certificate generations''),
                       manager, w)
                 else
                   let (artifact, w) = eas_Stage (ade_system env) (eid_RequestID identity) profile certificate
                                         (sel_Adapter selection) w
                   in case artifact of
                        Inl err \<Rightarrow> (Some err, manager, w)
                      | Inr artifact \<Rightarrow>
                          let staged = selection
                                \<lparr>sel_PriorIdentities := (if fresh then sel_PriorIdentities selection @ [prior]
                                                         else sel_PriorIdentities selection),
                                 sel_IdentitySHA256 := esp_IdentitySHA256 artifact,
                                 sel_Fingerprint := ecr_Fingerprint certificate,
                                 sel_RequestID := eid_RequestID identity,
                                 sel_ArtifactPath := eat_Path (esp_EAPArtifact artifact),
                                 sel_ArtifactSHA256 := eat_SHA256 (esp_EAPArtifact artifact)\<rparr>;
                              manager = (if sel_ArtifactPath selection \<noteq> []
                                         then queueCleanup (artifact_job selection) manager else manager);
                              manager = with_state (\<lambda>state. state
                                \<lparr>est_Selections := (est_Selections state)[index := staged]\<rparr>) manager
                          in save env (manager, w))"

fun stage_from ::
  "'w admission_env \<Rightarrow> string \<Rightarrow> eapIdentity \<Rightarrow> EAPCertificateResult \<Rightarrow> nat list \<Rightarrow> AdmissionManager \<times> 'w \<Rightarrow>
   error \<times> AdmissionManager \<times> 'w" where
  "stage_from env forceProfileID identity certificate [] (manager, w) = (None, manager, w)"
| "stage_from env forceProfileID identity certificate (index # rest) (manager, w) =
     (let (err, manager, w) = stage_selection env forceProfileID identity certificate index (manager, w)
      in if err \<noteq> None then (err, manager, w)
         else stage_from env forceProfileID identity certificate rest (manager, w))"

definition stage ::
  "'w admission_env \<Rightarrow> string \<Rightarrow> AdmissionManager \<times> 'w \<Rightarrow> error \<times> AdmissionManager \<times> 'w" where
  "stage env forceProfileID = (\<lambda>(manager, w).
     let unavailable = (\<lambda>w. (Some (ErrorNew ''EAP certificate is unavailable or expired''), manager, w));
         identity = (case est_Pending (adm_state manager) of
             None \<Rightarrow> est_Active (adm_state manager) | Some pending \<Rightarrow> Some pending)
     in case identity of
          None \<Rightarrow> unavailable w
        | Some identity \<Rightarrow>
            (case eid_Certificate identity of
               None \<Rightarrow> unavailable w
             | Some certificate \<Rightarrow>
                 let (now, w) = ade_now env w
                 in if \<not> ecr_ExpiresAt certificate > now then unavailable w
                    else stage_from env forceProfileID identity certificate
                           [0..<length (est_Selections (adm_state manager))] (manager, w)))"

definition adapter_taken :: "AdmissionProfile \<Rightarrow> string \<Rightarrow> eapSelection \<Rightarrow> bool" where
  "adapter_taken profile adapterID selection \<longleftrightarrow>
     ap_ID (sel_Profile selection) = ap_ID profile \<and> ead_ID (sel_Adapter selection) \<noteq> adapterID \<or>
     ap_ID (sel_Profile selection) \<noteq> ap_ID profile \<and> ead_ID (sel_Adapter selection) = adapterID \<and>
       ap_AccessMedium profile = ''wired''"

definition prepare_selected ::
  "'w admission_env \<Rightarrow> AdmissionProfile \<Rightarrow> AdmissionManager \<times> 'w \<Rightarrow> error \<times> AdmissionManager \<times> 'w" where
  "prepare_selected env profile = (\<lambda>(manager, w).
     let (err, manager, w) = ensureIdentity env (ap_Identity profile) (manager, w)
     in if err \<noteq> None then (err, manager, w) else stage env (ap_ID profile) (manager, w))"

definition new_selection :: "AdmissionProfile \<Rightarrow> EAPAdapter \<Rightarrow> eapSelection" where
  "new_selection profile adapter =
     \<lparr>sel_Profile = profile, sel_Adapter = adapter, sel_Fingerprint = [], sel_IdentitySHA256 = [],
      sel_PriorIdentities = [], sel_RequestID = [], sel_ArtifactPath = [], sel_ArtifactSHA256 = []\<rparr>"

definition prepare_input ::
  "'w admission_env \<Rightarrow> AdmissionInput \<Rightarrow> AdmissionManager \<times> 'w \<Rightarrow> error \<times> AdmissionManager \<times> 'w" where
  "prepare_input env input = (\<lambda>(manager, w).
     let (profile, w) = currentProfile env (adi_ProfileID input) manager w
     in case profile of
          Inl err \<Rightarrow> (Some err, manager, w)
        | Inr profile \<Rightarrow>
            let ((adapters, err), w) = eas_Adapters (ade_system env) w
            in if err \<noteq> None then (err, manager, w)
               else (case find (\<lambda>adapter. ead_ID adapter = adi_AdapterID input \<and>
                                 ead_Medium adapter = ap_AccessMedium profile \<and> ead_Enabled adapter) adapters of
                   None \<Rightarrow> (Some (ErrorNew ''selected EAP adapter is unavailable''), manager, w)
                 | Some adapter \<Rightarrow>
                     if list_ex (adapter_taken profile (adi_AdapterID input)) (est_Selections (adm_state manager))
                     then (Some (ErrorNew ''remove the existing EAP adapter selection before changing it''), manager, w)
                     else if list_ex (\<lambda>selection. ap_ID (sel_Profile selection) = ap_ID profile)
                               (est_Selections (adm_state manager))
                     then prepare_selected env profile (manager, w)
                     else if length (est_Selections (adm_state manager)) \<ge> 8
                     then (Some (ErrorNew ''at most eight managed EAP profiles may be installed''), manager, w)
                     else
                       let (err, manager, w) = save env (with_state (\<lambda>state. state
                             \<lparr>est_Selections := est_Selections state @ [new_selection profile adapter]\<rparr>) manager, w)
                       in if err \<noteq> None then (err, manager, w)
                          else prepare_selected env profile (manager, w)))"

definition Prepare ::
  "'w admission_env \<Rightarrow> AdmissionInput \<Rightarrow> AdmissionManager \<times> 'w \<Rightarrow> error \<times> AdmissionManager \<times> 'w" where
  "Prepare env input s = recovering env (prepare_input env input s)"

subsection \<open>Checking\<close>

definition removal_identities :: "eapSelection \<Rightarrow> EAPProfileIdentity list" where
  "removal_identities selection =
     sel_PriorIdentities selection @
     [\<lparr>epi_Fingerprint = sel_Fingerprint selection, epi_IdentitySHA256 = sel_IdentitySHA256 selection\<rparr>]"

text \<open>Selections whose profile is no longer authorized, or has changed, are removed from the system.\<close>

fun remove_changed ::
  "'w admission_env \<Rightarrow> nat list \<Rightarrow> AdmissionManager \<times> 'w \<Rightarrow> error \<times> AdmissionManager \<times> 'w" where
  "remove_changed env [] (manager, w) = (None, manager, w)"
| "remove_changed env (index # rest) (manager, w) =
     (let selection = est_Selections (adm_state manager) ! index;
          (profile, w) = currentProfile env (ap_ID (sel_Profile selection)) manager w
      in if (case profile of Inl _ \<Rightarrow> False
             | Inr profile \<Rightarrow> eapProfileHash env profile = eapProfileHash env (sel_Profile selection))
         then remove_changed env rest (manager, w)
         else
           let (err, w) = eas_Remove (ade_system env) (sel_Profile selection) (sel_Adapter selection)
                            (removal_identities selection) w
           in if err \<noteq> None then (err, diagnose ''configuration_removal_failed'' manager, w)
              else
                let (err, manager, w) = save env (detachSelection index manager, w)
                in if err \<noteq> None then (err, manager, w) else remove_changed env rest (manager, w))"

text \<open>Every selection carries the certificate and reads back.\<close>

fun all_installed ::
  "'w admission_env \<Rightarrow> EAPCertificateResult \<Rightarrow> eapSelection list \<Rightarrow> 'w \<Rightarrow> bool \<times> 'w" where
  "all_installed env certificate [] w = (True, w)"
| "all_installed env certificate (selection # rest) w =
     (if sel_Fingerprint selection \<noteq> ecr_Fingerprint certificate then (False, w)
      else
        let (err, w) = eas_Readback (ade_system env) (sel_RequestID selection) (sel_Profile selection) certificate
                         (sel_Adapter selection) w
        in if err \<noteq> None then (False, w) else all_installed env certificate rest w)"

definition settle_selection :: "eapSelection \<Rightarrow> eapSelection" where
  "settle_selection selection =
     selection\<lparr>sel_PriorIdentities := [], sel_ArtifactPath := [],
       sel_ArtifactSHA256 := (if sel_ArtifactPath selection \<noteq> [] then [] else sel_ArtifactSHA256 selection)\<rparr>"

definition settle_installed :: "AdmissionManager \<Rightarrow> AdmissionManager \<times> bool" where
  "settle_installed manager =
     (let selections = est_Selections (adm_state manager);
          queued = fold (\<lambda>selection manager. if sel_ArtifactPath selection \<noteq> []
                     then queueCleanup (artifact_job selection) manager else manager) selections manager
      in (with_state (\<lambda>state. state\<lparr>est_Selections := map settle_selection selections\<rparr>) queued,
          list_ex (\<lambda>selection. length (sel_PriorIdentities selection) > 0 \<or> sel_ArtifactPath selection \<noteq> [])
            selections))"

definition receipt_matches :: "EAPCertificateResult \<Rightarrow> EAPCertificateActivateResult \<Rightarrow> bool" where
  "receipt_matches certificate result \<longleftrightarrow>
     \<not> (ear_CredentialID result \<noteq> ecr_CredentialID certificate \<or>
        ear_Fingerprint result \<noteq> ecr_Fingerprint certificate \<or> ear_Status result \<noteq> ''active'' \<or>
        ear_ExpiresAt result \<noteq> ecr_ExpiresAt certificate)"

definition activate_pending ::
  "'w admission_env \<Rightarrow> eapIdentity \<Rightarrow> EAPCertificateResult \<Rightarrow> AdmissionManager \<times> 'w \<Rightarrow>
   error \<times> AdmissionManager \<times> 'w" where
  "activate_pending env pending certificate = (\<lambda>(manager, w).
     let (result, w) = eac_Activate (ade_control env)
           \<lparr>eaq_CredentialID = ecr_CredentialID certificate, eaq_Fingerprint = ecr_Fingerprint certificate\<rparr> w
     in case result of
          Inl err \<Rightarrow>
            if errors_is err ErrEAPCertificateStale then
              (let manager = diagnose ''certificate_prepare_required''
                     (set_pending (\<lambda>pending. pending\<lparr>eid_Stale := True\<rparr>) manager);
                   (saveErr, manager, w) = save env (manager, w)
               in (errors_join [Some err, saveErr], manager, w))
            else (Some err, diagnose ''activation_retry_pending'' manager, w)
        | Inr result \<Rightarrow>
            if \<not> receipt_matches certificate result
            then (Some (ErrorNew ''EAP activation receipt does not match the installed identity''), manager, w)
            else
              let manager = queue_identity (est_Active (adm_state manager)) manager;
                  (now, w) = ade_now env w;
                  activated = pending\<lparr>eid_Certificate := Some (certificate\<lparr>ecr_Status := ''active''\<rparr>),
                                      eid_ActivatedAt := now\<rparr>;
                  manager = with_state (\<lambda>state. state\<lparr>est_Active := Some activated, est_Pending := None\<rparr>) manager;
                  (err, manager, w) = save env (manager, w)
              in if err \<noteq> None then (err, manager, w) else cleanup env (manager, w))"

text \<open>\<open>Check\<close> once every certificate is in place: artifacts go, a pending identity is activated.\<close>

definition check_installed ::
  "'w admission_env \<Rightarrow> EAPCertificateResult \<Rightarrow> AdmissionManager \<times> 'w \<Rightarrow> error \<times> AdmissionManager \<times> 'w" where
  "check_installed env certificate = (\<lambda>(manager, w).
     let (manager, changed) = settle_installed manager;
         (err, manager, w) = (if changed then save env (manager, w) else (None, manager, w))
     in if err \<noteq> None then (err, manager, w)
        else case est_Pending (adm_state manager) of
          Some pending \<Rightarrow> activate_pending env pending certificate (manager, w)
        | None \<Rightarrow> cleanup env (manager, w))"

definition check_target ::
  "'w admission_env \<Rightarrow> AdmissionManager \<times> 'w \<Rightarrow> error \<times> AdmissionManager \<times> 'w" where
  "check_target env = (\<lambda>(manager, w).
     let expired = (\<lambda>w. (Some (ErrorNew ''EAP certificate expired; prepare the network again''),
                         diagnose ''certificate_expired'' manager, w))
     in case targetCertificate manager of
          None \<Rightarrow> expired w
        | Some certificate \<Rightarrow>
            let (now, w) = ade_now env w
            in if \<not> ecr_ExpiresAt certificate > now then expired w
               else
                 let (installed, w) = all_installed env certificate (est_Selections (adm_state manager)) w
                 in if \<not> installed then (None, diagnose ''installation_or_readback_required'' manager, w)
                    else check_installed env certificate (manager, w))"

text \<open>The renewal of an active certificate that is no longer current or ends within the hour.\<close>

definition check_renewal ::
  "'w admission_env \<Rightarrow> AdmissionManager \<times> 'w \<Rightarrow> error \<times> AdmissionManager \<times> 'w" where
  "check_renewal env = (\<lambda>(manager, w).
     if est_Pending (adm_state manager) = None \<and>
        (case est_Active (adm_state manager) of None \<Rightarrow> False | Some active \<Rightarrow> eid_Certificate active \<noteq> None)
     then
       let (lasts, w) = active_lasts env manager w
       in if lasts then check_target env (manager, w)
          else
            let subject = ap_Identity (sel_Profile (est_Selections (adm_state manager) ! 0));
                (err, manager, w) = ensureIdentity env subject (manager, w)
            in if err \<noteq> None then (err, diagnose ''certificate_renewal_failed'' manager, w)
               else
                 let (err, manager, w) = stage env [] (manager, w)
                 in if err \<noteq> None then (err, diagnose ''certificate_installation_required'' manager, w)
                    else check_target env (manager, w)
     else check_target env (manager, w))"

definition check_selections ::
  "'w admission_env \<Rightarrow> AdmissionManager \<times> 'w \<Rightarrow> error \<times> AdmissionManager \<times> 'w" where
  "check_selections env = (\<lambda>(manager, w).
     let manager = diagnose [] manager;
         (err, manager, w) = remove_changed env (rev [0..<length (est_Selections (adm_state manager))]) (manager, w)
     in if err \<noteq> None then (err, manager, w)
        else if length (est_Selections (adm_state manager)) = 0 then cleanup env (manager, w)
        else if (case est_Pending (adm_state manager) of None \<Rightarrow> False | Some pending \<Rightarrow> eid_Stale pending)
        then (None, diagnose ''certificate_prepare_required'' manager, w)
        else check_renewal env (manager, w))"

definition Check :: "'w admission_env \<Rightarrow> AdmissionManager \<times> 'w \<Rightarrow> error \<times> AdmissionManager \<times> 'w" where
  "Check env s = recovering env (check_selections env s)"

subsection \<open>Removing, connecting, status\<close>

fun index_of :: "('a \<Rightarrow> bool) \<Rightarrow> 'a list \<Rightarrow> nat option" where
  "index_of P [] = None"
| "index_of P (x # xs) = (if P x then Some 0 else map_option Suc (index_of P xs))"

definition remove_profile ::
  "'w admission_env \<Rightarrow> string \<Rightarrow> AdmissionManager \<times> 'w \<Rightarrow> error \<times> AdmissionManager \<times> 'w" where
  "remove_profile env profileID = (\<lambda>(manager, w).
     case index_of (\<lambda>selection. ap_ID (sel_Profile selection) = profileID) (est_Selections (adm_state manager)) of
       None \<Rightarrow> (Some (ErrorNew ''EAP profile is not managed by this service''), manager, w)
     | Some index \<Rightarrow>
         let selection = est_Selections (adm_state manager) ! index;
             (err, w) = eas_Remove (ade_system env) (sel_Profile selection) (sel_Adapter selection)
                          (removal_identities selection) w
         in if err \<noteq> None then (err, manager, w)
            else
              let (err, manager, w) = save env (detachSelection index manager, w)
              in if err \<noteq> None then (err, manager, w) else cleanup env (manager, w))"

definition Remove ::
  "'w admission_env \<Rightarrow> string \<Rightarrow> AdmissionManager \<times> 'w \<Rightarrow> error \<times> AdmissionManager \<times> 'w" where
  "Remove env profileID s = recovering env (remove_profile env profileID s)"

definition connect_active ::
  "'w admission_env \<Rightarrow> string \<Rightarrow> EAPCertificateResult \<Rightarrow> AdmissionManager \<Rightarrow> 'w \<Rightarrow> error \<times> 'w" where
  "connect_active env profileID certificate manager w =
     (let (profile, w) = currentProfile env profileID manager w
      in case profile of
           Inl err \<Rightarrow> (Some err, w)
         | Inr profile \<Rightarrow>
             (case find (\<lambda>selection. ap_ID (sel_Profile selection) = profileID \<and>
                      eapProfileHash env (sel_Profile selection) = eapProfileHash env profile)
                    (est_Selections (adm_state manager)) of
                None \<Rightarrow> (Some (ErrorNew ''EAP profile has not been installed''), w)
              | Some selection \<Rightarrow>
                  let (err, w) = eas_Readback (ade_system env) (sel_RequestID selection) profile certificate
                                   (sel_Adapter selection) w
                  in if err \<noteq> None then (err, w)
                     else eas_Connect (ade_system env) (sel_RequestID selection) profile certificate
                            (sel_Adapter selection) w))"

text \<open>\<open>activeCurrent\<close> holds only where there is an active certificate.\<close>

definition Admission_Connect ::
  "'w admission_env \<Rightarrow> string \<Rightarrow> AdmissionManager \<times> 'w \<Rightarrow> error \<times> AdmissionManager \<times> 'w" where
  "Admission_Connect env profileID = (\<lambda>(manager, w).
     let refused = (\<lambda>w. (Some (ErrorNew ''EAP identity must be installed and activated before connecting''), manager, w))
     in if est_Pending (adm_state manager) \<noteq> None then refused w
        else
          let (current, w) = activeCurrent env manager w
          in case (if current then Option.bind (est_Active (adm_state manager)) eid_Certificate else None) of
               None \<Rightarrow> refused w
             | Some certificate \<Rightarrow>
                 let (err, w) = connect_active env profileID certificate manager w in (err, manager, w))"

text \<open>The state of one profile: the selections in turn, until one decides.\<close>

fun profile_item ::
  "'w admission_env \<Rightarrow> AdmissionManager \<Rightarrow> AdmissionProfile \<Rightarrow> eapSelection list \<Rightarrow> AdmissionProfileStatus \<Rightarrow> 'w \<Rightarrow>
   AdmissionProfileStatus \<times> 'w" where
  "profile_item env manager profile [] item w = (item, w)"
| "profile_item env manager profile (selection # rest) item w =
     (if ap_ID (sel_Profile selection) \<noteq> ap_ID profile then profile_item env manager profile rest item w
      else
        let item = item\<lparr>aps_AdapterID := ead_ID (sel_Adapter selection), aps_ArtifactPath := sel_ArtifactPath selection,
                        aps_State := ''installation_required''\<rparr>;
            (now, w) = ade_now env w
        in if \<not> adm_validUntil manager > now then (item\<lparr>aps_State := ''authorization_expired''\<rparr>, w)
           else if eapProfileHash env (sel_Profile selection) \<noteq> eapProfileHash env profile
           then (item\<lparr>aps_State := ''drift''\<rparr>, w)
           else
             let (item, w) = (case targetCertificate manager of
                   None \<Rightarrow> (item, w)
                 | Some certificate \<Rightarrow>
                     if sel_Fingerprint selection \<noteq> ecr_Fingerprint certificate then (item, w)
                     else
                       let (err, w) = eas_Readback (ade_system env) (sel_RequestID selection) (sel_Profile selection)
                                        certificate (sel_Adapter selection) w
                       in (if err = None
                           then item\<lparr>aps_State := (if est_Pending (adm_state manager) \<noteq> None
                                                   then ''activation_pending'' else ''installed'')\<rparr>
                           else if sel_ArtifactPath selection = [] then item\<lparr>aps_State := ''drift''\<rparr> else item, w))
             in profile_item env manager profile rest item w)"

fun profile_items ::
  "'w admission_env \<Rightarrow> AdmissionManager \<Rightarrow> AdmissionProfile list \<Rightarrow> 'w \<Rightarrow> AdmissionProfileStatus list \<times> 'w" where
  "profile_items env manager [] w = ([], w)"
| "profile_items env manager (profile # rest) w =
     (let (item, w) = profile_item env manager profile (est_Selections (adm_state manager))
            \<lparr>aps_ID = ap_ID profile, aps_SiteID = ap_SiteID profile, aps_AccessMedium = ap_AccessMedium profile,
             aps_SSID = ap_SSID profile, aps_AdapterID = [], aps_State = ''available'', aps_ArtifactPath = []\<rparr> w;
          (items, w) = profile_items env manager rest w
      in (item # items, w))"

definition Admission_Status ::
  "'w admission_env \<Rightarrow> AdmissionManager \<Rightarrow> 'w \<Rightarrow> (AdmissionStatus \<times> error) \<times> 'w" where
  "Admission_Status env manager w =
     (let ((adapters, err), w) = eas_Adapters (ade_system env) w;
          (items, w) = profile_items env manager (adm_profiles manager) w
      in ((\<lparr>ads_Supported = True, ads_Profiles = items, ads_Adapters = adapters,
            ads_ValidUntil = adm_validUntil manager,
            ads_CertificateUntil = (case Option.bind (est_Active (adm_state manager)) eid_Certificate of
               None \<Rightarrow> zero_time | Some certificate \<Rightarrow> ecr_ExpiresAt certificate),
            ads_Diagnostic = adm_diagnostic manager\<rparr>, err), w))"

end
