(* ===== verification/Admission_Safety.thy ===== *)
theory Admission_Safety
  imports Admission
begin

text \<open>
  What holds of the admission manager: the locale \<open>admission_invariant\<close> of predicates that saving
  keeps, with the restriction epoch and the bound of the cleanup queue as its interpretations; a
  failed save withdraws every authorization; an identity is activated only when it is installed on
  every selected adapter.
\<close>

subsection \<open>What the operations keep\<close>

lemma with_state_simps [simp]:
  "adm_state (with_state f m) = f (adm_state m)" "adm_savedState (with_state f m) = adm_savedState m"
  "adm_validUntil (with_state f m) = adm_validUntil m" "adm_diagnostic (with_state f m) = adm_diagnostic m"
  "adm_profiles (with_state f m) = adm_profiles m" "adm_observedAt (with_state f m) = adm_observedAt m"
  by (simp_all add: with_state_def)

lemma diagnose_simps [simp]:
  "adm_state (diagnose r m) = adm_state m" "adm_savedState (diagnose r m) = adm_savedState m"
  "adm_validUntil (diagnose r m) = adm_validUntil m"
  by (simp_all add: diagnose_def)

lemma withdraw_simps [simp]:
  "adm_state (withdraw r m) = adm_state m" "adm_savedState (withdraw r m) = adm_savedState m"
  by (simp_all add: withdraw_def)

lemma queueCleanup_simps [simp]:
  "est_Epoch (adm_state (queueCleanup job m)) = est_Epoch (adm_state m)"
  "est_Selections (adm_state (queueCleanup job m)) = est_Selections (adm_state m)"
  "est_Active (adm_state (queueCleanup job m)) = est_Active (adm_state m)"
  "est_Pending (adm_state (queueCleanup job m)) = est_Pending (adm_state m)"
  "adm_savedState (queueCleanup job m) = adm_savedState m"
  by (simp_all add: queueCleanup_def)

lemma queue_identity_simps [simp]:
  "est_Epoch (adm_state (queue_identity i m)) = est_Epoch (adm_state m)"
  "est_Selections (adm_state (queue_identity i m)) = est_Selections (adm_state m)"
  "est_Active (adm_state (queue_identity i m)) = est_Active (adm_state m)"
  "est_Pending (adm_state (queue_identity i m)) = est_Pending (adm_state m)"
  "adm_savedState (queue_identity i m) = adm_savedState m"
  by (simp_all add: queue_identity_def split: option.split)

lemma set_pending_simps [simp]:
  "est_Epoch (adm_state (set_pending f m)) = est_Epoch (adm_state m)"
  "est_Selections (adm_state (set_pending f m)) = est_Selections (adm_state m)"
  "est_Active (adm_state (set_pending f m)) = est_Active (adm_state m)"
  "adm_savedState (set_pending f m) = adm_savedState m"
  by (simp_all add: set_pending_def)

lemma drop_stale_simps [simp]:
  "est_Epoch (adm_state (drop_stale m)) = est_Epoch (adm_state m)"
  "est_Selections (adm_state (drop_stale m)) = est_Selections (adm_state m)"
  "est_Active (adm_state (drop_stale m)) = est_Active (adm_state m)"
  "adm_savedState (drop_stale m) = adm_savedState m"
  by (simp_all add: drop_stale_def split: option.split)

lemma detachSelection_simps [simp]:
  "est_Epoch (adm_state (detachSelection i m)) = est_Epoch (adm_state m)"
  "adm_savedState (detachSelection i m) = adm_savedState m"
  by (simp_all add: detachSelection_def Let_def)

lemma settle_fold [simp]:
  "est_Epoch (adm_state (fold (\<lambda>s m. if P s then queueCleanup (f s) m else m) ss m)) = est_Epoch (adm_state m)"
  "est_Active (adm_state (fold (\<lambda>s m. if P s then queueCleanup (f s) m else m) ss m)) = est_Active (adm_state m)"
  "est_Pending (adm_state (fold (\<lambda>s m. if P s then queueCleanup (f s) m else m) ss m)) = est_Pending (adm_state m)"
  "adm_savedState (fold (\<lambda>s m. if P s then queueCleanup (f s) m else m) ss m) = adm_savedState m"
  by (induction ss arbitrary: m) simp_all

lemma settle_installed_kept:
  "settle_installed m = (m', changed) \<Longrightarrow>
   est_Epoch (adm_state m') = est_Epoch (adm_state m) \<and> adm_savedState m' = adm_savedState m \<and>
   est_Active (adm_state m') = est_Active (adm_state m) \<and> est_Pending (adm_state m') = est_Pending (adm_state m) \<and>
   est_Selections (adm_state m') = map settle_selection (est_Selections (adm_state m))"
  by (auto simp: settle_installed_def Let_def)

text \<open>
  An operation keeps a predicate; the operations are sequences of calls, each of which ends them
  when it fails.
\<close>

definition keeps :: "(AdmissionManager \<Rightarrow> bool) \<Rightarrow> (AdmissionManager \<times> 'w \<Rightarrow> error \<times> AdmissionManager \<times> 'w) \<Rightarrow> bool" where
  "keeps P op \<longleftrightarrow> (\<forall>m w. P m \<longrightarrow> (case op (m, w) of (err, m', w') \<Rightarrow> P m'))"

lemma keepsD: "keeps P op \<Longrightarrow> op (m, w) = (err, m', w') \<Longrightarrow> P m \<Longrightarrow> P m'"
  unfolding keeps_def by (elim allE [of _ m] allE [of _ w]) simp

lemma keepsI: "(\<And>m w err m' w'. P m \<Longrightarrow> op (m, w) = (err, m', w') \<Longrightarrow> P m') \<Longrightarrow> keeps P op"
  by (auto simp: keeps_def split: prod.split)

locale admission_invariant =
  fixes env :: "'w admission_env" and P :: "AdmissionManager \<Rightarrow> bool"
  assumes same: "P m \<Longrightarrow> est_Epoch (adm_state m') = est_Epoch (adm_state m) \<Longrightarrow>
      adm_savedState m' = adm_savedState m \<Longrightarrow> P m'"
    and saved: "P m \<Longrightarrow> est_Epoch (adm_state m) \<le> est_Epoch (adm_state m1) \<Longrightarrow>
      adm_savedState m1 = adm_savedState m \<Longrightarrow> save env (m1, w) = (err, m', w') \<Longrightarrow> P m'"
begin

lemma save_after: "P m \<Longrightarrow> save env (m1, w) = (err, m', w') \<Longrightarrow>
    est_Epoch (adm_state m1) = est_Epoch (adm_state m) \<Longrightarrow> adm_savedState m1 = adm_savedState m \<Longrightarrow> P m'"
  by (rule saved) simp_all

lemma P_issue: "keeps P (issue_pending env subject pending)"
proof (rule keepsI)
  fix m :: AdmissionManager and w :: 'w and err m' w'
  assume P: "P m" and o: "issue_pending env subject pending (m, w) = (err, m', w')"
  show "P m'"
    using o by (auto simp: issue_pending_def Let_def split: if_splits prod.splits sum.splits option.splits
        intro: same [OF P] elim!: save_after [OF P])
qed

lemma P_csr: "keeps P (csr_pending env subject pending)"
proof (rule keepsI)
  fix m :: AdmissionManager and w :: 'w and err m' w'
  assume P: "P m" and o: "csr_pending env subject pending (m, w) = (err, m', w')"
  show "P m'"
    using o P by (auto simp: csr_pending_def Let_def split: if_splits prod.splits sum.splits
        dest: save_after [OF P] keepsD [OF P_issue])
qed

lemma P_ensure: "keeps P (ensureIdentity env subject)"
proof (rule keepsI)
  fix m :: AdmissionManager and w :: 'w and err m' w'
  assume P: "P m" and o: "ensureIdentity env subject (m, w) = (err, m', w')"
  have P1: "P (drop_stale m)" by (rule same [OF P]) simp_all
  show "P m'"
    using o P1 by (auto simp: ensureIdentity_def Let_def split: if_splits prod.splits option.splits
        dest: save_after [OF P1] keepsD [OF P_csr])
qed

lemma P_stage_selection: "keeps P (stage_selection env force identity certificate index)"
proof (rule keepsI)
  fix m :: AdmissionManager and w :: 'w and err m' w'
  assume P: "P m" and o: "stage_selection env force identity certificate index (m, w) = (err, m', w')"
  show "P m'"
    using o P by (auto simp: stage_selection_def Let_def split: if_splits prod.splits sum.splits
        dest: save_after [OF P])
qed

lemma P_stage_from: "keeps P (stage_from env force identity certificate is)"
proof (induction "is")
  case Nil show ?case by (auto intro!: keepsI)
next
  case (Cons i "is")
  show ?case
    by (rule keepsI) (auto simp: Let_def split: if_splits prod.splits
        dest: keepsD [OF P_stage_selection] keepsD [OF Cons.IH])
qed

lemma P_stage: "keeps P (stage env force)"
  by (rule keepsI) (auto simp: stage_def Let_def split: if_splits prod.splits option.splits
      dest: keepsD [OF P_stage_from])

lemma P_cleanup_from: "keeps P (cleanup_from env retained is)"
proof (induction "is")
  case Nil show ?case by (auto intro!: keepsI)
next
  case (Cons i "is")
  show ?case
  proof (rule keepsI)
    fix m :: AdmissionManager and w :: 'w and err m' w'
    assume P: "P m" and o: "cleanup_from env retained (i # is) (m, w) = (err, m', w')"
    show "P m'"
      using o P by (auto simp: Let_def split: if_splits prod.splits
          intro: same [OF P] dest: save_after [OF P] keepsD [OF Cons.IH])
  qed
qed

lemma P_cleanup: "keeps P (cleanup env)"
  by (rule keepsI) (auto simp: cleanup_def dest: keepsD [OF P_cleanup_from])

lemma P_recovering: "keeps P op \<Longrightarrow> keeps P (\<lambda>s. recovering env (op s))"
proof (rule keepsI)
  fix m :: AdmissionManager and w :: 'w and err m' w'
  assume k: "keeps P op" and P: "P m" and o: "recovering env (op (m, w)) = (err, m', w')"
  obtain e1 m1 w1 where op: "op (m, w) = (e1, m1, w1)" by (metis prod_cases3)
  show "P m'"
    using o keepsD [OF k op P]
    by (auto simp: recovering_def recoverArtifacts_def Let_def op split: prod.splits if_splits elim: same)
qed

lemma P_prepare_input: "keeps P (prepare_input env input)"
proof (rule keepsI)
  fix m :: AdmissionManager and w :: 'w and err m' w'
  assume P: "P m" and o: "prepare_input env input (m, w) = (err, m', w')"
  have sel: "keeps P (prepare_selected env profile)" for profile
    by (rule keepsI) (auto simp: prepare_selected_def Let_def split: if_splits prod.splits
        dest: keepsD [OF P_ensure] keepsD [OF P_stage])
  show "P m'"
    using o P by (auto simp: prepare_input_def Let_def split: if_splits prod.splits sum.splits option.splits
        dest: save_after [OF P] keepsD [OF sel])
qed

lemma P_Prepare: "keeps P (Prepare env input)"
  using P_recovering [OF P_prepare_input] by (simp add: Prepare_def [abs_def])

lemma P_remove_changed: "keeps P (remove_changed env is)"
proof (induction "is")
  case Nil show ?case by (auto intro!: keepsI)
next
  case (Cons i "is")
  show ?case
  proof (rule keepsI)
    fix m :: AdmissionManager and w :: 'w and err m' w'
    assume P: "P m" and o: "remove_changed env (i # is) (m, w) = (err, m', w')"
    show "P m'"
      using o P by (auto simp: Let_def split: if_splits prod.splits
          intro: same [OF P] dest: save_after [OF P] keepsD [OF Cons.IH])
  qed
qed

lemma P_activate: "keeps P (activate_pending env pending certificate)"
proof (rule keepsI)
  fix m :: AdmissionManager and w :: 'w and err m' w'
  assume P: "P m" and o: "activate_pending env pending certificate (m, w) = (err, m', w')"
  show "P m'"
    using o P by (auto simp: activate_pending_def Let_def split: if_splits prod.splits sum.splits
        intro: same [OF P] dest: save_after [OF P] keepsD [OF P_cleanup])
qed

lemma P_check_installed: "keeps P (check_installed env certificate)"
proof (rule keepsI)
  fix m :: AdmissionManager and w :: 'w and err m' w'
  assume P: "P m" and o: "check_installed env certificate (m, w) = (err, m', w')"
  obtain m1 changed where s: "settle_installed m = (m1, changed)" by fastforce
  have kept: "est_Epoch (adm_state m1) = est_Epoch (adm_state m)" "adm_savedState m1 = adm_savedState m"
    using settle_installed_kept [OF s] by simp_all
  then have P1: "P m1" by (rule same [OF P])
  show "P m'"
    using o P1 by (auto simp: check_installed_def Let_def s split: if_splits prod.splits option.splits
        dest: save_after [OF P1] keepsD [OF P_activate] keepsD [OF P_cleanup])
qed

lemma P_check_target: "keeps P (check_target env)"
proof (rule keepsI)
  fix m :: AdmissionManager and w :: 'w and err m' w'
  assume P: "P m" and o: "check_target env (m, w) = (err, m', w')"
  show "P m'"
    using o P by (auto simp: check_target_def Let_def split: if_splits prod.splits option.splits
        intro: same [OF P] dest: keepsD [OF P_check_installed])
qed

lemma P_diagnose: "P m \<Longrightarrow> P (diagnose r m)"
  by (rule same) simp_all

lemma P_check_renewal: "keeps P (check_renewal env)"
proof (rule keepsI)
  fix m :: AdmissionManager and w :: 'w and err m' w'
  assume P: "P m" and o: "check_renewal env (m, w) = (err, m', w')"
  show "P m'"
    using o P by (auto simp: check_renewal_def Let_def split: if_splits prod.splits
        intro: P_diagnose dest: keepsD [OF P_check_target] keepsD [OF P_ensure] keepsD [OF P_stage])
qed

lemma P_Check: "keeps P (Check env)"
proof -
  have "keeps P (check_selections env)"
  proof (rule keepsI)
    fix m :: AdmissionManager and w :: 'w and err m' w'
    assume P: "P m" and o: "check_selections env (m, w) = (err, m', w')"
    from P have "P (diagnose [] m)" by (rule P_diagnose)
    with o show "P m'"
      by (auto simp: check_selections_def Let_def split: if_splits prod.splits
          intro: P_diagnose dest: keepsD [OF P_remove_changed] keepsD [OF P_cleanup] keepsD [OF P_check_renewal])
  qed
  from P_recovering [OF this] show ?thesis by (simp add: Check_def [abs_def])
qed

lemma P_Remove: "keeps P (Remove env profileID)"
proof -
  have "keeps P (remove_profile env profileID)"
  proof (rule keepsI)
    fix m :: AdmissionManager and w :: 'w and err m' w'
    assume P: "P m" and o: "remove_profile env profileID (m, w) = (err, m', w')"
    show "P m'"
      using o P by (auto simp: remove_profile_def Let_def split: if_splits prod.splits option.splits
          dest: save_after [OF P] keepsD [OF P_cleanup])
  qed
  from P_recovering [OF this] show ?thesis by (simp add: Remove_def [abs_def])
qed

lemma P_Observe: "keeps P (Observe env configuration validUntil observedAt)"
proof (rule keepsI)
  fix m :: AdmissionManager and w :: 'w and err m' w'
  assume P: "P m" and o: "Observe env configuration validUntil observedAt (m, w) = (err, m', w')"
  have withdrawn: "P (withdraw r m)" for r by (rule same [OF P]) simp_all
  show "P m'"
  proof (cases configuration)
    case None
    with o withdrawn show ?thesis by (auto simp: Observe_def Let_def split: prod.splits)
  next
    case (Some c)
    with o withdrawn show ?thesis
      by (auto simp: Observe_def Let_def not_less split: prod.splits if_splits elim!: saved [OF P, rotated 2])
  qed
qed

end

subsection \<open>The restriction epoch\<close>

text \<open>JSON reads back the state that it wrote, and refuses the empty text.\<close>

definition codec_inverts :: "'w admission_env \<Rightarrow> bool" where
  "codec_inverts env \<longleftrightarrow>
     (\<forall>s raw. ade_marshal env s = Inr raw \<longrightarrow> ade_unmarshal env raw = Inr s) \<and>
     (\<forall>s. ade_unmarshal env [] \<noteq> Inr s)"

lemma save_cases:
  assumes "save env (m, w) = (err, m', w')"
  obtains (committed) raw where "err = None" "ade_marshal env (adm_state m) = Inr raw"
      "length (est_Cleanup (adm_state m)) \<le> 16" "m' = m\<lparr>adm_savedState := raw\<rparr>"
    | (failed) "err \<noteq> None" "m' = save_failed env m"
  using assms by (auto simp: save_def Let_def split: sum.splits if_splits prod.splits)

definition on_saved :: "'w admission_env \<Rightarrow> (eapState \<Rightarrow> bool) \<Rightarrow> AdmissionManager \<Rightarrow> bool" where
  "on_saved env Q m = (case ade_unmarshal env (adm_savedState m) of Inl _ \<Rightarrow> True | Inr s \<Rightarrow> Q s)"

definition epoch_reached :: "'w admission_env \<Rightarrow> int \<Rightarrow> AdmissionManager \<Rightarrow> bool" where
  "epoch_reached env e m \<longleftrightarrow>
     (codec_inverts env \<longrightarrow> e \<le> est_Epoch (adm_state m) \<and> on_saved env (\<lambda>s. e \<le> est_Epoch s) m)"

definition epoch_stored :: "'w admission_env \<Rightarrow> AdmissionManager \<Rightarrow> bool" where
  "epoch_stored env m \<longleftrightarrow>
     (codec_inverts env \<longrightarrow> on_saved env (\<lambda>s. est_Epoch s = est_Epoch (adm_state m)) m)"

definition queue_stored :: "'w admission_env \<Rightarrow> AdmissionManager \<Rightarrow> bool" where
  "queue_stored env m \<longleftrightarrow> (codec_inverts env \<longrightarrow> on_saved env (\<lambda>s. length (est_Cleanup s) \<le> 16) m)"

lemma save_failed_simps [simp]:
  "adm_savedState (save_failed env m) = adm_savedState m" "adm_validUntil (save_failed env m) = zero_time"
  "adm_state (save_failed env m) =
     (case ade_unmarshal env (adm_savedState m) of Inl _ \<Rightarrow> adm_state m | Inr saved \<Rightarrow> saved)"
  by (simp_all add: save_failed_def split: sum.split)

interpretation reached: admission_invariant env "epoch_reached env e" for env e
proof
  show "epoch_reached env e m \<Longrightarrow> est_Epoch (adm_state m') = est_Epoch (adm_state m) \<Longrightarrow>
      adm_savedState m' = adm_savedState m \<Longrightarrow> epoch_reached env e m'" for m m'
    by (simp add: epoch_reached_def on_saved_def)
next
  fix m m1 m' :: AdmissionManager and w :: 'a and err w'
  assume "epoch_reached env e m" "est_Epoch (adm_state m) \<le> est_Epoch (adm_state m1)"
    "adm_savedState m1 = adm_savedState m" "save env (m1, w) = (err, m', w')"
  from this(4,1-3) show "epoch_reached env e m'"
    by (cases rule: save_cases)
       (auto simp: epoch_reached_def on_saved_def codec_inverts_def split: sum.splits)
qed

interpretation stored: admission_invariant env "epoch_stored env" for env
proof
  show "epoch_stored env m \<Longrightarrow> est_Epoch (adm_state m') = est_Epoch (adm_state m) \<Longrightarrow>
      adm_savedState m' = adm_savedState m \<Longrightarrow> epoch_stored env m'" for m m'
    by (simp add: epoch_stored_def on_saved_def)
next
  fix m m1 m' :: AdmissionManager and w :: 'a and err w'
  assume "epoch_stored env m" "adm_savedState m1 = adm_savedState m" "save env (m1, w) = (err, m', w')"
  from this(3,1,2) show "epoch_stored env m'"
    by (cases rule: save_cases)
       (auto simp: epoch_stored_def on_saved_def codec_inverts_def split: sum.splits)
qed

interpretation queue: admission_invariant env "queue_stored env" for env
proof
  show "queue_stored env m \<Longrightarrow> est_Epoch (adm_state m') = est_Epoch (adm_state m) \<Longrightarrow>
      adm_savedState m' = adm_savedState m \<Longrightarrow> queue_stored env m'" for m m'
    by (simp add: queue_stored_def on_saved_def)
next
  fix m m1 m' :: AdmissionManager and w :: 'a and err w'
  assume "queue_stored env m" "adm_savedState m1 = adm_savedState m" "save env (m1, w) = (err, m', w')"
  from this(3,1,2) show "queue_stored env m'"
    by (cases rule: save_cases)
       (auto simp: queue_stored_def on_saved_def codec_inverts_def split: sum.splits)
qed

text \<open>The histories of an admission manager.\<close>

inductive admission_step ::
  "'w admission_env \<Rightarrow> AdmissionManager \<times> 'w \<Rightarrow> AdmissionManager \<times> 'w \<Rightarrow> bool" for env where
  observes: "Observe env configuration validUntil observedAt (m, w) = (err, m', w') \<Longrightarrow>
    admission_step env (m, w) (m', w')"
| prepares: "Prepare env input (m, w) = (err, m', w') \<Longrightarrow> admission_step env (m, w) (m', w')"
| checks: "Check env (m, w) = (err, m', w') \<Longrightarrow> admission_step env (m, w) (m', w')"
| removes: "Remove env profileID (m, w) = (err, m', w') \<Longrightarrow> admission_step env (m, w) (m', w')"

inductive_cases admission_stepE: "admission_step env (m, w) (m', w')"

inductive admission_reach :: "'w admission_env \<Rightarrow> AdmissionManager \<times> 'w \<Rightarrow> bool" for env where
  opened: "NewAdmissionManager env w = (Inr m, w') \<Longrightarrow> admission_reach env (m, v)"
| stepped: "admission_reach env s \<Longrightarrow> admission_step env s s' \<Longrightarrow> admission_reach env s'"

context admission_invariant
begin

lemma P_step: "admission_step env (m, w) (m', w') \<Longrightarrow> P m \<Longrightarrow> P m'"
  by (erule admission_stepE)
     (blast dest: keepsD [OF P_Observe] keepsD [OF P_Prepare] keepsD [OF P_Check] keepsD [OF P_Remove])+

lemma P_reach:
  assumes "\<And>w m w'. NewAdmissionManager env w = (Inr m, w') \<Longrightarrow> P m" "admission_reach env (m, w)"
  shows "P m"
proof -
  have "admission_reach env s \<Longrightarrow> P (fst s)" for s
  proof (induction rule: admission_reach.induct)
    case (opened w m w' v)
    then show ?case using assms(1) by simp
  next
    case (stepped s s')
    then show ?case using P_step by (metis prod.collapse)
  qed
  from this [OF assms(2)] show ?thesis by simp
qed

end

lemma NewAdmissionManager_stored:
  "NewAdmissionManager env w = (Inr m, w') \<Longrightarrow> epoch_stored env m \<and> queue_stored env m"
  by (auto simp: NewAdmissionManager_def Let_def epoch_stored_def queue_stored_def on_saved_def codec_inverts_def
      empty_eapState_def
      split: if_splits prod.splits sum.splits option.splits)

subsection \<open>Installed before activated\<close>

lemma save_None: "save env (m, w) = (None, m', w') \<Longrightarrow> adm_state m' = adm_state m"
  by (erule save_cases) auto

lemma cleanup_from_kept:
  "cleanup_from env retained is (m, w) = (None, m', w') \<Longrightarrow>
   est_Active (adm_state m') = est_Active (adm_state m) \<and> est_Selections (adm_state m') = est_Selections (adm_state m)"
  by (induction "is" arbitrary: m w) (auto simp: Let_def split: if_splits prod.splits dest!: save_None)

lemma cleanup_kept:
  "cleanup env (m, w) = (None, m', w') \<Longrightarrow>
   est_Active (adm_state m') = est_Active (adm_state m) \<and> est_Selections (adm_state m') = est_Selections (adm_state m)"
  unfolding cleanup_def by (auto dest: cleanup_from_kept)

lemma issue_kept:
  "issue_pending env subject pending (m, w) = (None, m', w') \<Longrightarrow> est_Active (adm_state m') = est_Active (adm_state m)"
  by (auto simp: issue_pending_def Let_def split: if_splits prod.splits sum.splits option.splits dest!: save_None)

lemma csr_kept:
  "csr_pending env subject pending (m, w) = (None, m', w') \<Longrightarrow> est_Active (adm_state m') = est_Active (adm_state m)"
  by (auto simp: csr_pending_def Let_def split: if_splits prod.splits sum.splits dest!: save_None issue_kept)

lemma ensure_kept:
  "ensureIdentity env subject (m, w) = (None, m', w') \<Longrightarrow> est_Active (adm_state m') = est_Active (adm_state m)"
  by (auto simp: ensureIdentity_def Let_def split: if_splits prod.splits option.splits dest!: save_None csr_kept)

lemma stage_selection_kept:
  "stage_selection env force identity certificate i (m, w) = (None, m', w') \<Longrightarrow>
   est_Active (adm_state m') = est_Active (adm_state m)"
  by (auto simp: stage_selection_def Let_def split: if_splits prod.splits sum.splits dest!: save_None)

lemma stage_from_kept:
  "stage_from env force identity certificate is (m, w) = (None, m', w') \<Longrightarrow>
   est_Active (adm_state m') = est_Active (adm_state m)"
  by (induction "is" arbitrary: m w)
     (auto simp: Let_def split: if_splits prod.splits dest: stage_selection_kept)

lemma stage_kept: "stage env force (m, w) = (None, m', w') \<Longrightarrow> est_Active (adm_state m') = est_Active (adm_state m)"
  by (auto simp: stage_def Let_def split: if_splits prod.splits option.splits dest: stage_from_kept)

lemma detach_active:
  "est_Active (adm_state (detachSelection i m)) = est_Active (adm_state m) \<or> est_Active (adm_state (detachSelection i m)) = None"
  by (simp add: detachSelection_def Let_def)

lemma remove_changed_kept:
  "remove_changed env is (m, w) = (None, m', w') \<Longrightarrow>
   est_Active (adm_state m') = est_Active (adm_state m) \<or> est_Active (adm_state m') = None"
proof (induction "is" arbitrary: m w)
  case (Cons i "is")
  then show ?case using detach_active [of i m]
    by (auto simp: Let_def split: if_splits prod.splits dest!: save_None Cons.IH)
qed simp

text \<open>The selection reads back the certificate, at some time during the check.\<close>

definition read_back :: "'w admission_env \<Rightarrow> EAPCertificateResult \<Rightarrow> eapSelection \<Rightarrow> bool" where
  "read_back env certificate selection \<longleftrightarrow>
     sel_Fingerprint selection = ecr_Fingerprint certificate \<and>
     (\<exists>w. fst (eas_Readback (ade_system env) (sel_RequestID selection) (sel_Profile selection) certificate
                (sel_Adapter selection) w) = None)"

lemma all_installed_read_back:
  "all_installed env certificate selections w = (True, w') \<Longrightarrow> list_all (read_back env certificate) selections"
  by (induction selections arbitrary: w)
     (auto simp: Let_def read_back_def split: if_splits prod.splits, metis fst_conv)

lemma read_back_settled [simp]: "read_back env certificate (settle_selection s) = read_back env certificate s"
  by (simp add: read_back_def settle_selection_def)

definition activation_done :: "'w admission_env \<Rightarrow> AdmissionManager \<Rightarrow> bool" where
  "activation_done env m \<longleftrightarrow>
     (\<exists>active certificate. est_Active (adm_state m) = Some active \<and>
        eid_Certificate active = Some (certificate\<lparr>ecr_Status := ''active''\<rparr>) \<and>
        list_all (read_back env certificate) (est_Selections (adm_state m)) \<and>
        (\<exists>w result w'. eac_Activate (ade_control env)
             \<lparr>eaq_CredentialID = ecr_CredentialID certificate, eaq_Fingerprint = ecr_Fingerprint certificate\<rparr> w
           = (Inr result, w') \<and> receipt_matches certificate result))"

lemma activate_done:
  assumes "activate_pending env pending certificate (m, w) = (None, m', w')"
    and "list_all (read_back env certificate) (est_Selections (adm_state m))"
  shows "activation_done env m'"
proof -
  obtain result w1 where a: "eac_Activate (ade_control env)
      \<lparr>eaq_CredentialID = ecr_CredentialID certificate, eaq_Fingerprint = ecr_Fingerprint certificate\<rparr> w = (Inr result, w1)"
    and r: "receipt_matches certificate result"
    using assms(1) by (auto simp: activate_pending_def Let_def split: if_splits prod.splits sum.splits)
  obtain now w2 where n: "ade_now env w1 = (now, w2)" by fastforce
  let ?active = "pending\<lparr>eid_Certificate := Some (certificate\<lparr>ecr_Status := ''active''\<rparr>), eid_ActivatedAt := now\<rparr>"
  let ?m1 = "with_state (\<lambda>state. state\<lparr>est_Active := Some ?active, est_Pending := None\<rparr>)
      (queue_identity (est_Active (adm_state m)) m)"
  from assms(1) r obtain m2 w3 where s: "save env (?m1, w2) = (None, m2, w3)"
    and c: "cleanup env (m2, w3) = (None, m', w')"
    by (auto simp: activate_pending_def Let_def a n split: if_splits prod.splits)
  have "est_Active (adm_state m') = Some ?active" "est_Selections (adm_state m') = est_Selections (adm_state m)"
    using cleanup_kept [OF c] save_None [OF s] by simp_all
  with assms(2) a r show ?thesis unfolding activation_done_def by fastforce
qed

lemma check_installed_done:
  assumes "check_installed env certificate (m, w) = (None, m', w')"
    and "list_all (read_back env certificate) (est_Selections (adm_state m))"
  shows "est_Active (adm_state m') = est_Active (adm_state m) \<or> activation_done env m'"
proof -
  obtain m1 changed where s: "settle_installed m = (m1, changed)" by fastforce
  note k = settle_installed_kept [OF s]
  obtain serr m2 w2 where v: "(if changed then save env (m1, w) else (None, m1, w)) = (serr, m2, w2)"
    by (metis prod_cases3)
  from assms(1) v have serr: "serr = None" by (auto simp: check_installed_def Let_def s split: if_splits)
  then have m2: "adm_state m2 = adm_state m1" using v by (auto split: if_splits dest: save_None)
  show ?thesis
  proof (cases "est_Pending (adm_state m2)")
    case None
    with assms(1) v serr have "cleanup env (m2, w2) = (None, m', w')" by (simp add: check_installed_def Let_def s)
    with cleanup_kept m2 k show ?thesis by metis
  next
    case (Some pending)
    with assms(1) v serr have a: "activate_pending env pending certificate (m2, w2) = (None, m', w')"
      by (simp add: check_installed_def Let_def s)
    have "list_all (read_back env certificate) (est_Selections (adm_state m2))"
      using assms(2) m2 k by (simp add: list_all_iff)
    from activate_done [OF a this] show ?thesis by simp
  qed
qed

lemma check_target_done:
  "check_target env (m, w) = (None, m', w') \<Longrightarrow>
   est_Active (adm_state m') = est_Active (adm_state m) \<or> activation_done env m'"
  by (auto simp: check_target_def Let_def split: option.splits prod.splits if_splits
      dest!: all_installed_read_back check_installed_done)

lemma check_renewal_done:
  assumes "check_renewal env (m, w) = (None, m', w')"
  shows "est_Active (adm_state m') = est_Active (adm_state m) \<or> activation_done env m'"
  using assms
  by (auto simp: check_renewal_def Let_def split: prod.splits if_splits dest!: check_target_done ensure_kept stage_kept)

lemma check_selections_done:
  assumes "check_selections env (m, w) = (None, m', w')"
  shows "est_Active (adm_state m') = est_Active (adm_state m) \<or> est_Active (adm_state m') = None \<or> activation_done env m'"
proof -
  obtain rerr m1 w1 where r: "remove_changed env (rev [0..<length (est_Selections (adm_state m))]) (diagnose [] m, w)
      = (rerr, m1, w1)" by (metis prod_cases3)
  from assms have rerr: "rerr = None" by (auto simp: check_selections_def Let_def r split: if_splits)
  with remove_changed_kept r have m1: "est_Active (adm_state m1) = est_Active (adm_state m) \<or> est_Active (adm_state m1) = None"
    by fastforce
  from assms rerr have "m' = diagnose ''certificate_prepare_required'' m1 \<or> cleanup env (m1, w1) = (None, m', w') \<or>
      check_renewal env (m1, w1) = (None, m', w')"
    by (auto simp: check_selections_def Let_def r split: if_splits)
  then have "est_Active (adm_state m') = est_Active (adm_state m1) \<or> activation_done env m'"
    using cleanup_kept check_renewal_done by fastforce
  with m1 show ?thesis by auto
qed


subsection \<open>A failed save withdraws the authorization\<close>

lemma save_error_withdraws: "save env (m, w) = (Some e, m', w') \<Longrightarrow> adm_validUntil m' = zero_time"
  by (erule save_cases) auto

lemma currentProfile_withdrawn:
  assumes "adm_validUntil m = zero_time" "\<And>w. zero_time \<le> fst (ade_now env w)"
  shows "fst (currentProfile env profileID m w) = Inl (ErrorNew ''EAP authorization must be refreshed'')"
  using assms(1) assms(2) [of w] by (auto simp: currentProfile_def split: prod.splits)


subsection \<open>Epochs in every history\<close>

text \<open>C29: the restrictions of a device are never rolled back. In every history, whatever is observed,
  prepared, checked or removed next, and whether or not the state can be saved, the restriction
  epoch in force does not decrease, the stored epoch is the epoch in force, and the stored cleanup
  queue stays within sixteen jobs.\<close>

theorem restriction_epoch_kept:
  assumes "codec_inverts env" "admission_reach env (m, w)" "admission_step env (m, w) (m', w')"
  shows "est_Epoch (adm_state m) \<le> est_Epoch (adm_state m') \<and>
    (case ade_unmarshal env (adm_savedState m') of
       Inl _ \<Rightarrow> True
     | Inr s \<Rightarrow> est_Epoch s = est_Epoch (adm_state m') \<and> length (est_Cleanup s) \<le> 16)"
proof -
  have "epoch_stored env m"
    by (rule stored.P_reach [OF _ assms(2)]) (blast dest: NewAdmissionManager_stored)
  then have "epoch_reached env (est_Epoch (adm_state m)) m"
    by (simp add: epoch_reached_def epoch_stored_def on_saved_def split: sum.splits)
  then have "epoch_reached env (est_Epoch (adm_state m)) m'" by (rule reached.P_step [OF assms(3)])
  moreover have "admission_reach env (m', w')" by (rule stepped [OF assms(2,3)])
  then have "epoch_stored env m'" "queue_stored env m'"
    by (auto intro: stored.P_reach [of env m' w'] queue.P_reach [of env m' w'] dest: NewAdmissionManager_stored)
  ultimately show ?thesis
    using assms(1) by (auto simp: epoch_reached_def epoch_stored_def queue_stored_def on_saved_def split: sum.splits)
qed

subsection \<open>A device to evaluate\<close>

definition sample_certificate :: EAPCertificateResult where
  "sample_certificate =
     \<lparr>ecr_CredentialID = ''c1'', ecr_CertificatePEM = ''cert'', ecr_CACertificatePEM = ''ca'', ecr_Fingerprint = ''f1'',
      ecr_ExpiresAt = 100, ecr_Status = ''pending''\<rparr>"

definition sample_profile :: AdmissionProfile where
  "sample_profile =
     \<lparr>ap_ID = ''p1'', ap_SiteID = ''s1'', ap_AccessMedium = ''wired'', ap_SSID = [], ap_Identity = ''subject-1'',
      ap_ServerNames = [''radius.example''], ap_CACertificates = [''ca''], ap_WifiSecurity = ''wpa2-enterprise'',
      ap_ClientCertificateFingerprint = []\<rparr>"

definition sample_adapter :: EAPAdapter where
  "sample_adapter =
     \<lparr>ead_ID = ''en0'', ead_Name = ''Ethernet'', ead_Medium = ''wired'', ead_MACAddress = [], ead_EthernetPosition = 0,
      ead_Enabled = True, ead_LinkUp = True\<rparr>"

definition sample_admission_env ::
  "(eapState \<Rightarrow> string fallible) \<Rightarrow> (string \<Rightarrow> eapState fallible) \<Rightarrow> unit admission_env" where
  "sample_admission_env marshal unmarshal =
     \<lparr>ade_deviceID = ''device-1'',
      ade_control = \<lparr>eac_Issue = (\<lambda>r d s w. (Inr sample_certificate, w)),
        eac_Activate = (\<lambda>r w. (Inr \<lparr>ear_CredentialID = eaq_CredentialID r, ear_Fingerprint = eaq_Fingerprint r,
          ear_ExpiresAt = 100, ear_Status = ''active''\<rparr>, w))\<rparr>,
      ade_system = \<lparr>eas_Adapters = (\<lambda>w. (([sample_adapter], None), w)), eas_CreateCSR = (\<lambda>r w. (Inr ''csr'', w)),
        eas_Stage = (\<lambda>r p c a w. (Inr \<lparr>esp_EAPArtifact = \<lparr>eat_Path = [], eat_SHA256 = []\<rparr>, esp_IdentitySHA256 = []\<rparr>, w)),
        eas_Readback = (\<lambda>r p c a w. (None, w)), eas_Remove = (\<lambda>p a is w. (None, w)),
        eas_Connect = (\<lambda>r p c a w. (None, w)), eas_Cleanup = (\<lambda>j w. (None, w)),
        eas_RecoverArtifacts = (\<lambda>as w. (None, w))\<rparr>,
      ade_crypto = \<lparr>cry_pem_Decode = (\<lambda>s. (None, [])), cry_ParseCertificate = (\<lambda>s. Inl (ErrorNew [])),
        cry_ParseCertificateRequest = (\<lambda>s. Inl (ErrorNew [])), cry_Verify = (\<lambda>c ca now. None), cry_sha256 = id\<rparr>,
      ade_read = (\<lambda>w. (Inl ErrNotExist, w)), ade_commit = (\<lambda>raw w. (None, w)), ade_marshal = marshal,
      ade_unmarshal = unmarshal, ade_marshal_profile = ap_ID, ade_randomID = (\<lambda>w. (''id-1'', w)),
      ade_now = (\<lambda>w. (10, w))\<rparr>"

definition sample_pending :: eapIdentity where
  "sample_pending =
     \<lparr>eid_RequestID = ''r1'', eid_CSR = ''csr'', eid_Certificate = Some sample_certificate, eid_Stale = False,
      eid_ActivatedAt = zero_time\<rparr>"

definition sample_admission :: AdmissionManager where
  "sample_admission =
     \<lparr>adm_state = \<lparr>est_Version = 1, est_DeviceID = ''device-1'', est_Epoch = 1,
        est_Selections = [(new_selection sample_profile sample_adapter)\<lparr>sel_Fingerprint := ''f1'', sel_RequestID := ''r1''\<rparr>],
        est_Active = None, est_Pending = Some sample_pending, est_Cleanup = []\<rparr>,
      adm_profiles = [sample_profile], adm_validUntil = 100, adm_observedAt = 5, adm_diagnostic = [],
      adm_savedState = ''x''\<rparr>"



definition sample_marshal :: "eapState \<Rightarrow> string fallible" where
  "sample_marshal s =
     (if s = empty_eapState ''device-1'' then Inr ''0''
      else if s = (empty_eapState ''device-1'')\<lparr>est_Epoch := 3\<rparr> then Inr ''3'' else Inl (ErrorNew []))"

definition sample_unmarshal :: "string \<Rightarrow> eapState fallible" where
  "sample_unmarshal raw =
     (if raw = ''0'' then Inr (empty_eapState ''device-1'')
      else if raw = ''3'' then Inr ((empty_eapState ''device-1'')\<lparr>est_Epoch := 3\<rparr>) else Inl (ErrorNew []))"

theorem restriction_epoch_kept_witness:
  "case NewAdmissionManager (sample_admission_env sample_marshal sample_unmarshal) () of
     (r, w) \<Rightarrow> (case r of Inl _ \<Rightarrow> False | Inr m \<Rightarrow>
       (case Observe (sample_admission_env sample_marshal sample_unmarshal)
              (Some \<lparr>ac_Profiles = [], ac_RestrictionEpoch = 3\<rparr>) 100 5 (m, ()) of
          (err, m', w') \<Rightarrow> est_Epoch (adm_state m) \<le> est_Epoch (adm_state m') \<and> est_Epoch (adm_state m') = 3))"
proof -
  let ?env = "sample_admission_env sample_marshal sample_unmarshal"
  have law: "codec_inverts ?env"
    by (simp add: codec_inverts_def sample_admission_env_def sample_marshal_def sample_unmarshal_def)
  have run: "case NewAdmissionManager ?env () of (r, w) \<Rightarrow> (case r of Inl _ \<Rightarrow> False | Inr m \<Rightarrow>
      (case Observe ?env (Some \<lparr>ac_Profiles = [], ac_RestrictionEpoch = 3\<rparr>) 100 5 (m, ()) of
         (err, m', w') \<Rightarrow> est_Epoch (adm_state m') = 3))" by code_simp
  obtain r w where n: "NewAdmissionManager ?env () = (r, w)" by (metis surj_pair)
  with run obtain m where m: "r = Inr m" by (cases r) auto
  obtain err m' w' where o: "Observe ?env (Some \<lparr>ac_Profiles = [], ac_RestrictionEpoch = 3\<rparr>) 100 5 (m, ()) = (err, m', w')"
    by (metis prod_cases3)
  from restriction_epoch_kept [OF law opened [OF n [unfolded m]] observes [OF o]] run show ?thesis
    by (simp add: n m o)
qed

end
