(* ===== verification/Channels.thy ===== *)
theory Channels
  imports Runtime_Client
begin

text \<open>
  The native channel controls of \<open>channels.go\<close>: a published policy is accepted only above the floor
  that is kept in a protected file, the operating system is brought in line with the floor on every
  round, and the manager is healthy only while the policy is fresh and observed. The package
  \<open>endpointcontrol\<close> is outside the repository: its \<open>Controls\<close> are a type parameter, \<open>ValidDesired\<close>
  and \<open>ValidChannel\<close> parameters.
\<close>

record ec_Channel =
  ech_Name :: string
  ech_Scope :: string
  ech_State :: string
  ech_ReasonCode :: string

record 'c ec_Desired =
  ecd_DeviceID :: string
  ecd_RuntimeID :: string
  ecd_CredentialID :: string
  ecd_PolicyVersion :: int
  ecd_Configured :: bool
  ecd_Controls :: 'c
  ecd_Challenge :: string
  ecd_ValidUntil :: time

record ec_Receipt =
  ecp_DeviceID :: string
  ecp_RuntimeID :: string
  ecp_CredentialID :: string
  ecp_PolicyVersion :: int
  ecp_Challenge :: string
  ecp_ObservedAt :: time
  ecp_Channels :: "ec_Channel list"

record 'c channelFloor =
  chf_Identity :: string
  chf_Revision :: int
  chf_Controls :: 'c

record ChannelStatus =
  chs_PolicyVersion :: int
  chs_PolicyFresh :: bool
  chs_ControlReachable :: bool
  chs_LastObservedAt :: time
  chs_Channels :: "ec_Channel list"
  chs_Diagnostic :: string

definition channelStateDescription :: string where
  "channelStateDescription = ''OpenSoha endpoint native channel state''"

text \<open>
  \<open>ChannelSystem\<close> with its two optional methods, \<open>ChannelControl\<close>, the protected file, JSON of a
  floor, and the zero value of the controls.
\<close>

record ('c, 'w) channel_env =
  che_Reconcile :: "'c \<Rightarrow> 'w \<Rightarrow> ec_Channel list \<times> 'w"
  che_Close :: "'w \<Rightarrow> error \<times> 'w"
  che_PersistentRestrictions :: "('w \<Rightarrow> bool \<times> 'w) option"
  che_RecordPolicyAcceptance :: "('w \<Rightarrow> error \<times> 'w) option"
  che_ChannelDesired :: "'w \<Rightarrow> 'c ec_Desired fallible \<times> 'w"
  che_ChannelReport :: "ec_Receipt \<Rightarrow> 'w \<Rightarrow> error \<times> 'w"
  che_IsAbs :: "string \<Rightarrow> bool"
  che_read :: "string \<Rightarrow> int \<Rightarrow> 'w \<Rightarrow> string fallible \<times> 'w"
  che_unprotect :: "string \<Rightarrow> string \<Rightarrow> 'w \<Rightarrow> string fallible \<times> 'w"
  che_save :: "string \<Rightarrow> string \<Rightarrow> string \<Rightarrow> 'w \<Rightarrow> error \<times> 'w"
  che_encode :: "'c channelFloor \<Rightarrow> string"
  che_decode :: "string \<Rightarrow> 'c channelFloor fallible"
  che_ValidDesired :: "'c ec_Desired \<Rightarrow> time \<Rightarrow> bool"
  che_no_controls :: 'c
  che_now :: "'w \<Rightarrow> time \<times> 'w"

record 'c ChannelManager =
  chm_deviceID :: string
  chm_runtimeID :: string
  chm_path :: string
  chm_identity :: string
  chm_floor :: "'c channelFloor"
  chm_status :: ChannelStatus
  chm_validUntil :: time

definition channelIdentity :: "(string \<Rightarrow> string) \<Rightarrow> string \<Rightarrow> string \<Rightarrow> string \<Rightarrow> string \<Rightarrow> string" where
  "channelIdentity sha256 controlURL deviceID runtimeID allowedUserSID =
     ''sha256:'' @ sha256 (controlURL @ [CHR 0x00] @ deviceID @ [CHR 0x00] @ runtimeID @ [CHR 0x00] @ allowedUserSID)"

text \<open>\<open>identity\<close> is the \<open>channelIdentity\<close> of the configuration and \<open>path\<close> the file of the floor in its
  state directory; the control plane and the system are never nil here.\<close>

definition NewChannelManager ::
  "('c, 'w) channel_env \<Rightarrow> string \<Rightarrow> string \<Rightarrow> string \<Rightarrow> string \<Rightarrow> string \<Rightarrow> 'w \<Rightarrow> 'c ChannelManager fallible \<times> 'w" where
  "NewChannelManager env deviceID runtimeID stateDirectory path identity w =
     (if \<not> che_IsAbs env stateDirectory then (Inl (ErrorNew ''native channel dependencies required''), w) else
      let m = \<lparr>chm_deviceID = deviceID, chm_runtimeID = runtimeID, chm_path = path, chm_identity = identity,
               chm_floor = \<lparr>chf_Identity = identity, chf_Revision = 0, chf_Controls = che_no_controls env\<rparr>,
               chm_status = \<lparr>chs_PolicyVersion = 0, chs_PolicyFresh = False, chs_ControlReachable = False,
                 chs_LastObservedAt = zero_time, chs_Channels = [], chs_Diagnostic = ''waiting_for_control''\<rparr>,
               chm_validUntil = zero_time\<rparr>;
          (raw, w) = che_read env path 32768 w
      in case raw of
           Inl err \<Rightarrow>
             if errors_is err ErrNotExist then
               (let (restricted, w) =
                  (case che_PersistentRestrictions env of None \<Rightarrow> (False, w) | Some pending \<Rightarrow> pending w)
                in if restricted
                   then (Inl (ErrorNew ''native channel floor missing after policy acceptance; restore the protected state''), w)
                   else (Inr m, w))
             else (Inl err, w)
         | Inr raw \<Rightarrow>
             let (plain, w) = che_unprotect env raw channelStateDescription w
             in case plain of
                  Inl err \<Rightarrow> (Inl err, w)
                | Inr plain \<Rightarrow>
                    (case che_decode env plain of
                       Inl _ \<Rightarrow>
                         (Inl (ErrorNew ''native channel floor is invalid or belongs to another identity''), w)
                     | Inr stored \<Rightarrow>
                         if chf_Identity stored \<noteq> identity \<or> chf_Revision stored < 1
                         then (Inl (ErrorNew ''native channel floor is invalid or belongs to another identity''), w)
                         else (Inr (m\<lparr>chm_floor := stored\<rparr>), w)))"

definition accept ::
  "('c, 'w) channel_env \<Rightarrow> 'c ec_Desired \<Rightarrow> time \<Rightarrow> 'c ChannelManager \<times> 'w \<Rightarrow> error \<times> 'c ChannelManager \<times> 'w" where
  "accept env d now = (\<lambda>(m, w).
     if \<not> che_ValidDesired env d now \<or> ecd_DeviceID d \<noteq> chm_deviceID m \<or> ecd_RuntimeID d \<noteq> chm_runtimeID m \<or>
        ecd_PolicyVersion d < chf_Revision (chm_floor m) \<or>
        ecd_PolicyVersion d = chf_Revision (chm_floor m) \<and> ecd_Controls d \<noteq> chf_Controls (chm_floor m)
     then (Some (ErrorNew ''channel policy expired, regressed or changed without publication''), m, w)
     else if \<not> ecd_Configured d then (None, m\<lparr>chm_validUntil := ecd_ValidUntil d\<rparr>, w)
     else
       let raised = \<lparr>chf_Identity = chm_identity m, chf_Revision = ecd_PolicyVersion d, chf_Controls = ecd_Controls d\<rparr>;
           (err, w) = (case che_RecordPolicyAcceptance env of None \<Rightarrow> (None, w) | Some recorder \<Rightarrow> recorder w)
       in if err \<noteq> None then (err, m, w)
          else
            let (err, w) = che_save env (chm_path m) (che_encode env raised) channelStateDescription w
            in if err \<noteq> None then (err, m, w)
               else (None, m\<lparr>chm_floor := raised, chm_validUntil := ecd_ValidUntil d\<rparr>, w))"

definition set_status :: "(ChannelStatus \<Rightarrow> ChannelStatus) \<Rightarrow> 'c ChannelManager \<Rightarrow> 'c ChannelManager" where
  "set_status change m = m\<lparr>chm_status := change (chm_status m)\<rparr>"

definition unconfiguredChannels :: "ec_Channel list" where
  "unconfiguredChannels =
     [\<lparr>ech_Name = ''usb'', ech_Scope = ''current_usb_volumes'', ech_State = ''unconfigured'', ech_ReasonCode = ''not_published''\<rparr>,
      \<lparr>ech_Name = ''print'', ech_Scope = ''local_new_print_jobs'', ech_State = ''unconfigured'', ech_ReasonCode = ''not_published''\<rparr>,
      \<lparr>ech_Name = ''clipboard'', ech_Scope = ''enrolled_console_win32'', ech_State = ''unconfigured'', ech_ReasonCode = ''not_published''\<rparr>]"

text \<open>The three parts of a round of \<open>Run\<close>: polling, reconciling, reporting.\<close>

definition poll_desired ::
  "('c, 'w) channel_env \<Rightarrow> 'c ChannelManager \<times> 'w \<Rightarrow> 'c ec_Desired option \<times> 'c ChannelManager \<times> 'w" where
  "poll_desired env = (\<lambda>(m, w).
     let (d, w) = che_ChannelDesired env w;
         m = set_status (\<lambda>s. s\<lparr>chs_ControlReachable := (case d of Inl _ \<Rightarrow> False | Inr _ \<Rightarrow> True)\<rparr>) m;
         (desired, m, w) =
           (case d of
              Inl _ \<Rightarrow> (None, m, w)
            | Inr d \<Rightarrow>
                let (now, w) = che_now env w;
                    (err, m, w) = accept env d now (m, w)
                in (if err = None then Some d else None, m, w))
     in (desired,
         set_status (\<lambda>s. s\<lparr>chs_Diagnostic :=
           (if desired = None then ''control_or_policy_unavailable'' else ''native_scope_only'')\<rparr>) m, w))"

definition reconcile ::
  "('c, 'w) channel_env \<Rightarrow> 'c ChannelManager \<times> 'w \<Rightarrow> ec_Channel list \<times> 'c ChannelManager \<times> 'w" where
  "reconcile env = (\<lambda>(m, w).
     let revision = chf_Revision (chm_floor m);
         (channels, w) = (if revision > 0 then che_Reconcile env (chf_Controls (chm_floor m)) w
                          else (unconfiguredChannels, w));
         (freshAt, w) = che_now env w;
         (observedAt, w) = che_now env w
     in (channels,
         set_status (\<lambda>s. s\<lparr>chs_PolicyVersion := revision, chs_PolicyFresh := freshAt < chm_validUntil m,
           chs_LastObservedAt := observedAt, chs_Channels := channels\<rparr>) m, w))"

definition report_receipt ::
  "('c, 'w) channel_env \<Rightarrow> 'c ec_Desired \<Rightarrow> ec_Channel list \<Rightarrow> 'c ChannelManager \<times> 'w \<Rightarrow> 'c ChannelManager \<times> 'w" where
  "report_receipt env desired channels = (\<lambda>(m, w).
     let (observedAt, w) = che_now env w;
         (err, w) = che_ChannelReport env
           \<lparr>ecp_DeviceID = chm_deviceID m, ecp_RuntimeID = chm_runtimeID m,
            ecp_CredentialID = ecd_CredentialID desired, ecp_PolicyVersion = chf_Revision (chm_floor m),
            ecp_Challenge = ecd_Challenge desired, ecp_ObservedAt = observedAt, ecp_Channels = channels\<rparr> w
     in if err = None then (m, w)
        else (set_status (\<lambda>s. s\<lparr>chs_ControlReachable := False, chs_Diagnostic := ''receipt_unconfirmed''\<rparr>) m, w))"

text \<open>One round of \<open>Run\<close> with the time of the next poll; the rounds follow every two seconds.\<close>

definition Run_round ::
  "('c, 'w) channel_env \<Rightarrow> time \<times> 'c ChannelManager \<times> 'w \<Rightarrow> time \<times> 'c ChannelManager \<times> 'w" where
  "Run_round env = (\<lambda>(next_poll, m, w).
     let (now, w) = che_now env w;
         polls = \<not> now < next_poll;
         (desired, m, w) = (if polls then poll_desired env (m, w) else (None, m, w));
         next_poll = (if polls then now + 20 * second else next_poll);
         (channels, m, w) = reconcile env (m, w);
         (m, w) = (case desired of None \<Rightarrow> (m, w) | Some d \<Rightarrow> report_receipt env d channels (m, w))
     in (next_poll, m, w))"

text \<open>\<open>Run\<close> until its context ends after a number of rounds; \<open>Close\<close> is deferred.\<close>

fun Run :: "('c, 'w) channel_env \<Rightarrow> nat \<Rightarrow> time \<times> 'c ChannelManager \<times> 'w \<Rightarrow> error \<times> 'c ChannelManager \<times> 'w" where
  "Run env 0 (next_poll, m, w) = (let (err, w) = che_Close env w in (errors_join [None, err], m, w))"
| "Run env (Suc n) s = Run env n (Run_round env s)"

definition Healthy :: "time \<Rightarrow> 'c ChannelManager \<Rightarrow> bool" where
  "Healthy now m =
     (if chf_Revision (chm_floor m) = 0 then True
      else if \<not> chs_PolicyFresh (chm_status m) \<or> \<not> chs_ControlReachable (chm_status m) \<or>
              time_Sub now (chs_LastObservedAt (chm_status m)) > 10 * second then False
      else if \<not> list_all (\<lambda>c. \<not> (ech_State c \<noteq> ''controlled'' \<and> ech_State c \<noteq> ''not_present'' \<and> ech_State c \<noteq> ''off''))
                 (chs_Channels (chm_status m)) then False
      else length (chs_Channels (chm_status m)) = 3)"

text \<open>The two calls of the control client.\<close>

definition Client_ChannelDesired ::
  "'w control_env \<Rightarrow> ControlClient \<Rightarrow> (string \<Rightarrow> 'c ec_Desired fallible) \<Rightarrow> ('c ec_Desired \<Rightarrow> time \<Rightarrow> bool) \<Rightarrow> 'w \<Rightarrow>
   'c ec_Desired fallible \<times> 'w" where
  "Client_ChannelDesired env client decode valid w =
     (case http_NewRequest ''GET'' (runtimeURL client ''channel-controls'') [] [] of
        Inl err \<Rightarrow> (Inl err, w)
      | Inr request \<Rightarrow>
          let (response, w) = cte_Do env request w
          in case response of
               Inl err \<Rightarrow> (Inl err, w)
             | Inr response \<Rightarrow>
                 (case readRuntimeResponse (cte_codec env) response 200 of
                    Inl err \<Rightarrow> (Inl (RuntimeHTTPError_Error err), w)
                  | Inr raw \<Rightarrow>
                      (case decode raw of
                         Inl _ \<Rightarrow> (Inl (ErrorNew ''invalid native channel desired state''), w)
                       | Inr desired \<Rightarrow>
                           let (now, w) = cte_now env w
                           in if \<not> valid desired now \<or> ecd_RuntimeID desired \<noteq> cc_runtimeID client
                              then (Inl (ErrorNew ''invalid native channel desired state''), w)
                              else (Inr desired, w))))"

definition Client_ChannelReport ::
  "'w control_env \<Rightarrow> ControlClient \<Rightarrow> (ec_Receipt \<Rightarrow> string fallible) \<Rightarrow> ec_Receipt \<Rightarrow> 'w \<Rightarrow> error \<times> 'w" where
  "Client_ChannelReport env client encode receipt w =
     (case encode receipt of
        Inl err \<Rightarrow> (Some err, w)
      | Inr raw \<Rightarrow>
          let (response, w) = post env (runtimeURL client ''channel-controls/receipt'') raw [] 204 w
          in (case response of Inl err \<Rightarrow> Some (RuntimeHTTPError_Error err) | Inr _ \<Rightarrow> None, w))"

end
