(* ===== verification/Version_Floor.thy ===== *)
theory Version_Floor
  imports Go_Prelude
begin

text \<open>
  The contract of everything that keeps a floor of published versions: an attempt to accept a
  version never lowers the floor, and a version below the floor is refused and leaves the
  published content as it is. The configuration floor, the channel policy and the restriction
  epoch are its instances.
\<close>

fun accept_all :: "('d \<Rightarrow> 's \<times> 'w \<Rightarrow> error \<times> 's \<times> 'w) \<Rightarrow> 'd list \<Rightarrow> 's \<times> 'w \<Rightarrow> 's \<times> 'w" where
  "accept_all accept [] s = s"
| "accept_all accept (d # ds) s = (let (_, m, w) = accept d s in accept_all accept ds (m, w))"

locale version_floor =
  fixes inv :: "'s \<Rightarrow> bool" and level :: "'s \<Rightarrow> int" and content :: "'s \<Rightarrow> 'c"
    and version :: "'d \<Rightarrow> int" and accept :: "'d \<Rightarrow> 's \<times> 'w \<Rightarrow> error \<times> 's \<times> 'w"
  assumes kept: "inv s \<Longrightarrow> accept d (s, w) = (err, s', w') \<Longrightarrow> inv s' \<and> level s \<le> level s'"
    and stale: "inv s \<Longrightarrow> version d < level s \<Longrightarrow> accept d (s, w) = (err, s', w') \<Longrightarrow>
      err \<noteq> None \<and> content s' = content s"
begin

lemma kept_all:
  "inv s \<Longrightarrow> accept_all accept ds (s, w) = (s', w') \<Longrightarrow> inv s' \<and> level s \<le> level s'"
proof (induction ds arbitrary: s w)
  case (Cons d ds)
  obtain err s1 w1 where a: "accept d (s, w) = (err, s1, w1)" by (metis prod_cases3)
  from kept [OF Cons.prems(1) a] have "inv s1" "level s \<le> level s1" by simp_all
  with Cons.IH [of s1 w1] Cons.prems(2) a show ?case by simp
qed simp

text \<open>Whatever was tried in between, what is below a floor once reached stays refused.\<close>

lemma replay_refused:
  assumes "inv s" "accept_all accept ds (s, w) = (s1, w1)" "version d < level s"
    and "accept d (s1, v) = (err, s2, w2)"
  shows "err \<noteq> None \<and> content s2 = content s1"
  using kept_all [OF assms(1,2)] stale [of s1 d v err s2 w2] assms(3,4) by simp

end

end
