(* ===== verification/Channels_Safety.thy ===== *)
theory Channels_Safety
  imports Channels Version_Floor
begin

text \<open>
  What holds of the channel controls: a published policy is never rolled back, and the manager
  reports health only for controls that were observed in force.
\<close>

lemma accept_cases:
  assumes "accept env d now (m, w) = (err, m', w')"
  obtains (refused) "err \<noteq> None" "m' = m"
    | (unconfigured) "err = None" "m' = m\<lparr>chm_validUntil := ecd_ValidUntil d\<rparr>" "\<not> ecd_Configured d"
      "chf_Revision (chm_floor m) \<le> ecd_PolicyVersion d"
    | (published) "err = None" "ecd_Configured d" "chf_Revision (chm_floor m) \<le> ecd_PolicyVersion d"
      "m' = m\<lparr>chm_floor := \<lparr>chf_Identity = chm_identity m, chf_Revision = ecd_PolicyVersion d,
                 chf_Controls = ecd_Controls d\<rparr>, chm_validUntil := ecd_ValidUntil d\<rparr>"
proof -
  let ?refuse = "\<not> che_ValidDesired env d now \<or> ecd_DeviceID d \<noteq> chm_deviceID m \<or> ecd_RuntimeID d \<noteq> chm_runtimeID m \<or>
    ecd_PolicyVersion d < chf_Revision (chm_floor m) \<or>
    ecd_PolicyVersion d = chf_Revision (chm_floor m) \<and> ecd_Controls d \<noteq> chf_Controls (chm_floor m)"
  obtain e1 w1 where r: "(case che_RecordPolicyAcceptance env of None \<Rightarrow> (None, w) | Some recorder \<Rightarrow> recorder w) = (e1, w1)"
    by fastforce
  let ?raised = "\<lparr>chf_Identity = chm_identity m, chf_Revision = ecd_PolicyVersion d, chf_Controls = ecd_Controls d\<rparr>"
  obtain e2 w2 where s: "che_save env (chm_path m) (che_encode env ?raised) channelStateDescription w1 = (e2, w2)"
    by fastforce
  show thesis
  proof (cases ?refuse)
    case True
    then have "accept env d now (m, w) = (Some (ErrorNew ''channel policy expired, regressed or changed without publication''), m, w)"
      unfolding accept_def by (simp only: prod.case if_True)
    with assms show ?thesis by (intro refused) auto
  next
    case False
    then have a: "accept env d now (m, w) =
       (if \<not> ecd_Configured d then (None, m\<lparr>chm_validUntil := ecd_ValidUntil d\<rparr>, w)
        else if e1 \<noteq> None then (e1, m, w1) else if e2 \<noteq> None then (e2, m, w2)
        else (None, m\<lparr>chm_floor := ?raised, chm_validUntil := ecd_ValidUntil d\<rparr>, w2))"
      unfolding accept_def by (simp only: prod.case if_False Let_def r s)
    from False have "chf_Revision (chm_floor m) \<le> ecd_PolicyVersion d" by simp
    note eq = trans [OF a [symmetric] assms]
    show ?thesis
    proof (cases "ecd_Configured d")
      case False
      with eq have "err = None" "m' = m\<lparr>chm_validUntil := ecd_ValidUntil d\<rparr>" by simp_all
      from unconfigured [OF this False \<open>chf_Revision (chm_floor m) \<le> ecd_PolicyVersion d\<close>] show ?thesis .
    next
      case True
      show ?thesis
      proof (cases "e1 = None \<and> e2 = None")
        case saved: True
        with True eq have "err = None" "m' = m\<lparr>chm_floor := ?raised, chm_validUntil := ecd_ValidUntil d\<rparr>" by simp_all
        from published [OF this(1) True \<open>chf_Revision (chm_floor m) \<le> ecd_PolicyVersion d\<close> this(2)] show ?thesis .
      next
        case False
        with True eq have "err \<noteq> None" "m' = m" by (auto split: if_splits)
        from refused [OF this] show ?thesis .
      qed
    qed
  qed
qed

interpretation channel: version_floor "\<lambda>_. True" "\<lambda>m. chf_Revision (chm_floor m)" chm_floor
    ecd_PolicyVersion "\<lambda>d. accept env d now" for env now
proof
  fix m m' :: "'a ChannelManager" and d and w :: 'b and err w'
  assume a: "accept env d now (m, w) = (err, m', w')"
  from a show "True \<and> chf_Revision (chm_floor m) \<le> chf_Revision (chm_floor m')"
    by (cases rule: accept_cases) auto
  assume "ecd_PolicyVersion d < chf_Revision (chm_floor m)"
  with a show "err \<noteq> None \<and> chm_floor m' = chm_floor m"
    by (cases rule: accept_cases) auto
qed

text \<open>C30: a channel policy that was published is never rolled back. After a policy has been accepted,
  whatever the control plane delivers then and however often, an older policy is refused and the
  controls that are enforced stay those of the floor.\<close>

theorem channel_policy_never_rolled_back:
  assumes "accept_all (\<lambda>d. accept env d now) ds (m, w) = (m1, w1)"
    and "ecd_PolicyVersion d < chf_Revision (chm_floor m)" "accept env d later (m1, v) = (err, m2, w2)"
  shows "chf_Revision (chm_floor m) \<le> chf_Revision (chm_floor m1) \<and> err \<noteq> None \<and> chm_floor m2 = chm_floor m1"
proof -
  have "chf_Revision (chm_floor m) \<le> chf_Revision (chm_floor m1)" using channel.kept_all [OF _ assms(1)] by simp
  moreover from this assms(2) have "ecd_PolicyVersion d < chf_Revision (chm_floor m1)" by simp
  from channel.stale [OF TrueI this assms(3)] have "err \<noteq> None \<and> chm_floor m2 = chm_floor m1" .
  ultimately show ?thesis by simp
qed

definition ch_env :: "(bool, nat) channel_env" where
  "ch_env = \<lparr>che_Reconcile = (\<lambda>c w. ([\<lparr>ech_Name = ''usb'', ech_Scope = ''current_usb_volumes'', ech_State = (if c then ''controlled'' else ''off''), ech_ReasonCode = ''''\<rparr>,
        \<lparr>ech_Name = ''print'', ech_Scope = ''local_new_print_jobs'', ech_State = ''off'', ech_ReasonCode = ''''\<rparr>,
        \<lparr>ech_Name = ''clipboard'', ech_Scope = ''enrolled_console_win32'', ech_State = ''not_present'', ech_ReasonCode = ''''\<rparr>], Suc w)),
     che_Close = (\<lambda>w. (None, w)), che_PersistentRestrictions = None, che_RecordPolicyAcceptance = Some (\<lambda>w. (None, Suc w)),
     che_ChannelDesired = (\<lambda>w. (Inr \<lparr>ecd_DeviceID = ''d'', ecd_RuntimeID = ''r'', ecd_CredentialID = ''k'', ecd_PolicyVersion = 3,
        ecd_Configured = True, ecd_Controls = True, ecd_Challenge = ''n'', ecd_ValidUntil = 1000 * second\<rparr>, w)),
     che_ChannelReport = (\<lambda>_ w. (None, w)), che_IsAbs = (\<lambda>p. has_prefix p ''/''), che_read = (\<lambda>_ _ w. (Inl ErrNotExist, w)), che_unprotect = (\<lambda>x _ w. (Inr x, w)),
     che_save = (\<lambda>_ _ _ w. (None, Suc w)), che_encode = (\<lambda>_. ''floor''), che_decode = (\<lambda>_. Inl (ErrorNew ''invalid'')),
     che_ValidDesired = (\<lambda>d now. now < ecd_ValidUntil d), che_no_controls = False, che_now = (\<lambda>w. (100 * second, w))\<rparr>"

definition ch_desired :: "int \<Rightarrow> bool \<Rightarrow> bool ec_Desired" where
  "ch_desired version controls = \<lparr>ecd_DeviceID = ''d'', ecd_RuntimeID = ''r'', ecd_CredentialID = ''k'', ecd_PolicyVersion = version,
     ecd_Configured = True, ecd_Controls = controls, ecd_Challenge = ''n'', ecd_ValidUntil = 1000 * second\<rparr>"

definition ch_manager :: "int \<Rightarrow> bool ChannelManager" where
  "ch_manager revision = \<lparr>chm_deviceID = ''d'', chm_runtimeID = ''r'', chm_path = ''floor'', chm_identity = ''me'',
     chm_floor = \<lparr>chf_Identity = ''me'', chf_Revision = revision, chf_Controls = True\<rparr>,
     chm_status = \<lparr>chs_PolicyVersion = 0, chs_PolicyFresh = False, chs_ControlReachable = False,
       chs_LastObservedAt = 0, chs_Channels = [], chs_Diagnostic = ''''\<rparr>, chm_validUntil = 0\<rparr>"

lemmas ch_defs = ch_env_def ch_desired_def ch_manager_def

lemma channel_policy_never_rolled_back_witness:
  "chf_Revision (chm_floor (ch_manager 2)) \<le> 4 \<and>
   (case accept ch_env (ch_desired 1 False) (100 * second)
      (fst (accept_all (\<lambda>d. accept ch_env d (100 * second)) [ch_desired 3 False, ch_desired 2 False, ch_desired 4 True] (ch_manager 2, 0)), 7) of
      (err, m2, w2) \<Rightarrow> err \<noteq> None \<and> chf_Revision (chm_floor m2) = 4)"
proof -
  let ?s = "accept_all (\<lambda>d. accept ch_env d (100 * second)) [ch_desired 3 False, ch_desired 2 False, ch_desired 4 True] (ch_manager 2, 0)"
  let ?r = "accept ch_env (ch_desired 1 False) (100 * second) (fst ?s, 7)"
  have level: "chf_Revision (chm_floor (fst ?s)) = 4" by code_simp
  have old: "ecd_PolicyVersion (ch_desired 1 False) < chf_Revision (chm_floor (ch_manager 2))" by (simp add: ch_defs)
  have "?s = (fst ?s, snd ?s)" "?r = (fst ?r, fst (snd ?r), snd (snd ?r))" by simp_all
  from channel_policy_never_rolled_back [OF this(1) old this(2)] level
  have "chf_Revision (chm_floor (ch_manager 2)) \<le> 4" "fst ?r \<noteq> None" "chm_floor (fst (snd ?r)) = chm_floor (fst ?s)" by simp_all
  with level show ?thesis by (simp add: split_beta)
qed

text \<open>health is only claimed for controls that were seen in force. If the manager is healthy after a
  round and a policy has been published, then the operating system was just reconciled with exactly
  the controls of the floor, all three channels are controlled, off or not present, the policy was
  fresh, the control plane was reached, and the observation is at most ten seconds old.\<close>

theorem channels_healthy_only_if_enforced:
  assumes "Run_round env (next_poll, m, w) = (next_poll', m', w')" "Healthy now m'"
    and "0 < chf_Revision (chm_floor m')"
  shows "\<exists>v. chs_Channels (chm_status m') = fst (che_Reconcile env (chf_Controls (chm_floor m')) v) \<and>
    length (chs_Channels (chm_status m')) = 3 \<and>
    list_all (\<lambda>c. ech_State c \<in> {''controlled'', ''not_present'', ''off''}) (chs_Channels (chm_status m')) \<and>
    chs_PolicyVersion (chm_status m') = chf_Revision (chm_floor m') \<and> chs_PolicyFresh (chm_status m') \<and>
    chs_ControlReachable (chm_status m') \<and> time_Sub now (chs_LastObservedAt (chm_status m')) \<le> 10 * second"
proof -
  obtain desired m1 w1 where p: "(if \<not> fst (che_now env w) < next_poll then poll_desired env (m, snd (che_now env w))
      else (None, m, snd (che_now env w))) = (desired, m1, w1)" by (metis prod_cases3)
  obtain channels m2 w2 where r: "reconcile env (m1, w1) = (channels, m2, w2)" by (metis prod_cases3)
  have m': "chm_floor m' = chm_floor m2 \<and> chs_Channels (chm_status m') = chs_Channels (chm_status m2) \<and>
      chs_PolicyVersion (chm_status m') = chs_PolicyVersion (chm_status m2)"
    using assms(1) p r
    by (auto simp: Run_round_def Let_def report_receipt_def set_status_def split_beta
        split: option.splits prod.splits if_splits)
  obtain ch v where c: "(if 0 < chf_Revision (chm_floor m1) then che_Reconcile env (chf_Controls (chm_floor m1)) w1
      else (unconfiguredChannels, w1)) = (ch, v)" by fastforce
  have m2: "chm_floor m2 = chm_floor m1" "chs_Channels (chm_status m2) = ch"
    "chs_PolicyVersion (chm_status m2) = chf_Revision (chm_floor m1)"
    using r by (auto simp: reconcile_def Let_def c set_status_def split: prod.splits)
  with m' assms(3) c have ch: "ch = fst (che_Reconcile env (chf_Controls (chm_floor m')) w1)" by (auto split: if_splits)
  from assms(2,3) have h: "chs_PolicyFresh (chm_status m')" "chs_ControlReachable (chm_status m')"
    "time_Sub now (chs_LastObservedAt (chm_status m')) \<le> 10 * second" "length (chs_Channels (chm_status m')) = 3"
    "list_all (\<lambda>c. ech_State c \<in> {''controlled'', ''not_present'', ''off''}) (chs_Channels (chm_status m'))"
    by (auto simp: Healthy_def not_less list_all_iff split: if_splits)
  show ?thesis using h ch m' m2 by (intro exI [of _ w1]) simp
qed

lemma channels_healthy_only_if_enforced_witness:
  "\<exists>v. chs_Channels (chm_status (fst (snd (Run_round ch_env (0, ch_manager 2, 0))))) =
      fst (che_Reconcile ch_env (chf_Controls (chm_floor (fst (snd (Run_round ch_env (0, ch_manager 2, 0)))))) v)"
proof -
  let ?r = "Run_round ch_env (0, ch_manager 2, 0)"
  have "Healthy (105 * second) (fst (snd ?r))" "0 < chf_Revision (chm_floor (fst (snd ?r)))" by code_simp+
  moreover have "?r = (fst ?r, fst (snd ?r), snd (snd ?r))" by simp
  ultimately show ?thesis using channels_healthy_only_if_enforced [of ch_env 0 "ch_manager 2" 0 "fst ?r" "fst (snd ?r)" "snd (snd ?r)"]
    by blast
qed

end
