(* ===== verification/Floors.thy ===== *)
theory Floors
  imports Channels_Safety Admission_Safety Manager_Invariant
begin

text \<open>
  The other two floors of published versions keep the same contract as the channel policy: the
  configuration floor of the connection manager and the restriction epoch of the admission manager.
\<close>

subsection \<open>The configuration floor\<close>

interpretation configuration: version_floor "\<lambda>_. True" "\<lambda>m. cf_ConfigurationVersion (mg_configurationFloor m)"
    mg_configurationFloor cd_ConfigurationVersion "rememberConfiguration env" for env
proof
  fix m m' :: "'a Manager" and d and w :: 'b and err w'
  assume a: "rememberConfiguration env d (m, w) = (err, m', w')"
  from a show "True \<and> cf_ConfigurationVersion (mg_configurationFloor m) \<le> cf_ConfigurationVersion (mg_configurationFloor m')"
    by (cases rule: remember_cases) auto
  assume "cd_ConfigurationVersion d < cf_ConfigurationVersion (mg_configurationFloor m)"
  with a show "err \<noteq> None \<and> mg_configurationFloor m' = mg_configurationFloor m"
    by (cases rule: remember_cases) auto
qed

text \<open>A configuration older than the floor stays refused, whatever was tried in between.\<close>

lemma configuration_replay_refused:
  assumes "accept_all (rememberConfiguration env) ds (m, w) = (m1, w1)"
    and "cd_ConfigurationVersion d < cf_ConfigurationVersion (mg_configurationFloor m)"
    and "rememberConfiguration env d (m1, v) = (err, m2, w2)"
  shows "err \<noteq> None \<and> mg_configurationFloor m2 = mg_configurationFloor m1"
  by (rule configuration.replay_refused [OF TrueI assms])

subsection \<open>The restriction epoch\<close>

type_synonym observation = "AdmissionConfiguration option \<times> time \<times> time"

definition observe :: "'w admission_env \<Rightarrow> observation \<Rightarrow> AdmissionManager \<times> 'w \<Rightarrow> error \<times> AdmissionManager \<times> 'w" where
  "observe env = (\<lambda>(configuration, validUntil, observedAt). Observe env configuration validUntil observedAt)"

definition observed_epoch :: "observation \<Rightarrow> int" where
  "observed_epoch d = (case fst d of None \<Rightarrow> 0 | Some c \<Rightarrow> ac_RestrictionEpoch c)"

lemma Observe_cases:
  assumes "Observe env configuration validUntil observedAt (m, w) = (err, m', w')"
  obtains (refused) "err \<noteq> None" "adm_state m' = adm_state m" "adm_savedState m' = adm_savedState m"
    | (saved) c m1 w1 where "configuration = Some c" "est_Epoch (adm_state m) \<le> ac_RestrictionEpoch c"
      "est_Epoch (adm_state m1) = ac_RestrictionEpoch c" "adm_savedState m1 = adm_savedState m"
      "save env (m1, w1) = (err, m', w')"
proof -
  obtain now w0 where n: "ade_now env w = (now, w0)" by fastforce
  show ?thesis
  proof (cases configuration)
    case None
    with assms n show ?thesis by (intro refused) (auto simp: Observe_def withdraw_def)
  next
    case (Some c)
    obtain ok w1 where p: "observed_profiles env [] [] (ac_Profiles c) w0 = (ok, w1)" by fastforce
    let ?unavailable = "\<not> validUntil > now \<or> observedAt < adm_observedAt m \<or>
      ac_RestrictionEpoch c < est_Epoch (adm_state m) \<or> length (ac_Profiles c) > 64"
    show ?thesis
    proof (cases "?unavailable \<or> \<not> ok")
      case True
      with assms n p Some show ?thesis by (intro refused) (auto simp: Observe_def withdraw_def Let_def split: if_splits)
    next
      case False
      let ?m1 = "with_state (\<lambda>state. state\<lparr>est_Epoch := ac_RestrictionEpoch c\<rparr>)
        (m\<lparr>adm_profiles := ac_Profiles c, adm_validUntil := validUntil, adm_observedAt := observedAt\<rparr>)"
      from False assms n p Some have "save env (?m1, w1) = (err, m', w')" by (simp add: Observe_def Let_def)
      with False Some show ?thesis by (intro saved [of c ?m1 w1]) (auto simp: with_state_def)
    qed
  qed
qed

interpretation epoch: version_floor "\<lambda>m. codec_inverts env \<and> epoch_stored env m" "\<lambda>m. est_Epoch (adm_state m)"
    adm_state observed_epoch "observe env" for env
proof
  fix m m' :: AdmissionManager and d and w :: 'a and err w'
  assume inv: "codec_inverts env \<and> epoch_stored env m" and a: "observe env d (m, w) = (err, m', w')"
  then obtain c u o' where d: "d = (c, u, o')" and a': "Observe env c u o' (m, w) = (err, m', w')"
    by (cases d) (auto simp: observe_def)
  from a' show "(codec_inverts env \<and> epoch_stored env m') \<and> est_Epoch (adm_state m) \<le> est_Epoch (adm_state m')"
  proof (cases rule: Observe_cases)
    case refused
    with inv show ?thesis by (simp add: epoch_stored_def on_saved_def)
  next
    case (saved c' m1 w1)
    from saved(5) show ?thesis
      by (cases rule: save_cases) (use inv saved in \<open>auto simp: epoch_stored_def on_saved_def codec_inverts_def split: sum.splits\<close>)
  qed
  assume "observed_epoch d < est_Epoch (adm_state m)"
  with a' d show "err \<noteq> None \<and> adm_state m' = adm_state m"
    by (cases rule: Observe_cases) (auto simp: observed_epoch_def)
qed

end
