(* ===== verification/Presence.thy ===== *)
theory Presence
  imports Runtime_Client Manager
begin

text \<open>
  The loops of the manager beside its cycle: the presence of the desktop application as the
  privileged service observes it (\<open>ui_presence.go\<close>), the publication of the endpoint's presence
  (\<open>presence.go\<close>), the heartbeat (\<open>runHeartbeats\<close> of \<open>manager.go\<close>) and the watchdog of the network
  lifecycle (\<open>lifecycle.go\<close>). A loop is the function of one round; the end of a context ends it.
\<close>

subsection \<open>The desktop application\<close>

text \<open>
  \<open>UIProcessPresence\<close>; \<open>verify\<close>, of the platform, is an argument of \<open>Observe\<close> and None where it is
  nil. The pointer itself is an option.
\<close>

record UIProcessPresence =
  uip_lastObserved :: time

definition UIPresence_Observe ::
  "('w \<Rightarrow> error \<times> 'w) option \<Rightarrow> time \<Rightarrow> UIProcessPresence option \<times> 'w \<Rightarrow> error \<times> UIProcessPresence option \<times> 'w" where
  "UIPresence_Observe verify now = (\<lambda>(presence, w).
     case (presence, verify) of
       (Some p, Some verify) \<Rightarrow>
         let (err, w) = verify w
         in if err \<noteq> None then (err, presence, w) else (None, Some (p\<lparr>uip_lastObserved := now\<rparr>), w)
     | _ \<Rightarrow> (Some (ErrorNew ''trusted UI presence is not provisioned''), presence, w))"

definition UIPresence_Snapshot :: "UIProcessPresence option \<Rightarrow> time \<Rightarrow> string \<times> time option" where
  "UIPresence_Snapshot presence now =
     (case presence of
        None \<Rightarrow> (''unknown'', None)
      | Some p \<Rightarrow>
          let last = uip_lastObserved p
          in if time_IsZero last then (''offline'', None)
             else if now < last \<or> time_Sub now last \<ge> uiPresenceTTL then (''offline'', Some last)
             else (''online'', Some last))"

subsection \<open>Publishing\<close>

definition heartbeatRetryMax :: duration where "heartbeatRetryMax = 30 * second"

record presence_loop =
  prl_delay :: duration
  prl_retry :: duration
  prl_sequence :: int
  prl_admissionVersion :: int

definition presence_start :: presence_loop where
  "presence_start = \<lparr>prl_delay = 0, prl_retry = second, prl_sequence = 0, prl_admissionVersion = 0\<rparr>"

text \<open>\<open>cleanupReason\<close> and the health of the channel controls.\<close>

definition presence_health :: "('e, 'w) manager_env \<Rightarrow> 'e Manager \<times> 'w \<Rightarrow> string \<times> 'w" where
  "presence_health env = (\<lambda>(manager, w).
     if mg_cleanupReason manager \<noteq> [] then (''unhealthy'', w)
     else case me_ChannelsHealthy env of
            None \<Rightarrow> (''healthy'', w)
          | Some healthy \<Rightarrow>
              let (now, w) = me_now env w; (ok, w) = healthy now w
              in ((if ok then ''healthy'' else ''unhealthy''), w))"

definition presence_request ::
  "('e, 'w) manager_env \<Rightarrow> UIProcessPresence option \<Rightarrow> presence_loop \<Rightarrow> 'e Manager \<times> 'w \<Rightarrow> EndpointPresenceRequest \<times> 'w" where
  "presence_request env ui loop = (\<lambda>(manager, w).
     let (status, w) = Manager_Status env (manager, w);
         (health, w) = presence_health env (manager, w);
         (now, w) = me_now env w;
         (uiState, observedAt) = UIPresence_Snapshot ui now
     in (\<lparr>epq_AdmissionPolicyVersion = prl_admissionVersion loop, epq_DeviceID = mo_DeviceID (me_options env),
          epq_BootID = mg_presenceBootID manager, epq_Sequence = prl_sequence loop, epq_Status = health,
          epq_ConfigurationVersion = st_ConfigurationVersion status, epq_PolicyVersion = st_PolicyVersion status,
          epq_UIState = uiState, epq_UIObservedAt = observedAt\<rparr>, w))"

text \<open>One round of \<open>runPresence\<close> after its wait, while the context lives.\<close>

definition presence_round ::
  "('e, 'w) manager_env \<Rightarrow> (EndpointPresenceRequest \<Rightarrow> 'w \<Rightarrow> EndpointPresenceResult fallible \<times> 'w) \<Rightarrow>
   UIProcessPresence option \<Rightarrow> presence_loop \<times> 'e Manager \<times> 'w \<Rightarrow> presence_loop \<times> 'e Manager \<times> 'w" where
  "presence_round env publish ui = (\<lambda>(loop, manager, w).
     let loop = loop\<lparr>prl_sequence := prl_sequence loop + 1\<rparr>;
         (request, w) = presence_request env ui loop (manager, w);
         (result, w) = publish request w
     in case result of
          Inl _ \<Rightarrow>
            (loop\<lparr>prl_delay := prl_retry loop, prl_retry := min (prl_retry loop * 2) heartbeatRetryMax\<rparr>,
             update (\<lambda>status. status\<lparr>st_PresenceState := ''unavailable''\<rparr>) manager, w)
        | Inr result \<Rightarrow>
            (loop\<lparr>prl_admissionVersion := epr_AdmissionPolicyVersion result,
                  prl_delay := epr_NextHeartbeatSeconds result * second, prl_retry := second\<rparr>,
             update (\<lambda>status. status\<lparr>st_PresenceState := epq_Status request,
               st_PresenceLastReceivedAt := Some (epr_ReceivedAt result),
               st_PresenceEpoch := epr_PresenceEpoch result\<rparr>) manager, w))"

text \<open>One round of \<open>runHeartbeats\<close>: the delay and the next retry after a heartbeat.\<close>

definition heartbeat_round ::
  "('e, 'w) manager_env \<Rightarrow> (Status \<Rightarrow> 'w \<Rightarrow> error \<times> 'w) \<Rightarrow> duration \<times> duration \<Rightarrow> 'e Manager \<times> 'w \<Rightarrow>
   (duration \<times> duration) \<times> 'w" where
  "heartbeat_round env heartbeat = (\<lambda>(delay, retry) (manager, w).
     let (status, w) = Manager_Status env (manager, w);
         (err, w) = heartbeat status w
     in if err \<noteq> None then ((retry, min (retry * 2) heartbeatRetryMax), w)
        else ((snd (intervals (me_options env) manager), second), w))"

subsection \<open>The watchdog\<close>

text \<open>
  \<open>uplinkFingerprint\<close>: the network adapters of \<open>net.Interfaces\<close>, with the two flags the code tests
  and the addresses as their texts.
\<close>

record net_Interface =
  nif_Index :: int
  nif_Name :: string
  nif_HardwareAddr :: string
  nif_FlagUp :: bool
  nif_FlagLoopback :: bool
  nif_Addrs :: "string list fallible"

definition uplink_ignored :: "net_Interface \<Rightarrow> bool" where
  "uplink_ignored adapter \<longleftrightarrow>
     (let name = to_lower (nif_Name adapter)
      in \<not> nif_FlagUp adapter \<or> nif_FlagLoopback adapter \<or> name = to_lower endpointInterfaceName \<or>
         has_prefix name ''utun'')"

fun uplink_addresses :: "net_Interface \<Rightarrow> string list \<Rightarrow> string list" where
  "uplink_addresses adapter [] = []"
| "uplink_addresses adapter (raw # rest) =
     (case parsePrefix raw of
        None \<Rightarrow> uplink_addresses adapter rest
      | Some prefix \<Rightarrow>
          if addr_IsGlobalUnicast (pfx_Addr prefix)
          then (string_of_int (nif_Index adapter) @ ''/'' @ nif_HardwareAddr adapter @ ''/'' @ prefix_String prefix)
                 # uplink_addresses adapter rest
          else uplink_addresses adapter rest)"

fun uplink_values :: "net_Interface list \<Rightarrow> string list fallible" where
  "uplink_values [] = Inr []"
| "uplink_values (adapter # rest) =
     (if uplink_ignored adapter then uplink_values rest
      else case nif_Addrs adapter of
             Inl err \<Rightarrow> Inl err
           | Inr raws \<Rightarrow>
               (case uplink_values rest of
                  Inl err \<Rightarrow> Inl err
                | Inr values \<Rightarrow> Inr (uplink_addresses adapter raws @ values)))"

definition uplinkFingerprint :: "(string \<Rightarrow> string) \<Rightarrow> net_Interface list fallible \<Rightarrow> string fallible" where
  "uplinkFingerprint sha256 interfaces =
     (case interfaces of
        Inl err \<Rightarrow> Inl err
      | Inr adapters \<Rightarrow>
          (case uplink_values adapters of
             Inl err \<Rightarrow> Inl err
           | Inr values \<Rightarrow> Inr (sha256 (strings_Join (sort values) [CHR 0x0A]))))"

record watch_state =
  wat_session :: string
  wat_previous :: string

text \<open>
  A tick of \<open>watchNetworkLifecycle\<close> up to the lock: what the watchdog sees of the session and the
  uplink, and the reason it would disconnect for. None ends the tick. \<open>gap\<close> is the time since the
  last tick.
\<close>

definition watch_observe ::
  "(string \<Rightarrow> string) \<Rightarrow> net_Interface list fallible \<Rightarrow> duration \<Rightarrow> string \<Rightarrow> watch_state \<Rightarrow> watch_state \<times> string option" where
  "watch_observe sha256 interfaces gap session watch =
     (if session = [] then (\<lparr>wat_session = [], wat_previous = []\<rparr>, None)
      else
        let fingerprint = uplinkFingerprint sha256 interfaces
        in case fingerprint of
             Inl _ \<Rightarrow> (watch, Some ''network_state_unavailable'')
           | Inr fingerprint \<Rightarrow>
               if wat_session watch \<noteq> session
               then (\<lparr>wat_session = session, wat_previous = fingerprint\<rparr>, None)
               else (watch, Some
                 (if gap > 10 * second \<or> gap < 0 then ''system_resume_requires_reconnect''
                  else if fingerprint \<noteq> wat_previous watch then ''network_changed_requires_reconnect''
                  else [])))"

text \<open>
  The part of a tick under \<open>operationMu\<close>, once \<open>TryLock\<close> succeeded. No operation of the manager runs
  between the two tests of the session there, so the second repeats the first.
\<close>

definition watch_act ::
  "('e, 'w) manager_env \<Rightarrow> watch_state \<Rightarrow> string \<Rightarrow> 'e Manager \<times> 'w \<Rightarrow> 'e Manager \<times> 'w" where
  "watch_act env watch reason = (\<lambda>(manager, w).
     if st_SessionID (mg_status manager) \<noteq> wat_session watch then (manager, w)
     else
       let (reason, w) =
             (case me_CheckVPNHealth env of
                Some check \<Rightarrow>
                  if reason = [] then
                    let (err, w) = check w in ((if err \<noteq> None then ''vpn_health_changed'' else []), w)
                  else (reason, w)
              | None \<Rightarrow> (reason, w))
       in if reason = [] then (manager, w)
          else let (_, manager, w) = disconnectLocked env reason (manager, w) in (manager, w))"

text \<open>
  A whole tick. \<open>between\<close> is what other operations did between the observation and the lock,
  \<open>locked\<close> whether \<open>TryLock\<close> got it.
\<close>

definition watch_tick ::
  "('e, 'w) manager_env \<Rightarrow> (string \<Rightarrow> string) \<Rightarrow> net_Interface list fallible \<Rightarrow> duration \<Rightarrow>
   ('e Manager \<times> 'w \<Rightarrow> 'e Manager \<times> 'w) \<Rightarrow> bool \<Rightarrow> watch_state \<times> 'e Manager \<times> 'w \<Rightarrow> watch_state \<times> 'e Manager \<times> 'w" where
  "watch_tick env sha256 interfaces gap between locked = (\<lambda>(watch, manager, w).
     let (watch, reason) = watch_observe sha256 interfaces gap (st_SessionID (mg_status manager)) watch
     in case reason of
          None \<Rightarrow> (watch, manager, w)
        | Some reason \<Rightarrow>
            let (manager, w) = between (manager, w)
            in if \<not> locked then (watch, manager, w)
               else let (manager, w) = watch_act env watch reason (manager, w) in (watch, manager, w))"

end
