(* ===== verification/Presence_Safety.thy ===== *)
theory Presence_Safety
  imports Presence Manager_Restart
begin

text \<open>
  What holds of the loops: the watchdog ends a session whose network is not the one it was
  connected on and spares a session it has not observed, publication counts its rounds and keeps
  its delays within bounds, and a clock that was set back silences the presence.
\<close>

subsection \<open>The watchdog\<close>

text \<open>The network a session was first observed on is still there, and the endpoint did not sleep.\<close>

definition network_kept :: "(string \<Rightarrow> string) \<Rightarrow> net_Interface list fallible \<Rightarrow> duration \<Rightarrow> watch_state \<Rightarrow> bool" where
  "network_kept sha256 interfaces gap watch \<longleftrightarrow>
     uplinkFingerprint sha256 interfaces = Inr (wat_previous watch) \<and> 0 \<le> gap \<and> gap \<le> 10 * second"

lemma watch_observe_lost:
  assumes "wat_session watch = session" "session \<noteq> []" "\<not> network_kept sha256 interfaces gap watch"
  obtains reason where "watch_observe sha256 interfaces gap session watch = (watch, Some reason)" "reason \<noteq> []"
proof (cases "uplinkFingerprint sha256 interfaces")
  case (Inl err)
  with assms(2) have "watch_observe sha256 interfaces gap session watch = (watch, Some ''network_state_unavailable'')"
    by (simp add: watch_observe_def)
  from that [OF this] show ?thesis by simp
next
  case (Inr fingerprint)
  show ?thesis
  proof (cases "gap > 10 * second \<or> gap < 0")
    case True
    with assms(1,2) Inr have "watch_observe sha256 interfaces gap session watch = (watch, Some ''system_resume_requires_reconnect'')"
      by (simp add: watch_observe_def)
    from that [OF this] show ?thesis by simp
  next
    case False
    with assms Inr have "watch_observe sha256 interfaces gap session watch = (watch, Some ''network_changed_requires_reconnect'')"
      by (simp add: watch_observe_def network_kept_def)
    from that [OF this] show ?thesis by simp
  qed
qed

lemma watch_act_cases:
  assumes "watch_act env watch reason (m, w) = (m', w')" "reason \<noteq> []"
  obtains (spared) "st_SessionID (mg_status m) \<noteq> wat_session watch" "m' = m" "w' = w"
    | (ended) r where "st_SessionID (mg_status m) = wat_session watch" "disconnectLocked env reason (m, w) = (r, m', w')"
proof (cases "st_SessionID (mg_status m) = wat_session watch")
  case True
  obtain r m1 w1 where d: "disconnectLocked env reason (m, w) = (r, m1, w1)" by (metis prod_cases3)
  have "watch_act env watch reason (m, w) = (m1, w1)"
    using assms(2) by (cases "me_CheckVPNHealth env") (simp_all add: watch_act_def d True)
  with assms(1) d have "disconnectLocked env reason (m, w) = (r, m', w')" by simp
  from ended [OF True this] show ?thesis .
next
  case False
  then have "watch_act env watch reason (m, w) = (m, w)" by (simp add: watch_act_def)
  with assms(1) have "m' = m" "w' = w" by simp_all
  from spared [OF False this] show ?thesis .
qed

text \<open>C31: a session does not survive the network it was connected on. If the watchdog watches the session,
  the uplink cannot be read or is not the one of the session, or more than ten seconds have passed
  since the last tick or time went backwards, and the watchdog gets the lock, then either the same
  session is still there and it is ended, or a disconnect is kept due; or another session has taken
  its place meanwhile, and that one is left alone.\<close>

theorem stale_network_ends_session:
  assumes "wat_session watch = st_SessionID (mg_status m)" "st_SessionID (mg_status m) \<noteq> []"
    and "\<not> network_kept sha256 interfaces gap watch" "between (m, w) = (m1, w1)"
    and "watch_tick env sha256 interfaces gap between True (watch, m, w) = (watch', m', w')"
  shows "if st_SessionID (mg_status m1) = wat_session watch
         then mg_cleanupReason m' \<noteq> [] \<or> st_SessionID (mg_status m') = [] \<and> mg_disabled m'
         else m' = m1 \<and> w' = w1"
proof -
  obtain reason where r: "watch_observe sha256 interfaces gap (st_SessionID (mg_status m)) watch = (watch, Some reason)" "reason \<noteq> []"
    by (rule watch_observe_lost [OF assms(1-3)])
  obtain m2 w2 where a: "watch_act env watch reason (m1, w1) = (m2, w2)" by fastforce
  with assms(4,5) r(1) have "m' = m2" "w' = w2" by (simp_all add: watch_tick_def)
  with a have "watch_act env watch reason (m1, w1) = (m', w')" by simp
  then show ?thesis
  proof (cases rule: watch_act_cases [OF _ r(2), consumes 1, case_names spared ended])
    case (ended d)
    from disconnect_settles [OF this(2) r(2)] ended(1) show ?thesis by simp
  qed simp
qed

definition ethernet :: "string \<Rightarrow> net_Interface" where
  "ethernet address = \<lparr>nif_Index = 2, nif_Name = ''eth0'', nif_HardwareAddr = ''aa:bb'', nif_FlagUp = True,
     nif_FlagLoopback = False, nif_Addrs = Inr [address]\<rparr>"

definition watched_manager :: "string \<Rightarrow> unit Manager" where
  "watched_manager session = update (\<lambda>s. s\<lparr>st_SessionID := session\<rparr>) (restart_manager empty_floor)"

lemma stale_network_ends_session_witness:
  "case watch_tick (restart_env empty_floor) id (Inr [ethernet ''192.0.2.7/24'']) (2 * second) id True
      (\<lparr>wat_session = ''s'', wat_previous = ''2/aa:bb/198.51.100.7/24''\<rparr>, watched_manager ''s'', []) of
     (watch, m, w) \<Rightarrow> mg_cleanupReason m \<noteq> [] \<or> st_SessionID (mg_status m) = [] \<and> mg_disabled m"
proof -
  let ?watch = "\<lparr>wat_session = ''s'', wat_previous = ''2/aa:bb/198.51.100.7/24''\<rparr>"
  let ?up = "Inr [ethernet ''192.0.2.7/24''] :: net_Interface list fallible"
  let ?r = "watch_tick (restart_env empty_floor) id ?up (2 * second) id True (?watch, watched_manager ''s'', [])"
  have "\<not> network_kept id ?up (2 * second) ?watch" by code_simp
  moreover have "?r = (fst ?r, fst (snd ?r), snd (snd ?r))" by simp
  ultimately show ?thesis
    using stale_network_ends_session [of ?watch "watched_manager ''s''" id ?up "2 * second" id "[]" "watched_manager ''s''" "[]"
        "restart_env empty_floor" "fst ?r" "fst (snd ?r)" "snd (snd ?r)"]
    by (simp add: watched_manager_def split_beta)
qed

subsection \<open>Publication\<close>

text \<open>The publisher returns intervals the control client has checked.\<close>

definition checked_publisher :: "(EndpointPresenceRequest \<Rightarrow> 'w \<Rightarrow> EndpointPresenceResult fallible \<times> 'w) \<Rightarrow> bool" where
  "checked_publisher publish \<longleftrightarrow>
     (\<forall>request w result w'. publish request w = (Inr result, w') \<longrightarrow> validRuntimeInterval (epr_NextHeartbeatSeconds result))"

definition paced :: "nat \<Rightarrow> presence_loop \<Rightarrow> bool" where
  "paced n loop \<longleftrightarrow> prl_sequence loop = int n \<and> second \<le> prl_retry loop \<and> prl_retry loop \<le> heartbeatRetryMax \<and>
     (0 < n \<longrightarrow> second \<le> prl_delay loop \<and> prl_delay loop \<le> 300 * second)"

lemma presence_round_paced:
  assumes "checked_publisher publish" "paced n loop" "presence_round env publish ui (loop, m, w) = (loop', m', w')"
  shows "paced (Suc n) loop'"
proof -
  let ?loop = "loop\<lparr>prl_sequence := prl_sequence loop + 1\<rparr>"
  obtain request w1 where q: "presence_request env ui ?loop (m, w) = (request, w1)" by fastforce
  obtain result w2 where p: "publish request w1 = (result, w2)" by fastforce
  show ?thesis
  proof (cases result)
    case (Inl err)
    with assms(2,3) q p show ?thesis by (auto simp: presence_round_def paced_def heartbeatRetryMax_def)
  next
    case (Inr r)
    with assms(1) p have "validRuntimeInterval (epr_NextHeartbeatSeconds r)" unfolding checked_publisher_def by blast
    with assms(2,3) q p Inr show ?thesis
      by (auto simp: presence_round_def paced_def heartbeatRetryMax_def validRuntimeInterval_def)
  qed
qed

text \<open>the publication of presence never stops and never floods the control plane. Whatever the
  control plane answers, the rounds are numbered without a gap, and after every round the next one
  comes after at least one second and at most five minutes, before jitter; a retry waits at most
  30 seconds.\<close>

theorem presence_paced:
  assumes "checked_publisher publish" "(presence_round env publish ui ^^ n) (presence_start, m, w) = (loop, m', w')"
  shows "prl_sequence loop = int n \<and> second \<le> prl_retry loop \<and> prl_retry loop \<le> 30 * second \<and>
    (0 < n \<longrightarrow> second \<le> prl_delay loop \<and> prl_delay loop \<le> 300 * second)"
proof -
  have "paced n loop" using assms(2)
  proof (induction n arbitrary: loop m' w')
    case 0 then show ?case by (auto simp: paced_def presence_start_def heartbeatRetryMax_def)
  next
    case (Suc n)
    obtain l1 m1 w1 where s: "(presence_round env publish ui ^^ n) (presence_start, m, w) = (l1, m1, w1)"
      by (metis prod_cases3)
    from presence_round_paced [OF assms(1) Suc.IH [OF s]] Suc.prems s show ?case by simp
  qed
  then show ?thesis by (simp add: paced_def heartbeatRetryMax_def)
qed

definition no_publisher :: "EndpointPresenceRequest \<Rightarrow> string \<Rightarrow> EndpointPresenceResult fallible \<times> string" where
  "no_publisher request w = (Inl (ErrorNew ''offline''), w)"

lemma presence_paced_witness:
  "prl_sequence (fst ((presence_round (restart_env empty_floor) no_publisher None ^^ 3)
     (presence_start, restart_manager empty_floor, []))) = 3"
proof -
  let ?r = "(presence_round (restart_env empty_floor) no_publisher None ^^ 3) (presence_start, restart_manager empty_floor, [])"
  have "checked_publisher no_publisher" by (simp add: checked_publisher_def no_publisher_def)
  moreover have "?r = (fst ?r, fst (snd ?r), snd (snd ?r))" by simp
  ultimately show ?thesis using presence_paced [where publish = no_publisher and n = 3] by fastforce
qed

subsection \<open>A clock that was set back\<close>

text \<open>An observation of the desktop application silences the endpoint's presence once the clock has
  been set back. \<open>Snapshot\<close> foresees an observation that lies in the future and reports it as
  offline, with the time of the observation; \<open>PublishPresence\<close> refuses just that, so nothing is sent
  and the presence stays unavailable until the clock has caught up.\<close>

theorem clock_step_silences_presence:
  assumes "uip_lastObserved p > now" "uip_lastObserved p \<noteq> zero_time"
    and "epq_UIState request = fst (UIPresence_Snapshot (Some p) now)"
    and "epq_UIObservedAt request = snd (UIPresence_Snapshot (Some p) now)"
    and "cte_now env w = (now, w')"
  shows "Client_PublishPresence env client request w = (Inl (ErrorNew ''endpoint presence is invalid''), w')"
proof -
  have "UIPresence_Snapshot (Some p) now = (''offline'', Some (uip_lastObserved p))"
    using assms(1,2) by (simp add: UIPresence_Snapshot_def time_IsZero_def)
  with assms show ?thesis by (simp add: Client_PublishPresence_def validUIObservation_def)
qed

end
