(* ===== verification/Ipc.thy ===== *)
theory Ipc
  imports Presence Channels Admission "HOL-Library.Word"
begin

unbundle bit_operations_syntax

text \<open>
  The protocol between the desktop application and the privileged service (\<open>ipc.go\<close>,
  \<open>eap_ipc.go\<close>): frames with a big-endian length, requests and responses, the dispatch of an action to
  the manager, the admission manager or the observer of the desktop application, and the calls of the
  client. A connection is the text that was received and the text that is sent; its deadline is not
  modelled. JSON of a request and of a response are parameters.
\<close>

subsection \<open>Frames\<close>

definition maxIPCMessageBytes :: nat where "maxIPCMessageBytes = 131072"

text \<open>\<open>io.ReadFull\<close> on what is left of a stream.\<close>

definition io_ReadFull :: "nat \<Rightarrow> string \<Rightarrow> string fallible \<times> string" where
  "io_ReadFull n stream =
     (if n \<le> length stream then (Inr (take n stream), drop n stream)
      else (Inl (ErrorNew (if stream = [] then ''EOF'' else ''unexpected EOF'')), []))"

text \<open>\<open>binary.BigEndian\<close>; \<open>byte(v)\<close> keeps the low eight bits.\<close>

definition byte_of :: "32 word \<Rightarrow> char" where "byte_of v = char_of (unat v)"
definition word_of :: "char \<Rightarrow> 32 word" where "word_of c = word_of_nat (of_char c)"

definition PutUint32 :: "32 word \<Rightarrow> string" where
  "PutUint32 v = [byte_of (drop_bit 24 v), byte_of (drop_bit 16 v), byte_of (drop_bit 8 v), byte_of v]"

definition Uint32 :: "string \<Rightarrow> 32 word" where
  "Uint32 b = word_of (b ! 3) OR push_bit 8 (word_of (b ! 2)) OR push_bit 16 (word_of (b ! 1)) OR
              push_bit 24 (word_of (b ! 0))"

definition readIPCFrame :: "string \<Rightarrow> string fallible \<times> string" where
  "readIPCFrame stream =
     (let (header, stream) = io_ReadFull 4 stream
      in case header of
           Inl err \<Rightarrow> (Inl err, stream)
         | Inr header \<Rightarrow>
             let size = Uint32 header
             in if size = 0 \<or> size > word_of_nat maxIPCMessageBytes
                then (Inl (ErrorNew ''IPC message exceeds the safe limit''), stream)
                else io_ReadFull (unat size) stream)"

text \<open>The frame that \<open>writeIPCFrame\<close> copies to the connection, and the function itself.\<close>

definition ipc_frame :: "string \<Rightarrow> string fallible" where
  "ipc_frame payload =
     (if length payload = 0 \<or> length payload > maxIPCMessageBytes
      then Inl (ErrorNew ''IPC message exceeds the safe limit'')
      else Inr (PutUint32 (word_of_nat (length payload)) @ payload))"

definition writeIPCFrame :: "(string \<Rightarrow> 'w \<Rightarrow> error \<times> 'w) \<Rightarrow> string \<Rightarrow> 'w \<Rightarrow> error \<times> 'w" where
  "writeIPCFrame copy payload w =
     (case ipc_frame payload of Inl err \<Rightarrow> (Some err, w) | Inr frame \<Rightarrow> copy frame w)"

subsection \<open>Messages\<close>

definition IPCVersion :: int where "IPCVersion = 1"

record MihomoAppInput =
  mai_SubscriptionURL :: string
  mai_SelectedProxy :: string

record IPCRequest =
  irq_Version :: int
  irq_RequestID :: string
  irq_Action :: string
  irq_Connect :: "ConnectInput option"
  irq_Mihomo :: "MihomoAppInput option"
  irq_Admission :: "AdmissionInput option"

text \<open>\<open>irs_ChannelControls\<close> is the field of \<open>Status\<close> that \<open>Manager.Status\<close> fills in.\<close>

record IPCResponse =
  irs_Version :: int
  irs_RequestID :: string
  irs_OK :: bool
  irs_Status :: Status
  irs_ChannelControls :: "ChannelStatus option"
  irs_Mihomo :: "MihomoAppStatus option"
  irs_Admission :: "AdmissionStatus option"
  irs_ErrorCode :: string
  irs_ErrorMessage :: string

type_synonym full_status = "Status \<times> ChannelStatus option"

subsection \<open>The service\<close>

text \<open>The operations of the admission manager that the service calls, and the model's own; then the
  executor of the model as \<open>MihomoAppCoordinator\<close>.\<close>

record 'w admission_service =
  asv_Prepare :: "AdmissionInput \<Rightarrow> 'w \<Rightarrow> error \<times> 'w"
  asv_Check :: "'w \<Rightarrow> error \<times> 'w"
  asv_Connect :: "string \<Rightarrow> 'w \<Rightarrow> error \<times> 'w"
  asv_Remove :: "string \<Rightarrow> 'w \<Rightarrow> error \<times> 'w"
  asv_Status :: "'w \<Rightarrow> (AdmissionStatus \<times> error) \<times> 'w"

definition Admission_interface :: "'w admission_env \<Rightarrow> (AdmissionManager \<times> 'w) admission_service" where
  "Admission_interface env =
     \<lparr>asv_Prepare = Prepare env, asv_Check = Check env, asv_Connect = Admission_Connect env, asv_Remove = Remove env,
      asv_Status = (\<lambda>(manager, w). let (result, w) = Admission_Status env manager w in (result, manager, w))\<rparr>"

definition Coordinated_app_interface :: "('e, 'w) coordinator_env \<Rightarrow> ('e CoordinatedExecutor, 'w) MihomoAppCoordinator" where
  "Coordinated_app_interface env =
     \<lparr>mac_MihomoAppStatus = Coordinated_MihomoAppStatus env, mac_ConfigureMihomoApp = ConfigureMihomoApp env,
      mac_SelectMihomoApp = SelectMihomoApp env, mac_RefreshMihomoApp = RefreshMihomoApp env,
      mac_ClearMihomoApp = ClearMihomoApp env\<rparr>"

record ('e, 'w) service =
  svc_manager :: "('e, 'w) manager_env"
  svc_channels :: "('w \<Rightarrow> ChannelStatus \<times> 'w) option"
  svc_admission :: "'w admission_service option"
  svc_verify_ui :: "('w \<Rightarrow> error \<times> 'w) option"
  svc_decode :: "string \<Rightarrow> IPCRequest fallible"
  svc_encode :: "IPCResponse \<Rightarrow> string fallible"

definition service_Status :: "('e, 'w) service \<Rightarrow> 'e Manager \<times> 'w \<Rightarrow> full_status \<times> 'w" where
  "service_Status sv = (\<lambda>(manager, w).
     let (channels, w) =
           (case svc_channels sv of None \<Rightarrow> (None, w) | Some status \<Rightarrow> (let (s, w) = status w in (Some s, w)));
         (status, w) = Manager_Status (svc_manager sv) (manager, w)
     in ((status, channels), w))"

text \<open>An action that is refused, and one that answers with a subscription status.\<close>

definition action_refused ::
  "('e, 'w) service \<Rightarrow> string \<Rightarrow> 'e Manager \<times> 'w \<Rightarrow>
   (full_status \<times> MihomoAppStatus option \<times> error) \<times> 'e Manager \<times> 'w" where
  "action_refused sv message = (\<lambda>(manager, w).
     let (status, w) = service_Status sv (manager, w) in ((status, None, Some (ErrorNew message)), manager, w))"

definition mihomo_answer ::
  "('e, 'w) service \<Rightarrow> (MihomoAppStatus \<times> error) \<times> 'e Manager \<times> 'w \<Rightarrow>
   (full_status \<times> MihomoAppStatus option \<times> error) \<times> 'e Manager \<times> 'w" where
  "mihomo_answer sv = (\<lambda>((app, err), manager, w).
     let (status, w) = service_Status sv (manager, w) in ((status, Some app, err), manager, w))"

text \<open>
  \<open>Connect\<close> ends with \<open>manager.Status()\<close>, which carries the channel controls (they are a copy of what
  the channel manager holds, so it does not matter that the clock is read before them here);
  \<open>Disconnect\<close> returns the bare state.
\<close>

definition connect_action ::
  "('e, 'w) service \<Rightarrow> ConnectInput \<Rightarrow> 'e Manager \<times> 'w \<Rightarrow>
   (full_status \<times> MihomoAppStatus option \<times> error) \<times> 'e Manager \<times> 'w" where
  "connect_action sv input s =
     (let ((status, err), manager, w) = Manager_Connect (svc_manager sv) input s;
          (channels, w) =
            (case svc_channels sv of None \<Rightarrow> (None, w) | Some status \<Rightarrow> (let (s, w) = status w in (Some s, w)))
      in (((status, channels), None, err), manager, w))"

definition runIPCAction ::
  "('e, 'w) service \<Rightarrow> IPCRequest \<Rightarrow> 'e Manager \<times> 'w \<Rightarrow>
   (full_status \<times> MihomoAppStatus option \<times> error) \<times> 'e Manager \<times> 'w" where
  "runIPCAction sv request s =
     (let env = svc_manager sv; action = irq_Action request;
          none = irq_Connect request = None \<and> irq_Mihomo request = None
      in if action = ''status'' then
           if \<not> none then action_refused sv ''status request cannot include parameters'' s
           else (let (status, w) = service_Status sv s in ((status, None, None), fst s, w))
         else if action = ''connect'' then
           (case (irq_Connect request, irq_Mihomo request) of
              (Some input, None) \<Rightarrow> connect_action sv input s
            | _ \<Rightarrow> action_refused sv ''connect parameters are required'' s)
         else if action = ''disconnect'' then
           if \<not> none then action_refused sv ''disconnect request cannot include parameters'' s
           else (let ((status, err), manager, w) = Manager_Disconnect env s in (((status, None), None, err), manager, w))
         else if action = ''mihomo_status'' then
           if \<not> none then action_refused sv ''mihomo status request cannot include parameters'' s
           else mihomo_answer sv (Manager_MihomoAppStatus env (fst s), s)
         else if action = ''mihomo_configure'' then
           (case (irq_Connect request, irq_Mihomo request) of
              (None, Some input) \<Rightarrow>
                if mai_SubscriptionURL input = [] \<or> mai_SelectedProxy input \<noteq> []
                then action_refused sv ''mihomo subscription parameters are required'' s
                else mihomo_answer sv (Manager_ConfigureMihomoApp env (mai_SubscriptionURL input) s)
            | _ \<Rightarrow> action_refused sv ''mihomo subscription parameters are required'' s)
         else if action = ''mihomo_select'' then
           (case (irq_Connect request, irq_Mihomo request) of
              (None, Some input) \<Rightarrow>
                if mai_SubscriptionURL input \<noteq> [] \<or> mai_SelectedProxy input = []
                then action_refused sv ''mihomo selection parameters are required'' s
                else mihomo_answer sv (Manager_SelectMihomoApp env (mai_SelectedProxy input) s)
            | _ \<Rightarrow> action_refused sv ''mihomo selection parameters are required'' s)
         else if action = ''mihomo_refresh'' then
           if \<not> none then action_refused sv ''mihomo refresh request cannot include parameters'' s
           else mihomo_answer sv (Manager_RefreshMihomoApp env s)
         else if action = ''mihomo_clear'' then
           if \<not> none then action_refused sv ''mihomo clear request cannot include parameters'' s
           else mihomo_answer sv (Manager_ClearMihomoApp env s)
         else action_refused sv ''IPC action is not supported'' s)"

definition absent_admission :: AdmissionStatus where
  "absent_admission =
     \<lparr>ads_Supported = False, ads_Profiles = [], ads_Adapters = [], ads_ValidUntil = zero_time,
      ads_CertificateUntil = zero_time, ads_Diagnostic = []\<rparr>"

text \<open>The guarded operation of an admission action; \<open>Inl\<close> is an action that is refused before it.\<close>

definition admission_operation ::
  "'w admission_service \<Rightarrow> IPCRequest \<Rightarrow> ('w \<Rightarrow> error \<times> 'w) fallible" where
  "admission_operation admission request =
     (let action = irq_Action request; input = irq_Admission request
      in if action = ''admission_status'' then
           if input \<noteq> None then Inl (ErrorNew ''EAP status has no parameters'') else Inr (\<lambda>w. (None, w))
         else if action = ''admission_prepare'' then
           (case input of
              Some input \<Rightarrow>
                if \<not> identifierPattern (adi_ProfileID input) \<or> adi_AdapterID input = [] \<or> length (adi_AdapterID input) > 128
                then Inl (ErrorNew ''EAP selection is invalid'') else Inr (asv_Prepare admission input)
            | None \<Rightarrow> Inl (ErrorNew ''EAP selection is invalid''))
         else if action = ''admission_check'' then
           if input \<noteq> None then Inl (ErrorNew ''EAP readback has no parameters'') else Inr (asv_Check admission)
         else if action = ''admission_connect'' \<or> action = ''admission_remove'' then
           (case input of
              Some input \<Rightarrow>
                if \<not> identifierPattern (adi_ProfileID input) \<or> adi_AdapterID input \<noteq> []
                then Inl (ErrorNew ''EAP profile reference is invalid'')
                else if action = ''admission_connect'' then Inr (asv_Connect admission (adi_ProfileID input))
                else Inr (asv_Remove admission (adi_ProfileID input))
            | None \<Rightarrow> Inl (ErrorNew ''EAP profile reference is invalid''))
         else Inl (ErrorNew ''EAP action is unsupported''))"

definition runAdmissionIPCAction ::
  "('e, 'w) service \<Rightarrow> IPCRequest \<Rightarrow> 'w \<Rightarrow> (AdmissionStatus option \<times> error) \<times> 'w" where
  "runAdmissionIPCAction sv request w =
     (if irq_Connect request \<noteq> None \<or> irq_Mihomo request \<noteq> None
      then ((None, Some (ErrorNew ''EAP action has unrelated parameters'')), w)
      else case svc_admission sv of
             None \<Rightarrow>
               ((Some absent_admission,
                 if irq_Action request = ''admission_status'' \<and> irq_Admission request = None then None
                 else Some (ErrorNew ''EAP is unavailable in this service build'')), w)
           | Some admission \<Rightarrow>
               (case admission_operation admission request of
                  Inl err \<Rightarrow> ((None, Some err), w)
                | Inr operation \<Rightarrow>
                    let (err, w) = operation w; ((status, statusErr), w) = asv_Status admission w
                    in ((Some status, errors_join [err, statusErr]), w)))"

text \<open>The state of the service: the manager and the observer of the desktop application.\<close>

record 'e service_state =
  srs_manager :: "'e Manager"
  srs_ui :: "UIProcessPresence option"

definition on_manager ::
  "('e Manager \<times> 'w \<Rightarrow> 'r \<times> 'e Manager \<times> 'w) \<Rightarrow> 'e service_state \<times> 'w \<Rightarrow> 'r \<times> 'e service_state \<times> 'w" where
  "on_manager operation = (\<lambda>(s, w).
     let (result, manager, w) = operation (srs_manager s, w) in (result, s\<lparr>srs_manager := manager\<rparr>, w))"

text \<open>The dispatch of \<open>serveIPCConnection\<close> for a request with a valid envelope.\<close>

definition ui_action ::
  "('e, 'w) service \<Rightarrow> IPCRequest \<Rightarrow> 'e service_state \<times> 'w \<Rightarrow> error \<times> 'e service_state \<times> 'w" where
  "ui_action sv request = (\<lambda>(s, w).
     if irq_Connect request \<noteq> None \<or> irq_Mihomo request \<noteq> None \<or> irq_Admission request \<noteq> None
     then (Some (ErrorNew ''UI presence cannot include renderer parameters''), s, w)
     else
       let (now, w) = me_now (svc_manager sv) w;
           (err, ui, w) = UIPresence_Observe (svc_verify_ui sv) now (srs_ui s, w)
       in (err, s\<lparr>srs_ui := ui\<rparr>, w))"

definition dispatch ::
  "('e, 'w) service \<Rightarrow> IPCRequest \<Rightarrow> IPCResponse \<Rightarrow> 'e service_state \<times> 'w \<Rightarrow>
   (IPCResponse \<times> error) \<times> 'e service_state \<times> 'w" where
  "dispatch sv request response s =
     (if irq_Action request = ''ui_presence'' then
        (let (err, s, w) = ui_action sv request s in ((response, err), s, w))
      else if has_prefix (irq_Action request) ''admission_'' then
        (let ((admission, err), w) = runAdmissionIPCAction sv request (snd s)
         in ((response\<lparr>irs_Admission := admission\<rparr>, err), fst s, w))
      else if irq_Admission request \<noteq> None then
        ((response, Some (ErrorNew ''admission parameters require an admission action'')), s)
      else
        (let ((status, app, err), s, w) = on_manager (runIPCAction sv request) s
         in ((response\<lparr>irs_Status := fst status, irs_ChannelControls := snd status, irs_Mihomo := app\<rparr>, err), s, w)))"

text \<open>What \<open>serveIPCConnection\<close> answers to the text it received, before the answer is encoded.\<close>

definition conclude :: "IPCResponse \<Rightarrow> error \<Rightarrow> IPCResponse" where
  "conclude response err =
     (if err = None then response\<lparr>irs_OK := True\<rparr>
      else if irs_RequestID response = []
      then response\<lparr>irs_ErrorCode := ''invalid_request'', irs_ErrorMessage := ''IPC request is invalid''\<rparr>
      else response\<lparr>irs_ErrorCode := ''operation_failed'', irs_ErrorMessage := ''Network operation failed''\<rparr>)"

definition answer_request ::
  "('e, 'w) service \<Rightarrow> string \<Rightarrow> 'e service_state \<times> 'w \<Rightarrow> IPCResponse \<times> 'e service_state \<times> 'w" where
  "answer_request sv stream = (\<lambda>(s, w).
     let ((status, channels), w) = service_Status sv (srs_manager s, w);
         response = \<lparr>irs_Version = IPCVersion, irs_RequestID = [], irs_OK = False, irs_Status = status,
                     irs_ChannelControls = channels, irs_Mihomo = None, irs_Admission = None,
                     irs_ErrorCode = [], irs_ErrorMessage = []\<rparr>
     in case fst (readIPCFrame stream) of
          Inl err \<Rightarrow> (conclude response (Some err), s, w)
        | Inr raw \<Rightarrow>
            (case svc_decode sv raw of
               Inl err \<Rightarrow> (conclude response (Some err), s, w)
             | Inr request \<Rightarrow>
                 let response = response\<lparr>irs_RequestID := irq_RequestID request\<rparr>
                 in if irq_Version request \<noteq> IPCVersion \<or> \<not> identifierPattern (irq_RequestID request)
                    then (conclude response (Some (ErrorNew ''invalid IPC envelope'')), s, w)
                    else
                      let ((response, err), s, w) = dispatch sv request response (s, w)
                      in (conclude response err, s, w)))"

text \<open>The text that is sent back: errors of encoding and of writing are ignored.\<close>

definition serveIPCConnection ::
  "('e, 'w) service \<Rightarrow> string \<Rightarrow> 'e service_state \<times> 'w \<Rightarrow> string \<times> 'e service_state \<times> 'w" where
  "serveIPCConnection sv stream s =
     (let (response, s) = answer_request sv stream s
      in ((case svc_encode sv response of
             Inl _ \<Rightarrow> []
           | Inr encoded \<Rightarrow> (case ipc_frame encoded of Inl _ \<Rightarrow> [] | Inr frame \<Rightarrow> frame)), s))"

subsection \<open>The client\<close>

text \<open>
  \<open>dialIPC\<close>, the two directions of the connection, \<open>randomID\<close>, JSON, and \<open>ValidChannel\<close> of the
  package \<open>endpointcontrol\<close>. \<open>icn_IsAbs\<close>, \<open>icn_Base\<close> and \<open>icn_Ext\<close> are the functions of \<open>path/filepath\<close>.
\<close>

record 'w ipc_connection =
  icn_dial :: "'w \<Rightarrow> error \<times> 'w"
  icn_write :: "string \<Rightarrow> 'w \<Rightarrow> error \<times> 'w"
  icn_read :: "'w \<Rightarrow> string \<times> 'w"
  icn_randomID :: "'w \<Rightarrow> string \<times> 'w"
  icn_encode :: "IPCRequest \<Rightarrow> string fallible"
  icn_decode :: "string \<Rightarrow> IPCResponse fallible"
  icn_ValidChannel :: "ec_Channel \<Rightarrow> bool"
  icn_IsAbs :: "string \<Rightarrow> bool"
  icn_Base :: "string \<Rightarrow> string"
  icn_Ext :: "string \<Rightarrow> string"

datatype call_error = IPCError string string | CallFailed go_error

definition validIPCChannelStatus :: "(ec_Channel \<Rightarrow> bool) \<Rightarrow> ChannelStatus option \<Rightarrow> bool" where
  "validIPCChannelStatus validChannel status =
     (case status of
        None \<Rightarrow> True
      | Some s \<Rightarrow>
          if chs_PolicyVersion s < 0 \<or> length (chs_Channels s) > 3 then False
          else if length (chs_Channels s) = 0 then time_IsZero (chs_LastObservedAt s)
          else all_fresh validChannel ech_Name [] (chs_Channels s) \<and> length (chs_Channels s) = 3)"

definition validIPCStatus :: "(ec_Channel \<Rightarrow> bool) \<Rightarrow> full_status \<Rightarrow> bool" where
  "validIPCStatus validChannel full =
     (let status = fst full;
          validMihomo = st_MihomoMode status = [] \<and> st_MihomoProfileID status = [] \<and> st_MihomoProfileRevision status = 0 \<or>
            st_MihomoMode status \<in> {''managed_follow'', ''app_subscription''} \<and>
            identifierPattern (st_MihomoProfileID status) \<and> st_MihomoProfileRevision status > 0
      in st_State status \<in> {StateDisconnected, StateConnecting, StateConnected, StateDegraded} \<and>
         identifierPattern (st_RuntimeID status) \<and> identifierPattern (st_DeviceID status) \<and>
         st_ConfigurationVersion status \<ge> 0 \<and> st_PolicyVersion status \<ge> 0 \<and> st_MihomoPolicyVersion status \<ge> 0 \<and>
         st_UptimeSeconds status \<ge> 0 \<and> validMihomo \<and> validIPCChannelStatus validChannel (snd full))"

definition validIPCMihomoStatus :: "MihomoAppStatus \<Rightarrow> bool" where
  "validIPCMihomoStatus status =
     (if mas_Mode status \<noteq> ''app_subscription'' \<or> \<not> identifierPattern (mas_ProfileID status) \<or>
         mas_ProfileRevision status < 1 \<or> length (mas_Proxies status) > 2048 then False
      else if \<not> mas_Configured status then mas_SelectedProxy status = [] \<and> length (mas_Proxies status) = 0
      else if \<not> validMihomoName (mas_SelectedProxy status) \<or> mas_SelectedProxy status \<notin> set (mas_Proxies status)
      then False
      else all_fresh validMihomoName id [] (mas_Proxies status) \<and> length (mas_Proxies status) > 0)"

definition profile_status_ok :: "'w ipc_connection \<Rightarrow> AdmissionProfileStatus \<Rightarrow> bool" where
  "profile_status_ok conn p \<longleftrightarrow>
     \<not> (\<not> identifierPattern (aps_ID p) \<or> \<not> identifierPattern (aps_SiteID p) \<or>
        aps_AccessMedium p \<noteq> ''wifi'' \<and> aps_AccessMedium p \<noteq> ''wired'' \<or> length (aps_SSID p) > 32 \<or>
        length (aps_AdapterID p) > 128 \<or>
        aps_State p \<notin> {''available'', ''installation_required'', ''activation_pending'', ''installed'', ''drift'',
                       ''authorization_expired''}) \<and>
     \<not> (aps_ArtifactPath p \<noteq> [] \<and>
        (\<not> icn_IsAbs conn (aps_ArtifactPath p) \<or> length (aps_ArtifactPath p) > 2048 \<or>
         \<not> has_prefix (icn_Base conn (aps_ArtifactPath p)) ''Soha-EAP-'' \<or>
         icn_Ext conn (aps_ArtifactPath p) \<noteq> ''.mobileconfig''))"

definition adapter_status_ok :: "EAPAdapter \<Rightarrow> bool" where
  "adapter_status_ok a \<longleftrightarrow>
     \<not> (ead_ID a = [] \<or> length (ead_ID a) > 128 \<or> ead_Name a = [] \<or> length (ead_Name a) > 128 \<or>
        length (ead_MACAddress a) > 32 \<or> ead_Medium a \<noteq> ''wifi'' \<and> ead_Medium a \<noteq> ''wired'' \<or>
        ead_EthernetPosition a < 0 \<or> ead_EthernetPosition a > 128)"

definition validIPCAdmissionStatus :: "'w ipc_connection \<Rightarrow> AdmissionStatus \<Rightarrow> bool" where
  "validIPCAdmissionStatus conn status =
     (if length (ads_Profiles status) > 64 \<or> length (ads_Adapters status) > 128 \<or> length (ads_Diagnostic status) > 128
      then False
      else all_fresh (profile_status_ok conn) aps_ID [] (ads_Profiles status) \<and>
           all_fresh adapter_status_ok ead_ID [] (ads_Adapters status))"

text \<open>
  What the three calls share: dial, send the request, read the answer. \<open>writing\<close> and \<open>reading\<close> wrap
  the errors of the two directions.
\<close>

definition ipc_exchange ::
  "'w ipc_connection \<Rightarrow> (go_error \<Rightarrow> go_error) \<Rightarrow> (go_error \<Rightarrow> go_error) \<Rightarrow> (string \<Rightarrow> IPCRequest) \<Rightarrow> 'w \<Rightarrow>
   (go_error + string \<times> string) \<times> 'w" where
  "ipc_exchange conn writing reading request w =
     (let (err, w) = icn_dial conn w
      in case err of
           Some err \<Rightarrow> (Inl err, w)
         | None \<Rightarrow>
             let (requestID, w) = icn_randomID conn w
             in case icn_encode conn (request requestID) of
                  Inl err \<Rightarrow> (Inl err, w)
                | Inr raw \<Rightarrow>
                    let (err, w) = writeIPCFrame (icn_write conn) raw w
                    in case err of
                         Some err \<Rightarrow> (Inl (writing err), w)
                       | None \<Rightarrow>
                           let (stream, w) = icn_read conn w
                           in (case fst (readIPCFrame stream) of
                                 Inl err \<Rightarrow> Inl (reading err) | Inr raw \<Rightarrow> Inr (requestID, raw), w))"

definition ipc_request :: "string \<Rightarrow> string \<Rightarrow> IPCRequest" where
  "ipc_request action requestID =
     \<lparr>irq_Version = IPCVersion, irq_RequestID = requestID, irq_Action = action, irq_Connect = None,
      irq_Mihomo = None, irq_Admission = None\<rparr>"

text \<open>
  The refusal of an answer with \<open>OK\<close> unset. In the calls below None stands for the zero value that the
  code returns beside an error.
\<close>

definition refusal :: "string \<Rightarrow> IPCResponse \<Rightarrow> call_error" where
  "refusal invalid response =
     (if irs_ErrorCode response = [] \<or> irs_ErrorMessage response = [] then CallFailed (ErrorNew invalid)
      else IPCError (irs_ErrorCode response) (irs_ErrorMessage response))"

definition CallIPC ::
  "'w ipc_connection \<Rightarrow> string \<Rightarrow> ConnectInput option \<Rightarrow> 'w \<Rightarrow> (full_status option \<times> call_error option) \<times> 'w" where
  "CallIPC conn action input w =
     (let (answer, w) = ipc_exchange conn (ErrWrap ''write endpoint IPC request: '') (ErrWrap ''read endpoint IPC response: '')
            (\<lambda>id. (ipc_request action id)\<lparr>irq_Connect := input\<rparr>) w
      in (case answer of
            Inl err \<Rightarrow> (None, Some (CallFailed err))
          | Inr (requestID, raw) \<Rightarrow>
              (case icn_decode conn raw of
                 Inl _ \<Rightarrow> (None, Some (CallFailed (ErrorNew ''endpoint IPC response is invalid'')))
               | Inr response \<Rightarrow>
                   let status = (irs_Status response, irs_ChannelControls response)
                   in if irs_Version response \<noteq> IPCVersion \<or> irs_RequestID response \<noteq> requestID \<or>
                         \<not> validIPCStatus (icn_ValidChannel conn) status \<or> irs_Mihomo response \<noteq> None \<or>
                         irs_Admission response \<noteq> None
                      then (None, Some (CallFailed (ErrorNew ''endpoint IPC response is invalid'')))
                      else if irs_OK response then (Some status, None)
                      else (case refusal ''endpoint IPC error response is invalid'' response of
                              CallFailed err \<Rightarrow> (None, Some (CallFailed err))
                            | refused \<Rightarrow> (Some status, Some refused))), w))"

definition CallMihomoIPC ::
  "'w ipc_connection \<Rightarrow> string \<Rightarrow> MihomoAppInput option \<Rightarrow> 'w \<Rightarrow> (MihomoAppStatus option \<times> call_error option) \<times> 'w" where
  "CallMihomoIPC conn action input w =
     (let (answer, w) = ipc_exchange conn (ErrWrap ''write endpoint IPC request: '') (ErrWrap ''read endpoint IPC response: '')
            (\<lambda>id. (ipc_request action id)\<lparr>irq_Mihomo := input\<rparr>) w;
          invalid = (None, Some (CallFailed (ErrorNew ''endpoint IPC response is invalid'')))
      in (case answer of
            Inl err \<Rightarrow> (None, Some (CallFailed err))
          | Inr (requestID, raw) \<Rightarrow>
              (case icn_decode conn raw of
                 Inl _ \<Rightarrow> invalid
               | Inr response \<Rightarrow>
                   (case irs_Mihomo response of
                      None \<Rightarrow> invalid
                    | Some app \<Rightarrow>
                        if irs_Version response \<noteq> IPCVersion \<or> irs_RequestID response \<noteq> requestID \<or>
                           \<not> validIPCStatus (icn_ValidChannel conn) (irs_Status response, irs_ChannelControls response) \<or>
                           \<not> validIPCMihomoStatus app \<or> irs_Admission response \<noteq> None
                        then invalid
                        else if irs_OK response then (Some app, None)
                        else (case refusal ''endpoint IPC error response is invalid'' response of
                                CallFailed err \<Rightarrow> (None, Some (CallFailed err))
                              | refused \<Rightarrow> (Some app, Some refused)))), w))"

definition CallAdmissionIPC ::
  "'w ipc_connection \<Rightarrow> string \<Rightarrow> AdmissionInput option \<Rightarrow> 'w \<Rightarrow> (AdmissionStatus option \<times> call_error option) \<times> 'w" where
  "CallAdmissionIPC conn action input w =
     (let (answer, w) = ipc_exchange conn id id (\<lambda>id. (ipc_request action id)\<lparr>irq_Admission := input\<rparr>) w;
          invalid = (None, Some (CallFailed (ErrorNew ''EAP IPC response is invalid'')))
      in (case answer of
            Inl err \<Rightarrow> (None, Some (CallFailed err))
          | Inr (requestID, raw) \<Rightarrow>
              (case icn_decode conn raw of
                 Inl _ \<Rightarrow> invalid
               | Inr response \<Rightarrow>
                   (case irs_Admission response of
                      None \<Rightarrow> invalid
                    | Some admission \<Rightarrow>
                        if irs_Version response \<noteq> IPCVersion \<or> irs_RequestID response \<noteq> requestID \<or>
                           \<not> validIPCStatus (icn_ValidChannel conn) (irs_Status response, irs_ChannelControls response) \<or>
                           irs_Mihomo response \<noteq> None \<or> \<not> validIPCAdmissionStatus conn admission
                        then invalid
                        else if irs_OK response then (Some admission, None)
                        else (case refusal ''EAP IPC error response is invalid'' response of
                                CallFailed err \<Rightarrow> (None, Some (CallFailed err))
                              | refused \<Rightarrow> (Some admission, Some refused)))), w))"

end
