(* ===== verification/Ipc_Safety.thy ===== *)
theory Ipc_Safety
  imports Ipc Presence_Safety
begin

unbundle bit_operations_syntax

text \<open>
  What holds of the protocol: frames are read back exactly as they were written, and a call of the
  desktop application has the effect and the answer of the operation itself; then a defect, the loss of
  the reason why an action of the app subscription failed.
\<close>

subsection \<open>Frames\<close>

lemma word_of_byte_of: "word_of (byte_of v) = take_bit 8 v"
proof -
  have "word_of (byte_of v) = word_of_nat (take_bit 8 (unat v))"
    by (simp add: word_of_def byte_of_def take_bit_eq_mod)
  also have "\<dots> = take_bit 8 v"
    by (rule bit_word_eqI) (simp add: bit_simps conj_commute)
  finally show ?thesis .
qed

lemma unat_word_of [simp]: "unat (word_of c) = of_char c"
proof -
  have "(of_char c :: nat) < 2 ^ 32" by (rule less_trans [OF nat_of_char_less_256]) simp
  then show ?thesis unfolding word_of_def by (simp add: unsigned_of_nat take_bit_nat_eq_self)
qed

lemma byte_of_word_of [simp]: "byte_of (word_of c) = c"
  by (simp add: byte_of_def)

lemma byte_of_take_bit: "byte_of (take_bit 8 v) = byte_of v"
  by (simp only: byte_of_def unsigned_take_bit_eq) (simp add: take_bit_eq_mod)

lemma take_bit_word_of [simp]: "take_bit 8 (word_of c) = word_of c"
  using word_of_byte_of [of "word_of c"] by simp

lemma Uint32_Put: "Uint32 (PutUint32 v) = v"
proof (rule bit_word_eqI)
  fix n assume "n < LENGTH(32)"
  then consider "n < 8" | "8 \<le> n" "n < 16" | "16 \<le> n" "n < 24" | "24 \<le> n" "n < 32" by fastforce
  then show "bit (Uint32 (PutUint32 v)) n = bit v n"
    by cases (auto simp: Uint32_def PutUint32_def word_of_byte_of bit_simps)
qed

lemma bit_word_of: "bit (word_of c) n \<Longrightarrow> n < 8"
  by (metis bit_take_bit_iff take_bit_word_of)

lemma Put_Uint32:
  assumes "length b = 4"
  shows "PutUint32 (Uint32 b) = b"
proof -
  from assms obtain c0 c1 c2 c3 where b: "b = [c0, c1, c2, c3]"
    by (auto simp: numeral_eq_Suc length_Suc_conv)
  have "bit (word_of c) k = (k < 8 \<and> bit (of_char c :: nat) k)" for c k
    using bit_word_of [of c k] by (auto simp: word_of_def bit_simps)
  then have "take_bit 8 (drop_bit 24 (Uint32 b)) = word_of c0" "take_bit 8 (drop_bit 16 (Uint32 b)) = word_of c1"
    "take_bit 8 (drop_bit 8 (Uint32 b)) = word_of c2" "take_bit 8 (Uint32 b) = word_of c3"
    by (auto simp: b Uint32_def bit_simps intro!: bit_word_eqI simp del: take_bit_or)
  then have "byte_of (drop_bit 24 (Uint32 b)) = c0" "byte_of (drop_bit 16 (Uint32 b)) = c1"
    "byte_of (drop_bit 8 (Uint32 b)) = c2" "byte_of (Uint32 b) = c3"
    by (metis byte_of_take_bit byte_of_word_of)+
  then show ?thesis by (simp add: PutUint32_def b)
qed

lemma frame_read:
  assumes "ipc_frame payload = Inr frame"
  shows "readIPCFrame (frame @ rest) = (Inr payload, rest)"
proof -
  let ?n = "word_of_nat (length payload) :: 32 word"
  from assms have n: "0 < length payload" "length payload \<le> 131072" and f: "frame = PutUint32 ?n @ payload"
    by (auto simp: ipc_frame_def maxIPCMessageBytes_def split: if_splits)
  from n have u: "unat ?n = length payload" by (simp add: unsigned_of_nat take_bit_nat_eq_self)
  have "io_ReadFull 4 (frame @ rest) = (Inr (PutUint32 ?n), payload @ rest)" by (simp add: f io_ReadFull_def PutUint32_def)
  moreover have "?n \<noteq> 0" "\<not> ?n > word_of_nat maxIPCMessageBytes"
    using n u by (auto simp: word_less_nat_alt maxIPCMessageBytes_def)
  ultimately show ?thesis by (simp add: readIPCFrame_def Uint32_Put u io_ReadFull_def)
qed

lemma read_framed:
  assumes "readIPCFrame stream = (Inr payload, rest)"
  shows "\<exists>frame. ipc_frame payload = Inr frame \<and> stream = frame @ rest"
proof -
  let ?n = "Uint32 (take 4 stream)"
  from assms have four: "4 \<le> length stream"
    by (auto simp: readIPCFrame_def io_ReadFull_def split: if_splits)
  with assms have n: "?n \<noteq> 0" "unat ?n \<le> 131072" and p: "payload = take (unat ?n) (drop 4 stream)"
    "rest = drop (unat ?n) (drop 4 stream)" "unat ?n \<le> length stream - 4"
    by (auto simp: readIPCFrame_def Let_def io_ReadFull_def maxIPCMessageBytes_def word_less_nat_alt not_less split: if_splits)
  from p have len: "length payload = unat ?n" by simp
  with n have "ipc_frame payload = Inr (PutUint32 ?n @ payload)"
    by (simp add: ipc_frame_def maxIPCMessageBytes_def unat_eq_0)
  moreover have "PutUint32 ?n = take 4 stream" using four by (simp add: Put_Uint32)
  moreover have "take 4 stream @ payload @ rest = stream" unfolding p by (simp only: append_take_drop_id)
  ultimately show ?thesis by (intro exI [of _ "PutUint32 ?n @ payload"]) simp
qed

text \<open>C32: reading a frame is the exact inverse of writing it, on every stream. A message is read from a
  stream if and only if the stream begins with the frame that is written for the message, and
  what is left is what followed the frame; so no message is ever cut, joined or read beyond 128 KiB.\<close>

theorem frame_roundtrip:
  "readIPCFrame stream = (Inr payload, rest) \<longleftrightarrow> (\<exists>frame. ipc_frame payload = Inr frame \<and> stream = frame @ rest)"
  using frame_read read_framed by blast

subsection \<open>Calls\<close>

text \<open>
  The connection of a client to the service itself: the world of the client is the state of the
  service with what it last sent back.
\<close>

definition to_service ::
  "('e, 'w) service \<Rightarrow> string \<Rightarrow> (IPCRequest \<Rightarrow> string fallible) \<Rightarrow> (string \<Rightarrow> IPCResponse fallible) \<Rightarrow> (ec_Channel \<Rightarrow> bool) \<Rightarrow>
   ('e service_state \<times> 'w \<times> string) ipc_connection" where
  "to_service sv requestID encode decode validChannel =
     \<lparr>icn_dial = (\<lambda>w. (None, w)),
      icn_write = (\<lambda>frame (s, w, _). let (out, s, w) = serveIPCConnection sv frame (s, w) in (None, s, w, out)),
      icn_read = (\<lambda>(s, w, out). (out, s, w, [])), icn_randomID = (\<lambda>w. (requestID, w)),
      icn_encode = encode, icn_decode = decode, icn_ValidChannel = validChannel,
      icn_IsAbs = (\<lambda>path. has_prefix path ''/''), icn_Base = id, icn_Ext = id\<rparr>"

text \<open>A value that JSON carries over the connection: it is encoded within the limit and decoded unchanged.\<close>

definition carried :: "('a \<Rightarrow> string fallible) \<Rightarrow> (string \<Rightarrow> 'a fallible) \<Rightarrow> 'a \<Rightarrow> bool" where
  "carried encode decode x \<longleftrightarrow>
     (\<exists>raw. encode x = Inr raw \<and> decode raw = Inr x \<and> 0 < length raw \<and> length raw \<le> maxIPCMessageBytes)"

lemma carriedE:
  assumes "carried encode decode x"
  obtains raw frame where "encode x = Inr raw" "decode raw = Inr x" "ipc_frame raw = Inr frame"
  using assms by (auto simp: carried_def ipc_frame_def)

lemma frame_nonempty: "ipc_frame raw = Inr frame \<Longrightarrow> readIPCFrame frame = (Inr raw, [])"
  using frame_read [of raw frame "[]"] by simp

text \<open>A call writes the request, the service answers it, and the client reads that answer.\<close>

lemma exchange_to_service:
  assumes "carried encode (svc_decode sv) (request requestID)"
    and "\<And>frame raw. encode (request requestID) = Inr raw \<Longrightarrow> ipc_frame raw = Inr frame \<Longrightarrow>
      answer_request sv frame (s, w) = (response, s', w')"
    and "carried (svc_encode sv) decode response"
  shows "\<exists>raw. ipc_exchange (to_service sv requestID encode decode vc) writing reading request (s, w, out) =
    (Inr (requestID, raw), s', w', []) \<and> decode raw = Inr response"
proof -
  obtain raw frame where q: "encode (request requestID) = Inr raw" "ipc_frame raw = Inr frame"
    using assms(1) by (rule carriedE)
  obtain raw' frame' where r: "svc_encode sv response = Inr raw'" "decode raw' = Inr response" "ipc_frame raw' = Inr frame'"
    using assms(3) by (rule carriedE)
  have "serveIPCConnection sv frame (s, w) = (frame', s', w')"
    by (simp add: serveIPCConnection_def assms(2) [OF q] r)
  with q r(2) frame_nonempty [OF r(3)] show ?thesis
    by (simp add: ipc_exchange_def to_service_def writeIPCFrame_def)
qed

definition call_response :: "string \<Rightarrow> full_status \<Rightarrow> MihomoAppStatus option \<Rightarrow> error \<Rightarrow> IPCResponse" where
  "call_response requestID status app err =
     conclude \<lparr>irs_Version = IPCVersion, irs_RequestID = requestID, irs_OK = False, irs_Status = fst status,
       irs_ChannelControls = snd status, irs_Mihomo = app, irs_Admission = None, irs_ErrorCode = [], irs_ErrorMessage = []\<rparr> err"

lemma answer_action:
  assumes "svc_decode sv raw = Inr request" "ipc_frame raw = Inr frame"
    and "irq_Version request = IPCVersion" "identifierPattern (irq_RequestID request)" "irq_Admission request = None"
    and "irq_Action request \<noteq> ''ui_presence''" "\<not> has_prefix (irq_Action request) ''admission_''"
    and "service_Status sv (srs_manager s, w) = (first, w1)"
    and "runIPCAction sv request (srs_manager s, w1) = ((status, app, err), m', w')"
  shows "answer_request sv frame (s, w) = (call_response (irq_RequestID request) status app err, s\<lparr>srs_manager := m'\<rparr>, w')"
  using assms(1,3-9) frame_nonempty [OF assms(2)]
  by (cases first) (simp add: answer_request_def dispatch_def on_manager_def call_response_def)

definition vpn_request :: "string \<Rightarrow> ConnectInput option \<Rightarrow> string \<Rightarrow> IPCRequest" where
  "vpn_request action input = (\<lambda>id. (ipc_request action id)\<lparr>irq_Connect := input\<rparr>)"


definition ipc_service :: "IPCRequest \<Rightarrow> (unit, string) service" where
  "ipc_service request = \<lparr>svc_manager = restart_env empty_floor, svc_channels = None, svc_admission = None,
     svc_verify_ui = None, svc_decode = (\<lambda>_. Inr request), svc_encode = (\<lambda>_. Inr ''r'')\<rparr>"

lemma carried_const: "carried (\<lambda>_. Inr ''r'') (\<lambda>_. Inr x) x"
  by (simp add: carried_def maxIPCMessageBytes_def)


subsection \<open>A reason that is lost\<close>

text \<open>The desktop application never learns why the app subscription is unavailable. Where the executor has no
  configuration for an app subscription, the service answers a status call with the code
  operation\_failed and with the zero status of the executor; the client checks the status before it looks at
  the code, and reports an invalid response instead of the refusal.\<close>

theorem subscription_refusal_lost:
  assumes "me_App (svc_manager sv) = Some coordinator"
    and "coordinator = Coordinated_app_interface cenv"
    and "mihomoAppConfiguration cenv (mg_executor (srs_manager s)) = Inl err"
    and "identifierPattern requestID" "service_Status sv (srs_manager s, w) = (first, w1)"
    and "service_Status sv (srs_manager s, w1) = (status, w')"
    and "carried encode (svc_decode sv) (ipc_request ''mihomo_status'' requestID)"
    and "carried (svc_encode sv) decode (call_response requestID status (Some empty_MihomoAppStatus) (Some err))"
  shows "irs_ErrorCode (call_response requestID status (Some empty_MihomoAppStatus) (Some err)) = ''operation_failed'' \<and>
    CallMihomoIPC (to_service sv requestID encode decode vc) ''mihomo_status'' None (s, w, out) =
      ((None, Some (CallFailed (ErrorNew ''endpoint IPC response is invalid''))), s, w', [])"
proof -
  let ?request = "ipc_request ''mihomo_status'' requestID"
  let ?response = "call_response requestID status (Some empty_MihomoAppStatus) (Some err)"
  have run: "runIPCAction sv ?request (srs_manager s, w1) = ((status, Some empty_MihomoAppStatus, Some err), srs_manager s, w')"
    using assms(1-3,6)
    by (simp add: runIPCAction_def ipc_request_def mihomo_answer_def Manager_MihomoAppStatus_def Coordinated_MihomoAppStatus_def
        Coordinated_app_interface_def)
  have ans: "answer_request sv frame (s, w) = (?response, s, w')" if "encode ?request = Inr raw" "ipc_frame raw = Inr frame" for raw frame
    using answer_action [of sv raw ?request frame s w first w1 status "Some empty_MihomoAppStatus" "Some err" "srs_manager s" w']
      that assms(4,5,7) run
    by (auto simp: carried_def ipc_request_def has_prefix_def)
  have "\<exists>raw. ipc_exchange (to_service sv requestID encode decode vc) (ErrWrap ''write endpoint IPC request: '')
      (ErrWrap ''read endpoint IPC response: '') (ipc_request ''mihomo_status'') (s, w, out) =
      (Inr (requestID, raw), s, w', []) \<and> decode raw = Inr ?response"
    by (rule exchange_to_service) (use assms(7,8) ans in simp_all)
  then obtain raw where e: "ipc_exchange (to_service sv requestID encode decode vc) (ErrWrap ''write endpoint IPC request: '')
      (ErrWrap ''read endpoint IPC response: '') (ipc_request ''mihomo_status'') (s, w, out) = (Inr (requestID, raw), s, w', [])"
    and d: "decode raw = Inr ?response" by blast
  have q: "(\<lambda>id. (ipc_request ''mihomo_status'' id)\<lparr>irq_Mihomo := None\<rparr>) = ipc_request ''mihomo_status''"
    by (rule ext) (simp add: ipc_request_def)
  have "irs_Mihomo ?response = Some empty_MihomoAppStatus" "irs_ErrorCode ?response = ''operation_failed''"
    using identifier_nonempty [OF assms(4)] by (simp_all add: call_response_def conclude_def)
  moreover have "\<not> validIPCMihomoStatus empty_MihomoAppStatus" by (simp add: validIPCMihomoStatus_def empty_MihomoAppStatus_def)
  moreover have "icn_decode (to_service sv requestID encode decode vc) = decode" by (simp add: to_service_def)
  ultimately show ?thesis by (simp add: CallMihomoIPC_def q e d)
qed

definition app_service :: "IPCRequest \<Rightarrow> (Executor CoordinatedExecutor, TunnelReadback) service" where
  "app_service request = \<lparr>svc_manager = sample_offline\<lparr>me_App := Some (Coordinated_app_interface (sample_env None))\<rparr>,
     svc_channels = None, svc_admission = None, svc_verify_ui = None, svc_decode = (\<lambda>_. Inr request), svc_encode = (\<lambda>_. Inr ''r'')\<rparr>"

lemma subscription_refusal_lost_witness:
  "\<exists>response s w. CallMihomoIPC (to_service (app_service (ipc_request ''mihomo_status'' ''req-1'')) ''req-1''
      (\<lambda>_. Inr ''r'') (\<lambda>_. Inr response) (\<lambda>_. True)) ''mihomo_status'' None
      (\<lparr>srs_manager = sample_manager, srs_ui = None\<rparr>, empty_TunnelReadback, []) =
    ((None, Some (CallFailed (ErrorNew ''endpoint IPC response is invalid''))), s, w, [])"
proof -
  let ?q = "ipc_request ''mihomo_status'' ''req-1''"
  let ?sv = "app_service ?q"
  obtain first w1 where f: "service_Status ?sv (sample_manager, empty_TunnelReadback) = (first, w1)" by fastforce
  obtain status w' where f': "service_Status ?sv (sample_manager, w1) = (status, w')" by fastforce
  obtain err where c: "mihomoAppConfiguration (sample_env None) (mg_executor sample_manager) = Inl err"
  proof -
    have "isl (mihomoAppConfiguration (sample_env None) (mg_executor sample_manager))" by code_simp
    with that show ?thesis by (cases "mihomoAppConfiguration (sample_env None) (mg_executor sample_manager)") auto
  qed
  have i: "identifierPattern ''req-1''" by (simp add: char_class_defs identifier_char_def)
  have a: "me_App (svc_manager ?sv) = Some (Coordinated_app_interface (sample_env None))"
    "svc_decode ?sv = (\<lambda>_. Inr ?q)" "svc_encode ?sv = (\<lambda>_. Inr ''r'')"
    by (simp_all add: app_service_def)
  note lost = subscription_refusal_lost [of ?sv _ "sample_env None" "\<lparr>srs_manager = sample_manager, srs_ui = None\<rparr>",
      OF a(1) refl, of err "''req-1''" empty_TunnelReadback first w1 status w' "\<lambda>_. Inr ''r''"
        "\<lambda>_. Inr (call_response ''req-1'' status (Some empty_MihomoAppStatus) (Some err))" "\<lambda>_. True" "[]"]
  from c f f' i carried_const
  have "CallMihomoIPC (to_service ?sv ''req-1'' (\<lambda>_. Inr ''r'')
      (\<lambda>_. Inr (call_response ''req-1'' status (Some empty_MihomoAppStatus) (Some err))) (\<lambda>_. True)) ''mihomo_status'' None
      (\<lparr>srs_manager = sample_manager, srs_ui = None\<rparr>, empty_TunnelReadback, []) =
    ((None, Some (CallFailed (ErrorNew ''endpoint IPC response is invalid''))),
     \<lparr>srs_manager = sample_manager, srs_ui = None\<rparr>, w', [])"
    by (intro lost [THEN conjunct2]) (simp_all add: a carried_const)
  then show ?thesis by (intro exI)
qed

end
