(* ===== verification/Go_Http.thy ===== *)
theory Go_Http
  imports Service_Config
begin

text \<open>
  What the desktop shell uses of \<open>net/http\<close> and \<open>net/url\<close> beyond the earlier theories: headers, cookies as
  they are read, parsed and printed, queries, and the escaped path of a URL. A date of a cookie is the text
  that \<open>time.Parse\<close> and \<open>Format\<close> make of it, so those two are one parameter.
\<close>

subsection \<open>Headers\<close>

text \<open>An \<open>http.Header\<close> by canonical names.\<close>

type_synonym header = "string \<Rightarrow> string list"

definition header_empty :: header where
  "header_empty = (\<lambda>_. [])"

definition header_Get :: "header \<Rightarrow> string \<Rightarrow> string" where
  "header_Get h k = (case h k of [] \<Rightarrow> [] | v # _ \<Rightarrow> v)"

definition header_Set :: "string \<Rightarrow> string \<Rightarrow> header \<Rightarrow> header" where
  "header_Set k v h = h(k := [v])"

definition header_Add :: "string \<Rightarrow> string \<Rightarrow> header \<Rightarrow> header" where
  "header_Add k v h = h(k := h k @ [v])"

definition header_Del :: "string \<Rightarrow> header \<Rightarrow> header" where
  "header_Del k h = h(k := [])"

lemmas header_defs = header_Set_def header_Add_def header_Del_def

lemma header_Get_Set [simp]: "header_Get (header_Set k v h) k' = (if k' = k then v else header_Get h k')"
  by (simp add: header_Get_def header_Set_def)

lemma header_Get_Del [simp]: "header_Get (header_Del k h) k' = (if k' = k then [] else header_Get h k')"
  by (simp add: header_Get_def header_Del_def)

subsection \<open>Bytes of tokens and values\<close>

definition byte_of :: "char \<Rightarrow> nat" where
  "byte_of c = of_char c"

definition trim_ascii :: "string \<Rightarrow> string" where
  "trim_ascii s =
     (let space = (\<lambda>c. c \<in> {CHR '' '', CHR 0x09, CHR 0x0A, CHR 0x0D})
      in rev (dropWhile space (rev (dropWhile space s))))"

definition token_char :: "char \<Rightarrow> bool" where
  "token_char c \<longleftrightarrow> is_alnum c \<or> c \<in> set (''!#$%&*+-.^_`|~'' @ [CHR 0x27])"

definition isToken :: "string \<Rightarrow> bool" where
  "isToken v \<longleftrightarrow> v \<noteq> [] \<and> list_all token_char v"

definition validCookieValueByte :: "char \<Rightarrow> bool" where
  "validCookieValueByte c \<longleftrightarrow>
     32 \<le> byte_of c \<and> byte_of c < 127 \<and> c \<noteq> CHR 0x22 \<and> c \<noteq> CHR '';'' \<and> c \<noteq> CHR 0x5C"

definition validCookiePathByte :: "char \<Rightarrow> bool" where
  "validCookiePathByte c \<longleftrightarrow> 32 \<le> byte_of c \<and> byte_of c < 127 \<and> c \<noteq> CHR '';''"

definition ascii_printable :: "string \<Rightarrow> bool" where
  "ascii_printable s \<longleftrightarrow> list_all (\<lambda>c. 32 \<le> byte_of c \<and> byte_of c \<le> 126) s"

text \<open>The value, whether it was quoted, None for a value with a forbidden byte.\<close>

definition parseCookieValue :: "string \<Rightarrow> bool \<Rightarrow> (string \<times> bool) option" where
  "parseCookieValue raw allowDoubleQuote =
     (let quoted = allowDoubleQuote \<and> length raw > 1 \<and> hd raw = CHR 0x22 \<and> last raw = CHR 0x22;
          raw = (if quoted then butlast (tl raw) else raw)
      in if list_all validCookieValueByte raw then Some (raw, quoted) else None)"

subsection \<open>Cookies\<close>

datatype SameSite = SameSiteUnset | SameSiteDefaultMode | SameSiteLaxMode | SameSiteStrictMode | SameSiteNoneMode

text \<open>\<open>ck_Expires\<close> is the printed date, empty for the zero time.\<close>

record Cookie =
  ck_Name :: string
  ck_Value :: string
  ck_Quoted :: bool
  ck_Path :: string
  ck_Domain :: string
  ck_Expires :: string
  ck_MaxAge :: int
  ck_Secure :: bool
  ck_HttpOnly :: bool
  ck_SameSite :: SameSite
  ck_Partitioned :: bool

definition cookie_named :: "string \<Rightarrow> string \<Rightarrow> bool \<Rightarrow> Cookie" where
  "cookie_named name cookieValue quoted =
     \<lparr>ck_Name = name, ck_Value = cookieValue, ck_Quoted = quoted, ck_Path = [], ck_Domain = [], ck_Expires = [],
      ck_MaxAge = 0, ck_Secure = False, ck_HttpOnly = False, ck_SameSite = SameSiteUnset, ck_Partitioned = False\<rparr>"

text \<open>\<open>readCookies\<close> of a request, for one name (its limit of three thousand cookies is left out).\<close>

definition read_cookie_part :: "string \<Rightarrow> string \<Rightarrow> (string \<times> bool) option" where
  "read_cookie_part name part =
     (let part = trim_ascii part; (before, val, _) = cut_at (CHR ''='') part
      in if part = [] \<or> \<not> isToken (trim_ascii before) \<or> trim_ascii before \<noteq> name then None
         else parseCookieValue val True)"

definition readCookies :: "string list \<Rightarrow> string \<Rightarrow> string list" where
  "readCookies lines name =
     map fst (List.map_filter (read_cookie_part name) (concat (map (\<lambda>line. split_on (CHR '';'') (trim_ascii line)) lines)))"

text \<open>\<open>Request.Cookie\<close>: the value of the first cookie of the name.\<close>

definition request_Cookie :: "header \<Rightarrow> string \<Rightarrow> string option" where
  "request_Cookie h name = (case readCookies (h ''Cookie'') name of [] \<Rightarrow> None | v # _ \<Rightarrow> Some v)"

definition sanitizeCookieValue :: "string \<Rightarrow> bool \<Rightarrow> string" where
  "sanitizeCookieValue v quoted =
     (let v = filter validCookieValueByte v
      in if v = [] then [] else if contains_any v '' ,'' \<or> quoted then CHR 0x22 # v @ [CHR 0x22] else v)"

definition request_AddCookie :: "string \<Rightarrow> string \<Rightarrow> header \<Rightarrow> header" where
  "request_AddCookie name cookieValue h =
     (let s = name @ ''='' @ sanitizeCookieValue cookieValue False
      in if header_Get h ''Cookie'' \<noteq> [] then header_Set ''Cookie'' (header_Get h ''Cookie'' @ ''; '' @ s) h
         else header_Set ''Cookie'' s h)"

text \<open>One attribute of \<open>http.ParseSetCookie\<close>; \<open>dates\<close> reads a date and prints it again.\<close>

definition cookie_attribute :: "(string \<Rightarrow> string option) \<Rightarrow> Cookie \<Rightarrow> string \<Rightarrow> Cookie" where
  "cookie_attribute dates c part =
     (let part = trim_ascii part; (attr, val, _) = cut_at (CHR ''='') part
      in if part = [] \<or> \<not> ascii_printable attr then c
         else case parseCookieValue val False of
                None \<Rightarrow> c
              | Some (val, _) \<Rightarrow>
                  let attr = to_lower attr
                  in if attr = ''samesite'' then
                       c\<lparr>ck_SameSite :=
                           (if to_lower val = ''lax'' then SameSiteLaxMode
                            else if to_lower val = ''strict'' then SameSiteStrictMode
                            else if to_lower val = ''none'' then SameSiteNoneMode else SameSiteDefaultMode)\<rparr>
                     else if attr = ''secure'' then c\<lparr>ck_Secure := True\<rparr>
                     else if attr = ''httponly'' then c\<lparr>ck_HttpOnly := True\<rparr>
                     else if attr = ''domain'' then c\<lparr>ck_Domain := val\<rparr>
                     else if attr = ''max-age'' then
                       (case strconv_Atoi val of
                          None \<Rightarrow> c
                        | Some secs \<Rightarrow>
                            if secs \<noteq> 0 \<and> hd val = CHR ''0'' then c
                            else c\<lparr>ck_MaxAge := (if secs \<le> 0 then -1 else secs)\<rparr>)
                     else if attr = ''expires'' then c\<lparr>ck_Expires := (case dates val of None \<Rightarrow> [] | Some d \<Rightarrow> d)\<rparr>
                     else if attr = ''path'' then c\<lparr>ck_Path := val\<rparr>
                     else if attr = ''partitioned'' then c\<lparr>ck_Partitioned := True\<rparr>
                     else c)"

definition ParseSetCookie :: "(string \<Rightarrow> string option) \<Rightarrow> string \<Rightarrow> Cookie fallible" where
  "ParseSetCookie dates line =
     (case split_on (CHR '';'') (trim_ascii line) of
        [] \<Rightarrow> Inl (ErrorNew ''http: blank cookie'')
      | first # attributes \<Rightarrow>
          if attributes = [] \<and> first = [] then Inl (ErrorNew ''http: blank cookie'')
          else
            let (name, val, found) = cut_at (CHR ''='') (trim_ascii first)
            in if \<not> found then Inl (ErrorNew ''http: '=' not found in cookie'')
               else if \<not> isToken (trim_ascii name) then Inl (ErrorNew ''http: invalid cookie name'')
               else case parseCookieValue val True of
                      None \<Rightarrow> Inl (ErrorNew ''http: invalid cookie value'')
                    | Some (val, quoted) \<Rightarrow>
                        Inr (foldl (cookie_attribute dates) (cookie_named (trim_ascii name) val quoted) attributes))"

text \<open>\<open>Cookie.String\<close> for a cookie without a domain: every cookie that the code prints has none.\<close>

definition cookie_String :: "Cookie \<Rightarrow> string" where
  "cookie_String c =
     (if \<not> isToken (ck_Name c) then []
      else ck_Name c @ ''='' @ sanitizeCookieValue (ck_Value c) (ck_Quoted c)
        @ (if ck_Path c \<noteq> [] then ''; Path='' @ filter validCookiePathByte (ck_Path c) else [])
        @ (if ck_Expires c \<noteq> [] then ''; Expires='' @ ck_Expires c else [])
        @ (if ck_MaxAge c > 0 then ''; Max-Age='' @ string_of_int (ck_MaxAge c)
           else if ck_MaxAge c < 0 then ''; Max-Age=0'' else [])
        @ (if ck_HttpOnly c then ''; HttpOnly'' else [])
        @ (if ck_Secure c then ''; Secure'' else [])
        @ (case ck_SameSite c of
             SameSiteNoneMode \<Rightarrow> ''; SameSite=None''
           | SameSiteLaxMode \<Rightarrow> ''; SameSite=Lax''
           | SameSiteStrictMode \<Rightarrow> ''; SameSite=Strict''
           | _ \<Rightarrow> [])
        @ (if ck_Partitioned c then ''; Partitioned'' else []))"

subsection \<open>Queries and paths\<close>

fun query_unescape :: "string \<Rightarrow> string option" where
  "query_unescape [] = Some []"
| "query_unescape (c # s) =
     (if c = CHR ''%'' then
        (case s of
           a # b # rest \<Rightarrow>
             (if is_hex a \<and> is_hex b then map_option (Cons (char_of (hex_value a * 16 + hex_value b))) (query_unescape rest)
              else None)
         | _ \<Rightarrow> None)
      else map_option (Cons (if c = CHR ''+'' then CHR '' '' else c)) (query_unescape s))"

text \<open>\<open>url.ParseQuery\<close>: the pairs in their order; None for an error, with which the code drops them.\<close>

definition query_pair :: "string \<Rightarrow> (string \<times> string) option" where
  "query_pair part =
     (let (key, val, _) = cut_at (CHR ''='') part
      in if CHR '';'' \<in> set part then None
         else case (query_unescape key, query_unescape val) of (Some k, Some v) \<Rightarrow> Some (k, v) | _ \<Rightarrow> None)"

definition url_ParseQuery :: "string \<Rightarrow> (string \<times> string) list option" where
  "url_ParseQuery query =
     (let parts = filter (\<lambda>p. p \<noteq> []) (split_on (CHR ''&'') query)
      in if list_all (\<lambda>p. query_pair p \<noteq> None) parts then Some (List.map_filter query_pair parts) else None)"

definition query_values :: "(string \<times> string) list \<Rightarrow> string \<Rightarrow> string list" where
  "query_values q k = map snd (filter (\<lambda>(k', _). k' = k) q)"

text \<open>\<open>URL.EscapedPath\<close> with \<open>validEncoded\<close>.\<close>

definition validEncoded :: "string \<Rightarrow> bool" where
  "validEncoded s \<longleftrightarrow>
     list_all (\<lambda>c. c \<in> set (''!$&()*+,;=:@[]%'' @ [CHR 0x27]) \<or> \<not> shouldEscape EncodePath c) s"

definition url_EscapedPath :: "url \<Rightarrow> string" where
  "url_EscapedPath u =
     (if url_RawPath u \<noteq> [] \<and> validEncoded (url_RawPath u) \<and> unescape EncodePath (url_RawPath u) = Some (url_Path u)
      then url_RawPath u
      else if url_Path u = ''*'' then ''*'' else escape EncodePath (url_Path u))"

text \<open>\<open>URL.String\<close> for a URL with a scheme and a host, without user information and fragment.\<close>

definition URL_String :: "url \<Rightarrow> string" where
  "URL_String u =
     url_Scheme u @ ''://'' @ escape EncodeHost (url_Host u)
       @ (if url_EscapedPath u \<noteq> [] \<and> hd (url_EscapedPath u) \<noteq> CHR ''/'' then ''/'' else [])
       @ url_EscapedPath u
       @ (if url_ForceQuery u \<or> url_RawQuery u \<noteq> [] then ''?'' @ url_RawQuery u else [])"

text \<open>\<open>http.Request\<close> as the shell sees it, on both sides of the proxy; a body is None for a nil body.\<close>

record request =
  rq_Method :: string
  rq_URL :: url
  rq_Host :: string
  rq_Header :: header
  rq_Body :: "(string \<times> error) option"
  rq_RemoteAddr :: string

record response =
  rs_StatusCode :: int
  rs_Header :: header
  rs_Body :: "string \<times> error"

definition rq_Path :: "request \<Rightarrow> string" where
  "rq_Path r = url_Path (rq_URL r)"

definition read_body :: "nat \<Rightarrow> string \<times> error \<Rightarrow> string \<times> error" where
  "read_body n b = (if length (fst b) < n then b else (take n (fst b), None))"

end
