(* ===== verification/Shell_Config.thy ===== *)
theory Shell_Config
  imports Go_Http
begin

text \<open>
  The configuration of the desktop shell (\<open>config.go\<close> of the root package, the start of \<open>main.go\<close>): the
  saved server URL with the mark of a cleared session, the device identity, the normal form of a server
  URL. Files and JSON are interfaces; a decoder gives a value with the input that is left.
\<close>

subsection \<open>Files and decoders\<close>

text \<open>An open input: the bytes that can still be read, and the error after them.\<close>

type_synonym input_stream = "string \<times> error"
type_synonym 'a decoder = "input_stream \<Rightarrow> ('a \<times> input_stream) fallible"

definition EOF :: go_error where "EOF = ErrorNew ''EOF''"
definition ErrExist :: go_error where "ErrExist = ErrorNew ''file already exists''"

text \<open>\<open>io.LimitReader\<close>.\<close>

definition LimitReader :: "nat \<Rightarrow> input_stream \<Rightarrow> input_stream" where
  "LimitReader n s = (if length (fst s) < n then s else (take n (fst s), None))"

definition ensureJSONEOF :: "unit decoder \<Rightarrow> input_stream \<Rightarrow> error" where
  "ensureJSONEOF decode_any rest =
     (case decode_any rest of
        Inl err \<Rightarrow> if errors_is err EOF then None else Some (ErrWrap ''decode trailing app config data: '' err)
      | Inr _ \<Rightarrow> Some (ErrorNew ''app config contains multiple JSON values''))"

record 'w shell_files =
  shf_ReadFile :: "string \<Rightarrow> 'w \<Rightarrow> string fallible \<times> 'w"
  shf_Open :: "string \<Rightarrow> 'w \<Rightarrow> input_stream fallible \<times> 'w"
  shf_Dir :: "string \<Rightarrow> string"
  shf_MkdirAll :: "string \<Rightarrow> 'w \<Rightarrow> error \<times> 'w"
  shf_CreateTemp :: "string \<Rightarrow> 'w \<Rightarrow> string fallible \<times> 'w"
  shf_OpenExclusive :: "string \<Rightarrow> 'w \<Rightarrow> error \<times> 'w"
  shf_Chmod :: "string \<Rightarrow> 'w \<Rightarrow> error \<times> 'w"
  shf_Write :: "string \<Rightarrow> string \<Rightarrow> 'w \<Rightarrow> error \<times> 'w"
  shf_Sync :: "string \<Rightarrow> 'w \<Rightarrow> error \<times> 'w"
  shf_Close :: "string \<Rightarrow> 'w \<Rightarrow> error \<times> 'w"
  shf_Remove :: "string \<Rightarrow> 'w \<Rightarrow> error \<times> 'w"
  shf_replaceFile :: "string \<Rightarrow> string \<Rightarrow> 'w \<Rightarrow> error \<times> 'w"
  shf_syncDirectory :: "string \<Rightarrow> 'w \<Rightarrow> error \<times> 'w"

text \<open>
  A sequence of steps \<open>if err := step(); err != nil { return fmt.Errorf("...: %w", err) }\<close>: the message
  of the first step that fails, with its error.
\<close>

fun steps :: "(string \<times> ('w \<Rightarrow> error \<times> 'w)) list \<Rightarrow> 'w \<Rightarrow> error \<times> 'w" where
  "steps [] w = (None, w)"
| "steps ((message, act) # rest) w =
     (case act w of (Some err, w) \<Rightarrow> (Some (ErrWrap message err), w) | (None, w) \<Rightarrow> steps rest w)"

subsection \<open>The server URL\<close>

definition normalizeServerURL :: "string \<Rightarrow> string fallible" where
  "normalizeServerURL raw =
     (case url_Parse (trim_space raw) of
        None \<Rightarrow> Inl (ErrorNew ''server URL is invalid'')
      | Some parsed \<Rightarrow>
          if url_Scheme parsed \<noteq> ''http'' \<and> url_Scheme parsed \<noteq> ''https''
          then Inl (ErrorNew ''server URL must use HTTP or HTTPS'')
          else if url_Host parsed = [] \<or> url_Hostname parsed = []
          then Inl (ErrorNew ''server URL must include a host'')
          else if url_User parsed \<noteq> None \<or> url_RawQuery parsed \<noteq> [] \<or> url_ForceQuery parsed \<or> url_Fragment parsed \<noteq> []
          then Inl (ErrorNew ''server URL must not contain credentials, query, or fragment'')
          else if url_EscapedPath parsed \<noteq> [] \<and> url_EscapedPath parsed \<noteq> ''/''
          then Inl (ErrorNew ''server URL must not contain a path'')
          else if url_Port parsed \<noteq> [] \<and>
                  (case strconv_Atoi (url_Port parsed) of None \<Rightarrow> True | Some port \<Rightarrow> port < 1 \<or> port > 65535)
          then Inl (ErrorNew ''server URL contains an invalid port'')
          else if url_Scheme parsed = ''http'' \<and>
                  \<not> (case parseIP (url_Hostname parsed) of None \<Rightarrow> False | Some ip \<Rightarrow> addr_IsLoopback ip)
          then Inl (ErrorNew ''remote server URLs must use HTTPS'')
          else Inr (URL_String (parsed\<lparr>url_Path := [], url_RawPath := []\<rparr>)))"

text \<open>\<open>parseServerURL\<close> of \<open>proxy.go\<close>, the weaker check of an earlier configuration.\<close>

definition parseServerURL :: "string \<Rightarrow> url fallible" where
  "parseServerURL rawServerURL =
     (case url_Parse rawServerURL of
        None \<Rightarrow> Inl (ErrorNew (''invalid SOHA_SERVER_URL '' @ rawServerURL))
      | Some target \<Rightarrow>
          if url_Host target = [] \<or> url_Scheme target \<noteq> ''http'' \<and> url_Scheme target \<noteq> ''https''
          then Inl (ErrorNew (''invalid SOHA_SERVER_URL '' @ rawServerURL))
          else if url_User target \<noteq> None \<or> url_RawQuery target \<noteq> [] \<or> url_Fragment target \<noteq> []
          then Inl (ErrorNew ''SOHA_SERVER_URL must not contain credentials, query, or fragment'')
          else Inr target)"

subsection \<open>The configuration store\<close>

definition configVersion :: int where "configVersion = 1"
definition defaultServerURL :: string where "defaultServerURL = ''http://127.0.0.1:8080''"

record storedConfig =
  sc_Version :: int
  sc_ServerURL :: string
  sc_CredentialsBlocked :: bool

record config_codec =
  cc_Decode :: "storedConfig decoder"
  cc_DecodeAny :: "unit decoder"
  cc_MarshalIndent :: "storedConfig \<Rightarrow> string fallible"

definition configStore_Load ::
  "'w shell_files \<Rightarrow> config_codec \<Rightarrow> string \<Rightarrow> 'w \<Rightarrow> storedConfig fallible \<times> 'w" where
  "configStore_Load fs codec path w =
     (let (opened, w) = shf_Open fs path w
      in (case opened of
            Inl err \<Rightarrow> Inl err
          | Inr file \<Rightarrow>
              (case cc_Decode codec (LimitReader 4097 file) of
                 Inl err \<Rightarrow> Inl (ErrWrap ''decode app config: '' err)
               | Inr (config, rest) \<Rightarrow>
                   (case ensureJSONEOF (cc_DecodeAny codec) rest of
                      Some err \<Rightarrow> Inl err
                    | None \<Rightarrow>
                        if sc_Version config \<noteq> configVersion
                        then Inl (ErrorNew (''unsupported app config version '' @ string_of_int (sc_Version config)))
                        else (case normalizeServerURL (sc_ServerURL config) of
                                Inl err \<Rightarrow> Inl err
                              | Inr normalized \<Rightarrow> Inr (config\<lparr>sc_ServerURL := normalized\<rparr>)))), w))"

text \<open>Writing the temporary file: a failing step closes the file, and \<open>Save\<close> removes it at the end.\<close>

definition write_temporary :: "'w shell_files \<Rightarrow> string \<Rightarrow> string \<Rightarrow> 'w \<Rightarrow> error \<times> 'w" where
  "write_temporary fs temporaryPath payload w =
     (let (err, w) = steps
            [(''secure temporary app config: '', shf_Chmod fs temporaryPath),
             (''write temporary app config: '', shf_Write fs temporaryPath payload),
             (''sync temporary app config: '', shf_Sync fs temporaryPath)] w
      in if err \<noteq> None then (err, snd (shf_Close fs temporaryPath w))
         else steps [(''close temporary app config: '', shf_Close fs temporaryPath)] w)"

definition configStore_Save ::
  "'w shell_files \<Rightarrow> config_codec \<Rightarrow> string \<Rightarrow> string \<Rightarrow> bool \<Rightarrow> 'w \<Rightarrow> error \<times> 'w" where
  "configStore_Save fs codec path serverURL credentialsBlocked w =
     (case normalizeServerURL serverURL of
        Inl err \<Rightarrow> (Some err, w)
      | Inr normalized \<Rightarrow>
          (case cc_MarshalIndent codec
                  \<lparr>sc_Version = configVersion, sc_ServerURL = normalized, sc_CredentialsBlocked = credentialsBlocked\<rparr> of
             Inl err \<Rightarrow> (Some (ErrWrap ''encode app config: '' err), w)
           | Inr payload \<Rightarrow>
               let payload = payload @ [CHR 0x0A]; dir = shf_Dir fs path;
                   (err, w) = steps [(''create app config directory: '', shf_MkdirAll fs dir)] w
               in if err \<noteq> None then (err, w)
                  else
                    let (created, w) = shf_CreateTemp fs dir w
                    in case created of
                         Inl err \<Rightarrow> (Some (ErrWrap ''create temporary app config: '' err), w)
                       | Inr temporaryPath \<Rightarrow>
                           let (err, w) = write_temporary fs temporaryPath payload w;
                               (err, w) =
                                 (if err \<noteq> None then (err, w)
                                  else steps [(''replace app config: '', shf_replaceFile fs temporaryPath path)] w);
                               (err, w) = (if err \<noteq> None then (err, w) else shf_syncDirectory fs dir w)
                           in (err, snd (shf_Remove fs temporaryPath w))))"

subsection \<open>The start\<close>

text \<open>The result: server URL, managed by the environment, source, credentials blocked.\<close>

definition initialServerConfiguration ::
  "'w shell_files \<Rightarrow> config_codec \<Rightarrow> string \<Rightarrow> string \<Rightarrow> 'w \<Rightarrow> (string \<times> bool \<times> string \<times> bool) \<times> 'w" where
  "initialServerConfiguration fs codec path SOHA_SERVER_URL w =
     (let environmentURL = trim_space SOHA_SERVER_URL;
          (loaded, w) = configStore_Load fs codec path w
      in (if environmentURL \<noteq> [] then
            (let blocked = (case (normalizeServerURL environmentURL, loaded) of
                              (Inr normalized, Inr config) \<Rightarrow>
                                sc_ServerURL config = normalized \<and> sc_CredentialsBlocked config
                            | _ \<Rightarrow> False)
             in (environmentURL, True, ''environment'', blocked))
          else
            (case loaded of
               Inr config \<Rightarrow> (sc_ServerURL config, False, ''saved'', sc_CredentialsBlocked config)
             | Inl _ \<Rightarrow> (defaultServerURL, False, ''default'', False)), w))"

subsection \<open>The device identity\<close>

definition validDeviceID :: "string \<Rightarrow> bool" where
  "validDeviceID ident \<longleftrightarrow>
     \<not> (length ident = 0 \<or> length ident > 128) \<and>
     list_all (\<lambda>c. is_alnum c \<or> c = CHR ''.'' \<or> c = CHR '':'' \<or> c = CHR ''-'') ident \<and> is_alnum (hd ident)"

text \<open>What happens after the exclusive creation of the file: its contents, or its removal.\<close>

definition write_device_id :: "'w shell_files \<Rightarrow> string \<Rightarrow> string \<Rightarrow> 'w \<Rightarrow> string fallible \<times> 'w" where
  "write_device_id fs path ident w =
     (let (err, w) = steps
            [(''write device id: '', shf_Write fs path (ident @ [CHR 0x0A])),
             (''sync device id: '', shf_Sync fs path),
             (''close device id: '', shf_Close fs path),
             (''sync device id directory: '', shf_syncDirectory fs (shf_Dir fs path))] w;
          w = snd (shf_Close fs path w)
      in case err of
           Some err \<Rightarrow> (Inl err, snd (shf_Remove fs path w))
         | None \<Rightarrow> (Inr ident, w))"

text \<open>
  \<open>loadOrCreateDeviceID\<close> calls itself when the file appeared between the read and its exclusive creation;
  nothing bounds the calls, so not returning is the value None.
\<close>

partial_function (option) loadOrCreateDeviceID ::
  "'w shell_files \<Rightarrow> ('w \<Rightarrow> string fallible \<times> 'w) \<Rightarrow> string \<Rightarrow> 'w \<Rightarrow> (string fallible \<times> 'w) option" where
  "loadOrCreateDeviceID fs randomToken path w =
     (case shf_ReadFile fs path w of
        (Inr contents, w) \<Rightarrow>
          Some (if validDeviceID (trim_space contents) then Inr (trim_space contents)
                else Inl (ErrorNew ''saved device id is invalid''), w)
      | (Inl err, w) \<Rightarrow>
          (if \<not> errors_is err ErrNotExist then Some (Inl (ErrWrap ''read device id: '' err), w)
           else case randomToken w of
             (Inl err, w) \<Rightarrow> Some (Inl (ErrWrap ''generate device id: '' err), w)
           | (Inr token, w) \<Rightarrow>
               let ident = ''endpoint-'' @ map (\<lambda>c. if c = CHR ''_'' then CHR ''-'' else c) token
               in case shf_MkdirAll fs (shf_Dir fs path) w of
                    (Some err, w) \<Rightarrow> Some (Inl (ErrWrap ''create device id directory: '' err), w)
                  | (None, w) \<Rightarrow>
                      (case shf_OpenExclusive fs path w of
                         (Some err, w) \<Rightarrow>
                           (if errors_is err ErrExist then loadOrCreateDeviceID fs randomToken path w
                            else Some (Inl (ErrWrap ''create device id: '' err), w))
                       | (None, w) \<Rightarrow> Some (write_device_id fs path ident w))))"

end
