(* ===== verification/Session_Host.thy ===== *)
theory Session_Host
  imports Shell_Config "HOL-Library.AList"
begin

text \<open>
  The session host of the desktop shell (\<open>proxy.go\<close>, \<open>session_credentials.go\<close>): it answers the requests
  of the web view, proxies its API requests to the chosen server, keeps the refresh token of the session in
  the system's keyring, and switches servers. Keyring, HTTP transports, randomness, JSON, \<open>mime\<close> and
  the native actions are interfaces. A read or write under one lock, or of one atomic, is one step; where
  other requests can run in between, an operation takes what they do as an argument, or is split.
\<close>

subsection \<open>Constants\<close>

definition apiPrefix :: string where "apiPrefix = ''/api/v1''"
definition hostPrefix :: string where "hostPrefix = ''/app/v1''"
definition wailsRequestBodyHeader :: string where "wailsRequestBodyHeader = ''X-Soha-App-Body''"
definition maxWailsRequestBodySize :: nat where "maxWailsRequestBodySize = 65536"
definition connectionProbeMaxResponseSize :: nat where "connectionProbeMaxResponseSize = 1048576"
definition proxyJSONMaxRequestSize :: nat where "proxyJSONMaxRequestSize = 1048576"
definition desktopAuthMaxResponseBytes :: nat where "desktopAuthMaxResponseBytes = 1048576"

definition sessionKeyringService :: string where "sessionKeyringService = ''com.opensoha.app.session''"
definition refreshCookieName :: string where "refreshCookieName = ''soha_refresh_token''"
definition protocolAccessCookieName :: string where "protocolAccessCookieName = ''soha_protocol_access_token''"

definition errContractMismatch :: go_error where
  "errContractMismatch = ErrorNew ''server response contract mismatch''"

text \<open>\<open>keyring.ErrNotFound\<close>.\<close>

definition keyring_ErrNotFound :: go_error where
  "keyring_ErrNotFound = ErrorNew ''secret not found in keyring''"

subsection \<open>Data\<close>

datatype connectionStatus =
  connectionOnline | connectionNotReady | connectionOffline | connectionTLSError | connectionIncompatible

record connectionCheck =
  cn_Status :: connectionStatus
  cn_ServerURL :: string
  cn_Code :: string

record AppInfo =
  app_Name :: string
  app_Version :: string
  app_Platform :: string
  app_Arch :: string
  app_DeviceID :: string
  app_Hostname :: string
  app_DeviceType :: string
  app_LogDirectory :: string
  app_UpdateSupported :: bool
  app_UpdateState :: string

record hostState =
  st_ServerURL :: string
  st_ConfigurationSource :: string
  st_ManagedByEnvironment :: bool
  st_App :: AppInfo

text \<open>Decoded JSON; an object keeps its members in their order, repeated ones included.\<close>

datatype json =
  JNull | JBool bool | JNumber string | JString string | JArray "json list" | JObject "(string \<times> json) list"

text \<open>An answer to the web view; \<open>PBody\<close> is a body passed on as it is.\<close>

datatype answer_body =
    PError string string
  | PState hostState
  | PCheck connectionCheck
  | PPending string connectionCheck
  | PStatus string
  | PBody "string \<times> error"

record answer =
  an_Status :: int
  an_Header :: header
  an_Payload :: answer_body

text \<open>
  A \<open>*url.URL\<close>: the pointers are compared, so two targets with the same URL can differ.
\<close>

record target =
  tg_ref :: nat
  tg_url :: url

record 'w keyring =
  kr_Set :: "string \<Rightarrow> string \<Rightarrow> string \<Rightarrow> 'w \<Rightarrow> error \<times> 'w"
  kr_Get :: "string \<Rightarrow> string \<Rightarrow> 'w \<Rightarrow> string fallible \<times> 'w"
  kr_Delete :: "string \<Rightarrow> string \<Rightarrow> 'w \<Rightarrow> error \<times> 'w"

text \<open>
  The fields of \<open>appHost\<close> that do not change after the start, and the interfaces: \<open>ah_config\<close> is the
  \<open>Save\<close> of the configuration store, \<open>ah_tlsError\<close> tells the errors of certificates and TLS records,
  \<open>ah_dates\<close> reads and prints the date of a cookie.
\<close>

record 'w appHost =
  ah_locked :: bool
  ah_appInfo :: AppInfo
  ah_config :: "(string \<Rightarrow> bool \<Rightarrow> 'w \<Rightarrow> error \<times> 'w) option"
  ah_credentialKeyring :: "'w keyring option"
  ah_client_Do :: "request \<Rightarrow> 'w \<Rightarrow> response fallible \<times> 'w"
  ah_RoundTrip :: "request \<Rightarrow> 'w \<Rightarrow> response fallible \<times> 'w"
  ah_static :: "request \<Rightarrow> 'w \<Rightarrow> answer \<times> 'w"
  ah_runtimeAPI :: "(request \<Rightarrow> 'w \<Rightarrow> answer \<times> 'w) option"
  ah_openLogDirectory :: "('w \<Rightarrow> error \<times> 'w) option"
  ah_openBrowserURL :: "(string \<Rightarrow> 'w \<Rightarrow> error \<times> 'w) option"
  ah_randomToken :: "nat \<Rightarrow> 'w \<Rightarrow> string fallible \<times> 'w"
  ah_ParseMediaType :: "string \<Rightarrow> string \<times> error"
  ah_FRONTEND_DEVSERVER_URL :: string
  ah_tlsError :: "go_error \<Rightarrow> bool"
  ah_dates :: "string \<Rightarrow> string option"
  ah_decode_serverURL :: "string decoder"
  ah_decode_activation :: "string decoder"
  ah_decode_browser :: "string decoder"
  ah_decode_empty :: "unit decoder"
  ah_decode_status :: "string decoder"
  ah_decode_slider :: "bool option decoder"
  ah_decode_any :: "unit decoder"
  ah_Unmarshal :: "string \<Rightarrow> json option"
  ah_Marshal :: "json \<Rightarrow> string"

text \<open>The state: \<open>hs_allocated\<close> are the targets that were ever made, the ones a request may still hold.\<close>

record host =
  hs_target :: target
  hs_source :: string
  hs_pending :: "target option"
  hs_pendingCode :: string
  hs_credentialsBlocked :: bool
  hs_rendererReady :: bool
  hs_desktopAuth :: bool
  hs_allocated :: "target list"

definition fresh_target :: "host \<Rightarrow> url \<Rightarrow> target" where
  "fresh_target h u = \<lparr>tg_ref = length (hs_allocated h), tg_url = u\<rparr>"

definition newAppHost :: "string \<Rightarrow> string \<Rightarrow> host fallible" where
  "newAppHost rawServerURL source =
     (case normalizeServerURL rawServerURL of
        Inl err \<Rightarrow> Inl (ErrWrap ''invalid SOHA_SERVER_URL: '' err)
      | Inr normalized \<Rightarrow>
          (case url_Parse normalized of
             None \<Rightarrow> Inl (ErrWrap ''parse normalized server URL: '' (ErrorNew ''parse''))
           | Some u \<Rightarrow>
               let target = \<lparr>tg_ref = 0, tg_url = u\<rparr>
               in Inr \<lparr>hs_target = target, hs_source = source, hs_pending = None, hs_pendingCode = [],
                       hs_credentialsBlocked = False, hs_rendererReady = False, hs_desktopAuth = False,
                       hs_allocated = [target]\<rparr>))"

subsection \<open>Answers\<close>

definition json_header :: header where
  "json_header = header_Set ''Cache-Control'' ''no-store'' (header_Set ''Content-Type'' ''application/json'' header_empty)"

definition writeJSON :: "int \<Rightarrow> answer_body \<Rightarrow> answer" where
  "writeJSON status content = \<lparr>an_Status = status, an_Header = json_header, an_Payload = content\<rparr>"

definition writeError :: "int \<Rightarrow> string \<Rightarrow> string \<Rightarrow> answer" where
  "writeError status code message = writeJSON status (PError code message)"

definition writeData :: "int \<Rightarrow> answer_body \<Rightarrow> answer" where
  "writeData status data = writeJSON status data"

definition writeMethodNotAllowed :: "string \<Rightarrow> answer" where
  "writeMethodNotAllowed allowed =
     (writeError 405 ''method_not_allowed'' ''Method is not allowed'')\<lparr>an_Header := header_Set ''Allow'' allowed json_header\<rparr>"

definition cleared_cookie :: "string \<Rightarrow> string \<Rightarrow> bool \<Rightarrow> Cookie" where
  "cleared_cookie name path secure =
     \<lparr>ck_Name = name, ck_Value = [], ck_Quoted = False, ck_Path = path, ck_Domain = [],
      ck_Expires = ''Thu, 01 Jan 1970 00:00:01 GMT'', ck_MaxAge = -1, ck_Secure = secure, ck_HttpOnly = True,
      ck_SameSite = SameSiteLaxMode, ck_Partitioned = False\<rparr>"

definition clearAuthCookieHeaders :: "bool \<Rightarrow> header \<Rightarrow> header" where
  "clearAuthCookieHeaders secure h =
     fold (\<lambda>cookie. header_Add ''Set-Cookie'' (cookie_String cookie))
       [cleared_cookie refreshCookieName ''/api/v1/auth'' secure,
        cleared_cookie refreshCookieName ''/'' secure,
        cleared_cookie protocolAccessCookieName ''/'' secure] h"

definition clearAuthCookies :: "bool \<Rightarrow> answer \<Rightarrow> answer" where
  "clearAuthCookies secure a = a\<lparr>an_Header := clearAuthCookieHeaders secure (an_Header a)\<rparr>"

definition currentState :: "'w appHost \<Rightarrow> host \<Rightarrow> hostState" where
  "currentState a h =
     \<lparr>st_ServerURL = URL_String (tg_url (hs_target h)), st_ConfigurationSource = hs_source h,
      st_ManagedByEnvironment = ah_locked a, st_App = ah_appInfo a\<rparr>"

subsection \<open>Requests of the web view\<close>

definition isTrustedAppOrigin :: "'w appHost \<Rightarrow> string \<Rightarrow> bool" where
  "isTrustedAppOrigin a rawOrigin =
     (if rawOrigin = ''wails://localhost'' \<or> rawOrigin = ''http://wails.localhost'' then True
      else case url_Parse (ah_FRONTEND_DEVSERVER_URL a) of
             None \<Rightarrow> False
           | Some devServer \<Rightarrow>
               let port = url_Port devServer
               in if port = [] then False
                  else rawOrigin = url_Scheme devServer @ ''://'' @ url_Host devServer \<or>
                       rawOrigin = ''wails://localhost:'' @ port \<or> rawOrigin = ''http://wails.localhost:'' @ port)"

text \<open>\<open>strconv.ParseUint(s, 10, 32)\<close>.\<close>

definition ParseUint32 :: "string \<Rightarrow> nat option" where
  "ParseUint32 s =
     (let n = foldl (\<lambda>n c. 10 * n + digit_value c) 0 s
      in if s = [] \<or> \<not> list_all is_digit s \<or> n \<ge> 2 ^ 32 then None else Some n)"

definition isTrustedAppRequest :: "'w appHost \<Rightarrow> request \<Rightarrow> bool" where
  "isTrustedAppRequest a request =
     (let origin = header_Get (rq_Header request) ''Origin''
      in if isTrustedAppOrigin a origin then True
         else if origin \<noteq> [] then False
         else if rq_Method request = ''GET'' \<or> rq_Method request = ''HEAD'' then True
         else case ParseUint32 (header_Get (rq_Header request) ''X-Wails-Window-Id'') of
                None \<Rightarrow> False | Some windowID \<Rightarrow> windowID > 0)"

text \<open>None where the request may go on, the answer that refuses it otherwise.\<close>

definition validateHostMutation :: "'w appHost \<Rightarrow> request \<Rightarrow> answer option" where
  "validateHostMutation a request =
     (if rq_Method request \<noteq> ''POST'' then Some (writeMethodNotAllowed ''POST'')
      else if \<not> isTrustedAppRequest a request
      then Some (writeError 403 ''untrusted_origin'' ''Request origin is not allowed'')
      else let (mediaType, err) = ah_ParseMediaType a (header_Get (rq_Header request) ''Content-Type'')
           in if err \<noteq> None \<or> mediaType \<noteq> ''application/json''
              then Some (writeError 415 ''invalid_content_type'' ''Content-Type must be application/json'')
              else None)"

text \<open>A nil body, which \<open>net/http\<close> never gives a handler, counts as unreadable.\<close>

definition decodeRequestJSON :: "'w appHost \<Rightarrow> 'a decoder \<Rightarrow> request \<Rightarrow> 'a fallible" where
  "decodeRequestJSON a decode request =
     (case rq_Body request of
        None \<Rightarrow> Inl (ErrorNew ''no body'')
      | Some body \<Rightarrow>
          (case decode (LimitReader 4097 body) of
             Inl err \<Rightarrow> Inl err
           | Inr (output, rest) \<Rightarrow>
               (case ensureJSONEOF (ah_decode_any a) rest of Some err \<Rightarrow> Inl err | None \<Rightarrow> Inr output)))"

definition restoreWailsRequestBody :: "request \<Rightarrow> request fallible" where
  "restoreWailsRequestBody request =
     (let encoded = header_Get (rq_Header request) wailsRequestBodyHeader;
          request' = request\<lparr>rq_Header := header_Del wailsRequestBodyHeader (rq_Header request)\<rparr>
      in if encoded = [] then Inr request
         else if length encoded > maxWailsRequestBodySize * 3 then Inl (ErrorNew ''encoded request body is too large'')
         else case unescape EncodePath encoded of
                None \<Rightarrow> Inl (ErrWrap ''decode request body: '' (ErrorNew ''invalid URL escape''))
              | Some body \<Rightarrow>
                  if length body > maxWailsRequestBodySize then Inl (ErrorNew ''request body is too large'')
                  else Inr (request'\<lparr>rq_Body := Some (body, None)\<rparr>))"

definition constantTimeEqual :: "string \<Rightarrow> string \<Rightarrow> bool" where
  "constantTimeEqual left right =
     (if length left \<noteq> length right then False else list_all (\<lambda>(x, y). x = y) (zip left right))"

lemma constantTimeEqual_iff [simp]: "constantTimeEqual left right \<longleftrightarrow> left = right"
  by (auto simp: constantTimeEqual_def list_eq_iff_zip_eq list_all_iff)

subsection \<open>The stored refresh token (\<open>session_credentials.go\<close>)\<close>

definition refreshCredentialAccount :: "target option \<Rightarrow> string" where
  "refreshCredentialAccount target = (case target of None \<Rightarrow> [] | Some t \<Rightarrow> URL_String (tg_url t))"

definition targetRequiresSecureCookies :: "target option \<Rightarrow> bool" where
  "targetRequiresSecureCookies target = (case target of None \<Rightarrow> False | Some t \<Rightarrow> url_Scheme (tg_url t) = ''https'')"

text \<open>The loop over the \<open>Set-Cookie\<close> values, with the token that was found so far.\<close>

fun refreshToken_loop :: "(string \<Rightarrow> string option) \<Rightarrow> bool \<Rightarrow> string \<Rightarrow> string list \<Rightarrow> string fallible" where
  "refreshToken_loop dates requireSecure token [] = Inr token"
| "refreshToken_loop dates requireSecure token (value # rest) =
     (case ParseSetCookie dates value of
        Inl _ \<Rightarrow>
          if has_prefix value (refreshCookieName @ ''='') \<or> has_prefix value (protocolAccessCookieName @ ''='')
          then Inl errContractMismatch
          else refreshToken_loop dates requireSecure token rest
      | Inr cookie \<Rightarrow>
          if requireSecure \<and> (ck_Name cookie = refreshCookieName \<or> ck_Name cookie = protocolAccessCookieName) \<and>
             \<not> ck_Secure cookie
          then Inl errContractMismatch
          else if ck_Name cookie \<noteq> refreshCookieName then refreshToken_loop dates requireSecure token rest
          else if token \<noteq> [] \<or> ck_Value cookie = [] \<or> ck_MaxAge cookie < 0 then Inl errContractMismatch
          else refreshToken_loop dates requireSecure (ck_Value cookie) rest)"

definition refreshTokenFromSetCookies :: "(string \<Rightarrow> string option) \<Rightarrow> string list \<Rightarrow> bool \<Rightarrow> string fallible" where
  "refreshTokenFromSetCookies dates values requireSecure =
     (case refreshToken_loop dates requireSecure [] values of
        Inl err \<Rightarrow> Inl err
      | Inr token \<Rightarrow> if token = [] then Inl errContractMismatch else Inr token)"

definition requestRefreshToken :: "request \<Rightarrow> string" where
  "requestRefreshToken request =
     (case request_Cookie (rq_Header request) refreshCookieName of None \<Rightarrow> [] | Some v \<Rightarrow> v)"

definition injectStoredRefreshCredential ::
  "'w appHost \<Rightarrow> request \<Rightarrow> target option \<Rightarrow> host \<times> 'w \<Rightarrow> request \<times> 'w" where
  "injectStoredRefreshCredential a request target s =
     (let (h, w) = s
      in if target = None \<or> requestRefreshToken request \<noteq> [] then (request, w)
         else if hs_credentialsBlocked h \<or> target \<noteq> Some (hs_target h) then (request, w)
         else case ah_credentialKeyring a of
                None \<Rightarrow> (request, w)
              | Some keyring \<Rightarrow>
                  (case kr_Get keyring sessionKeyringService (refreshCredentialAccount target) w of
                     (Inl _, w) \<Rightarrow> (request, w)
                   | (Inr token, w) \<Rightarrow>
                       (if token \<noteq> []
                        then (request\<lparr>rq_Header := request_AddCookie refreshCookieName token (rq_Header request)\<rparr>, w)
                        else (request, w))))"

definition deleteRefreshCredentialLocked :: "'w appHost \<Rightarrow> target option \<Rightarrow> 'w \<Rightarrow> 'w" where
  "deleteRefreshCredentialLocked a target w =
     (case ah_credentialKeyring a of
        None \<Rightarrow> w
      | Some keyring \<Rightarrow>
          if target = None then w
          else snd (kr_Delete keyring sessionKeyringService (refreshCredentialAccount target) w))"

definition replaceRefreshCredentialLocked :: "'w appHost \<Rightarrow> target option \<Rightarrow> string \<Rightarrow> 'w \<Rightarrow> 'w" where
  "replaceRefreshCredentialLocked a target token w =
     (case ah_credentialKeyring a of
        None \<Rightarrow> w
      | Some keyring \<Rightarrow>
          if target = None \<or> token = [] then w
          else
            let account = refreshCredentialAccount target;
                (err, w) = kr_Set keyring sessionKeyringService account token w
            in if err = None then w else snd (kr_Delete keyring sessionKeyringService account w))"

text \<open>Saving the configuration; its failure is only logged.\<close>

definition save_logged :: "'w appHost \<Rightarrow> target \<Rightarrow> bool \<Rightarrow> 'w \<Rightarrow> 'w" where
  "save_logged a target blocked w =
     (case ah_config a of None \<Rightarrow> w | Some save \<Rightarrow> snd (save (URL_String (tg_url target)) blocked w))"

definition persistAuthenticatedLocked :: "'w appHost \<Rightarrow> target \<Rightarrow> string \<Rightarrow> host \<times> 'w \<Rightarrow> host \<times> 'w" where
  "persistAuthenticatedLocked a requestTarget refreshToken s =
     (let (h, w) = s;
          w = replaceRefreshCredentialLocked a (Some requestTarget) refreshToken w;
          w = save_logged a requestTarget False w
      in (h\<lparr>hs_credentialsBlocked := False\<rparr>, w))"

text \<open>The token that the keyring holds now, None where it cannot be read or is empty, and the world after.\<close>

definition stored_token :: "'w appHost \<Rightarrow> target \<Rightarrow> 'w \<Rightarrow> string option \<times> 'w" where
  "stored_token a target w =
     (case ah_credentialKeyring a of
        None \<Rightarrow> (None, w)
      | Some keyring \<Rightarrow>
          (case kr_Get keyring sessionKeyringService (refreshCredentialAccount (Some target)) w of
             (Inl _, w) \<Rightarrow> (None, w)
           | (Inr stored, w) \<Rightarrow> (if stored \<noteq> [] then Some stored else None, w)))"

text \<open>Whether the keyring holds another token than the one of the request: a newer session.\<close>

definition superseded :: "'w appHost \<Rightarrow> target \<Rightarrow> string \<Rightarrow> 'w \<Rightarrow> bool \<times> 'w" where
  "superseded a target token w =
     (if token = [] then (False, w)
      else let (stored, w) = stored_token a target w
           in (case stored of None \<Rightarrow> False | Some stored \<Rightarrow> \<not> constantTimeEqual stored token, w))"

definition blockSession :: "'w appHost \<Rightarrow> target option \<Rightarrow> string \<Rightarrow> host \<times> 'w \<Rightarrow> host \<times> 'w" where
  "blockSession a target rejectedToken s =
     (let (h, w) = s
      in case target of
           None \<Rightarrow> (h, w)
         | Some t \<Rightarrow>
             if t \<noteq> hs_target h then (h, w)
             else
               let (newer, w) = superseded a t rejectedToken w
               in if newer then (h, w)
                  else
                    let w = deleteRefreshCredentialLocked a target w;
                        w = save_logged a t True w
                    in (h\<lparr>hs_credentialsBlocked := True\<rparr>, w))"

definition markRefreshed :: "'w appHost \<Rightarrow> target option \<Rightarrow> string \<Rightarrow> string \<Rightarrow> host \<times> 'w \<Rightarrow> bool \<times> host \<times> 'w" where
  "markRefreshed a requestTarget previousToken nextToken s =
     (let (h, w) = s
      in case requestTarget of
           None \<Rightarrow> (False, h, w)
         | Some t \<Rightarrow>
             if t \<noteq> hs_target h \<or> hs_credentialsBlocked h then (False, h, w)
             else
               let (newer, w) = superseded a t previousToken w
               in if newer then (False, h, w) else (True, persistAuthenticatedLocked a t nextToken (h, w)))"

definition markAuthenticated :: "'w appHost \<Rightarrow> target option \<Rightarrow> string \<Rightarrow> host \<times> 'w \<Rightarrow> bool \<times> host \<times> 'w" where
  "markAuthenticated a requestTarget refreshToken s =
     (let (h, w) = s
      in case requestTarget of
           None \<Rightarrow> (False, h, w)
         | Some t \<Rightarrow>
             if t \<noteq> hs_target h then (False, h, w) else (True, persistAuthenticatedLocked a t refreshToken (h, w)))"

text \<open>
  Decoding an object into a map: \<open>null\<close> is the empty map, the last of repeated members counts, and
  the map is printed with its keys in order.
\<close>

definition json_map :: "json \<Rightarrow> (string \<times> json) list option" where
  "json_map v =
     (case v of
        JNull \<Rightarrow> Some []
      | JObject members \<Rightarrow> Some (AList.clearjunk (rev members))
      | _ \<Rightarrow> None)"

definition json_object :: "(string \<times> json) list \<Rightarrow> json" where
  "json_object m = JObject (sort_key fst m)"

text \<open>The value that replaces the body: None where it stays as it is, an error where it has another form.\<close>

definition redact_envelope :: "json \<Rightarrow> json option fallible" where
  "redact_envelope v =
     (case json_map v of
        None \<Rightarrow> Inl errContractMismatch
      | Some envelope \<Rightarrow>
          (case map_of envelope ''data'' of
             None \<Rightarrow> Inr None
           | Some dataValue \<Rightarrow>
               (case json_map dataValue of
                  None \<Rightarrow> Inl errContractMismatch
                | Some data \<Rightarrow>
                    (case map_of data ''tokens'' of
                       None \<Rightarrow> Inr None
                     | Some tokensValue \<Rightarrow>
                         (case json_map tokensValue of
                            None \<Rightarrow> Inl errContractMismatch
                          | Some tokens \<Rightarrow>
                              if map_of tokens ''refreshToken'' = None then Inr None
                              else
                                let tokens = AList.delete ''refreshToken'' tokens;
                                    data = AList.update ''tokens'' (json_object tokens) data;
                                    envelope = AList.update ''data'' (json_object data) envelope
                                in Inr (Some (json_object envelope)))))))"

definition redactAuthRefreshToken :: "'w appHost \<Rightarrow> response \<Rightarrow> response fallible" where
  "redactAuthRefreshToken a response =
     (if header_Get (rs_Header response) ''Content-Encoding'' \<noteq> [] \<and>
         header_Get (rs_Header response) ''Content-Encoding'' \<noteq> ''identity''
      then Inl errContractMismatch
      else
        let (body, err) = read_body (desktopAuthMaxResponseBytes + 1) (rs_Body response)
        in if err \<noteq> None \<or> length body = 0 \<or> length body > desktopAuthMaxResponseBytes
           then Inl errContractMismatch
           else case ah_Unmarshal a body of
                  None \<Rightarrow> Inl errContractMismatch
                | Some v \<Rightarrow>
                    (case redact_envelope v of
                       Inl err \<Rightarrow> Inl err
                     | Inr replacement \<Rightarrow>
                         let body = (case replacement of None \<Rightarrow> body | Some v \<Rightarrow> ah_Marshal a v)
                         in Inr (response\<lparr>rs_Body := (body, None),
                                    rs_Header := header_Del ''Content-Encoding''
                                      (header_Set ''Content-Length'' (string_of_nat (length body)) (rs_Header response))\<rparr>)))"

subsection \<open>Probing a server\<close>

definition classifyConnectionError :: "'w appHost \<Rightarrow> go_error \<Rightarrow> connectionStatus \<times> string" where
  "classifyConnectionError a err =
     (if errors_is err errContractMismatch then (connectionIncompatible, ''response_contract_mismatch'')
      else if ah_tlsError a err then (connectionTLSError, ''tls_validation_failed'')
      else (connectionOffline, ''server_unreachable''))"

text \<open>A request of the shell itself: \<open>http.NewRequestWithContext\<close> for a path of the target.\<close>

definition target_request :: "string \<Rightarrow> target \<Rightarrow> string \<Rightarrow> header \<Rightarrow> (string \<times> error) option \<Rightarrow> request option" where
  "target_request meth target path headers body =
     (case url_Parse (URL_String ((tg_url target)\<lparr>url_Path := path\<rparr>)) of
        None \<Rightarrow> None
      | Some u \<Rightarrow> Some \<lparr>rq_Method = meth, rq_URL = u, rq_Host = url_Host u, rq_Header = headers, rq_Body = body,
                       rq_RemoteAddr = []\<rparr>)"

text \<open>
  The status, the decoded value (None where the output keeps its zero value) and the error. The decoder
  has read to the end when \<open>ensureJSONEOF\<close> succeeds, so the limit is used up exactly by a longer body.
\<close>

definition getJSON ::
  "'w appHost \<Rightarrow> target \<Rightarrow> string \<Rightarrow> 'a decoder \<Rightarrow> 'w \<Rightarrow> (int \<times> 'a option \<times> error) \<times> 'w" where
  "getJSON a target path decode w =
     (case target_request ''GET'' target path (header_Set ''Accept'' ''application/json'' header_empty) None of
        None \<Rightarrow> ((0, None, Some (ErrorNew ''parse'')), w)
      | Some request \<Rightarrow>
          (case ah_client_Do a request w of
             (Inl err, w) \<Rightarrow> ((0, None, Some err), w)
           | (Inr response, w) \<Rightarrow>
               (let status = rs_StatusCode response
                in if status \<noteq> 200 \<and> status \<noteq> 503 then (status, None, None)
                   else
                     (case decode (LimitReader (connectionProbeMaxResponseSize + 1) (rs_Body response)) of
                        Inl _ \<Rightarrow> (status, None, Some errContractMismatch)
                      | Inr (output, rest) \<Rightarrow>
                          if ensureJSONEOF (ah_decode_any a) rest \<noteq> None
                          then (status, Some output, Some errContractMismatch)
                          else if length (fst (rs_Body response)) > connectionProbeMaxResponseSize
                          then (status, Some output, Some errContractMismatch)
                          else (status, Some output, None)), w)))"

text \<open>What each of the three probes refuses in the same way, as the status and code of the check.\<close>

definition probe_refused :: "'w appHost \<Rightarrow> int \<Rightarrow> error \<Rightarrow> (connectionStatus \<times> string) option" where
  "probe_refused a status err =
     (if status = 503 then Some (connectionNotReady, ''server_not_ready'')
      else if status \<ge> 500 then Some (connectionOffline, ''upstream_unavailable'')
      else case err of Some err \<Rightarrow> Some (classifyConnectionError a err) | None \<Rightarrow> None)"

definition check_health :: "'w appHost \<Rightarrow> target \<Rightarrow> 'w \<Rightarrow> (connectionStatus \<times> string) option \<times> 'w" where
  "check_health a target w =
     (let ((status, health, err), w) = getJSON a target ''/api/v1/healthz'' (ah_decode_status a) w
      in (case probe_refused a status err of
            Some refused \<Rightarrow> Some refused
          | None \<Rightarrow>
              if health = Some ''degraded'' then Some (connectionNotReady, ''server_not_ready'')
              else if status \<noteq> 200 \<or> health \<noteq> Some ''ok'' then Some (connectionIncompatible, ''health_contract_mismatch'')
              else None, w))"

definition check_readiness :: "'w appHost \<Rightarrow> target \<Rightarrow> 'w \<Rightarrow> (connectionStatus \<times> string) option \<times> 'w" where
  "check_readiness a target w =
     (let ((status, readiness, err), w) = getJSON a target ''/api/v1/readyz'' (ah_decode_status a) w
      in (case probe_refused a status err of
            Some refused \<Rightarrow> Some refused
          | None \<Rightarrow>
              if status \<noteq> 200 \<or> readiness \<noteq> Some ''ready''
              then Some (connectionIncompatible, ''readiness_contract_mismatch'') else None, w))"

definition check_login :: "'w appHost \<Rightarrow> target \<Rightarrow> 'w \<Rightarrow> (connectionStatus \<times> string) option \<times> 'w" where
  "check_login a target w =
     (let ((status, sliderEnabled, err), w) = getJSON a target ''/api/v1/auth/login-options'' (ah_decode_slider a) w
      in (case probe_refused a status err of
            Some refused \<Rightarrow> Some refused
          | None \<Rightarrow>
              if status \<noteq> 200 \<or> Option.bind sliderEnabled (\<lambda>b. b) = None
              then Some (connectionIncompatible, ''login_contract_mismatch'') else None, w))"

text \<open>The first probe that refuses decides.\<close>

fun run_probes :: "('w \<Rightarrow> (connectionStatus \<times> string) option \<times> 'w) list \<Rightarrow> string \<Rightarrow> 'w \<Rightarrow> connectionCheck \<times> 'w" where
  "run_probes [] normalized w = (\<lparr>cn_Status = connectionOnline, cn_ServerURL = normalized, cn_Code = []\<rparr>, w)"
| "run_probes (probe # rest) normalized w =
     (case probe w of
        (Some (status, code), w) \<Rightarrow> (\<lparr>cn_Status = status, cn_ServerURL = normalized, cn_Code = code\<rparr>, w)
      | (None, w) \<Rightarrow> run_probes rest normalized w)"

definition checkServer :: "'w appHost \<Rightarrow> string \<Rightarrow> 'w \<Rightarrow> connectionCheck \<times> 'w" where
  "checkServer a rawServerURL w =
     (case normalizeServerURL rawServerURL of
        Inl _ \<Rightarrow> (\<lparr>cn_Status = connectionIncompatible, cn_ServerURL = [], cn_Code = ''invalid_server_url''\<rparr>, w)
      | Inr normalized \<Rightarrow>
          (case url_Parse normalized of
             None \<Rightarrow>
               (\<lparr>cn_Status = connectionIncompatible, cn_ServerURL = normalized, cn_Code = ''invalid_server_url''\<rparr>, w)
           | Some u \<Rightarrow>
               let target = \<lparr>tg_ref = 0, tg_url = u\<rparr>
               in run_probes [check_health a target, check_readiness a target, check_login a target] normalized w))"

subsection \<open>The reverse proxy\<close>

text \<open>\<open>ProxyRequest.SetURL\<close> for a target with an empty path and query.\<close>

definition SetURL :: "target \<Rightarrow> request \<Rightarrow> request" where
  "SetURL target request =
     (let u = rq_URL request; slash = (\<lambda>p. if has_prefix p ''/'' then p else CHR ''/'' # p)
      in request\<lparr>rq_URL := u\<lparr>url_Scheme := url_Scheme (tg_url target), url_Host := url_Host (tg_url target),
                   url_Path := slash (url_Path u),
                   url_RawPath := (if url_RawPath u = [] then [] else slash (url_EscapedPath u))\<rparr>\<rparr>)"

definition forwarding_headers :: "string list" where
  "forwarding_headers =
     [''Forwarded'', ''X-Forwarded-For'', ''X-Forwarded-Host'', ''X-Forwarded-Port'', ''X-Forwarded-Proto'']"

text \<open>\<open>SetXForwarded\<close> adds the address of the client; host and protocol are overwritten afterwards.\<close>

definition SetXForwarded :: "request \<Rightarrow> header \<Rightarrow> header" where
  "SetXForwarded incoming h =
     (case net_SplitHostPort (rq_RemoteAddr incoming) of
        None \<Rightarrow> header_Del ''X-Forwarded-For'' h
      | Some (client, _) \<Rightarrow>
          header_Set ''X-Forwarded-For''
            (if h ''X-Forwarded-For'' = [] then client else strings_Join (h ''X-Forwarded-For'' @ [client]) '', '') h)"

definition isDesktopExchangePath :: "string \<Rightarrow> bool" where
  "isDesktopExchangePath path \<longleftrightarrow>
     has_prefix path ''/api/v1/auth/desktop/attempts/'' \<and> has_suffix path ''/exchange''"

definition isAuthSessionRequest :: "request \<Rightarrow> bool" where
  "isAuthSessionRequest request \<longleftrightarrow>
     rq_Method request = ''POST'' \<and>
     (rq_Path request = ''/api/v1/auth/login'' \<or> rq_Path request = ''/api/v1/auth/refresh'' \<or>
      isDesktopExchangePath (rq_Path request))"

definition forwarded_header :: "target \<Rightarrow> request \<Rightarrow> header \<Rightarrow> header" where
  "forwarded_header target incoming h =
     (let h = fold header_Del forwarding_headers h;
          h = SetXForwarded incoming h;
          h = header_Set ''X-Forwarded-Host'' (url_Host (tg_url target)) h;
          h = header_Set ''X-Forwarded-Proto'' (url_Scheme (tg_url target)) h
      in header_Del ''Origin'' h)"

text \<open>\<open>Rewrite\<close> up to the credentials: address, headers, no compression of an answer that is read.\<close>

definition rewritten :: "target \<Rightarrow> request \<Rightarrow> request" where
  "rewritten target incoming =
     (let out = (SetURL target incoming)\<lparr>rq_Host := url_Host (tg_url target)\<rparr>;
          out = out\<lparr>rq_Header := forwarded_header target incoming (rq_Header out)\<rparr>
      in if isAuthSessionRequest out
         then out\<lparr>rq_Header := header_Set ''Accept-Encoding'' ''identity'' (rq_Header out)\<rparr> else out)"

text \<open>
  \<open>Rewrite\<close>: the target that was pinned to the request, or the current one. The flag is read before the
  stored token is injected, and again by the injection; the second read can only withhold the token.
\<close>

definition Rewrite :: "'w appHost \<Rightarrow> target option \<Rightarrow> request \<Rightarrow> host \<times> 'w \<Rightarrow> request \<times> 'w" where
  "Rewrite a pinned incoming s =
     (let (h, w) = s;
          target = (case pinned of None \<Rightarrow> hs_target h | Some t \<Rightarrow> t);
          out = rewritten target incoming
      in if hs_credentialsBlocked h
         then (out\<lparr>rq_Header := header_Del ''Cookie'' (header_Del ''Authorization'' (rq_Header out))\<rparr>, w)
         else if rq_Method out = ''POST'' \<and>
                 (rq_Path out = ''/api/v1/auth/refresh'' \<or> rq_Path out = ''/api/v1/auth/logout'')
         then injectStoredRefreshCredential a out (Some target) (h, w)
         else (out, w))"

definition redirect_payload :: string where
  "redirect_payload =
     ''{\"error\":{\"code\":\"upstream_redirect_blocked\",\"message\":\"External navigation is blocked in Soha App\"}}''"

definition rejectUpstreamRedirect :: "response \<Rightarrow> response" where
  "rejectUpstreamRedirect response =
     (if rs_StatusCode response < 300 \<or> rs_StatusCode response \<ge> 400 then response
      else \<lparr>rs_StatusCode = 502,
            rs_Header =
              header_Set ''Content-Length'' (string_of_nat (length redirect_payload))
                (header_Set ''Content-Type'' ''application/json''
                  (header_Del ''Set-Cookie'' (header_Del ''Location'' (rs_Header response)))),
            rs_Body = (redirect_payload, None)\<rparr>)"

definition proxyRejectionEvent :: "request \<Rightarrow> int \<Rightarrow> string" where
  "proxyRejectionEvent request statusCode =
     (if statusCode \<noteq> 401 \<and> statusCode \<noteq> 403 then []
      else if rq_Method request = ''POST'' \<and> rq_Path request = ''/api/v1/auth/login'' then ''auth_login_rejected''
      else if rq_Method request = ''POST'' \<and> rq_Path request = ''/api/v1/auth/refresh'' then ''session_refresh_rejected''
      else if rq_Method request = ''POST'' \<and> isDesktopExchangePath (rq_Path request)
      then ''desktop_auth_exchange_rejected''
      else ''api_authorization_rejected'')"

text \<open>
  \<open>modifyProxyResponse\<close>, for the request that was sent (the result of \<open>Rewrite\<close>) and its pinned target:
  an error makes the proxy answer 502.
\<close>

definition modifyProxyResponse ::
  "'w appHost \<Rightarrow> target option \<Rightarrow> request \<Rightarrow> response \<Rightarrow> host \<times> 'w \<Rightarrow> response fallible \<times> host \<times> 'w" where
  "modifyProxyResponse a requestTarget request response s =
     (if requestTarget \<noteq> Some (hs_target (fst s)) then (Inl errContractMismatch, s)
      else
        let response = rejectUpstreamRedirect response;
            status = rs_StatusCode response;
            secure = targetRequiresSecureCookies requestTarget;
            cleared = response\<lparr>rs_Header := clearAuthCookieHeaders secure (rs_Header response)\<rparr>;
            post = (\<lambda>path. rq_Method request = ''POST'' \<and> rq_Path request = path);
            isRefresh = post ''/api/v1/auth/refresh''
        in if isRefresh \<and> (status = 401 \<or> status = 403)
           then (Inr cleared, blockSession a requestTarget (requestRefreshToken request) s)
           else if status < 200 \<or> status \<ge> 300 then (Inr response, s)
           else if post ''/api/v1/auth/logout'' then (Inr cleared, blockSession a requestTarget [] s)
           else if isAuthSessionRequest request then
             (case refreshTokenFromSetCookies (ah_dates a) (rs_Header response ''Set-Cookie'') secure of
                Inl err \<Rightarrow> (Inl err, s)
              | Inr refreshToken \<Rightarrow>
                  (case redactAuthRefreshToken a response of
                     Inl err \<Rightarrow> (Inl err, s)
                   | Inr response \<Rightarrow>
                       let (marked, s) =
                         (if isRefresh then markRefreshed a requestTarget (requestRefreshToken request) refreshToken s
                          else markAuthenticated a requestTarget refreshToken s)
                       in (if marked then Inr response else Inl errContractMismatch, s)))
           else (Inr response, s))"

subsection \<open>Handlers\<close>

definition hasPendingSwitch :: "host \<Rightarrow> bool" where
  "hasPendingSwitch h \<longleftrightarrow> hs_pending h \<noteq> None"

text \<open>The body of a JSON request is read within its limit and put back.\<close>

definition limit_json_body :: "'w appHost \<Rightarrow> request \<Rightarrow> answer + request" where
  "limit_json_body a request =
     (let mediaType = fst (ah_ParseMediaType a (header_Get (rq_Header request) ''Content-Type''))
      in case rq_Body request of
           None \<Rightarrow> Inr request
         | Some body \<Rightarrow>
             if mediaType \<noteq> ''application/json'' then Inr request
             else
               let (content, err) = read_body (proxyJSONMaxRequestSize + 1) body
               in if err \<noteq> None then Inl (writeError 400 ''invalid_request'' ''Unable to read request body'')
                  else if length content > proxyJSONMaxRequestSize
                  then Inl (writeError 413 ''payload_too_large'' ''Request body exceeds the desktop limit'')
                  else Inr (request\<lparr>rq_Body := Some (content, None)\<rparr>))"

definition upstream_unavailable :: answer where
  "upstream_unavailable = writeError 502 ''upstream_unavailable'' ''Soha server is unavailable''"

text \<open>The proxy with its error handler; \<open>between\<close> is what happens while the request is under way.\<close>

definition proxy_ServeHTTP ::
  "'w appHost \<Rightarrow> (host \<times> 'w \<Rightarrow> host \<times> 'w) \<Rightarrow> target option \<Rightarrow> request \<Rightarrow> host \<times> 'w \<Rightarrow> answer \<times> host \<times> 'w" where
  "proxy_ServeHTTP a between pinned request s =
     (let (out, w) = Rewrite a pinned request s;
          (received, w) = ah_RoundTrip a out w;
          s = between (fst s, w)
      in case received of
           Inl _ \<Rightarrow> (upstream_unavailable, s)
         | Inr response \<Rightarrow>
             (case modifyProxyResponse a pinned out response s of
                (Inl _, s) \<Rightarrow> (upstream_unavailable, s)
              | (Inr response, s) \<Rightarrow>
                  (\<lparr>an_Status = rs_StatusCode response, an_Header = rs_Header response,
                    an_Payload = PBody (rs_Body response)\<rparr>, s)))"

text \<open>
  \<open>handleAPI\<close>: other requests can run after the check for a pending switch, after the target was pinned,
  and while the request is under way.
\<close>

definition handleAPI ::
  "'w appHost \<Rightarrow> (host \<times> 'w \<Rightarrow> host \<times> 'w) \<Rightarrow> (host \<times> 'w \<Rightarrow> host \<times> 'w) \<Rightarrow> (host \<times> 'w \<Rightarrow> host \<times> 'w) \<Rightarrow>
     request \<Rightarrow> host \<times> 'w \<Rightarrow> answer \<times> host \<times> 'w" where
  "handleAPI a between1 between2 between3 request s =
     (if \<not> isTrustedAppRequest a request
      then (writeError 403 ''untrusted_origin'' ''Request origin is not allowed'', s)
      else if hasPendingSwitch (fst s)
      then (writeError 503 ''server_switch_pending'' ''Server switch is pending'', s)
      else
        let s = between1 s
        in case limit_json_body a request of
             Inl refused \<Rightarrow> (refused, s)
           | Inr request \<Rightarrow>
               let pinned = Some (hs_target (fst s)); s = between2 s
               in proxy_ServeHTTP a between3 pinned request s)"

definition handleState :: "'w appHost \<Rightarrow> request \<Rightarrow> host \<Rightarrow> answer \<times> host" where
  "handleState a request h =
     (if rq_Method request \<noteq> ''GET'' then (writeMethodNotAllowed ''GET'', h)
      else
        let h = (if header_Get (rq_Header request) ''X-Wails-Window-Id'' \<noteq> [] then h\<lparr>hs_rendererReady := True\<rparr> else h)
        in (writeData 200 (PState (currentState a h)), h))"

definition handleConnectionCheck :: "'w appHost \<Rightarrow> request \<Rightarrow> 'w \<Rightarrow> answer \<times> 'w" where
  "handleConnectionCheck a request w =
     (case validateHostMutation a request of
        Some refused \<Rightarrow> (refused, w)
      | None \<Rightarrow>
          (case decodeRequestJSON a (ah_decode_serverURL a) request of
             Inl _ \<Rightarrow> (writeError 400 ''invalid_request'' ''A valid server URL is required'', w)
           | Inr serverURL \<Rightarrow> let (check, w) = checkServer a serverURL w in (writeData 200 (PCheck check), w)))"

text \<open>The request of \<open>logoutOldServer\<close>: the session of the web view goes with it.\<close>

definition logout_request :: "request \<Rightarrow> target \<Rightarrow> request option" where
  "logout_request incoming target =
     (let h = header_Set ''Accept'' ''application/json'' (header_Set ''Content-Type'' ''application/json'' header_empty);
          authorization = header_Get (rq_Header incoming) ''Authorization'';
          cookie = header_Get (rq_Header incoming) ''Cookie'';
          h = (if authorization \<noteq> [] then header_Set ''Authorization'' authorization h else h);
          h = (if cookie \<noteq> [] then header_Set ''Cookie'' cookie h else h)
      in target_request ''POST'' target ''/api/v1/auth/logout'' h (Some (''{}'', None)))"

text \<open>What is sent is part of the result, for the theorems.\<close>

definition logoutOldServer :: "'w appHost \<Rightarrow> request \<Rightarrow> target option \<Rightarrow> host \<times> 'w \<Rightarrow> request option \<times> 'w" where
  "logoutOldServer a incoming target s =
     (case target of
        None \<Rightarrow> (None, snd s)
      | Some t \<Rightarrow>
          (case logout_request incoming t of
             None \<Rightarrow> (None, snd s)
           | Some request \<Rightarrow>
               let (request, w) = injectStoredRefreshCredential a request target s
               in (Some request, snd (ah_client_Do a request w))))"

text \<open>
  The part of \<open>handleConnectionSwitch\<close> up to the end of its critical section, for the target that was
  current at the beginning: the answer that refuses, or the activation token and the check.
\<close>

definition switch_commit ::
  "'w appHost \<Rightarrow> target \<Rightarrow> request \<Rightarrow> host \<times> 'w \<Rightarrow> (answer + string \<times> connectionCheck) \<times> host \<times> 'w" where
  "switch_commit a oldTarget request s =
     (let (h, w) = s
      in case decodeRequestJSON a (ah_decode_serverURL a) request of
           Inl _ \<Rightarrow> (Inl (writeError 400 ''invalid_request'' ''A valid server URL is required''), h, w)
         | Inr serverURL \<Rightarrow>
             let (check, w) = checkServer a serverURL w
             in if cn_Status check \<noteq> connectionOnline then (Inl (writeData 422 (PCheck check)), h, w)
                else case url_Parse (cn_ServerURL check) of
                       None \<Rightarrow> (Inl (writeError 400 ''invalid_server_url'' ''Server URL is invalid''), h, w)
                     | Some u \<Rightarrow>
                         (case ah_randomToken a 24 w of
                            (Inl _, w) \<Rightarrow>
                              (Inl (writeError 500 ''host_unavailable'' ''Unable to prepare server switch''), h, w)
                          | (Inr activationToken, w) \<Rightarrow>
                              (if hs_pending h \<noteq> None \<or> oldTarget \<noteq> hs_target h
                               then (Inl (writeError 409 ''server_switch_pending'' ''A server switch is already pending''), h, w)
                               else
                                 let target = fresh_target h u
                                 in (Inr (activationToken, check),
                                     h\<lparr>hs_pending := Some target, hs_pendingCode := activationToken,
                                       hs_allocated := hs_allocated h @ [target]\<rparr>, w))))"

definition switch_refused :: "'w appHost \<Rightarrow> request \<Rightarrow> answer option" where
  "switch_refused a request =
     (case validateHostMutation a request of
        Some refused \<Rightarrow> Some refused
      | None \<Rightarrow>
          if ah_locked a then Some (writeError 409 ''configuration_managed'' ''Server URL is managed by the environment'')
          else if ah_config a = None
          then Some (writeError 501 ''configuration_unavailable'' ''Server configuration is unavailable'')
          else None)"

definition handleConnectionSwitch ::
  "'w appHost \<Rightarrow> (host \<times> 'w \<Rightarrow> host \<times> 'w) \<Rightarrow> (host \<times> 'w \<Rightarrow> host \<times> 'w) \<Rightarrow> (host \<times> 'w \<Rightarrow> host \<times> 'w) \<Rightarrow>
     request \<Rightarrow> host \<times> 'w \<Rightarrow> answer \<times> host \<times> 'w" where
  "handleConnectionSwitch a between1 between2 between3 request s =
     (case switch_refused a request of
        Some refused \<Rightarrow> (refused, s)
      | None \<Rightarrow>
          let oldTarget = hs_target (fst s)
          in case switch_commit a oldTarget request (between1 s) of
               (Inl refused, s) \<Rightarrow> (refused, s)
             | (Inr (activationToken, check), s) \<Rightarrow>
                 let s = between2 s;
                     s = (fst s, snd (logoutOldServer a request (Some oldTarget) s));
                     s = between3 s;
                     s = (fst s, deleteRefreshCredentialLocked a (Some oldTarget) (snd s))
                 in (clearAuthCookies (targetRequiresSecureCookies (Some oldTarget))
                       (writeData 200 (PPending activationToken check)), s))"

text \<open>
  \<open>handleConnectionActivate\<close> holds both locks. \<open>Save\<close> of a nil store would panic; no switch is ever
  pending without a store (\<open>switch_refused\<close>), so that branch is an error here.
\<close>

definition handleConnectionActivate :: "'w appHost \<Rightarrow> request \<Rightarrow> host \<times> 'w \<Rightarrow> answer \<times> host \<times> 'w" where
  "handleConnectionActivate a request s =
     (let (h, w) = s
      in case validateHostMutation a request of
           Some refused \<Rightarrow> (refused, h, w)
         | None \<Rightarrow>
             (case decodeRequestJSON a (ah_decode_activation a) request of
                Inl _ \<Rightarrow> (writeError 400 ''invalid_request'' ''Activation token is required'', h, w)
              | Inr activationToken \<Rightarrow>
                  (case hs_pending h of
                     None \<Rightarrow> (writeError 409 ''switch_not_pending'' ''No matching server switch is pending'', h, w)
                   | Some pending_target \<Rightarrow>
                       if \<not> constantTimeEqual activationToken (hs_pendingCode h)
                       then (writeError 409 ''switch_not_pending'' ''No matching server switch is pending'', h, w)
                       else
                         let secure = targetRequiresSecureCookies (Some (hs_target h));
                             (err, w) = (case ah_config a of
                                           None \<Rightarrow> (Some (ErrorNew ''nil configuration store''), w)
                                         | Some save \<Rightarrow> save (URL_String (tg_url pending_target)) True w);
                             h = h\<lparr>hs_credentialsBlocked := True, hs_pending := None, hs_pendingCode := []\<rparr>
                         in if err \<noteq> None
                            then (clearAuthCookies secure
                                    (writeError 500 ''configuration_write_failed'' ''Unable to save server configuration''), h, w)
                            else
                              let h = h\<lparr>hs_target := pending_target, hs_source := ''saved''\<rparr>
                              in (clearAuthCookies secure (writeData 200 (PState (currentState a h))), h, w))))"

text \<open>
  \<open>handleSessionClear\<close> loads the target twice, for the session and for the cookies of its answer.
\<close>

definition handleSessionClear ::
  "'w appHost \<Rightarrow> (host \<times> 'w \<Rightarrow> host \<times> 'w) \<Rightarrow> request \<Rightarrow> host \<times> 'w \<Rightarrow> answer \<times> host \<times> 'w" where
  "handleSessionClear a between request s =
     (case validateHostMutation a request of
        Some refused \<Rightarrow> (refused, s)
      | None \<Rightarrow>
          let target = hs_target (fst s);
              s = blockSession a (Some target) [] (between s)
          in (clearAuthCookies (targetRequiresSecureCookies (Some (hs_target (fst s)))) (writeData 200 (PStatus ''ok'')), s))"

definition native_unavailable :: "string \<Rightarrow> answer" where
  "native_unavailable message = writeError 503 ''native_action_unavailable'' message"

definition handleOpenLogDirectory :: "'w appHost \<Rightarrow> request \<Rightarrow> 'w \<Rightarrow> answer \<times> 'w" where
  "handleOpenLogDirectory a request w =
     (case validateHostMutation a request of
        Some refused \<Rightarrow> (refused, w)
      | None \<Rightarrow>
          (case decodeRequestJSON a (ah_decode_empty a) request of
             Inl _ \<Rightarrow> (writeError 400 ''invalid_request'' ''Request body must be an empty JSON object'', w)
           | Inr _ \<Rightarrow>
               (case ah_openLogDirectory a of
                  None \<Rightarrow> (native_unavailable ''Unable to open the log directory'', w)
                | Some open_directory \<Rightarrow>
                    let (err, w) = open_directory w
                    in (if err \<noteq> None then native_unavailable ''Unable to open the log directory''
                        else writeData 200 (PStatus ''ok''), w))))"

definition browser_url_ok :: "string \<Rightarrow> bool" where
  "browser_url_ok raw =
     (let rawURL = trim_space raw
      in case url_Parse rawURL of
           None \<Rightarrow> False
         | Some parsed \<Rightarrow>
             \<not> (rawURL \<noteq> raw \<or> length rawURL > 4096 \<or> url_Opaque parsed \<noteq> [] \<or>
                (url_Scheme parsed \<noteq> ''http'' \<and> url_Scheme parsed \<noteq> ''https'') \<or> url_Hostname parsed = [] \<or>
                url_User parsed \<noteq> None))"

definition handleOpenBrowser :: "'w appHost \<Rightarrow> request \<Rightarrow> 'w \<Rightarrow> answer \<times> 'w" where
  "handleOpenBrowser a request w =
     (case validateHostMutation a request of
        Some refused \<Rightarrow> (refused, w)
      | None \<Rightarrow>
          (case decodeRequestJSON a (ah_decode_browser a) request of
             Inl _ \<Rightarrow> (writeError 400 ''invalid_request'' ''A valid browser URL is required'', w)
           | Inr raw \<Rightarrow>
               if \<not> browser_url_ok raw
               then (writeError 400 ''invalid_url'' ''Only absolute HTTP and HTTPS URLs are allowed'', w)
               else (case ah_openBrowserURL a of
                  None \<Rightarrow> (native_unavailable ''Unable to open the browser'', w)
                | Some open_browser \<Rightarrow>
                    let (err, w) = open_browser (trim_space raw) w
                    in (if err \<noteq> None then native_unavailable ''Unable to open the browser''
                        else writeData 200 (PStatus ''ok''), w))))"

end
