(* ===== verification/Desktop_Auth.thy ===== *)
theory Desktop_Auth
  imports Session_Host
begin

text \<open>
  Signing in through the system browser (\<open>desktop_auth.go\<close>). The listener of the callback, SHA-256 and the decoding of the two answers of the server are interfaces; which
  of the four events ends the wait is an argument.
\<close>

subsection \<open>Data\<close>

definition defaultDesktopAuthTimeout :: duration where "defaultDesktopAuthTimeout = 10 * minute"

record desktopAuthAttempt =
  att_AttemptID :: string
  att_AuthorizationURL :: string
  att_ExpiresAt :: time

record desktopAuthCallback =
  cb_AttemptID :: string
  cb_Code :: string

record desktopAuthExchange =
  exg_Body :: string
  exg_Cookies :: "string list"
  exg_RequestID :: string

record desktopAuthError =
  dae_Status :: int
  dae_Code :: string
  dae_Message :: string

text \<open>
  \<open>da_exchange\<close> decodes the answer of an exchange: the raw user, absent or not, and the access token.
\<close>

record 'w desktop_auth =
  da_Listen :: "'w \<Rightarrow> int fallible \<times> 'w"
  da_challenge :: "string \<Rightarrow> string"
  da_decode_provider :: "string decoder"
  da_attempt :: "string \<Rightarrow> desktopAuthAttempt option"
  da_exchange :: "string \<Rightarrow> (json option \<times> string) option"

definition newDesktopAuthError :: "int \<Rightarrow> string \<Rightarrow> string \<Rightarrow> desktopAuthError" where
  "newDesktopAuthError status code message = \<lparr>dae_Status = status, dae_Code = code, dae_Message = message\<rparr>"

definition desktopAuthResponseError :: "int \<Rightarrow> string \<Rightarrow> string \<Rightarrow> desktopAuthError" where
  "desktopAuthResponseError status fallbackCode fallbackMessage =
     newDesktopAuthError (if status < 400 \<or> status > 599 then 502 else status) fallbackCode fallbackMessage"

definition writeDesktopAuthError :: "desktopAuthError \<Rightarrow> answer" where
  "writeDesktopAuthError err = writeError (dae_Status err) (dae_Code err) (dae_Message err)"

definition desktop_unavailable :: "string \<Rightarrow> desktopAuthError" where
  "desktop_unavailable message = newDesktopAuthError 500 ''desktop_auth_unavailable'' message"

definition desktop_mismatch :: desktopAuthError where
  "desktop_mismatch = newDesktopAuthError 502 ''desktop_auth_contract_mismatch'' ''Invalid Soha Server desktop login response''"

definition readDesktopAuthBody :: "string \<times> error \<Rightarrow> string option" where
  "readDesktopAuthBody reader =
     (let (body, err) = read_body (desktopAuthMaxResponseBytes + 1) reader
      in if err \<noteq> None \<or> length body = 0 \<or> length body > desktopAuthMaxResponseBytes then None else Some body)"

subsection \<open>The attempt\<close>

definition newRequestID :: "'w appHost \<Rightarrow> 'w \<Rightarrow> string \<times> 'w" where
  "newRequestID a w = (case ah_randomToken a 12 w of (Inl _, w) \<Rightarrow> (''unavailable'', w) | (Inr token, w) \<Rightarrow> (token, w))"

definition desktop_header :: "string \<Rightarrow> header" where
  "desktop_header requestID =
     header_Set ''X-Request-ID'' requestID
       (header_Set ''Content-Type'' ''application/json'' (header_Set ''Accept'' ''application/json'' header_empty))"

text \<open>One exchange with the server, as both operations make it: the response with its body read.\<close>

definition desktop_post ::
  "'w appHost \<Rightarrow> target \<Rightarrow> string \<Rightarrow> json \<Rightarrow> string \<Rightarrow> 'w \<Rightarrow> (desktopAuthError + response \<times> string) \<times> 'w" where
  "desktop_post a target path content failure w =
     (let (requestID, w) = newRequestID a w
      in case target_request ''POST'' target path (desktop_header requestID) (Some (ah_Marshal a content, None)) of
           None \<Rightarrow> (Inl (desktop_unavailable failure), w)
         | Some request \<Rightarrow>
             (case ah_client_Do a request w of
                (Inl _, w) \<Rightarrow>
                  (Inl (newDesktopAuthError 502 ''upstream_unavailable'' ''Soha Server is unavailable''), w)
              | (Inr response, w) \<Rightarrow>
                  (case readDesktopAuthBody (rs_Body response) of
                     None \<Rightarrow> (Inl desktop_mismatch, w)
                   | Some body \<Rightarrow> (Inr (response, body), w))))"

definition createDesktopAuthAttempt ::
  "'w appHost \<Rightarrow> 'w desktop_auth \<Rightarrow> target \<Rightarrow> string \<Rightarrow> string \<Rightarrow> string \<Rightarrow> 'w \<Rightarrow>
     (desktopAuthError + desktopAuthAttempt) \<times> 'w" where
  "createDesktopAuthAttempt a d target providerID redirectURI codeVerifier w =
     (case desktop_post a target ''/api/v1/auth/desktop/attempts''
             (json_object [(''providerId'', JString providerID), (''redirectUri'', JString redirectURI),
                           (''codeChallenge'', JString (da_challenge d codeVerifier)),
                           (''codeChallengeMethod'', JString ''S256'')])
             ''Unable to prepare desktop login'' w of
        (Inl err, w) \<Rightarrow> (Inl err, w)
      | (Inr (response, body), w) \<Rightarrow>
          (if rs_StatusCode response \<noteq> 201
           then Inl (desktopAuthResponseError (rs_StatusCode response) ''desktop_auth_create_failed''
                       ''Unable to create desktop login'')
           else case da_attempt d body of
                  None \<Rightarrow> Inl desktop_mismatch
                | Some attempt \<Rightarrow>
                    if att_AttemptID attempt = [] \<or> att_AuthorizationURL attempt = [] \<or>
                       time_IsZero (att_ExpiresAt attempt)
                    then Inl desktop_mismatch else Inr attempt, w))"

definition validateDesktopAuthorizationURL :: "target option \<Rightarrow> string \<Rightarrow> string \<Rightarrow> string fallible" where
  "validateDesktopAuthorizationURL target attemptID rawURL =
     (let expectedPath = ''/api/v1/auth/desktop/attempts/'' @ url_PathEscape attemptID @ ''/start''
      in case (url_Parse rawURL, target) of
           (Some parsed, Some t) \<Rightarrow>
             if attemptID = [] \<or> length attemptID > 128 \<or> url_Scheme parsed \<noteq> url_Scheme (tg_url t) \<or>
                url_Host parsed \<noteq> url_Host (tg_url t) \<or> url_User parsed \<noteq> None \<or> url_Opaque parsed \<noteq> [] \<or>
                url_EscapedPath parsed \<noteq> expectedPath \<or> url_RawQuery parsed \<noteq> [] \<or> url_ForceQuery parsed \<or>
                url_Fragment parsed \<noteq> []
             then Inl (ErrorNew ''invalid desktop authorization URL'') else Inr (URL_String parsed)
         | _ \<Rightarrow> Inl (ErrorNew ''invalid desktop authorization URL''))"

subsection \<open>The callback\<close>

text \<open>Whether a callback was received, and the buffered channel of one callback.\<close>

record callback_state =
  cbs_received :: bool
  cbs_callbacks :: "desktopAuthCallback list"

definition callback_accepted :: "string \<Rightarrow> string \<Rightarrow> request \<Rightarrow> desktopAuthCallback option" where
  "callback_accepted path attemptID request =
     (if rq_Method request \<noteq> ''GET'' \<or> rq_Path request \<noteq> path \<or>
         map_option fst (net_SplitHostPort (rq_RemoteAddr request)) \<noteq> Some ''127.0.0.1''
      then None
      else case url_ParseQuery (url_RawQuery (rq_URL request)) of
             None \<Rightarrow> None
           | Some query \<Rightarrow>
               if length (remdups (map fst query)) \<noteq> 2 \<or> length (query_values query ''attempt'') \<noteq> 1 \<or>
                  length (query_values query ''code'') \<noteq> 1
               then None
               else
                 let callback = \<lparr>cb_AttemptID = hd (query_values query ''attempt''), cb_Code = hd (query_values query ''code'')\<rparr>
                 in if \<not> constantTimeEqual (cb_AttemptID callback) attemptID \<or> cb_Code callback = [] \<or>
                       length (cb_Code callback) > 512
                    then None else Some callback)"

text \<open>The status of the answer and the state after it.\<close>

definition desktop_callback :: "string \<Rightarrow> string \<Rightarrow> request \<Rightarrow> callback_state \<Rightarrow> int \<times> callback_state" where
  "desktop_callback path attemptID request c =
     (case callback_accepted path attemptID request of
        None \<Rightarrow> (400, c)
      | Some callback \<Rightarrow>
          if cbs_received c then (409, c)
          else
            let c = c\<lparr>cbs_received := True\<rparr>
            in if length (cbs_callbacks c) < 1 then (200, c\<lparr>cbs_callbacks := cbs_callbacks c @ [callback]\<rparr>) else (409, c))"

subsection \<open>The exchange\<close>

definition expectedPaths :: "(string \<times> string) list" where
  "expectedPaths = [(refreshCookieName, ''/api/v1/auth''), (protocolAccessCookieName, ''/'')]"

definition sanitized_cookie :: "string \<Rightarrow> Cookie \<Rightarrow> Cookie" where
  "sanitized_cookie path cookie =
     cookie\<lparr>ck_Path := path, ck_Domain := [], ck_HttpOnly := True, ck_SameSite := SameSiteLaxMode,
            ck_Partitioned := False\<rparr>"

text \<open>The loop over the cookies, with the names already seen: the cookies that are passed on.\<close>

fun sanitize_loop :: "(string \<Rightarrow> string option) \<Rightarrow> bool \<Rightarrow> string list \<Rightarrow> string list \<Rightarrow> (Cookie list \<times> string list) fallible" where
  "sanitize_loop dates requireSecure seen [] = Inr ([], seen)"
| "sanitize_loop dates requireSecure seen (value # rest) =
     (case ParseSetCookie dates value of
        Inl err \<Rightarrow> Inl err
      | Inr cookie \<Rightarrow>
          (case map_of expectedPaths (ck_Name cookie) of
             None \<Rightarrow> sanitize_loop dates requireSecure seen rest
           | Some path \<Rightarrow>
               if ck_Name cookie \<in> set seen \<or> ck_Value cookie = []
               then Inl (ErrorNew ''invalid desktop auth cookie'')
               else if requireSecure \<and> \<not> ck_Secure cookie then Inl (ErrorNew ''insecure desktop auth cookie'')
               else case sanitize_loop dates requireSecure (ck_Name cookie # seen) rest of
                      Inl err \<Rightarrow> Inl err
                    | Inr (cookies, seen) \<Rightarrow> Inr (sanitized_cookie path cookie # cookies, seen)))"

definition sanitizeDesktopAuthCookies :: "(string \<Rightarrow> string option) \<Rightarrow> string list \<Rightarrow> bool \<Rightarrow> string list fallible" where
  "sanitizeDesktopAuthCookies dates values requireSecure =
     (case sanitize_loop dates requireSecure [] values of
        Inl err \<Rightarrow> Inl err
      | Inr (cookies, seen) \<Rightarrow>
          if length seen \<noteq> length expectedPaths then Inl (ErrorNew ''missing desktop auth cookie'')
          else Inr (map cookie_String cookies))"

definition exchange_body :: "json \<Rightarrow> string \<Rightarrow> json" where
  "exchange_body user accessToken =
     JObject [(''data'', JObject [(''user'', user), (''tokens'', JObject [(''accessToken'', JString accessToken)])])]"

definition exchangeDesktopAuth ::
  "'w appHost \<Rightarrow> 'w desktop_auth \<Rightarrow> target \<Rightarrow> desktopAuthCallback \<Rightarrow> string \<Rightarrow> 'w \<Rightarrow>
     (desktopAuthError + desktopAuthExchange) \<times> 'w" where
  "exchangeDesktopAuth a d target callback codeVerifier w =
     (case desktop_post a target
             (''/api/v1/auth/desktop/attempts/'' @ url_PathEscape (cb_AttemptID callback) @ ''/exchange'')
             (json_object [(''code'', JString (cb_Code callback)), (''codeVerifier'', JString codeVerifier)])
             ''Unable to complete desktop login'' w of
        (Inl err, w) \<Rightarrow> (Inl err, w)
      | (Inr (response, body), w) \<Rightarrow>
          (if rs_StatusCode response \<noteq> 200
           then Inl (desktopAuthResponseError (rs_StatusCode response) ''desktop_auth_exchange_failed''
                       ''Unable to complete desktop login'')
           else case da_exchange d body of
                  Some (Some user, accessToken) \<Rightarrow>
                    if accessToken = [] then Inl desktop_mismatch
                    else (case sanitizeDesktopAuthCookies (ah_dates a) (rs_Header response ''Set-Cookie'')
                                 (targetRequiresSecureCookies (Some target)) of
                            Inl _ \<Rightarrow> Inl desktop_mismatch
                          | Inr cookies \<Rightarrow>
                              Inr \<lparr>exg_Body = ah_Marshal a (exchange_body user accessToken), exg_Cookies = cookies,
                                   exg_RequestID = header_Get (rs_Header response) ''X-Request-ID''\<rparr>)
                | _ \<Rightarrow> Inl desktop_mismatch, w))"

subsection \<open>The handler\<close>

text \<open>The wait of an attempt, at \<open>now\<close>.\<close>

definition desktopAuthWait :: "time \<Rightarrow> time \<Rightarrow> duration \<Rightarrow> duration" where
  "desktopAuthWait now expiresAt desktopAuthTimeout =
     (let wait = time_Sub expiresAt now
      in if wait \<le> 0 \<or> wait > desktopAuthTimeout then desktopAuthTimeout else wait)"

datatype wait_outcome = CallbackReceived desktopAuthCallback | TimerFired | RequestCancelled | ServeFailed

text \<open>
  Everything up to the wait, for the target that is current: the verifier where the browser was opened.
\<close>

definition desktop_begin ::
  "'w appHost \<Rightarrow> 'w desktop_auth \<Rightarrow> target \<Rightarrow> string \<Rightarrow> 'w \<Rightarrow> (answer + desktopAuthAttempt \<times> string) \<times> 'w" where
  "desktop_begin a d target providerID w =
     (case da_Listen d w of
        (Inl _, w) \<Rightarrow>
          (Inl (writeError 503 ''desktop_auth_listener_unavailable'' ''Unable to start the desktop login callback''), w)
      | (Inr port, w) \<Rightarrow>
          (case ah_randomToken a 24 w of
             (Inl _, w) \<Rightarrow> (Inl (writeError 503 ''desktop_auth_unavailable'' ''Unable to prepare desktop login''), w)
           | (Inr callbackPathToken, w) \<Rightarrow>
               (case ah_randomToken a 32 w of
                  (Inl _, w) \<Rightarrow>
                    (Inl (writeError 503 ''desktop_auth_unavailable'' ''Unable to prepare desktop login''), w)
                | (Inr codeVerifier, w) \<Rightarrow>
                    (let redirectURI = ''http://127.0.0.1:'' @ string_of_int port @ ''/callback/'' @ callbackPathToken
                     in case createDesktopAuthAttempt a d target providerID redirectURI codeVerifier w of
                          (Inl err, w) \<Rightarrow> (Inl (writeDesktopAuthError err), w)
                        | (Inr attempt, w) \<Rightarrow>
                            (case validateDesktopAuthorizationURL (Some target) (att_AttemptID attempt)
                                    (att_AuthorizationURL attempt) of
                               Inl _ \<Rightarrow>
                                 (Inl (writeError 502 ''desktop_auth_contract_mismatch''
                                         ''Soha Server returned an invalid desktop login URL''), w)
                             | Inr authorizationURL \<Rightarrow>
                                 (case ah_openBrowserURL a of
                                    None \<Rightarrow>
                                      (Inl (writeError 503 ''desktop_auth_browser_unavailable''
                                              ''Unable to open the system browser''), w)
                                  | Some open_browser \<Rightarrow>
                                      let (err, w) = open_browser authorizationURL w
                                      in if err \<noteq> None
                                         then (Inl (writeError 503 ''desktop_auth_browser_unavailable''
                                                      ''Unable to open the system browser''), w)
                                         else (Inr (attempt, codeVerifier), w)))))))"

definition server_changed :: answer where
  "server_changed = writeError 409 ''desktop_auth_server_changed'' ''Soha Server changed during desktop login''"

definition exchange_answer :: "desktopAuthExchange \<Rightarrow> answer" where
  "exchange_answer x =
     \<lparr>an_Status = 200,
      an_Header =
        (let h = fold (header_Add ''Set-Cookie'') (exg_Cookies x) json_header
         in if exg_RequestID x \<noteq> [] then header_Set ''X-Request-ID'' (exg_RequestID x) h else h),
      an_Payload = PBody (exg_Body x, None)\<rparr>"

text \<open>
  What follows a callback. The first comparison of the target comes before the exchange with the server,
  the one of \<open>markAuthenticated\<close> after it; \<open>between\<close> is what happens during the exchange.
\<close>

definition desktop_finish ::
  "'w appHost \<Rightarrow> 'w desktop_auth \<Rightarrow> (host \<times> 'w \<Rightarrow> host \<times> 'w) \<Rightarrow> target \<Rightarrow> desktopAuthCallback \<Rightarrow> string \<Rightarrow>
     host \<times> 'w \<Rightarrow> answer \<times> host \<times> 'w" where
  "desktop_finish a d between target callback codeVerifier s =
     (if target \<noteq> hs_target (fst s) then (server_changed, s)
      else
        let (exchanged, w) = exchangeDesktopAuth a d target callback codeVerifier (snd s);
            s = between (fst s, w)
        in case exchanged of
             Inl err \<Rightarrow> (writeDesktopAuthError err, s)
           | Inr x \<Rightarrow>
               (case refreshTokenFromSetCookies (ah_dates a) (exg_Cookies x)
                       (targetRequiresSecureCookies (Some target)) of
                  Inl _ \<Rightarrow>
                    (writeError 502 ''desktop_auth_contract_mismatch'' ''Invalid Soha Server desktop login response'', s)
                | Inr refreshToken \<Rightarrow>
                    let (marked, s) = markAuthenticated a (Some target) refreshToken s
                    in (if marked then exchange_answer x else server_changed, s)))"

definition desktop_wait ::
  "'w appHost \<Rightarrow> 'w desktop_auth \<Rightarrow> (host \<times> 'w \<Rightarrow> host \<times> 'w) \<Rightarrow> target \<Rightarrow> string \<Rightarrow> wait_outcome \<Rightarrow>
     host \<times> 'w \<Rightarrow> answer \<times> host \<times> 'w" where
  "desktop_wait a d between target codeVerifier outcome s =
     (case outcome of
        CallbackReceived callback \<Rightarrow> desktop_finish a d between target callback codeVerifier s
      | TimerFired \<Rightarrow> (writeError 408 ''desktop_auth_timeout'' ''Desktop login timed out'', s)
      | RequestCancelled \<Rightarrow> (writeError 408 ''desktop_auth_cancelled'' ''Desktop login was cancelled'', s)
      | ServeFailed \<Rightarrow>
          (writeError 503 ''desktop_auth_listener_unavailable'' ''Desktop login callback stopped unexpectedly'', s))"

text \<open>
  The handler: others run after the check for a pending switch, while the user signs in, and during
  the exchange.
\<close>

definition handleDesktopAuth ::
  "'w appHost \<Rightarrow> 'w desktop_auth \<Rightarrow> (host \<times> 'w \<Rightarrow> host \<times> 'w) \<Rightarrow> (host \<times> 'w \<Rightarrow> host \<times> 'w) \<Rightarrow>
     (host \<times> 'w \<Rightarrow> host \<times> 'w) \<Rightarrow> request \<Rightarrow> wait_outcome \<Rightarrow> host \<times> 'w \<Rightarrow> answer \<times> host \<times> 'w" where
  "handleDesktopAuth a d between1 between2 between3 request outcome s =
     (case validateHostMutation a request of
        Some refused \<Rightarrow> (refused, s)
      | None \<Rightarrow>
          (case decodeRequestJSON a (da_decode_provider d) request of
             Inl _ \<Rightarrow> (writeError 400 ''invalid_request'' ''A desktop login provider is required'', s)
           | Inr input \<Rightarrow>
               (let providerID = trim_space input
                in if providerID = [] \<or> providerID \<noteq> input \<or> length providerID > 128
                   then (writeError 400 ''invalid_request'' ''A desktop login provider is required'', s)
                   else if hs_desktopAuth (fst s)
                   then (writeError 409 ''desktop_auth_in_progress'' ''Another desktop login is already in progress'', s)
                   else
                     let s = ((fst s)\<lparr>hs_desktopAuth := True\<rparr>, snd s);
                         (reply, s) =
                           (if hasPendingSwitch (fst s)
                            then (writeError 503 ''server_switch_pending'' ''Server switch is pending'', s)
                            else
                              let s = between1 s; target = hs_target (fst s)
                              in case desktop_begin a d target providerID (snd s) of
                                   (Inl refused, w) \<Rightarrow> (refused, (fst s, w))
                                 | (Inr (attempt, codeVerifier), w) \<Rightarrow>
                                     desktop_wait a d between3 target codeVerifier outcome (between2 (fst s, w)))
                     in (reply, (fst s)\<lparr>hs_desktopAuth := False\<rparr>, snd s))))"

end
