(* ===== verification/Shell_Server.thy ===== *)
theory Shell_Server
  imports Desktop_Auth
begin

text \<open>
  The export of personal data (\<open>personal_export.go\<close>), which goes through the proxy into a private file, and the
  routing of every request of the web view. The private file, SHA-256 and the file that the user chooses are
  interfaces.
\<close>

subsection \<open>Exporting personal data\<close>

definition personalArchiveMaxBytes :: nat where "personalArchiveMaxBytes = 268435456"

text \<open>
  \<open>pe_written\<close> is what a body longer than the bound leaves in the private file (the writes before the one
  that exceeds it); \<open>pe_done\<close> tells that the request was cancelled. The chosen file: its exclusive creation,
  its identity by handle and by name, the copy and the calls that end it.
\<close>

record 'w personal_export =
  pe_decode :: "(string \<times> int) decoder"
  pe_Marshal :: "string \<Rightarrow> int \<Rightarrow> string"
  pe_prompt :: "('w \<Rightarrow> string fallible \<times> 'w) option"
  pe_stage :: "'w \<Rightarrow> error \<times> 'w"
  pe_written :: "string \<Rightarrow> string"
  pe_sha256 :: "string \<Rightarrow> string"
  pe_done :: "'w \<Rightarrow> bool"
  pe_IsAbs :: "string \<Rightarrow> bool"
  pe_Seek :: "'w \<Rightarrow> error \<times> 'w"
  pe_OpenExclusive :: "string \<Rightarrow> 'w \<Rightarrow> error \<times> 'w"
  pe_Stat :: "'w \<Rightarrow> nat fallible \<times> 'w"
  pe_Copy :: "string \<Rightarrow> 'w \<Rightarrow> error \<times> 'w"
  pe_Lstat :: "string \<Rightarrow> 'w \<Rightarrow> nat fallible \<times> 'w"
  pe_Sync :: "'w \<Rightarrow> error \<times> 'w"
  pe_Close :: "'w \<Rightarrow> error \<times> 'w"
  pe_Remove :: "string \<Rightarrow> 'w \<Rightarrow> error \<times> 'w"

definition supportsNativePersonalExport :: "string \<Rightarrow> bool" where
  "supportsNativePersonalExport platform \<longleftrightarrow> platform = ''darwin'' \<or> platform = ''linux'' \<or> platform = ''windows''"

text \<open>What \<open>stagedPersonalArchive\<close> holds after an answer was written to it.\<close>

definition staged_content :: "'w personal_export \<Rightarrow> answer \<Rightarrow> string" where
  "staged_content x reply =
     (case an_Payload reply of
        PBody (content, _) \<Rightarrow> if length content > personalArchiveMaxBytes then pe_written x content else content
      | _ \<Rightarrow> [])"

definition context_Canceled :: go_error where "context_Canceled = ErrorNew ''context canceled''"

text \<open>The part between the creation of the file and the deferred cleanup.\<close>

definition copy_archive :: "'w personal_export \<Rightarrow> string \<Rightarrow> string \<Rightarrow> nat \<Rightarrow> 'w \<Rightarrow> error \<times> 'w" where
  "copy_archive x content path original w =
     (case pe_Copy x content w of
        (Some err, w) \<Rightarrow> (Some err, w)
      | (None, w) \<Rightarrow>
          (if pe_done x w then (Some context_Canceled, w)
           else
             let (actual, w) = pe_Lstat x path w
             in if actual \<noteq> Inr original then (Some (ErrorNew ''personal export destination changed''), w)
                else pe_Sync x w))"

definition savePersonalArchive :: "'w personal_export \<Rightarrow> string \<Rightarrow> string \<Rightarrow> 'w \<Rightarrow> error \<times> 'w" where
  "savePersonalArchive x content path w =
     (if pe_done x w then (Some context_Canceled, w)
      else case pe_Seek x w of
             (Some err, w) \<Rightarrow> (Some err, w)
           | (None, w) \<Rightarrow>
               (case pe_OpenExclusive x path w of
                  (Some err, w) \<Rightarrow> (Some err, w)
                | (None, w) \<Rightarrow>
                    (case pe_Stat x w of
                       (Inl err, w) \<Rightarrow> (Some err, snd (pe_Close x w))
                     | (Inr original, w) \<Rightarrow>
                         let (resultErr, w) = copy_archive x content path original w;
                             (closeErr, w) = pe_Close x w;
                             resultErr = errors_join [resultErr, closeErr]
                         in if resultErr = None then (None, w)
                            else
                              let (actual, w) = pe_Lstat x path w
                              in (resultErr, if actual = Inr original then snd (pe_Remove x path w) else w))))"

text \<open>The session is the one the export began with, and in use.\<close>

definition session_unchanged :: "target \<Rightarrow> host \<Rightarrow> bool" where
  "session_unchanged target h \<longleftrightarrow> \<not> (target \<noteq> hs_target h \<or> hs_credentialsBlocked h \<or> hasPendingSwitch h)"

definition archive_verified :: "'w personal_export \<Rightarrow> string \<Rightarrow> answer \<Rightarrow> bool" where
  "archive_verified x assistantID reply \<longleftrightarrow>
     strconv_Atoi (header_Get (an_Header reply) ''Content-Length'') = Some (int (length (staged_content x reply))) \<and>
     length (staged_content x reply) \<ge> 1 \<and>
     header_Get (an_Header reply) ''X-Assistant-ID'' = assistantID \<and>
     header_Get (an_Header reply) ''X-Content-SHA256'' = pe_sha256 x (staged_content x reply)"

definition export_request :: "'w personal_export \<Rightarrow> string \<Rightarrow> int \<Rightarrow> request \<Rightarrow> request" where
  "export_request x assistantID environmentVersion request =
     request\<lparr>rq_URL := (rq_URL request)\<lparr>url_Path := apiPrefix @ ''/copilot/assistant/environment/export'', url_RawQuery := []\<rparr>,
             rq_Body := Some (pe_Marshal x assistantID environmentVersion, None),
             rq_Header := header_Set ''Accept-Encoding'' ''identity''
               (header_Set ''Content-Type'' ''application/json'' (rq_Header request))\<rparr>"

text \<open>After the transfer: the receipt is verified before the dialog, the session again after it.\<close>

definition finish_export ::
  "'w personal_export \<Rightarrow> ('w \<Rightarrow> string fallible \<times> 'w) \<Rightarrow> (host \<times> 'w \<Rightarrow> host \<times> 'w) \<Rightarrow> target \<Rightarrow> string \<Rightarrow> answer \<Rightarrow>
     host \<times> 'w \<Rightarrow> answer \<times> host \<times> 'w" where
  "finish_export x prompt between target assistantID staged s =
     (if an_Status staged \<noteq> 200
      then (writeError (if an_Status staged < 400 \<or> an_Status staged > 599 then 502 else an_Status staged)
              ''export_unavailable'' ''Personal data export was not completed'', s)
      else if \<not> archive_verified x assistantID staged \<or> pe_done x (snd s) \<or> \<not> session_unchanged target (fst s)
      then (writeError 502 ''export_unverified'' ''Personal data export integrity or session changed'', s)
      else
        let (chosen, w) = prompt (snd s); (h, w) = between (fst s, w)
        in case chosen of
             Inl _ \<Rightarrow> (writeError 503 ''export_canceled'' ''Personal data export was not saved'', h, w)
           | Inr path \<Rightarrow>
               if pe_done x w \<or> \<not> session_unchanged target h
               then (writeError 503 ''export_canceled'' ''Personal data export was not saved'', h, w)
               else if path = [] then (writeData 200 (PStatus ''canceled''), h, w)
               else if \<not> pe_IsAbs x path
               then (writeError 503 ''export_save_failed'' ''Unable to save archive; choose a new file name'', h, w)
               else
                 let (err, w) = savePersonalArchive x (staged_content x staged) path w
                 in (if err \<noteq> None
                     then writeError 503 ''export_save_failed'' ''Unable to save archive; choose a new file name''
                     else writeData 200 (PStatus ''saved''), h, w))"

definition handlePersonalDataExport ::
  "'w appHost \<Rightarrow> 'w personal_export \<Rightarrow> (nat \<Rightarrow> host \<times> 'w \<Rightarrow> host \<times> 'w) \<Rightarrow> request \<Rightarrow> host \<times> 'w \<Rightarrow> answer \<times> host \<times> 'w" where
  "handlePersonalDataExport a x between request s =
     (case validateHostMutation a request of
        Some refused \<Rightarrow> (refused, s)
      | None \<Rightarrow>
          if \<not> supportsNativePersonalExport (app_Platform (ah_appInfo a))
          then (writeError 501 ''export_unsupported''
                  ''Personal data export is unavailable on this device; use the desktop app or Web'', s)
          else case decodeRequestJSON a (pe_decode x) request of
                 Inl _ \<Rightarrow> (writeError 400 ''invalid_export'' ''Invalid personal data export selection'', s)
               | Inr (assistantID, environmentVersion) \<Rightarrow>
                   if assistantID = [] \<or> length assistantID > 128 \<or> environmentVersion < 1
                   then (writeError 400 ''invalid_export'' ''Invalid personal data export selection'', s)
                   else (case pe_prompt x of
                      None \<Rightarrow> (writeError 503 ''native_action_unavailable'' ''Native save dialog is unavailable'', s)
                    | Some prompt \<Rightarrow>
                        (case pe_stage x (snd s) of
                           (Some _, w) \<Rightarrow>
                             (writeError 503 ''export_unavailable'' ''Unable to stage personal data export'', fst s, w)
                         | (None, w) \<Rightarrow>
                             let target = hs_target (fst s);
                                 (staged, s) = handleAPI a (between 1) (between 2) (between 3)
                                   (export_request x assistantID environmentVersion request) (fst s, w)
                             in finish_export x prompt (between 4) target assistantID staged s)))"

subsection \<open>Routing\<close>

definition under :: "string \<Rightarrow> string \<Rightarrow> bool" where
  "under prefix path \<longleftrightarrow> path = prefix \<or> has_prefix path (prefix @ ''/'')"

text \<open>The handler a path is given to.\<close>

datatype route =
    RState | RCheck | RSwitch | RActivate | RClear | RLogs | RBrowser | RExport | RDesktopAuth
  | RRuntime | RApi | RStatic

definition host_routes :: "(string \<times> route) list" where
  "host_routes =
     [(hostPrefix @ ''/state'', RState), (hostPrefix @ ''/connections/check'', RCheck),
      (hostPrefix @ ''/connections/switch'', RSwitch), (hostPrefix @ ''/connections/activate'', RActivate),
      (hostPrefix @ ''/session/clear'', RClear), (hostPrefix @ ''/logs/open'', RLogs),
      (hostPrefix @ ''/browser/open'', RBrowser), (hostPrefix @ ''/personal-data/export'', RExport),
      (hostPrefix @ ''/auth/desktop/start'', RDesktopAuth)]"

definition route_of :: "string \<Rightarrow> route" where
  "route_of path =
     (case map_of host_routes path of
        Some r \<Rightarrow> r
      | None \<Rightarrow> if under hostPrefix path then RRuntime else if under apiPrefix path then RApi else RStatic)"

definition setStaticSecurityHeaders :: "'w appHost \<Rightarrow> header \<Rightarrow> header" where
  "setStaticSecurityHeaders a h =
     (let dev = ah_FRONTEND_DEVSERVER_URL a \<noteq> [];
          quote = (\<lambda>s. CHR 0x27 # s @ [CHR 0x27]);
          scriptSource = ''script-src '' @ quote ''self''
            @ (if dev then '' '' @ quote ''unsafe-inline'' @ '' '' @ quote ''unsafe-eval'' else []);
          connectSource = ''connect-src '' @ quote ''self'' @ (if dev then '' ws: wss:'' else []);
          policy = strings_Join
            [''default-src '' @ quote ''self'', scriptSource,
             ''style-src '' @ quote ''self'' @ '' '' @ quote ''unsafe-inline'',
             ''img-src '' @ quote ''self'' @ '' data: https: http://127.0.0.1:* http://[::1]:*'',
             ''font-src '' @ quote ''self'' @ '' data:'', connectSource, ''frame-src '' @ quote ''none'',
             ''object-src '' @ quote ''none'', ''base-uri '' @ quote ''none'', ''form-action '' @ quote ''self''] ''; ''
      in header_Set ''X-Frame-Options'' ''DENY''
           (header_Set ''X-Content-Type-Options'' ''nosniff''
             (header_Set ''Referrer-Policy'' ''no-referrer'' (header_Set ''Content-Security-Policy'' policy h))))"

text \<open>
  \<open>ServeHTTP\<close>: the identifier and the restored body, then the handler of the path. What runs in between
  is \<open>between\<close>, by the point of the handler. The writer carries the identifier before a handler adds its
  headers; only the desktop sign-in replaces it.
\<close>

definition ServeHTTP ::
  "'w appHost \<Rightarrow> 'w desktop_auth \<Rightarrow> 'w personal_export \<Rightarrow>
     (nat \<Rightarrow> host \<times> 'w \<Rightarrow> host \<times> 'w) \<Rightarrow> wait_outcome \<Rightarrow> request \<Rightarrow> host \<times> 'w \<Rightarrow> answer \<times> host \<times> 'w" where
  "ServeHTTP a d x between outcome request s =
     (let isAppRequest = under apiPrefix (rq_Path request) \<or> under hostPrefix (rq_Path request);
          (requestID, w) = (if isAppRequest then newRequestID a (snd s) else ([], snd s));
          h = fst s; s = (h, w);
          identified = (\<lambda>(reply :: answer, s).
            (if \<not> isAppRequest then reply
             else reply\<lparr>an_Header := (an_Header reply)(''X-Request-ID'' :=
                    (if route_of (rq_Path request) = RDesktopAuth \<and> an_Header reply ''X-Request-ID'' \<noteq> []
                     then an_Header reply ''X-Request-ID'' else requestID # an_Header reply ''X-Request-ID''))\<rparr>, s));
          restored =
            (if isAppRequest
             then restoreWailsRequestBody (request\<lparr>rq_Header := header_Set ''X-Request-ID'' requestID (rq_Header request)\<rparr>)
             else Inr request)
      in identified (case restored of
           Inl _ \<Rightarrow> (writeError 400 ''invalid_request_body'' ''Request body is invalid'', s)
         | Inr request \<Rightarrow>
             (case route_of (rq_Path request) of
                RState \<Rightarrow> let (reply, h) = handleState a request h in (reply, h, w)
              | RCheck \<Rightarrow> let (reply, w) = handleConnectionCheck a request w in (reply, h, w)
              | RSwitch \<Rightarrow> handleConnectionSwitch a (between 1) (between 2) (between 3) request s
              | RActivate \<Rightarrow> handleConnectionActivate a request s
              | RClear \<Rightarrow> handleSessionClear a (between 1) request s
              | RLogs \<Rightarrow> let (reply, w) = handleOpenLogDirectory a request w in (reply, h, w)
              | RBrowser \<Rightarrow> let (reply, w) = handleOpenBrowser a request w in (reply, h, w)
              | RExport \<Rightarrow> handlePersonalDataExport a x between request s
              | RDesktopAuth \<Rightarrow> handleDesktopAuth a d (between 1) (between 2) (between 3) request outcome s
              | RRuntime \<Rightarrow>
                  if \<not> isTrustedAppRequest a request
                  then (writeError 403 ''untrusted_origin'' ''Request origin is not allowed'', s)
                  else (case ah_runtimeAPI a of
                     None \<Rightarrow> (writeError 404 ''runtime_not_found'' ''Desktop runtime endpoint is unavailable'', s)
                   | Some serve \<Rightarrow> let (reply, w) = serve request w in (reply, h, w))
              | RApi \<Rightarrow> handleAPI a (between 1) (between 2) (between 3) request s
              | RStatic \<Rightarrow>
                  let (reply, w) = ah_static a request w
                  in (reply\<lparr>an_Header := setStaticSecurityHeaders a (an_Header reply)\<rparr>, h, w))))"

end
