(* ===== verification/Server_Url.thy ===== *)
theory Server_Url
  imports Shell_Config
begin

text \<open>
  The normal form of server URLs: reading a normalized URL again gives its scheme and host and nothing
  else, so normalizing is idempotent, what was saved is what is loaded, and every server the shell talks
  to is an HTTPS origin or on the loopback interface.
\<close>

subsection \<open>Escaping a host\<close>

lemma all_chars: "list_all P (map char_of [0..<256::nat]) \<Longrightarrow> P c" for c :: char
proof -
  assume all: "list_all P (map char_of [0..<256::nat])"
  have "of_char c \<in> set [0..<256::nat]" by simp
  then have "char_of (of_char c :: nat) \<in> set (map char_of [0..<256::nat])" by (metis image_eqI set_map)
  then show ?thesis using all by (auto simp: list_all_iff)
qed

lemma of_char_bound: "(of_char c :: nat) < 256"
  by simp

lemma upper_hex_value: "n < 16 \<Longrightarrow> is_hex (upper_hex n) \<and> hex_value (upper_hex n) = n"
proof -
  have "list_all (\<lambda>n. is_hex (upper_hex n) \<and> hex_value (upper_hex n) = n) [0..<16]" by code_simp
  then show "n < 16 \<Longrightarrow> ?thesis" by (simp add: list_all_iff)
qed

text \<open>The bytes that an escaped host can have.\<close>

definition host_byte :: "char \<Rightarrow> bool" where
  "host_byte c \<longleftrightarrow> c = CHR ''%'' \<or> \<not> shouldEscape EncodeHost c"

lemma escape_Cons: "escape m (c # s) =
    (if shouldEscape m c then [CHR ''%'', upper_hex (of_char c div 16), upper_hex (of_char c mod 16)] else [c]) @ escape m s"
  by (simp add: escape_def)

lemma escape_Nil [simp]: "escape m [] = []"
  by (simp add: escape_def)

lemma upper_hex_plain: "n < 16 \<Longrightarrow> \<not> shouldEscape EncodeHost (upper_hex n)"
proof -
  have "list_all (\<lambda>n. \<not> shouldEscape EncodeHost (upper_hex n)) [0..<16]" by code_simp
  then show "n < 16 \<Longrightarrow> ?thesis" by (simp add: list_all_iff)
qed

lemma escape_host_bytes: "c \<in> set (escape EncodeHost s) \<Longrightarrow> host_byte c"
proof (induction s)
  case (Cons d s)
  have "(of_char d :: nat) div 16 < 16" using of_char_bound [of d] by (simp add: less_mult_imp_div_less)
  with Cons show ?case by (auto simp: escape_Cons host_byte_def upper_hex_plain split: if_splits)
qed simp

lemma host_byte_not:
  "host_byte c \<Longrightarrow> c \<noteq> CHR ''#'' \<and> c \<noteq> CHR ''?'' \<and> c \<noteq> CHR ''/'' \<and> c \<noteq> CHR ''@'' \<and>
     (\<forall>p \<in> set space_sequences. hd p \<noteq> c \<and> last p \<noteq> c)"
proof -
  have "list_all (\<lambda>c. host_byte c \<longrightarrow> c \<noteq> CHR ''#'' \<and> c \<noteq> CHR ''?'' \<and> c \<noteq> CHR ''/'' \<and> c \<noteq> CHR ''@'' \<and>
          (\<forall>p \<in> set space_sequences. hd p \<noteq> c \<and> last p \<noteq> c)) (map char_of [0..<256::nat])"
    by code_simp
  then show "host_byte c \<Longrightarrow> ?thesis" by (rule mp [OF all_chars])
qed

lemma unescape_escape: "unescape EncodePath (escape EncodeHost s) = Some s"
proof (induction s)
  case (Cons c s)
  have n: "(of_char c :: nat) div 16 < 16" using of_char_bound [of c] by (simp add: less_mult_imp_div_less)
  note hex = upper_hex_value [OF n] upper_hex_value [of "of_char c mod 16"]
  have "hex_value (upper_hex (of_char c div 16)) * 16 + hex_value (upper_hex (of_char c mod 16)) = of_char c"
    using hex by simp
  moreover have "\<not> shouldEscape EncodeHost c \<Longrightarrow> c \<noteq> CHR ''%''" by (auto simp: shouldEscape_def is_alnum_def char_class_defs less_eq_char_def)
  ultimately show ?case using Cons hex by (auto simp: escape_Cons Let_def)
qed simp

lemma unescape_percent:
  "unescape m (CHR ''%'' # s) = Some r \<Longrightarrow>
    \<exists>a b rest r'. s = a # b # rest \<and> is_hex a \<and> is_hex b \<and> unescape m rest = Some r' \<and>
      r = char_of (hex_value a * 16 + hex_value b) # r'"
  by (cases s; cases "tl s") (auto simp: Let_def split: if_splits)

lemma unescape_plain:
  "c \<noteq> CHR ''%'' \<Longrightarrow> unescape m (c # s) = Some r \<Longrightarrow> \<exists>r'. unescape m s = Some r' \<and> r = c # r'"
  by (auto split: if_splits)

lemma unescape_path_simps:
  "is_hex a \<Longrightarrow> is_hex b \<Longrightarrow> unescape EncodePath (CHR ''%'' # a # b # rest) =
     map_option (Cons (char_of (hex_value a * 16 + hex_value b))) (unescape EncodePath rest)"
  "c \<noteq> CHR ''%'' \<Longrightarrow> unescape EncodePath (c # s) = map_option (Cons c) (unescape EncodePath s)"
  by (simp_all add: Let_def)

declare unescape.simps(2) [simp del]

lemma unescape_path: "unescape m s = Some r \<Longrightarrow> unescape EncodePath s = Some r"
proof (induction "length s" arbitrary: s r rule: less_induct)
  case less
  show ?case
  proof (cases s)
    case (Cons c s')
    show ?thesis
    proof (cases "c = CHR ''%''")
      case True
      obtain a b rest r' where h: "s' = a # b # rest" "is_hex a" "is_hex b" "unescape m rest = Some r'"
        "r = char_of (hex_value a * 16 + hex_value b) # r'"
        using unescape_percent less.prems Cons True by blast
      then show ?thesis using less.hyps [of rest r'] Cons True by (simp add: unescape_path_simps)
    next
      case False
      obtain r' where "unescape m s' = Some r'" "r = c # r'" using unescape_plain [OF False] less.prems Cons by blast
      then show ?thesis using less.hyps [of s' r'] Cons False by (simp add: unescape_path_simps)
    qed
  qed (use less.prems in simp)
qed

lemma unescape_path_append:
  "unescape EncodePath xs = Some r \<Longrightarrow> unescape EncodePath (xs @ ys) = map_option ((@) r) (unescape EncodePath ys)"
proof (induction "length xs" arbitrary: xs r rule: less_induct)
  case less
  show ?case
  proof (cases xs)
    case Nil
    then show ?thesis using less.prems by (cases "unescape EncodePath ys") auto
  next
    case (Cons c s')
    show ?thesis
    proof (cases "c = CHR ''%''")
      case True
      obtain a b rest r' where h: "s' = a # b # rest" "is_hex a" "is_hex b" "unescape EncodePath rest = Some r'"
        "r = char_of (hex_value a * 16 + hex_value b) # r'"
        using unescape_percent less.prems Cons True by blast
      then show ?thesis using less.hyps [of rest r'] Cons True
        by (cases "unescape EncodePath ys") (simp_all add: unescape_path_simps)
    next
      case False
      obtain r' where "unescape EncodePath s' = Some r'" "r = c # r'"
        using unescape_plain [OF False] less.prems Cons by blast
      then show ?thesis using less.hyps [of s' r'] Cons False
        by (cases "unescape EncodePath ys") (simp_all add: unescape_path_simps)
    qed
  qed
qed

subsection \<open>Parsing an origin again\<close>

lemma cut_last_Some: "cut_last c s = Some (a, b) \<Longrightarrow> s = a @ c # b \<and> c \<notin> set b"
proof -
  assume cut: "cut_last c s = Some (a, b)"
  define t where "t = rev (takeWhile (\<lambda>d. d \<noteq> c) (rev s))"
  have c: "c \<in> set s" and ab: "a = take (length s - Suc (length t)) s" "b = t"
    using cut by (auto simp: cut_last_def t_def Let_def split: if_splits)
  have "c \<in> set (rev s)" using c by simp
  then obtain xs ys where xy: "rev s = xs @ c # ys" "c \<notin> set xs" by (meson split_list_first)
  have "takeWhile (\<lambda>d. d \<noteq> c) (rev s) = xs" unfolding xy(1) using xy(2) by (subst takeWhile_append2) auto
  then have t: "t = rev xs" by (simp add: t_def)
  have s: "s = rev ys @ c # rev xs" using xy(1) by (metis rev_append rev_rev_ident rev_singleton_conv append_Cons append_assoc append_Nil rev.simps(2))
  show ?thesis using s t ab xy(2) by simp
qed

lemma parseHost_escape:
  assumes "parseHost (escape EncodeHost h) = Some h'"
  shows "h' = h"
proof (cases "has_prefix (escape EncodeHost h) ''[''")
  case False
  then have "unescape EncodeHost (escape EncodeHost h) = Some h'"
    using assms by (auto simp: parseHost_def split: option.splits if_splits)
  then show ?thesis using unescape_path unescape_escape by fastforce
next
  case True
  obtain inner colonPort front zone hh z p where
    cut: "cut_last (CHR '']'') (escape EncodeHost h) = Some (inner, colonPort)"
    and zone: "split_zone (drop 1 inner) = (front, zone)"
    and un: "unescape EncodeHost front = Some hh" "unescape EncodeZone zone = Some z"
      "unescape EncodeHost colonPort = Some p"
    and h': "h' = ''['' @ hh @ z @ '']'' @ p"
    using assms True by (auto simp: parseHost_def Let_def split: option.splits if_splits prod.splits)
  have full: "escape EncodeHost h = inner @ CHR '']'' # colonPort" using cut_last_Some [OF cut] by simp
  have inner: "inner = CHR ''['' # drop 1 inner"
  proof (cases inner)
    case Nil
    then show ?thesis using True full by (simp add: has_prefix_def)
  next
    case (Cons c cs)
    then show ?thesis using True full by (simp add: has_prefix_def)
  qed
  have split: "\<And>s a b. split_zone s = (a, b) \<Longrightarrow> a @ b = s"
  proof -
    fix s show "\<And>a b. split_zone s = (a, b) \<Longrightarrow> a @ b = s"
      by (induction s) (auto split: if_splits prod.splits)
  qed
  have "escape EncodeHost h = [CHR ''[''] @ front @ zone @ [CHR '']''] @ colonPort"
    using full inner split [OF zone] by (metis append.assoc append_Cons append_Nil)
  then have "unescape EncodePath (escape EncodeHost h) = Some ([CHR ''[''] @ hh @ z @ [CHR '']''] @ p)"
    using un [THEN unescape_path] by (simp add: unescape_path_append unescape_path_simps)
  then show ?thesis using unescape_escape h' by simp
qed

definition url_origin :: "string \<Rightarrow> string \<Rightarrow> url" where
  "url_origin scheme host = url_empty\<lparr>url_Scheme := scheme, url_Host := host\<rparr>"

lemma URL_String_origin: "URL_String (url_origin scheme host) = scheme @ ''://'' @ escape EncodeHost host"
  by (simp add: URL_String_def url_origin_def url_empty_def url_EscapedPath_def)

lemma cut_at_absent: "c \<notin> set s \<Longrightarrow> cut_at c s = (s, [], False)"
proof -
  assume "c \<notin> set s"
  then have w: "takeWhile (\<lambda>d. d \<noteq> c) s = s" by (auto simp: takeWhile_eq_all_conv)
  show ?thesis unfolding cut_at_def w using \<open>c \<notin> set s\<close> by simp
qed

lemma cut_last_absent: "c \<notin> set s \<Longrightarrow> cut_last c s = None"
  by (simp add: cut_last_def)

lemma scheme_origin:
  "scheme = ''http'' \<or> scheme = ''https'' \<Longrightarrow> getScheme (scheme @ ''://'' @ rest) = Some (scheme, ''//'' @ rest)"
  by (auto simp: getScheme_def char_class_defs less_eq_char_def)

lemma url_Parse_origin:
  assumes scheme: "scheme = ''http'' \<or> scheme = ''https''"
    and parsed: "url_Parse (URL_String (url_origin scheme host)) = Some u"
  shows "u = url_origin scheme host"
proof -
  define eh where "eh = escape EncodeHost host"
  define full where "full = scheme @ ''://'' @ eh"
  have bytes: "\<And>c. c \<in> set eh \<Longrightarrow> host_byte c" unfolding eh_def by (rule escape_host_bytes)
  have absent: "CHR ''#'' \<notin> set full" "CHR ''?'' \<notin> set eh" "CHR ''/'' \<notin> set eh" "CHR ''@'' \<notin> set eh"
    using bytes host_byte_not scheme by (auto simp: full_def)
  have full': "URL_String (url_origin scheme host) = full" by (simp add: URL_String_origin full_def eh_def)
  have p: "parse_without_fragment full = Some u"
    using parsed absent(1) by (simp add: full' url_Parse_def cut_at_absent split: option.splits)
  have nostar: "full \<noteq> ''*''" using scheme by (auto simp: full_def)
  define rest where "rest = ''//'' @ eh"
  have sch: "getScheme full = Some (scheme, rest)" unfolding full_def rest_def using scheme by (rule scheme_origin)
  have q: "CHR ''?'' \<notin> set rest" using absent(2) by (auto simp: rest_def)
  have nosuf: "has_suffix rest ''?'' = False"
    using q by (metis has_suffix_def in_set_dropD list.set_intros(1))
  have low: "to_lower scheme = scheme" using scheme by (auto simp: to_lower_def to_lower_char_def is_upper_def less_eq_char_def)
  have auth: "takeWhile (\<lambda>c. c \<noteq> CHR ''/'') eh = eh" "drop 2 rest = eh"
    using absent(3) by (auto simp: rest_def takeWhile_eq_all_conv)
  have pre: "has_prefix rest ''/''" "has_prefix rest ''//''" by (simp_all add: has_prefix_def rest_def)
  have ne: "scheme \<noteq> []" using scheme by auto
  let ?u = "url_empty\<lparr>url_Scheme := scheme, url_ForceQuery := False, url_RawQuery := []\<rparr>"
  have "parse_without_fragment full =
      (if list_ex (\<lambda>c. (of_char c :: nat) < 32 \<or> (of_char c :: nat) = 127) full then None
       else case parseAuthority eh of None \<Rightarrow> None
            | Some (user, h) \<Rightarrow> setPath (?u\<lparr>url_User := user, url_Host := h\<rparr>) [])"
    using nostar by (simp add: parse_without_fragment_def Let_def sch low nosuf cut_at_absent [OF q] pre ne auth
        split: option.split)
  with p have "(case parseAuthority eh of None \<Rightarrow> None
            | Some (user, h) \<Rightarrow> setPath (?u\<lparr>url_User := user, url_Host := h\<rparr>) []) = Some u"
    by (simp split: if_splits)
  then obtain h where h: "parseHost eh = Some h"
    and u: "Some u = setPath ((url_empty\<lparr>url_Scheme := scheme, url_ForceQuery := False, url_RawQuery := []\<rparr>)
             \<lparr>url_User := None, url_Host := h\<rparr>) []"
    using absent(4) by (auto simp: parseAuthority_def cut_last_absent split: option.splits)
  have "h = host" using parseHost_escape h by (simp add: eh_def)
  then show ?thesis using u by (simp add: setPath_def url_origin_def url_empty_def)
qed

subsection \<open>The normal form\<close>

text \<open>A server the shell may talk to: an HTTPS origin, or an HTTP origin on the loopback interface.\<close>

definition secure_server :: "url \<Rightarrow> bool" where
  "secure_server u \<longleftrightarrow>
     url_Scheme u = ''https'' \<or>
     url_Scheme u = ''http'' \<and> (case parseIP (url_Hostname u) of None \<Rightarrow> False | Some ip \<Rightarrow> addr_IsLoopback ip)"

definition server_checks :: "url \<Rightarrow> bool" where
  "server_checks u \<longleftrightarrow>
     secure_server u \<and> url_Host u \<noteq> [] \<and> url_Hostname u \<noteq> [] \<and>
     (url_Port u \<noteq> [] \<longrightarrow>
        (case strconv_Atoi (url_Port u) of None \<Rightarrow> False | Some port \<Rightarrow> 1 \<le> port \<and> port \<le> 65535))"

lemma origin_checks:
  "server_checks (url_origin (url_Scheme u) (url_Host u)) = server_checks u"
  by (simp add: server_checks_def secure_server_def url_Hostname_def url_Port_def url_origin_def)

lemma url_origin_simps [simp]:
  "url_Scheme (url_origin s h) = s" "url_Host (url_origin s h) = h" "url_User (url_origin s h) = None"
  "url_RawQuery (url_origin s h) = []" "\<not> url_ForceQuery (url_origin s h)" "url_Fragment (url_origin s h) = []"
  "url_EscapedPath (url_origin s h) = []" "url_Path (url_origin s h) = []" "url_RawPath (url_origin s h) = []"
  by (simp_all add: url_origin_def url_empty_def url_EscapedPath_def)

lemma normalizeServerURL_origin:
  assumes "normalizeServerURL raw = Inr t"
  obtains scheme host where "t = URL_String (url_origin scheme host)" "scheme = ''http'' \<or> scheme = ''https''"
    "server_checks (url_origin scheme host)"
proof -
  obtain p where p: "url_Parse (trim_space raw) = Some p"
    using assms by (auto simp: normalizeServerURL_def split: option.splits)
  note run = assms [unfolded normalizeServerURL_def p option.case]
  have conds: "url_Scheme p = ''http'' \<or> url_Scheme p = ''https''" "url_Host p \<noteq> []" "url_Hostname p \<noteq> []"
    "url_User p = None" "url_RawQuery p = []" "\<not> url_ForceQuery p" "url_Fragment p = []"
    using run by (auto split: if_splits)
  have port: "url_Port p \<noteq> [] \<longrightarrow> (case strconv_Atoi (url_Port p) of None \<Rightarrow> False | Some n \<Rightarrow> 1 \<le> n \<and> n \<le> 65535)"
    using run by (auto split: if_splits option.splits)
  have sec: "secure_server p" using run by (auto simp: secure_server_def split: if_splits)
  have "t = URL_String (p\<lparr>url_Path := [], url_RawPath := []\<rparr>)" using run by (auto split: if_splits)
  then have "t = URL_String (url_origin (url_Scheme p) (url_Host p))"
    using conds by (simp add: URL_String_def url_EscapedPath_def)
  moreover have "server_checks (url_origin (url_Scheme p) (url_Host p))"
    unfolding origin_checks using conds port sec by (simp add: server_checks_def)
  ultimately show ?thesis using that conds(1) by blast
qed

lemma drop_leading_none: "filter (has_prefix s) seqs = [] \<Longrightarrow> drop_leading n seqs s = s"
  by (cases n) auto

lemma trim_space_plain:
  assumes "s \<noteq> []" "\<forall>p \<in> set space_sequences. hd p \<noteq> hd s" "\<forall>p \<in> set space_sequences. last p \<noteq> last s"
  shows "trim_space s = s"
proof -
  have ne: "p \<noteq> []" if "p \<in> set space_sequences" for p using that by (auto simp: space_sequences_def)
  have "filter (has_prefix s) space_sequences = []"
    using assms(1,2) ne by (auto simp: filter_empty_conv has_prefix_def) (metis hd_append2 append_take_drop_id)
  moreover have "filter (has_prefix (rev s)) (map rev space_sequences) = []"
    using assms(1,3) ne by (auto simp: filter_empty_conv has_prefix_def) (metis hd_append2 append_take_drop_id hd_rev rev_is_Nil_conv)
  ultimately show ?thesis by (simp add: trim_space_def drop_leading_none)
qed

lemma origin_text:
  assumes "scheme = ''http'' \<or> scheme = ''https''" "host \<noteq> []"
  shows "trim_space (URL_String (url_origin scheme host)) = URL_String (url_origin scheme host)"
proof (rule trim_space_plain)
  let ?t = "URL_String (url_origin scheme host)"
  show "?t \<noteq> []" by (simp add: URL_String_origin)
  have "hd ?t = CHR ''h''" using assms(1) by (auto simp: URL_String_origin)
  then show "\<forall>p \<in> set space_sequences. hd p \<noteq> hd ?t" by (simp add: space_sequences_def)
  have ne: "escape EncodeHost host \<noteq> []" using assms(2) by (cases host) (auto simp: escape_Cons)
  then have "last ?t = last (escape EncodeHost host)" by (simp add: URL_String_origin)
  moreover have "host_byte (last (escape EncodeHost host))" using ne escape_host_bytes last_in_set by blast
  ultimately show "\<forall>p \<in> set space_sequences. last p \<noteq> last ?t" using host_byte_not by metis
qed

lemma normalized_parsed:
  assumes "normalizeServerURL raw = Inr t" "url_Parse t = Some u"
  shows "server_checks u" "URL_String u = t" "normalizeServerURL t = Inr t"
proof -
  obtain scheme host where t: "t = URL_String (url_origin scheme host)"
    and scheme: "scheme = ''http'' \<or> scheme = ''https''" and checks: "server_checks (url_origin scheme host)"
    using normalizeServerURL_origin [OF assms(1)] .
  have u: "u = url_origin scheme host" using url_Parse_origin [OF scheme] assms(2) t by simp
  show "server_checks u" "URL_String u = t" using u checks t by simp_all
  have host: "host \<noteq> []" using checks by (simp add: server_checks_def)
  have "trim_space t = t" unfolding t by (rule origin_text [OF scheme host])
  moreover have "u\<lparr>url_Path := [], url_RawPath := []\<rparr> = u" by (simp add: u url_origin_def url_empty_def)
  moreover have "\<not> (url_Scheme u \<noteq> ''http'' \<and> url_Scheme u \<noteq> ''https'')" "url_Host u \<noteq> []" "url_Hostname u \<noteq> []"
    "\<not> (url_Port u \<noteq> [] \<and> (case strconv_Atoi (url_Port u) of None \<Rightarrow> True | Some port \<Rightarrow> port < 1 \<or> port > 65535))"
    "\<not> (url_Scheme u = ''http'' \<and> \<not> (case parseIP (url_Hostname u) of None \<Rightarrow> False | Some ip \<Rightarrow> addr_IsLoopback ip))"
    using \<open>server_checks u\<close> by (auto simp: server_checks_def secure_server_def split: option.splits)
  moreover have "url_User u = None" "url_RawQuery u = []" "\<not> url_ForceQuery u" "url_Fragment u = []"
    "url_EscapedPath u = []" by (simp_all add: u)
  ultimately show "normalizeServerURL t = Inr t"
    unfolding normalizeServerURL_def using assms(2) \<open>URL_String u = t\<close> by (simp only: option.case if_False simp_thms)
qed

end
