(* ===== verification/Shell_Config_Safety.thy ===== *)
theory Shell_Config_Safety
  imports Server_Url
begin

text \<open>
  The configuration of the desktop shell across a restart: what was saved is what the next start uses, with
  the mark of a cleared session. And the device identity: it is valid, and when creating it returns.
\<close>

subsection \<open>Steps\<close>

lemma steps_None:
  "steps ((m, act) # rest) w = (None, w') \<longleftrightarrow> (\<exists>w1. act w = (None, w1) \<and> steps rest w1 = (None, w'))"
  by (auto split: option.splits prod.splits)

lemma steps_Nil: "steps [] w = (e, w') \<longleftrightarrow> e = None \<and> w' = w"
  by auto

declare steps.simps [simp del]

subsection \<open>A file system that works\<close>

text \<open>
  What the store relies on: \<open>content\<close> is the text of each file. A written file has the text written to it,
  a replaced file that of the file that replaces it, an opened one is read whole; the other calls change no
  text but that of a file they remove, and the name of a temporary file is not the store's own.
\<close>

definition files_ok :: "'w shell_files \<Rightarrow> ('w \<Rightarrow> string \<Rightarrow> string option) \<Rightarrow> string \<Rightarrow> bool" where
  "files_ok fs content path \<longleftrightarrow>
     (\<forall>p t w. content w p = Some t \<longrightarrow> fst (shf_Open fs p w) = Inr (t, None)) \<and>
     (\<forall>p t w w'. shf_Write fs p t w = (None, w') \<longrightarrow> content w' p = Some t) \<and>
     (\<forall>p q w w'. shf_replaceFile fs p q w = (None, w') \<longrightarrow> content w' q = content w p) \<and>
     (\<forall>p w. content (snd (shf_Sync fs p w)) = content w \<and> content (snd (shf_Close fs p w)) = content w \<and>
            content (snd (shf_syncDirectory fs p w)) = content w) \<and>
     (\<forall>p q w. p \<noteq> q \<longrightarrow> content (snd (shf_Remove fs p w)) q = content w q) \<and>
     (\<forall>dir p w. fst (shf_CreateTemp fs dir w) = Inr p \<longrightarrow> p \<noteq> path)"

text \<open>Decoding what was encoded, within the limit of \<open>Load\<close>.\<close>

definition config_codec_ok :: "config_codec \<Rightarrow> bool" where
  "config_codec_ok codec \<longleftrightarrow>
     (\<forall>config t. cc_MarshalIndent codec config = Inr t \<longrightarrow> length t \<le> 4095 \<longrightarrow>
        (\<exists>rest. cc_Decode codec (t @ [CHR 0x0A], None) = Inr (config, rest) \<and>
                ensureJSONEOF (cc_DecodeAny codec) rest = None))"

lemma write_temporary_done:
  assumes "write_temporary fs p payload w = (None, w')" "files_ok fs content path"
  shows "content w' p = Some payload"
proof -
  obtain w1 w2 w3 where "shf_Chmod fs p w = (None, w1)" and wrt: "shf_Write fs p payload w1 = (None, w2)"
    and sync: "shf_Sync fs p w2 = (None, w3)" and close: "shf_Close fs p w3 = (None, w')"
    using assms(1)
    by (auto simp: write_temporary_def steps_None steps_Nil Let_def split: prod.splits if_splits)
  have "content w2 p = Some payload" using wrt assms(2) by (simp add: files_ok_def)
  moreover have "content w' = content w2" using sync close assms(2) unfolding files_ok_def by (metis snd_conv)
  ultimately show ?thesis by simp
qed

lemma configStore_Save_done:
  assumes "configStore_Save fs codec path serverURL blocked w = (None, w')" "files_ok fs content path"
  obtains normalized payload where "normalizeServerURL serverURL = Inr normalized"
    "cc_MarshalIndent codec \<lparr>sc_Version = configVersion, sc_ServerURL = normalized, sc_CredentialsBlocked = blocked\<rparr> = Inr payload"
    "content w' path = Some (payload @ [CHR 0x0A])"
proof -
  obtain normalized where n: "normalizeServerURL serverURL = Inr normalized"
    using assms(1) by (auto simp: configStore_Save_def split: sum.splits)
  obtain payload where p: "cc_MarshalIndent codec
      \<lparr>sc_Version = configVersion, sc_ServerURL = normalized, sc_CredentialsBlocked = blocked\<rparr> = Inr payload"
    using assms(1) n by (auto simp: configStore_Save_def split: sum.splits)
  obtain e1 w1 where m: "steps [(''create app config directory: '', shf_MkdirAll fs (shf_Dir fs path))] w = (e1, w1)"
    by fastforce
  obtain created w2 where c: "shf_CreateTemp fs (shf_Dir fs path) w1 = (created, w2)" by fastforce
  have e1: "e1 = None" using assms(1) n p m by (auto simp: configStore_Save_def Let_def split: if_splits)
  obtain temp where temp: "created = Inr temp"
    using assms(1) n p m c e1 by (cases created) (auto simp: configStore_Save_def Let_def)
  obtain e3 w3 where wr: "write_temporary fs temp (payload @ [CHR 0x0A]) w2 = (e3, w3)" by fastforce
  obtain e4 w4 where re: "steps [(''replace app config: '', shf_replaceFile fs temp path)] w3 = (e4, w4)" by fastforce
  obtain e5 w5 where sy: "shf_syncDirectory fs (shf_Dir fs path) w4 = (e5, w5)" by fastforce
  have ok: "e3 = None" "e4 = None" "w' = snd (shf_Remove fs temp w5)"
    using assms(1) n p m c e1 temp wr re sy
    by (auto simp: configStore_Save_def Let_def split_beta split: if_splits)
  have "content w3 temp = Some (payload @ [CHR 0x0A])" using write_temporary_done assms(2) wr ok(1) by metis
  moreover have "content w4 path = content w3 temp"
    using re ok(2) assms(2) by (auto simp: steps_None steps_Nil files_ok_def)
  moreover have "content w5 = content w4" using sy assms(2) unfolding files_ok_def by (metis snd_conv)
  moreover have "temp \<noteq> path" using c temp assms(2) unfolding files_ok_def by (metis fst_conv)
  then have "content w' path = content w5 path" using ok(3) assms(2) unfolding files_ok_def by metis
  ultimately show ?thesis using that n p by simp
qed

text \<open>What was saved is what the next start uses: when saving a server URL reported no error, the next
  start without an environment URL takes the same server, as saved, and keeps the mark that its session was
  cleared (for a configuration within the limit of the reader).\<close>

theorem saved_configuration_restored:
  assumes "configStore_Save fs codec path serverURL blocked w = (None, w')"
    and "files_ok fs content path" and "config_codec_ok codec"
    and "normalizeServerURL serverURL = Inr normalized" and "url_Parse normalized \<noteq> None"
    and "\<And>t. cc_MarshalIndent codec
           \<lparr>sc_Version = configVersion, sc_ServerURL = normalized, sc_CredentialsBlocked = blocked\<rparr> = Inr t \<Longrightarrow> length t \<le> 4095"
  shows "fst (initialServerConfiguration fs codec path [] w') = (normalized, False, ''saved'', blocked)"
proof -
  let ?config = "\<lparr>sc_Version = configVersion, sc_ServerURL = normalized, sc_CredentialsBlocked = blocked\<rparr>"
  obtain payload where p: "cc_MarshalIndent codec ?config = Inr payload"
    and c: "content w' path = Some (payload @ [CHR 0x0A])"
    using configStore_Save_done [OF assms(1,2)] assms(4) by auto
  have len: "length payload \<le> 4095" by (rule assms(6) [OF p])
  then have lim: "LimitReader 4097 (payload @ [CHR 0x0A], None) = (payload @ [CHR 0x0A], None)"
    by (simp add: LimitReader_def)
  obtain rest where dec: "cc_Decode codec (payload @ [CHR 0x0A], None) = Inr (?config, rest)"
    and eof: "ensureJSONEOF (cc_DecodeAny codec) rest = None"
    using assms(3) p len unfolding config_codec_ok_def by blast
  obtain w1 where op: "shf_Open fs path w' = (Inr (payload @ [CHR 0x0A], None), w1)"
    using assms(2) c unfolding files_ok_def by (metis prod.collapse)
  obtain u where u: "url_Parse normalized = Some u" using assms(5) by auto
  have "configStore_Load fs codec path w' = (Inr ?config, w1)"
    by (simp add: configStore_Load_def op lim dec eof normalized_parsed(3) [OF assms(4) u])
  then show ?thesis by (simp add: initialServerConfiguration_def trim_space_def Let_def)
qed

text \<open>A small file system over a list of named texts, and a codec, for the witness.\<close>

definition listed_files :: "(string \<times> string) list shell_files" where
  "listed_files =
     \<lparr>shf_ReadFile = (\<lambda>p w. (case map_of w p of None \<Rightarrow> Inl ErrNotExist | Some t \<Rightarrow> Inr t, w)),
      shf_Open = (\<lambda>p w. (case map_of w p of None \<Rightarrow> Inl ErrNotExist | Some t \<Rightarrow> Inr (t, None), w)),
      shf_Dir = (\<lambda>p. []), shf_MkdirAll = (\<lambda>p w. (None, w)), shf_CreateTemp = (\<lambda>p w. (Inr ''temporary'', w)),
      shf_OpenExclusive = (\<lambda>p w. if map_of w p = None then (None, (p, []) # w) else (Some ErrExist, w)),
      shf_Chmod = (\<lambda>p w. (None, w)), shf_Write = (\<lambda>p t w. (None, (p, t) # w)), shf_Sync = (\<lambda>p w. (None, w)),
      shf_Close = (\<lambda>p w. (None, w)), shf_Remove = (\<lambda>p w. (None, filter (\<lambda>(q, _). q \<noteq> p) w)),
      shf_replaceFile = (\<lambda>p q w. case map_of w p of None \<Rightarrow> (Some ErrNotExist, w) | Some t \<Rightarrow> (None, (q, t) # w)),
      shf_syncDirectory = (\<lambda>p w. (None, w))\<rparr>"

definition listed_codec :: config_codec where
  "listed_codec =
     \<lparr>cc_Decode = (\<lambda>(t, _). case t of [] \<Rightarrow> Inl EOF
        | c # rest \<Rightarrow> Inr (\<lparr>sc_Version = 1, sc_ServerURL = butlast rest, sc_CredentialsBlocked = (c = CHR ''T'')\<rparr>, [], None)),
      cc_DecodeAny = (\<lambda>_. Inl EOF),
      cc_MarshalIndent = (\<lambda>config. if sc_Version config \<noteq> 1 then Inl (ErrorNew ''version'')
        else Inr ((if sc_CredentialsBlocked config then CHR ''T'' else CHR ''F'') # sc_ServerURL config))\<rparr>"

lemma map_of_filter_other: "p \<noteq> q \<Longrightarrow> map_of (filter (\<lambda>(q, _). q \<noteq> p) w) q = map_of w q"
  by (induction w) auto

lemma listed_files_ok: "path \<noteq> ''temporary'' \<Longrightarrow> files_ok listed_files map_of path"
  by (auto simp: files_ok_def listed_files_def map_of_filter_other split: option.splits)

lemma listed_codec_ok: "config_codec_ok listed_codec"
  by (auto simp: config_codec_ok_def listed_codec_def ensureJSONEOF_def configVersion_def EOF_def split: if_splits)

theorem saved_configuration_restored_witness:
  "\<exists>w'. configStore_Save listed_files listed_codec ''config'' ''https://soha.example/'' True [] = (None, w') \<and>
     fst (initialServerConfiguration listed_files listed_codec ''config'' [] w') =
       (''https://soha.example'', False, ''saved'', True)"
proof -
  have n: "normalizeServerURL ''https://soha.example/'' = Inr ''https://soha.example''" by code_simp
  have p: "url_Parse ''https://soha.example'' \<noteq> None" by code_simp
  have s: "fst (configStore_Save listed_files listed_codec ''config'' ''https://soha.example/'' True []) = None"
    by code_simp
  then obtain w' where w: "configStore_Save listed_files listed_codec ''config'' ''https://soha.example/'' True [] = (None, w')"
    by (metis prod.collapse)
  have "fst (initialServerConfiguration listed_files listed_codec ''config'' [] w') =
          (''https://soha.example'', False, ''saved'', True)"
    by (rule saved_configuration_restored [OF w listed_files_ok listed_codec_ok n p])
       (auto simp: listed_codec_def configVersion_def)
  with w show ?thesis by blast
qed

subsection \<open>The device identity\<close>

text \<open>
  Where the file can be neither read nor created, as behind a symbolic link to nothing (the read says
  that the file does not exist, the exclusive creation that it does), the calls never end.
\<close>

lemma dangling_device_id_never_returns:
  assumes "\<And>w. \<exists>w1. shf_ReadFile fs path w = (Inl ErrNotExist, w1)"
    and "\<And>w. \<exists>w1. shf_OpenExclusive fs path w = (Some ErrExist, w1)"
    and "\<And>w. \<exists>t w1. randomToken w = (Inr t, w1)" and "\<And>d w. \<exists>w1. shf_MkdirAll fs d w = (None, w1)"
  shows "loadOrCreateDeviceID fs randomToken path w = None"
proof -
  have "(\<forall>w. \<exists>w1. shf_ReadFile fs path w = (Inl ErrNotExist, w1)) \<longrightarrow>
        (\<forall>w. \<exists>w1. shf_OpenExclusive fs path w = (Some ErrExist, w1)) \<longrightarrow>
        (\<forall>w. \<exists>t w1. randomToken w = (Inr t, w1)) \<longrightarrow> (\<forall>d w. \<exists>w1. shf_MkdirAll fs d w = (None, w1)) \<longrightarrow> False"
    if "loadOrCreateDeviceID fs randomToken path w = Some r" for r
    using that
  proof (induction rule: loadOrCreateDeviceID.raw_induct [rotated, consumes 1, case_names step])
    case (step rec fs rt path w y)
    show ?case
    proof (intro impI)
      assume h: "\<forall>w. \<exists>w1. shf_ReadFile fs path w = (Inl ErrNotExist, w1)"
        "\<forall>w. \<exists>w1. shf_OpenExclusive fs path w = (Some ErrExist, w1)"
        "\<forall>w. \<exists>t w1. rt w = (Inr t, w1)" "\<forall>d w. \<exists>w1. shf_MkdirAll fs d w = (None, w1)"
      obtain w1 where 1: "shf_ReadFile fs path w = (Inl ErrNotExist, w1)" using h(1) by blast
      obtain t w2 where 2: "rt w1 = (Inr t, w2)" using h(3) by blast
      obtain w3 where 3: "shf_MkdirAll fs (shf_Dir fs path) w2 = (None, w3)" using h(4) by blast
      obtain w4 where 4: "shf_OpenExclusive fs path w3 = (Some ErrExist, w4)" using h(2) by blast
      have "rec fs rt path w4 = Some y"
        using step(2) 1 2 3 4 by (simp add: ErrExist_def Let_def)
      then show False using step(1) h by blast
    qed
  qed
  then show ?thesis using assms by (cases "loadOrCreateDeviceID fs randomToken path w") blast+
qed

text \<open>It returns within two calls when a file that exists can be read.\<close>

lemma device_id_returns:
  assumes "\<And>w w1 e. shf_OpenExclusive fs path w = (Some e, w1) \<Longrightarrow> errors_is e ErrExist \<Longrightarrow>
             \<exists>r w2. shf_ReadFile fs path w1 = (r, w2) \<and> (\<forall>err. r = Inl err \<longrightarrow> \<not> errors_is err ErrNotExist)"
  shows "loadOrCreateDeviceID fs randomToken path w \<noteq> None"
proof -
  have again: "loadOrCreateDeviceID fs randomToken path w1 \<noteq> None"
    if op: "shf_OpenExclusive fs path w = (Some e, w1)" and ex: "errors_is e ErrExist" for w w1 e
  proof -
    obtain r w2 where "shf_ReadFile fs path w1 = (r, w2)" "\<forall>err. r = Inl err \<longrightarrow> \<not> errors_is err ErrNotExist"
      using assms [OF op ex] by blast
    then show ?thesis by (subst loadOrCreateDeviceID.simps) (auto split: sum.split)
  qed
  show ?thesis
    using again by (subst loadOrCreateDeviceID.simps) (auto simp: Let_def split: prod.split sum.split option.split)
qed

end
