(* ===== verification/Session_Safety.thy ===== *)
theory Session_Safety
  imports Shell_Server Server_Url
begin

text \<open>
  Histories of the session host: the steps its handlers are made of, in any order and for any target that
  a request may still hold, with what an observer sees of each step. Blocked credentials stay withheld until
  a sign-in is accepted, a server is activated only after it was checked, a stored refresh token goes only
  to the server that issued it, and the web view never sees it.
\<close>

subsection \<open>Steps and observations\<close>

text \<open>
  \<open>Forward\<close> rewrites a request pinned to a target, \<open>Receive\<close> handles a response to a request that was sent,
  \<open>SignIn\<close> is the end of a sign-in through the browser, \<open>Elsewhere\<close> is what happens in the world without the
  host, the answers of servers included. The switch of servers has three steps between which others run.
\<close>

datatype 'w event =
    Forward "target option" request
  | Receive "target option" request response
  | SwitchCommit target request
  | SwitchLogout target request
  | SwitchDelete target
  | Activate request
  | Clear target
  | SignIn target desktopAuthExchange
  | Elsewhere "'w \<Rightarrow> 'w"

datatype observation =
    Forwarded "target option" request request
  | LoggedOut target request
  | Offered string connectionCheck
  | Activated string target
  | Accepted target string
  | Refreshed target string
  | Silent

definition pinned_ok :: "host \<Rightarrow> target option \<Rightarrow> bool" where
  "pinned_ok h pinned \<longleftrightarrow> (case pinned of None \<Rightarrow> True | Some t \<Rightarrow> t \<in> set (hs_allocated h))"

text \<open>What a handled response means for the session: the token that was taken from it.\<close>

definition received_observation ::
  "'w appHost \<Rightarrow> target option \<Rightarrow> request \<Rightarrow> response \<Rightarrow> response fallible \<Rightarrow> observation" where
  "received_observation a pinned out response handled =
     (case (pinned, handled, refreshTokenFromSetCookies (ah_dates a) (rs_Header response ''Set-Cookie'')
                               (targetRequiresSecureCookies pinned)) of
        (Some t, Inr _, Inr token) \<Rightarrow>
          if isAuthSessionRequest out \<and> 200 \<le> rs_StatusCode response \<and> rs_StatusCode response < 300
          then (if rq_Path out = ''/api/v1/auth/refresh'' then Refreshed t token else Accepted t token)
          else Silent
      | _ \<Rightarrow> Silent)"

definition do_forward :: "'w appHost \<Rightarrow> target option \<Rightarrow> request \<Rightarrow> host \<times> 'w \<Rightarrow> observation \<times> host \<times> 'w" where
  "do_forward a pinned incoming s =
     (if \<not> pinned_ok (fst s) pinned then (Silent, s)
      else let (out, w) = Rewrite a pinned incoming s in (Forwarded pinned incoming out, fst s, w))"

definition do_receive ::
  "'w appHost \<Rightarrow> target option \<Rightarrow> request \<Rightarrow> response \<Rightarrow> host \<times> 'w \<Rightarrow> observation \<times> host \<times> 'w" where
  "do_receive a pinned out response s =
     (let (handled, s) = modifyProxyResponse a pinned out response s
      in (received_observation a pinned out response handled, s))"

definition do_commit :: "'w appHost \<Rightarrow> target \<Rightarrow> request \<Rightarrow> host \<times> 'w \<Rightarrow> observation \<times> host \<times> 'w" where
  "do_commit a oldTarget request s =
     (if switch_refused a request \<noteq> None then (Silent, s)
      else case switch_commit a oldTarget request s of
             (Inl _, s) \<Rightarrow> (Silent, s)
           | (Inr (token, check), s) \<Rightarrow> (Offered token check, s))"

definition do_logout :: "'w appHost \<Rightarrow> target \<Rightarrow> request \<Rightarrow> host \<times> 'w \<Rightarrow> observation \<times> host \<times> 'w" where
  "do_logout a oldTarget request s =
     (case logoutOldServer a request (Some oldTarget) s of
        (None, w) \<Rightarrow> (Silent, fst s, w)
      | (Some out, w) \<Rightarrow> (LoggedOut oldTarget out, fst s, w))"

definition do_activate :: "'w appHost \<Rightarrow> request \<Rightarrow> host \<times> 'w \<Rightarrow> observation \<times> host \<times> 'w" where
  "do_activate a request s =
     (let (reply, s') = handleConnectionActivate a request s
      in (if an_Status reply = 200 then Activated (hs_pendingCode (fst s)) (hs_target (fst s')) else Silent, s'))"

definition do_sign_in :: "'w appHost \<Rightarrow> target \<Rightarrow> desktopAuthExchange \<Rightarrow> host \<times> 'w \<Rightarrow> observation \<times> host \<times> 'w" where
  "do_sign_in a target x s =
     (case refreshTokenFromSetCookies (ah_dates a) (exg_Cookies x) (targetRequiresSecureCookies (Some target)) of
        Inl _ \<Rightarrow> (Silent, s)
      | Inr token \<Rightarrow>
          let (marked, s) = markAuthenticated a (Some target) token s
          in (if marked then Accepted target token else Silent, s))"

fun exec :: "'w appHost \<Rightarrow> 'w event \<Rightarrow> host \<times> 'w \<Rightarrow> observation \<times> host \<times> 'w" where
  "exec a (Forward pinned incoming) s = do_forward a pinned incoming s"
| "exec a (Receive pinned out response) s = do_receive a pinned out response s"
| "exec a (SwitchCommit oldTarget request) s = do_commit a oldTarget request s"
| "exec a (SwitchLogout oldTarget request) s = do_logout a oldTarget request s"
| "exec a (SwitchDelete oldTarget) s = (Silent, fst s, deleteRefreshCredentialLocked a (Some oldTarget) (snd s))"
| "exec a (Activate request) s = do_activate a request s"
| "exec a (Clear target) s = (Silent, blockSession a (Some target) [] s)"
| "exec a (SignIn target x) s = do_sign_in a target x s"
| "exec a (Elsewhere f) s = (Silent, fst s, f (snd s))"

fun history :: "'w appHost \<Rightarrow> 'w event list \<Rightarrow> host \<times> 'w \<Rightarrow> observation list \<times> host \<times> 'w" where
  "history a [] s = ([], s)"
| "history a (e # es) s =
     (let (ob, s) = exec a e s; (obs, s) = history a es s in (ob # obs, s))"

lemma history_Cons:
  "history a (e # es) s = (obs, s') \<longleftrightarrow>
     (\<exists>ob s1 obs1. exec a e s = (ob, s1) \<and> history a es s1 = (obs1, s') \<and> obs = ob # obs1)"
  by (auto split: prod.splits)

lemma history_append:
  "history a (es @ fs) s =
     (let (obs1, s1) = history a es s; (obs2, s2) = history a fs s1 in (obs1 @ obs2, s2))"
  by (induction es arbitrary: s) (simp_all add: split_beta Let_def)

declare history.simps(2) [simp del]

subsection \<open>Cases of the steps\<close>

lemma persistAuthenticatedLocked_host [simp]:
  "fst (persistAuthenticatedLocked a t token s) = (fst s)\<lparr>hs_credentialsBlocked := False\<rparr>"
  by (simp add: persistAuthenticatedLocked_def split_beta Let_def)

lemma blockSession_host:
  "fst (blockSession a target token s) = fst s \<or>
   fst (blockSession a target token s) = (fst s)\<lparr>hs_credentialsBlocked := True\<rparr>"
  by (auto simp: blockSession_def Let_def split: prod.split option.split)

lemma markAuthenticated_cases:
  obtains (no) "markAuthenticated a target token s = (False, s)"
    | (yes) "target = Some (hs_target (fst s))"
        "markAuthenticated a target token s = (True, persistAuthenticatedLocked a (hs_target (fst s)) token s)"
proof (cases "target = Some (hs_target (fst s))")
  case True
  then show ?thesis by (intro yes) (cases s; simp add: markAuthenticated_def)+
next
  case False
  then show ?thesis by (intro no) (cases s; cases target; auto simp: markAuthenticated_def)
qed

lemma markRefreshed_cases:
  obtains (no) w where "markRefreshed a target previous token s = (False, fst s, w)"
        "w = snd s \<or> w = snd (superseded a (hs_target (fst s)) previous (snd s))"
    | (yes) w where "target = Some (hs_target (fst s))" "\<not> hs_credentialsBlocked (fst s)"
        "markRefreshed a target previous token s =
           (True, persistAuthenticatedLocked a (hs_target (fst s)) token (fst s, w))"
        "superseded a (hs_target (fst s)) previous (snd s) = (False, w)"
proof (cases target)
  case None
  then have "markRefreshed a target previous token s = (False, fst s, snd s)"
    by (cases s) (simp add: markRefreshed_def)
  then show ?thesis by (rule no) simp
next
  case (Some t)
  show ?thesis
  proof (cases "t \<noteq> hs_target (fst s) \<or> hs_credentialsBlocked (fst s)")
    case True
    then have "markRefreshed a target previous token s = (False, fst s, snd s)"
      using Some by (cases s) (simp add: markRefreshed_def)
    then show ?thesis by (rule no) simp
  next
    case False
    obtain newer w where sup: "superseded a t previous (snd s) = (newer, w)" by fastforce
    show ?thesis
    proof (cases newer)
      case True
      then have "markRefreshed a target previous token s = (False, fst s, w)"
        using Some False sup by (cases s) (simp add: markRefreshed_def)
      then show ?thesis by (rule no) (use sup False in simp)
    next
      case nn: False
      show ?thesis
        by (rule yes [of w]) (use Some False nn sup in \<open>cases s; simp add: markRefreshed_def\<close>)+
    qed
  qed
qed

text \<open>What a handled response can do to the host.\<close>

lemma modifyProxyResponse_cases:
  assumes "modifyProxyResponse a pinned out response s = (handled, s')"
  obtains (stale) "pinned \<noteq> Some (hs_target (fst s))" "handled = Inl errContractMismatch" "s' = s"
    | (kept) "pinned = Some (hs_target (fst s))" "s' = s"
        "\<not> (isAuthSessionRequest out \<and> (\<exists>r. handled = Inr r) \<and> 200 \<le> rs_StatusCode response \<and> rs_StatusCode response < 300)"
    | (blocked) token where "pinned = Some (hs_target (fst s))" "s' = blockSession a pinned token s"
        "\<not> isAuthSessionRequest out \<or> rs_StatusCode response < 200 \<or> 300 \<le> rs_StatusCode response"
    | (refused) w where "pinned = Some (hs_target (fst s))" "handled = Inl errContractMismatch" "s' = (fst s, w)"
        "w = snd s \<or> w = snd (superseded a (hs_target (fst s)) (requestRefreshToken out) (snd s))"
    | (authenticated) token response' where "pinned = Some (hs_target (fst s))" "isAuthSessionRequest out"
        "200 \<le> rs_StatusCode response" "rs_StatusCode response < 300"
        "refreshTokenFromSetCookies (ah_dates a) (rs_Header response ''Set-Cookie'') (targetRequiresSecureCookies pinned)
           = Inr token"
        "redactAuthRefreshToken a response = Inr response'" "handled = Inr response'"
        "rq_Path out \<noteq> ''/api/v1/auth/refresh''"
        "s' = persistAuthenticatedLocked a (hs_target (fst s)) token s"
    | (refreshed) token response' w where "pinned = Some (hs_target (fst s))" "isAuthSessionRequest out"
        "200 \<le> rs_StatusCode response" "rs_StatusCode response < 300"
        "refreshTokenFromSetCookies (ah_dates a) (rs_Header response ''Set-Cookie'') (targetRequiresSecureCookies pinned)
           = Inr token"
        "redactAuthRefreshToken a response = Inr response'" "handled = Inr response'"
        "rq_Path out = ''/api/v1/auth/refresh''" "\<not> hs_credentialsBlocked (fst s)"
        "superseded a (hs_target (fst s)) (requestRefreshToken out) (snd s) = (False, w)"
        "s' = persistAuthenticatedLocked a (hs_target (fst s)) token (fst s, w)"
proof (cases "pinned = Some (hs_target (fst s))")
  case False
  then show ?thesis using assms by (intro stale) (auto simp: modifyProxyResponse_def)
next
  case cur: True
  define r where "r = rejectUpstreamRedirect response"
  have st: "rs_StatusCode r = (if 300 \<le> rs_StatusCode response \<and> rs_StatusCode response < 400 then 502
                               else rs_StatusCode response)"
    by (auto simp: r_def rejectUpstreamRedirect_def)
  have same: "200 \<le> rs_StatusCode r \<Longrightarrow> rs_StatusCode r < 300 \<Longrightarrow> r = response"
    using st by (auto simp: r_def rejectUpstreamRedirect_def split: if_splits)
  let ?refresh = "rq_Method out = ''POST'' \<and> rq_Path out = ''/api/v1/auth/refresh''"
  let ?logout = "rq_Method out = ''POST'' \<and> rq_Path out = ''/api/v1/auth/logout''"
  show ?thesis
  proof (cases "?refresh \<and> (rs_StatusCode r = 401 \<or> rs_StatusCode r = 403)")
    case True
    have "s' = blockSession a pinned (requestRefreshToken out) s"
      using assms cur True by (simp add: modifyProxyResponse_def r_def [symmetric] Let_def)
    moreover have "300 \<le> rs_StatusCode response" using True st by (auto split: if_splits)
    ultimately show ?thesis using cur blocked by blast
  next
    case nrej: False
    show ?thesis
    proof (cases "rs_StatusCode r < 200 \<or> 300 \<le> rs_StatusCode r")
      case True
      have "s' = s" using assms cur nrej True by (auto simp: modifyProxyResponse_def r_def [symmetric] Let_def)
      moreover have "rs_StatusCode response < 200 \<or> 300 \<le> rs_StatusCode response"
        using True st by (auto split: if_splits)
      ultimately show ?thesis using cur by (intro kept) auto
    next
      case ok: False
      then have r: "r = response" using same by simp
      have nlo: "?logout \<Longrightarrow> \<not> isAuthSessionRequest out"
        by (auto simp: isAuthSessionRequest_def isDesktopExchangePath_def has_prefix_def)
      show ?thesis
      proof (cases ?logout)
        case True
        have "s' = blockSession a pinned [] s"
          using assms cur nrej ok True r by (auto simp: modifyProxyResponse_def r_def [symmetric] Let_def)
        then show ?thesis using cur nlo True blocked by blast
      next
        case nl: False
        show ?thesis
        proof (cases "isAuthSessionRequest out")
          case False
          then have "s' = s" using assms cur nrej ok nl r
            by (auto simp: modifyProxyResponse_def r_def [symmetric] Let_def)
          then show ?thesis using cur False by (intro kept) auto
        next
          case auth: True
          then have post: "rq_Method out = ''POST''" by (simp add: isAuthSessionRequest_def)
          let ?cookies = "refreshTokenFromSetCookies (ah_dates a) (rs_Header response ''Set-Cookie'')
                            (targetRequiresSecureCookies pinned)"
          have run: "(case ?cookies of
                Inl err \<Rightarrow> (Inl err, s)
              | Inr refreshToken \<Rightarrow>
                  (case redactAuthRefreshToken a response of
                     Inl err \<Rightarrow> (Inl err, s)
                   | Inr response \<Rightarrow>
                       let (marked, s) =
                         (if rq_Path out = ''/api/v1/auth/refresh''
                          then markRefreshed a pinned (requestRefreshToken out) refreshToken s
                          else markAuthenticated a pinned refreshToken s)
                       in (if marked then Inr response else Inl errContractMismatch, s))) = (handled, s')"
            using assms cur nrej ok nl r auth post
            by (auto simp: modifyProxyResponse_def r_def [symmetric] Let_def)
          show ?thesis
          proof (cases ?cookies)
            case (Inl e)
            then show ?thesis using run cur by (intro kept) auto
          next
            case tok: (Inr token)
            show ?thesis
            proof (cases "redactAuthRefreshToken a response")
              case (Inl e)
              then show ?thesis using run cur tok by (intro kept) auto
            next
              case red: (Inr response')
              show ?thesis
              proof (cases "rq_Path out = ''/api/v1/auth/refresh''")
                case True
                show ?thesis
                proof (rule markRefreshed_cases [of a pinned "requestRefreshToken out" token s])
                  fix w assume "markRefreshed a pinned (requestRefreshToken out) token s = (False, fst s, w)"
                    "w = snd s \<or> w = snd (superseded a (hs_target (fst s)) (requestRefreshToken out) (snd s))"
                  then show ?thesis using run cur tok red True auth by (intro refused [of w]) auto
                next
                  fix w assume "\<not> hs_credentialsBlocked (fst s)"
                    "markRefreshed a pinned (requestRefreshToken out) token s =
                      (True, persistAuthenticatedLocked a (hs_target (fst s)) token (fst s, w))"
                    "superseded a (hs_target (fst s)) (requestRefreshToken out) (snd s) = (False, w)"
                  then show ?thesis using run cur tok red True auth ok r by (intro refreshed [of token response' w]) auto
                qed
              next
                case False
                have "markAuthenticated a pinned token s =
                        (True, persistAuthenticatedLocked a (hs_target (fst s)) token s)"
                  using cur by (cases s) (simp add: markAuthenticated_def)
                then show ?thesis using run cur tok red False auth ok r
                  by (intro authenticated [of token response']) auto
              qed
            qed
          qed
        qed
      qed
    qed
  qed
qed

lemma switch_commit_cases:
  assumes "switch_commit a oldTarget request s = (r, s')"
  obtains (refused) reply w where "r = Inl reply" "s' = (fst s, w)"
    | (offered) serverURL check w u token w' where "r = Inr (token, check)"
        "decodeRequestJSON a (ah_decode_serverURL a) request = Inr serverURL"
        "checkServer a serverURL (snd s) = (check, w)" "cn_Status check = connectionOnline"
        "url_Parse (cn_ServerURL check) = Some u" "ah_randomToken a 24 w = (Inr token, w')"
        "hs_pending (fst s) = None" "oldTarget = hs_target (fst s)"
        "s' = ((fst s)\<lparr>hs_pending := Some (fresh_target (fst s) u), hs_pendingCode := token,
                 hs_allocated := hs_allocated (fst s) @ [fresh_target (fst s) u]\<rparr>, w')"
proof (cases "decodeRequestJSON a (ah_decode_serverURL a) request")
  case (Inl e)
  then show ?thesis using assms by (cases s) (auto simp: switch_commit_def intro: refused)
next
  case dec: (Inr serverURL)
  obtain check w where chk: "checkServer a serverURL (snd s) = (check, w)" by fastforce
  obtain tok w' where rnd: "ah_randomToken a 24 w = (tok, w')" by fastforce
  show ?thesis
  proof (cases "cn_Status check = connectionOnline \<and> url_Parse (cn_ServerURL check) \<noteq> None \<and> (\<exists>t. tok = Inr t) \<and>
                hs_pending (fst s) = None \<and> oldTarget = hs_target (fst s)")
    case True
    then obtain u token where "url_Parse (cn_ServerURL check) = Some u" "tok = Inr token" by auto
    with True dec chk rnd show ?thesis
      by (intro offered [of token check serverURL w u w'])
        (use assms in \<open>cases s; auto simp: switch_commit_def Let_def\<close>)+
  next
    case False
    have "(\<exists>reply. r = Inl reply) \<and> (\<exists>w. s' = (fst s, w))"
      using assms dec chk rnd False
      by (cases s; cases tok) (auto simp: switch_commit_def Let_def split: if_splits option.splits)
    then show ?thesis using refused by blast
  qed
qed

lemma handleConnectionActivate_cases:
  assumes "handleConnectionActivate a request s = (reply, s')"
  obtains (refused) "an_Status reply \<noteq> 200" "s' = s"
    | (failed) w where "an_Status reply = 500"
        "decodeRequestJSON a (ah_decode_activation a) request = Inr (hs_pendingCode (fst s))"
        "s' = ((fst s)\<lparr>hs_credentialsBlocked := True, hs_pending := None, hs_pendingCode := []\<rparr>, w)"
        "w = snd s \<or> (\<exists>save (t :: target). ah_config a = Some save \<and> w = snd (save (URL_String (tg_url t)) True (snd s)))"
    | (activated) t save w where "an_Status reply = 200" "hs_pending (fst s) = Some t" "ah_config a = Some save"
        "decodeRequestJSON a (ah_decode_activation a) request = Inr (hs_pendingCode (fst s))"
        "save (URL_String (tg_url t)) True (snd s) = (None, w)"
        "s' = ((fst s)\<lparr>hs_credentialsBlocked := True, hs_pending := None, hs_pendingCode := [],
                 hs_target := t, hs_source := ''saved''\<rparr>, w)"
proof (cases "validateHostMutation a request")
  case (Some refusal)
  then have "an_Status refusal \<noteq> 200"
    by (auto simp: validateHostMutation_def writeMethodNotAllowed_def writeError_def writeJSON_def Let_def
             split: if_splits prod.splits)
  then show ?thesis using assms Some by (cases s) (auto simp: handleConnectionActivate_def intro: refused)
next
  case valid: None
  note defs = handleConnectionActivate_def writeError_def writeData_def writeJSON_def clearAuthCookies_def Let_def
  show ?thesis
  proof (cases "decodeRequestJSON a (ah_decode_activation a) request")
    case (Inl e)
    then show ?thesis using assms valid by (cases s) (auto simp: defs intro: refused)
  next
    case dec: (Inr token)
    show ?thesis
    proof (cases "hs_pending (fst s)")
      case None
      then show ?thesis using assms valid dec by (cases s) (auto simp: defs intro: refused)
    next
      case pend: (Some t)
      show ?thesis
      proof (cases "token = hs_pendingCode (fst s)")
        case False
        then show ?thesis using assms valid dec pend by (cases s) (auto simp: defs intro: refused)
      next
        case tok: True
        show ?thesis
        proof (cases "ah_config a")
          case None
          show ?thesis
            by (rule failed [of "snd s"])
              (use assms valid dec pend tok None in \<open>cases s; auto simp: defs\<close>)+
        next
          case cfg: (Some save)
          obtain err w where sv: "save (URL_String (tg_url t)) True (snd s) = (err, w)" by fastforce
          obtain h w0 where s: "s = (h, w0)" by fastforce
          note facts = valid dec pend tok cfg sv
          show ?thesis
          proof (cases err)
            case None
            have "(reply, s') = (clearAuthCookies (targetRequiresSecureCookies (Some (hs_target h)))
                (writeData 200 (PState (currentState a (h\<lparr>hs_credentialsBlocked := True, hs_pending := None,
                   hs_pendingCode := [], hs_target := t, hs_source := ''saved''\<rparr>)))),
                h\<lparr>hs_credentialsBlocked := True, hs_pending := None, hs_pendingCode := [], hs_target := t,
                  hs_source := ''saved''\<rparr>, w)"
              using assms facts None s by (auto simp: handleConnectionActivate_def Let_def)
            then show ?thesis using facts None s
              by (intro activated [of t save w]) (simp_all add: writeData_def writeJSON_def clearAuthCookies_def)
          next
            case (Some e)
            have "(reply, s') = (clearAuthCookies (targetRequiresSecureCookies (Some (hs_target h)))
                (writeError 500 ''configuration_write_failed'' ''Unable to save server configuration''),
                h\<lparr>hs_credentialsBlocked := True, hs_pending := None, hs_pendingCode := []\<rparr>, w)"
              using assms facts Some s by (auto simp: handleConnectionActivate_def Let_def)
            then have stat: "an_Status reply = 500"
              and st: "s' = ((fst s)\<lparr>hs_credentialsBlocked := True, hs_pending := None, hs_pendingCode := []\<rparr>, w)"
              using s by (simp_all add: writeError_def writeJSON_def clearAuthCookies_def)
            have "w = snd s \<or> (\<exists>save (t :: target). ah_config a = Some save \<and> w = snd (save (URL_String (tg_url t)) True (snd s)))"
              by (rule disjI2, rule exI [of _ save], rule exI [of _ t], simp add: cfg sv)
            from failed [OF stat _ st this] dec tok show ?thesis by simp
          qed
        qed
      qed
    qed
  qed
qed

subsection \<open>What one step does to the host\<close>

text \<open>
  The changes of the host a step can make, with the observation each goes with: the cases of every
  invariant below.
\<close>

lemma exec_host_cases:
  assumes "exec a e s = (ob, s')"
  obtains (same) "fst s' = fst s"
      "\<And>t token. ob \<noteq> Accepted t token" "\<And>token t. ob \<noteq> Activated token t" "\<And>t token. ob \<noteq> Refreshed t token"
    | (flag) b where "fst s' = (fst s)\<lparr>hs_credentialsBlocked := b\<rparr>" "b \<or> \<not> hs_credentialsBlocked (fst s)"
      "\<And>t token. ob \<noteq> Accepted t token" "\<And>token t. ob \<noteq> Activated token t"
    | (accepted) token where "fst s' = (fst s)\<lparr>hs_credentialsBlocked := False\<rparr>" "ob = Accepted (hs_target (fst s)) token"
    | (offered) request w u token check w' where
      "e = SwitchCommit (hs_target (fst s)) request" "ob = Offered token check" "hs_pending (fst s) = None"
      "\<exists>serverURL. checkServer a serverURL (snd s) = (check, w)" "cn_Status check = connectionOnline"
      "url_Parse (cn_ServerURL check) = Some u" "ah_randomToken a 24 w = (Inr token, w')"
      "s' = ((fst s)\<lparr>hs_pending := Some (fresh_target (fst s) u), hs_pendingCode := token,
               hs_allocated := hs_allocated (fst s) @ [fresh_target (fst s) u]\<rparr>, w')"
    | (dropped) request where "e = Activate request"
      "decodeRequestJSON a (ah_decode_activation a) request = Inr (hs_pendingCode (fst s))"
      "fst s' = (fst s)\<lparr>hs_credentialsBlocked := True, hs_pending := None, hs_pendingCode := []\<rparr>" "ob = Silent"
    | (activated) t request where "e = Activate request" "ob = Activated (hs_pendingCode (fst s)) t"
      "hs_pending (fst s) = Some t" "decodeRequestJSON a (ah_decode_activation a) request = Inr (hs_pendingCode (fst s))"
      "fst s' = (fst s)\<lparr>hs_credentialsBlocked := True, hs_pending := None, hs_pendingCode := [],
                  hs_target := t, hs_source := ''saved''\<rparr>"
proof (cases e)
  case (Forward p inc)
  then show ?thesis using assms by (intro same) (auto simp: do_forward_def split: if_splits prod.splits)
next
  case (Receive p out r)
  obtain handled where m: "modifyProxyResponse a p out r s = (handled, s')"
    and ob: "ob = received_observation a p out r handled"
    using assms Receive by (auto simp: do_receive_def split: prod.splits)
  show ?thesis
  proof (cases rule: modifyProxyResponse_cases [OF m])
    case 1
    then show ?thesis using ob by (intro same) (auto simp: received_observation_def split: option.splits)
  next
    case 2
    then have "ob = Silent" using ob by (auto simp: received_observation_def split: option.splits sum.splits)
    then show ?thesis using 2 by (intro same) auto
  next
    case (3 token)
    then have silent: "ob = Silent" using ob by (auto simp: received_observation_def split: option.splits sum.splits)
    from blockSession_host [of a p token s] show ?thesis
    proof
      assume "fst (blockSession a p token s) = fst s"
      then show ?thesis using 3 silent by (intro same) auto
    next
      assume "fst (blockSession a p token s) = (fst s)\<lparr>hs_credentialsBlocked := True\<rparr>"
      then show ?thesis using 3 silent by (intro flag [of True]) auto
    qed
  next
    case (4 w)
    then show ?thesis using ob by (intro same) (auto simp: received_observation_def)
  next
    case (5 token response')
    then show ?thesis using ob by (intro accepted [of token]) (auto simp: received_observation_def)
  next
    case (6 token response' w)
    then show ?thesis using ob by (intro flag [of False]) (auto simp: received_observation_def)
  qed
next
  case (SwitchCommit old request)
  show ?thesis
  proof (cases "switch_refused a request")
    case (Some x)
    then show ?thesis using assms SwitchCommit by (intro same) (auto simp: do_commit_def)
  next
    case None
    obtain r s1 where c0: "switch_commit a old request s = (r, s1)"
      by (rule prod.exhaust [of "switch_commit a old request s"])
    then have "s' = s1" using assms SwitchCommit None by (auto simp: do_commit_def split: sum.splits)
    with c0 have c: "switch_commit a old request s = (r, s')" by simp
    show ?thesis
    proof (cases rule: switch_commit_cases [OF c])
      case (1 reply w)
      then show ?thesis using assms SwitchCommit None c by (intro same) (auto simp: do_commit_def)
    next
      case (2 serverURL check w u token w')
      then show ?thesis using assms SwitchCommit None c
        by (intro offered [of request token check w u w']) (auto simp: do_commit_def)
    qed
  qed
next
  case (SwitchLogout old request)
  then show ?thesis using assms by (intro same) (auto simp: do_logout_def split: option.splits prod.splits)
next
  case (SwitchDelete old)
  then show ?thesis using assms by (intro same) auto
next
  case (Activate request)
  obtain reply where c: "handleConnectionActivate a request s = (reply, s')"
    and ob: "ob = (if an_Status reply = 200 then Activated (hs_pendingCode (fst s)) (hs_target (fst s')) else Silent)"
    using assms Activate by (auto simp: do_activate_def split: prod.splits)
  show ?thesis
  proof (cases rule: handleConnectionActivate_cases [OF c])
    case 1
    then show ?thesis using ob by (intro same) auto
  next
    case (2 w)
    then show ?thesis using ob Activate by (intro dropped [of request]) auto
  next
    case (3 t save w)
    then show ?thesis using ob Activate by (intro activated [of request t]) auto
  qed
next
  case (Clear t)
  then have s': "s' = blockSession a (Some t) [] s" and silent: "ob = Silent" using assms by auto
  from blockSession_host [of a "Some t" "[]" s] show ?thesis
  proof
    assume "fst (blockSession a (Some t) [] s) = fst s"
    then show ?thesis using s' silent by (intro same) auto
  next
    assume "fst (blockSession a (Some t) [] s) = (fst s)\<lparr>hs_credentialsBlocked := True\<rparr>"
    then show ?thesis using s' silent by (intro flag [of True]) auto
  qed
next
  case (SignIn t x)
  show ?thesis
  proof (cases "refreshTokenFromSetCookies (ah_dates a) (exg_Cookies x) (targetRequiresSecureCookies (Some t))")
    case (Inl err)
    then show ?thesis using assms SignIn by (intro same) (auto simp: do_sign_in_def)
  next
    case tok: (Inr token)
    show ?thesis
    proof (rule markAuthenticated_cases [of a "Some t" token s])
      assume "markAuthenticated a (Some t) token s = (False, s)"
      then show ?thesis using assms SignIn tok by (intro same) (auto simp: do_sign_in_def)
    next
      assume "Some t = Some (hs_target (fst s))"
        "markAuthenticated a (Some t) token s = (True, persistAuthenticatedLocked a (hs_target (fst s)) token s)"
      then show ?thesis using assms SignIn tok by (intro accepted [of token]) (auto simp: do_sign_in_def)
    qed
  qed
next
  case (Elsewhere f)
  then show ?thesis using assms by (intro same) auto
qed

subsection \<open>Blocked credentials\<close>

lemma Rewrite_blocked:
  assumes "hs_credentialsBlocked (fst s)" "Rewrite a pinned incoming s = (out, w)"
  shows "rq_Header out ''Authorization'' = []" "rq_Header out ''Cookie'' = []" "w = snd s"
  using assms by (cases s; auto simp: Rewrite_def Let_def header_Del_def)+

lemma blocked_step:
  assumes "exec a e s = (ob, s')" "hs_credentialsBlocked (fst s)" "\<And>t token. ob \<noteq> Accepted t token"
  shows "hs_credentialsBlocked (fst s')"
    and "ob = Forwarded pinned incoming out \<Longrightarrow>
           rq_Header out ''Authorization'' = [] \<and> rq_Header out ''Cookie'' = []"
proof -
  show "hs_credentialsBlocked (fst s')"
    by (cases rule: exec_host_cases [OF assms(1)]) (use assms(2,3) in auto)
  show "rq_Header out ''Authorization'' = [] \<and> rq_Header out ''Cookie'' = []" if f: "ob = Forwarded pinned incoming out"
  proof (cases e)
    case (Forward p inc)
    then show ?thesis using assms(1,2) f Rewrite_blocked [of s a p inc]
      by (auto simp: do_forward_def split: if_splits prod.splits)
  qed (use assms(1) f in \<open>auto simp: do_receive_def do_commit_def do_logout_def do_activate_def do_sign_in_def
        received_observation_def split: prod.splits option.splits sum.splits if_splits\<close>)
qed

lemma blocked_history:
  assumes "history a es s = (obs, s')" "hs_credentialsBlocked (fst s)" "\<And>t token. Accepted t token \<notin> set obs"
  shows "hs_credentialsBlocked (fst s') \<and>
    (\<forall>pinned incoming out. Forwarded pinned incoming out \<in> set obs \<longrightarrow>
       rq_Header out ''Authorization'' = [] \<and> rq_Header out ''Cookie'' = [])"
  using assms
proof (induction es arbitrary: s obs)
  case (Cons e es)
  obtain ob s1 obs1 where h: "exec a e s = (ob, s1)" "history a es s1 = (obs1, s')" "obs = ob # obs1"
    using Cons.prems(1) by (auto simp: history_Cons)
  have no: "\<And>t token. ob \<noteq> Accepted t token" "\<And>t token. Accepted t token \<notin> set obs1"
    using Cons.prems(3) h(3) by auto
  note step = blocked_step [OF h(1) Cons.prems(2) no(1)]
  show ?case using Cons.IH [OF h(2) step(1) no(2)] step(2) h(3) by auto
qed simp


subsection \<open>Targets are fresh\<close>

text \<open>The target that is pending was made after the current one, and both were made by the host.\<close>

definition targets_fresh :: "host \<Rightarrow> bool" where
  "targets_fresh h \<longleftrightarrow>
     tg_ref (hs_target h) < length (hs_allocated h) \<and>
     (case hs_pending h of None \<Rightarrow> True | Some t \<Rightarrow> tg_ref (hs_target h) < tg_ref t \<and> tg_ref t < length (hs_allocated h))"

lemma newAppHost_fresh: "newAppHost raw source = Inr h \<Longrightarrow> targets_fresh h"
  by (auto simp: newAppHost_def targets_fresh_def Let_def split: sum.splits option.splits)

lemma fresh_step:
  assumes "exec a e s = (ob, s')" "targets_fresh (fst s)"
  shows "targets_fresh (fst s')" "tg_ref (hs_target (fst s)) \<le> tg_ref (hs_target (fst s'))"
    and "ob = Activated token t \<Longrightarrow> tg_ref (hs_target (fst s)) < tg_ref (hs_target (fst s'))"
  by (cases rule: exec_host_cases [OF assms(1)];
      use assms(2) in \<open>auto simp: targets_fresh_def fresh_target_def split: option.splits\<close>)+

lemma fresh_history:
  assumes "history a es s = (obs, s')" "targets_fresh (fst s)"
  shows "targets_fresh (fst s') \<and> tg_ref (hs_target (fst s)) \<le> tg_ref (hs_target (fst s')) \<and>
    ((\<exists>token t. Activated token t \<in> set obs) \<longrightarrow> tg_ref (hs_target (fst s)) < tg_ref (hs_target (fst s')))"
  using assms
proof (induction es arbitrary: s obs)
  case (Cons e es)
  obtain ob s1 obs1 where h: "exec a e s = (ob, s1)" "history a es s1 = (obs1, s')" "obs = ob # obs1"
    using Cons.prems(1) by (auto simp: history_Cons)
  note step = fresh_step [OF h(1) Cons.prems(2)]
  show ?case using Cons.IH [OF h(2) step(1)] step(2,3) h(3) by fastforce
qed simp

subsection \<open>A server is activated only after it was checked\<close>

text \<open>The pending switch was offered, with its token, for a server found online.\<close>

definition offered_in :: "observation list \<Rightarrow> string \<Rightarrow> target \<Rightarrow> bool" where
  "offered_in seen token t \<longleftrightarrow>
     (\<exists>check. Offered token check \<in> set seen \<and> cn_Status check = connectionOnline \<and>
        url_Parse (cn_ServerURL check) = Some (tg_url t))"

definition pending_offered :: "observation list \<Rightarrow> host \<Rightarrow> bool" where
  "pending_offered seen h \<longleftrightarrow>
     (case hs_pending h of None \<Rightarrow> True | Some t \<Rightarrow> offered_in seen (hs_pendingCode h) t)"

lemma offered_step:
  assumes "exec a e s = (ob, s')" "pending_offered seen (fst s)"
  shows "pending_offered (seen @ [ob]) (fst s')"
    and "ob = Activated token t \<Longrightarrow> offered_in seen token t"
  by (cases rule: exec_host_cases [OF assms(1)];
      use assms(2) in \<open>auto simp: pending_offered_def offered_in_def fresh_target_def split: option.splits\<close>)+

lemma offered_history:
  assumes "history a es s = (obs, s')" "pending_offered seen (fst s)" "obs = before @ Activated token t # after"
  shows "offered_in (seen @ before) token t"
  using assms
proof (induction es arbitrary: s obs seen before)
  case (Cons e es)
  obtain ob s1 obs1 where h: "exec a e s = (ob, s1)" "history a es s1 = (obs1, s')" "obs = ob # obs1"
    using Cons.prems(1) by (auto simp: history_Cons)
  note step = offered_step [OF h(1) Cons.prems(2)]
  show ?case
  proof (cases before)
    case Nil
    then show ?thesis using Cons.prems(3) h(3) step(2) by simp
  next
    case (Cons x before')
    then show ?thesis using Cons.IH [OF h(2) step(1), of before'] Cons.prems(3) h(3) by simp
  qed
qed simp

subsection \<open>The servers of the host\<close>

text \<open>
  A known server passed the checks of a server URL and is what its text parses to, so its text identifies
  it. The current and the pending target are among the targets the host made.
\<close>

definition known_server :: "target \<Rightarrow> bool" where
  "known_server t \<longleftrightarrow> server_checks (tg_url t) \<and> url_Parse (URL_String (tg_url t)) = Some (tg_url t)"

definition servers_known :: "host \<Rightarrow> bool" where
  "servers_known h \<longleftrightarrow>
     list_all known_server (hs_allocated h) \<and> hs_target h \<in> set (hs_allocated h) \<and>
     (case hs_pending h of None \<Rightarrow> True | Some t \<Rightarrow> t \<in> set (hs_allocated h))"

lemma known_server_same: "known_server t \<Longrightarrow> known_server t' \<Longrightarrow> URL_String (tg_url t) = URL_String (tg_url t') \<Longrightarrow>
    tg_url t = tg_url t'"
  by (simp add: known_server_def)

lemma newAppHost_known: "newAppHost raw source = Inr h \<Longrightarrow> servers_known h"
  by (auto simp: newAppHost_def servers_known_def known_server_def Let_def normalized_parsed
      split: sum.splits option.splits)

lemma run_probes_online:
  assumes "run_probes probes normalized w = (check, w')"
  shows "cn_ServerURL check = normalized"
  using assms by (induction probes arbitrary: w) (auto split: prod.splits option.splits)

lemma checkServer_online:
  assumes "checkServer a raw w = (check, w')" "cn_Status check = connectionOnline"
  shows "normalizeServerURL raw = Inr (cn_ServerURL check)"
  using assms by (auto simp: checkServer_def Let_def dest: run_probes_online simp del: run_probes.simps
      split: sum.splits option.splits)

lemma known_step:
  assumes "exec a e s = (ob, s')" "servers_known (fst s)"
  shows "servers_known (fst s')"
proof (cases rule: exec_host_cases [OF assms(1)])
  case (4 request w u token check w')
  then obtain raw where "checkServer a raw (snd s) = (check, w)" by blast
  from checkServer_online [OF this 4(5)] have "normalizeServerURL raw = Inr (cn_ServerURL check)" .
  then have "known_server (fresh_target (fst s) u)"
    using normalized_parsed [of raw "cn_ServerURL check" u] 4(6) by (simp add: known_server_def fresh_target_def)
  then show ?thesis using 4(8) assms(2) by (auto simp: servers_known_def split: option.splits)
qed (use assms(2) in \<open>auto simp: servers_known_def split: option.splits\<close>)

lemma inject_cases:
  assumes "injectStoredRefreshCredential a request target s = (out, w)"
  obtains (same) "out = request" "w = snd s \<or> (\<exists>kr svc account. ah_credentialKeyring a = Some kr \<and> w = snd (kr_Get kr svc account (snd s)))"
    | (injected) kr token where "ah_credentialKeyring a = Some kr" "token \<noteq> []" "target = Some (hs_target (fst s))"
        "kr_Get kr sessionKeyringService (refreshCredentialAccount target) (snd s) = (Inr token, w)"
        "out = request\<lparr>rq_Header := request_AddCookie refreshCookieName token (rq_Header request)\<rparr>"
proof (cases "target = None \<or> requestRefreshToken request \<noteq> [] \<or> hs_credentialsBlocked (fst s) \<or>
              target \<noteq> Some (hs_target (fst s)) \<or> ah_credentialKeyring a = None")
  case True
  then have "out = request \<and> w = snd s"
    using assms by (cases s) (auto simp: injectStoredRefreshCredential_def split: if_splits)
  then show ?thesis by (intro same) auto
next
  case False
  then obtain kr where kr: "ah_credentialKeyring a = Some kr" by auto
  obtain r w1 where get: "kr_Get kr sessionKeyringService (refreshCredentialAccount target) (snd s) = (r, w1)" by fastforce
  have run: "(out, w) = (case r of Inl _ \<Rightarrow> (request, w1) | Inr token \<Rightarrow>
      if token \<noteq> [] then (request\<lparr>rq_Header := request_AddCookie refreshCookieName token (rq_Header request)\<rparr>, w1)
      else (request, w1))"
    using assms False kr get by (cases s; cases r) (auto simp: injectStoredRefreshCredential_def)
  show ?thesis
  proof (cases "\<exists>token. r = Inr token \<and> token \<noteq> []")
    case True
    then obtain token where "r = Inr token" "token \<noteq> []" by blast
    then show ?thesis using run kr get False by (intro injected [of kr token]) auto
  next
    case no: False
    then have "out = request" "w = w1" using run by (auto split: sum.splits if_splits)
    moreover have "w1 = snd (kr_Get kr sessionKeyringService (refreshCredentialAccount target) (snd s))" using get by simp
    ultimately show ?thesis using kr by (intro same) blast+
  qed
qed

lemma rewritten_simps [simp]:
  "url_Scheme (rq_URL (rewritten t incoming)) = url_Scheme (tg_url t)"
  "url_Host (rq_URL (rewritten t incoming)) = url_Host (tg_url t)"
  "rq_Host (rewritten t incoming) = url_Host (tg_url t)"
  "rq_Header (rewritten t incoming) ''Cookie'' = rq_Header incoming ''Cookie''"
  by (simp_all add: rewritten_def SetURL_def Let_def forwarded_header_def forwarding_headers_def SetXForwarded_def
      header_defs split: option.split prod.split)

lemma Rewrite_cases:
  assumes "Rewrite a pinned incoming s = (out, w)"
  obtains (blocked) t where "t = (case pinned of None \<Rightarrow> hs_target (fst s) | Some t \<Rightarrow> t)" "hs_credentialsBlocked (fst s)"
      "out = (rewritten t incoming)\<lparr>rq_Header := header_Del ''Cookie'' (header_Del ''Authorization'' (rq_Header (rewritten t incoming)))\<rparr>"
      "w = snd s"
    | (injecting) t where "t = (case pinned of None \<Rightarrow> hs_target (fst s) | Some t \<Rightarrow> t)"
      "injectStoredRefreshCredential a (rewritten t incoming) (Some t) s = (out, w)"
    | (plain) t where "t = (case pinned of None \<Rightarrow> hs_target (fst s) | Some t \<Rightarrow> t)" "out = rewritten t incoming" "w = snd s"
proof -
  obtain h w0 where s: "s = (h, w0)" by fastforce
  define t where "t = (case pinned of None \<Rightarrow> hs_target (fst s) | Some t \<Rightarrow> t)"
  have "Rewrite a pinned incoming s =
      (if hs_credentialsBlocked (fst s)
       then ((rewritten t incoming)\<lparr>rq_Header := header_Del ''Cookie'' (header_Del ''Authorization'' (rq_Header (rewritten t incoming)))\<rparr>, snd s)
       else if rq_Method (rewritten t incoming) = ''POST'' \<and>
               (rq_Path (rewritten t incoming) = ''/api/v1/auth/refresh'' \<or> rq_Path (rewritten t incoming) = ''/api/v1/auth/logout'')
       then injectStoredRefreshCredential a (rewritten t incoming) (Some t) s
       else (rewritten t incoming, snd s))"
    unfolding s t_def Rewrite_def Let_def by (simp only: fst_conv snd_conv prod.case)
  then show ?thesis using assms that t_def by (auto split: if_splits)
qed

lemma Rewrite_server:
  assumes "Rewrite a pinned incoming s = (out, w)" "pinned_ok (fst s) pinned" "servers_known (fst s)"
  obtains t where "t \<in> set (hs_allocated (fst s))" "t = (case pinned of None \<Rightarrow> hs_target (fst s) | Some t \<Rightarrow> t)"
    "url_Scheme (rq_URL out) = url_Scheme (tg_url t)" "url_Host (rq_URL out) = url_Host (tg_url t)"
    "rq_Host out = url_Host (tg_url t)"
proof -
  let ?t = "case pinned of None \<Rightarrow> hs_target (fst s) | Some t \<Rightarrow> t"
  have "?t \<in> set (hs_allocated (fst s))"
    using assms(2,3) by (auto simp: pinned_ok_def servers_known_def split: option.splits)
  moreover have "url_Scheme (rq_URL out) = url_Scheme (tg_url ?t) \<and> url_Host (rq_URL out) = url_Host (tg_url ?t) \<and>
      rq_Host out = url_Host (tg_url ?t)"
  proof (cases rule: Rewrite_cases [OF assms(1)])
    case (2 t)
    then show ?thesis by (cases rule: inject_cases [OF 2(2)]) simp_all
  qed simp_all
  ultimately show ?thesis using that by blast
qed

lemma known_history:
  assumes "history a es s = (obs, s')" "servers_known (fst s)"
  shows "servers_known (fst s') \<and>
    (\<forall>pinned incoming out. Forwarded pinned incoming out \<in> set obs \<longrightarrow>
       secure_server (rq_URL out) \<and> rq_Host out = url_Host (rq_URL out))"
  using assms
proof (induction es arbitrary: s obs)
  case (Cons e es)
  obtain ob s1 obs1 where h: "exec a e s = (ob, s1)" "history a es s1 = (obs1, s')" "obs = ob # obs1"
    using Cons.prems(1) by (auto simp: history_Cons)
  have "secure_server (rq_URL out) \<and> rq_Host out = url_Host (rq_URL out)"
    if ob: "ob = Forwarded pinned incoming out" for pinned incoming out
  proof -
    obtain w where r: "Rewrite a pinned incoming s = (out, w)" "pinned_ok (fst s) pinned"
      using h(1) ob by (cases e) (auto simp: do_forward_def do_receive_def do_commit_def do_logout_def
          do_activate_def do_sign_in_def received_observation_def split: if_splits prod.splits option.splits sum.splits)
    obtain t where t: "t \<in> set (hs_allocated (fst s))" "url_Scheme (rq_URL out) = url_Scheme (tg_url t)"
      "url_Host (rq_URL out) = url_Host (tg_url t)" "rq_Host out = url_Host (tg_url t)"
      using Rewrite_server [OF r Cons.prems(2)] by metis
    have "server_checks (tg_url t)"
      using t(1) Cons.prems(2) by (auto simp: servers_known_def list_all_iff known_server_def)
    then show ?thesis using t by (simp add: server_checks_def secure_server_def url_Hostname_def)
  qed
  then show ?case using Cons.IH [OF h(2) known_step [OF h(1) Cons.prems(2)]] h(3) by auto
qed simp

subsection \<open>The keyring\<close>

text \<open>
  What the host relies on: \<open>kc\<close> is the content of the keyring by service and account. Reading gives the
  content, writing and deleting change their own entry only (a failed write may have changed it or not), and
  nothing else that the host calls changes it.
\<close>

definition keyring_ok :: "'w appHost \<Rightarrow> ('w \<Rightarrow> string \<times> string \<Rightarrow> string option) \<Rightarrow> bool" where
  "keyring_ok a kc \<longleftrightarrow>
     (\<forall>kr. ah_credentialKeyring a = Some kr \<longrightarrow>
        (\<forall>svc acct w. kc (snd (kr_Get kr svc acct w)) = kc w \<and>
           (\<forall>tok. fst (kr_Get kr svc acct w) = Inr tok \<longrightarrow> kc w (svc, acct) = Some tok)) \<and>
        (\<forall>svc acct tok w x. kc (snd (kr_Set kr svc acct tok w)) x = kc w x \<or>
           x = (svc, acct) \<and> kc (snd (kr_Set kr svc acct tok w)) x \<in> {Some tok, None}) \<and>
        (\<forall>svc acct w x. kc (snd (kr_Delete kr svc acct w)) x \<in> {kc w x, None})) \<and>
     (\<forall>req w. kc (snd (ah_client_Do a req w)) = kc w) \<and> (\<forall>n w. kc (snd (ah_randomToken a n w)) = kc w) \<and>
     (\<forall>save. ah_config a = Some save \<longrightarrow> (\<forall>u b w. kc (snd (save u b w)) = kc w))"

lemma keyring_keep:
  assumes "keyring_ok a kc"
  shows "ah_credentialKeyring a = Some kr \<Longrightarrow> kc (snd (kr_Get kr svc acct w)) = kc w"
    and "kc (snd (ah_client_Do a req w)) = kc w" "kc (snd (ah_randomToken a n w)) = kc w"
    and "ah_config a = Some save \<Longrightarrow> kc (snd (save u b w)) = kc w"
  using assms by (auto simp: keyring_ok_def)

lemma keyring_keep_save: "keyring_ok a kc \<Longrightarrow> kc (save_logged a t b w) = kc w"
  by (auto simp: save_logged_def keyring_keep(4) split: option.split)

lemma keyring_keep_superseded: "keyring_ok a kc \<Longrightarrow> kc (snd (superseded a t token w)) = kc w"
  using keyring_keep(1) [of a kc]
  by (auto simp: superseded_def stored_token_def Let_def split: option.split prod.split sum.split) (metis snd_conv)+

lemma keyring_keep_getJSON: "keyring_ok a kc \<Longrightarrow> kc (snd (getJSON a t path dec w)) = kc w"
  using keyring_keep(2) [of a kc]
  by (auto simp: getJSON_def Let_def split: option.split prod.split sum.split) (metis snd_conv)+

lemma keyring_keep_checks:
  assumes "keyring_ok a kc"
  shows "kc (snd (check_health a t w)) = kc w" "kc (snd (check_readiness a t w)) = kc w" "kc (snd (check_login a t w)) = kc w"
  by (simp_all add: check_health_def check_readiness_def check_login_def Let_def split_beta keyring_keep_getJSON [OF assms])

lemma keyring_keep_run_probes:
  "(\<And>p w. p \<in> set probes \<Longrightarrow> kc (snd (p w)) = kc w) \<Longrightarrow> kc (snd (run_probes probes normalized w)) = kc w"
proof (induction probes arbitrary: w)
  case (Cons p probes)
  obtain r w1 where p: "p w = (r, w1)" by fastforce
  then have "kc w1 = kc w" using Cons.prems [of p w] by simp
  then show ?case using Cons p by (auto split: option.split)
qed simp

lemma keyring_keep_checkServer: "keyring_ok a kc \<Longrightarrow> kc (snd (checkServer a raw w)) = kc w"
  by (auto simp: checkServer_def Let_def keyring_keep_checks simp del: run_probes.simps
      intro!: keyring_keep_run_probes split: sum.split option.split)

lemma keyring_keep_switch_commit:
  assumes "keyring_ok a kc"
  shows "kc (snd (snd (switch_commit a old request s))) = kc (snd s)"
proof -
  obtain h w where s: "s = (h, w)" by fastforce
  show ?thesis
  proof (cases "decodeRequestJSON a (ah_decode_serverURL a) request")
    case (Inr raw)
    obtain check w1 where c: "checkServer a raw w = (check, w1)" by fastforce
    obtain r w2 where t: "ah_randomToken a 24 w1 = (r, w2)" by fastforce
    have "kc w1 = kc w" "kc w2 = kc w1"
      using keyring_keep_checkServer [OF assms, of raw w] keyring_keep(3) [OF assms, of 24 w1] c t by simp_all
    then show ?thesis using Inr c t
      by (simp add: switch_commit_def s Let_def split: sum.split option.split)
  qed (simp add: switch_commit_def s)
qed

lemma keyring_keep_inject: "keyring_ok a kc \<Longrightarrow> kc (snd (injectStoredRefreshCredential a request target s)) = kc (snd s)"
proof -
  assume k: "keyring_ok a kc"
  obtain out w where i: "injectStoredRefreshCredential a request target s = (out, w)" by fastforce
  show ?thesis
  proof (cases rule: inject_cases [OF i])
    case 1
    from 1(2) have "kc w = kc (snd s)"
    proof
      assume "\<exists>kr svc account. ah_credentialKeyring a = Some kr \<and> w = snd (kr_Get kr svc account (snd s))"
      then obtain kr svc account where "ah_credentialKeyring a = Some kr" and w: "w = snd (kr_Get kr svc account (snd s))"
        by blast
      then show ?thesis unfolding w by (intro keyring_keep(1) [OF k])
    qed simp
    then show ?thesis using i by simp
  next
    case (2 kr token)
    have "w = snd (kr_Get kr sessionKeyringService (refreshCredentialAccount target) (snd s))" using 2(4) by simp
    then show ?thesis using i keyring_keep(1) [OF k 2(1)] by simp
  qed
qed

lemma keyring_keep_Rewrite: "keyring_ok a kc \<Longrightarrow> kc (snd (Rewrite a pinned incoming s)) = kc (snd s)"
proof -
  assume k: "keyring_ok a kc"
  obtain out w where r: "Rewrite a pinned incoming s = (out, w)" by fastforce
  show ?thesis
  proof (cases rule: Rewrite_cases [OF r])
    case (2 t)
    then show ?thesis using r keyring_keep_inject [OF k, of "rewritten t incoming" "Some t" s] by simp
  qed (use r in simp_all)
qed

text \<open>What a step can do to the keyring: lose entries, or store the token of an accepted answer.\<close>

definition only_drops :: "(string \<times> string \<Rightarrow> string option) \<Rightarrow> (string \<times> string \<Rightarrow> string option) \<Rightarrow> bool" where
  "only_drops m m' \<longleftrightarrow> (\<forall>x. m' x = m x \<or> m' x = None)"

lemma only_drops_refl [simp]: "only_drops m m"
  by (simp add: only_drops_def)

lemma only_dropsD: "only_drops m m' \<Longrightarrow> m' x = m x \<or> m' x = None"
  by (cases x) (simp add: only_drops_def)

lemma only_drops_delete: "keyring_ok a kc \<Longrightarrow> only_drops (kc w) (kc (deleteRefreshCredentialLocked a t w))"
  by (auto simp: only_drops_def deleteRefreshCredentialLocked_def keyring_ok_def split: option.split)

lemma only_drops_blockSession:
  assumes "keyring_ok a kc"
  shows "only_drops (kc (snd s)) (kc (snd (blockSession a t token s)))"
proof -
  obtain h w where s: "s = (h, w)" by fastforce
  show ?thesis
  proof (cases "t = Some (hs_target h)")
    case True
    obtain newer w1 where sup: "superseded a (hs_target h) token w = (newer, w1)" by fastforce
    then have "kc w1 = kc w" using keyring_keep_superseded [OF assms, of "hs_target h" token w] by simp
    moreover have "only_drops (kc w1) (kc (deleteRefreshCredentialLocked a t w1))" by (rule only_drops_delete [OF assms])
    ultimately show ?thesis
      using True sup by (cases newer) (simp_all add: blockSession_def s Let_def keyring_keep_save [OF assms])
  next
    case False
    then show ?thesis by (cases t) (simp_all add: blockSession_def s)
  qed
qed

lemma persist_stores:
  assumes "keyring_ok a kc"
  shows "kc (snd (persistAuthenticatedLocked a t token s)) x = kc (snd s) x \<or>
    kc (snd (persistAuthenticatedLocked a t token s)) x = None \<or>
    x = (sessionKeyringService, refreshCredentialAccount (Some t)) \<and>
    kc (snd (persistAuthenticatedLocked a t token s)) x = Some token"
proof (cases "ah_credentialKeyring a")
  case None
  then show ?thesis
    by (simp add: persistAuthenticatedLocked_def replaceRefreshCredentialLocked_def Let_def split_beta keyring_keep_save [OF assms])
next
  case (Some kr)
  let ?acct = "refreshCredentialAccount (Some t)"
  obtain err w1 where set: "kr_Set kr sessionKeyringService ?acct token (snd s) = (err, w1)" by fastforce
  have s1: "kc w1 x = kc (snd s) x \<or> x = (sessionKeyringService, ?acct) \<and> kc w1 x \<in> {Some token, None}"
    using assms Some set unfolding keyring_ok_def by (metis snd_conv)
  have s2: "kc (snd (kr_Delete kr sessionKeyringService ?acct w1)) x \<in> {kc w1 x, None}"
    using assms Some unfolding keyring_ok_def by blast
  show ?thesis
    using s1 s2 Some set
    by (auto simp: persistAuthenticatedLocked_def replaceRefreshCredentialLocked_def Let_def split_beta
        keyring_keep_save [OF assms])
qed

text \<open>The tokens a list of observations shows to have been issued.\<close>

definition issued :: "observation list \<Rightarrow> target \<Rightarrow> string \<Rightarrow> bool" where
  "issued obs t token \<longleftrightarrow> Accepted t token \<in> set obs \<or> Refreshed t token \<in> set obs"

text \<open>What happens without the host leaves its keyring alone.\<close>

definition elsewhere_keeps :: "('w \<Rightarrow> string \<times> string \<Rightarrow> string option) \<Rightarrow> 'w event \<Rightarrow> bool" where
  "elsewhere_keeps kc e \<longleftrightarrow> (case e of Elsewhere f \<Rightarrow> \<forall>w. kc (f w) = kc w | _ \<Rightarrow> True)"

lemma store_step:
  assumes "exec a e s = (ob, s')" "keyring_ok a kc" "elsewhere_keeps kc e"
  shows "kc (snd s') x = kc (snd s) x \<or> kc (snd s') x = None \<or>
    (\<exists>token. issued [ob] (hs_target (fst s)) token \<and>
       x = (sessionKeyringService, refreshCredentialAccount (Some (hs_target (fst s)))) \<and> kc (snd s') x = Some token)"
proof (cases e)
  case (Forward p inc)
  then show ?thesis using assms(1) keyring_keep_Rewrite [OF assms(2), of p inc s]
    by (auto simp: do_forward_def split: if_splits prod.splits)
next
  case (Receive p out r)
  obtain handled where m: "modifyProxyResponse a p out r s = (handled, s')"
    and ob: "ob = received_observation a p out r handled"
    using assms(1) Receive by (auto simp: do_receive_def split: prod.splits)
  show ?thesis
  proof (cases rule: modifyProxyResponse_cases [OF m])
    case (3 token)
    then show ?thesis using only_dropsD [OF only_drops_blockSession [OF assms(2), of s p token], of x] by auto
  next
    case (4 w)
    then show ?thesis using keyring_keep_superseded [OF assms(2)] by auto
  next
    case (5 token response')
    then have "ob = Accepted (hs_target (fst s)) token" using ob by (auto simp: received_observation_def)
    then show ?thesis using 5(9) persist_stores [OF assms(2), of "hs_target (fst s)" token s x]
      by (auto simp: issued_def)
  next
    case (6 token response' w)
    then have "ob = Refreshed (hs_target (fst s)) token" using ob by (auto simp: received_observation_def)
    moreover have "kc w = kc (snd s)"
      using keyring_keep_superseded [OF assms(2), of "hs_target (fst s)" "requestRefreshToken out" "snd s"] 6(10) by simp
    ultimately show ?thesis using 6(11) persist_stores [OF assms(2), of "hs_target (fst s)" token "(fst s, w)" x]
      by (auto simp: issued_def)
  qed auto
next
  case (SwitchCommit old request)
  have "kc (snd s') = kc (snd s)"
    using assms(1) SwitchCommit keyring_keep_switch_commit [OF assms(2), of old request s]
    by (auto simp: do_commit_def split: if_splits prod.splits sum.splits)
  then show ?thesis by simp
next
  case (SwitchLogout old request)
  have "kc (snd (logoutOldServer a request (Some old) s)) = kc (snd s)"
    using keyring_keep_inject [OF assms(2), of _ "Some old" s]
    by (auto simp: logoutOldServer_def keyring_keep(2) [OF assms(2)] split: option.split prod.split) (metis snd_conv)+
  then show ?thesis using assms(1) SwitchLogout by (auto simp: do_logout_def split: option.splits prod.splits)
next
  case (SwitchDelete old)
  then show ?thesis using assms(1) only_dropsD [OF only_drops_delete [OF assms(2), of "snd s" "Some old"], of x] by auto
next
  case (Activate request)
  obtain reply where c: "handleConnectionActivate a request s = (reply, s')"
    using assms(1) Activate by (auto simp: do_activate_def split: prod.splits)
  have "kc (snd s') = kc (snd s)"
  proof (cases rule: handleConnectionActivate_cases [OF c])
    case (2 w)
    from 2(4) have "kc w = kc (snd s)"
    proof
      assume "\<exists>save (t :: target). ah_config a = Some save \<and> w = snd (save (URL_String (tg_url t)) True (snd s))"
      then obtain save and t :: target where sv: "ah_config a = Some save"
        and w: "w = snd (save (URL_String (tg_url t)) True (snd s))" by blast
      show ?thesis unfolding w by (rule keyring_keep(4) [OF assms(2) sv])
    qed simp
    then show ?thesis using 2(3) by simp
  next
    case (3 t save w)
    then show ?thesis using keyring_keep(4) [OF assms(2) 3(3), of "URL_String (tg_url t)" True "snd s"] by simp
  qed simp
  then show ?thesis by simp
next
  case (Clear t)
  then show ?thesis using assms(1) only_dropsD [OF only_drops_blockSession [OF assms(2), of s "Some t" "[]"], of x] by auto
next
  case (SignIn t y)
  show ?thesis
  proof (cases "refreshTokenFromSetCookies (ah_dates a) (exg_Cookies y) (targetRequiresSecureCookies (Some t))")
    case (Inl err)
    then show ?thesis using assms(1) SignIn by (auto simp: do_sign_in_def)
  next
    case tok: (Inr token)
    show ?thesis
    proof (rule markAuthenticated_cases [of a "Some t" token s])
      assume "markAuthenticated a (Some t) token s = (False, s)"
      then show ?thesis using assms(1) SignIn tok by (auto simp: do_sign_in_def)
    next
      assume m: "Some t = Some (hs_target (fst s))"
        "markAuthenticated a (Some t) token s = (True, persistAuthenticatedLocked a (hs_target (fst s)) token s)"
      then have "ob = Accepted (hs_target (fst s)) token" "s' = persistAuthenticatedLocked a (hs_target (fst s)) token s"
        using assms(1) SignIn tok by (auto simp: do_sign_in_def)
      then show ?thesis using persist_stores [OF assms(2), of "hs_target (fst s)" token s x] by (auto simp: issued_def)
    qed
  qed
next
  case (Elsewhere f)
  then show ?thesis using assms(1,3) by (auto simp: elsewhere_keeps_def)
qed

text \<open>Every stored session token was issued by a known server, under whose text it is stored.\<close>

definition store_issued :: "('w \<Rightarrow> string \<times> string \<Rightarrow> string option) \<Rightarrow> observation list \<Rightarrow> 'w \<Rightarrow> bool" where
  "store_issued kc seen w \<longleftrightarrow>
     (\<forall>account token. kc w (sessionKeyringService, account) = Some token \<longrightarrow>
        (\<exists>t. known_server t \<and> issued seen t token \<and> account = refreshCredentialAccount (Some t)))"

lemma store_issued_step:
  assumes "exec a e s = (ob, s')" "keyring_ok a kc" "elsewhere_keeps kc e"
    and "servers_known (fst s)" "store_issued kc seen (snd s)"
  shows "store_issued kc (seen @ [ob]) (snd s')"
proof -
  have cur: "known_server (hs_target (fst s))" using assms(4) by (auto simp: servers_known_def list_all_iff)
  show ?thesis
    unfolding store_issued_def
  proof (intro allI impI)
    fix account token assume st: "kc (snd s') (sessionKeyringService, account) = Some token"
    from store_step [OF assms(1-3), of "(sessionKeyringService, account)"]
    show "\<exists>t. known_server t \<and> issued (seen @ [ob]) t token \<and> account = refreshCredentialAccount (Some t)"
    proof (elim disjE exE conjE)
      assume "kc (snd s') (sessionKeyringService, account) = kc (snd s) (sessionKeyringService, account)"
      then have "kc (snd s) (sessionKeyringService, account) = Some token" using st by simp
      then obtain t where "known_server t" "issued seen t token" "account = refreshCredentialAccount (Some t)"
        using assms(5) unfolding store_issued_def by blast
      then show ?thesis by (intro exI [of _ t]) (auto simp: issued_def)
    next
      fix token' assume "issued [ob] (hs_target (fst s)) token'"
        "(sessionKeyringService, account) = (sessionKeyringService, refreshCredentialAccount (Some (hs_target (fst s))))"
        "kc (snd s') (sessionKeyringService, account) = Some token'"
      then show ?thesis using st cur by (intro exI [of _ "hs_target (fst s)"]) (auto simp: issued_def)
    qed (use st in simp)
  qed
qed

text \<open>A cookie that the host adds to a request came from the server the request goes to.\<close>

definition cookie_from_issuer :: "observation list \<Rightarrow> request \<Rightarrow> request \<Rightarrow> bool" where
  "cookie_from_issuer seen incoming out \<longleftrightarrow>
     rq_Header out ''Cookie'' = [] \<or> rq_Header out ''Cookie'' = rq_Header incoming ''Cookie'' \<or>
     (\<exists>t token. issued seen t token \<and>
        url_Scheme (rq_URL out) = url_Scheme (tg_url t) \<and> url_Host (rq_URL out) = url_Host (tg_url t) \<and>
        rq_Header out ''Cookie'' = request_AddCookie refreshCookieName token (rq_Header incoming) ''Cookie'')"

lemma Rewrite_cookie:
  assumes "Rewrite a pinned incoming s = (out, w)" "keyring_ok a kc" "servers_known (fst s)"
    and "store_issued kc seen (snd s)"
  shows "cookie_from_issuer seen incoming out"
proof (cases rule: Rewrite_cases [OF assms(1)])
  case (1 t)
  then show ?thesis by (simp add: cookie_from_issuer_def header_Del_def)
next
  case (2 t)
  show ?thesis
  proof (cases rule: inject_cases [OF 2(2)])
    case 1
    then show ?thesis by (simp add: cookie_from_issuer_def)
  next
    case i: (2 kr token)
    have t: "t = hs_target (fst s)" using i(3) by simp
    have "kc (snd s) (sessionKeyringService, refreshCredentialAccount (Some t)) = Some token"
      using assms(2) i(1,4) unfolding keyring_ok_def by (metis fst_conv)
    then obtain t' where t': "known_server t'" "issued seen t' token"
      "refreshCredentialAccount (Some t) = refreshCredentialAccount (Some t')"
      using assms(4) unfolding store_issued_def by blast
    have "known_server t" using assms(3) t by (auto simp: servers_known_def list_all_iff)
    then have "tg_url t = tg_url t'" using known_server_same t' by (simp add: refreshCredentialAccount_def)
    moreover have "request_AddCookie refreshCookieName token (rq_Header (rewritten t incoming)) ''Cookie'' =
        request_AddCookie refreshCookieName token (rq_Header incoming) ''Cookie''"
      by (simp add: request_AddCookie_def Let_def header_Set_def header_Get_def)
    ultimately show ?thesis using t'(2) i(5) unfolding cookie_from_issuer_def by auto
  qed
next
  case (3 t)
  then show ?thesis by (simp add: cookie_from_issuer_def)
qed

lemma store_history:
  assumes "history a es s = (obs, s')" "keyring_ok a kc" "list_all (elsewhere_keeps kc) es"
    and "servers_known (fst s)" "store_issued kc seen (snd s)" "obs = before @ Forwarded pinned incoming out # after"
  shows "cookie_from_issuer (seen @ before) incoming out"
  using assms
proof (induction es arbitrary: s obs seen before)
  case (Cons e es)
  obtain ob s1 obs1 where h: "exec a e s = (ob, s1)" "history a es s1 = (obs1, s')" "obs = ob # obs1"
    using Cons.prems(1) by (auto simp: history_Cons)
  have step: "store_issued kc (seen @ [ob]) (snd s1)"
    by (rule store_issued_step [OF h(1) Cons.prems(2) _ Cons.prems(4,5)]) (use Cons.prems(3) in simp)
  show ?case
  proof (cases before)
    case Nil
    then have ob: "ob = Forwarded pinned incoming out" using Cons.prems(6) h(3) by simp
    obtain w where "Rewrite a pinned incoming s = (out, w)"
      using h(1) ob by (cases e) (auto simp: do_forward_def do_receive_def do_commit_def do_logout_def
          do_activate_def do_sign_in_def received_observation_def split: if_splits prod.splits option.splits sum.splits)
    from Rewrite_cookie [OF this Cons.prems(2,4,5)] Nil show ?thesis by simp
  next
    case (Cons x before')
    have "cookie_from_issuer ((seen @ [ob]) @ before') incoming out"
      by (rule Cons.IH [OF h(2) \<open>keyring_ok a kc\<close> _ known_step [OF h(1) \<open>servers_known (fst s)\<close>] step])
        (use Cons.prems(3,6) Cons h(3) in auto)
    then show ?thesis using Cons Cons.prems(6) h(3) by simp
  qed
qed simp

end
