(* ===== verification/Session_Properties.thy ===== *)
theory Session_Properties
  imports Session_Safety
begin

text \<open>
  What the session host guarantees, over every history of its steps: credentials do not follow a switch of
  servers, only a sign-in unblocks a session, a server is activated only after it was offered, answers to
  earlier requests are refused, requests go to secure servers, tokens to their issuer, and never to the web
  view. The handlers are histories of the steps. At the end, what modelling showed to be wrong.
\<close>

subsection \<open>A small host for the witnesses\<close>

text \<open>
  The world is the keyring, by service and account; every server is healthy; a decoder takes the whole body
  as its value.
\<close>

type_synonym demo_world = "((string \<times> string) \<times> string) list"

definition demo_keyring :: "demo_world keyring" where
  "demo_keyring =
     \<lparr>kr_Set = (\<lambda>service account token w. (None, ((service, account), token) # w)),
      kr_Get = (\<lambda>service account w.
        (case map_of w (service, account) of None \<Rightarrow> Inl keyring_ErrNotFound | Some token \<Rightarrow> Inr token, w)),
      kr_Delete = (\<lambda>service account w. (None, filter (\<lambda>(k, _). k \<noteq> (service, account)) w))\<rparr>"

definition demo_decoder :: "string decoder" where
  "demo_decoder = (\<lambda>(body, err). if body = [] then Inl EOF else Inr (body, [], err))"

definition demo_answer :: "string \<Rightarrow> string" where
  "demo_answer path = (if path = ''/api/v1/healthz'' then ''ok'' else if path = ''/api/v1/readyz'' then ''ready'' else ''{}'')"

definition demo_response :: "request \<Rightarrow> response" where
  "demo_response request = \<lparr>rs_StatusCode = 200, rs_Header = header_empty, rs_Body = (demo_answer (rq_Path request), None)\<rparr>"

definition demo_json :: json where
  "demo_json = JObject [(''data'', JObject [(''tokens'', JObject [(''refreshToken'', JString ''r''), (''accessToken'', JString ''a'')])])]"

definition demo_info :: AppInfo where
  "demo_info = \<lparr>app_Name = [], app_Version = [], app_Platform = [], app_Arch = [], app_DeviceID = [], app_Hostname = [],
     app_DeviceType = [], app_LogDirectory = [], app_UpdateSupported = False, app_UpdateState = []\<rparr>"

definition demo_host :: "demo_world appHost" where
  "demo_host =
     \<lparr>ah_locked = False, ah_appInfo = demo_info, ah_config = Some (\<lambda>_ _ w. (None, w)),
      ah_credentialKeyring = Some demo_keyring, ah_client_Do = (\<lambda>request w. (Inr (demo_response request), w)),
      ah_RoundTrip = (\<lambda>request w. (Inr (demo_response request), w)),
      ah_static = (\<lambda>_ w. (writeData 200 (PStatus ''ok''), w)), ah_runtimeAPI = None, ah_openLogDirectory = None,
      ah_openBrowserURL = None, ah_randomToken = (\<lambda>_ w. (Inr ''token'', w)), ah_ParseMediaType = (\<lambda>s. (s, None)),
      ah_FRONTEND_DEVSERVER_URL = [], ah_tlsError = (\<lambda>_. False), ah_dates = (\<lambda>_. None),
      ah_decode_serverURL = demo_decoder, ah_decode_activation = demo_decoder, ah_decode_browser = demo_decoder,
      ah_decode_empty = (\<lambda>_. Inl EOF), ah_decode_status = demo_decoder,
      ah_decode_slider = (\<lambda>_. Inr (Some True, [], None)), ah_decode_any = (\<lambda>_. Inl EOF),
      ah_Unmarshal = (\<lambda>_. Some demo_json), ah_Marshal = (\<lambda>_. ''{}'')\<rparr>"

definition demo_target :: target where
  "demo_target = \<lparr>tg_ref = 0, tg_url = url_origin ''http'' ''127.0.0.1:8080''\<rparr>"

definition demo_start :: host where
  "demo_start = \<lparr>hs_target = demo_target, hs_source = ''saved'', hs_pending = None, hs_pendingCode = [],
     hs_credentialsBlocked = False, hs_rendererReady = False, hs_desktopAuth = False, hs_allocated = [demo_target]\<rparr>"

definition demo_request :: "string \<Rightarrow> string \<Rightarrow> string \<Rightarrow> request" where
  "demo_request meth path body =
     \<lparr>rq_Method = meth, rq_URL = url_empty\<lparr>url_Path := path\<rparr>, rq_Host = [],
      rq_Header = (\<lambda>k. if k = ''Origin'' then [''wails://localhost''] else if k = ''Content-Type'' then [''application/json'']
        else if k = ''Authorization'' then [''Bearer a''] else if k = ''Cookie'' then [''theme=dark''] else []),
      rq_Body = Some (body, None), rq_RemoteAddr = ''127.0.0.1:5000''\<rparr>"

definition demo_switch :: "demo_world event list" where
  "demo_switch = [SwitchCommit demo_target (demo_request ''POST'' [] ''https://b.example''),
                  Activate (demo_request ''POST'' [] ''token'')]"

lemma demo_start_new: "newAppHost ''http://127.0.0.1:8080/'' ''saved'' = Inr demo_start"
  by code_simp

lemma demo_keyring_ok: "keyring_ok demo_host map_of"
proof -
  have "map_of (filter (\<lambda>(k, _). k \<noteq> x) w) y = (if y = x then None else map_of w y)" for x y and w :: demo_world
    by (induction w) auto
  then show ?thesis
    by (auto simp: keyring_ok_def demo_host_def demo_keyring_def split: option.splits)
qed

lemma demo_switch_observed:
  assumes "history demo_host demo_switch (demo_start, []) = (obs, s')"
  shows "\<exists>check t. obs = [Offered ''token'' check] @ Activated ''token'' t # []"
proof -
  have "(case fst (history demo_host demo_switch (demo_start, [])) of
           [Offered o1 c, Activated o2 t] \<Rightarrow> o1 = ''token'' \<and> o2 = ''token'' | _ \<Rightarrow> False)" by code_simp
  then show ?thesis using assms by (auto split: list.splits observation.splits)
qed

subsection \<open>Credentials and switches\<close>

text \<open>C35: Credentials do not follow a switch: after a server was activated and until a sign-in has been
  accepted, no request that is forwarded, to whatever target and in whatever order with responses and
  further switches, carries an Authorization header or a cookie.\<close>

theorem credentials_do_not_follow_switch:
  assumes "exec a (Activate request) s0 = (Activated activation t, s)"
    and "history a es s = (obs, s')" and "\<forall>t token. Accepted t token \<notin> set obs"
    and "Forwarded pinned incoming out \<in> set obs"
  shows "rq_Header out ''Authorization'' = [] \<and> rq_Header out ''Cookie'' = []"
proof -
  have "hs_credentialsBlocked (fst s)" by (cases rule: exec_host_cases [OF assms(1)]) auto
  then show ?thesis using blocked_history [OF assms(2)] assms(3,4) by blast
qed

theorem credentials_do_not_follow_switch_witness:
  "\<exists>s t s' out. exec demo_host (Activate (demo_request ''POST'' [] ''token''))
       (snd (exec demo_host (hd demo_switch) (demo_start, []))) = (Activated ''token'' t, s) \<and>
     history demo_host [Forward None (demo_request ''GET'' ''/api/v1/me'' [])] s =
       ([Forwarded None (demo_request ''GET'' ''/api/v1/me'' []) out], s') \<and>
     rq_Header out ''Authorization'' = [] \<and> rq_Header out ''Cookie'' = []"
proof -
  let ?s0 = "snd (exec demo_host (hd demo_switch) (demo_start, []))"
  let ?act = "Activate (demo_request ''POST'' [] ''token'')"
  let ?r = "demo_request ''GET'' ''/api/v1/me'' []"
  have "(case fst (exec demo_host ?act ?s0) of Activated c t \<Rightarrow> c = ''token'' | _ \<Rightarrow> False)" by code_simp
  then obtain t s where act: "exec demo_host ?act ?s0 = (Activated ''token'' t, s)"
    by (cases "exec demo_host ?act ?s0") (auto split: observation.splits)
  obtain out s' where run: "history demo_host [Forward None ?r] s = ([Forwarded None ?r out], s')"
    by (auto simp: history.simps do_forward_def pinned_ok_def split_beta)
  have "rq_Header out ''Authorization'' = [] \<and> rq_Header out ''Cookie'' = []"
    by (rule credentials_do_not_follow_switch [OF act run]) auto
  with act run show ?thesis by blast
qed

text \<open>Only a sign-in unblocks a session: a step after which the credentials are no longer blocked accepted
  a token of the current server, from the browser sign-in or from a successful answer to a login or exchange
  that was sent to this very target, with exactly that token in its cookies.\<close>

theorem only_sign_in_unblocks:
  assumes "exec a e s = (ob, s')" and "hs_credentialsBlocked (fst s)" and "\<not> hs_credentialsBlocked (fst s')"
  shows "\<exists>token. ob = Accepted (hs_target (fst s)) token \<and>
    ((\<exists>x. e = SignIn (hs_target (fst s)) x \<and>
        refreshTokenFromSetCookies (ah_dates a) (exg_Cookies x) (targetRequiresSecureCookies (Some (hs_target (fst s)))) = Inr token) \<or>
     (\<exists>out response. e = Receive (Some (hs_target (fst s))) out response \<and> rq_Method out = ''POST'' \<and>
        (rq_Path out = ''/api/v1/auth/login'' \<or> isDesktopExchangePath (rq_Path out)) \<and>
        200 \<le> rs_StatusCode response \<and> rs_StatusCode response < 300 \<and>
        refreshTokenFromSetCookies (ah_dates a) (rs_Header response ''Set-Cookie'')
          (targetRequiresSecureCookies (Some (hs_target (fst s)))) = Inr token))"
proof -
  obtain token where ob: "ob = Accepted (hs_target (fst s)) token"
    by (cases rule: exec_host_cases [OF assms(1)]) (use assms(2,3) in auto)
  show ?thesis
  proof (cases e)
    case (Receive p out response)
    then have "p = Some (hs_target (fst s)) \<and> isAuthSessionRequest out \<and> rq_Path out \<noteq> ''/api/v1/auth/refresh'' \<and>
        200 \<le> rs_StatusCode response \<and> rs_StatusCode response < 300 \<and>
        refreshTokenFromSetCookies (ah_dates a) (rs_Header response ''Set-Cookie'') (targetRequiresSecureCookies p) = Inr token"
      using assms(1) ob
      by (auto simp: do_receive_def received_observation_def split: prod.splits option.splits sum.splits if_splits)
    then show ?thesis using ob Receive by (auto simp: isAuthSessionRequest_def)
  next
    case (SignIn t x)
    then show ?thesis using assms(1) ob
      by (auto simp: do_sign_in_def split: sum.splits prod.splits if_splits)
  qed (use assms(1) ob in \<open>auto simp: do_forward_def do_commit_def do_logout_def do_activate_def
        split: prod.splits option.splits sum.splits if_splits\<close>)
qed

definition demo_login :: request where
  "demo_login = demo_request ''POST'' ''/api/v1/auth/login'' ''{}''"

definition demo_login_response :: response where
  "demo_login_response =
     \<lparr>rs_StatusCode = 200, rs_Header = header_Set ''Set-Cookie'' ''soha_refresh_token=r1; Path=/api/v1/auth; HttpOnly'' header_empty,
      rs_Body = (''{}'', None)\<rparr>"

theorem only_sign_in_unblocks_witness:
  "\<exists>ob s' token. exec demo_host (Receive (Some demo_target) demo_login demo_login_response)
       (demo_start\<lparr>hs_credentialsBlocked := True\<rparr>, []) = (ob, s') \<and> ob = Accepted demo_target token"
proof -
  let ?s = "(demo_start\<lparr>hs_credentialsBlocked := True\<rparr>, [] :: demo_world)"
  let ?e = "Receive (Some demo_target) demo_login demo_login_response"
  obtain ob s' where e: "exec demo_host ?e ?s = (ob, s')" by (rule prod.exhaust)
  have "\<not> hs_credentialsBlocked (fst (snd (exec demo_host ?e ?s)))" by code_simp
  then have un: "\<not> hs_credentialsBlocked (fst s')" using e by simp
  have "\<exists>token. ob = Accepted (hs_target (fst ?s)) token" using only_sign_in_unblocks [OF e _ un] by auto
  then show ?thesis using e by (auto simp: demo_start_def)
qed

text \<open>A server is activated only after it was checked: a switch is activated with a token that the host
  offered before, together with a check that found this very server online.\<close>

theorem activation_follows_check:
  assumes "history a es s = (obs, s')" and "hs_pending (fst s) = None"
    and "obs = before @ Activated token t # after"
  shows "\<exists>check. Offered token check \<in> set before \<and> cn_Status check = connectionOnline \<and>
    url_Parse (cn_ServerURL check) = Some (tg_url t)"
  using offered_history [OF assms(1), of "[]" before token t after] assms(2,3)
  by (simp add: pending_offered_def offered_in_def)

theorem activation_follows_check_witness:
  "\<exists>obs s' t check. history demo_host demo_switch (demo_start, []) = (obs, s') \<and>
     obs = [Offered ''token'' check] @ Activated ''token'' t # [] \<and> cn_Status check = connectionOnline \<and>
     url_Parse (cn_ServerURL check) = Some (tg_url t)"
proof -
  obtain obs s' where h: "history demo_host demo_switch (demo_start, []) = (obs, s')" by (rule prod.exhaust)
  obtain check t where obs: "obs = [Offered ''token'' check] @ Activated ''token'' t # []"
    using demo_switch_observed [OF h] by blast
  have "\<exists>check'. Offered ''token'' check' \<in> set [Offered ''token'' check] \<and> cn_Status check' = connectionOnline \<and>
      url_Parse (cn_ServerURL check') = Some (tg_url t)"
    by (rule activation_follows_check [OF h _ obs]) (simp add: demo_start_def)
  then show ?thesis using h obs by auto
qed

text \<open>Answers to requests from before a switch are refused: once a switch was activated, a response to a
  request that was pinned to the earlier target changes neither the session nor the stored credential, whatever
  it says, even where both targets have the same URL.\<close>

theorem earlier_responses_refused:
  assumes "targets_fresh (fst s)" and "history a es s = (obs, s')" and "Activated token t \<in> set obs"
  shows "modifyProxyResponse a (Some (hs_target (fst s))) out response s' = (Inl errContractMismatch, s')"
proof -
  have "tg_ref (hs_target (fst s)) < tg_ref (hs_target (fst s'))" using fresh_history [OF assms(2,1)] assms(3) by blast
  then have "Some (hs_target (fst s)) \<noteq> Some (hs_target (fst s'))" by auto
  then show ?thesis by (simp add: modifyProxyResponse_def)
qed

theorem earlier_responses_refused_witness:
  "\<exists>obs s'. history demo_host demo_switch (demo_start, []) = (obs, s') \<and>
     modifyProxyResponse demo_host (Some demo_target) demo_login demo_login_response s' = (Inl errContractMismatch, s')"
proof -
  let ?s = "(demo_start, [] :: demo_world)"
  obtain obs s' where h: "history demo_host demo_switch ?s = (obs, s')" by (rule prod.exhaust)
  obtain token t where "Activated token t \<in> set obs" using demo_switch_observed [OF h] by auto
  moreover have "targets_fresh (fst ?s)" using newAppHost_fresh [OF demo_start_new] by simp
  ultimately have "modifyProxyResponse demo_host (Some (hs_target (fst ?s))) demo_login demo_login_response s' =
      (Inl errContractMismatch, s')"
    by (intro earlier_responses_refused [OF _ h])
  then show ?thesis using h by (auto simp: demo_start_def)
qed

text \<open>C37: Every request the host forwards goes to an HTTPS origin or to the loopback interface, with the host
  name of that origin, from the start and over every history, whatever servers it is switched to.\<close>

theorem forwarded_to_secure_servers:
  assumes "newAppHost raw source = Inr h" and "history a es (h, w) = (obs, s')"
    and "Forwarded pinned incoming out \<in> set obs"
  shows "secure_server (rq_URL out) \<and> rq_Host out = url_Host (rq_URL out)"
  using known_history [OF assms(2)] newAppHost_known [OF assms(1)] assms(3) by auto

theorem forwarded_to_secure_servers_witness:
  "\<exists>out s'. history demo_host [Forward None (demo_request ''GET'' ''/api/v1/me'' [])] (demo_start, []) =
       ([Forwarded None (demo_request ''GET'' ''/api/v1/me'' []) out], s') \<and> secure_server (rq_URL out)"
proof -
  let ?r = "demo_request ''GET'' ''/api/v1/me'' []"
  obtain out s' where run: "history demo_host [Forward None ?r] (demo_start, []) = ([Forwarded None ?r out], s')"
    by (auto simp: history.simps do_forward_def pinned_ok_def split_beta)
  have "secure_server (rq_URL out) \<and> rq_Host out = url_Host (rq_URL out)"
    by (rule forwarded_to_secure_servers [OF demo_start_new run]) auto
  with run show ?thesis by blast
qed

text \<open>C36: A stored refresh token goes only to the server that issued it: starting with an empty keyring, a cookie
  that the host adds to a forwarded request holds a token that an earlier answer of a server with the same scheme
  and host had issued; otherwise the cookies are those of the web view or none.\<close>

theorem refresh_token_only_to_issuer:
  assumes "newAppHost raw source = Inr h" and "keyring_ok a kc" and "\<forall>x. kc w x = None"
    and "list_all (elsewhere_keeps kc) es" and "history a es (h, w) = (obs, s')"
    and "obs = before @ Forwarded pinned incoming out # after"
  shows "rq_Header out ''Cookie'' = [] \<or> rq_Header out ''Cookie'' = rq_Header incoming ''Cookie'' \<or>
    (\<exists>t token. (Accepted t token \<in> set before \<or> Refreshed t token \<in> set before) \<and>
       url_Scheme (rq_URL out) = url_Scheme (tg_url t) \<and> url_Host (rq_URL out) = url_Host (tg_url t) \<and>
       rq_Header out ''Cookie'' = request_AddCookie refreshCookieName token (rq_Header incoming) ''Cookie'')"
  using store_history [OF assms(5,2,4), of "[]" before pinned incoming out after] newAppHost_known [OF assms(1)]
    assms(3,6)
  by (simp add: cookie_from_issuer_def issued_def store_issued_def)

theorem refresh_token_only_to_issuer_witness:
  "\<exists>out s'. history demo_host [Receive (Some demo_target) demo_login demo_login_response,
         Forward None (demo_request ''POST'' ''/api/v1/auth/refresh'' [])] (demo_start, []) =
       ([Accepted demo_target ''r1'', Forwarded None (demo_request ''POST'' ''/api/v1/auth/refresh'' []) out], s') \<and>
     rq_Header out ''Cookie'' = [''theme=dark; soha_refresh_token=r1''] \<and> url_Host (rq_URL out) = ''127.0.0.1:8080''"
proof -
  let ?r = "demo_request ''POST'' ''/api/v1/auth/refresh'' []"
  let ?es = "[Receive (Some demo_target) demo_login demo_login_response, Forward None ?r]"
  obtain obs s' where h: "history demo_host ?es (demo_start, []) = (obs, s')" by (rule prod.exhaust)
  have two: "\<exists>ob out. obs = [ob, Forwarded None ?r out]"
    using h by (auto simp: history.simps do_forward_def pinned_ok_def split_beta)
  then obtain ob out where obs2: "obs = [ob, Forwarded None ?r out]" by blast
  have f: "obs = fst (history demo_host ?es (demo_start, []))" using h by simp
  have "(case hd (fst (history demo_host ?es (demo_start, []))) of
           Accepted t token \<Rightarrow> t = demo_target \<and> token = ''r1'' | _ \<Rightarrow> False)" by code_simp
  then have ob: "ob = Accepted demo_target ''r1''" unfolding f [symmetric] obs2 by (cases ob) simp_all
  have "(case last (fst (history demo_host ?es (demo_start, []))) of
           Forwarded _ _ out \<Rightarrow> rq_Header out ''Cookie'' = [''theme=dark; soha_refresh_token=r1''] | _ \<Rightarrow> False)"
    by code_simp
  then have cookie: "rq_Header out ''Cookie'' = [''theme=dark; soha_refresh_token=r1'']"
    unfolding f [symmetric] obs2 by simp
  have obs: "obs = [Accepted demo_target ''r1''] @ Forwarded None ?r out # []" using obs2 ob by simp
  have "list_all (elsewhere_keeps map_of) ?es" by (simp add: elsewhere_keeps_def)
  from refresh_token_only_to_issuer [OF demo_start_new demo_keyring_ok _ this h obs] cookie
  have "url_Host (rq_URL out) = url_Host (tg_url demo_target)" by (auto simp: demo_request_def)
  then show ?thesis using h obs cookie by (auto simp: demo_target_def)
qed

subsection \<open>The web view never sees the refresh token\<close>

text \<open>A member reached by a path of keys, where the last of repeated members counts.\<close>

fun json_path :: "json \<Rightarrow> string list \<Rightarrow> json option" where
  "json_path v [] = Some v"
| "json_path v (k # ks) =
     (case v of JObject members \<Rightarrow> (case map_of (rev members) k of None \<Rightarrow> None | Some x \<Rightarrow> json_path x ks) | _ \<Rightarrow> None)"

lemma map_of_rev_sort:
  assumes "distinct (map fst m)"
  shows "map_of (rev (sort_key fst m)) k = map_of m k"
proof -
  have d: "distinct (map fst (rev (sort_key fst m)))"
    using assms by (simp add: rev_map [symmetric] distinct_map)
  have "map_of (rev (sort_key fst m)) = map_of m"
    by (subst map_of_inject_set [OF d assms]) simp
  then show ?thesis by simp
qed

lemma json_path_object:
  "distinct (map fst m) \<Longrightarrow> json_path (json_object m) (k # ks) = (case map_of m k of None \<Rightarrow> None | Some x \<Rightarrow> json_path x ks)"
  by (simp add: json_object_def map_of_rev_sort)

lemma json_path_map:
  "json_map v = Some m \<Longrightarrow> distinct (map fst m) \<and>
     (\<forall>k ks. json_path v (k # ks) = (case map_of m k of None \<Rightarrow> None | Some x \<Rightarrow> json_path x ks))"
  by (cases v) (auto simp: json_map_def map_of_clearjunk distinct_clearjunk)

lemma redact_envelope_path:
  assumes "redact_envelope v = Inr r"
  shows "json_path (case r of None \<Rightarrow> v | Some v' \<Rightarrow> v') [''data'', ''tokens'', ''refreshToken''] = None"
proof -
  obtain envelope where env: "json_map v = Some envelope"
    using assms by (auto simp: redact_envelope_def split: option.splits)
  note e = json_path_map [OF env]
  show ?thesis
  proof (cases "map_of envelope ''data''")
    case None
    then have "r = None" using assms env by (simp add: redact_envelope_def)
    then show ?thesis using e None by simp
  next
    case dv: (Some dataValue)
    then obtain data where data: "json_map dataValue = Some data"
      using assms env by (auto simp: redact_envelope_def split: option.splits)
    note d = json_path_map [OF data]
    show ?thesis
    proof (cases "map_of data ''tokens''")
      case None
      then have "r = None" using assms env dv data by (simp add: redact_envelope_def)
      then show ?thesis using e d None dv by simp
    next
      case tv: (Some tokensValue)
      then obtain tokens where tokens: "json_map tokensValue = Some tokens"
        using assms env dv data by (auto simp: redact_envelope_def split: option.splits)
      note t = json_path_map [OF tokens]
      show ?thesis
      proof (cases "map_of tokens ''refreshToken''")
        case None
        then have "r = None" using assms env dv data tv tokens by (simp add: redact_envelope_def)
        then show ?thesis using e d t None dv tv by simp
      next
        case (Some x)
        define tokens' where "tokens' = AList.delete ''refreshToken'' tokens"
        define data' where "data' = AList.update ''tokens'' (json_object tokens') data"
        have r: "r = Some (json_object (AList.update ''data'' (json_object data') envelope))"
          using assms env dv data tv tokens Some by (simp add: redact_envelope_def tokens'_def data'_def Let_def)
        have "distinct (map fst tokens')" "distinct (map fst data')"
          "distinct (map fst (AList.update ''data'' (json_object data') envelope))"
          using t d e by (simp_all add: tokens'_def data'_def distinct_delete distinct_update)
        then show ?thesis
          by (simp add: r json_path_object update_conv data'_def delete_conv tokens'_def del: json_path.simps(2))
      qed
    qed
  qed
qed

text \<open>C38: The web view never sees the refresh token of a sign-in or refresh: in the body of a successful answer to
  such a request, as it is passed on, there is no data.tokens.refreshToken (reading the body as its parser does,
  or as the value that was printed into it).\<close>

theorem refresh_token_redacted:
  assumes "modifyProxyResponse a pinned out response s = (Inr reply, s')"
    and "isAuthSessionRequest out" and "200 \<le> rs_StatusCode response" and "rs_StatusCode response < 300"
  shows "\<exists>v. (ah_Unmarshal a (fst (rs_Body reply)) = Some v \<or> fst (rs_Body reply) = ah_Marshal a v) \<and>
    json_path v [''data'', ''tokens'', ''refreshToken''] = None"
proof -
  have "redactAuthRefreshToken a response = Inr reply"
    by (cases rule: modifyProxyResponse_cases [OF assms(1)]) (use assms(2-4) in auto)
  then obtain body v r where "ah_Unmarshal a body = Some v" "redact_envelope v = Inr r"
    "fst (rs_Body reply) = (case r of None \<Rightarrow> body | Some v' \<Rightarrow> ah_Marshal a v')"
    by (auto simp: redactAuthRefreshToken_def Let_def split: if_splits prod.splits option.splits sum.splits)
  then show ?thesis using redact_envelope_path [of v r]
    by (intro exI [of _ "case r of None \<Rightarrow> v | Some v' \<Rightarrow> v'"]) (auto split: option.splits)
qed

theorem refresh_token_redacted_witness:
  "\<exists>reply s' v. modifyProxyResponse demo_host (Some demo_target) demo_login demo_login_response (demo_start, []) = (Inr reply, s') \<and>
     json_path v [''data'', ''tokens'', ''refreshToken''] = None"
proof -
  obtain handled s' where m: "modifyProxyResponse demo_host (Some demo_target) demo_login demo_login_response
      (demo_start, []) = (handled, s')" by (rule prod.exhaust)
  have "\<not> isl (fst (modifyProxyResponse demo_host (Some demo_target) demo_login demo_login_response (demo_start, [])))"
    by code_simp
  then obtain reply where r: "handled = Inr reply" using m by (cases handled) auto
  have "isAuthSessionRequest demo_login" by code_simp
  then show ?thesis
    using refresh_token_redacted [OF m [unfolded r]] m r by (auto simp: demo_login_response_def)
qed

subsection \<open>The handlers are histories\<close>

text \<open>What others do in between is a history of their steps.\<close>

definition is_history :: "'w appHost \<Rightarrow> (host \<times> 'w \<Rightarrow> host \<times> 'w) \<Rightarrow> bool" where
  "is_history a f \<longleftrightarrow> (\<forall>s. \<exists>es. f s = snd (history a es s))"

lemma history_snd_append: "snd (history a (es @ fs) s) = snd (history a fs (snd (history a es s)))"
  by (simp add: history_append split_beta Let_def)

lemma history_single: "snd (history a [e] s) = snd (exec a e s)"
  by (simp add: history.simps split_beta)

lemma history_then:
  assumes "is_history a f" "s1 = snd (history a es s)"
  shows "\<exists>es'. f s1 = snd (history a (es @ es') s)"
  using assms by (metis is_history_def history_snd_append)

lemma history_allocated: "set (hs_allocated (fst s)) \<subseteq> set (hs_allocated (fst (snd (history a es s))))"
proof (induction es arbitrary: s)
  case (Cons e es)
  obtain ob s1 where e: "exec a e s = (ob, s1)" by (rule prod.exhaust)
  have "set (hs_allocated (fst s)) \<subseteq> set (hs_allocated (fst s1))"
    by (cases rule: exec_host_cases [OF e]) auto
  then show ?case using Cons [of s1] e by (simp add: history.simps split_beta)
qed simp

lemma servers_known_history: "servers_known (fst s) \<Longrightarrow> servers_known (fst (snd (history a es s)))"
  by (meson known_history surjective_pairing)

lemma proxy_ServeHTTP_history:
  assumes "is_history a between" "pinned_ok (fst s) pinned"
  shows "\<exists>es. snd (proxy_ServeHTTP a between pinned request s) = snd (history a es s)"
proof -
  obtain out w where r: "Rewrite a pinned request s = (out, w)" by fastforce
  obtain received w1 where t: "ah_RoundTrip a out w = (received, w1)" by fastforce
  define es0 where "es0 = [Forward pinned request, Elsewhere (\<lambda>w. snd (ah_RoundTrip a out w))]"
  have s1: "(fst s, w1) = snd (history a es0 s)"
    using r t assms(2) by (simp add: es0_def history.simps do_forward_def)
  obtain es1 where s2: "between (fst s, w1) = snd (history a (es0 @ es1) s)" using history_then [OF assms(1) s1] by blast
  show ?thesis
  proof (cases received)
    case (Inl e)
    then have "snd (proxy_ServeHTTP a between pinned request s) = between (fst s, w1)"
      using r t by (simp add: proxy_ServeHTTP_def)
    then show ?thesis using s2 by metis
  next
    case (Inr response)
    have "snd (proxy_ServeHTTP a between pinned request s) =
        snd (modifyProxyResponse a pinned out response (between (fst s, w1)))"
      using r t Inr by (simp add: proxy_ServeHTTP_def split: sum.split prod.split)
    also have "\<dots> = snd (history a [Receive pinned out response] (between (fst s, w1)))"
      by (simp add: history_single do_receive_def split_beta)
    finally show ?thesis using s2 by (metis history_snd_append)
  qed
qed

lemma handleAPI_history:
  assumes "is_history a between1" "is_history a between2" "is_history a between3" "servers_known (fst s)"
  shows "\<exists>es. snd (handleAPI a between1 between2 between3 request s) = snd (history a es s)"
proof (cases "\<not> isTrustedAppRequest a request \<or> hasPendingSwitch (fst s)")
  case True
  then show ?thesis by (intro exI [of _ "[]"]) (auto simp: handleAPI_def)
next
  case False
  obtain es1 where s1: "between1 s = snd (history a es1 s)" using assms(1) unfolding is_history_def by blast
  show ?thesis
  proof (cases "limit_json_body a request")
    case (Inl refused)
    then show ?thesis using False s1 by (auto simp: handleAPI_def Let_def)
  next
    case (Inr request')
    obtain es2 where s2: "between2 (between1 s) = snd (history a (es1 @ es2) s)"
      using history_then [OF assms(2) s1] by blast
    have "hs_target (fst (between1 s)) \<in> set (hs_allocated (fst (between1 s)))"
      using servers_known_history [OF assms(4)] s1 by (auto simp: servers_known_def)
    then have "pinned_ok (fst (between2 (between1 s))) (Some (hs_target (fst (between1 s))))"
      using history_allocated [of "between1 s" a es2] s1 s2 by (auto simp: pinned_ok_def history_snd_append)
    from proxy_ServeHTTP_history [OF assms(3) this, of request'] obtain es3 where
      "snd (proxy_ServeHTTP a between3 (Some (hs_target (fst (between1 s)))) request' (between2 (between1 s))) =
       snd (history a es3 (between2 (between1 s)))" by blast
    then have "snd (handleAPI a between1 between2 between3 request s) = snd (history a ((es1 @ es2) @ es3) s)"
      using False Inr s2 by (simp add: handleAPI_def Let_def history_snd_append)
    then show ?thesis by blast
  qed
qed

lemma handleConnectionSwitch_history:
  assumes "is_history a between1" "is_history a between2" "is_history a between3"
  shows "\<exists>es. snd (handleConnectionSwitch a between1 between2 between3 request s) = snd (history a es s)"
proof (cases "switch_refused a request")
  case (Some refused)
  then show ?thesis by (intro exI [of _ "[]"]) (simp add: handleConnectionSwitch_def)
next
  case None
  let ?old = "hs_target (fst s)"
  obtain es1 where s1: "between1 s = snd (history a es1 s)" using assms(1) unfolding is_history_def by blast
  obtain r s2 where c: "switch_commit a ?old request (between1 s) = (r, s2)" by (rule prod.exhaust)
  have s2: "s2 = snd (history a (es1 @ [SwitchCommit ?old request]) s)"
    using c None s1 by (auto simp: history_snd_append history_single do_commit_def split: sum.split prod.split)
  show ?thesis
  proof (cases r)
    case (Inl refused)
    then have "snd (handleConnectionSwitch a between1 between2 between3 request s) = s2"
      using None c by (simp add: handleConnectionSwitch_def)
    then show ?thesis using s2 by blast
  next
    case (Inr offer)
    obtain es2 where s3: "between2 s2 = snd (history a ((es1 @ [SwitchCommit ?old request]) @ es2) s)"
      using history_then [OF assms(2) s2] by blast
    define s4 where "s4 = (fst (between2 s2), snd (logoutOldServer a request (Some ?old) (between2 s2)))"
    have "s4 = snd (history a [SwitchLogout ?old request] (between2 s2))"
      by (simp add: s4_def history_single do_logout_def split: option.split prod.split)
    then have s4: "s4 = snd (history a (((es1 @ [SwitchCommit ?old request]) @ es2) @ [SwitchLogout ?old request]) s)"
      unfolding s3 by (simp only: history_snd_append)
    obtain es3 where s5: "between3 s4 =
        snd (history a ((((es1 @ [SwitchCommit ?old request]) @ es2) @ [SwitchLogout ?old request]) @ es3) s)"
      using history_then [OF assms(3) s4] by blast
    have "snd (handleConnectionSwitch a between1 between2 between3 request s) =
        snd (history a [SwitchDelete ?old] (between3 s4))"
      using None c Inr by (simp add: handleConnectionSwitch_def s4_def history_single Let_def split_beta)
    then show ?thesis unfolding s5 by (metis history_snd_append)
  qed
qed

text \<open>The end of a sign-in through the browser is one step after what happened during the exchange.\<close>

lemma desktop_finish_history:
  assumes "is_history a between"
  shows "\<exists>es. snd (desktop_finish a d between target callback verifier s) = snd (history a es s)"
proof (cases "target = hs_target (fst s)")
  case False
  then show ?thesis by (intro exI [of _ "[]"]) (simp add: desktop_finish_def)
next
  case True
  obtain r w where x: "exchangeDesktopAuth a d target callback verifier (snd s) = (r, w)" by fastforce
  have s1: "(fst s, w) = snd (history a [Elsewhere (\<lambda>w. snd (exchangeDesktopAuth a d target callback verifier w))] s)"
    using x by (simp add: history_single)
  obtain es where s2: "between (fst s, w) =
      snd (history a ([Elsewhere (\<lambda>w. snd (exchangeDesktopAuth a d target callback verifier w))] @ es) s)"
    using history_then [OF assms s1] by blast
  show ?thesis
  proof (cases r)
    case (Inl e)
    then have "snd (desktop_finish a d between target callback verifier s) = between (fst s, w)"
      using True x by (simp add: desktop_finish_def)
    then show ?thesis using s2 by metis
  next
    case (Inr y)
    have "snd (desktop_finish a d between target callback verifier s) =
        snd (history a [SignIn target y] (between (fst s, w)))"
      using True x Inr
      by (simp add: desktop_finish_def history_single do_sign_in_def Let_def split: sum.split prod.split)
    then show ?thesis unfolding s2 by (metis history_snd_append)
  qed
qed

subsection \<open>The callback of a sign-in\<close>

text \<open>
  Callbacks by the requests that arrive, in their order: at most one is delivered, it names the attempt, and
  it came over the loopback interface along the secret path.
\<close>

fun desktop_callbacks :: "string \<Rightarrow> string \<Rightarrow> request list \<Rightarrow> callback_state \<Rightarrow> callback_state" where
  "desktop_callbacks path attemptID [] c = c"
| "desktop_callbacks path attemptID (r # rs) c =
     desktop_callbacks path attemptID rs (snd (desktop_callback path attemptID r c))"

definition callback_sound :: "string \<Rightarrow> callback_state \<Rightarrow> bool" where
  "callback_sound attemptID c \<longleftrightarrow>
     length (cbs_callbacks c) \<le> 1 \<and> (cbs_callbacks c \<noteq> [] \<longrightarrow> cbs_received c) \<and>
     (\<forall>cb \<in> set (cbs_callbacks c). cb_AttemptID cb = attemptID \<and> cb_Code cb \<noteq> [] \<and> length (cb_Code cb) \<le> 512)"

lemma callback_accepted_sound:
  "callback_accepted path attemptID r = Some cb \<Longrightarrow>
     cb_AttemptID cb = attemptID \<and> cb_Code cb \<noteq> [] \<and> length (cb_Code cb) \<le> 512 \<and>
     rq_Method r = ''GET'' \<and> rq_Path r = path"
  by (auto simp: callback_accepted_def Let_def split: if_splits option.splits)

lemma desktop_callback_sound:
  "callback_sound attemptID c \<Longrightarrow> callback_sound attemptID (snd (desktop_callback path attemptID r c))"
  using callback_accepted_sound [of path attemptID r]
  by (auto simp: desktop_callback_def callback_sound_def Let_def split: option.split)

lemma callback_delivered_once:
  "callback_sound attemptID
     (desktop_callbacks path attemptID rs \<lparr>cbs_received = False, cbs_callbacks = []\<rparr>)"
proof -
  have keep: "callback_sound attemptID c \<Longrightarrow> callback_sound attemptID (desktop_callbacks path attemptID rs c)" for c
  proof (induction rs arbitrary: c)
    case (Cons r rs)
    show ?case using Cons.IH [OF desktop_callback_sound [OF Cons.prems]] by simp
  qed simp
  show ?thesis by (rule keep) (simp add: callback_sound_def)
qed

text \<open>The browser is only sent to the sign-in page of the attempt at the current server.\<close>

lemma authorization_url_on_target:
  assumes "validateDesktopAuthorizationURL (Some t) attemptID raw = Inr text"
  shows "\<exists>u. text = URL_String u \<and> url_Scheme u = url_Scheme (tg_url t) \<and> url_Host u = url_Host (tg_url t) \<and>
    url_EscapedPath u = ''/api/v1/auth/desktop/attempts/'' @ url_PathEscape attemptID @ ''/start'' \<and>
    url_User u = None \<and> url_RawQuery u = []"
  using assms by (auto simp: validateDesktopAuthorizationURL_def Let_def split: option.splits if_splits)

text \<open>The wait for a callback is positive and never longer than the limit.\<close>

lemma desktopAuthWait_bounds: "0 < limit \<Longrightarrow> 0 < desktopAuthWait now expiresAt limit \<and> desktopAuthWait now expiresAt limit \<le> limit"
  by (auto simp: desktopAuthWait_def Let_def simp del: time_Sub_pos)

subsection \<open>Exports\<close>

text \<open>
  An archive is saved only when its receipt was verified and the session is still the one the export began
  with, to an absolute path, by a copy that reported no error.
\<close>

lemma finish_export_saved:
  assumes "finish_export x prompt between target assistantID staged s = (reply, s')" "an_Payload reply = PStatus ''saved''"
  shows "archive_verified x assistantID staged \<and> session_unchanged target (fst s') \<and>
    (\<exists>path w. pe_IsAbs x path \<and> savePersonalArchive x (staged_content x staged) path w = (None, snd s'))"
proof -
  note w = writeError_def writeData_def writeJSON_def
  have ok: "an_Status staged = 200" "archive_verified x assistantID staged" "\<not> pe_done x (snd s)" "session_unchanged target (fst s)"
    using assms by (auto simp: finish_export_def w split: if_splits)
  obtain chosen w1 where p: "prompt (snd s) = (chosen, w1)" by fastforce
  obtain h w2 where b: "between (fst s, w1) = (h, w2)" by fastforce
  obtain path where c: "chosen = Inr path" using assms ok p b by (cases chosen) (auto simp: finish_export_def w)
  have path: "\<not> pe_done x w2" "session_unchanged target h" "path \<noteq> []" "pe_IsAbs x path"
    using assms ok p b c by (auto simp: finish_export_def w Let_def split: if_splits)
  obtain err w3 where s: "savePersonalArchive x (staged_content x staged) path w2 = (err, w3)" by fastforce
  have "err = None" "s' = (h, w3)"
    using assms ok p b c path s by (auto simp: finish_export_def w Let_def split: if_splits)
  then show ?thesis using ok path s by auto
qed

lemma export_saved_only_verified:
  assumes "handlePersonalDataExport a x between request s = (reply, s')" "an_Payload reply = PStatus ''saved''"
  shows "\<exists>assistantID staged path w. archive_verified x assistantID staged \<and> session_unchanged (hs_target (fst s)) (fst s') \<and>
    pe_IsAbs x path \<and> savePersonalArchive x (staged_content x staged) path w = (None, snd s')"
proof -
  note w = writeError_def writeData_def writeJSON_def writeMethodNotAllowed_def
  have v: "validateHostMutation a request = None"
  proof (cases "validateHostMutation a request")
    case (Some refused)
    then have "reply = refused" using assms(1) by (simp add: handlePersonalDataExport_def)
    then show ?thesis using Some assms(2)
      by (auto simp: validateHostMutation_def w Let_def split: if_splits prod.splits)
  qed simp
  have pf: "supportsNativePersonalExport (app_Platform (ah_appInfo a))"
    using assms v by (auto simp: handlePersonalDataExport_def w split: if_splits)
  obtain assistantID environmentVersion where
    dec: "decodeRequestJSON a (pe_decode x) request = Inr (assistantID, environmentVersion)"
    using assms v pf by (cases "decodeRequestJSON a (pe_decode x) request") (auto simp: handlePersonalDataExport_def w)
  have sel: "\<not> (assistantID = [] \<or> length assistantID > 128 \<or> environmentVersion < 1)"
    using assms v pf dec by (auto simp: handlePersonalDataExport_def w split: if_splits)
  obtain prompt where pr: "pe_prompt x = Some prompt"
    using assms v pf dec sel by (cases "pe_prompt x") (auto simp: handlePersonalDataExport_def w)
  obtain e w1 where st: "pe_stage x (snd s) = (e, w1)" by fastforce
  have e: "e = None" using assms v pf dec sel pr st by (cases e) (auto simp: handlePersonalDataExport_def w)
  obtain staged s1 where api: "handleAPI a (between 1) (between 2) (between 3)
      (export_request x assistantID environmentVersion request) (fst s, w1) = (staged, s1)" by (rule prod.exhaust)
  have "finish_export x prompt (between 4) (hs_target (fst s)) assistantID staged s1 = (reply, s')"
    using assms(1) v pf dec sel pr st e api by (simp add: handlePersonalDataExport_def)
  from finish_export_saved [OF this assms(2)] show ?thesis by blast
qed

subsection \<open>What is wrong\<close>

text \<open>
  A pending switch ends only with its activation token: no step but an activation that presents it ends it,
  and until then every API request is refused. A web view that lost the token cannot go on.
\<close>

lemma pending_only_ended_by_its_token:
  assumes "exec a e s = (ob, s')" "hs_pending (fst s) = Some t"
    and "\<And>request. e = Activate request \<Longrightarrow>
           decodeRequestJSON a (ah_decode_activation a) request \<noteq> Inr (hs_pendingCode (fst s))"
  shows "hs_pending (fst s') = Some t"
  by (cases rule: exec_host_cases [OF assms(1)]) (use assms(2,3) in auto)

lemma pending_refuses_api:
  "hs_pending (fst s) \<noteq> None \<Longrightarrow> isTrustedAppRequest a request \<Longrightarrow>
     handleAPI a between1 between2 between3 request s =
       (writeError 503 ''server_switch_pending'' ''Server switch is pending'', s)"
  by (simp add: handleAPI_def hasPendingSwitch_def)

text \<open>
  An answer to a login at the old server that arrives while the switch is pending is accepted, and its token
  stored again after the switch had deleted it; the activation leaves it in the keyring.
\<close>

lemma token_stored_during_switch:
  "(let (obs, h, w) = history demo_host
      [SwitchCommit demo_target (demo_request ''POST'' [] ''https://b.example''),
       SwitchLogout demo_target (demo_request ''POST'' [] []), SwitchDelete demo_target,
       Receive (Some demo_target) demo_login demo_login_response,
       Activate (demo_request ''POST'' [] ''token'')] (demo_start, [])
    in URL_String (tg_url (hs_target h)) = ''https://b.example'' \<and>
       map_of w (sessionKeyringService, ''http://127.0.0.1:8080'') = Some ''r1'')"
  by code_simp

text \<open>
  The request that logs out of the old server carries the credentials of the web view even where the host
  has blocked them: a second switch sends what is left of the first server's session to the second one.
\<close>

lemma logout_ignores_block:
  assumes "logoutOldServer a incoming (Some t) s = (Some out, w)"
    and "header_Get (rq_Header incoming) ''Authorization'' \<noteq> []"
  shows "header_Get (rq_Header out) ''Authorization'' = header_Get (rq_Header incoming) ''Authorization''"
proof -
  obtain request where r: "logout_request incoming t = Some request"
    and i: "injectStoredRefreshCredential a request (Some t) s = (out, snd (injectStoredRefreshCredential a request (Some t) s))"
    using assms(1) by (auto simp: logoutOldServer_def split: option.splits prod.splits)
  have "header_Get (rq_Header request) ''Authorization'' = header_Get (rq_Header incoming) ''Authorization''"
    using r assms(2) by (auto simp: logout_request_def target_request_def Let_def split: option.splits)
  moreover have "header_Get (rq_Header out) ''Authorization'' = header_Get (rq_Header request) ''Authorization''"
    by (cases rule: inject_cases [OF i]) (auto simp: request_AddCookie_def Let_def)
  ultimately show ?thesis by simp
qed

text \<open>
  The exchange escapes the identifier of an attempt twice: it builds the path from the escaped identifier, and
  printing the URL escapes it again, so the server is asked for another attempt than the one it named.
\<close>

lemma exchange_path_escaped_twice:
  "map_option rq_Path (target_request ''POST'' demo_target
      (''/api/v1/auth/desktop/attempts/'' @ url_PathEscape ''a b'' @ ''/exchange'') header_empty None) =
     Some ''/api/v1/auth/desktop/attempts/a%20b/exchange''"
  by code_simp

end
