(* ===== verification/Go_Codec.thy ===== *)
theory Go_Codec
  imports Go_Http
begin

text \<open>
  What the updater and the software library use of \<open>encoding/hex\<close>, \<open>encoding/base64\<close> and \<open>net/url\<close>:
  hexadecimal and padded base64 texts, the text of any URL, and the resolution of a relative reference.
\<close>

subsection \<open>Hexadecimal\<close>

fun hex_DecodeString :: "string \<Rightarrow> string option" where
  "hex_DecodeString [] = Some []"
| "hex_DecodeString [a] = None"
| "hex_DecodeString (a # b # s) =
     (if is_hex a \<and> is_hex b then map_option (Cons (char_of (hex_value a * 16 + hex_value b))) (hex_DecodeString s)
      else None)"

definition lower_hex :: "nat \<Rightarrow> char" where
  "lower_hex n = (if n < 10 then char_of (48 + n) else char_of (87 + n))"

definition hex_EncodeToString :: "string \<Rightarrow> string" where
  "hex_EncodeToString s = concat (map (\<lambda>c. [lower_hex (byte_of c div 16), lower_hex (byte_of c mod 16)]) s)"

lemma hex_DecodeString_length: "hex_DecodeString s = Some d \<Longrightarrow> length s = 2 * length d"
  by (induction s arbitrary: d rule: hex_DecodeString.induct) (auto split: if_splits)

lemma length_hex_EncodeToString [simp]: "length (hex_EncodeToString s) = 2 * length s"
  by (induction s) (simp_all add: hex_EncodeToString_def)

lemma lower_hex_digit: "n < 16 \<Longrightarrow> is_hex (lower_hex n) \<and> hex_value (lower_hex n) = n"
proof -
  have "\<forall>n \<in> set [0..<16]. is_hex (lower_hex n) \<and> hex_value (lower_hex n) = n" by code_simp
  then show "n < 16 \<Longrightarrow> is_hex (lower_hex n) \<and> hex_value (lower_hex n) = n" by auto
qed

lemma byte_of_less [simp]: "byte_of c < 256"
  by (simp add: byte_of_def)

lemma hex_round_trip [simp]: "hex_DecodeString (hex_EncodeToString s) = Some s"
proof (induction s)
  case (Cons c s)
  have "byte_of c div 16 < 16" using byte_of_less [of c] by linarith
  moreover have "char_of (byte_of c div 16 * 16 + byte_of c mod 16) = c" by (simp add: byte_of_def)
  ultimately show ?case using Cons by (simp add: hex_EncodeToString_def lower_hex_digit)
qed (simp add: hex_EncodeToString_def)

text \<open>A hexadecimal text without upper-case letters is the only one of its bytes.\<close>

lemma every_char: "list_all P (map char_of [0..<256::nat]) \<Longrightarrow> P c"
proof -
  assume *: "list_all P (map char_of [0..<256::nat])"
  have "byte_of c \<in> set [0..<256]" using byte_of_less [of c] by (simp add: nat_less_le)
  then have "char_of (byte_of c) \<in> char_of ` set [0..<256::nat]" by (rule imageI)
  then have "c \<in> set (map char_of [0..<256::nat])" by (simp add: byte_of_def)
  with * show "P c" by (metis list.pred_set)
qed

lemma hex_digit_facts:
  "is_hex c \<longrightarrow> hex_value c < 16 \<and> (to_lower_char c = c \<longrightarrow> lower_hex (hex_value c) = c)"
  by (rule every_char [where P = "\<lambda>c. is_hex c \<longrightarrow> hex_value c < 16 \<and> (to_lower_char c = c \<longrightarrow> lower_hex (hex_value c) = c)"])
    code_simp

lemmas hex_value_less = hex_digit_facts [THEN mp, THEN conjunct1]
lemmas hex_digit_eq = hex_digit_facts [THEN mp, THEN conjunct2, THEN mp]

lemma hex_DecodeString_lower:
  "hex_DecodeString e = Some d \<Longrightarrow> to_lower e = e \<Longrightarrow> hex_EncodeToString d = e"
proof (induction e arbitrary: d rule: hex_DecodeString.induct)
  case (3 a b s)
  from "3.prems" obtain d' where hex: "is_hex a" "is_hex b" and d': "hex_DecodeString s = Some d'"
    and d: "d = char_of (hex_value a * 16 + hex_value b) # d'"
    by (auto split: if_splits)
  have lower: "to_lower_char a = a" "to_lower_char b = b" "to_lower s = s"
    using "3.prems"(2) by (simp_all add: to_lower_def)
  have less: "hex_value a < 16" "hex_value b < 16" using hex by (simp_all add: hex_value_less)
  then have "byte_of (char_of (hex_value a * 16 + hex_value b)) = hex_value a * 16 + hex_value b"
    by (simp add: byte_of_def)
  moreover have "(hex_value a * 16 + hex_value b) div 16 = hex_value a"
    "(hex_value a * 16 + hex_value b) mod 16 = hex_value b" using less by simp_all
  ultimately have "hex_EncodeToString d = lower_hex (hex_value a) # lower_hex (hex_value b) # hex_EncodeToString d'"
    by (simp add: d hex_EncodeToString_def)
  also have "\<dots> = a # b # s"
    using hex lower d' by (simp add: hex_digit_eq "3.IH" [OF _ d'])
  finally show ?case .
qed (auto simp: hex_EncodeToString_def)

subsection \<open>Base64\<close>

definition base64_value :: "char \<Rightarrow> nat option" where
  "base64_value c =
     (if is_upper c then Some (byte_of c - 65)
      else if is_lower c then Some (byte_of c - 71)
      else if is_digit c then Some (byte_of c + 4)
      else if c = CHR ''+'' then Some 62 else if c = CHR ''/'' then Some 63 else None)"

definition base64_bytes :: "nat \<Rightarrow> nat list \<Rightarrow> string" where
  "base64_bytes n vs =
     (let v = foldl (\<lambda>a x. a * 64 + x) 0 vs in take n [char_of (v div 65536), char_of (v div 256 mod 256), char_of (v mod 256)])"

text \<open>The text without its line ends. The bits after the last byte are not checked.\<close>

fun base64_groups :: "string \<Rightarrow> string option" where
  "base64_groups [] = Some []"
| "base64_groups (a # b # c # d # rest) =
     (case (base64_value a, base64_value b) of
        (Some x, Some y) \<Rightarrow>
          (if rest = [] \<and> c = CHR ''='' \<and> d = CHR ''='' then Some (base64_bytes 1 [x, y, 0, 0])
           else (case base64_value c of
              None \<Rightarrow> None
            | Some z \<Rightarrow>
                if rest = [] \<and> d = CHR ''='' then Some (base64_bytes 2 [x, y, z, 0])
                else (case base64_value d of
                   None \<Rightarrow> None
                 | Some u \<Rightarrow> map_option ((@) (base64_bytes 3 [x, y, z, u])) (base64_groups rest))))
      | _ \<Rightarrow> None)"
| "base64_groups s = None"

text \<open>\<open>base64.StdEncoding.DecodeString\<close>.\<close>

definition base64_DecodeString :: "string \<Rightarrow> string option" where
  "base64_DecodeString s = base64_groups (filter (\<lambda>c. c \<noteq> CHR 0x0D \<and> c \<noteq> CHR 0x0A) s)"

lemma base64_ex: "base64_DecodeString ''c29oYQ=='' = Some ''soha''" "base64_DecodeString ''c29oYQ='' = None"
  by code_simp+

subsection \<open>URLs\<close>

text \<open>
  \<open>URL.String\<close> of a URL with a scheme and without user information. A fragment, which is kept decoded, is
  escaped again; a URL without a host prints with its two slashes.
\<close>

definition url_text :: "url \<Rightarrow> string" where
  "url_text u =
     (if url_Opaque u = [] then URL_String (u\<lparr>url_RawQuery := [], url_ForceQuery := False\<rparr>)
      else url_Scheme u @ '':'' @ url_Opaque u)
       @ (if url_ForceQuery u \<or> url_RawQuery u \<noteq> [] then ''?'' @ url_RawQuery u else [])
       @ (if url_Fragment u \<noteq> [] then ''#'' @ escape EncodeFragment (url_Fragment u) else [])"

definition url_IsAbs :: "url \<Rightarrow> bool" where
  "url_IsAbs u \<longleftrightarrow> url_Scheme u \<noteq> []"

text \<open>
  The loop of \<open>resolvePath\<close> over the elements of the joined path; the text built so far is without its
  leading slash.
\<close>

fun resolve_elements :: "string list \<Rightarrow> bool \<Rightarrow> string \<Rightarrow> string" where
  "resolve_elements [] first dst = dst"
| "resolve_elements (elem # rest) first dst =
     (if elem = ''.'' then resolve_elements rest False dst
      else if elem = ''..'' then
        (case cut_last (CHR ''/'') dst of
           None \<Rightarrow> resolve_elements rest True []
         | Some (before, _) \<Rightarrow> resolve_elements rest first before)
      else resolve_elements rest False ((if first then dst else dst @ ''/'') @ elem))"

definition resolvePath :: "string \<Rightarrow> string \<Rightarrow> string" where
  "resolvePath base ref =
     (let full = (if ref = [] then base
                  else if hd ref \<noteq> CHR ''/''
                  then (case cut_last (CHR ''/'') base of None \<Rightarrow> [] | Some (before, _) \<Rightarrow> before @ ''/'') @ ref
                  else ref);
          elements = split_on (CHR ''/'') full;
          dst = resolve_elements elements True [] @ (if last elements = ''.'' \<or> last elements = ''..'' then ''/'' else [])
      in if full = [] then [] else if has_prefix dst ''/'' then dst else ''/'' @ dst)"

text \<open>\<open>URL.ResolveReference\<close> for a reference that is a path.\<close>

definition resolve_path_reference :: "url \<Rightarrow> string \<Rightarrow> url" where
  "resolve_path_reference u path =
     (let ref = url_empty\<lparr>url_Path := path\<rparr>;
          resolved = ref\<lparr>url_Scheme := url_Scheme u, url_Host := url_Host u, url_User := url_User u\<rparr>
      in case setPath resolved (resolvePath (url_EscapedPath u) (url_EscapedPath ref)) of
           None \<Rightarrow> resolved | Some resolved \<Rightarrow> resolved)"

lemma resolve_path_reference_origin [simp]:
  "url_Scheme (resolve_path_reference u p) = url_Scheme u"
  "url_Host (resolve_path_reference u p) = url_Host u"
  by (auto simp: resolve_path_reference_def setPath_def Let_def url_empty_def split: option.splits)

lemma resolvePath_ex:
  "resolvePath ''/a/b/manifest.json'' ''x.exe'' = ''/a/b/x.exe''"
  "resolvePath ''/a/b/manifest.json'' ''.'' = ''/a/b/''"
  "resolvePath ''/a/b/../c'' ''../d'' = ''/d''"
  by code_simp+

end
