(* ===== verification/Software_Library.thy ===== *)
theory Software_Library
  imports Shell_Config Go_Codec
begin

text \<open>
  The software library of the desktop shell (\<open>software.go\<close>): the catalogues of the file and of the server, their
  validation, the requests of the web view, and the task that downloads a package, verifies it and opens the
  installer. Files, HTTP, SHA-256, JSON and randomness are interfaces. The texts for the user are left out of
  the answers; the messages of a task are names. Comparisons without case are those of ASCII.
\<close>

subsection \<open>Data\<close>

definition maxSoftwarePackageSize :: int where "maxSoftwarePackageSize = 4294967296"

record softwareArtifact =
  sar_Platform :: string
  sar_Arch :: string
  sar_URL :: string
  sar_SHA256 :: string
  sar_FileName :: string
  sar_Size :: int
  sar_Authorization :: string
  sar_TrustedSource :: bool

record softwareCatalogItem =
  sci_ID :: string
  sci_Name :: string
  sci_Description :: string
  sci_Publisher :: string
  sci_Category :: string
  sci_Version :: string
  sci_Artifacts :: "softwareArtifact list"

record serverSoftwarePackage =
  ssp_ID :: string
  ssp_Name :: string
  ssp_Description :: string
  ssp_Publisher :: string
  ssp_Category :: string
  ssp_Version :: string
  ssp_Platform :: string
  ssp_Arch :: string
  ssp_FileName :: string
  ssp_SizeBytes :: int
  ssp_SHA256 :: string

record softwarePackage =
  spk_ID :: string
  spk_Name :: string
  spk_Description :: string
  spk_Publisher :: string
  spk_Category :: string
  spk_Version :: string
  spk_Size :: int

datatype softwareTaskState =
    softwareTaskQueued | softwareTaskDownloading | softwareTaskVerifying | softwareTaskOpening
  | softwareTaskCompleted | softwareTaskFailed

datatype task_message =
  NoMessage | Waiting | Downloading | DownloadFailed | Verifying | Opening | OpenFailed | Opened

record softwareInstallTask =
  sit_ID :: string
  sit_SoftwareID :: string
  sit_Name :: string
  sit_State :: "softwareTaskState option"
  sit_Progress :: int
  sit_Message :: task_message

text \<open>The zero value of a task; its state is the empty text.\<close>

definition empty_task :: softwareInstallTask where
  "empty_task = \<lparr>sit_ID = [], sit_SoftwareID = [], sit_Name = [], sit_State = None, sit_Progress = 0, sit_Message = NoMessage\<rparr>"

text \<open>
  The state: the lock of the installation, the tasks, and the goroutines that were started and have not
  ended, each with its arguments. \<open>lib_seen\<close> is not in the code: the values the tasks had, newest first, which
  is what a reader of the tasks may have seen.
\<close>

record software_library =
  lib_installing :: bool
  lib_tasks :: "string \<Rightarrow> softwareInstallTask option"
  lib_jobs :: "(string \<times> softwareCatalogItem \<times> softwareArtifact) list"
  lib_seen :: "softwareInstallTask list"

text \<open>
  A body is read in chunks, the last of which is followed by the error of the read, none for the end.
  \<open>se_Write\<close> is the write of an open file: the bytes written (which \<open>os.File\<close> never reports negative) and the error.
\<close>

record software_response =
  swr_StatusCode :: int
  swr_Chunks :: "string list"
  swr_End :: error

record 'w software_env =
  se_GOOS :: string
  se_GOARCH :: string
  se_Base :: "string \<Rightarrow> string"
  se_Join :: "string \<Rightarrow> string \<Rightarrow> string"
  se_sha256 :: "string \<Rightarrow> string"
  se_List :: "string \<Rightarrow> 'w \<Rightarrow> softwareCatalogItem list fallible \<times> 'w"
  se_Do :: "request \<Rightarrow> 'w \<Rightarrow> software_response fallible \<times> 'w"
  se_downloadDir :: string
  se_openFile :: "(string \<Rightarrow> 'w \<Rightarrow> error \<times> 'w) option"
  se_MkdirAll :: "string \<Rightarrow> 'w \<Rightarrow> error \<times> 'w"
  se_MkdirTemp :: "string \<Rightarrow> string \<Rightarrow> 'w \<Rightarrow> string fallible \<times> 'w"
  se_RemoveAll :: "string \<Rightarrow> 'w \<Rightarrow> 'w"
  se_OpenExclusive :: "string \<Rightarrow> 'w \<Rightarrow> error \<times> 'w"
  se_Write :: "string \<Rightarrow> string \<Rightarrow> 'w \<Rightarrow> (nat \<times> error) \<times> 'w"
  se_Close :: "string \<Rightarrow> 'w \<Rightarrow> error \<times> 'w"
  se_Rename :: "string \<Rightarrow> string \<Rightarrow> 'w \<Rightarrow> error \<times> 'w"
  se_rand :: "'w \<Rightarrow> string fallible \<times> 'w"
  se_UnixNano :: "'w \<Rightarrow> int"

subsection \<open>Validation of a catalogue\<close>

definition validSoftwareID :: "string \<Rightarrow> bool" where
  "validSoftwareID ident =
     (if length ident = 0 \<or> length ident > 64 then False
      else (is_lower (hd ident) \<or> is_digit (hd ident)) \<and>
           list_all (\<lambda>c. is_lower c \<or> is_digit c \<or> c = CHR ''.'' \<or> c = CHR ''_'' \<or> c = CHR ''-'') (tl ident))"

definition validateSoftwareArtifact :: "(string \<Rightarrow> string) \<Rightarrow> softwareArtifact \<Rightarrow> error" where
  "validateSoftwareArtifact base artifact =
     (if \<not> validSoftwareID (sar_Platform artifact) \<or> \<not> validSoftwareID (sar_Arch artifact) \<or>
         sar_Size artifact \<le> 0 \<or> sar_Size artifact > maxSoftwarePackageSize
      then Some (ErrorNew ''invalid target or size'')
      else if sar_FileName artifact = [] \<or> length (sar_FileName artifact) > 255 \<or> sar_FileName artifact = ''.'' \<or>
              base (sar_FileName artifact) \<noteq> sar_FileName artifact \<or> CHR 0x5C \<in> set (sar_FileName artifact)
      then Some (ErrorNew ''invalid file name'')
      else if (case hex_DecodeString (sar_SHA256 artifact) of None \<Rightarrow> True | Some digest \<Rightarrow> length digest \<noteq> 32)
      then Some (ErrorNew ''invalid SHA-256 checksum'')
      else if length (sar_URL artifact) > 2048 then Some (ErrorNew ''download URL is too long'')
      else if (case url_Parse (sar_URL artifact) of
                 None \<Rightarrow> True
               | Some parsed \<Rightarrow>
                   url_Host parsed = [] \<or> url_User parsed \<noteq> None \<or> url_Fragment parsed \<noteq> [] \<or>
                   url_Scheme parsed \<noteq> ''https'' \<and> \<not> (sar_TrustedSource artifact \<and> url_Scheme parsed = ''http''))
      then Some (ErrorNew ''download URL must be HTTPS without credentials or fragment'')
      else None)"

definition artifact_target :: "softwareArtifact \<Rightarrow> string" where
  "artifact_target artifact = sar_Platform artifact @ ''/'' @ sar_Arch artifact"

text \<open>The two loops, with the keys of the maps so far.\<close>

fun validate_artifacts :: "(string \<Rightarrow> string) \<Rightarrow> string \<Rightarrow> string list \<Rightarrow> softwareArtifact list \<Rightarrow> error" where
  "validate_artifacts base ident targets [] = None"
| "validate_artifacts base ident targets (artifact # rest) =
     (case validateSoftwareArtifact base artifact of
        Some err \<Rightarrow> Some (ErrWrap (''invalid artifact for '' @ ident @ '': '') err)
      | None \<Rightarrow>
          if artifact_target artifact \<in> set targets
          then Some (ErrorNew (''duplicate artifact target '' @ artifact_target artifact @ '' for '' @ ident))
          else validate_artifacts base ident (artifact_target artifact # targets) rest)"

definition valid_item_texts :: "softwareCatalogItem \<Rightarrow> bool" where
  "valid_item_texts item \<longleftrightarrow>
     \<not> (\<not> validSoftwareID (sci_ID item) \<or> sci_Name item = [] \<or> length (sci_Name item) > 100 \<or>
        length (sci_Description item) > 500 \<or> sci_Publisher item = [] \<or> length (sci_Publisher item) > 100 \<or>
        length (sci_Category item) > 50 \<or> sci_Version item = [] \<or> length (sci_Version item) > 64 \<or>
        sci_Artifacts item = [])"

fun validate_items :: "(string \<Rightarrow> string) \<Rightarrow> string list \<Rightarrow> softwareCatalogItem list \<Rightarrow> error" where
  "validate_items base ids [] = None"
| "validate_items base ids (item # rest) =
     (if \<not> valid_item_texts item then Some (ErrorNew (''invalid software catalog item '' @ sci_ID item))
      else if sci_ID item \<in> set ids then Some (ErrorNew (''duplicate software id '' @ sci_ID item))
      else case validate_artifacts base (sci_ID item) [] (sci_Artifacts item) of
             Some err \<Rightarrow> Some err
           | None \<Rightarrow> validate_items base (sci_ID item # ids) rest)"

definition validateSoftwareCatalog :: "(string \<Rightarrow> string) \<Rightarrow> softwareCatalogItem list \<Rightarrow> error" where
  "validateSoftwareCatalog base items = validate_items base [] items"

fun matching_loop :: "softwareArtifact list \<Rightarrow> string \<Rightarrow> string \<Rightarrow> softwareArtifact option" where
  "matching_loop [] platform arch = None"
| "matching_loop (artifact # rest) platform arch =
     (if sar_Platform artifact = platform \<and> sar_Arch artifact = arch then Some artifact
      else matching_loop rest platform arch)"

definition matchingArtifact :: "softwareCatalogItem \<Rightarrow> string \<Rightarrow> string \<Rightarrow> softwareArtifact option" where
  "matchingArtifact item platform arch = matching_loop (sci_Artifacts item) platform arch"

fun findSoftware :: "softwareCatalogItem list \<Rightarrow> string \<Rightarrow> string \<Rightarrow> string \<Rightarrow> (softwareCatalogItem \<times> softwareArtifact) option" where
  "findSoftware [] ident platform arch = None"
| "findSoftware (item # rest) ident platform arch =
     (if sci_ID item \<noteq> ident then findSoftware rest ident platform arch
      else map_option (Pair item) (matchingArtifact item platform arch))"

subsection \<open>The catalogues\<close>

text \<open>The fields that JSON does not carry keep their zero values.\<close>

definition decoded_artifact :: "softwareArtifact \<Rightarrow> softwareArtifact" where
  "decoded_artifact artifact = artifact\<lparr>sar_Authorization := [], sar_TrustedSource := False\<rparr>"

definition decoded_item :: "softwareCatalogItem \<Rightarrow> softwareCatalogItem" where
  "decoded_item item = item\<lparr>sci_Artifacts := map decoded_artifact (sci_Artifacts item)\<rparr>"

definition fileSoftwareCatalog_List ::
  "('w \<Rightarrow> error) \<Rightarrow> (string \<Rightarrow> 'w \<Rightarrow> input_stream fallible \<times> 'w) \<Rightarrow> (string \<Rightarrow> 'w \<Rightarrow> int fallible \<times> 'w) \<Rightarrow>
     softwareCatalogItem list decoder \<Rightarrow> unit decoder \<Rightarrow> string \<Rightarrow> 'w \<Rightarrow> softwareCatalogItem list fallible \<times> 'w" where
  "fileSoftwareCatalog_List ctxErr open_file file_size decode decode_empty path w =
     (case ctxErr w of
        Some err \<Rightarrow> (Inl err, w)
      | None \<Rightarrow>
          if path = [] then (Inr [], w)
          else case open_file path w of
                 (Inl err, w) \<Rightarrow> (Inl (ErrWrap ''open catalog: '' err), w)
               | (Inr file, w) \<Rightarrow>
                   (case file_size path w of
                      (Inl err, w) \<Rightarrow> (Inl (ErrWrap ''stat catalog: '' err), w)
                    | (Inr bytes, w) \<Rightarrow>
                        if bytes > 2097152 then (Inl (ErrorNew ''catalog exceeds 2 MiB''), w)
                        else case decode (LimitReader 2097152 file) of
                               Inl err \<Rightarrow> (Inl (ErrWrap ''decode catalog: '' err), w)
                             | Inr (items, rest) \<Rightarrow>
                                 (if (case decode_empty rest of Inl err \<Rightarrow> err \<noteq> EOF | Inr _ \<Rightarrow> True)
                                  then Inl (ErrorNew ''decode catalog: trailing content'')
                                  else Inr (map decoded_item items), w)))"

definition trim_right_slashes :: "string \<Rightarrow> string" where
  "trim_right_slashes s = rev (dropWhile (\<lambda>c. c = CHR ''/'') (rev s))"

definition catalog_resolve :: "url \<Rightarrow> string \<Rightarrow> url" where
  "catalog_resolve baseURL path =
     baseURL\<lparr>url_Path := trim_right_slashes (url_Path baseURL) @ path, url_RawPath := [], url_RawQuery := []\<rparr>"

text \<open>\<open>url.PathEscape\<close>.\<close>

definition url_PathEscape :: "string \<Rightarrow> string" where
  "url_PathEscape s =
     concat (map (\<lambda>c. if shouldEscape EncodePath c \<or> c \<in> set ''/;,''
                      then [CHR ''%'', upper_hex (of_char c div 16), upper_hex (of_char c mod 16)] else [c]) s)"

definition catalog_item :: "url \<Rightarrow> string \<Rightarrow> serverSoftwarePackage \<Rightarrow> softwareCatalogItem" where
  "catalog_item baseURL authorization item =
     \<lparr>sci_ID = ssp_ID item, sci_Name = ssp_Name item, sci_Description = ssp_Description item,
      sci_Publisher = ssp_Publisher item, sci_Category = ssp_Category item, sci_Version = ssp_Version item,
      sci_Artifacts =
        [\<lparr>sar_Platform = ssp_Platform item, sar_Arch = ssp_Arch item,
          sar_URL = url_text (catalog_resolve baseURL
            (''/api/v1/software/packages/'' @ url_PathEscape (ssp_ID item) @ ''/download'')),
          sar_SHA256 = ssp_SHA256 item, sar_FileName = ssp_FileName item, sar_Size = ssp_SizeBytes item,
          sar_Authorization = authorization, sar_TrustedSource = True\<rparr>]\<rparr>"

definition get_request :: "url \<Rightarrow> string \<Rightarrow> request" where
  "get_request u authorization =
     \<lparr>rq_Method = ''GET'', rq_URL = u, rq_Host = url_Host u,
      rq_Header = (if authorization \<noteq> [] then header_Set ''Authorization'' authorization header_empty else header_empty),
      rq_Body = None, rq_RemoteAddr = []\<rparr>"

text \<open>
  \<open>List\<close> of the catalogue of a server. The platform and the architecture are names of Go without a
  character that a query escapes; \<open>http.NewRequest\<close> parses the text of the endpoint.
\<close>

definition serverSoftwareCatalog_List ::
  "string \<Rightarrow> string \<Rightarrow> (request \<Rightarrow> 'w \<Rightarrow> response fallible \<times> 'w) \<Rightarrow> serverSoftwarePackage list decoder \<Rightarrow> url \<Rightarrow>
     string \<Rightarrow> 'w \<Rightarrow> softwareCatalogItem list fallible \<times> 'w" where
  "serverSoftwareCatalog_List goos goarch client_Do decode baseURL authorization w =
     (let endpoint = (catalog_resolve baseURL ''/api/v1/software/packages'')
            \<lparr>url_RawQuery := ''arch='' @ goarch @ ''&limit=200&platform='' @ goos\<rparr>
      in case url_Parse (url_text endpoint) of
           None \<Rightarrow> (Inl (ErrorNew ''invalid URL''), w)
         | Some u \<Rightarrow>
             (case client_Do (get_request u authorization) w of
                (Inl err, w) \<Rightarrow> (Inl (ErrWrap ''load server software catalog: '' err), w)
              | (Inr response, w) \<Rightarrow>
                  if rs_StatusCode response \<noteq> 200
                  then (Inl (ErrorNew (''load server software catalog: unexpected status ''
                          @ string_of_int (rs_StatusCode response))), w)
                  else case decode (LimitReader 4194304 (rs_Body response)) of
                         Inl err \<Rightarrow> (Inl (ErrWrap ''decode server software catalog: '' err), w)
                       | Inr (items, _) \<Rightarrow> (Inr (map (catalog_item baseURL authorization) items), w)))"

text \<open>The catalogue of the active server: \<open>target\<close> is the URL the host has when the request is served.\<close>

definition activeServerSoftwareCatalog_List ::
  "string \<Rightarrow> string \<Rightarrow> (request \<Rightarrow> 'w \<Rightarrow> response fallible \<times> 'w) \<Rightarrow> serverSoftwarePackage list decoder \<Rightarrow>
     ('w \<Rightarrow> url option) \<Rightarrow> string \<Rightarrow> 'w \<Rightarrow> softwareCatalogItem list fallible \<times> 'w" where
  "activeServerSoftwareCatalog_List goos goarch client_Do decode target authorization w =
     (case target w of
        None \<Rightarrow> (Inl (ErrorNew ''active server is unavailable''), w)
      | Some u \<Rightarrow>
          (case parseServerURL (url_text u) of
             Inl err \<Rightarrow> (Inl err, w)
           | Inr baseURL \<Rightarrow> serverSoftwareCatalog_List goos goarch client_Do decode baseURL authorization w))"

definition equal_fold :: "string \<Rightarrow> string \<Rightarrow> bool" where
  "equal_fold s t \<longleftrightarrow> to_lower s = to_lower t"

text \<open>\<open>via\<close> is never empty: it begins with the original request.\<close>

definition safeSoftwareRedirect :: "request \<Rightarrow> request list \<Rightarrow> error" where
  "safeSoftwareRedirect request via =
     (if length via \<ge> 5 then Some (ErrorNew ''too many redirects'')
      else if \<not> equal_fold (url_Scheme (rq_URL request)) (url_Scheme (rq_URL (hd via))) \<or>
              \<not> equal_fold (url_Host (rq_URL request)) (url_Host (rq_URL (hd via)))
      then Some (ErrorNew ''software download redirect changed origin'')
      else None)"

subsection \<open>Tasks\<close>

definition put_task :: "string \<Rightarrow> softwareInstallTask \<Rightarrow> software_library \<Rightarrow> software_library" where
  "put_task ident task lib = lib\<lparr>lib_tasks := (lib_tasks lib)(ident \<mapsto> task), lib_seen := task # lib_seen lib\<rparr>"

definition setTask :: "softwareInstallTask \<Rightarrow> software_library \<Rightarrow> software_library" where
  "setTask task lib = put_task (sit_ID task) task lib"

definition task_of :: "software_library \<Rightarrow> string \<Rightarrow> softwareInstallTask" where
  "task_of lib ident = (case lib_tasks lib ident of None \<Rightarrow> empty_task | Some task \<Rightarrow> task)"

definition updateTask :: "string \<Rightarrow> softwareTaskState \<Rightarrow> int \<Rightarrow> task_message \<Rightarrow> software_library \<Rightarrow> software_library" where
  "updateTask ident state progress message lib =
     put_task ident ((task_of lib ident)\<lparr>sit_State := Some state, sit_Progress := progress, sit_Message := message\<rparr>) lib"

definition newTaskID :: "'w software_env \<Rightarrow> 'w \<Rightarrow> string \<times> 'w" where
  "newTaskID env w =
     (case se_rand env w of
        (Inl _, w) \<Rightarrow> (''task-'' @ string_of_int (se_UnixNano env w), w)
      | (Inr bytes, w) \<Rightarrow> (hex_EncodeToString bytes, w))"

definition newSoftwareLibrary :: software_library where
  "newSoftwareLibrary = \<lparr>lib_installing = False, lib_tasks = (\<lambda>_. None), lib_jobs = [], lib_seen = []\<rparr>"

definition softwareDownloadDir :: "(string list \<Rightarrow> string) \<Rightarrow> string fallible \<Rightarrow> string \<Rightarrow> string" where
  "softwareDownloadDir join userCacheDir tempDir =
     join [case userCacheDir of Inl _ \<Rightarrow> tempDir | Inr dir \<Rightarrow> dir, ''Soha'', ''downloads'']"

subsection \<open>The download\<close>

text \<open>
  \<open>softwareDownloadWriter\<close> over the file and the hash, which is kept as the bytes that were hashed. The size of
  a validated artifact is positive and at most \<open>maxSoftwarePackageSize\<close>, so no product leaves 64 bits.
\<close>

record softwareDownloadWriter =
  dw_total :: int
  dw_written :: int
  dw_percent :: int
  dw_hashed :: string

definition ErrShortWrite :: go_error where "ErrShortWrite = ErrorNew ''short write''"
definition errInvalidWrite :: go_error where "errInvalidWrite = ErrorNew ''invalid write result''"

definition io_MultiWriter ::
  "'w software_env \<Rightarrow> string \<Rightarrow> string \<Rightarrow> string \<Rightarrow> 'w \<Rightarrow> (int \<times> error) \<times> string \<times> 'w" where
  "io_MultiWriter env path data hashed w =
     (let ((n, err), w) = se_Write env path data w
      in if err \<noteq> None then ((int n, err), hashed, w)
         else if n \<noteq> length data then ((int n, Some ErrShortWrite), hashed, w)
         else ((int (length data), None), hashed @ data, w))"

definition softwareDownloadWriter_Write ::
  "'w software_env \<Rightarrow> string \<Rightarrow> string \<Rightarrow> string \<Rightarrow> softwareDownloadWriter \<times> software_library \<times> 'w \<Rightarrow>
     (int \<times> error) \<times> softwareDownloadWriter \<times> software_library \<times> 'w" where
  "softwareDownloadWriter_Write env path taskID data s =
     (let (writer, lib, w) = s;
          ((written, err), hashed, w) = io_MultiWriter env path data (dw_hashed writer) w;
          writer = writer\<lparr>dw_hashed := hashed, dw_written := dw_written writer + written\<rparr>;
          percent = dw_written writer * 100 div dw_total writer;
          percent = (if percent > 100 then 100 else percent)
      in if percent \<noteq> dw_percent writer
         then ((written, err), writer\<lparr>dw_percent := percent\<rparr>,
               updateTask taskID softwareTaskDownloading percent Downloading lib, w)
         else ((written, err), writer, lib, w))"

text \<open>\<open>io.Copy\<close> from a limited reader: the bytes copied and the error.\<close>

fun copy_loop ::
  "'w software_env \<Rightarrow> string \<Rightarrow> string \<Rightarrow> nat \<Rightarrow> string list \<Rightarrow> error \<Rightarrow> int \<Rightarrow>
     softwareDownloadWriter \<times> software_library \<times> 'w \<Rightarrow> (int \<times> error) \<times> softwareDownloadWriter \<times> software_library \<times> 'w" where
  "copy_loop env path taskID left [] ending written s = ((written, if left = 0 then None else ending), s)"
| "copy_loop env path taskID left (chunk # chunks) ending written s =
     (if left = 0 then ((written, None), s)
      else if chunk = [] then copy_loop env path taskID left chunks ending written s
      else
        let data = take left chunk;
            ((n, err), s) = softwareDownloadWriter_Write env path taskID data s;
            invalid = (n < 0 \<or> int (length data) < n);
            (n, err) = (if invalid then (0, if err = None then Some errInvalidWrite else err) else (n, err))
        in if err \<noteq> None then ((written + n, err), s)
           else if n \<noteq> int (length data) then ((written + n, Some ErrShortWrite), s)
           else copy_loop env path taskID (left - length data) chunks ending (written + n) s)"

text \<open>After the answer: the copy, the checks and the final name.\<close>

definition store_package ::
  "'w software_env \<Rightarrow> string \<Rightarrow> string \<Rightarrow> string \<Rightarrow> softwareArtifact \<Rightarrow> software_response \<Rightarrow>
     software_library \<times> 'w \<Rightarrow> string fallible \<times> software_library \<times> 'w" where
  "store_package env directory partialPath taskID artifact response s =
     (let writer = \<lparr>dw_total = sar_Size artifact, dw_written = 0, dw_percent = 0, dw_hashed = []\<rparr>;
          ((written, copyErr), writer, lib, w) =
            copy_loop env partialPath taskID (nat (sar_Size artifact + 1)) (swr_Chunks response) (swr_End response) 0
              (writer, s);
          (closeErr, w) = se_Close env partialPath w
      in case copyErr of
           Some err \<Rightarrow> (Inl err, lib, w)
         | None \<Rightarrow>
             (case closeErr of
                Some err \<Rightarrow> (Inl err, lib, w)
              | None \<Rightarrow>
                  if written \<noteq> sar_Size artifact
                  then (Inl (ErrorNew (''downloaded size '' @ string_of_int written @ '' does not match expected size ''
                          @ string_of_int (sar_Size artifact))), lib, w)
                  else
                    let lib = updateTask taskID softwareTaskVerifying 100 Verifying lib
                    in if \<not> equal_fold (hex_EncodeToString (se_sha256 env (dw_hashed writer))) (sar_SHA256 artifact)
                       then (Inl (ErrorNew ''software package checksum mismatch''), lib, w)
                       else
                         let finalPath = se_Join env directory (sar_FileName artifact)
                         in (case se_Rename env partialPath finalPath w of
                               (Some err, w) \<Rightarrow> (Inl err, lib, w)
                             | (None, w) \<Rightarrow> (Inr finalPath, lib, w))))"

definition download_into ::
  "'w software_env \<Rightarrow> string \<Rightarrow> string \<Rightarrow> softwareArtifact \<Rightarrow> software_library \<times> 'w \<Rightarrow>
     string fallible \<times> software_library \<times> 'w" where
  "download_into env directory taskID artifact s =
     (let (lib, w) = s; partialPath = se_Join env directory (sar_FileName artifact @ ''.part'')
      in case se_OpenExclusive env partialPath w of
           (Some err, w) \<Rightarrow> (Inl err, lib, w)
         | (None, w) \<Rightarrow>
             (case url_Parse (sar_URL artifact) of
                None \<Rightarrow> (Inl (ErrorNew ''invalid URL''), lib, snd (se_Close env partialPath w))
              | Some u \<Rightarrow>
                  (case se_Do env (get_request u (sar_Authorization artifact)) w of
                     (Inl err, w) \<Rightarrow> (Inl err, lib, snd (se_Close env partialPath w))
                   | (Inr response, w) \<Rightarrow>
                       if swr_StatusCode response \<noteq> 200
                       then (Inl (ErrorNew (''unexpected download status '' @ string_of_int (swr_StatusCode response))),
                             lib, snd (se_Close env partialPath w))
                       else store_package env directory partialPath taskID artifact response (lib, w))))"

text \<open>The deferred removal of the directory runs unless the package is kept.\<close>

definition software_download ::
  "'w software_env \<Rightarrow> string \<Rightarrow> softwareCatalogItem \<Rightarrow> softwareArtifact \<Rightarrow> software_library \<times> 'w \<Rightarrow>
     string fallible \<times> software_library \<times> 'w" where
  "software_download env taskID item artifact s =
     (let (lib, w) = s
      in case se_MkdirAll env (se_downloadDir env) w of
           (Some err, w) \<Rightarrow> (Inl err, lib, w)
         | (None, w) \<Rightarrow>
             (case se_MkdirTemp env (se_downloadDir env) (sci_ID item @ ''-'') w of
                (Inl err, w) \<Rightarrow> (Inl err, lib, w)
              | (Inr directory, w) \<Rightarrow>
                  (case download_into env directory taskID artifact (lib, w) of
                     (Inl err, lib, w) \<Rightarrow> (Inl err, lib, se_RemoveAll env directory w)
                   | (Inr path, lib, w) \<Rightarrow> (Inr path, lib, w))))"

definition runInstall ::
  "'w software_env \<Rightarrow> string \<Rightarrow> softwareCatalogItem \<Rightarrow> softwareArtifact \<Rightarrow> software_library \<times> 'w \<Rightarrow> software_library \<times> 'w" where
  "runInstall env taskID item artifact s =
     (case software_download env taskID item artifact
             (updateTask taskID softwareTaskDownloading 0 Downloading (fst s), snd s) of
        (Inl _, lib, w) \<Rightarrow> (updateTask taskID softwareTaskFailed 0 DownloadFailed lib, w)
      | (Inr path, lib, w) \<Rightarrow>
          let lib = updateTask taskID softwareTaskOpening 100 Opening lib
          in (case se_openFile env of
                None \<Rightarrow> (updateTask taskID softwareTaskFailed 100 OpenFailed lib, w)
              | Some open_file \<Rightarrow>
                  (case open_file path w of
                     (Some _, w) \<Rightarrow> (updateTask taskID softwareTaskFailed 100 OpenFailed lib, w)
                   | (None, w) \<Rightarrow> (updateTask taskID softwareTaskCompleted 100 Opened lib, w))))"

subsection \<open>Requests\<close>

datatype software_answer =
  SoftwareError int string | SoftwareList "softwarePackage list" | SoftwareTask int softwareInstallTask

definition loadCatalog :: "'w software_env \<Rightarrow> string \<Rightarrow> 'w \<Rightarrow> softwareCatalogItem list fallible \<times> 'w" where
  "loadCatalog env authorization w =
     (case se_List env authorization w of
        (Inl err, w) \<Rightarrow> (Inl err, w)
      | (Inr items, w) \<Rightarrow>
          (case validateSoftwareCatalog (se_Base env) items of Some err \<Rightarrow> (Inl err, w) | None \<Rightarrow> (Inr items, w)))"

definition listed_package :: "'w software_env \<Rightarrow> softwareCatalogItem \<Rightarrow> softwarePackage option" where
  "listed_package env item =
     map_option (\<lambda>artifact.
         \<lparr>spk_ID = sci_ID item, spk_Name = sci_Name item, spk_Description = sci_Description item,
          spk_Publisher = sci_Publisher item, spk_Category = sci_Category item, spk_Version = sci_Version item,
          spk_Size = sar_Size artifact\<rparr>)
       (matchingArtifact item (se_GOOS env) (se_GOARCH env))"

definition software_list :: "'w software_env \<Rightarrow> request \<Rightarrow> 'w \<Rightarrow> software_answer \<times> 'w" where
  "software_list env request w =
     (case loadCatalog env (header_Get (rq_Header request) ''Authorization'') w of
        (Inl _, w) \<Rightarrow> (SoftwareError 503 ''catalog_unavailable'', w)
      | (Inr items, w) \<Rightarrow> (SoftwareList (List.map_filter (listed_package env) items), w))"

text \<open>The goroutine is added to the ones that run; the lock stays taken until it ends.\<close>

definition software_install ::
  "'w software_env \<Rightarrow> request \<Rightarrow> string \<Rightarrow> software_library \<times> 'w \<Rightarrow> software_answer \<times> software_library \<times> 'w" where
  "software_install env request ident s =
     (let (lib, w) = s
      in case loadCatalog env (header_Get (rq_Header request) ''Authorization'') w of
           (Inl _, w) \<Rightarrow> (SoftwareError 503 ''catalog_unavailable'', lib, w)
         | (Inr items, w) \<Rightarrow>
             (case findSoftware items ident (se_GOOS env) (se_GOARCH env) of
                None \<Rightarrow> (SoftwareError 404 ''software_not_found'', lib, w)
              | Some (item, artifact) \<Rightarrow>
                  if lib_installing lib then (SoftwareError 409 ''install_busy'', lib, w)
                  else
                    let (taskID, w) = newTaskID env w;
                        task = \<lparr>sit_ID = taskID, sit_SoftwareID = sci_ID item, sit_Name = sci_Name item,
                                sit_State = Some softwareTaskQueued, sit_Progress = 0, sit_Message = Waiting\<rparr>;
                        lib = setTask task (lib\<lparr>lib_installing := True\<rparr>)
                    in (SoftwareTask 202 task, lib\<lparr>lib_jobs := lib_jobs lib @ [(taskID, item, artifact)]\<rparr>, w)))"

definition software_getTask :: "string \<Rightarrow> software_library \<Rightarrow> software_answer" where
  "software_getTask ident lib =
     (case lib_tasks lib ident of None \<Rightarrow> SoftwareError 404 ''task_not_found'' | Some task \<Rightarrow> SoftwareTask 200 task)"

definition software_prefix :: string where "software_prefix = ''/app/v1/software''"

text \<open>None where the library leaves the request to others.\<close>

definition software_ServeHTTP ::
  "'w software_env \<Rightarrow> request \<Rightarrow> software_library \<times> 'w \<Rightarrow> software_answer option \<times> software_library \<times> 'w" where
  "software_ServeHTTP env request s =
     (let (lib, w) = s; path = rq_Path request
      in if path = software_prefix then
           (if rq_Method request \<noteq> ''GET'' then (Some (SoftwareError 405 ''method_not_allowed''), lib, w)
            else let (reply, w) = software_list env request w in (Some reply, lib, w))
         else if has_prefix path (software_prefix @ ''/tasks/'') then
           (if rq_Method request \<noteq> ''GET'' then (Some (SoftwareError 405 ''method_not_allowed''), lib, w)
            else (Some (software_getTask (drop (length (software_prefix @ ''/tasks/'')) path) lib), lib, w))
         else if has_prefix path (software_prefix @ ''/'') \<and> has_suffix path ''/install'' then
           (if rq_Method request \<noteq> ''POST'' then (Some (SoftwareError 405 ''method_not_allowed''), lib, w)
            else
              let trimmed = drop (length (software_prefix @ ''/'')) path;
                  ident = (if has_suffix trimmed ''/install'' then take (length trimmed - length ''/install'') trimmed
                           else trimmed);
                  (reply, s) = software_install env request ident (lib, w)
              in (Some reply, s))
         else (None, lib, w))"

text \<open>A goroutine that was started runs, and releases the lock at its end.\<close>

definition run_job :: "'w software_env \<Rightarrow> software_library \<times> 'w \<Rightarrow> software_library \<times> 'w" where
  "run_job env s =
     (case lib_jobs (fst s) of
        [] \<Rightarrow> s
      | (taskID, item, artifact) # jobs \<Rightarrow>
          let (lib, w) = runInstall env taskID item artifact s
          in (lib\<lparr>lib_installing := False, lib_jobs := jobs\<rparr>, w))"

end
