(* ===== verification/Software_Safety.thy ===== *)
theory Software_Safety
  imports Software_Library
begin

text \<open>
  What the software library guarantees: the validated catalogue, one installation at a time and none that stays
  unfinished, in every history of requests and running goroutines, and that an installer is opened only when
  its bytes are the ones the catalogue promised.
\<close>

subsection \<open>The catalogue\<close>

lemma validate_artifacts_None [go_loops]:
  "validate_artifacts base ident targets artifacts = None \<longleftrightarrow>
     (\<forall>artifact \<in> set artifacts. validateSoftwareArtifact base artifact = None) \<and>
     distinct (map artifact_target artifacts) \<and> artifact_target ` set artifacts \<inter> set targets = {}"
  by (induction artifacts arbitrary: targets) (auto split: option.splits)

lemma validate_items_None [go_loops]:
  "validate_items base ids items = None \<longleftrightarrow>
     (\<forall>item \<in> set items. valid_item_texts item \<and> validate_artifacts base (sci_ID item) [] (sci_Artifacts item) = None) \<and>
     distinct (map sci_ID items) \<and> sci_ID ` set items \<inter> set ids = {}"
  by (induction items arbitrary: ids) (auto split: option.splits)

lemma matching_loop_Some:
  "matching_loop artifacts platform arch = Some artifact \<Longrightarrow>
     artifact \<in> set artifacts \<and> sar_Platform artifact = platform \<and> sar_Arch artifact = arch"
  by (induction artifacts) (auto split: if_splits)

lemma findSoftware_Some:
  "findSoftware items ident platform arch = Some (item, artifact) \<Longrightarrow>
     item \<in> set items \<and> sci_ID item = ident \<and> artifact \<in> set (sci_Artifacts item) \<and>
     sar_Platform artifact = platform \<and> sar_Arch artifact = arch"
  by (induction items) (auto simp: matchingArtifact_def dest: matching_loop_Some split: if_splits)

lemma loadCatalog_validated:
  "loadCatalog env authorization w = (Inr items, w') \<Longrightarrow> validateSoftwareCatalog (se_Base env) items = None"
  by (auto simp: loadCatalog_def split: prod.splits sum.splits option.splits)

lemma loaded_artifact:
  assumes "loadCatalog env authorization w = (Inr items, w')"
    and "findSoftware items ident platform arch = Some (item, artifact)"
  shows "validateSoftwareArtifact (se_Base env) artifact = None"
  using loadCatalog_validated [OF assms(1)] findSoftware_Some [OF assms(2)]
  by (auto simp: validateSoftwareCatalog_def go_loops)

text \<open>What the checks of an artifact leave.\<close>

lemma validated_artifact:
  assumes "validateSoftwareArtifact base artifact = None"
  shows "0 < sar_Size artifact" "sar_Size artifact \<le> maxSoftwarePackageSize"
    "base (sar_FileName artifact) = sar_FileName artifact"
    "\<exists>digest. hex_DecodeString (sar_SHA256 artifact) = Some digest \<and> length digest = 32"
    "\<exists>u. url_Parse (sar_URL artifact) = Some u \<and>
       (url_Scheme u = ''https'' \<or> sar_TrustedSource artifact \<and> url_Scheme u = ''http'') \<and> url_User u = None"
  using assms by (auto simp: validateSoftwareArtifact_def split: if_splits option.splits)

subsection \<open>How a task moves\<close>

definition finished :: "softwareInstallTask \<Rightarrow> bool" where
  "finished task \<longleftrightarrow> sit_State task = Some softwareTaskCompleted \<or> sit_State task = Some softwareTaskFailed"

definition progress_ok :: "softwareInstallTask \<Rightarrow> bool" where
  "progress_ok task \<longleftrightarrow> 0 \<le> sit_Progress task \<and> sit_Progress task \<le> 100"

definition task_moved :: "string \<Rightarrow> software_library \<Rightarrow> software_library \<Rightarrow> bool" where
  "task_moved ident lib lib' \<longleftrightarrow>
     lib_installing lib' = lib_installing lib \<and> lib_jobs lib' = lib_jobs lib \<and>
     (\<forall>i. i \<noteq> ident \<longrightarrow> lib_tasks lib' i = lib_tasks lib i) \<and>
     sit_ID (task_of lib' ident) = sit_ID (task_of lib ident) \<and>
     sit_SoftwareID (task_of lib' ident) = sit_SoftwareID (task_of lib ident) \<and>
     sit_Name (task_of lib' ident) = sit_Name (task_of lib ident) \<and>
     (\<exists>new. lib_seen lib' = new @ lib_seen lib \<and> list_all progress_ok new)"

lemma task_moved_refl [simp]: "task_moved ident lib lib"
  by (simp add: task_moved_def)

lemma task_moved_trans [trans]: "task_moved ident lib lib1 \<Longrightarrow> task_moved ident lib1 lib2 \<Longrightarrow> task_moved ident lib lib2"
  by (fastforce simp: task_moved_def)

lemma task_of_updateTask [simp]:
  "task_of (updateTask ident st p m lib) ident = (task_of lib ident)\<lparr>sit_State := Some st, sit_Progress := p, sit_Message := m\<rparr>"
  "lib_tasks (updateTask ident st p m lib) ident =
     Some ((task_of lib ident)\<lparr>sit_State := Some st, sit_Progress := p, sit_Message := m\<rparr>)"
  by (simp_all add: updateTask_def put_task_def task_of_def)

lemma task_moved_updateTask [intro]: "0 \<le> p \<Longrightarrow> p \<le> 100 \<Longrightarrow> task_moved ident lib (updateTask ident st p m lib)"
  by (auto simp: task_moved_def) (auto simp: updateTask_def put_task_def progress_ok_def)

lemma task_moved_then [intro]:
  "task_moved ident lib lib1 \<Longrightarrow> 0 \<le> p \<Longrightarrow> p \<le> 100 \<Longrightarrow> task_moved ident lib (updateTask ident st p m lib1)"
  by (rule task_moved_trans [OF _ task_moved_updateTask])

subsection \<open>The download\<close>

text \<open>The state of the writer between two chunks.\<close>

definition writer_ok :: "softwareDownloadWriter \<Rightarrow> bool" where
  "writer_ok writer \<longleftrightarrow> 0 < dw_total writer \<and> 0 \<le> dw_written writer"

lemma io_MultiWriter_cases:
  assumes "io_MultiWriter env path data hashed w = ((n, err), hashed', w')"
  shows "0 \<le> n" "err = None \<Longrightarrow> n = int (length data) \<and> hashed' = hashed @ data \<and> se_Write env path data w = ((length data, None), w')"
proof -
  obtain m e w1 where s: "se_Write env path data w = ((m, e), w1)" by (metis prod.exhaust)
  show "0 \<le> n" "err = None \<Longrightarrow> n = int (length data) \<and> hashed' = hashed @ data \<and> se_Write env path data w = ((length data, None), w')"
    using assms by (auto simp: io_MultiWriter_def s split: if_splits)
qed

lemma Write_cases:
  assumes "softwareDownloadWriter_Write env path ident data (writer, lib, w) = ((n, err), writer', lib', w')"
  obtains hashed p where "io_MultiWriter env path data (dw_hashed writer) w = ((n, err), hashed, w')"
    and "writer' = writer\<lparr>dw_hashed := hashed, dw_written := dw_written writer + n, dw_percent := p\<rparr>"
    and "p = min 100 ((dw_written writer + n) * 100 div dw_total writer)"
    and "lib' = (if p \<noteq> dw_percent writer then updateTask ident softwareTaskDownloading p Downloading lib else lib)"
proof -
  obtain m e hashed w1 where m: "io_MultiWriter env path data (dw_hashed writer) w = ((m, e), hashed, w1)"
    by (metis prod.exhaust)
  define q where "q = (dw_written writer + m) * 100 div dw_total writer"
  define p where "p = min 100 q"
  have p: "p = (if q > 100 then 100 else q)" by (simp add: p_def)
  have step: "(if p \<noteq> dw_percent writer
      then ((m, e), writer\<lparr>dw_hashed := hashed, dw_written := dw_written writer + m, dw_percent := p\<rparr>,
            updateTask ident softwareTaskDownloading p Downloading lib, w1)
      else ((m, e), writer\<lparr>dw_hashed := hashed, dw_written := dw_written writer + m\<rparr>, lib, w1)) =
    ((n, err), writer', lib', w')"
    using assms unfolding softwareDownloadWriter_Write_def p q_def by (simp add: Let_def m cong: if_cong)
  have "writer' = writer\<lparr>dw_hashed := hashed, dw_written := dw_written writer + n, dw_percent := p\<rparr>"
    using step by (cases "p = dw_percent writer") auto
  then show thesis
    using that [of hashed p] step m by (cases "p = dw_percent writer") (auto simp: p_def q_def)
qed

lemma Write_moves:
  assumes "softwareDownloadWriter_Write env path ident data (writer, lib, w) = ((n, err), writer', lib', w')"
    and "writer_ok writer"
  shows "writer_ok writer'" "task_moved ident lib lib'"
proof -
  obtain hashed p where m: "io_MultiWriter env path data (dw_hashed writer) w = ((n, err), hashed, w')"
    and writer': "writer' = writer\<lparr>dw_hashed := hashed, dw_written := dw_written writer + n, dw_percent := p\<rparr>"
    and p: "p = min 100 ((dw_written writer + n) * 100 div dw_total writer)"
    and lib': "lib' = (if p \<noteq> dw_percent writer then updateTask ident softwareTaskDownloading p Downloading lib else lib)"
    by (rule Write_cases [OF assms(1)])
  have "0 \<le> (dw_written writer + n) * 100 div dw_total writer"
    using assms(2) io_MultiWriter_cases(1) [OF m] by (simp add: writer_ok_def pos_imp_zdiv_nonneg_iff)
  then have "0 \<le> p" "p \<le> 100" by (simp_all add: p)
  then show "task_moved ident lib lib'" by (auto simp: lib')
  show "writer_ok writer'" using assms(2) io_MultiWriter_cases(1) [OF m] by (simp add: writer_ok_def writer')
qed

lemma copy_loop_moves:
  "copy_loop env path ident left chunks ending written (writer, lib, w) = (r, writer', lib', w') \<Longrightarrow>
     writer_ok writer \<Longrightarrow> task_moved ident lib lib'"
proof (induction chunks arbitrary: left written writer lib w)
  case (Cons chunk chunks)
  show ?case
  proof (cases "left = 0 \<or> chunk = []")
    case True
    then show ?thesis using Cons by (auto split: if_splits)
  next
    case False
    obtain n err writer1 lib1 w1 where
      wr: "softwareDownloadWriter_Write env path ident (take left chunk) (writer, lib, w) = ((n, err), writer1, lib1, w1)"
      by (metis prod.exhaust)
    note moved = Write_moves [OF wr Cons.prems(2)]
    show ?thesis
      using Cons.prems(1) False moved(2) task_moved_trans [OF moved(2) Cons.IH [OF _ moved(1)]]
      by (auto simp: wr Let_def split: if_splits)
  qed
qed simp

lemma store_package_moves:
  assumes "store_package env directory path ident artifact response (lib, w) = (r, lib', w')" "0 < sar_Size artifact"
  shows "task_moved ident lib lib'"
proof -
  obtain n e writer lib1 w1 where
    c: "copy_loop env path ident (nat (sar_Size artifact + 1)) (swr_Chunks response) (swr_End response) 0
          (\<lparr>dw_total = sar_Size artifact, dw_written = 0, dw_percent = 0, dw_hashed = []\<rparr>, lib, w) =
        ((n, e), writer, lib1, w1)"
    by (metis prod.exhaust)
  have moved: "task_moved ident lib lib1"
    using copy_loop_moves [OF c] assms(2) by (simp add: writer_ok_def)
  then show ?thesis
    using assms(1) unfolding store_package_def
    by (auto simp: c Let_def split: prod.splits option.splits if_splits)
qed

lemma software_download_moves:
  assumes "software_download env ident item artifact (lib, w) = (r, lib', w')" "0 < sar_Size artifact"
  shows "task_moved ident lib lib'"
proof -
  have "task_moved ident lib1 lib2"
    if "download_into env directory ident artifact (lib1, w1) = (r', lib2, w2)" for directory lib1 w1 r' lib2 w2
    using that unfolding download_into_def
    by (auto simp: Let_def split: prod.splits option.splits sum.splits if_splits
          intro: store_package_moves [OF _ assms(2)])
  then show ?thesis
    using assms(1) unfolding software_download_def
    by (auto split: prod.splits option.splits sum.splits)
qed

lemma runInstall_moves:
  assumes "runInstall env ident item artifact (lib, w) = (lib', w')" "0 < sar_Size artifact"
  shows "task_moved ident lib lib'" "\<exists>task. lib_tasks lib' ident = Some task \<and> finished task"
proof -
  obtain r lib1 w1 where d: "software_download env ident item artifact
      (updateTask ident softwareTaskDownloading 0 Downloading lib, w) = (r, lib1, w1)"
    by (metis prod.exhaust)
  have moved: "task_moved ident lib lib1"
    by (rule task_moved_trans [OF task_moved_updateTask software_download_moves [OF d assms(2)]]) simp_all
  show "task_moved ident lib lib'"
    using assms(1) moved unfolding runInstall_def
    by (auto simp: d Let_def intro!: task_moved_then split: sum.splits option.splits prod.splits)
  show "\<exists>task. lib_tasks lib' ident = Some task \<and> finished task"
    using assms(1) unfolding runInstall_def
    by (auto simp: d Let_def finished_def split: sum.splits option.splits prod.splits)
qed

subsection \<open>Histories\<close>

datatype software_event = Requested request | JobRuns

fun software_step :: "'w software_env \<Rightarrow> software_event \<Rightarrow> software_library \<times> 'w \<Rightarrow> software_library \<times> 'w" where
  "software_step env (Requested request) s = snd (software_ServeHTTP env request s)"
| "software_step env JobRuns s = run_job env s"

definition software_history :: "'w software_env \<Rightarrow> software_event list \<Rightarrow> 'w \<Rightarrow> software_library \<times> 'w" where
  "software_history env events w = fold (software_step env) events (newSoftwareLibrary, w)"

text \<open>The lock is taken exactly while one goroutine runs, whose task is the only unfinished one.\<close>

definition library_consistent :: "'w software_env \<Rightarrow> software_library \<Rightarrow> bool" where
  "library_consistent env lib \<longleftrightarrow>
     lib_installing lib = (lib_jobs lib \<noteq> []) \<and> length (lib_jobs lib) \<le> 1 \<and>
     (\<forall>ident task. lib_tasks lib ident = Some task \<longrightarrow> finished task \<or> ident \<in> fst ` set (lib_jobs lib)) \<and>
     (\<forall>(ident, item, artifact) \<in> set (lib_jobs lib).
        validateSoftwareArtifact (se_Base env) artifact = None \<and>
        sar_Platform artifact = se_GOOS env \<and> sar_Arch artifact = se_GOARCH env \<and>
        (\<exists>task. lib_tasks lib ident = Some task \<and> sit_SoftwareID task = sci_ID item)) \<and>
     list_all progress_ok (lib_seen lib)"

lemma consistent_new: "library_consistent env newSoftwareLibrary"
  by (simp add: library_consistent_def newSoftwareLibrary_def)

lemma consistent_jobs:
  assumes "library_consistent env lib"
  shows "lib_jobs lib = [] \<and> \<not> lib_installing lib \<or> (\<exists>job. lib_jobs lib = [job] \<and> lib_installing lib)"
  using assms by (cases "lib_jobs lib") (auto simp: library_consistent_def)

text \<open>A request only changes the library when it starts an installation, and only when none runs.\<close>

lemma software_install_cases:
  assumes "software_install env request ident (lib, w) = (reply, lib', w')"
  obtains "lib' = lib"
  | task taskID item artifact items w0 where "\<not> lib_installing lib"
    and "loadCatalog env (header_Get (rq_Header request) ''Authorization'') w = (Inr items, w0)"
    and "findSoftware items ident (se_GOOS env) (se_GOARCH env) = Some (item, artifact)"
    and "task = \<lparr>sit_ID = taskID, sit_SoftwareID = sci_ID item, sit_Name = sci_Name item,
                 sit_State = Some softwareTaskQueued, sit_Progress = 0, sit_Message = Waiting\<rparr>"
    and "lib' = lib\<lparr>lib_installing := True, lib_tasks := (lib_tasks lib)(taskID \<mapsto> task),
                    lib_seen := task # lib_seen lib, lib_jobs := lib_jobs lib @ [(taskID, item, artifact)]\<rparr>"
proof -
  obtain loaded w1 where l: "loadCatalog env (header_Get (rq_Header request) ''Authorization'') w = (loaded, w1)"
    by fastforce
  show thesis
  proof (cases "loaded")
    case (Inl e)
    then show thesis using assms that(1) by (simp add: software_install_def l)
  next
    case items: (Inr items)
    show thesis
    proof (cases "findSoftware items ident (se_GOOS env) (se_GOARCH env) = None \<or> lib_installing lib")
      case True
      then show thesis using assms that(1)
        by (auto simp: software_install_def l items split: option.splits if_splits)
    next
      case False
      then obtain item artifact where f: "findSoftware items ident (se_GOOS env) (se_GOARCH env) = Some (item, artifact)"
        by auto
      obtain taskID w2 where t: "newTaskID env w1 = (taskID, w2)" by fastforce
      show thesis
        by (rule that(2) [where taskID = taskID, OF _ l [unfolded items] f refl])
          (use assms False in \<open>simp_all add: software_install_def l items f t setTask_def put_task_def Let_def\<close>)
    qed
  qed
qed

lemma software_ServeHTTP_cases:
  assumes "software_ServeHTTP env request (lib, w) = (reply, lib', w')"
  obtains "lib' = lib"
  | ident answer w1 where "software_install env request ident (lib, w) = (answer, lib', w1)"
  using assms unfolding software_ServeHTTP_def
  by (auto simp: Let_def split: if_splits prod.splits)

lemma requests_while_installing:
  assumes "lib_installing lib" "software_ServeHTTP env request (lib, w) = (reply, lib', w')"
  shows "lib' = lib"
  by (rule software_ServeHTTP_cases [OF assms(2)]) (auto elim!: software_install_cases simp: assms(1))

lemma install_consistent:
  assumes "software_install env request ident (lib, w) = (answer, lib', w')" "library_consistent env lib"
  shows "library_consistent env lib'"
proof (rule software_install_cases [OF assms(1)])
  fix task :: softwareInstallTask and taskID item artifact items w0
  assume free: "\<not> lib_installing lib"
    and l: "loadCatalog env (header_Get (rq_Header request) ''Authorization'') w = (Inr items, w0)"
    and f: "findSoftware items ident (se_GOOS env) (se_GOARCH env) = Some (item, artifact)"
    and task: "task = \<lparr>sit_ID = taskID, sit_SoftwareID = sci_ID item, sit_Name = sci_Name item,
                 sit_State = Some softwareTaskQueued, sit_Progress = 0, sit_Message = Waiting\<rparr>"
    and lib': "lib' = lib\<lparr>lib_installing := True, lib_tasks := (lib_tasks lib)(taskID \<mapsto> task),
                    lib_seen := task # lib_seen lib, lib_jobs := lib_jobs lib @ [(taskID, item, artifact)]\<rparr>"
  have "lib_jobs lib = []" using consistent_jobs [OF assms(2)] free by auto
  then show "library_consistent env lib'"
    using assms(2) loaded_artifact [OF l f] findSoftware_Some [OF f]
    by (auto simp: library_consistent_def lib' task progress_ok_def)
qed (use assms(2) in simp)

lemma run_job_consistent:
  assumes "library_consistent env lib" "run_job env (lib, w) = (lib', w')"
  shows "library_consistent env lib'" "lib_jobs lib' = []"
proof -
  have "library_consistent env lib' \<and> lib_jobs lib' = []"
  proof (cases "lib_jobs lib")
    case Nil
    then show ?thesis using assms by (simp add: run_job_def)
  next
    case (Cons job jobs)
    obtain ident item artifact where job: "job = (ident, item, artifact)" by (rule prod_cases3)
    have jobs: "lib_jobs lib = [(ident, item, artifact)]" using consistent_jobs [OF assms(1)] Cons job by auto
    obtain lib1 w1 where r: "runInstall env ident item artifact (lib, w) = (lib1, w1)" by fastforce
    have "0 < sar_Size artifact"
      using assms(1) jobs by (auto simp: library_consistent_def dest: validated_artifact(1))
    note run = runInstall_moves [OF r this]
    have "lib' = lib1\<lparr>lib_installing := False, lib_jobs := []\<rparr>"
      using assms(2) by (simp add: run_job_def jobs r)
    moreover have "finished task" if "lib_tasks lib1 i = Some task" for i task
    proof (cases "i = ident")
      case False
      then have "lib_tasks lib i = Some task" using run(1) that by (simp add: task_moved_def)
      with assms(1) jobs False show ?thesis by (auto simp: library_consistent_def)
    qed (use run(2) that in auto)
    moreover have "list_all progress_ok (lib_seen lib1)"
      using run(1) assms(1) by (auto simp: task_moved_def library_consistent_def)
    ultimately show ?thesis by (simp add: library_consistent_def)
  qed
  then show "library_consistent env lib'" "lib_jobs lib' = []" by simp_all
qed

lemma software_step_consistent:
  assumes "library_consistent env (fst s)" shows "library_consistent env (fst (software_step env event s))"
proof (cases event)
  case (Requested request)
  obtain lib w where s: "s = (lib, w)" by fastforce
  obtain reply lib' w' where e: "software_ServeHTTP env request (lib, w) = (reply, lib', w')" by (rule prod_cases3)
  have "library_consistent env lib'"
    by (rule software_ServeHTTP_cases [OF e]) (use assms s install_consistent in auto)
  then show ?thesis by (simp add: Requested s e)
next
  case JobRuns
  then show ?thesis using assms run_job_consistent(1) [of env "fst s" "snd s"] by (metis eq_fst_iff prod.collapse software_step.simps(2))
qed

lemma software_history_consistent: "library_consistent env (fst (software_history env events w))"
proof -
  have "library_consistent env (fst (fold (software_step env) events s))" if "library_consistent env (fst s)" for s
    using that by (induction events arbitrary: s) (simp_all add: software_step_consistent)
  then show ?thesis by (simp add: software_history_def consistent_new)
qed

subsection \<open>What is opened\<close>

text \<open>
  What the download needs of the files: \<open>content\<close> is what a file holds, an exclusive creation starts an empty
  one, a complete write appends, a rename moves, and closing or fetching changes none.
\<close>

definition file_laws :: "'w software_env \<Rightarrow> ('w \<Rightarrow> string \<Rightarrow> string option) \<Rightarrow> bool" where
  "file_laws env content \<longleftrightarrow>
     (\<forall>p w w'. se_OpenExclusive env p w = (None, w') \<longrightarrow> content w' p = Some []) \<and>
     (\<forall>p d w w' c. se_Write env p d w = ((length d, None), w') \<longrightarrow> content w p = Some c \<longrightarrow> content w' p = Some (c @ d)) \<and>
     (\<forall>r w. content (snd (se_Do env r w)) = content w) \<and>
     (\<forall>p w. content (snd (se_Close env p w)) = content w) \<and>
     (\<forall>p q w w' c. se_Rename env p q w = (None, w') \<longrightarrow> content w p = Some c \<longrightarrow> content w' q = Some c)"

lemma file_lawsD:
  assumes "file_laws env content"
  shows "se_OpenExclusive env p w = (None, w') \<Longrightarrow> content w' p = Some []"
    "se_Write env p d w = ((length d, None), w') \<Longrightarrow> content w p = Some c \<Longrightarrow> content w' p = Some (c @ d)"
    "se_Do env r w = (x, w') \<Longrightarrow> content w' = content w"
    "se_Close env p w = (err, w') \<Longrightarrow> content w' = content w"
    "se_Rename env p q w = (None, w') \<Longrightarrow> content w p = Some c \<Longrightarrow> content w' q = Some c"
  using assms unfolding file_laws_def by (metis snd_conv)+

lemma copy_loop_content:
  assumes "file_laws env content"
  shows "copy_loop env path ident left chunks ending n (writer, lib, w) = ((n', None), writer', lib', w') \<Longrightarrow>
    content w path = Some c \<Longrightarrow> dw_hashed writer = c \<Longrightarrow> n = int (length c) \<Longrightarrow>
    content w' path = Some (dw_hashed writer') \<and> n' = int (length (dw_hashed writer'))"
proof (induction chunks arbitrary: left n writer lib w c)
  case (Cons chunk chunks)
  show ?case
  proof (cases "left = 0 \<or> chunk = []")
    case True
    then show ?thesis using Cons by (auto split: if_splits)
  next
    case False
    let ?data = "take left chunk"
    obtain m err writer1 lib1 w1 where
      wr: "softwareDownloadWriter_Write env path ident ?data (writer, lib, w) = ((m, err), writer1, lib1, w1)"
      by (metis prod.exhaust)
    obtain hashed p where mw: "io_MultiWriter env path ?data (dw_hashed writer) w = ((m, err), hashed, w1)"
      and writer1: "writer1 = writer\<lparr>dw_hashed := hashed, dw_written := dw_written writer + m, dw_percent := p\<rparr>"
      by (rule Write_cases [OF wr])
    have err: "err = None" and m: "m = int (length ?data)"
      and rest: "copy_loop env path ident (left - length ?data) chunks ending (n + m) (writer1, lib1, w1) =
        ((n', None), writer', lib', w')"
      using Cons.prems(1) False by (auto simp: wr Let_def split: if_splits)
    note wrote = io_MultiWriter_cases(2) [OF mw err]
    have "content w1 path = Some (c @ ?data)"
      by (rule file_lawsD(2) [OF assms]) (use wrote Cons.prems(2) in blast)+
    moreover have "dw_hashed writer1 = c @ ?data" using wrote Cons.prems(3) by (simp add: writer1)
    moreover have "n + m = int (length (c @ ?data))" using m Cons.prems(4) by simp
    ultimately show ?thesis by (rule Cons.IH [OF rest])
  qed
qed auto

definition promised_bytes :: "'w software_env \<Rightarrow> softwareArtifact \<Rightarrow> string \<Rightarrow> bool" where
  "promised_bytes env artifact c \<longleftrightarrow>
     int (length c) = sar_Size artifact \<and> hex_DecodeString (sar_SHA256 artifact) = Some (se_sha256 env c)"

lemma hex_DecodeString_to_lower [simp]: "hex_DecodeString (to_lower s) = hex_DecodeString s"
proof -
  have "(is_hex (to_lower_char c) = is_hex c) \<and> (is_hex c \<longrightarrow> hex_value (to_lower_char c) = hex_value c)" for c
    by (rule every_char [where P = "\<lambda>c. (is_hex (to_lower_char c) = is_hex c) \<and>
          (is_hex c \<longrightarrow> hex_value (to_lower_char c) = hex_value c)"]) code_simp
  then show ?thesis by (induction s rule: hex_DecodeString.induct) (simp_all add: to_lower_def)
qed

lemma checksum_matches: "equal_fold (hex_EncodeToString digest) s \<Longrightarrow> hex_DecodeString s = Some digest"
  unfolding equal_fold_def by (metis hex_DecodeString_to_lower hex_round_trip)

lemma store_package_content:
  assumes "file_laws env content"
    and "store_package env directory path ident artifact response (lib, w) = (Inr final, lib', w')"
    and "content w path = Some []"
  shows "\<exists>c. content w' final = Some c \<and> promised_bytes env artifact c"
    and "final = se_Join env directory (sar_FileName artifact)"
proof -
  obtain n e writer lib1 w1 where
    c: "copy_loop env path ident (nat (sar_Size artifact + 1)) (swr_Chunks response) (swr_End response) 0
          (\<lparr>dw_total = sar_Size artifact, dw_written = 0, dw_percent = 0, dw_hashed = []\<rparr>, lib, w) =
        ((n, e), writer, lib1, w1)"
    by (metis prod.exhaust)
  obtain closed w2 where close: "se_Close env path w1 = (closed, w2)" by fastforce
  have e: "e = None" and n: "n = sar_Size artifact"
    and hash: "equal_fold (hex_EncodeToString (se_sha256 env (dw_hashed writer))) (sar_SHA256 artifact)"
    and final: "final = se_Join env directory (sar_FileName artifact)"
    and rename: "se_Rename env path final w2 = (None, w')"
    using assms(2) unfolding store_package_def
    by (auto simp: c close Let_def split: prod.splits option.splits if_splits)
  note copied = copy_loop_content [OF assms(1) c [unfolded e] assms(3)]
  have "content w1 path = Some (dw_hashed writer)" and len: "n = int (length (dw_hashed writer))"
    using copied by simp_all
  then have "content w2 path = Some (dw_hashed writer)" using file_lawsD(4) [OF assms(1) close] by simp
  from file_lawsD(5) [OF assms(1) rename this] have "content w' final = Some (dw_hashed writer)" .
  moreover have "promised_bytes env artifact (dw_hashed writer)"
    using len n checksum_matches [OF hash] by (simp add: promised_bytes_def)
  ultimately show "\<exists>c. content w' final = Some c \<and> promised_bytes env artifact c" by blast
  show "final = se_Join env directory (sar_FileName artifact)" by (rule final)
qed

lemma software_download_content:
  assumes "file_laws env content" and "software_download env ident item artifact (lib, w) = (Inr path, lib', w')"
  shows "\<exists>c. content w' path = Some c \<and> promised_bytes env artifact c"
proof -
  from assms(2) obtain directory lib1 w1 where
    d: "download_into env directory ident artifact (lib1, w1) = (Inr path, lib', w')"
    unfolding software_download_def by (auto split: prod.splits option.splits sum.splits)
  let ?partial = "se_Join env directory (sar_FileName artifact @ ''.part'')"
  obtain e w2 where o: "se_OpenExclusive env ?partial w1 = (e, w2)" by fastforce
  have e: "e = None" using d by (cases e) (simp_all add: download_into_def Let_def o)
  obtain u where u: "url_Parse (sar_URL artifact) = Some u"
    using d by (cases "url_Parse (sar_URL artifact)") (simp_all add: download_into_def Let_def o e)
  obtain r w3 where r: "se_Do env (get_request u (sar_Authorization artifact)) w2 = (r, w3)" by fastforce
  obtain response where response: "r = Inr response"
    using d by (cases r) (simp_all add: download_into_def Let_def o e u r)
  note fetched = r [unfolded response]
  have stored: "store_package env directory ?partial ident artifact response (lib1, w3) = (Inr path, lib', w')"
    using d by (simp add: download_into_def Let_def o e u fetched split: if_splits)
  have start: "content w2 ?partial = Some []" by (rule file_lawsD(1) [OF assms(1) o [unfolded e]])
  have same: "content w3 = content w2" by (rule file_lawsD(3) [OF assms(1) fetched])
  have "content w3 ?partial = Some []" unfolding same by (rule start)
  then show ?thesis by (rule store_package_content(1) [where content = content, OF assms(1) stored])
qed

text \<open>The download does not look at the function that opens installers.\<close>

lemma openFile_irrelevant:
  "software_download (env\<lparr>se_openFile := f\<rparr>) ident item artifact s = software_download env ident item artifact s"
proof -
  have mw: "io_MultiWriter (env\<lparr>se_openFile := f\<rparr>) = io_MultiWriter env"
    by (intro ext) (simp add: io_MultiWriter_def)
  have wr: "softwareDownloadWriter_Write (env\<lparr>se_openFile := f\<rparr>) = softwareDownloadWriter_Write env"
    by (intro ext) (simp add: softwareDownloadWriter_Write_def mw)
  have cl: "copy_loop (env\<lparr>se_openFile := f\<rparr>) path taskID left chunks ending written t =
      copy_loop env path taskID left chunks ending written t" for path taskID left chunks ending written t
    by (induction chunks arbitrary: left written t) (simp_all add: wr Let_def split: prod.split)
  have "store_package (env\<lparr>se_openFile := f\<rparr>) = store_package env"
    by (intro ext) (simp add: store_package_def cl cong: if_cong option.case_cong let_cong)
  then have "download_into (env\<lparr>se_openFile := f\<rparr>) = download_into env"
    by (intro ext) (simp add: download_into_def cong: if_cong option.case_cong sum.case_cong)
  then show ?thesis by (simp add: software_download_def cong: option.case_cong sum.case_cong)
qed

subsection \<open>Properties\<close>

definition all_finished :: "software_library \<Rightarrow> bool" where
  "all_finished lib \<longleftrightarrow> \<not> lib_installing lib \<and> (\<forall>task \<in> ran (lib_tasks lib). finished task)"

text \<open>C22: In every history of requests and of goroutines that end, the lock is taken exactly while one installation
  runs, its package passed the validation of the catalogue and is one for this platform, every other task is
  completed or failed, and every progress that could be read is a percentage; once the running installation
  ends the lock is free and no task is left unfinished.\<close>

theorem installations_exclusive_and_ending:
  "library_consistent env (fst (software_history env events w)) \<and>
   all_finished (fst (software_history env (events @ [JobRuns]) w))"
proof
  show now: "library_consistent env (fst (software_history env events w))" by (rule software_history_consistent)
  obtain lib w1 where h: "software_history env events w = (lib, w1)" by fastforce
  obtain lib' w2 where r: "run_job env (lib, w1) = (lib', w2)" by fastforce
  have step: "software_history env (events @ [JobRuns]) w = (lib', w2)"
    using h by (simp add: software_history_def r)
  have "library_consistent env lib'" "lib_jobs lib' = []"
    using run_job_consistent [OF _ r] now by (simp_all add: h)
  then show "all_finished (fst (software_history env (events @ [JobRuns]) w))"
    by (auto simp: step all_finished_def library_consistent_def ran_def)
qed

definition open_installer ::
  "string \<Rightarrow> string \<Rightarrow> software_library \<Rightarrow> (string \<Rightarrow> 'w \<Rightarrow> error \<times> 'w) \<Rightarrow> 'w \<Rightarrow> software_library \<times> 'w" where
  "open_installer ident path lib open_file w =
     (case open_file path w of
        (None, w) \<Rightarrow> (updateTask ident softwareTaskCompleted 100 Opened lib, w)
      | (Some _, w) \<Rightarrow> (updateTask ident softwareTaskFailed 100 OpenFailed lib, w))"

text \<open>C10: An installation either ends without a call of the opener, whatever that is, or calls it once, with a file
  that at that moment holds exactly as many bytes as the catalogue says, with the catalogue's SHA-256.\<close>

theorem opened_installer_is_the_promised_one:
  assumes "file_laws env content"
  shows "(\<exists>result. \<forall>opener. runInstall (env\<lparr>se_openFile := opener\<rparr>) ident item artifact s = result) \<or>
    (\<exists>path lib w c. content w path = Some c \<and> promised_bytes env artifact c \<and>
       (\<forall>opener. runInstall (env\<lparr>se_openFile := Some opener\<rparr>) ident item artifact s =
          open_installer ident path lib opener w))"
proof -
  obtain r lib w where d: "software_download env ident item artifact
      (updateTask ident softwareTaskDownloading 0 Downloading (fst s), snd s) = (r, lib, w)"
    by (rule prod_cases3)
  show ?thesis
  proof (cases r)
    case (Inl e)
    then show ?thesis by (simp add: runInstall_def openFile_irrelevant d)
  next
    case (Inr path)
    then obtain c where "content w path = Some c" "promised_bytes env artifact c"
      using software_download_content [OF assms] d by blast
    moreover have "runInstall (env\<lparr>se_openFile := Some opener\<rparr>) ident item artifact s =
        open_installer ident path (updateTask ident softwareTaskOpening 100 Opening lib) opener w" for opener
      using Inr by (simp add: runInstall_def openFile_irrelevant d open_installer_def split: prod.split option.split)
    ultimately show ?thesis by blast
  qed
qed

text \<open>A world of files by name; every request is answered with a package of two chunks, whose digest is its first bytes.\<close>

definition demo_software :: "(string \<Rightarrow> string option) software_env" where
  "demo_software =
     \<lparr>se_GOOS = ''linux'', se_GOARCH = ''amd64'', se_Base = (\<lambda>s. s), se_Join = (\<lambda>a b. a @ ''/'' @ b),
      se_sha256 = take 32, se_List = (\<lambda>_ w. (Inr [], w)),
      se_Do = (\<lambda>_ w. (Inr \<lparr>swr_StatusCode = 200, swr_Chunks = [replicate 20 (CHR ''a''), replicate 20 (CHR ''b'')],
                            swr_End = None\<rparr>, w)),
      se_downloadDir = ''d'', se_openFile = Some (\<lambda>p w. (None, w(''opened'' := w p))),
      se_MkdirAll = (\<lambda>_ w. (None, w)), se_MkdirTemp = (\<lambda>_ p w. (Inr (''d/'' @ p @ ''1''), w)), se_RemoveAll = (\<lambda>_ w. w),
      se_OpenExclusive = (\<lambda>p w. (None, w(p := Some []))),
      se_Write = (\<lambda>p d w. ((length d, None), w(p := map_option (\<lambda>c. c @ d) (w p)))),
      se_Close = (\<lambda>_ w. (None, w)), se_Rename = (\<lambda>p q w. (None, w(q := w p))),
      se_rand = (\<lambda>w. (Inr ''0'', w)), se_UnixNano = (\<lambda>_. 0)\<rparr>"

definition demo_artifact :: softwareArtifact where
  "demo_artifact =
     \<lparr>sar_Platform = ''linux'', sar_Arch = ''amd64'', sar_URL = ''https://soha.example/p'',
      sar_SHA256 = hex_EncodeToString (replicate 20 (CHR ''a'') @ replicate 12 (CHR ''b'')), sar_FileName = ''p.deb'',
      sar_Size = 40, sar_Authorization = [], sar_TrustedSource = False\<rparr>"

definition demo_item :: softwareCatalogItem where
  "demo_item = \<lparr>sci_ID = ''p'', sci_Name = ''P'', sci_Description = [], sci_Publisher = ''P'', sci_Category = [],
     sci_Version = ''1'', sci_Artifacts = [demo_artifact]\<rparr>"

lemma demo_software_laws: "file_laws demo_software (\<lambda>w. w)"
  by (simp add: file_laws_def demo_software_def)

theorem opened_installer_is_the_promised_one_witness:
  "((\<exists>result. \<forall>opener. runInstall (demo_software\<lparr>se_openFile := opener\<rparr>) ''t'' demo_item demo_artifact
        (newSoftwareLibrary, (\<lambda>_. None)) = result) \<or>
    (\<exists>path lib w c. w path = Some c \<and> promised_bytes demo_software demo_artifact c \<and>
       (\<forall>opener. runInstall (demo_software\<lparr>se_openFile := Some opener\<rparr>) ''t'' demo_item demo_artifact
          (newSoftwareLibrary, (\<lambda>_. None)) = open_installer ''t'' path lib opener w))) \<and>
   (case runInstall demo_software ''t'' demo_item demo_artifact (newSoftwareLibrary, (\<lambda>_. None)) of
      (lib, w) \<Rightarrow> map_option sit_State (lib_tasks lib ''t'') = Some (Some softwareTaskCompleted) \<and>
        map_option length (w ''opened'') = Some 40)"
  using opened_installer_is_the_promised_one [OF demo_software_laws, of "''t''" demo_item demo_artifact
      "(newSoftwareLibrary, (\<lambda>_. None))"]
  by (rule conjI) code_simp

text \<open>
  A gap: the check of the file name refuses a single dot but not two, unlike the one of the updater. Such a
  package is downloaded, and its final name is the directory above.
\<close>

lemma parent_directory_is_a_file_name:
  "validateSoftwareArtifact (\<lambda>s. s) (demo_artifact\<lparr>sar_FileName := ''..''\<rparr>) = None"
  by code_simp

end
