(* ===== verification/Update_Provider.thy ===== *)
theory Update_Provider
  imports Shell_Config Go_Codec
begin

text \<open>
  The updater's provider (\<open>update_provider.go\<close>): it fetches the signed manifest, offers the release it describes,
  and downloads the release in full or as a patch of the running executable. Ed25519, SHA-256, JSON, files and
  HTTP are interfaces, as are the packages \<open>semver\<close> and \<open>bsdiff\<close>, which are not part of the repository.
\<close>

subsection \<open>Constants\<close>

definition maxUpdateManifestSize :: nat where "maxUpdateManifestSize = 1048576"
definition maxUpdateSignatureSize :: nat where "maxUpdateSignatureSize = 4096"
definition maxUpdateAssetSize :: nat where "maxUpdateAssetSize = 134217728"
definition productionUpdateManifestURL :: string where
  "productionUpdateManifestURL =
     ''https://github.com/opensoha/soha-app/releases/latest/download/update-manifest-v1.json''"

definition updateModeDisabled :: string where "updateModeDisabled = ''disabled''"
definition updateModeTest :: string where "updateModeTest = ''test''"
definition updateModeProduction :: string where "updateModeProduction = ''production''"

text \<open>The wrap-around of an \<open>int64\<close>.\<close>

definition int64 :: "int \<Rightarrow> int" where
  "int64 x = (x + 2 ^ 63) mod 2 ^ 64 - 2 ^ 63"

subsection \<open>Data\<close>

record updateManifestAsset =
  uma_Name :: string
  uma_Size :: int
  uma_SHA256 :: string

record updateManifestDelta =
  umd_FromVersion :: string
  umd_FromSHA256 :: string
  umd_Name :: string
  umd_Size :: int
  umd_SHA256 :: string

record updateManifestTarget =
  umt_InstallMode :: string
  umt_Full :: updateManifestAsset
  umt_Deltas :: "updateManifestDelta list"

text \<open>A map from strings is the list of its entries, with distinct keys.\<close>

record updateManifest =
  um_SchemaVersion :: int
  um_Channel :: string
  um_Version :: string
  um_PublishedAt :: time
  um_Notes :: string
  um_Targets :: "(string \<times> updateManifestTarget) list"

record verifiedUpdateAsset =
  vua_name :: string
  vua_size :: int
  vua_digest :: string
  vua_url :: url

record updateDownloadCandidate =
  udc_full :: verifiedUpdateAsset
  udc_delta :: "verifiedUpdateAsset option"
  udc_executablePath :: string

text \<open>\<open>updater.CheckRequest\<close> and \<open>updater.Release\<close>, whose metadata are the entries the code writes and reads.\<close>

record CheckRequest =
  crq_CurrentVersion :: string
  crq_Platform :: string
  crq_Arch :: string

record release =
  rel_Version :: string
  rel_Channel :: string
  rel_Name :: string
  rel_Notes :: string
  rel_PublishedAt :: time
  rel_Filename :: string
  rel_Filetype :: string
  rel_Size :: int
  rel_Platform :: string
  rel_Arch :: string
  rel_DigestAlgo :: string
  rel_Digest :: string
  rel_installMode :: "string option"
  rel_downloadMode :: "string option"
  rel_releaseURL :: "string option"
  rel_candidate :: "updateDownloadCandidate option"

record update_response = response +
  rs_ContentLength :: int

type_synonym 'w update_client = "request \<Rightarrow> 'w \<Rightarrow> update_response fallible \<times> 'w"

record 'w signedManifestProvider =
  smp_mode :: string
  smp_manifestURL :: url
  smp_publicKey :: string
  smp_client :: "'w update_client"
  smp_executablePath :: string

record 'w update_env =
  ue_Verify :: "string \<Rightarrow> string \<Rightarrow> string \<Rightarrow> bool"
  ue_sha256 :: "string \<Rightarrow> string"
  ue_semver_IsValid :: "string \<Rightarrow> bool"
  ue_semver_Prerelease :: "string \<Rightarrow> string"
  ue_semver_Compare :: "string \<Rightarrow> string \<Rightarrow> int"
  ue_bsdiff_Patch :: "string \<Rightarrow> string \<Rightarrow> string fallible"
  ue_decode_manifest :: "updateManifest decoder"
  ue_decode_any :: "unit decoder"
  ue_Base :: "string \<Rightarrow> string"
  ue_Ext :: "string \<Rightarrow> string"
  ue_Dir :: "string \<Rightarrow> string"
  ue_Separator :: char
  ue_Open :: "string \<Rightarrow> 'w \<Rightarrow> input_stream fallible \<times> 'w"
  ue_CreateTemp :: "string \<Rightarrow> 'w \<Rightarrow> string fallible \<times> 'w"
  ue_CloseTemp :: "string \<Rightarrow> 'w \<Rightarrow> error \<times> 'w"
  ue_Remove :: "string \<Rightarrow> 'w \<Rightarrow> error \<times> 'w"
  ue_ctxErr :: "'w \<Rightarrow> error"

subsection \<open>The provider\<close>

text \<open>\<open>defaultClient\<close> is the client of \<open>newUpdateHTTPClient\<close>, which asks \<open>update_CheckRedirect\<close> before each redirect.\<close>

definition newSignedManifestProvider ::
  "'w update_client \<Rightarrow> string \<Rightarrow> string \<Rightarrow> string \<Rightarrow> 'w update_client option \<Rightarrow> string \<Rightarrow>
     'w signedManifestProvider fallible" where
  "newSignedManifestProvider defaultClient mode manifestURL publicKey client executablePath =
     (if mode \<noteq> updateModeTest \<and> mode \<noteq> updateModeProduction
      then Inl (ErrorNew (''unsupported update mode '' @ mode))
      else if length publicKey \<noteq> 32 then Inl (ErrorNew ''update public key must be Ed25519'')
      else case url_Parse manifestURL of
             None \<Rightarrow> Inl (ErrorNew ''update manifest URL is invalid'')
           | Some u \<Rightarrow>
               if \<not> url_IsAbs u then Inl (ErrorNew ''update manifest URL is invalid'')
               else Inr \<lparr>smp_mode = mode, smp_manifestURL = u, smp_publicKey = publicKey,
                         smp_client = (case client of None \<Rightarrow> defaultClient | Some c \<Rightarrow> c),
                         smp_executablePath = executablePath\<rparr>)"

definition trustedUpdateHost :: "string \<Rightarrow> bool" where
  "trustedUpdateHost host \<longleftrightarrow>
     to_lower host = ''github.com'' \<or> to_lower host = ''objects.githubusercontent.com'' \<or>
     to_lower host = ''release-assets.githubusercontent.com''"

definition update_CheckRedirect :: "request \<Rightarrow> error" where
  "update_CheckRedirect request =
     (if url_Scheme (rq_URL request) \<noteq> ''https'' \<or> \<not> trustedUpdateHost (url_Hostname (rq_URL request))
      then Some (ErrorNew ''update redirect is not trusted'') else None)"

definition update_request :: "url \<Rightarrow> request" where
  "update_request u =
     \<lparr>rq_Method = ''GET'', rq_URL = u, rq_Host = url_Host u,
      rq_Header = header_Set ''Accept'' ''application/octet-stream'' header_empty, rq_Body = None, rq_RemoteAddr = []\<rparr>"

definition provider_fetch :: "'w signedManifestProvider \<Rightarrow> url \<Rightarrow> nat \<Rightarrow> 'w \<Rightarrow> string fallible \<times> 'w" where
  "provider_fetch provider target limit w =
     (case url_Parse (url_text target) of
        None \<Rightarrow> (Inl (ErrorNew ''invalid URL''), w)
      | Some u \<Rightarrow>
          (case smp_client provider (update_request u) w of
             (Inl err, w) \<Rightarrow> (Inl err, w)
           | (Inr response, w) \<Rightarrow>
               (if rs_StatusCode response \<noteq> 200
                then Inl (ErrorNew (''unexpected HTTP status '' @ string_of_int (rs_StatusCode response)))
                else if rs_ContentLength response > int limit
                then Inl (ErrorNew ''update response exceeds size limit'')
                else let (body, err) = read_body (limit + 1) (rs_Body response)
                     in case err of
                          Some err \<Rightarrow> Inl err
                        | None \<Rightarrow> if length body > limit then Inl (ErrorNew ''update response exceeds size limit'')
                                  else Inr body, w)))"

subsection \<open>The manifest\<close>

definition ensureUpdateManifestEOF :: "unit decoder \<Rightarrow> input_stream \<Rightarrow> error" where
  "ensureUpdateManifestEOF decode_any rest =
     (case decode_any rest of
        Inr _ \<Rightarrow> Some (ErrorNew ''update manifest contains trailing JSON'')
      | Inl err \<Rightarrow> if errors_is err EOF then None else Some (ErrWrap ''decode update manifest: '' err))"

definition decodeUpdateManifest :: "'w update_env \<Rightarrow> string \<Rightarrow> updateManifest fallible" where
  "decodeUpdateManifest env body =
     (case ue_decode_manifest env (body, None) of
        Inl err \<Rightarrow> Inl (ErrWrap ''decode update manifest: '' err)
      | Inr (manifest, rest) \<Rightarrow>
          (case ensureUpdateManifestEOF (ue_decode_any env) rest of Some err \<Rightarrow> Inl err | None \<Rightarrow> Inr manifest))"

definition trim_prefix_v :: "string \<Rightarrow> string" where
  "trim_prefix_v s = (if has_prefix s ''v'' then drop 1 s else s)"

definition validateManifest :: "'w update_env \<Rightarrow> 'w signedManifestProvider \<Rightarrow> updateManifest \<Rightarrow> CheckRequest \<Rightarrow> error" where
  "validateManifest env provider manifest request =
     (let expectedChannel = (if smp_mode provider = updateModeProduction then ''stable'' else smp_mode provider);
          version = ''v'' @ um_Version manifest;
          currentVersion = ''v'' @ trim_prefix_v (crq_CurrentVersion request);
          target = crq_Platform request @ ''-'' @ crq_Arch request
      in if um_SchemaVersion manifest \<noteq> 1 then Some (ErrorNew ''update manifest schema is unsupported'')
         else if um_Channel manifest \<noteq> expectedChannel
         then Some (ErrorNew ''update manifest channel does not match this build'')
         else if has_prefix (um_Version manifest) ''v'' \<or> \<not> ue_semver_IsValid env version \<or>
                 \<not> ue_semver_IsValid env currentVersion
         then Some (ErrorNew ''update manifest version is invalid'')
         else if smp_mode provider = updateModeProduction \<and> ue_semver_Prerelease env version \<noteq> []
         then Some (ErrorNew ''stable update manifest contains a prerelease'')
         else if ue_semver_Compare env version currentVersion < 0
         then Some (ErrorNew ''update manifest attempts a downgrade'')
         else if time_IsZero (um_PublishedAt manifest)
         then Some (ErrorNew ''update manifest publication time is invalid'')
         else if target \<noteq> ''windows-amd64'' \<and> target \<noteq> ''darwin-arm64'' \<and> target \<noteq> ''linux-amd64''
         then Some (ErrorNew ''update target is invalid'')
         else None)"

subsection \<open>Assets\<close>

definition expectedUpdateAssetName :: "string \<Rightarrow> string \<Rightarrow> string \<Rightarrow> string" where
  "expectedUpdateAssetName version platform arch =
     ''soha-app-v'' @ version @ ''-'' @ platform @ ''-'' @ arch
       @ (case map_of [(''windows'', ''.exe''), (''darwin'', ''.zip''), (''linux'', ''.deb'')] platform of
            None \<Rightarrow> [] | Some extension \<Rightarrow> extension)"

definition safeUpdateAssetName :: "(string \<Rightarrow> string) \<Rightarrow> string \<Rightarrow> bool" where
  "safeUpdateAssetName base name \<longleftrightarrow>
     name \<noteq> [] \<and> length name \<le> 255 \<and> base name = name \<and> \<not> contains_any name [CHR ''/'', CHR 0x5C] \<and>
     name \<noteq> ''.'' \<and> name \<noteq> ''..''"

definition decodeSHA256 :: "string \<Rightarrow> string fallible" where
  "decodeSHA256 encoded =
     (if length encoded \<noteq> 64 \<or> to_lower encoded \<noteq> encoded
      then Inl (ErrorNew ''SHA-256 digest must be lowercase hexadecimal'')
      else case hex_DecodeString encoded of
             None \<Rightarrow> Inl (ErrorNew ''SHA-256 digest is invalid'')
           | Some digest \<Rightarrow>
               if length digest \<noteq> 32 then Inl (ErrorNew ''SHA-256 digest is invalid'') else Inr digest)"

definition provider_assetURL :: "'w signedManifestProvider \<Rightarrow> string \<Rightarrow> string \<Rightarrow> url fallible" where
  "provider_assetURL provider version name =
     (if smp_mode provider = updateModeProduction
      then (case url_Parse (''https://github.com/opensoha/soha-app/releases/download/v'' @ version @ ''/'' @ name) of
              None \<Rightarrow> Inl (ErrorNew ''invalid URL'') | Some u \<Rightarrow> Inr u)
      else Inr (resolve_path_reference (smp_manifestURL provider) name))"

definition provider_releaseURL :: "'w signedManifestProvider \<Rightarrow> string \<Rightarrow> string" where
  "provider_releaseURL provider version =
     (if smp_mode provider = updateModeProduction
      then ''https://github.com/opensoha/soha-app/releases/tag/v'' @ version
      else url_text (resolve_path_reference (smp_manifestURL provider) ''.''))"

definition verifiedAsset ::
  "'w update_env \<Rightarrow> 'w signedManifestProvider \<Rightarrow> string \<Rightarrow> string \<Rightarrow> string \<Rightarrow> updateManifestAsset \<Rightarrow> string \<Rightarrow>
     verifiedUpdateAsset fallible" where
  "verifiedAsset env provider version platform arch asset fromVersion =
     (if uma_Size asset \<le> 0 \<or> uma_Size asset > int maxUpdateAssetSize then Inl (ErrorNew ''asset size is invalid'')
      else if \<not> safeUpdateAssetName (ue_Base env) (uma_Name asset) then Inl (ErrorNew ''asset name is unsafe'')
      else
        let expectedName =
          (if fromVersion \<noteq> []
           then ''soha-app-v'' @ fromVersion @ ''-to-v'' @ version @ ''-'' @ platform @ ''-'' @ arch @ ''.bsdiff''
           else expectedUpdateAssetName version platform arch)
        in if uma_Name asset \<noteq> expectedName then Inl (ErrorNew ''asset name does not match the release contract'')
           else case decodeSHA256 (uma_SHA256 asset) of
                  Inl err \<Rightarrow> Inl err
                | Inr digest \<Rightarrow>
                    (case provider_assetURL provider version (uma_Name asset) of
                       Inl err \<Rightarrow> Inl err
                     | Inr u \<Rightarrow> Inr \<lparr>vua_name = uma_Name asset, vua_size = uma_Size asset, vua_digest = digest,
                                      vua_url = u\<rparr>))"

text \<open>\<open>subtle.ConstantTimeCompare\<close> tells equality.\<close>

definition verifyAssetBytes :: "'w update_env \<Rightarrow> verifiedUpdateAsset \<Rightarrow> string \<Rightarrow> error" where
  "verifyAssetBytes env asset body =
     (if int (length body) \<noteq> vua_size asset
      then Some (ErrorNew (''update asset size mismatch: got '' @ string_of_nat (length body) @ '' want ''
             @ string_of_int (vua_size asset)))
      else if ue_sha256 env body \<noteq> vua_digest asset then Some (ErrorNew ''update asset digest mismatch'')
      else None)"

subsection \<open>Files\<close>

definition readFileLimited :: "'w update_env \<Rightarrow> string \<Rightarrow> nat \<Rightarrow> 'w \<Rightarrow> string fallible \<times> 'w" where
  "readFileLimited env path limit w =
     (case ue_Open env path w of
        (Inl err, w) \<Rightarrow> (Inl err, w)
      | (Inr file, w) \<Rightarrow>
          (let (content, err) = read_body (limit + 1) file
           in case err of
                Some err \<Rightarrow> Inl err
              | None \<Rightarrow> if length content > limit then Inl (ErrorNew ''file exceeds update size limit'') else Inr content,
           w))"

definition fileSHA256 :: "'w update_env \<Rightarrow> string \<Rightarrow> nat \<Rightarrow> 'w \<Rightarrow> string fallible \<times> 'w" where
  "fileSHA256 env path limit w =
     (case readFileLimited env path limit w of
        (Inl err, w) \<Rightarrow> (Inl err, w) | (Inr content, w) \<Rightarrow> (Inr (ue_sha256 env content), w))"

text \<open>\<open>strings.Index\<close>.\<close>

fun strings_Index :: "string \<Rightarrow> string \<Rightarrow> nat option" where
  "strings_Index [] sub = (if sub = [] then Some 0 else None)"
| "strings_Index (c # s) sub = (if has_prefix (c # s) sub then Some 0 else map_option Suc (strings_Index s sub))"

definition canReplaceExecutable :: "'w update_env \<Rightarrow> string \<Rightarrow> string \<Rightarrow> 'w \<Rightarrow> bool \<times> 'w" where
  "canReplaceExecutable env platform executablePath w =
     (if executablePath = [] then (False, w)
      else
        let target =
          (if platform = ''darwin''
           then (case strings_Index executablePath (''.app'' @ [ue_Separator env]) of
                   None \<Rightarrow> executablePath | Some marker \<Rightarrow> take (marker + 4) executablePath)
           else executablePath)
        in case ue_CreateTemp env (ue_Dir env target) w of
             (Inl _, w) \<Rightarrow> (False, w)
           | (Inr name, w) \<Rightarrow>
               let (closeErr, w) = ue_CloseTemp env name w; (removeErr, w) = ue_Remove env name w
               in (closeErr = None \<and> removeErr = None, w))"

subsection \<open>Patches\<close>

text \<open>A sign and a magnitude, the least significant byte first.\<close>

definition decodeBSDiffInt64 :: "string \<Rightarrow> int" where
  "decodeBSDiffInt64 encoded =
     (let value = foldl (\<lambda>value index. int64 (value * 256 + int (byte_of (encoded ! index))))
                    (int (byte_of (encoded ! 7) mod 128)) [6, 5, 4, 3, 2, 1, 0]
      in if byte_of (encoded ! 7) \<ge> 128 then int64 (- value) else value)"

definition validateBSDiffTargetSize :: "string \<Rightarrow> int \<Rightarrow> error" where
  "validateBSDiffTargetSize patch expected =
     (if length patch < 32 \<or> take 8 patch \<noteq> ''BSDIFF40'' then Some (ErrorNew ''delta patch header is invalid'')
      else
        let newSize = decodeBSDiffInt64 (take 8 (drop 24 patch))
        in if newSize < 0 \<or> newSize > int maxUpdateAssetSize \<or> newSize \<noteq> expected
           then Some (ErrorNew ''delta patch target size is invalid'') else None)"

subsection \<open>The check\<close>

definition sanitizeUpdateProviderError :: "string \<Rightarrow> 'a fallible \<Rightarrow> 'a fallible" where
  "sanitizeUpdateProviderError message result = (case result of Inl _ \<Rightarrow> Inl (ErrorNew message) | Inr x \<Rightarrow> Inr x)"

text \<open>The loop over the deltas: the first one that fits, or the error of one that fits and is invalid.\<close>

fun select_delta ::
  "'w update_env \<Rightarrow> 'w signedManifestProvider \<Rightarrow> string \<Rightarrow> CheckRequest \<Rightarrow> int \<Rightarrow> updateManifestDelta list \<Rightarrow> 'w \<Rightarrow>
     verifiedUpdateAsset option fallible \<times> 'w" where
  "select_delta env provider version request fullSize [] w = (Inr None, w)"
| "select_delta env provider version request fullSize (delta # rest) w =
     (if umd_FromVersion delta \<noteq> crq_CurrentVersion request \<or>
         int64 (umd_Size delta * 100) \<ge> int64 (fullSize * 80)
      then select_delta env provider version request fullSize rest w
      else case decodeSHA256 (umd_FromSHA256 delta) of
             Inl err \<Rightarrow> (Inl (ErrWrap ''invalid delta base digest: '' err), w)
           | Inr fromDigest \<Rightarrow>
               let (currentDigest, w) = fileSHA256 env (smp_executablePath provider) maxUpdateAssetSize w
               in if currentDigest \<noteq> Inr fromDigest
                  then select_delta env provider version request fullSize rest w
                  else case verifiedAsset env provider version (crq_Platform request) (crq_Arch request)
                              \<lparr>uma_Name = umd_Name delta, uma_Size = umd_Size delta, uma_SHA256 = umd_SHA256 delta\<rparr>
                              (umd_FromVersion delta) of
                         Inl err \<Rightarrow> (Inl (ErrWrap ''invalid delta update asset: '' err), w)
                       | Inr verified \<Rightarrow> (Inr (Some verified), w))"

text \<open>The manifest and its signature, up to the verification.\<close>

definition signature_url :: "url \<Rightarrow> url" where
  "signature_url u = u\<lparr>url_Path := url_Path u @ ''.sig''\<rparr>"

definition fetch_signed_manifest :: "'w update_env \<Rightarrow> 'w signedManifestProvider \<Rightarrow> 'w \<Rightarrow> string fallible \<times> 'w" where
  "fetch_signed_manifest env provider w =
     (case provider_fetch provider (smp_manifestURL provider) maxUpdateManifestSize w of
        (Inl err, w) \<Rightarrow> (Inl (ErrWrap ''download update manifest: '' err), w)
      | (Inr manifestBytes, w) \<Rightarrow>
          (case provider_fetch provider (signature_url (smp_manifestURL provider)) maxUpdateSignatureSize w of
             (Inl err, w) \<Rightarrow> (Inl (ErrWrap ''download update manifest signature: '' err), w)
           | (Inr signatureBytes, w) \<Rightarrow>
               (case base64_DecodeString (trim_space signatureBytes) of
                  None \<Rightarrow> Inl (ErrorNew ''update manifest signature is invalid'')
                | Some signature \<Rightarrow>
                    if length signature \<noteq> 64 \<or> \<not> ue_Verify env (smp_publicKey provider) manifestBytes signature
                    then Inl (ErrorNew ''update manifest signature is invalid'') else Inr manifestBytes, w)))"

text \<open>The install mode of a target, and the release that is offered.\<close>

definition install_mode ::
  "'w update_env \<Rightarrow> 'w signedManifestProvider \<Rightarrow> CheckRequest \<Rightarrow> string \<Rightarrow> 'w \<Rightarrow> string fallible \<times> 'w" where
  "install_mode env provider request mode w =
     (if mode \<noteq> ''self'' \<and> mode \<noteq> ''external'' then (Inl (ErrorNew ''update install mode is invalid''), w)
      else if crq_Platform request = ''linux'' then (Inr ''external'', w)
      else if mode = ''self'' then
        let (replaceable, w) = canReplaceExecutable env (crq_Platform request) (smp_executablePath provider) w
        in (Inr (if replaceable then mode else ''external''), w)
      else (Inr mode, w))"

definition offered_release ::
  "'w update_env \<Rightarrow> 'w signedManifestProvider \<Rightarrow> updateManifest \<Rightarrow> CheckRequest \<Rightarrow> string \<Rightarrow> verifiedUpdateAsset \<Rightarrow>
     verifiedUpdateAsset option \<Rightarrow> release" where
  "offered_release env provider manifest request installMode full delta =
     \<lparr>rel_Version = um_Version manifest, rel_Channel = um_Channel manifest, rel_Name = ''Soha '' @ um_Version manifest,
      rel_Notes = um_Notes manifest, rel_PublishedAt = um_PublishedAt manifest, rel_Filename = vua_name full,
      rel_Filetype = ue_Ext env (vua_name full), rel_Size = vua_size full, rel_Platform = crq_Platform request,
      rel_Arch = crq_Arch request, rel_DigestAlgo = ''sha256'', rel_Digest = vua_digest full,
      rel_installMode = Some installMode,
      rel_downloadMode = Some (if delta = None then ''full'' else ''delta''),
      rel_releaseURL = Some (provider_releaseURL provider (um_Version manifest)),
      rel_candidate = Some \<lparr>udc_full = full, udc_delta = delta, udc_executablePath = smp_executablePath provider\<rparr>\<rparr>"

definition check_manifest ::
  "'w update_env \<Rightarrow> 'w signedManifestProvider \<Rightarrow> CheckRequest \<Rightarrow> updateManifest \<Rightarrow> 'w \<Rightarrow> release option fallible \<times> 'w" where
  "check_manifest env provider request manifest w =
     (case validateManifest env provider manifest request of
        Some err \<Rightarrow> (Inl err, w)
      | None \<Rightarrow>
          if ue_semver_Compare env (''v'' @ um_Version manifest)
               (''v'' @ trim_prefix_v (crq_CurrentVersion request)) = 0 then (Inr None, w)
          else case map_of (um_Targets manifest) (crq_Platform request @ ''-'' @ crq_Arch request) of
                 None \<Rightarrow> (Inl (ErrorNew ''update manifest does not contain this platform''), w)
               | Some target \<Rightarrow>
                   (case verifiedAsset env provider (um_Version manifest) (crq_Platform request) (crq_Arch request)
                           (umt_Full target) [] of
                      Inl err \<Rightarrow> (Inl (ErrWrap ''invalid full update asset: '' err), w)
                    | Inr full \<Rightarrow>
                        (case install_mode env provider request (umt_InstallMode target) w of
                           (Inl err, w) \<Rightarrow> (Inl err, w)
                         | (Inr installMode, w) \<Rightarrow>
                             (case (if installMode = ''self'' \<and> crq_Platform request = ''windows'' \<and>
                                       crq_Arch request = ''amd64''
                                    then select_delta env provider (um_Version manifest) request (vua_size full)
                                           (umt_Deltas target) w
                                    else (Inr None, w)) of
                                (Inl err, w) \<Rightarrow> (Inl err, w)
                              | (Inr delta, w) \<Rightarrow>
                                  (Inr (Some (offered_release env provider manifest request installMode full delta)), w)))))"

definition provider_Check ::
  "'w update_env \<Rightarrow> 'w signedManifestProvider \<Rightarrow> CheckRequest \<Rightarrow> 'w \<Rightarrow> release option fallible \<times> 'w" where
  "provider_Check env provider request w =
     (let (result, w) =
        (case fetch_signed_manifest env provider w of
           (Inl err, w) \<Rightarrow> (Inl err, w)
         | (Inr manifestBytes, w) \<Rightarrow>
             (case decodeUpdateManifest env manifestBytes of
                Inl err \<Rightarrow> (Inl err, w)
              | Inr manifest \<Rightarrow> check_manifest env provider request manifest w))
      in (sanitizeUpdateProviderError ''update check failed'' result, w))"

subsection \<open>The download\<close>

definition downloadVerifiedAsset ::
  "'w update_env \<Rightarrow> 'w signedManifestProvider \<Rightarrow> verifiedUpdateAsset \<Rightarrow> (int \<Rightarrow> int \<Rightarrow> 'w \<Rightarrow> 'w) \<Rightarrow> 'w \<Rightarrow>
     string fallible \<times> 'w" where
  "downloadVerifiedAsset env provider asset progress w =
     (case provider_fetch provider (vua_url asset) maxUpdateAssetSize w of
        (Inl err, w) \<Rightarrow> (Inl err, w)
      | (Inr body, w) \<Rightarrow>
          (case verifyAssetBytes env asset body of
             Some err \<Rightarrow> (Inl err, w)
           | None \<Rightarrow> (Inr body, progress (int (length body)) (vua_size asset) w)))"

definition applyDelta ::
  "'w update_env \<Rightarrow> 'w signedManifestProvider \<Rightarrow> updateDownloadCandidate \<Rightarrow> verifiedUpdateAsset \<Rightarrow>
     (int \<Rightarrow> int \<Rightarrow> 'w \<Rightarrow> 'w) \<Rightarrow> 'w \<Rightarrow> string fallible \<times> 'w" where
  "applyDelta env provider candidate delta progress w =
     (case downloadVerifiedAsset env provider delta progress w of
        (Inl err, w) \<Rightarrow> (Inl err, w)
      | (Inr patch, w) \<Rightarrow>
          (case validateBSDiffTargetSize patch (vua_size (udc_full candidate)) of
             Some err \<Rightarrow> (Inl err, w)
           | None \<Rightarrow>
               (case readFileLimited env (udc_executablePath candidate) maxUpdateAssetSize w of
                  (Inl err, w) \<Rightarrow> (Inl err, w)
                | (Inr oldBinary, w) \<Rightarrow>
                    (case ue_ctxErr env w of
                       Some err \<Rightarrow> (Inl err, w)
                     | None \<Rightarrow>
                         (case ue_bsdiff_Patch env oldBinary patch of
                            Inl err \<Rightarrow> (Inl err, w)
                          | Inr target \<Rightarrow>
                              (case verifyAssetBytes env (udc_full candidate) target of
                                 Some err \<Rightarrow> (Inl err, w)
                               | None \<Rightarrow> (Inr target, w)))))))"

text \<open>\<open>io.Copy\<close> from a \<open>bytes.Reader\<close>, which writes its bytes at once.\<close>

definition copy_bytes :: "(string \<Rightarrow> 'w \<Rightarrow> (nat \<times> error) \<times> 'w) \<Rightarrow> string \<Rightarrow> 'w \<Rightarrow> error \<times> 'w" where
  "copy_bytes destination body w =
     (if body = [] then (None, w)
      else let ((n, err), w) = destination body w
           in (if n \<noteq> length body \<and> err = None then Some (ErrorNew ''short write'') else err, w))"

definition provider_Download ::
  "'w update_env \<Rightarrow> 'w signedManifestProvider \<Rightarrow> release \<Rightarrow> (string \<Rightarrow> 'w \<Rightarrow> (nat \<times> error) \<times> 'w) \<Rightarrow>
     (int \<Rightarrow> int \<Rightarrow> 'w \<Rightarrow> 'w) \<Rightarrow> 'w \<Rightarrow> error \<times> 'w" where
  "provider_Download env provider rel destination progress w =
     (let (result, w) =
        (case rel_candidate rel of
           None \<Rightarrow> (Some (ErrorNew ''update release is missing download metadata''), w)
         | Some candidate \<Rightarrow>
             (case (case udc_delta candidate of
                      None \<Rightarrow> (Inl (ErrorNew ''no delta''), w)
                    | Some delta \<Rightarrow> applyDelta env provider candidate delta progress w) of
                (Inr target, w) \<Rightarrow> copy_bytes destination target w
              | (Inl _, w) \<Rightarrow>
                  (case downloadVerifiedAsset env provider (udc_full candidate) progress w of
                     (Inl err, w) \<Rightarrow> (Some (ErrWrap ''download full update: '' err), w)
                   | (Inr full, w) \<Rightarrow> copy_bytes destination full w)))
      in (if result \<noteq> None then Some (ErrorNew ''update download failed'') else None, w))"

end
