(* ===== verification/Update_Safety.thy ===== *)
theory Update_Safety
  imports Update_Provider
begin

text \<open>
  What the updater guarantees: a release is offered only from a manifest with a valid signature and only when it
  is newer, a download writes nothing but the bytes that manifest promises, also when they come from a patch,
  and a patch is only used on the executable it was made for.
\<close>

subsection \<open>Integers of patches\<close>

lemma int64_id: "- (2 ^ 63) \<le> x \<Longrightarrow> x < 2 ^ 63 \<Longrightarrow> int64 x = x"
  by (simp add: int64_def)

text \<open>No step of the loop wraps around.\<close>

lemma fold_bytes:
  assumes "\<forall>b \<in> set bs. b < 256" "v < 128 * 256 ^ k" "k + length bs \<le> 7"
  shows "foldl (\<lambda>v b. int64 (v * 256 + int b)) (int v) bs = int (foldl (\<lambda>v b. v * 256 + b) v bs)"
  using assms
proof (induction bs arbitrary: v k)
  case (Cons b bs)
  have less: "v * 256 + b < 128 * 256 ^ Suc k"
  proof -
    have "Suc v \<le> 128 * 256 ^ k" using Cons.prems(2) by simp
    then have "Suc v * 256 \<le> 128 * 256 ^ Suc k" by simp
    then show ?thesis using Cons.prems(1) by simp
  qed
  have "(256::nat) ^ Suc k \<le> 256 ^ 7" by (rule power_increasing) (use Cons.prems(3) in simp_all)
  then have "v * 256 + b < 2 ^ 63" using less by simp
  then have "int (v * 256 + b) < 2 ^ 63" by (metis of_nat_less_iff of_nat_numeral of_nat_power)
  then have "int64 (int v * 256 + int b) = int (v * 256 + b)" by (simp add: int64_id)
  then show ?case using Cons.IH [OF _ less] Cons.prems by simp
qed simp

lemma horner_digits:
  "foldl (\<lambda>v b. v * 256 + b) (m div 256 ^ k) (map (\<lambda>i. m div 256 ^ i mod 256) (rev [0..<k])) = (m::nat)"
proof (induction k)
  case (Suc k)
  have "m div 256 ^ Suc k * 256 + m div 256 ^ k mod 256 = m div 256 ^ k"
    by (simp add: div_mult2_eq mult.commute [of 256])
  with Suc show ?case by simp
qed simp

text \<open>The encoding that the format prescribes, for the round trip.\<close>

definition encodeBSDiffInt64 :: "int \<Rightarrow> string" where
  "encodeBSDiffInt64 v =
     (let m = nat \<bar>v\<bar>
      in map (\<lambda>i. char_of (m div 256 ^ i mod 256)) [0..<7] @ [char_of (m div 256 ^ 7 + (if v < 0 then 128 else 0))])"

text \<open>The size field of a patch is read back exactly: decoding the sign and magnitude of any integer below
  2^63 in absolute value gives that integer, with no step of the loop wrapping around.\<close>

theorem BSDiffInt64_round_trip:
  assumes "\<bar>v\<bar> < 2 ^ 63"
  shows "decodeBSDiffInt64 (encodeBSDiffInt64 v) = v"
proof -
  define m where "m = nat \<bar>v\<bar>"
  have "int m < 2 ^ 63" using assms by (simp add: m_def)
  then have m: "m < 2 ^ 63" by (metis of_nat_less_iff of_nat_numeral of_nat_power)
  then have top: "m div 256 ^ 7 < 128" by (simp add: div_less_iff_less_mult)
  let ?enc = "encodeBSDiffInt64 v"
  have digit: "byte_of (?enc ! i) = m div 256 ^ i mod 256" if "i < 7" for i
    using that by (simp add: encodeBSDiffInt64_def Let_def m_def [symmetric] nth_append byte_of_def)
  have last: "byte_of (?enc ! 7) = m div 256 ^ 7 + (if v < 0 then 128 else 0)"
    using top by (simp add: encodeBSDiffInt64_def Let_def m_def [symmetric] nth_append byte_of_def)
  have bytes: "map (\<lambda>i. byte_of (?enc ! i)) [6, 5, 4, 3, 2, 1, 0] = map (\<lambda>i. m div 256 ^ i mod 256) (rev [0..<7])"
    using digit by (simp add: upt_rec)
  have "foldl (\<lambda>value i. int64 (value * 256 + int (byte_of (?enc ! i)))) (int (byte_of (?enc ! 7) mod 128)) [6, 5, 4, 3, 2, 1, 0] =
      foldl (\<lambda>v b. int64 (v * 256 + int b)) (int (m div 256 ^ 7)) (map (\<lambda>i. byte_of (?enc ! i)) [6, 5, 4, 3, 2, 1, 0])"
    using last top by (simp add: mod_if)
  also have "\<dots> = int (foldl (\<lambda>v b. v * 256 + b) (m div 256 ^ 7) (map (\<lambda>i. byte_of (?enc ! i)) [6, 5, 4, 3, 2, 1, 0]))"
    by (rule fold_bytes [where k = 0]) (use top in auto)
  also have "\<dots> = int m" unfolding bytes horner_digits ..
  finally have v: "foldl (\<lambda>value i. int64 (value * 256 + int (byte_of (?enc ! i)))) (int (byte_of (?enc ! 7) mod 128))
      [6, 5, 4, 3, 2, 1, 0] = int m" .
  have "int64 (- int m) = - int m" by (rule int64_id) (use \<open>int m < 2 ^ 63\<close> in simp_all)
  moreover have "decodeBSDiffInt64 ?enc = (if byte_of (?enc ! 7) \<ge> 128 then int64 (- int m) else int m)"
    unfolding decodeBSDiffInt64_def v Let_def ..
  moreover have "byte_of (?enc ! 7) \<ge> 128 \<longleftrightarrow> v < 0" using last top by simp
  ultimately show ?thesis by (auto simp: m_def abs_if split: if_splits)
qed

theorem BSDiffInt64_round_trip_witness:
  "decodeBSDiffInt64 (encodeBSDiffInt64 (- 9223372036854775807)) = - 9223372036854775807 \<and>
   decodeBSDiffInt64 [CHR 0x02, CHR 0x01, CHR 0x00, CHR 0x00, CHR 0x00, CHR 0x00, CHR 0x00, CHR 0x80] = - 258"
proof
  show "decodeBSDiffInt64 (encodeBSDiffInt64 (- 9223372036854775807)) = - 9223372036854775807"
    by (rule BSDiffInt64_round_trip) simp
  show "decodeBSDiffInt64 [CHR 0x02, CHR 0x01, CHR 0x00, CHR 0x00, CHR 0x00, CHR 0x00, CHR 0x00, CHR 0x80] = - 258"
    by code_simp
qed

subsection \<open>What a check offers\<close>

lemma decodeSHA256_Inr: "decodeSHA256 encoded = Inr digest \<Longrightarrow> hex_EncodeToString digest = encoded"
  by (auto simp: decodeSHA256_def intro: hex_DecodeString_lower split: if_splits option.splits)

lemma verifiedAsset_Inr:
  assumes "verifiedAsset env provider version platform arch asset fromVersion = Inr verified"
  shows "vua_size verified = uma_Size asset" "hex_EncodeToString (vua_digest verified) = uma_SHA256 asset"
    "vua_name verified = uma_Name asset" "0 < vua_size verified" "vua_size verified \<le> int maxUpdateAssetSize"
    "provider_assetURL provider version (uma_Name asset) = Inr (vua_url verified)"
  using assms
  by (auto simp: verifiedAsset_def Let_def dest: decodeSHA256_Inr split: if_splits sum.splits)

definition signed_manifest :: "'w update_env \<Rightarrow> 'w signedManifestProvider \<Rightarrow> updateManifest \<Rightarrow> bool" where
  "signed_manifest env provider manifest \<longleftrightarrow>
     (\<exists>manifestBytes signature. ue_Verify env (smp_publicKey provider) manifestBytes signature \<and>
        decodeUpdateManifest env manifestBytes = Inr manifest)"

definition version_order :: "'w update_env \<Rightarrow> updateManifest \<Rightarrow> CheckRequest \<Rightarrow> int" where
  "version_order env manifest request =
     ue_semver_Compare env (''v'' @ um_Version manifest) (''v'' @ trim_prefix_v (crq_CurrentVersion request))"

lemma fetch_signed_manifest_Inr:
  assumes "fetch_signed_manifest env provider w = (Inr manifestBytes, w')"
  shows "\<exists>signature. ue_Verify env (smp_publicKey provider) manifestBytes signature"
  using assms by (auto simp: fetch_signed_manifest_def split: prod.splits sum.splits option.splits if_splits)

lemma validateManifest_None:
  assumes "validateManifest env provider manifest request = None"
  shows "0 \<le> version_order env manifest request"
  using assms by (simp add: validateManifest_def version_order_def Let_def split: if_splits)

lemma check_manifest_Some:
  assumes "check_manifest env provider request manifest w = (Inr (Some rel), w')"
  obtains target full installMode delta w1 where "0 < version_order env manifest request"
    and "map_of (um_Targets manifest) (crq_Platform request @ ''-'' @ crq_Arch request) = Some (target :: updateManifestTarget)"
    and "verifiedAsset env provider (um_Version manifest) (crq_Platform request) (crq_Arch request) (umt_Full target) [] = Inr full"
    and "install_mode env provider request (umt_InstallMode target) w = (Inr installMode, w1)"
    and "rel = offered_release env provider manifest request installMode full delta"
    and "(if installMode = ''self'' \<and> crq_Platform request = ''windows'' \<and> crq_Arch request = ''amd64''
          then select_delta env provider (um_Version manifest) request (vua_size full) (umt_Deltas target) w1
          else (Inr None, w1)) = (Inr delta, w')"
proof -
  have valid: "validateManifest env provider manifest request = None"
    using assms by (auto simp: check_manifest_def split: option.splits)
  have newer: "version_order env manifest request \<noteq> 0"
    using assms valid by (auto simp: check_manifest_def version_order_def split: if_splits)
  obtain target where t: "map_of (um_Targets manifest) (crq_Platform request @ ''-'' @ crq_Arch request) = Some (target :: updateManifestTarget)"
    using assms valid newer by (fastforce simp: check_manifest_def version_order_def split: option.splits if_splits)
  note run = assms [unfolded check_manifest_def valid option.case
      if_not_P [OF newer [unfolded version_order_def]] t]
  obtain full where f: "verifiedAsset env provider (um_Version manifest) (crq_Platform request) (crq_Arch request)
      (umt_Full target) [] = Inr full"
    using run by (auto split: sum.splits)
  obtain im w1 where i: "install_mode env provider request (umt_InstallMode target) w = (im, w1)" by fastforce
  obtain installMode where im: "im = Inr installMode" using run by (cases im) (auto simp: f i)
  obtain d w2 where d: "(if installMode = ''self'' \<and> crq_Platform request = ''windows'' \<and> crq_Arch request = ''amd64''
      then select_delta env provider (um_Version manifest) request (vua_size full) (umt_Deltas target) w1
      else (Inr None, w1)) = (d, w2)" by fastforce
  obtain delta where delta: "d = Inr delta" using run by (cases d) (auto simp: f i im d)
  have "rel = offered_release env provider manifest request installMode full delta" "w2 = w'"
    using run by (auto simp: f i im d delta)
  then show thesis
    using that [OF _ t f i [unfolded im], of delta] d delta newer validateManifest_None [OF valid] by auto
qed

lemma provider_Check_Some:
  assumes "provider_Check env provider request w = (Inr (Some rel), w')"
  obtains manifestBytes w1 manifest where "fetch_signed_manifest env provider w = (Inr manifestBytes, w1)"
    and "decodeUpdateManifest env manifestBytes = Inr manifest" and "signed_manifest env provider manifest"
    and "check_manifest env provider request manifest w1 = (Inr (Some rel), w')"
proof -
  obtain f w1 where f: "fetch_signed_manifest env provider w = (f, w1)" by fastforce
  obtain manifestBytes where mb: "f = Inr manifestBytes"
    using assms by (cases f) (auto simp: provider_Check_def f sanitizeUpdateProviderError_def)
  obtain manifest where m: "decodeUpdateManifest env manifestBytes = Inr manifest"
    using assms by (cases "decodeUpdateManifest env manifestBytes")
      (auto simp: provider_Check_def f mb sanitizeUpdateProviderError_def)
  have "check_manifest env provider request manifest w1 = (Inr (Some rel), w')"
    using assms by (auto simp: provider_Check_def f mb m sanitizeUpdateProviderError_def split: prod.splits sum.splits)
  moreover have "signed_manifest env provider manifest"
    using fetch_signed_manifest_Inr [OF f [unfolded mb]] m by (auto simp: signed_manifest_def)
  ultimately show thesis using that f mb m by blast
qed

subsection \<open>What a download writes\<close>

lemma downloadVerifiedAsset_Inr:
  "downloadVerifiedAsset env provider asset progress w = (Inr body, w') \<Longrightarrow> verifyAssetBytes env asset body = None"
  by (auto simp: downloadVerifiedAsset_def split: prod.splits sum.splits option.splits)

lemma applyDelta_Inr:
  assumes "applyDelta env provider candidate delta progress w = (Inr target, w')"
  shows "verifyAssetBytes env (udc_full candidate) target = None"
  using assms unfolding applyDelta_def by (auto split: prod.splits sum.splits option.splits)

lemma provider_Download_verified:
  "(\<exists>err w'. \<forall>destination. provider_Download env provider rel destination progress w = (Some err, w')) \<or>
   (\<exists>candidate body w'. rel_candidate rel = Some candidate \<and> verifyAssetBytes env (udc_full candidate) body = None \<and>
      (\<forall>destination. provider_Download env provider rel destination progress w =
         (case copy_bytes destination body w' of (err, w'') \<Rightarrow>
            (if err \<noteq> None then Some (ErrorNew ''update download failed'') else None, w''))))"
proof (cases "rel_candidate rel")
  case None
  then show ?thesis by (simp add: provider_Download_def)
next
  case (Some candidate)
  obtain patched w1 where p: "(case udc_delta candidate of
      None \<Rightarrow> (Inl (ErrorNew ''no delta''), w)
    | Some delta \<Rightarrow> applyDelta env provider candidate delta progress w) = (patched, w1)" by fastforce
  show ?thesis
  proof (cases patched)
    case (Inr target)
    then have "verifyAssetBytes env (udc_full candidate) target = None"
      using p by (cases "udc_delta candidate") (auto dest: applyDelta_Inr)
    then show ?thesis using Some Inr by (auto simp: provider_Download_def p)
  next
    case (Inl err)
    obtain full w2 where f: "downloadVerifiedAsset env provider (udc_full candidate) progress w1 = (full, w2)" by fastforce
    show ?thesis
    proof (cases full)
      case (Inl e)
      then show ?thesis using Some \<open>patched = Inl err\<close> by (auto simp: provider_Download_def p f)
    next
      case (Inr body)
      then show ?thesis using Some \<open>patched = Inl err\<close> downloadVerifiedAsset_Inr [OF f [unfolded Inr]]
        by (auto simp: provider_Download_def p f)
    qed
  qed
qed

subsection \<open>Properties\<close>

text \<open>What a caller of \<open>Download\<close> gets when the bytes are handed to its writer.\<close>

definition delivered :: "(string \<Rightarrow> 'w \<Rightarrow> (nat \<times> error) \<times> 'w) \<Rightarrow> string \<Rightarrow> 'w \<Rightarrow> error \<times> 'w" where
  "delivered destination body w =
     (case copy_bytes destination body w of (err, w') \<Rightarrow>
        (if err \<noteq> None then Some (ErrorNew ''update download failed'') else None, w'))"

definition promised_update :: "'w update_env \<Rightarrow> updateManifestTarget \<Rightarrow> string \<Rightarrow> bool" where
  "promised_update env target body \<longleftrightarrow>
     int (length body) = uma_Size (umt_Full target) \<and>
     hex_EncodeToString (ue_sha256 env body) = uma_SHA256 (umt_Full target)"

text \<open>C5: A release is offered only from a manifest with a valid signature of the built-in key, for this platform and a
  newer version; and whenever it is then downloaded, in full or as a patch, the download either fails without a
  byte written, or writes one text, which has the size and the SHA-256 that the signed manifest promises.\<close>

theorem update_writes_only_signed_bytes:
  assumes "provider_Check env provider request w = (Inr (Some rel), w1)"
  shows "\<exists>manifest target. signed_manifest env provider manifest \<and> rel_Version rel = um_Version manifest \<and>
      0 < version_order env manifest request \<and>
      map_of (um_Targets manifest) (crq_Platform request @ ''-'' @ crq_Arch request) = Some target \<and>
      ((\<exists>err w'. \<forall>destination. provider_Download env provider rel destination progress w2 = (Some err, w')) \<or>
       (\<exists>body w'. promised_update env target body \<and>
          (\<forall>destination. provider_Download env provider rel destination progress w2 = delivered destination body w')))"
proof -
  obtain manifestBytes w3 manifest where signed: "signed_manifest env provider manifest"
    and c: "check_manifest env provider request manifest w3 = (Inr (Some rel), w1)"
    by (rule provider_Check_Some [OF assms])
  obtain target full installMode delta where newer: "0 < version_order env manifest request"
    and t: "map_of (um_Targets manifest) (crq_Platform request @ ''-'' @ crq_Arch request) = Some (target :: updateManifestTarget)"
    and f: "verifiedAsset env provider (um_Version manifest) (crq_Platform request) (crq_Arch request) (umt_Full target) [] = Inr full"
    and rel: "rel = offered_release env provider manifest request installMode full delta"
    by (rule check_manifest_Some [OF c])
  have cand: "rel_candidate rel = Some candidate \<Longrightarrow> udc_full candidate = full" for candidate
    by (auto simp: rel offered_release_def)
  have promised: "promised_update env target body" if "verifyAssetBytes env full body = None" for body
    using that verifiedAsset_Inr(1,2) [OF f]
    by (auto simp: verifyAssetBytes_def promised_update_def split: if_splits)
  have "(\<exists>err w'. \<forall>destination. provider_Download env provider rel destination progress w2 = (Some err, w')) \<or>
       (\<exists>body w'. promised_update env target body \<and>
          (\<forall>destination. provider_Download env provider rel destination progress w2 = delivered destination body w'))"
    using provider_Download_verified [of env provider rel progress w2] cand promised
    unfolding delivered_def by metis
  moreover have "rel_Version rel = um_Version manifest" by (simp add: rel offered_release_def)
  ultimately show ?thesis using signed newer t by blast
qed

lemma select_delta_Some:
  assumes "select_delta env provider version request fullSize deltas w = (Inr (Some verified), w')"
  obtains delta content w1 where "delta \<in> set (deltas :: updateManifestDelta list)"
    and "umd_FromVersion delta = crq_CurrentVersion request"
    and "int64 (umd_Size delta * 100) < int64 (fullSize * 80)"
    and "readFileLimited env (smp_executablePath provider) maxUpdateAssetSize w1 = (Inr content, w')"
    and "hex_EncodeToString (ue_sha256 env content) = umd_FromSHA256 delta"
    and "vua_size verified = umd_Size delta" "0 < vua_size verified" "vua_size verified \<le> int maxUpdateAssetSize"
  using assms
proof (induction deltas arbitrary: w thesis)
  case (Cons delta deltas)
  show ?case
  proof (cases "umd_FromVersion delta \<noteq> crq_CurrentVersion request \<or> int64 (umd_Size delta * 100) \<ge> int64 (fullSize * 80)")
    case True
    with Cons.prems(2) have "select_delta env provider version request fullSize deltas w = (Inr (Some verified), w')" by simp
    then show thesis by (rule Cons.IH [rotated]) (rule Cons.prems(1), auto)
  next
    case fits: False
    note step = Cons.prems(2) [unfolded select_delta.simps if_not_P [OF fits]]
    obtain fromDigest where d: "decodeSHA256 (umd_FromSHA256 delta) = Inr fromDigest" using step by (auto split: sum.splits)
    obtain current w2 where s: "fileSHA256 env (smp_executablePath provider) maxUpdateAssetSize w = (current, w2)" by fastforce
    show thesis
    proof (cases "current = Inr fromDigest")
      case False
      then have "select_delta env provider version request fullSize deltas w2 = (Inr (Some verified), w')"
        using step by (simp add: d s)
      then show thesis by (rule Cons.IH [rotated]) (rule Cons.prems(1), auto)
    next
      case True
      obtain r where v: "verifiedAsset env provider version (crq_Platform request) (crq_Arch request)
          \<lparr>uma_Name = umd_Name delta, uma_Size = umd_Size delta, uma_SHA256 = umd_SHA256 delta\<rparr>
          (umd_FromVersion delta) = Inr r" and r: "r = verified" "w2 = w'"
        using step by (auto simp: d s True split: sum.splits)
      obtain content where read: "readFileLimited env (smp_executablePath provider) maxUpdateAssetSize w = (Inr content, w2)"
        and content: "ue_sha256 env content = fromDigest"
        using s True by (auto simp: fileSHA256_def split: prod.splits sum.splits)
      show thesis
        by (rule Cons.prems(1) [OF _ _ _ read [unfolded r]])
          (use fits decodeSHA256_Inr [OF d] verifiedAsset_Inr [OF v] content r in auto)
    qed
  qed
qed simp

text \<open>C21: A patch is offered only on Windows in the self-installing mode, only for a running executable that has the
  digest the signed manifest names for this current version, and only when it is smaller than four fifths of
  the full executable, with no wrap-around in that comparison.\<close>

theorem patch_only_for_the_running_executable:
  assumes "provider_Check env provider request w = (Inr (Some rel), w1)"
    and "rel_candidate rel = Some candidate" and "udc_delta candidate = Some patch"
  shows "crq_Platform request = ''windows'' \<and> rel_installMode rel = Some ''self'' \<and>
    vua_size patch * 100 < vua_size (udc_full candidate) * 80 \<and>
    (\<exists>manifest target delta content w2. signed_manifest env provider manifest \<and>
       map_of (um_Targets manifest) ''windows-amd64'' = Some target \<and> delta \<in> set (umt_Deltas target) \<and>
       umd_FromVersion delta = crq_CurrentVersion request \<and>
       readFileLimited env (smp_executablePath provider) maxUpdateAssetSize w2 = (Inr content, w1) \<and>
       hex_EncodeToString (ue_sha256 env content) = umd_FromSHA256 delta)"
proof -
  obtain manifestBytes w3 manifest where signed: "signed_manifest env provider manifest"
    and c: "check_manifest env provider request manifest w3 = (Inr (Some rel), w1)"
    by (rule provider_Check_Some [OF assms(1)])
  obtain target full installMode delta w4 where
    t: "map_of (um_Targets manifest) (crq_Platform request @ ''-'' @ crq_Arch request) = Some (target :: updateManifestTarget)"
    and f: "verifiedAsset env provider (um_Version manifest) (crq_Platform request) (crq_Arch request) (umt_Full target) [] = Inr full"
    and rel: "rel = offered_release env provider manifest request installMode full delta"
    and d: "(if installMode = ''self'' \<and> crq_Platform request = ''windows'' \<and> crq_Arch request = ''amd64''
          then select_delta env provider (um_Version manifest) request (vua_size full) (umt_Deltas target) w4
          else (Inr None, w4)) = (Inr delta, w1)"
    by (rule check_manifest_Some [OF c])
  have candidate: "candidate = \<lparr>udc_full = full, udc_delta = delta, udc_executablePath = smp_executablePath provider\<rparr>"
    and delta: "delta = Some patch"
    using assms(2,3) by (auto simp: rel offered_release_def)
  have mode: "installMode = ''self''" "crq_Platform request = ''windows''" "crq_Arch request = ''amd64''"
    using d delta by (auto split: if_splits)
  then have s: "select_delta env provider (um_Version manifest) request (vua_size full) (umt_Deltas target) w4 =
      (Inr (Some patch), w1)" using d delta by simp
  obtain entry content w5 where e: "entry \<in> set (umt_Deltas target)" "umd_FromVersion entry = crq_CurrentVersion request"
    and small: "int64 (umd_Size entry * 100) < int64 (vua_size full * 80)"
    and read: "readFileLimited env (smp_executablePath provider) maxUpdateAssetSize w5 = (Inr content, w1)"
    and hash: "hex_EncodeToString (ue_sha256 env content) = umd_FromSHA256 entry"
    and len: "vua_size patch = umd_Size entry" "0 < vua_size patch" "vua_size patch \<le> int maxUpdateAssetSize"
    by (rule select_delta_Some [OF s])
  have "int64 (umd_Size entry * 100) = umd_Size entry * 100" "int64 (vua_size full * 80) = vua_size full * 80"
    by (rule int64_id; use len verifiedAsset_Inr(4,5) [OF f] in \<open>simp add: maxUpdateAssetSize_def\<close>)+
  then have "vua_size patch * 100 < vua_size full * 80" using small len by simp
  moreover have "map_of (um_Targets manifest) ''windows-amd64'' = Some target" using t mode by simp
  ultimately show ?thesis
    using mode signed e read hash unfolding candidate
    by (simp add: rel offered_release_def del: ex_simps) blast
qed

text \<open>A target in the external mode is offered in full, on every platform.\<close>

lemma external_target_has_no_patch:
  assumes "check_manifest env provider request manifest w = (Inr (Some rel), w')"
    and "map_of (um_Targets manifest) (crq_Platform request @ ''-'' @ crq_Arch request) = Some target"
    and "umt_InstallMode target = ''external''"
  shows "rel_downloadMode rel = Some ''full''"
  by (rule check_manifest_Some [OF assms(1)])
    (use assms(2,3) in \<open>auto simp: install_mode_def offered_release_def split: if_splits\<close>)

subsection \<open>A concrete update\<close>

text \<open>
  The world is what was written. The manifest has one Windows target with a patch from the executable \<open>old\<close>; its
  server answers the four requests by their paths, and a digest is the beginning of the bytes.
\<close>

definition demo_sha256 :: "string \<Rightarrow> string" where
  "demo_sha256 s = take 32 (s @ replicate 32 (CHR ''z''))"

definition demo_full :: string where "demo_full = replicate 100 (CHR ''n'')"

definition demo_patch :: string where
  "demo_patch = ''BSDIFF40'' @ replicate 16 (CHR ''x'') @ encodeBSDiffInt64 100 @ replicate 8 (CHR ''y'')"

definition demo_delta :: updateManifestDelta where
  "demo_delta =
     \<lparr>umd_FromVersion = ''1.0.0'', umd_FromSHA256 = hex_EncodeToString (demo_sha256 ''old''),
      umd_Name = ''soha-app-v1.0.0-to-v1.1.0-windows-amd64.bsdiff'', umd_Size = 40,
      umd_SHA256 = hex_EncodeToString (demo_sha256 demo_patch)\<rparr>"

definition demo_target :: updateManifestTarget where
  "demo_target =
     \<lparr>umt_InstallMode = ''self'',
      umt_Full = \<lparr>uma_Name = ''soha-app-v1.1.0-windows-amd64.exe'', uma_Size = 100,
                  uma_SHA256 = hex_EncodeToString (demo_sha256 demo_full)\<rparr>,
      umt_Deltas = [demo_delta]\<rparr>"

definition demo_manifest :: updateManifest where
  "demo_manifest =
     \<lparr>um_SchemaVersion = 1, um_Channel = ''test'', um_Version = ''1.1.0'', um_PublishedAt = 1, um_Notes = [],
      um_Targets = [(''windows-amd64'', demo_target)]\<rparr>"

definition demo_update_env :: "string update_env" where
  "demo_update_env =
     \<lparr>ue_Verify = (\<lambda>key message signature. signature = replicate 64 (CHR ''s'')), ue_sha256 = demo_sha256,
      ue_semver_IsValid = (\<lambda>_. True), ue_semver_Prerelease = (\<lambda>_. []),
      ue_semver_Compare = (\<lambda>v w. if v = w then 0 else if v = ''v1.1.0'' then 1 else -1),
      ue_bsdiff_Patch = (\<lambda>old patch. if old = ''old'' then Inr demo_full else Inl EOF),
      ue_decode_manifest = (\<lambda>_. Inr (demo_manifest, [], None)), ue_decode_any = (\<lambda>_. Inl EOF),
      ue_Base = (\<lambda>s. s), ue_Ext = (\<lambda>_. ''.exe''), ue_Dir = (\<lambda>s. s), ue_Separator = CHR ''/'',
      ue_Open = (\<lambda>_ w. (Inr (''old'', None), w)), ue_CreateTemp = (\<lambda>_ w. (Inr ''t'', w)),
      ue_CloseTemp = (\<lambda>_ w. (None, w)), ue_Remove = (\<lambda>_ w. (None, w)), ue_ctxErr = (\<lambda>_. None)\<rparr>"

definition demo_reply :: "string \<Rightarrow> update_response" where
  "demo_reply body =
     \<lparr>rs_StatusCode = 200, rs_Header = header_empty, rs_Body = (body, None), rs_ContentLength = int (length body)\<rparr>"

definition demo_client :: "string update_client" where
  "demo_client request w =
     (let path = rq_Path request
      in (if path = ''/m.json'' then Inr (demo_reply ''manifest'')
          else if path = ''/m.json.sig'' then Inr (demo_reply (concat (replicate 21 ''c3Nz'') @ ''cw==''))
          else if path = ''/'' @ umd_Name demo_delta then Inr (demo_reply demo_patch)
          else Inr (demo_reply demo_full), w))"

definition demo_provider :: "string signedManifestProvider" where
  "demo_provider =
     \<lparr>smp_mode = ''test'', smp_manifestURL = url_empty\<lparr>url_Scheme := ''https'', url_Host := ''u.example'', url_Path := ''/m.json''\<rparr>,
      smp_publicKey = replicate 32 (CHR ''k''), smp_client = demo_client, smp_executablePath = ''/app.exe''\<rparr>"

definition demo_check_request :: CheckRequest where
  "demo_check_request = \<lparr>crq_CurrentVersion = ''1.0.0'', crq_Platform = ''windows'', crq_Arch = ''amd64''\<rparr>"

definition demo_offered :: "verifiedUpdateAsset \<Rightarrow> verifiedUpdateAsset \<Rightarrow> release" where
  "demo_offered full delta =
     offered_release demo_update_env demo_provider demo_manifest demo_check_request ''self'' full (Some delta)"

definition demo_asset :: "string \<Rightarrow> string \<Rightarrow> verifiedUpdateAsset" where
  "demo_asset name body =
     \<lparr>vua_name = name, vua_size = int (length body), vua_digest = demo_sha256 body,
      vua_url = url_empty\<lparr>url_Scheme := ''https'', url_Host := ''u.example'', url_Path := ''/'' @ name\<rparr>\<rparr>"

definition demo_release :: release where
  "demo_release = demo_offered (demo_asset ''soha-app-v1.1.0-windows-amd64.exe'' demo_full)
     (demo_asset (umd_Name demo_delta) demo_patch)"

lemma demo_check: "provider_Check demo_update_env demo_provider demo_check_request [] = (Inr (Some demo_release), [])"
  by code_simp

definition demo_destination :: "string \<Rightarrow> string \<Rightarrow> (nat \<times> error) \<times> string" where
  "demo_destination body w = ((length body, None), w @ body)"

theorem update_writes_only_signed_bytes_witness:
  "(\<exists>manifest target. signed_manifest demo_update_env demo_provider manifest \<and>
      rel_Version demo_release = um_Version manifest \<and>
      0 < version_order demo_update_env manifest demo_check_request \<and>
      map_of (um_Targets manifest) ''windows-amd64'' = Some target \<and>
      ((\<exists>err w'. \<forall>destination. provider_Download demo_update_env demo_provider demo_release destination (\<lambda>_ _ w. w) [] = (Some err, w')) \<or>
       (\<exists>body w'. promised_update demo_update_env target body \<and>
          (\<forall>destination. provider_Download demo_update_env demo_provider demo_release destination (\<lambda>_ _ w. w) [] =
             delivered destination body w')))) \<and>
   provider_Download demo_update_env demo_provider demo_release demo_destination (\<lambda>_ _ w. w) [] = (None, demo_full)"
proof (rule conjI)
  have platform: "crq_Platform demo_check_request @ ''-'' @ crq_Arch demo_check_request = ''windows-amd64''" by code_simp
  note update_writes_only_signed_bytes [OF demo_check, unfolded platform, of "\<lambda>_ _ w. w" "[]"]
  then show "\<exists>manifest target. signed_manifest demo_update_env demo_provider manifest \<and>
      rel_Version demo_release = um_Version manifest \<and>
      0 < version_order demo_update_env manifest demo_check_request \<and>
      map_of (um_Targets manifest) ''windows-amd64'' = Some target \<and>
      ((\<exists>err w'. \<forall>destination. provider_Download demo_update_env demo_provider demo_release destination (\<lambda>_ _ w. w) [] = (Some err, w')) \<or>
       (\<exists>body w'. promised_update demo_update_env target body \<and>
          (\<forall>destination. provider_Download demo_update_env demo_provider demo_release destination (\<lambda>_ _ w. w) [] =
             delivered destination body w')))" .
  show "provider_Download demo_update_env demo_provider demo_release demo_destination (\<lambda>_ _ w. w) [] = (None, demo_full)"
    by code_simp
qed

theorem patch_only_for_the_running_executable_witness:
  "\<exists>candidate patch. rel_candidate demo_release = Some candidate \<and> udc_delta candidate = Some patch \<and>
     vua_size patch * 100 < vua_size (udc_full candidate) * 80 \<and> rel_installMode demo_release = Some ''self''"
proof -
  let ?full = "demo_asset ''soha-app-v1.1.0-windows-amd64.exe'' demo_full"
  let ?patch = "demo_asset (umd_Name demo_delta) demo_patch"
  let ?candidate = "\<lparr>udc_full = ?full, udc_delta = Some ?patch, udc_executablePath = smp_executablePath demo_provider\<rparr>"
  have c: "rel_candidate demo_release = Some ?candidate" by (simp add: demo_release_def demo_offered_def offered_release_def)
  have p: "udc_delta ?candidate = Some ?patch" by simp
  from patch_only_for_the_running_executable [OF demo_check c p] c p show ?thesis by blast
qed

subsection \<open>Where the code falls short\<close>

text \<open>
  The checks of the version drop a leading \<open>v\<close> of the current version, the choice of a patch does not: such a
  client is offered the release, but never a patch.
\<close>

lemma patch_missed_for_v_prefix:
  "case provider_Check demo_update_env demo_provider (demo_check_request\<lparr>crq_CurrentVersion := ''v1.0.0''\<rparr>) [] of
     (Inr (Some rel), _) \<Rightarrow> rel_downloadMode rel = Some ''full'' | _ \<Rightarrow> False"
  by code_simp

end
