(* ===== verification/Release_Tool.thy ===== *)
theory Release_Tool
  imports Update_Provider Session_Host
begin

text \<open>
  The release tool (\<open>tools/updaterelease/main.go\<close>): it builds the signed manifest and the checksums of a release and
  verifies a release directory, before the updater ever sees it. The manifest has the same fields as the
  updater's, so it is the same record. Files, ZIP archives, regular expressions, XML and JSON are interfaces; the
  parsing of the command line is left out. Where the code ranges over a map the model takes one order, which
  only decides which of several errors is reported.
\<close>

subsection \<open>Constants and interfaces\<close>

definition manifestName :: string where "manifestName = ''update-manifest-v1.json''"
definition signatureName :: string where "signatureName = manifestName @ ''.sig''"
definition checksumsName :: string where "checksumsName = ''checksums.txt''"
definition maxManifestSize :: nat where "maxManifestSize = 1048576"
definition maxArtifactSize :: nat where "maxArtifactSize = 134217728"
definition maxReleaseNoteSize :: nat where "maxReleaseNoteSize = 65536"

record previousRelease =
  prv_ManifestPath :: string
  prv_SignaturePath :: string
  prv_ExecutablePath :: string
  prv_PublicKey :: string

record previousWindows =
  pwn_Version :: string
  pwn_Channel :: string
  pwn_SHA256 :: string

text \<open>
  \<open>rt_Stat\<close> tells whether a file is regular, and its size; \<open>rt_ReadDir\<close> gives the names with whether each is a
  directory, \<open>rt_OpenZip\<close> the names with whether each is a symbolic link. \<open>rt_find\<close> gives the submatches of the
  regular expression that the code has for a file; \<open>rt_plist\<close> the texts of the \<open>key\<close> and \<open>string\<close> elements of a property list in their order;
  \<open>rt_json\<close> a decoded JSON object.
\<close>

datatype plist_element = PlistKey string | PlistString string

record 'w release_env =
  rt_update :: "'w update_env"
  rt_Join :: "string \<Rightarrow> string \<Rightarrow> string"
  rt_Open :: "string \<Rightarrow> 'w \<Rightarrow> input_stream fallible \<times> 'w"
  rt_ReadFile :: "string \<Rightarrow> 'w \<Rightarrow> string fallible \<times> 'w"
  rt_Stat :: "string \<Rightarrow> 'w \<Rightarrow> (bool \<times> int) fallible \<times> 'w"
  rt_ReadDir :: "string \<Rightarrow> 'w \<Rightarrow> (string \<times> bool) list fallible \<times> 'w"
  rt_WriteFile :: "string \<Rightarrow> string \<Rightarrow> 'w \<Rightarrow> error \<times> 'w"
  rt_Remove :: "string \<Rightarrow> 'w \<Rightarrow> error \<times> 'w"
  rt_OpenZip :: "string \<Rightarrow> 'w \<Rightarrow> (string \<times> bool) list fallible \<times> 'w"
  rt_Marshal :: "updateManifest \<Rightarrow> string fallible"
  rt_decode_empty :: "unit decoder"
  rt_Sign :: "string \<Rightarrow> string \<Rightarrow> string"
  rt_Public :: "string \<Rightarrow> string"
  rt_NewKeyFromSeed :: "string \<Rightarrow> string"
  rt_base64 :: "string \<Rightarrow> string"
  rt_bsdiff_Diff :: "string \<Rightarrow> string \<Rightarrow> string fallible"
  rt_ParseTime :: "string \<Rightarrow> time fallible"
  rt_find :: "string \<Rightarrow> string \<Rightarrow> string list"
  rt_plist :: "string \<Rightarrow> plist_element list fallible"
  rt_json :: "string \<Rightarrow> json fallible"

subsection \<open>Names and digests\<close>

definition validSHA256 :: "string \<Rightarrow> bool" where
  "validSHA256 value \<longleftrightarrow> length value = 64 \<and> to_lower value = value \<and> hex_DecodeString value \<noteq> None"

definition safeName :: "(string \<Rightarrow> string) \<Rightarrow> string \<Rightarrow> bool" where
  "safeName base name \<longleftrightarrow> name \<noteq> [] \<and> base name = name \<and> \<not> contains_any name [CHR ''/'', CHR 0x5C]"

definition fullAssetName :: "string \<Rightarrow> string \<Rightarrow> string fallible" where
  "fullAssetName version targetKey =
     (if targetKey = ''windows-amd64'' then Inr (''soha-app-v'' @ version @ ''-windows-amd64.exe'')
      else if targetKey = ''darwin-arm64'' then Inr (''soha-app-v'' @ version @ ''-darwin-arm64.zip'')
      else if targetKey = ''linux-amd64'' then Inr (''soha-app-v'' @ version @ ''-linux-amd64.deb'')
      else Inl (ErrorNew (''unsupported target '' @ targetKey)))"

definition delta_name :: "string \<Rightarrow> string \<Rightarrow> string" where
  "delta_name fromVersion version = ''soha-app-v'' @ fromVersion @ ''-to-v'' @ version @ ''-windows-amd64.bsdiff''"

definition hexDigest :: "'w release_env \<Rightarrow> string \<Rightarrow> string" where
  "hexDigest env body = hex_EncodeToString (ue_sha256 (rt_update env) body)"

subsection \<open>Validation of a manifest\<close>

definition validateVersionChannel :: "'w update_env \<Rightarrow> string \<Rightarrow> string \<Rightarrow> error" where
  "validateVersionChannel env version channel =
     (if \<not> ue_semver_IsValid env (''v'' @ version) \<or> has_prefix version ''v''
      then Some (ErrorNew ''version must be valid SemVer without a v prefix'')
      else if channel \<noteq> ''stable'' \<and> channel \<noteq> ''test'' then Some (ErrorNew ''channel must be stable or test'')
      else if channel = ''stable'' \<and> ue_semver_Prerelease env (''v'' @ version) \<noteq> []
      then Some (ErrorNew ''stable releases must not use prerelease versions'')
      else None)"

definition expected_modes :: "(string \<times> string) list" where
  "expected_modes = [(''windows-amd64'', ''external''), (''darwin-arm64'', ''self''), (''linux-amd64'', ''external'')]"

definition validate_target :: "updateManifest \<Rightarrow> string \<Rightarrow> string \<Rightarrow> error" where
  "validate_target rel key mode =
     (case map_of (um_Targets rel) key of
        None \<Rightarrow> Some (ErrorNew (''target '' @ key @ '' has invalid install mode''))
      | Some target \<Rightarrow>
          if umt_InstallMode target \<noteq> mode then Some (ErrorNew (''target '' @ key @ '' has invalid install mode''))
          else if fullAssetName (um_Version rel) key \<noteq> Inr (uma_Name (umt_Full target))
          then Some (ErrorNew (''target '' @ key @ '' has invalid full asset name''))
          else if uma_Size (umt_Full target) \<le> 0 \<or> uma_Size (umt_Full target) > int maxArtifactSize \<or>
                  \<not> validSHA256 (uma_SHA256 (umt_Full target))
          then Some (ErrorNew (''target '' @ key @ '' has invalid full asset metadata''))
          else if key \<noteq> ''windows-amd64'' \<and> umt_Deltas target \<noteq> []
          then Some (ErrorNew (''target '' @ key @ '' must not contain deltas''))
          else None)"

fun validate_targets :: "updateManifest \<Rightarrow> (string \<times> string) list \<Rightarrow> error" where
  "validate_targets rel [] = None"
| "validate_targets rel ((key, mode) # rest) =
     (case validate_target rel key mode of Some err \<Rightarrow> Some err | None \<Rightarrow> validate_targets rel rest)"

fun validate_deltas :: "'w update_env \<Rightarrow> string \<Rightarrow> updateManifestDelta list \<Rightarrow> error" where
  "validate_deltas env version [] = None"
| "validate_deltas env version (delta # rest) =
     (if \<not> ue_semver_IsValid env (''v'' @ umd_FromVersion delta) \<or>
         ue_semver_Compare env (''v'' @ umd_FromVersion delta) (''v'' @ version) \<ge> 0
      then Some (ErrorNew ''delta fromVersion is invalid'')
      else if umd_Name delta \<noteq> delta_name (umd_FromVersion delta) version \<or> umd_Size delta \<le> 0 \<or>
              umd_Size delta > int maxArtifactSize \<or> \<not> validSHA256 (umd_SHA256 delta) \<or>
              \<not> validSHA256 (umd_FromSHA256 delta)
      then Some (ErrorNew ''delta metadata is invalid'')
      else validate_deltas env version rest)"

definition windows_target :: "updateManifest \<Rightarrow> updateManifestTarget option" where
  "windows_target rel = map_of (um_Targets rel) ''windows-amd64''"

definition release_validateManifest :: "'w update_env \<Rightarrow> updateManifest \<Rightarrow> error" where
  "release_validateManifest env rel =
     (if um_SchemaVersion rel \<noteq> 1 \<or> time_IsZero (um_PublishedAt rel)
      then Some (ErrorNew ''manifest schemaVersion or publishedAt is invalid'')
      else case validateVersionChannel env (um_Version rel) (um_Channel rel) of
             Some err \<Rightarrow> Some err
           | None \<Rightarrow>
               if length (um_Targets rel) \<noteq> 3
               then Some (ErrorNew ''manifest must contain exactly three supported targets'')
               else case validate_targets rel expected_modes of
                      Some err \<Rightarrow> Some err
                    | None \<Rightarrow>
                        validate_deltas env (um_Version rel)
                          (case windows_target rel of None \<Rightarrow> [] | Some target \<Rightarrow> umt_Deltas target))"

subsection \<open>Files\<close>

definition readLimited :: "'w release_env \<Rightarrow> string \<Rightarrow> nat \<Rightarrow> 'w \<Rightarrow> string fallible \<times> 'w" where
  "readLimited env filePath limit w =
     (case rt_Open env filePath w of
        (Inl err, w) \<Rightarrow> (Inl err, w)
      | (Inr file, w) \<Rightarrow>
          (let (body, err) = read_body (limit + 1) file
           in case err of
                Some err \<Rightarrow> Inl err
              | None \<Rightarrow> if length body > limit then Inl (ErrorNew ''file exceeds size limit'') else Inr body, w))"

definition digestFile :: "'w release_env \<Rightarrow> string \<Rightarrow> 'w \<Rightarrow> string fallible \<times> 'w" where
  "digestFile env filePath w =
     (case rt_Open env filePath w of
        (Inl err, w) \<Rightarrow> (Inl err, w)
      | (Inr (body, err), w) \<Rightarrow> (case err of Some err \<Rightarrow> Inl err | None \<Rightarrow> Inr (hexDigest env body), w))"

definition artifactForFile :: "'w release_env \<Rightarrow> string \<Rightarrow> 'w \<Rightarrow> updateManifestAsset fallible \<times> 'w" where
  "artifactForFile env filePath w =
     (case rt_Stat env filePath w of
        (Inl err, w) \<Rightarrow> (Inl err, w)
      | (Inr (regular, bytes), w) \<Rightarrow>
          if \<not> regular \<or> bytes \<le> 0 \<or> bytes > int maxArtifactSize
          then (Inl (ErrorNew ''asset is empty, non-regular, or exceeds 128 MiB''), w)
          else case digestFile env filePath w of
                 (Inl err, w) \<Rightarrow> (Inl err, w)
               | (Inr digest, w) \<Rightarrow>
                   (Inr \<lparr>uma_Name = ue_Base (rt_update env) filePath, uma_Size = bytes, uma_SHA256 = digest\<rparr>, w))"

definition verifyArtifact :: "'w release_env \<Rightarrow> string \<Rightarrow> updateManifestAsset \<Rightarrow> 'w \<Rightarrow> error \<times> 'w" where
  "verifyArtifact env directory expected w =
     (if \<not> safeName (ue_Base (rt_update env)) (uma_Name expected) then (Some (ErrorNew ''unsafe asset name''), w)
      else case artifactForFile env (rt_Join env directory (uma_Name expected)) w of
             (Inl err, w) \<Rightarrow> (Some err, w)
           | (Inr actual, w) \<Rightarrow>
               (if actual \<noteq> expected then Some (ErrorNew ''asset size or SHA-256 does not match manifest'') else None, w))"

definition readPrivateKey :: "'w release_env \<Rightarrow> string \<Rightarrow> 'w \<Rightarrow> string fallible \<times> 'w" where
  "readPrivateKey env filePath w =
     (case rt_ReadFile env filePath w of
        (Inl err, w) \<Rightarrow> (Inl err, w)
      | (Inr key, w) \<Rightarrow>
          (if length key = 32 then Inr (rt_NewKeyFromSeed env key)
           else if length key = 64 then Inr key
           else Inl (ErrorNew ''Ed25519 private key file must contain 32 or 64 raw bytes''), w))"

definition readPublicKey :: "'w release_env \<Rightarrow> string \<Rightarrow> 'w \<Rightarrow> string fallible \<times> 'w" where
  "readPublicKey env filePath w =
     (case rt_ReadFile env filePath w of
        (Inl err, w) \<Rightarrow> (Inl err, w)
      | (Inr key, w) \<Rightarrow>
          (if length key \<noteq> 32 then Inl (ErrorNew ''Ed25519 public key file must contain 32 raw bytes'') else Inr key, w))"

definition decodeManifest :: "'w release_env \<Rightarrow> string \<Rightarrow> updateManifest fallible" where
  "decodeManifest env body =
     (case ue_decode_manifest (rt_update env) (body, None) of
        Inl err \<Rightarrow> Inl (ErrWrap ''decode manifest: '' err)
      | Inr (rel, rest) \<Rightarrow>
          (case rt_decode_empty env rest of
             Inl err \<Rightarrow> if errors_is err EOF then Inr rel else Inl (ErrorNew ''manifest contains trailing data'')
           | Inr _ \<Rightarrow> Inl (ErrorNew ''manifest contains trailing data'')))"

definition marshalManifest :: "'w release_env \<Rightarrow> updateManifest \<Rightarrow> string fallible" where
  "marshalManifest env rel = (case rt_Marshal env rel of Inl err \<Rightarrow> Inl err | Inr body \<Rightarrow> Inr (body @ [CHR 0x0A]))"

definition verifyManifestSignature :: "'w release_env \<Rightarrow> string \<Rightarrow> string \<Rightarrow> string \<Rightarrow> 'w \<Rightarrow> error \<times> 'w" where
  "verifyManifestSignature env body signaturePath publicKey w =
     (if length publicKey \<noteq> 32 then (Some (ErrorNew ''Ed25519 public key has invalid length''), w)
      else case readLimited env signaturePath 4096 w of
             (Inl err, w) \<Rightarrow> (Some err, w)
           | (Inr signatureText, w) \<Rightarrow>
               (case base64_DecodeString (trim_space signatureText) of
                  None \<Rightarrow> Some (ErrorNew ''manifest signature is invalid'')
                | Some signature \<Rightarrow>
                    if length signature \<noteq> 64 \<or> \<not> ue_Verify (rt_update env) publicKey body signature
                    then Some (ErrorNew ''manifest signature is invalid'') else None, w))"

subsection \<open>Checksums\<close>

fun checksum_lines :: "'w release_env \<Rightarrow> string \<Rightarrow> (string \<times> bool) list \<Rightarrow> 'w \<Rightarrow> string list fallible \<times> 'w" where
  "checksum_lines env directory [] w = (Inr [], w)"
| "checksum_lines env directory ((name, isDir) # rest) w =
     (if isDir \<or> name = checksumsName then checksum_lines env directory rest w
      else if \<not> safeName (ue_Base (rt_update env)) name
      then (Inl (ErrorNew (''unsafe release asset name '' @ name)), w)
      else case digestFile env (rt_Join env directory name) w of
             (Inl err, w) \<Rightarrow> (Inl err, w)
           | (Inr digest, w) \<Rightarrow>
               (case checksum_lines env directory rest w of
                  (Inl err, w) \<Rightarrow> (Inl err, w)
                | (Inr others, w) \<Rightarrow> (Inr ((digest @ ''  '' @ name) # others), w)))"

definition writeChecksums :: "'w release_env \<Rightarrow> string \<Rightarrow> 'w \<Rightarrow> error \<times> 'w" where
  "writeChecksums env directory w =
     (case rt_ReadDir env directory w of
        (Inl err, w) \<Rightarrow> (Some err, w)
      | (Inr entries, w) \<Rightarrow>
          (case checksum_lines env directory entries w of
             (Inl err, w) \<Rightarrow> (Some err, w)
           | (Inr lines, w) \<Rightarrow>
               rt_WriteFile env (rt_Join env directory checksumsName)
                 (strings_Join (sort lines) [CHR 0x0A] @ [CHR 0x0A]) w))"

text \<open>
  The lines of a \<open>bufio.Scanner\<close>, without a carriage return at their end; a line of 65536 bytes or more does not
  fit its buffer and ends the scan with an error.
\<close>

definition drop_cr :: "string \<Rightarrow> string" where
  "drop_cr line = (if line \<noteq> [] \<and> last line = CHR 0x0D then butlast line else line)"

definition raw_lines :: "string \<Rightarrow> string list" where
  "raw_lines body =
     (let parts = split_on (CHR 0x0A) body in if last parts = [] then butlast parts else parts)"

definition bufio_ErrTooLong :: go_error where "bufio_ErrTooLong = ErrorNew ''bufio.Scanner: token too long''"

text \<open>\<open>strings.SplitN(line, "  ", 2)\<close> where it gives two parts.\<close>

definition split_entry :: "string \<Rightarrow> (string \<times> string) option" where
  "split_entry line = map_option (\<lambda>i. (take i line, drop (i + 2) line)) (strings_Index line ''  '')"

fun checksum_entries ::
  "'w release_env \<Rightarrow> string list \<Rightarrow> error \<Rightarrow> (string \<times> string) list \<Rightarrow> (string \<times> string) list fallible" where
  "checksum_entries env [] ending expected = (case ending of Some err \<Rightarrow> Inl err | None \<Rightarrow> Inr expected)"
| "checksum_entries env (line # rest) ending expected =
     (if length line \<ge> 65536 then Inl bufio_ErrTooLong
      else case split_entry (drop_cr line) of
             None \<Rightarrow> Inl (ErrorNew ''checksums.txt contains an invalid entry'')
           | Some (digest, name) \<Rightarrow>
               if \<not> validSHA256 digest \<or> \<not> safeName (ue_Base (rt_update env)) name \<or> map_of expected name \<noteq> None
               then Inl (ErrorNew ''checksums.txt contains an invalid entry'')
               else checksum_entries env rest ending ((name, digest) # expected))"

text \<open>The number of files, or the error of the first that does not match.\<close>

fun check_entries ::
  "'w release_env \<Rightarrow> string \<Rightarrow> (string \<times> string) list \<Rightarrow> (string \<times> bool) list \<Rightarrow> 'w \<Rightarrow> nat fallible \<times> 'w" where
  "check_entries env directory expected [] w = (Inr 0, w)"
| "check_entries env directory expected ((name, isDir) # rest) w =
     (if isDir \<or> name = checksumsName then check_entries env directory expected rest w
      else case map_of expected name of
             None \<Rightarrow> (Inl (ErrorNew (''checksum missing for '' @ name)), w)
           | Some digest \<Rightarrow>
               (case digestFile env (rt_Join env directory name) w of
                  (Inl err, w) \<Rightarrow> (Inl err, w)
                | (Inr actual, w) \<Rightarrow>
                    if actual \<noteq> digest then (Inl (ErrorNew (''checksum mismatch for '' @ name)), w)
                    else (case check_entries env directory expected rest w of
                            (Inl err, w) \<Rightarrow> (Inl err, w) | (Inr n, w) \<Rightarrow> (Inr (Suc n), w))))"

definition verifyChecksums :: "'w release_env \<Rightarrow> string \<Rightarrow> 'w \<Rightarrow> error \<times> 'w" where
  "verifyChecksums env directory w =
     (case rt_Open env (rt_Join env directory checksumsName) w of
        (Inl err, w) \<Rightarrow> (Some err, w)
      | (Inr file, w) \<Rightarrow>
          let (body, err) = read_body (maxManifestSize + 1) file
          in (case checksum_entries env (raw_lines body) err [] of
                Inl err \<Rightarrow> (Some err, w)
              | Inr expected \<Rightarrow>
                  (case rt_ReadDir env directory w of
                     (Inl err, w) \<Rightarrow> (Some err, w)
                   | (Inr entries, w) \<Rightarrow>
                       (case check_entries env directory expected entries w of
                          (Inl err, w) \<Rightarrow> (Some err, w)
                        | (Inr actualCount, w) \<Rightarrow>
                            (if actualCount \<noteq> length expected
                             then Some (ErrorNew ''checksums.txt references a missing asset'') else None, w)))))"

subsection \<open>The macOS archive\<close>

text \<open>\<open>path.Clean\<close>.\<close>

definition clean_step :: "bool \<Rightarrow> string list \<Rightarrow> string \<Rightarrow> string list" where
  "clean_step rooted out elem =
     (if elem = [] \<or> elem = ''.'' then out
      else if elem = ''..'' then
        (if out \<noteq> [] \<and> last out \<noteq> ''..'' then butlast out else if rooted then out else out @ [''..''])
      else out @ [elem])"

definition path_Clean :: "string \<Rightarrow> string" where
  "path_Clean p =
     (let rooted = has_prefix p ''/''; body = strings_Join (foldl (clean_step rooted) [] (split_on (CHR ''/'') p)) ''/''
      in if rooted then ''/'' @ body else if body = [] then ''.'' else body)"

definition app_directory :: string where "app_directory = ''soha-app.app/''"

definition zip_entry_error :: "string \<times> bool \<Rightarrow> error" where
  "zip_entry_error entry =
     (let (name, symlink) = entry
      in if CHR 0x5C \<in> set name \<or> has_prefix name ''/'' \<or>
            path_Clean name \<noteq> (if has_suffix name ''/'' then butlast name else name) \<and> path_Clean name @ ''/'' \<noteq> name
         then Some (ErrorNew ''macOS update zip contains an unsafe path'')
         else if name \<noteq> app_directory \<and> \<not> has_prefix name app_directory
         then Some (ErrorNew ''macOS update zip must contain only soha-app.app'')
         else if symlink then Some (ErrorNew ''macOS update zip must not contain symlinks'')
         else None)"

fun zip_entries :: "(string \<times> bool) list \<Rightarrow> bool \<Rightarrow> bool \<Rightarrow> error" where
  "zip_entries [] foundInfo foundExecutable =
     (if \<not> foundInfo \<or> \<not> foundExecutable
      then Some (ErrorNew ''macOS update zip is missing the app metadata or executable'') else None)"
| "zip_entries (entry # rest) foundInfo foundExecutable =
     (case zip_entry_error entry of
        Some err \<Rightarrow> Some err
      | None \<Rightarrow> zip_entries rest (foundInfo \<or> fst entry = app_directory @ ''Contents/Info.plist'')
                  (foundExecutable \<or> fst entry = app_directory @ ''Contents/MacOS/soha-app''))"

definition verifyAppZIP :: "'w release_env \<Rightarrow> string \<Rightarrow> 'w \<Rightarrow> error \<times> 'w" where
  "verifyAppZIP env filePath w =
     (case rt_OpenZip env filePath w of
        (Inl err, w) \<Rightarrow> (Some (ErrWrap ''open macOS update zip: '' err), w)
      | (Inr entries, w) \<Rightarrow>
          (if entries = [] then Some (ErrorNew ''macOS update zip is empty'') else zip_entries entries False False, w))"

subsection \<open>Verifying a release\<close>

text \<open>The artifacts of the targets, with the names that are allowed so far.\<close>

fun verify_deltas :: "'w release_env \<Rightarrow> string \<Rightarrow> updateManifestDelta list \<Rightarrow> 'w \<Rightarrow> error \<times> 'w" where
  "verify_deltas env directory [] w = (None, w)"
| "verify_deltas env directory (delta # rest) w =
     (case verifyArtifact env directory
             \<lparr>uma_Name = umd_Name delta, uma_Size = umd_Size delta, uma_SHA256 = umd_SHA256 delta\<rparr> w of
        (Some err, w) \<Rightarrow> (Some (ErrWrap ''verify delta: '' err), w)
      | (None, w) \<Rightarrow> verify_deltas env directory rest w)"

fun verify_targets :: "'w release_env \<Rightarrow> string \<Rightarrow> (string \<times> updateManifestTarget) list \<Rightarrow> 'w \<Rightarrow> error \<times> 'w" where
  "verify_targets env directory [] w = (None, w)"
| "verify_targets env directory ((key, target) # rest) w =
     (case verifyArtifact env directory (umt_Full target) w of
        (Some err, w) \<Rightarrow> (Some (ErrWrap (''verify '' @ key @ '' full asset: '') err), w)
      | (None, w) \<Rightarrow>
          (case verify_deltas env directory (umt_Deltas target) w of
             (Some err, w) \<Rightarrow> (Some err, w)
           | (None, w) \<Rightarrow> verify_targets env directory rest w))"

definition target_names :: "updateManifest \<Rightarrow> string list" where
  "target_names rel =
     concat (map (\<lambda>(_, target). uma_Name (umt_Full target) # map umd_Name (umt_Deltas target)) (um_Targets rel))"

definition companion_names :: "string \<Rightarrow> string list" where
  "companion_names version =
     [''soha-app-v'' @ version @ ''-windows-amd64-installer.exe'',
      ''soha-app-service-v'' @ version @ ''-windows-amd64.exe'',
      ''soha-app-v'' @ version @ ''-darwin-arm64.dmg'']"

fun inspect_files :: "'w release_env \<Rightarrow> string \<Rightarrow> string \<Rightarrow> string list \<Rightarrow> 'w \<Rightarrow> error \<times> 'w" where
  "inspect_files env verb directory [] w = (None, w)"
| "inspect_files env verb directory (name # rest) w =
     (case artifactForFile env (rt_Join env directory name) w of
        (Inl err, w) \<Rightarrow> (Some (ErrWrap (verb @ '' '' @ name @ '': '') err), w)
      | (Inr _, w) \<Rightarrow> inspect_files env verb directory rest w)"

definition darwin_zip :: "string \<Rightarrow> string" where
  "darwin_zip version = ''soha-app-v'' @ version @ ''-darwin-arm64.zip''"

text \<open>The reconstruction of the Windows executable, for a manifest with deltas.\<close>

definition verify_windows_delta ::
  "'w release_env \<Rightarrow> string \<Rightarrow> string \<Rightarrow> updateManifestTarget \<Rightarrow> 'w \<Rightarrow> error \<times> 'w" where
  "verify_windows_delta env directory previousExecutable windows w =
     (if previousExecutable = [] then (Some (ErrorNew ''previous executable is required to verify the delta''), w)
      else case umt_Deltas windows of
             [delta] \<Rightarrow>
               (case artifactForFile env previousExecutable w of
                  (Inl err, w) \<Rightarrow> (Some err, w)
                | (Inr previous, w) \<Rightarrow>
                    if uma_SHA256 previous \<noteq> umd_FromSHA256 delta
                    then (Some (ErrorNew ''previous executable SHA-256 does not match the delta''), w)
                    else case readLimited env previousExecutable maxArtifactSize w of
                           (Inl err, w) \<Rightarrow> (Some err, w)
                         | (Inr oldBytes, w) \<Rightarrow>
                             (case readLimited env (rt_Join env directory (umd_Name delta)) maxArtifactSize w of
                                (Inl err, w) \<Rightarrow> (Some err, w)
                              | (Inr patchBytes, w) \<Rightarrow>
                                  (case ue_bsdiff_Patch (rt_update env) oldBytes patchBytes of
                                     Inl err \<Rightarrow> Some (ErrWrap ''apply Windows delta: '' err)
                                   | Inr newBytes \<Rightarrow>
                                       if int (length newBytes) \<noteq> uma_Size (umt_Full windows) \<or>
                                          hexDigest env newBytes \<noteq> uma_SHA256 (umt_Full windows)
                                       then Some (ErrorNew ''Windows delta reconstruction does not match the full executable'')
                                       else if umd_Size delta * 100 \<ge> uma_Size (umt_Full windows) * 80
                                       then Some (ErrorNew ''Windows delta is not smaller than 80% of the full executable'')
                                       else None, w)))
           | _ \<Rightarrow> (Some (ErrorNew ''only one Windows delta is allowed''), w))"

fun unexpected_entry :: "string list \<Rightarrow> (string \<times> bool) list \<Rightarrow> error" where
  "unexpected_entry allowed [] = None"
| "unexpected_entry allowed ((name, isDir) # rest) =
     (if isDir then Some (ErrorNew (''unexpected directory in release: '' @ name))
      else if name \<notin> set allowed then Some (ErrorNew (''unexpected release asset: '' @ name))
      else unexpected_entry allowed rest)"

text \<open>A check that ends the function with its error, or goes on.\<close>

fun checks :: "('w \<Rightarrow> error \<times> 'w) list \<Rightarrow> 'w \<Rightarrow> error \<times> 'w" where
  "checks [] w = (None, w)"
| "checks (act # rest) w = (case act w of (Some err, w) \<Rightarrow> (Some err, w) | (None, w) \<Rightarrow> checks rest w)"

definition verify_contents :: "'w release_env \<Rightarrow> string \<Rightarrow> string \<Rightarrow> updateManifest \<Rightarrow> 'w \<Rightarrow> error \<times> 'w" where
  "verify_contents env directory previousExecutable rel =
     checks
       [verify_targets env directory (um_Targets rel),
        inspect_files env ''verify'' directory (companion_names (um_Version rel)),
        verifyAppZIP env (rt_Join env directory (darwin_zip (um_Version rel))),
        (\<lambda>w. case windows_target rel of
               None \<Rightarrow> (None, w)
             | Some windows \<Rightarrow>
                 if umt_Deltas windows = [] then (None, w)
                 else verify_windows_delta env directory previousExecutable windows w),
        (\<lambda>w. case rt_ReadDir env directory w of
               (Inl err, w) \<Rightarrow> (Some err, w)
             | (Inr entries, w) \<Rightarrow>
                 (unexpected_entry
                    ([manifestName, signatureName, checksumsName] @ target_names rel @ companion_names (um_Version rel))
                    entries, w))]"

definition verifyRelease :: "'w release_env \<Rightarrow> string \<Rightarrow> string \<Rightarrow> string \<Rightarrow> 'w \<Rightarrow> error \<times> 'w" where
  "verifyRelease env directory publicKey previousExecutable w =
     (case verifyChecksums env directory w of
        (Some err, w) \<Rightarrow> (Some err, w)
      | (None, w) \<Rightarrow>
          (case readLimited env (rt_Join env directory manifestName) maxManifestSize w of
             (Inl err, w) \<Rightarrow> (Some err, w)
           | (Inr body, w) \<Rightarrow>
               (case verifyManifestSignature env body (rt_Join env directory signatureName) publicKey w of
                  (Some err, w) \<Rightarrow> (Some err, w)
                | (None, w) \<Rightarrow>
                    (case decodeManifest env body of
                       Inl err \<Rightarrow> (Some err, w)
                     | Inr rel \<Rightarrow>
                         (case release_validateManifest (rt_update env) rel of
                            Some err \<Rightarrow> (Some err, w)
                          | None \<Rightarrow> verify_contents env directory previousExecutable rel w)))))"

subsection \<open>Building a release\<close>

definition verifyPreviousWindowsRelease ::
  "'w release_env \<Rightarrow> previousRelease \<Rightarrow> 'w \<Rightarrow> previousWindows fallible \<times> 'w" where
  "verifyPreviousWindowsRelease env previous w =
     (case readLimited env (prv_ManifestPath previous) maxManifestSize w of
        (Inl err, w) \<Rightarrow> (Inl err, w)
      | (Inr body, w) \<Rightarrow>
          (case verifyManifestSignature env body (prv_SignaturePath previous) (prv_PublicKey previous) w of
             (Some err, w) \<Rightarrow> (Inl (ErrWrap ''verify previous manifest: '' err), w)
           | (None, w) \<Rightarrow>
               (case decodeManifest env body of
                  Inl err \<Rightarrow> (Inl err, w)
                | Inr rel \<Rightarrow>
                    if um_SchemaVersion rel \<noteq> 1 \<or> time_IsZero (um_PublishedAt rel)
                    then (Inl (ErrorNew ''previous manifest metadata is invalid''), w)
                    else case validateVersionChannel (rt_update env) (um_Version rel) (um_Channel rel) of
                           Some err \<Rightarrow> (Inl err, w)
                         | None \<Rightarrow>
                             (case windows_target rel of
                                None \<Rightarrow> (Inl (ErrorNew ''previous manifest has no self-updating Windows target''), w)
                              | Some windows \<Rightarrow>
                                  let expected = ''soha-app-v'' @ um_Version rel @ ''-windows-amd64.exe''
                                  in if umt_InstallMode windows \<noteq> ''self''
                                     then (Inl (ErrorNew ''previous manifest has no self-updating Windows target''), w)
                                     else if uma_Name (umt_Full windows) \<noteq> expected
                                     then (Inl (ErrorNew ''previous Windows asset name is invalid''), w)
                                     else case artifactForFile env (prv_ExecutablePath previous) w of
                                            (Inl err, w) \<Rightarrow> (Inl err, w)
                                          | (Inr actual, w) \<Rightarrow>
                                              (if ue_Base (rt_update env) (prv_ExecutablePath previous) \<noteq> expected \<or>
                                                  uma_Size actual \<noteq> uma_Size (umt_Full windows) \<or>
                                                  uma_SHA256 actual \<noteq> uma_SHA256 (umt_Full windows)
                                               then Inl (ErrorNew ''previous Windows executable does not match its signed manifest'')
                                               else Inr \<lparr>pwn_Version = um_Version rel, pwn_Channel = um_Channel rel,
                                                         pwn_SHA256 = uma_SHA256 actual\<rparr>, w)))))"

text \<open>An error of a removal, unless the file is missing.\<close>

definition remove_file :: "'w release_env \<Rightarrow> string \<Rightarrow> 'w \<Rightarrow> error \<times> 'w" where
  "remove_file env path w =
     (case rt_Remove env path w of
        (Some err, w) \<Rightarrow> (if errors_is err ErrNotExist then None else Some err, w) | (None, w) \<Rightarrow> (None, w))"

definition createWindowsDelta :: "'w release_env \<Rightarrow> string \<Rightarrow> string \<Rightarrow> string \<Rightarrow> 'w \<Rightarrow> bool fallible \<times> 'w" where
  "createWindowsDelta env oldPath newPath outputPath w =
     (case readLimited env oldPath maxArtifactSize w of
        (Inl err, w) \<Rightarrow> (Inl err, w)
      | (Inr oldBytes, w) \<Rightarrow>
          (case readLimited env newPath maxArtifactSize w of
             (Inl err, w) \<Rightarrow> (Inl err, w)
           | (Inr newBytes, w) \<Rightarrow>
               (case rt_bsdiff_Diff env oldBytes newBytes of
                  Inl err \<Rightarrow> (Inl (ErrWrap ''create BSDIFF40 patch: '' err), w)
                | Inr patch \<Rightarrow>
                    if ue_bsdiff_Patch (rt_update env) oldBytes patch \<noteq> Inr newBytes
                    then (Inl (ErrorNew ''generated Windows delta failed reconstruction''), w)
                    else if length patch * 100 \<ge> length newBytes * 80
                    then (case remove_file env outputPath w of (Some err, w) \<Rightarrow> (Inl err, w) | (None, w) \<Rightarrow> (Inr False, w))
                    else (case rt_WriteFile env outputPath patch w of
                            (Some err, w) \<Rightarrow> (Inl err, w) | (None, w) \<Rightarrow> (Inr True, w)))))"

fun build_targets ::
  "'w release_env \<Rightarrow> string \<Rightarrow> string \<Rightarrow> (string \<times> string) list \<Rightarrow> 'w \<Rightarrow> (string \<times> updateManifestTarget) list fallible \<times> 'w" where
  "build_targets env directory version [] w = (Inr [], w)"
| "build_targets env directory version ((key, mode) # rest) w =
     (case fullAssetName version key of
        Inl err \<Rightarrow> (Inl err, w)
      | Inr name \<Rightarrow>
          (case artifactForFile env (rt_Join env directory name) w of
             (Inl err, w) \<Rightarrow> (Inl (ErrWrap (''inspect '' @ name @ '': '') err), w)
           | (Inr full, w) \<Rightarrow>
               (case build_targets env directory version rest w of
                  (Inl err, w) \<Rightarrow> (Inl err, w)
                | (Inr targets, w) \<Rightarrow>
                    (Inr ((key, \<lparr>umt_InstallMode = mode, umt_Full = full, umt_Deltas = []\<rparr>) # targets), w))))"

text \<open>The delta from the previous release: the targets with it, and the executable to verify it with.\<close>

definition add_windows_delta ::
  "'w release_env \<Rightarrow> string \<Rightarrow> string \<Rightarrow> string \<Rightarrow> previousRelease option \<Rightarrow> (string \<times> updateManifestTarget) list \<Rightarrow>
     'w \<Rightarrow> ((string \<times> updateManifestTarget) list \<times> string) fallible \<times> 'w" where
  "add_windows_delta env directory version channel previous targets w =
     (case (previous, map_of targets ''windows-amd64'') of
        (Some previous, Some windows) \<Rightarrow>
          if umt_InstallMode windows \<noteq> ''self'' then (Inr (targets, []), w)
          else (case verifyPreviousWindowsRelease env previous w of
             (Inl err, w) \<Rightarrow> (Inl err, w)
           | (Inr verified, w) \<Rightarrow>
               if pwn_Channel verified \<noteq> channel then (Inl (ErrorNew ''previous release channel does not match''), w)
               else if ue_semver_Compare (rt_update env) (''v'' @ pwn_Version verified) (''v'' @ version) \<ge> 0
               then (Inl (ErrorNew ''previous release must be older than the target''), w)
               else
                 let patchName = delta_name (pwn_Version verified) version
                 in case createWindowsDelta env (prv_ExecutablePath previous)
                           (rt_Join env directory (''soha-app-v'' @ version @ ''-windows-amd64.exe''))
                           (rt_Join env directory patchName) w of
                      (Inl err, w) \<Rightarrow> (Inl err, w)
                    | (Inr False, w) \<Rightarrow> (Inr (targets, []), w)
                    | (Inr True, w) \<Rightarrow>
                        (case artifactForFile env (rt_Join env directory patchName) w of
                           (Inl err, w) \<Rightarrow> (Inl err, w)
                         | (Inr patch, w) \<Rightarrow>
                             let delta = \<lparr>umd_FromVersion = pwn_Version verified, umd_FromSHA256 = pwn_SHA256 verified,
                                          umd_Name = uma_Name patch, umd_Size = uma_Size patch,
                                          umd_SHA256 = uma_SHA256 patch\<rparr>
                             in (Inr (map (\<lambda>(key, target).
                                        (key, if key = ''windows-amd64'' then target\<lparr>umt_Deltas := [delta]\<rparr> else target)) targets,
                                      prv_ExecutablePath previous), w)))
      | _ \<Rightarrow> (Inr (targets, []), w))"

definition built_manifest ::
  "string \<Rightarrow> string \<Rightarrow> string \<Rightarrow> time \<Rightarrow> (string \<times> updateManifestTarget) list \<Rightarrow> updateManifest" where
  "built_manifest version channel notes publishedAt targets =
     \<lparr>um_SchemaVersion = 1, um_Channel = channel, um_Version = version, um_PublishedAt = publishedAt,
      um_Notes = notes, um_Targets = targets\<rparr>"

text \<open>Signing and writing, then the verification of what was written.\<close>

definition write_release ::
  "'w release_env \<Rightarrow> string \<Rightarrow> string \<Rightarrow> string \<Rightarrow> updateManifest \<Rightarrow> 'w \<Rightarrow> error \<times> 'w" where
  "write_release env directory privateKey previousExecutable rel w =
     (case marshalManifest env rel of
        Inl err \<Rightarrow> (Some err, w)
      | Inr body \<Rightarrow>
          if length body > maxManifestSize then (Some (ErrorNew ''manifest exceeds 1 MiB''), w)
          else checks
            [rt_WriteFile env (rt_Join env directory manifestName) body,
             rt_WriteFile env (rt_Join env directory signatureName) (rt_base64 env (rt_Sign env privateKey body) @ [CHR 0x0A]),
             writeChecksums env directory,
             verifyRelease env directory (rt_Public env privateKey) previousExecutable] w)"

definition buildRelease ::
  "'w release_env \<Rightarrow> string \<Rightarrow> string \<Rightarrow> string \<Rightarrow> string \<Rightarrow> time \<Rightarrow> string \<Rightarrow> previousRelease option \<Rightarrow> 'w \<Rightarrow> error \<times> 'w" where
  "buildRelease env directory version channel notes publishedAt privateKey previous w =
     (case validateVersionChannel (rt_update env) version channel of
        Some err \<Rightarrow> (Some err, w)
      | None \<Rightarrow>
          if time_IsZero publishedAt then (Some (ErrorNew ''publishedAt is required''), w)
          else if length privateKey \<noteq> 64 then (Some (ErrorNew ''Ed25519 private key has invalid length''), w)
          else case checks (map (\<lambda>name. remove_file env (rt_Join env directory name))
                             [manifestName, signatureName, checksumsName]) w of
                 (Some err, w) \<Rightarrow> (Some err, w)
               | (None, w) \<Rightarrow>
                   (case build_targets env directory version expected_modes w of
                      (Inl err, w) \<Rightarrow> (Some err, w)
                    | (Inr targets, w) \<Rightarrow>
                        (case checks [inspect_files env ''inspect'' directory (companion_names version),
                                      verifyAppZIP env (rt_Join env directory (darwin_zip version))] w of
                           (Some err, w) \<Rightarrow> (Some err, w)
                         | (None, w) \<Rightarrow>
                             (case add_windows_delta env directory version channel previous targets w of
                                (Inl err, w) \<Rightarrow> (Some err, w)
                              | (Inr (targets, previousExecutable), w) \<Rightarrow>
                                  write_release env directory privateKey previousExecutable
                                    (built_manifest version channel notes publishedAt targets) w))))"

subsection \<open>The subcommands\<close>

text \<open>\<open>runBuild\<close> and \<open>runVerify\<close> after the parsing of the flags, whose values they are given.\<close>

record build_flags =
  bf_directory :: string
  bf_version :: string
  bf_channel :: string
  bf_notesPath :: string
  bf_publishedAtValue :: string
  bf_privateKeyPath :: string
  bf_previousManifest :: string
  bf_previousSignature :: string
  bf_previousEXE :: string
  bf_previousPublicKey :: string

definition previous_of_flags :: "'w release_env \<Rightarrow> build_flags \<Rightarrow> 'w \<Rightarrow> previousRelease option fallible \<times> 'w" where
  "previous_of_flags env flags w =
     (let previousValues = [bf_previousManifest flags, bf_previousSignature flags, bf_previousEXE flags, bf_previousPublicKey flags];
          provided = length (filter (\<lambda>value. value \<noteq> []) previousValues)
      in if provided = 0 then (Inr None, w)
         else if provided \<noteq> length previousValues
         then (Inl (ErrorNew ''all previous release inputs must be provided together''), w)
         else case readPublicKey env (bf_previousPublicKey flags) w of
                (Inl err, w) \<Rightarrow> (Inl err, w)
              | (Inr publicKey, w) \<Rightarrow>
                  (Inr (Some \<lparr>prv_ManifestPath = bf_previousManifest flags, prv_SignaturePath = bf_previousSignature flags,
                              prv_ExecutablePath = bf_previousEXE flags, prv_PublicKey = publicKey\<rparr>), w))"

definition runBuild :: "'w release_env \<Rightarrow> build_flags \<Rightarrow> 'w \<Rightarrow> error \<times> 'w" where
  "runBuild env flags w =
     (if bf_directory flags = [] \<or> bf_version flags = [] \<or> bf_channel flags = [] \<or> bf_notesPath flags = [] \<or>
         bf_publishedAtValue flags = [] \<or> bf_privateKeyPath flags = []
      then (Some (ErrorNew ''dir, version, channel, notes-file, published-at, and private-key are required''), w)
      else case rt_ParseTime env (bf_publishedAtValue flags) of
             Inl err \<Rightarrow> (Some (ErrWrap ''parse published-at: '' err), w)
           | Inr publishedAt \<Rightarrow>
               (case readLimited env (bf_notesPath flags) maxReleaseNoteSize w of
                  (Inl err, w) \<Rightarrow> (Some (ErrWrap ''read release notes: '' err), w)
                | (Inr notes, w) \<Rightarrow>
                    (case readPrivateKey env (bf_privateKeyPath flags) w of
                       (Inl err, w) \<Rightarrow> (Some err, w)
                     | (Inr privateKey, w) \<Rightarrow>
                         (case previous_of_flags env flags w of
                            (Inl err, w) \<Rightarrow> (Some err, w)
                          | (Inr previous, w) \<Rightarrow>
                              buildRelease env (bf_directory flags) (bf_version flags) (bf_channel flags)
                                (trim_space notes) publishedAt privateKey previous w))))"

definition runVerify :: "'w release_env \<Rightarrow> string \<Rightarrow> string \<Rightarrow> string \<Rightarrow> 'w \<Rightarrow> error \<times> 'w" where
  "runVerify env directory publicKeyPath previousEXE w =
     (if directory = [] \<or> publicKeyPath = [] then (Some (ErrorNew ''dir and public-key are required''), w)
      else case readPublicKey env publicKeyPath w of
             (Inl err, w) \<Rightarrow> (Some err, w)
           | (Inr publicKey, w) \<Rightarrow> verifyRelease env directory publicKey previousEXE w)"

subsection \<open>Versions in the files of the build\<close>

text \<open>The loop over the elements of a property list, with the key that waits for its text and what was found.\<close>

fun plist_versions :: "string \<Rightarrow> string \<Rightarrow> plist_element list \<Rightarrow> string \<Rightarrow> string list \<Rightarrow> string list fallible" where
  "plist_versions filePath expected [] currentKey found = Inr found"
| "plist_versions filePath expected (PlistKey key # rest) currentKey found =
     plist_versions filePath expected rest key found"
| "plist_versions filePath expected (PlistString value # rest) currentKey found =
     (if currentKey = [] then plist_versions filePath expected rest currentKey found
      else if currentKey = ''CFBundleShortVersionString'' \<or> currentKey = ''CFBundleVersion'' then
        (if value \<noteq> expected then Inl (ErrorNew (filePath @ '' '' @ currentKey @ '' does not match '' @ expected))
         else plist_versions filePath expected rest [] (currentKey # found))
      else plist_versions filePath expected rest [] found)"

definition checkPlistVersion :: "'w release_env \<Rightarrow> string \<Rightarrow> string \<Rightarrow> 'w \<Rightarrow> error \<times> 'w" where
  "checkPlistVersion env filePath expected w =
     (case rt_ReadFile env filePath w of
        (Inl err, w) \<Rightarrow> (Some err, w)
      | (Inr body, w) \<Rightarrow>
          (case rt_plist env body of
             Inl err \<Rightarrow> Some err
           | Inr elements \<Rightarrow>
               (case plist_versions filePath expected elements [] [] of
                  Inl err \<Rightarrow> Some err
                | Inr found \<Rightarrow>
                    if ''CFBundleShortVersionString'' \<notin> set found
                    then Some (ErrorNew (filePath @ '' is missing CFBundleShortVersionString''))
                    else if ''CFBundleVersion'' \<notin> set found
                    then Some (ErrorNew (filePath @ '' is missing CFBundleVersion'')) else None), w))"

fun json_member :: "json \<Rightarrow> string list \<Rightarrow> json option" where
  "json_member current [] = Some current"
| "json_member (JObject members) (key # keys) =
     (case map_of (rev members) key of None \<Rightarrow> None | Some current \<Rightarrow> json_member current keys)"
| "json_member current (key # keys) = None"

fun json_versions :: "string \<Rightarrow> string \<Rightarrow> json \<Rightarrow> string list \<Rightarrow> error" where
  "json_versions filePath expected value [] = None"
| "json_versions filePath expected value (keyPath # rest) =
     (case json_member value (split_on (CHR ''.'') keyPath) of
        None \<Rightarrow> Some (ErrorNew (filePath @ '' is missing '' @ keyPath))
      | Some current \<Rightarrow>
          if current \<noteq> JString expected then Some (ErrorNew (filePath @ '' '' @ keyPath @ '' does not match '' @ expected))
          else json_versions filePath expected value rest)"

definition checkJSONVersions :: "'w release_env \<Rightarrow> string \<Rightarrow> string \<Rightarrow> string list \<Rightarrow> 'w \<Rightarrow> error \<times> 'w" where
  "checkJSONVersions env filePath expected paths w =
     (case rt_ReadFile env filePath w of
        (Inl err, w) \<Rightarrow> (Some err, w)
      | (Inr body, w) \<Rightarrow>
          (case rt_json env body of Inl err \<Rightarrow> Some err | Inr value \<Rightarrow> json_versions filePath expected value paths, w))"

fun replace_crlf :: "string \<Rightarrow> string" where
  "replace_crlf (c # d # s) =
     (if c = CHR 0x0D \<and> d = CHR 0x0A then CHR 0x0A # replace_crlf s else c # replace_crlf (d # s))"
| "replace_crlf s = s"

definition version_layout :: "(string \<times> nat) list" where
  "version_layout =
     [(''build/config.yml'', 2), (''build/linux/nfpm/nfpm.yaml'', 1), (''build/windows/wails.exe.manifest'', 1),
      (''build/windows/nsis/wails_tools.nsh'', 1)]"

definition check_layout :: "'w release_env \<Rightarrow> string \<Rightarrow> string \<Rightarrow> string \<times> nat \<Rightarrow> 'w \<Rightarrow> error \<times> 'w" where
  "check_layout env root expected entry w =
     (let (path, count) = entry
      in case rt_ReadFile env (rt_Join env root path) w of
           (Inl err, w) \<Rightarrow> (Some err, w)
         | (Inr body, w) \<Rightarrow>
             let matches = rt_find env path (replace_crlf body)
             in (if length matches \<noteq> count then Some (ErrorNew (path @ '' has an unexpected version layout''))
                 else case filter (\<lambda>v. v \<noteq> expected) matches of
                        [] \<Rightarrow> None
                      | v # _ \<Rightarrow> Some (ErrorNew (path @ '' version '' @ v @ '' does not match '' @ expected)), w))"

definition checkVersionFiles :: "'w release_env \<Rightarrow> string \<Rightarrow> string \<Rightarrow> 'w \<Rightarrow> error \<times> 'w" where
  "checkVersionFiles env root expected w =
     (if \<not> ue_semver_IsValid (rt_update env) (''v'' @ expected) \<or>
         ue_semver_Prerelease (rt_update env) (''v'' @ expected) \<noteq> []
      then (Some (ErrorNew ''expected version must be stable SemVer without a v prefix''), w)
      else checks
        (map (check_layout env root expected) version_layout @
         [checkPlistVersion env (rt_Join env root ''build/darwin/Info.plist'') expected,
          checkJSONVersions env (rt_Join env root ''build/windows/info.json'') expected
            [''fixed.file_version'', ''info.0000.ProductVersion''],
          checkJSONVersions env (rt_Join env root ''frontend/package.json'') expected [''version''],
          checkJSONVersions env (rt_Join env root ''frontend/package-lock.json'') expected
            [''version'', ''packages..version'']]) w)"

end
