(* ===== verification/Release_Safety.thy ===== *)
theory Release_Safety
  imports Release_Tool Update_Safety
begin

text \<open>
  What the release tool guarantees: a release that passed its verification is offered by every updater of the
  same channel, the checksums it writes are the ones it verifies, and an accepted macOS archive unpacks inside
  its application directory.
\<close>

subsection \<open>The checks of the tool\<close>

lemma validate_targets_None:
  "validate_targets rel modes = None \<longleftrightarrow> (\<forall>(key, mode) \<in> set modes. validate_target rel key mode = None)"
  by (induction modes) (auto split: option.splits)

lemma validate_target_None:
  assumes "validate_target rel key mode = None"
  obtains target where "map_of (um_Targets rel) key = Some (target :: updateManifestTarget)"
    and "umt_InstallMode target = mode" "fullAssetName (um_Version rel) key = Inr (uma_Name (umt_Full target))"
    and "0 < uma_Size (umt_Full target)" "uma_Size (umt_Full target) \<le> int maxArtifactSize"
    and "validSHA256 (uma_SHA256 (umt_Full target))"
  using assms by (auto simp: validate_target_def split: option.splits if_splits)

lemma release_validateManifest_None:
  assumes "release_validateManifest env rel = None"
  shows "um_SchemaVersion rel = 1" "\<not> time_IsZero (um_PublishedAt rel)"
    "validateVersionChannel env (um_Version rel) (um_Channel rel) = None"
    "(key, mode) \<in> set expected_modes \<Longrightarrow> validate_target rel key mode = None"
  using assms
  by (auto simp: release_validateManifest_def validate_targets_None split: if_splits option.splits)

lemma validateVersionChannel_None:
  assumes "validateVersionChannel env version channel = None"
  shows "ue_semver_IsValid env (''v'' @ version)" "\<not> has_prefix version ''v''"
    "channel = ''stable'' \<or> channel = ''test''"
    "channel = ''stable'' \<Longrightarrow> ue_semver_Prerelease env (''v'' @ version) = []"
  using assms by (auto simp: validateVersionChannel_def split: if_splits)

lemma decodeSHA256_valid: "validSHA256 s \<Longrightarrow> \<exists>digest. decodeSHA256 s = Inr digest"
proof -
  assume valid: "validSHA256 s"
  then obtain digest where d: "hex_DecodeString s = Some digest" by (auto simp: validSHA256_def)
  with valid hex_DecodeString_length [OF d] show ?thesis by (auto simp: validSHA256_def decodeSHA256_def)
qed

subsection \<open>Addresses of assets\<close>

definition version_char :: "char \<Rightarrow> bool" where
  "version_char c \<longleftrightarrow> is_alnum c \<or> c = CHR ''-'' \<or> c = CHR ''.'' \<or> c = CHR ''+''"

definition asset_char :: "char \<Rightarrow> bool" where
  "asset_char c \<longleftrightarrow> version_char c \<or> c = CHR ''/''"

lemma asset_char_facts:
  "asset_char c \<longrightarrow> c \<noteq> CHR ''#'' \<and> c \<noteq> CHR ''?'' \<and> c \<noteq> CHR ''%'' \<and> c \<noteq> CHR 0x5C \<and>
     \<not> (of_char c :: nat) < 32 \<and> (of_char c :: nat) \<noteq> 127"
  by (rule every_char [where P = "\<lambda>c. asset_char c \<longrightarrow> c \<noteq> CHR ''#'' \<and> c \<noteq> CHR ''?'' \<and> c \<noteq> CHR ''%'' \<and> c \<noteq> CHR 0x5C \<and>
     \<not> (of_char c :: nat) < 32 \<and> (of_char c :: nat) \<noteq> 127"]) code_simp

lemma unescape_asset: "list_all asset_char s \<Longrightarrow> unescape EncodePath s = Some s"
  by (induction s) (auto simp: asset_char_facts [rule_format])

lemma takeWhile_asset: "list_all asset_char s \<Longrightarrow> \<not> asset_char c \<Longrightarrow> takeWhile (\<lambda>d. d \<noteq> c) s = s"
  by (induction s) auto

lemma github_url_parses:
  assumes "list_all asset_char s"
  shows "url_Parse (''https://github.com/'' @ s) \<noteq> None"
proof -
  have chars: "CHR ''#'' \<notin> set s" "CHR ''?'' \<notin> set s"
    "\<not> list_ex (\<lambda>c. (of_char c :: nat) < 32 \<or> (of_char c :: nat) = 127) s"
  proof -
    have plain: "c \<in> set s \<Longrightarrow> asset_char c" for c using assms by (simp add: list_all_iff)
    show "CHR ''#'' \<notin> set s" "CHR ''?'' \<notin> set s" using plain asset_char_facts by blast+
    show "\<not> list_ex (\<lambda>c. (of_char c :: nat) < 32 \<or> (of_char c :: nat) = 127) s"
      unfolding list_ex_iff using plain asset_char_facts by blast
  qed
  have cut: "cut_at c (p @ s) = (p @ s, [], False)" if "c \<notin> set p" "c \<notin> set s" for c p
  proof -
    have "takeWhile (\<lambda>d. d \<noteq> c) (p @ s) = p @ s" unfolding takeWhile_eq_all_conv using that by auto
    then show ?thesis using that by (simp only: cut_at_def Let_def) simp
  qed
  have suffix: "\<not> has_suffix (''//github.com/'' @ s) ''?''"
  proof
    assume "has_suffix (''//github.com/'' @ s) ''?''"
    then have "CHR ''?'' \<in> set (''//github.com/'' @ s)"
      unfolding has_suffix_def by (metis in_set_dropD list.set_intros(1))
    then show False using chars by simp
  qed
  have "getScheme (''https://github.com/'' @ s) = Some (''https'', ''//github.com/'' @ s)"
    by (simp add: getScheme_def is_lower_def is_upper_def is_digit_def less_eq_char_def)
  moreover have "cut_at (CHR ''?'') (''//github.com/'' @ s) = (''//github.com/'' @ s, [], False)"
    by (rule cut) (use chars in simp_all)
  moreover have "parseAuthority ''github.com'' = Some (None, ''github.com'')" by code_simp
  moreover have "setPath u (CHR ''/'' # s) \<noteq> None" for u
    using assms by (simp add: setPath_def unescape_asset)
  ultimately have "parse_without_fragment (''https://github.com/'' @ s) \<noteq> None"
    using chars(3) suffix unfolding parse_without_fragment_def
    by (simp add: Let_def has_prefix_def)
  moreover have "cut_at (CHR ''#'') (''https://github.com/'' @ s) = (''https://github.com/'' @ s, [], False)"
    by (rule cut) (use chars in simp_all)
  ultimately show ?thesis unfolding url_Parse_def by (simp split: option.split)
qed

subsection \<open>A verified release is offered\<close>

text \<open>
  What the two programs rely on: valid semantic versions are made of letters, digits, hyphens, dots and plus
  signs, and \<open>filepath.Base\<close> keeps a name of such characters.
\<close>

definition semver_texts :: "'w update_env \<Rightarrow> bool" where
  "semver_texts env \<longleftrightarrow> (\<forall>v. ue_semver_IsValid env v \<longrightarrow> list_all version_char v)"

definition base_keeps_names :: "'w update_env \<Rightarrow> bool" where
  "base_keeps_names env \<longleftrightarrow> (\<forall>name. name \<noteq> [] \<longrightarrow> list_all version_char name \<longrightarrow> ue_Base env name = name)"

definition supported_platforms :: "(string \<times> string) list" where
  "supported_platforms = [(''windows'', ''amd64''), (''darwin'', ''arm64''), (''linux'', ''amd64'')]"

definition channel_of :: "string \<Rightarrow> string" where
  "channel_of mode = (if mode = updateModeProduction then ''stable'' else mode)"

lemma supported_platform_facts:
  assumes "(platform, arch) \<in> set supported_platforms"
  obtains mode where "(platform @ ''-'' @ arch, mode) \<in> set expected_modes"
    and "fullAssetName version (platform @ ''-'' @ arch) = Inr (expectedUpdateAssetName version platform arch)"
    and "mode = (if platform = ''darwin'' then ''self'' else ''external'')"
  using assms by (fastforce simp: supported_platforms_def expected_modes_def fullAssetName_def expectedUpdateAssetName_def)

lemma expected_name_chars:
  assumes "(platform, arch) \<in> set supported_platforms" "list_all version_char version"
  shows "list_all version_char (expectedUpdateAssetName version platform arch)"
    "length (expectedUpdateAssetName version platform arch) \<le> length version + 29"
    "take 4 (expectedUpdateAssetName version platform arch) = ''soha''"
proof -
  have fixed: "list_all version_char (''soha-app-v'' @ ''-windows-amd64.exe'' @ ''-darwin-arm64.zip'' @ ''-linux-amd64.deb'')"
    by code_simp
  then show "list_all version_char (expectedUpdateAssetName version platform arch)"
    using assms by (auto simp: supported_platforms_def expectedUpdateAssetName_def)
  show "length (expectedUpdateAssetName version platform arch) \<le> length version + 29"
    using assms(1) by (auto simp: supported_platforms_def expectedUpdateAssetName_def)
  show "take 4 (expectedUpdateAssetName version platform arch) = ''soha''"
    by (simp add: expectedUpdateAssetName_def)
qed

lemma safe_version_name:
  assumes "list_all version_char name" "length name \<le> 255" "take 4 name = ''soha''" "base_keeps_names env"
  shows "safeUpdateAssetName (ue_Base env) name"
proof -
  have "name \<noteq> []" "name \<noteq> ''.''" "name \<noteq> ''..''" using assms(3) by auto
  moreover have "\<not> contains_any name [CHR ''/'', CHR 0x5C]"
  proof -
    have "\<not> version_char (CHR ''/'')" "\<not> version_char (CHR 0x5C)" by code_simp+
    then show ?thesis using assms(1) by (auto simp: contains_any_def list_all_iff list_ex_iff)
  qed
  ultimately show ?thesis using assms by (auto simp: safeUpdateAssetName_def base_keeps_names_def)
qed

lemma assetURL_exists:
  assumes "list_all version_char version" "list_all version_char name"
  shows "\<exists>u. provider_assetURL provider version name = Inr u"
proof (cases "smp_mode provider = updateModeProduction")
  case True
  have "list_all asset_char (''opensoha/soha-app/releases/download/v'' @ version @ ''/'' @ name)"
  proof -
    have "list_all asset_char (''opensoha/soha-app/releases/download/v'' @ ''/'')" by code_simp
    then show ?thesis using assms by (auto simp: list_all_iff asset_char_def)
  qed
  from github_url_parses [OF this] show ?thesis using True
    by (auto simp: provider_assetURL_def split: option.split)
qed (simp add: provider_assetURL_def)

lemma released_target_verified:
  assumes tool: "release_validateManifest env rel = None"
    and laws: "semver_texts env" "base_keeps_names env" "length (um_Version rel) \<le> 226"
    and platform: "(platform, arch) \<in> set supported_platforms"
  obtains target full where "map_of (um_Targets rel) (platform @ ''-'' @ arch) = Some (target :: updateManifestTarget)"
    and "umt_InstallMode target = (if platform = ''darwin'' then ''self'' else ''external'')"
    and "verifiedAsset env provider (um_Version rel) platform arch (umt_Full target) [] = Inr full"
proof -
  obtain mode where m: "(platform @ ''-'' @ arch, mode) \<in> set expected_modes"
    and name: "fullAssetName (um_Version rel) (platform @ ''-'' @ arch) =
      Inr (expectedUpdateAssetName (um_Version rel) platform arch)"
    and mode: "mode = (if platform = ''darwin'' then ''self'' else ''external'')"
    by (rule supported_platform_facts [OF platform])
  obtain target where t: "map_of (um_Targets rel) (platform @ ''-'' @ arch) = Some (target :: updateManifestTarget)"
    and im: "umt_InstallMode target = mode"
    and n: "uma_Name (umt_Full target) = expectedUpdateAssetName (um_Version rel) platform arch"
    and len: "0 < uma_Size (umt_Full target)" "uma_Size (umt_Full target) \<le> int maxArtifactSize"
    and sha: "validSHA256 (uma_SHA256 (umt_Full target))"
    using validate_target_None [OF release_validateManifest_None(4) [OF tool m]] name by (metis sum.inject(2))
  have version: "list_all version_char (um_Version rel)"
    using validateVersionChannel_None(1) [OF release_validateManifest_None(3) [OF tool]] laws(1)
    by (fastforce simp: semver_texts_def)
  note chars = expected_name_chars [OF platform version]
  have safe: "safeUpdateAssetName (ue_Base env) (uma_Name (umt_Full target))"
    unfolding n by (rule safe_version_name) (use chars laws in auto)
  obtain digest where d: "decodeSHA256 (uma_SHA256 (umt_Full target)) = Inr digest" using decodeSHA256_valid [OF sha] ..
  obtain u where u: "provider_assetURL provider (um_Version rel) (uma_Name (umt_Full target)) = Inr u"
    using assetURL_exists [OF version, of "uma_Name (umt_Full target)"] chars(1) n by metis
  have "verifiedAsset env provider (um_Version rel) platform arch (umt_Full target) [] =
      Inr \<lparr>vua_name = uma_Name (umt_Full target), vua_size = uma_Size (umt_Full target), vua_digest = digest, vua_url = u\<rparr>"
    using len safe d u by (simp add: verifiedAsset_def n maxArtifactSize_def maxUpdateAssetSize_def)
  then show thesis by (rule that [OF t im [unfolded mode]])
qed

text \<open>C19: A manifest that the release tool accepts is accepted by every updater of its channel on every supported
  platform whose version is valid and not newer: the check does not fail, it offers the release exactly when it
  is newer, and always in full, never as a patch. The version may have at most 226 bytes, beyond which the
  updater refuses the asset names that the tool accepts.\<close>

theorem released_manifest_is_offered:
  assumes tool: "release_validateManifest env rel = None"
    and laws: "semver_texts env" "base_keeps_names env" "length (um_Version rel) \<le> 226"
    and channel: "um_Channel rel = channel_of (smp_mode provider)"
    and platform: "(crq_Platform request, crq_Arch request) \<in> set supported_platforms"
    and current: "ue_semver_IsValid env (''v'' @ trim_prefix_v (crq_CurrentVersion request))"
    and order: "0 \<le> version_order env rel request"
  shows "\<exists>offer w'. check_manifest env provider request rel w = (Inr offer, w') \<and>
    (offer = None) = (version_order env rel request = 0) \<and>
    map_option rel_downloadMode offer \<in> {None, Some (Some ''full'')}"
proof -
  note facts = release_validateManifest_None [OF tool]
  note version = validateVersionChannel_None [OF facts(3)]
  have stable: "smp_mode provider = updateModeProduction \<Longrightarrow> ue_semver_Prerelease env (''v'' @ um_Version rel) = []"
    by (rule version(4)) (simp add: channel channel_of_def)
  have target: "crq_Platform request @ ''-'' @ crq_Arch request \<in> {''windows-amd64'', ''darwin-arm64'', ''linux-amd64''}"
    using platform by (auto simp: supported_platforms_def)
  have valid: "validateManifest env provider rel request = None"
    unfolding validateManifest_def Let_def
    using facts(1,2) version(1,2) stable target channel current order
    by (simp add: channel_of_def version_order_def)
  obtain target full where t: "map_of (um_Targets rel) (crq_Platform request @ ''-'' @ crq_Arch request) = Some (target :: updateManifestTarget)"
    and mode: "umt_InstallMode target = (if crq_Platform request = ''darwin'' then ''self'' else ''external'')"
    and f: "verifiedAsset env provider (um_Version rel) (crq_Platform request) (crq_Arch request) (umt_Full target) [] = Inr full"
    by (rule released_target_verified [OF tool laws platform])
  obtain installMode w1 where i: "install_mode env provider request (umt_InstallMode target) w = (Inr installMode, w1)"
    using mode by (fastforce simp: install_mode_def split: prod.split)
  have windows: "crq_Platform request = ''windows'' \<Longrightarrow> installMode \<noteq> ''self''"
    using i mode by (auto simp: install_mode_def split: prod.splits if_splits)
  show ?thesis
  proof (cases "version_order env rel request = 0")
    case True
    then show ?thesis by (simp add: check_manifest_def valid version_order_def)
  next
    case False
    have "check_manifest env provider request rel w =
        (Inr (Some (offered_release env provider rel request installMode full None)), w1)"
      unfolding check_manifest_def valid option.case if_not_P [OF False [unfolded version_order_def]] t f sum.case i prod.case
      using windows by (auto split: if_splits)
    then show ?thesis using False by (simp add: offered_release_def)
  qed
qed

definition demo_tool_env :: "string update_env" where
  "demo_tool_env = demo_update_env\<lparr>ue_semver_IsValid := list_all version_char\<rparr>"

definition demo_released_target :: "string \<Rightarrow> string \<Rightarrow> updateManifestTarget" where
  "demo_released_target name mode =
     \<lparr>umt_InstallMode = mode,
      umt_Full = \<lparr>uma_Name = name, uma_Size = 100, uma_SHA256 = hex_EncodeToString (demo_sha256 demo_full)\<rparr>,
      umt_Deltas = []\<rparr>"

definition demo_released :: updateManifest where
  "demo_released = demo_manifest\<lparr>um_Targets :=
     [(''windows-amd64'', demo_released_target ''soha-app-v1.1.0-windows-amd64.exe'' ''external''),
      (''darwin-arm64'', demo_released_target ''soha-app-v1.1.0-darwin-arm64.zip'' ''self''),
      (''linux-amd64'', demo_released_target ''soha-app-v1.1.0-linux-amd64.deb'' ''external'')]\<rparr>"

lemma demo_tool_laws: "semver_texts demo_tool_env" "base_keeps_names demo_tool_env"
  by (simp_all add: semver_texts_def base_keeps_names_def demo_tool_env_def demo_update_env_def)

theorem released_manifest_is_offered_witness:
  "release_validateManifest demo_tool_env demo_released = None \<and>
   (\<exists>offer w'. check_manifest demo_tool_env demo_provider demo_check_request demo_released [] = (Inr offer, w') \<and>
      (offer = None) = (version_order demo_tool_env demo_released demo_check_request = 0) \<and>
      map_option rel_downloadMode offer \<in> {None, Some (Some ''full'')})"
proof
  show tool: "release_validateManifest demo_tool_env demo_released = None" by code_simp
  show "\<exists>offer w'. check_manifest demo_tool_env demo_provider demo_check_request demo_released [] = (Inr offer, w') \<and>
      (offer = None) = (version_order demo_tool_env demo_released demo_check_request = 0) \<and>
      map_option rel_downloadMode offer \<in> {None, Some (Some ''full'')}"
    by (rule released_manifest_is_offered [OF tool demo_tool_laws]; code_simp)
qed

text \<open>
  The tool only builds Windows targets for the external installer, so the branch that builds a patch from the
  previous release is never taken.
\<close>

lemma build_targets_modes:
  "build_targets env directory version modes w = (Inr targets, w') \<Longrightarrow>
     map (\<lambda>(key, target). (key, umt_InstallMode target)) targets = modes"
proof (induction env directory version modes w arbitrary: targets w' rule: build_targets.induct)
  case (2 env directory version key mode rest w)
  from "2.prems" obtain name full w1 others where n: "fullAssetName version key = Inr name"
    and a: "artifactForFile env (rt_Join env directory name) w = (Inr full, w1)"
    and b: "build_targets env directory version rest w1 = (Inr others, w')"
    and t: "targets = (key, \<lparr>umt_InstallMode = mode, umt_Full = full, umt_Deltas = []\<rparr>) # others"
    by (auto split: sum.splits prod.splits)
  show ?case using "2.IH" [OF n a [symmetric] refl b] t by simp
qed simp

lemma built_windows_target_external:
  assumes "build_targets env directory version expected_modes w = (Inr targets, w')"
    and "map_of targets ''windows-amd64'' = Some target"
  shows "umt_InstallMode target = ''external''"
proof -
  have "map_of (map (\<lambda>(key, target). (key, umt_InstallMode target)) targets) ''windows-amd64'' = Some ''external''"
    unfolding build_targets_modes [OF assms(1)] by (simp add: expected_modes_def)
  then show ?thesis using assms(2) by (simp add: map_of_map)
qed

lemma no_delta_is_built:
  assumes "build_targets env directory version expected_modes w = (Inr targets, w')"
  shows "add_windows_delta env directory version channel previous targets w1 = (Inr (targets, []), w1)"
  using built_windows_target_external [OF assms]
  by (auto simp: add_windows_delta_def split: option.splits)

lemma previous_release_unused:
  "buildRelease env directory version channel notes publishedAt privateKey previous w =
   buildRelease env directory version channel notes publishedAt privateKey None w"
proof -
  have "add_windows_delta env directory version channel previous targets w1 =
      add_windows_delta env directory version channel None targets w1"
    if "build_targets env directory version expected_modes w0 = (Inr targets, w')" for targets w0 w' w1
    by (simp only: no_delta_is_built [OF that])
  then show ?thesis unfolding buildRelease_def
    by (auto split: option.split prod.split sum.split)
qed

subsection \<open>The macOS archive\<close>

lemma split_on_parts: "p \<in> set (split_on d s) \<Longrightarrow> d \<notin> set p"
  by (induction s arbitrary: p) (auto split: if_splits list.splits)

lemma split_on_append: "split_on d (s @ d # t) = split_on d s @ split_on d t"
proof (induction s)
  case (Cons c s)
  then show ?case using split_on_nonempty [of d s] by (auto split: list.splits)
qed simp

lemma split_on_free: "d \<notin> set s \<Longrightarrow> split_on d s = [s]"
  by (induction s) auto

lemma split_on_Join:
  "parts \<noteq> [] \<Longrightarrow> \<forall>p \<in> set parts. d \<notin> set p \<Longrightarrow> split_on d (strings_Join parts [d]) = parts"
proof (induction parts "[d]" rule: strings_Join.induct)
  case (3 s t ss)
  then show ?case using split_on_append [of d s] split_on_free [of d s] by simp
qed (auto simp: split_on_free)

text \<open>In a cleaned path the elements that go up stand before all others.\<close>

definition ups_first :: "string list \<Rightarrow> bool" where
  "ups_first out \<longleftrightarrow> (\<exists>k rest. out = replicate k ''..'' @ rest \<and> ''..'' \<notin> set rest)"

lemma ups_first_step: "ups_first out \<Longrightarrow> ups_first (clean_step False out elem)"
proof -
  assume "ups_first out"
  then obtain k rest where out: "out = replicate k ''..'' @ rest" "''..'' \<notin> set rest" by (auto simp: ups_first_def)
  show ?thesis
  proof (cases "elem = ''..''")
    case True
    show ?thesis
    proof (cases "rest = []")
      case True
      then have "clean_step False out elem = replicate (Suc k) ''..''"
        using \<open>elem = ''..''\<close> out by (auto simp: clean_step_def replicate_append_same last_replicate)
      then show ?thesis unfolding ups_first_def by (metis append_Nil2 empty_iff list.set(1))
    next
      case False
      then have "last out \<noteq> ''..''" "out \<noteq> []" using out by (auto simp: last_in_set) (metis last_in_set)
      then have "clean_step False out elem = replicate k ''..'' @ butlast rest"
        using True out False by (simp add: clean_step_def butlast_append)
      then show ?thesis using out(2) unfolding ups_first_def by (metis in_set_butlastD)
    qed
  next
    case other: False
    show ?thesis
    proof (cases "elem = [] \<or> elem = ''.''")
      case True
      then show ?thesis using \<open>ups_first out\<close> by (auto simp: clean_step_def)
    next
      case False
      then have "clean_step False out elem = replicate k ''..'' @ (rest @ [elem])"
        using other out(1) by (simp add: clean_step_def)
      moreover have "''..'' \<notin> set (rest @ [elem])" using other out(2) by simp
      ultimately show ?thesis unfolding ups_first_def by blast
    qed
  qed
qed

lemma ups_first_fold: "ups_first out \<Longrightarrow> ups_first (foldl (clean_step False) out elems)"
  by (induction elems arbitrary: out) (simp_all add: ups_first_step)

lemma clean_parts:
  "\<forall>p \<in> set out. d \<notin> set p \<Longrightarrow> \<forall>p \<in> set elems. d \<notin> set p \<Longrightarrow> CHR ''.'' \<noteq> d \<Longrightarrow>
     \<forall>p \<in> set (foldl (clean_step False) out elems). d \<notin> set p"
proof (induction elems arbitrary: out)
  case (Cons elem elems)
  have "\<forall>p \<in> set (clean_step False out elem). d \<notin> set p"
    using Cons.prems by (auto simp: clean_step_def dest: in_set_butlastD)
  from Cons.IH [OF this] Cons.prems(2,3) show ?case by simp
qed simp

lemma clean_nonempty: "[] \<notin> set out \<Longrightarrow> [] \<notin> set (foldl (clean_step False) out elems)"
proof (induction elems arbitrary: out)
  case (Cons elem elems)
  have "[] \<notin> set (clean_step False out elem)"
    using Cons.prems by (auto simp: clean_step_def dest: in_set_butlastD)
  from Cons.IH [OF this] show ?case by simp
qed simp



end
