(* ===== verification/Release_Checksums.thy ===== *)
theory Release_Checksums
  imports Release_Safety "HOL-Library.AList"
begin

text \<open>
  The checksums of a release directory: what the tool writes is what it verifies. The directory is seen through
  its files, a list of names with their contents.
\<close>

definition directory_laws :: "'w release_env \<Rightarrow> string \<Rightarrow> ('w \<Rightarrow> (string \<times> string) list) \<Rightarrow> bool" where
  "directory_laws env directory files \<longleftrightarrow>
     (\<forall>w. distinct (map fst (files w))) \<and>
     (\<forall>w. rt_ReadDir env directory w = (Inr (map (\<lambda>(name, _). (name, False)) (files w)), w)) \<and>
     (\<forall>w name. rt_Open env (rt_Join env directory name) w =
        (case map_of (files w) name of None \<Rightarrow> Inl ErrNotExist | Some c \<Rightarrow> Inr (c, None), w)) \<and>
     (\<forall>w name c w'. rt_WriteFile env (rt_Join env directory name) c w = (None, w') \<longrightarrow>
        map_of (files w') = (map_of (files w))(name \<mapsto> c))"

lemma directory_lawsD:
  assumes "directory_laws env directory files"
  shows "distinct (map fst (files w))"
    "rt_ReadDir env directory w = (Inr (map (\<lambda>(name, _). (name, False)) (files w)), w)"
    "map_of (files w) name = Some c \<Longrightarrow> rt_Open env (rt_Join env directory name) w = (Inr (c, None), w)"
    "rt_WriteFile env (rt_Join env directory name) c w = (None, w') \<Longrightarrow> map_of (files w') = (map_of (files w))(name \<mapsto> c)"
  using assms by (auto simp: directory_laws_def)

lemma digestFile_content:
  "directory_laws env directory files \<Longrightarrow> map_of (files w) name = Some c \<Longrightarrow>
     digestFile env (rt_Join env directory name) w = (Inr (hexDigest env c), w)"
  by (simp add: digestFile_def directory_lawsD(3))

subsection \<open>Lines\<close>

definition checksum_line :: "'w release_env \<Rightarrow> string \<times> string \<Rightarrow> string" where
  "checksum_line env entry = hexDigest env (snd entry) @ ''  '' @ fst entry"

definition listed :: "(string \<times> string) list \<Rightarrow> (string \<times> string) list" where
  "listed fs = filter (\<lambda>(name, _). name \<noteq> checksumsName) fs"

definition plain_name :: "string \<Rightarrow> bool" where
  "plain_name name \<longleftrightarrow> CHR 0x0A \<notin> set name \<and> last name \<noteq> CHR 0x0D \<and> length name \<le> 255"

definition digests_32 :: "'w release_env \<Rightarrow> bool" where
  "digests_32 env \<longleftrightarrow> (\<forall>c. length (ue_sha256 (rt_update env) c) = 32)"

lemma lower_hex_char: "n < 16 \<Longrightarrow> to_lower_char (lower_hex n) = lower_hex n \<and> lower_hex n \<noteq> CHR '' '' \<and> lower_hex n \<noteq> CHR 0x0A"
proof -
  have "\<forall>n \<in> set [0..<16]. to_lower_char (lower_hex n) = lower_hex n \<and> lower_hex n \<noteq> CHR '' '' \<and> lower_hex n \<noteq> CHR 0x0A"
    by code_simp
  then show "n < 16 \<Longrightarrow> to_lower_char (lower_hex n) = lower_hex n \<and> lower_hex n \<noteq> CHR '' '' \<and> lower_hex n \<noteq> CHR 0x0A"
    by auto
qed

lemma hex_text_chars:
  "to_lower (hex_EncodeToString s) = hex_EncodeToString s" "CHR '' '' \<notin> set (hex_EncodeToString s)"
  "CHR 0x0A \<notin> set (hex_EncodeToString s)"
proof -
  have "byte_of c div 16 < 16" "byte_of c mod 16 < 16" for c using byte_of_less [of c] by linarith+
  note digit = this [THEN lower_hex_char]
  have digits: "to_lower_char (lower_hex (byte_of c div 16)) = lower_hex (byte_of c div 16)"
    "to_lower_char (lower_hex (byte_of c mod 16)) = lower_hex (byte_of c mod 16)"
    "CHR '' '' \<noteq> lower_hex (byte_of c div 16)" "CHR '' '' \<noteq> lower_hex (byte_of c mod 16)"
    "CHR 0x0A \<noteq> lower_hex (byte_of c div 16)" "CHR 0x0A \<noteq> lower_hex (byte_of c mod 16)" for c
    using digit [of c] by metis+
  show "to_lower (hex_EncodeToString s) = hex_EncodeToString s" "CHR '' '' \<notin> set (hex_EncodeToString s)"
    "CHR 0x0A \<notin> set (hex_EncodeToString s)"
    by (induction s) (simp_all add: hex_EncodeToString_def to_lower_def digits)
qed

lemma validSHA256_hexDigest: "digests_32 env \<Longrightarrow> validSHA256 (hexDigest env c)"
  by (simp add: validSHA256_def hexDigest_def digests_32_def hex_text_chars)

lemma strings_Index_spaces: "CHR '' '' \<notin> set d \<Longrightarrow> strings_Index (d @ ''  '' @ n) ''  '' = Some (length d)"
  by (induction d) (auto simp: has_prefix_def)

lemma split_checksum_line:
  "split_entry (checksum_line env (name, c)) = Some (hexDigest env c, name)"
  using strings_Index_spaces [OF hex_text_chars(2)]
  by (simp add: split_entry_def checksum_line_def hexDigest_def)

lemma checksum_line_facts:
  assumes "plain_name name" "name \<noteq> []" "digests_32 env"
  shows "drop_cr (checksum_line env (name, c)) = checksum_line env (name, c)"
    "CHR 0x0A \<notin> set (checksum_line env (name, c))" "length (checksum_line env (name, c)) < 65536"
proof -
  have "last (checksum_line env (name, c)) = last name" using assms(2) by (simp add: checksum_line_def)
  then show "drop_cr (checksum_line env (name, c)) = checksum_line env (name, c)"
    using assms(1) by (simp add: drop_cr_def plain_name_def)
  show "CHR 0x0A \<notin> set (checksum_line env (name, c))" "length (checksum_line env (name, c)) < 65536"
    using assms hex_text_chars(3) by (auto simp: checksum_line_def plain_name_def hexDigest_def digests_32_def)
qed

lemma sort_map_key: "sort (map f xs) = map f (sort_key f xs)" for f :: "'a \<Rightarrow> 'b::linorder"
  by (rule properties_for_sort) simp_all

subsection \<open>Writing\<close>

lemma checksum_lines_written:
  assumes "directory_laws env directory files"
  shows "\<forall>(name, c) \<in> set fs. map_of (files w) name = Some c \<Longrightarrow>
    checksum_lines env directory (map (\<lambda>(name, _). (name, False)) fs) w = (Inr lines, w1) \<Longrightarrow>
    w1 = w \<and> lines = map (checksum_line env) (listed fs) \<and>
    (\<forall>(name, _) \<in> set (listed fs). safeName (ue_Base (rt_update env)) name)"
proof (induction fs arbitrary: lines)
  case Nil
  then show ?case by (simp add: listed_def)
next
  case (Cons entry fs)
  obtain name c where entry: "entry = (name, c)" by fastforce
  show ?case
  proof (cases "name = checksumsName")
    case True
    then show ?thesis using Cons by (simp add: entry listed_def)
  next
    case False
    have stored: "map_of (files w) name = Some c" using Cons.prems(1) by (simp add: entry)
    obtain others w2 where r: "checksum_lines env directory (map (\<lambda>(name, _). (name, False)) fs) w = (others, w2)"
      by fastforce
    have safe: "safeName (ue_Base (rt_update env)) name"
      using Cons.prems(2) False by (auto simp: entry split: if_splits)
    obtain more_lines where o: "others = Inr more_lines"
      using Cons.prems(2) False safe by (cases others) (auto simp: entry r digestFile_content [OF assms stored])
    have lines: "lines = checksum_line env (name, c) # more_lines" "w1 = w2"
      using Cons.prems(2) False safe
      by (auto simp: entry r o digestFile_content [OF assms stored] checksum_line_def)
    have "\<forall>(name, c) \<in> set fs. map_of (files w) name = Some c" using Cons.prems(1) by simp
    moreover have "checksum_lines env directory (map (\<lambda>(name, _). (name, False)) fs) w = (Inr more_lines, w1)"
      using r o lines(2) by simp
    ultimately have "w1 = w \<and> more_lines = map (checksum_line env) (listed fs) \<and>
        (\<forall>(name, _) \<in> set (listed fs). safeName (ue_Base (rt_update env)) name)" by (rule Cons.IH)
    then show ?thesis using lines safe False by (simp add: entry listed_def)
  qed
qed

lemma writeChecksums_content:
  assumes laws: "directory_laws env directory files" and "writeChecksums env directory w = (None, w')"
  shows "map_of (files w') = (map_of (files w))(checksumsName \<mapsto>
      strings_Join (map (checksum_line env) (sort_key (checksum_line env) (listed (files w)))) [CHR 0x0A] @ [CHR 0x0A])"
    and "\<forall>(name, _) \<in> set (listed (files w)). safeName (ue_Base (rt_update env)) name"
proof -
  have all: "\<forall>(name, c) \<in> set (files w). map_of (files w) name = Some c"
    using directory_lawsD(1) [OF laws] by auto
  obtain r w1 where r: "checksum_lines env directory (map (\<lambda>(name, _). (name, False)) (files w)) w = (r, w1)" by fastforce
  obtain lines where lines: "r = Inr lines"
    using assms(2) by (cases r) (simp_all add: writeChecksums_def directory_lawsD(2) [OF laws] r)
  note written = checksum_lines_written [OF laws all r [unfolded lines]]
  have "rt_WriteFile env (rt_Join env directory checksumsName) (strings_Join (sort lines) [CHR 0x0A] @ [CHR 0x0A]) w = (None, w')"
    using assms(2) written by (simp add: writeChecksums_def directory_lawsD(2) [OF laws] r lines)
  from directory_lawsD(4) [OF laws this] written
  show "map_of (files w') = (map_of (files w))(checksumsName \<mapsto>
      strings_Join (map (checksum_line env) (sort_key (checksum_line env) (listed (files w)))) [CHR 0x0A] @ [CHR 0x0A])"
    by (simp add: sort_map_key)
  show "\<forall>(name, _) \<in> set (listed (files w)). safeName (ue_Base (rt_update env)) name" using written by simp
qed

subsection \<open>Verifying\<close>

lemma raw_lines_Join:
  "lines \<noteq> [] \<Longrightarrow> \<forall>line \<in> set lines. CHR 0x0A \<notin> set line \<Longrightarrow>
     raw_lines (strings_Join lines [CHR 0x0A] @ [CHR 0x0A]) = lines"
  using split_on_Join [of lines "CHR 0x0A"] split_on_append [of "CHR 0x0A" "strings_Join lines [CHR 0x0A]" "[]"]
  by (simp add: raw_lines_def Let_def)

lemma checksum_entries_read:
  assumes "digests_32 env"
  shows "distinct (map fst (entries @ map (\<lambda>(n, _). (n, [])) expected)) \<Longrightarrow>
    \<forall>(name, _) \<in> set entries. plain_name name \<and> safeName (ue_Base (rt_update env)) name \<Longrightarrow>
    checksum_entries env (map (checksum_line env) entries) None expected =
      Inr (rev (map (\<lambda>(name, c). (name, hexDigest env c)) entries) @ expected)"
proof (induction entries arbitrary: expected)
  case (Cons entry entries)
  obtain name c where entry: "entry = (name, c)" by fastforce
  have name: "plain_name name" "safeName (ue_Base (rt_update env)) name" using Cons.prems(2) by (simp_all add: entry)
  then have "name \<noteq> []" by (simp add: safeName_def)
  note facts = checksum_line_facts [OF name(1) this assms, of c]
  have new: "map_of expected name = None"
    using Cons.prems(1) by (force simp: entry map_of_eq_None_iff)
  have "distinct (map fst (entries @ map (\<lambda>(n, _). (n, [])) ((name, hexDigest env c) # expected)))"
    using Cons.prems(1) by (auto simp: entry)
  from Cons.IH [OF this] Cons.prems(2) show ?case
    using facts name new validSHA256_hexDigest [OF assms, of c]
    by (simp add: entry split_checksum_line not_le)
qed simp

lemma check_entries_count:
  assumes "directory_laws env directory files"
  shows "\<forall>(name, c) \<in> set fs. map_of (files w) name = Some c \<Longrightarrow>
    \<forall>(name, c) \<in> set (listed fs). map_of expected name = Some (hexDigest env c) \<Longrightarrow>
    check_entries env directory expected (map (\<lambda>(name, _). (name, False)) fs) w = (Inr (length (listed fs)), w)"
proof (induction fs)
  case (Cons entry fs)
  obtain name c where entry: "entry = (name, c)" by fastforce
  have IH: "check_entries env directory expected (map (\<lambda>(name, _). (name, False)) fs) w = (Inr (length (listed fs)), w)"
    by (rule Cons.IH) (use Cons.prems in \<open>auto simp: listed_def\<close>)
  have stored: "map_of (files w) name = Some c" using Cons.prems(1) by (simp add: entry)
  show ?case
  proof (cases "name = checksumsName")
    case False
    then have "map_of expected name = Some (hexDigest env c)" using Cons.prems(2) by (simp add: entry listed_def)
    then show ?thesis using False IH digestFile_content [OF assms stored] by (simp add: entry listed_def)
  qed (simp add: entry listed_def IH)
qed (simp add: listed_def)

lemma listed_agree:
  assumes "distinct (map fst fs)" "distinct (map fst gs)" "map_of gs = (map_of fs)(checksumsName \<mapsto> body)"
  shows "set (listed gs) = set (listed fs)" "length (listed gs) = length (listed fs)"
proof -
  have "(name, c) \<in> set (listed gs) \<longleftrightarrow> (name, c) \<in> set (listed fs)" for name c
  proof -
    have "(name, c) \<in> set gs \<longleftrightarrow> map_of gs name = Some c" "(name, c) \<in> set fs \<longleftrightarrow> map_of fs name = Some c"
      using assms(1,2) by simp_all
    then show ?thesis using assms(3) by (auto simp: listed_def)
  qed
  then show eq: "set (listed gs) = set (listed fs)" by (auto simp: set_eq_iff)
  have "distinct (listed fs)" "distinct (listed gs)"
    using assms(1,2) by (simp_all add: listed_def distinct_map)
  then show "length (listed gs) = length (listed fs)" using eq by (metis distinct_card)
qed

text \<open>C39: The checksums that the tool writes for a release directory are the ones it verifies: for files with plain
  names, at least one of them, and a list of at most a mebibyte, the verification succeeds after the writing.\<close>

theorem checksums_round_trip:
  assumes laws: "directory_laws env directory files" "digests_32 env"
    and names: "\<forall>(name, _) \<in> set (listed (files w)). plain_name name" "listed (files w) \<noteq> []"
    and written: "writeChecksums env directory w = (None, w')"
    and bound: "\<forall>body. map_of (files w') checksumsName = Some body \<longrightarrow> length body \<le> maxManifestSize"
  shows "verifyChecksums env directory w' = (None, w')"
proof -
  let ?entries = "sort_key (checksum_line env) (listed (files w))"
  let ?body = "strings_Join (map (checksum_line env) ?entries) [CHR 0x0A] @ [CHR 0x0A]"
  let ?expected = "rev (map (\<lambda>(name, c). (name, hexDigest env c)) ?entries)"
  note content = writeChecksums_content [OF laws(1) written]
  have safe: "\<forall>(name, _) \<in> set ?entries. plain_name name \<and> safeName (ue_Base (rt_update env)) name"
    using names(1) content(2) by (simp add: split_def)
  have stored: "map_of (files w') checksumsName = Some ?body" using content(1) by simp
  have opened: "rt_Open env (rt_Join env directory checksumsName) w' = (Inr (?body, None), w')"
    by (rule directory_lawsD(3) [OF laws(1) stored])
  have "length ?body \<le> maxManifestSize" using bound stored by simp
  then have body: "read_body (maxManifestSize + 1) (?body, None) = (?body, None)" by (simp add: read_body_def)
  have ends: "\<forall>line \<in> set (map (checksum_line env) ?entries). CHR 0x0A \<notin> set line"
  proof
    fix line assume "line \<in> set (map (checksum_line env) ?entries)"
    then obtain name c where "line = checksum_line env (name, c)" "(name, c) \<in> set ?entries" by auto
    moreover from this safe have "plain_name name" "name \<noteq> []" by (auto simp: safeName_def)
    ultimately show "CHR 0x0A \<notin> set line" using checksum_line_facts(2) [OF _ _ laws(2)] by simp
  qed
  have lines: "raw_lines ?body = map (checksum_line env) ?entries"
  proof (rule raw_lines_Join [OF _ ends])
    show "map (checksum_line env) ?entries \<noteq> []" using names(2) by (metis length_0_conv length_map length_sort)
  qed
  have distinct: "distinct (map fst (listed (files w)))"
    using directory_lawsD(1) [OF laws(1), of w] by (simp add: listed_def distinct_map_filter)
  then have "distinct (map fst ?entries)"
    by (simp add: distinct_map)
  note sorted_distinct = this
  have expected: "checksum_entries env (map (checksum_line env) ?entries) None [] = Inr ?expected"
    using checksum_entries_read [OF laws(2), of ?entries "[]"] sorted_distinct safe by simp
  note agree = listed_agree [OF directory_lawsD(1) [OF laws(1)] directory_lawsD(1) [OF laws(1)] content(1)]
  have known: "\<forall>(name, c) \<in> set (listed (files w')). map_of ?expected name = Some (hexDigest env c)"
  proof -
    have "distinct (map fst ?expected)" using sorted_distinct by (simp add: rev_map [symmetric] comp_def split_def)
    then show ?thesis using agree(1) by (auto simp: image_iff split_def intro!: map_of_is_SomeI)
  qed
  have all: "\<forall>(name, c) \<in> set (files w'). map_of (files w') name = Some c"
    using directory_lawsD(1) [OF laws(1)] by auto
  have "check_entries env directory ?expected (map (\<lambda>(name, _). (name, False)) (files w')) w' =
      (Inr (length (listed (files w'))), w')"
    by (rule check_entries_count [OF laws(1) all known])
  then have "verifyChecksums env directory w' = (if length (listed (files w')) \<noteq> length ?expected
      then Some (ErrorNew ''checksums.txt references a missing asset'') else None, w')"
    by (simp only: verifyChecksums_def opened body lines expected directory_lawsD(2) [OF laws(1)] prod.case sum.case Let_def)
  then show ?thesis using agree(2) by simp
qed

text \<open>A directory of the witness: its files, of which the first with a name counts.\<close>

type_synonym demo_files = "(string \<times> string) list"

definition demo_files_update_env :: "demo_files update_env" where
  "demo_files_update_env =
     \<lparr>ue_Verify = (\<lambda>_ _ _. False), ue_sha256 = demo_sha256,
      ue_semver_IsValid = (\<lambda>_. True), ue_semver_Prerelease = (\<lambda>_. []), ue_semver_Compare = (\<lambda>_ _. 0),
      ue_bsdiff_Patch = (\<lambda>_ _. Inl EOF), ue_decode_manifest = (\<lambda>_. Inl EOF), ue_decode_any = (\<lambda>_. Inl EOF),
      ue_Base = (\<lambda>s. s), ue_Ext = (\<lambda>_. []), ue_Dir = (\<lambda>s. s), ue_Separator = CHR ''/'',
      ue_Open = (\<lambda>_ w. (Inl ErrNotExist, w)), ue_CreateTemp = (\<lambda>_ w. (Inl EOF, w)),
      ue_CloseTemp = (\<lambda>_ w. (None, w)), ue_Remove = (\<lambda>_ w. (None, w)), ue_ctxErr = (\<lambda>_. None)\<rparr>"

definition demo_directory :: "demo_files release_env" where
  "demo_directory =
     \<lparr>rt_update = demo_files_update_env, rt_Join = (\<lambda>directory name. name),
      rt_Open = (\<lambda>name w. (case map_of w name of None \<Rightarrow> Inl ErrNotExist | Some c \<Rightarrow> Inr (c, None), w)),
      rt_ReadFile = (\<lambda>name w. (case map_of w name of None \<Rightarrow> Inl ErrNotExist | Some c \<Rightarrow> Inr c, w)),
      rt_Stat = (\<lambda>_ w. (Inl ErrNotExist, w)),
      rt_ReadDir = (\<lambda>_ w. (Inr (map (\<lambda>(name, _). (name, False)) (AList.clearjunk w)), w)),
      rt_WriteFile = (\<lambda>name c w. (None, (name, c) # w)), rt_Remove = (\<lambda>_ w. (None, w)),
      rt_OpenZip = (\<lambda>_ w. (Inl ErrNotExist, w)), rt_Marshal = (\<lambda>_. Inl EOF), rt_decode_empty = (\<lambda>_. Inl EOF),
      rt_Sign = (\<lambda>_ _. []), rt_Public = (\<lambda>s. s), rt_NewKeyFromSeed = (\<lambda>s. s), rt_base64 = (\<lambda>s. s),
      rt_bsdiff_Diff = (\<lambda>_ _. Inl EOF), rt_ParseTime = (\<lambda>_. Inl EOF), rt_find = (\<lambda>_ _. []),
      rt_plist = (\<lambda>_. Inl EOF), rt_json = (\<lambda>_. Inl EOF)\<rparr>"

definition demo_release_files :: demo_files where
  "demo_release_files = [(''soha-app.deb'', ''package''), (''soha-app.zip'', ''archive''), (checksumsName, ''stale'')]"

lemma demo_directory_laws: "directory_laws demo_directory directory AList.clearjunk" "digests_32 demo_directory"
  by (auto simp: directory_laws_def demo_directory_def digests_32_def demo_files_update_env_def demo_sha256_def
      distinct_clearjunk map_of_clearjunk fun_eq_iff)

theorem checksums_round_trip_witness:
  "\<exists>w'. writeChecksums demo_directory ''out'' demo_release_files = (None, w') \<and>
     verifyChecksums demo_directory ''out'' w' = (None, w')"
proof -
  obtain w' where w': "w' = snd (writeChecksums demo_directory ''out'' demo_release_files)" by simp
  have "fst (writeChecksums demo_directory ''out'' demo_release_files) = None" by code_simp
  then have written: "writeChecksums demo_directory ''out'' demo_release_files = (None, w')"
    unfolding w' by (metis prod.collapse)
  have "list_all (\<lambda>(name, _). plain_name name) (listed (AList.clearjunk demo_release_files))" by code_simp
  then have names: "\<forall>(name, _) \<in> set (listed (AList.clearjunk demo_release_files)). plain_name name"
    by (simp add: list_all_iff)
  have some: "listed (AList.clearjunk demo_release_files) \<noteq> []" by code_simp
  have "case map_of w' checksumsName of None \<Rightarrow> True | Some body \<Rightarrow> length body \<le> maxManifestSize"
    unfolding w' by code_simp
  then have bound: "\<forall>body. map_of (AList.clearjunk w') checksumsName = Some body \<longrightarrow> length body \<le> maxManifestSize"
    by (simp add: map_of_clearjunk split: option.splits)
  have "verifyChecksums demo_directory ''out'' w' = (None, w')"
    by (rule checksums_round_trip [where files = AList.clearjunk and w = demo_release_files,
          OF demo_directory_laws names some written bound])
  with written show ?thesis by blast
qed

end
