(* ===== verification/Shell_Runtime.thy ===== *)
theory Shell_Runtime
  imports Session_Host Software_Library Update_Provider Ipc
begin

text \<open>
  The runtime API of the desktop shell (\<open>runtime.go\<close>, \<open>admission_runtime.go\<close>): updates, the network service, the
  software library, and the configuration of the updater. The updater of Wails and the calls of the network
  service are interfaces; while the updater is asked, other requests may run. Headers, which are the same for
  all answers, the texts shown to the user, timeouts and logging are left out.
\<close>

subsection \<open>Data\<close>

record updateStatus =
  ust_Supported :: bool
  ust_InstallMode :: string
  ust_State :: string
  ust_CurrentVersion :: string
  ust_AvailableVersion :: string
  ust_DownloadMode :: string
  ust_LastCheckedAt :: string
  ust_ReleaseURL :: string
  ust_ErrorCode :: string

definition no_updateStatus :: updateStatus where
  "no_updateStatus =
     \<lparr>ust_Supported = False, ust_InstallMode = [], ust_State = [], ust_CurrentVersion = [], ust_AvailableVersion = [],
      ust_DownloadMode = [], ust_LastCheckedAt = [], ust_ReleaseURL = [], ust_ErrorCode = []\<rparr>"

record appInfo =
  ain_Name :: string
  ain_Version :: string
  ain_Platform :: string
  ain_Arch :: string
  ain_UpdateSupported :: bool
  ain_UpdateState :: string

record NetworkLinkStatus =
  nls_Connected :: bool
  nls_Medium :: string
  nls_InterfaceName :: string
  nls_IPAddress :: string
  nls_Gateway :: string
  nls_DNSServers :: "string list"

text \<open>\<open>updater.Config\<close>, with the one provider the code gives it; the window is left out.\<close>

record 'w updater_config =
  upc_CurrentVersion :: string
  upc_Provider :: "'w signedManifestProvider"
  upc_Platform :: string
  upc_Arch :: string
  upc_Channel :: string

text \<open>
  The state of \<open>appRuntime\<close>. \<open>rta_updater\<close> is None for a nil updater, \<open>rta_checkMu\<close> tells whether the mutex is
  held, \<open>rta_automatic\<close> whether the goroutine of the automatic checks was started.
\<close>

record 'w appRuntime =
  rta_version :: string
  rta_updater :: "'w updater_config option"
  rta_software :: "software_library option"
  rta_checkMu :: bool
  rta_status :: updateStatus
  rta_automatic :: bool

text \<open>
  The interfaces: the updater (\<open>updateEngine\<close>), the time of now as RFC 3339, the calls of the network service,
  which may be missing, the decoders of the requests; \<open>rte_host\<close> are the interfaces of \<open>decodeRequestJSON\<close>.
\<close>

record 'w runtime_env =
  rte_GOOS :: string
  rte_GOARCH :: string
  rte_State :: "'w \<Rightarrow> string"
  rte_Check :: "'w \<Rightarrow> release option fallible \<times> 'w"
  rte_CheckAndInstall :: "'w \<Rightarrow> error \<times> 'w"
  rte_now :: "'w \<Rightarrow> string"
  rte_software :: "'w software_env"
  rte_networkCall :: "(string \<Rightarrow> ConnectInput option \<Rightarrow> 'w \<Rightarrow> (full_status option \<times> call_error option) \<times> 'w) option"
  rte_networkMihomoCall :: "(string \<Rightarrow> MihomoAppInput option \<Rightarrow> 'w \<Rightarrow> (MihomoAppStatus option \<times> call_error option) \<times> 'w) option"
  rte_networkAdmissionCall :: "(string \<Rightarrow> AdmissionInput option \<Rightarrow> 'w \<Rightarrow> (AdmissionStatus option \<times> call_error option) \<times> 'w) option"
  rte_openAdmissionProfile :: "(string \<Rightarrow> 'w \<Rightarrow> error \<times> 'w) option"
  rte_networkLinkStatus :: "('w \<Rightarrow> NetworkLinkStatus \<times> 'w) option"
  rte_host :: "'w appHost"
  rte_decode_connect :: "ConnectInput decoder"
  rte_decode_mihomo :: "MihomoAppInput decoder"
  rte_decode_admission :: "AdmissionInput decoder"
  rte_decode_empty :: "unit decoder"

datatype runtime_answer =
    RuntimeError int string
  | RuntimeInfo appInfo
  | RuntimeUpdate updateStatus
  | RuntimeNetwork "full_status option"
  | RuntimeMihomo "MihomoAppStatus option"
  | RuntimeAdmission "AdmissionStatus option"
  | RuntimeLink NetworkLinkStatus
  | RuntimeSoftware software_answer

subsection \<open>Updates\<close>

definition errExternalUpdate :: go_error where
  "errExternalUpdate = ErrorNew ''update must be installed externally''"
definition errUpdateDisabled :: go_error where
  "errUpdateDisabled = ErrorNew ''updates are disabled''"

definition defaultInstallMode :: "string \<Rightarrow> string" where
  "defaultInstallMode platform =
     (if platform = ''darwin'' then ''self''
      else if platform = ''windows'' \<or> platform = ''linux'' then ''external''
      else ''disabled'')"

text \<open>The value under one key of the metadata of a release.\<close>

definition releaseMetadataString :: "string option \<Rightarrow> string \<Rightarrow> string" where
  "releaseMetadataString entry otherwise =
     (case entry of None \<Rightarrow> otherwise | Some value \<Rightarrow> if value = [] then otherwise else value)"

definition currentUpdateStatus :: "'w runtime_env \<Rightarrow> 'w appRuntime \<Rightarrow> 'w \<Rightarrow> updateStatus" where
  "currentUpdateStatus env rt w =
     (let status = rta_status rt;
          status = (if ust_CurrentVersion status = [] then status\<lparr>ust_CurrentVersion := rta_version rt\<rparr> else status)
      in if rta_updater rt = None
         then status\<lparr>ust_Supported := False, ust_InstallMode := ''disabled'', ust_State := ''unconfigured''\<rparr>
         else
           let status = status\<lparr>ust_Supported := True\<rparr>;
               status = (if ust_InstallMode status = []
                         then status\<lparr>ust_InstallMode := defaultInstallMode (rte_GOOS env)\<rparr> else status)
           in status\<lparr>ust_State := rte_State env w\<rparr>)"

text \<open>\<open>checkMu.TryLock()\<close> and \<open>checkMu.Unlock()\<close>.\<close>

definition try_lock :: "'w appRuntime \<Rightarrow> 'w appRuntime option" where
  "try_lock rt = (if rta_checkMu rt then None else Some (rt\<lparr>rta_checkMu := True\<rparr>))"

definition unlock :: "'w appRuntime \<Rightarrow> 'w appRuntime" where
  "unlock rt = rt\<lparr>rta_checkMu := False\<rparr>"

text \<open>The status that the answer of the updater leads to, under \<open>statusMu\<close>.\<close>

definition checked_status ::
  "'w runtime_env \<Rightarrow> release option fallible \<Rightarrow> 'w \<Rightarrow> 'w appRuntime \<Rightarrow> updateStatus" where
  "checked_status env result w rt =
     (let status = (rta_status rt)\<lparr>ust_Supported := True, ust_CurrentVersion := rta_version rt,
            ust_State := rte_State env w, ust_LastCheckedAt := rte_now env w\<rparr>
      in case result of
           Inl err \<Rightarrow> status\<lparr>ust_ErrorCode := ''update_check_failed''\<rparr>
         | Inr None \<Rightarrow>
             status\<lparr>ust_ErrorCode := [], ust_AvailableVersion := [], ust_DownloadMode := [], ust_ReleaseURL := [],
               ust_InstallMode := defaultInstallMode (rte_GOOS env)\<rparr>
         | Inr (Some rel) \<Rightarrow>
             status\<lparr>ust_ErrorCode := [], ust_AvailableVersion := rel_Version rel,
               ust_InstallMode := releaseMetadataString (rel_installMode rel) (defaultInstallMode (rte_GOOS env)),
               ust_DownloadMode := releaseMetadataString (rel_downloadMode rel) ''full'',
               ust_ReleaseURL := releaseMetadataString (rel_releaseURL rel) []\<rparr>)"

definition finish_check :: "'w runtime_env \<Rightarrow> release option fallible \<Rightarrow> 'w \<Rightarrow> 'w appRuntime \<Rightarrow> 'w appRuntime" where
  "finish_check env result w rt = unlock (rt\<lparr>rta_status := checked_status env result w rt\<rparr>)"

definition check_error :: "release option fallible \<Rightarrow> error" where
  "check_error result = (case result of Inl err \<Rightarrow> Some err | Inr _ \<Rightarrow> None)"

text \<open>The function \<open>between\<close> is what other requests do while the updater is asked.\<close>

definition runtime_check ::
  "'w runtime_env \<Rightarrow> ('w appRuntime \<times> 'w \<Rightarrow> 'w appRuntime \<times> 'w) \<Rightarrow> 'w appRuntime \<times> 'w \<Rightarrow>
     (updateStatus \<times> error) \<times> 'w appRuntime \<times> 'w" where
  "runtime_check env between s =
     (let (rt, w) = s
      in case try_lock rt of
           None \<Rightarrow> ((currentUpdateStatus env rt w, None), rt, w)
         | Some rt \<Rightarrow>
             let (result, w) = rte_Check env w;
                 (rt, w) = between (rt, w);
                 status = checked_status env result w rt
             in ((status, check_error result), finish_check env result w rt, w))"

definition installed_status :: "'w runtime_env \<Rightarrow> error \<Rightarrow> 'w \<Rightarrow> 'w appRuntime \<Rightarrow> updateStatus" where
  "installed_status env err w rt =
     (rta_status rt)\<lparr>ust_Supported := True, ust_CurrentVersion := rta_version rt, ust_State := rte_State env w,
        ust_LastCheckedAt := rte_now env w,
        ust_ErrorCode := (if err \<noteq> None then ''update_install_failed'' else [])\<rparr>"

definition finish_install :: "'w runtime_env \<Rightarrow> error \<Rightarrow> 'w \<Rightarrow> 'w appRuntime \<Rightarrow> 'w appRuntime" where
  "finish_install env err w rt = unlock (rt\<lparr>rta_status := installed_status env err w rt\<rparr>)"

definition install_refusal :: "updateStatus \<Rightarrow> error" where
  "install_refusal status =
     (if ust_InstallMode status = ''external'' then Some errExternalUpdate
      else if ust_InstallMode status \<noteq> ''self'' then Some errUpdateDisabled else None)"

text \<open>Between the look at the install mode and the attempt to lock, other requests may run as well.\<close>

definition runtime_install ::
  "'w runtime_env \<Rightarrow> (nat \<Rightarrow> 'w appRuntime \<times> 'w \<Rightarrow> 'w appRuntime \<times> 'w) \<Rightarrow> 'w appRuntime \<times> 'w \<Rightarrow>
     (updateStatus \<times> error) \<times> 'w appRuntime \<times> 'w" where
  "runtime_install env between s =
     (let (rt, w) = s; status = currentUpdateStatus env rt w
      in case install_refusal status of
           Some err \<Rightarrow> ((status, Some err), rt, w)
         | None \<Rightarrow>
             let (rt, w) = between 0 (rt, w)
             in case try_lock rt of
                  None \<Rightarrow> ((status, None), rt, w)
                | Some rt \<Rightarrow>
                    let (err, w) = rte_CheckAndInstall env w;
                        (rt, w) = between 1 (rt, w);
                        status = installed_status env err w rt
                    in ((status, err), finish_install env err w rt, w))"

text \<open>The automatic checks: one at each tick of the timers until the context ends, here \<open>n\<close> of them.\<close>

definition checkSilently ::
  "'w runtime_env \<Rightarrow> ('w appRuntime \<times> 'w \<Rightarrow> 'w appRuntime \<times> 'w) \<Rightarrow> 'w appRuntime \<times> 'w \<Rightarrow> 'w appRuntime \<times> 'w" where
  "checkSilently env between s = snd (runtime_check env between s)"

fun automatic_checks ::
  "'w runtime_env \<Rightarrow> (nat \<Rightarrow> 'w appRuntime \<times> 'w \<Rightarrow> 'w appRuntime \<times> 'w) \<Rightarrow> nat \<Rightarrow> 'w appRuntime \<times> 'w \<Rightarrow>
     'w appRuntime \<times> 'w" where
  "automatic_checks env between 0 s = s"
| "automatic_checks env between (Suc n) s = automatic_checks env between n (checkSilently env (between n) s)"

subsection \<open>The configuration of the updater\<close>

definition validateTestUpdateURL :: "string \<Rightarrow> error" where
  "validateTestUpdateURL raw =
     (case url_Parse raw of
        None \<Rightarrow> Some (ErrorNew ''test update manifest URL is invalid'')
      | Some parsed \<Rightarrow>
          if \<not> url_IsAbs parsed \<or> url_User parsed \<noteq> None \<or> url_Fragment parsed \<noteq> []
          then Some (ErrorNew ''test update manifest URL is invalid'')
          else if url_Scheme parsed = ''https'' then None
          else if url_Scheme parsed \<noteq> ''http''
          then Some (ErrorNew ''test update manifest URL must use HTTPS or loopback HTTP'')
          else
            let host = to_lower (url_Hostname parsed)
            in if host = ''localhost'' then None
               else if \<not> (case parseIP host of None \<Rightarrow> False | Some address \<Rightarrow> addr_IsLoopback address)
               then Some (ErrorNew ''test update manifest URL must use HTTPS or loopback HTTP'')
               else None)"

text \<open>
  What the build and the process give: the two variables that the linker sets, the environment variable, the
  path of the executable, the client of \<open>newUpdateHTTPClient\<close>, and \<open>Init\<close> of the updater.
\<close>

record 'w updater_setup =
  ups_appUpdateMode :: string
  ups_appUpdatePublicKey :: string
  ups_manifestURL :: string
  ups_Executable :: "'w \<Rightarrow> string fallible \<times> 'w"
  ups_client :: "'w update_client"
  ups_Init :: "'w updater_config \<Rightarrow> 'w \<Rightarrow> error \<times> 'w"

definition update_manifest_url :: "'w updater_setup \<Rightarrow> string \<Rightarrow> string fallible" where
  "update_manifest_url setup mode =
     (if mode = updateModeTest then
        let manifestURL = trim_space (ups_manifestURL setup)
        in case validateTestUpdateURL manifestURL of
             Some err \<Rightarrow> Inl (ErrWrap ''configure updater: '' err) | None \<Rightarrow> Inr manifestURL
      else Inr productionUpdateManifestURL)"

definition update_channel :: "string \<Rightarrow> string" where
  "update_channel mode =
     (if mode = updateModeTest then ''test'' else if mode = updateModeProduction then ''stable'' else [])"

definition configured_runtime :: "'w runtime_env \<Rightarrow> 'w updater_config \<Rightarrow> 'w \<Rightarrow> 'w appRuntime \<Rightarrow> 'w appRuntime" where
  "configured_runtime env config w rt =
     rt\<lparr>rta_updater := Some config,
        rta_status := no_updateStatus\<lparr>ust_Supported := True, ust_InstallMode := defaultInstallMode (rte_GOOS env),
          ust_State := rte_State env w, ust_CurrentVersion := rta_version rt\<rparr>,
        rta_automatic := True\<rparr>"

definition configureAppUpdater ::
  "'w runtime_env \<Rightarrow> 'w updater_setup \<Rightarrow> 'w appRuntime \<times> 'w \<Rightarrow> error \<times> 'w appRuntime \<times> 'w" where
  "configureAppUpdater env setup s =
     (let (rt, w) = s; mode = trim_space (ups_appUpdateMode setup)
      in if mode = [] \<or> mode = updateModeDisabled then (None, rt, w)
         else if mode \<noteq> updateModeTest \<and> mode \<noteq> updateModeProduction
         then (Some (ErrorNew (''configure updater: unsupported build mode '' @ mode)), rt, w)
         else case base64_DecodeString (trim_space (ups_appUpdatePublicKey setup)) of
                None \<Rightarrow> (Some (ErrorNew ''configure updater: Ed25519 public key is missing or invalid''), rt, w)
              | Some publicKey \<Rightarrow>
                  if length publicKey \<noteq> 32
                  then (Some (ErrorNew ''configure updater: Ed25519 public key is missing or invalid''), rt, w)
                  else case update_manifest_url setup mode of
                         Inl err \<Rightarrow> (Some err, rt, w)
                       | Inr manifestURL \<Rightarrow>
                           (case ups_Executable setup w of
                              (Inl err, w) \<Rightarrow> (Some (ErrWrap ''configure updater: resolve executable: '' err), rt, w)
                            | (Inr executablePath, w) \<Rightarrow>
                                (case newSignedManifestProvider (ups_client setup) mode manifestURL publicKey None executablePath of
                                   Inl err \<Rightarrow> (Some (ErrWrap ''configure updater: '' err), rt, w)
                                 | Inr provider \<Rightarrow>
                                     let config = \<lparr>upc_CurrentVersion = rta_version rt, upc_Provider = provider,
                                           upc_Platform = rte_GOOS env, upc_Arch = rte_GOARCH env,
                                           upc_Channel = update_channel mode\<rparr>
                                     in (case ups_Init setup config w of
                                           (Some err, w) \<Rightarrow> (Some (ErrWrap ''configure updater: '' err), rt, w)
                                         | (None, w) \<Rightarrow> (None, configured_runtime env config w rt, w)))))"

subsection \<open>The network service\<close>

definition ErrIPCUnsupported :: go_error where
  "ErrIPCUnsupported = ErrorNew ''Soha network service is supported on Windows and macOS only''"

definition ipc_unsupported :: "call_error \<Rightarrow> bool" where
  "ipc_unsupported err = (case err of IPCError _ _ \<Rightarrow> False | CallFailed e \<Rightarrow> errors_is e ErrIPCUnsupported)"

definition handleNetwork :: "'w runtime_env \<Rightarrow> request \<Rightarrow> string \<Rightarrow> 'w \<Rightarrow> runtime_answer \<times> 'w" where
  "handleNetwork env request action w =
     (case rte_networkCall env of
        None \<Rightarrow> (RuntimeError 503 ''network_service_unavailable'', w)
      | Some networkCall \<Rightarrow>
          (case (if action = ''connect'' then map_sum id Some (decodeRequestJSON (rte_host env) (rte_decode_connect env) request)
                 else if action = ''disconnect''
                 then map_sum id (\<lambda>_. None) (decodeRequestJSON (rte_host env) (rte_decode_empty env) request)
                 else Inr None) of
             Inl _ \<Rightarrow> (RuntimeError 400 ''invalid_network_request'', w)
           | Inr input \<Rightarrow>
               (case networkCall action input w of
                  ((status, Some err), w) \<Rightarrow>
                    (RuntimeError (if action = ''status'' \<or> ipc_unsupported err then 503 else 409)
                       ''network_operation_failed'', w)
                | ((status, None), w) \<Rightarrow> (RuntimeNetwork status, w))))"

definition handleNetworkMihomo :: "'w runtime_env \<Rightarrow> request \<Rightarrow> string \<Rightarrow> 'w \<Rightarrow> runtime_answer \<times> 'w" where
  "handleNetworkMihomo env request action w =
     (case rte_networkMihomoCall env of
        None \<Rightarrow> (RuntimeError 503 ''network_service_unavailable'', w)
      | Some mihomoCall \<Rightarrow>
          (case (if action = ''mihomo_configure'' \<or> action = ''mihomo_select''
                 then map_sum id Some (decodeRequestJSON (rte_host env) (rte_decode_mihomo env) request)
                 else Inr None) of
             Inl _ \<Rightarrow> (RuntimeError 400 ''invalid_mihomo_request'', w)
           | Inr input \<Rightarrow>
               (case mihomoCall action input w of
                  ((status, Some err), w) \<Rightarrow>
                    (RuntimeError (if action = ''mihomo_status'' \<or> ipc_unsupported err then 503 else 409)
                       ''mihomo_operation_failed'', w)
                | ((status, None), w) \<Rightarrow> (RuntimeMihomo status, w))))"

text \<open>The path of the last profile that waits for its installation; empty if there is none.\<close>

definition pending_artifact :: "string \<Rightarrow> AdmissionProfileStatus list \<Rightarrow> string" where
  "pending_artifact profileID profiles =
     foldl (\<lambda>path profile. if aps_ID profile = profileID \<and> aps_State profile = ''installation_required''
                           then aps_ArtifactPath profile else path) [] profiles"

definition valid_admission_request :: "string \<Rightarrow> AdmissionInput \<Rightarrow> bool" where
  "valid_admission_request action input \<longleftrightarrow>
     \<not> (adi_ProfileID input = [] \<or> length (adi_ProfileID input) > 128 \<or>
        action \<noteq> ''admission_prepare'' \<and> adi_AdapterID input \<noteq> [])"

definition open_pending_profile ::
  "'w runtime_env \<Rightarrow> AdmissionInput option \<Rightarrow> AdmissionStatus option \<Rightarrow> 'w \<Rightarrow> call_error option \<times> 'w" where
  "open_pending_profile env input status w =
     (let path = (case (input, status) of
                    (Some input, Some status) \<Rightarrow> pending_artifact (adi_ProfileID input) (ads_Profiles status)
                  | _ \<Rightarrow> [])
      in case rte_openAdmissionProfile env of
           None \<Rightarrow> (Some (CallFailed (ErrorNew ''EAP profile has no pending installation'')), w)
         | Some openAdmissionProfile \<Rightarrow>
             if path = [] then (Some (CallFailed (ErrorNew ''EAP profile has no pending installation'')), w)
             else let (err, w) = openAdmissionProfile path w in (map_option CallFailed err, w))"

definition handleAdmission :: "'w runtime_env \<Rightarrow> request \<Rightarrow> string \<Rightarrow> 'w \<Rightarrow> runtime_answer \<times> 'w" where
  "handleAdmission env request action w =
     (case rte_networkAdmissionCall env of
        None \<Rightarrow> (RuntimeError 503 ''network_service_unavailable'', w)
      | Some admissionCall \<Rightarrow>
          (case (if action \<noteq> ''admission_status'' \<and> action \<noteq> ''admission_check''
                 then case decodeRequestJSON (rte_host env) (rte_decode_admission env) request of
                        Inl err \<Rightarrow> Inl err
                      | Inr input \<Rightarrow>
                          if valid_admission_request action input then Inr (Some input) else Inl (ErrorNew ''invalid request'')
                 else Inr None) of
             Inl _ \<Rightarrow> (RuntimeError 400 ''invalid_admission_request'', w)
           | Inr input \<Rightarrow>
               let (serviceAction, serviceInput) =
                     (if action = ''admission_open'' then (''admission_status'', None) else (action, input));
                   ((status, err), w) = admissionCall serviceAction serviceInput w;
                   (err, w) = (if err = None \<and> action = ''admission_open'' then open_pending_profile env input status w
                               else (err, w))
               in (case err of
                     Some _ \<Rightarrow> (RuntimeError 409 ''admission_operation_failed'', w)
                   | None \<Rightarrow> (RuntimeAdmission status, w))))"

text \<open>Opening a profile on macOS; \<open>is_regular\<close> is \<open>Lstat\<close>, \<open>run_open\<close> the command \<open>/usr/bin/open\<close>.\<close>

definition openNativeAdmissionProfile ::
  "string \<Rightarrow> (string \<Rightarrow> bool) \<Rightarrow> (string \<Rightarrow> string) \<Rightarrow> (string \<Rightarrow> string) \<Rightarrow> (string \<Rightarrow> 'w \<Rightarrow> bool fallible \<times> 'w) \<Rightarrow>
     (string \<Rightarrow> 'w \<Rightarrow> error \<times> 'w) \<Rightarrow> string \<Rightarrow> 'w \<Rightarrow> error \<times> 'w" where
  "openNativeAdmissionProfile goos is_abs base ext is_regular run_open path w =
     (if goos \<noteq> ''darwin'' \<or> \<not> is_abs path \<or> \<not> has_prefix (base path) ''Soha-EAP-'' \<or> ext path \<noteq> ''.mobileconfig''
      then (Some (ErrorNew ''EAP installation handoff is unavailable''), w)
      else case is_regular path w of
             (Inr True, w) \<Rightarrow> run_open path w
           | (_, w) \<Rightarrow> (Some (ErrorNew ''EAP installation profile is unavailable''), w))"

subsection \<open>Routing\<close>

datatype runtime_route =
    GetInfo | GetUpdateStatus | PostUpdateCheck | PostUpdateInstall | GetLink
  | Network string | Mihomo string | Admission string

definition runtime_routes :: "((string \<times> string) \<times> runtime_route) list" where
  "runtime_routes =
     [((''GET'', ''/app/v1/info''), GetInfo),
      ((''GET'', ''/app/v1/updates/status''), GetUpdateStatus),
      ((''POST'', ''/app/v1/updates/check''), PostUpdateCheck),
      ((''POST'', ''/app/v1/updates/install''), PostUpdateInstall),
      ((''GET'', ''/app/v1/network/status''), Network ''status''),
      ((''GET'', ''/app/v1/network/link''), GetLink),
      ((''POST'', ''/app/v1/network/connect''), Network ''connect''),
      ((''POST'', ''/app/v1/network/disconnect''), Network ''disconnect''),
      ((''GET'', ''/app/v1/network/mihomo''), Mihomo ''mihomo_status''),
      ((''PUT'', ''/app/v1/network/mihomo''), Mihomo ''mihomo_configure''),
      ((''DELETE'', ''/app/v1/network/mihomo''), Mihomo ''mihomo_clear''),
      ((''PUT'', ''/app/v1/network/mihomo/selection''), Mihomo ''mihomo_select''),
      ((''POST'', ''/app/v1/network/mihomo/refresh''), Mihomo ''mihomo_refresh''),
      ((''GET'', ''/app/v1/network/admission''), Admission ''admission_status''),
      ((''POST'', ''/app/v1/network/admission/prepare''), Admission ''admission_prepare''),
      ((''POST'', ''/app/v1/network/admission/check''), Admission ''admission_check''),
      ((''POST'', ''/app/v1/network/admission/connect''), Admission ''admission_connect''),
      ((''POST'', ''/app/v1/network/admission/open''), Admission ''admission_open''),
      ((''DELETE'', ''/app/v1/network/admission''), Admission ''admission_remove'')]"

definition runtime_info :: "'w runtime_env \<Rightarrow> 'w appRuntime \<Rightarrow> 'w \<Rightarrow> appInfo" where
  "runtime_info env rt w =
     (let status = currentUpdateStatus env rt w
      in \<lparr>ain_Name = ''Soha'', ain_Version = rta_version rt, ain_Platform = rte_GOOS env, ain_Arch = rte_GOARCH env,
          ain_UpdateSupported = ust_Supported status, ain_UpdateState = ust_State status\<rparr>)"

definition install_answer :: "updateStatus \<times> error \<Rightarrow> runtime_answer" where
  "install_answer result =
     (case result of
        (status, None) \<Rightarrow> RuntimeUpdate status
      | (_, Some err) \<Rightarrow>
          if errors_is err errExternalUpdate then RuntimeError 409 ''update_external_only''
          else if errors_is err errUpdateDisabled then RuntimeError 503 ''updates_unavailable''
          else RuntimeError 502 ''update_install_failed'')"

definition route_runtime ::
  "'w runtime_env \<Rightarrow> (nat \<Rightarrow> 'w appRuntime \<times> 'w \<Rightarrow> 'w appRuntime \<times> 'w) \<Rightarrow> request \<Rightarrow> runtime_route \<Rightarrow>
     'w appRuntime \<times> 'w \<Rightarrow> runtime_answer \<times> 'w appRuntime \<times> 'w" where
  "route_runtime env between request r s =
     (let (rt, w) = s
      in case r of
           GetInfo \<Rightarrow> (RuntimeInfo (runtime_info env rt w), rt, w)
         | GetUpdateStatus \<Rightarrow> (RuntimeUpdate (currentUpdateStatus env rt w), rt, w)
         | PostUpdateCheck \<Rightarrow>
             if rta_updater rt = None then (RuntimeError 503 ''updates_unavailable'', rt, w)
             else let ((status, err), s) = runtime_check env (between 0) s
                  in (if err \<noteq> None then RuntimeError 502 ''update_check_failed'' else RuntimeUpdate status, s)
         | PostUpdateInstall \<Rightarrow>
             if rta_updater rt = None then (RuntimeError 503 ''updates_unavailable'', rt, w)
             else let (result, s) = runtime_install env between s in (install_answer result, s)
         | GetLink \<Rightarrow>
             (case rte_networkLinkStatus env of
                None \<Rightarrow> (RuntimeError 503 ''network_link_unavailable'', rt, w)
              | Some linkStatus \<Rightarrow> let (status, w) = linkStatus w in (RuntimeLink status, rt, w))
         | Network action \<Rightarrow> let (reply, w) = handleNetwork env request action w in (reply, rt, w)
         | Mihomo action \<Rightarrow> let (reply, w) = handleNetworkMihomo env request action w in (reply, rt, w)
         | Admission action \<Rightarrow> let (reply, w) = handleAdmission env request action w in (reply, rt, w))"

definition runtime_software ::
  "'w runtime_env \<Rightarrow> request \<Rightarrow> 'w appRuntime \<times> 'w \<Rightarrow> software_answer option \<times> 'w appRuntime \<times> 'w" where
  "runtime_software env request s =
     (let (rt, w) = s
      in case rta_software rt of
           None \<Rightarrow> (None, rt, w)
         | Some lib \<Rightarrow>
             let (reply, lib, w) = software_ServeHTTP (rte_software env) request (lib, w)
             in (reply, rt\<lparr>rta_software := Some lib\<rparr>, w))"

definition runtime_ServeHTTP ::
  "'w runtime_env \<Rightarrow> (nat \<Rightarrow> 'w appRuntime \<times> 'w \<Rightarrow> 'w appRuntime \<times> 'w) \<Rightarrow> request \<Rightarrow>
     'w appRuntime \<times> 'w \<Rightarrow> runtime_answer \<times> 'w appRuntime \<times> 'w" where
  "runtime_ServeHTTP env between request s =
     (let (reply, s) = runtime_software env request s
      in case reply of
           Some reply \<Rightarrow> (RuntimeSoftware reply, s)
         | None \<Rightarrow>
             (case map_of runtime_routes (rq_Method request, rq_Path request) of
                Some r \<Rightarrow> route_runtime env between request r s
              | None \<Rightarrow> (RuntimeError 404 ''runtime_not_found'', s)))"

end
