(* ===== verification/Shell_Runtime_Safety.thy ===== *)
theory Shell_Runtime_Safety
  imports Shell_Runtime Update_Safety
begin

text \<open>
  The updates of the desktop shell: requests and automatic checks in any interleaving, with the calls of the updater
  in a log that is a part of the world. Every run of a handler is a history of small steps; in every history the
  updater is never called while a call of it is under way, and an installation needs a known install mode of
  \<open>self\<close>, which never comes up on Linux. Then the source of the manifest of a configured updater: HTTPS or the
  loopback interface.
\<close>

subsection \<open>Steps\<close>

text \<open>
  The calls of the updater, with their results. A log of them grows by these calls and by no other call of a
  request.
\<close>

datatype updater_call = CheckCalled "release option fallible" | InstallCalled error

definition updater_observed :: "('w \<Rightarrow> updater_call list) \<Rightarrow> 'w runtime_env \<Rightarrow> bool" where
  "updater_observed log env \<longleftrightarrow>
     (\<forall>w. case rte_Check env w of (result, w') \<Rightarrow> log w' = log w @ [CheckCalled result]) \<and>
     (\<forall>w. case rte_CheckAndInstall env w of (err, w') \<Rightarrow> log w' = log w @ [InstallCalled err]) \<and>
     (\<forall>call action input w. rte_networkCall env = Some call \<longrightarrow> log (snd (call action input w)) = log w) \<and>
     (\<forall>call action input w. rte_networkMihomoCall env = Some call \<longrightarrow> log (snd (call action input w)) = log w) \<and>
     (\<forall>call action input w. rte_networkAdmissionCall env = Some call \<longrightarrow> log (snd (call action input w)) = log w) \<and>
     (\<forall>open_profile path w. rte_openAdmissionProfile env = Some open_profile \<longrightarrow> log (snd (open_profile path w)) = log w) \<and>
     (\<forall>link w. rte_networkLinkStatus env = Some link \<longrightarrow> log (snd (link w)) = log w) \<and>
     (\<forall>authorization w. log (snd (se_List (rte_software env) authorization w)) = log w) \<and>
     (\<forall>w. log (snd (se_rand (rte_software env) w)) = log w)"

text \<open>
  Where a request stands: the check that it called is under way, it has seen the install mode \<open>self\<close> but not
  locked yet, or the installation that it called is under way.
\<close>

datatype caller = Checking "release option fallible" | Wanting | Installing error

type_synonym 'w update_state = "'w appRuntime \<times> caller list \<times> 'w"

inductive update_step :: "'w runtime_env \<Rightarrow> ('w \<Rightarrow> updater_call list) \<Rightarrow> 'w update_state \<Rightarrow> 'w update_state \<Rightarrow> bool"
  for env log where
  check_begins: "try_lock rt = Some rt' \<Longrightarrow> rte_Check env w = (result, w') \<Longrightarrow>
    update_step env log (rt, cs, w) (rt', Checking result # cs, w')"
| check_ends: "Checking result \<in> set cs \<Longrightarrow>
    update_step env log (rt, cs, w) (finish_check env result w rt, remove1 (Checking result) cs, w)"
| install_wanted: "install_refusal (currentUpdateStatus env rt w) = None \<Longrightarrow>
    update_step env log (rt, cs, w) (rt, Wanting # cs, w)"
| install_given_up: "Wanting \<in> set cs \<Longrightarrow> try_lock rt = None \<Longrightarrow>
    update_step env log (rt, cs, w) (rt, remove1 Wanting cs, w)"
| install_begins: "Wanting \<in> set cs \<Longrightarrow> try_lock rt = Some rt' \<Longrightarrow> rte_CheckAndInstall env w = (err, w') \<Longrightarrow>
    update_step env log (rt, cs, w) (rt', Installing err # remove1 Wanting cs, w')"
| install_ends: "Installing err \<in> set cs \<Longrightarrow>
    update_step env log (rt, cs, w) (finish_install env err w rt, remove1 (Installing err) cs, w)"
| elsewhere: "log w' = log w \<Longrightarrow> update_step env log (rt, cs, w) (rt\<lparr>rta_software := lib\<rparr>, cs, w')"

text \<open>The calls of the updater that are under way.\<close>

definition under_way :: "caller list \<Rightarrow> caller list" where
  "under_way cs = filter (\<lambda>c. c \<noteq> Wanting) cs"

text \<open>The install mode known after the calls of a log.\<close>

fun learn :: "'w runtime_env \<Rightarrow> string \<Rightarrow> updater_call \<Rightarrow> string" where
  "learn env mode (CheckCalled (Inr None)) = defaultInstallMode (rte_GOOS env)"
| "learn env mode (CheckCalled (Inr (Some rel))) =
     releaseMetadataString (rel_installMode rel) (defaultInstallMode (rte_GOOS env))"
| "learn env mode call = mode"

definition known_mode :: "'w runtime_env \<Rightarrow> updater_call list \<Rightarrow> string" where
  "known_mode env tr = foldl (learn env) (defaultInstallMode (rte_GOOS env)) tr"

lemma known_mode_snoc [simp]: "known_mode env (tr @ [call]) = learn env (known_mode env tr) call"
  by (simp add: known_mode_def)

lemma under_way_simps [simp]:
  "under_way [] = []" "under_way (Wanting # cs) = under_way cs"
  "c \<noteq> Wanting \<Longrightarrow> under_way (c # cs) = c # under_way cs"
  by (simp_all add: under_way_def)

lemma releaseMetadataString_nonempty: "otherwise \<noteq> [] \<Longrightarrow> releaseMetadataString entry otherwise \<noteq> []"
  by (simp add: releaseMetadataString_def split: option.split)

lemma defaultInstallMode_nonempty [simp]: "defaultInstallMode platform \<noteq> []"
  by (simp add: defaultInstallMode_def)

subsection \<open>The handlers are histories\<close>

text \<open>Whatever the runs of \<open>f\<close> do is a history, beside whatever else is under way.\<close>

definition acts :: "'w runtime_env \<Rightarrow> ('w \<Rightarrow> updater_call list) \<Rightarrow> ('w appRuntime \<times> 'w \<Rightarrow> 'w appRuntime \<times> 'w) \<Rightarrow> bool" where
  "acts env log f \<longleftrightarrow> (\<forall>rt w cs. rta_updater rt \<noteq> None \<longrightarrow> rta_updater (fst (f (rt, w))) \<noteq> None \<and>
     (update_step env log)\<^sup>*\<^sup>* (rt, cs, w) (fst (f (rt, w)), cs, snd (f (rt, w))))"

lemma actsD:
  assumes "acts env log f" "rta_updater rt \<noteq> None" "f (rt, w) = (rt', w')"
  shows "rta_updater rt' \<noteq> None" "(update_step env log)\<^sup>*\<^sup>* (rt, cs, w) (rt', cs, w')"
  using assms unfolding acts_def by (metis fst_conv snd_conv)+

lemma actsI:
  assumes "\<And>rt w rt' w' cs. rta_updater rt \<noteq> None \<Longrightarrow> f (rt, w) = (rt', w') \<Longrightarrow>
    rta_updater rt' \<noteq> None \<and> (update_step env log)\<^sup>*\<^sup>* (rt, cs, w) (rt', cs, w')"
  shows "acts env log f"
  unfolding acts_def using assms by (metis prod.collapse)

lemma try_lock_Some: "try_lock rt = Some rt' \<Longrightarrow> rt' = rt\<lparr>rta_checkMu := True\<rparr> \<and> \<not> rta_checkMu rt"
  by (simp add: try_lock_def split: if_splits)

lemma try_lock_None: "try_lock rt = None \<longleftrightarrow> rta_checkMu rt"
  by (simp add: try_lock_def)

lemma finish_updater [simp]:
  "rta_updater (finish_check env result w rt) = rta_updater rt"
  "rta_updater (finish_install env err w rt) = rta_updater rt"
  by (simp_all add: finish_check_def finish_install_def unlock_def)

lemma elsewhere_world: "log w' = log w \<Longrightarrow> (update_step env log)\<^sup>*\<^sup>* (rt, cs, w) (rt, cs, w')"
  using elsewhere [where log = log and w' = w' and w = w and lib = "rta_software rt" and rt = rt and cs = cs and env = env]
  by simp

lemma runtime_check_acts:
  assumes between: "acts env log between"
  shows "acts env log (\<lambda>s. snd (runtime_check env between s))"
proof (rule actsI)
  fix rt w rt' w' cs
  assume on: "rta_updater rt \<noteq> None" and r: "snd (runtime_check env between (rt, w)) = (rt', w')"
  show "rta_updater rt' \<noteq> None \<and> (update_step env log)\<^sup>*\<^sup>* (rt, cs, w) (rt', cs, w')"
  proof (cases "try_lock rt")
    case None
    then show ?thesis using on r by (auto simp: runtime_check_def)
  next
    case (Some locked)
    obtain result w1 where c: "rte_Check env w = (result, w1)" by fastforce
    obtain rt2 w2 where b: "between (locked, w1) = (rt2, w2)" by fastforce
    have rt': "rt' = finish_check env result w2 rt2" "w' = w2"
      using r Some by (auto simp: runtime_check_def c b Let_def)
    have on': "rta_updater locked \<noteq> None" using on try_lock_Some [OF Some] by simp
    have "(update_step env log)\<^sup>*\<^sup>* (rt, cs, w) (rt2, Checking result # cs, w2)"
      using check_begins [OF Some c] actsD(2) [OF between on' b] by (rule converse_rtranclp_into_rtranclp)
    moreover have "update_step env log (rt2, Checking result # cs, w2) (rt', cs, w2)"
      using check_ends [of result "Checking result # cs" env log rt2 w2] rt' by simp
    ultimately have "(update_step env log)\<^sup>*\<^sup>* (rt, cs, w) (rt', cs, w2)" by (rule rtranclp.rtrancl_into_rtrancl)
    then show ?thesis using actsD(1) [OF between on' b] rt' by auto
  qed
qed

lemma runtime_install_acts:
  assumes between: "acts env log (between 0)" "acts env log (between 1)"
  shows "acts env log (\<lambda>s. snd (runtime_install env between s))"
proof (rule actsI)
  fix rt w rt' w' cs
  assume on: "rta_updater rt \<noteq> None" and r: "snd (runtime_install env between (rt, w)) = (rt', w')"
  show "rta_updater rt' \<noteq> None \<and> (update_step env log)\<^sup>*\<^sup>* (rt, cs, w) (rt', cs, w')"
  proof (cases "install_refusal (currentUpdateStatus env rt w)")
    case (Some err)
    then show ?thesis using on r by (auto simp: runtime_install_def Let_def)
  next
    case allowed: None
    obtain rt1 w1 where b: "between 0 (rt, w) = (rt1, w1)" by fastforce
    have wanted: "(update_step env log)\<^sup>*\<^sup>* (rt, cs, w) (rt1, Wanting # cs, w1)"
      using install_wanted [OF allowed] actsD(2) [OF between(1) on b] by (rule converse_rtranclp_into_rtranclp)
    have on1: "rta_updater rt1 \<noteq> None" by (rule actsD(1) [OF between(1) on b])
    show ?thesis
    proof (cases "try_lock rt1")
      case None
      have "update_step env log (rt1, Wanting # cs, w1) (rt1, cs, w1)"
        using install_given_up [of "Wanting # cs" rt1 env log w1] None by simp
      moreover have "rt' = rt1" "w' = w1" using r allowed None by (simp_all add: runtime_install_def b Let_def)
      ultimately show ?thesis using wanted on1 by (blast intro: rtranclp.rtrancl_into_rtrancl)
    next
      case (Some locked)
      obtain err w2 where c: "rte_CheckAndInstall env w1 = (err, w2)" by fastforce
      obtain rt3 w3 where b': "between 1 (locked, w2) = (rt3, w3)" by fastforce
      have rt': "rt' = finish_install env err w3 rt3" "w' = w3"
        using r allowed Some b' by (auto simp: runtime_install_def b c Let_def)
      have on': "rta_updater locked \<noteq> None" using on1 try_lock_Some [OF Some] by simp
      have "update_step env log (rt1, Wanting # cs, w1) (locked, Installing err # cs, w2)"
        using install_begins [of "Wanting # cs" rt1 locked env w1 err w2 log] Some c by simp
      moreover have "(update_step env log)\<^sup>*\<^sup>* (locked, Installing err # cs, w2) (rt3, Installing err # cs, w3)"
        by (rule actsD(2) [OF between(2) on' b'])
      moreover have "update_step env log (rt3, Installing err # cs, w3) (rt', cs, w3)"
        using install_ends [of err "Installing err # cs" env log rt3 w3] rt' by simp
      ultimately have "(update_step env log)\<^sup>*\<^sup>* (rt1, Wanting # cs, w1) (rt', cs, w3)"
        by (meson converse_rtranclp_into_rtranclp rtranclp.rtrancl_into_rtrancl)
      then show ?thesis using wanted rt' actsD(1) [OF between(2) on' b'] by (auto intro: rtranclp_trans)
    qed
  qed
qed

lemma acts_world:
  assumes "\<And>rt w. fst (f (rt, w)) = rt" "\<And>rt w. log (snd (f (rt, w))) = log w"
  shows "acts env log f"
  unfolding acts_def using assms by (auto intro: elsewhere_world)

text \<open>Every other route leaves the runtime and the log as they are.\<close>

lemma network_calls_kept:
  assumes "updater_observed log env"
  shows "log (snd (handleNetwork env request action w)) = log w"
    and "log (snd (handleNetworkMihomo env request action w)) = log w"
    and "log (snd (handleAdmission env request action w)) = log w"
proof -
  note laws = assms [unfolded updater_observed_def, THEN conjunct2, THEN conjunct2]
  have network: "rte_networkCall env = Some call \<Longrightarrow> call a i v = (r, v') \<Longrightarrow> log v' = log v" for call a i v r v'
    using laws [THEN conjunct1, THEN spec [of _ call], THEN spec [of _ a], THEN spec [of _ i], THEN spec [of _ v]] by simp
  note laws = laws [THEN conjunct2]
  have mihomo: "rte_networkMihomoCall env = Some call \<Longrightarrow> call a i v = (r, v') \<Longrightarrow> log v' = log v" for call a i v r v'
    using laws [THEN conjunct1, THEN spec [of _ call], THEN spec [of _ a], THEN spec [of _ i], THEN spec [of _ v]] by simp
  note laws = laws [THEN conjunct2]
  have admission: "rte_networkAdmissionCall env = Some call \<Longrightarrow> call a i v = (r, v') \<Longrightarrow> log v' = log v" for call a i v r v'
    using laws [THEN conjunct1, THEN spec [of _ call], THEN spec [of _ a], THEN spec [of _ i], THEN spec [of _ v]] by simp
  have opened: "rte_openAdmissionProfile env = Some call \<Longrightarrow> call path v = (r, v') \<Longrightarrow> log v' = log v" for call path v r v'
    using laws [THEN conjunct2, THEN conjunct1, THEN spec [of _ call], THEN spec [of _ path], THEN spec [of _ v]] by simp
  show "log (snd (handleNetwork env request action w)) = log w"
    by (auto simp: handleNetwork_def split: option.split sum.split prod.split dest: network)
  show "log (snd (handleNetworkMihomo env request action w)) = log w"
    by (auto simp: handleNetworkMihomo_def split: option.split sum.split prod.split dest: mihomo)
  have pending: "open_pending_profile env i st v = (r, v') \<Longrightarrow> log v' = log v" for i st v r v'
    by (auto simp: open_pending_profile_def Let_def split: option.splits if_splits prod.splits dest: opened)
  show "log (snd (handleAdmission env request action w)) = log w"
  proof (cases "rte_networkAdmissionCall env")
    case None
    then show ?thesis by (simp add: handleAdmission_def)
  next
    case (Some call)
    let ?input = "if action \<noteq> ''admission_status'' \<and> action \<noteq> ''admission_check''
                 then case decodeRequestJSON (rte_host env) (rte_decode_admission env) request of
                        Inl err \<Rightarrow> Inl err
                      | Inr input \<Rightarrow>
                          if valid_admission_request action input then Inr (Some input) else Inl (ErrorNew ''invalid request'')
                 else Inr None"
    show ?thesis
    proof (cases ?input)
      case (Inl e)
      then show ?thesis unfolding handleAdmission_def Some by (simp only: option.case sum.case) simp
    next
      case (Inr input)
      obtain a i where ai: "(if action = ''admission_open'' then (''admission_status'', None) else (action, input)) = (a, i)"
        by fastforce
      obtain st err w1 where c: "call a i w = ((st, err), w1)" by (metis prod.collapse)
      obtain err2 w2 where o: "(if err = None \<and> action = ''admission_open'' then open_pending_profile env input st w1
          else (err, w1)) = (err2, w2)" by fastforce
      have "log w2 = log w1" using o pending by (auto split: if_splits)
      moreover have "log w1 = log w" by (rule admission [OF Some c])
      moreover have "snd (handleAdmission env request action w) = w2"
        unfolding handleAdmission_def Some option.case Inr sum.case Let_def ai prod.case c o by (simp split: option.split)
      ultimately show ?thesis by simp
    qed
  qed
qed

lemma route_runtime_acts:
  assumes obs: "updater_observed log env" and between: "acts env log (between 0)" "acts env log (between 1)"
  shows "acts env log (\<lambda>s. snd (route_runtime env between request r s))"
proof (cases r)
  case PostUpdateCheck
  have "rta_updater rt \<noteq> None \<Longrightarrow> snd (route_runtime env between request r (rt, w)) = snd (runtime_check env (between 0) (rt, w))" for rt w
    by (auto simp: PostUpdateCheck route_runtime_def split: prod.split)
  then show ?thesis using runtime_check_acts [OF between(1)] unfolding acts_def by simp
next
  case PostUpdateInstall
  have "rta_updater rt \<noteq> None \<Longrightarrow> snd (route_runtime env between request r (rt, w)) = snd (runtime_install env between (rt, w))" for rt w
    by (auto simp: PostUpdateInstall route_runtime_def split: prod.split)
  then show ?thesis using runtime_install_acts [OF between] unfolding acts_def by simp
next
  case GetLink
  note laws = obs [unfolded updater_observed_def, THEN conjunct2, THEN conjunct2, THEN conjunct2, THEN conjunct2,
      THEN conjunct2, THEN conjunct2]
  have "log w' = log w" if "rte_networkLinkStatus env = Some link" "link w = (s, w')" for link w s w'
    using laws [THEN conjunct1, THEN spec [of _ link], THEN spec [of _ w]] that by simp
  then show ?thesis by (intro acts_world) (auto simp: GetLink route_runtime_def split: option.split prod.split)
qed (rule acts_world; simp add: route_runtime_def split: prod.split;
     (metis network_calls_kept [OF obs] snd_conv)?)+

lemma software_calls_kept:
  assumes "updater_observed log env" "software_ServeHTTP (rte_software env) request (lib, w) = (reply, lib', w')"
  shows "log w' = log w"
proof -
  note laws = assms(1) [unfolded updater_observed_def, THEN conjunct2, THEN conjunct2, THEN conjunct2, THEN conjunct2,
      THEN conjunct2, THEN conjunct2, THEN conjunct2]
  have listed: "se_List (rte_software env) a v = (r, v') \<Longrightarrow> log v' = log v" for a v r v'
    using laws [THEN conjunct1, THEN spec [of _ a], THEN spec [of _ v]] by simp
  have "se_rand (rte_software env) v = (r, v') \<Longrightarrow> log v' = log v" for v r v'
    using laws [THEN conjunct2, THEN spec [of _ v]] by simp
  then have task: "newTaskID (rte_software env) v = (r, v') \<Longrightarrow> log v' = log v" for v r v'
    by (auto simp: newTaskID_def split: prod.splits sum.splits)
  have catalog: "loadCatalog (rte_software env) a v = (r, v') \<Longrightarrow> log v' = log v" for a v r v'
    by (auto simp: loadCatalog_def split: prod.splits sum.splits option.splits dest: listed)
  have "software_list (rte_software env) request v = (r, v') \<Longrightarrow> log v' = log v" for v r v'
    by (auto simp: software_list_def split: prod.splits sum.splits dest: catalog)
  moreover have "software_install (rte_software env) request i (l, v) = (r, l', v') \<Longrightarrow> log v' = log v" for i l v r l' v'
    by (auto simp: software_install_def Let_def split: prod.splits sum.splits option.splits if_splits dest!: catalog task)
  ultimately show ?thesis
    using assms(2) by (auto simp: software_ServeHTTP_def Let_def split: if_splits prod.splits)
qed

lemma runtime_ServeHTTP_acts:
  assumes obs: "updater_observed log env" and between: "acts env log (between 0)" "acts env log (between 1)"
  shows "acts env log (\<lambda>s. snd (runtime_ServeHTTP env between request s))"
proof (rule actsI)
  fix rt w rt' w' cs
  assume on: "rta_updater rt \<noteq> None" and r: "snd (runtime_ServeHTTP env between request (rt, w)) = (rt', w')"
  obtain reply rt1 w1 where s: "runtime_software env request (rt, w) = (reply, rt1, w1)" by (metis prod.exhaust)
  have kept: "log w1 = log w"
    using s software_calls_kept [OF obs] by (auto simp: runtime_software_def split: option.splits prod.splits)
  have rt1: "rt1 = rt\<lparr>rta_software := rta_software rt1\<rparr>"
    using s by (auto simp: runtime_software_def split: option.splits prod.splits)
  then have on1: "rta_updater rt1 \<noteq> None" using on by (metis appRuntime.select_convs(2) appRuntime.surjective appRuntime.update_convs(3))
  have step: "update_step env log (rt, cs, w) (rt1, cs, w1)" by (subst rt1) (rule elsewhere [where log = log, OF kept])
  show "rta_updater rt' \<noteq> None \<and> (update_step env log)\<^sup>*\<^sup>* (rt, cs, w) (rt', cs, w')"
  proof (cases "reply = None \<and> map_of runtime_routes (rq_Method request, rq_Path request) \<noteq> None")
    case True
    then obtain route where "map_of runtime_routes (rq_Method request, rq_Path request) = Some route" by blast
    with True have "snd (route_runtime env between request route (rt1, w1)) = (rt', w')"
      using r s by (simp add: runtime_ServeHTTP_def)
    from actsD [OF route_runtime_acts [OF obs between] on1 this] step show ?thesis
      by (blast intro: converse_rtranclp_into_rtranclp)
  next
    case False
    then have "rt' = rt1" "w' = w1" using r s by (auto simp: runtime_ServeHTTP_def split: option.splits)
    then show ?thesis using on1 step by blast
  qed
qed

subsection \<open>The invariant of the histories\<close>

text \<open>
  The lock is held exactly while a call of the updater is under way, which is one at most; the stored install mode
  is the known one, without the check that is under way; an install mode of \<open>self\<close> was known when an installation
  was asked for or called.
\<close>

definition mode_was_self :: "'w runtime_env \<Rightarrow> updater_call list \<Rightarrow> bool" where
  "mode_was_self env tr \<longleftrightarrow> (\<exists>before after. tr = before @ after \<and> known_mode env before = ''self'')"

definition installs_allowed :: "'w runtime_env \<Rightarrow> updater_call list \<Rightarrow> bool" where
  "installs_allowed env tr \<longleftrightarrow> (\<forall>before err after. tr = before @ InstallCalled err # after \<longrightarrow> mode_was_self env before)"

definition stored_mode :: "'w runtime_env \<Rightarrow> caller list \<Rightarrow> updater_call list \<Rightarrow> string \<Rightarrow> bool" where
  "stored_mode env calls tr mode \<longleftrightarrow>
     (case calls of
        [Checking result] \<Rightarrow> (\<exists>before. tr = before @ [CheckCalled result] \<and> mode = known_mode env before)
      | _ \<Rightarrow> mode = known_mode env tr)"

definition update_consistent :: "'w runtime_env \<Rightarrow> ('w \<Rightarrow> updater_call list) \<Rightarrow> 'w update_state \<Rightarrow> bool" where
  "update_consistent env log s \<longleftrightarrow> (case s of (rt, cs, w) \<Rightarrow>
     rta_updater rt \<noteq> None \<and>
     length (under_way cs) = (if rta_checkMu rt then 1 else 0) \<and>
     stored_mode env (under_way cs) (log w) (ust_InstallMode (rta_status rt)) \<and>
     (Wanting \<in> set cs \<longrightarrow> mode_was_self env (log w)) \<and> installs_allowed env (log w))"

lemma mode_was_self_snoc: "mode_was_self env tr \<Longrightarrow> mode_was_self env (tr @ [event])"
  unfolding mode_was_self_def by (metis append.assoc)

lemma installs_allowed_Nil [simp]: "installs_allowed env []"
  by (simp add: installs_allowed_def)

lemma installs_allowed_snoc:
  assumes "installs_allowed env tr" "\<And>err. call = InstallCalled err \<Longrightarrow> mode_was_self env tr"
  shows "installs_allowed env (tr @ [call])"
  using assms
  by (auto simp: installs_allowed_def append_eq_append_conv2 append_eq_Cons_conv snoc_eq_iff_butlast
      Cons_eq_append_conv)

lemma known_mode_nonempty: "known_mode env tr \<noteq> []"
proof (induction tr rule: rev_induct)
  case (snoc event tr)
  then show ?case by (cases "(env, known_mode env tr, event)" rule: learn.cases)
      (simp_all add: releaseMetadataString_nonempty)
qed (simp add: known_mode_def)

lemma current_install_mode:
  "rta_updater rt \<noteq> None \<Longrightarrow> ust_InstallMode (rta_status rt) \<noteq> [] \<Longrightarrow>
     ust_InstallMode (currentUpdateStatus env rt w) = ust_InstallMode (rta_status rt)"
  by (auto simp: currentUpdateStatus_def Let_def)

lemma install_refusal_None: "install_refusal status = None \<longleftrightarrow> ust_InstallMode status = ''self''"
  by (simp add: install_refusal_def)

lemma checked_install_mode:
  "ust_InstallMode (rta_status rt) = mode \<Longrightarrow>
     ust_InstallMode (rta_status (finish_check env result w rt)) = learn env mode (CheckCalled result)"
  by (cases "(env, mode, CheckCalled result)" rule: learn.cases)
    (auto simp: finish_check_def unlock_def checked_status_def Let_def)

lemma installed_install_mode [simp]:
  "ust_InstallMode (rta_status (finish_install env err w rt)) = ust_InstallMode (rta_status rt)"
  by (simp add: finish_install_def unlock_def installed_status_def)

lemma finish_lock [simp]:
  "\<not> rta_checkMu (finish_check env result w rt)" "\<not> rta_checkMu (finish_install env err w rt)"
  by (simp_all add: finish_check_def finish_install_def unlock_def)

lemma caller_singleton:
  assumes "length (under_way cs) = (if locked then 1 else 0)" "c \<in> set cs" "c \<noteq> Wanting"
  shows "under_way cs = [c]" "locked" "under_way (remove1 c cs) = []"
proof -
  have mem: "c \<in> set (under_way cs)" using assms(2,3) by (simp add: under_way_def)
  then show locked using assms(1) by (auto split: if_splits)
  then have "length (under_way cs) = Suc 0" using assms(1) by simp
  then obtain d where d: "under_way cs = [d]" unfolding length_Suc_conv by auto
  with mem show only: "under_way cs = [c]" unfolding d by simp
  show "under_way (remove1 c cs) = []" using only assms(3) by (simp add: under_way_def filter_remove1)
qed

lemma wanting_kept [simp]: "under_way (remove1 Wanting cs) = under_way cs"
  by (simp add: under_way_def filter_remove1 remove1_idem)

lemma updater_calls:
  assumes "updater_observed log env"
  shows "rte_Check env w = (result, w') \<Longrightarrow> log w' = log w @ [CheckCalled result]"
    and "rte_CheckAndInstall env w = (err, w') \<Longrightarrow> log w' = log w @ [InstallCalled err]"
proof -
  note laws = assms [unfolded updater_observed_def]
  show "rte_Check env w = (result, w') \<Longrightarrow> log w' = log w @ [CheckCalled result]"
    using laws [THEN conjunct1, THEN spec [of _ w]] by simp
  show "rte_CheckAndInstall env w = (err, w') \<Longrightarrow> log w' = log w @ [InstallCalled err]"
    using laws [THEN conjunct2, THEN conjunct1, THEN spec [of _ w]] by simp
qed

lemma stored_mode_known:
  assumes "stored_mode env calls tr mode"
  shows "\<exists>before after. tr = before @ after \<and> mode = known_mode env before"
proof (cases "\<exists>result. calls = [Checking result]")
  case True
  with assms obtain result before where "tr = before @ [CheckCalled result]" "mode = known_mode env before"
    by (auto simp: stored_mode_def)
  then show ?thesis by blast
next
  case False
  with assms have "mode = known_mode env tr"
    by (cases calls rule: remdups_adj.cases) (auto simp: stored_mode_def split: list.splits caller.splits)
  then show ?thesis by (intro exI [of _ tr] exI [of _ "[]"]) simp
qed

lemma update_step_consistent:
  assumes obs: "updater_observed log env"
  shows "update_step env log s s' \<Longrightarrow> update_consistent env log s \<Longrightarrow> update_consistent env log s'"
proof (induction rule: update_step.induct)
  case (check_begins rt rt' w result w' cs)
  note lock = try_lock_Some [OF check_begins(1)]
  from lock check_begins(3) have "under_way cs = []" by (simp add: update_consistent_def)
  then show ?case using check_begins(3) lock updater_calls(1) [OF obs check_begins(2)]
    by (auto simp: update_consistent_def stored_mode_def intro: mode_was_self_snoc installs_allowed_snoc)
next
  case (check_ends result cs rt w)
  have only: "under_way cs = [Checking result]" "under_way (remove1 (Checking result) cs) = []"
    using caller_singleton(1,3) [of cs "rta_checkMu rt" "Checking result"] check_ends by (simp_all add: update_consistent_def)
  then obtain before where "log w = before @ [CheckCalled result]" "ust_InstallMode (rta_status rt) = known_mode env before"
    using check_ends(2) by (auto simp: update_consistent_def stored_mode_def)
  then show ?case using check_ends only checked_install_mode [of rt "known_mode env before" env result w]
    by (auto simp: update_consistent_def stored_mode_def dest: notin_set_remove1)
next
  case (install_wanted rt w cs)
  then have "mode_was_self env (log w)"
    using stored_mode_known [of env "under_way cs" "log w" "ust_InstallMode (rta_status rt)"] known_mode_nonempty [of env]
    by (auto simp: update_consistent_def install_refusal_None mode_was_self_def) (metis current_install_mode not_None_eq)
  then show ?case using install_wanted by (auto simp: update_consistent_def)
next
  case (install_given_up cs rt w)
  then show ?case by (auto simp: update_consistent_def dest: notin_set_remove1)
next
  case (install_begins cs rt rt' w err w')
  note lock = try_lock_Some [OF install_begins(2)]
  from lock install_begins(4) have "under_way cs = []" by (simp add: update_consistent_def)
  then show ?case using install_begins(1,4) lock updater_calls(2) [OF obs install_begins(3)]
    by (auto simp: update_consistent_def stored_mode_def intro: mode_was_self_snoc installs_allowed_snoc)
next
  case (install_ends err cs rt w)
  have "under_way cs = [Installing err]" "under_way (remove1 (Installing err) cs) = []"
    using caller_singleton(1,3) [of cs "rta_checkMu rt" "Installing err"] install_ends by (simp_all add: update_consistent_def)
  then show ?case using install_ends
    by (auto simp: update_consistent_def stored_mode_def dest: notin_set_remove1)
next
  case (elsewhere w' w rt cs lib)
  then show ?case by (auto simp: update_consistent_def)
qed

lemma update_history_consistent:
  assumes "updater_observed log env"
  shows "(update_step env log)\<^sup>*\<^sup>* s s' \<Longrightarrow> update_consistent env log s \<Longrightarrow> update_consistent env log s'"
  by (induction rule: rtranclp_induct) (auto intro: update_step_consistent [OF assms])

lemma configured_consistent:
  "\<not> rta_checkMu rt \<Longrightarrow> log w = [] \<Longrightarrow> update_consistent env log (configured_runtime env config v rt, [], w)"
  by (simp add: update_consistent_def configured_runtime_def stored_mode_def known_mode_def)

text \<open>A call of the updater begins only where none is under way.\<close>

lemma call_begins_alone:
  assumes "update_consistent env log (rt, cs, w)" "update_step env log (rt, cs, w) (rt', cs', w')" "log w' \<noteq> log w"
  shows "under_way cs = []"
  using assms(2)
proof (cases rule: update_step.cases)
  case (check_begins result)
  with assms(1) try_lock_Some [of rt rt'] show ?thesis by (simp add: update_consistent_def)
next
  case (install_begins err)
  with assms(1) try_lock_Some [of rt rt'] show ?thesis by (simp add: update_consistent_def)
qed (use assms(3) in auto)

text \<open>C20: the updater is asked by one request at a time, and to install only where the shell may install itself.
  Take a configured shell after any history of requests and automatic checks, of which some may still be under
  way: a request or an automatic check that runs now, with any histories of others between its steps, continues
  that history. Of these runs, none calls the updater while a call is under way: the log of calls grows by a step
  only where none is, at most one is under way, and the lock is held exactly while one is; a check that finds the
  lock held does nothing, and an installation that is refused or finds it held calls nothing. And every call of
  an installation in the log comes after a time at which the newest successful check (or the platform's default
  before any) allowed the shell to install itself.\<close>

theorem updater_called_once_and_allowed:
  assumes "updater_observed log env" "\<not> rta_checkMu rt" "log w = []"
    and "(update_step env log)\<^sup>*\<^sup>* (configured_runtime env config v rt, [], w) (rt1, cs, w1)"
    and "\<And>n. acts env log (between n)"
    and "(rt2, w2) \<in> {snd (runtime_ServeHTTP env between request (rt1, w1)), checkSilently env (between 0) (rt1, w1)}"
  shows "(update_step env log)\<^sup>*\<^sup>* (rt1, cs, w1) (rt2, cs, w2) \<and>
     installs_allowed env (log w2) \<and>
     length (under_way cs) \<le> 1 \<and> (rta_checkMu rt1 \<longleftrightarrow> under_way cs \<noteq> []) \<and>
     (\<forall>rt3 cs3 w3. update_step env log (rt1, cs, w1) (rt3, cs3, w3) \<and> log w3 \<noteq> log w1 \<longrightarrow> under_way cs = []) \<and>
     (rta_checkMu rt1 \<longrightarrow> snd (runtime_check env (between 0) (rt1, w1)) = (rt1, w1)) \<and>
     (ust_InstallMode (currentUpdateStatus env rt1 w1) \<noteq> ''self'' \<longrightarrow>
        snd (runtime_install env between (rt1, w1)) = (rt1, w1)) \<and>
     (rta_checkMu (fst (between 0 (rt1, w1))) \<longrightarrow>
        snd (runtime_install env between (rt1, w1)) \<in> {(rt1, w1), between 0 (rt1, w1)})"
proof -
  have ok: "update_consistent env log (rt1, cs, w1)"
    by (rule update_history_consistent [OF assms(1,4) configured_consistent [where log = log and w = w, OF assms(2,3)]])
  then have on: "rta_updater rt1 \<noteq> None" by (simp add: update_consistent_def)
  have run: "(update_step env log)\<^sup>*\<^sup>* (rt1, cs, w1) (rt2, cs, w2)"
    using assms(6)
  proof (elim insertE emptyE)
    assume "(rt2, w2) = snd (runtime_ServeHTTP env between request (rt1, w1))"
    from actsD(2) [OF runtime_ServeHTTP_acts [OF assms(1,5,5)] on this [symmetric]] show ?thesis .
  next
    assume "(rt2, w2) = checkSilently env (between 0) (rt1, w1)"
    then have "snd (runtime_check env (between 0) (rt1, w1)) = (rt2, w2)" by (simp add: checkSilently_def)
    from actsD(2) [OF runtime_check_acts [OF assms(5)] on this] show ?thesis .
  qed
  have "installs_allowed env (log w2)"
    using update_history_consistent [OF assms(1) run ok] by (simp add: update_consistent_def)
  moreover have "length (under_way cs) \<le> 1" "rta_checkMu rt1 \<longleftrightarrow> under_way cs \<noteq> []"
    using ok by (auto simp: update_consistent_def split: if_splits)
  moreover have "rta_checkMu rt1 \<longrightarrow> snd (runtime_check env (between 0) (rt1, w1)) = (rt1, w1)"
    by (simp add: runtime_check_def try_lock_def)
  moreover have "ust_InstallMode (currentUpdateStatus env rt1 w1) \<noteq> ''self'' \<longrightarrow>
      snd (runtime_install env between (rt1, w1)) = (rt1, w1)"
    by (auto simp: runtime_install_def install_refusal_def Let_def)
  moreover have "rta_checkMu (fst (between 0 (rt1, w1))) \<longrightarrow>
      snd (runtime_install env between (rt1, w1)) \<in> {(rt1, w1), between 0 (rt1, w1)}"
    by (auto simp: runtime_install_def try_lock_def Let_def split: option.split prod.split)
  ultimately show ?thesis using run call_begins_alone [OF ok] by blast
qed

text \<open>
  The install mode is looked at before the lock is taken: a check may end in between with a release that must be
  installed externally, and the installation is called all the same.
\<close>

definition external_release :: "release \<Rightarrow> release" where
  "external_release rel = rel\<lparr>rel_installMode := Some ''external''\<rparr>"

lemma installed_although_external:
  assumes "rte_GOOS env = ''darwin''" "\<not> rta_checkMu rt"
    and "rte_Check env w = (Inr (Some (external_release rel)), w1)" "rte_CheckAndInstall env w1 = (err, w2)"
  shows "\<exists>rt'. (update_step env log)\<^sup>*\<^sup>* (configured_runtime env config v rt, [], w) (rt', [Installing err], w2) \<and>
     ust_InstallMode (rta_status rt') = ''external''"
proof -
  let ?rt = "configured_runtime env config v rt"
  let ?result = "Inr (Some (external_release rel))"
  have refusal: "install_refusal (currentUpdateStatus env ?rt w) = None"
    by (simp add: install_refusal_def currentUpdateStatus_def configured_runtime_def assms(1) defaultInstallMode_def Let_def)
  have lock: "try_lock ?rt = Some (?rt\<lparr>rta_checkMu := True\<rparr>)"
    using assms(2) by (simp add: try_lock_def configured_runtime_def)
  let ?locked = "?rt\<lparr>rta_checkMu := True\<rparr>"
  let ?checked = "finish_check env ?result w1 ?locked"
  have lock': "try_lock ?checked = Some (?checked\<lparr>rta_checkMu := True\<rparr>)" by (simp add: try_lock_def)
  have "update_step env log (?rt, [], w) (?rt, [Wanting], w)" by (rule install_wanted [OF refusal])
  moreover have "update_step env log (?rt, [Wanting], w) (?locked, [Checking ?result, Wanting], w1)"
    using check_begins [OF lock assms(3), of log "[Wanting]"] by simp
  moreover have "update_step env log (?locked, [Checking ?result, Wanting], w1) (?checked, [Wanting], w1)"
    using check_ends [of ?result "[Checking ?result, Wanting]" env log ?locked w1] by simp
  moreover have "update_step env log (?checked, [Wanting], w1) (?checked\<lparr>rta_checkMu := True\<rparr>, [Installing err], w2)"
    using install_begins [OF _ lock' assms(4), of "[Wanting]" log] by simp
  ultimately have "(update_step env log)\<^sup>*\<^sup>* (?rt, [], w) (?checked\<lparr>rta_checkMu := True\<rparr>, [Installing err], w2)"
    by (meson r_into_rtranclp rtranclp_trans)
  moreover have "ust_InstallMode (rta_status (?checked\<lparr>rta_checkMu := True\<rparr>)) = ''external''"
    by (simp add: finish_check_def unlock_def checked_status_def releaseMetadataString_def external_release_def Let_def)
  ultimately show ?thesis by blast
qed

subsection \<open>No self-update on Linux\<close>

lemma linux_offer_external:
  assumes "provider_Check uenv provider request w = (Inr (Some rel), w')" "crq_Platform request = ''linux''"
  shows "rel_installMode rel = Some ''external''"
proof (rule provider_Check_Some [OF assms(1)])
  fix manifest w1 assume "check_manifest uenv provider request manifest w1 = (Inr (Some rel), w')"
  then show ?thesis
    by (rule check_manifest_Some)
      (use assms(2) in \<open>auto simp: install_mode_def offered_release_def split: if_splits\<close>)
qed

definition provider_answers :: "'w update_env \<Rightarrow> string \<Rightarrow> updater_call list \<Rightarrow> bool" where
  "provider_answers uenv platform tr \<longleftrightarrow>
     (\<forall>rel. CheckCalled (Inr (Some rel)) \<in> set tr \<longrightarrow>
        (\<exists>provider request w w'. crq_Platform request = platform \<and>
           provider_Check uenv provider request w = (Inr (Some rel), w')))"

lemma known_mode_linux:
  "rte_GOOS env = ''linux'' \<Longrightarrow> provider_answers uenv ''linux'' tr \<Longrightarrow> known_mode env tr = ''external''"
proof (induction tr rule: rev_induct)
  case (snoc event tr)
  have answers: "provider_answers uenv ''linux'' tr" using snoc.prems(2) by (auto simp: provider_answers_def)
  note IH = snoc.IH [OF snoc.prems(1) answers]
  show ?case
  proof (cases "\<exists>rel. event = CheckCalled (Inr (Some rel))")
    case True
    then obtain rel where e: "event = CheckCalled (Inr (Some rel))" by blast
    then have "rel_installMode rel = Some ''external''"
      using snoc.prems(2) by (auto simp: provider_answers_def dest: linux_offer_external)
    then show ?thesis by (simp add: e releaseMetadataString_def)
  next
    case False
    then show ?thesis using IH snoc.prems(1)
      by (cases "(env, known_mode env tr, event)" rule: learn.cases) (auto simp: defaultInstallMode_def)
  qed
qed (simp add: known_mode_def defaultInstallMode_def)

text \<open>On Linux the shell never lets the updater replace the application, over every interleaving of requests and
  automatic checks, whatever manifests the update provider answered with.\<close>

theorem linux_never_replaces_itself:
  assumes "updater_observed log env" "rte_GOOS env = ''linux''" "\<not> rta_checkMu rt" "log w = []"
    and "(update_step env log)\<^sup>*\<^sup>* (configured_runtime env config v rt, [], w) (rt', cs, w')"
    and "provider_answers uenv ''linux'' (log w')"
  shows "InstallCalled err \<notin> set (log w')"
proof
  assume "InstallCalled err \<in> set (log w')"
  then obtain before after where tr: "log w' = before @ InstallCalled err # after" by (meson split_list)
  have "installs_allowed env (log w')"
    using update_history_consistent [OF assms(1,5) configured_consistent [where log = log and w = w, OF assms(3,4)]] by (simp add: update_consistent_def)
  then have "mode_was_self env before" by (auto simp: tr installs_allowed_def)
  then obtain p q where p: "before = p @ q" "known_mode env p = ''self''" by (auto simp: mode_was_self_def)
  have "provider_answers uenv ''linux'' p" using assms(6) by (auto simp: provider_answers_def tr p(1))
  from known_mode_linux [OF assms(2) this] p(2) show False by simp
qed

subsection \<open>The source of updates\<close>

lemma validateTestUpdateURL_None:
  assumes "validateTestUpdateURL raw = None"
  obtains u where "url_Parse raw = Some u" "url_User u = None"
    "url_Scheme u = ''https'' \<or> url_Scheme u = ''http'' \<and>
       (to_lower (url_Hostname u) = ''localhost'' \<or>
        (\<exists>ip. parseIP (to_lower (url_Hostname u)) = Some ip \<and> addr_IsLoopback ip))"
  using assms by (auto simp: validateTestUpdateURL_def Let_def split: option.splits if_splits)

lemma production_url:
  "\<exists>u. url_Parse productionUpdateManifestURL = Some u \<and> url_User u = None \<and> url_Scheme u = ''https'' \<and>
     url_Host u = ''github.com''"
proof -
  have "case url_Parse productionUpdateManifestURL of None \<Rightarrow> False
    | Some u \<Rightarrow> url_User u = None \<and> url_Scheme u = ''https'' \<and> url_Host u = ''github.com''" by code_simp
  then show ?thesis by (simp split: option.splits)
qed

lemma configureAppUpdater_configured:
  assumes "configureAppUpdater env setup (rt, w) = (err, rt', w')" "rta_updater rt = None" "rta_updater rt' = Some config"
  obtains publicKey manifestURL executablePath where
    "base64_DecodeString (trim_space (ups_appUpdatePublicKey setup)) = Some publicKey" "length publicKey = 32"
    "update_manifest_url setup (trim_space (ups_appUpdateMode setup)) = Inr manifestURL"
    "newSignedManifestProvider (ups_client setup) (trim_space (ups_appUpdateMode setup)) manifestURL publicKey None
       executablePath = Inr (upc_Provider config)"
    "upc_Channel config = update_channel (trim_space (ups_appUpdateMode setup))"
    "trim_space (ups_appUpdateMode setup) = updateModeTest \<or> trim_space (ups_appUpdateMode setup) = updateModeProduction"
  using assms unfolding configureAppUpdater_def
  by (auto simp: Let_def configured_runtime_def split: if_splits option.splits sum.splits prod.splits)

text \<open>The updater of a shell that was configured takes its manifest from GitHub over HTTPS in a production build, and
  over HTTPS or from the loopback interface in a test build, without credentials in the URL; it verifies with
  the 32 byte key of the build and asks for the channel of the build mode.\<close>

theorem update_source_is_secure:
  assumes "configureAppUpdater env setup (rt, w) = (err, rt', w')" "rta_updater rt = None" "rta_updater rt' = Some config"
  shows "\<exists>u. smp_manifestURL (upc_Provider config) = u \<and> url_User u = None \<and>
    (smp_mode (upc_Provider config) = updateModeProduction \<and> upc_Channel config = ''stable'' \<and>
       url_Scheme u = ''https'' \<and> url_Host u = ''github.com'' \<or>
     smp_mode (upc_Provider config) = updateModeTest \<and> upc_Channel config = ''test'' \<and>
       (url_Scheme u = ''https'' \<or> url_Scheme u = ''http'' \<and>
          (to_lower (url_Hostname u) = ''localhost'' \<or>
           (\<exists>ip. parseIP (to_lower (url_Hostname u)) = Some ip \<and> addr_IsLoopback ip)))) \<and>
    base64_DecodeString (trim_space (ups_appUpdatePublicKey setup)) = Some (smp_publicKey (upc_Provider config)) \<and>
    length (smp_publicKey (upc_Provider config)) = 32"
proof (rule configureAppUpdater_configured [OF assms])
  let ?mode = "trim_space (ups_appUpdateMode setup)"
  fix publicKey manifestURL executablePath
  assume key: "base64_DecodeString (trim_space (ups_appUpdatePublicKey setup)) = Some publicKey" "length publicKey = 32"
    and url: "update_manifest_url setup ?mode = Inr manifestURL"
    and new: "newSignedManifestProvider (ups_client setup) ?mode manifestURL publicKey None executablePath = Inr (upc_Provider config)"
    and channel: "upc_Channel config = update_channel ?mode"
    and mode: "?mode = updateModeTest \<or> ?mode = updateModeProduction"
  obtain u where u: "url_Parse manifestURL = Some u" and p: "upc_Provider config =
      \<lparr>smp_mode = ?mode, smp_manifestURL = u, smp_publicKey = publicKey, smp_client = ups_client setup,
       smp_executablePath = executablePath\<rparr>"
    using new by (auto simp: newSignedManifestProvider_def split: if_splits option.splits)
  have provider: "smp_mode (upc_Provider config) = ?mode" "smp_publicKey (upc_Provider config) = publicKey"
    "url_Parse manifestURL = Some (smp_manifestURL (upc_Provider config))"
    by (simp_all add: p u)
  have distinct: "updateModeTest \<noteq> updateModeProduction" by (simp add: updateModeTest_def updateModeProduction_def)
  from mode show ?thesis
  proof
    assume test: "?mode = updateModeTest"
    then have "manifestURL = trim_space (ups_manifestURL setup)" "validateTestUpdateURL manifestURL = None"
      using url by (auto simp: update_manifest_url_def Let_def split: option.splits)
    with validateTestUpdateURL_None [of manifestURL] provider(3) show ?thesis
      using test key provider channel by (auto simp: update_channel_def)
  next
    assume production: "?mode = updateModeProduction"
    then have "manifestURL = productionUpdateManifestURL"
      using url distinct by (simp add: update_manifest_url_def)
    then show ?thesis using production_url production key provider channel distinct by (auto simp: update_channel_def)
  qed
qed

subsection \<open>A small shell for the witnesses\<close>

text \<open>On any world: nothing is stored, the software library is empty, the network service is missing.\<close>

definition demo_shell_host :: "'w appHost" where
  "demo_shell_host =
     \<lparr>ah_locked = False,
      ah_appInfo = \<lparr>app_Name = [], app_Version = [], app_Platform = [], app_Arch = [], app_DeviceID = [], app_Hostname = [],
        app_DeviceType = [], app_LogDirectory = [], app_UpdateSupported = False, app_UpdateState = []\<rparr>,
      ah_config = None, ah_credentialKeyring = None, ah_client_Do = (\<lambda>_ w. (Inl EOF, w)), ah_RoundTrip = (\<lambda>_ w. (Inl EOF, w)),
      ah_static = (\<lambda>_ w. (writeData 200 (PStatus ''ok''), w)), ah_runtimeAPI = None, ah_openLogDirectory = None,
      ah_openBrowserURL = None, ah_randomToken = (\<lambda>_ w. (Inr ''token'', w)), ah_ParseMediaType = (\<lambda>s. (s, None)),
      ah_FRONTEND_DEVSERVER_URL = [], ah_tlsError = (\<lambda>_. False), ah_dates = (\<lambda>_. None),
      ah_decode_serverURL = (\<lambda>_. Inl EOF), ah_decode_activation = (\<lambda>_. Inl EOF), ah_decode_browser = (\<lambda>_. Inl EOF),
      ah_decode_empty = (\<lambda>_. Inl EOF), ah_decode_status = (\<lambda>_. Inl EOF), ah_decode_slider = (\<lambda>_. Inl EOF),
      ah_decode_any = (\<lambda>_. Inl EOF), ah_Unmarshal = (\<lambda>_. None), ah_Marshal = (\<lambda>_. ''{}'')\<rparr>"

definition demo_shell_software :: "'w software_env" where
  "demo_shell_software =
     \<lparr>se_GOOS = ''darwin'', se_GOARCH = ''arm64'', se_Base = (\<lambda>s. s), se_Join = (\<lambda>a b. a @ ''/'' @ b),
      se_sha256 = take 32, se_List = (\<lambda>_ w. (Inr [], w)), se_Do = (\<lambda>_ w. (Inl EOF, w)),
      se_downloadDir = ''d'', se_openFile = None, se_MkdirAll = (\<lambda>_ w. (None, w)), se_MkdirTemp = (\<lambda>_ p w. (Inr p, w)),
      se_RemoveAll = (\<lambda>_ w. w), se_OpenExclusive = (\<lambda>_ w. (None, w)), se_Write = (\<lambda>_ d w. ((length d, None), w)),
      se_Close = (\<lambda>_ w. (None, w)), se_Rename = (\<lambda>_ _ w. (None, w)), se_rand = (\<lambda>w. (Inr ''0'', w)), se_UnixNano = (\<lambda>_. 0)\<rparr>"

definition demo_runtime :: "string \<Rightarrow> 'w runtime_env" where
  "demo_runtime platform =
     \<lparr>rte_GOOS = platform, rte_GOARCH = ''arm64'', rte_State = (\<lambda>_. ''idle''), rte_Check = (\<lambda>w. (Inr None, w)),
      rte_CheckAndInstall = (\<lambda>w. (None, w)), rte_now = (\<lambda>_. ''2026-01-01T00:00:00Z''), rte_software = demo_shell_software,
      rte_networkCall = None, rte_networkMihomoCall = None, rte_networkAdmissionCall = None,
      rte_openAdmissionProfile = None, rte_networkLinkStatus = None, rte_host = demo_shell_host,
      rte_decode_connect = (\<lambda>_. Inl EOF), rte_decode_mihomo = (\<lambda>_. Inl EOF), rte_decode_admission = (\<lambda>_. Inl EOF),
      rte_decode_empty = (\<lambda>_. Inl EOF)\<rparr>"

definition demo_app :: "'w appRuntime" where
  "demo_app = \<lparr>rta_version = ''1.0.0'', rta_updater = None, rta_software = Some newSoftwareLibrary, rta_checkMu = False,
     rta_status = no_updateStatus, rta_automatic = False\<rparr>"

definition demo_setup :: "string updater_setup" where
  "demo_setup = \<lparr>ups_appUpdateMode = ''test'', ups_appUpdatePublicKey = concat (replicate 10 ''c3Nz'') @ ''c3M='',
     ups_manifestURL = ''http://127.0.0.1:9000/m.json'', ups_Executable = (\<lambda>w. (Inr ''/app'', w)),
     ups_client = demo_client, ups_Init = (\<lambda>_ w. (None, w))\<rparr>"

theorem update_source_is_secure_witness:
  "\<exists>rt' config. configureAppUpdater (demo_runtime ''darwin'') demo_setup (demo_app, []) = (None, rt', []) \<and>
     rta_updater rt' = Some config \<and> upc_Channel config = ''test'' \<and>
     length (smp_publicKey (upc_Provider config)) = 32"
proof -
  have "case configureAppUpdater (demo_runtime ''darwin'') demo_setup (demo_app, []) of
      (err, rt', w) \<Rightarrow> err = None \<and> w = [] \<and> (case rta_updater rt' of None \<Rightarrow> False | Some config \<Rightarrow> upc_Channel config = ''test'')"
    by code_simp
  then obtain rt' config where r: "configureAppUpdater (demo_runtime ''darwin'') demo_setup (demo_app, []) = (None, rt', [])"
    and c: "rta_updater rt' = Some config" "upc_Channel config = ''test''"
    by (auto split: prod.splits option.splits)
  have "rta_updater demo_app = None" by (simp add: demo_app_def)
  from update_source_is_secure [OF r this c(1)] r c show ?thesis by blast
qed

text \<open>The same shell on a world that is the log of the updater's calls, with an updater that gives one answer.\<close>

definition demo_logging_runtime :: "string \<Rightarrow> release option fallible \<Rightarrow> updater_call list runtime_env" where
  "demo_logging_runtime platform answer = demo_runtime platform
     \<lparr>rte_Check := (\<lambda>log. (answer, log @ [CheckCalled answer])),
      rte_CheckAndInstall := (\<lambda>log. (None, log @ [InstallCalled None]))\<rparr>"

lemma demo_logging_observed: "updater_observed id (demo_logging_runtime platform answer)"
  by (simp add: updater_observed_def demo_logging_runtime_def demo_runtime_def demo_shell_software_def)

definition demo_logging_config :: "updater_call list updater_config" where
  "demo_logging_config = \<lparr>upc_CurrentVersion = ''1.0.0'',
     upc_Provider = \<lparr>smp_mode = ''test'', smp_manifestURL = smp_manifestURL demo_provider,
       smp_publicKey = replicate 32 (CHR ''k''), smp_client = (\<lambda>_ w. (Inl EOF, w)), smp_executablePath = ''/app''\<rparr>,
     upc_Platform = ''darwin'', upc_Arch = ''arm64'', upc_Channel = ''test''\<rparr>"

lemma demo_app_unlocked: "\<not> rta_checkMu demo_app"
  by (simp add: demo_app_def)

lemma acts_idle: "acts env log (\<lambda>s. s)"
  by (simp add: acts_def)

definition demo_install_request :: request where
  "demo_install_request = \<lparr>rq_Method = ''POST'',
     rq_URL = (smp_manifestURL demo_provider)\<lparr>url_Path := ''/app/v1/updates/install''\<rparr>, rq_Host = [],
     rq_Header = header_empty, rq_Body = None, rq_RemoteAddr = []\<rparr>"

text \<open>On macOS, an installation is asked for while nothing is under way: it is called, once.\<close>

theorem updater_called_once_and_allowed_witness:
  "let env = demo_logging_runtime ''darwin'' (Inr None);
       rt = configured_runtime env demo_logging_config [] demo_app;
       (rt2, log) = snd (runtime_ServeHTTP env (\<lambda>_ s. s) demo_install_request (rt, []))
   in log = [InstallCalled None] \<and> installs_allowed env log"
proof -
  let ?env = "demo_logging_runtime ''darwin'' (Inr None)"
  let ?rt = "configured_runtime ?env demo_logging_config [] demo_app"
  obtain rt2 log2 where r: "snd (runtime_ServeHTTP ?env (\<lambda>_ s. s) demo_install_request (?rt, [])) = (rt2, log2)"
    by fastforce
  have "snd (snd (runtime_ServeHTTP ?env (\<lambda>_ s. s) demo_install_request (?rt, []))) = [InstallCalled None]"
    by code_simp
  moreover have "(rt2, log2) \<in> {snd (runtime_ServeHTTP ?env (\<lambda>_ s. s) demo_install_request (?rt, [])),
      checkSilently ?env ((\<lambda>_ s. s) 0) (?rt, [])}" using r by simp
  from updater_called_once_and_allowed [OF demo_logging_observed demo_app_unlocked _ rtranclp.rtrancl_refl acts_idle this]
  have "installs_allowed ?env log2" by simp
  ultimately show ?thesis by (simp add: r Let_def)
qed

definition demo_linux_env :: "string update_env" where
  "demo_linux_env = demo_update_env\<lparr>ue_decode_manifest :=
     (\<lambda>_. Inr (demo_manifest\<lparr>um_Targets := [(''linux-amd64'', \<lparr>umt_InstallMode = ''self'',
        umt_Full = \<lparr>uma_Name = ''soha-app-v1.1.0-linux-amd64.deb'', uma_Size = 100,
          uma_SHA256 = hex_EncodeToString (demo_sha256 demo_full)\<rparr>, umt_Deltas = []\<rparr>)]\<rparr>, [], None))\<rparr>"

definition demo_linux_request :: CheckRequest where
  "demo_linux_request = \<lparr>crq_CurrentVersion = ''1.0.0'', crq_Platform = ''linux'', crq_Arch = ''amd64''\<rparr>"

text \<open>A check on Linux that finds a release whose manifest asks for a self-update.\<close>

theorem linux_never_replaces_itself_witness:
  "\<exists>rel rt' log. (update_step (demo_logging_runtime ''linux'' (Inr (Some rel))) id)\<^sup>*\<^sup>*
       (configured_runtime (demo_logging_runtime ''linux'' (Inr (Some rel))) demo_logging_config [] demo_app, [], [])
       (rt', [], log) \<and>
     CheckCalled (Inr (Some rel)) \<in> set log \<and> InstallCalled None \<notin> set log"
proof -
  have "case provider_Check demo_linux_env demo_provider demo_linux_request [] of
      (Inr (Some rel), w) \<Rightarrow> True | _ \<Rightarrow> False" by code_simp
  then obtain rel w where rel: "provider_Check demo_linux_env demo_provider demo_linux_request [] = (Inr (Some rel), w)"
    by (auto split: prod.splits sum.splits option.splits)
  let ?result = "Inr (Some rel) :: release option fallible"
  let ?env = "demo_logging_runtime ''linux'' ?result"
  let ?rt = "configured_runtime ?env demo_logging_config [] demo_app"
  let ?locked = "?rt\<lparr>rta_checkMu := True\<rparr>"
  have lock: "try_lock ?rt = Some ?locked" by (simp add: try_lock_def configured_runtime_def demo_app_def)
  have check: "rte_Check ?env [] = (?result, [CheckCalled ?result])" by (simp add: demo_logging_runtime_def)
  have "update_step ?env id (?rt, [], []) (?locked, [Checking ?result], [CheckCalled ?result])"
    by (rule check_begins [OF lock check])
  moreover have "update_step ?env id (?locked, [Checking ?result], [CheckCalled ?result])
      (finish_check ?env ?result [CheckCalled ?result] ?locked, [], [CheckCalled ?result])"
    using check_ends [of ?result "[Checking ?result]" ?env id ?locked "[CheckCalled ?result]"] by simp
  ultimately have history: "(update_step ?env id)\<^sup>*\<^sup>* (?rt, [], [])
      (finish_check ?env ?result [CheckCalled ?result] ?locked, [], [CheckCalled ?result])"
    by (meson r_into_rtranclp rtranclp_trans)
  have platform: "rte_GOOS ?env = ''linux''" by (simp add: demo_logging_runtime_def demo_runtime_def)
  have "crq_Platform demo_linux_request = ''linux''" by (simp add: demo_linux_request_def)
  with rel have answers: "provider_answers demo_linux_env ''linux'' (id [CheckCalled ?result])"
    by (auto simp: provider_answers_def)
  have "InstallCalled None \<notin> set (id [CheckCalled ?result])"
    by (rule linux_never_replaces_itself [OF demo_logging_observed platform demo_app_unlocked _ history answers]) simp
  with history show ?thesis by fastforce
qed

end
