(* ===== verification/Shell_Inventory.thy ===== *)
theory Shell_Inventory
  imports Shell_Runtime Netip
begin

text \<open>
  What the desktop application reports about its device (\<open>inventory.go\<close>, \<open>inventory_darwin.go\<close>,
  \<open>inventory_other.go\<close>): interfaces, addresses, name servers, the default link. The interfaces of the system and
  the commands of macOS are interfaces of the model. \<open>sort.Slice\<close> is a stable sort here, which shows only where
  two interfaces have one name.
\<close>

subsection \<open>Data\<close>

record EndpointNetworkInterface =
  eni_Name :: string
  eni_DisplayName :: string
  eni_Kind :: string
  eni_Status :: string
  eni_MACAddress :: string
  eni_IPv4Addresses :: "string list"
  eni_IPv6Addresses :: "string list"
  eni_DNSServers :: "string list"

record EndpointDeviceReportedFacts =
  edf_OSName :: string
  edf_OSVersion :: string
  edf_OSBuild :: string
  edf_Architecture :: string
  edf_Manufacturer :: string
  edf_Model :: string
  edf_SerialNumber :: string
  edf_AgentVersion :: string
  edf_CollectedAt :: time
  edf_NetworkInterfaces :: "EndpointNetworkInterface list"

definition no_facts :: EndpointDeviceReportedFacts where
  "no_facts = \<lparr>edf_OSName = [], edf_OSVersion = [], edf_OSBuild = [], edf_Architecture = [], edf_Manufacturer = [],
     edf_Model = [], edf_SerialNumber = [], edf_AgentVersion = [], edf_CollectedAt = 0, edf_NetworkInterfaces = []\<rparr>"

text \<open>
  \<open>net.Interface\<close>, with the two flags the code looks at and the texts of its addresses (none if they cannot be
  listed); a hardware address is a list of bytes.
\<close>

record net_interface =
  nif_Name :: string
  nif_Loopback :: bool
  nif_Up :: bool
  nif_HardwareAddr :: string
  nif_Addrs :: "string list"

text \<open>The system: \<open>inv_Interfaces\<close> is \<open>net.Interfaces\<close>, \<open>inv_Output\<close> the output of a command.\<close>

record 'w inventory_env =
  inv_GOOS :: string
  inv_GOARCH :: string
  inv_Interfaces :: "'w \<Rightarrow> net_interface list fallible \<times> 'w"
  inv_Output :: "string \<Rightarrow> string list \<Rightarrow> 'w \<Rightarrow> string fallible \<times> 'w"

subsection \<open>Interfaces\<close>

definition virtual_prefixes :: "string list" where
  "virtual_prefixes =
     [''utun'', ''tun'', ''tap'', ''wg'', ''bridge'', ''awdl'', ''llw'', ''gif'', ''stf'', ''anpi'', ''vnic'', ''vmnet'',
      ''docker'', ''veth'']"

definition networkInterfaceKind :: "string \<Rightarrow> bool \<Rightarrow> string" where
  "networkInterfaceKind name loopback =
     (if loopback then ''loopback''
      else if list_ex (has_prefix (to_lower name)) virtual_prefixes then ''virtual'' else ''physical'')"

definition parseInterfaceAddress :: "string \<Rightarrow> (string \<times> nat) option" where
  "parseInterfaceAddress raw =
     (let host = takeWhile (\<lambda>c. c \<noteq> CHR ''/'') raw; host = takeWhile (\<lambda>c. c \<noteq> CHR ''%'') host
      in case parseAddr host of
           None \<Rightarrow> None
         | Some address \<Rightarrow>
             if addr_Is4 address \<or> addr_Is4In6 address then Some (addr_String (addr_Unmap address), 4)
             else Some (addr_String address, 6))"

text \<open>The loop over the addresses of an interface, with the addresses of both families so far.\<close>

fun collect_addresses :: "string list \<Rightarrow> string list \<Rightarrow> string list \<Rightarrow> string list \<times> string list" where
  "collect_addresses [] v4 v6 = (v4, v6)"
| "collect_addresses (raw # rest) v4 v6 =
     (case parseInterfaceAddress raw of
        None \<Rightarrow> collect_addresses rest v4 v6
      | Some (address, family) \<Rightarrow>
          collect_addresses rest
            (if family = 4 \<and> length v4 < 32 then v4 @ [address] else v4)
            (if family = 6 \<and> length v6 < 32 then v6 @ [address] else v6))"

text \<open>\<open>HardwareAddr.String\<close>, in lower case.\<close>

definition mac_string :: "string \<Rightarrow> string" where
  "mac_string bytes = strings_Join (map (\<lambda>b. hex_EncodeToString [b]) bytes) '':''"

definition reported_interface :: "net_interface \<Rightarrow> EndpointNetworkInterface" where
  "reported_interface item =
     (let (v4, v6) = collect_addresses (nif_Addrs item) [] []
      in \<lparr>eni_Name = nif_Name item, eni_DisplayName = [], eni_Kind = networkInterfaceKind (nif_Name item) (nif_Loopback item),
          eni_Status = (if nif_Up item then ''up'' else ''down''),
          eni_MACAddress = (if length (nif_HardwareAddr item) = 6 then to_lower (mac_string (nif_HardwareAddr item)) else []),
          eni_IPv4Addresses = sort v4, eni_IPv6Addresses = sort v6, eni_DNSServers = []\<rparr>)"

definition collectNetworkInterfaces :: "'w inventory_env \<Rightarrow> 'w \<Rightarrow> EndpointNetworkInterface list \<times> 'w" where
  "collectNetworkInterfaces env w =
     (case inv_Interfaces env w of
        (Inl _, w) \<Rightarrow> ([], w)
      | (Inr interfaces, w) \<Rightarrow> (map reported_interface (take 64 (sort_key nif_Name interfaces)), w))"

subsection \<open>Texts of commands\<close>

definition inferDeviceType :: "string \<Rightarrow> string \<Rightarrow> bool \<Rightarrow> string" where
  "inferDeviceType platform model portable =
     (if platform = ''darwin'' \<and> (has_prefix model ''MacBook'' \<or> portable) then ''laptop''
      else if platform = ''darwin'' \<and>
              (has_prefix model ''iMac'' \<or> has_prefix model ''Macmini'' \<or> has_prefix model ''MacPro'' \<or> has_prefix model ''MacStudio'')
      then ''desktop''
      else if platform = ''android'' \<or> platform = ''ios'' then ''mobile'' else ''unknown'')"

fun network_value_lines :: "string list \<Rightarrow> string \<Rightarrow> string" where
  "network_value_lines [] name = []"
| "network_value_lines (line # rest) name =
     (let (key, value, found) = cut_at (CHR '':'') line
      in if found \<and> trim_space key = name then trim_space value else network_value_lines rest name)"

definition parseNetworkValue :: "string \<Rightarrow> string \<Rightarrow> string" where
  "parseNetworkValue output name = network_value_lines (split_on (CHR 0x0A) output) name"

fun dns_server_lines :: "string list \<Rightarrow> string list \<Rightarrow> string list" where
  "dns_server_lines [] servers = servers"
| "dns_server_lines (line # rest) servers =
     (let (key, value, found) = cut_at (CHR '':'') line
      in if \<not> found \<or> \<not> has_prefix (trim_space key) ''nameserver['' then dns_server_lines rest servers
         else case parseAddr (trim_space value) of
                None \<Rightarrow> dns_server_lines rest servers
              | Some address \<Rightarrow>
                  let server = addr_String (addr_Unmap address)
                  in if server \<in> set servers then dns_server_lines rest servers
                     else if length (servers @ [server]) = 8 then servers @ [server]
                     else dns_server_lines rest (servers @ [server]))"

definition parseDNSServers :: "string \<Rightarrow> string list" where
  "parseDNSServers output = dns_server_lines (split_on (CHR 0x0A) output) []"

text \<open>\<open>strings.Trim\<close> with one byte to cut.\<close>

definition trim_char :: "char \<Rightarrow> string \<Rightarrow> string" where
  "trim_char c s = rev (dropWhile (\<lambda>d. d = c) (rev (dropWhile (\<lambda>d. d = c) s)))"

fun serial_lines :: "string list \<Rightarrow> string" where
  "serial_lines [] = []"
| "serial_lines (line # rest) =
     (if \<not> contains_text line ''IOPlatformSerialNumber'' then serial_lines rest
      else
        let (_, value, found) = cut_at (CHR ''='') line
        in if found then trim_char (CHR 0x22) (trim_space value) else serial_lines rest)"

definition parseIOPlatformSerial :: "string \<Rightarrow> string" where
  "parseIOPlatformSerial output = serial_lines (split_on (CHR 0x0A) output)"

fun firstNonEmpty :: "string list \<Rightarrow> string" where
  "firstNonEmpty [] = []"
| "firstNonEmpty (value # rest) = (if value \<noteq> [] then value else firstNonEmpty rest)"

definition systemValue :: "'w inventory_env \<Rightarrow> string \<Rightarrow> string list \<Rightarrow> 'w \<Rightarrow> string \<times> 'w" where
  "systemValue env path arguments w =
     (case inv_Output env path arguments w of (Inl _, w) \<Rightarrow> ([], w) | (Inr output, w) \<Rightarrow> (trim_space output, w))"

subsection \<open>The facts of a platform\<close>

definition hasInternalBattery :: "'w inventory_env \<Rightarrow> 'w \<Rightarrow> bool \<times> 'w" where
  "hasInternalBattery env w =
     (let (output, w) = systemValue env ''/usr/sbin/ioreg'' [''-r'', ''-c'', ''AppleSmartBattery'', ''-d'', ''1''] w
      in (contains_text output ''AppleSmartBattery'', w))"

definition darwin_collectPlatformFacts :: "'w inventory_env \<Rightarrow> 'w \<Rightarrow> (string \<times> EndpointDeviceReportedFacts) \<times> 'w" where
  "darwin_collectPlatformFacts env w =
     (let (model, w) = systemValue env ''/usr/sbin/sysctl'' [''-n'', ''hw.model''] w;
          (portable, w) = hasInternalBattery env w;
          (name, w) = systemValue env ''/usr/bin/sw_vers'' [''-productName''] w;
          (version, w) = systemValue env ''/usr/bin/sw_vers'' [''-productVersion''] w;
          (build, w) = systemValue env ''/usr/bin/sw_vers'' [''-buildVersion''] w;
          (serial, w) = systemValue env ''/usr/sbin/ioreg'' [''-rd1'', ''-c'', ''IOPlatformExpertDevice''] w
      in ((inferDeviceType ''darwin'' model portable,
           no_facts\<lparr>edf_OSName := firstNonEmpty [name, ''macOS''], edf_OSVersion := version, edf_OSBuild := build,
             edf_Manufacturer := ''Apple'', edf_Model := model, edf_SerialNumber := parseIOPlatformSerial serial\<rparr>), w))"

definition other_collectPlatformFacts :: "'w inventory_env \<Rightarrow> 'w \<Rightarrow> (string \<times> EndpointDeviceReportedFacts) \<times> 'w" where
  "other_collectPlatformFacts env w =
     ((inferDeviceType (inv_GOOS env) [] False, no_facts\<lparr>edf_OSName := inv_GOOS env\<rparr>), w)"

definition collectPlatformFacts :: "'w inventory_env \<Rightarrow> 'w \<Rightarrow> (string \<times> EndpointDeviceReportedFacts) \<times> 'w" where
  "collectPlatformFacts env w =
     (if inv_GOOS env = ''darwin'' then darwin_collectPlatformFacts env w else other_collectPlatformFacts env w)"

definition collectEndpointInventory ::
  "'w inventory_env \<Rightarrow> string \<Rightarrow> time \<Rightarrow> 'w \<Rightarrow> (string \<times> EndpointDeviceReportedFacts) \<times> 'w" where
  "collectEndpointInventory env appVersion collectedAt w =
     (let ((deviceType, facts), w) = collectPlatformFacts env w;
          (interfaces, w) = collectNetworkInterfaces env w
      in ((deviceType, facts\<lparr>edf_Architecture := inv_GOARCH env, edf_AgentVersion := appVersion,
             edf_CollectedAt := collectedAt, edf_NetworkInterfaces := interfaces\<rparr>), w))"

subsection \<open>The default link\<close>

fun link_address :: "EndpointNetworkInterface list \<Rightarrow> string \<Rightarrow> string" where
  "link_address [] name = []"
| "link_address (item # rest) name =
     (if eni_Name item = name \<and> eni_IPv4Addresses item \<noteq> [] then hd (eni_IPv4Addresses item)
      else link_address rest name)"

definition darwin_collectNetworkLinkStatus :: "'w inventory_env \<Rightarrow> 'w \<Rightarrow> NetworkLinkStatus \<times> 'w" where
  "darwin_collectNetworkLinkStatus env w =
     (let (default_route, w) = systemValue env ''/sbin/route'' [''-n'', ''get'', ''default''] w;
          interfaceName = parseNetworkValue default_route ''interface'';
          (dns, w) = systemValue env ''/usr/sbin/scutil'' [''--dns''] w;
          (interfaces, w) = collectNetworkInterfaces env w;
          status = \<lparr>nls_Connected = False, nls_Medium = [], nls_InterfaceName = interfaceName,
            nls_IPAddress = link_address interfaces interfaceName,
            nls_Gateway = parseNetworkValue default_route ''gateway'', nls_DNSServers = parseDNSServers dns\<rparr>
      in if interfaceName = [] \<or> nls_IPAddress status = [] then (status, w)
         else
           let (summary, w) = systemValue env ''/usr/sbin/ipconfig'' [''getsummary'', interfaceName] w
           in (status\<lparr>nls_Connected := True,
                 nls_Medium := (if contains_text summary ''InterfaceType : WiFi'' then ''wifi'' else ''wired'')\<rparr>, w))"

definition other_collectNetworkLinkStatus :: NetworkLinkStatus where
  "other_collectNetworkLinkStatus =
     \<lparr>nls_Connected = False, nls_Medium = [], nls_InterfaceName = [], nls_IPAddress = [], nls_Gateway = [],
      nls_DNSServers = []\<rparr>"

definition collectNetworkLinkStatus :: "'w inventory_env \<Rightarrow> 'w \<Rightarrow> NetworkLinkStatus \<times> 'w" where
  "collectNetworkLinkStatus env w =
     (if inv_GOOS env = ''darwin'' then darwin_collectNetworkLinkStatus env w else (other_collectNetworkLinkStatus, w))"

subsection \<open>Bounds of a report\<close>

definition address_text :: "nat \<Rightarrow> string \<Rightarrow> bool" where
  "address_text family s \<longleftrightarrow>
     (if family = 4 then \<exists>x. s = string4 x
      else \<exists>a. s = addr_String a \<and> \<not> addr_Is4 a \<and> \<not> addr_Is4In6 a)"

lemma parseInterfaceAddress_text:
  "parseInterfaceAddress raw = Some (s, family) \<Longrightarrow> address_text family s \<and> (family = 4 \<or> family = 6)"
  by (auto simp: parseInterfaceAddress_def Let_def address_text_def addr_String_def addr_Unmap_def addr_Is4_def
      addr_Is4In6_def split: option.splits if_splits addr.splits)

lemma collect_addresses_bounded:
  "collect_addresses raws v4 v6 = (a4, a6) \<Longrightarrow> length v4 \<le> 32 \<Longrightarrow> length v6 \<le> 32 \<Longrightarrow>
     list_all (address_text 4) v4 \<Longrightarrow> list_all (address_text 6) v6 \<Longrightarrow>
     length a4 \<le> 32 \<and> length a6 \<le> 32 \<and> list_all (address_text 4) a4 \<and> list_all (address_text 6) a6"
proof (induction raws v4 v6 rule: collect_addresses.induct)
  case (2 raw rest v4 v6)
  show ?case
  proof (cases "parseInterfaceAddress raw")
    case None
    then show ?thesis using 2 by simp
  next
    case (Some p)
    obtain s family where p: "p = (s, family)" by fastforce
    note fact = parseInterfaceAddress_text [OF Some [unfolded p]]
    show ?thesis by (rule "2.IH"(2) [OF Some p [symmetric]]) (use 2 Some fact in \<open>auto simp: p\<close>)
  qed
qed simp

definition bounded_interface :: "EndpointNetworkInterface \<Rightarrow> bool" where
  "bounded_interface item \<longleftrightarrow>
     length (eni_IPv4Addresses item) \<le> 32 \<and> length (eni_IPv6Addresses item) \<le> 32 \<and>
     sorted (eni_IPv4Addresses item) \<and> sorted (eni_IPv6Addresses item) \<and>
     list_all (address_text 4) (eni_IPv4Addresses item) \<and> list_all (address_text 6) (eni_IPv6Addresses item)"

lemma reported_interface_bounded: "bounded_interface (reported_interface item)"
proof -
  obtain v4 v6 where c: "collect_addresses (nif_Addrs item) [] [] = (v4, v6)" by fastforce
  show ?thesis using collect_addresses_bounded [OF c]
    by (simp add: reported_interface_def c bounded_interface_def list_all_iff)
qed

lemma reported_name [simp]: "eni_Name (reported_interface item) = nif_Name item"
  by (simp add: reported_interface_def split: prod.split)

definition server_text :: "string \<Rightarrow> bool" where
  "server_text s \<longleftrightarrow> (\<exists>a. s = addr_String (addr_Unmap a))"

lemma dns_server_lines_cases:
  obtains "dns_server_lines (line # rest) servers = dns_server_lines rest servers"
  | server where "server \<notin> set servers" "server_text server"
      "dns_server_lines (line # rest) servers =
         (if length (servers @ [server]) = 8 then servers @ [server] else dns_server_lines rest (servers @ [server]))"
proof -
  obtain key val found where cut: "cut_at (CHR '':'') line = (key, val, found)" by (metis prod.exhaust)
  show thesis
  proof (cases "\<not> found \<or> \<not> has_prefix (trim_space key) ''nameserver[''")
    case True
    then show thesis using that(1) by (simp add: cut)
  next
    case name: False
    show thesis
    proof (cases "parseAddr (trim_space val)")
      case None
      then show thesis using that(1) name by (simp add: cut)
    next
      case (Some a)
      define server where "server = addr_String (addr_Unmap a)"
      have "server_text server" by (auto simp: server_text_def server_def)
      then show thesis using that(1) that(2) [of server] name Some
        by (cases "server \<in> set servers") (simp_all add: cut server_def Let_def)
    qed
  qed
qed

lemma dns_server_lines_bounded:
  "length servers < 8 \<Longrightarrow> distinct servers \<Longrightarrow> list_all server_text servers \<Longrightarrow>
     length (dns_server_lines lines servers) \<le> 8 \<and> distinct (dns_server_lines lines servers) \<and>
     list_all server_text (dns_server_lines lines servers)"
proof (induction lines arbitrary: servers)
  case (Cons line rest)
  show ?case
  proof (rule dns_server_lines_cases [of line rest servers])
    assume "dns_server_lines (line # rest) servers = dns_server_lines rest servers"
    then show ?thesis using Cons.IH [OF Cons.prems] by simp
  next
    fix server assume new: "server \<notin> set servers" "server_text server"
      and run: "dns_server_lines (line # rest) servers =
         (if length (servers @ [server]) = 8 then servers @ [server] else dns_server_lines rest (servers @ [server]))"
    have next_ok: "distinct (servers @ [server])" "list_all server_text (servers @ [server])" using Cons.prems new by auto
    show ?thesis
    proof (cases "length (servers @ [server]) = 8")
      case True
      then show ?thesis using run next_ok by simp
    next
      case False
      then show ?thesis using Cons.IH [of "servers @ [server]"] next_ok Cons.prems(1) run by simp
    qed
  qed
qed simp

lemma parseDNSServers_bounded:
  "length (parseDNSServers output) \<le> 8" "distinct (parseDNSServers output)"
  "list_all server_text (parseDNSServers output)"
  using dns_server_lines_bounded [of "[]" "split_on (CHR 0x0A) output"] by (simp_all add: parseDNSServers_def)

lemma link_address_reported:
  "link_address items name \<noteq> [] \<Longrightarrow>
     \<exists>item \<in> set items. eni_Name item = name \<and> eni_IPv4Addresses item \<noteq> [] \<and>
       hd (eni_IPv4Addresses item) = link_address items name"
  by (induction items name rule: link_address.induct) (auto split: if_splits)

lemma connected_link_reported:
  assumes "darwin_collectNetworkLinkStatus env w = (status, w')" "nls_Connected status"
  shows "\<exists>items w1 w2. collectNetworkInterfaces env w1 = (items, w2) \<and>
    (\<exists>item \<in> set items. eni_Name item = nls_InterfaceName status \<and> eni_IPv4Addresses item \<noteq> [] \<and>
       hd (eni_IPv4Addresses item) = nls_IPAddress status) \<and> length (nls_DNSServers status) \<le> 8"
proof -
  obtain r w1 where r: "systemValue env ''/sbin/route'' [''-n'', ''get'', ''default''] w = (r, w1)" by fastforce
  obtain d w2 where d: "systemValue env ''/usr/sbin/scutil'' [''--dns''] w1 = (d, w2)" by fastforce
  obtain items w3 where i: "collectNetworkInterfaces env w2 = (items, w3)" by fastforce
  have "nls_InterfaceName status = parseNetworkValue r ''interface''"
    "nls_IPAddress status = link_address items (parseNetworkValue r ''interface'')"
    "nls_IPAddress status \<noteq> []" "nls_DNSServers status = parseDNSServers d"
    using assms by (auto simp: darwin_collectNetworkLinkStatus_def r d i Let_def split: if_splits prod.splits)
  then show ?thesis using i link_address_reported [of items "parseNetworkValue r ''interface''"]
      parseDNSServers_bounded(1) [of d] by metis
qed

text \<open>The report of network interfaces is bounded: at most 64 interfaces in the order of their names, each with at most
  32 addresses of either family, sorted, and written in the canonical form of their family.\<close>

theorem inventory_bounded:
  "collectNetworkInterfaces env w = (items, w') \<Longrightarrow>
     length items \<le> 64 \<and> sorted (map eni_Name items) \<and> list_all bounded_interface items"
proof -
  assume "collectNetworkInterfaces env w = (items, w')"
  then consider "items = []" | raw where "items = map reported_interface (take 64 (sort_key nif_Name raw))"
    by (auto simp: collectNetworkInterfaces_def split: sum.splits prod.splits)
  then show ?thesis
  proof cases
    case (2 raw)
    have "sorted (take 64 (map nif_Name (sort_key nif_Name raw)))" by (rule sorted_wrt_take) simp
    then show ?thesis unfolding 2
      by (simp add: comp_def take_map list_all_iff reported_interface_bounded del: set_take_subset)
  qed simp
qed

definition demo_inventory :: "unit inventory_env" where
  "demo_inventory = \<lparr>inv_GOOS = ''linux'', inv_GOARCH = ''amd64'',
     inv_Interfaces = (\<lambda>w. (Inr
       [\<lparr>nif_Name = ''lo'', nif_Loopback = True, nif_Up = True, nif_HardwareAddr = [],
         nif_Addrs = [''::1/128'', ''127.0.0.1/8'']\<rparr>,
        \<lparr>nif_Name = ''eth0'', nif_Loopback = False, nif_Up = True,
         nif_HardwareAddr = [CHR 0x02, CHR 0x42, CHR 0xAC, CHR 0x11, CHR 0x00, CHR 0x02],
         nif_Addrs = [''fe80::1%eth0/64'', ''::ffff:10.0.0.9/112'', ''bad'', ''10.0.0.2/8'']\<rparr>], w)),
     inv_Output = (\<lambda>_ _ w. (Inl EOF, w))\<rparr>"

theorem inventory_bounded_witness:
  "\<exists>items. collectNetworkInterfaces demo_inventory () = (items, ()) \<and> list_all bounded_interface items \<and>
     map (\<lambda>item. (eni_Name item, eni_MACAddress item, eni_IPv4Addresses item, eni_IPv6Addresses item)) items =
       [(''eth0'', ''02:42:ac:11:00:02'', [''10.0.0.2'', ''10.0.0.9''], [''fe80::1'']), (''lo'', [], [''127.0.0.1''], [''::1''])]"
proof -
  obtain items where c: "collectNetworkInterfaces demo_inventory () = (items, ())"
    by (metis old.unit.exhaust prod.exhaust)
  have "map (\<lambda>item. (eni_Name item, eni_MACAddress item, eni_IPv4Addresses item, eni_IPv6Addresses item))
      (fst (collectNetworkInterfaces demo_inventory ())) =
       [(''eth0'', ''02:42:ac:11:00:02'', [''10.0.0.2'', ''10.0.0.9''], [''fe80::1'']), (''lo'', [], [''127.0.0.1''], [''::1''])]"
    by code_simp
  then show ?thesis using c inventory_bounded [OF c] by simp
qed

end
