(* ===== verification/Shell_Desktop.thy ===== *)
theory Shell_Desktop
  imports Shell_Config_Safety
begin

text \<open>
  What the desktop application keeps beside its configuration: the rotating log file (\<open>logging.go\<close>), the position
  of the companion window (\<open>companion_window.go\<close>), and its version (\<open>main.go\<close>). Files are interfaces; the shape of
  log entries, the windows and the tray are left out.
\<close>

subsection \<open>The log file\<close>

definition appLogFileName :: string where "appLogFileName = ''soha.log''"
definition appLogMaxBytes :: int where "appLogMaxBytes = 5 * 2 ^ 20"

definition ErrClosed :: go_error where "ErrClosed = ErrorNew ''file already closed''"

text \<open>The calls of the log: \<open>lgf_Stat\<close> is \<open>os.Stat\<close>, the calls below it are those of the open file.\<close>

record 'w log_files =
  lgf_Dir :: "string \<Rightarrow> string"
  lgf_Join :: "string \<Rightarrow> string \<Rightarrow> string"
  lgf_MkdirAll :: "string \<Rightarrow> 'w \<Rightarrow> error \<times> 'w"
  lgf_Chmod :: "string \<Rightarrow> 'w \<Rightarrow> error \<times> 'w"
  lgf_Stat :: "string \<Rightarrow> 'w \<Rightarrow> int fallible \<times> 'w"
  lgf_replaceFile :: "string \<Rightarrow> string \<Rightarrow> 'w \<Rightarrow> error \<times> 'w"
  lgf_OpenAppend :: "string \<Rightarrow> 'w \<Rightarrow> error \<times> 'w"
  lgf_file_Chmod :: "string \<Rightarrow> 'w \<Rightarrow> error \<times> 'w"
  lgf_file_Stat :: "string \<Rightarrow> 'w \<Rightarrow> int fallible \<times> 'w"
  lgf_file_Write :: "string \<Rightarrow> string \<Rightarrow> 'w \<Rightarrow> (nat \<times> error) \<times> 'w"
  lgf_file_Close :: "string \<Rightarrow> 'w \<Rightarrow> error \<times> 'w"

text \<open>\<open>rlw_open\<close> tells whether the field \<open>file\<close> is not nil.\<close>

record rotatingLogWriter =
  rlw_path :: string
  rlw_maxBytes :: int
  rlw_open :: bool
  rlw_size :: int

definition openLogFile :: "'w log_files \<Rightarrow> string \<Rightarrow> 'w \<Rightarrow> int fallible \<times> 'w" where
  "openLogFile fs path w =
     (case lgf_OpenAppend fs path w of
        (Some err, w) \<Rightarrow> (Inl (ErrWrap ''open app log: '' err), w)
      | (None, w) \<Rightarrow>
          (case lgf_file_Chmod fs path w of
             (Some err, w) \<Rightarrow> (Inl (ErrWrap ''secure app log: '' err), snd (lgf_file_Close fs path w))
           | (None, w) \<Rightarrow>
               (case lgf_file_Stat fs path w of
                  (Inl err, w) \<Rightarrow> (Inl (ErrWrap ''inspect app log: '' err), snd (lgf_file_Close fs path w))
                | (Inr n, w) \<Rightarrow> (Inr n, w))))"

definition rotate_at_start :: "'w log_files \<Rightarrow> string \<Rightarrow> int \<Rightarrow> 'w \<Rightarrow> error \<times> 'w" where
  "rotate_at_start fs path maxBytes w =
     (case lgf_Stat fs path w of
        (Inr n, w) \<Rightarrow>
          if n \<ge> maxBytes
          then let (err, w) = lgf_replaceFile fs path (path @ ''.1'') w
               in (map_option (ErrWrap ''rotate app log: '') err, w)
          else (None, w)
      | (Inl err, w) \<Rightarrow> (if errors_is err ErrNotExist then None else Some (ErrWrap ''inspect app log: '' err), w))"

definition openRotatingLogWriter :: "'w log_files \<Rightarrow> string \<Rightarrow> int \<Rightarrow> 'w \<Rightarrow> rotatingLogWriter fallible \<times> 'w" where
  "openRotatingLogWriter fs path maxBytes w =
     (if maxBytes \<le> 0 then (Inl (ErrorNew ''log size limit must be positive''), w)
      else
        let (err, w) = steps
              [(''create app log directory: '', lgf_MkdirAll fs (lgf_Dir fs path)),
               (''secure app log directory: '', lgf_Chmod fs (lgf_Dir fs path))] w
        in case err of
             Some err \<Rightarrow> (Inl err, w)
           | None \<Rightarrow>
               (case rotate_at_start fs path maxBytes w of
                  (Some err, w) \<Rightarrow> (Inl err, w)
                | (None, w) \<Rightarrow>
                    (case openLogFile fs path w of
                       (Inl err, w) \<Rightarrow> (Inl err, w)
                     | (Inr n, w) \<Rightarrow>
                         (Inr \<lparr>rlw_path = path, rlw_maxBytes = maxBytes, rlw_open = True, rlw_size = n\<rparr>, w))))"

text \<open>\<open>configureAppLogging\<close>, up to the logger that it makes of the writer.\<close>

definition configureAppLogging :: "'w log_files \<Rightarrow> string \<Rightarrow> 'w \<Rightarrow> rotatingLogWriter fallible \<times> 'w" where
  "configureAppLogging fs logDirectory w =
     openRotatingLogWriter fs (lgf_Join fs logDirectory appLogFileName) appLogMaxBytes w"

definition rotate_log :: "'w log_files \<Rightarrow> rotatingLogWriter \<times> 'w \<Rightarrow> error \<times> rotatingLogWriter \<times> 'w" where
  "rotate_log fs s =
     (let (writer, w) = s; path = rlw_path writer
      in case lgf_file_Close fs path w of
           (Some err, w) \<Rightarrow> (Some err, writer, w)
         | (None, w) \<Rightarrow>
             let writer = writer\<lparr>rlw_open := False\<rparr>
             in (case lgf_replaceFile fs path (path @ ''.1'') w of
                   (Some err, w) \<Rightarrow> (Some err, writer, w)
                 | (None, w) \<Rightarrow>
                     (case openLogFile fs path w of
                        (Inl err, w) \<Rightarrow> (Some err, writer, w)
                      | (Inr n, w) \<Rightarrow> (None, writer\<lparr>rlw_open := True, rlw_size := n\<rparr>, w))))"

definition write_open_log ::
  "'w log_files \<Rightarrow> string \<Rightarrow> rotatingLogWriter \<times> 'w \<Rightarrow> (nat \<times> error) \<times> rotatingLogWriter \<times> 'w" where
  "write_open_log fs data s =
     (let (writer, w) = s; ((written, err), w) = lgf_file_Write fs (rlw_path writer) data w
      in ((written, err), writer\<lparr>rlw_size := rlw_size writer + int written\<rparr>, w))"

definition log_Write ::
  "'w log_files \<Rightarrow> string \<Rightarrow> rotatingLogWriter \<times> 'w \<Rightarrow> (nat \<times> error) \<times> rotatingLogWriter \<times> 'w" where
  "log_Write fs data s =
     (let (writer, w) = s
      in if \<not> rlw_open writer then ((0, Some ErrClosed), writer, w)
         else if rlw_size writer > 0 \<and> rlw_size writer + int (length data) > rlw_maxBytes writer
         then (case rotate_log fs s of
                 (Some err, s) \<Rightarrow> ((0, Some err), s)
               | (None, s) \<Rightarrow> write_open_log fs data s)
         else write_open_log fs data s)"

definition log_Close :: "'w log_files \<Rightarrow> rotatingLogWriter \<times> 'w \<Rightarrow> error \<times> rotatingLogWriter \<times> 'w" where
  "log_Close fs s =
     (let (writer, w) = s
      in if \<not> rlw_open writer then (None, writer, w)
         else let (err, w) = lgf_file_Close fs (rlw_path writer) w in (err, writer\<lparr>rlw_open := False\<rparr>, w))"

subsection \<open>The size of the log file\<close>

text \<open>
  What the log relies on: \<open>fsize\<close> is the size of each file, None for none. A file opened for appending exists, a write
  adds the bytes it reports, at most those it is given; a replaced file is gone; nothing else changes a size.
\<close>

definition log_laws :: "'w log_files \<Rightarrow> ('w \<Rightarrow> string \<Rightarrow> int option) \<Rightarrow> bool" where
  "log_laws fs fsize \<longleftrightarrow>
     (\<forall>p w. fsize (snd (lgf_MkdirAll fs p w)) = fsize w \<and> fsize (snd (lgf_Chmod fs p w)) = fsize w \<and>
            fsize (snd (lgf_Stat fs p w)) = fsize w \<and> fsize (snd (lgf_file_Chmod fs p w)) = fsize w \<and>
            fsize (snd (lgf_file_Stat fs p w)) = fsize w \<and> fsize (snd (lgf_file_Close fs p w)) = fsize w) \<and>
     (\<forall>p w n w'. lgf_Stat fs p w = (Inr n, w') \<longrightarrow> fsize w p = Some n) \<and>
     (\<forall>p w e w'. lgf_Stat fs p w = (Inl e, w') \<and> errors_is e ErrNotExist \<longrightarrow> fsize w p = None) \<and>
     (\<forall>p w n w'. lgf_file_Stat fs p w = (Inr n, w') \<longrightarrow> fsize w p = Some n) \<and>
     (\<forall>p w e w'. lgf_OpenAppend fs p w = (e, w') \<longrightarrow>
        fsize w' = (if e = None then (fsize w)(p := Some (case fsize w p of None \<Rightarrow> 0 | Some n \<Rightarrow> n)) else fsize w)) \<and>
     (\<forall>p q w e w'. lgf_replaceFile fs p q w = (e, w') \<and> p \<noteq> q \<longrightarrow>
        fsize w' = (if e = None then (fsize w)(q := fsize w p, p := None) else fsize w)) \<and>
     (\<forall>p d w n e w' k. lgf_file_Write fs p d w = ((n, e), w') \<longrightarrow> n \<le> length d \<and>
        (fsize w p = Some k \<longrightarrow> fsize w' = (fsize w)(p := Some (k + int n))))"

lemma log_lawsD:
  assumes "log_laws fs fsize"
  shows "lgf_MkdirAll fs p w = (e, w') \<Longrightarrow> fsize w' = fsize w" "lgf_Chmod fs p w = (e, w') \<Longrightarrow> fsize w' = fsize w"
    "lgf_Stat fs p w = (r, w') \<Longrightarrow> fsize w' = fsize w" "lgf_file_Chmod fs p w = (e, w') \<Longrightarrow> fsize w' = fsize w"
    "lgf_file_Stat fs p w = (r, w') \<Longrightarrow> fsize w' = fsize w" "lgf_file_Close fs p w = (e, w') \<Longrightarrow> fsize w' = fsize w"
    "lgf_Stat fs p w = (Inr n, w') \<Longrightarrow> fsize w p = Some n"
    "lgf_Stat fs p w = (Inl err, w') \<Longrightarrow> errors_is err ErrNotExist \<Longrightarrow> fsize w p = None"
    "lgf_file_Stat fs p w = (Inr n, w') \<Longrightarrow> fsize w p = Some n"
    "lgf_OpenAppend fs p w = (e, w') \<Longrightarrow>
       fsize w' = (if e = None then (fsize w)(p := Some (case fsize w p of None \<Rightarrow> 0 | Some n \<Rightarrow> n)) else fsize w)"
    "lgf_replaceFile fs p q w = (e, w') \<Longrightarrow> p \<noteq> q \<Longrightarrow>
       fsize w' = (if e = None then (fsize w)(q := fsize w p, p := None) else fsize w)"
    "lgf_file_Write fs p d w = ((m, e), w') \<Longrightarrow> m \<le> length d"
    "lgf_file_Write fs p d w = ((m, e), w') \<Longrightarrow> fsize w p = Some k \<Longrightarrow> fsize w' = (fsize w)(p := Some (k + int m))"
  using assms unfolding log_laws_def by (metis snd_conv)+

lemma openLogFile_size:
  assumes "log_laws fs fsize" "openLogFile fs path w = (r, w')"
  shows "fsize w' path = fsize w path \<or> fsize w path = None \<and> fsize w' path = Some 0"
    "r = Inr n \<Longrightarrow> fsize w' path = Some n"
proof -
  note laws = log_lawsD [OF assms(1)]
  obtain e1 w1 where o: "lgf_OpenAppend fs path w = (e1, w1)" by fastforce
  obtain e2 w2 where c: "lgf_file_Chmod fs path w1 = (e2, w2)" by fastforce
  obtain e3 w3 where s: "lgf_file_Stat fs path w2 = (e3, w3)" by fastforce
  have same: "fsize w2 = fsize w1" "fsize w3 = fsize w1" using laws(4) [OF c] laws(5) [OF s] by simp_all
  have close: "fsize (snd (lgf_file_Close fs path v)) = fsize v" for v using laws(6) by (metis prod.collapse)
  have "fsize w' = fsize w1"
    using assms(2) same close by (auto simp: openLogFile_def o c s split: option.splits sum.splits)
  then show "fsize w' path = fsize w path \<or> fsize w path = None \<and> fsize w' path = Some 0"
    using laws(10) [OF o] by (auto split: option.splits)
  assume "r = Inr n"
  then have "e3 = Inr n" using assms(2) by (auto simp: openLogFile_def o c s split: option.splits sum.splits)
  then show "fsize w' path = Some n" using laws(9) s same \<open>fsize w' = fsize w1\<close> by metis
qed

text \<open>A bound on the file, and the size that the writer keeps is the one of the file.\<close>

definition log_bounded :: "('w \<Rightarrow> string \<Rightarrow> int option) \<Rightarrow> int \<Rightarrow> rotatingLogWriter \<times> 'w \<Rightarrow> bool" where
  "log_bounded fsize bound s \<longleftrightarrow> (case s of (writer, w) \<Rightarrow>
     (case fsize w (rlw_path writer) of None \<Rightarrow> True | Some n \<Rightarrow> n \<le> bound) \<and>
     (rlw_open writer \<longrightarrow> fsize w (rlw_path writer) = Some (rlw_size writer)))"

lemma rotate_log_bounded:
  assumes "log_laws fs fsize" "rotate_log fs (writer, w) = (err, writer', w')" "log_bounded fsize bound (writer, w)" "0 \<le> bound"
  shows "log_bounded fsize bound (writer', w') \<and> rlw_path writer' = rlw_path writer \<and>
    rlw_maxBytes writer' = rlw_maxBytes writer \<and> (err = None \<longrightarrow> rlw_open writer' \<and> rlw_size writer' = 0)"
proof -
  let ?p = "rlw_path writer"
  note laws = log_lawsD [OF assms(1)]
  obtain e1 w1 where c: "lgf_file_Close fs ?p w = (e1, w1)" by fastforce
  obtain e2 w2 where m: "lgf_replaceFile fs ?p (?p @ ''.1'') w1 = (e2, w2)" by fastforce
  obtain r w3 where o: "openLogFile fs ?p w2 = (r, w3)" by fastforce
  have w1: "fsize w1 = fsize w" by (rule laws(6) [OF c])
  have w2: "fsize w2 ?p = (if e2 = None then None else fsize w ?p)" using laws(11) [OF m] w1 by simp
  have w3: "e2 = None \<Longrightarrow> fsize w3 ?p = None \<or> fsize w3 ?p = Some 0" using openLogFile_size(1) [OF assms(1) o] w2 by auto
  have new: "r = Inr n \<Longrightarrow> fsize w3 ?p = Some n" for n by (rule openLogFile_size(2) [OF assms(1) o])
  show ?thesis
  proof (cases "e1 = None \<and> e2 = None")
    case True
    then show ?thesis using assms(2,4) w3 new
      by (cases r) (auto simp: rotate_log_def c m o log_bounded_def)
  next
    case False
    then show ?thesis using assms(2,3) w1 w2
      by (cases e1; cases e2) (auto simp: rotate_log_def c m log_bounded_def)
  qed
qed

lemma write_open_log_bounded:
  assumes "log_laws fs fsize" "write_open_log fs data (writer, w) = (r, writer', w')" "log_bounded fsize bound (writer, w)"
    and "rlw_open writer" "rlw_size writer + int (length data) \<le> bound"
  shows "log_bounded fsize bound (writer', w') \<and> rlw_path writer' = rlw_path writer \<and> rlw_maxBytes writer' = rlw_maxBytes writer"
proof -
  obtain m e w1 where wr: "lgf_file_Write fs (rlw_path writer) data w = ((m, e), w1)" by (metis prod.exhaust)
  have "m \<le> length data" by (rule log_lawsD(12) [OF assms(1) wr])
  moreover have "fsize w (rlw_path writer) = Some (rlw_size writer)" using assms(3,4) by (simp add: log_bounded_def)
  then have "fsize w1 (rlw_path writer) = Some (rlw_size writer + int m)" using log_lawsD(13) [OF assms(1) wr] by simp
  ultimately show ?thesis using assms(2,5) by (auto simp: write_open_log_def wr log_bounded_def)
qed

lemma log_Write_bounded:
  assumes "log_laws fs fsize" "log_Write fs data (writer, w) = (r, writer', w')" "log_bounded fsize bound (writer, w)"
    and "rlw_maxBytes writer \<le> bound" "int (length data) \<le> bound"
  shows "log_bounded fsize bound (writer', w') \<and> rlw_path writer' = rlw_path writer \<and> rlw_maxBytes writer' = rlw_maxBytes writer"
proof (cases "rlw_open writer")
  case False
  then show ?thesis using assms(2,3) by (simp add: log_Write_def)
next
  case True
  have "0 \<le> bound" using assms(5) by simp
  show ?thesis
  proof (cases "rlw_size writer > 0 \<and> rlw_size writer + int (length data) > rlw_maxBytes writer")
    case rotate: True
    obtain err writer1 w1 where ro: "rotate_log fs (writer, w) = (err, writer1, w1)" by (metis prod.exhaust)
    note one = rotate_log_bounded [OF assms(1) ro assms(3) \<open>0 \<le> bound\<close>]
    show ?thesis
    proof (cases err)
      case None
      then have "write_open_log fs data (writer1, w1) = (r, writer', w')"
        using assms(2) True rotate by (simp add: log_Write_def ro)
      from write_open_log_bounded [OF assms(1) this, of bound] one None assms(5) show ?thesis by simp
    next
      case (Some e)
      then show ?thesis using assms(2) True rotate one by (simp add: log_Write_def ro)
    qed
  next
    case stay: False
    then have "write_open_log fs data (writer, w) = (r, writer', w')"
      using assms(2) True by (auto simp: log_Write_def)
    moreover have "rlw_size writer + int (length data) \<le> bound" using stay assms(4,5) by auto
    ultimately show ?thesis using write_open_log_bounded [OF assms(1)] assms(3) True by blast
  qed
qed

lemma openRotatingLogWriter_bounded:
  assumes "log_laws fs fsize" "openRotatingLogWriter fs path maxBytes w = (Inr writer, w')"
  shows "log_bounded fsize maxBytes (writer, w')" "rlw_maxBytes writer = maxBytes" "rlw_path writer = path"
proof -
  note laws = log_lawsD [OF assms(1)]
  have positive: "0 < maxBytes" using assms(2) by (simp add: openRotatingLogWriter_def split: if_splits)
  obtain e1 w1 where s: "steps [(''create app log directory: '', lgf_MkdirAll fs (lgf_Dir fs path)),
      (''secure app log directory: '', lgf_Chmod fs (lgf_Dir fs path))] w = (e1, w1)" by fastforce
  obtain e2 w2 where r: "rotate_at_start fs path maxBytes w1 = (e2, w2)" by fastforce
  obtain n where o: "e1 = None" "e2 = None" "openLogFile fs path w2 = (Inr n, w')"
    and writer: "writer = \<lparr>rlw_path = path, rlw_maxBytes = maxBytes, rlw_open = True, rlw_size = n\<rparr>"
    using assms(2) positive
    by (auto simp: openRotatingLogWriter_def s r Let_def split: option.splits sum.splits prod.splits)
  obtain st w3 where st: "lgf_Stat fs path w1 = (st, w3)" by fastforce
  have w3: "fsize w3 = fsize w1" by (rule laws(3) [OF st])
  have small: "case fsize w2 path of None \<Rightarrow> True | Some k \<Rightarrow> k \<le> maxBytes"
  proof (cases st)
    case (Inl e)
    then have "w2 = w3" "errors_is e ErrNotExist" using r o(2) by (auto simp: rotate_at_start_def st split: if_splits)
    then show ?thesis using laws(8) [OF st [unfolded Inl]] w3 by simp
  next
    case (Inr k)
    have k: "fsize w1 path = Some k" by (rule laws(7) [OF st [unfolded Inr]])
    show ?thesis
    proof (cases "k \<ge> maxBytes")
      case True
      then obtain e4 where "lgf_replaceFile fs path (path @ ''.1'') w3 = (e4, w2)" "e4 = None"
        using r o(2) by (auto simp: rotate_at_start_def st Inr split: prod.splits)
      from laws(11) [OF this(1)] this(2) show ?thesis by simp
    next
      case False
      then have "w2 = w3" using r by (simp add: rotate_at_start_def st Inr)
      then show ?thesis using k w3 False by simp
    qed
  qed
  have "fsize w' path = Some n" by (rule openLogFile_size(2) [OF assms(1) o(3) refl])
  moreover have "fsize w' path = fsize w2 path \<or> fsize w' path = Some 0" using openLogFile_size(1) [OF assms(1) o(3)] by auto
  ultimately show "log_bounded fsize maxBytes (writer, w')" using small positive
    by (auto simp: log_bounded_def writer split: option.splits)
qed (use assms(2) in \<open>auto simp: openRotatingLogWriter_def Let_def split: option.splits sum.splits prod.splits if_splits\<close>)

text \<open>The entries of a run, one write each.\<close>

fun log_entries :: "'w log_files \<Rightarrow> string list \<Rightarrow> rotatingLogWriter \<times> 'w \<Rightarrow> rotatingLogWriter \<times> 'w" where
  "log_entries fs [] s = s"
| "log_entries fs (data # rest) s = log_entries fs rest (snd (log_Write fs data s))"

lemma log_entries_bounded:
  "log_laws fs fsize \<Longrightarrow> log_bounded fsize bound (writer, w) \<Longrightarrow> rlw_maxBytes writer \<le> bound \<Longrightarrow>
     list_all (\<lambda>data. int (length data) \<le> bound) entries \<Longrightarrow> log_entries fs entries (writer, w) = (writer', w') \<Longrightarrow>
     log_bounded fsize bound (writer', w') \<and> rlw_path writer' = rlw_path writer"
proof (induction entries arbitrary: writer w)
  case (Cons data rest)
  obtain r writer1 w1 where wr: "log_Write fs data (writer, w) = (r, writer1, w1)" by (metis prod.exhaust)
  have one: "log_bounded fsize bound (writer1, w1) \<and> rlw_path writer1 = rlw_path writer \<and> rlw_maxBytes writer1 = rlw_maxBytes writer"
    by (rule log_Write_bounded [OF Cons.prems(1) wr Cons.prems(2,3)]) (use Cons.prems(4) in simp)
  show ?case using Cons.IH [of writer1 w1] Cons.prems one by (simp add: wr)
qed simp

text \<open>The log file of the application never grows beyond its limit of five mebibytes, or the longest single entry where
  that is longer, from the opening of the log over any sequence of entries, whatever calls of the file system
  fail; and the size that the writer keeps is the size of the file.\<close>

theorem log_file_bounded:
  assumes "log_laws fs fsize" "configureAppLogging fs logDirectory w = (Inr writer, w1)"
    and "list_all (\<lambda>data. int (length data) \<le> bound) entries" "appLogMaxBytes \<le> bound"
    and "log_entries fs entries (writer, w1) = (writer', w')"
  shows "(case fsize w' (lgf_Join fs logDirectory appLogFileName) of None \<Rightarrow> True | Some n \<Rightarrow> n \<le> bound) \<and>
    (rlw_open writer' \<longrightarrow> fsize w' (lgf_Join fs logDirectory appLogFileName) = Some (rlw_size writer'))"
proof -
  note start = openRotatingLogWriter_bounded [OF assms(1) assms(2) [unfolded configureAppLogging_def]]
  have "log_bounded fsize bound (writer, w1)"
    using start(1) assms(4) by (fastforce simp: log_bounded_def split: option.splits)
  from log_entries_bounded [OF assms(1) this _ assms(3,5)] start(2,3) assms(4)
  show ?thesis by (auto simp: log_bounded_def)
qed

text \<open>A file system of sizes.\<close>

definition demo_log_files :: "(string \<Rightarrow> int option) log_files" where
  "demo_log_files =
     \<lparr>lgf_Dir = (\<lambda>p. ''logs''), lgf_Join = (\<lambda>d n. d @ ''/'' @ n), lgf_MkdirAll = (\<lambda>_ w. (None, w)), lgf_Chmod = (\<lambda>_ w. (None, w)),
      lgf_Stat = (\<lambda>p w. (case w p of None \<Rightarrow> Inl ErrNotExist | Some n \<Rightarrow> Inr n, w)),
      lgf_replaceFile = (\<lambda>p q w. (None, w(q := w p, p := None))),
      lgf_OpenAppend = (\<lambda>p w. (None, w(p := Some (case w p of None \<Rightarrow> 0 | Some n \<Rightarrow> n)))),
      lgf_file_Chmod = (\<lambda>_ w. (None, w)), lgf_file_Stat = (\<lambda>p w. (case w p of None \<Rightarrow> Inl ErrNotExist | Some n \<Rightarrow> Inr n, w)),
      lgf_file_Write = (\<lambda>p d w. ((length d, None), case w p of None \<Rightarrow> w | Some k \<Rightarrow> w(p := Some (k + int (length d))))),
      lgf_file_Close = (\<lambda>_ w. (None, w))\<rparr>"

lemma demo_log_laws: "log_laws demo_log_files (\<lambda>w. w)"
  by (auto simp: log_laws_def demo_log_files_def split: option.splits)

definition demo_log_start :: "string \<Rightarrow> int option" where
  "demo_log_start = [''d/soha.log'' \<mapsto> 5242876]"

theorem log_file_bounded_witness:
  "\<exists>writer w1 writer' w'. configureAppLogging demo_log_files ''d'' demo_log_start = (Inr writer, w1) \<and>
     log_entries demo_log_files [''abc'', ''def''] (writer, w1) = (writer', w') \<and>
     w' ''d/soha.log'' = Some 3 \<and> w' ''d/soha.log.1'' = Some 5242879 \<and> rlw_size writer' = 3"
proof -
  have run: "case configureAppLogging demo_log_files ''d'' demo_log_start of
      (Inr writer, w1) \<Rightarrow> (case log_entries demo_log_files [''abc'', ''def''] (writer, w1) of
         (writer', w') \<Rightarrow> rlw_open writer' \<and> w' ''d/soha.log'' = Some 3 \<and> w' ''d/soha.log.1'' = Some 5242879)
    | _ \<Rightarrow> False" by code_simp
  obtain r w1 where start: "configureAppLogging demo_log_files ''d'' demo_log_start = (r, w1)" by fastforce
  obtain writer where r: "r = Inr writer" using run by (cases r) (simp_all add: start)
  note c = start [unfolded r]
  obtain writer' w' where e1: "log_entries demo_log_files [''abc'', ''def''] (writer, w1) = (writer', w')" by fastforce
  then have "rlw_open writer'" "w' ''d/soha.log'' = Some 3" "w' ''d/soha.log.1'' = Some 5242879"
    using run unfolding c by simp_all
  note e = e1 this
  have join: "lgf_Join demo_log_files ''d'' appLogFileName = ''d/soha.log''"
    by (simp add: demo_log_files_def appLogFileName_def)
  have "list_all (\<lambda>data. int (length data) \<le> appLogMaxBytes) [''abc'', ''def'']" by (simp add: appLogMaxBytes_def)
  from log_file_bounded [OF demo_log_laws c this order_refl e(1)] e join have "rlw_size writer' = 3" by simp
  then show ?thesis using c e by blast
qed

text \<open>
  A gap: when the old file was closed but could not be moved or reopened, the writer stays closed, and every later
  entry of the run is lost.
\<close>

lemma failed_rotation_silences_log:
  assumes "lgf_file_Close fs (rlw_path writer) w = (None, w1)"
    and "rotate_log fs (writer, w) = (Some err, writer', w')"
  shows "log_entries fs entries (writer', w') = (writer', w') \<and> log_Write fs data (writer', w') = ((0, Some ErrClosed), writer', w')"
proof -
  have closed: "\<not> rlw_open writer'" using assms by (auto simp: rotate_log_def Let_def split: option.splits sum.splits prod.splits)
  then have "log_entries fs entries (writer', w') = (writer', w')" by (induction entries) (simp_all add: log_Write_def)
  with closed show ?thesis by (simp add: log_Write_def)
qed

subsection \<open>The position of the companion window\<close>

record windowPosition =
  wpo_X :: int
  wpo_Y :: int

definition windowPositionStore_load ::
  "'w shell_files \<Rightarrow> (string \<Rightarrow> windowPosition option) \<Rightarrow> string \<Rightarrow> 'w \<Rightarrow> windowPosition option \<times> 'w" where
  "windowPositionStore_load fs unmarshal path w =
     (case shf_ReadFile fs path w of
        (Inl _, w) \<Rightarrow> (None, w)
      | (Inr data, w) \<Rightarrow>
          (case unmarshal data of
             None \<Rightarrow> None
           | Some position \<Rightarrow>
               if wpo_X position < -100000 \<or> wpo_X position > 100000 \<or> wpo_Y position < -100000 \<or> wpo_Y position > 100000
               then None else Some position, w))"

definition write_position :: "'w shell_files \<Rightarrow> string \<Rightarrow> string \<Rightarrow> 'w \<Rightarrow> error \<times> 'w" where
  "write_position fs temporaryPath encoded w =
     (let (err, w) = steps
            [(''protect companion position file: '', shf_Chmod fs temporaryPath),
             (''encode companion position: '', shf_Write fs temporaryPath (encoded @ [CHR 0x0A])),
             (''sync companion position: '', shf_Sync fs temporaryPath)] w
      in if err \<noteq> None then (err, snd (shf_Close fs temporaryPath w))
         else steps [(''close companion position: '', shf_Close fs temporaryPath)] w)"

definition windowPositionStore_save ::
  "'w shell_files \<Rightarrow> (windowPosition \<Rightarrow> string) \<Rightarrow> string \<Rightarrow> windowPosition \<Rightarrow> 'w \<Rightarrow> error \<times> 'w" where
  "windowPositionStore_save fs marshal path position w =
     (let directory = shf_Dir fs path;
          (err, w) = steps [(''create companion state directory: '', shf_MkdirAll fs directory)] w
      in if err \<noteq> None then (err, w)
         else
           let (created, w) = shf_CreateTemp fs directory w
           in case created of
                Inl err \<Rightarrow> (Some (ErrWrap ''create companion position file: '' err), w)
              | Inr temporaryPath \<Rightarrow>
                  let (err, w) = write_position fs temporaryPath (marshal position) w;
                      (err, w) =
                        (if err \<noteq> None then (err, w)
                         else steps [(''commit companion position: '', shf_replaceFile fs temporaryPath path)] w)
                  in (err, snd (shf_Remove fs temporaryPath w)))"

lemma window_position_restored:
  assumes "windowPositionStore_save fs marshal path position w = (None, w')" "files_ok fs content path"
    and "\<And>p t v. content v p = Some t \<Longrightarrow> fst (shf_ReadFile fs p v) = Inr t"
    and "unmarshal (marshal position @ [CHR 0x0A]) = Some position"
    and "\<bar>wpo_X position\<bar> \<le> 100000" "\<bar>wpo_Y position\<bar> \<le> 100000"
  shows "fst (windowPositionStore_load fs unmarshal path w') = Some position"
proof -
  obtain e1 w1 where m: "steps [(''create companion state directory: '', shf_MkdirAll fs (shf_Dir fs path))] w = (e1, w1)"
    by fastforce
  obtain created w2 where c: "shf_CreateTemp fs (shf_Dir fs path) w1 = (created, w2)" by fastforce
  have e1: "e1 = None" using assms(1) m by (auto simp: windowPositionStore_save_def Let_def split: if_splits)
  obtain temp where temp: "created = Inr temp"
    using assms(1) m c e1 by (cases created) (auto simp: windowPositionStore_save_def Let_def)
  obtain e3 w3 where wr: "write_position fs temp (marshal position) w2 = (e3, w3)" by fastforce
  obtain e4 w4 where re: "steps [(''commit companion position: '', shf_replaceFile fs temp path)] w3 = (e4, w4)" by fastforce
  have ok: "e3 = None" "e4 = None" "w' = snd (shf_Remove fs temp w4)"
    using assms(1) m c e1 temp wr re by (auto simp: windowPositionStore_save_def Let_def split_beta split: if_splits)
  have "content w3 temp = Some (marshal position @ [CHR 0x0A])"
  proof -
    obtain v1 v2 v3 where "shf_Chmod fs temp w2 = (None, v1)"
      and wrt: "shf_Write fs temp (marshal position @ [CHR 0x0A]) v1 = (None, v2)"
      and sync: "shf_Sync fs temp v2 = (None, v3)" and close: "shf_Close fs temp v3 = (None, w3)"
      using wr ok(1) by (auto simp: write_position_def steps_None steps_Nil Let_def split: prod.splits if_splits)
    have "content v2 temp = Some (marshal position @ [CHR 0x0A])" using wrt assms(2) by (simp add: files_ok_def)
    moreover have "content w3 = content v2" using sync close assms(2) unfolding files_ok_def by (metis snd_conv)
    ultimately show ?thesis by simp
  qed
  moreover have "content w4 path = content w3 temp"
    using re ok(2) assms(2) by (auto simp: steps_None steps_Nil files_ok_def)
  moreover have "temp \<noteq> path" using c temp assms(2) unfolding files_ok_def by (metis fst_conv)
  then have "content w' path = content w4 path" using ok(3) assms(2) unfolding files_ok_def by metis
  ultimately have "fst (shf_ReadFile fs path w') = Inr (marshal position @ [CHR 0x0A])" using assms(3) by simp
  then obtain v where "shf_ReadFile fs path w' = (Inr (marshal position @ [CHR 0x0A]), v)" by (metis prod.collapse)
  then show ?thesis using assms(4-6) by (simp add: windowPositionStore_load_def abs_le_iff)
qed

subsection \<open>The version\<close>

definition fallbackAppVersion :: string where "fallbackAppVersion = ''0.2.0''"

text \<open>\<open>build\<close> is the version of the main module that the build recorded, if there is any.\<close>

definition resolvedAppVersion :: "string \<Rightarrow> string option \<Rightarrow> string" where
  "resolvedAppVersion appBuildVersion build =
     (if trim_space appBuildVersion \<noteq> [] then trim_space appBuildVersion
      else case build of
             Some version \<Rightarrow> if version \<noteq> [] \<and> version \<noteq> ''(devel)'' then version else fallbackAppVersion
           | None \<Rightarrow> fallbackAppVersion)"

end
