(* ===== verification/Spec2Isabelle.thy ===== *)
theory Spec2Isabelle
  imports Go_Prelude Netip Go_Url Protocol TunnelPlan TunnelPlan_Safety Wireguard_Config Executor MihomoPolicy
    Coordinator Coordinator_Safety Mihomo_Bootstrap Mihomo_Controller Mihomo_Controller_Safety Manager_State ConfigurationFloor Manager Manager_Invariant
    Manager_Histories Manager_Safety Manager_Restart Runtime_Client Telemetry Client_Safety
    Admission Admission_Safety Channels Version_Floor Channels_Safety Floors
    Presence Presence_Safety Ipc Ipc_Safety Service_Config
    Go_Http Shell_Config Session_Host Desktop_Auth Shell_Server Server_Url Shell_Config_Safety
    Session_Safety Session_Properties
    Go_Codec Software_Library Software_Safety Update_Provider Update_Safety
    Release_Tool Release_Safety Release_Checksums
    Shell_Runtime Shell_Runtime_Safety Shell_Inventory Shell_Desktop
begin

text \<open>
  Verification development for soha-app, the desktop client (the root package) and its privileged endpoint
  service (\<open>internal/endpointservice\<close>).

  Beside these two programs it covers the tool that builds and verifies their releases
  (\<open>tools/updaterelease\<close>).

  The service polls a desired configuration from the network control plane, turns its WireGuard
  part into an allowlisted tunnel plan, starts a mihomo proxy bound to that tunnel, reads both
  back, reports the outcome, and cleans both up when a lease, a configuration or a session ends.
  Beside that it keeps the network admission of the endpoint (EAP profiles and certificates), the
  native channel controls, its presence at the control plane, and it answers the desktop
  application over a local connection.

  Foundations:
  \<^item> \<open>Go_Prelude\<close>: what the source uses of Go: strings as byte lists, errors as values, a
    \<open>run\<close> type with the values a function returns and the panics of \<open>Must\<close> functions, sorting;
    time is an integer of nanoseconds, an \<open>int\<close> of the source an integer (the values the checks admit
    are far from its bounds);
  \<^item> \<open>Netip\<close>, \<open>Go_Url\<close>: the parts of \<open>net/netip\<close> (addresses are words of 32 and 128 bits) and
    \<open>net/url\<close> the checks rely on;
  \<^item> \<open>Protocol\<close>: the wire records of \<open>protocol.go\<close>, \<open>vpn_protocol.go\<close> and \<open>eap_protocol.go\<close>.

  The tunnel and the proxy:
  \<^item> \<open>TunnelPlan\<close>: the pure part of \<open>executor.go\<close>, with \<open>TunnelPlan_Safety\<close>, what an accepted
    plan guarantees; \<open>Wireguard_Config\<close>: the text of the tunnel and the exact check of its routes;
  \<^item> \<open>Executor\<close>: the \<open>Executor\<close> of \<open>executor.go\<close> over a \<open>System\<close> interface, and the locale
    \<open>executor_contract\<close> that states what any configuration executor promises;
  \<^item> \<open>MihomoPolicy\<close>: \<open>mihomo_policy.go\<close> and the validation of \<open>mihomo.go\<close>;
  \<^item> \<open>Coordinator\<close>: the \<open>CoordinatedExecutor\<close> of \<open>mihomo.go\<close> and the stored app subscription,
    with \<open>Coordinator_Safety\<close>, which proves that it keeps \<open>executor_contract\<close> again;
  \<^item> \<open>Mihomo_Bootstrap\<close>: \<open>mihomo_bootstrap.go\<close>, the transport nodes and their pinning; \<open>Mihomo_Controller\<close>: the
    \<open>MihomoController\<close> of \<open>mihomo.go\<close>, \<open>mihomo_policy.go\<close> and \<open>mihomo_egress.go\<close>, an instance of the runtime that the
    coordinator drives: its requests to the proxy engine, the text of the configuration, the readback and the guarded
    exits; \<open>Mihomo_Controller_Safety\<close>: the ingress opens only after the inspection, a failure closes it.

  The connection manager (\<open>manager.go\<close>, \<open>vpn_manager.go\<close>, \<open>configuration_floor.go\<close>):
  \<^item> \<open>Manager_State\<close>: its record and the interfaces it drives; \<open>ConfigurationFloor\<close>: the protected
    file of the versions and of the pending cleanup; \<open>Manager\<close>: every operation;
  \<^item> \<open>Manager_Invariant\<close>: the case rules of the operations; \<open>Manager_Histories\<close>: the locale
    \<open>manager_invariant\<close>, an invariant that is kept by the few places that change the state is kept by
    every history of operations; \<open>Manager_Safety\<close>: cleanup, floor, order of application and expiry;
    \<open>Manager_Restart\<close>: what survives a restart of the service, the poll delay, and two defects;
  \<^item> \<open>Presence\<close>: the rounds of the loops of \<open>presence.go\<close>, \<open>ui_presence.go\<close>, \<open>lifecycle.go\<close> and of the
    heartbeat; \<open>Presence_Safety\<close>: the watchdog ends a session on a changed network, publication is
    paced. A tick of the watchdog takes an arbitrary step of the other operations as an argument
    at the point where the code waits for its lock.

  The clients of the control plane (\<open>client.go\<close>, \<open>vpn_client.go\<close>, \<open>eap_client.go\<close>, the telemetry):
  \<^item> \<open>Runtime_Client\<close>, \<open>Telemetry\<close>: requests, checks of the answers, measurement of gateways, counting of
    proxy traffic; \<open>Client_Safety\<close>: what an accepted answer guarantees, and two defects.

  Admission and channels:
  \<^item> \<open>Admission\<close>: \<open>eap_validation.go\<close>, \<open>eap_manager.go\<close> and \<open>eap_cleanup.go\<close>; \<open>Admission_Safety\<close>: the locale
    \<open>admission_invariant\<close> over the histories of the admission manager, certificates are activated only
    where they were read back installed, the stored state and the epoch;
  \<^item> \<open>Channels\<close>, \<open>Channels_Safety\<close>: \<open>channels.go\<close>; \<open>Version_Floor\<close>: the locale \<open>version_floor\<close>, the contract of
    everything that accepts published versions, with the channel policy and, in \<open>Floors\<close>, the configuration
    floor and the restriction epoch as its instances.

  The service around them:
  \<^item> \<open>Ipc\<close>, \<open>Ipc_Safety\<close>: \<open>ipc.go\<close> and \<open>eap_ipc.go\<close>, frames, dispatch and the calls of the desktop
    application, the round trip of frames, and that a call is the operation it names;
  \<^item> \<open>Service_Config\<close>: \<open>config.go\<close> and \<open>enrollment_state.go\<close>.

  The desktop shell (the root package), which the web view talks to:
  \<^item> \<open>Go_Http\<close>: headers, cookies and queries of \<open>net/http\<close> and \<open>net/url\<close>;
  \<^item> \<open>Shell_Config\<close>: \<open>config.go\<close> and the initial configuration of \<open>main.go\<close>; \<open>Server_Url\<close>: the normal form of
    server URLs is a fixed point and parses to a secure origin; \<open>Shell_Config_Safety\<close>: what was saved is what
    the next start uses, and when the creation of the device identity returns;
  \<^item> \<open>Session_Host\<close>: \<open>proxy.go\<close> and \<open>session_credentials.go\<close>, the local proxy with the stored refresh token and
    the switch of servers; \<open>Desktop_Auth\<close>: \<open>desktop_auth.go\<close>; \<open>Shell_Server\<close>: \<open>personal_export.go\<close> and the
    routing of requests;
  \<^item> \<open>Session_Safety\<close>: the handlers as steps of a state machine, in any order and for any target a request
    may still hold, with what an observer sees of each; the case rules of the steps and the invariants kept by
    every history; \<open>Session_Properties\<close>: the properties of histories, that the handlers are histories,
    the callback, the export, and four defects. A target is a pointer, so it has an identity beside its URL.

  Software, updates and releases:
  \<^item> \<open>Go_Codec\<close>: hexadecimal and base64 texts, URL texts and path references;
  \<^item> \<open>Software_Library\<close>: \<open>software.go\<close>, the catalogues, their validation, the download and the opening of an
    installer; \<open>Software_Safety\<close>: at most one installation runs and every one ends, an installer is opened only
    with the promised bytes;
  \<^item> \<open>Update_Provider\<close>: \<open>update_provider.go\<close>, the signed manifest, its validation, full downloads and patches;
    \<open>Update_Safety\<close>: what is delivered is what a signed, newer manifest promises;
  \<^item> \<open>Release_Tool\<close>: \<open>tools/updaterelease/main.go\<close>, which writes and verifies what the provider fetches;
    \<open>Release_Safety\<close>: a manifest that the tool accepts is offered by every updater of its channel, accepted
    archives unpack inside the application; \<open>Release_Checksums\<close>: the checksums written are the ones verified;
  \<^item> \<open>Shell_Runtime\<close>: \<open>runtime.go\<close> and \<open>admission_runtime.go\<close>, the API of updates, network service and software for
    the web view and the configuration of the updater; \<open>Shell_Runtime_Safety\<close>: updates as steps of a state
    machine in any interleaving, of which the handlers are histories, no self-update on Linux, the source of updates;
  \<^item> \<open>Shell_Inventory\<close>: \<open>inventory.go\<close> with its platforms; \<open>Shell_Desktop\<close>: the rotating log (\<open>logging.go\<close>), whose
    file stays within its limit, and the stored position of the companion window (\<open>companion_window.go\<close>).

  Conventions. The operating system, the proxy engine, the network, files, JSON, X.509 and SHA-256 are
  interfaces: records of functions over an arbitrary world \<open>'w\<close>, or function parameters; what a theorem needs
  of them (a codec that inverts, a clock that stands still during a cycle) is a hypothesis of it. An
  operation takes the state and the world and returns its result with both; an error is a value. A
  range over a Go map is modelled with the order as a parameter where the order shows. Loops
  over lists are structural recursion; loops that end with a context are modelled by their round and
  iterated a given number of times (\<open>Run\<close> of the channel manager), so no fuel can run out; the probe
  workers of \<open>Runtime_Client\<close> are bounded by the batch they are given.

  Not modelled: the Windows and macOS adapters of the service (\<open>*_windows.go\<close>, \<open>*_darwin.go\<close> of
  \<open>internal/endpointservice\<close>), which are calls of system services behind the interfaces above; the proxy engine itself,
  which is another program, and the package \<open>proxytransport\<close>; mutexes of the manager, goroutines, timers and deadlines
  (an operation of the manager runs under its lock and is one step; where a lock of the shell is tried or
  released around a call, the model has it as a field and lets other requests run during the call); the
  construction of TLS and HTTP clients with their timeouts; the shape of log entries; windows and tray; the
  parsing of the release tool's command line; the build scripts.
\<close>

end
